(* ===== verification/Prelude.thy ===== *)
theory Prelude
  imports Main "HOL-Library.AList" "HOL-Library.Char_ord" "HOL-Library.List_Lexorder"
begin

section \<open>Shared vocabulary of the development\<close>

text \<open>
  This theory holds what every component uses: the exceptions of the program as values, the
  raising loop, insertion-ordered Python dictionaries as association lists, and the locales
  that state how a journal projection (a left-to-right loop over events that may raise) is
  reasoned about. A Python function that may raise is a function into \<open>'e + 'a\<close>, \<open>Inl\<close> being
  the exception.
\<close>

named_theorems dict_simps \<open>laws of the insertion-ordered dictionaries\<close>
named_theorems result_simps \<open>laws of raising computations\<close>

subsection \<open>Sequencing computations that may raise\<close>

definition bind_result :: "'e + 'a \<Rightarrow> ('a \<Rightarrow> 'e + 'b) \<Rightarrow> 'e + 'b" where
  "bind_result m k = (case m of Inl e \<Rightarrow> Inl e | Inr x \<Rightarrow> k x)"

lemma bind_result_simps [simp]:
  "bind_result (Inl e) k = Inl e"
  "bind_result (Inr x) k = k x"
  by (simp_all add: bind_result_def)

lemma bind_result_eq_Inr [simp]:
  "bind_result m k = Inr y \<longleftrightarrow> (\<exists>x. m = Inr x \<and> k x = Inr y)"
  by (cases m) auto

lemma bind_result_eq_Inl:
  "bind_result m k = Inl e \<longleftrightarrow> m = Inl e \<or> (\<exists>x. m = Inr x \<and> k x = Inl e)"
  by (cases m) auto

lemma bind_result_InrE:
  assumes "bind_result m k = Inr y"
  obtains x where "m = Inr x" "k x = Inr y"
  using assms by auto

lemma bind_result_cong [fundef_cong]:
  "m = m' \<Longrightarrow> (\<And>x. m' = Inr x \<Longrightarrow> k x = k' x) \<Longrightarrow> bind_result m k = bind_result m' k'"
  by (cases m') auto

text \<open>A \<open>for\<close> loop over a sequence whose body updates a state and may raise.\<close>

fun fold_result :: "('s \<Rightarrow> 'x \<Rightarrow> 'e + 's) \<Rightarrow> 's \<Rightarrow> 'x list \<Rightarrow> 'e + 's" where
  "fold_result f s [] = Inr s"
| "fold_result f s (x # xs) = bind_result (f s x) (\<lambda>s'. fold_result f s' xs)"

lemma fold_result_append [result_simps]:
  "fold_result f s (xs @ ys) = bind_result (fold_result f s xs) (\<lambda>s'. fold_result f s' ys)"
  by (induction xs arbitrary: s) (auto simp: bind_result_def split: sum.splits)

lemma fold_result_snoc_Inr:
  "fold_result f s (xs @ [x]) = Inr t \<longleftrightarrow> (\<exists>u. fold_result f s xs = Inr u \<and> f u x = Inr t)"
  by (simp add: fold_result_append)

lemma fold_result_prefix:
  "fold_result f s (xs @ ys) = Inr t \<Longrightarrow> \<exists>u. fold_result f s xs = Inr u"
  by (auto simp: fold_result_append)

text \<open>A loop that only checks: every element is visited, the first exception escapes.\<close>

fun check_each :: "('x \<Rightarrow> 'e + unit) \<Rightarrow> 'x list \<Rightarrow> 'e + unit" where
  "check_each f [] = Inr ()"
| "check_each f (x # xs) = bind_result (f x) (\<lambda>_. check_each f xs)"

lemma check_each_Inr [simp]:
  "check_each f xs = Inr u \<longleftrightarrow> (\<forall>x\<in>set xs. f x = Inr ())"
  by (induction xs) auto

lemma check_each_Inl:
  "check_each f xs = Inl e \<Longrightarrow> \<exists>x\<in>set xs. f x = Inl e"
  by (induction xs) (auto simp: bind_result_eq_Inl)

text \<open>A comprehension whose element expression may raise.\<close>

fun map_result :: "('x \<Rightarrow> 'e + 'y) \<Rightarrow> 'x list \<Rightarrow> 'e + 'y list" where
  "map_result f [] = Inr []"
| "map_result f (x # xs) = bind_result (f x) (\<lambda>y. bind_result (map_result f xs) (\<lambda>ys. Inr (y # ys)))"

lemma map_result_cong [fundef_cong]:
  "xs = ys \<Longrightarrow> (\<And>x. x \<in> set ys \<Longrightarrow> f x = g x) \<Longrightarrow> map_result f xs = map_result g ys"
  by (induction ys arbitrary: xs) auto

lemma map_result_Inr:
  "map_result f xs = Inr ys \<longleftrightarrow> list_all2 (\<lambda>x y. f x = Inr y) xs ys"
  by (induction xs arbitrary: ys) (auto simp: list_all2_Cons1)

lemma map_result_total:
  "(\<And>x. x \<in> set xs \<Longrightarrow> f x = Inr (g x)) \<Longrightarrow> map_result f xs = Inr (map g xs)"
  by (induction xs) auto

lemma map_result_set:
  assumes "map_result f xs = Inr ys" "y \<in> set ys"
  shows "\<exists>x \<in> set xs. f x = Inr y"
  using assms by (auto simp: map_result_Inr list_all2_conv_all_nth set_conv_nth)

lemma map_result_length: "map_result f xs = Inr ys \<Longrightarrow> length ys = length xs"
  by (auto simp: map_result_Inr dest: list_all2_lengthD)

lemma map_result_fixed: "(\<And>y. y \<in> set ys \<Longrightarrow> f y = Inr y) \<Longrightarrow> map_result f ys = Inr ys"
  using map_result_total [of ys f id] by simp

lemma map_result_Inl:
  "map_result f xs = Inl e \<Longrightarrow> \<exists>x\<in>set xs. f x = Inl e"
  by (induction xs) (auto simp: bind_result_eq_Inl)

subsection \<open>Python dictionaries\<close>

text \<open>
  A dictionary is an association list with distinct keys in insertion order: assigning an
  existing key keeps its position, a new key goes to the end. \<open>AList.update\<close> does exactly that.
\<close>

type_synonym ('k, 'v) dict = "('k \<times> 'v) list"

abbreviation dict_get :: "('k, 'v) dict \<Rightarrow> 'k \<Rightarrow> 'v option" where
  "dict_get d k \<equiv> map_of d k"

definition dict_set :: "'k \<Rightarrow> 'v \<Rightarrow> ('k, 'v) dict \<Rightarrow> ('k, 'v) dict" where
  "dict_set k v d = AList.update k v d"

definition dict_pop :: "'k \<Rightarrow> ('k, 'v) dict \<Rightarrow> ('k, 'v) dict" where
  "dict_pop k d = AList.delete k d"

definition dict_keys :: "('k, 'v) dict \<Rightarrow> 'k list" where
  "dict_keys d = map fst d"

definition dict_values :: "('k, 'v) dict \<Rightarrow> 'v list" where
  "dict_values d = map snd d"

definition dict_wf :: "('k, 'v) dict \<Rightarrow> bool" where
  "dict_wf d = distinct (map fst d)"

text \<open>The comprehension \<open>{k(x): v(x) for x in xs}\<close>.\<close>

definition dict_of :: "('x \<Rightarrow> 'k) \<Rightarrow> ('x \<Rightarrow> 'v) \<Rightarrow> 'x list \<Rightarrow> ('k, 'v) dict" where
  "dict_of k v xs = fold (\<lambda>x. dict_set (k x) (v x)) xs []"

lemma dict_get_set [dict_simps]:
  "dict_get (dict_set k v d) k' = (if k' = k then Some v else dict_get d k')"
  by (simp add: dict_set_def update_conv')

lemma dict_get_pop [dict_simps]:
  "dict_get (dict_pop k d) k' = (if k' = k then None else dict_get d k')"
  by (simp add: dict_pop_def delete_conv')

lemma dict_keys_set [dict_simps]:
  "set (dict_keys (dict_set k v d)) = insert k (set (dict_keys d))"
  by (simp add: dict_set_def dict_keys_def update_conv' flip: dom_map_of_conv_image_fst)

lemma dict_keys_pop [dict_simps]:
  "set (dict_keys (dict_pop k d)) = set (dict_keys d) - {k}"
  by (auto simp: dict_pop_def dict_keys_def delete_keys)

lemma dict_get_None [dict_simps]:
  "dict_get d k = None \<longleftrightarrow> k \<notin> set (dict_keys d)"
  by (simp add: dict_keys_def map_of_eq_None_iff)

lemma dict_get_Some_keys: "dict_get d k = Some v \<Longrightarrow> k \<in> set (dict_keys d)"
  by (force simp: dict_keys_def dest: map_of_SomeD)

lemma dict_keys_get: "k \<in> set (dict_keys d) \<Longrightarrow> \<exists>v. dict_get d k = Some v"
  by (cases "dict_get d k") (auto simp: dict_get_None)

lemma dict_wf_set [simp]: "dict_wf d \<Longrightarrow> dict_wf (dict_set k v d)"
  by (simp add: dict_wf_def dict_set_def distinct_update)

lemma dict_wf_pop [simp]: "dict_wf d \<Longrightarrow> dict_wf (dict_pop k d)"
  by (simp add: dict_wf_def dict_pop_def distinct_delete)

lemma dict_wf_Nil [simp]: "dict_wf []"
  by (simp add: dict_wf_def)

lemma dict_set_fresh: "k \<notin> set (dict_keys d) \<Longrightarrow> dict_set k v d = d @ [(k, v)]"
  unfolding dict_set_def dict_keys_def by (induction d) auto

lemma dict_keys_simps [simp]:
  "dict_keys [] = []" "dict_keys (p # d) = fst p # dict_keys d"
  "dict_keys (d @ d') = dict_keys d @ dict_keys d'"
  by (simp_all add: dict_keys_def)

lemma dict_values_simps [simp]:
  "dict_values [] = []" "dict_values (p # d) = snd p # dict_values d"
  "dict_values (d @ d') = dict_values d @ dict_values d'"
  by (simp_all add: dict_values_def)

lemma dict_set_neq_Nil [simp]: "dict_set k v d \<noteq> []"
  by (cases d) (auto simp: dict_set_def)

lemma dict_get_values: "dict_get d k = Some v \<Longrightarrow> v \<in> set (dict_values d)"
  by (force simp: dict_values_def dest: map_of_SomeD)

lemma dict_mem_get: "dict_wf d \<Longrightarrow> (k, v) \<in> set d \<longleftrightarrow> dict_get d k = Some v"
  by (simp add: dict_wf_def)

lemma dict_values_get:
  "dict_wf d \<Longrightarrow> v \<in> set (dict_values d) \<longleftrightarrow> (\<exists>k. dict_get d k = Some v)"
  by (force simp: dict_values_def dict_mem_get [symmetric])

lemma dict_wf_dict_of [simp]: "dict_wf (dict_of k v xs)"
proof -
  have "dict_wf d \<Longrightarrow> dict_wf (fold (\<lambda>x. dict_set (k x) (v x)) xs d)" for d
    by (induction xs arbitrary: d) auto
  then show ?thesis by (simp add: dict_of_def)
qed

lemma dict_keys_dict_of [dict_simps]: "set (dict_keys (dict_of k v xs)) = k ` set xs"
proof -
  have "set (dict_keys (fold (\<lambda>x. dict_set (k x) (v x)) xs d)) = set (dict_keys d) \<union> k ` set xs" for d
    by (induction xs arbitrary: d) (auto simp: dict_simps)
  then show ?thesis by (simp add: dict_of_def)
qed

text \<open>When the keys are distinct the comprehension is the plain list of pairs.\<close>

lemma dict_of_distinct:
  assumes "distinct (map k xs)"
  shows "dict_of k v xs = map (\<lambda>x. (k x, v x)) xs"
proof -
  have "distinct (map k xs) \<Longrightarrow> set (dict_keys d) \<inter> k ` set xs = {} \<Longrightarrow>
      fold (\<lambda>x. dict_set (k x) (v x)) xs d = d @ map (\<lambda>x. (k x, v x)) xs" for d
  proof (induction xs arbitrary: d)
    case (Cons x xs)
    then have "dict_set (k x) (v x) d = d @ [(k x, v x)]" by (auto intro: dict_set_fresh)
    moreover from Cons.prems have "set (dict_keys (d @ [(k x, v x)])) \<inter> k ` set xs = {}" by auto
    ultimately show ?case using Cons by simp
  qed simp
  from this [of "[]"] assms show ?thesis by (simp add: dict_of_def)
qed

text \<open>The test \<open>len({k(x): ... for x in xs}) != len(xs)\<close> is a test for duplicate keys.\<close>

lemma length_dict_of: "length (dict_of k v xs) = card (k ` set xs)"
proof -
  have "length (dict_of k v xs) = card (set (dict_keys (dict_of k v xs)))"
    using dict_wf_dict_of [of k v xs] by (metis dict_wf_def dict_keys_def distinct_card length_map)
  then show ?thesis by (simp add: dict_simps)
qed

lemma length_dict_of_distinct: "length (dict_of k v xs) = length xs \<longleftrightarrow> distinct (map k xs)"
proof -
  have "distinct (map k xs) \<longleftrightarrow> card (set (map k xs)) = length (map k xs)"
    by (metis card_distinct distinct_card)
  then show ?thesis by (simp add: length_dict_of)
qed

lemma dict_get_dict_of_SomeD:
  "dict_get (dict_of k v xs) y = Some z \<Longrightarrow> \<exists>x\<in>set xs. k x = y \<and> v x = z"
proof -
  have "dict_get (fold (\<lambda>x. dict_set (k x) (v x)) xs d) y = Some z \<Longrightarrow>
      (\<exists>x\<in>set xs. k x = y \<and> v x = z) \<or> dict_get d y = Some z" for d
    by (induction xs arbitrary: d) (fastforce simp: dict_get_set split: if_splits)+
  from this [of "[]"] show "dict_get (dict_of k v xs) y = Some z \<Longrightarrow> \<exists>x\<in>set xs. k x = y \<and> v x = z"
    by (simp add: dict_of_def)
qed

lemma dict_get_dict_of:
  assumes "distinct (map k xs)"
  shows "dict_get (dict_of k v xs) y = Some z \<longleftrightarrow> (\<exists>x\<in>set xs. k x = y \<and> v x = z)"
proof
  assume "\<exists>x\<in>set xs. k x = y \<and> v x = z"
  then have "(y, z) \<in> set (dict_of k v xs)" by (auto simp: dict_of_distinct [OF assms])
  then show "dict_get (dict_of k v xs) y = Some z" by (simp add: dict_mem_get)
qed (rule dict_get_dict_of_SomeD)

subsection \<open>Normalised sequences\<close>

text \<open>
  The field validators of the specifications all read \<open>if len(v) != len(set(v)): raise\<close>
  followed by \<open>tuple(sorted(v))\<close>; the model of that pair is one function.
\<close>

definition sorted_unique :: "'e \<Rightarrow> 'a::linorder list \<Rightarrow> 'e + 'a list" where
  "sorted_unique e xs = (if \<not> distinct xs then Inl e else Inr (sort xs))"

definition sorted_unique_by :: "('a \<Rightarrow> 'k::linorder) \<Rightarrow> 'e \<Rightarrow> 'a list \<Rightarrow> 'e + 'a list" where
  "sorted_unique_by k e xs = (if \<not> distinct (map k xs) then Inl e else Inr (sort_key k xs))"

lemma sorted_unique_Inr [simp]:
  "sorted_unique e xs = Inr ys \<longleftrightarrow> distinct xs \<and> ys = sort xs"
  by (auto simp: sorted_unique_def)

lemma sorted_unique_by_Inr [simp]:
  "sorted_unique_by k e xs = Inr ys \<longleftrightarrow> distinct (map k xs) \<and> ys = sort_key k xs"
  by (auto simp: sorted_unique_by_def)

lemma distinct_map_sort_key [simp]: "distinct (map k (sort_key k' xs)) = distinct (map k xs)"
  by (metis distinct_map distinct_sort set_sort)

lemma sort_key_sort_key [simp]: "sort_key k (sort_key k xs) = sort_key k xs"
  by (simp add: sort_key_id_if_sorted)

lemma sort_sort [simp]: "sort (sort xs) = sort xs"
  by (simp add: sorted_sort_id)

lemma sort_key_Nil_iff [simp]: "sort_key k xs = [] \<longleftrightarrow> xs = []"
  by (metis set_empty set_sort)

lemma list_ex_sort_key [simp]: "list_ex P (sort_key k xs) = list_ex P xs"
  by (simp add: list_ex_iff)

lemma sorted_unique_distinct [simp]:
  "distinct xs \<Longrightarrow> sorted_unique e xs = Inr (sort xs)"
  "distinct (map k ys) \<Longrightarrow> sorted_unique_by k e ys = Inr (sort_key k ys)"
  by (simp_all add: sorted_unique_def sorted_unique_by_def)

text \<open>A normalised sequence is a fixed point of its own normalisation.\<close>

lemma sorted_unique_idem:
  "sorted_unique e xs = Inr ys \<Longrightarrow> sorted_unique e ys = Inr ys"
  by (auto simp: sorted_sort_id)

subsection \<open>Journal projections\<close>

text \<open>
  Every consumer of a journal is a left-to-right loop with a state and exceptions. A
  \<open>projection\<close> is such a loop; \<open>invariant_projection\<close> adds a state invariant that every step
  keeps, and \<open>simulation\<close> relates two projections of the same events.
\<close>

locale projection =
  fixes step :: "'s \<Rightarrow> 'e \<Rightarrow> 'x + 's" and init :: 's
begin

lemma run_append:
  "fold_result step init (es @ fs) = Inr t \<longleftrightarrow>
     (\<exists>u. fold_result step init es = Inr u \<and> fold_result step u fs = Inr t)"
  by (auto simp: fold_result_append)

lemma run_prefix_closed:
  "fold_result step init (es @ fs) = Inr t \<Longrightarrow> \<exists>u. fold_result step init es = Inr u"
  by (rule fold_result_prefix)

lemma run_failure_stable:
  "fold_result step init es = Inl x \<Longrightarrow> fold_result step init (es @ fs) = Inl x"
  by (simp add: fold_result_append)

end

locale invariant_projection = projection +
  fixes inv :: "'s \<Rightarrow> bool"
  assumes inv_init: "inv init"
    and inv_step: "inv s \<Longrightarrow> step s e = Inr t \<Longrightarrow> inv t"
begin

lemma run_inv_from: "inv s \<Longrightarrow> fold_result step s es = Inr t \<Longrightarrow> inv t"
  by (induction es arbitrary: s) (auto intro: inv_step)

lemma run_inv: "fold_result step init es = Inr t \<Longrightarrow> inv t"
  by (rule run_inv_from [OF inv_init])

end

locale simulation =
  fixes step1 :: "'s \<Rightarrow> 'e \<Rightarrow> 'x + 's" and init1 :: 's
    and step2 :: "'t \<Rightarrow> 'e \<Rightarrow> 'y + 't" and init2 :: 't
    and rel :: "'s \<Rightarrow> 't \<Rightarrow> bool"
  assumes rel_init: "rel init1 init2"
    and rel_step: "rel s t \<Longrightarrow> step1 s e = Inr s' \<Longrightarrow> \<exists>t'. step2 t e = Inr t' \<and> rel s' t'"
begin

lemma simulated_from:
  "rel s t \<Longrightarrow> fold_result step1 s es = Inr s' \<Longrightarrow> \<exists>t'. fold_result step2 t es = Inr t' \<and> rel s' t'"
proof (induction es arbitrary: s t)
  case (Cons e es)
  then obtain u where u: "step1 s e = Inr u" "fold_result step1 u es = Inr s'" by auto
  from rel_step [OF Cons.prems(1) u(1)] obtain v where v: "step2 t e = Inr v" "rel u v" by blast
  from Cons.IH [OF v(2) u(2)] v(1) show ?case by simp
qed simp

lemma simulated:
  "fold_result step1 init1 es = Inr s' \<Longrightarrow> \<exists>t'. fold_result step2 init2 es = Inr t' \<and> rel s' t'"
  by (rule simulated_from [OF rel_init])

end

end
