(* ===== verification/Decimals.thy ===== *)
theory Decimals
  imports Prelude Complex_Main
begin

section \<open>Canonical decimals\<close>

text \<open>
  Models the decimal half of \<open>src/edagym/specs/common.py\<close> (\<open>_decimal_from_non_float\<close>,
  \<open>_normalize_decimal\<close>) and \<open>canonical_decimal_string\<close> of \<open>src/edagym/canonical.py\<close> on the tuples
  that \<open>Decimal.as_tuple\<close> shows. The properties say that normalisation keeps the value, that equal
  values have equal canonical strings and conversely, and that a rendered decimal is read back.
  They justify the type \<open>CanonicalDecimal\<close> of the other theories: a normalised decimal is its
  rational value, and comparing two of them compares the values.
\<close>

type_synonym CanonicalDecimal = rat

definition is_digit :: "char \<Rightarrow> bool" where
  "is_digit c \<longleftrightarrow> CHR ''0'' \<le> c \<and> c \<le> CHR ''9''"

subsection \<open>Decimals\<close>

text \<open>
  A Python \<open>Decimal\<close> as \<open>as_tuple()\<close> shows it: sign, digits and exponent; the special values
  (infinities and NaNs) are one constructor, since the code only rejects them.
\<close>

datatype decimal = Decimal bool "nat list" int | Special

fun digits_value :: "nat list \<Rightarrow> nat" where
  "digits_value ds = foldl (\<lambda>n d. 10 * n + d) 0 ds"

definition pow10 :: "int \<Rightarrow> rat" where
  "pow10 e = (if 0 \<le> e then 10 ^ nat e else 1 / 10 ^ nat (- e))"

fun decimal_value :: "decimal \<Rightarrow> rat" where
  "decimal_value (Decimal s ds e) = (if s then -1 else 1) * of_nat (digits_value ds) * pow10 e"
| "decimal_value Special = 0"

text \<open>What the constructor of \<open>Decimal\<close> guarantees of a finite value's tuple.\<close>

fun decimal_wf :: "decimal \<Rightarrow> bool" where
  "decimal_wf (Decimal s ds e) \<longleftrightarrow>
     ds \<noteq> [] \<and> list_all (\<lambda>d. d < 10) ds \<and> (hd ds = 0 \<longrightarrow> ds = [0])"
| "decimal_wf Special \<longleftrightarrow> False"

datatype decimal_error = Not_finite

text \<open>The loop \<open>while digits and digits[-1] == 0: digits.pop(); exponent += 1\<close>.\<close>

fun drop_trailing :: "nat list \<Rightarrow> int \<Rightarrow> nat list \<times> int" where
  "drop_trailing [] e = ([], e)"
| "drop_trailing (d # ds) e = (if d = 0 then drop_trailing ds (e + 1) else (d # ds, e))"

definition strip_zeros :: "nat list \<Rightarrow> int \<Rightarrow> nat list \<times> int" where
  "strip_zeros ds e = (case drop_trailing (rev ds) e of (r, e') \<Rightarrow> (rev r, e'))"

fun normalize_decimal :: "decimal \<Rightarrow> decimal_error + decimal" where
  "normalize_decimal Special = Inl Not_finite"
| "normalize_decimal (Decimal sign digits exponent) =
     (case strip_zeros digits exponent of (normalized_digits, exponent') \<Rightarrow>
        if normalized_digits = [] then Inr (Decimal False [0] 0)
        else Inr (Decimal sign normalized_digits exponent'))"

definition digit_char :: "nat \<Rightarrow> char" where
  "digit_char d = char_of (48 + d)"

fun canonical_decimal_string :: "decimal \<Rightarrow> decimal_error + string" where
  "canonical_decimal_string Special = Inl Not_finite"
| "canonical_decimal_string (Decimal sign digits exponent) =
     (case strip_zeros digits exponent of (significant, exponent') \<Rightarrow>
        if significant = [] then Inr ''0''
        else
          let coefficient = map digit_char significant;
              rendered =
                (if 0 \<le> exponent' then coefficient @ replicate (nat exponent') CHR ''0''
                 else
                   let point = int (length coefficient) + exponent'
                   in if 0 < point
                      then take (nat point) coefficient @ ''.'' @ drop (nat point) coefficient
                      else ''0.'' @ replicate (nat (- point)) CHR ''0'' @ coefficient)
          in Inr (if sign then CHR ''-'' # rendered else rendered))"

text \<open>
  The validator's fixed-point pattern \<open>[+-]?(?:digits(?:.digits?)?|.digits)\<close> together with the
  \<open>Decimal\<close> constructor on the strings it admits: the coefficient loses its leading zeros, the
  exponent is minus the number of fractional digits.
\<close>

definition split_sign :: "string \<Rightarrow> bool \<times> string" where
  "split_sign s = (case s of [] \<Rightarrow> (False, [])
     | c # cs \<Rightarrow> if c = CHR ''-'' then (True, cs) else if c = CHR ''+'' then (False, cs)
                else (False, c # cs))"

definition digit_of_char :: "char \<Rightarrow> nat" where
  "digit_of_char c = of_char c - 48"

definition coefficient_digits :: "string \<Rightarrow> nat list" where
  "coefficient_digits cs =
     (let ds = dropWhile (\<lambda>d. d = 0) (map digit_of_char cs) in if ds = [] then [0] else ds)"

definition decimal_of_string :: "string \<Rightarrow> decimal option" where
  "decimal_of_string s =
     (let (sign, body) = split_sign s;
          whole = takeWhile is_digit body;
          rest = dropWhile is_digit body
      in case rest of
           [] \<Rightarrow> if whole = [] then None else Some (Decimal sign (coefficient_digits whole) 0)
         | c # fraction \<Rightarrow>
             if c = CHR ''.'' \<and> list_all is_digit fraction \<and> (whole \<noteq> [] \<or> fraction \<noteq> [])
             then Some (Decimal sign (coefficient_digits (whole @ fraction)) (- int (length fraction)))
             else None)"

subsection \<open>The unsigned parts of the renderer and the reader\<close>

definition render_magnitude :: "nat list \<Rightarrow> int \<Rightarrow> string" where
  "render_magnitude ds e =
     (let coefficient = map digit_char ds
      in if 0 \<le> e then coefficient @ replicate (nat e) CHR ''0''
         else let point = int (length coefficient) + e
              in if 0 < point then take (nat point) coefficient @ ''.'' @ drop (nat point) coefficient
                 else ''0.'' @ replicate (nat (- point)) CHR ''0'' @ coefficient)"

definition decimal_of_unsigned :: "bool \<Rightarrow> string \<Rightarrow> decimal option" where
  "decimal_of_unsigned sign body =
     (let whole = takeWhile is_digit body;
          rest = dropWhile is_digit body
      in case rest of
           [] \<Rightarrow> if whole = [] then None else Some (Decimal sign (coefficient_digits whole) 0)
         | c # fraction \<Rightarrow>
             if c = CHR ''.'' \<and> list_all is_digit fraction \<and> (whole \<noteq> [] \<or> fraction \<noteq> [])
             then Some (Decimal sign (coefficient_digits (whole @ fraction)) (- int (length fraction)))
             else None)"

subsection \<open>Lemmas\<close>

lemma digits_value_snoc: "digits_value (ds @ [d]) = 10 * digits_value ds + d"
  by simp

lemma digits_value_Cons: "digits_value (d # ds) = d * 10 ^ length ds + digits_value ds"
proof -
  have "foldl (\<lambda>n d. 10 * n + d) a ds = a * 10 ^ length ds + foldl (\<lambda>n d. 10 * n + d) 0 ds" for a :: nat
  proof (induction ds arbitrary: a)
    case (Cons x xs)
    from Cons [of "10 * a + x"] Cons [of x] show ?case by (simp add: algebra_simps)
  qed simp
  from this [of d] show ?thesis by simp
qed

declare digits_value.simps [simp del]

lemma digits_value_Nil [simp]: "digits_value [] = 0"
  by (simp add: digits_value.simps)

lemma digits_value_append:
  "digits_value (xs @ ys) = digits_value xs * 10 ^ length ys + digits_value ys"
  by (induction xs) (simp_all add: digits_value_Cons power_add algebra_simps)

lemma digits_value_zeros [simp]: "digits_value (replicate n 0) = 0"
  by (induction n) (simp_all add: digits_value_Cons)

lemma digits_value_less: "list_all (\<lambda>d. d < 10) ds \<Longrightarrow> digits_value ds < 10 ^ length ds"
proof (induction ds)
  case (Cons d ds)
  then have "d * 10 ^ length ds + digits_value ds < (d + 1) * 10 ^ length ds" by simp
  also from Cons.prems have "\<dots> \<le> 10 * 10 ^ length ds" by (intro mult_right_mono) auto
  finally show ?case by (simp add: digits_value_Cons)
qed simp

lemma digits_value_ge:
  "ds \<noteq> [] \<Longrightarrow> hd ds \<noteq> 0 \<Longrightarrow> 10 ^ (length ds - 1) \<le> digits_value ds"
  by (cases ds) (auto simp: digits_value_Cons trans_le_add1)

lemma digits_value_inj_length:
  assumes "list_all (\<lambda>d. d < 10) xs" "list_all (\<lambda>d. d < 10) ys" "length xs = length ys"
    "digits_value xs = digits_value ys"
  shows "xs = ys"
  using assms(3,1,2,4)
proof (induction xs ys rule: list_induct2)
  case (Cons x xs y ys)
  let ?p = "10 ^ length xs :: nat"
  have lt: "digits_value xs < ?p" "digits_value ys < ?p"
    using Cons digits_value_less [of xs] digits_value_less [of ys] by auto
  have eq: "x * ?p + digits_value xs = y * ?p + digits_value ys"
    using Cons by (simp add: digits_value_Cons)
  have "x = (x * ?p + digits_value xs) div ?p" using lt by simp
  also have "\<dots> = y" using lt by (simp add: eq)
  finally have "x = y" .
  with eq Cons show ?case by simp
qed simp

lemma digits_length_unique:
  assumes "list_all (\<lambda>d. d < 10) xs" "list_all (\<lambda>d. d < 10) ys"
    "xs \<noteq> []" "ys \<noteq> []" "hd xs \<noteq> 0" "hd ys \<noteq> 0" "digits_value xs = digits_value ys"
  shows "length xs = length ys"
proof -
  have *: "length us \<le> length vs"
    if "list_all (\<lambda>d. d < 10) vs" "us \<noteq> []" "hd us \<noteq> 0" "digits_value us = digits_value vs"
    for us vs :: "nat list"
  proof -
    have "(10::nat) ^ (length us - 1) < 10 ^ length vs"
      using digits_value_ge [of us] digits_value_less [of vs] that by (metis le_less_trans)
    then have "length us - 1 < length vs" by simp
    with \<open>us \<noteq> []\<close> show ?thesis by (cases us) auto
  qed
  from *[of ys xs] *[of xs ys] assms show ?thesis by simp
qed

lemma digits_value_inj:
  assumes "list_all (\<lambda>d. d < 10) xs" "list_all (\<lambda>d. d < 10) ys"
    "xs \<noteq> []" "ys \<noteq> []" "hd xs \<noteq> 0" "hd ys \<noteq> 0" "digits_value xs = digits_value ys"
  shows "xs = ys"
  using digits_value_inj_length digits_length_unique assms by blast

lemma pow10_add_nat: "pow10 (e + int n) = pow10 e * 10 ^ n"
proof (cases "0 \<le> e")
  case True
  then show ?thesis by (simp add: pow10_def nat_add_distrib power_add)
next
  case False
  show ?thesis
  proof (cases "0 \<le> e + int n")
    case True
    have "n = nat (- e) + nat (e + int n)" using True False by simp
    then have "(10::rat) ^ n = 10 ^ nat (- e) * 10 ^ nat (e + int n)"
      by (metis power_add)
    with True False show ?thesis by (simp add: pow10_def)
  next
    case neg: False
    have "nat (- e) = n + nat (- (e + int n))" using False neg by simp
    then have "(10::rat) ^ nat (- e) = 10 ^ n * 10 ^ nat (- (e + int n))"
      by (metis power_add)
    with neg False show ?thesis by (simp add: pow10_def)
  qed
qed

lemma pow10_Suc: "pow10 (e + 1) = 10 * pow10 e"
  using pow10_add_nat [of e 1] by simp

lemma pow10_pos [simp]: "0 < pow10 e"
  by (simp add: pow10_def)

lemma pow10_neq_0 [simp]: "pow10 e \<noteq> 0"
  by (simp add: pow10_def)

lemma drop_trailing_spec:
  "drop_trailing ds e = (r, e') \<Longrightarrow>
     \<exists>n. ds = replicate n 0 @ r \<and> e' = e + int n \<and> (r \<noteq> [] \<longrightarrow> hd r \<noteq> 0)"
proof (induction ds arbitrary: e)
  case (Cons d ds)
  show ?case
  proof (cases "d = 0")
    case True
    with Cons obtain n where "ds = replicate n 0 @ r" "e' = e + 1 + int n" "r \<noteq> [] \<longrightarrow> hd r \<noteq> 0"
      by fastforce
    with True show ?thesis by (intro exI [of _ "Suc n"]) simp
  next
    case False
    with Cons.prems show ?thesis by (intro exI [of _ 0]) auto
  qed
qed auto

lemma strip_zeros_spec:
  assumes "strip_zeros ds e = (r, e')"
  obtains n where "ds = r @ replicate n 0" "e' = e + int n" "r \<noteq> [] \<longrightarrow> last r \<noteq> 0"
proof -
  from assms obtain q where q: "drop_trailing (rev ds) e = (q, e')" "r = rev q"
    by (auto simp: strip_zeros_def split: prod.splits)
  from drop_trailing_spec [OF q(1)] obtain n where
    n: "rev ds = replicate n 0 @ q" "e' = e + int n" "q \<noteq> [] \<longrightarrow> hd q \<noteq> 0" by blast
  from n(1) have "rev (rev ds) = rev q @ rev (replicate n 0)" by (metis rev_append)
  then have "ds = r @ replicate n 0" using q by simp
  moreover have "r \<noteq> [] \<longrightarrow> last r \<noteq> 0" using n q by (simp add: last_rev)
  ultimately show thesis using n that by blast
qed

lemma strip_zeros_value:
  "strip_zeros ds e = (r, e') \<Longrightarrow> of_nat (digits_value ds) * pow10 e = of_nat (digits_value r) * pow10 e'"
  by (erule strip_zeros_spec) (simp add: digits_value_append pow10_add_nat)


text \<open>The shape of what a well-formed tuple is stripped to.\<close>

lemma strip_zeros_wf:
  assumes "decimal_wf (Decimal s ds e)" "strip_zeros ds e = (r, e')"
  shows "list_all (\<lambda>d. d < 10) r" "r \<noteq> [] \<longrightarrow> last r \<noteq> 0" "r \<noteq> [] \<longrightarrow> hd r \<noteq> 0"
proof -
  from assms(2) obtain n where n: "ds = r @ replicate n 0" "r \<noteq> [] \<longrightarrow> last r \<noteq> 0"
    by (rule strip_zeros_spec)
  from n assms(1) show "list_all (\<lambda>d. d < 10) r" "r \<noteq> [] \<longrightarrow> last r \<noteq> 0"
    by auto
  show "r \<noteq> [] \<longrightarrow> hd r \<noteq> 0"
  proof (intro impI notI)
    assume r: "r \<noteq> []" "hd r = 0"
    with n have "hd ds = 0" by simp
    with assms(1) have "ds = [0]" by simp
    with n r show False by (cases r) auto
  qed
qed

lemma normalize_decimal_value:
  "normalize_decimal d = Inr d' \<Longrightarrow> decimal_value d' = decimal_value d"
  by (cases d) (auto simp: digits_value_Cons strip_zeros_value split: prod.splits if_splits
      dest!: strip_zeros_value)

lemma digits_value_not_dvd:
  assumes "r \<noteq> []" "last r \<noteq> 0" "list_all (\<lambda>d. d < 10) r"
  shows "\<not> 10 dvd digits_value r"
proof -
  obtain q d where r: "r = q @ [d]" using assms(1) by (metis rev_exhaust)
  with assms have "0 < d" "d < 10" by auto
  then show ?thesis by (simp add: r digits_value_append dvd_eq_mod_eq_0 digits_value_Cons)
qed

lemma scaled_digits_unique:
  assumes eq: "of_nat (digits_value r) * pow10 e = of_nat (digits_value q) * pow10 f"
    and le: "e \<le> f"
    and r: "r \<noteq> []" "last r \<noteq> 0" "hd r \<noteq> 0" "list_all (\<lambda>d. d < 10) r"
    and q: "q \<noteq> []" "hd q \<noteq> 0" "list_all (\<lambda>d. d < 10) q"
  shows "r = q \<and> e = f"
proof -
  define n where "n = nat (f - e)"
  have f: "f = e + int n" using le by (simp add: n_def)
  have "(of_nat (digits_value r) :: rat) = of_nat (digits_value q * 10 ^ n)"
    using eq by (simp add: f pow10_add_nat)
  then have nat_eq: "digits_value r = digits_value q * 10 ^ n" by (metis of_nat_eq_iff)
  have "n = 0"
  proof (rule ccontr)
    assume "n \<noteq> 0"
    then have "10 dvd digits_value r" by (simp add: nat_eq)
    with digits_value_not_dvd r show False by blast
  qed
  with nat_eq digits_value_inj r q f show ?thesis by auto
qed

lemma digits_value_pos: "r \<noteq> [] \<Longrightarrow> hd r \<noteq> 0 \<Longrightarrow> 0 < digits_value r"
  by (cases r) (auto simp: digits_value_Cons)

lemma normalize_decimal_unique:
  assumes wf: "decimal_wf a" "decimal_wf b" and eq: "decimal_value a = decimal_value b"
  shows "normalize_decimal a = normalize_decimal b"
proof -
  obtain s ds e t es f where ab: "a = Decimal s ds e" "b = Decimal t es f"
    using wf by (cases a; cases b) auto
  obtain r e' where r: "strip_zeros ds e = (r, e')" by fastforce
  obtain q f' where q: "strip_zeros es f = (q, f')" by fastforce
  have rv: "decimal_value a = (if s then -1 else 1) * of_nat (digits_value r) * pow10 e'"
    and qv: "decimal_value b = (if t then -1 else 1) * of_nat (digits_value q) * pow10 f'"
    using strip_zeros_value [OF r] strip_zeros_value [OF q] by (simp_all add: ab)
  note rw = strip_zeros_wf [OF wf(1) [unfolded ab] r] and qw = strip_zeros_wf [OF wf(2) [unfolded ab] q]
  have rpos: "r \<noteq> [] \<longrightarrow> (0::rat) < of_nat (digits_value r) * pow10 e'"
    and qpos: "q \<noteq> [] \<longrightarrow> (0::rat) < of_nat (digits_value q) * pow10 f'"
    using rw qw by (simp_all add: digits_value_pos)
  show ?thesis
  proof (cases "r = [] \<or> q = []")
    case True
    then have "r = [] \<and> q = []" using eq rv qv rpos qpos by (auto split: if_splits)
    then show ?thesis by (simp add: ab r q)
  next
    case False
    then have st: "s = t" using eq rv qv rpos qpos by (cases s; cases t) auto
    then have "of_nat (digits_value r) * pow10 e' = of_nat (digits_value q) * pow10 f'"
      using eq rv qv by (cases t) auto
    then have "r = q \<and> e' = f'"
      using scaled_digits_unique [of r e' q f'] scaled_digits_unique [of q f' r e'] rw qw False
      by (cases "e' \<le> f'") auto
    with st show ?thesis by (simp add: ab r q)
  qed
qed



text \<open>Digits and characters.\<close>

lemma digit_of_digit_char [simp]: "d < 10 \<Longrightarrow> digit_of_char (digit_char d) = d"
  by (simp add: digit_of_char_def digit_char_def)

lemma is_digit_iff: "is_digit c \<longleftrightarrow> 48 \<le> (of_char c :: nat) \<and> (of_char c :: nat) \<le> 57"
  by (simp add: is_digit_def less_eq_char_def)

lemma is_digit_digit_char [simp]: "d < 10 \<Longrightarrow> is_digit (digit_char d)"
  by (simp add: is_digit_iff digit_char_def)

lemma not_is_digit_signs [simp]:
  "\<not> is_digit CHR ''.''" "\<not> is_digit CHR ''-''" "\<not> is_digit CHR ''+''" "is_digit CHR ''0''"
  by (simp_all add: is_digit_iff)

lemma digit_of_zero [simp]: "digit_of_char CHR ''0'' = 0"
  by (simp add: digit_of_char_def)

lemma map_digit_of_coefficient [simp]:
  "list_all (\<lambda>d. d < 10) ds \<Longrightarrow> map digit_of_char (map digit_char ds) = ds"
  by (induction ds) auto

lemma list_all_is_digit_coefficient [simp]:
  "list_all (\<lambda>d. d < 10) ds \<Longrightarrow> list_all is_digit (map digit_char ds)"
  by (induction ds) auto

lemma list_all_digits_takeWhile:
  "list_all is_digit xs \<Longrightarrow> takeWhile is_digit (xs @ ys) = xs @ takeWhile is_digit ys"
  "list_all is_digit xs \<Longrightarrow> dropWhile is_digit (xs @ ys) = dropWhile is_digit ys"
  by (induction xs) auto

lemma split_sign_digit:
  "is_digit c \<Longrightarrow> split_sign (c # cs) = (False, c # cs)"
  "split_sign (CHR ''-'' # cs) = (True, cs)"
  by (auto simp: split_sign_def)

lemma coefficient_digits_leading:
  "ds \<noteq> [] \<Longrightarrow> hd ds \<noteq> 0 \<Longrightarrow> map digit_of_char cs = replicate n 0 @ ds \<Longrightarrow>
     coefficient_digits cs = ds"
proof -
  assume *: "ds \<noteq> []" "hd ds \<noteq> 0" "map digit_of_char cs = replicate n 0 @ ds"
  have "dropWhile (\<lambda>d. d = 0) (replicate n 0 @ ds) = dropWhile (\<lambda>d. d = 0) ds"
    by (induction n) simp_all
  also have "\<dots> = ds" using *(1,2) by (cases ds) auto
  finally have "dropWhile (\<lambda>d. d = 0) (replicate n 0 @ ds) = ds" .
  with * show ?thesis by (simp add: coefficient_digits_def)
qed

lemma canonical_decimal_string_render:
  "canonical_decimal_string (Decimal s ds e) =
     (case strip_zeros ds e of (r, e') \<Rightarrow>
        Inr (if r = [] then ''0''
             else if s then CHR ''-'' # render_magnitude r e' else render_magnitude r e'))"
  by (auto simp: render_magnitude_def Let_def split: prod.splits)

text \<open>Reading back a rendered magnitude: one lemma per layout.\<close>

lemma render_magnitude_starts_digit:
  assumes "ds \<noteq> []" "list_all (\<lambda>d. d < 10) ds"
  obtains c cs where "render_magnitude ds e = c # cs" "is_digit c"
proof (cases "0 \<le> e \<or> 0 < int (length ds) + e")
  case True
  obtain d ds' where ds: "ds = d # ds'" using assms(1) by (cases ds) auto
  have "\<exists>cs. render_magnitude ds e = digit_char d # cs"
  proof (cases "0 \<le> e")
    case False
    then have "nat (int (length ds) + e) = Suc (nat (int (length ds) + e - 1))"
      using True by simp
    with False True show ?thesis by (auto simp: render_magnitude_def Let_def ds)
  qed (simp add: render_magnitude_def Let_def ds)
  with that ds assms show thesis by auto
next
  case False
  with that show thesis by (auto simp: render_magnitude_def Let_def)
qed

lemma decimal_of_string_unsigned:
  "decimal_of_string s = (case split_sign s of (sign, body) \<Rightarrow> decimal_of_unsigned sign body)"
  by (simp add: decimal_of_string_def decimal_of_unsigned_def split: prod.splits)

lemma decimal_of_unsigned_whole:
  "list_all is_digit xs \<Longrightarrow> xs \<noteq> [] \<Longrightarrow> decimal_of_unsigned s xs = Some (Decimal s (coefficient_digits xs) 0)"
  by (auto simp: decimal_of_unsigned_def list_all_iff takeWhile_eq_all_conv [THEN iffD2]
      dropWhile_eq_Nil_conv [THEN iffD2])

lemma decimal_of_render:
  assumes r: "r \<noteq> []" "hd r \<noteq> 0" "list_all (\<lambda>d. d < 10) r"
  shows "\<exists>ds' e'. decimal_of_unsigned s (render_magnitude r e) = Some (Decimal s ds' e')
    \<and> decimal_wf (Decimal s ds' e')
    \<and> of_nat (digits_value ds') * pow10 e' = of_nat (digits_value r) * pow10 e"
proof -
  let ?c = "map digit_char r"
  have dig: "list_all is_digit ?c" using r by simp
  consider (whole) "0 \<le> e" | (mixed) "e < 0" "0 < int (length r) + e"
    | (fraction) "e < 0" "int (length r) + e \<le> 0" by linarith
  then show ?thesis
  proof cases
    case whole
    let ?z = "replicate (nat e) CHR ''0''"
    have z: "list_all is_digit ?z" by (induction "nat e") (auto simp: list_all_iff)
    have "coefficient_digits (?c @ ?z) = r @ replicate (nat e) 0"
      using r by (intro coefficient_digits_leading [of _ _ 0]) (auto simp del: map_map)
    moreover have "render_magnitude r e = ?c @ ?z" using whole by (simp add: render_magnitude_def)
    ultimately have "decimal_of_unsigned s (render_magnitude r e) = Some (Decimal s (r @ replicate (nat e) 0) 0)"
      using r dig z decimal_of_unsigned_whole [of "?c @ ?z" s] by simp
    then show ?thesis
      using whole r by (auto simp: digits_value_append pow10_def list_all_iff)
  next
    case mixed
    define p where "p = nat (int (length r) + e)"
    have p: "p < length r" "0 < p" "- int (length r - p) = e" using mixed by (auto simp: p_def)
    have tk: "list_all is_digit (take p ?c)" "list_all is_digit (drop p ?c)"
      using dig by (metis list_all_append append_take_drop_id)+
    have "render_magnitude r e = take p ?c @ CHR ''.'' # drop p ?c"
      using mixed by (simp add: render_magnitude_def Let_def p_def)
    moreover have "coefficient_digits (take p ?c @ drop p ?c) = r"
      using r by (intro coefficient_digits_leading [of _ _ 0]) (auto simp del: map_map)
    ultimately show ?thesis
      using r p tk by (auto simp: decimal_of_unsigned_def list_all_digits_takeWhile simp del: append_take_drop_id)
  next
    case fraction
    define n where "n = nat (- (int (length r) + e))"
    let ?z = "replicate n CHR ''0''"
    have z: "list_all is_digit (?z @ ?c)" using dig by (auto simp: list_all_iff)
    have "render_magnitude r e = CHR ''0'' # CHR ''.'' # ?z @ ?c"
      using fraction by (simp add: render_magnitude_def Let_def n_def)
    moreover have "coefficient_digits (CHR ''0'' # ?z @ ?c) = r"
      using r by (intro coefficient_digits_leading [of _ _ "Suc n"]) (auto simp del: map_map)
    moreover have "- int (n + length r) = e" using fraction by (simp add: n_def)
    ultimately show ?thesis using r z by (auto simp: decimal_of_unsigned_def)
  qed
qed

lemma decimal_string_reads_back:
  assumes wf: "decimal_wf d" and str: "canonical_decimal_string d = Inr s"
  shows "\<exists>d'. decimal_of_string s = Some d' \<and> decimal_wf d' \<and> decimal_value d' = decimal_value d"
proof -
  obtain sg ds e where d: "d = Decimal sg ds e" using wf by (cases d) auto
  obtain r e' where r: "strip_zeros ds e = (r, e')" by fastforce
  note rw = strip_zeros_wf [OF wf [unfolded d] r]
  have v: "decimal_value d = (if sg then -1 else 1) * (of_nat (digits_value r) * pow10 e')"
    using strip_zeros_value [OF r] by (simp add: d)
  show ?thesis
  proof (cases "r = []")
    case True
    with str have "s = ''0''" by (simp add: d r)
    with True v show ?thesis
      by (auto simp: decimal_of_string_def split_sign_def coefficient_digits_def digits_value_Cons)
  next
    case False
    then obtain ds' f where p: "decimal_of_unsigned sg (render_magnitude r e') = Some (Decimal sg ds' f)"
      "decimal_wf (Decimal sg ds' f)" "of_nat (digits_value ds') * pow10 f = of_nat (digits_value r) * pow10 e'"
      using decimal_of_render [of r sg e'] rw by blast
    obtain c cs where c: "render_magnitude r e' = c # cs" "is_digit c"
      using render_magnitude_starts_digit [of r e'] False rw by blast
    have "decimal_of_string s = Some (Decimal sg ds' f)"
      using str False p(1) c unfolding canonical_decimal_string_render d r
      by (auto simp: decimal_of_string_unsigned split_sign_digit)
    with p v show ?thesis by auto
  qed
qed



lemma canonical_decimal_string_total: "decimal_wf d \<Longrightarrow> \<exists>s. canonical_decimal_string d = Inr s"
  by (cases d) (auto simp: canonical_decimal_string_render simp del: canonical_decimal_string.simps
      split: prod.splits)

text \<open>The canonical string depends only on the normal form.\<close>

lemma canonical_decimal_string_normal:
  assumes "decimal_wf d"
  shows "\<exists>n. normalize_decimal d = Inr n \<and> canonical_decimal_string d = canonical_decimal_string n"
proof -
  obtain s ds e where d: "d = Decimal s ds e" using assms by (cases d) auto
  obtain r e' where r: "strip_zeros ds e = (r, e')" by fastforce
  have "r \<noteq> [] \<Longrightarrow> strip_zeros r e' = (r, e')"
    using strip_zeros_wf(2) [OF assms [unfolded d] r]
    by (cases r rule: rev_cases) (auto simp: strip_zeros_def)
  moreover have "strip_zeros [0] 0 = ([], 1)" by (simp add: strip_zeros_def)
  ultimately show ?thesis by (auto simp: d r canonical_decimal_string_render
      simp del: canonical_decimal_string.simps)
qed

subsection \<open>Properties\<close>

text \<open>Two decimals have the same numeric value exactly when their canonical strings are the
  same, so that comparing canonical encodings compares numbers.\<close>

theorem canonical_decimal_string_identity:
  assumes "decimal_wf a" and "decimal_wf b"
  shows "canonical_decimal_string a = canonical_decimal_string b \<longleftrightarrow> decimal_value a = decimal_value b"
proof
  assume eq: "canonical_decimal_string a = canonical_decimal_string b"
  obtain s where "canonical_decimal_string a = Inr s"
    using canonical_decimal_string_total [OF assms(1)] by blast
  with decimal_string_reads_back [OF assms(1)] decimal_string_reads_back [OF assms(2)] eq
  show "decimal_value a = decimal_value b" by (metis option.inject)
next
  assume "decimal_value a = decimal_value b"
  then have "normalize_decimal a = normalize_decimal b" by (rule normalize_decimal_unique [OF assms])
  with canonical_decimal_string_normal [OF assms(1)] canonical_decimal_string_normal [OF assms(2)]
  show "canonical_decimal_string a = canonical_decimal_string b" by (metis sum.inject(2))
qed

text \<open>Rendering a decimal and reading the string back through the fixed-point validator gives
  a decimal that normalises to the same canonical value.\<close>

theorem canonical_decimal_roundtrip:
  assumes "decimal_wf d" and "canonical_decimal_string d = Inr s"
  shows "\<exists>d'. decimal_of_string s = Some d' \<and> normalize_decimal d' = normalize_decimal d"
  using decimal_string_reads_back [OF assms] normalize_decimal_unique assms(1) by metis

end
