(* ===== verification/Canonical.thy ===== *)
theory Canonical
  imports Decimals "HOL-Library.Multiset"
begin

section \<open>Closed domain types and canonical encodings\<close>

text \<open>
  Models \<open>src/edagym/specs/common.py\<close> (identifiers, labels, digests, seeds, bounded integers, relative
  paths, the closed enumerations; its decimals are in \<open>Decimals\<close>) and \<open>src/edagym/canonical.py\<close> (the JSON
  value of a Python value and the domain-separated digest). Strings are byte
  strings: every pattern of these files is ASCII. The RFC 8785 serialiser and SHA-256 are
  parameters of \<open>canonical_bytes\<close> and \<open>canonical_digest\<close>.
\<close>

subsection \<open>Enumerations\<close>

datatype Sensitivity = Sensitivity_PUBLIC | Sensitivity_INTERNAL | Sensitivity_CONFIDENTIAL
  | Sensitivity_SECRET

datatype Redistribution = Redistribution_ALLOWED | Redistribution_RESTRICTED
  | Redistribution_FORBIDDEN

datatype Visibility = Visibility_PUBLIC | Visibility_PARTICIPANT | Visibility_REVIEWER
  | Visibility_VERIFIER | Visibility_AUTHOR

datatype ProviderResponseStatus = Response_COMPLETED | Response_INCOMPLETE | Response_FAILED
  | Response_IN_PROGRESS | Response_QUEUED | Response_CANCELLED

datatype (plugins only: code size) Capability = HW_IR_LOWERING | RTL_SIMULATION | RTL_LINT | CDC_RDC
  | FORMAL_PROPERTY | EQUIVALENCE | ASIC_SYNTHESIS | STATIC_TIMING | DIGITAL_IMPLEMENTATION
  | POWER_ANALYSIS | POWER_INTEGRITY | PARASITIC_EXTRACTION | PHYSICAL_VERIFICATION
  | CIRCUIT_SIMULATION | FPGA_IMPLEMENTATION | HIGH_LEVEL_SYNTHESIS | DESIGN_FOR_TEST
  | CELL_CHARACTERIZATION

datatype ArtifactClass = Artifact_EPHEMERAL | Artifact_DIAGNOSTIC | Artifact_CANDIDATE
  | Artifact_CHECKPOINT | Artifact_EVIDENCE | Artifact_MEASUREMENT | Artifact_RELEASE
  | Artifact_TRAINING

text \<open>The string value of a capability is its sort key in every normalised sequence.\<close>

fun capability_value :: "Capability \<Rightarrow> string" where
  "capability_value HW_IR_LOWERING = ''hw.ir_lowering''"
| "capability_value RTL_SIMULATION = ''rtl.simulation''"
| "capability_value RTL_LINT = ''rtl.lint''"
| "capability_value CDC_RDC = ''rtl.cdc_rdc''"
| "capability_value FORMAL_PROPERTY = ''formal.property''"
| "capability_value EQUIVALENCE = ''formal.equivalence''"
| "capability_value ASIC_SYNTHESIS = ''asic.synthesis''"
| "capability_value STATIC_TIMING = ''asic.sta''"
| "capability_value DIGITAL_IMPLEMENTATION = ''asic.pnr''"
| "capability_value POWER_ANALYSIS = ''asic.power_analysis''"
| "capability_value POWER_INTEGRITY = ''asic.power_integrity''"
| "capability_value PARASITIC_EXTRACTION = ''asic.parasitic_extraction''"
| "capability_value PHYSICAL_VERIFICATION = ''physical.verification''"
| "capability_value CIRCUIT_SIMULATION = ''circuit.simulation''"
| "capability_value FPGA_IMPLEMENTATION = ''fpga.implementation''"
| "capability_value HIGH_LEVEL_SYNTHESIS = ''hls.synthesis''"
| "capability_value DESIGN_FOR_TEST = ''dft.insertion''"
| "capability_value CELL_CHARACTERIZATION = ''cell.characterization''"

subsection \<open>Identifiers, digests, seeds and integers\<close>

type_synonym Identifier = string
type_synonym Digest = string
type_synonym Seed128Hex = string

definition is_lower :: "char \<Rightarrow> bool" where
  "is_lower c \<longleftrightarrow> CHR ''a'' \<le> c \<and> c \<le> CHR ''z''"

definition is_lower_alnum :: "char \<Rightarrow> bool" where
  "is_lower_alnum c \<longleftrightarrow> is_lower c \<or> is_digit c"

definition is_lower_hex :: "char \<Rightarrow> bool" where
  "is_lower_hex c \<longleftrightarrow> is_digit c \<or> CHR ''a'' \<le> c \<and> c \<le> CHR ''f''"

definition is_separator :: "char \<Rightarrow> bool" where
  "is_separator c \<longleftrightarrow> c \<in> set ''._-''"

text \<open>
  The pattern \<open>[a-z][a-z0-9]*(?:[._-][a-z0-9]+)*\<close> as a scanner: the flag says whether the
  previous character was alphanumeric, so that a separator may follow it and the string may end.
\<close>

fun identifier_tail :: "bool \<Rightarrow> string \<Rightarrow> bool" where
  "identifier_tail after_alnum [] = after_alnum"
| "identifier_tail after_alnum (c # cs) =
     (if is_lower_alnum c then identifier_tail True cs
      else if is_separator c then after_alnum \<and> identifier_tail False cs
      else False)"

definition identifier_ok :: "Identifier \<Rightarrow> bool" where
  "identifier_ok s \<longleftrightarrow>
     (case s of [] \<Rightarrow> False | c # cs \<Rightarrow> is_lower c \<and> identifier_tail True cs)
     \<and> 1 \<le> length s \<and> length s \<le> 96"

definition digest_ok :: "Digest \<Rightarrow> bool" where
  "digest_ok s \<longleftrightarrow> take 7 s = ''sha256:'' \<and> length s = 71 \<and> list_all is_lower_hex (drop 7 s)"

definition seed128_ok :: "Seed128Hex \<Rightarrow> bool" where
  "seed128_ok s \<longleftrightarrow> length s = 32 \<and> list_all is_lower_hex s"

text \<open>The label types: between one and a maximum of characters, none of them white space.\<close>

definition is_white_space :: "char \<Rightarrow> bool" where
  "is_white_space c \<longleftrightarrow> of_char c \<in> {9, 10, 11, 12, 13, 32, 133, 160 :: nat}"

definition label_ok :: "nat \<Rightarrow> string \<Rightarrow> bool" where
  "label_ok maximum s \<longleftrightarrow> 1 \<le> length s \<and> length s \<le> maximum \<and> list_all (\<lambda>c. \<not> is_white_space c) s"

definition JCS_INTEGER_MAX :: int where
  "JCS_INTEGER_MAX = 2 ^ 53 - 1"

definition jcs_positive_ok :: "int \<Rightarrow> bool" where
  "jcs_positive_ok n \<longleftrightarrow> 1 \<le> n \<and> n \<le> JCS_INTEGER_MAX"

definition jcs_nonnegative_ok :: "int \<Rightarrow> bool" where
  "jcs_nonnegative_ok n \<longleftrightarrow> 0 \<le> n \<and> n \<le> JCS_INTEGER_MAX"

subsection \<open>Relative paths\<close>

datatype path_error = Not_normalized_relative

fun split_on :: "char \<Rightarrow> string \<Rightarrow> string list" where
  "split_on sep [] = [[]]"
| "split_on sep (c # cs) =
     (if c = sep then [] # split_on sep cs
      else case split_on sep cs of [] \<Rightarrow> [[c]] | w # ws \<Rightarrow> (c # w) # ws)"

fun join_with :: "char \<Rightarrow> string list \<Rightarrow> string" where
  "join_with sep [] = []"
| "join_with sep [w] = w"
| "join_with sep (w # v # ws) = w @ sep # join_with sep (v # ws)"

text \<open>\<open>PurePosixPath(value).parts\<close> of a relative path: empty and dot components disappear.\<close>

definition posix_parts :: "string \<Rightarrow> string list" where
  "posix_parts s = filter (\<lambda>p. p \<noteq> [] \<and> p \<noteq> ''.'') (split_on CHR ''/'' s)"

definition posix_is_absolute :: "string \<Rightarrow> bool" where
  "posix_is_absolute s \<longleftrightarrow> (case s of [] \<Rightarrow> False | c # _ \<Rightarrow> c = CHR ''/'')"

definition as_posix :: "string list \<Rightarrow> string" where
  "as_posix parts = (if parts = [] then ''.'' else join_with CHR ''/'' parts)"

definition validate_relative_path :: "string \<Rightarrow> path_error + string" where
  "validate_relative_path s =
     (if posix_is_absolute s \<or> s = []
         \<or> list_ex (\<lambda>part. part \<in> {[], ''.'', ''..''}) (posix_parts s)
      then Inl Not_normalized_relative
      else Inr (as_posix (posix_parts s)))"

subsection \<open>Canonical JSON values and digests\<close>

text \<open>
  The Python values \<open>_json_value\<close> distinguishes. A pydantic model is given by its JSON-mode
  dump, which the library computes.
\<close>

datatype py_value = PyNone | PyBool bool | PyInt int | PyStr string | PyDecimal decimal
  | PyFloat | PyPath string | PyEnum py_value | PyModel py_value
  | PyMapping "(py_value \<times> py_value) list" | PySet "py_value list" | PySequence "py_value list"
  | PyOther

datatype json = JNull | JBool bool | JInt int | JStr string | JArray "json list"
  | JObject "(string \<times> json) list"

datatype canonical_error = Float_value | Unsupported_type | Mapping_key_not_string
  | Decimal_not_finite | Bad_domain

definition is_py_str :: "py_value \<Rightarrow> bool" where
  "is_py_str v = (case v of PyStr _ \<Rightarrow> True | _ \<Rightarrow> False)"

definition py_str :: "py_value \<Rightarrow> string" where
  "py_str v = (case v of PyStr s \<Rightarrow> s | _ \<Rightarrow> [])"

text \<open>\<open>canonical_bytes\<close> of a JSON value is \<open>rfc8785.dumps\<close>, the parameter \<open>dumps\<close>.\<close>

fun json_value :: "(json \<Rightarrow> string) \<Rightarrow> py_value \<Rightarrow> canonical_error + json" where
  "json_value dumps (PyModel dumped) = json_value dumps dumped"
| "json_value dumps (PyEnum v) = json_value dumps v"
| "json_value dumps (PyDecimal d) =
     (case canonical_decimal_string d of Inl _ \<Rightarrow> Inl Decimal_not_finite | Inr s \<Rightarrow> Inr (JStr s))"
| "json_value dumps (PyPath s) = Inr (JStr s)"
| "json_value dumps (PyMapping items) =
     (if \<not> list_all (\<lambda>p. is_py_str (fst p)) items then Inl Mapping_key_not_string
      else bind_result
        (map_result (\<lambda>p. bind_result (json_value dumps (snd p)) (\<lambda>j. Inr (py_str (fst p), j))) items)
        (\<lambda>js. Inr (JObject js)))"
| "json_value dumps (PySet items) =
     bind_result (map_result (json_value dumps) items) (\<lambda>js. Inr (JArray (sort_key dumps js)))"
| "json_value dumps (PySequence items) =
     bind_result (map_result (json_value dumps) items) (\<lambda>js. Inr (JArray js))"
| "json_value dumps PyFloat = Inl Float_value"
| "json_value dumps PyOther = Inl Unsupported_type"
| "json_value dumps PyNone = Inr JNull"
| "json_value dumps (PyBool b) = Inr (JBool b)"
| "json_value dumps (PyInt n) = Inr (JInt n)"
| "json_value dumps (PyStr s) = Inr (JStr s)"

definition canonical_bytes :: "(json \<Rightarrow> string) \<Rightarrow> py_value \<Rightarrow> canonical_error + string" where
  "canonical_bytes dumps v = bind_result (json_value dumps v) (\<lambda>j. Inr (dumps j))"

definition NUL :: char where
  "NUL = char_of (0::nat)"

definition digest_payload :: "string \<Rightarrow> string \<Rightarrow> string" where
  "digest_payload domain encoded = ''edagym'' @ [NUL] @ domain @ [NUL] @ encoded"

definition canonical_digest ::
    "(json \<Rightarrow> string) \<Rightarrow> (string \<Rightarrow> string) \<Rightarrow> py_value \<Rightarrow> string \<Rightarrow> canonical_error + Digest" where
  "canonical_digest dumps sha256_hex v domain =
     (if domain = [] \<or> NUL \<in> set domain then Inl Bad_domain
      else bind_result (canonical_bytes dumps v)
             (\<lambda>encoded. Inr (''sha256:'' @ sha256_hex (digest_payload domain encoded))))"


subsection \<open>Vocabulary of the specifications below\<close>

text \<open>
  The identifier pattern as a grammar: a word followed by separated words.
\<close>

definition identifier_segments :: "(char \<times> string) list \<Rightarrow> string" where
  "identifier_segments segs = concat (map (\<lambda>(sep, w). sep # w) segs)"

definition segment_ok :: "char \<times> string \<Rightarrow> bool" where
  "segment_ok seg \<longleftrightarrow> is_separator (fst seg) \<and> snd seg \<noteq> [] \<and> list_all is_lower_alnum (snd seg)"


subsection \<open>The identifier scanner recognises the pattern\<close>

lemma separator_not_alnum: "is_separator c \<Longrightarrow> \<not> is_lower_alnum c"
  by (auto simp: is_separator_def is_lower_alnum_def is_lower_def is_digit_def less_eq_char_def)

lemma identifier_tail_alnum_prefix:
  "list_all is_lower_alnum w \<Longrightarrow> w \<noteq> [] \<or> b \<Longrightarrow> identifier_tail b (w @ s) = identifier_tail True s"
  by (induction w arbitrary: b) simp_all

lemma identifier_tail_segments:
  "list_all segment_ok segs \<Longrightarrow> identifier_tail True (identifier_segments segs)"
proof (induction segs)
  case Nil
  then show ?case by (simp add: identifier_segments_def)
next
  case (Cons seg segs)
  obtain sep w where seg: "seg = (sep, w)" by (cases seg)
  with Cons.prems have w: "is_separator sep" "w \<noteq> []" "list_all is_lower_alnum w"
    by (auto simp: segment_ok_def)
  have "identifier_segments (seg # segs) = sep # w @ identifier_segments segs"
    by (simp add: identifier_segments_def seg)
  then show ?case
    using w Cons identifier_tail_alnum_prefix [OF w(3), of False]
    by (simp add: separator_not_alnum)
qed

lemma identifier_tail_split:
  "identifier_tail b s \<Longrightarrow>
     \<exists>w segs. s = w @ identifier_segments segs \<and> list_all is_lower_alnum w \<and> list_all segment_ok segs
       \<and> (b \<or> w \<noteq> [])"
proof (induction b s rule: identifier_tail.induct)
  case (1 b)
  then show ?case by (intro exI [of _ "[]"]) (simp add: identifier_segments_def)
next
  case (2 b c cs)
  show ?case
  proof (cases "is_lower_alnum c")
    case True
    with 2 obtain w segs where "cs = w @ identifier_segments segs" "list_all is_lower_alnum w"
      "list_all segment_ok segs" by auto
    with True show ?thesis by (intro exI [of _ "c # w"] exI [of _ segs]) simp
  next
    case False
    with 2 obtain w segs where w: "cs = w @ identifier_segments segs" "list_all is_lower_alnum w"
      "list_all segment_ok segs" "w \<noteq> []" "is_separator c" "b" by (auto split: if_splits)
    then show ?thesis
      by (intro exI [of _ "[] :: string"] exI [of _ "(c, w) # segs"])
        (simp add: identifier_segments_def segment_ok_def [abs_def])
  qed
qed

lemma identifier_tail_iff:
  "identifier_tail True s \<longleftrightarrow>
     (\<exists>w segs. s = w @ identifier_segments segs \<and> list_all is_lower_alnum w \<and> list_all segment_ok segs)"
  using identifier_tail_split [of True s] identifier_tail_segments identifier_tail_alnum_prefix
  by (metis (full_types))

subsection \<open>Relative paths stay relative and are normalised\<close>

lemma split_on_neq_Nil [simp]: "split_on sep s \<noteq> []"
  by (cases s) (auto split: list.splits)

lemma split_on_no_sep: "w \<in> set (split_on sep s) \<Longrightarrow> sep \<notin> set w"
proof (induction s arbitrary: w)
  case (Cons c cs)
  then show ?case
    by (cases "split_on sep cs") (auto split: if_splits)
qed simp

lemma split_on_word: "sep \<notin> set w \<Longrightarrow> split_on sep w = [w]"
  by (induction w) auto

lemma split_on_append: "sep \<notin> set w \<Longrightarrow> split_on sep (w @ sep # s) = w # split_on sep s"
  by (induction w) auto

lemma split_on_join:
  "ws \<noteq> [] \<Longrightarrow> list_all (\<lambda>w. sep \<notin> set w) ws \<Longrightarrow> split_on sep (join_with sep ws) = ws"
  by (induction sep ws rule: join_with.induct) (auto simp: split_on_word split_on_append)

lemma posix_parts_proper: "p \<in> set (posix_parts s) \<Longrightarrow> p \<noteq> [] \<and> p \<noteq> ''.'' \<and> CHR ''/'' \<notin> set p"
  by (auto simp: posix_parts_def dest: split_on_no_sep)

lemma posix_parts_dot: "posix_parts ''.'' = []"
  by (simp add: posix_parts_def)

lemma posix_parts_as_posix [simp]: "posix_parts (as_posix (posix_parts s)) = posix_parts s"
proof (cases "posix_parts s = []")
  case False
  then have "split_on CHR ''/'' (join_with CHR ''/'' (posix_parts s)) = posix_parts s"
    by (intro split_on_join) (auto simp: list_all_iff dest: posix_parts_proper)
  then have "posix_parts (join_with CHR ''/'' (posix_parts s)) = posix_parts s"
    by (auto simp: posix_parts_def [of "join_with _ _"] filter_id_conv dest: posix_parts_proper)
  with False show ?thesis by (simp add: as_posix_def)
qed (simp add: as_posix_def posix_parts_dot)

lemma join_with_hd: "ws \<noteq> [] \<Longrightarrow> hd ws \<noteq> [] \<Longrightarrow> join_with sep ws \<noteq> [] \<and> hd (join_with sep ws) = hd (hd ws)"
  by (induction sep ws rule: join_with.induct) auto

lemma as_posix_relative: "as_posix (posix_parts s) \<noteq> [] \<and> \<not> posix_is_absolute (as_posix (posix_parts s))"
proof (cases "posix_parts s")
  case Nil
  then show ?thesis by (simp add: as_posix_def posix_is_absolute_def)
next
  case (Cons p ps)
  then have p: "p \<noteq> []" "CHR ''/'' \<notin> set p" using posix_parts_proper [of p s] by auto
  then have "hd p \<noteq> CHR ''/''" by (cases p) auto
  with join_with_hd [of "posix_parts s" "CHR ''/''"] p Cons show ?thesis
    by (auto simp: as_posix_def posix_is_absolute_def split: list.splits)
qed

lemma validate_relative_path_fixed:
  assumes "validate_relative_path s = Inr p"
  shows "\<not> posix_is_absolute p \<and> ''..'' \<notin> set (posix_parts p) \<and> posix_parts p = posix_parts s
    \<and> validate_relative_path p = Inr p"
proof -
  from assms have p: "p = as_posix (posix_parts s)" "''..'' \<notin> set (posix_parts s)"
    by (auto simp: validate_relative_path_def list_ex_iff split: if_splits)
  moreover have "\<not> list_ex (\<lambda>part. part \<in> {[], ''.'', ''..''}) (posix_parts s)"
    using p by (auto simp: list_ex_iff dest: posix_parts_proper)
  ultimately show ?thesis
    using as_posix_relative [of s] by (simp add: validate_relative_path_def)
qed

subsection \<open>Digest framing\<close>

lemma NUL_split:
  "NUL \<notin> set d \<Longrightarrow> NUL \<notin> set d' \<Longrightarrow> d @ NUL # e = d' @ NUL # e' \<Longrightarrow> d = d' \<and> e = e'"
  by (induction d arbitrary: d') (auto simp: Cons_eq_append_conv)

lemma digest_payload_inject:
  "NUL \<notin> set d \<Longrightarrow> NUL \<notin> set d' \<Longrightarrow> digest_payload d e = digest_payload d' e' \<Longrightarrow> d = d' \<and> e = e'"
  unfolding digest_payload_def using NUL_split [of d d' e e'] by simp

lemma json_set_order:
  assumes "mset xs = mset ys" "\<And>x. x \<in> set xs \<Longrightarrow> json_value dumps x = Inr (j x)"
    "inj_on dumps (j ` set xs)"
  shows "json_value dumps (PySet xs) = json_value dumps (PySet ys)"
proof -
  have "set ys = set xs" using assms(1) by (metis mset_eq_setD)
  then have "map_result (json_value dumps) xs = Inr (map j xs)"
    "map_result (json_value dumps) ys = Inr (map j ys)"
    using assms(2) by (auto intro: map_result_total)
  moreover have "sort_key dumps (map j xs) = sort_key dumps (map j ys)"
    using assms by (intro sort_key_inj_key_eq) auto
  ultimately show ?thesis by simp
qed


subsection \<open>Properties\<close>

text \<open>The scanner accepts exactly the documented identifier grammar: a lower-case letter, then
  lower-case alphanumerics, then separated non-empty alphanumeric words, at most 96 characters.\<close>

theorem identifier_ok_grammar:
  "identifier_ok s \<longleftrightarrow>
     (\<exists>c w segs. s = c # w @ identifier_segments segs \<and> is_lower c \<and> list_all is_lower_alnum w
        \<and> list_all segment_ok segs) \<and> length s \<le> 96"
  by (cases s) (auto simp: identifier_ok_def identifier_tail_iff)

text \<open>A path the validator admits is relative, has no parent component, keeps the components
  of its input and is already in the validator's normal form.\<close>

theorem validate_relative_path_safe:
  assumes "validate_relative_path s = Inr p"
  shows "\<not> posix_is_absolute p \<and> ''..'' \<notin> set (posix_parts p) \<and> posix_parts p = posix_parts s
    \<and> validate_relative_path p = Inr p"
  using assms by (rule validate_relative_path_fixed)

text \<open>The validator admits the single dot, whose component sequence is empty: the workspace
  root itself passes as a non-empty relative path.\<close>

theorem validate_relative_path_admits_root:
  "validate_relative_path ''.'' = Inr ''.'' \<and> posix_parts ''.'' = []"
  by (simp add: validate_relative_path_def posix_parts_def as_posix_def posix_is_absolute_def)

text \<open>Equal digests come from the same domain and the same canonical bytes, unless SHA-256
  itself collides on the two payloads; no domain can imitate another.\<close>

theorem canonical_digest_domain_separation:
  assumes "canonical_digest dumps sha v domain = Inr h" and "canonical_digest dumps sha v' domain' = Inr h"
    and no_collision: "\<And>e e'. canonical_bytes dumps v = Inr e \<Longrightarrow> canonical_bytes dumps v' = Inr e' \<Longrightarrow>
      sha (digest_payload domain e) = sha (digest_payload domain' e') \<Longrightarrow>
      digest_payload domain e = digest_payload domain' e'"
  shows "domain = domain' \<and> canonical_bytes dumps v = canonical_bytes dumps v'"
proof -
  from assms(1) obtain e where e: "NUL \<notin> set domain" "canonical_bytes dumps v = Inr e"
    "h = ''sha256:'' @ sha (digest_payload domain e)"
    by (auto simp: canonical_digest_def split: if_splits)
  from assms(2) obtain e' where e': "NUL \<notin> set domain'" "canonical_bytes dumps v' = Inr e'"
    "h = ''sha256:'' @ sha (digest_payload domain' e')"
    by (auto simp: canonical_digest_def split: if_splits)
  from e(3) e'(3) have "digest_payload domain e = digest_payload domain' e'"
    by (intro no_collision [OF e(2) e'(2)]) simp
  with digest_payload_inject [OF e(1) e'(1)] have "domain = domain'" "e = e'" by auto
  with e(2) e'(2) show ?thesis by simp
qed

end
