(* ===== verification/TaskInterfaces.thy ===== *)
theory TaskInterfaces
  imports Canonical "HOL-Library.Sublist"
begin

section \<open>Task interfaces\<close>

text \<open>
  Models the interface half of \<open>src/edagym/specs/task.py\<close> (clocks, resets, signals and the eight
  interface profiles): one record per pydantic class and one validation function per class with
  validators. A validation function takes the fields as given and returns the normalised object
  or the error it raises; field validators normalise (sort, reject duplicates), model validators
  reject. The string patterns of identifier and digest fields are the predicates of \<open>Canonical\<close>
  and are not repeated here.
\<close>

subsection \<open>Enumerations\<close>

datatype ResetKind = SYNC_ACTIVE_HIGH | SYNC_ACTIVE_LOW | ASYNC_ACTIVE_HIGH | ASYNC_ACTIVE_LOW
datatype BusProtocol = APB4 | AXI4 | AXI4_LITE | WISHBONE_B4
datatype PortDirection = Port_INPUT | Port_OUTPUT | Port_INOUT
subsection \<open>Errors\<close>

text \<open>One constructor per \<open>raise\<close>; \<open>Field_range\<close> is a violated numeric or length bound of a field.\<close>

datatype (plugins only: code size) field_error = Field_range | Reset_clock_mismatch
  | Scalar_signals_not_unique | Scalar_signal_clock | Width_not_byte_aligned | Bridge_same_protocol
  | Clocks_not_unique | Reset_or_signal_not_unique | Reset_unknown_clock | Signal_unknown_clock
  | Submission_paths_overlap | Bad_path | Integer_bounds | Integer_step | Choice_values
  | Choice_default | References_not_unique | Requirements_not_unique | Primary_is_supporting
  | Measurement_min_max | Target_missing | Target_unexpected | Worst_without_direction
  | Zero_coefficient | No_known_answers | Too_few_mutants | Missing_rules | Negative_candidates
  | Public_provenance | Bad_literal

subsection \<open>Interfaces\<close>

record ClockSpec =
  clk_clock_id :: Identifier
  clk_period_fs :: int

record ResetSpec =
  rst_reset_id :: Identifier
  rst_clock_id :: Identifier
  rst_kind :: ResetKind

record SignalSpec =
  sig_signal_id :: Identifier
  sig_direction :: PortDirection
  sig_width :: int
  sig_clock_id :: Identifier

definition ClockSpec_validate :: "ClockSpec \<Rightarrow> field_error + ClockSpec" where
  "ClockSpec_validate c = (if \<not> 0 < clk_period_fs c then Inl Field_range else Inr c)"

definition SignalSpec_validate :: "SignalSpec \<Rightarrow> field_error + SignalSpec" where
  "SignalSpec_validate s = (if \<not> (1 \<le> sig_width s \<and> sig_width s \<le> 65536) then Inl Field_range else Inr s)"

record ScalarInterface =
  sca_top_module :: Identifier
  sca_clock :: ClockSpec
  sca_reset :: ResetSpec
  sca_signals :: "SignalSpec list"

definition ScalarInterface_validate :: "ScalarInterface \<Rightarrow> field_error + ScalarInterface" where
  "ScalarInterface_validate raw =
     bind_result (ClockSpec_validate (sca_clock raw)) (\<lambda>_.
     bind_result (map_result SignalSpec_validate (sca_signals raw)) (\<lambda>signals.
       let i = raw\<lparr>sca_signals := sort_key sig_signal_id signals\<rparr>;
           names = map sig_signal_id (sca_signals i)
       in if rst_clock_id (sca_reset i) \<noteq> clk_clock_id (sca_clock i) then Inl Reset_clock_mismatch
          else if names = [] \<or> \<not> distinct names then Inl Scalar_signals_not_unique
          else if list_ex (\<lambda>s. sig_clock_id s \<noteq> clk_clock_id (sca_clock i)) (sca_signals i)
          then Inl Scalar_signal_clock
          else Inr i))"

record StreamInterface =
  str_top_module :: Identifier
  str_clock :: ClockSpec
  str_reset :: ResetSpec
  str_input_streams :: int
  str_output_streams :: int
  str_data_width :: int
  str_user_width :: int
  str_has_keep :: bool
  str_packetized :: bool

definition StreamInterface_validate :: "StreamInterface \<Rightarrow> field_error + StreamInterface" where
  "StreamInterface_validate i =
     bind_result (ClockSpec_validate (str_clock i)) (\<lambda>_.
       if \<not> (1 \<le> str_input_streams i \<and> str_input_streams i \<le> 64
              \<and> 1 \<le> str_output_streams i \<and> str_output_streams i \<le> 64
              \<and> 1 \<le> str_data_width i \<and> str_data_width i \<le> 65536
              \<and> 0 \<le> str_user_width i \<and> str_user_width i \<le> 1024) then Inl Field_range
       else if rst_clock_id (str_reset i) \<noteq> clk_clock_id (str_clock i) then Inl Reset_clock_mismatch
       else Inr i)"

record MmioInterface =
  mmi_top_module :: Identifier
  mmi_protocol :: BusProtocol
  mmi_clock :: ClockSpec
  mmi_reset :: ResetSpec
  mmi_address_width :: int
  mmi_data_width :: int

definition MmioInterface_validate :: "MmioInterface \<Rightarrow> field_error + MmioInterface" where
  "MmioInterface_validate i =
     bind_result (ClockSpec_validate (mmi_clock i)) (\<lambda>_.
       if mmi_protocol i \<notin> {AXI4_LITE, APB4} then Inl Bad_literal
       else if \<not> (1 \<le> mmi_address_width i \<and> mmi_address_width i \<le> 64
              \<and> 8 \<le> mmi_data_width i \<and> mmi_data_width i \<le> 1024) then Inl Field_range
       else if rst_clock_id (mmi_reset i) \<noteq> clk_clock_id (mmi_clock i) then Inl Reset_clock_mismatch
       else if mmi_data_width i mod 8 \<noteq> 0 then Inl Width_not_byte_aligned
       else Inr i)"

record BusBridgeInterface =
  bri_top_module :: Identifier
  bri_source_protocol :: BusProtocol
  bri_destination_protocol :: BusProtocol
  bri_clock :: ClockSpec
  bri_reset :: ResetSpec
  bri_address_width :: int
  bri_data_width :: int

definition BusBridgeInterface_validate :: "BusBridgeInterface \<Rightarrow> field_error + BusBridgeInterface" where
  "BusBridgeInterface_validate i =
     bind_result (ClockSpec_validate (bri_clock i)) (\<lambda>_.
       if \<not> (1 \<le> bri_address_width i \<and> bri_address_width i \<le> 64
              \<and> 8 \<le> bri_data_width i \<and> bri_data_width i \<le> 1024) then Inl Field_range
       else if rst_clock_id (bri_reset i) \<noteq> clk_clock_id (bri_clock i) then Inl Reset_clock_mismatch
       else if bri_source_protocol i = bri_destination_protocol i then Inl Bridge_same_protocol
       else if bri_data_width i mod 8 \<noteq> 0 then Inl Width_not_byte_aligned
       else Inr i)"

record MemoryMasterInterface =
  mem_top_module :: Identifier
  mem_protocol :: BusProtocol
  mem_clock :: ClockSpec
  mem_reset :: ResetSpec
  mem_address_width :: int
  mem_data_width :: int
  mem_maximum_outstanding :: int

definition MemoryMasterInterface_validate ::
    "MemoryMasterInterface \<Rightarrow> field_error + MemoryMasterInterface" where
  "MemoryMasterInterface_validate i =
     bind_result (ClockSpec_validate (mem_clock i)) (\<lambda>_.
       if mem_protocol i \<notin> {AXI4, WISHBONE_B4} then Inl Bad_literal
       else if \<not> (1 \<le> mem_address_width i \<and> mem_address_width i \<le> 64
              \<and> 8 \<le> mem_data_width i \<and> mem_data_width i \<le> 1024
              \<and> 1 \<le> mem_maximum_outstanding i \<and> mem_maximum_outstanding i \<le> 256) then Inl Field_range
       else if rst_clock_id (mem_reset i) \<noteq> clk_clock_id (mem_clock i) then Inl Reset_clock_mismatch
       else if mem_data_width i mod 8 \<noteq> 0 then Inl Width_not_byte_aligned
       else Inr i)"

record MultiClockInterface =
  mul_top_module :: Identifier
  mul_clocks :: "ClockSpec list"
  mul_resets :: "ResetSpec list"
  mul_signals :: "SignalSpec list"

definition MultiClockInterface_validate ::
    "MultiClockInterface \<Rightarrow> field_error + MultiClockInterface" where
  "MultiClockInterface_validate raw =
     bind_result (map_result ClockSpec_validate (mul_clocks raw)) (\<lambda>clocks.
     bind_result (map_result SignalSpec_validate (mul_signals raw)) (\<lambda>signals.
       let i = raw\<lparr>mul_clocks := sort_key clk_clock_id clocks,
                   mul_resets := sort_key rst_reset_id (mul_resets raw),
                   mul_signals := sort_key sig_signal_id signals\<rparr>;
           clock_ids = set (map clk_clock_id (mul_clocks i))
       in if card clock_ids < 2 \<or> card clock_ids \<noteq> length (mul_clocks i) then Inl Clocks_not_unique
          else if \<not> distinct (map rst_reset_id (mul_resets i))
               \<or> \<not> distinct (map sig_signal_id (mul_signals i)) then Inl Reset_or_signal_not_unique
          else if list_ex (\<lambda>r. rst_clock_id r \<notin> clock_ids) (mul_resets i) then Inl Reset_unknown_clock
          else if list_ex (\<lambda>s. sig_clock_id s \<notin> clock_ids) (mul_signals i) then Inl Signal_unknown_clock
          else Inr i))"

record CycleTraceInterface =
  cyc_top_module :: Identifier
  cyc_clock :: ClockSpec
  cyc_reset :: ResetSpec
  cyc_command_width :: int
  cyc_response_width :: int
  cyc_trace_width :: int

definition CycleTraceInterface_validate ::
    "CycleTraceInterface \<Rightarrow> field_error + CycleTraceInterface" where
  "CycleTraceInterface_validate i =
     bind_result (ClockSpec_validate (cyc_clock i)) (\<lambda>_.
       if \<not> (1 \<le> cyc_command_width i \<and> cyc_command_width i \<le> 65536
              \<and> 1 \<le> cyc_response_width i \<and> cyc_response_width i \<le> 65536
              \<and> 1 \<le> cyc_trace_width i \<and> cyc_trace_width i \<le> 65536) then Inl Field_range
       else if rst_clock_id (cyc_reset i) \<noteq> clk_clock_id (cyc_clock i) then Inl Reset_clock_mismatch
       else Inr i)"

record WorkspaceInterface =
  wsp_submission_paths :: "string list"

text \<open>
  \<open>left in right.parents\<close> of two relative paths: the components of the one are a proper prefix of
  the components of the other.
\<close>

fun overlapping_pair :: "string list list \<Rightarrow> bool" where
  "overlapping_pair [] = False"
| "overlapping_pair (l # ls) =
     (list_ex (\<lambda>r. strict_prefix l r \<or> strict_prefix r l) ls \<or> overlapping_pair ls)"

definition WorkspaceInterface_validate :: "WorkspaceInterface \<Rightarrow> field_error + WorkspaceInterface" where
  "WorkspaceInterface_validate raw =
     bind_result (case map_result validate_relative_path (wsp_submission_paths raw) of
                    Inl _ \<Rightarrow> Inl Bad_path | Inr ps \<Rightarrow> Inr (sort ps)) (\<lambda>paths.
       if paths = [] \<or> \<not> distinct paths \<or> overlapping_pair (map posix_parts paths)
       then Inl Submission_paths_overlap
       else Inr (raw\<lparr>wsp_submission_paths := paths\<rparr>))"

datatype InterfaceSpec = Interface_Scalar ScalarInterface | Interface_Stream StreamInterface
  | Interface_Mmio MmioInterface | Interface_BusBridge BusBridgeInterface
  | Interface_MemoryMaster MemoryMasterInterface | Interface_MultiClock MultiClockInterface
  | Interface_CycleTrace CycleTraceInterface | Interface_Workspace WorkspaceInterface

fun InterfaceSpec_validate :: "InterfaceSpec \<Rightarrow> field_error + InterfaceSpec" where
  "InterfaceSpec_validate (Interface_Scalar i) =
     bind_result (ScalarInterface_validate i) (\<lambda>i. Inr (Interface_Scalar i))"
| "InterfaceSpec_validate (Interface_Stream i) =
     bind_result (StreamInterface_validate i) (\<lambda>i. Inr (Interface_Stream i))"
| "InterfaceSpec_validate (Interface_Mmio i) =
     bind_result (MmioInterface_validate i) (\<lambda>i. Inr (Interface_Mmio i))"
| "InterfaceSpec_validate (Interface_BusBridge i) =
     bind_result (BusBridgeInterface_validate i) (\<lambda>i. Inr (Interface_BusBridge i))"
| "InterfaceSpec_validate (Interface_MemoryMaster i) =
     bind_result (MemoryMasterInterface_validate i) (\<lambda>i. Inr (Interface_MemoryMaster i))"
| "InterfaceSpec_validate (Interface_MultiClock i) =
     bind_result (MultiClockInterface_validate i) (\<lambda>i. Inr (Interface_MultiClock i))"
| "InterfaceSpec_validate (Interface_CycleTrace i) =
     bind_result (CycleTraceInterface_validate i) (\<lambda>i. Inr (Interface_CycleTrace i))"
| "InterfaceSpec_validate (Interface_Workspace i) =
     bind_result (WorkspaceInterface_validate i) (\<lambda>i. Inr (Interface_Workspace i))"

end
