(* ===== verification/TaskModel.thy ===== *)
theory TaskModel
  imports TaskInterfaces
begin

section \<open>Task specifications and the evaluator graph\<close>

text \<open>
  Models the rest of \<open>src/edagym/specs/task.py\<close>: parameter domains, resources, the contract, the
  evaluation graph, measurements, the scorer, qualification, origins and \<open>TaskSpec\<close>, whose model
  validator \<open>validate_task\<close> is split along its own paragraphs. The digests that hash a canonical
  encoding are the fields of the parameter record \<open>task_digests\<close>. The nested function \<open>visit\<close> has
  a fuel argument; the number of stages plus one is enough, and its two results (a cycle is
  rejected, an acyclic graph is accepted) are proved against the dependency relation.
\<close>

subsection \<open>Enumerations and errors\<close>

datatype RequirementKind = BEHAVIORAL | TEMPORAL | STRUCTURAL
datatype StagePurpose = HARD_GATE | OBSERVATION
datatype MetricDirection = Metric_NONE | MINIMIZE | MAXIMIZE | TARGET
datatype Aggregation = MINIMUM | MAXIMUM | MEAN | MEDIAN | WORST

datatype (plugins only: code size) MeasurementUnit = Unit_DIMENSIONLESS | Unit_BOOLEAN | Unit_COUNT
  | Unit_BYTE | Unit_SECOND | Unit_NANOSECOND | Unit_PICOSECOND | Unit_HERTZ | Unit_MEGAHERTZ
  | Unit_WATT | Unit_MILLIWATT | Unit_MICROWATT | Unit_VOLT | Unit_AMPERE | Unit_OHM | Unit_FARAD
  | Unit_MICROMETER | Unit_SQUARE_MICROMETER | Unit_PERCENT

datatype DifficultyRelation = INCREASES | DECREASES | NON_MONOTONIC | EMPIRICAL

datatype (plugins only: code size) task_error = Field_error field_error
  | Flow_interface_pairing | Resource_ids | Resource_paths | Resource_unknown_dependency
  | Resource_self_dependency | Visibility_entries | Licensing_entries | Origin_unknown_resource
  | Origin_license_mismatch | Public_sensitivity | Public_redistribution | Participant_secret
  | Not_projection_closed | Unknown_reference | Scorer_without_measurements | Scorer_resource
  | Behavior_hidden | Qualification_visible | Evaluator_ids | Stage_ids | Stage_unknown_evaluator
  | Stage_unknown_dependency | Stage_self_dependency | Stage_unknown_requirement | Stage_cycle
  | No_hard_gate | Requirement_coverage | Measurement_ids | No_objective | Scorer_unknown_term
  | Measurement_unknown_stage | Absent_library_digest | Measurement_library | Repetition_mismatch
  | Axis_ids | Axis_unknown_parameter | Key_error | Recursion_exhausted

subsection \<open>Parameters, resources and contracts\<close>

record IntegerDomain =
  idm_parameter_id :: Identifier
  idm_default :: int
  idm_minimum :: int
  idm_maximum :: int
  idm_step :: int

definition IntegerDomain_validate :: "IntegerDomain \<Rightarrow> field_error + IntegerDomain" where
  "IntegerDomain_validate d =
     (if \<not> 0 < idm_step d then Inl Field_range
      else if idm_maximum d < idm_minimum d
              \<or> \<not> (idm_minimum d \<le> idm_default d \<and> idm_default d \<le> idm_maximum d)
      then Inl Integer_bounds
      else if (idm_default d - idm_minimum d) mod idm_step d \<noteq> 0 then Inl Integer_step
      else Inr d)"

record BooleanDomain =
  bdm_parameter_id :: Identifier
  bdm_default :: bool

record ChoiceDomain =
  cdm_parameter_id :: Identifier
  cdm_default :: string
  cdm_choices :: "string list"

definition ChoiceDomain_validate :: "ChoiceDomain \<Rightarrow> field_error + ChoiceDomain" where
  "ChoiceDomain_validate raw =
     (if cdm_choices raw = [] \<or> \<not> distinct (cdm_choices raw) then Inl Choice_values
      else let d = raw\<lparr>cdm_choices := sort (cdm_choices raw)\<rparr>
           in if cdm_default d \<notin> set (cdm_choices d) then Inl Choice_default else Inr d)"

datatype ParameterDomain = Domain_Integer IntegerDomain | Domain_Boolean BooleanDomain
  | Domain_Choice ChoiceDomain

fun parameter_id :: "ParameterDomain \<Rightarrow> Identifier" where
  "parameter_id (Domain_Integer d) = idm_parameter_id d"
| "parameter_id (Domain_Boolean d) = bdm_parameter_id d"
| "parameter_id (Domain_Choice d) = cdm_parameter_id d"

fun ParameterDomain_validate :: "ParameterDomain \<Rightarrow> field_error + ParameterDomain" where
  "ParameterDomain_validate (Domain_Integer d) =
     bind_result (IntegerDomain_validate d) (\<lambda>d. Inr (Domain_Integer d))"
| "ParameterDomain_validate (Domain_Boolean d) = Inr (Domain_Boolean d)"
| "ParameterDomain_validate (Domain_Choice d) =
     bind_result (ChoiceDomain_validate d) (\<lambda>d. Inr (Domain_Choice d))"

record ResourceSpec =
  res_resource_id :: Identifier
  res_content_digest :: Digest
  res_media_type :: string
  res_path :: string
  res_dependencies :: "Identifier list"

definition ResourceSpec_validate :: "ResourceSpec \<Rightarrow> field_error + ResourceSpec" where
  "ResourceSpec_validate r =
     (if \<not> (1 \<le> length (res_media_type r) \<and> length (res_media_type r) \<le> 120) then Inl Field_range
      else case validate_relative_path (res_path r) of
        Inl _ \<Rightarrow> Inl Bad_path
      | Inr path \<Rightarrow>
          bind_result (sorted_unique References_not_unique (res_dependencies r)) (\<lambda>dependencies.
            Inr (r\<lparr>res_path := path, res_dependencies := dependencies\<rparr>)))"

record ResourceVisibility =
  vis_resource_id :: Identifier
  vis_visibility :: Visibility
  vis_sensitivity :: Sensitivity

record ResourceLicense =
  lic_resource_id :: Identifier
  lic_spdx_expression :: string
  lic_redistribution :: Redistribution
  lic_provenance :: "string list"

definition ResourceLicense_validate :: "ResourceLicense \<Rightarrow> field_error + ResourceLicense" where
  "ResourceLicense_validate l =
     (if \<not> (1 \<le> length (lic_spdx_expression l) \<and> length (lic_spdx_expression l) \<le> 160)
      then Inl Field_range
      else bind_result (sorted_unique References_not_unique (lic_provenance l)) (\<lambda>provenance.
             Inr (l\<lparr>lic_provenance := provenance\<rparr>)))"

record GeneratorSpec =
  gen_implementation_resource :: Identifier
  gen_implementation_digest :: Digest
  gen_seed_bits :: int
  gen_parameters :: "ParameterDomain list"

definition GeneratorSpec_validate :: "GeneratorSpec \<Rightarrow> field_error + GeneratorSpec" where
  "GeneratorSpec_validate g =
     (if gen_seed_bits g \<notin> {32, 64, 128} then Inl Bad_literal
      else bind_result (map_result ParameterDomain_validate (gen_parameters g)) (\<lambda>parameters.
        let sorted_parameters = sort_key parameter_id parameters
        in if \<not> distinct (map parameter_id sorted_parameters) then Inl References_not_unique
           else Inr (g\<lparr>gen_parameters := sorted_parameters\<rparr>)))"

record RequirementSpec =
  req_requirement_id :: Identifier
  req_kind :: RequirementKind
  req_description :: string

definition RequirementSpec_validate :: "RequirementSpec \<Rightarrow> field_error + RequirementSpec" where
  "RequirementSpec_validate r =
     (if \<not> (1 \<le> length (req_description r) \<and> length (req_description r) \<le> 500) then Inl Field_range
      else Inr r)"

record ContractSpec =
  con_public_behavior_resource :: Identifier
  con_allowed_freedoms :: "Identifier list"
  con_requirements :: "RequirementSpec list"

definition ContractSpec_validate :: "ContractSpec \<Rightarrow> field_error + ContractSpec" where
  "ContractSpec_validate c =
     bind_result (sorted_unique References_not_unique (con_allowed_freedoms c)) (\<lambda>freedoms.
     bind_result (map_result RequirementSpec_validate (con_requirements c)) (\<lambda>requirements.
       let sorted_requirements = sort_key req_requirement_id requirements;
           identifiers = map req_requirement_id sorted_requirements
       in if identifiers = [] \<or> \<not> distinct identifiers then Inl Requirements_not_unique
          else Inr (c\<lparr>con_allowed_freedoms := freedoms, con_requirements := sorted_requirements\<rparr>)))"

subsection \<open>The evaluation graph\<close>

record EvaluatorSpec =
  evl_evaluator_id :: Identifier
  evl_capability :: Capability
  evl_supporting_capabilities :: "Capability list"
  evl_implementation_resource :: Identifier
  evl_revision_digest :: Digest

definition EvaluatorSpec_validate :: "EvaluatorSpec \<Rightarrow> field_error + EvaluatorSpec" where
  "EvaluatorSpec_validate raw =
     (if \<not> distinct (evl_supporting_capabilities raw) then Inl References_not_unique
      else let e = raw\<lparr>evl_supporting_capabilities :=
                         sort_key capability_value (evl_supporting_capabilities raw)\<rparr>
           in if evl_capability e \<in> set (evl_supporting_capabilities e) then Inl Primary_is_supporting
              else Inr e)"

record StageSpec =
  stg_stage_id :: Identifier
  stg_evaluator_id :: Identifier
  stg_depends_on :: "Identifier list"
  stg_purpose :: StagePurpose
  stg_requirement_ids :: "Identifier list"

definition StageSpec_validate :: "StageSpec \<Rightarrow> field_error + StageSpec" where
  "StageSpec_validate s =
     bind_result (sorted_unique References_not_unique (stg_depends_on s)) (\<lambda>depends_on.
     bind_result (sorted_unique References_not_unique (stg_requirement_ids s)) (\<lambda>requirement_ids.
       Inr (s\<lparr>stg_depends_on := depends_on, stg_requirement_ids := requirement_ids\<rparr>)))"

record MeasurementSpec =
  msp_measurement_id :: Identifier
  msp_producer_stage_id :: Identifier
  msp_unit :: MeasurementUnit
  msp_library_id :: Identifier
  msp_library_digest :: Digest
  msp_corner :: Identifier
  msp_mode :: Identifier
  msp_direction :: MetricDirection
  msp_repetitions :: int
  msp_aggregation :: Aggregation
  msp_aggregation_precision_digits :: int
  msp_valid_minimum :: "CanonicalDecimal option"
  msp_valid_maximum :: "CanonicalDecimal option"
  msp_target :: "CanonicalDecimal option"

definition MeasurementSpec_validate :: "MeasurementSpec \<Rightarrow> field_error + MeasurementSpec" where
  "MeasurementSpec_validate m =
     (if \<not> (1 \<le> msp_repetitions m \<and> msp_repetitions m \<le> 1000
            \<and> 1 \<le> msp_aggregation_precision_digits m \<and> msp_aggregation_precision_digits m \<le> 100)
      then Inl Field_range
      else if (case (msp_valid_minimum m, msp_valid_maximum m) of
                 (Some lo, Some hi) \<Rightarrow> hi < lo | _ \<Rightarrow> False) then Inl Measurement_min_max
      else if msp_direction m = TARGET \<and> msp_target m = None then Inl Target_missing
      else if msp_direction m \<noteq> TARGET \<and> msp_target m \<noteq> None then Inl Target_unexpected
      else if msp_aggregation m = WORST \<and> msp_direction m = Metric_NONE
      then Inl Worst_without_direction
      else Inr m)"

record ScorerTerm =
  trm_measurement_id :: Identifier
  trm_coefficient :: CanonicalDecimal

definition ScorerTerm_validate :: "ScorerTerm \<Rightarrow> field_error + ScorerTerm" where
  "ScorerTerm_validate t = (if trm_coefficient t = 0 then Inl Zero_coefficient else Inr t)"

record ScorerRef =
  scr_implementation_resource :: Identifier
  scr_direction :: MetricDirection
  scr_precision_digits :: int
  scr_intercept :: CanonicalDecimal
  scr_terms :: "ScorerTerm list"

definition MAX_SCORER_TERMS :: nat where
  "MAX_SCORER_TERMS = 1000"

definition ScorerRef_validate :: "ScorerRef \<Rightarrow> field_error + ScorerRef" where
  "ScorerRef_validate s =
     (if scr_direction s \<notin> {MINIMIZE, MAXIMIZE} then Inl Bad_literal
      else if \<not> (1 \<le> scr_precision_digits s \<and> scr_precision_digits s \<le> 100
                 \<and> 1 \<le> length (scr_terms s) \<and> length (scr_terms s) \<le> MAX_SCORER_TERMS)
      then Inl Field_range
      else bind_result (map_result ScorerTerm_validate (scr_terms s)) (\<lambda>terms.
           bind_result (sorted_unique_by trm_measurement_id References_not_unique terms) (\<lambda>terms.
             Inr (s\<lparr>scr_terms := terms\<rparr>))))"

record EvaluationGraph =
  grf_evaluators :: "EvaluatorSpec list"
  grf_stages :: "StageSpec list"
  grf_scorer :: "ScorerRef option"

definition EvaluationGraph_validate :: "EvaluationGraph \<Rightarrow> field_error + EvaluationGraph" where
  "EvaluationGraph_validate g =
     bind_result (map_result EvaluatorSpec_validate (grf_evaluators g)) (\<lambda>evaluators.
     bind_result (map_result StageSpec_validate (grf_stages g)) (\<lambda>stages.
     bind_result (case grf_scorer g of None \<Rightarrow> Inr None
                  | Some s \<Rightarrow> bind_result (ScorerRef_validate s) (\<lambda>s. Inr (Some s))) (\<lambda>scorer.
       Inr \<lparr>grf_evaluators = sort_key evl_evaluator_id evaluators,
            grf_stages = sort_key stg_stage_id stages,
            grf_scorer = scorer\<rparr>)))"

record DifficultyAxis =
  axs_axis_id :: Identifier
  axs_parameter_id :: Identifier
  axs_relation :: DifficultyRelation

subsection \<open>Qualification and origin\<close>

record QualificationSpec =
  qua_sail_oracle_resource :: Identifier
  qua_known_answer_resources :: "Identifier list"
  qua_reference_candidate_resource :: Identifier
  qua_mutant_resources :: "Identifier list"
  qua_cross_check_resources :: "Identifier list"
  qua_required_simulators :: int
  qua_require_formal :: bool
  qua_temporal_rule_ids :: "Identifier list"
  qua_structural_rule_ids :: "Identifier list"

definition QualificationSpec_validate :: "QualificationSpec \<Rightarrow> field_error + QualificationSpec" where
  "QualificationSpec_validate raw =
     (if \<not> 1 \<le> qua_required_simulators raw then Inl Field_range
      else
        bind_result (sorted_unique References_not_unique (qua_known_answer_resources raw)) (\<lambda>known.
        bind_result (sorted_unique References_not_unique (qua_mutant_resources raw)) (\<lambda>mutants.
        bind_result (sorted_unique References_not_unique (qua_cross_check_resources raw)) (\<lambda>cross.
        bind_result (sorted_unique References_not_unique (qua_temporal_rule_ids raw)) (\<lambda>temporal.
        bind_result (sorted_unique References_not_unique (qua_structural_rule_ids raw)) (\<lambda>structural.
          if known = [] then Inl No_known_answers
          else if length mutants < 3 then Inl Too_few_mutants
          else if temporal = [] \<or> structural = [] then Inl Missing_rules
          else Inr (raw\<lparr>qua_known_answer_resources := known, qua_mutant_resources := mutants,
                        qua_cross_check_resources := cross, qua_temporal_rule_ids := temporal,
                        qua_structural_rule_ids := structural\<rparr>)))))))"

record FlowQualificationSpec =
  flq_authoring_source_resource :: Identifier
  flq_feasibility_witness_resource :: Identifier
  flq_negative_candidate_resources :: "Identifier list"

definition FlowQualificationSpec_validate ::
    "FlowQualificationSpec \<Rightarrow> field_error + FlowQualificationSpec" where
  "FlowQualificationSpec_validate q =
     (if flq_negative_candidate_resources q = [] \<or> \<not> distinct (flq_negative_candidate_resources q)
      then Inl Negative_candidates
      else Inr (q\<lparr>flq_negative_candidate_resources := sort (flq_negative_candidate_resources q)\<rparr>))"

datatype TaskQualificationSpec = Qualification_SailRtl QualificationSpec
  | Qualification_EdaFlow FlowQualificationSpec

fun TaskQualificationSpec_validate ::
    "TaskQualificationSpec \<Rightarrow> field_error + TaskQualificationSpec" where
  "TaskQualificationSpec_validate (Qualification_SailRtl q) =
     bind_result (QualificationSpec_validate q) (\<lambda>q. Inr (Qualification_SailRtl q))"
| "TaskQualificationSpec_validate (Qualification_EdaFlow q) =
     bind_result (FlowQualificationSpec_validate q) (\<lambda>q. Inr (Qualification_EdaFlow q))"

record NativeSealedTaskOrigin =
  nso_provenance :: "string list"

record PublicCalibrationTaskOrigin =
  pco_source_id :: Identifier
  pco_source_snapshot_digest :: Digest
  pco_source_resource_ids :: "Identifier list"
  pco_license_spdx_expression :: string
  pco_redistribution :: Redistribution
  pco_provenance :: "string list"

text \<open>\<open>not entry.strip()\<close>: the entry is empty or whitespace only.\<close>

definition is_blank :: "string \<Rightarrow> bool" where
  "is_blank s \<longleftrightarrow> list_all (\<lambda>c. (of_char c :: nat) \<in> {9, 10, 11, 12, 13, 28, 29, 30, 31, 32, 133, 160}) s"

definition PublicCalibrationTaskOrigin_validate ::
    "PublicCalibrationTaskOrigin \<Rightarrow> field_error + PublicCalibrationTaskOrigin" where
  "PublicCalibrationTaskOrigin_validate o' =
     (if pco_source_resource_ids o' = [] \<or> pco_provenance o' = []
         \<or> \<not> (1 \<le> length (pco_license_spdx_expression o') \<and> length (pco_license_spdx_expression o') \<le> 160)
      then Inl Field_range
      else bind_result (sorted_unique References_not_unique (pco_source_resource_ids o')) (\<lambda>resources.
        if \<not> distinct (pco_provenance o') \<or> list_ex is_blank (pco_provenance o')
        then Inl Public_provenance
        else Inr (o'\<lparr>pco_source_resource_ids := resources,
                     pco_provenance := sort (pco_provenance o')\<rparr>)))"

datatype TaskOrigin = Origin_NativeSealed NativeSealedTaskOrigin
  | Origin_PublicCalibration PublicCalibrationTaskOrigin

fun TaskOrigin_validate :: "TaskOrigin \<Rightarrow> field_error + TaskOrigin" where
  "TaskOrigin_validate (Origin_NativeSealed o') =
     bind_result (sorted_unique References_not_unique (nso_provenance o')) (\<lambda>provenance.
       Inr (Origin_NativeSealed (o'\<lparr>nso_provenance := provenance\<rparr>)))"
| "TaskOrigin_validate (Origin_PublicCalibration o') =
     bind_result (PublicCalibrationTaskOrigin_validate o') (\<lambda>o'. Inr (Origin_PublicCalibration o'))"

record TaskIdentity =
  idn_family :: Identifier
  idn_authoring_revision :: int
  idn_origin :: TaskOrigin

definition TaskIdentity_validate :: "TaskIdentity \<Rightarrow> field_error + TaskIdentity" where
  "TaskIdentity_validate i =
     (if \<not> 1 \<le> idn_authoring_revision i then Inl Field_range
      else bind_result (TaskOrigin_validate (idn_origin i)) (\<lambda>origin. Inr (i\<lparr>idn_origin := origin\<rparr>)))"

record TaskSpec =
  tsk_identity :: TaskIdentity
  tsk_interface :: InterfaceSpec
  tsk_generator :: GeneratorSpec
  tsk_contract :: ContractSpec
  tsk_resources :: "ResourceSpec list"
  tsk_visibility :: "ResourceVisibility list"
  tsk_evaluation :: EvaluationGraph
  tsk_measurements :: "MeasurementSpec list"
  tsk_difficulty_axes :: "DifficultyAxis list"
  tsk_qualification :: TaskQualificationSpec
  tsk_licensing :: "ResourceLicense list"

text \<open>
  Digests of canonical encodings: the scorer's raw and domain-separated definition digests, the
  digest of the absent library, and the digest of the whole task.
\<close>

record task_digests =
  dg_scorer_implementation :: "ScorerRef \<Rightarrow> Digest"
  dg_scorer_revision :: "ScorerRef \<Rightarrow> Digest"
  dg_not_applicable_library :: Digest
  dg_task_spec :: "TaskSpec \<Rightarrow> Digest"
  dg_measurement_schema :: "MeasurementSpec list \<Rightarrow> Digest"

subsection \<open>The model validator of \<open>TaskSpec\<close>\<close>

definition is_flow_qualification :: "TaskQualificationSpec \<Rightarrow> bool" where
  "is_flow_qualification q = (case q of Qualification_EdaFlow _ \<Rightarrow> True | _ \<Rightarrow> False)"

definition is_workspace_interface :: "InterfaceSpec \<Rightarrow> bool" where
  "is_workspace_interface i = (case i of Interface_Workspace _ \<Rightarrow> True | _ \<Rightarrow> False)"

definition check_resources :: "TaskSpec \<Rightarrow> task_error + unit" where
  "check_resources t =
     (let resources = dict_of res_resource_id id (tsk_resources t) in
      if is_flow_qualification (tsk_qualification t) \<noteq> is_workspace_interface (tsk_interface t)
      then Inl Flow_interface_pairing
      else if length resources \<noteq> length (tsk_resources t) \<or> resources = [] then Inl Resource_ids
      else if \<not> distinct (map res_path (tsk_resources t)) then Inl Resource_paths
      else check_each (\<lambda>r.
             if \<not> set (res_dependencies r) \<subseteq> set (dict_keys resources)
             then Inl Resource_unknown_dependency
             else if res_resource_id r \<in> set (res_dependencies r) then Inl Resource_self_dependency
             else Inr ()) (tsk_resources t))"

definition check_origin :: "TaskSpec \<Rightarrow> task_error + unit" where
  "check_origin t =
     (case idn_origin (tsk_identity t) of
        Origin_NativeSealed _ \<Rightarrow> Inr ()
      | Origin_PublicCalibration origin \<Rightarrow>
          let source_resources = set (pco_source_resource_ids origin) in
          if \<not> source_resources \<subseteq> set (map res_resource_id (tsk_resources t))
          then Inl Origin_unknown_resource
          else if list_ex (\<lambda>item. lic_resource_id item \<in> source_resources
                    \<and> (lic_spdx_expression item, lic_redistribution item, lic_provenance item)
                      \<noteq> (pco_license_spdx_expression origin, pco_redistribution origin,
                         pco_provenance origin)) (tsk_licensing t)
          then Inl Origin_license_mismatch
          else Inr ())"

definition check_visibility_entry ::
    "(Identifier, ResourceLicense) dict \<Rightarrow> Identifier \<times> ResourceVisibility \<Rightarrow> task_error + unit" where
  "check_visibility_entry licenses entry =
     (let resource_id = fst entry; item = snd entry in
        case dict_get licenses resource_id of
          None \<Rightarrow> Inl Key_error
        | Some license_item \<Rightarrow>
            if vis_visibility item = Visibility_PUBLIC \<and> vis_sensitivity item \<noteq> Sensitivity_PUBLIC
            then Inl Public_sensitivity
            else if vis_visibility item = Visibility_PUBLIC
                    \<and> lic_redistribution license_item \<noteq> Redistribution_ALLOWED
            then Inl Public_redistribution
            else if vis_visibility item = Visibility_PARTICIPANT
                    \<and> vis_sensitivity item = Sensitivity_SECRET
            then Inl Participant_secret
            else Inr ())"

definition check_visibility :: "TaskSpec \<Rightarrow> task_error + unit" where
  "check_visibility t =
     (let resources = set (map res_resource_id (tsk_resources t));
          visibility = dict_of vis_resource_id id (tsk_visibility t);
          licenses = dict_of lic_resource_id id (tsk_licensing t)
      in if length visibility \<noteq> length (tsk_visibility t) \<or> set (dict_keys visibility) \<noteq> resources
         then Inl Visibility_entries
         else if length licenses \<noteq> length (tsk_licensing t) \<or> set (dict_keys licenses) \<noteq> resources
         then Inl Licensing_entries
         else bind_result (check_origin t) (\<lambda>_.
              check_each (check_visibility_entry licenses) visibility))"

fun visible_dependencies :: "Visibility \<Rightarrow> Visibility set" where
  "visible_dependencies Visibility_PUBLIC = {Visibility_PUBLIC}"
| "visible_dependencies Visibility_PARTICIPANT = {Visibility_PUBLIC, Visibility_PARTICIPANT}"
| "visible_dependencies Visibility_REVIEWER =
     {Visibility_PUBLIC, Visibility_PARTICIPANT, Visibility_REVIEWER}"
| "visible_dependencies Visibility_VERIFIER =
     {Visibility_PUBLIC, Visibility_PARTICIPANT, Visibility_VERIFIER}"
| "visible_dependencies Visibility_AUTHOR =
     {Visibility_PUBLIC, Visibility_PARTICIPANT, Visibility_REVIEWER, Visibility_VERIFIER,
      Visibility_AUTHOR}"

definition check_projection_closed :: "TaskSpec \<Rightarrow> task_error + unit" where
  "check_projection_closed t =
     (let visibility = dict_of vis_resource_id id (tsk_visibility t) in
      check_each (\<lambda>r.
        case dict_get visibility (res_resource_id r) of
          None \<Rightarrow> Inl Key_error
        | Some owner \<Rightarrow>
            check_each (\<lambda>d. case dict_get visibility d of
                None \<Rightarrow> Inl Key_error
              | Some item \<Rightarrow>
                  if vis_visibility item \<notin> visible_dependencies (vis_visibility owner)
                  then Inl Not_projection_closed else Inr ()) (res_dependencies r))
        (tsk_resources t))"

fun qualification_resources :: "TaskQualificationSpec \<Rightarrow> Identifier list" where
  "qualification_resources (Qualification_SailRtl q) =
     qua_sail_oracle_resource q # qua_known_answer_resources q
     @ qua_reference_candidate_resource q # qua_mutant_resources q @ qua_cross_check_resources q"
| "qualification_resources (Qualification_EdaFlow q) =
     flq_authoring_source_resource q # flq_feasibility_witness_resource q
     # flq_negative_candidate_resources q"

fun hidden_qualification_resources :: "TaskQualificationSpec \<Rightarrow> Identifier list" where
  "hidden_qualification_resources (Qualification_SailRtl q) =
     qua_sail_oracle_resource q # qua_known_answer_resources q
     @ qua_reference_candidate_resource q # qua_mutant_resources q"
| "hidden_qualification_resources (Qualification_EdaFlow q) =
     qualification_resources (Qualification_EdaFlow q)"

definition referenced_resources :: "TaskSpec \<Rightarrow> Identifier list" where
  "referenced_resources t =
     gen_implementation_resource (tsk_generator t)
     # con_public_behavior_resource (tsk_contract t)
     # map evl_implementation_resource (grf_evaluators (tsk_evaluation t))
     @ (case grf_scorer (tsk_evaluation t) of None \<Rightarrow> [] | Some s \<Rightarrow> [scr_implementation_resource s])
     @ qualification_resources (tsk_qualification t)"

definition check_scorer_binding :: "task_digests \<Rightarrow> TaskSpec \<Rightarrow> task_error + unit" where
  "check_scorer_binding dg t =
     (case grf_scorer (tsk_evaluation t) of
        None \<Rightarrow> Inr ()
      | Some scorer \<Rightarrow>
          if tsk_measurements t = [] then Inl Scorer_without_measurements
          else case dict_get (dict_of res_resource_id id (tsk_resources t))
                      (scr_implementation_resource scorer) of
            None \<Rightarrow> Inl Key_error
          | Some r \<Rightarrow>
              if res_media_type r \<noteq> ''application/json''
                 \<or> res_content_digest r \<noteq> dg_scorer_implementation dg scorer
              then Inl Scorer_resource else Inr ())"

definition check_references :: "task_digests \<Rightarrow> TaskSpec \<Rightarrow> task_error + unit" where
  "check_references dg t =
     (let resources = set (map res_resource_id (tsk_resources t));
          visibility = dict_of vis_resource_id id (tsk_visibility t)
      in if \<not> set (referenced_resources t) \<subseteq> resources then Inl Unknown_reference
         else bind_result (check_scorer_binding dg t) (\<lambda>_.
              case dict_get visibility (con_public_behavior_resource (tsk_contract t)) of
                None \<Rightarrow> Inl Key_error
              | Some behavior \<Rightarrow>
                  if vis_visibility behavior \<notin> {Visibility_PUBLIC, Visibility_PARTICIPANT}
                  then Inl Behavior_hidden
                  else check_each (\<lambda>r. case dict_get visibility r of
                           None \<Rightarrow> Inl Key_error
                         | Some item \<Rightarrow>
                             if vis_visibility item \<in> {Visibility_PUBLIC, Visibility_PARTICIPANT}
                             then Inl Qualification_visible else Inr ())
                         (hidden_qualification_resources (tsk_qualification t))))"

definition check_stages :: "TaskSpec \<Rightarrow> task_error + unit" where
  "check_stages t =
     (let evaluators = dict_of evl_evaluator_id id (grf_evaluators (tsk_evaluation t));
          stages = dict_of stg_stage_id id (grf_stages (tsk_evaluation t));
          requirements = set (map req_requirement_id (con_requirements (tsk_contract t)))
      in if length evaluators \<noteq> length (grf_evaluators (tsk_evaluation t)) \<or> evaluators = []
         then Inl Evaluator_ids
         else if length stages \<noteq> length (grf_stages (tsk_evaluation t)) \<or> stages = []
         then Inl Stage_ids
         else check_each (\<lambda>stage.
                if stg_evaluator_id stage \<notin> set (dict_keys evaluators) then Inl Stage_unknown_evaluator
                else if \<not> set (stg_depends_on stage) \<subseteq> set (dict_keys stages)
                then Inl Stage_unknown_dependency
                else if stg_stage_id stage \<in> set (stg_depends_on stage) then Inl Stage_self_dependency
                else if \<not> set (stg_requirement_ids stage) \<subseteq> requirements
                then Inl Stage_unknown_requirement
                else Inr ()) (grf_stages (tsk_evaluation t)))"

text \<open>The depth-first search of the nested function \<open>visit\<close>, its two sets as the loop state.\<close>

fun visit :: "nat \<Rightarrow> (Identifier, StageSpec) dict \<Rightarrow> Identifier \<Rightarrow> Identifier set \<times> Identifier set
    \<Rightarrow> task_error + Identifier set \<times> Identifier set" where
  "visit 0 stages stage_id sets = Inl Recursion_exhausted"
| "visit (Suc fuel) stages stage_id (visiting, visited) =
     (if stage_id \<in> visiting then Inl Stage_cycle
      else if stage_id \<in> visited then Inr (visiting, visited)
      else case dict_get stages stage_id of
        None \<Rightarrow> Inl Key_error
      | Some stage \<Rightarrow>
          bind_result
            (fold_result (\<lambda>sets dependency. visit fuel stages dependency sets)
              (insert stage_id visiting, visited) (stg_depends_on stage))
            (\<lambda>(visiting', visited'). Inr (visiting' - {stage_id}, insert stage_id visited')))"

definition check_acyclic :: "StageSpec list \<Rightarrow> task_error + unit" where
  "check_acyclic stage_list =
     (let stages = dict_of stg_stage_id id stage_list in
      bind_result
        (fold_result (\<lambda>sets stage_id. visit (Suc (length stages)) stages stage_id sets)
          ({}, {}) (dict_keys stages))
        (\<lambda>_. Inr ()))"

definition hard_gates :: "TaskSpec \<Rightarrow> StageSpec list" where
  "hard_gates t = filter (\<lambda>stage. stg_purpose stage = HARD_GATE) (grf_stages (tsk_evaluation t))"

definition check_hard_gates :: "TaskSpec \<Rightarrow> task_error + unit" where
  "check_hard_gates t =
     (if hard_gates t = [] then Inl No_hard_gate
      else if set (concat (map stg_requirement_ids (hard_gates t)))
              \<noteq> set (map req_requirement_id (con_requirements (tsk_contract t)))
      then Inl Requirement_coverage
      else Inr ())"

definition check_measurement_library :: "task_digests \<Rightarrow> TaskSpec \<Rightarrow> MeasurementSpec \<Rightarrow> task_error + unit" where
  "check_measurement_library dg t m =
     (if msp_producer_stage_id m \<notin> set (map stg_stage_id (grf_stages (tsk_evaluation t)))
      then Inl Measurement_unknown_stage
      else if msp_library_id m = ''not_applicable''
      then if msp_library_digest m \<noteq> dg_not_applicable_library dg then Inl Absent_library_digest
           else Inr ()
      else case dict_get (dict_of res_resource_id id (tsk_resources t)) (msp_library_id m) of
        None \<Rightarrow> Inl Measurement_library
      | Some library \<Rightarrow>
          if res_content_digest library \<noteq> msp_library_digest m then Inl Measurement_library
          else Inr ())"

definition repetitions_of_stage :: "TaskSpec \<Rightarrow> Identifier \<Rightarrow> int set" where
  "repetitions_of_stage t stage_id =
     set (map msp_repetitions (filter (\<lambda>m. msp_producer_stage_id m = stage_id) (tsk_measurements t)))"

definition check_measurements :: "task_digests \<Rightarrow> TaskSpec \<Rightarrow> task_error + unit" where
  "check_measurements dg t =
     (let ids = map msp_measurement_id (tsk_measurements t) in
      if \<not> distinct ids then Inl Measurement_ids
      else if tsk_measurements t \<noteq> [] \<and> grf_scorer (tsk_evaluation t) = None
              \<and> list_all (\<lambda>m. msp_direction m = Metric_NONE) (tsk_measurements t)
      then Inl No_objective
      else if (case grf_scorer (tsk_evaluation t) of None \<Rightarrow> False
               | Some s \<Rightarrow> \<not> set (map trm_measurement_id (scr_terms s)) \<subseteq> set ids)
      then Inl Scorer_unknown_term
      else bind_result (check_each (check_measurement_library dg t) (tsk_measurements t)) (\<lambda>_.
        if list_ex (\<lambda>m. card (repetitions_of_stage t (msp_producer_stage_id m)) \<noteq> 1) (tsk_measurements t)
        then Inl Repetition_mismatch
        else Inr ()))"

definition check_axes :: "TaskSpec \<Rightarrow> task_error + unit" where
  "check_axes t =
     (if \<not> distinct (map axs_axis_id (tsk_difficulty_axes t)) then Inl Axis_ids
      else if list_ex (\<lambda>a. axs_parameter_id a \<notin> set (map parameter_id (gen_parameters (tsk_generator t))))
                (tsk_difficulty_axes t)
      then Inl Axis_unknown_parameter
      else Inr ())"

definition validate_task :: "task_digests \<Rightarrow> TaskSpec \<Rightarrow> task_error + TaskSpec" where
  "validate_task dg t =
     bind_result (check_resources t) (\<lambda>_.
     bind_result (check_visibility t) (\<lambda>_.
     bind_result (check_projection_closed t) (\<lambda>_.
     bind_result (check_references dg t) (\<lambda>_.
     bind_result (check_stages t) (\<lambda>_.
     bind_result (check_acyclic (grf_stages (tsk_evaluation t))) (\<lambda>_.
     bind_result (check_hard_gates t) (\<lambda>_.
     bind_result (check_measurements dg t) (\<lambda>_.
     bind_result (check_axes t) (\<lambda>_. Inr t)))))))))"

definition lift_field :: "field_error + 'a \<Rightarrow> task_error + 'a" where
  "lift_field m = (case m of Inl e \<Rightarrow> Inl (Field_error e) | Inr x \<Rightarrow> Inr x)"

text \<open>Construction: every field is validated and normalised, then the model validator runs.\<close>

definition TaskSpec_validate :: "task_digests \<Rightarrow> TaskSpec \<Rightarrow> task_error + TaskSpec" where
  "TaskSpec_validate dg raw =
     bind_result (lift_field (TaskIdentity_validate (tsk_identity raw))) (\<lambda>identity.
     bind_result (lift_field (InterfaceSpec_validate (tsk_interface raw))) (\<lambda>interface.
     bind_result (lift_field (GeneratorSpec_validate (tsk_generator raw))) (\<lambda>generator.
     bind_result (lift_field (ContractSpec_validate (tsk_contract raw))) (\<lambda>contract.
     bind_result (lift_field (map_result ResourceSpec_validate (tsk_resources raw))) (\<lambda>resources.
     bind_result (lift_field (EvaluationGraph_validate (tsk_evaluation raw))) (\<lambda>evaluation.
     bind_result (lift_field (map_result MeasurementSpec_validate (tsk_measurements raw))) (\<lambda>measurements.
     bind_result (lift_field (TaskQualificationSpec_validate (tsk_qualification raw))) (\<lambda>qualification.
     bind_result (lift_field (map_result ResourceLicense_validate (tsk_licensing raw))) (\<lambda>licensing.
       validate_task dg
         \<lparr>tsk_identity = identity, tsk_interface = interface, tsk_generator = generator,
          tsk_contract = contract,
          tsk_resources = sort_key res_resource_id resources,
          tsk_visibility = sort_key vis_resource_id (tsk_visibility raw),
          tsk_evaluation = evaluation,
          tsk_measurements = sort_key msp_measurement_id measurements,
          tsk_difficulty_axes = sort_key axs_axis_id (tsk_difficulty_axes raw),
          tsk_qualification = qualification,
          tsk_licensing = sort_key lic_resource_id licensing\<rparr>)))))))))"

end
