(* ===== verification/TaskGraph.thy ===== *)
theory TaskGraph
  imports TaskModel
begin

section \<open>What an accepted task guarantees\<close>

text \<open>
  Lemmas about \<open>TaskModel\<close>. The depth-first search of \<open>check_acyclic\<close> is proved sound and
  complete against acyclicity of the dependency relation, with the number of stages plus one as
  sufficient fuel, and the resource visibility checks are shown to close the participant's view
  under dependencies.
\<close>

subsection \<open>The acyclicity check\<close>


definition depends_rel :: "(Identifier, StageSpec) dict \<Rightarrow> (Identifier \<times> Identifier) set" where
  "depends_rel stages = {(d, s). \<exists>stage. dict_get stages s = Some stage \<and> d \<in> set (stg_depends_on stage)}"

definition deps_known :: "(Identifier, StageSpec) dict \<Rightarrow> bool" where
  "deps_known stages \<longleftrightarrow>
     (\<forall>s stage. dict_get stages s = Some stage \<longrightarrow> set (stg_depends_on stage) \<subseteq> set (dict_keys stages))"

abbreviation grounded :: "(Identifier, StageSpec) dict \<Rightarrow> Identifier set" where
  "grounded stages \<equiv> Wellfounded.acc (depends_rel stages)"

lemma visit_fold_sound:
  assumes "\<forall>s P V P' V'. visit fuel stages s (P, V) = Inr (P', V') \<longrightarrow> V \<subseteq> grounded stages \<longrightarrow>
      P' = P \<and> V \<subseteq> V' \<and> s \<in> V' \<and> V' \<subseteq> grounded stages"
  shows "fold_result (\<lambda>sets d. visit fuel stages d sets) (P, V) ds = Inr (P', V') \<Longrightarrow>
      V \<subseteq> grounded stages \<Longrightarrow> P' = P \<and> V \<union> set ds \<subseteq> V' \<and> V' \<subseteq> grounded stages"
proof (induction ds arbitrary: P V)
  case (Cons d ds)
  then obtain P1 V1 where s: "visit fuel stages d (P, V) = Inr (P1, V1)"
    and f: "fold_result (\<lambda>sets d. visit fuel stages d sets) (P1, V1) ds = Inr (P', V')" by auto
  from assms s Cons.prems(2) have "P1 = P" "V \<subseteq> V1" "d \<in> V1" "V1 \<subseteq> grounded stages" by blast+
  with Cons.IH [OF f] show ?case by auto
qed simp

lemma visit_sound:
  "visit fuel stages s (P, V) = Inr (P', V') \<Longrightarrow> V \<subseteq> grounded stages \<Longrightarrow>
     P' = P \<and> V \<subseteq> V' \<and> s \<in> V' \<and> V' \<subseteq> grounded stages"
proof (induction fuel arbitrary: s P V P' V')
  case (Suc fuel)
  show ?case
  proof (cases "s \<in> V")
    case True
    with Suc.prems show ?thesis by (auto split: if_splits)
  next
    case False
    with Suc.prems obtain stage P1 V1 where st: "dict_get stages s = Some stage"
      and f: "fold_result (\<lambda>sets d. visit fuel stages d sets) (insert s P, V) (stg_depends_on stage)
                = Inr (P1, V1)"
      and r: "P' = P1 - {s}" "V' = insert s V1" and n: "s \<notin> P"
      by (auto split: if_splits option.splits)
    have "P1 = insert s P \<and> V \<union> set (stg_depends_on stage) \<subseteq> V1 \<and> V1 \<subseteq> grounded stages"
      by (rule visit_fold_sound [OF _ f Suc.prems(2)]) (use Suc.IH in blast)
    then have v: "P1 = insert s P" "V \<union> set (stg_depends_on stage) \<subseteq> V1" "V1 \<subseteq> grounded stages"
      by simp_all
    have "s \<in> grounded stages"
      using v st by - (rule Wellfounded.accI, auto simp: depends_rel_def)
    with v r n show ?thesis by auto
  qed
qed simp

lemma depends_rel_dom: "(d, s) \<in> depends_rel stages \<Longrightarrow> s \<in> set (dict_keys stages)"
  by (auto simp: depends_rel_def dest: dict_get_Some_keys)

lemma finite_depends_rel: "finite (depends_rel stages)"
proof -
  have "depends_rel stages \<subseteq> (\<Union>(s, stage) \<in> set stages. set (stg_depends_on stage) \<times> {s})"
    by (auto simp: depends_rel_def dest: map_of_SomeD)
  then show ?thesis by (rule finite_subset) auto
qed

lemma grounded_acyclic:
  assumes "set (dict_keys stages) \<subseteq> grounded stages"
  shows "acyclic (depends_rel stages)"
proof -
  have "x \<in> grounded stages" for x
    using assms depends_rel_dom [of _ x stages] by (cases "x \<in> set (dict_keys stages)") (auto intro: Wellfounded.accI)
  then have "wf (depends_rel stages)" by (intro acc_wfI) simp
  then show ?thesis by (rule wf_acyclic)
qed

definition on_path :: "(Identifier, StageSpec) dict \<Rightarrow> Identifier \<Rightarrow> Identifier set \<Rightarrow> bool" where
  "on_path stages s P \<longleftrightarrow> P \<subseteq> set (dict_keys stages) \<and> (\<forall>p\<in>P. (s, p) \<in> (depends_rel stages)\<^sup>+)"

lemma visit_fold_complete:
  assumes "\<And>d V. d \<in> set ds \<Longrightarrow> \<exists>V'. visit fuel stages d (P, V) = Inr (P, V')"
  shows "\<exists>V'. fold_result (\<lambda>sets d. visit fuel stages d sets) (P, V) ds = Inr (P, V')"
  using assms
proof (induction ds arbitrary: V)
  case (Cons d ds)
  obtain V1 where "visit fuel stages d (P, V) = Inr (P, V1)" using Cons.prems by force
  moreover obtain V2 where "fold_result (\<lambda>sets d. visit fuel stages d sets) (P, V1) ds = Inr (P, V2)"
    using Cons by force
  ultimately show ?case by auto
qed simp

lemma visit_complete:
  assumes ac: "acyclic (depends_rel stages)" and known: "deps_known stages"
  shows "on_path stages s P \<Longrightarrow> s \<in> set (dict_keys stages) \<Longrightarrow>
     card (set (dict_keys stages)) < fuel + card P \<Longrightarrow> \<exists>V'. visit fuel stages s (P, V) = Inr (P, V')"
proof (induction fuel arbitrary: s P V)
  case 0
  then show ?case by (auto simp: on_path_def dest!: card_mono [rotated])
next
  case (Suc fuel)
  from Suc.prems ac have n: "s \<notin> P" by (auto simp: on_path_def acyclic_def)
  from Suc.prems(2) obtain stage where st: "dict_get stages s = Some stage"
    by (metis dict_get_None not_None_eq)
  have fin: "finite P" using Suc.prems(1) by (auto simp: on_path_def intro: finite_subset)
  have sub: "d \<in> set (dict_keys stages) \<and> on_path stages d (insert s P)" if "d \<in> set (stg_depends_on stage)" for d
  proof -
    from that st have e: "(d, s) \<in> depends_rel stages" by (auto simp: depends_rel_def)
    with Suc.prems show ?thesis using known st that
      by (auto simp: on_path_def deps_known_def intro: trancl_into_trancl2)
  qed
  have "\<exists>V'. fold_result (\<lambda>sets d. visit fuel stages d sets) (insert s P, V) (stg_depends_on stage)
      = Inr (insert s P, V')"
    by (rule visit_fold_complete, rule Suc.IH) (use sub Suc.prems(3) n fin in auto)
  then show ?case using n st by auto
qed

lemma check_acyclic_char:
  assumes "distinct (map stg_stage_id ss)"
    and "\<forall>s\<in>set ss. set (stg_depends_on s) \<subseteq> stg_stage_id ` set ss"
  shows "check_acyclic ss = Inr () \<longleftrightarrow> acyclic {(d, stg_stage_id s) | d s. s \<in> set ss \<and> d \<in> set (stg_depends_on s)}"
proof -
  let ?S = "dict_of stg_stage_id id ss"
  have R: "depends_rel ?S = {(d, stg_stage_id s) | d s. s \<in> set ss \<and> d \<in> set (stg_depends_on s)}"
    by (auto simp: depends_rel_def dict_get_dict_of [OF assms(1)])
  have known: "deps_known ?S"
    using assms by (auto simp: deps_known_def dict_get_dict_of [OF assms(1)] dict_simps)
  have card: "card (set (dict_keys ?S)) = length ?S"
    by (simp add: dict_simps length_dict_of)
  show ?thesis unfolding R [symmetric]
  proof
    assume "check_acyclic ss = Inr ()"
    then obtain P V where "fold_result (\<lambda>sets d. visit (Suc (length ?S)) ?S d sets) ({}, {}) (dict_keys ?S) = Inr (P, V)"
      by (auto simp: check_acyclic_def Let_def simp del: visit.simps)
    then have "P = {} \<and> {} \<union> set (dict_keys ?S) \<subseteq> V \<and> V \<subseteq> grounded ?S"
      by (rule visit_fold_sound [rotated]) (use visit_sound in blast)+
    then show "acyclic (depends_rel ?S)"
      by (intro grounded_acyclic) auto
  next
    assume ac: "acyclic (depends_rel ?S)"
    have "\<exists>V'. fold_result (\<lambda>sets d. visit (Suc (length ?S)) ?S d sets) ({}, {}) (dict_keys ?S) = Inr ({}, V')"
      by (rule visit_fold_complete, rule visit_complete [OF ac known]) (auto simp: on_path_def card)
    then show "check_acyclic ss = Inr ()" by (auto simp: check_acyclic_def Let_def simp del: visit.simps)
  qed
qed


subsection \<open>Resource visibility\<close>

definition visibility_of :: "TaskSpec \<Rightarrow> Identifier \<Rightarrow> Visibility option" where
  "visibility_of t r = map_option vis_visibility (dict_get (dict_of vis_resource_id id (tsk_visibility t)) r)"

definition resource_dependency :: "TaskSpec \<Rightarrow> (Identifier \<times> Identifier) set" where
  "resource_dependency t =
     {(res_resource_id r, d) | r d. r \<in> set (tsk_resources t) \<and> d \<in> set (res_dependencies r)}"

lemma visible_dependencies_trans:
  "w \<in> visible_dependencies v \<Longrightarrow> x \<in> visible_dependencies w \<Longrightarrow> x \<in> visible_dependencies v"
  by (cases v; cases w) auto

lemma visible_dependencies_refl: "v \<in> visible_dependencies v"
  by (cases v) auto

lemma check_projection_closed_step:
  assumes "check_projection_closed t = Inr ()" "(r, d) \<in> resource_dependency t"
    "visibility_of t r = Some v"
  shows "\<exists>w. visibility_of t d = Some w \<and> w \<in> visible_dependencies v"
  using assms
  by (fastforce simp: check_projection_closed_def resource_dependency_def visibility_of_def Let_def
      split: option.splits if_splits)

lemma check_projection_closed_rtrancl:
  assumes "check_projection_closed t = Inr ()" "(r, d) \<in> (resource_dependency t)\<^sup>*"
    "visibility_of t r = Some v"
  shows "\<exists>w. visibility_of t d = Some w \<and> w \<in> visible_dependencies v"
  using assms(2)
proof (induction rule: rtrancl_induct)
  case base
  then show ?case using assms(3) visible_dependencies_refl by simp
next
  case (step d e)
  then show ?case
    by (meson assms(1) check_projection_closed_step visible_dependencies_trans)
qed

lemma validate_task_checks:
  assumes "validate_task dg t = Inr t'"
  shows "t' = t" "check_resources t = Inr ()" "check_visibility t = Inr ()"
    "check_projection_closed t = Inr ()" "check_references dg t = Inr ()" "check_stages t = Inr ()"
    "check_acyclic (grf_stages (tsk_evaluation t)) = Inr ()" "check_hard_gates t = Inr ()"
    "check_measurements dg t = Inr ()" "check_axes t = Inr ()"
  using assms by (auto simp: validate_task_def)

lemma lift_field_Inr [simp]: "lift_field m = Inr x \<longleftrightarrow> m = Inr x"
  by (auto simp: lift_field_def split: sum.splits)

lemma TaskSpec_validate_model: "TaskSpec_validate dg raw = Inr t \<Longrightarrow> validate_task dg t = Inr t"
  by (auto simp: TaskSpec_validate_def dest: validate_task_checks(1))

lemma check_references_hidden:
  assumes "check_references dg t = Inr ()"
    "q \<in> set (hidden_qualification_resources (tsk_qualification t))"
  shows "\<exists>v. visibility_of t q = Some v \<and> v \<notin> {Visibility_PUBLIC, Visibility_PARTICIPANT}"
  using assms
  by (fastforce simp: check_references_def visibility_of_def Let_def split: option.splits if_splits)

end
