(* ===== verification/TaskGuarantees.thy ===== *)
theory TaskGuarantees
  imports TaskGraph
begin

section \<open>Guarantees of the task validator\<close>

text \<open>
  Validation is idempotent (a stored specification reads back as itself), it never fails with a
  lookup error or an exhausted recursion, and the resources the participant may see, together
  with everything they depend on, never include the hidden qualification material. The concrete
  task of the last section is accepted by the validator and serves the later theories too.
\<close>

subsection \<open>Validated values are fixed points of validation\<close>

text \<open>
  \<open>stable f\<close>: whatever the validator \<open>f\<close> returns, it returns again unchanged. This is what makes
  reading a stored specification back harmless.
\<close>

definition stable :: "('a \<Rightarrow> 'e + 'a) \<Rightarrow> bool" where
  "stable f \<longleftrightarrow> (\<forall>x y. f x = Inr y \<longrightarrow> f y = Inr y)"

named_theorems stable_intros \<open>stability of the field validators\<close>

lemma stableD: "stable f \<Longrightarrow> f x = Inr y \<Longrightarrow> f y = Inr y"
  by (auto simp: stable_def)

lemma stable_filter: "(\<And>x y. f x = Inr y \<Longrightarrow> y = x) \<Longrightarrow> stable f"
  unfolding stable_def by blast

lemma map_result_stable:
  assumes "stable f" "map_result f xs = Inr ys"
  shows "map_result f ys = Inr ys" "map_result f (sort_key k ys) = Inr (sort_key k ys)"
proof -
  have "f y = Inr y" if "y \<in> set ys" for y
    using map_result_set [OF assms(2) that] stableD [OF assms(1)] by blast
  then show "map_result f ys = Inr ys" "map_result f (sort_key k ys) = Inr (sort_key k ys)"
    by (auto intro!: map_result_fixed)
qed

lemma stable_Clock: "stable ClockSpec_validate"
  by (auto simp: stable_def ClockSpec_validate_def simp del: bind_result_eq_Inr elim!: bind_result_InrE split: if_splits)

lemma stable_Signal: "stable SignalSpec_validate"
  by (auto simp: stable_def SignalSpec_validate_def simp del: bind_result_eq_Inr elim!: bind_result_InrE split: if_splits)

lemma stable_Scalar: "stable ScalarInterface_validate"
  by (auto simp: stable_def ScalarInterface_validate_def simp del: bind_result_eq_Inr elim!: bind_result_InrE simp: Let_def map_result_stable [OF stable_Signal]
      split: if_splits)

lemma stable_Stream: "stable StreamInterface_validate"
  by (rule stable_filter) (auto simp: StreamInterface_validate_def split: if_splits)

lemma stable_Mmio: "stable MmioInterface_validate"
  by (rule stable_filter) (auto simp: MmioInterface_validate_def split: if_splits)

lemma stable_BusBridge: "stable BusBridgeInterface_validate"
  by (rule stable_filter) (auto simp: BusBridgeInterface_validate_def split: if_splits)

lemma stable_MemoryMaster: "stable MemoryMasterInterface_validate"
  by (rule stable_filter) (auto simp: MemoryMasterInterface_validate_def split: if_splits)

lemma stable_CycleTrace: "stable CycleTraceInterface_validate"
  by (rule stable_filter) (auto simp: CycleTraceInterface_validate_def split: if_splits)

lemma stable_MultiClock: "stable MultiClockInterface_validate"
  by (auto simp: stable_def MultiClockInterface_validate_def simp del: bind_result_eq_Inr elim!: bind_result_InrE simp: Let_def map_result_stable [OF stable_Signal]
      map_result_stable [OF stable_Clock] split: if_splits)

lemma map_validate_path_stable:
  assumes "map_result validate_relative_path xs = Inr ys"
  shows "map_result validate_relative_path (sort ys) = Inr (sort ys)"
proof -
  have "stable validate_relative_path" using validate_relative_path_fixed by (auto simp: stable_def)
  from map_result_stable(2) [OF this assms, of id] show ?thesis by (simp add: id_def)
qed

lemma stable_Workspace: "stable WorkspaceInterface_validate"
  by (auto simp: stable_def WorkspaceInterface_validate_def simp del: bind_result_eq_Inr elim!: bind_result_InrE simp: map_validate_path_stable split: sum.splits if_splits)

lemmas stable_interfaces = stable_Scalar stable_Stream stable_Mmio stable_BusBridge stable_MemoryMaster
  stable_MultiClock stable_CycleTrace stable_Workspace

lemma stable_Interface: "stable InterfaceSpec_validate"
  unfolding stable_def
proof (intro allI impI)
  fix x y assume "InterfaceSpec_validate x = Inr y"
  then show "InterfaceSpec_validate y = Inr y"
    by (cases x) (auto simp: stable_interfaces [THEN stableD] simp del: bind_result_eq_Inr elim!: bind_result_InrE)
qed

lemma stable_Integer: "stable IntegerDomain_validate"
  by (rule stable_filter) (auto simp: IntegerDomain_validate_def split: if_splits)

lemma stable_Choice: "stable ChoiceDomain_validate"
  by (auto simp: stable_def ChoiceDomain_validate_def simp del: bind_result_eq_Inr elim!: bind_result_InrE simp: Let_def split: if_splits)

lemma stable_Parameter: "stable ParameterDomain_validate"
  unfolding stable_def
proof (intro allI impI)
  fix x y assume "ParameterDomain_validate x = Inr y"
  then show "ParameterDomain_validate y = Inr y"
    by (cases x) (auto simp: stableD [OF stable_Integer] stableD [OF stable_Choice])
qed

lemma stable_Resource: "stable ResourceSpec_validate"
  using validate_relative_path_fixed
  by (auto simp: stable_def ResourceSpec_validate_def simp del: bind_result_eq_Inr elim!: bind_result_InrE split: if_splits sum.splits)

lemma stable_License: "stable ResourceLicense_validate"
  by (auto simp: stable_def ResourceLicense_validate_def simp del: bind_result_eq_Inr elim!: bind_result_InrE split: if_splits)

lemma stable_Generator: "stable GeneratorSpec_validate"
  by (auto simp: stable_def GeneratorSpec_validate_def simp del: bind_result_eq_Inr elim!: bind_result_InrE simp: Let_def map_result_stable [OF stable_Parameter] split: if_splits)

lemma stable_Requirement: "stable RequirementSpec_validate"
  by (rule stable_filter) (auto simp: RequirementSpec_validate_def split: if_splits)

lemma stable_Contract: "stable ContractSpec_validate"
  by (auto simp: stable_def ContractSpec_validate_def simp del: bind_result_eq_Inr elim!: bind_result_InrE simp: Let_def map_result_stable [OF stable_Requirement] split: if_splits)

lemma stable_Evaluator: "stable EvaluatorSpec_validate"
  by (auto simp: stable_def EvaluatorSpec_validate_def simp del: bind_result_eq_Inr elim!: bind_result_InrE simp: Let_def split: if_splits)

lemma stable_Stage: "stable StageSpec_validate"
  by (auto simp: stable_def StageSpec_validate_def simp del: bind_result_eq_Inr elim!: bind_result_InrE)

lemma stable_Measurement: "stable MeasurementSpec_validate"
  by (rule stable_filter) (auto simp: MeasurementSpec_validate_def split: if_splits)

lemma stable_Term: "stable ScorerTerm_validate"
  by (rule stable_filter) (auto simp: ScorerTerm_validate_def split: if_splits)

lemma stable_Scorer: "stable ScorerRef_validate"
  by (auto simp: stable_def ScorerRef_validate_def simp del: bind_result_eq_Inr elim!: bind_result_InrE simp: map_result_stable [OF stable_Term]
      dest: map_result_length split: if_splits)

lemma stable_Graph: "stable EvaluationGraph_validate"
  by (auto simp: stable_def EvaluationGraph_validate_def simp del: bind_result_eq_Inr elim!: bind_result_InrE simp: map_result_stable [OF stable_Evaluator]
      map_result_stable [OF stable_Stage] stableD [OF stable_Scorer] split: option.splits)

lemma stable_Sail: "stable QualificationSpec_validate"
  by (auto simp: stable_def QualificationSpec_validate_def simp del: bind_result_eq_Inr elim!: bind_result_InrE split: if_splits)

lemma stable_Flow: "stable FlowQualificationSpec_validate"
  by (auto simp: stable_def FlowQualificationSpec_validate_def simp del: bind_result_eq_Inr elim!: bind_result_InrE split: if_splits)

lemma stable_Qualification: "stable TaskQualificationSpec_validate"
  unfolding stable_def
proof (intro allI impI)
  fix x y assume "TaskQualificationSpec_validate x = Inr y"
  then show "TaskQualificationSpec_validate y = Inr y"
    by (cases x) (auto simp: stableD [OF stable_Sail] stableD [OF stable_Flow])
qed

lemma stable_Calibration: "stable PublicCalibrationTaskOrigin_validate"
  by (auto simp: stable_def PublicCalibrationTaskOrigin_validate_def simp del: bind_result_eq_Inr elim!: bind_result_InrE simp: list_ex_iff split: if_splits)

lemma stable_Identity: "stable TaskIdentity_validate"
  unfolding stable_def
proof (intro allI impI)
  fix x y assume *: "TaskIdentity_validate x = Inr y"
  then show "TaskIdentity_validate y = Inr y"
    by (cases "idn_origin x") (auto simp: TaskIdentity_validate_def stableD [OF stable_Calibration] split: if_splits)
qed

lemma stable_Task: "stable (TaskSpec_validate dg)"
  unfolding stable_def
proof (intro allI impI)
  fix raw t assume a: "TaskSpec_validate dg raw = Inr t"
  note m = TaskSpec_validate_model [OF a]
  let ?t = "\<lambda>i n g c rs ev ms q ls. \<lparr>tsk_identity = i, tsk_interface = n, tsk_generator = g,
          tsk_contract = c, tsk_resources = sort_key res_resource_id rs,
          tsk_visibility = sort_key vis_resource_id (tsk_visibility raw), tsk_evaluation = ev,
          tsk_measurements = sort_key msp_measurement_id ms,
          tsk_difficulty_axes = sort_key axs_axis_id (tsk_difficulty_axes raw),
          tsk_qualification = q, tsk_licensing = sort_key lic_resource_id ls\<rparr>"
  from a obtain i n g c rs ev ms q ls where parts:
    "TaskIdentity_validate (tsk_identity raw) = Inr i" "InterfaceSpec_validate (tsk_interface raw) = Inr n"
    "GeneratorSpec_validate (tsk_generator raw) = Inr g" "ContractSpec_validate (tsk_contract raw) = Inr c"
    "map_result ResourceSpec_validate (tsk_resources raw) = Inr rs"
    "EvaluationGraph_validate (tsk_evaluation raw) = Inr ev"
    "map_result MeasurementSpec_validate (tsk_measurements raw) = Inr ms"
    "TaskQualificationSpec_validate (tsk_qualification raw) = Inr q"
    "map_result ResourceLicense_validate (tsk_licensing raw) = Inr ls"
    and v: "validate_task dg (?t i n g c rs ev ms q ls) = Inr t"
    by (auto simp: TaskSpec_validate_def)
  note t = validate_task_checks(1) [OF v]
  show "TaskSpec_validate dg t = Inr t"
    using m stableD [OF stable_Identity parts(1)] stableD [OF stable_Interface parts(2)]
      stableD [OF stable_Generator parts(3)] stableD [OF stable_Contract parts(4)]
      stableD [OF stable_Graph parts(6)] stableD [OF stable_Qualification parts(8)] unfolding t TaskSpec_validate_def
    by (simp add: lift_field_def map_result_stable(2) [OF stable_Resource parts(5)]
        map_result_stable(2) [OF stable_Measurement parts(7)] map_result_stable(2) [OF stable_License parts(9)]
        del: bind_result_eq_Inr)
qed

subsection \<open>No lookup of the validator fails\<close>

lemma visit_path:
  "visit fuel stages s (P, V) = Inr (P', V') \<Longrightarrow> P' = P"
proof (induction fuel arbitrary: s P V P' V')
  case (Suc fuel)
  have fold: "fold_result (\<lambda>sets d. visit fuel stages d sets) (Q, W) ds = Inr (Q', W') \<Longrightarrow> Q' = Q" for Q W ds Q' W'
  proof (induction ds arbitrary: Q W)
    case (Cons d ds)
    then obtain Q1 W1 where s: "visit fuel stages d (Q, W) = Inr (Q1, W1)"
      and f: "fold_result (\<lambda>sets d. visit fuel stages d sets) (Q1, W1) ds = Inr (Q', W')" by auto
    show ?case using Suc.IH [OF s] Cons.IH [OF f] by simp
  qed simp
  from Suc.prems show ?case by (auto split: if_splits option.splits dest!: fold)
qed simp

lemma visit_fold_error:
  assumes "\<And>d W. d \<in> set ds \<Longrightarrow> visit fuel stages d (P, W) = Inl e \<Longrightarrow> e = Stage_cycle"
  shows "fold_result (\<lambda>sets d. visit fuel stages d sets) (P, W) ds = Inl e \<Longrightarrow> e = Stage_cycle"
  using assms
proof (induction ds arbitrary: W)
  case (Cons d ds)
  show ?case
  proof (cases "visit fuel stages d (P, W)")
    case (Inl x)
    then have "visit fuel stages d (P, W) = Inl e" using Cons.prems(1) by simp
    then show ?thesis using Cons.prems(2) [of d W] by simp
  next
    case (Inr y)
    then obtain W' where "visit fuel stages d (P, W) = Inr (P, W')"
      using visit_path [of fuel stages d P W] by (cases y) auto
    then have "fold_result (\<lambda>sets d. visit fuel stages d sets) (P, W') ds = Inl e" using Cons.prems(1) by simp
    then show ?thesis
    proof (rule Cons.IH)
      fix x U assume "x \<in> set ds" "visit fuel stages x (P, U) = Inl e"
      then show "e = Stage_cycle" using Cons.prems(2) [of x U] by simp
    qed
  qed
qed simp

lemma visit_error:
  assumes known: "deps_known stages"
  shows "visit fuel stages s (P, V) = Inl e \<Longrightarrow> s \<in> set (dict_keys stages) \<Longrightarrow> P \<subseteq> set (dict_keys stages) \<Longrightarrow>
     card (set (dict_keys stages)) < fuel + card P \<Longrightarrow> e = Stage_cycle"
proof (induction fuel arbitrary: s P V)
  case 0
  then have "card P \<le> card (set (dict_keys stages))" by (intro card_mono) auto
  with 0 show ?case by simp
next
  case (Suc fuel)
  show ?case
  proof (cases "s \<in> P")
    case False
    obtain stage where st: "dict_get stages s = Some stage" using dict_keys_get [OF Suc.prems(2)] by blast
    have fin: "finite P" using Suc.prems(3) by (auto intro: finite_subset)
    let ?P = "insert s P"
    have P: "?P \<subseteq> set (dict_keys stages)" "card (set (dict_keys stages)) < fuel + card ?P"
      using Suc.prems False fin by auto
    have "set (stg_depends_on stage) \<subseteq> set (dict_keys stages)"
      using known st by (auto simp: deps_known_def)
    then have "fold_result (\<lambda>sets d. visit fuel stages d sets) (?P, W) (stg_depends_on stage) = Inl e \<Longrightarrow> e = Stage_cycle" for W
      using Suc.IH [OF _ _ P] by - (rule visit_fold_error [rotated], auto)
    moreover have "s \<notin> V" using Suc.prems(1) False by auto
    ultimately show ?thesis using Suc.prems(1) False st by (auto simp: bind_result_eq_Inl)
  qed (use Suc.prems in simp)
qed

lemma check_acyclic_error:
  assumes d: "distinct (map stg_stage_id ss)"
    and k: "\<forall>s\<in>set ss. set (stg_depends_on s) \<subseteq> stg_stage_id ` set ss"
    and e: "check_acyclic ss = Inl e"
  shows "e = Stage_cycle"
proof -
  let ?S = "dict_of stg_stage_id id ss"
  have known: "deps_known ?S" using d k by (auto simp: deps_known_def dict_get_dict_of [OF d] dict_simps)
  have card: "card (set (dict_keys ?S)) = length ?S" by (simp add: dict_simps length_dict_of)
  have "fold_result (\<lambda>sets d. visit (Suc (length ?S)) ?S d sets) ({}, {}) (dict_keys ?S) = Inl e"
    using e by (auto simp: check_acyclic_def Let_def bind_result_eq_Inl simp del: visit.simps)
  then show ?thesis
  proof (rule visit_fold_error [rotated])
    fix d W assume "d \<in> set (dict_keys ?S)" "visit (Suc (length ?S)) ?S d ({}, W) = Inl e"
    then show "e = Stage_cycle" using card by (intro visit_error [OF known, of _ d "{}" W]) auto
  qed
qed

abbreviation lookup_failures :: "task_error set" where
  "lookup_failures \<equiv> {Key_error, Recursion_exhausted}"

lemma check_resources_total: "check_resources t = Inl e \<Longrightarrow> e \<notin> lookup_failures"
  by (auto simp: check_resources_def Let_def split: if_splits dest!: check_each_Inl)

lemma check_resources_deps:
  "check_resources t = Inr () \<Longrightarrow> r \<in> set (tsk_resources t) \<Longrightarrow>
     set (res_dependencies r) \<subseteq> res_resource_id ` set (tsk_resources t)"
  by (auto simp: check_resources_def Let_def dict_simps split: if_splits)

lemma check_visibility_keys:
  assumes "check_visibility t = Inr ()"
  shows "set (dict_keys (dict_of vis_resource_id id (tsk_visibility t))) = res_resource_id ` set (tsk_resources t)"
  using assms by (auto simp: check_visibility_def Let_def split: if_splits)

lemma check_visibility_total: "check_visibility t = Inl e \<Longrightarrow> e \<notin> lookup_failures"
proof -
  assume e: "check_visibility t = Inl e"
  let ?v = "dict_of vis_resource_id id (tsk_visibility t)" and ?l = "dict_of lic_resource_id id (tsk_licensing t)"
  have "e \<notin> lookup_failures" if "check_origin t = Inl e"
    using that by (auto simp: check_origin_def Let_def split: TaskOrigin.splits if_splits)
  moreover have "e \<notin> lookup_failures"
    if c: "check_each (check_visibility_entry ?l) ?v = Inl e" and k: "set (dict_keys ?v) = set (dict_keys ?l)"
  proof -
    obtain r i where x: "(r, i) \<in> set ?v" "check_visibility_entry ?l (r, i) = Inl e"
      using check_each_Inl [OF c] by auto
    then have "r \<in> set (dict_keys ?l)" using k [symmetric] by (force simp: dict_keys_def)
    then obtain l where "dict_get ?l r = Some l" using dict_keys_get by metis
    with x(2) show ?thesis by (auto simp: check_visibility_entry_def split: if_splits)
  qed
  ultimately show ?thesis using e
    by (auto simp: check_visibility_def Let_def bind_result_eq_Inl split: if_splits)
qed

lemma check_projection_total:
  assumes "check_resources t = Inr ()" "check_visibility t = Inr ()" "check_projection_closed t = Inl e"
  shows "e \<notin> lookup_failures"
proof -
  let ?v = "dict_of vis_resource_id id (tsk_visibility t)"
  note keys = check_visibility_keys [OF assms(2)]
  obtain r where r: "r \<in> set (tsk_resources t)" "(case dict_get ?v (res_resource_id r) of
          None \<Rightarrow> Inl Key_error
        | Some owner \<Rightarrow>
            check_each (\<lambda>d. case dict_get ?v d of
                None \<Rightarrow> Inl Key_error
              | Some item \<Rightarrow>
                  if vis_visibility item \<notin> visible_dependencies (vis_visibility owner)
                  then Inl Not_projection_closed else Inr ()) (res_dependencies r)) = Inl e"
    using check_each_Inl [OF assms(3) [unfolded check_projection_closed_def Let_def]] by blast
  obtain owner where o: "dict_get ?v (res_resource_id r) = Some owner"
    using dict_keys_get [of "res_resource_id r" ?v] r(1) keys by auto
  from r(2) o obtain d where d: "d \<in> set (res_dependencies r)" "(case dict_get ?v d of
                None \<Rightarrow> Inl Key_error
              | Some item \<Rightarrow>
                  if vis_visibility item \<notin> visible_dependencies (vis_visibility owner)
                  then Inl Not_projection_closed else Inr ()) = Inl e"
    by (auto dest: check_each_Inl)
  have "d \<in> set (dict_keys ?v)" using check_resources_deps [OF assms(1) r(1)] d(1) keys by auto
  then obtain item where "dict_get ?v d = Some item" using dict_keys_get by metis
  then show ?thesis using d(2) by (auto split: if_splits)
qed

lemma check_references_total:
  assumes "check_visibility t = Inr ()" "check_references dg t = Inl e"
  shows "e \<notin> lookup_failures"
proof (cases "set (referenced_resources t) \<subseteq> set (map res_resource_id (tsk_resources t))")
  case True
  let ?v = "dict_of vis_resource_id id (tsk_visibility t)"
  have known: "\<exists>item. dict_get ?v r = Some item" if "r \<in> set (referenced_resources t)" for r
    using that True dict_keys_get [of r ?v] check_visibility_keys [OF assms(1)] by auto
  have sc: "e \<notin> lookup_failures" if "check_scorer_binding dg t = Inl e"
  proof (cases "grf_scorer (tsk_evaluation t)")
    case (Some s)
    then have "scr_implementation_resource s \<in> set (dict_keys (dict_of res_resource_id id (tsk_resources t)))"
      using True by (auto simp: referenced_resources_def dict_simps)
    then obtain r where "dict_get (dict_of res_resource_id id (tsk_resources t)) (scr_implementation_resource s) = Some r"
      using dict_keys_get by metis
    then show ?thesis using that Some by (auto simp: check_scorer_binding_def split: if_splits)
  qed (use that in \<open>simp add: check_scorer_binding_def\<close>)
  have hid: "set (hidden_qualification_resources (tsk_qualification t)) \<subseteq> set (referenced_resources t)"
    by (cases "tsk_qualification t") (auto simp: referenced_resources_def)
  obtain b where b: "dict_get ?v (con_public_behavior_resource (tsk_contract t)) = Some b"
    using known by (auto simp: referenced_resources_def)
  have ck: "e \<notin> lookup_failures" if "check_each (\<lambda>r. case dict_get ?v r of None \<Rightarrow> Inl Key_error
       | Some item \<Rightarrow> if vis_visibility item \<in> {Visibility_PUBLIC, Visibility_PARTICIPANT}
                     then Inl Qualification_visible else Inr ())
       (hidden_qualification_resources (tsk_qualification t)) = Inl e"
  proof -
    from check_each_Inl [OF that] obtain r where r: "r \<in> set (hidden_qualification_resources (tsk_qualification t))"
      "(case dict_get ?v r of None \<Rightarrow> Inl Key_error
       | Some item \<Rightarrow> if vis_visibility item \<in> {Visibility_PUBLIC, Visibility_PARTICIPANT}
                     then Inl Qualification_visible else Inr ()) = Inl e" by blast
    then obtain item where "dict_get ?v r = Some item" using known hid by blast
    then show ?thesis using r(2) by (auto split: if_splits)
  qed
  show ?thesis
  proof (cases "check_scorer_binding dg t")
    case (Inl x)
    then show ?thesis using assms(2) True sc by (simp add: check_references_def Let_def)
  next
    case (Inr u)
    then show ?thesis using assms(2) True b ck
      by (simp add: check_references_def Let_def) (auto split: if_splits)
  qed
qed (use assms(2) in \<open>simp add: check_references_def\<close>)

lemma check_stages_total: "check_stages t = Inl e \<Longrightarrow> e \<notin> lookup_failures"
  by (auto simp: check_stages_def Let_def split: if_splits dest!: check_each_Inl)

lemma check_library_total: "check_measurement_library dg t m = Inl e \<Longrightarrow> e \<notin> lookup_failures"
  by (auto simp: check_measurement_library_def split: if_splits option.splits)

lemma check_measurements_total:
  assumes "check_measurements dg t = Inl e"
  shows "e \<notin> lookup_failures"
proof (cases "check_each (check_measurement_library dg t) (tsk_measurements t) = Inl e")
  case True
  then show ?thesis using check_library_total by (blast dest: check_each_Inl)
next
  case False
  then show ?thesis using assms by (auto simp: check_measurements_def Let_def bind_result_eq_Inl split: if_splits)
qed

lemma check_stages_facts:
  assumes "check_stages t = Inr ()"
  shows "distinct (map stg_stage_id (grf_stages (tsk_evaluation t)))"
    "\<And>stage. stage \<in> set (grf_stages (tsk_evaluation t)) \<Longrightarrow>
       set (stg_depends_on stage) \<subseteq> stg_stage_id ` set (grf_stages (tsk_evaluation t))"
  using assms
  by (auto simp: check_stages_def Let_def length_dict_of_distinct dict_simps split: if_splits)

lemma validate_task_total:
  assumes "validate_task dg t = Inl e"
  shows "e \<notin> lookup_failures"
proof -
  consider "check_resources t = Inl e" | "check_visibility t = Inl e"
    | "check_resources t = Inr ()" "check_visibility t = Inr ()" "check_projection_closed t = Inl e"
    | "check_visibility t = Inr ()" "check_references dg t = Inl e" | "check_stages t = Inl e"
    | "check_stages t = Inr ()" "check_acyclic (grf_stages (tsk_evaluation t)) = Inl e"
    | "check_hard_gates t = Inl e" | "check_measurements dg t = Inl e" | "check_axes t = Inl e"
    using assms unfolding validate_task_def bind_result_eq_Inl by auto
  then show ?thesis
  proof cases
    case 6
    then show ?thesis using check_acyclic_error [OF check_stages_facts(1)] check_stages_facts(2) by blast
  next
    case 7
    then show ?thesis by (auto simp: check_hard_gates_def split: if_splits)
  next
    case 9
    then show ?thesis by (auto simp: check_axes_def split: if_splits)
  qed (blast dest: check_resources_total check_visibility_total check_projection_total
      check_references_total check_stages_total check_measurements_total)+
qed

lemma hidden_unreachable:
  assumes "TaskSpec_validate dg raw = Inr t"
    and "visibility_of t r = Some v" "v \<in> {Visibility_PUBLIC, Visibility_PARTICIPANT}"
    and "(r, d) \<in> (resource_dependency t)\<^sup>*"
  shows "d \<notin> set (hidden_qualification_resources (tsk_qualification t))"
proof
  note checks = validate_task_checks [OF TaskSpec_validate_model [OF assms(1)]]
  assume "d \<in> set (hidden_qualification_resources (tsk_qualification t))"
  from check_references_hidden [OF checks(5) this] obtain w where
    w: "visibility_of t d = Some w" "w \<notin> {Visibility_PUBLIC, Visibility_PARTICIPANT}" by blast
  from check_projection_closed_rtrancl [OF checks(4) assms(4,2)] w(1)
  have "w \<in> visible_dependencies v" by simp
  with assms(3) w(2) show False by auto
qed

subsection \<open>A concrete task\<close>

definition example_resource :: "Identifier \<Rightarrow> string \<Rightarrow> Identifier list \<Rightarrow> ResourceSpec" where
  "example_resource i p ds = \<lparr>res_resource_id = i, res_content_digest = ''sha256:'' @ i,
     res_media_type = ''text/plain'', res_path = p, res_dependencies = ds\<rparr>"

definition example_stage :: "Identifier \<Rightarrow> Identifier list \<Rightarrow> StagePurpose \<Rightarrow> Identifier list \<Rightarrow> StageSpec" where
  "example_stage i ds p rq = \<lparr>stg_stage_id = i, stg_evaluator_id = ''ev'', stg_depends_on = ds,
     stg_purpose = p, stg_requirement_ids = rq\<rparr>"

definition example_measurement :: MeasurementSpec where
  "example_measurement = \<lparr>msp_measurement_id = ''area'', msp_producer_stage_id = ''ppa'',
     msp_unit = Unit_SQUARE_MICROMETER, msp_library_id = ''not_applicable'',
     msp_library_digest = ''sha256:none'', msp_corner = ''tt'', msp_mode = ''func'',
     msp_direction = MINIMIZE, msp_repetitions = 1, msp_aggregation = MEAN,
     msp_aggregation_precision_digits = 6, msp_valid_minimum = Some 0, msp_valid_maximum = None,
     msp_target = None\<rparr>"

definition example_digests :: task_digests where
  "example_digests = \<lparr>dg_scorer_implementation = (\<lambda>_. ''sha256:scorer''),
     dg_scorer_revision = (\<lambda>_. ''sha256:revision''), dg_not_applicable_library = ''sha256:none'',
     dg_task_spec = (\<lambda>_. ''sha256:task''), dg_measurement_schema = (\<lambda>_. ''sha256:schema'')\<rparr>"

definition example_task :: TaskSpec where
  "example_task =
     \<lparr>tsk_identity = \<lparr>idn_family = ''family'', idn_authoring_revision = 1,
        idn_origin = Origin_NativeSealed \<lparr>nso_provenance = [''native'']\<rparr>\<rparr>,
      tsk_interface = Interface_Workspace \<lparr>wsp_submission_paths = [''out.v'']\<rparr>,
      tsk_generator = \<lparr>gen_implementation_resource = ''gen'', gen_implementation_digest = ''sha256:gen'',
        gen_seed_bits = 128, gen_parameters = []\<rparr>,
      tsk_contract = \<lparr>con_public_behavior_resource = ''beh'', con_allowed_freedoms = [],
        con_requirements = [\<lparr>req_requirement_id = ''r1'', req_kind = BEHAVIORAL, req_description = ''ok''\<rparr>]\<rparr>,
      tsk_resources = [example_resource ''aux'' ''a.md'' [], example_resource ''beh'' ''b.md'' [''aux''],
        example_resource ''gen'' ''g.py'' [], example_resource ''neg'' ''n.v'' [],
        example_resource ''src'' ''s.v'' [], example_resource ''wit'' ''w.v'' [''src'']],
      tsk_visibility = [
        \<lparr>vis_resource_id = ''aux'', vis_visibility = Visibility_PUBLIC, vis_sensitivity = Sensitivity_PUBLIC\<rparr>,
        \<lparr>vis_resource_id = ''beh'', vis_visibility = Visibility_PARTICIPANT, vis_sensitivity = Sensitivity_INTERNAL\<rparr>,
        \<lparr>vis_resource_id = ''gen'', vis_visibility = Visibility_AUTHOR, vis_sensitivity = Sensitivity_INTERNAL\<rparr>,
        \<lparr>vis_resource_id = ''neg'', vis_visibility = Visibility_VERIFIER, vis_sensitivity = Sensitivity_INTERNAL\<rparr>,
        \<lparr>vis_resource_id = ''src'', vis_visibility = Visibility_VERIFIER, vis_sensitivity = Sensitivity_INTERNAL\<rparr>,
        \<lparr>vis_resource_id = ''wit'', vis_visibility = Visibility_VERIFIER, vis_sensitivity = Sensitivity_INTERNAL\<rparr>],
      tsk_evaluation = \<lparr>grf_evaluators = [\<lparr>evl_evaluator_id = ''ev'', evl_capability = RTL_SIMULATION,
          evl_supporting_capabilities = [], evl_implementation_resource = ''gen'', evl_revision_digest = ''sha256:ev''\<rparr>],
        grf_stages = [example_stage ''lint'' [] OBSERVATION [], example_stage ''ppa'' [''sim''] OBSERVATION [],
          example_stage ''sim'' [''lint''] HARD_GATE [''r1'']],
        grf_scorer = None\<rparr>,
      tsk_measurements = [example_measurement],
      tsk_difficulty_axes = [],
      tsk_qualification = Qualification_EdaFlow \<lparr>flq_authoring_source_resource = ''src'',
        flq_feasibility_witness_resource = ''wit'', flq_negative_candidate_resources = [''neg'']\<rparr>,
      tsk_licensing = map (\<lambda>i. \<lparr>lic_resource_id = i, lic_spdx_expression = ''MIT'',
        lic_redistribution = Redistribution_ALLOWED, lic_provenance = []\<rparr>) [''aux'', ''beh'', ''gen'', ''neg'', ''src'', ''wit'']\<rparr>"

lemma example_task_accepted: "TaskSpec_validate example_digests example_task = Inr example_task"
  by code_simp

subsection \<open>Properties\<close>

text \<open>
  Validating a task specification that validation returned changes nothing: every
  normalisation (sorted references, sorted resources, normalised paths) is a fixed point.
\<close>

theorem TaskSpec_validate_idempotent:
  assumes "TaskSpec_validate dg raw = Inr t"
  shows "TaskSpec_validate dg t = Inr t"
  using assms by (rule stableD [OF stable_Task])

text \<open>
  C38: the model validator of a task only ever raises one of its own errors: every dictionary
  lookup in it succeeds because an earlier check established the key, and the recursion of the
  cycle search stays within the number of stages.
\<close>

theorem validate_task_no_lookup_failure:
  assumes "validate_task dg t = Inl e"
  shows "e \<noteq> Key_error \<and> e \<noteq> Recursion_exhausted"
  using validate_task_total [OF assms] by simp

definition example_cyclic_task :: TaskSpec where
  "example_cyclic_task = example_task\<lparr>tsk_evaluation := (tsk_evaluation example_task)\<lparr>grf_stages :=
     [example_stage ''lint'' [''sim''] OBSERVATION [], example_stage ''ppa'' [''sim''] OBSERVATION [],
      example_stage ''sim'' [''lint''] HARD_GATE [''r1'']]\<rparr>\<rparr>"

lemma example_cyclic_task_rejected: "validate_task example_digests example_cyclic_task = Inl Stage_cycle"
  by code_simp

theorem validate_task_no_lookup_failure_witness:
  "validate_task example_digests example_cyclic_task = Inl Stage_cycle
     \<and> Stage_cycle \<noteq> Key_error \<and> Stage_cycle \<noteq> Recursion_exhausted"
  using validate_task_no_lookup_failure [OF example_cyclic_task_rejected] example_cyclic_task_rejected by simp

text \<open>
  C37: for stages with distinct identifiers whose dependencies are all declared, the depth-first
  search of the task validator accepts exactly the acyclic dependency graphs; in particular its
  recursion is bounded by the number of stages and no lookup in it fails.
\<close>

theorem check_acyclic_iff:
  assumes "distinct (map stg_stage_id ss)"
    and "\<forall>s\<in>set ss. set (stg_depends_on s) \<subseteq> stg_stage_id ` set ss"
  shows "check_acyclic ss = Inr () \<longleftrightarrow> acyclic {(d, stg_stage_id s) | d s. s \<in> set ss \<and> d \<in> set (stg_depends_on s)}"
  using assms by (rule check_acyclic_char)

theorem check_acyclic_iff_witness:
  "acyclic {(d, stg_stage_id s) | d s. s \<in> set (grf_stages (tsk_evaluation example_task))
     \<and> d \<in> set (stg_depends_on s)}"
proof -
  let ?ss = "grf_stages (tsk_evaluation example_task)"
  have "check_acyclic ?ss = Inr ()" by code_simp
  moreover have "distinct (map stg_stage_id ?ss)" "\<forall>s\<in>set ?ss. set (stg_depends_on s) \<subseteq> stg_stage_id ` set ?ss"
    by (simp_all add: example_task_def example_stage_def)
  ultimately show ?thesis using check_acyclic_iff [of ?ss] by blast
qed

text \<open>
  C31: in an accepted task, no hidden qualification resource (oracle, known answers, reference
  candidate, mutants, witness, negative candidates) is reachable through resource dependencies
  from a resource the public or the participant may see.
\<close>

theorem participant_view_excludes_qualification:
  assumes "TaskSpec_validate dg raw = Inr t"
    and "visibility_of t r = Some v" "v \<in> {Visibility_PUBLIC, Visibility_PARTICIPANT}"
    and "(r, d) \<in> (resource_dependency t)\<^sup>*"
  shows "d \<notin> set (hidden_qualification_resources (tsk_qualification t))"
  using assms by (rule hidden_unreachable)

lemma example_visibility: "visibility_of example_task ''beh'' = Some Visibility_PARTICIPANT"
  by code_simp

lemma example_dependency: "(''beh'', ''aux'') \<in> resource_dependency example_task"
proof -
  have "example_resource ''beh'' ''b.md'' [''aux''] \<in> set (tsk_resources example_task)"
    by (simp add: example_task_def)
  then show ?thesis unfolding resource_dependency_def
    by (force simp: example_resource_def)
qed

theorem participant_view_excludes_qualification_witness:
  "''aux'' \<notin> set (hidden_qualification_resources (tsk_qualification example_task))"
  by (rule participant_view_excludes_qualification [OF example_task_accepted example_visibility _
        r_into_rtrancl [OF example_dependency]]) simp

end
