(* ===== verification/EvaluationModel.thy ===== *)
theory EvaluationModel
  imports TaskGuarantees
begin

section \<open>Evaluator outcomes and derived decisions\<close>

text \<open>
  Models \<open>src/edagym/evaluation/model.py\<close>. An outcome class carries only its kind, so the tagged
  union is the enumeration of kinds. Each \<open>*_validate\<close> function is the field validators followed
  by the model validator of the class of that name; \<open>evaluation_error\<close> has one constructor per
  \<open>raise\<close> of the package \<open>evaluation\<close> (validators, promotion and scoring) and one for a failed
  dictionary lookup.
\<close>

subsection \<open>Outcomes and evidence\<close>

datatype OutcomeKind = Outcome_PASSED | Outcome_PROVED | Outcome_COUNTEREXAMPLE
  | Outcome_CANDIDATE_FAILURE | Outcome_UNKNOWN | Outcome_TIMEOUT | Outcome_INFRASTRUCTURE_FAILURE
  | Outcome_LICENSE_UNAVAILABLE | Outcome_SECURITY_VIOLATION

datatype EvidenceKind = Evidence_LOG | Evidence_REPORT | Evidence_MEASUREMENT | Evidence_TRACE
  | Evidence_WAVEFORM | Evidence_PROOF | Evidence_COUNTEREXAMPLE | Evidence_DIAGNOSTIC

fun evidence_kind_value :: "EvidenceKind \<Rightarrow> string" where
  "evidence_kind_value Evidence_LOG = ''log''"
| "evidence_kind_value Evidence_REPORT = ''report''"
| "evidence_kind_value Evidence_MEASUREMENT = ''measurement''"
| "evidence_kind_value Evidence_TRACE = ''trace''"
| "evidence_kind_value Evidence_WAVEFORM = ''waveform''"
| "evidence_kind_value Evidence_PROOF = ''proof''"
| "evidence_kind_value Evidence_COUNTEREXAMPLE = ''counterexample''"
| "evidence_kind_value Evidence_DIAGNOSTIC = ''diagnostic''"

datatype (plugins only: code size) evaluation_error = No_samples | Sample_seed_count
  | Sample_seeds_not_unique | Score_empty | Score_ids_not_unique | Stage_measurements_not_unique
  | Stage_evidence_not_unique | Eligibility_ids_not_unique | Blocking_and_waiting
  | Blocked_shape | Waiting_shape | Ready_shape | Gate_ids_not_unique | Gate_succeeded_shape
  | Gate_pending_shape | Gate_failed_shape | Score_iff_ready | Waiting_not_terminal
  | Cyclic_stages | Unknown_result_stages | Duplicate_results | Unpromoted_dependency
  | Unknown_measurements | Misplaced_measurements | Incomplete_measurements | Sample_count
  | Below_minimum | Above_maximum | Unknown_stage | Repetitions_not_positive
  | Seed_collision | No_target | Worst_needs_direction | Not_scoring_ready | Vector_mismatch
  | Pareto_mismatch | Not_an_objective | Score_direction | Lookup_error

record ArtifactEvidence =
  aev_kind :: EvidenceKind
  aev_artifact_id :: Identifier

record MeasurementProvenance =
  mpv_unit :: MeasurementUnit
  mpv_tool_id :: Identifier
  mpv_tool_version :: string
  mpv_library_id :: Identifier
  mpv_library_digest :: Digest
  mpv_corner :: Identifier
  mpv_mode :: Identifier
  mpv_task_seed :: Seed128Hex
  mpv_sample_seeds :: "Seed128Hex list"
  mpv_source_artifact_id :: Identifier
  mpv_source_digest :: Digest

record MeasurementEvidence =
  mev_measurement_id :: Identifier
  mev_samples :: "CanonicalDecimal list"
  mev_provenance :: "MeasurementProvenance option"

definition MeasurementEvidence_validate ::
    "MeasurementEvidence \<Rightarrow> evaluation_error + MeasurementEvidence" where
  "MeasurementEvidence_validate m =
     (if mev_samples m = [] then Inl No_samples
      else case mev_provenance m of
        None \<Rightarrow> Inr m
      | Some p \<Rightarrow>
          if length (mpv_sample_seeds p) \<noteq> length (mev_samples m) then Inl Sample_seed_count
          else if \<not> distinct (mpv_sample_seeds p) then Inl Sample_seeds_not_unique
          else Inr m)"

subsection \<open>Scores\<close>

record AggregatedMeasurement =
  agm_measurement_id :: Identifier
  agm_value :: CanonicalDecimal

record ParetoVectorScore =
  pvs_measurements :: "AggregatedMeasurement list"

record ScalarScore =
  scs_measurements :: "AggregatedMeasurement list"
  scs_value :: CanonicalDecimal
  scs_direction :: MetricDirection
  scs_scorer_revision_digest :: Digest

datatype CandidateScore = Score_Pareto ParetoVectorScore | Score_Scalar ScalarScore

definition normalize_score_measurements ::
    "AggregatedMeasurement list \<Rightarrow> evaluation_error + AggregatedMeasurement list" where
  "normalize_score_measurements ms =
     (if ms = [] then Inl Score_empty
      else sorted_unique_by agm_measurement_id Score_ids_not_unique ms)"

definition ParetoVectorScore_new ::
    "AggregatedMeasurement list \<Rightarrow> evaluation_error + CandidateScore" where
  "ParetoVectorScore_new ms =
     bind_result (normalize_score_measurements ms) (\<lambda>ms. Inr (Score_Pareto \<lparr>pvs_measurements = ms\<rparr>))"

definition ScalarScore_new ::
    "AggregatedMeasurement list \<Rightarrow> CanonicalDecimal \<Rightarrow> MetricDirection \<Rightarrow> Digest
      \<Rightarrow> evaluation_error + CandidateScore" where
  "ScalarScore_new ms v d revision =
     bind_result (normalize_score_measurements ms) (\<lambda>ms.
       Inr (Score_Scalar \<lparr>scs_measurements = ms, scs_value = v, scs_direction = d,
                          scs_scorer_revision_digest = revision\<rparr>))"

fun CandidateScore_validate :: "CandidateScore \<Rightarrow> evaluation_error + CandidateScore" where
  "CandidateScore_validate (Score_Pareto s) = ParetoVectorScore_new (pvs_measurements s)"
| "CandidateScore_validate (Score_Scalar s) =
     (if scs_direction s \<notin> {MINIMIZE, MAXIMIZE} then Inl Score_direction
      else ScalarScore_new (scs_measurements s) (scs_value s) (scs_direction s) (scs_scorer_revision_digest s))"

subsection \<open>Stage results\<close>

record StageResult =
  sgr_stage_id :: Identifier
  sgr_outcome :: OutcomeKind
  sgr_measurements :: "MeasurementEvidence list"
  sgr_evidence :: "ArtifactEvidence list"

definition evidence_key :: "ArtifactEvidence \<Rightarrow> string list" where
  "evidence_key e = [evidence_kind_value (aev_kind e), aev_artifact_id e]"

definition StageResult_validate :: "StageResult \<Rightarrow> evaluation_error + StageResult" where
  "StageResult_validate r =
     bind_result (map_result MeasurementEvidence_validate (sgr_measurements r)) (\<lambda>ms.
     bind_result (sorted_unique_by mev_measurement_id Stage_measurements_not_unique ms) (\<lambda>ms.
     bind_result (sorted_unique_by evidence_key Stage_evidence_not_unique (sgr_evidence r)) (\<lambda>es.
       Inr (r\<lparr>sgr_measurements := ms, sgr_evidence := es\<rparr>))))"

subsection \<open>Eligibility decisions\<close>

datatype StageEligibilityKind = Stage_COMPLETED | Stage_READY | Stage_WAITING | Stage_BLOCKED

record StageEligibility =
  elg_stage_id :: Identifier
  elg_state :: StageEligibilityKind
  elg_blocking_stage_ids :: "Identifier list"
  elg_waiting_stage_ids :: "Identifier list"

definition StageEligibility_validate :: "StageEligibility \<Rightarrow> evaluation_error + StageEligibility" where
  "StageEligibility_validate e =
     bind_result (sorted_unique Eligibility_ids_not_unique (elg_blocking_stage_ids e)) (\<lambda>blocking.
     bind_result (sorted_unique Eligibility_ids_not_unique (elg_waiting_stage_ids e)) (\<lambda>waiting.
       if set blocking \<inter> set waiting \<noteq> {} then Inl Blocking_and_waiting
       else if elg_state e = Stage_BLOCKED
       then if blocking = [] \<or> waiting \<noteq> [] then Inl Blocked_shape
            else Inr (e\<lparr>elg_blocking_stage_ids := blocking, elg_waiting_stage_ids := waiting\<rparr>)
       else if elg_state e = Stage_WAITING
       then if waiting = [] \<or> blocking \<noteq> [] then Inl Waiting_shape
            else Inr (e\<lparr>elg_blocking_stage_ids := blocking, elg_waiting_stage_ids := waiting\<rparr>)
       else if blocking \<noteq> [] \<or> waiting \<noteq> [] then Inl Ready_shape
       else Inr (e\<lparr>elg_blocking_stage_ids := blocking, elg_waiting_stage_ids := waiting\<rparr>)))"

datatype HardGateState = Gate_SUCCEEDED | Gate_PENDING | Gate_FAILED

record HardGateStatus =
  hgs_state :: HardGateState
  hgs_failed_gate_ids :: "Identifier list"
  hgs_blocking_stage_ids :: "Identifier list"
  hgs_pending_gate_ids :: "Identifier list"

definition HardGateStatus_validate :: "HardGateStatus \<Rightarrow> evaluation_error + HardGateStatus" where
  "HardGateStatus_validate h =
     bind_result (sorted_unique Gate_ids_not_unique (hgs_failed_gate_ids h)) (\<lambda>failed_ids.
     bind_result (sorted_unique Gate_ids_not_unique (hgs_blocking_stage_ids h)) (\<lambda>blocking.
     bind_result (sorted_unique Gate_ids_not_unique (hgs_pending_gate_ids h)) (\<lambda>pending_ids.
       let failed = (failed_ids \<noteq> [] \<or> blocking \<noteq> []); pending = (pending_ids \<noteq> [])
       in if hgs_state h = Gate_SUCCEEDED \<and> (failed \<or> pending) then Inl Gate_succeeded_shape
          else if hgs_state h = Gate_PENDING \<and> (failed \<or> \<not> pending) then Inl Gate_pending_shape
          else if hgs_state h = Gate_FAILED \<and> \<not> failed then Inl Gate_failed_shape
          else Inr (h\<lparr>hgs_failed_gate_ids := failed_ids, hgs_blocking_stage_ids := blocking,
                      hgs_pending_gate_ids := pending_ids\<rparr>))))"

datatype ScorerEligibilityKind = Scorer_NOT_CONFIGURED | Scorer_READY | Scorer_WAITING | Scorer_BLOCKED

record ScorerEligibility =
  sel_state :: ScorerEligibilityKind
  sel_blocking_stage_ids :: "Identifier list"
  sel_waiting_stage_ids :: "Identifier list"

definition ScorerEligibility_validate :: "ScorerEligibility \<Rightarrow> evaluation_error + ScorerEligibility" where
  "ScorerEligibility_validate e =
     bind_result (sorted_unique Eligibility_ids_not_unique (sel_blocking_stage_ids e)) (\<lambda>blocking.
     bind_result (sorted_unique Eligibility_ids_not_unique (sel_waiting_stage_ids e)) (\<lambda>waiting.
       if set blocking \<inter> set waiting \<noteq> {} then Inl Blocking_and_waiting
       else if sel_state e = Scorer_BLOCKED
       then if blocking = [] \<or> waiting \<noteq> [] then Inl Blocked_shape
            else Inr (e\<lparr>sel_blocking_stage_ids := blocking, sel_waiting_stage_ids := waiting\<rparr>)
       else if sel_state e = Scorer_WAITING
       then if waiting = [] \<or> blocking \<noteq> [] then Inl Waiting_shape
            else Inr (e\<lparr>sel_blocking_stage_ids := blocking, sel_waiting_stage_ids := waiting\<rparr>)
       else if blocking \<noteq> [] \<or> waiting \<noteq> [] then Inl Ready_shape
       else Inr (e\<lparr>sel_blocking_stage_ids := blocking, sel_waiting_stage_ids := waiting\<rparr>)))"

record ScoringDecision =
  dec_eligibility :: ScorerEligibility
  dec_score :: "CandidateScore option"

definition ScoringDecision_validate :: "ScoringDecision \<Rightarrow> evaluation_error + ScoringDecision" where
  "ScoringDecision_validate raw =
     bind_result (ScorerEligibility_validate (dec_eligibility raw)) (\<lambda>eligibility.
     bind_result (case dec_score raw of None \<Rightarrow> Inr None
                  | Some s \<Rightarrow> bind_result (CandidateScore_validate s) (\<lambda>s. Inr (Some s))) (\<lambda>score.
       let d = \<lparr>dec_eligibility = eligibility, dec_score = score\<rparr> in
       if (sel_state (dec_eligibility d) = Scorer_READY) \<noteq> (dec_score d \<noteq> None) then Inl Score_iff_ready
       else if sel_state (dec_eligibility d) = Scorer_WAITING then Inl Waiting_not_terminal
       else Inr d))"

end
