(* ===== verification/SessionSpec.thy ===== *)
theory SessionSpec
  imports Canonical
begin

section \<open>Session specifications\<close>

text \<open>
  Models \<open>src/edagym/specs/session.py\<close>: modes, actors, writer control, budgets and the policy
  validator of \<open>SessionSpec\<close>, which is shown to accept exactly what a table of policies admits. \<open>Mode_Benchmark\<close>, \<open>Mode_Training\<close> and \<open>Mode_Course\<close> are the members of
  the tagged union \<open>SessionMode\<close>; the other unions follow the same scheme.
\<close>

datatype ActorKind = Actor_HUMAN | Actor_HARNESS
datatype CandidateAuthority = Authority_PARTICIPANT | Authority_TASK_AUTHOR
datatype FeedbackPolicy = Feedback_NONE | Feedback_STAGE | Feedback_SAFE_DIAGNOSTIC
  | Feedback_METRICS | Feedback_COURSE
datatype RecoveryPolicy = Recovery_NONE | Recovery_BEST_EFFORT | Recovery_REQUIRED
datatype OralDefensePolicy = Oral_DISABLED | Oral_OPTIONAL | Oral_REQUIRED

record BenchmarkMode =
  bmm_trial_count :: int

record CourseMode =
  crm_rubric_digest :: Digest
  crm_oral_defense :: OralDefensePolicy

datatype SessionMode = Mode_Benchmark BenchmarkMode | Mode_Training | Mode_Course CourseMode

record HumanActor =
  hua_actor_id :: Identifier
  hua_adapter_id :: Identifier
  hua_adapter_digest :: Digest

record HarnessActor =
  haa_actor_id :: Identifier
  haa_harness_id :: Identifier
  haa_harness_digest :: Digest
  haa_scaffold_digest :: Digest
  haa_requested_model_route :: string

text \<open>
  \<open>ModelRoute\<close>, a string of one to 160 characters with the pattern \<open>[A-Za-z0-9][A-Za-z0-9._:/+-]*\<close>.
\<close>

definition is_alnum :: "char \<Rightarrow> bool" where
  "is_alnum c \<longleftrightarrow> is_lower_alnum c \<or> CHR ''A'' \<le> c \<and> c \<le> CHR ''Z''"

definition model_route_ok :: "string \<Rightarrow> bool" where
  "model_route_ok s \<longleftrightarrow> 1 \<le> length s \<and> length s \<le> 160
     \<and> (case s of [] \<Rightarrow> False | c # cs \<Rightarrow> is_alnum c \<and> list_all (\<lambda>c. is_alnum c \<or> c \<in> set ''._:/+-'') cs)"

datatype ActorSpec = Spec_Human HumanActor | Spec_Harness HarnessActor

fun actor_id :: "ActorSpec \<Rightarrow> Identifier" where
  "actor_id (Spec_Human a) = hua_actor_id a"
| "actor_id (Spec_Harness a) = haa_actor_id a"

definition is_harness :: "ActorSpec \<Rightarrow> bool" where
  "is_harness a = (case a of Spec_Harness _ \<Rightarrow> True | _ \<Rightarrow> False)"

datatype WriterControl = Writer_Fixed Identifier | Writer_Handoff Identifier

fun writer_id :: "WriterControl \<Rightarrow> Identifier" where
  "writer_id (Writer_Fixed w) = w"
| "writer_id (Writer_Handoff w) = w"

definition is_fixed :: "WriterControl \<Rightarrow> bool" where
  "is_fixed w = (case w of Writer_Fixed _ \<Rightarrow> True | _ \<Rightarrow> False)"

datatype session_error = Session_range | Input_tokens_too_small | Output_tokens_too_small
  | Total_tokens_too_small | Total_tokens_too_large | Actors_not_unique | Author_digest
  | Unknown_writer | Single_actor_fixed | Multi_actor_handoff | Model_budget_harness
  | Author_calibration_only | Benchmark_recovery | Benchmark_feedback | Training_recovery
  | Training_feedback | Course_human | Course_feedback

record ResourceBudget =
  rbd_max_turns :: int
  rbd_max_tool_calls :: int
  rbd_max_experiments :: int
  rbd_max_wall_seconds :: int
  rbd_max_eda_compute_seconds :: int
  rbd_max_license_seconds :: int
  rbd_max_artifact_bytes :: int

definition ResourceBudget_validate :: "ResourceBudget \<Rightarrow> session_error + ResourceBudget" where
  "ResourceBudget_validate b =
     (if \<not> (1 \<le> rbd_max_turns b \<and> 1 \<le> rbd_max_tool_calls b \<and> 1 \<le> rbd_max_experiments b
            \<and> 1 \<le> rbd_max_wall_seconds b \<and> 1 \<le> rbd_max_eda_compute_seconds b
            \<and> 0 \<le> rbd_max_license_seconds b \<and> 1 \<le> rbd_max_artifact_bytes b)
      then Inl Session_range else Inr b)"

record ModelBudget =
  mbd_max_requests :: int
  mbd_max_input_tokens_per_request :: int
  mbd_max_output_tokens_per_request :: int
  mbd_max_total_input_tokens :: int
  mbd_max_total_output_tokens :: int
  mbd_max_total_tokens :: int

definition ModelBudget_validate :: "ModelBudget \<Rightarrow> session_error + ModelBudget" where
  "ModelBudget_validate b =
     (if \<not> (1 \<le> mbd_max_requests b \<and> 1 \<le> mbd_max_input_tokens_per_request b
            \<and> 1 \<le> mbd_max_output_tokens_per_request b \<and> 1 \<le> mbd_max_total_input_tokens b
            \<and> 1 \<le> mbd_max_total_output_tokens b \<and> 1 \<le> mbd_max_total_tokens b)
      then Inl Session_range
      else if mbd_max_total_input_tokens b < mbd_max_input_tokens_per_request b
      then Inl Input_tokens_too_small
      else if mbd_max_total_output_tokens b < mbd_max_output_tokens_per_request b
      then Inl Output_tokens_too_small
      else if mbd_max_total_tokens b
              < mbd_max_input_tokens_per_request b + mbd_max_output_tokens_per_request b
      then Inl Total_tokens_too_small
      else if mbd_max_total_input_tokens b + mbd_max_total_output_tokens b < mbd_max_total_tokens b
      then Inl Total_tokens_too_large
      else Inr b)"

record SessionSpec =
  ssn_session_id :: Identifier
  ssn_mode :: SessionMode
  ssn_actors :: "ActorSpec list"
  ssn_writer :: WriterControl
  ssn_candidate_authority :: CandidateAuthority
  ssn_author_candidate_digest :: "Digest option"
  ssn_feedback :: FeedbackPolicy
  ssn_recovery :: RecoveryPolicy
  ssn_resources :: ResourceBudget
  ssn_model_budget :: "ModelBudget option"

definition check_mode :: "SessionSpec \<Rightarrow> session_error + unit" where
  "check_mode s =
     (case ssn_mode s of
        Mode_Benchmark _ \<Rightarrow>
          if ssn_recovery s \<noteq> Recovery_NONE then Inl Benchmark_recovery
          else if ssn_feedback s \<in> {Feedback_METRICS, Feedback_COURSE} then Inl Benchmark_feedback
          else Inr ()
      | Mode_Training \<Rightarrow>
          if ssn_recovery s \<noteq> Recovery_REQUIRED then Inl Training_recovery
          else if ssn_feedback s \<notin> {Feedback_STAGE, Feedback_SAFE_DIAGNOSTIC, Feedback_METRICS}
          then Inl Training_feedback
          else Inr ()
      | Mode_Course _ \<Rightarrow>
          if \<not> list_ex (\<lambda>a. \<not> is_harness a) (ssn_actors s) then Inl Course_human
          else if ssn_feedback s \<noteq> Feedback_COURSE then Inl Course_feedback
          else Inr ())"

definition is_benchmark :: "SessionMode \<Rightarrow> bool" where
  "is_benchmark m = (case m of Mode_Benchmark _ \<Rightarrow> True | _ \<Rightarrow> False)"

definition validate_session_policy :: "SessionSpec \<Rightarrow> session_error + SessionSpec" where
  "validate_session_policy s =
     (let has_harness = list_ex is_harness (ssn_actors s) in
      if (ssn_candidate_authority s = Authority_TASK_AUTHOR) \<noteq> (ssn_author_candidate_digest s \<noteq> None)
      then Inl Author_digest
      else if writer_id (ssn_writer s) \<notin> set (map actor_id (ssn_actors s)) then Inl Unknown_writer
      else if length (ssn_actors s) = 1 \<and> \<not> is_fixed (ssn_writer s) then Inl Single_actor_fixed
      else if 1 < length (ssn_actors s) \<and> is_fixed (ssn_writer s) then Inl Multi_actor_handoff
      else if has_harness \<noteq> (ssn_model_budget s \<noteq> None) then Inl Model_budget_harness
      else if ssn_candidate_authority s = Authority_TASK_AUTHOR
              \<and> (\<not> is_benchmark (ssn_mode s) \<or> has_harness)
      then Inl Author_calibration_only
      else bind_result (check_mode s) (\<lambda>_. Inr s))"

definition SessionMode_validate :: "SessionMode \<Rightarrow> session_error + SessionMode" where
  "SessionMode_validate m =
     (case m of Mode_Benchmark b \<Rightarrow> if \<not> 1 \<le> bmm_trial_count b then Inl Session_range else Inr m
      | _ \<Rightarrow> Inr m)"

definition ActorSpec_validate :: "ActorSpec \<Rightarrow> session_error + ActorSpec" where
  "ActorSpec_validate a =
     (case a of Spec_Human _ \<Rightarrow> Inr a
      | Spec_Harness h \<Rightarrow> if \<not> model_route_ok (haa_requested_model_route h) then Inl Session_range else Inr a)"

definition SessionSpec_validate :: "SessionSpec \<Rightarrow> session_error + SessionSpec" where
  "SessionSpec_validate raw =
     bind_result (SessionMode_validate (ssn_mode raw)) (\<lambda>mode.
     if ssn_actors raw = [] then Inl Session_range
     else
       bind_result (map_result ActorSpec_validate (ssn_actors raw)) (\<lambda>checked.
       bind_result (sorted_unique_by actor_id Actors_not_unique checked) (\<lambda>actors.
       bind_result (ResourceBudget_validate (ssn_resources raw)) (\<lambda>resources.
       bind_result (case ssn_model_budget raw of None \<Rightarrow> Inr None
                    | Some b \<Rightarrow> bind_result (ModelBudget_validate b) (\<lambda>b. Inr (Some b))) (\<lambda>budget.
         validate_session_policy (raw\<lparr>ssn_mode := mode, ssn_actors := actors,
           ssn_resources := resources, ssn_model_budget := budget\<rparr>))))))"

subsection \<open>What a session may be\<close>

text \<open>
  The policy as a table: the recovery and feedback a mode admits. A session is admissible when it has actors with
  distinct identifiers and legal model routes, a writer among them, control that fits their number, budgets in range, a
  model budget exactly for harnesses, and a task-author candidate only in a benchmark without harness.
\<close>

fun admitted_policies :: "SessionMode \<Rightarrow> (RecoveryPolicy \<times> FeedbackPolicy) set" where
  "admitted_policies (Mode_Benchmark _) = {Recovery_NONE} \<times> {Feedback_NONE, Feedback_STAGE, Feedback_SAFE_DIAGNOSTIC}"
| "admitted_policies Mode_Training = {Recovery_REQUIRED} \<times> {Feedback_STAGE, Feedback_SAFE_DIAGNOSTIC, Feedback_METRICS}"
| "admitted_policies (Mode_Course _) = UNIV \<times> {Feedback_COURSE}"

fun mode_actors :: "SessionMode \<Rightarrow> ActorSpec set \<Rightarrow> bool" where
  "mode_actors (Mode_Benchmark b) actors \<longleftrightarrow> 1 \<le> bmm_trial_count b"
| "mode_actors Mode_Training actors \<longleftrightarrow> True"
| "mode_actors (Mode_Course _) actors \<longleftrightarrow> (\<exists>h. Spec_Human h \<in> actors)"

definition resources_admissible :: "ResourceBudget \<Rightarrow> bool" where
  "resources_admissible b \<longleftrightarrow> 0 < rbd_max_turns b \<and> 0 < rbd_max_tool_calls b \<and> 0 < rbd_max_experiments b
     \<and> 0 < rbd_max_wall_seconds b \<and> 0 < rbd_max_eda_compute_seconds b \<and> 0 \<le> rbd_max_license_seconds b
     \<and> 0 < rbd_max_artifact_bytes b"

definition model_budget_admissible :: "ModelBudget \<Rightarrow> bool" where
  "model_budget_admissible b \<longleftrightarrow> 0 < mbd_max_requests b
     \<and> mbd_max_input_tokens_per_request b \<in> {1..mbd_max_total_input_tokens b}
     \<and> mbd_max_output_tokens_per_request b \<in> {1..mbd_max_total_output_tokens b}
     \<and> mbd_max_total_tokens b \<in> {mbd_max_input_tokens_per_request b + mbd_max_output_tokens_per_request b
          ..mbd_max_total_input_tokens b + mbd_max_total_output_tokens b}"

definition admissible_session :: "SessionSpec \<Rightarrow> bool" where
  "admissible_session s \<longleftrightarrow> ssn_actors s \<noteq> [] \<and> distinct (map actor_id (ssn_actors s))
     \<and> (\<forall>h. Spec_Harness h \<in> set (ssn_actors s) \<longrightarrow> model_route_ok (haa_requested_model_route h))
     \<and> (ssn_recovery s, ssn_feedback s) \<in> admitted_policies (ssn_mode s) \<and> mode_actors (ssn_mode s) (set (ssn_actors s))
     \<and> (\<exists>w\<in>actor_id ` set (ssn_actors s). ssn_writer s = (if length (ssn_actors s) = 1 then Writer_Fixed w else Writer_Handoff w))
     \<and> resources_admissible (ssn_resources s)
     \<and> (case ssn_model_budget s of None \<Rightarrow> \<forall>h. Spec_Harness h \<notin> set (ssn_actors s)
        | Some b \<Rightarrow> (\<exists>h. Spec_Harness h \<in> set (ssn_actors s)) \<and> model_budget_admissible b)
     \<and> (case ssn_author_candidate_digest s of None \<Rightarrow> ssn_candidate_authority s = Authority_PARTICIPANT
        | Some _ \<Rightarrow> ssn_candidate_authority s = Authority_TASK_AUTHOR \<and> is_benchmark (ssn_mode s) \<and> ssn_model_budget s = None)"

subsection \<open>Properties\<close>

lemma validate_session_policy_facts:
  assumes "validate_session_policy s = Inr s'"
  shows "s' = s" "writer_id (ssn_writer s) \<in> set (map actor_id (ssn_actors s))"
    "length (ssn_actors s) = 1 \<Longrightarrow> is_fixed (ssn_writer s)"
    "1 < length (ssn_actors s) \<Longrightarrow> \<not> is_fixed (ssn_writer s)"
    "list_ex is_harness (ssn_actors s) \<longleftrightarrow> ssn_model_budget s \<noteq> None"
    "ssn_candidate_authority s = Authority_TASK_AUTHOR \<Longrightarrow> is_benchmark (ssn_mode s) \<and> \<not> list_ex is_harness (ssn_actors s)"
    "check_mode s = Inr ()"
  using assms by (auto simp: validate_session_policy_def Let_def split: if_splits)

lemma validate_session_policy_same:
  "validate_session_policy x = Inr y \<longleftrightarrow> y = x \<and> \<not> isl (validate_session_policy x)"
  using validate_session_policy_facts(1) by (cases "validate_session_policy x") auto

lemma is_harness_iff: "is_harness a \<longleftrightarrow> (\<exists>h. a = Spec_Harness h)" "\<not> is_harness a \<longleftrightarrow> (\<exists>h. a = Spec_Human h)"
  by (cases a; simp add: is_harness_def)+

lemma ActorSpec_validate_Inr:
  "ActorSpec_validate a = Inr b \<longleftrightarrow> b = a \<and> (\<forall>h. a = Spec_Harness h \<longrightarrow> model_route_ok (haa_requested_model_route h))"
  by (auto simp: ActorSpec_validate_def split: ActorSpec.split)

lemma map_ActorSpec_validate:
  "map_result ActorSpec_validate as = Inr bs
     \<longleftrightarrow> bs = as \<and> (\<forall>h. Spec_Harness h \<in> set as \<longrightarrow> model_route_ok (haa_requested_model_route h))"
proof -
  have "map_result ActorSpec_validate as = Inr bs
      \<longleftrightarrow> list_all2 (\<lambda>a b. b = a \<and> (\<forall>h. a = Spec_Harness h \<longrightarrow> model_route_ok (haa_requested_model_route h))) as bs"
    by (simp add: map_result_Inr ActorSpec_validate_Inr)
  also have "\<dots> \<longleftrightarrow> bs = as \<and> (\<forall>h. Spec_Harness h \<in> set as \<longrightarrow> model_route_ok (haa_requested_model_route h))"
    by (induction as arbitrary: bs) (auto simp: list_all2_Cons1)
  finally show ?thesis .
qed

lemma budgets_admissible:
  "ResourceBudget_validate r = Inr r' \<longleftrightarrow> r' = r \<and> resources_admissible r"
  "ModelBudget_validate b = Inr b' \<longleftrightarrow> b' = b \<and> model_budget_admissible b"
  by (auto simp: ResourceBudget_validate_def resources_admissible_def ModelBudget_validate_def model_budget_admissible_def)

lemma mode_policy_iff:
  "SessionMode_validate (ssn_mode s) = Inr m \<and> check_mode s = Inr ()
     \<longleftrightarrow> m = ssn_mode s \<and> (ssn_recovery s, ssn_feedback s) \<in> admitted_policies (ssn_mode s)
       \<and> mode_actors (ssn_mode s) (set (ssn_actors s))"
proof -
  have human: "list_ex (\<lambda>a. \<not> is_harness a) xs \<longleftrightarrow> (\<exists>h. Spec_Human h \<in> set xs)" for xs
    by (auto simp: list_ex_iff is_harness_iff(2))
  show ?thesis
    by (cases "ssn_mode s"; cases "ssn_recovery s"; cases "ssn_feedback s")
      (auto simp: SessionMode_validate_def check_mode_def human)
qed

lemma admissible_session_reorder:
  assumes "admissible_session s" "mset actors = mset (ssn_actors s)"
  shows "admissible_session (s\<lparr>ssn_actors := actors\<rparr>)"
proof -
  note same = mset_eq_setD [OF assms(2)] mset_eq_length [OF assms(2)]
  have "distinct (map actor_id actors)"
    using assms by (metis admissible_session_def mset_eq_imp_distinct_iff mset_map)
  moreover have "actors \<noteq> []" using assms by (auto simp: admissible_session_def)
  ultimately show ?thesis
    using assms(1) same by (auto simp: admissible_session_def split: option.splits)
qed

lemma sort_key_distinct_unique:
  fixes k :: "'a \<Rightarrow> 'b::linorder"
  assumes "distinct (map k ys)" "mset xs = mset ys"
  shows "sort_key k xs = sort_key k ys"
  using assms by (intro sort_key_inj_key_eq) (auto simp: distinct_map dest: mset_eq_setD)

lemma writer_control_iff:
  assumes "actors \<noteq> []"
  shows "writer_id w \<in> actor_id ` set actors \<and> (length actors = 1 \<longrightarrow> is_fixed w) \<and> (1 < length actors \<longrightarrow> \<not> is_fixed w)
    \<longleftrightarrow> (\<exists>a\<in>actor_id ` set actors. w = (if length actors = 1 then Writer_Fixed a else Writer_Handoff a))"
proof -
  have "length actors = 1 \<or> 1 < length actors" using assms by (cases actors) auto
  then show ?thesis by (cases w) (auto simp: is_fixed_def)
qed

lemma validate_session_policy_iff:
  assumes "ssn_actors s \<noteq> []"
  shows "validate_session_policy s = Inr s \<longleftrightarrow> check_mode s = Inr ()
    \<and> (\<exists>w\<in>actor_id ` set (ssn_actors s). ssn_writer s = (if length (ssn_actors s) = 1 then Writer_Fixed w else Writer_Handoff w))
    \<and> (ssn_model_budget s = None \<longleftrightarrow> (\<forall>h. Spec_Harness h \<notin> set (ssn_actors s)))
    \<and> (case ssn_author_candidate_digest s of None \<Rightarrow> ssn_candidate_authority s = Authority_PARTICIPANT
        | Some _ \<Rightarrow> ssn_candidate_authority s = Authority_TASK_AUTHOR \<and> is_benchmark (ssn_mode s) \<and> ssn_model_budget s = None)"
proof -
  have harness: "list_ex is_harness (ssn_actors s) \<longleftrightarrow> (\<exists>h. Spec_Harness h \<in> set (ssn_actors s))"
    by (auto simp: list_ex_iff is_harness_iff)
  show ?thesis
    unfolding writer_control_iff [OF assms, symmetric] validate_session_policy_def Let_def harness
    by (cases "ssn_candidate_authority s"; cases "ssn_author_candidate_digest s"; cases "ssn_model_budget s") auto
qed

lemma SessionSpec_validate_iff:
  "SessionSpec_validate raw = Inr s
     \<longleftrightarrow> admissible_session raw \<and> s = raw\<lparr>ssn_actors := sort_key actor_id (ssn_actors raw)\<rparr>"
proof -
  let ?s = "raw\<lparr>ssn_actors := sort_key actor_id (ssn_actors raw)\<rparr>"
  have budget: "(case ssn_model_budget raw of None \<Rightarrow> Inr None
      | Some b \<Rightarrow> bind_result (ModelBudget_validate b) (\<lambda>b. Inr (Some b))) = Inr m
      \<longleftrightarrow> m = ssn_model_budget raw \<and> (\<forall>b. ssn_model_budget raw = Some b \<longrightarrow> model_budget_admissible b)" for m
    by (cases "ssn_model_budget raw") (auto simp: budgets_admissible)
  have mode: "SessionMode_validate (ssn_mode raw) = Inr m \<longleftrightarrow> m = ssn_mode raw \<and> \<not> isl (SessionMode_validate (ssn_mode raw))" for m
    by (auto simp: SessionMode_validate_def split: SessionMode.split if_split)
  have "SessionSpec_validate raw = Inr s \<longleftrightarrow> s = ?s \<and> SessionMode_validate (ssn_mode raw) = Inr (ssn_mode raw) \<and> ssn_actors raw \<noteq> []
      \<and> (\<forall>h. Spec_Harness h \<in> set (ssn_actors raw) \<longrightarrow> model_route_ok (haa_requested_model_route h))
      \<and> distinct (map actor_id (ssn_actors raw)) \<and> resources_admissible (ssn_resources raw)
      \<and> (\<forall>b. ssn_model_budget raw = Some b \<longrightarrow> model_budget_admissible b) \<and> validate_session_policy ?s = Inr ?s"
    unfolding SessionSpec_validate_def validate_session_policy_same
    by (auto simp: validate_session_policy_same map_ActorSpec_validate budgets_admissible budget mode)
  also have "\<dots> \<longleftrightarrow> admissible_session raw \<and> s = ?s"
  proof (cases "ssn_actors raw = []")
    case False
    then have ne: "ssn_actors ?s \<noteq> []" by simp
    have "SessionMode_validate (ssn_mode ?s) = Inr (ssn_mode ?s) \<and> check_mode ?s = Inr ()
        \<longleftrightarrow> (ssn_recovery raw, ssn_feedback raw) \<in> admitted_policies (ssn_mode raw) \<and> mode_actors (ssn_mode raw) (set (ssn_actors raw))"
      unfolding mode_policy_iff by simp
    then show ?thesis
      unfolding validate_session_policy_iff [OF ne] admissible_session_def by (auto split: option.split)
  qed (simp add: admissible_session_def)
  finally show ?thesis .
qed

text \<open>
  C40: validation accepts exactly the admissible sessions, for every mode and every policy: actors with distinct identifiers
  and legal model routes, one writer among them, fixed for a single actor and handed over otherwise; the recovery and
  feedback the mode admits, a trial count for a benchmark and a human in a course; budgets in range, a model budget exactly
  when a harness takes part, and a task-author candidate exactly when its digest is given, only in a benchmark without
  harness. What it returns is the given session with its actors in order; it is accepted again unchanged and does not
  depend on the order in which the actors were given.
\<close>

theorem SessionSpec_validate_policy:
  "(SessionSpec_validate raw = Inr s
      \<longleftrightarrow> admissible_session raw \<and> s = raw\<lparr>ssn_actors := sort_key actor_id (ssn_actors raw)\<rparr>)
   \<and> (SessionSpec_validate raw = Inr s \<longrightarrow> SessionSpec_validate s = Inr s
      \<and> (\<forall>actors. mset actors = mset (ssn_actors raw) \<longrightarrow> SessionSpec_validate (raw\<lparr>ssn_actors := actors\<rparr>) = Inr s))"
proof -
  have accept: "SessionSpec_validate (raw\<lparr>ssn_actors := actors\<rparr>) = Inr (raw\<lparr>ssn_actors := sort_key actor_id (ssn_actors raw)\<rparr>)"
    if raw: "admissible_session raw" and actors: "mset actors = mset (ssn_actors raw)" for actors
  proof -
    have "distinct (map actor_id (ssn_actors raw))" using raw by (simp add: admissible_session_def)
    from sort_key_distinct_unique [OF this actors] admissible_session_reorder [OF that]
    show ?thesis by (simp add: SessionSpec_validate_iff)
  qed
  show ?thesis
  proof (intro conjI impI allI SessionSpec_validate_iff)
    assume "SessionSpec_validate raw = Inr s"
    then have raw: "admissible_session raw" and s: "s = raw\<lparr>ssn_actors := sort_key actor_id (ssn_actors raw)\<rparr>"
      unfolding SessionSpec_validate_iff by blast+
    show "SessionSpec_validate s = Inr s" unfolding s by (rule accept [OF raw]) simp
    show "SessionSpec_validate (raw\<lparr>ssn_actors := actors\<rparr>) = Inr s" if "mset actors = mset (ssn_actors raw)" for actors
      unfolding s by (rule accept [OF raw that])
  qed
qed

definition example_session :: SessionSpec where
  "example_session = \<lparr>ssn_session_id = ''session'', ssn_mode = Mode_Benchmark \<lparr>bmm_trial_count = 1\<rparr>,
     ssn_actors = [Spec_Harness \<lparr>haa_actor_id = ''agent'', haa_harness_id = ''h'', haa_harness_digest = ''d'',
       haa_scaffold_digest = ''d'', haa_requested_model_route = ''m''\<rparr>],
     ssn_writer = Writer_Fixed ''agent'', ssn_candidate_authority = Authority_PARTICIPANT,
     ssn_author_candidate_digest = None, ssn_feedback = Feedback_NONE, ssn_recovery = Recovery_NONE,
     ssn_resources = \<lparr>rbd_max_turns = 1, rbd_max_tool_calls = 1, rbd_max_experiments = 1,
       rbd_max_wall_seconds = 1, rbd_max_eda_compute_seconds = 1, rbd_max_license_seconds = 0,
       rbd_max_artifact_bytes = 1\<rparr>,
     ssn_model_budget = Some \<lparr>mbd_max_requests = 1, mbd_max_input_tokens_per_request = 5,
       mbd_max_output_tokens_per_request = 5, mbd_max_total_input_tokens = 10,
       mbd_max_total_output_tokens = 10, mbd_max_total_tokens = 12\<rparr>\<rparr>"

lemma example_session_accepted: "SessionSpec_validate example_session = Inr example_session"
  by code_simp

definition pair_session :: SessionSpec where
  "pair_session = example_session\<lparr>ssn_actors := Spec_Human \<lparr>hua_actor_id = ''pilot'', hua_adapter_id = ''a'', hua_adapter_digest = ''d''\<rparr>
       # ssn_actors example_session, ssn_writer := Writer_Handoff ''pilot''\<rparr>"

lemma pair_session_accepted:
  "SessionSpec_validate pair_session = Inr (pair_session\<lparr>ssn_actors := rev (ssn_actors pair_session)\<rparr>)"
  by code_simp

theorem SessionSpec_validate_policy_witness:
  "admissible_session pair_session
   \<and> SessionSpec_validate (pair_session\<lparr>ssn_actors := rev (ssn_actors pair_session)\<rparr>)
       = Inr (pair_session\<lparr>ssn_actors := rev (ssn_actors pair_session)\<rparr>)"
  using SessionSpec_validate_policy [of pair_session "pair_session\<lparr>ssn_actors := rev (ssn_actors pair_session)\<rparr>"] pair_session_accepted
  by blast

end
