(* ===== verification/RunModel.thy ===== *)
theory RunModel
  imports EvaluationModel SessionSpec
begin

section \<open>Run bindings and event envelopes\<close>

text \<open>
  Models \<open>src/edagym/run/model.py\<close>. An event is the common envelope \<open>RunEvent\<close> (the fields of
  \<open>EventBase\<close>) with a payload of the tagged union \<open>EventPayload\<close>, one constructor per event class.
  \<open>event_validate\<close> is the construction of an event: the payload's validators, then those of the
  envelope and of the event class, including the producers and visibilities a class fixes by a
  literal type. Digests of canonical encodings are the fields of the parameter record
  \<open>run_digests\<close>; a timestamp is its UTC instant, with naive ones kept apart because they are
  rejected.
\<close>

subsection \<open>Enumerations\<close>

datatype ProducerKind = Producer_CONTROLLER | Producer_PARTICIPANT | Producer_EXECUTOR
  | Producer_EVALUATOR | Producer_POLICY

datatype RunPurpose = Purpose_STANDARD | Purpose_CAMPAIGN_TRIAL | Purpose_SYNTHETIC_PREFLIGHT

datatype (plugins only: code size) StopReason = Stop_VERIFIER_SUCCESS | Stop_WALL_BUDGET
  | Stop_EDA_COMPUTE_BUDGET | Stop_EXPERIMENT_BUDGET | Stop_INTERACTION_BUDGET
  | Stop_TOOL_CALL_BUDGET | Stop_TOKEN_BUDGET | Stop_LICENSE_BUDGET | Stop_STORAGE_BUDGET
  | Stop_PROVIDER_BUDGET_OVERRUN | Stop_EXPLICIT_CANCEL | Stop_POLICY_FAILURE
  | Stop_SECURITY_FAILURE | Stop_INFRASTRUCTURE_FAILURE | Stop_UNRANKABLE

datatype InteractionDirection = Direction_PARTICIPANT_INPUT | Direction_PARTICIPANT_OUTPUT
  | Direction_TOOL_REQUEST | Direction_TOOL_RESULT

datatype JobStateKind = Job_QUEUED | Job_RUNNING | Job_CHECKPOINTING | Job_COMPLETED | Job_FAILED
  | Job_CANCELLED

datatype PolicyDecisionKind = Policy_ALLOWED | Policy_DENIED

datatype LicenseDenialReason = Denied_PROVIDER_UNAVAILABLE | Denied_FEATURE_UNAVAILABLE
  | Denied_INVALID_LEASE | Denied_PROVIDER_FAILURE

datatype CheckpointCapability = Checkpoint_NONE | Checkpoint_APPLICATION | Checkpoint_FILESYSTEM
  | Checkpoint_VIRTUAL_MACHINE

datatype Timestamp = Naive int | Aware int

datatype (plugins only: code size) run_error = Run_range | Secret_artifact | Public_artifact
  | Tools_not_unique | Assets_not_unique | Operations_not_unique | Operation_tool
  | Run_actors_not_unique | Initial_writer | Handoff_actors | Lineage_parent | Evaluators_not_unique
  | Campaign_binding | Run_id_digest | Restored_manifest | Result_relation | Tool_name
  | License_reservation | License_exceeds_compute | License_exceeds_elapsed | Usage_total
  | Usage_cached | Usage_reasoning | Token_floor | Same_writer | Driver_identity | Success_candidate
  | Naive_timestamp | Artifact_refs_not_unique | Actor_missing | Actor_unexpected | Producer_literal
  | Visibility_literal | Unexpected_artifacts | Request_artifacts | Response_artifact
  | Invocation_identity | Settlement_evidence | Manifest_reference | Recovery_order
  | Recovery_manifest | Lifecycle_start | Lifecycle_pending | Lifecycle_recoveries | Commit_empty
  | Commit_digest | Chain_broken | Foreign_event | Sequence_gap | Duplicate_event
  | Request_bytes_missing | Canary_missing | Run_evaluation evaluation_error
  | Run_canonical canonical_error

subsection \<open>Artifacts and bindings\<close>

record BlobRef =
  blb_digest :: Digest
  blb_size_bytes :: int

record ArtifactRecord =
  art_logical_id :: Identifier
  art_blob :: BlobRef
  art_media_type :: string
  art_artifact_class :: ArtifactClass
  art_sensitivity :: Sensitivity
  art_visibility :: Visibility
  art_redistribution :: Redistribution

definition ArtifactRecord_validate :: "ArtifactRecord \<Rightarrow> run_error + ArtifactRecord" where
  "ArtifactRecord_validate r =
     (if \<not> 0 \<le> blb_size_bytes (art_blob r)
         \<or> \<not> (1 \<le> length (art_media_type r) \<and> length (art_media_type r) \<le> 127) then Inl Run_range
      else if art_sensitivity r = Sensitivity_SECRET then Inl Secret_artifact
      else if art_visibility r = Visibility_PUBLIC
              \<and> (art_sensitivity r \<noteq> Sensitivity_PUBLIC \<or> art_redistribution r \<noteq> Redistribution_ALLOWED)
      then Inl Public_artifact
      else Inr r)"

record TaskRunBinding =
  trb_family :: Identifier
  trb_authoring_revision :: int
  trb_task_spec_digest :: Digest
  trb_instance_seed :: Seed128Hex
  trb_instance_digest :: Digest
  trb_release_digest :: Digest

definition TaskRunBinding_validate :: "TaskRunBinding \<Rightarrow> run_error + TaskRunBinding" where
  "TaskRunBinding_validate t = (if \<not> 1 \<le> trb_authoring_revision t then Inl Run_range else Inr t)"

record ResolvedToolBinding =
  rtb_capability :: Capability
  rtb_tool_id :: Identifier
  rtb_tool_version :: string
  rtb_driver_digest :: Digest
  rtb_deployment_attestation_digest :: Digest

record ResolvedParticipantOperationBinding =
  rpo_operation_id :: Identifier
  rpo_operation_digest :: Digest
  rpo_capability :: Capability
  rpo_tool_id :: Identifier

record ResolvedAssetBinding =
  rab_asset_id :: Identifier
  rab_restricted_digest :: Digest

record EnvironmentRunBinding =
  erb_environment_spec_digest :: Digest
  erb_executor_id :: Identifier
  erb_executor_digest :: Digest
  erb_policy_digest :: Digest
  erb_tools :: "ResolvedToolBinding list"
  erb_participant_operations :: "ResolvedParticipantOperationBinding list"
  erb_assets :: "ResolvedAssetBinding list"

definition EnvironmentRunBinding_validate :: "EnvironmentRunBinding \<Rightarrow> run_error + EnvironmentRunBinding" where
  "EnvironmentRunBinding_validate e =
     (if erb_tools e = [] \<or> \<not> distinct (map rtb_capability (erb_tools e)) then Inl Tools_not_unique
      else if list_ex (\<lambda>t. \<not> (1 \<le> length (rtb_tool_version t) \<and> length (rtb_tool_version t) \<le> 120)) (erb_tools e)
      then Inl Run_range
      else
        bind_result (sorted_unique_by rpo_operation_id Operations_not_unique (erb_participant_operations e)) (\<lambda>ops.
        bind_result (sorted_unique_by rab_asset_id Assets_not_unique (erb_assets e)) (\<lambda>assets.
          if list_ex (\<lambda>p. (rpo_capability p, rpo_tool_id p)
                \<notin> set (map (\<lambda>t. (rtb_capability t, rtb_tool_id t)) (erb_tools e))) ops
          then Inl Operation_tool
          else Inr (e\<lparr>erb_tools := sort_key (\<lambda>t. capability_value (rtb_capability t)) (erb_tools e),
                      erb_participant_operations := ops, erb_assets := assets\<rparr>))))"

record HumanRunActor =
  hra_actor_id :: Identifier
  hra_adapter_digest :: Digest

record HarnessRunActor =
  har_actor_id :: Identifier
  har_harness_digest :: Digest
  har_scaffold_digest :: Digest
  har_requested_model_route :: string

datatype RunActor = Run_Human HumanRunActor | Run_Harness HarnessRunActor

definition RunActor_validate :: "RunActor \<Rightarrow> run_error + RunActor" where
  "RunActor_validate a =
     (case a of Run_Human _ \<Rightarrow> Inr a
      | Run_Harness h \<Rightarrow>
          if \<not> (1 \<le> length (har_requested_model_route h) \<and> length (har_requested_model_route h) \<le> 160)
          then Inl Run_range else Inr a)"

fun run_actor_id :: "RunActor \<Rightarrow> Identifier" where
  "run_actor_id (Run_Human a) = hra_actor_id a"
| "run_actor_id (Run_Harness a) = har_actor_id a"

record SessionRunBinding =
  srb_session_spec_digest :: Digest
  srb_actors :: "RunActor list"
  srb_initial_writer :: Identifier
  srb_handoff_enabled :: bool
  srb_feedback_policy_digest :: Digest
  srb_budget_digest :: Digest

definition SessionRunBinding_validate :: "SessionRunBinding \<Rightarrow> run_error + SessionRunBinding" where
  "SessionRunBinding_validate s =
     bind_result (map_result RunActor_validate (srb_actors s)) (\<lambda>actors.
       if actors = [] \<or> \<not> distinct (map run_actor_id actors) then Inl Run_actors_not_unique
       else if srb_initial_writer s \<notin> set (map run_actor_id actors) then Inl Initial_writer
       else if srb_handoff_enabled s \<noteq> (1 < length actors) then Inl Handoff_actors
       else Inr (s\<lparr>srb_actors := sort_key run_actor_id actors\<rparr>))"

record EvaluatorRunBinding =
  evb_evaluator_id :: Identifier
  evb_revision_digest :: Digest

record RunLineage =
  lin_parent_run_id :: "Digest option"
  lin_parent_checkpoint_id :: "Identifier option"
  lin_parent_candidate_id :: "Identifier option"

definition RunLineage_validate :: "RunLineage \<Rightarrow> run_error + RunLineage" where
  "RunLineage_validate l =
     (if lin_parent_run_id l = None
         \<and> (lin_parent_checkpoint_id l \<noteq> None \<or> lin_parent_candidate_id l \<noteq> None)
      then Inl Lineage_parent else Inr l)"

record CampaignTrialRunBinding =
  cam_campaign_digest :: Digest
  cam_schedule_digest :: Digest
  cam_scheduled_trial_digest :: Digest
  cam_paired_seed :: Seed128Hex
  cam_repetition_index :: int
  cam_route_id :: Identifier
  cam_reasoning_effort :: string
  cam_service_tier :: string

definition CampaignTrialRunBinding_validate :: "CampaignTrialRunBinding \<Rightarrow> run_error + CampaignTrialRunBinding" where
  "CampaignTrialRunBinding_validate c =
     (if \<not> seed128_ok (cam_paired_seed c) \<or> \<not> jcs_nonnegative_ok (cam_repetition_index c)
         \<or> \<not> identifier_ok (cam_route_id c)
         \<or> \<not> (1 \<le> length (cam_reasoning_effort c) \<and> length (cam_reasoning_effort c) \<le> 32)
         \<or> \<not> label_ok 32 (cam_service_tier c) then Inl Run_range
      else Inr c)"

record RunBinding =
  bnd_purpose :: RunPurpose
  bnd_task :: TaskRunBinding
  bnd_environment :: EnvironmentRunBinding
  bnd_session :: SessionRunBinding
  bnd_evaluators :: "EvaluatorRunBinding list"
  bnd_measurement_schema_digest :: Digest
  bnd_scorer_revision_digest :: "Digest option"
  bnd_trial_key :: Identifier
  bnd_campaign :: "CampaignTrialRunBinding option"
  bnd_lineage :: RunLineage

definition RunBinding_validate :: "RunBinding \<Rightarrow> run_error + RunBinding" where
  "RunBinding_validate b =
     bind_result (TaskRunBinding_validate (bnd_task b)) (\<lambda>task.
     bind_result (EnvironmentRunBinding_validate (bnd_environment b)) (\<lambda>environment.
     bind_result (SessionRunBinding_validate (bnd_session b)) (\<lambda>session.
     bind_result (case bnd_campaign b of None \<Rightarrow> Inr None
                  | Some c \<Rightarrow> bind_result (CampaignTrialRunBinding_validate c) (\<lambda>c. Inr (Some c))) (\<lambda>campaign.
     bind_result (RunLineage_validate (bnd_lineage b)) (\<lambda>lineage.
       if bnd_evaluators b = [] \<or> \<not> distinct (map evb_evaluator_id (bnd_evaluators b))
       then Inl Evaluators_not_unique
       else if \<not> identifier_ok (bnd_trial_key b) then Inl Run_range
       else if (bnd_purpose b \<in> {Purpose_CAMPAIGN_TRIAL, Purpose_SYNTHETIC_PREFLIGHT})
               \<noteq> (bnd_campaign b \<noteq> None)
       then Inl Campaign_binding
       else Inr (b\<lparr>bnd_task := task, bnd_environment := environment, bnd_session := session,
                   bnd_campaign := campaign, bnd_lineage := lineage,
                   bnd_evaluators := sort_key evb_evaluator_id (bnd_evaluators b)\<rparr>))))))"

record RunHeader =
  hdr_run_id :: Digest
  hdr_binding :: RunBinding

subsection \<open>Payloads\<close>

record RunStartedPayload =
  rsp_binding_digest :: Digest

record ParticipantProcessIdentity =
  ppi_process_id :: int
  ppi_start_time_ticks :: int
  ppi_boot_id_digest :: Digest

record ParticipantIncarnationBinding =
  pib_generation :: int
  pib_process :: ParticipantProcessIdentity
  pib_workspace_identity_digest :: Digest
  pib_artifact_directory_identity_digest :: Digest

record ParticipantIncarnationStartedPayload =
  isp_incarnation :: ParticipantIncarnationBinding

text \<open>The terminated payload and the derived \<open>ParticipantIncarnationTermination\<close> have the same fields.\<close>

record ParticipantIncarnationTermination =
  itp_incarnation_digest :: Digest
  itp_checkpoint_id :: Identifier
  itp_checkpoint_manifest_digest :: Digest

record ParticipantIncarnationRestoredPayload =
  irp_predecessor_incarnation_digest :: Digest
  irp_incarnation :: ParticipantIncarnationBinding
  irp_checkpoint_id :: Identifier
  irp_checkpoint_manifest_digest :: Digest
  irp_restored_manifest_digest :: Digest

record InteractionRecordedPayload =
  inp_direction :: InteractionDirection
  inp_interaction_id :: Identifier
  inp_related_interaction_id :: "Identifier option"
  inp_tool_name :: "Identifier option"

record ParticipantToolReservedPayload =
  trp_request_interaction_id :: Identifier
  trp_invocation_id :: Identifier
  trp_invocation_digest :: Digest
  trp_operation_id :: Identifier
  trp_operation_digest :: Digest
  trp_input_manifest_digest :: Digest
  trp_tool_id :: Identifier
  trp_capability :: Capability
  trp_executor_id :: Identifier
  trp_license_binding_id :: "Identifier option"
  trp_budget_digest :: Digest
  trp_reserved_compute_milliseconds :: int
  trp_reserved_license_milliseconds :: int

record ParticipantToolSettledPayload =
  tsp_request_interaction_id :: Identifier
  tsp_invocation_id :: Identifier
  tsp_invocation_digest :: Digest
  tsp_operation_id :: Identifier
  tsp_operation_digest :: Digest
  tsp_input_manifest_digest :: Digest
  tsp_evidence_artifact_id :: Identifier
  tsp_elapsed_milliseconds :: int
  tsp_license_milliseconds :: int

record ParticipantToolLostPayload =
  tlp_request_interaction_id :: Identifier
  tlp_invocation_id :: Identifier
  tlp_invocation_digest :: Digest

record ProviderUsageFact =
  puf_input_tokens :: int
  puf_output_tokens :: int
  puf_total_tokens :: int
  puf_cached_input_tokens :: "int option"
  puf_reasoning_tokens :: "int option"

record ProviderSecurityBinding =
  psb_canary_receipt_digest :: Digest
  psb_runtime_surface_manifest_digest :: Digest
  psb_budget_binding_digest :: Digest

record ProviderRequestStartedPayload =
  prp_request_id :: Identifier
  prp_actor_id :: Identifier
  prp_request_artifact_id :: Identifier
  prp_security_evidence_artifact_id :: Identifier
  prp_provider_profile_digest :: Digest
  prp_provider_config_digest :: Digest
  prp_requested_model :: string
  prp_requested_service_tier :: "string option"
  prp_observed_input_token_floor :: int
  prp_security_binding :: ProviderSecurityBinding
  prp_reserved_input_tokens :: int
  prp_reserved_output_tokens :: int

record ProviderResponseRecordedPayload =
  pop_request_id :: Identifier
  pop_provider_reported_model :: string
  pop_provider_reported_service_tier :: "string option"
  pop_status :: ProviderResponseStatus
  pop_usage :: "ProviderUsageFact option"

record ControlTransferredPayload =
  ctp_previous_writer :: Identifier
  ctp_next_writer :: Identifier

record CandidateSubmittedPayload =
  csp_candidate_id :: Identifier
  csp_candidate_digest :: Digest
  csp_parent_candidate_id :: "Identifier option"

record EvaluationStartedPayload =
  esp_stage_id :: Identifier
  esp_candidate_id :: Identifier
  esp_job_id :: Identifier

record EvaluationCompletedPayload =
  ecp_candidate_id :: Identifier
  ecp_job_id :: Identifier
  ecp_result :: StageResult

record ScoringRecordedPayload =
  srp_candidate_id :: Identifier
  srp_decision :: ScoringDecision

record LicenseLeaseBindingPayload =
  llp_job_id :: Identifier
  llp_license_binding_id :: Identifier
  llp_provider_id :: Identifier
  llp_feature_class :: Identifier

record LicenseLeaseDeniedPayload = LicenseLeaseBindingPayload +
  lld_reason :: LicenseDenialReason

record ArtifactRecordedPayload =
  arp_record :: ArtifactRecord

record CheckpointCommittedPayload =
  ccp_checkpoint_id :: Identifier
  ccp_manifest_digest :: Digest
  ccp_parent_checkpoint_id :: "Identifier option"
  ccp_checkpoint_kind :: CheckpointCapability
  ccp_driver_digest :: "Digest option"

record JobStateChangedPayload =
  jsp_job_id :: Identifier
  jsp_state :: JobStateKind
  jsp_reason_code :: "Identifier option"

record PolicyDecisionPayload =
  pdp_rule_id :: Identifier
  pdp_decision :: PolicyDecisionKind
  pdp_reason_code :: Identifier

record RunEndedPayload =
  rep_reason :: StopReason
  rep_successful_candidate_id :: "Identifier option"

datatype (plugins only: code size) EventPayload =
    RunStarted RunStartedPayload
  | ParticipantIncarnationStarted ParticipantIncarnationStartedPayload
  | ParticipantIncarnationTerminated ParticipantIncarnationTermination
  | ParticipantIncarnationRestored ParticipantIncarnationRestoredPayload
  | ProviderRequestStarted ProviderRequestStartedPayload
  | ProviderResponseRecorded ProviderResponseRecordedPayload
  | InteractionRecorded InteractionRecordedPayload
  | ParticipantToolReserved ParticipantToolReservedPayload
  | ParticipantToolSettled ParticipantToolSettledPayload
  | ParticipantToolLost ParticipantToolLostPayload
  | ControlTransferred ControlTransferredPayload
  | CandidateSubmitted CandidateSubmittedPayload
  | EvaluationStarted EvaluationStartedPayload
  | EvaluationCompleted EvaluationCompletedPayload
  | ScoringRecorded ScoringRecordedPayload
  | LicenseLeaseAcquired LicenseLeaseBindingPayload
  | LicenseLeaseDenied LicenseLeaseDeniedPayload
  | LicenseLeaseLost LicenseLeaseBindingPayload
  | LicenseLeaseReleased LicenseLeaseBindingPayload
  | ArtifactRecorded ArtifactRecordedPayload
  | CheckpointCommitted CheckpointCommittedPayload
  | JobStateChanged JobStateChangedPayload
  | PolicyDecision PolicyDecisionPayload
  | RunEnded RunEndedPayload

record RunEvent =
  evt_run_id :: Digest
  evt_sequence :: int
  evt_event_id :: string
  evt_timestamp :: Timestamp
  evt_producer :: ProducerKind
  evt_actor :: "Identifier option"
  evt_visibility :: Visibility
  evt_artifact_refs :: "Identifier list"
  evt_payload :: EventPayload

subsection \<open>Validated session bindings\<close>

lemma run_actors_valid:
  assumes "\<And>h. Run_Harness h \<in> set as \<Longrightarrow> 1 \<le> length (har_requested_model_route h) \<and> length (har_requested_model_route h) \<le> 160"
  shows "map_result RunActor_validate as = Inr as"
  using assms by (auto simp: map_result_Inr RunActor_validate_def list.rel_refl_strong intro!: list.rel_refl_strong split: RunActor.split)

lemma run_actors_same:
  assumes "map_result RunActor_validate as = Inr bs"
  shows "bs = as"
proof -
  have "list_all2 (\<lambda>a b. b = a) as bs"
    using assms unfolding map_result_Inr
    by (rule list_all2_mono) (auto simp: RunActor_validate_def split: RunActor.splits if_splits)
  then show ?thesis by (simp add: list_all2_conv_all_nth list_eq_iff_nth_eq)
qed

lemma run_actors_routes:
  assumes "map_result RunActor_validate as = Inr as" "Run_Harness h \<in> set as"
  shows "1 \<le> length (har_requested_model_route h) \<and> length (har_requested_model_route h) \<le> 160"
proof -
  from map_result_set [OF assms] obtain a where a: "RunActor_validate a = Inr (Run_Harness h)" by blast
  then show ?thesis by (cases a) (auto simp: RunActor_validate_def split: if_splits)
qed

lemma SessionRunBinding_validate_Inr:
  "SessionRunBinding_validate s = Inr s' \<longleftrightarrow> map_result RunActor_validate (srb_actors s) = Inr (srb_actors s) \<and> srb_actors s \<noteq> []
     \<and> distinct (map run_actor_id (srb_actors s)) \<and> srb_initial_writer s \<in> set (map run_actor_id (srb_actors s))
     \<and> srb_handoff_enabled s = (1 < length (srb_actors s)) \<and> s' = s\<lparr>srb_actors := sort_key run_actor_id (srb_actors s)\<rparr>"
  by (auto simp: SessionRunBinding_validate_def split: if_splits dest: run_actors_same)

lemma session_binding_again:
  assumes "SessionRunBinding_validate s = Inr s'"
  shows "SessionRunBinding_validate s' = Inr s'"
proof -
  have "map_result RunActor_validate (srb_actors s') = Inr (srb_actors s')"
    using assms by (intro run_actors_valid) (auto simp: SessionRunBinding_validate_Inr dest: run_actors_routes)
  then show ?thesis using assms by (auto simp: SessionRunBinding_validate_Inr)
qed

end
