(* ===== verification/RunRecords.thy ===== *)
theory RunRecords
  imports RunModel
begin

section \<open>Validators of events, commits and run records\<close>

text \<open>
  The second half of \<open>src/edagym/run/model.py\<close>: the validators of payloads and event classes, the
  derived lifecycle models, the hash-chained commits and the portable run record, and the state
  that \<open>replay\<close> reconstructs.
\<close>

subsection \<open>Digests of canonical encodings\<close>

record run_digests =
  rdg_run_binding :: "RunBinding \<Rightarrow> Digest"
  rdg_process :: "ParticipantProcessIdentity \<Rightarrow> Digest"
  rdg_incarnation :: "ParticipantIncarnationBinding \<Rightarrow> Digest"
  rdg_journal_anchor :: "RunHeader \<Rightarrow> Digest"
  rdg_commit :: "Digest \<Rightarrow> RunEvent list \<Rightarrow> Digest"
  rdg_dumps :: "json \<Rightarrow> string"
  rdg_sha256_hex :: "string \<Rightarrow> string"

text \<open>
  The last two fields are the JCS encoder and SHA-256, for the identities the code derives from
  plain mappings (\<open>participant_tool_protocol.py\<close>).
\<close>

definition EXECUTOR_PARTICIPANT_TOOL_NAME :: Identifier where
  "EXECUTOR_PARTICIPANT_TOOL_NAME = ''edagym_run_tool''"

definition participant_tool_invocation_id :: "run_digests \<Rightarrow> Digest \<Rightarrow> Identifier \<Rightarrow> canonical_error + Identifier" where
  "participant_tool_invocation_id dg run_id request_interaction_id =
     bind_result
       (canonical_digest (rdg_dumps dg) (rdg_sha256_hex dg)
         (PyMapping [(PyStr ''request_interaction_id'', PyStr request_interaction_id),
                     (PyStr ''run_id'', PyStr run_id)])
         ''participant-tool-invocation-id-v1'')
       (\<lambda>digest. Inr (''tool_'' @ take 48 (drop 7 digest)))"

definition RunHeader_validate :: "run_digests \<Rightarrow> RunHeader \<Rightarrow> run_error + RunHeader" where
  "RunHeader_validate dg h =
     bind_result (RunBinding_validate (hdr_binding h)) (\<lambda>binding.
       if hdr_run_id h \<noteq> rdg_run_binding dg binding then Inl Run_id_digest
       else Inr (h\<lparr>hdr_binding := binding\<rparr>))"

definition RunHeader_from_binding :: "run_digests \<Rightarrow> RunBinding \<Rightarrow> run_error + RunHeader" where
  "RunHeader_from_binding dg binding =
     RunHeader_validate dg \<lparr>hdr_run_id = rdg_run_binding dg binding, hdr_binding = binding\<rparr>"

subsection \<open>Payload validators\<close>

definition ParticipantIncarnationRestoredPayload_validate ::
    "ParticipantIncarnationRestoredPayload \<Rightarrow> run_error + ParticipantIncarnationRestoredPayload" where
  "ParticipantIncarnationRestoredPayload_validate p =
     (if irp_restored_manifest_digest p \<noteq> irp_checkpoint_manifest_digest p then Inl Restored_manifest
      else Inr p)"

definition InteractionRecordedPayload_validate ::
    "InteractionRecordedPayload \<Rightarrow> run_error + InteractionRecordedPayload" where
  "InteractionRecordedPayload_validate p =
     (if (inp_direction p = Direction_TOOL_RESULT) \<noteq> (inp_related_interaction_id p \<noteq> None)
      then Inl Result_relation
      else if (inp_direction p \<in> {Direction_TOOL_REQUEST, Direction_TOOL_RESULT}) \<noteq> (inp_tool_name p \<noteq> None)
      then Inl Tool_name
      else Inr p)"

definition ParticipantToolReservedPayload_validate ::
    "ParticipantToolReservedPayload \<Rightarrow> run_error + ParticipantToolReservedPayload" where
  "ParticipantToolReservedPayload_validate p =
     (if \<not> jcs_positive_ok (trp_reserved_compute_milliseconds p)
         \<or> \<not> jcs_nonnegative_ok (trp_reserved_license_milliseconds p) then Inl Run_range
      else if (trp_license_binding_id p = None) \<noteq> (trp_reserved_license_milliseconds p = 0)
      then Inl License_reservation
      else if trp_reserved_compute_milliseconds p < trp_reserved_license_milliseconds p
      then Inl License_exceeds_compute
      else Inr p)"

definition ParticipantToolSettledPayload_validate ::
    "ParticipantToolSettledPayload \<Rightarrow> run_error + ParticipantToolSettledPayload" where
  "ParticipantToolSettledPayload_validate p =
     (if \<not> jcs_nonnegative_ok (tsp_elapsed_milliseconds p)
         \<or> \<not> jcs_nonnegative_ok (tsp_license_milliseconds p) then Inl Run_range
      else if tsp_elapsed_milliseconds p < tsp_license_milliseconds p then Inl License_exceeds_elapsed
      else Inr p)"

definition ProviderUsageFact_validate :: "ProviderUsageFact \<Rightarrow> run_error + ProviderUsageFact" where
  "ProviderUsageFact_validate u =
     (if \<not> jcs_nonnegative_ok (puf_input_tokens u) \<or> \<not> jcs_nonnegative_ok (puf_output_tokens u)
         \<or> \<not> jcs_nonnegative_ok (puf_total_tokens u)
         \<or> (case puf_cached_input_tokens u of None \<Rightarrow> False | Some n \<Rightarrow> \<not> jcs_nonnegative_ok n)
         \<or> (case puf_reasoning_tokens u of None \<Rightarrow> False | Some n \<Rightarrow> \<not> jcs_nonnegative_ok n)
      then Inl Run_range
      else if puf_total_tokens u \<noteq> puf_input_tokens u + puf_output_tokens u then Inl Usage_total
      else if (case puf_cached_input_tokens u of None \<Rightarrow> False | Some n \<Rightarrow> puf_input_tokens u < n)
      then Inl Usage_cached
      else if (case puf_reasoning_tokens u of None \<Rightarrow> False | Some n \<Rightarrow> puf_output_tokens u < n)
      then Inl Usage_reasoning
      else Inr u)"

definition ProviderRequestStartedPayload_validate ::
    "ProviderRequestStartedPayload \<Rightarrow> run_error + ProviderRequestStartedPayload" where
  "ProviderRequestStartedPayload_validate p =
     (if \<not> jcs_nonnegative_ok (prp_observed_input_token_floor p)
         \<or> \<not> jcs_positive_ok (prp_reserved_input_tokens p)
         \<or> \<not> jcs_positive_ok (prp_reserved_output_tokens p) then Inl Run_range
      else if prp_reserved_input_tokens p \<le> prp_observed_input_token_floor p then Inl Token_floor
      else Inr p)"

definition ProviderResponseRecordedPayload_validate ::
    "ProviderResponseRecordedPayload \<Rightarrow> run_error + ProviderResponseRecordedPayload" where
  "ProviderResponseRecordedPayload_validate p =
     (case pop_usage p of None \<Rightarrow> Inr p
      | Some u \<Rightarrow> bind_result (ProviderUsageFact_validate u) (\<lambda>_. Inr p))"

definition ControlTransferredPayload_validate ::
    "ControlTransferredPayload \<Rightarrow> run_error + ControlTransferredPayload" where
  "ControlTransferredPayload_validate p =
     (if ctp_previous_writer p = ctp_next_writer p then Inl Same_writer else Inr p)"

definition CheckpointCommittedPayload_validate ::
    "CheckpointCommittedPayload \<Rightarrow> run_error + CheckpointCommittedPayload" where
  "CheckpointCommittedPayload_validate p =
     (if ccp_checkpoint_kind p \<notin> {Checkpoint_APPLICATION, Checkpoint_FILESYSTEM} then Inl Run_range
      else if (ccp_checkpoint_kind p = Checkpoint_APPLICATION) \<noteq> (ccp_driver_digest p \<noteq> None)
      then Inl Driver_identity
      else Inr p)"

definition RunEndedPayload_validate :: "RunEndedPayload \<Rightarrow> run_error + RunEndedPayload" where
  "RunEndedPayload_validate p =
     (if (rep_reason p = Stop_VERIFIER_SUCCESS) \<noteq> (rep_successful_candidate_id p \<noteq> None)
      then Inl Success_candidate else Inr p)"

definition lift_evaluation :: "evaluation_error + 'a \<Rightarrow> run_error + 'a" where
  "lift_evaluation m = (case m of Inl e \<Rightarrow> Inl (Run_evaluation e) | Inr x \<Rightarrow> Inr x)"

definition incarnation_ok :: "ParticipantIncarnationBinding \<Rightarrow> bool" where
  "incarnation_ok b \<longleftrightarrow> jcs_nonnegative_ok (pib_generation b)
     \<and> jcs_positive_ok (ppi_process_id (pib_process b))
     \<and> jcs_nonnegative_ok (ppi_start_time_ticks (pib_process b))"

fun payload_validate :: "EventPayload \<Rightarrow> run_error + EventPayload" where
  "payload_validate (ParticipantIncarnationStarted p) =
     (if \<not> incarnation_ok (isp_incarnation p) then Inl Run_range else Inr (ParticipantIncarnationStarted p))"
| "payload_validate (ParticipantIncarnationRestored p) =
     (if \<not> incarnation_ok (irp_incarnation p) then Inl Run_range
      else bind_result (ParticipantIncarnationRestoredPayload_validate p) (Inr \<circ> ParticipantIncarnationRestored))"
| "payload_validate (ProviderRequestStarted p) =
     bind_result (ProviderRequestStartedPayload_validate p) (Inr \<circ> ProviderRequestStarted)"
| "payload_validate (ProviderResponseRecorded p) =
     bind_result (ProviderResponseRecordedPayload_validate p) (Inr \<circ> ProviderResponseRecorded)"
| "payload_validate (InteractionRecorded p) =
     bind_result (InteractionRecordedPayload_validate p) (Inr \<circ> InteractionRecorded)"
| "payload_validate (ParticipantToolReserved p) =
     bind_result (ParticipantToolReservedPayload_validate p) (Inr \<circ> ParticipantToolReserved)"
| "payload_validate (ParticipantToolSettled p) =
     bind_result (ParticipantToolSettledPayload_validate p) (Inr \<circ> ParticipantToolSettled)"
| "payload_validate (ControlTransferred p) =
     bind_result (ControlTransferredPayload_validate p) (Inr \<circ> ControlTransferred)"
| "payload_validate (EvaluationCompleted p) =
     bind_result (lift_evaluation (StageResult_validate (ecp_result p)))
       (\<lambda>r. Inr (EvaluationCompleted (p\<lparr>ecp_result := r\<rparr>)))"
| "payload_validate (ScoringRecorded p) =
     bind_result (lift_evaluation (ScoringDecision_validate (srp_decision p)))
       (\<lambda>d. Inr (ScoringRecorded (p\<lparr>srp_decision := d\<rparr>)))"
| "payload_validate (ArtifactRecorded p) =
     bind_result (ArtifactRecord_validate (arp_record p)) (\<lambda>r. Inr (ArtifactRecorded (p\<lparr>arp_record := r\<rparr>)))"
| "payload_validate (CheckpointCommitted p) =
     bind_result (CheckpointCommittedPayload_validate p) (Inr \<circ> CheckpointCommitted)"
| "payload_validate (RunEnded p) = bind_result (RunEndedPayload_validate p) (Inr \<circ> RunEnded)"
| "payload_validate p = Inr p"

subsection \<open>Event classes\<close>

text \<open>The producer and the visibility that an event class fixes with a \<open>Literal\<close> type.\<close>

fun literal_producer :: "EventPayload \<Rightarrow> ProducerKind option" where
  "literal_producer (ParticipantIncarnationStarted _) = Some Producer_CONTROLLER"
| "literal_producer (ParticipantIncarnationTerminated _) = Some Producer_CONTROLLER"
| "literal_producer (ParticipantIncarnationRestored _) = Some Producer_CONTROLLER"
| "literal_producer (ParticipantToolReserved _) = Some Producer_CONTROLLER"
| "literal_producer (ParticipantToolSettled _) = Some Producer_CONTROLLER"
| "literal_producer (ParticipantToolLost _) = Some Producer_CONTROLLER"
| "literal_producer (LicenseLeaseAcquired _) = Some Producer_CONTROLLER"
| "literal_producer (LicenseLeaseDenied _) = Some Producer_CONTROLLER"
| "literal_producer (LicenseLeaseLost _) = Some Producer_CONTROLLER"
| "literal_producer (LicenseLeaseReleased _) = Some Producer_CONTROLLER"
| "literal_producer _ = None"

fun literal_visibility :: "EventPayload \<Rightarrow> Visibility option" where
  "literal_visibility (ParticipantIncarnationStarted _) = Some Visibility_VERIFIER"
| "literal_visibility (ParticipantIncarnationTerminated _) = Some Visibility_VERIFIER"
| "literal_visibility (ParticipantIncarnationRestored _) = Some Visibility_VERIFIER"
| "literal_visibility (ParticipantToolReserved _) = Some Visibility_VERIFIER"
| "literal_visibility (ParticipantToolSettled _) = Some Visibility_AUTHOR"
| "literal_visibility (ParticipantToolLost _) = Some Visibility_VERIFIER"
| "literal_visibility (LicenseLeaseAcquired _) = Some Visibility_VERIFIER"
| "literal_visibility (LicenseLeaseDenied _) = Some Visibility_VERIFIER"
| "literal_visibility (LicenseLeaseLost _) = Some Visibility_VERIFIER"
| "literal_visibility (LicenseLeaseReleased _) = Some Visibility_VERIFIER"
| "literal_visibility _ = None"

text \<open>The \<open>mode="after"\<close> validators of the event classes.\<close>

fun class_validate :: "run_digests \<Rightarrow> Digest \<Rightarrow> Identifier list \<Rightarrow> EventPayload \<Rightarrow> run_error + unit" where
  "class_validate dg run_id refs (ParticipantIncarnationStarted _) =
     (if refs \<noteq> [] then Inl Unexpected_artifacts else Inr ())"
| "class_validate dg run_id refs (ParticipantIncarnationTerminated _) =
     (if refs \<noteq> [] then Inl Unexpected_artifacts else Inr ())"
| "class_validate dg run_id refs (ParticipantIncarnationRestored _) =
     (if refs \<noteq> [] then Inl Unexpected_artifacts else Inr ())"
| "class_validate dg run_id refs (ProviderRequestStarted p) =
     (if card {prp_request_artifact_id p, prp_security_evidence_artifact_id p} \<noteq> 2
         \<or> set refs \<noteq> {prp_request_artifact_id p, prp_security_evidence_artifact_id p}
      then Inl Request_artifacts else Inr ())"
| "class_validate dg run_id refs (ProviderResponseRecorded _) =
     (if length refs \<noteq> 1 then Inl Response_artifact else Inr ())"
| "class_validate dg run_id refs (ParticipantToolReserved p) =
     (if refs \<noteq> [] then Inl Unexpected_artifacts
      else case participant_tool_invocation_id dg run_id (trp_request_interaction_id p) of
        Inl e \<Rightarrow> Inl (Run_canonical e)
      | Inr invocation_id \<Rightarrow>
          if trp_invocation_id p \<noteq> invocation_id then Inl Invocation_identity else Inr ())"
| "class_validate dg run_id refs (ParticipantToolSettled p) =
     (if refs \<noteq> [tsp_evidence_artifact_id p] then Inl Settlement_evidence else Inr ())"
| "class_validate dg run_id refs (ParticipantToolLost _) =
     (if refs \<noteq> [] then Inl Unexpected_artifacts else Inr ())"
| "class_validate dg run_id refs (ScoringRecorded _) =
     (if refs \<noteq> [] then Inl Unexpected_artifacts else Inr ())"
| "class_validate dg run_id refs (LicenseLeaseAcquired _) =
     (if refs \<noteq> [] then Inl Unexpected_artifacts else Inr ())"
| "class_validate dg run_id refs (LicenseLeaseDenied _) =
     (if refs \<noteq> [] then Inl Unexpected_artifacts else Inr ())"
| "class_validate dg run_id refs (LicenseLeaseLost _) =
     (if refs \<noteq> [] then Inl Unexpected_artifacts else Inr ())"
| "class_validate dg run_id refs (LicenseLeaseReleased _) =
     (if refs \<noteq> [] then Inl Unexpected_artifacts else Inr ())"
| "class_validate dg run_id refs (ArtifactRecorded _) =
     (if refs \<noteq> [] then Inl Unexpected_artifacts else Inr ())"
| "class_validate dg run_id refs (CheckpointCommitted _) =
     (if length refs \<noteq> 1 then Inl Manifest_reference else Inr ())"
| "class_validate dg run_id refs _ = Inr ()"

definition event_validate :: "run_digests \<Rightarrow> RunEvent \<Rightarrow> run_error + RunEvent" where
  "event_validate dg e =
     (if \<not> 0 \<le> evt_sequence e then Inl Run_range
      else case evt_timestamp e of
        Naive _ \<Rightarrow> Inl Naive_timestamp
      | Aware _ \<Rightarrow>
          bind_result (sorted_unique Artifact_refs_not_unique (evt_artifact_refs e)) (\<lambda>refs.
          bind_result (payload_validate (evt_payload e)) (\<lambda>payload.
            if literal_producer payload \<notin> {None, Some (evt_producer e)} then Inl Producer_literal
            else if literal_visibility payload \<notin> {None, Some (evt_visibility e)} then Inl Visibility_literal
            else if evt_producer e = Producer_PARTICIPANT \<and> evt_actor e = None then Inl Actor_missing
            else if evt_producer e \<noteq> Producer_PARTICIPANT \<and> evt_actor e \<noteq> None then Inl Actor_unexpected
            else bind_result (class_validate dg (evt_run_id e) refs payload) (\<lambda>_.
              Inr (e\<lparr>evt_artifact_refs := refs, evt_payload := payload\<rparr>)))))"

subsection \<open>Derived models\<close>

datatype ToolTerminal = Terminal_Settled RunEvent ParticipantToolSettledPayload
  | Terminal_Lost RunEvent ParticipantToolLostPayload

record ParticipantToolDispatch =
  dsp_reservation :: "RunEvent \<times> ParticipantToolReservedPayload"
  dsp_terminal :: "ToolTerminal option"

record ParticipantIncarnationRecovery =
  rec_termination :: ParticipantIncarnationTermination
  rec_terminated_sequence :: int
  rec_restored_sequence :: int
  rec_restored_incarnation_digest :: Digest
  rec_restored_manifest_digest :: Digest

definition ParticipantIncarnationRecovery_validate ::
    "ParticipantIncarnationRecovery \<Rightarrow> run_error + ParticipantIncarnationRecovery" where
  "ParticipantIncarnationRecovery_validate r =
     (if \<not> jcs_nonnegative_ok (rec_terminated_sequence r) \<or> \<not> jcs_nonnegative_ok (rec_restored_sequence r)
      then Inl Run_range
      else if rec_restored_sequence r \<le> rec_terminated_sequence r then Inl Recovery_order
      else if rec_restored_manifest_digest r \<noteq> itp_checkpoint_manifest_digest (rec_termination r)
      then Inl Recovery_manifest
      else Inr r)"

record ParticipantIncarnationLifecycle =
  lfc_incarnations :: "ParticipantIncarnationBinding list"
  lfc_initial_started_sequence :: "int option"
  lfc_recoveries :: "ParticipantIncarnationRecovery list"
  lfc_active_incarnation :: "ParticipantIncarnationBinding option"
  lfc_pending_termination :: "ParticipantIncarnationTermination option"
  lfc_pending_termination_sequence :: "int option"

definition ParticipantIncarnationLifecycle_validate ::
    "ParticipantIncarnationLifecycle \<Rightarrow> run_error + ParticipantIncarnationLifecycle" where
  "ParticipantIncarnationLifecycle_validate l =
     (if list_ex (\<lambda>n. \<not> jcs_nonnegative_ok n)
           (List.map_filter id [lfc_initial_started_sequence l, lfc_pending_termination_sequence l])
      then Inl Run_range
      else if (lfc_initial_started_sequence l = None) \<noteq> (lfc_incarnations l = []) then Inl Lifecycle_start
      else if (lfc_pending_termination l = None) \<noteq> (lfc_pending_termination_sequence l = None)
      then Inl Lifecycle_pending
      else if length (lfc_recoveries l) + 1 \<noteq> length (lfc_incarnations l) \<and> lfc_incarnations l \<noteq> []
      then Inl Lifecycle_recoveries
      else Inr l)"

subsection \<open>Commits and the portable record\<close>

record RunCommit =
  cmt_previous_record_digest :: Digest
  cmt_events :: "RunEvent list"
  cmt_record_digest :: Digest

definition RunCommit_validate :: "run_digests \<Rightarrow> RunCommit \<Rightarrow> run_error + RunCommit" where
  "RunCommit_validate dg c =
     (if cmt_events c = [] then Inl Commit_empty
      else bind_result (map_result (event_validate dg) (cmt_events c)) (\<lambda>events.
        if cmt_record_digest c \<noteq> rdg_commit dg (cmt_previous_record_digest c) events then Inl Commit_digest
        else Inr (c\<lparr>cmt_events := events\<rparr>)))"

definition RunCommit_from_events :: "run_digests \<Rightarrow> Digest \<Rightarrow> RunEvent list \<Rightarrow> run_error + RunCommit" where
  "RunCommit_from_events dg previous events =
     RunCommit_validate dg \<lparr>cmt_previous_record_digest = previous, cmt_events = events,
       cmt_record_digest = rdg_commit dg previous events\<rparr>"

record RunRecord =
  rcd_header :: RunHeader
  rcd_commits :: "RunCommit list"

text \<open>The loop state of \<open>validate_chain\<close>.\<close>

record chain_state =
  chs_digest :: Digest
  chs_sequence :: int
  chs_event_ids :: "string set"
  chs_canaries :: "Identifier set"

definition recorded_artifacts :: "RunEvent list \<Rightarrow> Identifier set" where
  "recorded_artifacts events = set (List.map_filter (\<lambda>e. case evt_payload e of
     ArtifactRecorded p \<Rightarrow> Some (art_logical_id (arp_record p)) | _ \<Rightarrow> None) events)"

definition chain_event :: "RunHeader \<Rightarrow> Identifier set \<Rightarrow> chain_state \<Rightarrow> RunEvent \<Rightarrow> run_error + chain_state" where
  "chain_event h recorded st e =
     (if evt_run_id e \<noteq> hdr_run_id h then Inl Foreign_event
      else if evt_sequence e \<noteq> chs_sequence st then Inl Sequence_gap
      else if evt_event_id e \<in> chs_event_ids st then Inl Duplicate_event
      else
        let st = st\<lparr>chs_event_ids := insert (evt_event_id e) (chs_event_ids st)\<rparr> in
        bind_result
          (case evt_payload e of
             ProviderRequestStarted p \<Rightarrow>
               if prp_request_artifact_id p \<notin> recorded then Inl Request_bytes_missing
               else if prp_security_evidence_artifact_id p \<notin> chs_canaries st
                       \<and> prp_security_evidence_artifact_id p \<notin> recorded then Inl Canary_missing
               else Inr (st\<lparr>chs_canaries := insert (prp_security_evidence_artifact_id p) (chs_canaries st)\<rparr>)
           | _ \<Rightarrow> Inr st)
          (\<lambda>st. Inr (st\<lparr>chs_sequence := chs_sequence st + 1\<rparr>)))"

definition chain_commit :: "RunHeader \<Rightarrow> chain_state \<Rightarrow> RunCommit \<Rightarrow> run_error + chain_state" where
  "chain_commit h st c =
     (if cmt_previous_record_digest c \<noteq> chs_digest st then Inl Chain_broken
      else bind_result (fold_result (chain_event h (recorded_artifacts (cmt_events c))) st (cmt_events c))
             (\<lambda>st. Inr (st\<lparr>chs_digest := cmt_record_digest c\<rparr>)))"

definition chain_init :: "run_digests \<Rightarrow> RunHeader \<Rightarrow> chain_state" where
  "chain_init dg h = \<lparr>chs_digest = rdg_journal_anchor dg h, chs_sequence = 0, chs_event_ids = {}, chs_canaries = {}\<rparr>"

definition validate_chain :: "run_digests \<Rightarrow> RunRecord \<Rightarrow> run_error + RunRecord" where
  "validate_chain dg r =
     bind_result (fold_result (chain_commit (rcd_header r)) (chain_init dg (rcd_header r)) (rcd_commits r))
       (\<lambda>_. Inr r)"

definition RunRecord_validate :: "run_digests \<Rightarrow> RunRecord \<Rightarrow> run_error + RunRecord" where
  "RunRecord_validate dg raw =
     bind_result (RunHeader_validate dg (rcd_header raw)) (\<lambda>header.
     bind_result (map_result (RunCommit_validate dg) (rcd_commits raw)) (\<lambda>commits.
       validate_chain dg \<lparr>rcd_header = header, rcd_commits = commits\<rparr>))"

definition record_events :: "RunRecord \<Rightarrow> RunEvent list" where
  "record_events r = concat (map cmt_events (rcd_commits r))"

definition integrity_digest :: "run_digests \<Rightarrow> RunRecord \<Rightarrow> Digest" where
  "integrity_digest dg r =
     (if rcd_commits r = [] then rdg_journal_anchor dg (rcd_header r)
      else cmt_record_digest (last (rcd_commits r)))"

subsection \<open>The reconstructed state\<close>

record CandidateState =
  cst_candidate_id :: Identifier
  cst_digest :: Digest
  cst_parent_candidate_id :: "Identifier option"
  cst_actor :: Identifier

record CandidateStageResult =
  csr_candidate_id :: Identifier
  csr_result :: StageResult

record CandidateScoringState =
  css_candidate_id :: Identifier
  css_decision :: ScoringDecision

record JobStateSnapshot =
  jss_job_id :: Identifier
  jss_state :: JobStateKind

record ProviderRequestState =
  prs_request :: ProviderRequestStartedPayload
  prs_provider_reported_model :: "string option"
  prs_provider_reported_service_tier :: "string option"
  prs_status :: "ProviderResponseStatus option"
  prs_usage :: "ProviderUsageFact option"

definition ProviderRequestState_validate :: "ProviderRequestState \<Rightarrow> run_error + ProviderRequestState" where
  "ProviderRequestState_validate s =
     bind_result (ProviderRequestStartedPayload_validate (prs_request s)) (\<lambda>_. Inr s)"

record ParticipantToolUsage =
  ptu_eda_compute_milliseconds :: int
  ptu_license_milliseconds :: int

definition ParticipantToolUsage_validate :: "ParticipantToolUsage \<Rightarrow> run_error + ParticipantToolUsage" where
  "ParticipantToolUsage_validate u =
     (if \<not> jcs_nonnegative_ok (ptu_eda_compute_milliseconds u) \<or> \<not> jcs_nonnegative_ok (ptu_license_milliseconds u)
      then Inl Run_range else Inr u)"

record RunState =
  rst_run_id :: Digest
  rst_next_sequence :: int
  rst_current_writer :: Identifier
  rst_candidates :: "CandidateState list"
  rst_stage_results :: "CandidateStageResult list"
  rst_scoring :: "CandidateScoringState list"
  rst_artifacts :: "ArtifactRecord list"
  rst_checkpoint_ids :: "Identifier list"
  rst_interaction_ids :: "Identifier list"
  rst_provider_requests :: "ProviderRequestState list"
  rst_jobs :: "JobStateSnapshot list"
  rst_terminal_reason :: "StopReason option"
  rst_successful_candidate_id :: "Identifier option"

end
