(* ===== verification/Promotion.thy ===== *)
theory Promotion
  imports EvaluationModel
begin

section \<open>Evaluation traversal and promotion\<close>

text \<open>
  Models \<open>src/edagym/evaluation/promotion.py\<close>. The two \<open>while\<close> loops (\<open>topological_stage_ids\<close>
  and \<open>_ancestor_ids\<close>) are functions with termination proofs; a failed dictionary lookup is the
  error \<open>Lookup_error\<close>. Python sets that only feed sorted fields are \<open>sorted_list_of_set\<close>.
\<close>

definition outcome_promotes :: "OutcomeKind \<Rightarrow> bool" where
  "outcome_promotes k \<longleftrightarrow> k \<in> {Outcome_PASSED, Outcome_PROVED}"

definition stage_index :: "TaskSpec \<Rightarrow> (Identifier, StageSpec) dict" where
  "stage_index t = dict_of stg_stage_id id (grf_stages (tsk_evaluation t))"

definition result_index :: "StageResult list \<Rightarrow> evaluation_error + (Identifier, StageResult) dict" where
  "result_index results =
     (let indexed = dict_of sgr_stage_id id results in
      if length indexed \<noteq> length results then Inl Duplicate_results else Inr indexed)"

definition lookup :: "('k, 'v) dict \<Rightarrow> 'k \<Rightarrow> evaluation_error + 'v" where
  "lookup d k = (case dict_get d k of None \<Rightarrow> Inl Lookup_error | Some v \<Rightarrow> Inr v)"

subsection \<open>The topological order\<close>

text \<open>The body of the inner loop: one child loses a pending dependency.\<close>

definition release_child :: "(Identifier, int) dict \<times> Identifier list \<Rightarrow> Identifier
    \<Rightarrow> evaluation_error + (Identifier, int) dict \<times> Identifier list" where
  "release_child st child_id =
     (let (indegree, ready) = st in
      bind_result (lookup indegree child_id) (\<lambda>degree.
        let indegree = dict_set child_id (degree - 1) indegree
        in Inr (indegree, if degree - 1 = 0 then sort (ready @ [child_id]) else ready)))"

definition positive_keys :: "(Identifier, int) dict \<Rightarrow> Identifier set" where
  "positive_keys indegree = {k \<in> set (dict_keys indegree). \<exists>n. dict_get indegree k = Some n \<and> 0 < n}"

lemma finite_positive_keys [simp]: "finite (positive_keys d)"
  by (simp add: positive_keys_def)

lemma positive_keys_set:
  "positive_keys (dict_set k n d) = (if 0 < n then insert k (positive_keys d) else positive_keys d - {k})"
  by (auto simp: positive_keys_def dict_simps)

lemma release_child_measure:
  assumes "release_child (d, ready) c = Inr (d', ready')"
  shows "length ready' + card (positive_keys d') = length ready + card (positive_keys d)"
proof -
  from assms obtain n where n: "dict_get d c = Some n" and d': "d' = dict_set c (n - 1) d"
    and r': "ready' = (if n - 1 = 0 then sort (ready @ [c]) else ready)"
    by (auto simp: release_child_def lookup_def Let_def split: option.splits)
  have mem: "c \<in> positive_keys d \<longleftrightarrow> 0 < n"
    using n by (auto simp: positive_keys_def dest: dict_get_Some_keys)
  consider "n \<le> 0" | "n = 1" | "1 < n" by linarith
  then show ?thesis
  proof cases
    case 2
    with mem have "card (positive_keys d) = Suc (card (positive_keys d - {c}))"
      using 2 card.remove [of "positive_keys d" c] by simp
    then show ?thesis using 2 d' r' by (simp add: positive_keys_set)
  qed (use mem d' r' in \<open>auto simp: positive_keys_set insert_absorb\<close>)
qed

lemma release_children_measure:
  "fold_result release_child (d, ready) cs = Inr (d', ready') \<Longrightarrow>
     length ready' + card (positive_keys d') = length ready + card (positive_keys d)"
proof (induction cs arbitrary: d ready)
  case (Cons c cs)
  then obtain e ready1 where "release_child (d, ready) c = Inr (e, ready1)"
    "fold_result release_child (e, ready1) cs = Inr (d', ready')" by auto
  then show ?case using Cons.IH release_child_measure by metis
qed simp

function topological_loop :: "(Identifier, Identifier list) dict \<Rightarrow> (Identifier, int) dict
    \<Rightarrow> Identifier list \<Rightarrow> Identifier list \<Rightarrow> evaluation_error + Identifier list" where
  "topological_loop children indegree [] ordered = Inr ordered"
| "topological_loop children indegree (stage_id # ready) ordered =
     (case lookup children stage_id of
        Inl e \<Rightarrow> Inl e
      | Inr kids \<Rightarrow>
          (case fold_result release_child (indegree, ready) (sort kids) of
             Inl e \<Rightarrow> Inl e
           | Inr (indegree', ready') \<Rightarrow>
               topological_loop children indegree' ready' (ordered @ [stage_id])))"
  by pat_completeness auto
termination
  by (relation "measure (\<lambda>(_, indegree, ready, _). length ready + card (positive_keys indegree))")
     (auto dest!: sym [of "Inr _"] release_children_measure)

definition children_index :: "(Identifier, StageSpec) dict \<Rightarrow> evaluation_error + (Identifier, Identifier list) dict" where
  "children_index stages =
     fold_result (\<lambda>children stage.
       fold_result (\<lambda>children dependency.
         bind_result (lookup children dependency) (\<lambda>kids.
           Inr (dict_set dependency (kids @ [stg_stage_id stage]) children)))
         children (stg_depends_on stage))
       (map (\<lambda>(stage_id, _). (stage_id, [])) stages) (dict_values stages)"

definition topological_stage_ids :: "TaskSpec \<Rightarrow> evaluation_error + Identifier list" where
  "topological_stage_ids t =
     (let stages = stage_index t;
          indegree = map (\<lambda>(stage_id, stage). (stage_id, int (length (stg_depends_on stage)))) stages;
          ready = sort (map fst (filter (\<lambda>(_, degree). degree = 0) indegree))
      in bind_result (children_index stages) (\<lambda>children.
         bind_result (topological_loop children indegree ready []) (\<lambda>ordered.
           if length ordered \<noteq> length stages then Inl Cyclic_stages else Inr ordered)))"

subsection \<open>Result snapshots\<close>

definition below_minimum :: "MeasurementSpec \<Rightarrow> CanonicalDecimal \<Rightarrow> bool" where
  "below_minimum m sample = (case msp_valid_minimum m of None \<Rightarrow> False | Some lo \<Rightarrow> sample < lo)"

definition above_maximum :: "MeasurementSpec \<Rightarrow> CanonicalDecimal \<Rightarrow> bool" where
  "above_maximum m sample = (case msp_valid_maximum m of None \<Rightarrow> False | Some hi \<Rightarrow> hi < sample)"

definition check_evidence ::
    "(Identifier, MeasurementSpec) dict \<Rightarrow> MeasurementEvidence \<Rightarrow> evaluation_error + unit" where
  "check_evidence specifications evidence =
     bind_result (lookup specifications (mev_measurement_id evidence)) (\<lambda>specification.
       if int (length (mev_samples evidence)) \<noteq> msp_repetitions specification then Inl Sample_count
       else check_each (\<lambda>sample.
              if below_minimum specification sample then Inl Below_minimum
              else if above_maximum specification sample then Inl Above_maximum
              else Inr ()) (mev_samples evidence))"

definition validate_measurement_evidence ::
    "StageResult \<Rightarrow> (Identifier, MeasurementSpec) dict \<Rightarrow> Identifier set \<Rightarrow> evaluation_error + unit" where
  "validate_measurement_evidence result specifications expected =
     (let actual = set (map mev_measurement_id (sgr_measurements result)) in
      if \<not> actual \<subseteq> set (dict_keys specifications) then Inl Unknown_measurements
      else if \<exists>m\<in>actual. (case dict_get specifications m of None \<Rightarrow> False
                | Some s \<Rightarrow> msp_producer_stage_id s \<noteq> sgr_stage_id result)
      then Inl Misplaced_measurements
      else if outcome_promotes (sgr_outcome result) \<and> actual \<noteq> expected
      then Inl Incomplete_measurements
      else check_each (check_evidence specifications) (sgr_measurements result))"

definition measurement_index :: "TaskSpec \<Rightarrow> (Identifier, MeasurementSpec) dict" where
  "measurement_index t = dict_of msp_measurement_id id (tsk_measurements t)"

definition expected_by_stage :: "TaskSpec \<Rightarrow> evaluation_error + (Identifier, Identifier set) dict" where
  "expected_by_stage t =
     fold_result (\<lambda>expected m.
       bind_result (lookup expected (msp_producer_stage_id m)) (\<lambda>ids.
         Inr (dict_set (msp_producer_stage_id m) (insert (msp_measurement_id m) ids) expected)))
       (map (\<lambda>(stage_id, _). (stage_id, {})) (stage_index t)) (tsk_measurements t)"

definition check_dependency_promoted ::
    "(Identifier, StageResult) dict \<Rightarrow> Identifier \<Rightarrow> evaluation_error + unit" where
  "check_dependency_promoted index dependency =
     (case dict_get index dependency of
        None \<Rightarrow> Inl Unpromoted_dependency
      | Some r \<Rightarrow> if outcome_promotes (sgr_outcome r) then Inr () else Inl Unpromoted_dependency)"

definition check_stage_result :: "TaskSpec \<Rightarrow> (Identifier, Identifier set) dict
    \<Rightarrow> (Identifier, StageResult) dict \<Rightarrow> Identifier \<Rightarrow> evaluation_error + unit" where
  "check_stage_result t expected index stage_id =
     (case dict_get index stage_id of
        None \<Rightarrow> Inr ()
      | Some result \<Rightarrow>
          bind_result (lookup (stage_index t) stage_id) (\<lambda>stage.
          bind_result (check_each (check_dependency_promoted index) (stg_depends_on stage)) (\<lambda>_.
          bind_result (lookup expected stage_id) (\<lambda>ids.
            validate_measurement_evidence result (measurement_index t) ids))))"

definition validate_stage_results ::
    "TaskSpec \<Rightarrow> StageResult list \<Rightarrow> evaluation_error + StageResult list" where
  "validate_stage_results t results =
     bind_result (result_index results) (\<lambda>index.
       if \<not> set (dict_keys index) \<subseteq> set (dict_keys (stage_index t)) then Inl Unknown_result_stages
       else bind_result (expected_by_stage t) (\<lambda>expected.
            bind_result (topological_stage_ids t) (\<lambda>order.
            bind_result (check_each (check_stage_result t expected index) order) (\<lambda>_.
              Inr (List.map_filter (dict_get index) order)))))"

subsection \<open>Eligibility\<close>

text \<open>\<open>pending\<close> is a stack whose top is the end of the list, as in the source.\<close>

function ancestor_loop :: "(Identifier, StageSpec) dict \<Rightarrow> Identifier set \<Rightarrow> Identifier list
    \<Rightarrow> evaluation_error + Identifier set" where
  "ancestor_loop stages ancestors pending =
     (if pending = [] then Inr ancestors
      else if last pending \<in> ancestors then ancestor_loop stages ancestors (butlast pending)
      else case dict_get stages (last pending) of
        None \<Rightarrow> Inl Lookup_error
      | Some stage \<Rightarrow>
          ancestor_loop stages (insert (last pending) ancestors)
            (butlast pending @ stg_depends_on stage))"
  by pat_completeness auto
termination
  by (relation "measures [\<lambda>(stages, ancestors, pending). card (set (dict_keys stages) - ancestors),
                          \<lambda>(stages, ancestors, pending). length pending]")
     (auto intro!: psubset_card_mono dest: dict_get_Some_keys)

declare ancestor_loop.simps [simp del]

definition ancestor_ids :: "Identifier \<Rightarrow> (Identifier, StageSpec) dict \<Rightarrow> evaluation_error + Identifier list" where
  "ancestor_ids stage_id stages =
     bind_result (lookup stages stage_id) (\<lambda>stage.
     bind_result (ancestor_loop stages {} (stg_depends_on stage)) (\<lambda>ancestors.
       Inr (sorted_list_of_set ancestors)))"

definition stage_eligibility ::
    "TaskSpec \<Rightarrow> StageResult list \<Rightarrow> Identifier \<Rightarrow> evaluation_error + StageEligibility" where
  "stage_eligibility t results stage_id =
     (let stages = stage_index t in
      if stage_id \<notin> set (dict_keys stages) then Inl Unknown_stage
      else
        bind_result (validate_stage_results t results) (\<lambda>validated.
        bind_result (result_index validated) (\<lambda>index.
          if stage_id \<in> set (dict_keys index)
          then StageEligibility_validate \<lparr>elg_stage_id = stage_id, elg_state = Stage_COMPLETED,
                 elg_blocking_stage_ids = [], elg_waiting_stage_ids = []\<rparr>
          else
            bind_result (ancestor_ids stage_id stages) (\<lambda>ancestors.
              let blockers = filter (\<lambda>a. case dict_get index a of None \<Rightarrow> False
                               | Some r \<Rightarrow> \<not> outcome_promotes (sgr_outcome r)) ancestors
              in if blockers \<noteq> []
                 then StageEligibility_validate \<lparr>elg_stage_id = stage_id, elg_state = Stage_BLOCKED,
                        elg_blocking_stage_ids = blockers, elg_waiting_stage_ids = []\<rparr>
                 else bind_result (lookup stages stage_id) (\<lambda>stage.
                   let waiting = filter (\<lambda>d. d \<notin> set (dict_keys index)) (stg_depends_on stage)
                   in if waiting \<noteq> []
                      then StageEligibility_validate \<lparr>elg_stage_id = stage_id, elg_state = Stage_WAITING,
                             elg_blocking_stage_ids = [], elg_waiting_stage_ids = waiting\<rparr>
                      else StageEligibility_validate \<lparr>elg_stage_id = stage_id, elg_state = Stage_READY,
                             elg_blocking_stage_ids = [], elg_waiting_stage_ids = []\<rparr>)))))"

subsection \<open>Hard gates and the scorer\<close>

text \<open>The loop state of \<open>hard_gate_status\<close>: failed gates, blockers, pending gates.\<close>

definition gate_step :: "TaskSpec \<Rightarrow> StageResult list \<Rightarrow> (Identifier, StageResult) dict
    \<Rightarrow> Identifier list \<times> Identifier set \<times> Identifier list \<Rightarrow> StageSpec
    \<Rightarrow> evaluation_error + Identifier list \<times> Identifier set \<times> Identifier list" where
  "gate_step t validated index st gate =
     (let (failed, blockers, pending) = st in
      case dict_get index (stg_stage_id gate) of
        Some result \<Rightarrow>
          Inr (if outcome_promotes (sgr_outcome result) then failed else failed @ [stg_stage_id gate],
               blockers, pending)
      | None \<Rightarrow>
          bind_result (stage_eligibility t validated (stg_stage_id gate)) (\<lambda>eligibility.
            if elg_state eligibility = Stage_BLOCKED
            then Inr (failed, blockers \<union> set (elg_blocking_stage_ids eligibility), pending)
            else Inr (failed, blockers, pending @ [stg_stage_id gate])))"

definition hard_gate_status :: "TaskSpec \<Rightarrow> StageResult list \<Rightarrow> evaluation_error + HardGateStatus" where
  "hard_gate_status t results =
     bind_result (validate_stage_results t results) (\<lambda>validated.
     bind_result (result_index validated) (\<lambda>index.
     bind_result (fold_result (gate_step t validated index) ([], {}, []) (hard_gates t))
       (\<lambda>(failed, blockers, pending).
         if failed \<noteq> [] \<or> blockers \<noteq> {}
         then HardGateStatus_validate \<lparr>hgs_state = Gate_FAILED, hgs_failed_gate_ids = failed,
                hgs_blocking_stage_ids = sorted_list_of_set blockers, hgs_pending_gate_ids = pending\<rparr>
         else if pending \<noteq> []
         then HardGateStatus_validate \<lparr>hgs_state = Gate_PENDING, hgs_failed_gate_ids = [],
                hgs_blocking_stage_ids = [], hgs_pending_gate_ids = pending\<rparr>
         else HardGateStatus_validate \<lparr>hgs_state = Gate_SUCCEEDED, hgs_failed_gate_ids = [],
                hgs_blocking_stage_ids = [], hgs_pending_gate_ids = []\<rparr>)))"

definition producer_step :: "TaskSpec \<Rightarrow> StageResult list
    \<Rightarrow> Identifier set \<times> Identifier set \<Rightarrow> Identifier
    \<Rightarrow> evaluation_error + Identifier set \<times> Identifier set" where
  "producer_step t validated st stage_id =
     (let (blocked, waiting) = st in
      bind_result (stage_eligibility t validated stage_id) (\<lambda>eligibility.
        if elg_state eligibility = Stage_BLOCKED
        then Inr (blocked \<union> set (elg_blocking_stage_ids eligibility), waiting)
        else Inr (blocked, insert stage_id waiting)))"

definition scorer_decision :: "ScorerEligibilityKind \<Rightarrow> Identifier list \<Rightarrow> Identifier list
    \<Rightarrow> evaluation_error + ScorerEligibility" where
  "scorer_decision state blocking waiting =
     ScorerEligibility_validate \<lparr>sel_state = state, sel_blocking_stage_ids = blocking,
       sel_waiting_stage_ids = waiting\<rparr>"

definition scorer_eligibility :: "TaskSpec \<Rightarrow> StageResult list \<Rightarrow> evaluation_error + ScorerEligibility" where
  "scorer_eligibility t results =
     bind_result (validate_stage_results t results) (\<lambda>validated.
     bind_result (result_index validated) (\<lambda>index.
     bind_result (hard_gate_status t validated) (\<lambda>gates.
       if hgs_state gates = Gate_FAILED
       then scorer_decision Scorer_BLOCKED
              (sorted_list_of_set (set (hgs_failed_gate_ids gates) \<union> set (hgs_blocking_stage_ids gates))) []
       else if hgs_state gates = Gate_PENDING
       then scorer_decision Scorer_WAITING [] (hgs_pending_gate_ids gates)
       else if tsk_measurements t = [] then scorer_decision Scorer_NOT_CONFIGURED [] []
       else
         let producers = set (map msp_producer_stage_id (tsk_measurements t));
             nonpromoting = {s \<in> producers. case dict_get index s of None \<Rightarrow> False
                                         | Some r \<Rightarrow> \<not> outcome_promotes (sgr_outcome r)}
         in if nonpromoting \<noteq> {} then scorer_decision Scorer_BLOCKED (sorted_list_of_set nonpromoting) []
            else bind_result
              (fold_result (producer_step t validated) ({}, {})
                (sorted_list_of_set (producers - set (dict_keys index))))
              (\<lambda>(blocked, waiting).
                if blocked \<noteq> {} then scorer_decision Scorer_BLOCKED (sorted_list_of_set blocked) []
                else if waiting \<noteq> {} then scorer_decision Scorer_WAITING [] (sorted_list_of_set waiting)
                else scorer_decision Scorer_READY [] []))))"

end
