(* ===== verification/StageGraph.thy ===== *)
theory StageGraph
  imports Promotion
begin

section \<open>The stage graph: topological order and ancestors\<close>

text \<open>
  Lemmas about the two loops of \<open>promotion.py\<close> over the stage graph. \<open>greedy_order\<close> is the
  specification of the order: each position holds the least stage among those whose dependencies
  all come earlier. The loop of \<open>topological_stage_ids\<close> computes it, reaches every stage exactly
  when the graph is acyclic, and \<open>_ancestor_ids\<close> computes the transitive closure.
\<close>

subsection \<open>Well-formed stage graphs\<close>

definition graph_wf :: "(Identifier, StageSpec) dict \<Rightarrow> bool" where
  "graph_wf stages \<longleftrightarrow> dict_wf stages \<and>
     (\<forall>(s, stage) \<in> set stages. stg_stage_id stage = s \<and> distinct (stg_depends_on stage)
        \<and> set (stg_depends_on stage) \<subseteq> set (dict_keys stages))"

definition deps :: "(Identifier, StageSpec) dict \<Rightarrow> Identifier \<Rightarrow> Identifier set" where
  "deps stages s = (case dict_get stages s of None \<Rightarrow> {} | Some stage \<Rightarrow> set (stg_depends_on stage))"

text \<open>The stages that may run once the stages of \<open>finished\<close> have: all their dependencies are done.\<close>

definition available :: "(Identifier, StageSpec) dict \<Rightarrow> Identifier set \<Rightarrow> Identifier set" where
  "available stages finished = {s \<in> set (dict_keys stages) - finished. deps stages s \<subseteq> finished}"

definition greedy_order :: "(Identifier, StageSpec) dict \<Rightarrow> Identifier list \<Rightarrow> bool" where
  "greedy_order stages order \<longleftrightarrow> (\<forall>i < length order.
     order ! i \<in> available stages (set (take i order))
     \<and> (\<forall>s \<in> available stages (set (take i order)). order ! i \<le> s))"

lemma graph_wf_deps: "graph_wf stages \<Longrightarrow> deps stages s \<subseteq> set (dict_keys stages)"
  by (fastforce simp: graph_wf_def deps_def split: option.splits dest: map_of_SomeD)

lemma graph_wf_id: "graph_wf stages \<Longrightarrow> dict_get stages s = Some stage \<Longrightarrow> stg_stage_id stage = s"
  by (fastforce simp: graph_wf_def dest: map_of_SomeD)

lemma depends_rel_deps: "(d, s) \<in> depends_rel stages \<longleftrightarrow> d \<in> deps stages s"
  by (auto simp: depends_rel_def deps_def split: option.splits)

lemma greedy_order_snoc:
  "greedy_order stages (order @ [x]) \<longleftrightarrow> greedy_order stages order \<and> x \<in> available stages (set order)
     \<and> (\<forall>s \<in> available stages (set order). x \<le> s)"
  by (auto simp: greedy_order_def nth_append less_Suc_eq)

lemma greedy_order_facts:
  "greedy_order stages order \<Longrightarrow> distinct order \<and> set order \<subseteq> set (dict_keys stages)"
proof (induction order rule: rev_induct)
  case (snoc x xs)
  then show ?case by (auto simp: greedy_order_snoc available_def)
qed simp

lemma greedy_order_deps_closed:
  "greedy_order stages order \<Longrightarrow> s \<in> set order \<Longrightarrow> deps stages s \<subseteq> set order"
proof (induction order rule: rev_induct)
  case (snoc x xs)
  then show ?case by (auto simp: greedy_order_snoc available_def)
qed simp

subsection \<open>The indices of the loop\<close>

definition children_of :: "StageSpec list \<Rightarrow> Identifier \<Rightarrow> Identifier list" where
  "children_of ss d = map stg_stage_id (filter (\<lambda>stage. d \<in> set (stg_depends_on stage)) ss)"

lemma add_child_fold:
  assumes "distinct ds" "set ds \<subseteq> set (dict_keys ch)"
  shows "\<exists>ch'. fold_result (\<lambda>children dependency.
         bind_result (lookup children dependency) (\<lambda>kids.
           Inr (dict_set dependency (kids @ [s]) children))) ch ds = Inr ch'
       \<and> set (dict_keys ch') = set (dict_keys ch)
       \<and> (\<forall>d. dict_get ch' d = (if d \<in> set ds then map_option (\<lambda>k. k @ [s]) (dict_get ch d) else dict_get ch d))"
  using assms
proof (induction ds arbitrary: ch)
  case (Cons d ds)
  then obtain kids where k: "dict_get ch d = Some kids" by (metis dict_get_None list.set_intros(1) option.exhaust subsetD)
  let ?ch = "dict_set d (kids @ [s]) ch"
  have keys: "set (dict_keys ?ch) = set (dict_keys ch)" using Cons.prems by (auto simp: dict_simps)
  from Cons.IH [of ?ch] Cons.prems keys obtain ch' where "fold_result (\<lambda>children dependency.
         bind_result (lookup children dependency) (\<lambda>kids.
           Inr (dict_set dependency (kids @ [s]) children))) ?ch ds = Inr ch'"
    "set (dict_keys ch') = set (dict_keys ch)"
    "\<And>e. dict_get ch' e = (if e \<in> set ds then map_option (\<lambda>k. k @ [s]) (dict_get ?ch e) else dict_get ?ch e)"
    by auto
  then show ?case using k Cons.prems(1) by (auto simp: lookup_def dict_simps)
qed simp

lemma children_fold:
  assumes "\<forall>stage \<in> set ss. distinct (stg_depends_on stage) \<and> set (stg_depends_on stage) \<subseteq> set (dict_keys ch)"
  shows "\<exists>ch'. fold_result (\<lambda>children stage.
       fold_result (\<lambda>children dependency.
         bind_result (lookup children dependency) (\<lambda>kids.
           Inr (dict_set dependency (kids @ [stg_stage_id stage]) children)))
         children (stg_depends_on stage)) ch ss = Inr ch'
       \<and> (\<forall>d. dict_get ch' d = map_option (\<lambda>k. k @ children_of ss d) (dict_get ch d))"
  using assms
proof (induction ss arbitrary: ch)
  case Nil
  then show ?case by (simp add: children_of_def option.map_ident)
next
  case (Cons stage ss)
  from add_child_fold [of "stg_depends_on stage" ch "stg_stage_id stage"] Cons.prems
  obtain ch1 where 1: "fold_result (\<lambda>children dependency.
         bind_result (lookup children dependency) (\<lambda>kids.
           Inr (dict_set dependency (kids @ [stg_stage_id stage]) children))) ch (stg_depends_on stage) = Inr ch1"
    "set (dict_keys ch1) = set (dict_keys ch)"
    "\<And>d. dict_get ch1 d = (if d \<in> set (stg_depends_on stage)
        then map_option (\<lambda>k. k @ [stg_stage_id stage]) (dict_get ch d) else dict_get ch d)"
    by auto
  from Cons.IH [of ch1] Cons.prems 1(2) obtain ch2 where 2: "fold_result (\<lambda>children stage.
       fold_result (\<lambda>children dependency.
         bind_result (lookup children dependency) (\<lambda>kids.
           Inr (dict_set dependency (kids @ [stg_stage_id stage]) children)))
         children (stg_depends_on stage)) ch1 ss = Inr ch2"
     "\<And>d. dict_get ch2 d = map_option (\<lambda>k. k @ children_of ss d) (dict_get ch1 d)" by auto
  show ?case using 1 2 by (auto simp: children_of_def option.map_comp comp_def)
qed

lemma children_index_ok:
  assumes "graph_wf stages"
  obtains ch where "children_index stages = Inr ch"
    "\<And>d. d \<in> set (dict_keys stages) \<Longrightarrow> dict_get ch d = Some (children_of (dict_values stages) d)"
proof -
  let ?ch = "map (\<lambda>(stage_id, _). (stage_id, [] :: Identifier list)) stages"
  have keys: "dict_keys ?ch = dict_keys stages" by (induction stages) (auto simp: dict_keys_def)
  have get: "dict_get ?ch d = Some []" if "d \<in> set (dict_keys stages)" for d
    using that by (induction stages) auto
  have "\<forall>stage \<in> set (dict_values stages). distinct (stg_depends_on stage) \<and> set (stg_depends_on stage) \<subseteq> set (dict_keys ?ch)"
    using assms unfolding keys by (force simp: graph_wf_def dict_values_def)
  from children_fold [OF this] that show ?thesis
    unfolding children_index_def by (metis (no_types, lifting) append_Nil get option.simps(9))
qed

lemma children_of_mem:
  assumes "graph_wf stages"
  shows "set (children_of (dict_values stages) d) = {s. d \<in> deps stages s}"
proof -
  have wf: "dict_wf stages" using assms by (simp add: graph_wf_def)
  have "set (children_of (dict_values stages) d)
      = {stg_stage_id stage | stage. (\<exists>k. dict_get stages k = Some stage) \<and> d \<in> set (stg_depends_on stage)}"
    unfolding dict_values_get [OF wf, symmetric] by (auto simp: children_of_def)
  also have "\<dots> = {s. d \<in> deps stages s}"
    using graph_wf_id [OF assms] by (fastforce simp: deps_def split: option.splits)
  finally show ?thesis .
qed

lemma children_of_distinct:
  assumes "graph_wf stages"
  shows "distinct (children_of (dict_values stages) d)"
proof -
  have "map stg_stage_id (dict_values stages) = dict_keys stages"
    using assms by (auto simp: graph_wf_def dict_values_def dict_keys_def)
  then have "distinct (map stg_stage_id (dict_values stages))"
    using assms by (simp add: graph_wf_def dict_wf_def dict_keys_def)
  then show ?thesis by (simp add: children_of_def distinct_map_filter)
qed

lemma release_children:
  assumes "distinct kids" "set kids \<subseteq> set (dict_keys d)" "sorted ready"
  shows "\<exists>d' ready'. fold_result release_child (d, ready) kids = Inr (d', ready')
      \<and> (\<forall>k. dict_get d' k = (if k \<in> set kids then map_option (\<lambda>n. n - 1) (dict_get d k) else dict_get d k))
      \<and> set ready' = set ready \<union> {k \<in> set kids. dict_get d k = Some 1}
      \<and> sorted ready'
      \<and> (distinct ready \<and> set ready \<inter> {k \<in> set kids. dict_get d k = Some 1} = {} \<longrightarrow> distinct ready')"
  using assms
proof (induction kids arbitrary: d ready)
  case (Cons c kids)
  then obtain n where n: "dict_get d c = Some n"
    by (metis dict_get_None list.set_intros(1) option.exhaust subsetD)
  let ?d = "dict_set c (n - 1) d" and ?r = "if n - 1 = 0 then sort (ready @ [c]) else ready"
  have step: "release_child (d, ready) c = Inr (?d, ?r)" using n by (simp add: release_child_def lookup_def)
  have keys: "set (dict_keys ?d) = set (dict_keys d)" using Cons.prems by (auto simp: dict_simps)
  have srt: "sorted ?r" using Cons.prems by simp
  have eq: "{k \<in> set kids. dict_get ?d k = Some 1} = {k \<in> set kids. dict_get d k = Some 1}"
    using Cons.prems(1) by (auto simp: dict_simps)
  from Cons.IH [of ?d ?r] Cons.prems keys srt obtain d' ready' where
    "fold_result release_child (?d, ?r) kids = Inr (d', ready')"
    "\<And>k. dict_get d' k = (if k \<in> set kids then map_option (\<lambda>n. n - 1) (dict_get ?d k) else dict_get ?d k)"
    "set ready' = set ?r \<union> {k \<in> set kids. dict_get d k = Some 1}"
    "sorted ready'"
    "distinct ?r \<and> set ?r \<inter> {k \<in> set kids. dict_get d k = Some 1} = {} \<longrightarrow> distinct ready'"
    unfolding eq by auto
  then show ?case using n Cons.prems(1) step by (auto simp: dict_simps split: if_splits)
qed simp

definition kahn_inv :: "(Identifier, StageSpec) dict \<Rightarrow> (Identifier, int) dict \<Rightarrow> Identifier list
    \<Rightarrow> Identifier list \<Rightarrow> bool" where
  "kahn_inv stages indegree ready ordered \<longleftrightarrow>
     greedy_order stages ordered \<and> sorted ready \<and> distinct ready
     \<and> set ready = available stages (set ordered)
     \<and> (\<forall>s \<in> set (dict_keys stages). dict_get indegree s = Some (int (card (deps stages s - set ordered))))"

lemma finite_deps [simp]: "finite (deps stages s)"
  by (simp add: deps_def split: option.splits)

lemma card_deps_insert:
  "card (deps stages s - insert x A) =
     (if x \<in> deps stages s \<and> x \<notin> A then card (deps stages s - A) - 1 else card (deps stages s - A))"
proof (cases "x \<in> deps stages s \<and> x \<notin> A")
  case True
  moreover have "deps stages s - insert x A = deps stages s - A - {x}" by auto
  ultimately show ?thesis using card_Diff_singleton [of x "deps stages s - A"] by (simp only: if_True) simp
next
  case False
  then have "deps stages s - insert x A = deps stages s - A" by auto
  then show ?thesis using False by (simp only: if_False)
qed

lemma available_insert:
  assumes "x \<in> available stages A"
  shows "available stages (insert x A) = (available stages A - {x})
           \<union> {s. x \<in> deps stages s \<and> s \<in> set (dict_keys stages) - insert x A \<and> deps stages s \<subseteq> insert x A}"
  using assms by (auto simp: available_def)

lemma card_deps_one:
  assumes "x \<in> deps stages s" "x \<notin> A"
  shows "card (deps stages s - A) = 1 \<longleftrightarrow> deps stages s \<subseteq> insert x A"
proof
  assume "card (deps stages s - A) = 1"
  then obtain y where y: "deps stages s - A = {y}" by (rule card_1_singletonE)
  have "x \<in> deps stages s - A" using assms by simp
  then have "deps stages s - A = {x}" unfolding y by simp
  then show "deps stages s \<subseteq> insert x A" by blast
next
  assume "deps stages s \<subseteq> insert x A"
  with assms have "deps stages s - A = {x}" by auto
  then show "card (deps stages s - A) = 1" by simp
qed

lemma kahn_step:
  assumes wf: "graph_wf stages" and inv: "kahn_inv stages indegree (x # ready) ordered"
    and ch: "\<And>d. d \<in> set (dict_keys stages) \<Longrightarrow> dict_get ch d = Some (children_of (dict_values stages) d)"
  obtains kids indegree' ready' where "lookup ch x = Inr kids"
    "fold_result release_child (indegree, ready) (sort kids) = Inr (indegree', ready')"
    "kahn_inv stages indegree' ready' (ordered @ [x])"
proof -
  let ?kids = "children_of (dict_values stages) x"
  from inv have x: "x \<in> available stages (set ordered)" and srt: "sorted ready"
    and dst: "distinct ready" "x \<notin> set ready" and mn: "\<forall>s\<in>available stages (set ordered). x \<le> s"
    and rdy: "set ready = available stages (set ordered) - {x}"
    and grd: "greedy_order stages ordered"
    and deg: "\<And>s. s \<in> set (dict_keys stages) \<Longrightarrow> dict_get indegree s = Some (int (card (deps stages s - set ordered)))"
    by (auto simp: kahn_inv_def)
  from x have xk: "x \<in> set (dict_keys stages)" "x \<notin> set ordered" by (auto simp: available_def)
  have kids: "set ?kids = {s. x \<in> deps stages s}" "distinct ?kids"
    by (rule children_of_mem [OF wf], rule children_of_distinct [OF wf])
  have kk: "set ?kids \<subseteq> set (dict_keys stages)"
    by (auto simp: kids deps_def split: option.splits dest: dict_get_Some_keys)
  have "set ?kids \<subseteq> set (dict_keys indegree)" using kk deg by (blast dest: dict_get_Some_keys)
  with release_children [of "sort ?kids" indegree ready] kids srt obtain d' r' where r:
    "fold_result release_child (indegree, ready) (sort ?kids) = Inr (d', r')"
    "\<And>k. dict_get d' k = (if k \<in> set ?kids then map_option (\<lambda>n. n - 1) (dict_get indegree k) else dict_get indegree k)"
    "set r' = set ready \<union> {k \<in> set ?kids. dict_get indegree k = Some 1}" "sorted r'"
    "distinct ready \<and> set ready \<inter> {k \<in> set ?kids. dict_get indegree k = Some 1} = {} \<longrightarrow> distinct r'"
    by auto
  have new: "{k \<in> set ?kids. dict_get indegree k = Some 1} =
      {s. x \<in> deps stages s \<and> s \<in> set (dict_keys stages) - insert x (set ordered) \<and> deps stages s \<subseteq> insert x (set ordered)}"
    (is "?L = ?R")
  proof -
    have "k \<in> ?L \<longleftrightarrow> k \<in> ?R" for k
    proof (cases "x \<in> deps stages k")
      case True
      then have k: "k \<in> set ?kids" "k \<in> set (dict_keys stages)" using kids kk by auto
      have "x \<noteq> k" using True x xk(2) by (auto simp: available_def)
      moreover have "k \<notin> set ordered" using greedy_order_deps_closed [OF grd, of k] True xk(2) by auto
      ultimately show ?thesis using k deg [OF k(2)] card_deps_one [OF True xk(2)] True by simp
    qed (simp add: kids)
    then show ?thesis by blast
  qed
  have av: "set r' = available stages (set (ordered @ [x]))"
    unfolding r(3) new rdy using available_insert [OF x] by simp
  have dr: "distinct r'"
    using r(5) dst(1) xk unfolding new rdy by (auto simp: available_def)
  have "dict_get d' s = Some (int (card (deps stages s - set (ordered @ [x]))))"
    if s: "s \<in> set (dict_keys stages)" for s
  proof (cases "x \<in> deps stages s")
    case True
    then have "deps stages s - set ordered \<noteq> {}" using xk(2) by auto
    then have "Suc 0 \<le> card (deps stages s - set ordered)"
      by (metis Suc_leI card_gt_0_iff finite_Diff finite_deps)
    then show ?thesis using True kids r(2) [of s] deg [OF s] card_deps_insert [of stages s x "set ordered"] xk(2)
      by (simp add: of_nat_diff)
  next
    case False
    then show ?thesis using kids r(2) [of s] deg [OF s] card_deps_insert [of stages s x "set ordered"] by simp
  qed
  with av dr r(4) grd x mn have "kahn_inv stages d' r' (ordered @ [x])"
    by (simp add: kahn_inv_def greedy_order_snoc)
  with r(1) show ?thesis using that ch [OF xk(1)] by (simp add: lookup_def)
qed

lemma topological_loop_ok:
  assumes wf: "graph_wf stages"
    and ch: "\<And>d. d \<in> set (dict_keys stages) \<Longrightarrow> dict_get ch d = Some (children_of (dict_values stages) d)"
  shows "kahn_inv stages indegree ready ordered \<Longrightarrow>
     \<exists>order. topological_loop ch indegree ready ordered = Inr order \<and> greedy_order stages order
       \<and> available stages (set order) = {}"
proof (induction "length ready + card (positive_keys indegree)" arbitrary: indegree ready ordered rule: less_induct)
  case less
  show ?case
  proof (cases ready)
    case Nil
    with less.prems show ?thesis by (auto simp: kahn_inv_def)
  next
    case (Cons x ready')
    obtain kids d r where k: "lookup ch x = Inr kids"
      "fold_result release_child (indegree, ready') (sort kids) = Inr (d, r)"
      "kahn_inv stages d r (ordered @ [x])"
      by (rule kahn_step [OF wf less.prems [unfolded Cons] ch])
    have "length r + card (positive_keys d) < length ready + card (positive_keys indegree)"
      using release_children_measure [OF k(2)] Cons by simp
    from less.hyps [OF this k(3)] show ?thesis using Cons k(1,2) by simp
  qed
qed

lemma greedy_order_acyclic:
  assumes "greedy_order stages order" "set order = set (dict_keys stages)"
  shows "acyclic (depends_rel stages)"
proof -
  have "greedy_order stages xs \<Longrightarrow> acyclic (depends_rel stages \<inter> UNIV \<times> set xs)" for xs
  proof (induction xs rule: rev_induct)
    case (snoc x xs)
    then have ac: "acyclic (depends_rel stages \<inter> UNIV \<times> set xs)" and x: "x \<in> available stages (set xs)"
      and g: "greedy_order stages xs"
      by (auto simp: greedy_order_snoc)
    have wf: "wf (depends_rel stages \<inter> UNIV \<times> set xs)"
      using ac finite_depends_rel by (intro finite_acyclic_wf) auto
    have eq: "depends_rel stages \<inter> UNIV \<times> set (xs @ [x])
        = (depends_rel stages \<inter> UNIV \<times> set xs) \<union> (depends_rel stages \<inter> UNIV \<times> {x})" by auto
    have "wf (depends_rel stages \<inter> UNIV \<times> {x})"
      using x by (intro wf_subset [OF wf_measure [of "\<lambda>s. if s = x then 1 else 0"]])
        (auto simp: depends_rel_deps available_def)
    then have "wf (depends_rel stages \<inter> UNIV \<times> set (xs @ [x]))"
      unfolding eq using x greedy_order_deps_closed [OF g]
      by (intro wf_Un wf) (fastforce simp: depends_rel_deps available_def)+
    then show ?case by (rule wf_acyclic)
  qed (simp add: acyclic_def)
  from this [OF assms(1)] have "acyclic (depends_rel stages \<inter> UNIV \<times> set (dict_keys stages))"
    by (simp add: assms(2))
  moreover have "depends_rel stages \<inter> UNIV \<times> set (dict_keys stages) = depends_rel stages"
    by (auto dest: depends_rel_dom)
  ultimately show ?thesis by simp
qed

lemma acyclic_available:
  assumes "acyclic (depends_rel stages)" "graph_wf stages" "\<not> set (dict_keys stages) \<subseteq> A"
  shows "available stages A \<noteq> {}"
proof -
  have "wf (depends_rel stages)" using assms(1) finite_depends_rel by (rule finite_acyclic_wf [rotated])
  moreover obtain s where "s \<in> set (dict_keys stages) - A" using assms(3) by auto
  ultimately obtain z where "z \<in> set (dict_keys stages) - A"
    and "\<And>y. (y, z) \<in> depends_rel stages \<Longrightarrow> y \<notin> set (dict_keys stages) - A"
    using wfE_min by metis
  then show ?thesis using graph_wf_deps [OF assms(2), of z]
    by (auto simp: available_def depends_rel_deps)
qed

lemma available_empty:
  "available stages {} = {s. \<exists>stage. dict_get stages s = Some stage \<and> stg_depends_on stage = []}"
proof -
  have "s \<in> available stages {} \<longleftrightarrow> (\<exists>stage. dict_get stages s = Some stage \<and> stg_depends_on stage = [])" for s
    by (cases "dict_get stages s") (auto simp: available_def deps_def dict_get_None dest: dict_get_Some_keys)
  then show ?thesis by blast
qed

lemma topological_stage_ids_result:
  assumes wf: "graph_wf (stage_index t)"
  obtains order where "greedy_order (stage_index t) order" "available (stage_index t) (set order) = {}"
    "topological_stage_ids t = (if length order \<noteq> length (stage_index t) then Inl Cyclic_stages else Inr order)"
proof -
  let ?S = "stage_index t"
  let ?deg = "map (\<lambda>(stage_id, stage). (stage_id, int (length (stg_depends_on stage)))) ?S"
  let ?ready = "sort (map fst (filter (\<lambda>(_, degree). degree = 0) ?deg))"
  obtain ch where ch: "children_index ?S = Inr ch"
    "\<And>d. d \<in> set (dict_keys ?S) \<Longrightarrow> dict_get ch d = Some (children_of (dict_values ?S) d)"
    using children_index_ok [OF wf] by metis
  have dw: "dict_wf ?S" using wf by (simp add: graph_wf_def)
  have rdy: "distinct ?ready \<and> set ?ready = available ?S {}"
  proof
    have "distinct (map fst ?deg)" using dw by (simp add: dict_wf_def case_prod_unfold comp_def)
    then show "distinct ?ready" by (simp add: distinct_map_filter)
    have "set ?ready = {s. \<exists>stage. (s, stage) \<in> set ?S \<and> stg_depends_on stage = []}" by force
    also have "\<dots> = {s. \<exists>stage. dict_get ?S s = Some stage \<and> stg_depends_on stage = []}"
      unfolding dict_mem_get [OF dw] ..
    also have "\<dots> = available ?S {}" by (rule available_empty [symmetric])
    finally show "set ?ready = available ?S {}" .
  qed
  have "dict_get ?deg s = Some (int (card (deps ?S s)))" if s: "s \<in> set (dict_keys ?S)" for s
  proof -
    obtain stage where st: "dict_get ?S s = Some stage" using dict_keys_get [OF s] by blast
    have "distinct (stg_depends_on stage)" using wf map_of_SomeD [OF st] by (auto simp: graph_wf_def)
    then have "card (deps ?S s) = length (stg_depends_on stage)" using st by (simp add: deps_def distinct_card)
    then show ?thesis using st by (simp add: map_of_map [unfolded comp_def])
  qed
  then have "kahn_inv ?S ?deg ?ready []"
    using rdy by (simp add: kahn_inv_def greedy_order_def)
  from topological_loop_ok [OF wf ch(2) this] that ch(1) show ?thesis
    by (auto simp: topological_stage_ids_def Let_def)
qed

lemma EvaluationGraph_stages:
  assumes "EvaluationGraph_validate g = Inr g'" "stage \<in> set (grf_stages g')"
  shows "distinct (stg_depends_on stage)"
proof -
  from assms obtain stages where "map_result StageSpec_validate (grf_stages g) = Inr stages" "stage \<in> set stages"
    by (auto simp: EvaluationGraph_validate_def)
  then obtain raw where "StageSpec_validate raw = Inr stage" using map_result_set by metis
  then show ?thesis by (auto simp: StageSpec_validate_def)
qed

lemma TaskSpec_validate_graph:
  "TaskSpec_validate dg raw = Inr t \<Longrightarrow> \<exists>g. EvaluationGraph_validate g = Inr (tsk_evaluation t)"
  by (auto simp: TaskSpec_validate_def dest!: validate_task_checks(1))

lemma stage_index_keys: "set (dict_keys (stage_index t)) = stg_stage_id ` set (grf_stages (tsk_evaluation t))"
  by (simp add: stage_index_def dict_simps)

lemma dict_wf_stage_index [simp]: "dict_wf (stage_index t)"
  by (simp add: stage_index_def)

lemma stage_index_mem:
  assumes "distinct (map stg_stage_id (grf_stages (tsk_evaluation t)))"
  shows "(s, stage) \<in> set (stage_index t) \<longleftrightarrow> stage \<in> set (grf_stages (tsk_evaluation t)) \<and> stg_stage_id stage = s"
  using assms by (auto simp: stage_index_def dict_of_distinct)

text \<open>What the evaluation code needs of a task: validated stages, measurements and their producers.\<close>

definition task_wf :: "TaskSpec \<Rightarrow> bool" where
  "task_wf t \<longleftrightarrow> graph_wf (stage_index t) \<and> acyclic (depends_rel (stage_index t))
     \<and> distinct (map stg_stage_id (grf_stages (tsk_evaluation t)))
     \<and> distinct (map msp_measurement_id (tsk_measurements t))
     \<and> msp_producer_stage_id ` set (tsk_measurements t) \<subseteq> set (dict_keys (stage_index t))"

lemma TaskSpec_validate_task_wf:
  assumes "TaskSpec_validate dg raw = Inr t"
  shows "task_wf t"
proof -
  note model = validate_task_checks [OF TaskSpec_validate_model [OF assms]]
  let ?ss = "grf_stages (tsk_evaluation t)"
  note st = check_stages_facts [OF model(6)]
  obtain g where g: "EvaluationGraph_validate g = Inr (tsk_evaluation t)"
    using TaskSpec_validate_graph [OF assms] by blast
  have wf: "graph_wf (stage_index t)"
    unfolding graph_wf_def
    using st EvaluationGraph_stages [OF g]
    by (fastforce simp: stage_index_mem stage_index_keys)
  have rel: "depends_rel (stage_index t) = {(d, stg_stage_id s) | d s. s \<in> set ?ss \<and> d \<in> set (stg_depends_on s)}"
    by (auto simp: depends_rel_def stage_index_def dict_get_dict_of [OF st(1)])
  have "acyclic (depends_rel (stage_index t))"
    unfolding rel using check_acyclic_char [OF st(1)] st(2) model(7) by auto
  moreover have "distinct (map msp_measurement_id (tsk_measurements t))"
    "msp_producer_stage_id ` set (tsk_measurements t) \<subseteq> set (dict_keys (stage_index t))"
    using model(9) by (auto simp: check_measurements_def check_measurement_library_def Let_def stage_index_keys split: if_splits)
  ultimately show ?thesis using wf st by (simp add: task_wf_def)
qed

lemma topological_stage_ids_total:
  assumes "task_wf t"
  obtains order where "topological_stage_ids t = Inr order" "greedy_order (stage_index t) order"
    "distinct order" "set order = set (dict_keys (stage_index t))"
proof -
  have wf: "graph_wf (stage_index t)" and ac: "acyclic (depends_rel (stage_index t))"
    using assms by (auto simp: task_wf_def)
  obtain order where o: "greedy_order (stage_index t) order" "available (stage_index t) (set order) = {}"
    "topological_stage_ids t = (if length order \<noteq> length (stage_index t) then Inl Cyclic_stages else Inr order)"
    using topological_stage_ids_result [OF wf] by metis
  note d = greedy_order_facts [OF o(1)]
  have eq: "set order = set (dict_keys (stage_index t))"
    using acyclic_available [OF ac wf, of "set order"] o(2) d by blast
  have "length order = card (set (dict_keys (stage_index t)))" using d eq by (metis distinct_card)
  also have "\<dots> = length (stage_index t)" by (simp add: stage_index_def dict_simps length_dict_of)
  finally show ?thesis using that o d eq by simp
qed

lemma topological_stage_ids_acyclic:
  assumes "graph_wf (stage_index t)" "topological_stage_ids t = Inr order"
  shows "acyclic (depends_rel (stage_index t))"
proof -
  obtain o' where o: "greedy_order (stage_index t) o'"
    "topological_stage_ids t = (if length o' \<noteq> length (stage_index t) then Inl Cyclic_stages else Inr o')"
    using topological_stage_ids_result [OF assms(1)] by metis
  then have len: "length order = length (stage_index t)" and g: "greedy_order (stage_index t) order"
    using assms(2) by (auto split: if_splits)
  note d = greedy_order_facts [OF g]
  have "card (set order) = card (set (dict_keys (stage_index t)))"
    using len d by (simp add: distinct_card stage_index_def dict_simps length_dict_of)
  then have "set order = set (dict_keys (stage_index t))"
    using d by (intro card_subset_eq) auto
  then show ?thesis by (rule greedy_order_acyclic [OF g])
qed

subsection \<open>Ancestors\<close>

lemma ancestor_loop_ok:
  assumes wf: "graph_wf stages"
  shows "set pending \<subseteq> set (dict_keys stages) \<Longrightarrow>
     (\<forall>a \<in> ancestors. deps stages a \<subseteq> ancestors \<union> set pending) \<Longrightarrow>
     \<exists>A. ancestor_loop stages ancestors pending = Inr A \<and> ancestors \<union> set pending \<subseteq> A
       \<and> (\<forall>a \<in> A. deps stages a \<subseteq> A)
       \<and> (\<forall>B. ancestors \<union> set pending \<subseteq> B \<longrightarrow> (\<forall>b \<in> B. deps stages b \<subseteq> B) \<longrightarrow> A \<subseteq> B)"
  using wf
proof (induction stages ancestors pending rule: ancestor_loop.induct)
  case (1 stages ancestors pending)
  show ?case
  proof (cases pending rule: rev_cases)
    case Nil
    with 1(4) show ?thesis by (subst ancestor_loop.simps) auto
  next
    case (snoc rest x)
    then have e: "pending \<noteq> []" "last pending = x" "butlast pending = rest" by auto
    show ?thesis
    proof (cases "x \<in> ancestors")
      case True
      then have "\<exists>A. ancestor_loop stages ancestors rest = Inr A \<and> ancestors \<union> set rest \<subseteq> A
          \<and> (\<forall>a \<in> A. deps stages a \<subseteq> A)
          \<and> (\<forall>B. ancestors \<union> set rest \<subseteq> B \<longrightarrow> (\<forall>b \<in> B. deps stages b \<subseteq> B) \<longrightarrow> A \<subseteq> B)"
        using 1(1) [unfolded e] e 1(3-5) snoc by auto
      moreover have "ancestors \<union> set pending = ancestors \<union> set rest" using True snoc by auto
      ultimately show ?thesis using True e by (subst ancestor_loop.simps) simp
    next
      case False
      from 1(3) snoc obtain stage where st: "dict_get stages x = Some stage"
        using dict_keys_get [of x stages] by auto
      let ?p = "rest @ stg_depends_on stage"
      have dx: "deps stages x = set (stg_depends_on stage)" using st by (simp add: deps_def)
      have "set ?p \<subseteq> set (dict_keys stages)" using 1(3) snoc graph_wf_deps [OF 1(5), of x] dx by auto
      moreover have "\<forall>a\<in>insert x ancestors. deps stages a \<subseteq> insert x ancestors \<union> set ?p"
        using 1(4) snoc dx by auto
      ultimately obtain A where A: "ancestor_loop stages (insert x ancestors) ?p = Inr A"
        "insert x ancestors \<union> set ?p \<subseteq> A" "\<forall>a \<in> A. deps stages a \<subseteq> A"
        "\<And>B. insert x ancestors \<union> set ?p \<subseteq> B \<Longrightarrow> (\<forall>b \<in> B. deps stages b \<subseteq> B) \<Longrightarrow> A \<subseteq> B"
        using 1(2) [unfolded e, OF e(1) False st] 1(5) by blast
      have "A \<subseteq> B" if "ancestors \<union> set pending \<subseteq> B" "\<forall>b \<in> B. deps stages b \<subseteq> B" for B
        using that snoc dx by (intro A(4)) auto
      moreover have "ancestors \<union> set pending \<subseteq> A" using A(2) snoc by auto
      ultimately show ?thesis using A(1,3) False e st by (subst ancestor_loop.simps) auto
    qed
  qed
qed

lemma deps_closure:
  "{a. (a, s) \<in> (depends_rel stages)\<^sup>+} = \<Inter>{A. deps stages s \<subseteq> A \<and> (\<forall>a\<in>A. deps stages a \<subseteq> A)}"
proof (intro equalityI subsetI)
  fix a assume "a \<in> {a. (a, s) \<in> (depends_rel stages)\<^sup>+}"
  then have "(a, s) \<in> (depends_rel stages)\<^sup>+" by simp
  then show "a \<in> \<Inter>{A. deps stages s \<subseteq> A \<and> (\<forall>a\<in>A. deps stages a \<subseteq> A)}"
    by (induction rule: converse_trancl_induct) (auto simp: depends_rel_deps)
next
  fix a assume a: "a \<in> \<Inter>{A. deps stages s \<subseteq> A \<and> (\<forall>a\<in>A. deps stages a \<subseteq> A)}"
  have "{a. (a, s) \<in> (depends_rel stages)\<^sup>+} \<in> {A. deps stages s \<subseteq> A \<and> (\<forall>a\<in>A. deps stages a \<subseteq> A)}"
    by (auto simp flip: depends_rel_deps intro: trancl_into_trancl2)
  with a show "a \<in> {a. (a, s) \<in> (depends_rel stages)\<^sup>+}" by (rule InterD)
qed

lemma ancestor_ids_ok:
  assumes wf: "graph_wf stages" and s: "s \<in> set (dict_keys stages)"
  shows "ancestor_ids s stages = Inr (sorted_list_of_set {a. (a, s) \<in> (depends_rel stages)\<^sup>+})"
proof -
  obtain stage where st: "dict_get stages s = Some stage" using dict_keys_get [OF s] by blast
  have dx: "deps stages s = set (stg_depends_on stage)" using st by (simp add: deps_def)
  have "set (stg_depends_on stage) \<subseteq> set (dict_keys stages)" using graph_wf_deps [OF wf, of s] dx by simp
  from ancestor_loop_ok [OF wf this, of "{}"] obtain A where A:
    "ancestor_loop stages {} (stg_depends_on stage) = Inr A" "deps stages s \<subseteq> A" "\<forall>a \<in> A. deps stages a \<subseteq> A"
    "\<And>B. deps stages s \<subseteq> B \<Longrightarrow> (\<forall>b \<in> B. deps stages b \<subseteq> B) \<Longrightarrow> A \<subseteq> B"
    unfolding dx by auto
  have "A = {a. (a, s) \<in> (depends_rel stages)\<^sup>+}"
    unfolding deps_closure using A(2-4) by (intro equalityI Inter_greatest Inter_lower) auto
  then show ?thesis using A(1) st by (simp add: ancestor_ids_def lookup_def)
qed

end
