(* ===== verification/PromotionFacts.thy ===== *)
theory PromotionFacts
  imports StageGraph
begin

section \<open>Promotion: specifications and proofs\<close>

text \<open>
  The functions of \<open>promotion.py\<close> against declarative specifications over a result snapshot:
  \<open>completed\<close>, \<open>promoted\<close> and \<open>rejected\<close> stages, \<open>results_ok\<close> (what \<open>validate_stage_results\<close>
  accepts), \<open>eligibility_spec\<close>, \<open>gate_spec\<close> and \<open>scorer_spec\<close>. Each function is shown to equal its
  specification, so none of its constructed models violates its own validator.
\<close>

subsection \<open>Result snapshots\<close>

text \<open>The stages with a result, those whose result promotes, and the others.\<close>

definition promoted :: "StageResult list \<Rightarrow> Identifier set" where
  "promoted rs = {s. \<exists>r \<in> set rs. sgr_stage_id r = s \<and> outcome_promotes (sgr_outcome r)}"

definition completed :: "StageResult list \<Rightarrow> Identifier set" where
  "completed rs = sgr_stage_id ` set rs"

definition rejected :: "StageResult list \<Rightarrow> Identifier set" where
  "rejected rs = completed rs - promoted rs"

definition in_range :: "MeasurementSpec \<Rightarrow> CanonicalDecimal \<Rightarrow> bool" where
  "in_range m x \<longleftrightarrow> (case msp_valid_minimum m of None \<Rightarrow> True | Some lo \<Rightarrow> lo \<le> x)
     \<and> (case msp_valid_maximum m of None \<Rightarrow> True | Some hi \<Rightarrow> x \<le> hi)"

text \<open>The measurements a task declares for a stage, and the evidence a result may carry for them.\<close>

definition declared_ids :: "TaskSpec \<Rightarrow> Identifier \<Rightarrow> Identifier set" where
  "declared_ids t s = {msp_measurement_id m | m. m \<in> set (tsk_measurements t) \<and> msp_producer_stage_id m = s}"

definition evidence_ok :: "TaskSpec \<Rightarrow> StageResult \<Rightarrow> bool" where
  "evidence_ok t r \<longleftrightarrow>
     (\<forall>e \<in> set (sgr_measurements r). \<exists>m \<in> set (tsk_measurements t).
        msp_measurement_id m = mev_measurement_id e \<and> msp_producer_stage_id m = sgr_stage_id r
        \<and> int (length (mev_samples e)) = msp_repetitions m \<and> (\<forall>x \<in> set (mev_samples e). in_range m x))
     \<and> (outcome_promotes (sgr_outcome r) \<longrightarrow>
          mev_measurement_id ` set (sgr_measurements r) = declared_ids t (sgr_stage_id r))"

definition results_ok :: "TaskSpec \<Rightarrow> StageResult list \<Rightarrow> bool" where
  "results_ok t rs \<longleftrightarrow> distinct (map sgr_stage_id rs)
     \<and> (\<forall>r \<in> set rs. sgr_stage_id r \<in> set (dict_keys (stage_index t))
          \<and> deps (stage_index t) (sgr_stage_id r) \<subseteq> promoted rs \<and> evidence_ok t r)"

lemma measurement_index_get:
  assumes "task_wf t"
  shows "dict_get (measurement_index t) i = Some m \<longleftrightarrow> m \<in> set (tsk_measurements t) \<and> msp_measurement_id m = i"
  using assms by (auto simp: measurement_index_def task_wf_def dict_get_dict_of)

lemma measurement_index_keys:
  "set (dict_keys (measurement_index t)) = msp_measurement_id ` set (tsk_measurements t)"
  by (simp add: measurement_index_def dict_simps)

lemma expected_fold:
  assumes "msp_producer_stage_id ` set ms \<subseteq> set (dict_keys ex)"
  shows "\<exists>ex'. fold_result (\<lambda>expected m.
       bind_result (lookup expected (msp_producer_stage_id m)) (\<lambda>ids.
         Inr (dict_set (msp_producer_stage_id m) (insert (msp_measurement_id m) ids) expected))) ex ms = Inr ex'
     \<and> (\<forall>s. dict_get ex' s = map_option (\<lambda>ids. ids \<union> {msp_measurement_id m | m. m \<in> set ms \<and> msp_producer_stage_id m = s}) (dict_get ex s))"
  using assms
proof (induction ms arbitrary: ex)
  case (Cons m ms)
  then obtain ids where i: "dict_get ex (msp_producer_stage_id m) = Some ids"
    using dict_keys_get [of "msp_producer_stage_id m" ex] by auto
  let ?ex = "dict_set (msp_producer_stage_id m) (insert (msp_measurement_id m) ids) ex"
  have "msp_producer_stage_id ` set ms \<subseteq> set (dict_keys ?ex)" using Cons.prems by (auto simp: dict_simps)
  from Cons.IH [OF this] obtain ex' where "fold_result (\<lambda>expected m.
       bind_result (lookup expected (msp_producer_stage_id m)) (\<lambda>ids.
         Inr (dict_set (msp_producer_stage_id m) (insert (msp_measurement_id m) ids) expected))) ?ex ms = Inr ex'"
     "\<And>s. dict_get ex' s = map_option (\<lambda>ids. ids \<union> {msp_measurement_id m | m. m \<in> set ms \<and> msp_producer_stage_id m = s}) (dict_get ?ex s)"
    by auto
  with i show ?case
    by (auto simp: lookup_def dict_get_set intro!: arg_cong [where f = "\<lambda>f. map_option f _"])
qed (simp add: option.map_ident)

lemma expected_by_stage_ok:
  assumes "task_wf t"
  obtains ex where "expected_by_stage t = Inr ex"
    "\<And>s. s \<in> set (dict_keys (stage_index t)) \<Longrightarrow> dict_get ex s = Some (declared_ids t s)"
proof -
  let ?ex = "map (\<lambda>(stage_id, _). (stage_id, {} :: Identifier set)) (stage_index t)"
  have keys: "dict_keys ?ex = dict_keys (stage_index t)" by (simp add: dict_keys_def case_prod_unfold comp_def)
  have get: "dict_get ?ex s = Some {}" if "s \<in> set (dict_keys (stage_index t))" for s
    using that by (simp add: map_of_map [unfolded comp_def] dict_keys_get)
  have "msp_producer_stage_id ` set (tsk_measurements t) \<subseteq> set (dict_keys ?ex)"
    unfolding keys using assms by (simp add: task_wf_def)
  from expected_fold [OF this] obtain ex where "expected_by_stage t = Inr ex"
    "\<And>s. dict_get ex s = map_option (\<lambda>ids. ids \<union> declared_ids t s) (dict_get ?ex s)"
    by (auto simp: expected_by_stage_def declared_ids_def)
  then show ?thesis using that get by simp
qed

lemma not_below_above: "\<not> below_minimum m x \<and> \<not> above_maximum m x \<longleftrightarrow> in_range m x"
  by (auto simp: below_minimum_def above_maximum_def in_range_def split: option.splits)

lemma check_evidence_iff:
  assumes "task_wf t"
  shows "check_evidence (measurement_index t) e = Inr () \<longleftrightarrow> (\<exists>m \<in> set (tsk_measurements t).
     msp_measurement_id m = mev_measurement_id e \<and> int (length (mev_samples e)) = msp_repetitions m
     \<and> (\<forall>x \<in> set (mev_samples e). in_range m x))"
proof (cases "dict_get (measurement_index t) (mev_measurement_id e)")
  case None
  then have "\<not> (\<exists>m \<in> set (tsk_measurements t). msp_measurement_id m = mev_measurement_id e)"
    using measurement_index_get [OF assms, of "mev_measurement_id e"] by auto
  then show ?thesis using None by (auto simp: check_evidence_def lookup_def)
next
  case (Some m)
  then have "(\<exists>m' \<in> set (tsk_measurements t). msp_measurement_id m' = mev_measurement_id e \<and> P m') \<longleftrightarrow> P m" for P
    using measurement_index_get [OF assms, of "mev_measurement_id e"] by (metis option.inject)
  then show ?thesis using Some not_below_above [of m]
    by (auto simp: check_evidence_def lookup_def)
qed

lemma validate_measurement_evidence_iff:
  assumes "task_wf t"
  shows "validate_measurement_evidence r (measurement_index t) (declared_ids t (sgr_stage_id r)) = Inr ()
     \<longleftrightarrow> evidence_ok t r"
proof -
  let ?mi = "measurement_index t"
  have misplaced: "(case dict_get ?mi i of None \<Rightarrow> False | Some s \<Rightarrow> msp_producer_stage_id s \<noteq> sgr_stage_id r)
      \<longleftrightarrow> (\<exists>m \<in> set (tsk_measurements t). msp_measurement_id m = i \<and> msp_producer_stage_id m \<noteq> sgr_stage_id r)" for i
    using measurement_index_get [OF assms, of i] by (cases "dict_get ?mi i") (simp_all, metis)
  have uniq: "m = m'" if "m \<in> set (tsk_measurements t)" "m' \<in> set (tsk_measurements t)"
     "msp_measurement_id m = msp_measurement_id m'" for m m'
    using that measurement_index_get [OF assms, of "msp_measurement_id m"] by (metis option.inject)
  have split: "(\<exists>m \<in> set (tsk_measurements t).
        msp_measurement_id m = mev_measurement_id e \<and> msp_producer_stage_id m = sgr_stage_id r
        \<and> int (length (mev_samples e)) = msp_repetitions m \<and> (\<forall>x \<in> set (mev_samples e). in_range m x))
      \<longleftrightarrow> mev_measurement_id e \<in> set (dict_keys ?mi)
        \<and> \<not> (\<exists>m \<in> set (tsk_measurements t). msp_measurement_id m = mev_measurement_id e \<and> msp_producer_stage_id m \<noteq> sgr_stage_id r)
        \<and> check_evidence ?mi e = Inr ()" for e
    unfolding check_evidence_iff [OF assms] measurement_index_keys using uniq by (smt (verit) image_iff)
  show ?thesis
    unfolding validate_measurement_evidence_def Let_def evidence_ok_def split misplaced
    by (auto simp: subset_iff)
qed

lemma result_index_iff:
  "result_index rs = Inr idx \<longleftrightarrow> distinct (map sgr_stage_id rs) \<and> idx = dict_of sgr_stage_id id rs"
  by (auto simp: result_index_def Let_def length_dict_of_distinct)

lemma result_get:
  assumes "distinct (map sgr_stage_id rs)"
  shows "dict_get (dict_of sgr_stage_id id rs) s = Some r \<longleftrightarrow> r \<in> set rs \<and> sgr_stage_id r = s"
  using dict_get_dict_of [OF assms, of id s r] by auto

lemma result_keys: "set (dict_keys (dict_of sgr_stage_id id rs)) = completed rs"
  by (simp add: dict_simps completed_def)

lemma result_get_promotes:
  assumes "distinct (map sgr_stage_id rs)" "r \<in> set rs"
  shows "sgr_stage_id r \<in> promoted rs \<longleftrightarrow> outcome_promotes (sgr_outcome r)"
proof -
  have "r' = r" if "r' \<in> set rs" "sgr_stage_id r' = sgr_stage_id r" for r'
    using that assms result_get [OF assms(1), of "sgr_stage_id r"] by (metis option.inject)
  then show ?thesis using assms(2) by (auto simp: promoted_def)
qed

lemma check_dependency_promoted_iff:
  assumes "distinct (map sgr_stage_id rs)"
  shows "check_dependency_promoted (dict_of sgr_stage_id id rs) d = Inr () \<longleftrightarrow> d \<in> promoted rs"
proof (cases "dict_get (dict_of sgr_stage_id id rs) d")
  case None
  then have "d \<notin> completed rs" by (simp add: dict_get_None result_keys)
  then show ?thesis using None by (auto simp: check_dependency_promoted_def promoted_def completed_def)
next
  case (Some r)
  then have "r \<in> set rs" "sgr_stage_id r = d" using result_get [OF assms] by auto
  then show ?thesis using Some result_get_promotes [OF assms, of r]
    by (simp add: check_dependency_promoted_def)
qed

lemma check_stage_result_iff:
  assumes t: "task_wf t" and d: "distinct (map sgr_stage_id rs)" and s: "s \<in> set (dict_keys (stage_index t))"
    and ex: "\<And>s. s \<in> set (dict_keys (stage_index t)) \<Longrightarrow> dict_get ex s = Some (declared_ids t s)"
  shows "check_stage_result t ex (dict_of sgr_stage_id id rs) s = Inr () \<longleftrightarrow>
     (\<forall>r \<in> set rs. sgr_stage_id r = s \<longrightarrow> deps (stage_index t) s \<subseteq> promoted rs \<and> evidence_ok t r)"
proof (cases "dict_get (dict_of sgr_stage_id id rs) s")
  case None
  then have "\<forall>r \<in> set rs. sgr_stage_id r \<noteq> s" by (auto simp: dict_get_None result_keys completed_def)
  then show ?thesis using None by (auto simp: check_stage_result_def)
next
  case (Some r)
  then have r: "r \<in> set rs" "sgr_stage_id r = s" using result_get [OF d] by auto
  then have only: "(\<forall>r \<in> set rs. sgr_stage_id r = s \<longrightarrow> P r) \<longleftrightarrow> P r" for P
    using Some result_get [OF d, of s] by (metis option.inject)
  obtain stage where st: "dict_get (stage_index t) s = Some stage" using dict_keys_get [OF s] by blast
  have "(\<forall>x\<in>set (stg_depends_on stage). check_dependency_promoted (dict_of sgr_stage_id id rs) x = Inr ())
      \<longleftrightarrow> deps (stage_index t) s \<subseteq> promoted rs"
    using st by (auto simp: deps_def check_dependency_promoted_iff [OF d])
  then show ?thesis unfolding only
    using Some st ex [OF s] validate_measurement_evidence_iff [OF t, of r] r(2)
    by (simp add: check_stage_result_def lookup_def)
qed

lemma map_filter_results:
  assumes "distinct (map sgr_stage_id rs)" "distinct order"
  shows "set (List.map_filter (dict_get (dict_of sgr_stage_id id rs)) order)
           = {r \<in> set rs. sgr_stage_id r \<in> set order}"
    and "map sgr_stage_id (List.map_filter (dict_get (dict_of sgr_stage_id id rs)) order)
           = filter (\<lambda>s. s \<in> completed rs) order"
proof -
  let ?get = "dict_get (dict_of sgr_stage_id id rs)"
  have "r \<in> set (List.map_filter ?get order) \<longleftrightarrow> r \<in> set rs \<and> sgr_stage_id r \<in> set order" for r
  proof -
    have "r \<in> set (List.map_filter ?get order) \<longleftrightarrow> (\<exists>s \<in> set order. ?get s = Some r)"
      by (induction order) (auto simp: List.map_filter_simps split: option.splits)
    then show ?thesis by (auto simp: result_get [OF assms(1)])
  qed
  then show "set (List.map_filter ?get order) = {r \<in> set rs. sgr_stage_id r \<in> set order}" by blast
  show "map sgr_stage_id (List.map_filter ?get order) = filter (\<lambda>s. s \<in> completed rs) order"
  proof (induction order)
    case (Cons s order)
    show ?case
    proof (cases "?get s")
      case None
      then have "s \<notin> completed rs" by (simp add: dict_get_None result_keys)
      then show ?thesis using Cons None by (simp add: List.map_filter_simps id_def)
    next
      case (Some r)
      then have "r \<in> set rs" "sgr_stage_id r = s" using result_get [OF assms(1)] by auto
      then show ?thesis using Cons Some by (auto simp: List.map_filter_simps completed_def id_def)
    qed
  qed (simp add: List.map_filter_simps)
qed

lemma validate_stage_results_iff:
  assumes t: "task_wf t"
  shows "(\<exists>vs. validate_stage_results t rs = Inr vs) \<longleftrightarrow> results_ok t rs"
proof -
  obtain order where o: "topological_stage_ids t = Inr order" "set order = set (dict_keys (stage_index t))"
    using topological_stage_ids_total [OF t] by metis
  obtain ex where ex: "expected_by_stage t = Inr ex"
    "\<And>s. s \<in> set (dict_keys (stage_index t)) \<Longrightarrow> dict_get ex s = Some (declared_ids t s)"
    using expected_by_stage_ok [OF t] by metis
  show ?thesis
  proof (cases "distinct (map sgr_stage_id rs) \<and> completed rs \<subseteq> set (dict_keys (stage_index t))")
    case True
    then have ri: "result_index rs = Inr (dict_of sgr_stage_id id rs)" by (simp add: result_index_iff)
    have "(\<exists>vs. validate_stage_results t rs = Inr vs) \<longleftrightarrow>
        (\<forall>s \<in> set order. check_stage_result t ex (dict_of sgr_stage_id id rs) s = Inr ())"
      using True by (simp add: validate_stage_results_def ri o(1) ex(1) result_keys)
    also have "\<dots> \<longleftrightarrow> (\<forall>s \<in> set (dict_keys (stage_index t)). \<forall>r \<in> set rs. sgr_stage_id r = s \<longrightarrow>
        deps (stage_index t) s \<subseteq> promoted rs \<and> evidence_ok t r)"
      using check_stage_result_iff [OF t _ _ ex(2)] True o(2) by simp
    also have "\<dots> \<longleftrightarrow> results_ok t rs" using True by (auto simp: results_ok_def completed_def)
    finally show ?thesis .
  next
    case False
    then show ?thesis
      by (auto simp: validate_stage_results_def result_index_iff result_keys results_ok_def completed_def)
  qed
qed

lemma validate_stage_results_order:
  assumes t: "task_wf t" and v: "validate_stage_results t rs = Inr vs"
    and o: "topological_stage_ids t = Inr order"
  shows "set vs = set rs" "map sgr_stage_id vs = filter (\<lambda>s. s \<in> completed rs) order"
    "distinct (map sgr_stage_id vs)"
proof -
  have o': "set order = set (dict_keys (stage_index t))" "distinct order"
    using topological_stage_ids_total [OF t] o by (metis Inr_inject)+
  have ok: "results_ok t rs" using validate_stage_results_iff [OF t] v by blast
  then have d: "distinct (map sgr_stage_id rs)" by (simp add: results_ok_def)
  have vs: "vs = List.map_filter (dict_get (dict_of sgr_stage_id id rs)) order"
    using v o by (auto simp: validate_stage_results_def result_index_iff split: if_splits)
  show "set vs = set rs" using map_filter_results(1) [OF d o'(2)] ok o'(1) vs by (auto simp: results_ok_def)
  show m: "map sgr_stage_id vs = filter (\<lambda>s. s \<in> completed rs) order"
    unfolding vs by (rule map_filter_results(2) [OF d o'(2)])
  show "distinct (map sgr_stage_id vs)" unfolding m using o'(2) by simp
qed

text \<open>The derived sets of a snapshot depend only on the results in it.\<close>

lemma snapshot_cong:
  assumes "set vs = set rs"
  shows "completed vs = completed rs" "promoted vs = promoted rs" "rejected vs = rejected rs"
  using assms by (simp_all add: completed_def promoted_def rejected_def)

lemma results_ok_cong:
  assumes "set vs = set rs" "distinct (map sgr_stage_id vs)" "distinct (map sgr_stage_id rs)"
  shows "results_ok t vs = results_ok t rs"
  using assms snapshot_cong [OF assms(1)] by (simp add: results_ok_def)

lemma validated_ok:
  assumes "task_wf t" "validate_stage_results t rs = Inr vs"
  shows "set vs = set rs" "results_ok t vs" "results_ok t rs" "distinct (map sgr_stage_id vs)"
proof -
  obtain order where "topological_stage_ids t = Inr order" using topological_stage_ids_total [OF assms(1)] by metis
  note o = validate_stage_results_order [OF assms this]
  show "set vs = set rs" "distinct (map sgr_stage_id vs)" by (rule o)+
  show rs: "results_ok t rs" using validate_stage_results_iff [OF assms(1)] assms(2) by blast
  then show "results_ok t vs" using results_ok_cong [OF o(1) o(3)] by (simp add: results_ok_def)
qed

lemma validate_stage_results_idem:
  assumes "task_wf t" "validate_stage_results t rs = Inr vs"
  shows "validate_stage_results t vs = Inr vs"
proof -
  obtain order where o: "topological_stage_ids t = Inr order" using topological_stage_ids_total [OF assms(1)] by metis
  note v = validated_ok [OF assms]
  obtain ws where ws: "validate_stage_results t vs = Inr ws"
    using validate_stage_results_iff [OF assms(1)] v(2) by blast
  have eq: "dict_get (dict_of sgr_stage_id id vs) = dict_get (dict_of sgr_stage_id id rs)"
  proof
    fix s
    have "dict_get (dict_of sgr_stage_id id vs) s = Some r \<longleftrightarrow> dict_get (dict_of sgr_stage_id id rs) s = Some r" for r
      using v result_get [of vs s r] result_get [of rs s r] by (simp add: results_ok_def)
    then show "dict_get (dict_of sgr_stage_id id vs) s = dict_get (dict_of sgr_stage_id id rs) s"
      by (metis option.exhaust)
  qed
  have "ws = List.map_filter (dict_get (dict_of sgr_stage_id id vs)) order"
    using ws o by (auto simp: validate_stage_results_def result_index_iff split: if_splits)
  moreover have "vs = List.map_filter (dict_get (dict_of sgr_stage_id id rs)) order"
    using assms(2) o by (auto simp: validate_stage_results_def result_index_iff split: if_splits)
  ultimately show ?thesis using ws eq by simp
qed

subsection \<open>Stage eligibility\<close>

definition blockers_of :: "TaskSpec \<Rightarrow> StageResult list \<Rightarrow> Identifier \<Rightarrow> Identifier set" where
  "blockers_of t rs s = {a. (a, s) \<in> (depends_rel (stage_index t))\<^sup>+ \<and> a \<in> rejected rs}"

lemma finite_ancestors [simp]: "finite {a. (a, s) \<in> (depends_rel stages)\<^sup>+}"
proof -
  have "finite (fst ` (depends_rel stages)\<^sup>+)" using finite_depends_rel finite_trancl by blast
  then show ?thesis by (rule rev_finite_subset) force
qed

lemma finite_blockers_of [simp]: "finite (blockers_of t rs s)"
  by (rule finite_subset [OF _ finite_ancestors [of s "stage_index t"]]) (auto simp: blockers_of_def)

lemma filter_sorted_list_of_set:
  "finite A \<Longrightarrow> filter P (sorted_list_of_set A) = sorted_list_of_set {a \<in> A. P a}"
  by (rule sorted_distinct_set_unique) (auto intro: sorted_wrt_filter)

lemma sort_eq_sorted_list_of_set: "distinct xs \<Longrightarrow> sort xs = sorted_list_of_set (set xs)"
  by (simp add: sorted_list_of_set_sort_remdups distinct_remdups_id)

lemma rejected_iff:
  assumes "distinct (map sgr_stage_id rs)"
  shows "a \<in> rejected rs \<longleftrightarrow> (case dict_get (dict_of sgr_stage_id id rs) a of None \<Rightarrow> False
           | Some r \<Rightarrow> \<not> outcome_promotes (sgr_outcome r))"
proof (cases "dict_get (dict_of sgr_stage_id id rs) a")
  case None
  then have "a \<notin> completed rs" by (simp add: dict_get_None result_keys)
  then show ?thesis using None by (simp add: rejected_def)
next
  case (Some r)
  then have "r \<in> set rs" "sgr_stage_id r = a" using result_get [OF assms] by auto
  then show ?thesis using Some result_get_promotes [OF assms, of r]
    by (auto simp: rejected_def completed_def)
qed

definition eligibility_spec :: "TaskSpec \<Rightarrow> StageResult list \<Rightarrow> Identifier \<Rightarrow> StageEligibility" where
  "eligibility_spec t rs s =
     (if s \<in> completed rs
      then \<lparr>elg_stage_id = s, elg_state = Stage_COMPLETED, elg_blocking_stage_ids = [], elg_waiting_stage_ids = []\<rparr>
      else if blockers_of t rs s \<noteq> {}
      then \<lparr>elg_stage_id = s, elg_state = Stage_BLOCKED,
            elg_blocking_stage_ids = sorted_list_of_set (blockers_of t rs s), elg_waiting_stage_ids = []\<rparr>
      else if \<not> deps (stage_index t) s \<subseteq> completed rs
      then \<lparr>elg_stage_id = s, elg_state = Stage_WAITING, elg_blocking_stage_ids = [],
            elg_waiting_stage_ids = sorted_list_of_set (deps (stage_index t) s - completed rs)\<rparr>
      else \<lparr>elg_stage_id = s, elg_state = Stage_READY, elg_blocking_stage_ids = [], elg_waiting_stage_ids = []\<rparr>)"

lemma stage_eligibility_spec:
  assumes t: "task_wf t" and ok: "results_ok t rs" and s: "s \<in> set (dict_keys (stage_index t))"
  shows "stage_eligibility t rs s = Inr (eligibility_spec t rs s)"
proof -
  have wf: "graph_wf (stage_index t)" using t by (simp add: task_wf_def)
  obtain vs where v: "validate_stage_results t rs = Inr vs" using validate_stage_results_iff [OF t] ok by blast
  note v' = validated_ok [OF t v]
  note cong = snapshot_cong [OF v'(1)]
  have ri: "result_index vs = Inr (dict_of sgr_stage_id id vs)" using v' by (simp add: result_index_iff)
  obtain stage where st: "dict_get (stage_index t) s = Some stage" using dict_keys_get [OF s] by blast
  have ds: "set (stg_depends_on stage) = deps (stage_index t) s" "distinct (stg_depends_on stage)"
    using st wf map_of_SomeD [OF st] by (auto simp: deps_def graph_wf_def)
  have bl: "filter (\<lambda>a. case dict_get (dict_of sgr_stage_id id vs) a of None \<Rightarrow> False
        | Some r \<Rightarrow> \<not> outcome_promotes (sgr_outcome r)) (sorted_list_of_set {a. (a, s) \<in> (depends_rel (stage_index t))\<^sup>+})
      = sorted_list_of_set (blockers_of t rs s)"
    by (simp add: filter_sorted_list_of_set blockers_of_def flip: rejected_iff [OF v'(4)] cong(3))
  let ?w = "filter (\<lambda>d. d \<notin> completed rs) (stg_depends_on stage)"
  have w: "sort ?w = sorted_list_of_set (deps (stage_index t) s - completed rs)" "distinct ?w"
    "?w = [] \<longleftrightarrow> deps (stage_index t) s \<subseteq> completed rs"
    using ds by (auto simp: sort_eq_sorted_list_of_set filter_empty_conv set_diff_eq Int_def
        intro!: arg_cong [where f = sorted_list_of_set])
  show ?thesis
    using s st w bl
    by (simp add: stage_eligibility_def v ri result_keys cong ancestor_ids_ok [OF wf s] lookup_def
        eligibility_spec_def StageEligibility_validate_def sorted_sort_id)
qed

lemma eligibility_spec_ready:
  assumes "results_ok t rs"
  shows "elg_state (eligibility_spec t rs s) = Stage_READY \<longleftrightarrow>
    s \<notin> completed rs \<and> blockers_of t rs s = {} \<and> deps (stage_index t) s \<subseteq> completed rs"
  by (auto simp: eligibility_spec_def)

text \<open>Validity makes the direct dependencies decisive: a ready stage has promoting dependencies.\<close>

lemma ready_iff_promoted:
  assumes t: "task_wf t" and ok: "results_ok t rs"
  shows "blockers_of t rs s = {} \<and> deps (stage_index t) s \<subseteq> completed rs
           \<longleftrightarrow> deps (stage_index t) s \<subseteq> promoted rs"
proof
  assume *: "blockers_of t rs s = {} \<and> deps (stage_index t) s \<subseteq> completed rs"
  have "d \<notin> rejected rs" if "d \<in> deps (stage_index t) s" for d
    using that * by (auto simp: blockers_of_def depends_rel_deps [symmetric])
  then show "deps (stage_index t) s \<subseteq> promoted rs" using * by (auto simp: rejected_def)
next
  assume *: "deps (stage_index t) s \<subseteq> promoted rs"
  have pr: "deps (stage_index t) a \<subseteq> promoted rs" if "a \<in> promoted rs" for a
    using ok that by (auto simp: results_ok_def promoted_def)
  have "a \<in> promoted rs" if "(a, s) \<in> (depends_rel (stage_index t))\<^sup>+" for a
    using that
  proof (induction rule: converse_trancl_induct)
    case (base y)
    then show ?case using * by (auto simp: depends_rel_deps)
  next
    case (step y z)
    then show ?case using pr by (auto simp: depends_rel_deps)
  qed
  moreover have "promoted rs \<subseteq> completed rs" by (auto simp: promoted_def completed_def)
  ultimately show "blockers_of t rs s = {} \<and> deps (stage_index t) s \<subseteq> completed rs"
    using * by (auto simp: blockers_of_def rejected_def)
qed

subsection \<open>Hard gates\<close>

definition gate_ids :: "TaskSpec \<Rightarrow> Identifier list" where
  "gate_ids t = map stg_stage_id (hard_gates t)"

lemma gate_ids_known: "set (gate_ids t) \<subseteq> set (dict_keys (stage_index t))"
  by (auto simp: gate_ids_def hard_gates_def stage_index_keys)

lemma gate_fold:
  assumes t: "task_wf t" and ok: "results_ok t rs" and idx: "idx = dict_of sgr_stage_id id rs"
    and gs: "stg_stage_id ` set gs \<subseteq> set (dict_keys (stage_index t))"
  shows "fold_result (gate_step t rs idx) (f, b, p) gs =
     Inr (f @ filter (\<lambda>g. g \<in> rejected rs) (map stg_stage_id gs),
          b \<union> (\<Union>g \<in> stg_stage_id ` set gs - completed rs. blockers_of t rs g),
          p @ filter (\<lambda>g. g \<notin> completed rs \<and> blockers_of t rs g = {}) (map stg_stage_id gs))"
  using gs
proof (induction gs arbitrary: f b p)
  case (Cons g gs)
  let ?g = "stg_stage_id g"
  have d: "distinct (map sgr_stage_id rs)" using ok by (simp add: results_ok_def)
  have "gate_step t rs idx (f, b, p) g =
     Inr (if ?g \<in> rejected rs then f @ [?g] else f,
          if ?g \<in> completed rs then b else b \<union> blockers_of t rs ?g,
          if ?g \<notin> completed rs \<and> blockers_of t rs ?g = {} then p @ [?g] else p)"
  proof (cases "dict_get idx ?g")
    case None
    then have "?g \<notin> completed rs" by (simp add: dict_get_None result_keys idx)
    then show ?thesis using None Cons.prems stage_eligibility_spec [OF t ok, of ?g]
      by (simp add: gate_step_def eligibility_spec_def rejected_def)
  next
    case (Some r)
    then have "?g \<in> completed rs" using dict_get_Some_keys [OF Some] by (simp add: result_keys idx)
    then show ?thesis using Some rejected_iff [OF d, of ?g, folded idx] by (simp add: gate_step_def)
  qed
  then show ?case using Cons by (cases "?g \<in> completed rs") (simp_all add: insert_Diff_if Un_assoc)
qed simp

definition gate_decision :: "Identifier set \<Rightarrow> Identifier set \<Rightarrow> Identifier set \<Rightarrow> HardGateStatus" where
  "gate_decision failed blocking pending =
     \<lparr>hgs_state = (if failed \<noteq> {} \<or> blocking \<noteq> {} then Gate_FAILED
                   else if pending \<noteq> {} then Gate_PENDING else Gate_SUCCEEDED),
      hgs_failed_gate_ids = sorted_list_of_set failed,
      hgs_blocking_stage_ids = sorted_list_of_set blocking,
      hgs_pending_gate_ids = sorted_list_of_set pending\<rparr>"

definition gate_spec :: "TaskSpec \<Rightarrow> StageResult list \<Rightarrow> HardGateStatus" where
  "gate_spec t rs =
     gate_decision (set (gate_ids t) \<inter> rejected rs)
       (\<Union>g \<in> set (gate_ids t) - completed rs. blockers_of t rs g)
       {g \<in> set (gate_ids t) - completed rs. blockers_of t rs g = {}}"

lemma gate_decision_facts:
  assumes "finite f" "finite b" "finite p" "h = gate_decision f b p"
  shows "sorted (hgs_failed_gate_ids h)" "distinct (hgs_failed_gate_ids h)"
    "sorted (hgs_pending_gate_ids h)" "distinct (hgs_pending_gate_ids h)"
    "set (hgs_failed_gate_ids h) = f" "set (hgs_blocking_stage_ids h) = b" "set (hgs_pending_gate_ids h) = p"
    "hgs_state h = Gate_FAILED \<longleftrightarrow> f \<noteq> {} \<or> b \<noteq> {}"
    "hgs_state h = Gate_SUCCEEDED \<longleftrightarrow> f = {} \<and> b = {} \<and> p = {}"
    "hgs_state h = Gate_PENDING \<longleftrightarrow> f = {} \<and> b = {} \<and> p \<noteq> {}"
  using assms by (auto simp: gate_decision_def)

lemma hard_gate_status_spec:
  assumes t: "task_wf t" and ok: "results_ok t rs"
  shows "hard_gate_status t rs = Inr (gate_spec t rs)"
proof -
  obtain vs where v: "validate_stage_results t rs = Inr vs" using validate_stage_results_iff [OF t] ok by blast
  note v' = validated_ok [OF t v]
  note cong = snapshot_cong [OF v'(1)]
  have bl: "blockers_of t vs = blockers_of t rs" by (auto simp: blockers_of_def cong)
  have ri: "result_index vs = Inr (dict_of sgr_stage_id id vs)" using v' by (simp add: result_index_iff)
  have dg: "distinct (gate_ids t)"
    using t by (simp add: gate_ids_def hard_gates_def task_wf_def distinct_map_filter)
  let ?f = "filter (\<lambda>g. g \<in> rejected rs) (gate_ids t)"
  let ?b = "\<Union>g \<in> set (gate_ids t) - completed rs. blockers_of t rs g"
  let ?p = "filter (\<lambda>g. g \<notin> completed rs \<and> blockers_of t rs g = {}) (gate_ids t)"
  have fold: "fold_result (gate_step t vs (dict_of sgr_stage_id id vs)) ([], {}, []) (hard_gates t) = Inr (?f, ?b, ?p)"
    using gate_fold [OF t v'(2) refl, of "hard_gates t"] gate_ids_known [of t] by (simp add: gate_ids_def cong bl)
  have f: "sort ?f = sorted_list_of_set (set (gate_ids t) \<inter> rejected rs)" "distinct ?f"
    "?f = [] \<longleftrightarrow> set (gate_ids t) \<inter> rejected rs = {}"
    using dg by (auto simp: sort_eq_sorted_list_of_set filter_empty_conv Int_def intro!: arg_cong [where f = sorted_list_of_set])
  have p: "sort ?p = sorted_list_of_set {g \<in> set (gate_ids t) - completed rs. blockers_of t rs g = {}}" "distinct ?p"
    "?p = [] \<longleftrightarrow> {g \<in> set (gate_ids t) - completed rs. blockers_of t rs g = {}} = {}"
    using dg by (auto simp: sort_eq_sorted_list_of_set filter_empty_conv intro!: arg_cong [where f = sorted_list_of_set])
  have b: "finite ?b" by simp
  show ?thesis
    using f p b
    by (auto simp: hard_gate_status_def v ri fold gate_spec_def gate_decision_def HardGateStatus_validate_def sorted_sort_id)
qed

lemma gate_spec_state:
  assumes t: "task_wf t" and ok: "results_ok t rs"
  shows "hgs_state (gate_spec t rs) = Gate_SUCCEEDED \<longleftrightarrow> set (gate_ids t) \<subseteq> promoted rs"
    and "hgs_state (gate_spec t rs) = Gate_FAILED \<longleftrightarrow>
      (\<exists>g \<in> set (gate_ids t). \<exists>a \<in> rejected rs. (a, g) \<in> (depends_rel (stage_index t))\<^sup>*)"
proof -
  have sub: "promoted rs \<subseteq> completed rs" by (auto simp: promoted_def completed_def)
  show "hgs_state (gate_spec t rs) = Gate_SUCCEEDED \<longleftrightarrow> set (gate_ids t) \<subseteq> promoted rs"
    unfolding gate_decision_facts(9) [OF _ _ _ gate_spec_def, simplified] using sub
    by (simp add: rejected_def) blast
  have closed: "a \<in> promoted rs" if "(a, g) \<in> (depends_rel (stage_index t))\<^sup>+" "g \<in> completed rs" for a g
  proof -
    obtain r where "r \<in> set rs" "sgr_stage_id r = g" using \<open>g \<in> completed rs\<close> by (auto simp: completed_def)
    then have "deps (stage_index t) g \<subseteq> promoted rs" using ok by (auto simp: results_ok_def)
    with ready_iff_promoted [OF t ok, of g] have "blockers_of t rs g = {}" by simp
    moreover from that have "a \<in> completed rs"
    proof (induction rule: converse_trancl_induct)
      case (base y)
      then show ?case using \<open>deps (stage_index t) g \<subseteq> promoted rs\<close> sub by (auto simp: depends_rel_deps)
    next
      case (step y z)
      then show ?case using ok sub by (auto simp: depends_rel_deps results_ok_def completed_def)
    qed
    ultimately show ?thesis using that by (auto simp: blockers_of_def rejected_def)
  qed
  show "hgs_state (gate_spec t rs) = Gate_FAILED \<longleftrightarrow>
      (\<exists>g \<in> set (gate_ids t). \<exists>a \<in> rejected rs. (a, g) \<in> (depends_rel (stage_index t))\<^sup>*)"
  proof -
    have "hgs_state (gate_spec t rs) = Gate_FAILED \<longleftrightarrow>
        (\<exists>g \<in> set (gate_ids t). g \<in> rejected rs \<or> g \<notin> completed rs \<and> blockers_of t rs g \<noteq> {})"
      unfolding gate_decision_facts(8) [OF _ _ _ gate_spec_def, simplified] by blast
    also have "\<dots> \<longleftrightarrow> (\<exists>g \<in> set (gate_ids t). \<exists>a \<in> rejected rs. (a, g) \<in> (depends_rel (stage_index t))\<^sup>*)"
    proof (intro bex_cong refl)
      fix g assume "g \<in> set (gate_ids t)"
      show "(g \<in> rejected rs \<or> g \<notin> completed rs \<and> blockers_of t rs g \<noteq> {}) \<longleftrightarrow>
          (\<exists>a \<in> rejected rs. (a, g) \<in> (depends_rel (stage_index t))\<^sup>*)"
        using closed [of _ g] by (auto simp: blockers_of_def rtrancl_eq_or_trancl rejected_def)
    qed
    finally show ?thesis .
  qed
qed

subsection \<open>The scorer\<close>

definition producer_ids :: "TaskSpec \<Rightarrow> Identifier set" where
  "producer_ids t = msp_producer_stage_id ` set (tsk_measurements t)"

lemma producer_fold:
  assumes t: "task_wf t" and ok: "results_ok t rs" and ps: "set ps \<subseteq> set (dict_keys (stage_index t)) - completed rs"
  shows "fold_result (producer_step t rs) (b, w) ps =
     Inr (b \<union> (\<Union>p \<in> set ps. blockers_of t rs p), w \<union> {p \<in> set ps. blockers_of t rs p = {}})"
  using ps
proof (induction ps arbitrary: b w)
  case (Cons p ps)
  have "producer_step t rs (b, w) p =
     Inr (b \<union> blockers_of t rs p, if blockers_of t rs p = {} then insert p w else w)"
    using Cons.prems stage_eligibility_spec [OF t ok, of p] by (simp add: producer_step_def eligibility_spec_def)
  then show ?case using Cons by (auto simp: Un_assoc)
qed simp

text \<open>The whole decision: which stages block, which are awaited, and the state that follows.\<close>

definition scorer_spec :: "TaskSpec \<Rightarrow> StageResult list \<Rightarrow> ScorerEligibility" where
  "scorer_spec t rs =
     (let gates = gate_spec t rs;
          missing = producer_ids t - completed rs;
          blocked = (if producer_ids t \<inter> rejected rs \<noteq> {} then producer_ids t \<inter> rejected rs
                     else \<Union>p \<in> missing. blockers_of t rs p)
      in if hgs_state gates = Gate_FAILED
         then \<lparr>sel_state = Scorer_BLOCKED, sel_blocking_stage_ids = sorted_list_of_set
                 (set (hgs_failed_gate_ids gates) \<union> set (hgs_blocking_stage_ids gates)),
               sel_waiting_stage_ids = []\<rparr>
         else if hgs_state gates = Gate_PENDING
         then \<lparr>sel_state = Scorer_WAITING, sel_blocking_stage_ids = [],
               sel_waiting_stage_ids = hgs_pending_gate_ids gates\<rparr>
         else if tsk_measurements t = []
         then \<lparr>sel_state = Scorer_NOT_CONFIGURED, sel_blocking_stage_ids = [], sel_waiting_stage_ids = []\<rparr>
         else if blocked \<noteq> {}
         then \<lparr>sel_state = Scorer_BLOCKED, sel_blocking_stage_ids = sorted_list_of_set blocked,
               sel_waiting_stage_ids = []\<rparr>
         else if missing \<noteq> {}
         then \<lparr>sel_state = Scorer_WAITING, sel_blocking_stage_ids = [],
               sel_waiting_stage_ids = sorted_list_of_set missing\<rparr>
         else \<lparr>sel_state = Scorer_READY, sel_blocking_stage_ids = [], sel_waiting_stage_ids = []\<rparr>)"

lemma scorer_decision_simps:
  "finite B \<Longrightarrow> B \<noteq> {} \<Longrightarrow> scorer_decision Scorer_BLOCKED (sorted_list_of_set B) [] =
     Inr \<lparr>sel_state = Scorer_BLOCKED, sel_blocking_stage_ids = sorted_list_of_set B, sel_waiting_stage_ids = []\<rparr>"
  "sorted ws \<Longrightarrow> distinct ws \<Longrightarrow> ws \<noteq> [] \<Longrightarrow> scorer_decision Scorer_WAITING [] ws =
     Inr \<lparr>sel_state = Scorer_WAITING, sel_blocking_stage_ids = [], sel_waiting_stage_ids = ws\<rparr>"
  "k \<noteq> Scorer_BLOCKED \<Longrightarrow> k \<noteq> Scorer_WAITING \<Longrightarrow> scorer_decision k [] [] =
     Inr \<lparr>sel_state = k, sel_blocking_stage_ids = [], sel_waiting_stage_ids = []\<rparr>"
  by (simp_all add: scorer_decision_def ScorerEligibility_validate_def sorted_sort_id)

lemma gate_spec_cong:
  assumes "set vs = set rs"
  shows "gate_spec t vs = gate_spec t rs"
  unfolding gate_spec_def blockers_of_def snapshot_cong [OF assms] ..

lemma scorer_eligibility_spec:
  assumes t: "task_wf t" and ok: "results_ok t rs"
  shows "scorer_eligibility t rs = Inr (scorer_spec t rs)"
proof -
  obtain vs where v: "validate_stage_results t rs = Inr vs" using validate_stage_results_iff [OF t] ok by blast
  note v' = validated_ok [OF t v]
  note cong = snapshot_cong [OF v'(1)]
  have bl: "blockers_of t vs = blockers_of t rs" by (auto simp: blockers_of_def cong)
  have ri: "result_index vs = Inr (dict_of sgr_stage_id id vs)" using v' by (simp add: result_index_iff)
  have gs: "hard_gate_status t vs = Inr (gate_spec t rs)"
    using hard_gate_status_spec [OF t v'(2)] gate_spec_cong [OF v'(1)] by simp
  have pk: "producer_ids t \<subseteq> set (dict_keys (stage_index t))" using t by (auto simp: task_wf_def producer_ids_def)
  have fin: "finite (producer_ids t)" by (simp add: producer_ids_def)
  have np: "{s \<in> producer_ids t. case dict_get (dict_of sgr_stage_id id vs) s of None \<Rightarrow> False
       | Some r \<Rightarrow> \<not> outcome_promotes (sgr_outcome r)} = producer_ids t \<inter> rejected rs"
    by (auto simp flip: rejected_iff [OF v'(4)] cong(3))
  have fold: "fold_result (producer_step t vs) ({}, {}) (sorted_list_of_set (producer_ids t - completed rs))
      = Inr (\<Union>p \<in> producer_ids t - completed rs. blockers_of t rs p,
             {p \<in> producer_ids t - completed rs. blockers_of t rs p = {}})"
    using producer_fold [OF t v'(2), of "sorted_list_of_set (producer_ids t - completed rs)"] pk fin
    by (simp add: cong bl Diff_mono)
  note facts = gate_decision_facts [OF _ _ _ gate_spec_def [of t rs], simplified]
  have ne: "set (hgs_failed_gate_ids (gate_spec t rs)) \<union> set (hgs_blocking_stage_ids (gate_spec t rs)) \<noteq> {}"
    if "hgs_state (gate_spec t rs) = Gate_FAILED" using that unfolding facts by blast
  have ne2: "hgs_pending_gate_ids (gate_spec t rs) \<noteq> []" if "hgs_state (gate_spec t rs) = Gate_PENDING"
    using that unfolding set_empty [symmetric] facts by blast
  let ?P = "producer_ids t" and ?M = "producer_ids t - completed rs"
  let ?B = "\<Union>p \<in> ?M. blockers_of t rs p"
  have wt: "{p \<in> ?M. blockers_of t rs p = {}} = ?M" if "?B = {}" using that by blast
  have mw: "scorer_decision Scorer_WAITING [] (sorted_list_of_set ?M) =
      Inr \<lparr>sel_state = Scorer_WAITING, sel_blocking_stage_ids = [], sel_waiting_stage_ids = sorted_list_of_set ?M\<rparr>"
    if "?M \<noteq> {}" using that fin by (intro scorer_decision_simps) auto
  have unf: "scorer_eligibility t rs =
      (if hgs_state (gate_spec t rs) = Gate_FAILED
       then scorer_decision Scorer_BLOCKED (sorted_list_of_set
         (set (hgs_failed_gate_ids (gate_spec t rs)) \<union> set (hgs_blocking_stage_ids (gate_spec t rs)))) []
       else if hgs_state (gate_spec t rs) = Gate_PENDING
       then scorer_decision Scorer_WAITING [] (hgs_pending_gate_ids (gate_spec t rs))
       else if tsk_measurements t = [] then scorer_decision Scorer_NOT_CONFIGURED [] []
       else if ?P \<inter> rejected rs \<noteq> {} then scorer_decision Scorer_BLOCKED (sorted_list_of_set (?P \<inter> rejected rs)) []
       else if ?B \<noteq> {} then scorer_decision Scorer_BLOCKED (sorted_list_of_set ?B) []
       else if {p \<in> ?M. blockers_of t rs p = {}} \<noteq> {}
       then scorer_decision Scorer_WAITING [] (sorted_list_of_set {p \<in> ?M. blockers_of t rs p = {}})
       else scorer_decision Scorer_READY [] [])"
    unfolding scorer_eligibility_def v ri gs bind_result_simps Let_def set_map
      producer_ids_def [symmetric] np result_keys cong fold prod.case ..
  consider (failed) "hgs_state (gate_spec t rs) = Gate_FAILED" | (pending) "hgs_state (gate_spec t rs) = Gate_PENDING"
    | (none) "hgs_state (gate_spec t rs) = Gate_SUCCEEDED" "tsk_measurements t = []"
    | (rejected) "hgs_state (gate_spec t rs) = Gate_SUCCEEDED" "tsk_measurements t \<noteq> []" "?P \<inter> rejected rs \<noteq> {}"
    | (rest) "hgs_state (gate_spec t rs) = Gate_SUCCEEDED" "tsk_measurements t \<noteq> []" "?P \<inter> rejected rs = {}"
    by (cases "hgs_state (gate_spec t rs)") blast+
  then show ?thesis
  proof cases
    case failed
    have "scorer_decision Scorer_BLOCKED (sorted_list_of_set
        (set (hgs_failed_gate_ids (gate_spec t rs)) \<union> set (hgs_blocking_stage_ids (gate_spec t rs)))) []
      = Inr \<lparr>sel_state = Scorer_BLOCKED, sel_blocking_stage_ids = sorted_list_of_set
        (set (hgs_failed_gate_ids (gate_spec t rs)) \<union> set (hgs_blocking_stage_ids (gate_spec t rs))),
        sel_waiting_stage_ids = []\<rparr>"
      by (intro scorer_decision_simps(1) ne [OF failed]) simp
    then show ?thesis unfolding unf scorer_spec_def Let_def using failed by (simp only: if_True refl)
  next
    case pending
    then show ?thesis unfolding unf scorer_spec_def Let_def
      by (simp add: scorer_decision_simps(2) [OF facts(3,4) ne2 [OF pending]])
  next
    case none
    then show ?thesis unfolding unf scorer_spec_def Let_def by (simp add: scorer_decision_simps)
  next
    case rejected
    then show ?thesis unfolding unf scorer_spec_def Let_def by (simp add: scorer_decision_simps fin)
  next
    case rest
    then show ?thesis
    proof (cases "?B = {}")
      case True
      show ?thesis unfolding unf scorer_spec_def Let_def wt [OF True] True using rest mw
        by (cases "?M = {}") (simp_all add: scorer_decision_simps)
    next
      case False
      then show ?thesis unfolding unf scorer_spec_def Let_def using rest fin
        by (simp add: scorer_decision_simps)
    qed
  qed
qed

lemma scorer_spec_ready:
  assumes t: "task_wf t" and ok: "results_ok t rs"
  shows "sel_state (scorer_spec t rs) = Scorer_READY \<longleftrightarrow>
     tsk_measurements t \<noteq> [] \<and> set (gate_ids t) \<union> producer_ids t \<subseteq> promoted rs"
proof -
  have sub: "promoted rs \<subseteq> completed rs" by (auto simp: promoted_def completed_def)
  have "sel_state (scorer_spec t rs) = Scorer_READY \<longleftrightarrow>
      hgs_state (gate_spec t rs) = Gate_SUCCEEDED \<and> tsk_measurements t \<noteq> []
      \<and> producer_ids t \<inter> rejected rs = {} \<and> producer_ids t \<subseteq> completed rs"
    by (cases "hgs_state (gate_spec t rs)") (simp_all add: scorer_spec_def Let_def, blast)
  also have "\<dots> \<longleftrightarrow> tsk_measurements t \<noteq> [] \<and> set (gate_ids t) \<union> producer_ids t \<subseteq> promoted rs"
    unfolding gate_spec_state(1) [OF t ok] using sub by (auto simp: rejected_def)
  finally show ?thesis .
qed

subsection \<open>Progress, stability and extension\<close>

lemma pending_ready:
  assumes t: "task_wf t" and ok: "results_ok t rs"
    and g: "g \<in> set (dict_keys (stage_index t))" "g \<notin> completed rs" "blockers_of t rs g = {}"
  shows "\<exists>s \<in> set (dict_keys (stage_index t)). s \<notin> completed rs \<and> deps (stage_index t) s \<subseteq> promoted rs
     \<and> (s, g) \<in> (depends_rel (stage_index t))\<^sup>*"
proof -
  let ?R = "depends_rel (stage_index t)"
  have wf: "graph_wf (stage_index t)" and "wf ?R"
    using t finite_acyclic_wf [OF finite_depends_rel, of "stage_index t"] by (auto simp: task_wf_def)
  then obtain s where s: "s \<in> {s. (s, g) \<in> ?R\<^sup>* \<and> s \<notin> completed rs}"
    and mn: "\<And>y. (y, s) \<in> ?R \<Longrightarrow> y \<notin> {s. (s, g) \<in> ?R\<^sup>* \<and> s \<notin> completed rs}"
    using wfE_min [of ?R g "{s. (s, g) \<in> ?R\<^sup>* \<and> s \<notin> completed rs}"] g(2) by auto
  have "d \<in> promoted rs" if "d \<in> deps (stage_index t) s" for d
  proof -
    have ds: "(d, s) \<in> ?R" using that by (simp add: depends_rel_deps)
    then have dg: "(d, g) \<in> ?R\<^sup>+" using s by auto
    then have "d \<in> completed rs" using mn [OF ds] trancl_into_rtrancl [OF dg] by blast
    then show ?thesis using dg g(3) by (auto simp: blockers_of_def rejected_def)
  qed
  moreover have "s \<in> set (dict_keys (stage_index t))"
  proof -
    from s have "(s, g) \<in> ?R\<^sup>*" by simp
    then show ?thesis
    proof (cases rule: converse_rtranclE)
      case (step y)
      then show ?thesis using graph_wf_deps [OF wf, of y] by (auto simp: depends_rel_deps)
    qed (use g(1) in simp)
  qed
  ultimately show ?thesis using s by auto
qed

lemma completed_deps:
  assumes "results_ok t rs" "s \<in> completed rs"
  shows "deps (stage_index t) s \<subseteq> promoted rs"
  using assms by (auto simp: results_ok_def completed_def)

lemma extension_ok:
  assumes ok: "results_ok t rs" and r: "sgr_stage_id r \<in> set (dict_keys (stage_index t))"
    "sgr_stage_id r \<notin> completed rs" "deps (stage_index t) (sgr_stage_id r) \<subseteq> promoted rs" "evidence_ok t r"
  shows "results_ok t (rs @ [r])"
proof -
  have "promoted rs \<subseteq> promoted (rs @ [r])" by (auto simp: promoted_def)
  moreover have "distinct (map sgr_stage_id (rs @ [r]))"
    using ok r(2) by (auto simp: results_ok_def completed_def)
  ultimately show ?thesis using ok r by (auto simp: results_ok_def)
qed

lemma snapshot_mono:
  assumes "set rs \<subseteq> set rs'" "distinct (map sgr_stage_id rs')"
  shows "promoted rs \<subseteq> promoted rs'" "rejected rs \<subseteq> rejected rs'"
proof -
  show "promoted rs \<subseteq> promoted rs'" using assms by (auto simp: promoted_def)
  show "rejected rs \<subseteq> rejected rs'"
  proof
    fix s assume "s \<in> rejected rs"
    then obtain r where r: "r \<in> set rs" "sgr_stage_id r = s" "\<not> outcome_promotes (sgr_outcome r)"
      by (auto simp: rejected_def completed_def promoted_def)
    then have "s \<notin> promoted rs'" using assms(1) result_get_promotes [OF assms(2), of r] by auto
    then show "s \<in> rejected rs'" using r assms(1) by (auto simp: rejected_def completed_def)
  qed
qed

end
