(* ===== verification/Scoring.thy ===== *)
theory Scoring
  imports PromotionFacts
begin

section \<open>Measurement aggregation and scores\<close>

text \<open>
  Models \<open>src/edagym/evaluation/scoring.py\<close>. \<open>Fraction\<close> and the values of \<open>Decimal\<close> are rationals.
  \<open>_rounded_fraction\<close> divides two decimals in a context with a given precision and
  \<open>ROUND_HALF_EVEN\<close>; by the decimal standard the result is the exact quotient rounded to that many
  significant digits, which is what \<open>rounded_fraction\<close> computes. The exponent limits of the default
  context (a million decimal digits) are not modelled. The JSON encoder and SHA-256 of the seed
  schedule are parameters.
\<close>

subsection \<open>Rounding\<close>

text \<open>The number of decimal digits of a natural number; zero has none.\<close>

fun digit_count :: "nat \<Rightarrow> nat" where
  "digit_count n = (if n = 0 then 0 else Suc (digit_count (n div 10)))"

declare digit_count.simps [simp del]

text \<open>The exponent of the leading digit: \<open>10 ^ e \<le> \<bar>x\<bar> < 10 ^ (e + 1)\<close>.\<close>

definition leading_exponent :: "rat \<Rightarrow> int" where
  "leading_exponent x =
     (let (n, d) = quotient_of x;
          e = int (digit_count (nat \<bar>n\<bar>)) - int (digit_count (nat d))
      in if pow10 e \<le> \<bar>x\<bar> then e else e - 1)"

definition half_even :: "rat \<Rightarrow> int" where
  "half_even y =
     (let f = \<lfloor>y\<rfloor>; r = y - of_int f
      in if r < 1 / 2 then f else if 1 / 2 < r then f + 1 else if even f then f else f + 1)"

definition rounded_fraction :: "rat \<Rightarrow> int \<Rightarrow> CanonicalDecimal" where
  "rounded_fraction x precision_digits =
     (if x = 0 then 0
      else let e = leading_exponent x - (precision_digits - 1)
           in of_int (half_even (x / pow10 e)) * pow10 e)"

subsection \<open>The sample schedule\<close>

definition sample_seed :: "(json \<Rightarrow> string) \<Rightarrow> (string \<Rightarrow> string) \<Rightarrow> Seed128Hex \<Rightarrow> Identifier \<Rightarrow> nat
    \<Rightarrow> canonical_error + Seed128Hex" where
  "sample_seed dumps sha256_hex task_seed measurement_id sample_index =
     bind_result
       (canonical_digest dumps sha256_hex
         (PyMapping [(PyStr ''measurement_id'', PyStr measurement_id),
                     (PyStr ''sample_index'', PyInt (int sample_index)),
                     (PyStr ''task_seed'', PyStr task_seed)])
         ''measurement-sample-seed-v1'')
       (\<lambda>digest. Inr (take 32 (drop 7 digest)))"

datatype seed_error = Seed_canonical canonical_error | Seed_value evaluation_error

definition measurement_sample_seeds :: "(json \<Rightarrow> string) \<Rightarrow> (string \<Rightarrow> string) \<Rightarrow> Seed128Hex
    \<Rightarrow> Identifier \<Rightarrow> int \<Rightarrow> seed_error + Seed128Hex list" where
  "measurement_sample_seeds dumps sha256_hex task_seed measurement_id repetitions =
     (if repetitions < 1 then Inl (Seed_value Repetitions_not_positive)
      else case map_result (sample_seed dumps sha256_hex task_seed measurement_id) [0..<nat repetitions] of
        Inl e \<Rightarrow> Inl (Seed_canonical e)
      | Inr seeds \<Rightarrow> if \<not> distinct seeds then Inl (Seed_value Seed_collision) else Inr seeds)"

subsection \<open>Aggregation\<close>

text \<open>Python's \<open>max\<close> with a key returns the first element with the greatest key.\<close>

definition max_by :: "('a \<Rightarrow> 'k::linorder) \<Rightarrow> 'a \<Rightarrow> 'a list \<Rightarrow> 'a" where
  "max_by k = foldl (\<lambda>best x. if k best < k x then x else best)"

text \<open>The key of the worst target sample, a pair compared lexicographically.\<close>

definition target_key :: "rat \<Rightarrow> rat \<Rightarrow> rat list" where
  "target_key target value = [\<bar>value - target\<bar>, value]"

definition aggregate_samples :: "MeasurementSpec \<Rightarrow> CanonicalDecimal list \<Rightarrow> evaluation_error + CanonicalDecimal" where
  "aggregate_samples specification samples =
     (if int (length samples) \<noteq> msp_repetitions specification then Inl Sample_count
      else if samples = [] then Inl No_samples
      else
        let ordered = sort samples in
        case msp_aggregation specification of
          MINIMUM \<Rightarrow> Inr (hd ordered)
        | MAXIMUM \<Rightarrow> Inr (last ordered)
        | MEAN \<Rightarrow> Inr (rounded_fraction (sum_list ordered / of_nat (length ordered))
                     (msp_aggregation_precision_digits specification))
        | MEDIAN \<Rightarrow>
            (let midpoint = length ordered div 2 in
             if odd (length ordered) then Inr (ordered ! midpoint)
             else Inr (rounded_fraction ((ordered ! (midpoint - 1) + ordered ! midpoint) / 2)
                    (msp_aggregation_precision_digits specification)))
        | WORST \<Rightarrow>
            (case msp_direction specification of
               MINIMIZE \<Rightarrow> Inr (last ordered)
             | MAXIMIZE \<Rightarrow> Inr (hd ordered)
             | TARGET \<Rightarrow>
                 (case msp_target specification of
                    None \<Rightarrow> Inl No_target
                  | Some target \<Rightarrow> Inr (max_by (target_key target) (hd ordered) (tl ordered)))
             | Metric_NONE \<Rightarrow> Inl Worst_needs_direction))"

definition aggregate_one :: "(Identifier, MeasurementEvidence) dict \<Rightarrow> MeasurementSpec
    \<Rightarrow> evaluation_error + AggregatedMeasurement" where
  "aggregate_one evidence specification =
     bind_result (lookup evidence (msp_measurement_id specification)) (\<lambda>item.
     bind_result (aggregate_samples specification (mev_samples item)) (\<lambda>value.
       Inr \<lparr>agm_measurement_id = msp_measurement_id specification, agm_value = value\<rparr>))"

definition evidence_index :: "StageResult list \<Rightarrow> (Identifier, MeasurementEvidence) dict" where
  "evidence_index results = dict_of mev_measurement_id id (concat (map sgr_measurements results))"

definition aggregate_measurements :: "TaskSpec \<Rightarrow> StageResult list \<Rightarrow> evaluation_error + AggregatedMeasurement list" where
  "aggregate_measurements t results =
     bind_result (scorer_eligibility t results) (\<lambda>eligibility.
       if sel_state eligibility \<noteq> Scorer_READY then Inl Not_scoring_ready
       else bind_result (validate_stage_results t results) (\<lambda>validated.
              map_result (aggregate_one (evidence_index validated)) (tsk_measurements t)))"

subsection \<open>Scores\<close>

definition weighted_sum :: "(Identifier, rat) dict \<Rightarrow> ScorerRef \<Rightarrow> evaluation_error + rat" where
  "weighted_sum values scorer =
     fold_result (\<lambda>total term.
       bind_result (lookup values (trm_measurement_id term)) (\<lambda>value.
         Inr (total + trm_coefficient term * value))) (scr_intercept scorer) (scr_terms scorer)"

definition build_score_from_aggregates :: "task_digests \<Rightarrow> TaskSpec \<Rightarrow> AggregatedMeasurement list
    \<Rightarrow> evaluation_error + CandidateScore" where
  "build_score_from_aggregates dg t measurements =
     (let expected_ids = map msp_measurement_id (tsk_measurements t);
          actual_ids = map agm_measurement_id measurements
      in if actual_ids \<noteq> expected_ids \<or> measurements = [] then Inl Vector_mismatch
         else case grf_scorer (tsk_evaluation t) of
           None \<Rightarrow> ParetoVectorScore_new measurements
         | Some scorer \<Rightarrow>
             bind_result (weighted_sum (dict_of agm_measurement_id agm_value measurements) scorer) (\<lambda>total.
               ScalarScore_new measurements (rounded_fraction total (scr_precision_digits scorer))
                 (scr_direction scorer) (dg_scorer_revision dg scorer)))"

definition build_candidate_score :: "task_digests \<Rightarrow> TaskSpec \<Rightarrow> StageResult list \<Rightarrow> evaluation_error + CandidateScore" where
  "build_candidate_score dg t results =
     bind_result (aggregate_measurements t results) (build_score_from_aggregates dg t)"

subsection \<open>Pareto dominance\<close>

definition objective_value :: "MeasurementSpec \<Rightarrow> CanonicalDecimal \<Rightarrow> evaluation_error + rat" where
  "objective_value specification value =
     (case msp_direction specification of
        MINIMIZE \<Rightarrow> Inr (- value)
      | MAXIMIZE \<Rightarrow> Inr value
      | TARGET \<Rightarrow> (case msp_target specification of None \<Rightarrow> Inl No_target
                   | Some target \<Rightarrow> Inr (- \<bar>value - target\<bar>))
      | Metric_NONE \<Rightarrow> Inl Not_an_objective)"

definition objective_comparison :: "MeasurementSpec \<Rightarrow> CanonicalDecimal \<Rightarrow> CanonicalDecimal \<Rightarrow> evaluation_error + int" where
  "objective_comparison specification left right =
     bind_result (objective_value specification left) (\<lambda>l.
     bind_result (objective_value specification right) (\<lambda>r.
       Inr (of_bool (r < l) - of_bool (l < r))))"

definition score_values :: "ParetoVectorScore \<Rightarrow> (Identifier, CanonicalDecimal) dict" where
  "score_values score = dict_of agm_measurement_id agm_value (pvs_measurements score)"

text \<open>
  The comparison loop with its early \<open>return False\<close>; the state is \<open>has_objective\<close> and
  \<open>strictly_better\<close>.
\<close>

fun dominance_loop :: "(Identifier, MeasurementSpec) dict \<Rightarrow> (Identifier, CanonicalDecimal) dict
    \<Rightarrow> (Identifier, CanonicalDecimal) dict \<Rightarrow> bool \<Rightarrow> bool \<Rightarrow> Identifier list \<Rightarrow> evaluation_error + bool" where
  "dominance_loop specifications left right has_objective strictly_better [] =
     Inr (has_objective \<and> strictly_better)"
| "dominance_loop specifications left right has_objective strictly_better (i # is) =
     bind_result (lookup specifications i) (\<lambda>specification.
       if msp_direction specification = Metric_NONE
       then dominance_loop specifications left right has_objective strictly_better is
       else
         bind_result (lookup left i) (\<lambda>l.
         bind_result (lookup right i) (\<lambda>r.
         bind_result (objective_comparison specification l r) (\<lambda>comparison.
           if comparison < 0 then Inr False
           else dominance_loop specifications left right True (strictly_better \<or> 0 < comparison) is))))"

definition pareto_dominates :: "TaskSpec \<Rightarrow> ParetoVectorScore \<Rightarrow> ParetoVectorScore \<Rightarrow> evaluation_error + bool" where
  "pareto_dominates t left right =
     (let specifications = measurement_index t;
          expected = sort (dict_keys specifications);
          left_values = score_values left;
          right_values = score_values right
      in if sort (dict_keys left_values) \<noteq> expected \<or> sort (dict_keys right_values) \<noteq> expected
         then Inl Pareto_mismatch
         else dominance_loop specifications left_values right_values False False expected)"

end
