(* ===== verification/ScoringFacts.thy ===== *)
theory ScoringFacts
  imports Scoring
begin

section \<open>Scoring: specifications and proofs\<close>

text \<open>
  Rounding is correct to the last digit (\<open>representable\<close>, nearest, half a unit of error);
  aggregation is total on validated specifications and insensitive to order; a ready snapshot
  always yields a score whose value is \<open>scalar_value\<close>; dominance is the relation \<open>dominates\<close>.
\<close>

subsection \<open>Powers of ten and the leading digit\<close>

lemma pow10_power_int: "pow10 e = power_int 10 e"
  by (simp add: pow10_def power_int_def field_simps)

lemma pow10_add: "pow10 (a + b) = pow10 a * pow10 b"
  by (simp add: pow10_power_int power_int_add)

lemma pow10_mono: "a \<le> b \<Longrightarrow> pow10 a \<le> pow10 b"
  by (simp add: pow10_power_int power_int_increasing)

lemma pow10_not_neg [simp]: "0 \<le> pow10 e" "\<not> pow10 e \<le> 0"
  by (simp_all add: less_imp_le not_le)

lemma abs_pow10 [simp]: "\<bar>pow10 e\<bar> = pow10 e"
  by (simp add: less_imp_le)

lemma pow10_of_nat: "pow10 (int n) = 10 ^ n"
  by (simp add: pow10_def)

lemma pow10_of_int_nonneg: "0 \<le> e \<Longrightarrow> \<exists>k::int. pow10 e = of_int k"
  by (intro exI [of _ "10 ^ nat e"]) (simp add: pow10_def)

lemma digit_count_bounds: "0 < n \<Longrightarrow> 0 < digit_count n \<and> 10 ^ (digit_count n - 1) \<le> n \<and> n < 10 ^ digit_count n"
proof (induction n rule: digit_count.induct)
  case (1 n)
  have dc: "digit_count n = Suc (digit_count (n div 10))" using 1(2) by (subst digit_count.simps) simp
  show ?case
  proof (cases "n div 10 = 0")
    case True
    then have "digit_count (n div 10) = 0" by (simp add: digit_count.simps)
    with True 1(2) dc show ?thesis by (simp add: div_eq_0_iff)
  next
    case False
    with 1 have ih: "0 < digit_count (n div 10)" "10 ^ (digit_count (n div 10) - 1) \<le> n div 10"
      "n div 10 < 10 ^ digit_count (n div 10)" by auto
    obtain k where k: "digit_count (n div 10) = Suc k" using ih(1) by (cases "digit_count (n div 10)") auto
    from ih k have "10 ^ k \<le> n div 10" "n div 10 < 10 * 10 ^ k" by auto
    then have "10 * 10 ^ k \<le> n" "n < 10 * (10 * 10 ^ k)" by linarith+
    then show ?thesis using dc k by simp
  qed
qed

lemma leading_exponent_bounds:
  assumes "x \<noteq> 0"
  shows "pow10 (leading_exponent x) \<le> \<bar>x\<bar>" "\<bar>x\<bar> < pow10 (leading_exponent x + 1)"
proof -
  obtain n d where q: "quotient_of x = (n, d)" by (cases "quotient_of x")
  have d: "0 < d" using quotient_of_denom_pos [OF q] .
  have x: "x = of_int n / of_int d" using quotient_of_div [OF q] .
  have n: "n \<noteq> 0" using x assms by auto
  define a where "a = digit_count (nat \<bar>n\<bar>)"
  define b where "b = digit_count (nat d)"
  define e where "e = int a - int b"
  have A: "0 < a" "10 ^ (a - 1) \<le> nat \<bar>n\<bar>" "nat \<bar>n\<bar> < 10 ^ a"
    using digit_count_bounds [of "nat \<bar>n\<bar>"] n by (auto simp: a_def)
  have B: "0 < b" "10 ^ (b - 1) \<le> nat d" "nat d < 10 ^ b"
    using digit_count_bounds [of "nat d"] d by (auto simp: b_def)
  have A': "pow10 (int a - 1) \<le> \<bar>of_int n\<bar>" "\<bar>of_int n\<bar> < pow10 (int a)"
  proof -
    have "(of_nat (10 ^ (a - 1)) :: rat) \<le> of_nat (nat \<bar>n\<bar>)" using A(2) by (simp only: of_nat_le_iff)
    moreover have "int a - 1 = int (a - 1)" using A(1) by simp
    ultimately show "pow10 (int a - 1) \<le> \<bar>of_int n\<bar>" by (simp only: pow10_of_nat) simp
    have "(of_nat (nat \<bar>n\<bar>) :: rat) < of_nat (10 ^ a)" using A(3) by (simp only: of_nat_less_iff)
    then show "\<bar>of_int n\<bar> < pow10 (int a)" by (simp only: pow10_of_nat) simp
  qed
  have B': "pow10 (int b - 1) \<le> of_int d" "of_int d < pow10 (int b)"
  proof -
    have "(of_nat (10 ^ (b - 1)) :: rat) \<le> of_nat (nat d)" using B(2) by (simp only: of_nat_le_iff)
    moreover have "int b - 1 = int (b - 1)" using B(1) by simp
    ultimately show "pow10 (int b - 1) \<le> of_int d" using d by (simp only: pow10_of_nat) simp
    have "(of_nat (nat d) :: rat) < of_nat (10 ^ b)" using B(3) by (simp only: of_nat_less_iff)
    then show "of_int d < pow10 (int b)" using d by (simp only: pow10_of_nat) simp
  qed
  have dpos: "(0::rat) < of_int d" using d by simp
  have ax: "\<bar>x\<bar> * of_int d = \<bar>of_int n\<bar>" using x d by (simp add: abs_divide)
  have lo: "pow10 (e - 1) \<le> \<bar>x\<bar>"
  proof -
    have "pow10 (e - 1) * of_int d \<le> pow10 (e - 1) * pow10 (int b)"
      using B'(2) by (intro mult_left_mono) (simp_all add: less_imp_le)
    also have "\<dots> = pow10 (int a - 1)" by (simp add: pow10_add [symmetric] e_def)
    also have "\<dots> \<le> \<bar>x\<bar> * of_int d" using A'(1) ax by simp
    finally show ?thesis using dpos by (simp only: mult_le_cancel_right_pos)
  qed
  have hi: "\<bar>x\<bar> < pow10 (e + 1)"
  proof -
    have "\<bar>x\<bar> * of_int d < pow10 (int a)" using A'(2) ax by simp
    also have "\<dots> = pow10 (e + 1) * pow10 (int b - 1)" by (simp add: pow10_add [symmetric] e_def)
    also have "\<dots> \<le> pow10 (e + 1) * of_int d" using B'(1) by (intro mult_left_mono) (simp_all add: less_imp_le)
    finally show ?thesis using dpos by (simp only: mult_less_cancel_right_pos)
  qed
  have "leading_exponent x = (if pow10 e \<le> \<bar>x\<bar> then e else e - 1)"
    by (simp add: leading_exponent_def q a_def b_def e_def)
  then show "pow10 (leading_exponent x) \<le> \<bar>x\<bar>" "\<bar>x\<bar> < pow10 (leading_exponent x + 1)"
    using lo hi by auto
qed

subsection \<open>Rounding to the nearest\<close>

lemma nearest_of_two:
  fixes F y K H :: rat
  assumes "F \<le> y" "y < F + 1" "K \<le> F \<or> F + 1 \<le> K"
    and "H = F \<and> y - F \<le> 1 / 2 \<or> H = F + 1 \<and> 1 / 2 \<le> y - F"
  shows "\<bar>H - y\<bar> \<le> \<bar>K - y\<bar>"
  using assms by (auto simp: abs_if)

lemma bounded_of_nearest:
  fixes Y H T :: rat
  assumes "\<bar>Y\<bar> < T" "\<bar>H - Y\<bar> \<le> \<bar>(if 0 \<le> Y then T else - T) - Y\<bar>"
  shows "\<bar>H\<bar> \<le> T"
  using assms by (auto simp: abs_if split: if_splits)

lemma half_even_nearest: "\<bar>of_int (half_even y) - y\<bar> \<le> \<bar>of_int k - y\<bar>"
proof -
  define f where "f = \<lfloor>y\<rfloor>"
  have f: "of_int f \<le> y" "y < of_int f + 1"
    using floor_correct [of y] by (simp_all add: f_def)
  have "k \<le> f \<or> f + 1 \<le> k" by linarith
  then have k: "(of_int k :: rat) \<le> of_int f \<or> of_int f + 1 \<le> (of_int k :: rat)"
    by (metis of_int_1 of_int_add of_int_le_iff)
  have he: "of_int (half_even y) = (of_int f :: rat) \<and> y - of_int f \<le> 1 / 2
      \<or> of_int (half_even y) = (of_int f :: rat) + 1 \<and> 1 / 2 \<le> y - of_int f"
    by (auto simp: half_even_def Let_def f_def [symmetric])
  from f k he show ?thesis by (rule nearest_of_two)
qed

lemma half_even_error: "\<bar>of_int (half_even y) - y\<bar> \<le> 1 / 2"
proof -
  define f where "f = \<lfloor>y\<rfloor>"
  have "of_int f \<le> y" "y < of_int f + 1"
    using floor_correct [of y] by (simp_all add: f_def)
  then show ?thesis by (auto simp: half_even_def Let_def f_def [symmetric] abs_if)
qed

lemma half_even_of_int [simp]: "half_even (of_int k) = k"
  by (simp add: half_even_def Let_def)

text \<open>The decimals with at most \<open>p\<close> significant digits.\<close>

definition representable :: "nat \<Rightarrow> rat \<Rightarrow> bool" where
  "representable p z \<longleftrightarrow> (\<exists>c e. z = of_int c * pow10 e \<and> \<bar>c\<bar> < 10 ^ p)"

lemma scaled_nearest:
  assumes "0 \<le> j"
  shows "\<bar>of_int (half_even (x / pow10 e)) * pow10 e - x\<bar> \<le> \<bar>of_int c * pow10 (e + j) - x\<bar>"
proof -
  obtain k where k: "pow10 j = of_int k" using pow10_of_int_nonneg [OF assms] by blast
  have s: "\<bar>of_int z * pow10 e - x\<bar> = \<bar>of_int z - x / pow10 e\<bar> * pow10 e" for z
  proof -
    have "of_int z * pow10 e - x = (of_int z - x / pow10 e) * pow10 e" by (simp add: left_diff_distrib)
    then show ?thesis by (simp add: abs_mult)
  qed
  have "of_int c * pow10 (e + j) = of_int (c * k) * pow10 e" by (simp add: pow10_add k)
  then have "\<bar>of_int c * pow10 (e + j) - x\<bar> = \<bar>of_int (c * k) - x / pow10 e\<bar> * pow10 e" by (simp only: s)
  moreover have "\<bar>of_int (half_even (x / pow10 e)) - x / pow10 e\<bar> * pow10 e \<le> \<bar>of_int (c * k) - x / pow10 e\<bar> * pow10 e"
    by (intro mult_right_mono half_even_nearest) (simp add: less_imp_le)
  ultimately show ?thesis using s by simp
qed

lemma rounded_fraction_nearest_aux:
  assumes x: "x \<noteq> 0" and p: "0 < p" and z: "representable p z"
  shows "\<bar>rounded_fraction x (int p) - x\<bar> \<le> \<bar>z - x\<bar>"
proof -
  define e where "e = leading_exponent x - (int p - 1)"
  have r: "rounded_fraction x (int p) = of_int (half_even (x / pow10 e)) * pow10 e"
    using x by (simp add: rounded_fraction_def Let_def e_def)
  obtain c f where c: "z = of_int c * pow10 f" "\<bar>c\<bar> < 10 ^ p" using z by (auto simp: representable_def)
  show ?thesis
  proof (cases "e \<le> f")
    case True
    then show ?thesis using scaled_nearest [of "f - e" x e c] r c by simp
  next
    case False
    have lead: "pow10 (e + int (p - 1)) \<le> \<bar>x\<bar>"
      using leading_exponent_bounds(1) [OF x] p by (simp add: e_def of_nat_diff)
    have "\<bar>(of_int c :: rat)\<bar> \<le> 10 ^ p"
      using c(2) by (metis less_imp_le of_int_abs of_int_le_iff of_int_numeral of_int_power)
    then have "\<bar>z\<bar> \<le> 10 ^ p * pow10 f" using c(1) by (simp add: abs_mult mult_right_mono less_imp_le)
    also have "\<dots> = pow10 (int p + f)" by (simp add: pow10_add pow10_of_nat)
    also have "\<dots> \<le> pow10 (e + int (p - 1))" using False p by (intro pow10_mono) (simp add: of_nat_diff)
    finally have zz: "\<bar>z\<bar> \<le> pow10 (e + int (p - 1))" .
    define s where "s = (if 0 < x then (1::int) else -1)"
    have "\<bar>of_int s * pow10 (e + int (p - 1)) - x\<bar> \<le> \<bar>z - x\<bar>"
      using lead zz by (auto simp: s_def abs_if split: if_splits)
    then show ?thesis using scaled_nearest [of "int (p - 1)" x e s] r by simp
  qed
qed

lemma rounded_fraction_error_aux:
  assumes x: "x \<noteq> 0" and p: "0 < p"
  shows "\<bar>rounded_fraction x (int p) - x\<bar> \<le> \<bar>x\<bar> * pow10 (1 - int p) / 2"
proof -
  define e where "e = leading_exponent x - (int p - 1)"
  have "\<bar>rounded_fraction x (int p) - x\<bar> = \<bar>of_int (half_even (x / pow10 e)) - x / pow10 e\<bar> * pow10 e"
  proof -
    have "rounded_fraction x (int p) - x = (of_int (half_even (x / pow10 e)) - x / pow10 e) * pow10 e"
      using x by (simp add: rounded_fraction_def Let_def e_def left_diff_distrib)
    then show ?thesis by (simp add: abs_mult)
  qed
  also have "\<dots> \<le> 1 / 2 * pow10 e" by (intro mult_right_mono half_even_error) (simp add: less_imp_le)
  also have "pow10 e = pow10 (leading_exponent x) * pow10 (1 - int p)" by (simp add: e_def pow10_add [symmetric] algebra_simps)
  also have "1 / 2 * (pow10 (leading_exponent x) * pow10 (1 - int p)) \<le> 1 / 2 * (\<bar>x\<bar> * pow10 (1 - int p))"
    using leading_exponent_bounds(1) [OF x] by (intro mult_left_mono mult_right_mono) (simp_all add: less_imp_le)
  finally show ?thesis by simp
qed

lemma rounded_fraction_representable_aux:
  assumes p: "0 < p"
  shows "representable p (rounded_fraction x (int p))"
proof (cases "x = 0")
  case True
  then show ?thesis by (auto simp: rounded_fraction_def representable_def intro!: exI [of _ 0])
next
  case x: False
  define e where "e = leading_exponent x - (int p - 1)"
  define h where "h = half_even (x / pow10 e)"
  have r: "rounded_fraction x (int p) = of_int h * pow10 e"
    using x by (simp add: rounded_fraction_def Let_def e_def h_def)
  have "\<bar>x\<bar> < pow10 (int p) * pow10 e"
    using leading_exponent_bounds(2) [OF x] by (simp add: e_def pow10_add [symmetric])
  then have y: "\<bar>x / pow10 e\<bar> < 10 ^ p" by (simp add: abs_divide pow10_of_nat pos_divide_less_eq)
  have "\<bar>of_int h - x / pow10 e\<bar> \<le> \<bar>of_int (if 0 \<le> x / pow10 e then 10 ^ p else - (10 ^ p)) - x / pow10 e\<bar>"
    unfolding h_def by (rule half_even_nearest)
  also have "of_int (if 0 \<le> x / pow10 e then 10 ^ p else - (10 ^ p)) = (if 0 \<le> x / pow10 e then 10 ^ p else - (10 ^ p) :: rat)"
    by simp
  finally have "\<bar>of_int h\<bar> \<le> (10 ^ p :: rat)" by (rule bounded_of_nearest [OF y])
  then have "(of_int \<bar>h\<bar> :: rat) \<le> of_int (10 ^ p)" by simp
  then have h: "\<bar>h\<bar> \<le> 10 ^ p" by (simp only: of_int_le_iff)
  show ?thesis
  proof (cases "\<bar>h\<bar> < 10 ^ p")
    case True
    then show ?thesis using r by (auto simp: representable_def)
  next
    case False
    with h have "\<bar>h\<bar> = 10 ^ p" by simp
    then have "h = sgn h * 10 ^ p" by (metis abs_mult_sgn mult.commute)
    then have "rounded_fraction x (int p) = of_int (sgn h) * pow10 (e + int p)"
      using r by (metis mult.assoc mult.commute of_int_mult of_int_numeral of_int_power pow10_add pow10_of_nat)
    moreover have "\<bar>sgn h\<bar> < 10 ^ p"
    proof -
      have "(1::int) < 10 ^ p" using p by simp
      then show ?thesis by (simp add: abs_sgn_eq)
    qed
    ultimately show ?thesis by (auto simp: representable_def)
  qed
qed

subsection \<open>Aggregation\<close>

lemma hd_sort_Min: "xs \<noteq> [] \<Longrightarrow> hd (sort xs) = Min (set (xs :: rat list))"
proof -
  assume "xs \<noteq> []"
  then have "sort xs \<noteq> []" by (metis set_empty set_sort)
  then obtain y ys where s: "sort xs = y # ys" by (cases "sort xs") auto
  have "sorted (y # ys)" using s by (metis sorted_sort)
  then show ?thesis using s by (metis List.finite_set Min_eqI list.sel(1) list.set_intros(1) set_sort set_ConsD sorted_simps(2) order_refl)
qed

lemma last_sort_Max: "xs \<noteq> [] \<Longrightarrow> last (sort xs) = Max (set (xs :: rat list))"
proof -
  assume "xs \<noteq> []"
  then have "sort xs \<noteq> []" by (metis set_empty set_sort)
  then obtain y ys where s: "sort xs = ys @ [y]" by (cases "sort xs" rule: rev_cases) auto
  have "sorted (ys @ [y])" using s by (metis sorted_sort)
  then have "\<forall>z \<in> set (ys @ [y]). z \<le> y" by (auto simp: sorted_append)
  then have "\<forall>z \<in> set xs. z \<le> y" using s by (metis set_sort)
  moreover have "y \<in> set xs" using s by (metis in_set_conv_decomp set_sort)
  ultimately show ?thesis using s by (auto intro!: Max_eqI [symmetric])
qed

lemma max_by_max:
  "max_by k b xs \<in> set (b # xs) \<and> (\<forall>x \<in> set (b # xs). k x \<le> k (max_by k b xs))"
proof (induction xs arbitrary: b)
  case (Cons x xs)
  have "max_by k b (x # xs) = max_by k (if k b < k x then x else b) xs" by (simp add: max_by_def)
  then show ?case using Cons.IH [of "if k b < k x then x else b"] by (auto split: if_splits)
qed (simp add: max_by_def)

lemma aggregate_samples_perm:
  assumes "mset xs = mset ys"
  shows "aggregate_samples m xs = aggregate_samples m ys"
proof -
  have "sort xs = sort ys" using assms by (metis properties_for_sort sorted_sort mset_sort)
  moreover have "length xs = length ys" "xs = [] \<longleftrightarrow> ys = []" using assms mset_eq_length by (fastforce+)
  ultimately show ?thesis by (simp add: aggregate_samples_def)
qed

text \<open>The hypotheses of \<open>MeasurementSpec.validate_range\<close> make aggregation total.\<close>

lemma aggregate_samples_total:
  assumes "MeasurementSpec_validate raw = Inr m" "int (length xs) = msp_repetitions m"
  shows "\<exists>v. aggregate_samples m xs = Inr v"
proof -
  have m: "1 \<le> msp_repetitions m" "msp_aggregation m = WORST \<longrightarrow> msp_direction m \<noteq> Metric_NONE"
    "msp_direction m = TARGET \<longrightarrow> msp_target m \<noteq> None"
    using assms(1) by (auto simp: MeasurementSpec_validate_def split: if_splits)
  then have "xs \<noteq> []" using assms(2) by auto
  then show ?thesis using assms(2) m
    by (cases "msp_aggregation m"; cases "msp_direction m") (auto simp: aggregate_samples_def Let_def)
qed

text \<open>A value is at most as good as another in the direction of a measurement.\<close>

definition no_better :: "MeasurementSpec \<Rightarrow> rat \<Rightarrow> rat \<Rightarrow> bool" where
  "no_better m v w \<longleftrightarrow> (\<exists>a b. objective_value m v = Inr a \<and> objective_value m w = Inr b \<and> a \<le> b)"

lemma worst_is_worst:
  assumes "msp_aggregation m = WORST" "aggregate_samples m xs = Inr v"
  shows "v \<in> set xs \<and> (\<forall>x \<in> set xs. no_better m v x)"
proof -
  have ne: "xs \<noteq> []" using assms by (auto simp: aggregate_samples_def split: if_splits)
  have mn: "Min (set xs) \<in> set xs" "Max (set xs) \<in> set xs"
    and le: "\<And>x. x \<in> set xs \<Longrightarrow> Min (set xs) \<le> x \<and> x \<le> Max (set xs)" using ne by auto
  have srt: "set (hd (sort xs) # tl (sort xs)) = set xs" using ne by (metis list.collapse set_empty set_sort)
  show ?thesis
  proof (cases "msp_direction m")
    case Metric_NONE
    then show ?thesis using assms by (simp add: aggregate_samples_def Let_def split: if_splits)
  next
    case MINIMIZE
    then have "v = Max (set xs)" using assms ne by (simp add: aggregate_samples_def Let_def last_sort_Max split: if_splits)
    then show ?thesis using mn le MINIMIZE by (simp add: no_better_def objective_value_def)
  next
    case MAXIMIZE
    then have "v = Min (set xs)" using assms ne by (simp add: aggregate_samples_def Let_def hd_sort_Min split: if_splits)
    then show ?thesis using mn le MAXIMIZE by (simp add: no_better_def objective_value_def)
  next
    case TARGET
    then obtain g where g: "msp_target m = Some g"
      and v: "v = max_by (target_key g) (hd (sort xs)) (tl (sort xs))"
      using assms by (auto simp: aggregate_samples_def Let_def split: if_splits option.splits)
    note mb = max_by_max [of "target_key g" "hd (sort xs)" "tl (sort xs)", unfolded srt, folded v]
    have "\<bar>x - g\<bar> \<le> \<bar>v - g\<bar>" if "x \<in> set xs" for x
    proof -
      have "target_key g x \<le> target_key g v" using mb that by blast
      then show ?thesis by (auto simp: target_key_def split: if_splits)
    qed
    then show ?thesis using mb TARGET g by (simp add: no_better_def objective_value_def)
  qed
qed

subsection \<open>Scores\<close>

lemma task_measurement_valid:
  assumes "TaskSpec_validate dg raw = Inr t" "m \<in> set (tsk_measurements t)"
  shows "\<exists>raw. MeasurementSpec_validate raw = Inr m"
proof -
  from assms(1) obtain ms where "map_result MeasurementSpec_validate (tsk_measurements raw) = Inr ms"
    "tsk_measurements t = sort_key msp_measurement_id ms"
    by (auto simp: TaskSpec_validate_def dest!: validate_task_checks(1))
  then show ?thesis using map_result_set assms(2) by (metis set_sort)
qed

lemma task_measurements_sorted:
  assumes "TaskSpec_validate dg raw = Inr t"
  shows "sorted (map msp_measurement_id (tsk_measurements t))"
  using assms by (auto simp: TaskSpec_validate_def dest!: validate_task_checks(1))

lemma evidence_for_measurement:
  assumes t: "task_wf t" and ok: "results_ok t vs" and m: "m \<in> set (tsk_measurements t)"
    and p: "msp_producer_stage_id m \<in> promoted vs"
  obtains e where "dict_get (evidence_index vs) (msp_measurement_id m) = Some e"
    "int (length (mev_samples e)) = msp_repetitions m" "\<forall>x \<in> set (mev_samples e). in_range m x"
proof -
  from p obtain r where r: "r \<in> set vs" "sgr_stage_id r = msp_producer_stage_id m" "outcome_promotes (sgr_outcome r)"
    by (auto simp: promoted_def)
  have ev: "evidence_ok t r" using ok r(1) by (auto simp: results_ok_def)
  have "msp_measurement_id m \<in> declared_ids t (sgr_stage_id r)" using m r(2) by (auto simp: declared_ids_def)
  then have "msp_measurement_id m \<in> mev_measurement_id ` set (sgr_measurements r)"
    using ev r(3) by (simp add: evidence_ok_def)
  then have "msp_measurement_id m \<in> set (dict_keys (evidence_index vs))"
    using r(1) by (auto simp: evidence_index_def dict_simps)
  then obtain e where e: "dict_get (evidence_index vs) (msp_measurement_id m) = Some e"
    using dict_keys_get by metis
  then obtain r' where r': "r' \<in> set vs" "e \<in> set (sgr_measurements r')" "mev_measurement_id e = msp_measurement_id m"
    unfolding evidence_index_def by (auto dest!: dict_get_dict_of_SomeD)
  have "evidence_ok t r'" using ok r'(1) by (auto simp: results_ok_def)
  then obtain m' where m': "m' \<in> set (tsk_measurements t)" "msp_measurement_id m' = msp_measurement_id m"
    "int (length (mev_samples e)) = msp_repetitions m'" "\<forall>x \<in> set (mev_samples e). in_range m' x"
    using r'(2,3) unfolding evidence_ok_def by (metis (no_types, lifting))
  have "m' = m" using measurement_index_get [OF t, of "msp_measurement_id m"] m m'(1,2) by (metis option.inject)
  then show ?thesis using that e m' by blast
qed

text \<open>The aggregate of a measurement, as a total function of a snapshot.\<close>

definition aggregate_of :: "StageResult list \<Rightarrow> MeasurementSpec \<Rightarrow> rat" where
  "aggregate_of vs m =
     (case dict_get (evidence_index vs) (msp_measurement_id m) of None \<Rightarrow> 0
      | Some e \<Rightarrow> case aggregate_samples m (mev_samples e) of Inl _ \<Rightarrow> 0 | Inr v \<Rightarrow> v)"

definition aggregate_vector :: "TaskSpec \<Rightarrow> StageResult list \<Rightarrow> AggregatedMeasurement list" where
  "aggregate_vector t vs =
     map (\<lambda>m. \<lparr>agm_measurement_id = msp_measurement_id m, agm_value = aggregate_of vs m\<rparr>) (tsk_measurements t)"

lemma aggregate_one_ok:
  assumes a: "TaskSpec_validate dg raw = Inr t" and ok: "results_ok t vs" and m: "m \<in> set (tsk_measurements t)"
    and p: "msp_producer_stage_id m \<in> promoted vs"
  shows "aggregate_one (evidence_index vs) m
     = Inr \<lparr>agm_measurement_id = msp_measurement_id m, agm_value = aggregate_of vs m\<rparr>"
proof -
  obtain e where e: "dict_get (evidence_index vs) (msp_measurement_id m) = Some e"
    "int (length (mev_samples e)) = msp_repetitions m"
    using evidence_for_measurement [OF TaskSpec_validate_task_wf [OF a] ok m p] by metis
  obtain mr where "MeasurementSpec_validate mr = Inr m" using task_measurement_valid [OF a m] by blast
  from aggregate_samples_total [OF this e(2)] obtain v where "aggregate_samples m (mev_samples e) = Inr v" by blast
  with e(1) show ?thesis by (simp add: aggregate_one_def lookup_def aggregate_of_def)
qed

lemma aggregate_measurements_ok:
  assumes a: "TaskSpec_validate dg raw = Inr t"
    and e: "scorer_eligibility t rs = Inr e" "sel_state e = Scorer_READY"
    and v: "validate_stage_results t rs = Inr vs"
  shows "aggregate_measurements t rs = Inr (aggregate_vector t vs)"
proof -
  note wf = TaskSpec_validate_task_wf [OF a]
  note v' = validated_ok [OF wf v]
  have "e = scorer_spec t rs" using scorer_eligibility_spec [OF wf v'(3)] e(1) by simp
  with e(2) have "producer_ids t \<subseteq> promoted rs" using scorer_spec_ready [OF wf v'(3)] by simp
  then have "msp_producer_stage_id m \<in> promoted vs" if "m \<in> set (tsk_measurements t)" for m
    using that snapshot_cong(2) [OF v'(1)] by (auto simp: producer_ids_def)
  then have "map_result (aggregate_one (evidence_index vs)) (tsk_measurements t) = Inr (aggregate_vector t vs)"
    unfolding aggregate_vector_def using aggregate_one_ok [OF a v'(2)] by (intro map_result_total) simp
  then show ?thesis using e v by (simp add: aggregate_measurements_def)
qed

lemma weighted_sum_fold:
  assumes "trm_measurement_id ` set terms \<subseteq> set (dict_keys values)"
  shows "fold_result (\<lambda>total term.
       bind_result (lookup values (trm_measurement_id term)) (\<lambda>value.
         Inr (total + trm_coefficient term * value))) acc terms
     = Inr (acc + (\<Sum>x\<leftarrow>terms. trm_coefficient x * the (dict_get values (trm_measurement_id x))))"
  using assms
proof (induction terms arbitrary: acc)
  case (Cons x xs)
  then obtain v where "dict_get values (trm_measurement_id x) = Some v"
    using dict_keys_get [of "trm_measurement_id x" "values"] by auto
  then show ?case using Cons by (simp add: lookup_def add.assoc)
qed simp

definition scalar_value :: "TaskSpec \<Rightarrow> StageResult list \<Rightarrow> ScorerRef \<Rightarrow> rat" where
  "scalar_value t vs scorer = scr_intercept scorer
     + (\<Sum>x\<leftarrow>scr_terms scorer. trm_coefficient x * (\<Sum>m\<leftarrow>tsk_measurements t.
          if msp_measurement_id m = trm_measurement_id x then aggregate_of vs m else 0))"

lemma aggregate_vector_get:
  assumes "distinct (map msp_measurement_id (tsk_measurements t))" "i \<in> msp_measurement_id ` set (tsk_measurements t)"
  shows "the (dict_get (dict_of agm_measurement_id agm_value (aggregate_vector t vs)) i)
     = (\<Sum>m\<leftarrow>tsk_measurements t. if msp_measurement_id m = i then aggregate_of vs m else 0)"
proof -
  obtain m where m: "m \<in> set (tsk_measurements t)" "msp_measurement_id m = i" using assms(2) by auto
  have "distinct (map agm_measurement_id (aggregate_vector t vs))"
    using assms(1) by (simp add: aggregate_vector_def comp_def)
  then have "dict_get (dict_of agm_measurement_id agm_value (aggregate_vector t vs)) i = Some (aggregate_of vs m)"
    using m by (subst dict_get_dict_of) (auto simp: aggregate_vector_def)
  moreover have "(\<Sum>m\<leftarrow>ms. if msp_measurement_id m = i then aggregate_of vs m else 0) = aggregate_of vs m"
    if "distinct (map msp_measurement_id ms)" "m \<in> set ms" for ms
    using that m(2)
  proof (induction ms)
    case (Cons a ms)
    have "(\<Sum>m\<leftarrow>ms. if msp_measurement_id m = i then aggregate_of vs m else 0) = 0"
      if "i \<notin> msp_measurement_id ` set ms"
      using that by (induction ms) auto
    with Cons show ?case by (cases "a = m") (auto simp: rev_image_eqI)
  qed simp
  ultimately show ?thesis using assms(1) m(1) by simp
qed

lemma build_score_ok:
  assumes a: "TaskSpec_validate dg raw = Inr t" and ne: "tsk_measurements t \<noteq> []"
  shows "build_score_from_aggregates dg t (aggregate_vector t vs) = Inr (case grf_scorer (tsk_evaluation t) of
       None \<Rightarrow> Score_Pareto \<lparr>pvs_measurements = aggregate_vector t vs\<rparr>
     | Some scorer \<Rightarrow> Score_Scalar \<lparr>scs_measurements = aggregate_vector t vs,
         scs_value = rounded_fraction (scalar_value t vs scorer) (scr_precision_digits scorer),
         scs_direction = scr_direction scorer, scs_scorer_revision_digest = dg_scorer_revision dg scorer\<rparr>)"
proof -
  note wf = TaskSpec_validate_task_wf [OF a]
  have dm: "distinct (map msp_measurement_id (tsk_measurements t))" using wf by (simp add: task_wf_def)
  have ids: "map agm_measurement_id (aggregate_vector t vs) = map msp_measurement_id (tsk_measurements t)"
    by (simp add: aggregate_vector_def comp_def)
  have "sorted (map agm_measurement_id (aggregate_vector t vs))"
    unfolding ids by (rule task_measurements_sorted [OF a])
  then have norm: "normalize_score_measurements (aggregate_vector t vs) = Inr (aggregate_vector t vs)"
    using ne dm ids by (simp add: normalize_score_measurements_def aggregate_vector_def sort_key_id_if_sorted comp_def)
  show ?thesis
  proof (cases "grf_scorer (tsk_evaluation t)")
    case None
    then show ?thesis using ids ne norm
      by (simp add: build_score_from_aggregates_def ParetoVectorScore_new_def aggregate_vector_def)
  next
    case (Some scorer)
    have known: "trm_measurement_id ` set (scr_terms scorer) \<subseteq> msp_measurement_id ` set (tsk_measurements t)"
      using validate_task_checks(9) [OF TaskSpec_validate_model [OF a]] Some
      by (auto simp: check_measurements_def Let_def split: if_splits)
    have keys: "set (dict_keys (dict_of agm_measurement_id agm_value (aggregate_vector t vs)))
        = msp_measurement_id ` set (tsk_measurements t)"
      by (simp add: dict_simps aggregate_vector_def image_image)
    have "weighted_sum (dict_of agm_measurement_id agm_value (aggregate_vector t vs)) scorer
        = Inr (scr_intercept scorer + (\<Sum>x\<leftarrow>scr_terms scorer. trm_coefficient x
            * the (dict_get (dict_of agm_measurement_id agm_value (aggregate_vector t vs)) (trm_measurement_id x))))"
      unfolding weighted_sum_def by (rule weighted_sum_fold) (use known keys in simp)
    also have "(\<Sum>x\<leftarrow>scr_terms scorer. trm_coefficient x
            * the (dict_get (dict_of agm_measurement_id agm_value (aggregate_vector t vs)) (trm_measurement_id x)))
        = (\<Sum>x\<leftarrow>scr_terms scorer. trm_coefficient x * (\<Sum>m\<leftarrow>tsk_measurements t.
          if msp_measurement_id m = trm_measurement_id x then aggregate_of vs m else 0))"
      using known by (intro arg_cong [where f = sum_list] map_cong refl)
        (auto simp: aggregate_vector_get [OF dm])
    finally have "weighted_sum (dict_of agm_measurement_id agm_value (aggregate_vector t vs)) scorer
        = Inr (scalar_value t vs scorer)" by (simp add: scalar_value_def)
    then show ?thesis using Some ids ne norm
      by (simp add: build_score_from_aggregates_def ScalarScore_new_def aggregate_vector_def)
  qed
qed

subsection \<open>The order in which results arrive\<close>

lemma validate_stage_results_set_cong:
  assumes t: "task_wf t" and s: "set rs = set rs'"
    and v: "validate_stage_results t rs = Inr vs" "validate_stage_results t rs' = Inr vs'"
  shows "vs = vs'"
proof -
  obtain order where o: "topological_stage_ids t = Inr order" using topological_stage_ids_total [OF t] by metis
  note v1 = validated_ok [OF t v(1)] and v2 = validated_ok [OF t v(2)]
  have d: "distinct (map sgr_stage_id rs)" "distinct (map sgr_stage_id rs')"
    using v1(3) v2(3) by (auto simp: results_ok_def)
  have "dict_get (dict_of sgr_stage_id id rs) i = dict_get (dict_of sgr_stage_id id rs') i" for i
  proof -
    have "dict_get (dict_of sgr_stage_id id rs) i = Some r \<longleftrightarrow> dict_get (dict_of sgr_stage_id id rs') i = Some r" for r
      unfolding result_get [OF d(1)] result_get [OF d(2)] using s by simp
    then show ?thesis by (metis option.exhaust)
  qed
  then have eq: "dict_get (dict_of sgr_stage_id id rs) = dict_get (dict_of sgr_stage_id id rs')" by (rule ext)
  have "vs = List.map_filter (dict_get (dict_of sgr_stage_id id rs)) order"
    using v(1) o by (auto simp: validate_stage_results_def result_index_iff split: if_splits)
  moreover have "vs' = List.map_filter (dict_get (dict_of sgr_stage_id id rs')) order"
    using v(2) o by (auto simp: validate_stage_results_def result_index_iff split: if_splits)
  ultimately show ?thesis using eq by simp
qed

subsection \<open>Pareto dominance\<close>

text \<open>The objective of a measurement as a total function, for measurements that are objectives.\<close>

definition objective :: "MeasurementSpec \<Rightarrow> rat \<Rightarrow> rat" where
  "objective m v = (case objective_value m v of Inl _ \<Rightarrow> 0 | Inr x \<Rightarrow> x)"

definition is_objective :: "MeasurementSpec \<Rightarrow> bool" where
  "is_objective m \<longleftrightarrow> msp_direction m \<noteq> Metric_NONE"

definition target_known :: "MeasurementSpec \<Rightarrow> bool" where
  "target_known m \<longleftrightarrow> (msp_direction m = TARGET \<longrightarrow> msp_target m \<noteq> None)"

lemma MeasurementSpec_target_known: "MeasurementSpec_validate raw = Inr m \<Longrightarrow> target_known m"
  by (auto simp: MeasurementSpec_validate_def target_known_def split: if_splits)

lemma objective_comparison_ok:
  assumes "is_objective m" "target_known m"
  shows "objective_comparison m l r
     = Inr (of_bool (objective m r < objective m l) - of_bool (objective m l < objective m r))"
  using assms
  by (cases "msp_direction m")
    (auto simp: objective_comparison_def objective_value_def objective_def is_objective_def target_known_def
      simp del: bind_result_eq_Inr)

text \<open>A score has one value for every measurement of the task: what \<open>pareto_dominates\<close> checks of both vectors.\<close>

definition score_for :: "TaskSpec \<Rightarrow> ParetoVectorScore \<Rightarrow> bool" where
  "score_for t v \<longleftrightarrow> sort (dict_keys (score_values v)) = sort (dict_keys (measurement_index t))"

definition score_at :: "ParetoVectorScore \<Rightarrow> MeasurementSpec \<Rightarrow> rat" where
  "score_at v m = the (dict_get (score_values v) (msp_measurement_id m))"

definition objectives :: "TaskSpec \<Rightarrow> MeasurementSpec set" where
  "objectives t = {m \<in> set (tsk_measurements t). is_objective m}"

definition dominates :: "TaskSpec \<Rightarrow> ParetoVectorScore \<Rightarrow> ParetoVectorScore \<Rightarrow> bool" where
  "dominates t l r \<longleftrightarrow>
     (\<forall>m \<in> objectives t. objective m (score_at r m) \<le> objective m (score_at l m))
     \<and> (\<exists>m \<in> objectives t. objective m (score_at r m) < objective m (score_at l m))"

lemma dominance_loop_ok:
  assumes "\<And>i. i \<in> set is \<Longrightarrow> \<exists>m. dict_get specs i = Some m \<and> target_known m"
    and "\<And>i. i \<in> set is \<Longrightarrow> \<exists>v. dict_get L i = Some v" "\<And>i. i \<in> set is \<Longrightarrow> \<exists>v. dict_get R i = Some v"
  shows "dominance_loop specs L R h b is = Inr (
     (\<forall>i \<in> set is. is_objective (the (dict_get specs i)) \<longrightarrow>
        objective (the (dict_get specs i)) (the (dict_get R i)) \<le> objective (the (dict_get specs i)) (the (dict_get L i)))
     \<and> (h \<or> (\<exists>i \<in> set is. is_objective (the (dict_get specs i))))
     \<and> (b \<or> (\<exists>i \<in> set is. is_objective (the (dict_get specs i)) \<and>
        objective (the (dict_get specs i)) (the (dict_get R i)) < objective (the (dict_get specs i)) (the (dict_get L i)))))"
  using assms
proof (induction "is" arbitrary: h b)
  case (Cons i "is")
  obtain m l r where m: "dict_get specs i = Some m" "target_known m" and l: "dict_get L i = Some l" and r: "dict_get R i = Some r"
    using Cons.prems [of i] by auto
  have IH: "dominance_loop specs L R h' b' is = Inr (
     (\<forall>i \<in> set is. is_objective (the (dict_get specs i)) \<longrightarrow>
        objective (the (dict_get specs i)) (the (dict_get R i)) \<le> objective (the (dict_get specs i)) (the (dict_get L i)))
     \<and> (h' \<or> (\<exists>i \<in> set is. is_objective (the (dict_get specs i))))
     \<and> (b' \<or> (\<exists>i \<in> set is. is_objective (the (dict_get specs i)) \<and>
        objective (the (dict_get specs i)) (the (dict_get R i)) < objective (the (dict_get specs i)) (the (dict_get L i)))))" for h' b'
    using Cons.prems by (intro Cons.IH) auto
  show ?case
  proof (cases "is_objective m")
    case False
    then show ?thesis using m IH [of h b] by (auto simp: lookup_def is_objective_def)
  next
    case True
    consider "objective m l < objective m r" | "objective m l = objective m r" | "objective m r < objective m l" by linarith
    then show ?thesis
      using True m l r IH objective_comparison_ok [OF True m(2), of l r]
      by cases (auto simp: lookup_def is_objective_def)
  qed
qed simp

lemma score_values_get:
  assumes "score_for t v" "m \<in> set (tsk_measurements t)"
  shows "dict_get (score_values v) (msp_measurement_id m) = Some (score_at v m)"
proof -
  have "set (dict_keys (score_values v)) = set (dict_keys (measurement_index t))"
    using assms(1) by (metis score_for_def set_sort)
  with assms(2) have "msp_measurement_id m \<in> set (dict_keys (score_values v))" by (simp add: measurement_index_keys)
  then obtain x where "dict_get (score_values v) (msp_measurement_id m) = Some x" using dict_keys_get by metis
  then show ?thesis by (simp add: score_at_def)
qed

lemma pareto_dominates_ok:
  assumes d: "distinct (map msp_measurement_id (tsk_measurements t))"
    and k: "\<forall>m \<in> set (tsk_measurements t). target_known m"
    and l: "score_for t l" and r: "score_for t r"
  shows "pareto_dominates t l r = Inr (dominates t l r)"
proof -
  let ?ms = "tsk_measurements t"
  have keys: "dict_keys (measurement_index t) = map msp_measurement_id ?ms"
    using d by (simp add: measurement_index_def dict_of_distinct dict_keys_def comp_def)
  have get: "dict_get (measurement_index t) (msp_measurement_id m) = Some m" if "m \<in> set ?ms" for m
    using that d by (subst measurement_index_def) (auto simp: dict_get_dict_of)
  have "pareto_dominates t l r = dominance_loop (measurement_index t) (score_values l) (score_values r) False False
      (sort (map msp_measurement_id ?ms))"
    using l r by (simp add: pareto_dominates_def score_for_def keys)
  also have "\<dots> = Inr ((\<forall>i \<in> set (sort (map msp_measurement_id ?ms)). is_objective (the (dict_get (measurement_index t) i)) \<longrightarrow>
        objective (the (dict_get (measurement_index t) i)) (the (dict_get (score_values r) i)) \<le> objective (the (dict_get (measurement_index t) i)) (the (dict_get (score_values l) i)))
     \<and> (False \<or> (\<exists>i \<in> set (sort (map msp_measurement_id ?ms)). is_objective (the (dict_get (measurement_index t) i))))
     \<and> (False \<or> (\<exists>i \<in> set (sort (map msp_measurement_id ?ms)). is_objective (the (dict_get (measurement_index t) i)) \<and>
        objective (the (dict_get (measurement_index t) i)) (the (dict_get (score_values r) i)) < objective (the (dict_get (measurement_index t) i)) (the (dict_get (score_values l) i)))))"
    by (rule dominance_loop_ok)
      (use get k score_values_get [OF l] score_values_get [OF r] in \<open>auto\<close>)
  also have "\<dots> = Inr (dominates t l r)"
    by (auto simp: dominates_def objectives_def get score_at_def)
  finally show ?thesis .
qed

lemma pareto_dominates_Inr: "pareto_dominates t l r = Inr b \<Longrightarrow> score_for t l \<and> score_for t r"
  by (auto simp: pareto_dominates_def score_for_def Let_def split: if_splits)

lemma dominates_irrefl: "\<not> dominates t v v"
  by (auto simp: dominates_def)

lemma dominates_trans:
  assumes "dominates t u v" "dominates t v w"
  shows "dominates t u w"
  using assms unfolding dominates_def by (meson order_trans order_less_le_trans)

end
