(* ===== verification/Projections.thy ===== *)
theory Projections
  imports RunRecords ScoringFacts
begin

section \<open>Projections of the event journal\<close>

text \<open>
  The first part of \<open>src/edagym/run/journal.py\<close> (lines 98 to 320): the job transition table, the
  exceptions of the module, and the functions that read one aspect of a run off its events:
  unresolved tool requests, participant tool dispatches and their usage, the chain of participant
  incarnations, and the open license leases. \<open>JournalCorruption\<close> and \<open>InvalidTransition\<close> carry one
  reason per \<open>raise\<close>; the other constructors of \<open>journal_error\<close> are the exceptions that would
  escape from a callee or a lookup.
\<close>

datatype (plugins only: code size) corruption = Task_identity | Task_binding_facts | Evaluator_bindings
  | Other_run | Not_contiguous | Duplicate_identifier | After_termination | First_not_start
  | Start_binding | Started_twice

datatype (plugins only: code size) incarnation_fault = Incarnation_started | Generation_not_zero |
  No_active_incarnation | Stale_incarnation | No_terminated_incarnation | Restore_differs |
  Initial_incarnation | Restore_first | Incarnation_position | Latest_checkpoint | Not_quiescent |
  Restore_checkpoint | Incarnation_required
datatype (plugins only: code size) provider_fault = Preflight_provider | Unbound_harness |
  Provider_not_writer | Provider_model | Campaign_tier | Campaign_security | Request_exists |
  Response_unmatched | Response_exists | Transcript_visibility | Transcript_identity |
  Transcript_policy | Canary_policy
datatype (plugins only: code size) interaction_fault = Interaction_exists | Interaction_writer |
  Result_relation_stale | Result_exists | Result_not_terminal | Direction_producer
datatype (plugins only: code size) tool_fault = Already_reserved | Terminal_without_reservation |
  Already_terminal | Reservation_request | Wrong_executor | Wrong_budget | Operation_unresolved |
  Tool_unresolved | Terminal_differs | Terminal_precedes | Terminal_license | Settlement_operation
  | Settlement_exceeds | Settlement_artifact
datatype (plugins only: code size) participant_fault = Handoff_disabled | Stale_writer |
  Unknown_target | Transfer_attribution | Submission_writer | Candidate_exists | Candidate_parent
datatype (plugins only: code size) evaluation_fault = Unknown_candidate | Scored_candidate |
  Unknown_task_stage | Job_reused | Stage_terminal | Stage_not_ready | Unknown_job |
  Job_transition | No_active_job | Job_mismatch | Job_not_terminal | Undeclared_evidence
datatype (plugins only: code size) scoring_fault = Scoring_unknown | Scoring_exists |
  Scoring_unsettled | Scoring_eligibility | Score_gates | Score_differs | Score_binding
datatype (plugins only: code size) license_fault = Lease_active | Closure_without_lease |
  License_work | License_decided | License_release | License_differs | License_precedes
datatype (plugins only: code size) storage_fault = Unregistered_artifact | Visibility_disclosure |
  Artifact_exists | Checkpoint_exists | Checkpoint_parent | Checkpoint_artifact
datatype (plugins only: code size) ending_fault = Ended_without_incarnation | Ended_writer |
  Ended_evaluations | Ended_jobs | Ended_leases | Ended_providers | Ended_tools | Ended_dispatches
  | Success_unknown | Success_gates | Success_scoring | Success_rankable
datatype (plugins only: code size) provenance_fault = Provenance_missing | Source_artifact |
  Source_policy | Source_undeclared | Provenance_differs | Seeds_differ | Asset_digest |
  Library_unresolved

datatype (plugins only: code size) transition = Unbound_actor | Producer_policy
  | Incarnation_fault incarnation_fault
  | Provider_fault provider_fault
  | Interaction_fault interaction_fault
  | Tool_fault tool_fault
  | Participant_fault participant_fault
  | Evaluation_fault evaluation_fault
  | Scoring_fault scoring_fault
  | License_fault license_fault
  | Storage_fault storage_fault
  | Ending_fault ending_fault
  | Provenance_fault provenance_fault

datatype journal_error = JournalCorruption corruption | InvalidTransition transition
  | Escaped_evaluation evaluation_error | Escaped_model run_error | Escaped_seed seed_error
  | Escaped_canonical canonical_error | Key_error | Index_error | Stop_iteration | Type_error

definition escape :: "('e \<Rightarrow> journal_error) \<Rightarrow> 'e + 'a \<Rightarrow> journal_error + 'a" where
  "escape wrap m = (case m of Inl e \<Rightarrow> Inl (wrap e) | Inr x \<Rightarrow> Inr x)"

lemma escape_Inr [simp]: "escape wrap m = Inr x \<longleftrightarrow> m = Inr x"
  by (cases m) (auto simp: escape_def)

text \<open>The guard \<open>if condition: raise InvalidTransition(...)\<close>.\<close>

definition reject_if :: "bool \<Rightarrow> transition \<Rightarrow> journal_error + unit" where
  "reject_if condition reason = (if condition then Inl (InvalidTransition reason) else Inr ())"

lemma reject_if_Inr [simp]: "reject_if condition reason = Inr u \<longleftrightarrow> \<not> condition"
  by (simp add: reject_if_def)

text \<open>Subscripting a dictionary.\<close>

definition dict_item :: "('k, 'v) dict \<Rightarrow> 'k \<Rightarrow> journal_error + 'v" where
  "dict_item d k = (case dict_get d k of None \<Rightarrow> Inl Key_error | Some v \<Rightarrow> Inr v)"

lemma dict_item_Inr [simp]: "dict_item d k = Inr v \<longleftrightarrow> dict_get d k = Some v"
  by (simp add: dict_item_def split: option.splits)

subsection \<open>Job states\<close>

definition TERMINAL_JOB_STATES :: "JobStateKind set" where
  "TERMINAL_JOB_STATES = {Job_COMPLETED, Job_FAILED, Job_CANCELLED}"

fun JOB_TRANSITIONS :: "JobStateKind \<Rightarrow> JobStateKind set" where
  "JOB_TRANSITIONS Job_QUEUED = {Job_RUNNING, Job_FAILED, Job_CANCELLED}"
| "JOB_TRANSITIONS Job_RUNNING = {Job_CHECKPOINTING, Job_COMPLETED, Job_FAILED, Job_CANCELLED}"
| "JOB_TRANSITIONS Job_CHECKPOINTING = {Job_RUNNING, Job_COMPLETED, Job_FAILED, Job_CANCELLED}"
| "JOB_TRANSITIONS Job_COMPLETED = {}"
| "JOB_TRANSITIONS Job_FAILED = {}"
| "JOB_TRANSITIONS Job_CANCELLED = {}"

subsection \<open>Events with their typed payload\<close>

type_synonym InteractionRecordedEvent = "RunEvent \<times> InteractionRecordedPayload"
type_synonym ParticipantToolReservedEvent = "RunEvent \<times> ParticipantToolReservedPayload"
type_synonym LicenseLeaseAcquiredEvent = "RunEvent \<times> LicenseLeaseBindingPayload"
type_synonym CheckpointCommittedEvent = "RunEvent \<times> CheckpointCommittedPayload"

definition interaction_of :: "RunEvent \<Rightarrow> InteractionRecordedEvent option" where
  "interaction_of e = (case evt_payload e of InteractionRecorded p \<Rightarrow> Some (e, p) | _ \<Rightarrow> None)"

definition tool_terminal_of :: "RunEvent \<Rightarrow> ToolTerminal option" where
  "tool_terminal_of e =
     (case evt_payload e of
        ParticipantToolSettled p \<Rightarrow> Some (Terminal_Settled e p)
      | ParticipantToolLost p \<Rightarrow> Some (Terminal_Lost e p)
      | _ \<Rightarrow> None)"

fun terminal_request_id :: "ToolTerminal \<Rightarrow> Identifier" where
  "terminal_request_id (Terminal_Settled _ p) = tsp_request_interaction_id p"
| "terminal_request_id (Terminal_Lost _ p) = tlp_request_interaction_id p"

fun terminal_invocation_id :: "ToolTerminal \<Rightarrow> Identifier" where
  "terminal_invocation_id (Terminal_Settled _ p) = tsp_invocation_id p"
| "terminal_invocation_id (Terminal_Lost _ p) = tlp_invocation_id p"

fun terminal_invocation_digest :: "ToolTerminal \<Rightarrow> Digest" where
  "terminal_invocation_digest (Terminal_Settled _ p) = tsp_invocation_digest p"
| "terminal_invocation_digest (Terminal_Lost _ p) = tlp_invocation_digest p"

fun terminal_event :: "ToolTerminal \<Rightarrow> RunEvent" where
  "terminal_event (Terminal_Settled e _) = e"
| "terminal_event (Terminal_Lost e _) = e"

subsection \<open>Unresolved tool requests\<close>

definition unresolved_tool_requests :: "RunEvent list \<Rightarrow> Identifier option \<Rightarrow> InteractionRecordedEvent list" where
  "unresolved_tool_requests events tool_name =
     (let recorded = List.map_filter interaction_of events;
          resolved = set (map (\<lambda>(e, p). inp_related_interaction_id p)
            (filter (\<lambda>(e, p). inp_direction p = Direction_TOOL_RESULT) recorded))
      in filter (\<lambda>(e, p). inp_direction p = Direction_TOOL_REQUEST
            \<and> Some (inp_interaction_id p) \<notin> resolved
            \<and> (tool_name = None \<or> inp_tool_name p = tool_name)) recorded)"

subsection \<open>Participant tool dispatches\<close>

type_synonym dispatch_state =
  "(Identifier, ParticipantToolReservedEvent) dict \<times> (Identifier, ToolTerminal) dict"

definition dispatch_step :: "dispatch_state \<Rightarrow> RunEvent \<Rightarrow> journal_error + dispatch_state" where
  "dispatch_step st e =
     (case st of (reservations, terminals) \<Rightarrow>
      (case evt_payload e of
         ParticipantToolReserved p \<Rightarrow>
           let request_id = trp_request_interaction_id p in
           bind_result (reject_if (request_id \<in> set (dict_keys reservations)) (Tool_fault Already_reserved)) (\<lambda>_.
             Inr (dict_set request_id (e, p) reservations, terminals))
       | _ \<Rightarrow>
         (case tool_terminal_of e of
            Some terminal \<Rightarrow>
              let request_id = terminal_request_id terminal in
              bind_result (reject_if (request_id \<notin> set (dict_keys reservations)) (Tool_fault Terminal_without_reservation)) (\<lambda>_.
              bind_result (reject_if (request_id \<in> set (dict_keys terminals)) (Tool_fault Already_terminal)) (\<lambda>_.
                Inr (reservations, dict_set request_id terminal terminals)))
          | None \<Rightarrow> Inr st)))"

definition participant_tool_dispatches ::
    "RunEvent list \<Rightarrow> journal_error + (Identifier, ParticipantToolDispatch) dict" where
  "participant_tool_dispatches events =
     bind_result (fold_result dispatch_step ([], []) events) (\<lambda>(reservations, terminals).
       Inr (map (\<lambda>(request_id, reservation).
         (request_id, \<lparr>dsp_reservation = reservation, dsp_terminal = dict_get terminals request_id\<rparr>)) reservations))"

definition dispatch_usage :: "ParticipantToolDispatch \<Rightarrow> int \<times> int" where
  "dispatch_usage d =
     (case dsp_terminal d of
        Some (Terminal_Settled _ p) \<Rightarrow> (tsp_elapsed_milliseconds p, tsp_license_milliseconds p)
      | _ \<Rightarrow> (trp_reserved_compute_milliseconds (snd (dsp_reservation d)),
              trp_reserved_license_milliseconds (snd (dsp_reservation d))))"

definition participant_tool_usage :: "RunEvent list \<Rightarrow> journal_error + ParticipantToolUsage" where
  "participant_tool_usage events =
     bind_result (participant_tool_dispatches events) (\<lambda>dispatches.
       escape Escaped_model (ParticipantToolUsage_validate
         \<lparr>ptu_eda_compute_milliseconds = sum_list (map (fst \<circ> dispatch_usage) (dict_values dispatches)),
          ptu_license_milliseconds = sum_list (map (snd \<circ> dispatch_usage) (dict_values dispatches))\<rparr>))"

subsection \<open>Participant incarnations\<close>

definition lifecycle_init :: ParticipantIncarnationLifecycle where
  "lifecycle_init = \<lparr>lfc_incarnations = [], lfc_initial_started_sequence = None, lfc_recoveries = [],
     lfc_active_incarnation = None, lfc_pending_termination = None, lfc_pending_termination_sequence = None\<rparr>"

definition lifecycle_started :: "ParticipantIncarnationLifecycle \<Rightarrow> int \<Rightarrow> ParticipantIncarnationStartedPayload
    \<Rightarrow> journal_error + ParticipantIncarnationLifecycle" where
  "lifecycle_started l sequence p =
     bind_result (reject_if (lfc_incarnations l \<noteq> [] \<or> lfc_active_incarnation l \<noteq> None
        \<or> lfc_pending_termination l \<noteq> None) (Incarnation_fault Incarnation_started)) (\<lambda>_.
     bind_result (reject_if (pib_generation (isp_incarnation p) \<noteq> 0) (Incarnation_fault Generation_not_zero)) (\<lambda>_.
       Inr (l\<lparr>lfc_active_incarnation := Some (isp_incarnation p),
              lfc_incarnations := lfc_incarnations l @ [isp_incarnation p],
              lfc_initial_started_sequence := Some sequence\<rparr>)))"

definition lifecycle_terminated :: "run_digests \<Rightarrow> ParticipantIncarnationLifecycle \<Rightarrow> int
    \<Rightarrow> ParticipantIncarnationTermination \<Rightarrow> journal_error + ParticipantIncarnationLifecycle" where
  "lifecycle_terminated dg l sequence p =
     (case lfc_active_incarnation l of
        None \<Rightarrow> Inl (InvalidTransition (Incarnation_fault No_active_incarnation))
      | Some active \<Rightarrow>
          bind_result (reject_if (lfc_pending_termination l \<noteq> None) (Incarnation_fault No_active_incarnation)) (\<lambda>_.
          bind_result (reject_if (itp_incarnation_digest p \<noteq> rdg_incarnation dg active) (Incarnation_fault Stale_incarnation)) (\<lambda>_.
            Inr (l\<lparr>lfc_pending_termination := Some p, lfc_pending_termination_sequence := Some sequence,
                   lfc_active_incarnation := None\<rparr>))))"

definition restore_matches :: "run_digests \<Rightarrow> ParticipantIncarnationBinding \<Rightarrow> ParticipantIncarnationTermination
    \<Rightarrow> ParticipantIncarnationRestoredPayload \<Rightarrow> bool" where
  "restore_matches dg prior pending p \<longleftrightarrow>
     irp_predecessor_incarnation_digest p = rdg_incarnation dg prior
     \<and> irp_predecessor_incarnation_digest p = itp_incarnation_digest pending
     \<and> irp_checkpoint_id p = itp_checkpoint_id pending
     \<and> irp_checkpoint_manifest_digest p = itp_checkpoint_manifest_digest pending
     \<and> pib_generation (irp_incarnation p) = pib_generation prior + 1
     \<and> rdg_process dg (pib_process (irp_incarnation p)) \<noteq> rdg_process dg (pib_process prior)
     \<and> pib_workspace_identity_digest (irp_incarnation p) \<noteq> pib_workspace_identity_digest prior
     \<and> pib_artifact_directory_identity_digest (irp_incarnation p) \<noteq> pib_artifact_directory_identity_digest prior"

definition lifecycle_restored :: "run_digests \<Rightarrow> ParticipantIncarnationLifecycle \<Rightarrow> int
    \<Rightarrow> ParticipantIncarnationRestoredPayload \<Rightarrow> journal_error + ParticipantIncarnationLifecycle" where
  "lifecycle_restored dg l sequence p =
     (case (lfc_pending_termination l, lfc_pending_termination_sequence l) of
        (Some pending, Some pending_sequence) \<Rightarrow>
          bind_result (reject_if (lfc_active_incarnation l \<noteq> None \<or> lfc_incarnations l = [])
            (Incarnation_fault No_terminated_incarnation)) (\<lambda>_.
          bind_result (reject_if (\<not> restore_matches dg (last (lfc_incarnations l)) pending p) (Incarnation_fault Restore_differs)) (\<lambda>_.
          bind_result (escape Escaped_model (ParticipantIncarnationRecovery_validate
             \<lparr>rec_termination = pending, rec_terminated_sequence = pending_sequence,
              rec_restored_sequence = sequence,
              rec_restored_incarnation_digest = rdg_incarnation dg (irp_incarnation p),
              rec_restored_manifest_digest = irp_restored_manifest_digest p\<rparr>)) (\<lambda>recovery.
            Inr (l\<lparr>lfc_active_incarnation := Some (irp_incarnation p),
                   lfc_incarnations := lfc_incarnations l @ [irp_incarnation p],
                   lfc_recoveries := lfc_recoveries l @ [recovery],
                   lfc_pending_termination := None, lfc_pending_termination_sequence := None\<rparr>))))
      | _ \<Rightarrow> Inl (InvalidTransition (Incarnation_fault No_terminated_incarnation)))"

definition lifecycle_step :: "run_digests \<Rightarrow> ParticipantIncarnationLifecycle \<Rightarrow> RunEvent
    \<Rightarrow> journal_error + ParticipantIncarnationLifecycle" where
  "lifecycle_step dg l e =
     (case evt_payload e of
        ParticipantIncarnationStarted p \<Rightarrow> lifecycle_started l (evt_sequence e) p
      | ParticipantIncarnationTerminated p \<Rightarrow> lifecycle_terminated dg l (evt_sequence e) p
      | ParticipantIncarnationRestored p \<Rightarrow> lifecycle_restored dg l (evt_sequence e) p
      | _ \<Rightarrow> Inr l)"

definition participant_incarnation_lifecycle ::
    "run_digests \<Rightarrow> RunEvent list \<Rightarrow> journal_error + ParticipantIncarnationLifecycle" where
  "participant_incarnation_lifecycle dg events =
     bind_result (fold_result (lifecycle_step dg) lifecycle_init events) (\<lambda>l.
       escape Escaped_model (ParticipantIncarnationLifecycle_validate l))"

subsection \<open>License leases\<close>

definition close_lease :: "(Identifier, LicenseLeaseAcquiredEvent) dict \<Rightarrow> Identifier
    \<Rightarrow> journal_error + (Identifier, LicenseLeaseAcquiredEvent) dict" where
  "close_lease active job_id =
     bind_result (reject_if (job_id \<notin> set (dict_keys active)) (License_fault Closure_without_lease)) (\<lambda>_.
       Inr (dict_pop job_id active))"

definition lease_step :: "(Identifier, LicenseLeaseAcquiredEvent) dict \<Rightarrow> RunEvent
    \<Rightarrow> journal_error + (Identifier, LicenseLeaseAcquiredEvent) dict" where
  "lease_step active e =
     (case evt_payload e of
        LicenseLeaseAcquired p \<Rightarrow>
          bind_result (reject_if (llp_job_id p \<in> set (dict_keys active)) (License_fault Lease_active)) (\<lambda>_.
            Inr (dict_set (llp_job_id p) (e, p) active))
      | LicenseLeaseReleased p \<Rightarrow> close_lease active (llp_job_id p)
      | LicenseLeaseLost p \<Rightarrow> close_lease active (llp_job_id p)
      | _ \<Rightarrow> Inr active)"

definition active_license_leases ::
    "RunEvent list \<Rightarrow> journal_error + (Identifier, LicenseLeaseAcquiredEvent) dict" where
  "active_license_leases events = fold_result lease_step [] events"

end
