(* ===== verification/Replay.thy ===== *)
theory Replay
  imports Projections
begin

section \<open>Deterministic replay of a run\<close>

text \<open>
  Models \<open>replay\<close> of \<open>src/edagym/run/journal.py\<close> and the checks it calls. \<open>replay_state\<close> holds the local
  variables of the loop together with the events already processed (\<open>events[:expected_sequence]\<close>);
  every branch of the loop body is one \<open>on_*\<close> function, and \<open>replay_event\<close> is the loop body: the
  checks on the envelope, the incarnation guard, then the branch of the event's class. The header,
  the task and the digests of canonical encodings are the environment.
\<close>

record replay_env =
  env_digests :: run_digests
  env_task_digests :: task_digests
  env_header :: RunHeader
  env_task :: TaskSpec

abbreviation env_binding :: "replay_env \<Rightarrow> RunBinding" where
  "env_binding env \<equiv> hdr_binding (env_header env)"

definition env_actor_ids :: "replay_env \<Rightarrow> Identifier set" where
  "env_actor_ids env = set (map run_actor_id (srb_actors (bnd_session (env_binding env))))"

definition env_harnesses :: "replay_env \<Rightarrow> (Identifier, HarnessRunActor) dict" where
  "env_harnesses env = dict_of har_actor_id id (List.map_filter
     (\<lambda>a. case a of Run_Harness h \<Rightarrow> Some h | Run_Human _ \<Rightarrow> None) (srb_actors (bnd_session (env_binding env))))"

record replay_state =
  rps_prefix :: "RunEvent list"
  rps_event_ids :: "string set"
  rps_current_writer :: Identifier
  rps_interactions :: "(Identifier, InteractionRecordedEvent) dict"
  rps_resolved_tool_requests :: "Identifier set"
  rps_reservations :: "(Identifier, ParticipantToolReservedEvent) dict"
  rps_terminals :: "(Identifier, ToolTerminal) dict"
  rps_provider_requests :: "(Identifier, ProviderRequestState) dict"
  rps_campaign_security :: "(Digest \<times> Digest \<times> ProviderSecurityBinding \<times> Identifier) option"
  rps_candidates :: "(Identifier, CandidateState) dict"
  rps_results :: "(Identifier, StageResult list) dict"
  rps_stage_results :: "CandidateStageResult list"
  rps_scoring :: "(Identifier, CandidateScoringState) dict"
  rps_artifacts :: "(Identifier, ArtifactRecord) dict"
  rps_checkpoints :: "Identifier list"
  rps_checkpoint_events :: "(Identifier, CheckpointCommittedEvent) dict"
  rps_active_jobs :: "(Identifier, Identifier \<times> Identifier) dict"
  rps_job_states :: "(Identifier, JobStateKind) dict"
  rps_license_decisions :: "Identifier set"
  rps_leases :: "(Identifier, LicenseLeaseAcquiredEvent) dict"
  rps_terminal_reason :: "StopReason option"
  rps_successful_candidate :: "Identifier option"

definition replay_init :: "replay_env \<Rightarrow> replay_state" where
  "replay_init env = \<lparr>rps_prefix = [], rps_event_ids = {},
     rps_current_writer = srb_initial_writer (bnd_session (env_binding env)),
     rps_interactions = [], rps_resolved_tool_requests = {}, rps_reservations = [], rps_terminals = [],
     rps_provider_requests = [], rps_campaign_security = None, rps_candidates = [], rps_results = [],
     rps_stage_results = [], rps_scoring = [], rps_artifacts = [], rps_checkpoints = [],
     rps_checkpoint_events = [], rps_active_jobs = [], rps_job_states = [], rps_license_decisions = {},
     rps_leases = [], rps_terminal_reason = None, rps_successful_candidate = None\<rparr>"

type_synonym replay_result = "journal_error + replay_state"

subsection \<open>Checks shared by all events\<close>

definition validate_task_binding :: "replay_env \<Rightarrow> journal_error + unit" where
  "validate_task_binding env =
     (let binding = env_binding env; task = env_task env in
      if trb_family (bnd_task binding) \<noteq> idn_family (tsk_identity task)
         \<or> trb_authoring_revision (bnd_task binding) \<noteq> idn_authoring_revision (tsk_identity task)
         \<or> bnd_measurement_schema_digest binding \<noteq> dg_measurement_schema (env_task_digests env) (tsk_measurements task)
         \<or> bnd_scorer_revision_digest binding
             \<noteq> map_option (dg_scorer_revision (env_task_digests env)) (grf_scorer (tsk_evaluation task))
      then Inl (JournalCorruption Task_binding_facts)
      else if set (dict_of evb_evaluator_id evb_revision_digest (bnd_evaluators binding))
              \<noteq> set (dict_of evl_evaluator_id evl_revision_digest (grf_evaluators (tsk_evaluation task)))
      then Inl (JournalCorruption Evaluator_bindings)
      else Inr ())"

fun allowed_producers :: "EventPayload \<Rightarrow> ProducerKind set" where
  "allowed_producers (ControlTransferred _) = {Producer_PARTICIPANT}"
| "allowed_producers (CandidateSubmitted _) = {Producer_PARTICIPANT}"
| "allowed_producers (RunEnded p) =
     (if rep_reason p = Stop_VERIFIER_SUCCESS then {Producer_CONTROLLER, Producer_PARTICIPANT}
      else {Producer_CONTROLLER})"
| "allowed_producers (InteractionRecorded _) = {Producer_PARTICIPANT, Producer_CONTROLLER}"
| "allowed_producers (EvaluationStarted _) = {Producer_EVALUATOR}"
| "allowed_producers (EvaluationCompleted _) = {Producer_EVALUATOR}"
| "allowed_producers (ScoringRecorded _) = {Producer_EVALUATOR}"
| "allowed_producers (JobStateChanged _) = {Producer_EXECUTOR}"
| "allowed_producers (PolicyDecision _) = {Producer_POLICY}"
| "allowed_producers _ = {Producer_CONTROLLER}"

definition validate_event_producer :: "RunEvent \<Rightarrow> journal_error + unit" where
  "validate_event_producer e =
     bind_result (reject_if (evt_producer e \<notin> allowed_producers (evt_payload e)) Producer_policy) (\<lambda>_.
       case evt_payload e of
         InteractionRecorded p \<Rightarrow>
           reject_if (inp_direction p \<notin>
             (if evt_producer e = Producer_PARTICIPANT
              then {Direction_PARTICIPANT_OUTPUT, Direction_TOOL_REQUEST}
              else {Direction_PARTICIPANT_INPUT, Direction_TOOL_RESULT})) (Interaction_fault Direction_producer)
       | _ \<Rightarrow> Inr ())"

fun disclosed_to :: "Visibility \<Rightarrow> Visibility set" where
  "disclosed_to Visibility_PUBLIC = {Visibility_PUBLIC}"
| "disclosed_to Visibility_PARTICIPANT = {Visibility_PUBLIC, Visibility_PARTICIPANT}"
| "disclosed_to Visibility_REVIEWER = {Visibility_PUBLIC, Visibility_PARTICIPANT, Visibility_REVIEWER}"
| "disclosed_to Visibility_VERIFIER = {Visibility_PUBLIC, Visibility_PARTICIPANT, Visibility_VERIFIER}"
| "disclosed_to Visibility_AUTHOR = {Visibility_PUBLIC, Visibility_PARTICIPANT, Visibility_REVIEWER,
     Visibility_VERIFIER, Visibility_AUTHOR}"

definition validate_artifact_references :: "RunEvent \<Rightarrow> (Identifier, ArtifactRecord) dict \<Rightarrow> journal_error + unit" where
  "validate_artifact_references e artifacts =
     bind_result (reject_if (\<not> set (evt_artifact_refs e) \<subseteq> set (dict_keys artifacts)) (Storage_fault Unregistered_artifact)) (\<lambda>_.
       check_each (\<lambda>artifact_id.
         bind_result (dict_item artifacts artifact_id) (\<lambda>record.
           reject_if (art_visibility record \<notin> disclosed_to (evt_visibility e)) (Storage_fault Visibility_disclosure)))
         (evt_artifact_refs e))"

definition is_run_started :: "RunEvent \<Rightarrow> bool" where
  "is_run_started e = (case evt_payload e of RunStarted _ \<Rightarrow> True | _ \<Rightarrow> False)"

definition check_start :: "replay_env \<Rightarrow> nat \<Rightarrow> RunEvent \<Rightarrow> journal_error + unit" where
  "check_start env expected_sequence e =
     (if expected_sequence = 0 then
        (case evt_payload e of
           RunStarted p \<Rightarrow>
             if rsp_binding_digest p \<noteq> rdg_run_binding (env_digests env) (env_binding env)
             then Inl (JournalCorruption Start_binding) else Inr ()
         | _ \<Rightarrow> Inl (JournalCorruption First_not_start))
      else if is_run_started e then Inl (JournalCorruption Started_twice)
      else Inr ())"

definition check_envelope :: "replay_env \<Rightarrow> replay_state \<Rightarrow> RunEvent \<Rightarrow> journal_error + unit" where
  "check_envelope env st e =
     (if evt_run_id e \<noteq> hdr_run_id (env_header env) then Inl (JournalCorruption Other_run)
      else if evt_sequence e \<noteq> int (length (rps_prefix st)) then Inl (JournalCorruption Not_contiguous)
      else if evt_event_id e \<in> rps_event_ids st then Inl (JournalCorruption Duplicate_identifier)
      else if rps_terminal_reason st \<noteq> None then Inl (JournalCorruption After_termination)
      else
        bind_result (reject_if (\<exists>actor \<in> set_option (evt_actor e). actor \<notin> env_actor_ids env) Unbound_actor) (\<lambda>_.
        bind_result (validate_event_producer e) (\<lambda>_.
        bind_result (validate_artifact_references e (rps_artifacts st)) (\<lambda>_.
          check_start env (length (rps_prefix st)) e))))"

subsection \<open>Participant incarnations\<close>

definition requires_incarnation :: "replay_env \<Rightarrow> bool" where
  "requires_incarnation env \<longleftrightarrow> bnd_purpose (env_binding env) \<noteq> Purpose_STANDARD"

definition check_incarnation :: "replay_env \<Rightarrow> replay_state \<Rightarrow> ParticipantIncarnationLifecycle \<Rightarrow> RunEvent
    \<Rightarrow> journal_error + unit" where
  "check_incarnation env st lifecycle e =
     bind_result (reject_if (length (rps_prefix st) = 1 \<and> requires_incarnation env
        \<and> \<not> (case evt_payload e of ParticipantIncarnationStarted _ \<Rightarrow> True | _ \<Rightarrow> False)) (Incarnation_fault Initial_incarnation)) (\<lambda>_.
       reject_if (lfc_pending_termination lifecycle \<noteq> None
        \<and> \<not> (case evt_payload e of ParticipantIncarnationRestored _ \<Rightarrow> True | _ \<Rightarrow> False)) (Incarnation_fault Restore_first))"

definition unsettled_provider :: "replay_state \<Rightarrow> bool" where
  "unsettled_provider st \<longleftrightarrow> list_ex (\<lambda>r. prs_status r = None) (dict_values (rps_provider_requests st))"

definition unresolved_interaction :: "replay_state \<Rightarrow> bool" where
  "unresolved_interaction st \<longleftrightarrow>
     list_ex (\<lambda>(interaction_id, e, p). inp_direction p = Direction_TOOL_REQUEST
        \<and> interaction_id \<notin> rps_resolved_tool_requests st) (rps_interactions st)"

definition active_dispatch :: "replay_state \<Rightarrow> bool" where
  "active_dispatch st \<longleftrightarrow> set (dict_keys (rps_reservations st)) \<noteq> set (dict_keys (rps_terminals st))"

definition on_incarnation_started :: "replay_env \<Rightarrow> RunEvent \<Rightarrow> replay_state \<Rightarrow> replay_result" where
  "on_incarnation_started env e st =
     bind_result (reject_if (length (rps_prefix st) \<noteq> 1) (Incarnation_fault Incarnation_position)) (\<lambda>_.
     bind_result (participant_incarnation_lifecycle (env_digests env) (rps_prefix st @ [e])) (\<lambda>_. Inr st))"

definition on_incarnation_terminated :: "replay_env \<Rightarrow> ParticipantIncarnationLifecycle \<Rightarrow> RunEvent
    \<Rightarrow> ParticipantIncarnationTermination \<Rightarrow> replay_state \<Rightarrow> replay_result" where
  "on_incarnation_terminated env lifecycle e p st =
     bind_result (reject_if (case lfc_active_incarnation lifecycle of None \<Rightarrow> True
        | Some active \<Rightarrow> itp_incarnation_digest p \<noteq> rdg_incarnation (env_digests env) active) (Incarnation_fault No_active_incarnation)) (\<lambda>_.
     bind_result (reject_if (case dict_get (rps_checkpoint_events st) (itp_checkpoint_id p) of None \<Rightarrow> True
        | Some (_, committed) \<Rightarrow> rps_checkpoints st = [] \<or> itp_checkpoint_id p \<noteq> last (rps_checkpoints st)
            \<or> itp_checkpoint_manifest_digest p \<noteq> ccp_manifest_digest committed) (Incarnation_fault Latest_checkpoint)) (\<lambda>_.
     bind_result (reject_if (rps_active_jobs st \<noteq> [] \<or> rps_leases st \<noteq> [] \<or> unsettled_provider st
        \<or> unresolved_interaction st \<or> active_dispatch st) (Incarnation_fault Not_quiescent)) (\<lambda>_.
     bind_result (participant_incarnation_lifecycle (env_digests env) (rps_prefix st @ [e])) (\<lambda>_. Inr st))))"

definition on_incarnation_restored :: "replay_env \<Rightarrow> ParticipantIncarnationLifecycle \<Rightarrow> RunEvent
    \<Rightarrow> ParticipantIncarnationRestoredPayload \<Rightarrow> replay_state \<Rightarrow> replay_result" where
  "on_incarnation_restored env lifecycle e p st =
     bind_result (reject_if (lfc_pending_termination lifecycle = None
        \<or> (case dict_get (rps_checkpoint_events st) (irp_checkpoint_id p) of None \<Rightarrow> True
           | Some (_, committed) \<Rightarrow> irp_checkpoint_manifest_digest p \<noteq> ccp_manifest_digest committed))
        (Incarnation_fault Restore_checkpoint)) (\<lambda>_.
     bind_result (participant_incarnation_lifecycle (env_digests env) (rps_prefix st @ [e])) (\<lambda>_. Inr st))"

subsection \<open>Provider requests\<close>

datatype ProviderTranscriptRole = Role_REQUEST | Role_RESPONSE

fun transcript_role_value :: "ProviderTranscriptRole \<Rightarrow> string" where
  "transcript_role_value Role_REQUEST = ''request''"
| "transcript_role_value Role_RESPONSE = ''response''"

definition PROVIDER_TRANSCRIPT_MEDIA_TYPE :: string where
  "PROVIDER_TRANSCRIPT_MEDIA_TYPE = ''application/vnd.edagym.provider-transcript+json''"

definition PROVIDER_CANARY_EVIDENCE_MEDIA_TYPE :: string where
  "PROVIDER_CANARY_EVIDENCE_MEDIA_TYPE = ''application/vnd.edagym.provider-canary-evidence+json''"

definition SANITIZED_MEASUREMENTS_MEDIA_TYPE :: string where
  "SANITIZED_MEASUREMENTS_MEDIA_TYPE = ''application/vnd.edagym.measurements+json''"

text \<open>Both calls of the identifier adapter raise a validation error on a malformed identifier.\<close>

definition validate_identifier :: "Identifier \<Rightarrow> journal_error + Identifier" where
  "validate_identifier s = (if \<not> identifier_ok s then Inl (Escaped_model Run_range) else Inr s)"

definition provider_transcript_artifact_id :: "run_digests \<Rightarrow> Identifier \<Rightarrow> ProviderTranscriptRole
    \<Rightarrow> journal_error + Identifier" where
  "provider_transcript_artifact_id dg request_id role =
     bind_result (validate_identifier request_id) (\<lambda>request.
     bind_result (escape Escaped_canonical (canonical_digest (rdg_dumps dg) (rdg_sha256_hex dg)
         (PyMapping [(PyStr ''request_id'', PyStr request),
                     (PyStr ''role'', PyEnum (PyStr (transcript_role_value role)))])
         ''provider-transcript-artifact-id-v1'')) (\<lambda>identity.
       validate_identifier (''provider_transcript_'' @ drop 7 identity)))"

definition check_transcript_record :: "run_digests \<Rightarrow> Identifier \<Rightarrow> ProviderTranscriptRole \<Rightarrow> ArtifactRecord
    \<Rightarrow> journal_error + unit" where
  "check_transcript_record dg request_id role record =
     bind_result (provider_transcript_artifact_id dg request_id role) (\<lambda>expected.
     bind_result (reject_if (art_logical_id record \<noteq> expected
        \<or> art_media_type record \<noteq> PROVIDER_TRANSCRIPT_MEDIA_TYPE) (Provider_fault Transcript_identity)) (\<lambda>_.
       reject_if (art_artifact_class record \<noteq> Artifact_TRAINING
        \<or> art_sensitivity record \<noteq> Sensitivity_CONFIDENTIAL
        \<or> art_visibility record \<noteq> Visibility_AUTHOR
        \<or> art_redistribution record \<noteq> Redistribution_FORBIDDEN) (Provider_fault Transcript_policy)))"

definition validate_provider_transcript :: "run_digests \<Rightarrow> RunEvent \<Rightarrow> (Identifier, ArtifactRecord) dict
    \<Rightarrow> journal_error + unit" where
  "validate_provider_transcript dg e artifacts =
     bind_result (reject_if (evt_visibility e \<noteq> Visibility_AUTHOR) (Provider_fault Transcript_visibility)) (\<lambda>_.
       case evt_payload e of
         ProviderRequestStarted p \<Rightarrow>
           bind_result (dict_item artifacts (prp_request_artifact_id p)) (\<lambda>record.
           bind_result (check_transcript_record dg (prp_request_id p) Role_REQUEST record) (\<lambda>_.
           bind_result (dict_item artifacts (prp_security_evidence_artifact_id p)) (\<lambda>canary.
             reject_if (art_media_type canary \<noteq> PROVIDER_CANARY_EVIDENCE_MEDIA_TYPE
               \<or> art_artifact_class canary \<noteq> Artifact_EVIDENCE
               \<or> art_visibility canary \<noteq> Visibility_AUTHOR) (Provider_fault Canary_policy))))
       | ProviderResponseRecorded p \<Rightarrow>
           (case evt_artifact_refs e of [] \<Rightarrow> Inl Index_error
            | artifact_id # _ \<Rightarrow>
                bind_result (dict_item artifacts artifact_id) (\<lambda>record.
                  check_transcript_record dg (pop_request_id p) Role_RESPONSE record))
       | _ \<Rightarrow> Inl Type_error)"

definition request_security :: "ProviderRequestStartedPayload
    \<Rightarrow> Digest \<times> Digest \<times> ProviderSecurityBinding \<times> Identifier" where
  "request_security p = (prp_provider_profile_digest p, prp_provider_config_digest p,
     prp_security_binding p, prp_security_evidence_artifact_id p)"

definition on_provider_request :: "replay_env \<Rightarrow> RunEvent \<Rightarrow> ProviderRequestStartedPayload \<Rightarrow> replay_state
    \<Rightarrow> replay_result" where
  "on_provider_request env e p st =
     bind_result (reject_if (bnd_purpose (env_binding env) = Purpose_SYNTHETIC_PREFLIGHT) (Provider_fault Preflight_provider)) (\<lambda>_.
     case dict_get (env_harnesses env) (prp_actor_id p) of
       None \<Rightarrow> Inl (InvalidTransition (Provider_fault Unbound_harness))
     | Some actor \<Rightarrow>
       bind_result (reject_if (prp_actor_id p \<noteq> rps_current_writer st) (Provider_fault Provider_not_writer)) (\<lambda>_.
       bind_result (reject_if (prp_requested_model p \<noteq> har_requested_model_route actor) (Provider_fault Provider_model)) (\<lambda>_.
       bind_result
         (case bnd_campaign (env_binding env) of
            None \<Rightarrow> Inr st
          | Some campaign \<Rightarrow>
              bind_result (reject_if (prp_requested_service_tier p \<noteq> Some (cam_service_tier campaign)) (Provider_fault Campaign_tier)) (\<lambda>_.
              bind_result (reject_if (rps_campaign_security st \<noteq> None
                 \<and> rps_campaign_security st \<noteq> Some (request_security p)) (Provider_fault Campaign_security)) (\<lambda>_.
                Inr (st\<lparr>rps_campaign_security := Some (request_security p)\<rparr>))))
         (\<lambda>st.
       bind_result (reject_if (prp_request_id p \<in> set (dict_keys (rps_provider_requests st))) (Provider_fault Request_exists)) (\<lambda>_.
       bind_result (validate_provider_transcript (env_digests env) e (rps_artifacts st)) (\<lambda>_.
       bind_result (escape Escaped_model (ProviderRequestState_validate
          \<lparr>prs_request = p, prs_provider_reported_model = None, prs_provider_reported_service_tier = None,
           prs_status = None, prs_usage = None\<rparr>)) (\<lambda>request.
         Inr (st\<lparr>rps_provider_requests := dict_set (prp_request_id p) request (rps_provider_requests st)\<rparr>))))))))"

definition on_provider_response :: "replay_env \<Rightarrow> RunEvent \<Rightarrow> ProviderResponseRecordedPayload \<Rightarrow> replay_state
    \<Rightarrow> replay_result" where
  "on_provider_response env e p st =
     (case dict_get (rps_provider_requests st) (pop_request_id p) of
        None \<Rightarrow> Inl (InvalidTransition (Provider_fault Response_unmatched))
      | Some request \<Rightarrow>
          bind_result (reject_if (prs_status request \<noteq> None) (Provider_fault Response_exists)) (\<lambda>_.
          bind_result (validate_provider_transcript (env_digests env) e (rps_artifacts st)) (\<lambda>_.
            Inr (st\<lparr>rps_provider_requests := dict_set (pop_request_id p)
              (request\<lparr>prs_provider_reported_model := Some (pop_provider_reported_model p),
                       prs_provider_reported_service_tier := pop_provider_reported_service_tier p,
                       prs_status := Some (pop_status p), prs_usage := pop_usage p\<rparr>)
              (rps_provider_requests st)\<rparr>))))"

subsection \<open>Interactions and participant tools\<close>

definition resolve_request :: "Identifier \<Rightarrow> InteractionRecordedPayload \<Rightarrow> replay_state \<Rightarrow> replay_result" where
  "resolve_request related_id p st =
     bind_result (reject_if (case dict_get (rps_interactions st) related_id of None \<Rightarrow> True
        | Some (re, related) \<Rightarrow> inp_direction related \<noteq> Direction_TOOL_REQUEST
            \<or> evt_actor re \<noteq> Some (rps_current_writer st)
            \<or> inp_tool_name related \<noteq> inp_tool_name p) (Interaction_fault Result_relation_stale)) (\<lambda>_.
     bind_result (reject_if (related_id \<in> rps_resolved_tool_requests st) (Interaction_fault Result_exists)) (\<lambda>_.
     bind_result (dict_item (rps_interactions st) related_id) (\<lambda>(re, related).
     bind_result (reject_if (inp_tool_name related = Some EXECUTOR_PARTICIPANT_TOOL_NAME
        \<and> related_id \<in> set (dict_keys (rps_reservations st))
        \<and> related_id \<notin> set (dict_keys (rps_terminals st))) (Interaction_fault Result_not_terminal)) (\<lambda>_.
       Inr (st\<lparr>rps_resolved_tool_requests := insert related_id (rps_resolved_tool_requests st)\<rparr>)))))"

definition on_interaction :: "RunEvent \<Rightarrow> InteractionRecordedPayload \<Rightarrow> replay_state \<Rightarrow> replay_result" where
  "on_interaction e p st =
     bind_result (reject_if (inp_interaction_id p \<in> set (dict_keys (rps_interactions st))) (Interaction_fault Interaction_exists)) (\<lambda>_.
     bind_result (reject_if (evt_producer e = Producer_PARTICIPANT
        \<and> evt_actor e \<noteq> Some (rps_current_writer st)) (Interaction_fault Interaction_writer)) (\<lambda>_.
     bind_result (case inp_related_interaction_id p of None \<Rightarrow> Inr st
        | Some related_id \<Rightarrow> resolve_request related_id p st) (\<lambda>st.
       Inr (st\<lparr>rps_interactions := dict_set (inp_interaction_id p) (e, p) (rps_interactions st)\<rparr>))))"

definition on_tool_reserved :: "replay_env \<Rightarrow> RunEvent \<Rightarrow> ParticipantToolReservedPayload \<Rightarrow> replay_state
    \<Rightarrow> replay_result" where
  "on_tool_reserved env e p st =
     (let environment = bnd_environment (env_binding env); request_id = trp_request_interaction_id p in
     bind_result (reject_if (case dict_get (rps_interactions st) request_id of None \<Rightarrow> True
        | Some (_, request) \<Rightarrow> inp_direction request \<noteq> Direction_TOOL_REQUEST
            \<or> inp_tool_name request \<noteq> Some EXECUTOR_PARTICIPANT_TOOL_NAME
            \<or> request_id \<in> rps_resolved_tool_requests st) (Tool_fault Reservation_request)) (\<lambda>_.
     bind_result (reject_if (request_id \<in> set (dict_keys (rps_reservations st))) (Tool_fault Already_reserved)) (\<lambda>_.
     bind_result (reject_if (trp_executor_id p \<noteq> erb_executor_id environment) (Tool_fault Wrong_executor)) (\<lambda>_.
     bind_result (reject_if (trp_budget_digest p \<noteq> srb_budget_digest (bnd_session (env_binding env))) (Tool_fault Wrong_budget)) (\<lambda>_.
     bind_result (reject_if (length (filter (\<lambda>operation. rpo_operation_id operation = trp_operation_id p
          \<and> rpo_operation_digest operation = trp_operation_digest p
          \<and> rpo_tool_id operation = trp_tool_id p
          \<and> rpo_capability operation = trp_capability p) (erb_participant_operations environment)) \<noteq> 1)
        (Tool_fault Operation_unresolved)) (\<lambda>_.
     bind_result (reject_if (length (filter (\<lambda>tool. rtb_tool_id tool = trp_tool_id p
          \<and> rtb_capability tool = trp_capability p) (erb_tools environment)) \<noteq> 1) (Tool_fault Tool_unresolved)) (\<lambda>_.
       Inr (st\<lparr>rps_reservations := dict_set request_id (e, p) (rps_reservations st)\<rparr>))))))))"

text \<open>Comparing a naive with an aware timestamp raises; two timestamps of one kind are compared.\<close>

fun timestamp_less :: "Timestamp \<Rightarrow> Timestamp \<Rightarrow> journal_error + bool" where
  "timestamp_less (Aware a) (Aware b) = Inr (a < b)"
| "timestamp_less (Naive a) (Naive b) = Inr (a < b)"
| "timestamp_less _ _ = Inl Type_error"

definition check_settlement :: "ParticipantToolSettledPayload \<Rightarrow> ParticipantToolReservedPayload \<Rightarrow> replay_state
    \<Rightarrow> journal_error + unit" where
  "check_settlement p reservation st =
     bind_result (reject_if (tsp_operation_id p \<noteq> trp_operation_id reservation
        \<or> tsp_operation_digest p \<noteq> trp_operation_digest reservation
        \<or> tsp_input_manifest_digest p \<noteq> trp_input_manifest_digest reservation) (Tool_fault Settlement_operation)) (\<lambda>_.
     bind_result (reject_if (tsp_elapsed_milliseconds p > trp_reserved_compute_milliseconds reservation
        \<or> tsp_license_milliseconds p > trp_reserved_license_milliseconds reservation) (Tool_fault Settlement_exceeds)) (\<lambda>_.
     bind_result (dict_item (rps_artifacts st) (tsp_evidence_artifact_id p)) (\<lambda>artifact.
       reject_if (art_artifact_class artifact \<noteq> Artifact_EVIDENCE) (Tool_fault Settlement_artifact))))"

definition on_tool_terminal :: "ToolTerminal \<Rightarrow> replay_state \<Rightarrow> replay_result" where
  "on_tool_terminal terminal st =
     (let request_id = terminal_request_id terminal in
      case dict_get (rps_reservations st) request_id of
        None \<Rightarrow> Inl (InvalidTransition (Tool_fault Terminal_without_reservation))
      | Some (re, reservation) \<Rightarrow>
        bind_result (reject_if (request_id \<in> set (dict_keys (rps_terminals st))) (Tool_fault Already_terminal)) (\<lambda>_.
        bind_result (reject_if (request_id \<in> rps_resolved_tool_requests st
           \<or> terminal_invocation_id terminal \<noteq> trp_invocation_id reservation
           \<or> terminal_invocation_digest terminal \<noteq> trp_invocation_digest reservation) (Tool_fault Terminal_differs)) (\<lambda>_.
        bind_result (timestamp_less (evt_timestamp (terminal_event terminal)) (evt_timestamp re)) (\<lambda>earlier.
        bind_result (reject_if earlier (Tool_fault Terminal_precedes)) (\<lambda>_.
        bind_result (reject_if (terminal_invocation_id terminal \<in> set (dict_keys (rps_leases st))) (Tool_fault Terminal_license)) (\<lambda>_.
        bind_result (case terminal of Terminal_Settled _ p \<Rightarrow> check_settlement p reservation st
           | Terminal_Lost _ _ \<Rightarrow> Inr ()) (\<lambda>_.
          Inr (st\<lparr>rps_terminals := dict_set request_id terminal (rps_terminals st)\<rparr>))))))))"

subsection \<open>Control and candidates\<close>

definition on_control_transferred :: "replay_env \<Rightarrow> RunEvent \<Rightarrow> ControlTransferredPayload \<Rightarrow> replay_state
    \<Rightarrow> replay_result" where
  "on_control_transferred env e p st =
     bind_result (reject_if (\<not> srb_handoff_enabled (bnd_session (env_binding env))) (Participant_fault Handoff_disabled)) (\<lambda>_.
     bind_result (reject_if (ctp_previous_writer p \<noteq> rps_current_writer st) (Participant_fault Stale_writer)) (\<lambda>_.
     bind_result (reject_if (ctp_next_writer p \<notin> env_actor_ids env) (Participant_fault Unknown_target)) (\<lambda>_.
     bind_result (reject_if (evt_actor e \<noteq> Some (rps_current_writer st)) (Participant_fault Transfer_attribution)) (\<lambda>_.
       Inr (st\<lparr>rps_current_writer := ctp_next_writer p\<rparr>)))))"

definition on_candidate_submitted :: "RunEvent \<Rightarrow> CandidateSubmittedPayload \<Rightarrow> replay_state \<Rightarrow> replay_result" where
  "on_candidate_submitted e p st =
     bind_result (reject_if (evt_actor e \<noteq> Some (rps_current_writer st)) (Participant_fault Submission_writer)) (\<lambda>_.
     bind_result (reject_if (csp_candidate_id p \<in> set (dict_keys (rps_candidates st))) (Participant_fault Candidate_exists)) (\<lambda>_.
     bind_result (reject_if (\<exists>parent \<in> set_option (csp_parent_candidate_id p).
        parent \<notin> set (dict_keys (rps_candidates st))) (Participant_fault Candidate_parent)) (\<lambda>_.
       Inr (st\<lparr>rps_candidates := dict_set (csp_candidate_id p)
                 \<lparr>cst_candidate_id = csp_candidate_id p, cst_digest = csp_candidate_digest p,
                  cst_parent_candidate_id = csp_parent_candidate_id p, cst_actor = rps_current_writer st\<rparr>
                 (rps_candidates st),
               rps_results := dict_set (csp_candidate_id p) [] (rps_results st)\<rparr>))))"

subsection \<open>Evaluation\<close>

definition on_evaluation_started :: "replay_env \<Rightarrow> EvaluationStartedPayload \<Rightarrow> replay_state \<Rightarrow> replay_result" where
  "on_evaluation_started env p st =
     bind_result (reject_if (esp_candidate_id p \<notin> set (dict_keys (rps_candidates st))) (Evaluation_fault Unknown_candidate)) (\<lambda>_.
     bind_result (reject_if (esp_candidate_id p \<in> set (dict_keys (rps_scoring st))) (Evaluation_fault Scored_candidate)) (\<lambda>_.
     bind_result (reject_if (esp_stage_id p \<notin> set (map stg_stage_id (grf_stages (tsk_evaluation (env_task env)))))
        (Evaluation_fault Unknown_task_stage)) (\<lambda>_.
     bind_result (reject_if (esp_job_id p \<in> set (dict_keys (rps_job_states st))) (Evaluation_fault Job_reused)) (\<lambda>_.
     bind_result (dict_item (rps_results st) (esp_candidate_id p)) (\<lambda>results.
     bind_result (reject_if (list_ex (\<lambda>r. sgr_stage_id r = esp_stage_id p) results) (Evaluation_fault Stage_terminal)) (\<lambda>_.
     bind_result (escape Escaped_evaluation (stage_eligibility (env_task env) results (esp_stage_id p))) (\<lambda>eligibility.
     bind_result (reject_if (elg_state eligibility \<noteq> Stage_READY) (Evaluation_fault Stage_not_ready)) (\<lambda>_.
       Inr (st\<lparr>rps_active_jobs := dict_set (esp_job_id p) (esp_candidate_id p, esp_stage_id p) (rps_active_jobs st),
               rps_job_states := dict_set (esp_job_id p) Job_QUEUED (rps_job_states st)\<rparr>)))))))))"

definition on_job_state_changed :: "JobStateChangedPayload \<Rightarrow> replay_state \<Rightarrow> replay_result" where
  "on_job_state_changed p st =
     (case dict_get (rps_job_states st) (jsp_job_id p) of
        None \<Rightarrow> Inl (InvalidTransition (Evaluation_fault Unknown_job))
      | Some previous \<Rightarrow>
          bind_result (reject_if (jsp_state p \<notin> JOB_TRANSITIONS previous) (Evaluation_fault Job_transition)) (\<lambda>_.
            Inr (st\<lparr>rps_job_states := dict_set (jsp_job_id p) (jsp_state p) (rps_job_states st)\<rparr>)))"

definition check_library :: "replay_env \<Rightarrow> MeasurementProvenance \<Rightarrow> journal_error + unit" where
  "check_library env provenance =
     (case List.find (\<lambda>a. rab_asset_id a = mpv_library_id provenance)
             (erb_assets (bnd_environment (env_binding env))) of
        Some asset \<Rightarrow> reject_if (rab_restricted_digest asset \<noteq> mpv_library_digest provenance) (Provenance_fault Asset_digest)
      | None \<Rightarrow>
          reject_if (mpv_library_id provenance \<noteq> ''not_applicable''
            \<and> mpv_library_digest provenance \<notin> set (map res_content_digest
                (filter (\<lambda>r. res_resource_id r = mpv_library_id provenance) (tsk_resources (env_task env)))))
            (Provenance_fault Library_unresolved))"

definition check_provenance :: "replay_env \<Rightarrow> ResolvedToolBinding \<Rightarrow> StageResult \<Rightarrow> (Identifier, ArtifactRecord) dict
    \<Rightarrow> MeasurementSpec \<Rightarrow> MeasurementProvenance \<Rightarrow> journal_error + unit" where
  "check_provenance env tool result artifacts specification provenance =
     (case dict_get artifacts (mpv_source_artifact_id provenance) of
        None \<Rightarrow> Inl (InvalidTransition (Provenance_fault Source_artifact))
      | Some source \<Rightarrow>
        bind_result (reject_if (blb_digest (art_blob source) \<noteq> mpv_source_digest provenance) (Provenance_fault Source_artifact)) (\<lambda>_.
        bind_result (reject_if (art_artifact_class source \<noteq> Artifact_MEASUREMENT
           \<or> art_media_type source \<noteq> SANITIZED_MEASUREMENTS_MEDIA_TYPE) (Provenance_fault Source_policy)) (\<lambda>_.
        bind_result (reject_if (mpv_source_artifact_id provenance \<notin> set (map aev_artifact_id (sgr_evidence result)))
           (Provenance_fault Source_undeclared)) (\<lambda>_.
        bind_result (reject_if (mpv_unit provenance \<noteq> msp_unit specification
           \<or> mpv_tool_id provenance \<noteq> rtb_tool_id tool
           \<or> mpv_tool_version provenance \<noteq> rtb_tool_version tool
           \<or> mpv_library_id provenance \<noteq> msp_library_id specification
           \<or> mpv_library_digest provenance \<noteq> msp_library_digest specification
           \<or> mpv_corner provenance \<noteq> msp_corner specification
           \<or> mpv_mode provenance \<noteq> msp_mode specification
           \<or> mpv_task_seed provenance \<noteq> trb_instance_seed (bnd_task (env_binding env))) (Provenance_fault Provenance_differs)) (\<lambda>_.
        bind_result (escape Escaped_seed (measurement_sample_seeds (rdg_dumps (env_digests env))
           (rdg_sha256_hex (env_digests env)) (trb_instance_seed (bnd_task (env_binding env)))
           (msp_measurement_id specification) (msp_repetitions specification))) (\<lambda>seeds.
        bind_result (reject_if (mpv_sample_seeds provenance \<noteq> seeds) (Provenance_fault Seeds_differ)) (\<lambda>_.
          check_library env provenance)))))))"

definition validate_measurement_provenance :: "replay_env \<Rightarrow> StageResult \<Rightarrow> (Identifier, ArtifactRecord) dict
    \<Rightarrow> journal_error + unit" where
  "validate_measurement_provenance env result artifacts =
     (if sgr_measurements result = [] then Inr ()
      else
        bind_result (dict_item (stage_index (env_task env)) (sgr_stage_id result)) (\<lambda>stage.
        bind_result (dict_item (dict_of evl_evaluator_id id (grf_evaluators (tsk_evaluation (env_task env))))
           (stg_evaluator_id stage)) (\<lambda>evaluator.
        case List.find (\<lambda>b. rtb_capability b = evl_capability evaluator)
               (erb_tools (bnd_environment (env_binding env))) of
          None \<Rightarrow> Inl Stop_iteration
        | Some tool \<Rightarrow>
            check_each (\<lambda>measurement.
              bind_result (dict_item (measurement_index (env_task env)) (mev_measurement_id measurement)) (\<lambda>specification.
                case mev_provenance measurement of
                  None \<Rightarrow> Inl (InvalidTransition (Provenance_fault Provenance_missing))
                | Some provenance \<Rightarrow> check_provenance env tool result artifacts specification provenance))
              (sgr_measurements result))))"

definition on_evaluation_completed :: "replay_env \<Rightarrow> RunEvent \<Rightarrow> EvaluationCompletedPayload \<Rightarrow> replay_state
    \<Rightarrow> replay_result" where
  "on_evaluation_completed env e p st =
     (case dict_get (rps_active_jobs st) (ecp_job_id p) of
        None \<Rightarrow> Inl (InvalidTransition (Evaluation_fault No_active_job))
      | Some expected \<Rightarrow>
        bind_result (reject_if (expected \<noteq> (ecp_candidate_id p, sgr_stage_id (ecp_result p))) (Evaluation_fault Job_mismatch)) (\<lambda>_.
        bind_result (dict_item (rps_job_states st) (ecp_job_id p)) (\<lambda>state.
        bind_result (reject_if (state \<notin> TERMINAL_JOB_STATES) (Evaluation_fault Job_not_terminal)) (\<lambda>_.
        bind_result (reject_if (\<not> set (map aev_artifact_id (sgr_evidence (ecp_result p))) \<subseteq> set (evt_artifact_refs e))
           (Evaluation_fault Undeclared_evidence)) (\<lambda>_.
        bind_result (validate_measurement_provenance env (ecp_result p) (rps_artifacts st)) (\<lambda>_.
        bind_result (dict_item (rps_results st) (ecp_candidate_id p)) (\<lambda>results.
        bind_result (escape Escaped_evaluation (validate_stage_results (env_task env) (results @ [ecp_result p]))) (\<lambda>_.
          Inr (st\<lparr>rps_results := dict_set (ecp_candidate_id p) (results @ [ecp_result p]) (rps_results st),
                  rps_stage_results := rps_stage_results st
                    @ [\<lparr>csr_candidate_id = ecp_candidate_id p, csr_result = ecp_result p\<rparr>],
                  rps_active_jobs := dict_pop (ecp_job_id p) (rps_active_jobs st)\<rparr>)))))))))"

definition validate_scoring_decision :: "replay_env \<Rightarrow> StageResult list \<Rightarrow> ScoringDecision \<Rightarrow> journal_error + unit" where
  "validate_scoring_decision env results decision =
     bind_result (escape Escaped_evaluation (scorer_eligibility (env_task env) results)) (\<lambda>expected.
     bind_result (reject_if (dec_eligibility decision \<noteq> expected) (Scoring_fault Scoring_eligibility)) (\<lambda>_.
       case dec_score decision of
         None \<Rightarrow> Inr ()
       | Some score \<Rightarrow>
         bind_result (escape Escaped_evaluation (hard_gate_status (env_task env) results)) (\<lambda>gates.
         bind_result (reject_if (hgs_state gates \<noteq> Gate_SUCCEEDED) (Scoring_fault Score_gates)) (\<lambda>_.
         bind_result (escape Escaped_evaluation
           (build_candidate_score (env_task_digests env) (env_task env) results)) (\<lambda>derived.
         bind_result (reject_if (score \<noteq> derived) (Scoring_fault Score_differs)) (\<lambda>_.
           reject_if (\<exists>scorer \<in> set_option (grf_scorer (tsk_evaluation (env_task env))).
             Some (dg_scorer_revision (env_task_digests env) scorer) \<noteq> bnd_scorer_revision_digest (env_binding env))
             (Scoring_fault Score_binding)))))))"

definition on_scoring_recorded :: "replay_env \<Rightarrow> ScoringRecordedPayload \<Rightarrow> replay_state \<Rightarrow> replay_result" where
  "on_scoring_recorded env p st =
     (let candidate_id = srp_candidate_id p in
     bind_result (reject_if (candidate_id \<notin> set (dict_keys (rps_candidates st))) (Scoring_fault Scoring_unknown)) (\<lambda>_.
     bind_result (reject_if (candidate_id \<in> set (dict_keys (rps_scoring st))) (Scoring_fault Scoring_exists)) (\<lambda>_.
     bind_result (reject_if (list_ex (\<lambda>(candidate, _). candidate = candidate_id) (dict_values (rps_active_jobs st)))
        (Scoring_fault Scoring_unsettled)) (\<lambda>_.
     bind_result (dict_item (rps_results st) candidate_id) (\<lambda>results.
     bind_result (validate_scoring_decision env results (srp_decision p)) (\<lambda>_.
       Inr (st\<lparr>rps_scoring := dict_set candidate_id
         \<lparr>css_candidate_id = candidate_id, css_decision = srp_decision p\<rparr> (rps_scoring st)\<rparr>)))))))"

subsection \<open>Licenses, artifacts and checkpoints\<close>

definition participant_admitted :: "replay_state \<Rightarrow> Identifier \<Rightarrow> Identifier \<Rightarrow> bool" where
  "participant_admitted st job_id license_binding_id \<longleftrightarrow>
     (case List.find (\<lambda>(_, p). trp_invocation_id p = job_id) (dict_values (rps_reservations st)) of
        None \<Rightarrow> False
      | Some (_, p) \<Rightarrow> trp_request_interaction_id p \<notin> set (dict_keys (rps_terminals st))
          \<and> trp_license_binding_id p = Some license_binding_id)"

definition on_license_decision :: "Identifier \<Rightarrow> Identifier \<Rightarrow> replay_state \<Rightarrow> replay_result" where
  "on_license_decision job_id license_binding_id st =
     bind_result (reject_if (dict_get (rps_job_states st) job_id \<noteq> Some Job_QUEUED
        \<and> \<not> participant_admitted st job_id license_binding_id) (License_fault License_work)) (\<lambda>_.
     bind_result (reject_if (job_id \<in> rps_license_decisions st) (License_fault License_decided)) (\<lambda>_.
       Inr (st\<lparr>rps_license_decisions := insert job_id (rps_license_decisions st)\<rparr>)))"

definition on_license_acquired :: "RunEvent \<Rightarrow> LicenseLeaseBindingPayload \<Rightarrow> replay_state \<Rightarrow> replay_result" where
  "on_license_acquired e p st =
     bind_result (on_license_decision (llp_job_id p) (llp_license_binding_id p) st) (\<lambda>st.
       Inr (st\<lparr>rps_leases := dict_set (llp_job_id p) (e, p) (rps_leases st)\<rparr>))"

definition on_license_closed :: "RunEvent \<Rightarrow> LicenseLeaseBindingPayload \<Rightarrow> replay_state \<Rightarrow> replay_result" where
  "on_license_closed e p st =
     (case dict_get (rps_leases st) (llp_job_id p) of
        None \<Rightarrow> Inl (InvalidTransition (License_fault License_release))
      | Some (ae, acquired) \<Rightarrow>
        bind_result (reject_if (llp_license_binding_id p \<noteq> llp_license_binding_id acquired
           \<or> llp_provider_id p \<noteq> llp_provider_id acquired
           \<or> llp_feature_class p \<noteq> llp_feature_class acquired) (License_fault License_differs)) (\<lambda>_.
        bind_result (timestamp_less (evt_timestamp e) (evt_timestamp ae)) (\<lambda>earlier.
        bind_result (reject_if earlier (License_fault License_precedes)) (\<lambda>_.
          Inr (st\<lparr>rps_leases := dict_pop (llp_job_id p) (rps_leases st)\<rparr>)))))"

definition on_artifact_recorded :: "ArtifactRecordedPayload \<Rightarrow> replay_state \<Rightarrow> replay_result" where
  "on_artifact_recorded p st =
     bind_result (reject_if (art_logical_id (arp_record p) \<in> set (dict_keys (rps_artifacts st))) (Storage_fault Artifact_exists)) (\<lambda>_.
       Inr (st\<lparr>rps_artifacts := dict_set (art_logical_id (arp_record p)) (arp_record p) (rps_artifacts st)\<rparr>))"

definition on_checkpoint_committed :: "RunEvent \<Rightarrow> CheckpointCommittedPayload \<Rightarrow> replay_state \<Rightarrow> replay_result" where
  "on_checkpoint_committed e p st =
     bind_result (reject_if (ccp_checkpoint_id p \<in> set (rps_checkpoints st)) (Storage_fault Checkpoint_exists)) (\<lambda>_.
     bind_result (reject_if (\<exists>parent \<in> set_option (ccp_parent_checkpoint_id p). parent \<notin> set (rps_checkpoints st))
        (Storage_fault Checkpoint_parent)) (\<lambda>_.
       case evt_artifact_refs e of [] \<Rightarrow> Inl Index_error
       | artifact_id # _ \<Rightarrow>
         bind_result (dict_item (rps_artifacts st) artifact_id) (\<lambda>artifact.
         bind_result (reject_if (art_artifact_class artifact \<noteq> Artifact_CHECKPOINT) (Storage_fault Checkpoint_artifact)) (\<lambda>_.
           Inr (st\<lparr>rps_checkpoints := rps_checkpoints st @ [ccp_checkpoint_id p],
                   rps_checkpoint_events := dict_set (ccp_checkpoint_id p) (e, p) (rps_checkpoint_events st)\<rparr>)))))"

subsection \<open>The end of a run\<close>

definition check_success :: "replay_env \<Rightarrow> Identifier option \<Rightarrow> replay_state \<Rightarrow> journal_error + Identifier" where
  "check_success env candidate st =
     (case candidate of
        None \<Rightarrow> Inl (InvalidTransition (Ending_fault Success_unknown))
      | Some candidate_id \<Rightarrow>
        bind_result (reject_if (candidate_id \<notin> set (dict_keys (rps_candidates st))) (Ending_fault Success_unknown)) (\<lambda>_.
        bind_result (dict_item (rps_results st) candidate_id) (\<lambda>results.
        bind_result (escape Escaped_evaluation (hard_gate_status (env_task env) results)) (\<lambda>gates.
        bind_result (reject_if (hgs_state gates \<noteq> Gate_SUCCEEDED) (Ending_fault Success_gates)) (\<lambda>_.
        case dict_get (rps_scoring st) candidate_id of
          None \<Rightarrow> Inl (InvalidTransition (Ending_fault Success_scoring))
        | Some scoring \<Rightarrow>
          bind_result (reject_if (sel_state (dec_eligibility (css_decision scoring))
              \<notin> {Scorer_READY, Scorer_NOT_CONFIGURED}) (Ending_fault Success_rankable)) (\<lambda>_.
            Inr candidate_id))))))"

definition on_run_ended :: "replay_env \<Rightarrow> ParticipantIncarnationLifecycle \<Rightarrow> RunEvent \<Rightarrow> RunEndedPayload
    \<Rightarrow> replay_state \<Rightarrow> replay_result" where
  "on_run_ended env lifecycle e p st =
     bind_result (reject_if (requires_incarnation env \<and> lfc_active_incarnation lifecycle = None)
        (Ending_fault Ended_without_incarnation)) (\<lambda>_.
     bind_result (reject_if (evt_producer e = Producer_PARTICIPANT
        \<and> evt_actor e \<noteq> Some (rps_current_writer st)) (Ending_fault Ended_writer)) (\<lambda>_.
     bind_result (reject_if (rps_active_jobs st \<noteq> []) (Ending_fault Ended_evaluations)) (\<lambda>_.
     bind_result (reject_if (list_ex (\<lambda>state. state \<notin> TERMINAL_JOB_STATES) (dict_values (rps_job_states st)))
        (Ending_fault Ended_jobs)) (\<lambda>_.
     bind_result (reject_if (rps_leases st \<noteq> []) (Ending_fault Ended_leases)) (\<lambda>_.
     bind_result (reject_if (unsettled_provider st) (Ending_fault Ended_providers)) (\<lambda>_.
     bind_result (reject_if (unresolved_interaction st) (Ending_fault Ended_tools)) (\<lambda>_.
     bind_result (reject_if (active_dispatch st) (Ending_fault Ended_dispatches)) (\<lambda>_.
     bind_result
       (if rep_reason p = Stop_VERIFIER_SUCCESS
        then bind_result (check_success env (rep_successful_candidate_id p) st) (\<lambda>candidate_id.
               Inr (st\<lparr>rps_successful_candidate := Some candidate_id\<rparr>))
        else Inr st)
       (\<lambda>st. Inr (st\<lparr>rps_terminal_reason := Some (rep_reason p)\<rparr>))))))))))"

subsection \<open>The loop\<close>

definition on_event :: "replay_env \<Rightarrow> ParticipantIncarnationLifecycle \<Rightarrow> RunEvent \<Rightarrow> replay_state \<Rightarrow> replay_result" where
  "on_event env lifecycle e st =
     (case evt_payload e of
        ParticipantIncarnationStarted _ \<Rightarrow> on_incarnation_started env e st
      | ParticipantIncarnationTerminated p \<Rightarrow> on_incarnation_terminated env lifecycle e p st
      | ParticipantIncarnationRestored p \<Rightarrow> on_incarnation_restored env lifecycle e p st
      | ProviderRequestStarted p \<Rightarrow> on_provider_request env e p st
      | ProviderResponseRecorded p \<Rightarrow> on_provider_response env e p st
      | InteractionRecorded p \<Rightarrow> on_interaction e p st
      | ParticipantToolReserved p \<Rightarrow> on_tool_reserved env e p st
      | ParticipantToolSettled p \<Rightarrow> on_tool_terminal (Terminal_Settled e p) st
      | ParticipantToolLost p \<Rightarrow> on_tool_terminal (Terminal_Lost e p) st
      | ControlTransferred p \<Rightarrow> on_control_transferred env e p st
      | CandidateSubmitted p \<Rightarrow> on_candidate_submitted e p st
      | EvaluationStarted p \<Rightarrow> on_evaluation_started env p st
      | JobStateChanged p \<Rightarrow> on_job_state_changed p st
      | EvaluationCompleted p \<Rightarrow> on_evaluation_completed env e p st
      | ScoringRecorded p \<Rightarrow> on_scoring_recorded env p st
      | LicenseLeaseAcquired p \<Rightarrow> on_license_acquired e p st
      | LicenseLeaseDenied p \<Rightarrow> on_license_decision (llp_job_id p) (llp_license_binding_id p) st
      | LicenseLeaseReleased p \<Rightarrow> on_license_closed e p st
      | LicenseLeaseLost p \<Rightarrow> on_license_closed e p st
      | ArtifactRecorded p \<Rightarrow> on_artifact_recorded p st
      | CheckpointCommitted p \<Rightarrow> on_checkpoint_committed e p st
      | RunEnded p \<Rightarrow> on_run_ended env lifecycle e p st
      | RunStarted _ \<Rightarrow> Inr st
      | PolicyDecision _ \<Rightarrow> Inr st)"

definition replay_event :: "replay_env \<Rightarrow> replay_state \<Rightarrow> RunEvent \<Rightarrow> replay_result" where
  "replay_event env st e =
     bind_result (check_envelope env st e) (\<lambda>_.
     bind_result (participant_incarnation_lifecycle (env_digests env) (rps_prefix st)) (\<lambda>lifecycle.
     bind_result (check_incarnation env st lifecycle e) (\<lambda>_.
     bind_result (on_event env lifecycle e st) (\<lambda>st.
       Inr (st\<lparr>rps_prefix := rps_prefix st @ [e], rps_event_ids := insert (evt_event_id e) (rps_event_ids st)\<rparr>)))))"

definition replay_loop :: "replay_env \<Rightarrow> RunEvent list \<Rightarrow> replay_result" where
  "replay_loop env events = fold_result (replay_event env) (replay_init env) events"

definition run_state_of :: "replay_env \<Rightarrow> RunEvent list \<Rightarrow> replay_state \<Rightarrow> RunState" where
  "run_state_of env events st =
     \<lparr>rst_run_id = hdr_run_id (env_header env), rst_next_sequence = int (length events),
      rst_current_writer = rps_current_writer st, rst_candidates = dict_values (rps_candidates st),
      rst_stage_results = rps_stage_results st, rst_scoring = dict_values (rps_scoring st),
      rst_artifacts = dict_values (rps_artifacts st), rst_checkpoint_ids = rps_checkpoints st,
      rst_interaction_ids = sort (dict_keys (rps_interactions st)),
      rst_provider_requests = dict_values (rps_provider_requests st),
      rst_jobs = map (\<lambda>(job_id, state). \<lparr>jss_job_id = job_id, jss_state = state\<rparr>) (sort_key fst (rps_job_states st)),
      rst_terminal_reason = rps_terminal_reason st, rst_successful_candidate_id = rps_successful_candidate st\<rparr>"

definition replay :: "replay_env \<Rightarrow> RunEvent list \<Rightarrow> journal_error + RunState" where
  "replay env events =
     (if dg_task_spec (env_task_digests env) (env_task env)
         \<noteq> trb_task_spec_digest (bnd_task (env_binding env)) then Inl (JournalCorruption Task_identity)
      else
        bind_result (validate_task_binding env) (\<lambda>_.
        bind_result (replay_loop env events) (\<lambda>st.
        bind_result
          (if events \<noteq> [] \<and> requires_incarnation env
           then bind_result (participant_incarnation_lifecycle (env_digests env) events) (\<lambda>lifecycle.
                  reject_if (lfc_incarnations lifecycle = []) (Incarnation_fault Incarnation_required))
           else Inr ())
          (\<lambda>_. Inr (run_state_of env events st)))))"

end
