(* ===== verification/JournalStore.thy ===== *)
theory JournalStore
  imports Replay
begin

section \<open>The durable journal\<close>

text \<open>
  Models the file operations of \<open>RunJournal\<close> in \<open>src/edagym/run/journal.py\<close> (lines 1123 to 1418). The
  state is the byte content of \<open>events.jsonl\<close>; an operation under the exclusive lock takes the content
  and returns its result together with the new content, so that the truncation of a torn tail is
  visible even when the operation then raises. Locks, descriptors and permissions are not modelled:
  they serialise the operations. \<open>canonical_bytes\<close> of commits and events and the JSON parser are the
  parameter \<open>journal_codec\<close>; the validation that \<open>model_validate_json\<close> performs after parsing is
  \<open>RunCommit_validate\<close>.
\<close>

definition LF :: char where
  "LF = CHR 0x0A"

definition CR :: char where
  "CR = CHR 0x0D"

record journal_codec =
  jcd_commit :: "RunCommit \<Rightarrow> string"
  jcd_event :: "RunEvent \<Rightarrow> string"
  jcd_parse :: "string \<Rightarrow> RunCommit option"

datatype conflict = Reused_in_record | Partially_committed | Different_content | Wrong_position
  | Reused_committed

datatype decode_fault = Empty_record | Invalid_record | Not_canonical | Chain_discontinuous

datatype header_fault = Header_invalid | Header_not_canonical | Directory_name_differs | Run_directory_missing
  | Header_too_large

datatype store_error = Store_header header_fault | Header_conflict | Store_task_identity
  | Store_replay journal_error | Store_decode decode_fault | EventConflict conflict
  | Store_value_error | Store_terminated | Store_commit run_error

definition lift_replay :: "journal_error + 'a \<Rightarrow> store_error + 'a" where
  "lift_replay m = (case m of Inl e \<Rightarrow> Inl (Store_replay e) | Inr x \<Rightarrow> Inr x)"

lemma lift_replay_Inr [simp]: "lift_replay m = Inr x \<longleftrightarrow> m = Inr x"
  by (cases m) (auto simp: lift_replay_def)

subsection \<open>Decoding\<close>

text \<open>\<open>bytes.splitlines\<close>: lines end at a line feed, a carriage return, or the pair of both.\<close>

fun splitlines :: "string \<Rightarrow> string list" where
  "splitlines [] = []"
| "splitlines (c # cs) =
     (if c = LF then [] # splitlines cs
      else if c = CR then [] # splitlines (if cs \<noteq> [] \<and> hd cs = LF then tl cs else cs)
      else case splitlines cs of [] \<Rightarrow> [[c]] | l # ls \<Rightarrow> (c # l) # ls)"

text \<open>The index just past the last line feed (\<open>rfind\<close> plus one, or zero).\<close>

definition last_boundary :: "string \<Rightarrow> nat" where
  "last_boundary data = length data - length (takeWhile (\<lambda>c. c \<noteq> LF) (rev data))"

record decoded =
  dcd_events :: "RunEvent list"
  dcd_head :: Digest
  dcd_records :: "RunCommit list"

definition decode_record :: "run_digests \<Rightarrow> journal_codec \<Rightarrow> decoded \<Rightarrow> string \<Rightarrow> store_error + decoded" where
  "decode_record dg codec st line =
     (if line = [] then Inl (Store_decode Empty_record)
      else case jcd_parse codec line of
        None \<Rightarrow> Inl (Store_decode Invalid_record)
      | Some raw \<Rightarrow>
        (case RunCommit_validate dg raw of
           Inl _ \<Rightarrow> Inl (Store_decode Invalid_record)
         | Inr c \<Rightarrow>
             if jcd_commit codec c \<noteq> line then Inl (Store_decode Not_canonical)
             else if cmt_previous_record_digest c \<noteq> dcd_head st then Inl (Store_decode Chain_discontinuous)
             else Inr \<lparr>dcd_events = dcd_events st @ cmt_events c, dcd_head = cmt_record_digest c,
                       dcd_records = dcd_records st @ [c]\<rparr>))"

definition decode_init :: "run_digests \<Rightarrow> RunHeader \<Rightarrow> decoded" where
  "decode_init dg header = \<lparr>dcd_events = [], dcd_head = rdg_journal_anchor dg header, dcd_records = []\<rparr>"

definition durable_length :: "string \<Rightarrow> nat" where
  "durable_length data =
     (if data = [] then 0 else if last data = LF then length data else last_boundary data)"

definition decode_durable_prefix :: "run_digests \<Rightarrow> journal_codec \<Rightarrow> string \<Rightarrow> RunHeader
    \<Rightarrow> store_error + decoded \<times> nat" where
  "decode_durable_prefix dg codec data header =
     (if data = [] then Inr (decode_init dg header, 0)
      else
        let durable = take (durable_length data) data in
        bind_result (fold_result (decode_record dg codec) (decode_init dg header) (splitlines durable)) (\<lambda>d.
          Inr (d, durable_length data)))"

subsection \<open>Reading\<close>

definition read_events :: "replay_env \<Rightarrow> journal_codec \<Rightarrow> string \<Rightarrow> store_error + RunEvent list" where
  "read_events env codec data =
     bind_result (decode_durable_prefix (env_digests env) codec data (env_header env)) (\<lambda>(d, _).
     bind_result (lift_replay (replay env (dcd_events d))) (\<lambda>_. Inr (dcd_events d)))"

definition journal_integrity_digest :: "replay_env \<Rightarrow> journal_codec \<Rightarrow> string \<Rightarrow> store_error + Digest" where
  "journal_integrity_digest env codec data =
     bind_result (decode_durable_prefix (env_digests env) codec data (env_header env)) (\<lambda>(d, _).
     bind_result (lift_replay (replay env (dcd_events d))) (\<lambda>_. Inr (dcd_head d)))"

definition journal_record :: "replay_env \<Rightarrow> journal_codec \<Rightarrow> string \<Rightarrow> store_error + RunRecord" where
  "journal_record env codec data =
     bind_result (decode_durable_prefix (env_digests env) codec data (env_header env)) (\<lambda>(d, _).
     bind_result (lift_replay (replay env (dcd_events d))) (\<lambda>_.
       case RunRecord_validate (env_digests env) \<lparr>rcd_header = env_header env, rcd_commits = dcd_records d\<rparr> of
         Inl e \<Rightarrow> Inl (Store_commit e) | Inr r \<Rightarrow> Inr r))"

definition events_committed_together :: "replay_env \<Rightarrow> journal_codec \<Rightarrow> string \<Rightarrow> string list \<Rightarrow> store_error + bool" where
  "events_committed_together env codec data event_ids =
     (if event_ids = [] \<or> \<not> distinct event_ids then Inl Store_value_error
      else
        bind_result (decode_durable_prefix (env_digests env) codec data (env_header env)) (\<lambda>(d, _).
        bind_result (lift_replay (replay env (dcd_events d))) (\<lambda>_.
          Inr (list_ex (\<lambda>record. set event_ids \<subseteq> set (map evt_event_id (cmt_events record))) (dcd_records d)))))"

definition journal_state :: "replay_env \<Rightarrow> journal_codec \<Rightarrow> string \<Rightarrow> store_error + RunState" where
  "journal_state env codec data =
     bind_result (read_events env codec data) (\<lambda>events. lift_replay (replay env events))"

subsection \<open>Writing\<close>

text \<open>The records appended by a successful operation, as the bytes written at the end of the file.\<close>

definition commit_line :: "journal_codec \<Rightarrow> RunCommit \<Rightarrow> string" where
  "commit_line codec c = jcd_commit codec c @ [LF]"

definition positions_owned :: "nat \<Rightarrow> RunEvent list \<Rightarrow> bool" where
  "positions_owned start events \<longleftrightarrow>
     list_all (\<lambda>(offset, e). evt_sequence e = int (start + offset)) (enumerate 0 events)"

text \<open>The common end of both writing operations: replay the extended journal and write one record.\<close>

definition commit_events :: "replay_env \<Rightarrow> journal_codec \<Rightarrow> string \<Rightarrow> decoded \<Rightarrow> RunEvent list
    \<Rightarrow> (store_error + RunState) \<times> string" where
  "commit_events env codec durable d requested =
     (case replay env (dcd_events d @ requested) of
        Inl e \<Rightarrow> (Inl (Store_replay e), durable)
      | Inr state \<Rightarrow>
        (case RunCommit_from_events (env_digests env) (dcd_head d) requested of
           Inl e \<Rightarrow> (Inl (Store_commit e), durable)
         | Inr record \<Rightarrow> (Inr state, durable @ commit_line codec record)))"

definition append_decoded :: "replay_env \<Rightarrow> journal_codec \<Rightarrow> string \<Rightarrow> decoded \<Rightarrow> RunEvent list
    \<Rightarrow> (store_error + RunState) \<times> string" where
  "append_decoded env codec durable d requested =
     (let events = dcd_events d;
          committed_by_id = dict_of evt_event_id id events;
          requested_ids = map evt_event_id requested;
          existing = map (\<lambda>i. i \<in> set (dict_keys committed_by_id)) requested_ids
      in if \<not> distinct requested_ids then (Inl (EventConflict Reused_in_record), durable)
         else if list_ex id existing then
           (if \<not> list_all id existing then (Inl (EventConflict Partially_committed), durable)
            else if list_all (\<lambda>e. map_option (jcd_event codec) (dict_get committed_by_id (evt_event_id e))
                     = Some (jcd_event codec e)) requested
            then (lift_replay (replay env events), durable)
            else (Inl (EventConflict Different_content), durable))
         else if \<not> positions_owned (length events) requested then (Inl (EventConflict Wrong_position), durable)
         else case replay env events of
           Inl e \<Rightarrow> (Inl (Store_replay e), durable)
         | Inr committed \<Rightarrow>
             if rst_terminal_reason committed \<noteq> None then (Inl Store_terminated, durable)
             else commit_events env codec durable d requested)"

definition append_events :: "replay_env \<Rightarrow> journal_codec \<Rightarrow> string \<Rightarrow> RunEvent list
    \<Rightarrow> (store_error + RunState) \<times> string" where
  "append_events env codec data requested =
     (if requested = [] then (Inl Store_value_error, data)
      else case decode_durable_prefix (env_digests env) codec data (env_header env) of
        Inl e \<Rightarrow> (Inl e, data)
      | Inr (d, n) \<Rightarrow> append_decoded env codec (take n data) d requested)"

definition journal_append :: "replay_env \<Rightarrow> journal_codec \<Rightarrow> string \<Rightarrow> RunEvent \<Rightarrow> (store_error + RunState) \<times> string" where
  "journal_append env codec data event = append_events env codec data [event]"

definition transact_decoded :: "replay_env \<Rightarrow> journal_codec \<Rightarrow> string \<Rightarrow> decoded \<Rightarrow> (RunState \<Rightarrow> RunEvent list)
    \<Rightarrow> (store_error + RunState) \<times> string" where
  "transact_decoded env codec durable d factory =
     (case replay env (dcd_events d) of
        Inl e \<Rightarrow> (Inl (Store_replay e), durable)
      | Inr committed \<Rightarrow>
          if rst_terminal_reason committed \<noteq> None then (Inl Store_terminated, durable)
          else
            let requested = factory committed; requested_ids = map evt_event_id requested in
            if requested = [] then (Inl Store_value_error, durable)
            else if \<not> distinct requested_ids then (Inl (EventConflict Reused_in_record), durable)
            else if set (map evt_event_id (dcd_events d)) \<inter> set requested_ids \<noteq> {}
            then (Inl (EventConflict Reused_committed), durable)
            else if \<not> positions_owned (length (dcd_events d)) requested
            then (Inl (EventConflict Wrong_position), durable)
            else commit_events env codec durable d requested)"

definition transact_events :: "replay_env \<Rightarrow> journal_codec \<Rightarrow> string \<Rightarrow> (RunState \<Rightarrow> RunEvent list)
    \<Rightarrow> (store_error + RunState) \<times> string" where
  "transact_events env codec data factory =
     (case decode_durable_prefix (env_digests env) codec data (env_header env) of
        Inl e \<Rightarrow> (Inl e, data)
      | Inr (d, n) \<Rightarrow> transact_decoded env codec (take n data) d factory)"

definition journal_transact :: "replay_env \<Rightarrow> journal_codec \<Rightarrow> string \<Rightarrow> (RunState \<Rightarrow> RunEvent)
    \<Rightarrow> (store_error + RunState) \<times> string" where
  "journal_transact env codec data factory = transact_events env codec data (\<lambda>state. [factory state])"

subsection \<open>Creating and opening\<close>

text \<open>
  A state root maps directory names to the contents of \<open>run.json\<close> and \<open>events.jsonl\<close>. The new directory
  appears by one rename, so creation either adds a complete directory or nothing; staging files,
  permissions and \<open>fsync\<close> are not modelled. \<open>env\<close> carries the task and, in its header field, the header
  the caller wants to create; opening reads the header from the directory.
\<close>

record header_codec =
  hcd_encode :: "RunHeader \<Rightarrow> string"
  hcd_parse :: "string \<Rightarrow> RunHeader option"

type_synonym run_directory = "string \<times> string"

definition directory_name :: "Digest \<Rightarrow> string" where
  "directory_name run_id = (if take 7 run_id = ''sha256:'' then drop 7 run_id else run_id)"

definition journal_open :: "replay_env \<Rightarrow> header_codec \<Rightarrow> string \<Rightarrow> (string, run_directory) dict
    \<Rightarrow> store_error + RunHeader" where
  "journal_open env codec name store =
     (case dict_get store name of
        None \<Rightarrow> Inl (Store_header Run_directory_missing)
      | Some (content, _) \<Rightarrow>
        if 4 * 1024 * 1024 < int (length content) then Inl (Store_header Header_too_large)
        else (case hcd_parse codec content of
           None \<Rightarrow> Inl (Store_header Header_invalid)
         | Some raw \<Rightarrow>
           (case RunHeader_validate (env_digests env) raw of
              Inl _ \<Rightarrow> Inl (Store_header Header_invalid)
            | Inr header \<Rightarrow>
                if content \<noteq> hcd_encode codec header @ [LF] then Inl (Store_header Header_not_canonical)
                else if name \<noteq> directory_name (hdr_run_id header) then Inl (Store_header Directory_name_differs)
                else if dg_task_spec (env_task_digests env) (env_task env)
                        \<noteq> trb_task_spec_digest (bnd_task (hdr_binding header))
                then Inl (Store_replay (JournalCorruption Task_identity))
                else bind_result (lift_replay (validate_task_binding (env\<lparr>env_header := header\<rparr>))) (\<lambda>_.
                  Inr header))))"

definition journal_create :: "replay_env \<Rightarrow> header_codec \<Rightarrow> (string, run_directory) dict
    \<Rightarrow> (store_error + RunHeader) \<times> (string, run_directory) dict" where
  "journal_create env codec store =
     (let header = env_header env; name = directory_name (hdr_run_id header) in
      if dg_task_spec (env_task_digests env) (env_task env) \<noteq> trb_task_spec_digest (bnd_task (hdr_binding header))
      then (Inl Store_task_identity, store)
      else case validate_task_binding env of
        Inl e \<Rightarrow> (Inl (Store_replay e), store)
      | Inr _ \<Rightarrow>
        if name \<in> set (dict_keys store)
        then (bind_result (journal_open env codec name store) (\<lambda>existing.
                if existing \<noteq> header then Inl Header_conflict else Inr existing), store)
        else let store' = dict_set name (hcd_encode codec header @ [LF], []) store
             in (journal_open env codec name store', store'))"

end
