(* ===== verification/LineFiles.thy ===== *)
theory LineFiles
  imports JournalStore
begin

section \<open>Files of encoded lines\<close>

text \<open>
  Both journals keep one encoded record per line and tolerate a torn tail. The locale states what a
  decoder that folds over the lines of the durable prefix promises for one line, and derives what it
  returns for a whole file; the run journal and the campaign journal interpret it.
\<close>

definition lines_of :: "('c \<Rightarrow> string) \<Rightarrow> 'c list \<Rightarrow> string" where
  "lines_of enc cs = concat (map (\<lambda>c. enc c @ [LF]) cs)"

definition line_safe :: "string \<Rightarrow> bool" where
  "line_safe w \<longleftrightarrow> w \<noteq> [] \<and> LF \<notin> set w \<and> CR \<notin> set w"

lemma lines_of_simps [simp]: "lines_of enc [] = []" "lines_of enc (c # cs) = enc c @ LF # lines_of enc cs"
    "lines_of enc (cs @ ds) = lines_of enc cs @ lines_of enc ds"
  by (simp_all add: lines_of_def)

lemma splitlines_line:
  "LF \<notin> set w \<Longrightarrow> CR \<notin> set w \<Longrightarrow> splitlines (w @ LF # s) = w # splitlines s"
  by (induction w) auto

lemma splitlines_lines: "\<forall>c\<in>set cs. line_safe (enc c) \<Longrightarrow> splitlines (lines_of enc cs) = map enc cs"
  by (induction cs) (auto simp: line_safe_def splitlines_line)

lemma lines_of_ends: "cs \<noteq> [] \<Longrightarrow> lines_of enc cs \<noteq> [] \<and> last (lines_of enc cs) = LF"
  by (induction cs rule: rev_induct) auto

lemma last_boundary_torn:
  assumes "LF \<notin> set torn" "s = [] \<or> last s = LF"
  shows "last_boundary (s @ torn) = length s"
proof -
  have "takeWhile (\<lambda>c. c \<noteq> LF) (rev torn @ rev s) = rev torn @ takeWhile (\<lambda>c. c \<noteq> LF) (rev s)"
    using assms(1) by (intro takeWhile_append2) auto
  moreover have "takeWhile (\<lambda>c. c \<noteq> LF) (rev s) = []"
    using assms(2) by (cases s rule: rev_cases) auto
  ultimately show ?thesis by (simp add: last_boundary_def)
qed

lemma durable_length_lines:
  assumes "LF \<notin> set torn"
  shows "durable_length (lines_of enc cs @ torn) = length (lines_of enc cs)"
proof (cases "torn = []")
  case True
  then show ?thesis using lines_of_ends [of cs enc] by (cases "cs = []") (auto simp: durable_length_def)
next
  case False
  then have "last (lines_of enc cs @ torn) \<noteq> LF" using assms by (auto dest: last_in_set)
  with False show ?thesis
    using last_boundary_torn [OF assms, of "lines_of enc cs"] lines_of_ends [of cs enc]
    by (cases "cs = []") (auto simp: durable_length_def)
qed

text \<open>The records of a list are accepted one after the other.\<close>

fun accepted :: "('s \<Rightarrow> 'c \<Rightarrow> bool) \<Rightarrow> ('s \<Rightarrow> 'c \<Rightarrow> 's) \<Rightarrow> 's \<Rightarrow> 'c list \<Rightarrow> bool" where
  "accepted ok after s [] \<longleftrightarrow> True"
| "accepted ok after s (c # cs) \<longleftrightarrow> ok s c \<and> accepted ok after (after s c) cs"

locale line_decoder =
  fixes enc :: "'c \<Rightarrow> string" and decode :: "'s \<Rightarrow> string \<Rightarrow> 'x + 's" and ok :: "'s \<Rightarrow> 'c \<Rightarrow> bool" and after :: "'s \<Rightarrow> 'c \<Rightarrow> 's"
  assumes decode_line: "ok s c \<Longrightarrow> decode s (enc c) = Inr (after s c)"
    and safe_line: "ok s c \<Longrightarrow> line_safe (enc c)"
begin

lemma decode_lines: "accepted ok after s cs \<Longrightarrow> fold_result decode s (map enc cs) = Inr (foldl after s cs)"
  by (induction cs arbitrary: s) (auto simp: decode_line)

lemma accepted_safe: "accepted ok after s cs \<Longrightarrow> \<forall>c\<in>set cs. line_safe (enc c)"
  by (induction cs arbitrary: s) (auto intro: safe_line)

lemma decode_durable:
  assumes "accepted ok after s cs" "LF \<notin> set torn"
  shows "fold_result decode s (splitlines (take (durable_length (lines_of enc cs @ torn)) (lines_of enc cs @ torn)))
     = Inr (foldl after s cs)"
  by (simp add: durable_length_lines [OF assms(2)] splitlines_lines [OF accepted_safe [OF assms(1)]]
        decode_lines [OF assms(1)])

end

end
