(* ===== verification/ReplayFacts.thy ===== *)
theory ReplayFacts
  imports Replay
begin

section \<open>Invariants of replay\<close>

text \<open>
  What every state reached by \<open>replay_event\<close> satisfies. The first part inverts each handler: an
  accepted event satisfied the guards of its branch and changed exactly the fields named there. The
  loop and the projections of the journal are then interpretations of the locales \<open>projection\<close>,
  \<open>invariant_projection\<close> and \<open>simulation\<close>.
\<close>

subsection \<open>What an accepted event did\<close>

lemma incarnation_started_E:
  assumes "on_incarnation_started env e st = Inr st'"
  obtains l where "length (rps_prefix st) = 1" "st' = st"
    "participant_incarnation_lifecycle (env_digests env) (rps_prefix st @ [e]) = Inr l"
  using assms unfolding on_incarnation_started_def bind_result_eq_Inr reject_if_Inr by blast

lemma incarnation_terminated_E:
  assumes "on_incarnation_terminated env lifecycle e p st = Inr st'"
  obtains l where "st' = st" "rps_active_jobs st = []" "rps_leases st = []" "\<not> unsettled_provider st"
    "\<not> unresolved_interaction st" "\<not> active_dispatch st"
    "participant_incarnation_lifecycle (env_digests env) (rps_prefix st @ [e]) = Inr l"
    "rps_checkpoints st \<noteq> []" "itp_checkpoint_id p = last (rps_checkpoints st)"
  using assms by (auto simp: on_incarnation_terminated_def split: option.splits)

lemma incarnation_restored_E:
  assumes "on_incarnation_restored env lifecycle e p st = Inr st'"
  obtains l where "st' = st"
    "participant_incarnation_lifecycle (env_digests env) (rps_prefix st @ [e]) = Inr l"
  using assms by (auto simp: on_incarnation_restored_def)

lemma provider_request_E:
  assumes "on_provider_request env e p st = Inr st'"
  obtains security where "prp_actor_id p = rps_current_writer st"
    "prp_request_id p \<notin> set (dict_keys (rps_provider_requests st))"
    "bnd_purpose (env_binding env) \<noteq> Purpose_SYNTHETIC_PREFLIGHT"
    "validate_provider_transcript (env_digests env) e (rps_artifacts st) = Inr ()"
    "st' = st\<lparr>rps_campaign_security := security, rps_provider_requests := dict_set (prp_request_id p)
       \<lparr>prs_request = p, prs_provider_reported_model = None, prs_provider_reported_service_tier = None,
        prs_status = None, prs_usage = None\<rparr> (rps_provider_requests st)\<rparr>"
proof -
  have same: "st\<lparr>rps_provider_requests := r\<rparr>
      = st\<lparr>rps_campaign_security := rps_campaign_security st, rps_provider_requests := r\<rparr>" for r by simp
  show thesis
    using assms that
    by (fastforce simp: on_provider_request_def ProviderRequestState_validate_def
      split: option.splits intro: same)
qed

lemma provider_response_E:
  assumes "on_provider_response env e p st = Inr st'"
  obtains request where "dict_get (rps_provider_requests st) (pop_request_id p) = Some request"
    "prs_status request = None"
    "st' = st\<lparr>rps_provider_requests := dict_set (pop_request_id p)
       (request\<lparr>prs_provider_reported_model := Some (pop_provider_reported_model p),
          prs_provider_reported_service_tier := pop_provider_reported_service_tier p,
          prs_status := Some (pop_status p), prs_usage := pop_usage p\<rparr>) (rps_provider_requests st)\<rparr>"
  using assms by (auto simp: on_provider_response_def split: option.splits)

lemma interaction_E:
  assumes "on_interaction e p st = Inr st'"
  obtains (plain) "inp_related_interaction_id p = None"
      "inp_interaction_id p \<notin> set (dict_keys (rps_interactions st))"
      "evt_producer e = Producer_PARTICIPANT \<Longrightarrow> evt_actor e = Some (rps_current_writer st)"
      "st' = st\<lparr>rps_interactions := dict_set (inp_interaction_id p) (e, p) (rps_interactions st)\<rparr>"
    | (result) related_id re related where "inp_related_interaction_id p = Some related_id"
      "inp_interaction_id p \<notin> set (dict_keys (rps_interactions st))"
      "evt_producer e = Producer_PARTICIPANT \<Longrightarrow> evt_actor e = Some (rps_current_writer st)"
      "dict_get (rps_interactions st) related_id = Some (re, related)"
      "inp_direction related = Direction_TOOL_REQUEST" "related_id \<notin> rps_resolved_tool_requests st"
      "inp_tool_name related = Some EXECUTOR_PARTICIPANT_TOOL_NAME \<Longrightarrow>
         related_id \<in> set (dict_keys (rps_reservations st)) \<Longrightarrow> related_id \<in> set (dict_keys (rps_terminals st))"
      "st' = st\<lparr>rps_resolved_tool_requests := insert related_id (rps_resolved_tool_requests st),
         rps_interactions := dict_set (inp_interaction_id p) (e, p) (rps_interactions st)\<rparr>"
  using assms by (force simp: on_interaction_def resolve_request_def split: option.splits prod.splits)

lemma tool_reserved_E:
  assumes "on_tool_reserved env e p st = Inr st'"
  obtains re request where
    "dict_get (rps_interactions st) (trp_request_interaction_id p) = Some (re, request)"
    "inp_direction request = Direction_TOOL_REQUEST"
    "trp_request_interaction_id p \<notin> rps_resolved_tool_requests st"
    "inp_tool_name request = Some EXECUTOR_PARTICIPANT_TOOL_NAME"
    "trp_request_interaction_id p \<notin> set (dict_keys (rps_reservations st))"
    "trp_budget_digest p = srb_budget_digest (bnd_session (env_binding env))"
    "st' = st\<lparr>rps_reservations := dict_set (trp_request_interaction_id p) (e, p) (rps_reservations st)\<rparr>"
  using assms by (auto simp: on_tool_reserved_def Let_def split: option.splits)

lemma tool_terminal_E:
  assumes "on_tool_terminal terminal st = Inr st'"
  obtains re reservation where
    "dict_get (rps_reservations st) (terminal_request_id terminal) = Some (re, reservation)"
    "terminal_request_id terminal \<notin> set (dict_keys (rps_terminals st))"
    "terminal_request_id terminal \<notin> rps_resolved_tool_requests st"
    "terminal_invocation_id terminal = trp_invocation_id reservation"
    "terminal_invocation_id terminal \<notin> set (dict_keys (rps_leases st))"
    "\<And>f p. terminal = Terminal_Settled f p \<Longrightarrow> check_settlement p reservation st = Inr ()"
    "st' = st\<lparr>rps_terminals := dict_set (terminal_request_id terminal) terminal (rps_terminals st)\<rparr>"
  using assms by (auto simp: on_tool_terminal_def Let_def split: option.splits ToolTerminal.splits)

lemma control_transferred_E:
  assumes "on_control_transferred env e p st = Inr st'"
  obtains "srb_handoff_enabled (bnd_session (env_binding env))" "ctp_previous_writer p = rps_current_writer st"
    "ctp_next_writer p \<in> env_actor_ids env" "evt_actor e = Some (rps_current_writer st)"
    "st' = st\<lparr>rps_current_writer := ctp_next_writer p\<rparr>"
  using assms by (auto simp: on_control_transferred_def)

lemma candidate_submitted_E:
  assumes "on_candidate_submitted e p st = Inr st'"
  obtains "evt_actor e = Some (rps_current_writer st)"
    "csp_candidate_id p \<notin> set (dict_keys (rps_candidates st))"
    "st' = st\<lparr>rps_candidates := dict_set (csp_candidate_id p)
       \<lparr>cst_candidate_id = csp_candidate_id p, cst_digest = csp_candidate_digest p,
        cst_parent_candidate_id = csp_parent_candidate_id p, cst_actor = rps_current_writer st\<rparr>
         (rps_candidates st),
       rps_results := dict_set (csp_candidate_id p) [] (rps_results st)\<rparr>"
  using assms by (auto simp: on_candidate_submitted_def)

lemma evaluation_started_E:
  assumes "on_evaluation_started env p st = Inr st'"
  obtains results eligibility where "esp_candidate_id p \<in> set (dict_keys (rps_candidates st))"
    "esp_candidate_id p \<notin> set (dict_keys (rps_scoring st))"
    "esp_job_id p \<notin> set (dict_keys (rps_job_states st))"
    "dict_get (rps_results st) (esp_candidate_id p) = Some results"
    "stage_eligibility (env_task env) results (esp_stage_id p) = Inr eligibility"
    "elg_state eligibility = Stage_READY"
    "st' = st\<lparr>rps_active_jobs := dict_set (esp_job_id p) (esp_candidate_id p, esp_stage_id p) (rps_active_jobs st),
       rps_job_states := dict_set (esp_job_id p) Job_QUEUED (rps_job_states st)\<rparr>"
  using assms by (auto simp: on_evaluation_started_def)

lemma job_state_changed_E:
  assumes "on_job_state_changed p st = Inr st'"
  obtains previous where "dict_get (rps_job_states st) (jsp_job_id p) = Some previous"
    "jsp_state p \<in> JOB_TRANSITIONS previous"
    "st' = st\<lparr>rps_job_states := dict_set (jsp_job_id p) (jsp_state p) (rps_job_states st)\<rparr>"
  using assms by (auto simp: on_job_state_changed_def split: option.splits)

lemma evaluation_completed_E:
  assumes "on_evaluation_completed env e p st = Inr st'"
  obtains results state validated where
    "dict_get (rps_active_jobs st) (ecp_job_id p) = Some (ecp_candidate_id p, sgr_stage_id (ecp_result p))"
    "dict_get (rps_job_states st) (ecp_job_id p) = Some state" "state \<in> TERMINAL_JOB_STATES"
    "dict_get (rps_results st) (ecp_candidate_id p) = Some results"
    "validate_stage_results (env_task env) (results @ [ecp_result p]) = Inr validated"
    "validate_measurement_provenance env (ecp_result p) (rps_artifacts st) = Inr ()"
    "st' = st\<lparr>rps_results := dict_set (ecp_candidate_id p) (results @ [ecp_result p]) (rps_results st),
       rps_stage_results := rps_stage_results st
         @ [\<lparr>csr_candidate_id = ecp_candidate_id p, csr_result = ecp_result p\<rparr>],
       rps_active_jobs := dict_pop (ecp_job_id p) (rps_active_jobs st)\<rparr>"
  using assms by (auto simp: on_evaluation_completed_def split: option.splits)

lemma scoring_recorded_E:
  assumes "on_scoring_recorded env p st = Inr st'"
  obtains results where "srp_candidate_id p \<in> set (dict_keys (rps_candidates st))"
    "srp_candidate_id p \<notin> set (dict_keys (rps_scoring st))"
    "\<And>c s. (c, s) \<in> set (dict_values (rps_active_jobs st)) \<Longrightarrow> c \<noteq> srp_candidate_id p"
    "dict_get (rps_results st) (srp_candidate_id p) = Some results"
    "validate_scoring_decision env results (srp_decision p) = Inr ()"
    "st' = st\<lparr>rps_scoring := dict_set (srp_candidate_id p)
       \<lparr>css_candidate_id = srp_candidate_id p, css_decision = srp_decision p\<rparr> (rps_scoring st)\<rparr>"
  using assms by (fastforce simp: on_scoring_recorded_def Let_def list_ex_iff)

lemma license_decision_E:
  assumes "on_license_decision job_id binding_id st = Inr st'"
  obtains "job_id \<notin> rps_license_decisions st"
    "st' = st\<lparr>rps_license_decisions := insert job_id (rps_license_decisions st)\<rparr>"
  using assms by (auto simp: on_license_decision_def)

lemma license_acquired_E:
  assumes "on_license_acquired e p st = Inr st'"
  obtains "llp_job_id p \<notin> rps_license_decisions st"
    "st' = st\<lparr>rps_license_decisions := insert (llp_job_id p) (rps_license_decisions st),
       rps_leases := dict_set (llp_job_id p) (e, p) (rps_leases st)\<rparr>"
  using assms by (auto simp: on_license_acquired_def elim!: license_decision_E)

lemma license_closed_E:
  assumes "on_license_closed e p st = Inr st'"
  obtains "llp_job_id p \<in> set (dict_keys (rps_leases st))"
    "st' = st\<lparr>rps_leases := dict_pop (llp_job_id p) (rps_leases st)\<rparr>"
  using assms dict_get_Some_keys [of "rps_leases st" "llp_job_id p"]
  by (auto simp: on_license_closed_def split: option.splits)

lemma artifact_recorded_E:
  assumes "on_artifact_recorded p st = Inr st'"
  obtains "art_logical_id (arp_record p) \<notin> set (dict_keys (rps_artifacts st))"
    "st' = st\<lparr>rps_artifacts := dict_set (art_logical_id (arp_record p)) (arp_record p) (rps_artifacts st)\<rparr>"
  using assms by (auto simp: on_artifact_recorded_def)

lemma checkpoint_committed_E:
  assumes "on_checkpoint_committed e p st = Inr st'"
  obtains "ccp_checkpoint_id p \<notin> set (rps_checkpoints st)"
    "st' = st\<lparr>rps_checkpoints := rps_checkpoints st @ [ccp_checkpoint_id p],
       rps_checkpoint_events := dict_set (ccp_checkpoint_id p) (e, p) (rps_checkpoint_events st)\<rparr>"
  using assms by (auto simp: on_checkpoint_committed_def split: list.splits)

lemma run_ended_E:
  assumes "on_run_ended env lifecycle e p st = Inr st'"
  obtains winner where "rps_active_jobs st = []" "rps_leases st = []" "\<not> unsettled_provider st"
    "\<not> unresolved_interaction st" "\<not> active_dispatch st"
    "list_all (\<lambda>state. state \<in> TERMINAL_JOB_STATES) (dict_values (rps_job_states st))"
    "evt_producer e = Producer_PARTICIPANT \<Longrightarrow> evt_actor e = Some (rps_current_writer st)"
    "rep_reason p = Stop_VERIFIER_SUCCESS \<Longrightarrow>
       \<exists>c. winner = Some c \<and> check_success env (rep_successful_candidate_id p) st = Inr c"
    "rep_reason p \<noteq> Stop_VERIFIER_SUCCESS \<Longrightarrow> winner = rps_successful_candidate st"
    "st' = st\<lparr>rps_successful_candidate := winner, rps_terminal_reason := Some (rep_reason p)\<rparr>"
proof -
  have same: "st\<lparr>rps_terminal_reason := r\<rparr>
      = st\<lparr>rps_successful_candidate := rps_successful_candidate st, rps_terminal_reason := r\<rparr>" for r by simp
  show thesis
  proof (cases "rep_reason p = Stop_VERIFIER_SUCCESS")
    case True
    with assms obtain c where "check_success env (rep_successful_candidate_id p) st = Inr c"
      "st' = st\<lparr>rps_successful_candidate := Some c, rps_terminal_reason := Some (rep_reason p)\<rparr>"
      by (auto simp: on_run_ended_def)
    with True assms show thesis
      by (intro that [of "Some c"]) (auto simp: on_run_ended_def list_ex_iff list_all_iff)
  next
    case False
    with assms show thesis
      by (intro that [of "rps_successful_candidate st"]) (auto simp: on_run_ended_def list_ex_iff list_all_iff)
  qed
qed

lemmas handler_elims = incarnation_started_E incarnation_terminated_E incarnation_restored_E provider_request_E
  provider_response_E interaction_E tool_reserved_E tool_terminal_E control_transferred_E
  candidate_submitted_E evaluation_started_E job_state_changed_E evaluation_completed_E
  scoring_recorded_E license_acquired_E license_decision_E license_closed_E artifact_recorded_E
  checkpoint_committed_E run_ended_E

lemma on_event_prefix:
  assumes "on_event env lifecycle e st = Inr st'"
  shows "rps_prefix st' = rps_prefix st \<and> rps_event_ids st' = rps_event_ids st"
  using assms by (cases "evt_payload e") (auto simp: on_event_def elim!: handler_elims)

lemma replay_event_E:
  assumes "replay_event env st e = Inr st'"
  obtains lifecycle st1 where "check_envelope env st e = Inr ()"
    "participant_incarnation_lifecycle (env_digests env) (rps_prefix st) = Inr lifecycle"
    "check_incarnation env st lifecycle e = Inr ()"
    "on_event env lifecycle e st = Inr st1"
    "st' = st1\<lparr>rps_prefix := rps_prefix st @ [e], rps_event_ids := insert (evt_event_id e) (rps_event_ids st)\<rparr>"
  using assms on_event_prefix [of env _ e st] unfolding replay_event_def bind_result_eq_Inr by fastforce

lemma check_envelope_E:
  assumes "check_envelope env st e = Inr ()"
  obtains "evt_run_id e = hdr_run_id (env_header env)" "evt_sequence e = int (length (rps_prefix st))"
    "evt_event_id e \<notin> rps_event_ids st" "rps_terminal_reason st = None"
    "set_option (evt_actor e) \<subseteq> env_actor_ids env"
    "validate_event_producer e = Inr ()" "validate_artifact_references e (rps_artifacts st) = Inr ()"
    "check_start env (length (rps_prefix st)) e = Inr ()"
  using assms by (cases "evt_actor e") (auto simp: check_envelope_def split: if_splits)

lemma replay_loop_prefix: "replay_loop env es = Inr st \<Longrightarrow> rps_prefix st = es"
  unfolding replay_loop_def
proof (induction es arbitrary: st rule: rev_induct)
  case (snoc e es)
  then show ?case by (auto simp: fold_result_append elim!: replay_event_E)
qed (simp add: replay_init_def)

interpretation replay_run: projection "replay_event env" "replay_init env" for env .

subsection \<open>Identity and order of events\<close>

definition envelope_inv :: "replay_env \<Rightarrow> replay_state \<Rightarrow> bool" where
  "envelope_inv env st \<longleftrightarrow> rps_event_ids st = set (map evt_event_id (rps_prefix st))
     \<and> distinct (map evt_event_id (rps_prefix st))
     \<and> map evt_sequence (rps_prefix st) = map int [0..<length (rps_prefix st)]
     \<and> (\<forall>e\<in>set (rps_prefix st). evt_run_id e = hdr_run_id (env_header env)
          \<and> set_option (evt_actor e) \<subseteq> env_actor_ids env \<and> validate_event_producer e = Inr ())"

interpretation envelope: invariant_projection "replay_event env" "replay_init env" "envelope_inv env" for env
proof
  show "envelope_inv env (replay_init env)" by (simp add: envelope_inv_def replay_init_def)
  show "envelope_inv env t" if "envelope_inv env s" "replay_event env s e = Inr t" for s e t
    using that by (elim replay_event_E check_envelope_E) (simp add: envelope_inv_def)
qed

subsection \<open>Termination\<close>

text \<open>Nothing is outstanding once a run has ended, and the event that ended it is the last one.\<close>

definition is_run_ended :: "RunEvent \<Rightarrow> bool" where
  "is_run_ended e = (case evt_payload e of RunEnded _ \<Rightarrow> True | _ \<Rightarrow> False)"

definition ended_inv :: "replay_env \<Rightarrow> replay_state \<Rightarrow> bool" where
  "ended_inv env st \<longleftrightarrow>
     (rps_terminal_reason st \<noteq> None \<longleftrightarrow> rps_prefix st \<noteq> [] \<and> is_run_ended (last (rps_prefix st)))
     \<and> list_all (\<lambda>e. \<not> is_run_ended e) (butlast (rps_prefix st))
     \<and> (rps_terminal_reason st \<noteq> None \<longrightarrow>
          rps_active_jobs st = [] \<and> rps_leases st = [] \<and> \<not> unsettled_provider st
          \<and> \<not> unresolved_interaction st \<and> \<not> active_dispatch st
          \<and> list_all (\<lambda>s. s \<in> TERMINAL_JOB_STATES) (dict_values (rps_job_states st)))"

lemma on_event_terminal:
  assumes "on_event env lifecycle e st = Inr st'" "rps_terminal_reason st = None"
  shows "rps_terminal_reason st' \<noteq> None \<longleftrightarrow> is_run_ended e"
  using assms by (cases "evt_payload e") (auto simp: on_event_def is_run_ended_def elim!: handler_elims)

lemma on_event_ended:
  assumes "on_event env lifecycle e st = Inr st'" "is_run_ended e"
  shows "rps_active_jobs st' = [] \<and> rps_leases st' = [] \<and> \<not> unsettled_provider st'
     \<and> \<not> unresolved_interaction st' \<and> \<not> active_dispatch st'
     \<and> list_all (\<lambda>s. s \<in> TERMINAL_JOB_STATES) (dict_values (rps_job_states st'))"
  using assms by (cases "evt_payload e")
    (auto simp: on_event_def is_run_ended_def unsettled_provider_def unresolved_interaction_def
      active_dispatch_def elim!: run_ended_E)

lemma snoc_ended: "list_all (\<lambda>e. \<not> P e) (butlast xs) \<Longrightarrow> xs = [] \<or> \<not> P (last xs) \<Longrightarrow> list_all (\<lambda>e. \<not> P e) xs"
  by (induction xs rule: rev_induct) auto

interpretation ended: invariant_projection "replay_event env" "replay_init env" "ended_inv env" for env
proof
  show "ended_inv env (replay_init env)" by (simp add: ended_inv_def replay_init_def)
  fix s e t assume inv: "ended_inv env s" and step: "replay_event env s e = Inr t"
  from step show "ended_inv env t"
  proof (elim replay_event_E check_envelope_E)
    fix lifecycle st1
    assume on: "on_event env lifecycle e s = Inr st1" and running: "rps_terminal_reason s = None"
      and t: "t = st1\<lparr>rps_prefix := rps_prefix s @ [e], rps_event_ids := insert (evt_event_id e) (rps_event_ids s)\<rparr>"
    note ended = on_event_terminal [OF on running]
    have all: "list_all (\<lambda>e. \<not> is_run_ended e) (rps_prefix s)"
      by (rule snoc_ended) (use inv running in \<open>auto simp: ended_inv_def\<close>)
    show ?thesis
      unfolding ended_inv_def t using ended all on_event_ended [OF on]
      by (simp add: unsettled_provider_def unresolved_interaction_def active_dispatch_def)
  qed
qed

subsection \<open>Projections that replay subsumes\<close>

text \<open>Replay runs the lease projection along, so a journal it accepts is accepted by that projection.\<close>

interpretation leases: simulation "replay_event env" "replay_init env" lease_step "[]"
  "\<lambda>st active. active = rps_leases st \<and> set (dict_keys active) \<subseteq> rps_license_decisions st" for env
proof
  fix s t e s'
  assume rel: "t = rps_leases s \<and> set (dict_keys t) \<subseteq> rps_license_decisions s"
    and step: "replay_event env s e = Inr s'"
  from step obtain lifecycle st1 where on: "on_event env lifecycle e s = Inr st1"
    and s': "rps_leases s' = rps_leases st1" "rps_license_decisions s' = rps_license_decisions st1"
    by (auto elim!: replay_event_E)
  have "lease_step (rps_leases s) e = Inr (rps_leases st1)
      \<and> set (dict_keys (rps_leases st1)) \<subseteq> rps_license_decisions st1"
    using on rel
    by (cases "evt_payload e")
      (auto simp: on_event_def lease_step_def close_lease_def reject_if_def dict_simps elim!: handler_elims)
  with s' rel show "\<exists>t'. lease_step t e = Inr t' \<and> t' = rps_leases s'
      \<and> set (dict_keys t') \<subseteq> rps_license_decisions s'" by simp
qed (simp add: replay_init_def)

interpretation dispatches: simulation "replay_event env" "replay_init env" dispatch_step "([], [])"
  "\<lambda>st d. d = (rps_reservations st, rps_terminals st)" for env
proof
  fix s t e s'
  assume rel: "t = (rps_reservations s, rps_terminals s)" and step: "replay_event env s e = Inr s'"
  from step obtain lifecycle st1 where on: "on_event env lifecycle e s = Inr st1"
    and s': "rps_reservations s' = rps_reservations st1" "rps_terminals s' = rps_terminals st1"
    by (auto elim!: replay_event_E)
  have "dispatch_step (rps_reservations s, rps_terminals s) e = Inr (rps_reservations st1, rps_terminals st1)"
    using on
    by (cases "evt_payload e")
      (auto simp: on_event_def dispatch_step_def tool_terminal_of_def reject_if_def
        dest: dict_get_Some_keys elim!: handler_elims)
  with s' rel show "\<exists>t'. dispatch_step t e = Inr t' \<and> t' = (rps_reservations s', rps_terminals s')" by simp
qed (simp add: replay_init_def)

subsection \<open>Reservations bound what is settled\<close>

definition within_reservation :: "ParticipantToolReservedPayload \<Rightarrow> ToolTerminal \<Rightarrow> bool" where
  "within_reservation r terminal \<longleftrightarrow>
     (case terminal of
        Terminal_Settled _ p \<Rightarrow> tsp_elapsed_milliseconds p \<le> trp_reserved_compute_milliseconds r
          \<and> tsp_license_milliseconds p \<le> trp_reserved_license_milliseconds r
      | Terminal_Lost _ _ \<Rightarrow> True)"

definition dispatch_inv :: "replay_state \<Rightarrow> bool" where
  "dispatch_inv st \<longleftrightarrow> dict_wf (rps_reservations st)
     \<and> (\<forall>k terminal. dict_get (rps_terminals st) k = Some terminal \<longrightarrow>
          (\<exists>re r. dict_get (rps_reservations st) k = Some (re, r) \<and> within_reservation r terminal))"

lemma dispatch_inv_reserve:
  assumes "dispatch_inv st" "k \<notin> set (dict_keys (rps_reservations st))"
  shows "dispatch_inv (st\<lparr>rps_reservations := dict_set k v (rps_reservations st)\<rparr>)"
  using assms dict_get_Some_keys unfolding dispatch_inv_def by (fastforce simp: dict_simps)

lemma dispatch_inv_terminal:
  assumes "dispatch_inv st" "dict_get (rps_reservations st) k = Some (re, r)" "within_reservation r terminal"
  shows "dispatch_inv (st\<lparr>rps_terminals := dict_set k terminal (rps_terminals st)\<rparr>)"
  using assms unfolding dispatch_inv_def by (auto simp: dict_simps)

lemma on_event_dispatch_inv:
  assumes inv: "dispatch_inv st" and on: "on_event env lifecycle e st = Inr st'"
  shows "dispatch_inv st'"
proof -
  have settle: "dispatch_inv u" if "on_tool_terminal terminal st = Inr u" for terminal u
    using that
  proof (elim tool_terminal_E)
    fix re r assume r: "dict_get (rps_reservations st) (terminal_request_id terminal) = Some (re, r)"
      and ok: "\<And>f p. terminal = Terminal_Settled f p \<Longrightarrow> check_settlement p r st = Inr ()"
      and u: "u = st\<lparr>rps_terminals := dict_set (terminal_request_id terminal) terminal (rps_terminals st)\<rparr>"
    have "within_reservation r terminal"
      by (cases terminal) (use ok in \<open>auto simp: within_reservation_def check_settlement_def\<close>)
    with dispatch_inv_terminal [OF inv r] u show ?thesis by simp
  qed
  show ?thesis
    using on inv
    by (cases "evt_payload e")
      (auto simp: on_event_def settle elim!: handler_elims dispatch_inv_reserve;
       auto simp: dispatch_inv_def)+
qed

interpretation reservations: invariant_projection "replay_event env" "replay_init env" dispatch_inv for env
proof
  show "dispatch_inv (replay_init env)" by (simp add: dispatch_inv_def replay_init_def)
  fix s e t assume inv: "dispatch_inv s" and "replay_event env s e = Inr t"
  then obtain lifecycle st1 where "on_event env lifecycle e s = Inr st1"
    and t: "rps_reservations t = rps_reservations st1" "rps_terminals t = rps_terminals st1"
    by (auto elim!: replay_event_E)
  with on_event_dispatch_inv [OF inv] have "dispatch_inv st1" by blast
  with t show "dispatch_inv t" by (simp add: dispatch_inv_def)
qed

subsection \<open>The chain of participant incarnations\<close>

definition recovery_links :: "run_digests \<Rightarrow> ParticipantIncarnationBinding \<Rightarrow> ParticipantIncarnationBinding
    \<Rightarrow> ParticipantIncarnationRecovery \<Rightarrow> bool" where
  "recovery_links dg before after r \<longleftrightarrow>
     itp_incarnation_digest (rec_termination r) = rdg_incarnation dg before
     \<and> rec_restored_incarnation_digest r = rdg_incarnation dg after
     \<and> rec_restored_manifest_digest r = itp_checkpoint_manifest_digest (rec_termination r)
     \<and> rec_terminated_sequence r < rec_restored_sequence r
     \<and> rdg_process dg (pib_process after) \<noteq> rdg_process dg (pib_process before)
     \<and> pib_workspace_identity_digest after \<noteq> pib_workspace_identity_digest before
     \<and> pib_artifact_directory_identity_digest after \<noteq> pib_artifact_directory_identity_digest before"

definition lifecycle_inv :: "run_digests \<Rightarrow> ParticipantIncarnationLifecycle \<Rightarrow> bool" where
  "lifecycle_inv dg l \<longleftrightarrow>
     map pib_generation (lfc_incarnations l) = map int [0..<length (lfc_incarnations l)]
     \<and> length (lfc_recoveries l) = length (lfc_incarnations l) - 1
     \<and> (lfc_incarnations l = [] \<longleftrightarrow> lfc_initial_started_sequence l = None)
     \<and> (lfc_incarnations l = [] \<longrightarrow> lfc_active_incarnation l = None \<and> lfc_pending_termination l = None)
     \<and> (lfc_incarnations l \<noteq> [] \<longrightarrow> (lfc_active_incarnation l = None) = (lfc_pending_termination l \<noteq> None))
     \<and> (lfc_pending_termination l = None \<longleftrightarrow> lfc_pending_termination_sequence l = None)
     \<and> set_option (lfc_active_incarnation l) \<subseteq> {last (lfc_incarnations l)}
     \<and> itp_incarnation_digest ` set_option (lfc_pending_termination l)
          \<subseteq> {rdg_incarnation dg (last (lfc_incarnations l))}
     \<and> (\<forall>i<length (lfc_recoveries l). recovery_links dg (lfc_incarnations l ! i)
          (lfc_incarnations l ! Suc i) (lfc_recoveries l ! i))"

lemma lifecycle_inv_started:
  assumes "lifecycle_inv dg l" "lifecycle_started l n p = Inr l'"
  shows "lifecycle_inv dg l'"
  using assms by (auto simp: lifecycle_inv_def lifecycle_started_def)

lemma lifecycle_inv_terminated:
  assumes "lifecycle_inv dg l" "lifecycle_terminated dg l n p = Inr l'"
  shows "lifecycle_inv dg l'"
  using assms by (auto simp: lifecycle_inv_def lifecycle_terminated_def split: option.splits)

lemma lifecycle_inv_restored:
  assumes inv: "lifecycle_inv dg l" and step: "lifecycle_restored dg l n p = Inr l'"
  shows "lifecycle_inv dg l'"
proof -
  from step obtain pending m recovery where pend: "lfc_pending_termination l = Some pending"
      "lfc_pending_termination_sequence l = Some m" "lfc_active_incarnation l = None" "lfc_incarnations l \<noteq> []"
    and match: "restore_matches dg (last (lfc_incarnations l)) pending p"
    and recovery: "ParticipantIncarnationRecovery_validate
       \<lparr>rec_termination = pending, rec_terminated_sequence = m, rec_restored_sequence = n,
        rec_restored_incarnation_digest = rdg_incarnation dg (irp_incarnation p),
        rec_restored_manifest_digest = irp_restored_manifest_digest p\<rparr> = Inr recovery"
    and l': "l' = l\<lparr>lfc_active_incarnation := Some (irp_incarnation p),
       lfc_incarnations := lfc_incarnations l @ [irp_incarnation p],
       lfc_recoveries := lfc_recoveries l @ [recovery],
       lfc_pending_termination := None, lfc_pending_termination_sequence := None\<rparr>"
    by (auto simp: lifecycle_restored_def split: option.splits)
  let ?k = "length (lfc_recoveries l)"
  have k: "length (lfc_incarnations l) = Suc ?k" and last: "last (lfc_incarnations l) = lfc_incarnations l ! ?k"
    using inv pend by (auto simp: lifecycle_inv_def last_conv_nth)
  have links: "recovery_links dg (lfc_incarnations l ! ?k) (irp_incarnation p) recovery"
    using match recovery inv pend unfolding last [symmetric]
    by (auto simp: recovery_links_def restore_matches_def ParticipantIncarnationRecovery_validate_def
      lifecycle_inv_def split: if_splits)
  have gen: "pib_generation (irp_incarnation p) = int (length (lfc_incarnations l))"
  proof -
    have "map pib_generation (lfc_incarnations l) ! ?k = int ?k"
      using inv k by (simp add: lifecycle_inv_def del: upt_Suc)
    with k match last show ?thesis by (simp add: restore_matches_def)
  qed
  have generations: "map pib_generation (lfc_incarnations l') = map int [0..<length (lfc_incarnations l')]"
    using inv gen l' by (simp add: lifecycle_inv_def)
  have chain: "recovery_links dg (lfc_incarnations l' ! i) (lfc_incarnations l' ! Suc i) (lfc_recoveries l' ! i)"
    if "i < length (lfc_recoveries l')" for i
  proof (cases "i = ?k")
    case True
    with links k l' show ?thesis by (simp add: nth_append)
  next
    case False
    with that l' have "i < ?k" by simp
    with inv k l' show ?thesis by (simp add: lifecycle_inv_def nth_append)
  qed
  have "lfc_initial_started_sequence l \<noteq> None" using inv pend(4) by (simp add: lifecycle_inv_def)
  then show ?thesis
    unfolding lifecycle_inv_def
    by (intro conjI generations allI impI chain) (simp_all add: l' k)
qed

interpretation lifecycle: invariant_projection "lifecycle_step dg" lifecycle_init "lifecycle_inv dg" for dg
proof
  show "lifecycle_inv dg lifecycle_init" by (simp add: lifecycle_inv_def lifecycle_init_def)
  fix s e t assume inv: "lifecycle_inv dg s" and "lifecycle_step dg s e = Inr t"
  then show "lifecycle_inv dg t"
    by (cases "evt_payload e")
      (auto simp: lifecycle_step_def intro: lifecycle_inv_started [OF inv] lifecycle_inv_terminated [OF inv]
        lifecycle_inv_restored [OF inv])
qed

text \<open>Only the three incarnation events move the lifecycle.\<close>

definition is_incarnation_event :: "RunEvent \<Rightarrow> bool" where
  "is_incarnation_event e =
     (case evt_payload e of ParticipantIncarnationStarted _ \<Rightarrow> True | ParticipantIncarnationTerminated _ \<Rightarrow> True
      | ParticipantIncarnationRestored _ \<Rightarrow> True | _ \<Rightarrow> False)"

lemma lifecycle_snoc_other:
  assumes "\<not> is_incarnation_event e"
  shows "participant_incarnation_lifecycle dg (es @ [e]) = participant_incarnation_lifecycle dg es"
proof -
  have "lifecycle_step dg l e = Inr l" for l
    using assms by (cases "evt_payload e") (auto simp: lifecycle_step_def is_incarnation_event_def)
  then show ?thesis
    by (cases "fold_result (lifecycle_step dg) lifecycle_init es")
      (auto simp: participant_incarnation_lifecycle_def fold_result_append)
qed

definition incarnation_inv :: "replay_env \<Rightarrow> replay_state \<Rightarrow> bool" where
  "incarnation_inv env st \<longleftrightarrow>
     (\<exists>l. participant_incarnation_lifecycle (env_digests env) (rps_prefix st) = Inr l)"

lemma on_event_lifecycle:
  assumes "on_event env lifecycle e st = Inr st'" "is_incarnation_event e"
  shows "\<exists>l. participant_incarnation_lifecycle (env_digests env) (rps_prefix st @ [e]) = Inr l"
  using assms
  by (cases "evt_payload e")
    (auto simp: on_event_def is_incarnation_event_def on_incarnation_terminated_def
      on_incarnation_restored_def on_incarnation_started_def simp del: One_nat_def)

interpretation incarnations: invariant_projection "replay_event env" "replay_init env" "incarnation_inv env" for env
proof
  show "incarnation_inv env (replay_init env)"
    by (simp add: incarnation_inv_def replay_init_def participant_incarnation_lifecycle_def lifecycle_init_def
      ParticipantIncarnationLifecycle_validate_def List.map_filter_def)
  fix s e t assume "incarnation_inv env s" and step: "replay_event env s e = Inr t"
  from step obtain lifecycle st1 where on: "on_event env lifecycle e s = Inr st1"
    and l: "participant_incarnation_lifecycle (env_digests env) (rps_prefix s) = Inr lifecycle"
    and t: "rps_prefix t = rps_prefix s @ [e]" by (auto elim!: replay_event_E)
  show "incarnation_inv env t"
    using on_event_lifecycle [OF on] lifecycle_snoc_other [of e] l
    unfolding incarnation_inv_def t by (cases "is_incarnation_event e") auto
qed

end
