(* ===== verification/ReplayInvariants.thy ===== *)
theory ReplayInvariants
  imports ReplayFacts
begin

section \<open>What replay maintains about candidates, writers, jobs, artifacts and interactions\<close>

text \<open>
  Further interpretations of \<open>invariant_projection\<close> on the replay loop. \<open>evaluation_inv\<close> ties the
  results and scores kept per candidate to the recorded facts, \<open>success_inv\<close> is what a verifier
  success guarantees, \<open>writer_inv\<close> attributes participant events to the writer of their moment,
  \<open>job_inv\<close> makes every job history a path of the transition table, \<open>artifact_inv\<close> bounds what an event
  discloses, and \<open>interaction_inv\<close> reads the open tool requests off the journal.
\<close>

subsection \<open>Candidates, results and scores\<close>

definition results_of :: "Identifier \<Rightarrow> CandidateStageResult list \<Rightarrow> StageResult list" where
  "results_of c rs = map csr_result (filter (\<lambda>r. csr_candidate_id r = c) rs)"

text \<open>
  The results kept per candidate are the recorded ones in order and always form a valid snapshot; a
  candidate with an open evaluation is not scored; and a scoring decision agrees with the results of
  its candidate, which therefore no longer change.
\<close>

definition evaluation_inv :: "replay_env \<Rightarrow> replay_state \<Rightarrow> bool" where
  "evaluation_inv env st \<longleftrightarrow>
     set (dict_keys (rps_results st)) = set (dict_keys (rps_candidates st))
     \<and> (\<forall>c rs. dict_get (rps_results st) c = Some rs \<longrightarrow> rs = results_of c (rps_stage_results st)
          \<and> (rs = [] \<or> (\<exists>v. validate_stage_results (env_task env) rs = Inr v)))
     \<and> csr_candidate_id ` set (rps_stage_results st) \<subseteq> set (dict_keys (rps_candidates st))
     \<and> dict_wf (rps_active_jobs st)
     \<and> (\<forall>j c s. dict_get (rps_active_jobs st) j = Some (c, s) \<longrightarrow>
          c \<in> set (dict_keys (rps_candidates st)) \<and> c \<notin> set (dict_keys (rps_scoring st)))
     \<and> (\<forall>c d. dict_get (rps_scoring st) c = Some d \<longrightarrow> css_candidate_id d = c
          \<and> (\<exists>rs. dict_get (rps_results st) c = Some rs \<and> validate_scoring_decision env rs (css_decision d) = Inr ()))
     \<and> (\<forall>c d. dict_get (rps_candidates st) c = Some d \<longrightarrow> cst_candidate_id d = c)"

lemmas evaluation_invD =
  evaluation_inv_def [THEN iffD1, THEN conjunct1]
  evaluation_inv_def [THEN iffD1, THEN conjunct2, THEN conjunct1, rule_format]
  evaluation_inv_def [THEN iffD1, THEN conjunct2, THEN conjunct2, THEN conjunct1]
  evaluation_inv_def [THEN iffD1, THEN conjunct2, THEN conjunct2, THEN conjunct2, THEN conjunct1]
  evaluation_inv_def [THEN iffD1, THEN conjunct2, THEN conjunct2, THEN conjunct2, THEN conjunct2, THEN conjunct1, rule_format]
  evaluation_inv_def [THEN iffD1, THEN conjunct2, THEN conjunct2, THEN conjunct2, THEN conjunct2, THEN conjunct2, THEN conjunct1, rule_format]
  evaluation_inv_def [THEN iffD1, THEN conjunct2, THEN conjunct2, THEN conjunct2, THEN conjunct2, THEN conjunct2, THEN conjunct2, rule_format]

text \<open>The fields the invariant reads; a handler that leaves them alone keeps it.\<close>

definition evaluation_view where
  "evaluation_view st = (rps_candidates st, rps_results st, rps_stage_results st, rps_scoring st, rps_active_jobs st)"

lemma evaluation_inv_view: "evaluation_view st' = evaluation_view st \<Longrightarrow> evaluation_inv env st' = evaluation_inv env st"
  by (simp add: evaluation_view_def evaluation_inv_def)

lemma results_of_fresh:
  "csr_candidate_id ` set rs \<subseteq> K \<Longrightarrow> c \<notin> K \<Longrightarrow> results_of c rs = []"
  by (auto simp: results_of_def filter_empty_conv)

lemma results_of_snoc:
  "results_of c (rs @ [r]) = (if csr_candidate_id r = c then results_of c rs @ [csr_result r] else results_of c rs)"
  by (simp add: results_of_def)

lemma evaluation_inv_submitted:
  assumes inv: "evaluation_inv env st" and on: "on_candidate_submitted e p st = Inr st'"
  shows "evaluation_inv env st'"
  using on
proof (elim candidate_submitted_E)
  note [simp] = dict_get_set dict_keys_set
  let ?c = "csp_candidate_id p"
  assume fresh: "?c \<notin> set (dict_keys (rps_candidates st))"
    and st': "st' = st\<lparr>rps_candidates := dict_set ?c
       \<lparr>cst_candidate_id = ?c, cst_digest = csp_candidate_digest p,
        cst_parent_candidate_id = csp_parent_candidate_id p, cst_actor = rps_current_writer st\<rparr>
         (rps_candidates st), rps_results := dict_set ?c [] (rps_results st)\<rparr>"
  have empty: "results_of ?c (rps_stage_results st) = []"
    using evaluation_invD(3) [OF inv] fresh by (rule results_of_fresh)
  have unscored: "d = ?c \<Longrightarrow> dict_get (rps_scoring st) d = None" for d
  proof (rule ccontr)
    assume "d = ?c" "dict_get (rps_scoring st) d \<noteq> None"
    then obtain x where "dict_get (rps_scoring st) ?c = Some x" by auto
    from evaluation_invD(6) [OF inv this] obtain rs where "dict_get (rps_results st) ?c = Some rs" by blast
    with fresh evaluation_invD(1) [OF inv] show False by (auto dest: dict_get_Some_keys)
  qed
  show ?thesis
    unfolding evaluation_inv_def st'
  proof (intro conjI allI impI, goal_cases)
    case (6 j c s)
    then show ?case using evaluation_invD(5) [OF inv] by simp
  next
    case (9 c d)
    with evaluation_invD(6) [OF inv, of c d] unscored [of c] show ?case by (auto split: if_splits)
  qed (use inv empty evaluation_invD [OF inv] in \<open>auto split: if_splits\<close>)
qed

lemma evaluation_inv_started:
  assumes inv: "evaluation_inv env st" and on: "on_evaluation_started env p st = Inr st'"
  shows "evaluation_inv env st'"
  using on
proof (elim evaluation_started_E)
  note [simp] = dict_get_set
  assume known: "esp_candidate_id p \<in> set (dict_keys (rps_candidates st))"
    "esp_candidate_id p \<notin> set (dict_keys (rps_scoring st))"
    and st': "st' = st\<lparr>rps_active_jobs := dict_set (esp_job_id p) (esp_candidate_id p, esp_stage_id p) (rps_active_jobs st),
       rps_job_states := dict_set (esp_job_id p) Job_QUEUED (rps_job_states st)\<rparr>"
  show ?thesis
    unfolding evaluation_inv_def st'
    using evaluation_invD(1-4) [OF inv] evaluation_invD(5-7) [OF inv] known
    by (auto split: if_splits)
qed

lemma evaluation_inv_scored:
  assumes inv: "evaluation_inv env st" and on: "on_scoring_recorded env p st = Inr st'"
  shows "evaluation_inv env st'"
  using on
proof (elim scoring_recorded_E)
  note [simp] = dict_get_set dict_keys_set
  fix results
  assume settled: "\<And>c s. (c, s) \<in> set (dict_values (rps_active_jobs st)) \<Longrightarrow> c \<noteq> srp_candidate_id p"
    and results: "dict_get (rps_results st) (srp_candidate_id p) = Some results"
    "validate_scoring_decision env results (srp_decision p) = Inr ()"
    and st': "st' = st\<lparr>rps_scoring := dict_set (srp_candidate_id p)
       \<lparr>css_candidate_id = srp_candidate_id p, css_decision = srp_decision p\<rparr> (rps_scoring st)\<rparr>"
  have jobs: "c \<noteq> srp_candidate_id p" if "dict_get (rps_active_jobs st) j = Some (c, s)" for j c s
    using settled dict_get_values [OF that] by blast
  show ?thesis
    unfolding evaluation_inv_def st'
    using evaluation_invD(1-4) [OF inv] evaluation_invD(5-7) [OF inv] results jobs
    by (auto split: if_splits)
qed

lemma evaluation_inv_completed:
  assumes inv: "evaluation_inv env st" and on: "on_evaluation_completed env e p st = Inr st'"
  shows "evaluation_inv env st'"
  using on
proof (elim evaluation_completed_E)
  note [simp] = dict_get_set dict_keys_set dict_get_pop
  let ?c = "ecp_candidate_id p" and ?r = "ecp_result p"
  fix results validated
  assume job: "dict_get (rps_active_jobs st) (ecp_job_id p) = Some (?c, sgr_stage_id ?r)"
    and results: "dict_get (rps_results st) ?c = Some results"
    and valid: "validate_stage_results (env_task env) (results @ [?r]) = Inr validated"
    and st': "st' = st\<lparr>rps_results := dict_set ?c (results @ [?r]) (rps_results st),
       rps_stage_results := rps_stage_results st @ [\<lparr>csr_candidate_id = ?c, csr_result = ?r\<rparr>],
       rps_active_jobs := dict_pop (ecp_job_id p) (rps_active_jobs st)\<rparr>"
  from evaluation_invD(5) [OF inv job]
  have known: "?c \<in> set (dict_keys (rps_candidates st))" "?c \<notin> set (dict_keys (rps_scoring st))" by auto
  have kept: "dict_get (rps_scoring st) d = Some x \<Longrightarrow> d \<noteq> ?c" for d x
    using known(2) by (auto dest: dict_get_Some_keys)
  have of_c: "results = results_of ?c (rps_stage_results st)" using evaluation_invD(2) [OF inv results] by blast
  show ?thesis
    unfolding evaluation_inv_def st'
  proof (intro conjI allI impI, goal_cases)
    case (9 c d)
    with kept [of c d] evaluation_invD(6) [OF inv, of c d] show ?case by simp
  qed (use of_c valid known evaluation_invD(1-4) [OF inv] evaluation_invD(5-7) [OF inv] in
      \<open>auto simp: results_of_snoc split: if_splits\<close>)
qed

lemma on_event_evaluation_view:
  assumes "on_event env lifecycle e st = Inr st'"
  shows "evaluation_view st' = evaluation_view st
     \<or> (\<exists>p. on_candidate_submitted e p st = Inr st') \<or> (\<exists>p. on_evaluation_started env p st = Inr st')
     \<or> (\<exists>p. on_evaluation_completed env e p st = Inr st') \<or> (\<exists>p. on_scoring_recorded env p st = Inr st')"
  using assms
  by (cases "evt_payload e")
    (auto simp: on_event_def evaluation_view_def elim: incarnation_started_E incarnation_terminated_E
      incarnation_restored_E provider_request_E provider_response_E interaction_E tool_reserved_E
      tool_terminal_E control_transferred_E job_state_changed_E license_acquired_E license_decision_E
      license_closed_E artifact_recorded_E checkpoint_committed_E run_ended_E)

lemma on_event_evaluation_inv:
  assumes inv: "evaluation_inv env st" and on: "on_event env lifecycle e st = Inr st'"
  shows "evaluation_inv env st'"
  using on_event_evaluation_view [OF on]
  by (elim disjE exE)
    (rule evaluation_inv_view [THEN iffD2, OF _ inv] evaluation_inv_submitted [OF inv]
      evaluation_inv_started [OF inv] evaluation_inv_completed [OF inv] evaluation_inv_scored [OF inv], assumption)+

interpretation evaluation: invariant_projection "replay_event env" "replay_init env" "evaluation_inv env" for env
proof
  show "evaluation_inv env (replay_init env)" by (simp add: evaluation_inv_def replay_init_def)
  fix s e t assume inv: "evaluation_inv env s" and "replay_event env s e = Inr t"
  then obtain lifecycle st1 where "on_event env lifecycle e s = Inr st1"
    and t: "evaluation_view t = evaluation_view st1" by (auto simp: evaluation_view_def elim!: replay_event_E)
  with on_event_evaluation_inv [OF inv] evaluation_inv_view [OF t] show "evaluation_inv env t" by blast
qed

subsection \<open>Verifier success\<close>

definition success_inv :: "replay_env \<Rightarrow> replay_state \<Rightarrow> bool" where
  "success_inv env st \<longleftrightarrow>
     (if rps_terminal_reason st = Some Stop_VERIFIER_SUCCESS
      then \<exists>c. rps_successful_candidate st = Some c \<and> check_success env (Some c) st = Inr c
      else rps_successful_candidate st = None)"

lemma check_success_cong:
  "rps_candidates st' = rps_candidates st \<Longrightarrow> rps_results st' = rps_results st \<Longrightarrow> rps_scoring st' = rps_scoring st
     \<Longrightarrow> check_success env c st' = check_success env c st"
  by (simp add: check_success_def cong: option.case_cong)

lemma check_success_result: "check_success env w st = Inr c \<Longrightarrow> w = Some c"
  by (auto simp: check_success_def split: option.splits)

lemma on_event_success_inv:
  assumes inv: "success_inv env st" and on: "on_event env lifecycle e st = Inr st'"
    and running: "rps_terminal_reason st = None"
  shows "success_inv env st'"
proof (cases "\<exists>p. evt_payload e = RunEnded p")
  case True
  then obtain p where "on_run_ended env lifecycle e p st = Inr st'" using on by (auto simp: on_event_def)
  then show ?thesis
  proof (elim run_ended_E)
    fix winner
    assume success: "rep_reason p = Stop_VERIFIER_SUCCESS \<Longrightarrow>
        \<exists>c. winner = Some c \<and> check_success env (rep_successful_candidate_id p) st = Inr c"
      and other: "rep_reason p \<noteq> Stop_VERIFIER_SUCCESS \<Longrightarrow> winner = rps_successful_candidate st"
      and st': "st' = st\<lparr>rps_successful_candidate := winner, rps_terminal_reason := Some (rep_reason p)\<rparr>"
    have same: "check_success env c st' = check_success env c st" for c by (rule check_success_cong) (simp_all add: st')
    show ?thesis
      using success other inv running check_success_result [of env "rep_successful_candidate_id p" st]
      by (cases "rep_reason p = Stop_VERIFIER_SUCCESS") (auto simp: success_inv_def same, auto simp: st')
  qed
next
  case False
  with on have "rps_successful_candidate st' = rps_successful_candidate st \<and> rps_terminal_reason st' = None"
    using running by (cases "evt_payload e") (auto simp: on_event_def elim!: handler_elims)
  with inv running show ?thesis by (simp add: success_inv_def)
qed

interpretation success: invariant_projection "replay_event env" "replay_init env" "success_inv env" for env
proof
  show "success_inv env (replay_init env)" by (simp add: success_inv_def replay_init_def)
  fix s e t assume inv: "success_inv env s" and "replay_event env s e = Inr t"
  then obtain lifecycle st1 where "on_event env lifecycle e s = Inr st1" "rps_terminal_reason s = None"
    and t: "t = st1\<lparr>rps_prefix := rps_prefix s @ [e], rps_event_ids := insert (evt_event_id e) (rps_event_ids s)\<rparr>"
    by (auto elim!: replay_event_E check_envelope_E)
  with on_event_success_inv [OF inv] have "success_inv env st1" by blast
  with check_success_cong [of t st1] show "success_inv env t" by (simp add: success_inv_def t)
qed

subsection \<open>The workspace writer\<close>

definition writer_step :: "RunEvent \<Rightarrow> Identifier \<Rightarrow> Identifier" where
  "writer_step e w = (case evt_payload e of ControlTransferred p \<Rightarrow> ctp_next_writer p | _ \<Rightarrow> w)"

definition writer_after :: "replay_env \<Rightarrow> RunEvent list \<Rightarrow> Identifier" where
  "writer_after env es = fold writer_step es (srb_initial_writer (bnd_session (env_binding env)))"

definition writer_inv :: "replay_env \<Rightarrow> replay_state \<Rightarrow> bool" where
  "writer_inv env st \<longleftrightarrow> rps_current_writer st = writer_after env (rps_prefix st)
     \<and> (\<forall>i<length (rps_prefix st). evt_producer (rps_prefix st ! i) = Producer_PARTICIPANT \<longrightarrow>
          evt_actor (rps_prefix st ! i) = Some (writer_after env (take i (rps_prefix st))))
     \<and> (srb_initial_writer (bnd_session (env_binding env)) \<in> env_actor_ids env \<longrightarrow> rps_current_writer st \<in> env_actor_ids env)"

lemma on_event_writer:
  assumes on: "on_event env lifecycle e st = Inr st'" and producer: "validate_event_producer e = Inr ()"
  shows "rps_current_writer st' = writer_step e (rps_current_writer st)"
    and "evt_producer e = Producer_PARTICIPANT \<Longrightarrow> evt_actor e = Some (rps_current_writer st)"
    and "rps_current_writer st \<in> env_actor_ids env \<Longrightarrow> rps_current_writer st' \<in> env_actor_ids env"
proof -
  show "rps_current_writer st' = writer_step e (rps_current_writer st)"
    using on by (cases "evt_payload e") (auto simp: on_event_def writer_step_def elim!: handler_elims)
  show "evt_actor e = Some (rps_current_writer st)" if "evt_producer e = Producer_PARTICIPANT"
    using on producer that
    by (cases "evt_payload e")
      (auto simp: on_event_def validate_event_producer_def elim!: interaction_E run_ended_E control_transferred_E
        candidate_submitted_E)
  show "rps_current_writer st' \<in> env_actor_ids env" if "rps_current_writer st \<in> env_actor_ids env"
    using on that by (cases "evt_payload e") (auto simp: on_event_def elim!: handler_elims)
qed

interpretation writer: invariant_projection "replay_event env" "replay_init env" "writer_inv env" for env
proof
  show "writer_inv env (replay_init env)" by (simp add: writer_inv_def writer_after_def replay_init_def)
  fix s e t assume inv: "writer_inv env s" and "replay_event env s e = Inr t"
  then obtain lifecycle st1 where on: "on_event env lifecycle e s = Inr st1"
    and producer: "validate_event_producer e = Inr ()"
    and t: "t = st1\<lparr>rps_prefix := rps_prefix s @ [e], rps_event_ids := insert (evt_event_id e) (rps_event_ids s)\<rparr>"
    by (auto elim!: replay_event_E check_envelope_E)
  have "writer_after env (rps_prefix s @ [e]) = writer_step e (rps_current_writer s)"
    using inv by (simp add: writer_inv_def writer_after_def)
  with inv on_event_writer [OF on producer] show "writer_inv env t"
    by (auto simp: writer_inv_def t nth_append less_Suc_eq)
qed

subsection \<open>Job histories\<close>

inductive job_path :: "JobStateKind list \<Rightarrow> bool" where
  queued: "job_path [Job_QUEUED]"
| move: "job_path (ss @ [s]) \<Longrightarrow> s' \<in> JOB_TRANSITIONS s \<Longrightarrow> job_path (ss @ [s, s'])"

definition job_fact :: "Identifier \<Rightarrow> RunEvent \<Rightarrow> JobStateKind option" where
  "job_fact j e =
     (case evt_payload e of
        EvaluationStarted p \<Rightarrow> if esp_job_id p = j then Some Job_QUEUED else None
      | JobStateChanged p \<Rightarrow> if jsp_job_id p = j then Some (jsp_state p) else None
      | _ \<Rightarrow> None)"

definition job_history :: "Identifier \<Rightarrow> RunEvent list \<Rightarrow> JobStateKind list" where
  "job_history j es = List.map_filter (job_fact j) es"

lemma job_history_snoc:
  "job_history j (es @ [e]) = job_history j es @ (case job_fact j e of None \<Rightarrow> [] | Some s \<Rightarrow> [s])"
  by (simp add: job_history_def List.map_filter_def split: option.split)

fun agrees_with_history :: "JobStateKind option \<Rightarrow> JobStateKind list \<Rightarrow> bool" where
  "agrees_with_history None history \<longleftrightarrow> history = []"
| "agrees_with_history (Some s) history \<longleftrightarrow> job_path history \<and> last history = s"

definition job_inv :: "replay_state \<Rightarrow> bool" where
  "job_inv st \<longleftrightarrow> (\<forall>j. agrees_with_history (dict_get (rps_job_states st) j) (job_history j (rps_prefix st)))"

lemma job_path_nonempty: "job_path ss \<Longrightarrow> ss \<noteq> []"
  by (induction rule: job_path.induct) auto

lemma job_path_extend:
  assumes "job_path ss" "s' \<in> JOB_TRANSITIONS (last ss)"
  shows "job_path (ss @ [s'])"
  using job_path.move [of "butlast ss" "last ss" s'] assms job_path_nonempty [OF assms(1)]
  by (metis append.assoc append_Cons append_Nil append_butlast_last_id)

lemma on_event_job_inv:
  assumes inv: "job_inv st" and on: "on_event env lifecycle e st = Inr st'"
  shows "job_inv (st'\<lparr>rps_prefix := rps_prefix st @ [e], rps_event_ids := ids\<rparr>)"
proof -
  consider (started) p where "evt_payload e = EvaluationStarted p" "on_evaluation_started env p st = Inr st'"
    | (changed) p where "evt_payload e = JobStateChanged p" "on_job_state_changed p st = Inr st'"
    | (other) "rps_job_states st' = rps_job_states st" "\<And>j. job_fact j e = None"
    using on by (cases "evt_payload e") (auto simp: on_event_def job_fact_def elim!: handler_elims)
  then show ?thesis
  proof cases
    case started
    from started(2) show ?thesis
    proof (elim evaluation_started_E)
      assume "esp_job_id p \<notin> set (dict_keys (rps_job_states st))"
        and st': "st' = st\<lparr>rps_active_jobs := dict_set (esp_job_id p) (esp_candidate_id p, esp_stage_id p)
             (rps_active_jobs st), rps_job_states := dict_set (esp_job_id p) Job_QUEUED (rps_job_states st)\<rparr>"
      then have "job_history (esp_job_id p) (rps_prefix st) = []"
        using inv by (auto simp: job_inv_def dict_get_None [symmetric] dest: spec [of _ "esp_job_id p"])
      with inv show ?thesis
        by (auto simp: job_inv_def st' job_history_snoc job_fact_def started(1) dict_get_set job_path.queued)
    qed
  next
    case changed
    then show ?thesis
    proof (elim job_state_changed_E)
      fix previous
      assume p: "evt_payload e = JobStateChanged p"
        and previous: "dict_get (rps_job_states st) (jsp_job_id p) = Some previous"
        and allowed: "jsp_state p \<in> JOB_TRANSITIONS previous"
        and st': "st' = st\<lparr>rps_job_states := dict_set (jsp_job_id p) (jsp_state p) (rps_job_states st)\<rparr>"
      have h: "job_path (job_history (jsp_job_id p) (rps_prefix st))"
        "last (job_history (jsp_job_id p) (rps_prefix st)) = previous"
        using inv previous by (auto simp: job_inv_def dest: spec [of _ "jsp_job_id p"])
      have "job_path (job_history (jsp_job_id p) (rps_prefix st) @ [jsp_state p])"
        using h allowed by (simp add: job_path_extend)
      with inv show ?thesis
        by (auto simp: job_inv_def st' job_history_snoc job_fact_def p dict_get_set)
    qed
  next
    case other
    with inv show ?thesis by (simp add: job_inv_def job_history_snoc)
  qed
qed

interpretation jobs: invariant_projection "replay_event env" "replay_init env" job_inv for env
proof
  show "job_inv (replay_init env)" by (simp add: job_inv_def replay_init_def job_history_def List.map_filter_def)
  show "job_inv t" if "job_inv s" "replay_event env s e = Inr t" for s e t
    using that(2) on_event_job_inv [OF that(1)] by (elim replay_event_E) simp
qed

lemma job_path_inner:
  "job_path ss \<Longrightarrow> \<forall>i < length ss - 1. ss ! i \<notin> TERMINAL_JOB_STATES"
proof (induction rule: job_path.induct)
  case (move ss s s')
  from move.hyps(2) have "s \<notin> TERMINAL_JOB_STATES" by (cases s) (auto simp: TERMINAL_JOB_STATES_def)
  with move.IH show ?case by (auto simp: nth_append less_Suc_eq)
qed simp

subsection \<open>Dictionaries stay dictionaries\<close>

definition dict_inv :: "replay_state \<Rightarrow> bool" where
  "dict_inv st \<longleftrightarrow> dict_wf (rps_candidates st) \<and> dict_wf (rps_scoring st) \<and> dict_wf (rps_job_states st)
     \<and> dict_wf (rps_provider_requests st) \<and> dict_wf (rps_leases st)"

interpretation dictionaries: invariant_projection "replay_event env" "replay_init env" dict_inv for env
proof
  show "dict_inv (replay_init env)" by (simp add: dict_inv_def replay_init_def)
  fix s e t assume inv: "dict_inv s" and "replay_event env s e = Inr t"
  then obtain lifecycle st1 where on: "on_event env lifecycle e s = Inr st1"
    and t: "t = st1\<lparr>rps_prefix := rps_prefix s @ [e], rps_event_ids := insert (evt_event_id e) (rps_event_ids s)\<rparr>"
    by (auto elim!: replay_event_E)
  have "dict_inv st1"
    using on inv by (cases "evt_payload e") (auto simp: on_event_def dict_inv_def elim!: handler_elims)
  then show "dict_inv t" by (simp add: dict_inv_def t)
qed

subsection \<open>Artifacts and what events disclose\<close>

definition artifact_inv :: "replay_state \<Rightarrow> bool" where
  "artifact_inv st \<longleftrightarrow> dict_wf (rps_artifacts st)
     \<and> (\<forall>a r. dict_get (rps_artifacts st) a = Some r \<longrightarrow> art_logical_id r = a
          \<and> (\<exists>e\<in>set (rps_prefix st). evt_payload e = ArtifactRecorded \<lparr>arp_record = r\<rparr>))
     \<and> (\<forall>e\<in>set (rps_prefix st). \<forall>a\<in>set (evt_artifact_refs e).
          \<exists>r. dict_get (rps_artifacts st) a = Some r \<and> art_visibility r \<in> disclosed_to (evt_visibility e))"

lemma validate_artifact_references_E:
  assumes "validate_artifact_references e artifacts = Inr ()" "a \<in> set (evt_artifact_refs e)"
  obtains r where "dict_get artifacts a = Some r" "art_visibility r \<in> disclosed_to (evt_visibility e)"
  using assms by (auto simp: validate_artifact_references_def)

lemma on_event_artifacts:
  assumes "on_event env lifecycle e st = Inr st'"
  shows "rps_artifacts st' = rps_artifacts st
     \<or> (\<exists>p. evt_payload e = ArtifactRecorded p \<and> art_logical_id (arp_record p) \<notin> set (dict_keys (rps_artifacts st))
        \<and> rps_artifacts st' = dict_set (art_logical_id (arp_record p)) (arp_record p) (rps_artifacts st))"
  using assms by (cases "evt_payload e") (auto simp: on_event_def elim!: handler_elims)

lemma artifact_inv_step:
  assumes inv: "artifact_inv st" and refs: "validate_artifact_references e (rps_artifacts st) = Inr ()"
    and on: "on_event env lifecycle e st = Inr st'"
  shows "artifact_inv (st'\<lparr>rps_prefix := rps_prefix st @ [e], rps_event_ids := ids\<rparr>)"
proof -
  have old: "\<exists>r. dict_get (rps_artifacts st) a = Some r \<and> art_visibility r \<in> disclosed_to (evt_visibility f)"
    if "f \<in> set (rps_prefix st @ [e])" "a \<in> set (evt_artifact_refs f)" for f a
    using that inv refs by (auto simp: artifact_inv_def validate_artifact_references_def)
  have kept: "\<exists>r. dict_get (dict_set k v (rps_artifacts st)) a = Some r
      \<and> art_visibility r \<in> disclosed_to (evt_visibility f)"
    if "k \<notin> set (dict_keys (rps_artifacts st))" "f \<in> set (rps_prefix st @ [e])" "a \<in> set (evt_artifact_refs f)" for k v f a
    using old [OF that(2,3)] that(1) by (auto simp: dict_get_set dest: dict_get_Some_keys)
  from on_event_artifacts [OF on] show ?thesis
  proof (elim disjE exE conjE)
    assume "rps_artifacts st' = rps_artifacts st"
    with inv old show ?thesis by (auto simp: artifact_inv_def)
  next
    fix p assume p: "evt_payload e = ArtifactRecorded p"
      and fresh: "art_logical_id (arp_record p) \<notin> set (dict_keys (rps_artifacts st))"
      and st': "rps_artifacts st' = dict_set (art_logical_id (arp_record p)) (arp_record p) (rps_artifacts st)"
    have "evt_payload e = ArtifactRecorded \<lparr>arp_record = arp_record p\<rparr>" using p by simp
    with inv kept [OF fresh] show ?thesis
      unfolding artifact_inv_def by (simp add: st' dict_get_set)
  qed
qed

interpretation artifacts: invariant_projection "replay_event env" "replay_init env" artifact_inv for env
proof
  show "artifact_inv (replay_init env)" by (simp add: artifact_inv_def replay_init_def)
  show "artifact_inv t" if "artifact_inv s" "replay_event env s e = Inr t" for s e t
    using that(2) artifact_inv_step [OF that(1)] by (elim replay_event_E check_envelope_E) simp
qed

subsection \<open>Interactions\<close>

definition result_relation :: "RunEvent \<Rightarrow> Identifier set" where
  "result_relation e = (case evt_payload e of InteractionRecorded p \<Rightarrow> set_option (inp_related_interaction_id p) | _ \<Rightarrow> {})"

lemma result_relation_iff:
  "k \<in> result_relation e \<longleftrightarrow> (\<exists>p. evt_payload e = InteractionRecorded p \<and> inp_related_interaction_id p = Some k)"
  by (cases "evt_payload e") (auto simp: result_relation_def)

lemma interaction_of_Some:
  "interaction_of e = Some q \<longleftrightarrow> (\<exists>p. q = (e, p) \<and> evt_payload e = InteractionRecorded p)"
  by (cases "evt_payload e") (auto simp: interaction_of_def)

definition interaction_inv :: "replay_state \<Rightarrow> bool" where
  "interaction_inv st \<longleftrightarrow>
     rps_interactions st = map (\<lambda>(e, p). (inp_interaction_id p, e, p)) (List.map_filter interaction_of (rps_prefix st))
     \<and> rps_resolved_tool_requests st = \<Union> (result_relation ` set (rps_prefix st))"

lemma map_filter_snoc:
  "List.map_filter f (xs @ [x]) = List.map_filter f xs @ (case f x of None \<Rightarrow> [] | Some y \<Rightarrow> [y])"
  by (simp add: List.map_filter_def split: option.split)

lemma on_event_interaction_inv:
  assumes inv: "interaction_inv st" and on: "on_event env lifecycle e st = Inr st'"
  shows "interaction_inv (st'\<lparr>rps_prefix := rps_prefix st @ [e], rps_event_ids := ids\<rparr>)"
proof -
  consider (interaction) p where "evt_payload e = InteractionRecorded p" "on_interaction e p st = Inr st'"
    | (other) "interaction_of e = None" "result_relation e = {}" "rps_interactions st' = rps_interactions st"
        "rps_resolved_tool_requests st' = rps_resolved_tool_requests st"
    using on by (cases "evt_payload e")
      (auto simp: on_event_def interaction_of_def result_relation_def elim!: handler_elims)
  then show ?thesis
  proof cases
    case interaction
    then have e: "interaction_of e = Some (e, p)" "result_relation e = set_option (inp_related_interaction_id p)"
      by (simp_all add: interaction_of_def result_relation_def)
    from interaction(2) show ?thesis
      using inv by (elim interaction_E)
        (simp_all add: interaction_inv_def map_filter_snoc e dict_set_fresh)
  next
    case other
    with inv show ?thesis by (simp add: interaction_inv_def map_filter_snoc)
  qed
qed

interpretation interactions: invariant_projection "replay_event env" "replay_init env" interaction_inv for env
proof
  show "interaction_inv (replay_init env)" by (simp add: interaction_inv_def replay_init_def List.map_filter_def)
  show "interaction_inv t" if "interaction_inv s" "replay_event env s e = Inr t" for s e t
    using that(2) on_event_interaction_inv [OF that(1)] by (elim replay_event_E) simp
qed

text \<open>
  On constructed events a relation is present exactly on tool results, so the public projection and
  the loop of replay agree on which requests are open.
\<close>

definition relations_constructed :: "RunEvent list \<Rightarrow> bool" where
  "relations_constructed es \<longleftrightarrow> (\<forall>e\<in>set es. \<forall>p. evt_payload e = InteractionRecorded p \<longrightarrow>
     InteractionRecordedPayload_validate p = Inr p)"

lemma event_validate_payload:
  assumes "event_validate dg e = Inr e'"
  shows "payload_validate (evt_payload e) = Inr (evt_payload e')"
proof -
  from assms obtain n where "evt_timestamp e = Aware n" by (cases "evt_timestamp e") (auto simp: event_validate_def split: if_splits)
  with assms show ?thesis
    by (auto simp: event_validate_def simp del: bind_result_eq_Inr sorted_unique_Inr elim!: bind_result_InrE split: if_splits)
qed

lemma event_validate_relation:
  assumes "event_validate dg e = Inr e" "evt_payload e = InteractionRecorded p"
  shows "InteractionRecordedPayload_validate p = Inr p"
  using event_validate_payload [OF assms(1)] assms(2) by (auto simp: InteractionRecordedPayload_validate_def)

lemma unresolved_agrees:
  assumes inv: "interaction_inv st" and built: "relations_constructed (rps_prefix st)"
  shows "unresolved_interaction st \<longleftrightarrow> unresolved_tool_requests (rps_prefix st) None \<noteq> []"
proof -
  let ?rec = "List.map_filter interaction_of (rps_prefix st)"
  have payload: "evt_payload e = InteractionRecorded p \<and> e \<in> set (rps_prefix st)" if "(e, p) \<in> set ?rec" for e p
    using that by (auto simp: List.map_filter_def interaction_of_Some) (simp_all add: interaction_of_def)
  have recorded: "(e, p) \<in> set ?rec" if "e \<in> set (rps_prefix st)" "evt_payload e = InteractionRecorded p" for e p
    using that by (force simp: List.map_filter_def interaction_of_def)
  have rel: "inp_direction p = Direction_TOOL_RESULT \<longleftrightarrow> inp_related_interaction_id p \<noteq> None" if "(e, p) \<in> set ?rec" for e p
  proof -
    have "InteractionRecordedPayload_validate p = Inr p"
      using built payload [OF that] unfolding relations_constructed_def by blast
    then show ?thesis by (auto simp: InteractionRecordedPayload_validate_def split: if_splits)
  qed
  have resolved: "k \<in> rps_resolved_tool_requests st \<longleftrightarrow>
      Some k \<in> set (map (\<lambda>(e, p). inp_related_interaction_id p)
        (filter (\<lambda>(e, p). inp_direction p = Direction_TOOL_RESULT) ?rec))" for k
  proof
    assume "k \<in> rps_resolved_tool_requests st"
    then obtain e p where "e \<in> set (rps_prefix st)" "evt_payload e = InteractionRecorded p"
      "inp_related_interaction_id p = Some k"
      using inv unfolding interaction_inv_def by (auto simp: result_relation_iff)
    with recorded [of e p] rel [of e p] show "Some k \<in> set (map (\<lambda>(e, p). inp_related_interaction_id p)
        (filter (\<lambda>(e, p). inp_direction p = Direction_TOOL_RESULT) ?rec))" by force
  next
    assume "Some k \<in> set (map (\<lambda>(e, p). inp_related_interaction_id p)
        (filter (\<lambda>(e, p). inp_direction p = Direction_TOOL_RESULT) ?rec))"
    then obtain e p where "(e, p) \<in> set ?rec" "inp_related_interaction_id p = Some k" by auto
    with payload [of e p] inv show "k \<in> rps_resolved_tool_requests st"
      unfolding interaction_inv_def by (auto simp: result_relation_iff)
  qed
  have "rps_interactions st = map (\<lambda>(e, p). (inp_interaction_id p, e, p)) ?rec"
    using inv by (simp add: interaction_inv_def)
  then show ?thesis
    unfolding unresolved_interaction_def unresolved_tool_requests_def Let_def
    by (auto simp: list_ex_iff filter_empty_conv resolved split_def)
qed

subsection \<open>Runs that require an incarnation have one from their second event on\<close>

lemma lifecycle_fold:
  "participant_incarnation_lifecycle dg es = Inr l \<Longrightarrow> fold_result (lifecycle_step dg) lifecycle_init es = Inr l"
  by (auto simp: participant_incarnation_lifecycle_def ParticipantIncarnationLifecycle_validate_def split: if_splits)

lemma lifecycle_step_grows:
  assumes "lifecycle_step dg l e = Inr l'"
    and "lfc_incarnations l \<noteq> [] \<or> (\<exists>p. evt_payload e = ParticipantIncarnationStarted p)"
  shows "lfc_incarnations l' \<noteq> []"
  using assms
  by (cases "evt_payload e")
    (auto simp: lifecycle_step_def lifecycle_started_def lifecycle_terminated_def lifecycle_restored_def
      split: option.splits)

definition incarnated_inv :: "replay_env \<Rightarrow> replay_state \<Rightarrow> bool" where
  "incarnated_inv env st \<longleftrightarrow>
     (\<exists>l. participant_incarnation_lifecycle (env_digests env) (rps_prefix st) = Inr l
        \<and> (requires_incarnation env \<and> 2 \<le> length (rps_prefix st) \<longrightarrow> lfc_incarnations l \<noteq> []))"

interpretation incarnated: invariant_projection "replay_event env" "replay_init env" "incarnated_inv env" for env
proof
  show "incarnated_inv env (replay_init env)"
    using incarnations.inv_init [of env] by (auto simp: incarnated_inv_def incarnation_inv_def replay_init_def)
  fix s e t assume inv: "incarnated_inv env s" and step: "replay_event env s e = Inr t"
  from step obtain l where l: "participant_incarnation_lifecycle (env_digests env) (rps_prefix s) = Inr l"
      "check_incarnation env s l e = Inr ()"
    and t: "rps_prefix t = rps_prefix s @ [e]" by (auto elim!: replay_event_E)
  have "incarnation_inv env s" using l(1) by (auto simp: incarnation_inv_def)
  from incarnations.inv_step [OF this step] obtain l' where
    l': "participant_incarnation_lifecycle (env_digests env) (rps_prefix s @ [e]) = Inr l'"
    by (auto simp: incarnation_inv_def t)
  have moved: "lifecycle_step (env_digests env) l e = Inr l'"
    using lifecycle_fold [OF l(1)] lifecycle_fold [OF l'] by (simp add: fold_result_append)
  have "lfc_incarnations l' \<noteq> []" if "requires_incarnation env" "2 \<le> length (rps_prefix s @ [e])"
  proof (cases "length (rps_prefix s) = 1")
    case True
    with l(2) that(1) have "\<exists>p. evt_payload e = ParticipantIncarnationStarted p"
      by (cases "evt_payload e") (auto simp: check_incarnation_def)
    with lifecycle_step_grows [OF moved] show ?thesis by blast
  next
    case False
    with inv l(1) that have "lfc_incarnations l \<noteq> []" by (auto simp: incarnated_inv_def)
    with lifecycle_step_grows [OF moved] show ?thesis by blast
  qed
  with l' t show "incarnated_inv env t" by (auto simp: incarnated_inv_def)
qed

end
