(* ===== verification/JournalFacts.thy ===== *)
theory JournalFacts
  imports LineFiles ReplayInvariants
begin

section \<open>Facts about the durable journal\<close>

text \<open>
  A journal file is a sequence of whole, hash-linked records followed by a torn tail that contains no
  line end (\<open>journal_file\<close>). Decoding such a file recovers its records; appending is described on the
  level of events by \<open>append_spec\<close>; and the head digest determines the records when the digests
  involved do not collide.
\<close>

subsection \<open>Files of whole records\<close>

text \<open>
  What is relied on of the canonical encoder and the JSON parser, per commit: the parser inverts the
  encoder, and an encoded commit is not empty and contains no raw line break (JSON escapes control
  characters).
\<close>

definition encodable :: "journal_codec \<Rightarrow> RunCommit \<Rightarrow> bool" where
  "encodable codec c \<longleftrightarrow> jcd_parse codec (jcd_commit codec c) = Some c \<and> jcd_commit codec c \<noteq> []
     \<and> LF \<notin> set (jcd_commit codec c) \<and> CR \<notin> set (jcd_commit codec c)"

definition file_of :: "journal_codec \<Rightarrow> RunCommit list \<Rightarrow> string" where
  "file_of codec cs = concat (map (commit_line codec) cs)"

fun linked :: "run_digests \<Rightarrow> Digest \<Rightarrow> RunCommit list \<Rightarrow> bool" where
  "linked dg head [] \<longleftrightarrow> True"
| "linked dg head (c # cs) \<longleftrightarrow> cmt_previous_record_digest c = head \<and> RunCommit_validate dg c = Inr c
     \<and> linked dg (cmt_record_digest c) cs"

fun head_after :: "Digest \<Rightarrow> RunCommit list \<Rightarrow> Digest" where
  "head_after head [] = head"
| "head_after head (c # cs) = head_after (cmt_record_digest c) cs"

definition events_of :: "RunCommit list \<Rightarrow> RunEvent list" where
  "events_of cs = concat (map cmt_events cs)"

lemma linked_append: "linked dg head (cs @ ds) \<longleftrightarrow> linked dg head cs \<and> linked dg (head_after head cs) ds"
  by (induction cs arbitrary: head) auto

lemma head_after_append [simp]: "head_after head (cs @ ds) = head_after (head_after head cs) ds"
  by (induction cs arbitrary: head) auto

lemma events_of_simps [simp]: "events_of [] = []" "events_of (c # cs) = cmt_events c @ events_of cs"
    "events_of (cs @ ds) = events_of cs @ events_of ds"
  by (simp_all add: events_of_def)

lemma file_of_simps [simp]: "file_of codec [] = []" "file_of codec (c # cs) = commit_line codec c @ file_of codec cs"
    "file_of codec (cs @ ds) = file_of codec cs @ file_of codec ds"
  by (simp_all add: file_of_def)

lemma file_of_lines: "file_of codec = lines_of (jcd_commit codec)"
  by (simp add: fun_eq_iff file_of_def lines_of_def commit_line_def [abs_def])

lemma file_of_ends: "cs \<noteq> [] \<Longrightarrow> file_of codec cs \<noteq> [] \<and> last (file_of codec cs) = LF"
  by (simp add: file_of_lines lines_of_ends)

lemma durable_length_file: "LF \<notin> set torn \<Longrightarrow> durable_length (file_of codec cs @ torn) = length (file_of codec cs)"
  by (simp add: file_of_lines durable_length_lines)

definition run_record_ok :: "run_digests \<Rightarrow> journal_codec \<Rightarrow> decoded \<Rightarrow> RunCommit \<Rightarrow> bool" where
  "run_record_ok dg codec st c \<longleftrightarrow> cmt_previous_record_digest c = dcd_head st \<and> RunCommit_validate dg c = Inr c \<and> encodable codec c"

definition run_record_after :: "decoded \<Rightarrow> RunCommit \<Rightarrow> decoded" where
  "run_record_after st c = \<lparr>dcd_events = dcd_events st @ cmt_events c, dcd_head = cmt_record_digest c,
     dcd_records = dcd_records st @ [c]\<rparr>"

interpretation run_lines: line_decoder "jcd_commit codec" "decode_record dg codec" "run_record_ok dg codec" run_record_after
  for dg codec
  by unfold_locales (auto simp: run_record_ok_def run_record_after_def decode_record_def encodable_def line_safe_def)

lemma run_records_accepted:
  "linked dg (dcd_head st) cs \<Longrightarrow> \<forall>c\<in>set cs. encodable codec c \<Longrightarrow> accepted (run_record_ok dg codec) run_record_after st cs"
  by (induction cs arbitrary: st) (auto simp: run_record_ok_def run_record_after_def)

lemma run_records_after:
  "foldl run_record_after st cs = \<lparr>dcd_events = dcd_events st @ events_of cs, dcd_head = head_after (dcd_head st) cs,
     dcd_records = dcd_records st @ cs\<rparr>"
  by (induction cs arbitrary: st) (auto simp: run_record_after_def)

text \<open>The content of a journal file: whole linked records, then a torn tail without a line end.\<close>

definition journal_file :: "replay_env \<Rightarrow> journal_codec \<Rightarrow> RunCommit list \<Rightarrow> string \<Rightarrow> bool" where
  "journal_file env codec cs data \<longleftrightarrow>
     (\<exists>torn. data = file_of codec cs @ torn \<and> LF \<notin> set torn)
     \<and> linked (env_digests env) (rdg_journal_anchor (env_digests env) (env_header env)) cs
     \<and> (\<forall>c\<in>set cs. encodable codec c)"

abbreviation head_of :: "replay_env \<Rightarrow> RunCommit list \<Rightarrow> Digest" where
  "head_of env cs \<equiv> head_after (rdg_journal_anchor (env_digests env) (env_header env)) cs"

lemma decode_file:
  assumes "journal_file env codec cs data"
  shows "decode_durable_prefix (env_digests env) codec data (env_header env)
     = Inr (\<lparr>dcd_events = events_of cs, dcd_head = head_of env cs, dcd_records = cs\<rparr>, length (file_of codec cs))"
proof -
  from assms obtain torn where data: "data = file_of codec cs @ torn" "LF \<notin> set torn"
    and cs: "linked (env_digests env) (rdg_journal_anchor (env_digests env) (env_header env)) cs"
      "\<forall>c\<in>set cs. encodable codec c" by (auto simp: journal_file_def)
  have "cs = []" if "data = []" using that data(1) file_of_ends [of cs codec] by auto
  moreover have "fold_result (decode_record (env_digests env) codec) (decode_init (env_digests env) (env_header env))
      (splitlines (take (durable_length data) data))
      = Inr \<lparr>dcd_events = events_of cs, dcd_head = head_of env cs, dcd_records = cs\<rparr>"
    using run_lines.decode_durable [OF run_records_accepted data(2)] cs
    by (simp add: data(1) file_of_lines run_records_after decode_init_def)
  ultimately show ?thesis
    using durable_length_file [OF data(2), of codec cs] data(1)
    by (auto simp: decode_durable_prefix_def decode_init_def Let_def)
qed

lemma take_file: "journal_file env codec cs data \<Longrightarrow> take (length (file_of codec cs)) data = file_of codec cs"
  by (auto simp: journal_file_def)

subsection \<open>Appending\<close>

definition new_commit :: "replay_env \<Rightarrow> RunCommit list \<Rightarrow> RunEvent list \<Rightarrow> RunCommit" where
  "new_commit env cs requested = \<lparr>cmt_previous_record_digest = head_of env cs, cmt_events = requested,
     cmt_record_digest = rdg_commit (env_digests env) (head_of env cs) requested\<rparr>"

definition constructed :: "replay_env \<Rightarrow> RunEvent list \<Rightarrow> bool" where
  "constructed env events \<longleftrightarrow> (\<forall>e\<in>set events. event_validate (env_digests env) e = Inr e)"

lemma new_commit_valid:
  assumes "constructed env requested" "requested \<noteq> []"
  shows "RunCommit_validate (env_digests env) (new_commit env cs requested) = Inr (new_commit env cs requested)"
    and "RunCommit_from_events (env_digests env) (head_of env cs) requested = Inr (new_commit env cs requested)"
proof -
  have "map_result (event_validate (env_digests env)) requested = Inr requested"
    using assms(1) by (intro map_result_fixed) (simp add: constructed_def)
  with assms(2) show "RunCommit_validate (env_digests env) (new_commit env cs requested) = Inr (new_commit env cs requested)"
    by (simp add: RunCommit_validate_def new_commit_def)
  then show "RunCommit_from_events (env_digests env) (head_of env cs) requested = Inr (new_commit env cs requested)"
    by (simp add: RunCommit_from_events_def new_commit_def)
qed

lemma journal_file_extend:
  assumes "journal_file env codec cs data" "constructed env requested" "requested \<noteq> []"
    and "encodable codec (new_commit env cs requested)"
  shows "journal_file env codec (cs @ [new_commit env cs requested])
     (file_of codec cs @ commit_line codec (new_commit env cs requested))"
  using assms new_commit_valid(1) [OF assms(2,3), of cs]
  by (auto simp: journal_file_def linked_append intro!: exI [of _ "[]"]) (simp_all add: new_commit_def)

lemma journal_file_truncate:
  "journal_file env codec cs data \<Longrightarrow> journal_file env codec cs (file_of codec cs)"
  by (auto simp: journal_file_def intro: exI [of _ "[]"])

text \<open>
  The contract of an append on the level of events: nothing changes unless the request is fresh, owns
  the next positions, and extends an unfinished run to one that replays.
\<close>

definition append_spec :: "replay_env \<Rightarrow> journal_codec \<Rightarrow> RunEvent list \<Rightarrow> RunEvent list
    \<Rightarrow> (store_error + RunState) \<times> RunEvent list" where
  "append_spec env codec events requested =
     (if requested = [] then (Inl Store_value_error, events)
      else if \<not> distinct (map evt_event_id requested) then (Inl (EventConflict Reused_in_record), events)
      else if evt_event_id ` set requested \<inter> evt_event_id ` set events \<noteq> {} then
        (if \<not> evt_event_id ` set requested \<subseteq> evt_event_id ` set events
         then (Inl (EventConflict Partially_committed), events)
         else if \<forall>e\<in>set requested. \<exists>f\<in>set events. evt_event_id f = evt_event_id e \<and> jcd_event codec f = jcd_event codec e
         then (lift_replay (replay env events), events)
         else (Inl (EventConflict Different_content), events))
      else if \<not> positions_owned (length events) requested then (Inl (EventConflict Wrong_position), events)
      else case replay env events of
        Inl e \<Rightarrow> (Inl (Store_replay e), events)
      | Inr s \<Rightarrow>
          if rst_terminal_reason s \<noteq> None then (Inl Store_terminated, events)
          else case replay env (events @ requested) of
            Inl e \<Rightarrow> (Inl (Store_replay e), events)
          | Inr s' \<Rightarrow> (Inr s', events @ requested))"

lemma append_spec_events:
  "snd (append_spec env codec events requested) = events
     \<or> snd (append_spec env codec events requested) = events @ requested"
  by (simp add: append_spec_def split: sum.split)

lemma committed_content:
  assumes "distinct (map evt_event_id events)"
  shows "map_option f (dict_get (dict_of evt_event_id id events) i) = Some x
     \<longleftrightarrow> (\<exists>g\<in>set events. evt_event_id g = i \<and> f g = x)"
  using dict_get_dict_of [OF assms, of id i] by auto

lemma append_events_eq:
  assumes stored: "journal_file env codec cs data" and built: "constructed env requested" "requested \<noteq> []"
    and distinct: "distinct (map evt_event_id (events_of cs))"
  shows "append_events env codec data requested
     = (fst (append_spec env codec (events_of cs) requested),
        if snd (append_spec env codec (events_of cs) requested) = events_of cs then file_of codec cs
        else file_of codec cs @ commit_line codec (new_commit env cs requested))"
proof -
  let ?d = "\<lparr>dcd_events = events_of cs, dcd_head = head_of env cs, dcd_records = cs\<rparr>"
  let ?committed = "dict_of evt_event_id id (events_of cs)"
  have append: "append_events env codec data requested = append_decoded env codec (file_of codec cs) ?d requested"
    using decode_file [OF stored] take_file [OF stored] built(2) by (simp add: append_events_def)
  have commit: "RunCommit_from_events (env_digests env) (head_of env cs) requested = Inr (new_commit env cs requested)"
    using new_commit_valid(2) [OF built] .
  have keys: "set (dict_keys ?committed) = evt_event_id ` set (events_of cs)" by (simp add: dict_keys_dict_of)
  have ex: "list_ex id (map (\<lambda>i. i \<in> set (dict_keys ?committed)) (map evt_event_id requested))
      \<longleftrightarrow> evt_event_id ` set requested \<inter> evt_event_id ` set (events_of cs) \<noteq> {}"
    unfolding keys by (auto simp: list_ex_iff)
  have all: "list_all id (map (\<lambda>i. i \<in> set (dict_keys ?committed)) (map evt_event_id requested))
      \<longleftrightarrow> evt_event_id ` set requested \<subseteq> evt_event_id ` set (events_of cs)"
    unfolding keys by (auto simp: list_all_iff)
  have same: "list_all (\<lambda>e. map_option (jcd_event codec) (dict_get ?committed (evt_event_id e)) = Some (jcd_event codec e)) requested
      \<longleftrightarrow> (\<forall>e\<in>set requested. \<exists>f\<in>set (events_of cs). evt_event_id f = evt_event_id e \<and> jcd_event codec f = jcd_event codec e)"
    unfolding list_all_iff committed_content [OF distinct] by blast
  show ?thesis
    unfolding append append_decoded_def append_spec_def Let_def commit_events_def decoded.select_convs ex all same commit
    using built(2) by (auto split: sum.split)
qed

lemma journal_file_append:
  assumes stored: "journal_file env codec cs data" and built: "constructed env requested"
    and enc: "encodable codec (new_commit env cs requested)"
    and distinct: "distinct (map evt_event_id (events_of cs))"
  obtains cs' where "journal_file env codec cs' (snd (append_events env codec data requested))"
    "(fst (append_events env codec data requested), events_of cs') = append_spec env codec (events_of cs) requested"
proof (cases "requested = []")
  case True
  with stored that [of cs] show thesis by (simp add: append_events_def append_spec_def)
next
  case False
  note eq = append_events_eq [OF stored built False distinct]
  show thesis
  proof (cases "snd (append_spec env codec (events_of cs) requested) = events_of cs")
    case True
    with eq journal_file_truncate [OF stored] that [of cs] show thesis by (simp add: prod_eq_iff)
  next
    case moved: False
    with append_spec_events [of env codec "events_of cs" requested]
    have "snd (append_spec env codec (events_of cs) requested) = events_of (cs @ [new_commit env cs requested])"
      by (auto simp: new_commit_def)
    with moved eq journal_file_extend [OF stored built False enc] that [of "cs @ [new_commit env cs requested]"]
    show thesis by (simp add: prod_eq_iff)
  qed
qed

lemma read_file:
  "journal_file env codec cs data \<Longrightarrow> replay env (events_of cs) = Inr s \<Longrightarrow> read_events env codec data = Inr (events_of cs)"
  by (simp add: read_events_def decode_file lift_replay_def)

lemma append_spec_replays:
  assumes "replay env events = Inr s0"
  shows "\<exists>s. replay env (snd (append_spec env codec events requested)) = Inr s"
  using assms by (auto simp: append_spec_def split: sum.split)

lemma append_spec_idempotent:
  assumes "append_spec env codec events requested = (Inr s, events')"
  shows "append_spec env codec events' requested = (Inr s, events')"
proof (cases "events' = events")
  case True
  with assms show ?thesis by simp
next
  case False
  with assms have "requested \<noteq> []" "distinct (map evt_event_id requested)" "events' = events @ requested"
    "replay env events' = Inr s"
    by (auto simp: append_spec_def split: if_splits sum.splits)
  moreover from this have "evt_event_id ` set requested \<inter> evt_event_id ` set events' \<noteq> {}" by (cases requested) auto
  ultimately show ?thesis by (auto simp: append_spec_def lift_replay_def)
qed

lemma torn_prefix:
  assumes "journal_file env codec cs data" "LF \<notin> set torn"
  shows "journal_file env codec cs (file_of codec cs @ torn)"
  using assms by (auto simp: journal_file_def)

lemma replay_distinct_ids: "replay env es = Inr s \<Longrightarrow> distinct (map evt_event_id es)"
  using envelope.run_inv [of env es] replay_loop_prefix [of env es]
  by (auto simp: replay_def replay_loop_def envelope_inv_def split: if_splits)

subsection \<open>Tamper evidence\<close>

text \<open>The canonical payloads whose digests are compared are told apart by their digests.\<close>

definition collision_free :: "run_digests \<Rightarrow> Digest \<Rightarrow> RunCommit list \<Rightarrow> bool" where
  "collision_free dg anchor cs \<longleftrightarrow> (\<forall>c\<in>set cs. cmt_record_digest c \<noteq> anchor
     \<and> (\<forall>d\<in>set cs. rdg_commit dg (cmt_previous_record_digest c) (cmt_events c)
            = rdg_commit dg (cmt_previous_record_digest d) (cmt_events d) \<longrightarrow>
          cmt_previous_record_digest c = cmt_previous_record_digest d \<and> cmt_events c = cmt_events d))"

lemma collision_freeD:
  assumes "collision_free dg anchor cs" "c \<in> set cs" "d \<in> set cs"
    and "rdg_commit dg (cmt_previous_record_digest c) (cmt_events c)
      = rdg_commit dg (cmt_previous_record_digest d) (cmt_events d)"
  shows "cmt_previous_record_digest c = cmt_previous_record_digest d" "cmt_events c = cmt_events d"
  using assms unfolding collision_free_def by blast+

lemma collision_free_mono: "collision_free dg anchor cs \<Longrightarrow> set ds \<subseteq> set cs \<Longrightarrow> collision_free dg anchor ds"
  unfolding collision_free_def by blast

lemma RunCommit_validate_digest:
  assumes "RunCommit_validate dg c = Inr c"
  shows "cmt_record_digest c = rdg_commit dg (cmt_previous_record_digest c) (cmt_events c)"
proof -
  from assms obtain es where "cmt_record_digest c = rdg_commit dg (cmt_previous_record_digest c) es" "c\<lparr>cmt_events := es\<rparr> = c"
    by (auto simp: RunCommit_validate_def split: if_splits)
  then show ?thesis by (metis RunCommit.select_convs(2) RunCommit.surjective RunCommit.update_convs(2))
qed

lemma linked_head_determines:
  "linked dg anchor cs \<Longrightarrow> linked dg anchor ds \<Longrightarrow> collision_free dg anchor (cs @ ds) \<Longrightarrow>
     head_after anchor cs = head_after anchor ds \<Longrightarrow> cs = ds"
proof (induction cs arbitrary: ds rule: rev_induct)
  case Nil
  then show ?case by (cases ds rule: rev_cases) (auto simp: collision_free_def)
next
  case (snoc c cs)
  note IH = snoc.IH and prems = snoc.prems
  show ?case
  proof (cases ds rule: rev_cases)
    case Nil
    with prems show ?thesis by (auto simp: collision_free_def)
  next
    case ds: (snoc ds' d)
    have c: "cmt_previous_record_digest c = head_after anchor cs" "RunCommit_validate dg c = Inr c"
      and d: "cmt_previous_record_digest d = head_after anchor ds'" "RunCommit_validate dg d = Inr d"
      and heads: "cmt_record_digest c = cmt_record_digest d"
      and links: "linked dg anchor cs" "linked dg anchor ds'"
      using prems unfolding ds by (simp_all add: linked_append)
    have "rdg_commit dg (cmt_previous_record_digest c) (cmt_events c)
        = rdg_commit dg (cmt_previous_record_digest d) (cmt_events d)"
      using heads RunCommit_validate_digest [OF c(2)] RunCommit_validate_digest [OF d(2)] by metis
    from collision_freeD [OF prems(3) _ _ this]
    have fields: "cmt_previous_record_digest c = cmt_previous_record_digest d" "cmt_events c = cmt_events d"
      by (simp_all add: ds)
    have "collision_free dg anchor (cs @ ds')" using prems(3) by (rule collision_free_mono) (auto simp: ds)
    then have "cs = ds'" using IH [OF links] fields(1) c(1) d(1) by simp
    moreover have "c = d" using fields heads by simp
    ultimately show ?thesis using ds by simp
  qed
qed

end
