(* ===== verification/PromotionProperties.thy ===== *)
theory PromotionProperties
  imports PromotionFacts
begin

section \<open>Properties of the promotion rules\<close>

text \<open>
  The properties that make the traversal correct, for every task the validator accepts, with
  witnesses on the concrete task of \<open>TaskGuarantees\<close>.
\<close>

subsection \<open>Concrete snapshots\<close>

definition example_result :: "Identifier \<Rightarrow> OutcomeKind \<Rightarrow> MeasurementEvidence list \<Rightarrow> StageResult" where
  "example_result s k ms = \<lparr>sgr_stage_id = s, sgr_outcome = k, sgr_measurements = ms, sgr_evidence = []\<rparr>"

definition example_area :: MeasurementEvidence where
  "example_area = \<lparr>mev_measurement_id = ''area'', mev_samples = [125 / 10], mev_provenance = None\<rparr>"

definition example_partial :: "StageResult list" where
  "example_partial = [example_result ''lint'' Outcome_PASSED []]"

definition example_passed :: "StageResult list" where
  "example_passed = [example_result ''lint'' Outcome_PASSED [], example_result ''sim'' Outcome_PROVED [],
     example_result ''ppa'' Outcome_PASSED [example_area]]"

definition example_failed :: "StageResult list" where
  "example_failed = [example_result ''lint'' Outcome_CANDIDATE_FAILURE []]"

lemma example_failed_valid: "validate_stage_results example_task example_failed = Inr example_failed"
  by code_simp

lemma example_passed_valid: "validate_stage_results example_task example_passed = Inr example_passed"
  by code_simp

subsection \<open>The order of the stages\<close>

text \<open>
  C34: for an accepted task the topological order exists, lists every stage exactly once, and
  is the deterministic one: each position holds the least identifier among the stages not yet
  listed whose dependencies are all listed before it.
\<close>

theorem topological_stage_ids_canonical:
  assumes "TaskSpec_validate dg raw = Inr t"
  shows "\<exists>order. topological_stage_ids t = Inr order \<and> distinct order
     \<and> set order = set (map stg_stage_id (grf_stages (tsk_evaluation t)))
     \<and> greedy_order (stage_index t) order"
  using topological_stage_ids_total [OF TaskSpec_validate_task_wf [OF assms]]
  by (metis list.set_map stage_index_keys)

theorem topological_stage_ids_canonical_witness:
  "\<exists>order. topological_stage_ids example_task = Inr order \<and> distinct order
     \<and> set order = {''lint'', ''sim'', ''ppa''} \<and> greedy_order (stage_index example_task) order"
proof -
  have "set (map stg_stage_id (grf_stages (tsk_evaluation example_task))) = {''lint'', ''sim'', ''ppa''}"
    by (auto simp: example_task_def example_stage_def)
  then show ?thesis using topological_stage_ids_canonical [OF example_task_accepted] by simp
qed

text \<open>
  On any well-formed stage graph the traversal raises its cycle error exactly when the
  dependency relation has a cycle; it never raises anything else.
\<close>

theorem topological_stage_ids_cyclic_iff:
  assumes "graph_wf (stage_index t)"
  shows "topological_stage_ids t = Inl e \<longleftrightarrow> e = Cyclic_stages \<and> \<not> acyclic (depends_rel (stage_index t))"
proof -
  obtain order where o: "greedy_order (stage_index t) order" "available (stage_index t) (set order) = {}"
    "topological_stage_ids t = (if length order \<noteq> length (stage_index t) then Inl Cyclic_stages else Inr order)"
    using topological_stage_ids_result [OF assms] by metis
  note d = greedy_order_facts [OF o(1)]
  have len: "length (stage_index t) = card (set (dict_keys (stage_index t)))"
    by (simp add: stage_index_def dict_simps length_dict_of)
  have "length order = length (stage_index t) \<longleftrightarrow> acyclic (depends_rel (stage_index t))"
  proof
    assume "length order = length (stage_index t)"
    then show "acyclic (depends_rel (stage_index t))"
      using topological_stage_ids_acyclic [OF assms] o(3) by simp
  next
    assume "acyclic (depends_rel (stage_index t))"
    then have "set (dict_keys (stage_index t)) \<subseteq> set order"
      using acyclic_available [OF _ assms] o(2) by blast
    then have "set order = set (dict_keys (stage_index t))" using d by blast
    then show "length order = length (stage_index t)" using d len by (metis distinct_card)
  qed
  then show ?thesis using o(3) by auto
qed

subsection \<open>Snapshots\<close>

text \<open>
  A result snapshot of an accepted task is accepted exactly when it has at most one result
  per stage, every result belongs to a declared stage all of whose dependencies have promoting
  results, and its measurements are declared for that stage, have the declared number of samples
  within the declared range, and are complete when the result promotes.
\<close>

theorem validate_stage_results_characterised:
  assumes "TaskSpec_validate dg raw = Inr t"
  shows "(\<exists>vs. validate_stage_results t rs = Inr vs) \<longleftrightarrow> results_ok t rs"
  by (rule validate_stage_results_iff [OF TaskSpec_validate_task_wf [OF assms]])

text \<open>
  A validated snapshot is the given results in topological order, and validating it again
  returns it unchanged, so the functions that pass a validated snapshot on to each other agree.
\<close>

theorem validate_stage_results_order_idempotent:
  assumes "TaskSpec_validate dg raw = Inr t" "validate_stage_results t rs = Inr vs"
  shows "set vs = set rs \<and> validate_stage_results t vs = Inr vs
     \<and> (\<exists>order. topological_stage_ids t = Inr order
          \<and> map sgr_stage_id vs = filter (\<lambda>s. s \<in> completed rs) order)"
proof -
  note wf = TaskSpec_validate_task_wf [OF assms(1)]
  obtain order where o: "topological_stage_ids t = Inr order" using topological_stage_ids_total [OF wf] by metis
  show ?thesis
    using validate_stage_results_order [OF wf assms(2) o] validate_stage_results_idem [OF wf assms(2)] o by blast
qed

subsection \<open>Eligibility\<close>

text \<open>
  Eligibility of a stage of an accepted task against a valid snapshot. It is completed when
  it has a result; otherwise blocked exactly when some transitive dependency has a non-promoting
  result, and then it names exactly those; ready exactly when every direct dependency has a
  promoting result; and otherwise waiting for exactly the direct dependencies without a result.
\<close>

theorem stage_eligibility_characterised:
  assumes "TaskSpec_validate dg raw = Inr t" "validate_stage_results t rs = Inr vs"
    and "s \<in> set (map stg_stage_id (grf_stages (tsk_evaluation t)))"
  shows "\<exists>e. stage_eligibility t rs s = Inr e \<and> elg_stage_id e = s
     \<and> (elg_state e = Stage_COMPLETED \<longleftrightarrow> s \<in> completed rs)
     \<and> (elg_state e = Stage_READY \<longleftrightarrow> s \<notin> completed rs \<and> deps (stage_index t) s \<subseteq> promoted rs)
     \<and> (elg_state e = Stage_BLOCKED \<longleftrightarrow> s \<notin> completed rs \<and> blockers_of t rs s \<noteq> {})
     \<and> (elg_state e = Stage_BLOCKED \<longrightarrow> set (elg_blocking_stage_ids e) = blockers_of t rs s)
     \<and> (elg_state e = Stage_WAITING \<longrightarrow>
          set (elg_waiting_stage_ids e) = deps (stage_index t) s - completed rs)"
proof -
  note wf = TaskSpec_validate_task_wf [OF assms(1)]
  have ok: "results_ok t rs" using validate_stage_results_iff [OF wf] assms(2) by blast
  have s: "s \<in> set (dict_keys (stage_index t))" using assms(3) by (simp add: stage_index_keys)
  note rp = ready_iff_promoted [OF wf ok, of s]
  have "elg_state (eligibility_spec t rs s) = Stage_READY \<longleftrightarrow>
      s \<notin> completed rs \<and> deps (stage_index t) s \<subseteq> promoted rs"
    unfolding rp [symmetric] by (rule eligibility_spec_ready [OF ok])
  then show ?thesis
    using stage_eligibility_spec [OF wf ok s] by (auto simp: eligibility_spec_def)
qed

text \<open>
  C35: the hard-gate verdict. Gates succeed exactly when every hard gate has a promoting result
  (a promoting observation stage does not help), and fail exactly when some gate, or some stage a
  gate transitively depends on, has a non-promoting result.
\<close>

theorem hard_gate_status_characterised:
  assumes "TaskSpec_validate dg raw = Inr t" "validate_stage_results t rs = Inr vs"
  shows "\<exists>h. hard_gate_status t rs = Inr h
     \<and> (hgs_state h = Gate_SUCCEEDED \<longleftrightarrow> stg_stage_id ` set (hard_gates t) \<subseteq> promoted rs)
     \<and> (hgs_state h = Gate_FAILED \<longleftrightarrow> (\<exists>g \<in> set (hard_gates t). \<exists>a \<in> rejected rs.
           (a, stg_stage_id g) \<in> (depends_rel (stage_index t))\<^sup>*))"
proof -
  note wf = TaskSpec_validate_task_wf [OF assms(1)]
  have ok: "results_ok t rs" using validate_stage_results_iff [OF wf] assms(2) by blast
  have "hgs_state (gate_spec t rs) = Gate_SUCCEEDED \<longleftrightarrow> stg_stage_id ` set (hard_gates t) \<subseteq> promoted rs"
    using gate_spec_state(1) [OF wf ok] by (simp add: gate_ids_def)
  moreover have "hgs_state (gate_spec t rs) = Gate_FAILED \<longleftrightarrow> (\<exists>g \<in> set (hard_gates t). \<exists>a \<in> rejected rs.
           (a, stg_stage_id g) \<in> (depends_rel (stage_index t))\<^sup>*)"
    using gate_spec_state(2) [OF wf ok] by (simp add: gate_ids_def)
  ultimately show ?thesis using hard_gate_status_spec [OF wf ok] by blast
qed

theorem hard_gate_status_characterised_witness:
  "\<exists>h. hard_gate_status example_task example_passed = Inr h \<and> hgs_state h = Gate_SUCCEEDED"
proof -
  have "stg_stage_id ` set (hard_gates example_task) \<subseteq> promoted example_passed"
    by (auto simp: hard_gates_def example_task_def example_stage_def promoted_def example_passed_def
        example_result_def outcome_promotes_def)
  then show ?thesis
    using hard_gate_status_characterised [OF example_task_accepted example_passed_valid] by blast
qed

text \<open>
  Scoring is ready exactly when the task declares measurements and every hard gate and every
  stage that produces a measurement has a promoting result.
\<close>

theorem scorer_ready_iff:
  assumes "TaskSpec_validate dg raw = Inr t" "validate_stage_results t rs = Inr vs"
  shows "\<exists>e. scorer_eligibility t rs = Inr e \<and>
     (sel_state e = Scorer_READY \<longleftrightarrow> tsk_measurements t \<noteq> []
        \<and> stg_stage_id ` set (hard_gates t) \<union> msp_producer_stage_id ` set (tsk_measurements t) \<subseteq> promoted rs)"
proof -
  note wf = TaskSpec_validate_task_wf [OF assms(1)]
  have ok: "results_ok t rs" using validate_stage_results_iff [OF wf] assms(2) by blast
  show ?thesis
    using scorer_eligibility_spec [OF wf ok] scorer_spec_ready [OF wf ok]
    by (simp add: gate_ids_def producer_ids_def)
qed

subsection \<open>Progress and stability\<close>

text \<open>
  C36: evaluation never deadlocks. While the hard gates are pending, some stage is ready to run,
  and it is a gate or a transitive dependency of one.
\<close>

theorem pending_gates_have_ready_stage:
  assumes "TaskSpec_validate dg raw = Inr t" "hard_gate_status t rs = Inr h" "hgs_state h = Gate_PENDING"
  shows "\<exists>s e g. stage_eligibility t rs s = Inr e \<and> elg_state e = Stage_READY
     \<and> g \<in> set (hard_gates t) \<and> (s, stg_stage_id g) \<in> (depends_rel (stage_index t))\<^sup>*"
proof -
  note wf = TaskSpec_validate_task_wf [OF assms(1)]
  obtain vs where "validate_stage_results t rs = Inr vs" using assms(2) by (auto simp: hard_gate_status_def)
  then have ok: "results_ok t rs" using validate_stage_results_iff [OF wf] by blast
  have h: "h = gate_spec t rs" using hard_gate_status_spec [OF wf ok] assms(2) by simp
  note facts = gate_decision_facts [OF _ _ _ gate_spec_def [of t rs], simplified]
  from assms(3) obtain g where g: "g \<in> set (gate_ids t)" "g \<notin> completed rs" "blockers_of t rs g = {}"
    unfolding h facts(10) by blast
  have gk: "g \<in> set (dict_keys (stage_index t))" using g(1) gate_ids_known by blast
  obtain s where s: "s \<in> set (dict_keys (stage_index t))" "s \<notin> completed rs"
    "deps (stage_index t) s \<subseteq> promoted rs" "(s, g) \<in> (depends_rel (stage_index t))\<^sup>*"
    using pending_ready [OF wf ok gk g(2,3)] by blast
  have "elg_state (eligibility_spec t rs s) = Stage_READY"
    unfolding eligibility_spec_ready [OF ok] ready_iff_promoted [OF wf ok] using s by blast
  moreover obtain gate where "gate \<in> set (hard_gates t)" "stg_stage_id gate = g"
    using g(1) by (auto simp: gate_ids_def)
  ultimately show ?thesis using stage_eligibility_spec [OF wf ok s(1)] s(4) by blast
qed

lemma example_pending:
  "hard_gate_status example_task example_partial = Inr \<lparr>hgs_state = Gate_PENDING, hgs_failed_gate_ids = [],
     hgs_blocking_stage_ids = [], hgs_pending_gate_ids = [''sim'']\<rparr>"
  by code_simp

theorem pending_gates_have_ready_stage_witness:
  "\<exists>s e g. stage_eligibility example_task example_partial s = Inr e \<and> elg_state e = Stage_READY
     \<and> g \<in> set (hard_gates example_task) \<and> (s, stg_stage_id g) \<in> (depends_rel (stage_index example_task))\<^sup>*"
  by (rule pending_gates_have_ready_stage [OF example_task_accepted example_pending]) simp

text \<open>
  Running a ready stage keeps the snapshot valid: a new result of a ready stage whose
  measurements are as declared can always be appended.
\<close>

theorem ready_stage_extends_snapshot:
  assumes "TaskSpec_validate dg raw = Inr t" "stage_eligibility t rs (sgr_stage_id r) = Inr e"
    and "elg_state e = Stage_READY" "evidence_ok t r"
  shows "\<exists>vs. validate_stage_results t (rs @ [r]) = Inr vs"
proof -
  note wf = TaskSpec_validate_task_wf [OF assms(1)]
  have s: "sgr_stage_id r \<in> set (dict_keys (stage_index t))"
    and v: "\<exists>vs. validate_stage_results t rs = Inr vs"
    using assms(2) by (auto simp: stage_eligibility_def Let_def split: if_splits)
  from v have ok: "results_ok t rs" using validate_stage_results_iff [OF wf] by blast
  have "e = eligibility_spec t rs (sgr_stage_id r)" using stage_eligibility_spec [OF wf ok s] assms(2) by simp
  with assms(3) have "sgr_stage_id r \<notin> completed rs" "deps (stage_index t) (sgr_stage_id r) \<subseteq> promoted rs"
    unfolding ready_iff_promoted [OF wf ok, symmetric] by (simp_all add: eligibility_spec_ready [OF ok])
  then have "results_ok t (rs @ [r])" using extension_ok [OF ok s] assms(4) by blast
  then show ?thesis using validate_stage_results_iff [OF wf] by blast
qed

text \<open>
  Verdicts are final. Once the hard gates have succeeded or failed, every larger valid
  snapshot gives the same verdict.
\<close>

theorem hard_gate_verdict_final:
  assumes "TaskSpec_validate dg raw = Inr t"
    and "hard_gate_status t rs = Inr h" "hard_gate_status t rs' = Inr h'" "set rs \<subseteq> set rs'"
    and "hgs_state h \<noteq> Gate_PENDING"
  shows "hgs_state h' = hgs_state h"
proof -
  note wf = TaskSpec_validate_task_wf [OF assms(1)]
  obtain vs vs' where v: "validate_stage_results t rs = Inr vs" "validate_stage_results t rs' = Inr vs'"
    using assms(2,3) by (auto simp: hard_gate_status_def)
  then have ok: "results_ok t rs" "results_ok t rs'" using validate_stage_results_iff [OF wf] by blast+
  have h: "h = gate_spec t rs" "h' = gate_spec t rs'"
    using hard_gate_status_spec [OF wf ok(1)] hard_gate_status_spec [OF wf ok(2)] assms(2,3) by simp_all
  have mono: "promoted rs \<subseteq> promoted rs'" "rejected rs \<subseteq> rejected rs'"
    using snapshot_mono [OF assms(4)] ok(2) by (simp_all add: results_ok_def)
  show ?thesis
  proof (cases "hgs_state h")
    case Gate_SUCCEEDED
    then have "set (gate_ids t) \<subseteq> promoted rs'"
      using gate_spec_state(1) [OF wf ok(1)] mono(1) unfolding h by blast
    then show ?thesis using gate_spec_state(1) [OF wf ok(2)] Gate_SUCCEEDED unfolding h by simp
  next
    case Gate_FAILED
    then have "\<exists>g \<in> set (gate_ids t). \<exists>a \<in> rejected rs'. (a, g) \<in> (depends_rel (stage_index t))\<^sup>*"
      using gate_spec_state(2) [OF wf ok(1)] mono(2) unfolding h by blast
    then show ?thesis using gate_spec_state(2) [OF wf ok(2)] Gate_FAILED unfolding h by simp
  qed (use assms(5) in simp)
qed

definition example_gated :: "StageResult list" where
  "example_gated = [example_result ''sim'' Outcome_PROVED [], example_result ''lint'' Outcome_PASSED []]"

lemma example_gate_success:
  "hard_gate_status example_task example_gated = Inr \<lparr>hgs_state = Gate_SUCCEEDED, hgs_failed_gate_ids = [],
     hgs_blocking_stage_ids = [], hgs_pending_gate_ids = []\<rparr>"
  by code_simp

lemma example_passed_gates: "\<exists>h. hard_gate_status example_task example_passed = Inr h"
  using hard_gate_status_spec [OF TaskSpec_validate_task_wf [OF example_task_accepted]]
    validate_stage_results_iff [OF TaskSpec_validate_task_wf [OF example_task_accepted]] example_passed_valid
  by blast

end
