(* ===== verification/ScoringProperties.thy ===== *)
theory ScoringProperties
  imports ScoringFacts PromotionProperties
begin

section \<open>Properties of scoring\<close>

text \<open>
  The properties of aggregation, scores and dominance, with witnesses on the concrete task.
\<close>

subsection \<open>Rounding and aggregation\<close>

text \<open>
  C39: rounding to \<open>p\<close> significant digits gives a number with at most \<open>p\<close> significant digits,
  no such number is closer to the exact value, and the relative error is at most half a unit in
  the last place.
\<close>

theorem rounded_fraction_correct:
  assumes "0 < p"
  shows "representable p (rounded_fraction x (int p))
     \<and> (representable p z \<longrightarrow> \<bar>rounded_fraction x (int p) - x\<bar> \<le> \<bar>z - x\<bar>)
     \<and> \<bar>rounded_fraction x (int p) - x\<bar> \<le> \<bar>x\<bar> * pow10 (1 - int p) / 2"
proof (cases "x = 0")
  case True
  then show ?thesis using rounded_fraction_representable_aux [OF assms, of x] by (simp add: rounded_fraction_def)
next
  case False
  then show ?thesis
    using rounded_fraction_representable_aux [OF assms] rounded_fraction_nearest_aux [OF False assms]
      rounded_fraction_error_aux [OF False assms] by blast
qed

theorem rounded_fraction_correct_witness:
  "rounded_fraction (2 / 3) 3 = 667 / 1000 \<and> representable 3 (rounded_fraction (2 / 3) (int 3))"
proof -
  have "rounded_fraction (2 / 3) 3 = 667 / 1000" by code_simp
  then show ?thesis using rounded_fraction_correct [of 3 "2 / 3" 0] by simp
qed

text \<open>
  The aggregate of a sample vector does not depend on the order of the samples, and a
  validated measurement specification aggregates every sample vector of the declared length.
\<close>

theorem aggregate_samples_order_total:
  assumes "MeasurementSpec_validate raw = Inr m" "int (length xs) = msp_repetitions m"
    and "mset ys = mset xs"
  shows "\<exists>v. aggregate_samples m xs = Inr v \<and> aggregate_samples m ys = Inr v"
  using aggregate_samples_total [OF assms(1,2)] aggregate_samples_perm [OF assms(3), of m] by simp

text \<open>
  Worst-case aggregation returns one of the samples, and no sample is worse in the direction
  of the measurement (largest when minimising, smallest when maximising, farthest from the target).
\<close>

theorem worst_aggregation_is_worst:
  assumes "msp_aggregation m = WORST" "aggregate_samples m xs = Inr v"
  shows "v \<in> set xs \<and> (x \<in> set xs \<longrightarrow> no_better m v x)"
  using worst_is_worst [OF assms] by blast

definition example_target :: MeasurementSpec where
  "example_target = example_measurement\<lparr>msp_aggregation := WORST, msp_direction := TARGET,
     msp_target := Some 10, msp_repetitions := 3\<rparr>"

text \<open>
  The seeds of a sample schedule are distinct, one per repetition, and a shorter schedule of
  the same measurement is a prefix of a longer one.
\<close>

theorem sample_schedule_prefix:
  assumes "measurement_sample_seeds dumps sha seed i n = Inr ss"
    and "measurement_sample_seeds dumps sha seed i k = Inr ss'" "n \<le> k"
  shows "distinct ss \<and> int (length ss) = n \<and> ss = take (nat n) ss'"
proof -
  have n: "1 \<le> n" and s: "map_result (sample_seed dumps sha seed i) [0..<nat n] = Inr ss" "distinct ss"
    using assms(1) by (auto simp: measurement_sample_seeds_def split: if_splits sum.splits)
  have s': "map_result (sample_seed dumps sha seed i) [0..<nat k] = Inr ss'"
    using assms(2) by (auto simp: measurement_sample_seeds_def split: if_splits sum.splits)
  have len: "length ss = nat n" "length ss' = nat k"
    using s(1) s' by (auto dest!: map_result_length)
  have "ss ! j = ss' ! j" if "j < nat n" for j
  proof -
    have "sample_seed dumps sha seed i j = Inr (ss ! j)"
      using s(1) that by (auto simp: map_result_Inr list_all2_conv_all_nth)
    moreover have "sample_seed dumps sha seed i j = Inr (ss' ! j)"
      using s' that assms(3) by (auto simp: map_result_Inr list_all2_conv_all_nth)
    ultimately show ?thesis by simp
  qed
  then have "ss = take (nat n) ss'" using len assms(3) by (intro nth_equalityI) auto
  then show ?thesis using s(2) len n by simp
qed

definition example_dumps :: "json \<Rightarrow> string" where
  "example_dumps j = (case j of JObject items \<Rightarrow> concat (map (\<lambda>(_, v). case v of
       JInt n \<Rightarrow> replicate (nat n) (CHR ''1'') | _ \<Rightarrow> []) items) | _ \<Rightarrow> [])"

definition example_sha :: "string \<Rightarrow> string" where
  "example_sha p = (if last p = CHR ''1'' then ''1'' else ''0'')"

subsection \<open>Scores\<close>

text \<open>
  When scoring is ready, a score is always built. Without a scorer it is the vector of the
  aggregates in the task's order; with one it also carries the weighted sum of the aggregates,
  rounded to the scorer's precision, and the scorer's revision.
\<close>

theorem build_candidate_score_ready:
  assumes "TaskSpec_validate dg raw = Inr t"
    and "scorer_eligibility t rs = Inr e" "sel_state e = Scorer_READY"
  shows "\<exists>vs. validate_stage_results t rs = Inr vs \<and>
     build_candidate_score dg t rs = Inr (case grf_scorer (tsk_evaluation t) of
       None \<Rightarrow> Score_Pareto \<lparr>pvs_measurements = aggregate_vector t vs\<rparr>
     | Some scorer \<Rightarrow> Score_Scalar \<lparr>scs_measurements = aggregate_vector t vs,
         scs_value = rounded_fraction (scalar_value t vs scorer) (scr_precision_digits scorer),
         scs_direction = scr_direction scorer, scs_scorer_revision_digest = dg_scorer_revision dg scorer\<rparr>)"
proof -
  note wf = TaskSpec_validate_task_wf [OF assms(1)]
  obtain vs where v: "validate_stage_results t rs = Inr vs" using assms(2) by (auto simp: scorer_eligibility_def)
  note v' = validated_ok [OF wf v]
  have "e = scorer_spec t rs" using scorer_eligibility_spec [OF wf v'(3)] assms(2) by simp
  with assms(3) have ne: "tsk_measurements t \<noteq> []" using scorer_spec_ready [OF wf v'(3)] by simp
  show ?thesis
    using v aggregate_measurements_ok [OF assms v] build_score_ok [OF assms(1) ne, of vs]
    by (simp add: build_candidate_score_def)
qed

lemma example_scorer_ready:
  "scorer_eligibility example_task example_passed
     = Inr \<lparr>sel_state = Scorer_READY, sel_blocking_stage_ids = [], sel_waiting_stage_ids = []\<rparr>"
  by code_simp

text \<open>
  The score does not depend on the order in which the stage results arrived.
\<close>

theorem score_order_independent:
  assumes "TaskSpec_validate dg raw = Inr t"
    and "build_candidate_score dg t rs = Inr s" "build_candidate_score dg t rs' = Inr s'" "set rs = set rs'"
  shows "s = s'"
proof -
  note wf = TaskSpec_validate_task_wf [OF assms(1)]
  obtain e vs where e: "scorer_eligibility t rs = Inr e" "sel_state e = Scorer_READY"
      "validate_stage_results t rs = Inr vs"
    using assms(2) by (auto simp: build_candidate_score_def aggregate_measurements_def split: if_splits)
  obtain e' vs' where e': "scorer_eligibility t rs' = Inr e'" "sel_state e' = Scorer_READY"
      "validate_stage_results t rs' = Inr vs'"
    using assms(3) by (auto simp: build_candidate_score_def aggregate_measurements_def split: if_splits)
  have "vs = vs'" using validate_stage_results_set_cong [OF wf assms(4) e(3) e'(3)] .
  then show ?thesis
    using assms(2,3) aggregate_measurements_ok [OF assms(1) e] aggregate_measurements_ok [OF assms(1) e']
    by (simp add: build_candidate_score_def)
qed

definition example_score :: CandidateScore where
  "example_score = Score_Pareto \<lparr>pvs_measurements = [\<lparr>agm_measurement_id = ''area'', agm_value = 25 / 2\<rparr>]\<rparr>"

subsection \<open>Dominance\<close>

lemma task_dominance:
  assumes "TaskSpec_validate dg raw = Inr t" "score_for t u" "score_for t v"
  shows "pareto_dominates t u v = Inr (dominates t u v)"
proof -
  have d: "distinct (map msp_measurement_id (tsk_measurements t))"
    using TaskSpec_validate_task_wf [OF assms(1)] by (simp add: task_wf_def)
  have k: "\<forall>m \<in> set (tsk_measurements t). target_known m"
    using task_measurement_valid [OF assms(1)] MeasurementSpec_target_known by blast
  show ?thesis by (rule pareto_dominates_ok [OF d k assms(2,3)])
qed

end
