(* ===== verification/ReplayProperties.thy ===== *)
theory ReplayProperties
  imports ReplayInvariants ScoringProperties
begin

section \<open>Properties of replayed runs\<close>

text \<open>
  The guarantees of \<open>replay\<close> as statements about accepted journals, each with a witness on the
  example run defined first: a run of the example task in which control is handed over, a candidate
  is submitted, its three stages are evaluated, its score is recorded and the run ends in a verifier
  success.
\<close>

subsection \<open>An example run\<close>

definition example_run_digests :: run_digests where
  "example_run_digests = \<lparr>rdg_run_binding = (\<lambda>_. ''sha256:run''), rdg_process = (\<lambda>p. replicate (nat (ppi_process_id p)) (CHR ''p'')),
     rdg_incarnation = (\<lambda>b. replicate (nat (pib_generation b)) (CHR ''g'')),
     rdg_journal_anchor = (\<lambda>_. ''sha256:anchor''),
     rdg_commit = (\<lambda>previous events. CHR ''c'' # previous @ concat (map evt_event_id events)),
     rdg_dumps = example_dumps, rdg_sha256_hex = example_sha\<rparr>"

definition example_binding :: RunBinding where
  "example_binding =
     \<lparr>bnd_purpose = Purpose_STANDARD,
      bnd_task = \<lparr>trb_family = ''family'', trb_authoring_revision = 1, trb_task_spec_digest = ''sha256:task'',
        trb_instance_seed = ''s'', trb_instance_digest = ''sha256:instance'', trb_release_digest = ''sha256:release''\<rparr>,
      bnd_environment = \<lparr>erb_environment_spec_digest = ''sha256:environment'', erb_executor_id = ''local'',
        erb_executor_digest = ''sha256:executor'', erb_policy_digest = ''sha256:policy'',
        erb_tools = [\<lparr>rtb_capability = RTL_SIMULATION, rtb_tool_id = ''simulator'', rtb_tool_version = ''5.0'',
          rtb_driver_digest = ''sha256:driver'', rtb_deployment_attestation_digest = ''sha256:deployment''\<rparr>],
        erb_participant_operations = [\<lparr>rpo_operation_id = ''simulate'', rpo_operation_digest = ''sha256:operation'',
          rpo_capability = RTL_SIMULATION, rpo_tool_id = ''simulator''\<rparr>],
        erb_assets = []\<rparr>,
      bnd_session = \<lparr>srb_session_spec_digest = ''sha256:session'',
        srb_actors = [Run_Harness \<lparr>har_actor_id = ''agent'', har_harness_digest = ''sha256:harness'',
          har_scaffold_digest = ''sha256:scaffold'', har_requested_model_route = ''model''\<rparr>,
          Run_Human \<lparr>hra_actor_id = ''human'', hra_adapter_digest = ''sha256:adapter''\<rparr>],
        srb_initial_writer = ''human'', srb_handoff_enabled = True,
        srb_feedback_policy_digest = ''sha256:feedback'', srb_budget_digest = ''sha256:budget''\<rparr>,
      bnd_evaluators = [\<lparr>evb_evaluator_id = ''ev'', evb_revision_digest = ''sha256:ev''\<rparr>],
      bnd_measurement_schema_digest = ''sha256:schema'', bnd_scorer_revision_digest = None,
      bnd_trial_key = ''trial'', bnd_campaign = None,
      bnd_lineage = \<lparr>lin_parent_run_id = None, lin_parent_checkpoint_id = None, lin_parent_candidate_id = None\<rparr>\<rparr>"

definition example_env :: replay_env where
  "example_env = \<lparr>env_digests = example_run_digests, env_task_digests = example_digests,
     env_header = \<lparr>hdr_run_id = ''sha256:run'', hdr_binding = example_binding\<rparr>, env_task = example_task\<rparr>"

definition example_event :: "nat \<Rightarrow> ProducerKind \<Rightarrow> Identifier option \<Rightarrow> Visibility \<Rightarrow> Identifier list
    \<Rightarrow> EventPayload \<Rightarrow> RunEvent" where
  "example_event n producer actor visibility refs payload =
     \<lparr>evt_run_id = ''sha256:run'', evt_sequence = int n, evt_event_id = replicate n (CHR ''e''),
      evt_timestamp = Aware (int n), evt_producer = producer, evt_actor = actor, evt_visibility = visibility,
      evt_artifact_refs = refs, evt_payload = payload\<rparr>"

definition example_report :: ArtifactRecord where
  "example_report = \<lparr>art_logical_id = ''report'', art_blob = \<lparr>blb_digest = ''sha256:report'', blb_size_bytes = 10\<rparr>,
     art_media_type = SANITIZED_MEASUREMENTS_MEDIA_TYPE, art_artifact_class = Artifact_MEASUREMENT,
     art_sensitivity = Sensitivity_INTERNAL, art_visibility = Visibility_PARTICIPANT,
     art_redistribution = Redistribution_RESTRICTED\<rparr>"

definition example_provenance :: MeasurementProvenance where
  "example_provenance = \<lparr>mpv_unit = Unit_SQUARE_MICROMETER, mpv_tool_id = ''simulator'', mpv_tool_version = ''5.0'',
     mpv_library_id = ''not_applicable'', mpv_library_digest = ''sha256:none'', mpv_corner = ''tt'', mpv_mode = ''func'',
     mpv_task_seed = ''s'', mpv_sample_seeds = [''0''], mpv_source_artifact_id = ''report'',
     mpv_source_digest = ''sha256:report''\<rparr>"

definition example_stage_result :: "Identifier \<Rightarrow> StageResult" where
  "example_stage_result stage =
     (if stage = ''ppa''
      then \<lparr>sgr_stage_id = stage, sgr_outcome = Outcome_PASSED,
        sgr_measurements = [example_area\<lparr>mev_provenance := Some example_provenance\<rparr>],
        sgr_evidence = [\<lparr>aev_kind = Evidence_MEASUREMENT, aev_artifact_id = ''report''\<rparr>]\<rparr>
      else example_result stage Outcome_PASSED [])"

definition example_evaluation :: "nat \<Rightarrow> Identifier \<Rightarrow> Identifier list \<Rightarrow> RunEvent list" where
  "example_evaluation n stage refs =
     [example_event n Producer_EVALUATOR None Visibility_VERIFIER []
        (EvaluationStarted \<lparr>esp_stage_id = stage, esp_candidate_id = ''c1'', esp_job_id = stage\<rparr>),
      example_event (n + 1) Producer_EXECUTOR None Visibility_VERIFIER []
        (JobStateChanged \<lparr>jsp_job_id = stage, jsp_state = Job_RUNNING, jsp_reason_code = None\<rparr>),
      example_event (n + 2) Producer_EXECUTOR None Visibility_VERIFIER []
        (JobStateChanged \<lparr>jsp_job_id = stage, jsp_state = Job_COMPLETED, jsp_reason_code = None\<rparr>),
      example_event (n + 3) Producer_EVALUATOR None Visibility_VERIFIER refs
        (EvaluationCompleted \<lparr>ecp_candidate_id = ''c1'', ecp_job_id = stage, ecp_result = example_stage_result stage\<rparr>)]"

definition example_submission :: "RunEvent list" where
  "example_submission =
     [example_event 0 Producer_CONTROLLER None Visibility_PUBLIC [] (RunStarted \<lparr>rsp_binding_digest = ''sha256:run''\<rparr>),
      example_event 1 Producer_PARTICIPANT (Some ''human'') Visibility_PARTICIPANT []
        (ControlTransferred \<lparr>ctp_previous_writer = ''human'', ctp_next_writer = ''agent''\<rparr>),
      example_event 2 Producer_PARTICIPANT (Some ''agent'') Visibility_PARTICIPANT []
        (CandidateSubmitted \<lparr>csp_candidate_id = ''c1'', csp_candidate_digest = ''sha256:c1'', csp_parent_candidate_id = None\<rparr>),
      example_event 3 Producer_CONTROLLER None Visibility_VERIFIER [] (ArtifactRecorded \<lparr>arp_record = example_report\<rparr>)]"

definition example_decision :: ScoringDecision where
  "example_decision = \<lparr>dec_eligibility = \<lparr>sel_state = Scorer_READY, sel_blocking_stage_ids = [], sel_waiting_stage_ids = []\<rparr>,
     dec_score = Some example_score\<rparr>"

definition example_journal :: "RunEvent list" where
  "example_journal = example_submission @ example_evaluation 4 ''lint'' [] @ example_evaluation 8 ''sim'' []
     @ example_evaluation 12 ''ppa'' [''report'']
     @ [example_event 16 Producer_EVALUATOR None Visibility_VERIFIER []
          (ScoringRecorded \<lparr>srp_candidate_id = ''c1'', srp_decision = example_decision\<rparr>),
        example_event 17 Producer_CONTROLLER None Visibility_PUBLIC []
          (RunEnded \<lparr>rep_reason = Stop_VERIFIER_SUCCESS, rep_successful_candidate_id = Some ''c1''\<rparr>)]"

definition example_run_state :: RunState where
  "example_run_state = \<lparr>rst_run_id = ''sha256:run'', rst_next_sequence = 18, rst_current_writer = ''agent'',
     rst_candidates = [\<lparr>cst_candidate_id = ''c1'', cst_digest = ''sha256:c1'', cst_parent_candidate_id = None, cst_actor = ''agent''\<rparr>],
     rst_stage_results = map (\<lambda>s. \<lparr>csr_candidate_id = ''c1'', csr_result = example_stage_result s\<rparr>) [''lint'', ''sim'', ''ppa''],
     rst_scoring = [\<lparr>css_candidate_id = ''c1'', css_decision = example_decision\<rparr>], rst_artifacts = [example_report],
     rst_checkpoint_ids = [], rst_interaction_ids = [], rst_provider_requests = [],
     rst_jobs = map (\<lambda>j. \<lparr>jss_job_id = j, jss_state = Job_COMPLETED\<rparr>) [''lint'', ''ppa'', ''sim''],
     rst_terminal_reason = Some Stop_VERIFIER_SUCCESS, rst_successful_candidate_id = Some ''c1''\<rparr>"


lemma example_replay: "replay example_env example_journal = Inr example_run_state"
  by code_simp

lemma example_events_valid: "list_all (\<lambda>e. event_validate example_run_digests e = Inr e) example_journal"
  by code_simp

subsection \<open>Shared facts about accepted journals\<close>

lemma replay_E:
  assumes "replay env es = Inr s"
  obtains st where "replay_loop env es = Inr st" "rps_prefix st = es" "s = run_state_of env es st"
  using assms replay_loop_prefix [of env es] unfolding replay_def by (auto split: if_splits)

text \<open>All invariants of the loop at once.\<close>

lemmas replay_loop_invs =
  envelope.run_inv [folded replay_loop_def] ended.run_inv [folded replay_loop_def]
  reservations.run_inv [folded replay_loop_def] incarnations.run_inv [folded replay_loop_def]
  evaluation.run_inv [folded replay_loop_def] success.run_inv [folded replay_loop_def]
  writer.run_inv [folded replay_loop_def] jobs.run_inv [folded replay_loop_def]
  artifacts.run_inv [folded replay_loop_def] interactions.run_inv [folded replay_loop_def]

lemma replay_loop_leases: "replay_loop env es = Inr st \<Longrightarrow> active_license_leases es = Inr (rps_leases st)"
  using leases.simulated [of env es st] by (auto simp: replay_loop_def active_license_leases_def)

lemma replay_loop_dispatches:
  assumes "replay_loop env es = Inr st"
  shows "participant_tool_dispatches es = Inr (map (\<lambda>(k, r).
     (k, \<lparr>dsp_reservation = r, dsp_terminal = dict_get (rps_terminals st) k\<rparr>)) (rps_reservations st))"
  using dispatches.simulated [of env es st] assms by (auto simp: replay_loop_def participant_tool_dispatches_def)

subsection \<open>Termination\<close>

text \<open>
  C2: a journal that replays to a terminated run ends with the event that terminated it, contains
  no other such event, and leaves nothing open: no unresolved tool request, no active license
  lease, no tool dispatch without a terminal fact, no unanswered provider request and no executor
  job outside a terminal state, as the public projections of the journal report them.
\<close>

theorem replay_terminated_quiescent:
  assumes "replay env es = Inr s" "rst_terminal_reason s \<noteq> None"
    and "\<forall>e\<in>set es. event_validate (env_digests env) e = Inr e"
  shows "es \<noteq> [] \<and> is_run_ended (last es) \<and> list_all (\<lambda>e. \<not> is_run_ended e) (butlast es)
     \<and> unresolved_tool_requests es None = []
     \<and> active_license_leases es = Inr []
     \<and> (\<exists>ds. participant_tool_dispatches es = Inr ds \<and> (\<forall>d\<in>set (dict_values ds). dsp_terminal d \<noteq> None))
     \<and> (\<forall>r\<in>set (rst_provider_requests s). prs_status r \<noteq> None)
     \<and> (\<forall>j\<in>set (rst_jobs s). jss_state j \<in> TERMINAL_JOB_STATES)"
proof -
  from assms(1) obtain st where st: "replay_loop env es = Inr st" "rps_prefix st = es" "s = run_state_of env es st"
    by (rule replay_E)
  have ended: "ended_inv env st" using st(1) by (rule replay_loop_invs)
  have over: "rps_terminal_reason st \<noteq> None" using assms(2) st(3) by (simp add: run_state_of_def)
  with ended have quiet: "rps_leases st = []" "\<not> unsettled_provider st" "\<not> unresolved_interaction st"
    "\<not> active_dispatch st" "list_all (\<lambda>s. s \<in> TERMINAL_JOB_STATES) (dict_values (rps_job_states st))"
    by (simp_all add: ended_inv_def)
  have "relations_constructed es"
    using assms(3) event_validate_relation unfolding relations_constructed_def by blast
  then have "unresolved_tool_requests es None = []"
    using unresolved_agrees [of st] replay_loop_invs(10) [OF st(1)] quiet(3) st(2) by simp
  moreover have "dict_get (rps_terminals st) k \<noteq> None" if "(k, r) \<in> set (rps_reservations st)" for k r
  proof -
    have "k \<in> set (dict_keys (rps_reservations st))" using that by (force simp: dict_keys_def)
    with quiet(4) show ?thesis by (simp add: active_dispatch_def dict_get_None)
  qed
  then have "\<forall>d\<in>set (dict_values (map (\<lambda>(k, r).
      (k, \<lparr>dsp_reservation = r, dsp_terminal = dict_get (rps_terminals st) k\<rparr>)) (rps_reservations st))).
        dsp_terminal d \<noteq> None"
    by (auto simp: dict_values_def)
  moreover have "\<forall>j\<in>set (rst_jobs s). jss_state j \<in> TERMINAL_JOB_STATES"
    using quiet(5) st(3) by (auto simp: run_state_of_def list_all_iff dict_values_def)
  moreover have "\<forall>r\<in>set (rst_provider_requests s). prs_status r \<noteq> None"
    using quiet(2) st(3) by (auto simp: run_state_of_def unsettled_provider_def list_ex_iff)
  ultimately show ?thesis
    using ended over st replay_loop_leases [OF st(1)] replay_loop_dispatches [OF st(1)] quiet(1)
    by (simp add: ended_inv_def)
qed

lemma example_ended: "rst_terminal_reason example_run_state = Some Stop_VERIFIER_SUCCESS"
  by (simp add: example_run_state_def)

theorem replay_terminated_quiescent_witness:
  "unresolved_tool_requests example_journal None = [] \<and> active_license_leases example_journal = Inr []"
  using replay_terminated_quiescent [OF example_replay] example_events_valid example_ended
  by (simp add: example_env_def list_all_iff)

lemma check_envelope_ended:
  "rps_terminal_reason st \<noteq> None \<Longrightarrow> \<exists>reason. check_envelope env st e = Inl (JournalCorruption reason)
     \<and> reason \<in> {Other_run, Not_contiguous, Duplicate_identifier, After_termination}"
  by (simp add: check_envelope_def)

text \<open>
  Once a run has ended every longer journal is rejected as corrupt, whatever the event that
  follows.
\<close>

theorem replay_after_termination:
  assumes "replay env es = Inr s" "rst_terminal_reason s \<noteq> None"
  shows "\<exists>reason. replay env (es @ e # fs) = Inl (JournalCorruption reason)
     \<and> reason \<in> {Other_run, Not_contiguous, Duplicate_identifier, After_termination}"
proof -
  from assms(1) obtain st where st: "replay_loop env es = Inr st" "s = run_state_of env es st" by (rule replay_E)
  then have over: "rps_terminal_reason st \<noteq> None" using assms(2) by (simp add: run_state_of_def)
  then obtain reason where r: "check_envelope env st e = Inl (JournalCorruption reason)"
    "reason \<in> {Other_run, Not_contiguous, Duplicate_identifier, After_termination}"
    using check_envelope_ended [of st env e] by blast
  then have "replay_loop env (es @ e # fs) = Inl (JournalCorruption reason)"
    using st(1) by (simp add: replay_loop_def fold_result_append replay_event_def)
  with r(2) assms(1) show ?thesis unfolding replay_def by (auto split: if_splits)
qed

subsection \<open>Verifier success\<close>

lemma validate_scoring_decision_D:
  assumes "validate_scoring_decision env rs d = Inr ()"
  shows "scorer_eligibility (env_task env) rs = Inr (dec_eligibility d)"
    and "dec_score d = Some score \<Longrightarrow> build_candidate_score (env_task_digests env) (env_task env) rs = Inr score"
  using assms by (auto simp: validate_scoring_decision_def split: option.splits)

text \<open>
  C1: a run of an accepted task that replays to a verifier success names a submitted candidate
  whose recorded results promote every hard-gate stage; its recorded scoring decision is the one the
  promotion rules derive from those results, it is rankable, and its score, if any, is the one the
  scoring rules derive.
\<close>

theorem replay_verifier_success_sound:
  assumes "TaskSpec_validate dg raw = Inr (env_task env)" "replay env es = Inr s"
    and "rst_terminal_reason s = Some Stop_VERIFIER_SUCCESS"
  shows "\<exists>c d. rst_successful_candidate_id s = Some c \<and> c \<in> cst_candidate_id ` set (rst_candidates s)
     \<and> \<lparr>css_candidate_id = c, css_decision = d\<rparr> \<in> set (rst_scoring s)
     \<and> stg_stage_id ` set (hard_gates (env_task env)) \<subseteq> promoted (results_of c (rst_stage_results s))
     \<and> scorer_eligibility (env_task env) (results_of c (rst_stage_results s)) = Inr (dec_eligibility d)
     \<and> sel_state (dec_eligibility d) \<in> {Scorer_READY, Scorer_NOT_CONFIGURED}
     \<and> (\<forall>score. dec_score d = Some score \<longrightarrow>
          build_candidate_score (env_task_digests env) (env_task env) (results_of c (rst_stage_results s)) = Inr score)"
proof -
  from assms(2) obtain st where st: "replay_loop env es = Inr st" "s = run_state_of env es st" by (rule replay_E)
  have inv: "evaluation_inv env st" and "success_inv env st" using st(1) by (auto intro: replay_loop_invs)
  then obtain c where c: "rps_successful_candidate st = Some c" "check_success env (Some c) st = Inr c"
    using assms(3) st(2) by (auto simp: success_inv_def run_state_of_def)
  from c(2) obtain rs g sc where rs: "dict_get (rps_results st) c = Some rs"
    and known: "c \<in> set (dict_keys (rps_candidates st))"
    and g: "hard_gate_status (env_task env) rs = Inr g" "hgs_state g = Gate_SUCCEEDED"
    and sc: "dict_get (rps_scoring st) c = Some sc"
      "sel_state (dec_eligibility (css_decision sc)) \<in> {Scorer_READY, Scorer_NOT_CONFIGURED}"
    by (auto simp: check_success_def split: option.splits)
  have final: "results_of c (rst_stage_results s) = rs"
    using evaluation_invD(2) [OF inv rs] st(2) by (simp add: run_state_of_def)
  from evaluation_invD(6) [OF inv sc(1)] rs
  have decision: "css_candidate_id sc = c" "validate_scoring_decision env rs (css_decision sc) = Inr ()" by auto
  have wf: "task_wf (env_task env)" using assms(1) by (rule TaskSpec_validate_task_wf)
  have "\<exists>v. validate_stage_results (env_task env) rs = Inr v"
    using g(1) by (auto simp: hard_gate_status_def)
  then have ok: "results_ok (env_task env) rs" using validate_stage_results_iff [OF wf] by blast
  have gates: "stg_stage_id ` set (hard_gates (env_task env)) \<subseteq> promoted rs"
    using hard_gate_status_spec [OF wf ok] gate_spec_state(1) [OF wf ok] g by (simp add: gate_ids_def)
  obtain cs where cs: "dict_get (rps_candidates st) c = Some cs" using dict_keys_get [OF known] by blast
  have "c \<in> cst_candidate_id ` set (rst_candidates s)"
    using dict_get_values [OF cs] evaluation_invD(7) [OF inv cs] st(2) by (force simp: run_state_of_def)
  moreover have "\<lparr>css_candidate_id = c, css_decision = css_decision sc\<rparr> \<in> set (rst_scoring s)"
  proof -
    have "sc = \<lparr>css_candidate_id = c, css_decision = css_decision sc\<rparr>" using decision(1) by simp
    with dict_get_values [OF sc(1)] st(2) show ?thesis by (simp add: run_state_of_def)
  qed
  moreover have "rst_successful_candidate_id s = Some c" using c(1) st(2) by (simp add: run_state_of_def)
  ultimately show ?thesis
    using gates sc(2) validate_scoring_decision_D [OF decision(2)] final by metis
qed

theorem replay_verifier_success_sound_witness:
  "stg_stage_id ` set (hard_gates example_task) \<subseteq> promoted (results_of ''c1'' (rst_stage_results example_run_state))"
proof -
  have "env_task example_env = example_task" by (simp add: example_env_def)
  with replay_verifier_success_sound [of example_digests example_task, OF _ example_replay example_ended] example_task_accepted
  show ?thesis by (auto simp: example_run_state_def)
qed

subsection \<open>Candidates and scores\<close>

text \<open>
  C5: in every state a journal replays to, the results of each candidate are empty or a snapshot
  the promotion rules accept, and every recorded scoring decision still agrees with the results of
  its candidate, so a score never becomes stale: no evaluation can complete after it.
\<close>

theorem replay_scores_current:
  assumes "replay env es = Inr s"
  shows "(\<forall>c \<in> cst_candidate_id ` set (rst_candidates s). results_of c (rst_stage_results s) = []
        \<or> (\<exists>v. validate_stage_results (env_task env) (results_of c (rst_stage_results s)) = Inr v))
     \<and> (\<forall>d \<in> set (rst_scoring s).
          scorer_eligibility (env_task env) (results_of (css_candidate_id d) (rst_stage_results s))
            = Inr (dec_eligibility (css_decision d))
          \<and> (\<forall>score. dec_score (css_decision d) = Some score \<longrightarrow>
               build_candidate_score (env_task_digests env) (env_task env)
                 (results_of (css_candidate_id d) (rst_stage_results s)) = Inr score))"
proof -
  from assms obtain st where st: "replay_loop env es = Inr st" "s = run_state_of env es st" by (rule replay_E)
  note inv = replay_loop_invs(5) [OF st(1)]
  have wf: "dict_wf (rps_candidates st)" "dict_wf (rps_scoring st)"
    using dictionaries.run_inv [of env es st] st(1) by (auto simp: replay_loop_def dict_inv_def)
  have results: "results_of c (rps_stage_results st) = []
      \<or> (\<exists>v. validate_stage_results (env_task env) (results_of c (rps_stage_results st)) = Inr v)"
    if x: "x \<in> set (dict_values (rps_candidates st))" and cx: "c = cst_candidate_id x" for c x
  proof -
    obtain k where k: "dict_get (rps_candidates st) k = Some x" using x wf(1) by (auto simp: dict_values_get)
    then have "k = c" using evaluation_invD(7) [OF inv k] cx by simp
    with k obtain rs where "dict_get (rps_results st) c = Some rs"
      using evaluation_invD(1) [OF inv] dict_get_Some_keys [OF k] dict_keys_get [of c "rps_results st"] by auto
    from evaluation_invD(2) [OF inv this] show ?thesis by auto
  qed
  have scores: "scorer_eligibility (env_task env) (results_of (css_candidate_id d) (rps_stage_results st))
        = Inr (dec_eligibility (css_decision d))
      \<and> (\<forall>score. dec_score (css_decision d) = Some score \<longrightarrow>
           build_candidate_score (env_task_digests env) (env_task env)
             (results_of (css_candidate_id d) (rps_stage_results st)) = Inr score)"
    if d: "d \<in> set (dict_values (rps_scoring st))" for d
  proof -
    obtain c where "dict_get (rps_scoring st) c = Some d" using d wf(2) by (auto simp: dict_values_get)
    from evaluation_invD(6) [OF inv this] obtain rs where rs: "css_candidate_id d = c"
      "dict_get (rps_results st) c = Some rs" "validate_scoring_decision env rs (css_decision d) = Inr ()" by blast
    have "results_of (css_candidate_id d) (rps_stage_results st) = rs"
      using evaluation_invD(2) [OF inv rs(2)] rs(1) by simp
    with validate_scoring_decision_D [OF rs(3)] show ?thesis by auto
  qed
  show ?thesis using results scores st(2) by (auto simp: run_state_of_def)
qed

theorem replay_scores_current_witness:
  "scorer_eligibility example_task (results_of ''c1'' (rst_stage_results example_run_state))
     = Inr (dec_eligibility example_decision)"
proof -
  have env: "env_task example_env = example_task" by (simp add: example_env_def)
  have "\<lparr>css_candidate_id = ''c1'', css_decision = example_decision\<rparr> \<in> set (rst_scoring example_run_state)"
    by (simp add: example_run_state_def)
  with replay_scores_current [OF example_replay] env show ?thesis by fastforce
qed

subsection \<open>Writers\<close>

text \<open>
  C29: at every moment of an accepted journal there is one workspace writer, determined by the
  control transfers so far; every event a participant produced is attributed to the writer of its
  moment; and when the initial writer is a bound actor the writer always is.
\<close>

theorem replay_single_writer:
  assumes "replay env es = Inr s" "i < length es" "evt_producer (es ! i) = Producer_PARTICIPANT"
    and "srb_initial_writer (bnd_session (env_binding env)) \<in> env_actor_ids env"
  shows "evt_actor (es ! i) = Some (writer_after env (take i es))
     \<and> rst_current_writer s = writer_after env es \<and> rst_current_writer s \<in> env_actor_ids env"
proof -
  from assms(1) obtain st where st: "replay_loop env es = Inr st" "rps_prefix st = es" "s = run_state_of env es st"
    by (rule replay_E)
  from replay_loop_invs(7) [OF st(1)] st assms(2-4) show ?thesis by (auto simp: writer_inv_def run_state_of_def)
qed

theorem replay_single_writer_witness: "rst_current_writer example_run_state = writer_after example_env example_journal"
proof -
  have "1 < length example_journal" "evt_producer (example_journal ! 1) = Producer_PARTICIPANT"
    "srb_initial_writer (bnd_session (env_binding example_env)) \<in> env_actor_ids example_env"
    by (simp_all add: example_journal_def example_submission_def example_event_def example_env_def
      example_binding_def env_actor_ids_def)
  from replay_single_writer [OF example_replay this] show ?thesis by simp
qed

subsection \<open>Executor jobs\<close>

text \<open>
  C32: the states a journal records for an executor job form a path of the transition table that
  starts in the queued state, and the state replay reports is the last one; in particular a job
  never leaves a terminal state.
\<close>

theorem replay_job_histories:
  assumes "replay env es = Inr s" "j \<in> set (rst_jobs s)"
  shows "job_path (job_history (jss_job_id j) es) \<and> last (job_history (jss_job_id j) es) = jss_state j
     \<and> (\<forall>i < length (job_history (jss_job_id j) es) - 1.
          job_history (jss_job_id j) es ! i \<notin> TERMINAL_JOB_STATES)"
proof -
  from assms(1) obtain st where st: "replay_loop env es = Inr st" "rps_prefix st = es" "s = run_state_of env es st"
    by (rule replay_E)
  have wf: "dict_wf (rps_job_states st)"
    using dictionaries.run_inv [of env es st] st(1) by (auto simp: replay_loop_def dict_inv_def)
  from assms(2) st(3) obtain k v where kv: "(k, v) \<in> set (rps_job_states st)" "j = \<lparr>jss_job_id = k, jss_state = v\<rparr>"
    by (auto simp: run_state_of_def)
  then have "dict_get (rps_job_states st) k = Some v" using wf by (simp add: dict_mem_get)
  with replay_loop_invs(8) [OF st(1)] st(2) have path: "job_path (job_history k es)" "last (job_history k es) = v"
    by (auto simp: job_inv_def dest: spec [of _ k])
  from job_path_inner [OF path(1)] path kv(2) show ?thesis by simp
qed

theorem replay_job_histories_witness:
  "job_history ''sim'' example_journal \<noteq> [] \<and> last (job_history ''sim'' example_journal) = Job_COMPLETED"
proof -
  have "\<lparr>jss_job_id = ''sim'', jss_state = Job_COMPLETED\<rparr> \<in> set (rst_jobs example_run_state)"
    by (simp add: example_run_state_def)
  from replay_job_histories [OF example_replay this] show ?thesis by (auto dest: job_path_nonempty)
qed

subsection \<open>Disclosure\<close>

text \<open>
  C6: whenever an event of an accepted journal references an artifact, an earlier event registered
  that artifact, and its visibility is among those the audience of the referencing event may see:
  an event never discloses an artifact to a wider audience than the artifact's own.
\<close>

theorem replay_no_disclosure:
  assumes "replay env (es @ e # fs) = Inr s" "a \<in> set (evt_artifact_refs e)"
  shows "\<exists>f\<in>set es. \<exists>r. evt_payload f = ArtifactRecorded \<lparr>arp_record = r\<rparr> \<and> art_logical_id r = a
     \<and> art_visibility r \<in> disclosed_to (evt_visibility e)"
proof -
  from assms(1) obtain st where "replay_loop env (es @ e # fs) = Inr st" by (rule replay_E)
  then obtain u v where u: "replay_loop env es = Inr u" "replay_event env u e = Inr v"
    by (auto simp: replay_loop_def fold_result_append)
  from u(2) have "validate_artifact_references e (rps_artifacts u) = Inr ()"
    by (elim replay_event_E check_envelope_E)
  then obtain r where r: "dict_get (rps_artifacts u) a = Some r" "art_visibility r \<in> disclosed_to (evt_visibility e)"
    using assms(2) by (rule validate_artifact_references_E)
  from replay_loop_invs(9) [OF u(1)] r(1) have "art_logical_id r = a"
    "\<exists>f\<in>set (rps_prefix u). evt_payload f = ArtifactRecorded \<lparr>arp_record = r\<rparr>" by (auto simp: artifact_inv_def)
  with r(2) replay_loop_prefix [OF u(1)] show ?thesis by auto
qed

theorem replay_no_disclosure_witness:
  "\<exists>f\<in>set (take 15 example_journal). \<exists>r. evt_payload f = ArtifactRecorded \<lparr>arp_record = r\<rparr> \<and> art_logical_id r = ''report''"
proof -
  have split: "example_journal = take 15 example_journal @ example_journal ! 15 # drop 16 example_journal"
    by (simp add: example_journal_def example_submission_def example_evaluation_def eval_nat_numeral)
  have "''report'' \<in> set (evt_artifact_refs (example_journal ! 15))"
    by (simp add: example_journal_def example_submission_def example_evaluation_def example_event_def eval_nat_numeral)
  with replay_no_disclosure [of example_env "take 15 example_journal" "example_journal ! 15" "drop 16 example_journal"]
    example_replay split show ?thesis by metis
qed

subsection \<open>Prefixes and identity\<close>

text \<open>
  Every prefix of an accepted journal is accepted, so a crash that loses the tail of a journal
  leaves a valid run; the one exception the code makes is the bare start event of a run whose
  purpose requires a participant incarnation.
\<close>

theorem replay_prefix_closed:
  assumes "replay env (es @ fs) = Inr s" "\<not> (requires_incarnation env \<and> length es = 1)"
  shows "\<exists>s'. replay env es = Inr s' \<and> rst_next_sequence s' = int (length es)"
proof -
  from assms(1) obtain st where "replay_loop env (es @ fs) = Inr st" by (rule replay_E)
  then obtain u where u: "replay_loop env es = Inr u"
    using replay_run.run_prefix_closed [of env es fs st] by (auto simp: replay_loop_def)
  from incarnated.run_inv [of env es u] u obtain l where
    l: "participant_incarnation_lifecycle (env_digests env) es = Inr l"
      "requires_incarnation env \<and> 2 \<le> length es \<longrightarrow> lfc_incarnations l \<noteq> []"
    using replay_loop_prefix [OF u] by (auto simp: replay_loop_def incarnated_inv_def)
  have "es = [] \<or> \<not> requires_incarnation env \<or> lfc_incarnations l \<noteq> []"
    using l(2) assms(2) by (cases es; cases "tl es") auto
  then have "replay env es = Inr (run_state_of env es u)"
    using assms(1) u l(1) unfolding replay_def by (auto split: if_splits)
  then show ?thesis by (simp add: run_state_of_def)
qed

text \<open>
  The events of an accepted journal carry the run's identifier, are numbered from zero without
  gaps, have distinct identifiers and bound actors; the first one starts the run with the digest of
  its binding and no later one does.
\<close>

theorem replay_journal_identity:
  assumes "replay env es = Inr s"
  shows "map evt_sequence es = map int [0..<length es] \<and> distinct (map evt_event_id es)
     \<and> (\<forall>e\<in>set es. evt_run_id e = hdr_run_id (env_header env) \<and> set_option (evt_actor e) \<subseteq> env_actor_ids env)
     \<and> (\<forall>i<length es. is_run_started (es ! i) \<longleftrightarrow> i = 0)
     \<and> rst_next_sequence s = int (length es) \<and> rst_run_id s = hdr_run_id (env_header env)"
proof -
  from assms obtain st where st: "replay_loop env es = Inr st" "rps_prefix st = es" "s = run_state_of env es st"
    by (rule replay_E)
  have "is_run_started (es ! i) \<longleftrightarrow> i = 0" if i: "i < length es" for i
  proof -
    have "replay_loop env (take i es @ es ! i # drop (Suc i) es) = Inr st"
      using st(1) i by (simp add: id_take_nth_drop [symmetric])
    then obtain u v where u: "replay_loop env (take i es) = Inr u" "replay_event env u (es ! i) = Inr v"
      by (auto simp: replay_loop_def fold_result_append)
    then have "check_start env i (es ! i) = Inr ()"
      using i replay_loop_prefix [OF u(1)] by (auto elim!: replay_event_E check_envelope_E)
    then show ?thesis
      by (cases "evt_payload (es ! i)") (auto simp: check_start_def is_run_started_def split: if_splits)
  qed
  with replay_loop_invs(1) [OF st(1)] st show ?thesis by (auto simp: envelope_inv_def run_state_of_def)
qed

subsection \<open>Participant tools\<close>

text \<open>
  The tool dispatches of an accepted journal can always be projected, and the usage charged for
  each is at most what its reservation set aside: the settled amounts when it settled, the whole
  reservation while it is open or when it was lost.
\<close>

theorem tool_usage_within_reservations:
  assumes "replay env es = Inr s"
  shows "\<exists>ds. participant_tool_dispatches es = Inr ds \<and> (\<forall>d\<in>set (dict_values ds).
     fst (dispatch_usage d) \<le> trp_reserved_compute_milliseconds (snd (dsp_reservation d))
     \<and> snd (dispatch_usage d) \<le> trp_reserved_license_milliseconds (snd (dsp_reservation d)))"
proof -
  from assms obtain st where st: "replay_loop env es = Inr st" by (rule replay_E)
  note inv = replay_loop_invs(3) [OF st]
  have "fst (dispatch_usage d) \<le> trp_reserved_compute_milliseconds (snd r)
      \<and> snd (dispatch_usage d) \<le> trp_reserved_license_milliseconds (snd r)"
    if r: "(k, r) \<in> set (rps_reservations st)" and d: "d = \<lparr>dsp_reservation = r, dsp_terminal = dict_get (rps_terminals st) k\<rparr>"
    for k r d
  proof (cases "dict_get (rps_terminals st) k")
    case (Some terminal)
    with inv obtain re p where "dict_get (rps_reservations st) k = Some (re, p)" "within_reservation p terminal"
      unfolding dispatch_inv_def by blast
    moreover have "dict_get (rps_reservations st) k = Some r" using r inv by (simp add: dispatch_inv_def dict_mem_get)
    ultimately show ?thesis
      using Some d by (cases terminal) (auto simp: dispatch_usage_def within_reservation_def)
  qed (simp add: d dispatch_usage_def)
  then show ?thesis
    using replay_loop_dispatches [OF st] by (fastforce simp: dict_values_def)
qed

subsection \<open>Participant incarnations\<close>

text \<open>
  The generations of participant incarnations a journal projects are numbered from zero without
  gaps; consecutive generations are joined by exactly one recovery that names both, restores the
  manifest its termination committed, follows that termination in the journal, and moves to a fresh
  process, workspace and artifact directory; and once started a participant either has an active
  incarnation, the latest, or a pending termination of the latest, never both.
\<close>

theorem lifecycle_generation_chain:
  assumes "participant_incarnation_lifecycle dg es = Inr l"
  shows "map pib_generation (lfc_incarnations l) = map int [0..<length (lfc_incarnations l)]
     \<and> length (lfc_recoveries l) = length (lfc_incarnations l) - 1
     \<and> (\<forall>i<length (lfc_recoveries l).
          recovery_links dg (lfc_incarnations l ! i) (lfc_incarnations l ! Suc i) (lfc_recoveries l ! i))
     \<and> (lfc_incarnations l \<noteq> [] \<longrightarrow> (lfc_active_incarnation l = None) = (lfc_pending_termination l \<noteq> None))
     \<and> set_option (lfc_active_incarnation l) \<subseteq> {last (lfc_incarnations l)}
     \<and> itp_incarnation_digest ` set_option (lfc_pending_termination l) \<subseteq> {rdg_incarnation dg (last (lfc_incarnations l))}"
  using lifecycle.run_inv [OF lifecycle_fold [OF assms]] unfolding lifecycle_inv_def by blast

definition example_incarnation :: "int \<Rightarrow> ParticipantIncarnationBinding" where
  "example_incarnation g = \<lparr>pib_generation = g,
     pib_process = \<lparr>ppi_process_id = g + 1, ppi_start_time_ticks = 0, ppi_boot_id_digest = ''sha256:boot''\<rparr>,
     pib_workspace_identity_digest = replicate (nat g) (CHR ''w''),
     pib_artifact_directory_identity_digest = replicate (nat g) (CHR ''d'')\<rparr>"

definition example_recovery :: "RunEvent list" where
  "example_recovery =
     [example_event 1 Producer_CONTROLLER None Visibility_VERIFIER []
        (ParticipantIncarnationStarted \<lparr>isp_incarnation = example_incarnation 0\<rparr>),
      example_event 5 Producer_CONTROLLER None Visibility_VERIFIER []
        (ParticipantIncarnationTerminated \<lparr>itp_incarnation_digest = [], itp_checkpoint_id = ''k'',
           itp_checkpoint_manifest_digest = ''sha256:m''\<rparr>),
      example_event 6 Producer_CONTROLLER None Visibility_VERIFIER []
        (ParticipantIncarnationRestored \<lparr>irp_predecessor_incarnation_digest = [],
           irp_incarnation = example_incarnation 1, irp_checkpoint_id = ''k'',
           irp_checkpoint_manifest_digest = ''sha256:m'', irp_restored_manifest_digest = ''sha256:m''\<rparr>)]"

lemma example_lifecycle:
  "participant_incarnation_lifecycle example_run_digests example_recovery = Inr
     \<lparr>lfc_incarnations = [example_incarnation 0, example_incarnation 1], lfc_initial_started_sequence = Some 1,
      lfc_recoveries = [\<lparr>rec_termination = \<lparr>itp_incarnation_digest = [], itp_checkpoint_id = ''k'',
           itp_checkpoint_manifest_digest = ''sha256:m''\<rparr>, rec_terminated_sequence = 5, rec_restored_sequence = 6,
        rec_restored_incarnation_digest = ''g'', rec_restored_manifest_digest = ''sha256:m''\<rparr>],
      lfc_active_incarnation = Some (example_incarnation 1), lfc_pending_termination = None,
      lfc_pending_termination_sequence = None\<rparr>"
  by code_simp

end
