(* ===== verification/JournalProperties.thy ===== *)
theory JournalProperties
  imports JournalFacts ReplayProperties
begin

section \<open>Properties of the durable journal\<close>

text \<open>
  The guarantees of the journal's writing operations on files: they implement an append of whole event
  groups, survive torn writes, can be repeated, and leave a hash chain that identifies the content.
\<close>

subsection \<open>An example journal file\<close>

definition example_codec :: journal_codec where
  "example_codec = \<lparr>jcd_commit = (\<lambda>_. ''record''), jcd_event = evt_event_id,
     jcd_parse = (\<lambda>_. Some (new_commit example_env [] example_submission))\<rparr>"

lemma example_empty_file: "journal_file example_env example_codec [] []"
  by (simp add: journal_file_def)

lemma example_computed:
  "\<not> isl (replay example_env []) \<and> \<not> isl (replay example_env example_submission)
     \<and> append_events example_env example_codec [] example_submission
       = (lift_replay (replay example_env example_submission), ''record'' @ [LF])"
  by code_simp

lemma example_empty_replay: "\<exists>s. replay example_env (events_of []) = Inr s"
  using example_computed by (cases "replay example_env []") auto

lemma example_encodable: "encodable example_codec (new_commit example_env [] example_submission)"
  by (simp add: encodable_def example_codec_def LF_def CR_def)

lemma example_constructed: "constructed example_env example_submission"
  using example_events_valid by (simp add: constructed_def example_env_def example_journal_def list_all_iff)

lemma example_submission_replays: "\<exists>s. replay example_env example_submission = Inr s"
  using example_computed by (cases "replay example_env example_submission") auto

lemma example_append_result:
  "\<exists>s. append_events example_env example_codec [] example_submission = (Inr s, ''record'' @ [LF])"
  using example_computed example_submission_replays by (auto simp: lift_replay_def)

subsection \<open>Appending\<close>

text \<open>
  C3: appending to a journal file whose events replay implements the contract \<open>append_spec\<close> on
  events, whatever torn tail the file had: the result is the contract's, the new file is again a
  journal file, it holds exactly the contract's events, and reading it returns them.
\<close>

theorem append_events_refines:
  assumes "journal_file env codec cs data" "replay env (events_of cs) = Inr s0"
    and "constructed env requested" "encodable codec (new_commit env cs requested)"
  shows "\<exists>cs'. journal_file env codec cs' (snd (append_events env codec data requested))
     \<and> (fst (append_events env codec data requested), events_of cs') = append_spec env codec (events_of cs) requested
     \<and> read_events env codec (snd (append_events env codec data requested)) = Inr (events_of cs')"
proof -
  from journal_file_append [OF assms(1,3,4) replay_distinct_ids [OF assms(2)]] obtain cs' where
    cs': "journal_file env codec cs' (snd (append_events env codec data requested))"
      "(fst (append_events env codec data requested), events_of cs') = append_spec env codec (events_of cs) requested" .
  then obtain s where "replay env (events_of cs') = Inr s"
    using append_spec_replays [OF assms(2), of codec requested] by (metis snd_conv)
  with cs' read_file [OF cs'(1)] show ?thesis by blast
qed

theorem append_events_refines_witness:
  "read_events example_env example_codec (''record'' @ [LF]) = Inr example_submission"
proof -
  obtain s0 where s0: "replay example_env (events_of []) = Inr s0" using example_empty_replay by blast
  obtain s where s: "append_events example_env example_codec [] example_submission = (Inr s, ''record'' @ [LF])"
    using example_append_result by blast
  from append_events_refines [OF example_empty_file s0 example_constructed example_encodable] obtain cs' where
    cs': "(Inr s, events_of cs') = append_spec example_env example_codec [] example_submission"
      "read_events example_env example_codec (''record'' @ [LF]) = Inr (events_of cs')" by (auto simp: s)
  have "\<not> isl (fst (append_spec example_env example_codec [] example_submission)) \<Longrightarrow>
      snd (append_spec example_env example_codec [] example_submission) = example_submission"
    by (auto simp: append_spec_def split: if_splits sum.splits)
  with cs' show ?thesis by (metis fst_conv isl_def snd_conv sum.distinct(1))
qed

text \<open>
  C4: an append is atomic under a crash: if it succeeded, then the file that holds the old records
  and any prefix of the bytes written decodes to the old events while the prefix is proper, and to
  the new events once it is complete. A torn write never yields a partial group of events.
\<close>

theorem append_crash_atomic:
  assumes "journal_file env codec cs data" "replay env (events_of cs) = Inr s0"
    and "constructed env requested" "encodable codec (new_commit env cs requested)"
    and "append_events env codec data requested = (Inr s, data')"
    and "written = drop (length (file_of codec cs)) data'"
  shows "read_events env codec (file_of codec cs @ take k written)
     = Inr (if k < length written then events_of cs else snd (append_spec env codec (events_of cs) requested))"
proof -
  note distinct = replay_distinct_ids [OF assms(2)]
  have some: "requested \<noteq> []" using assms(5) by (auto simp: append_events_def)
  note eq = append_events_eq [OF assms(1,3) some distinct]
  show ?thesis
  proof (cases "snd (append_spec env codec (events_of cs) requested) = events_of cs")
    case True
    with eq assms(5,6) have "written = []" by simp
    with True read_file [OF journal_file_truncate [OF assms(1)] assms(2)] show ?thesis by simp
  next
    case False
    let ?c = "new_commit env cs requested"
    have grown: "snd (append_spec env codec (events_of cs) requested) = events_of (cs @ [?c])"
      using False append_spec_events [of env codec "events_of cs" requested] by (auto simp: new_commit_def)
    obtain s' where s': "replay env (events_of (cs @ [?c])) = Inr s'"
      using append_spec_replays [OF assms(2), of codec requested] grown by auto
    have written: "written = jcd_commit codec ?c @ [LF]" using False eq assms(5,6) by (simp add: commit_line_def)
    show ?thesis
    proof (cases "k < length written")
      case True
      then have "LF \<notin> set (take k written)"
        using assms(4) written by (auto simp: encodable_def dest: in_set_takeD)
      with torn_prefix [OF assms(1)] read_file [OF _ assms(2)] True show ?thesis by simp
    next
      case False
      with read_file [OF journal_file_extend [OF assms(1,3) some assms(4)] s'] written grown show ?thesis
        by (simp add: commit_line_def)
    qed
  qed
qed

theorem append_crash_atomic_witness:
  "read_events example_env example_codec (take 3 (''record'' @ [LF])) = Inr []"
proof -
  obtain s0 where s0: "replay example_env (events_of []) = Inr s0" using example_empty_replay by blast
  obtain s where s: "append_events example_env example_codec [] example_submission = (Inr s, ''record'' @ [LF])"
    using example_append_result by blast
  from append_crash_atomic [OF example_empty_file s0 example_constructed example_encodable s refl, of 3]
  show ?thesis by simp
qed

text \<open>
  A successful append can be repeated: appending the same events to the resulting file returns
  the same state and leaves the file as it is, so a client that did not see the answer may retry.
\<close>

theorem append_events_idempotent:
  assumes "journal_file env codec cs data" "replay env (events_of cs) = Inr s0"
    and "constructed env requested" "encodable codec (new_commit env cs requested)"
    and "append_events env codec data requested = (Inr s, data')"
  shows "append_events env codec data' requested = (Inr s, data')"
proof -
  note distinct = replay_distinct_ids [OF assms(2)]
  have some: "requested \<noteq> []" using assms(5) by (auto simp: append_events_def)
  from journal_file_append [OF assms(1,3,4) distinct] assms(5) obtain cs' where
    cs': "journal_file env codec cs' data'" "append_spec env codec (events_of cs) requested = (Inr s, events_of cs')"
    by (metis fst_conv snd_conv)
  obtain s' where "replay env (events_of cs') = Inr s'"
    using append_spec_replays [OF assms(2), of codec requested] cs'(2) by auto
  note distinct' = replay_distinct_ids [OF this]
  have eq: "append_events env codec data' requested = (Inr s, file_of codec cs')"
    using append_events_eq [OF cs'(1) assms(3) some distinct'] append_spec_idempotent [OF cs'(2)] by simp
  have "data' = file_of codec cs'"
  proof -
    have "data' = [] \<or> last data' = LF"
      using append_events_eq [OF assms(1,3) some distinct] assms(5) file_of_ends [of cs codec]
      by (cases "cs = []") (auto simp: commit_line_def split: if_splits)
    moreover obtain torn where torn: "data' = file_of codec cs' @ torn" "LF \<notin> set torn"
      using cs'(1) by (auto simp: journal_file_def)
    ultimately show ?thesis using last_in_set [of torn] by (cases "torn = []") auto
  qed
  with eq show ?thesis by simp
qed

text \<open>
  A transaction that succeeds does what an append of the events its factory built from the
  committed state does; it adds no way of changing the journal.
\<close>

theorem transact_is_append:
  assumes "journal_file env codec cs data"
    and "transact_events env codec data factory = (Inr s, data')"
  shows "\<exists>s0. replay env (events_of cs) = Inr s0 \<and> append_events env codec data (factory s0) = (Inr s, data')"
proof -
  let ?d = "\<lparr>dcd_events = events_of cs, dcd_head = head_of env cs, dcd_records = cs\<rparr>"
  have "transact_events env codec data factory = transact_decoded env codec (file_of codec cs) ?d factory"
    using decode_file [OF assms(1)] take_file [OF assms(1)] by (simp add: transact_events_def)
  with assms(2) obtain s0 where s0: "replay env (events_of cs) = Inr s0" "rst_terminal_reason s0 = None"
    and fresh: "factory s0 \<noteq> []" "distinct (map evt_event_id (factory s0))"
      "set (map evt_event_id (events_of cs)) \<inter> set (map evt_event_id (factory s0)) = {}"
      "positions_owned (length (events_of cs)) (factory s0)"
    and commit: "commit_events env codec (file_of codec cs) ?d (factory s0) = (Inr s, data')"
    by (auto simp: transact_decoded_def Let_def split: sum.splits if_splits)
  have none: "\<not> list_ex id (map (\<lambda>i. i \<in> set (dict_keys (dict_of evt_event_id id (events_of cs))))
      (map evt_event_id (factory s0)))"
    using fresh(3) by (auto simp: list_ex_iff dict_keys_dict_of)
  have "append_events env codec data (factory s0) = append_decoded env codec (file_of codec cs) ?d (factory s0)"
    using decode_file [OF assms(1)] take_file [OF assms(1)] fresh(1) by (simp add: append_events_def)
  also have "\<dots> = (Inr s, data')"
    unfolding append_decoded_def Let_def decoded.select_convs using none fresh(2,4) s0 commit by simp
  finally show ?thesis using s0(1) by blast
qed

subsection \<open>Creation\<close>

text \<open>
  C33: what creating a run does, for a validated header that its codec reads back. A task that does not match the header's binding is
  refused and nothing is created. A directory that is missing is added with the header and an empty journal, and creation
  returns the header exactly when its file is within the size that opening admits: a larger one is left in place and the
  error is that of opening it. A directory that exists is never changed, and is accepted exactly when its header file is the
  canonical one and within that size. In every case no other directory is touched, a header that is returned is the one
  asked for and is what opening the directory returns, and creating again has the same result and changes nothing.
\<close>

theorem journal_create_idempotent:
  fixes env codec
  defines "name \<equiv> directory_name (hdr_run_id (env_header env))"
    and "content \<equiv> hcd_encode codec (env_header env) @ [LF]"
    and "task_bound \<equiv> dg_task_spec (env_task_digests env) (env_task env) = trb_task_spec_digest (bnd_task (hdr_binding (env_header env)))
      \<and> validate_task_binding env = Inr ()"
  assumes parse: "hcd_parse codec content = Some (env_header env)"
    and valid: "RunHeader_validate (env_digests env) (env_header env) = Inr (env_header env)"
    and create: "journal_create env codec store = (result, store')"
  shows "(if \<not> task_bound then isl result \<and> store' = store
      else case dict_get store name of
        None \<Rightarrow> store' = dict_set name (content, []) store
          \<and> result = (if length content \<le> 4 * 1024 * 1024 then Inr (env_header env) else Inl (Store_header Header_too_large))
      | Some (existing, _) \<Rightarrow> store' = store
          \<and> (\<not> isl result \<longleftrightarrow> existing = content \<and> length content \<le> 4 * 1024 * 1024))
    \<and> (\<forall>header. result = Inr header \<longrightarrow> header = env_header env \<and> journal_open env codec name store' = Inr header)
    \<and> (\<forall>other. other \<noteq> name \<longrightarrow> dict_get store' other = dict_get store other)
    \<and> journal_create env codec store' = (result, store')"
proof (cases task_bound)
  case False
  with create have "isl result \<and> store' = store"
    by (auto simp: journal_create_def Let_def task_bound_def split: if_splits sum.splits)
  with False create show ?thesis by auto
next
  case True
  have opened: "journal_open env codec name s = Inr header \<longleftrightarrow> header = env_header env \<and> existing = content
      \<and> length content \<le> 4 * 1024 * 1024" if "dict_get s name = Some (existing, j)" "header = env_header env" for s existing j header
    using that(1) True parse valid unfolding that(2)
    by (auto simp: journal_open_def name_def content_def task_bound_def split: option.splits sum.splits if_splits)
  have create_eq: "journal_create env codec s =
      (if name \<in> set (dict_keys s)
       then (bind_result (journal_open env codec name s) (\<lambda>existing. if existing \<noteq> env_header env then Inl Header_conflict else Inr existing), s)
       else (journal_open env codec name (dict_set name (content, []) s), dict_set name (content, []) s))" for s
    using True by (simp add: journal_create_def Let_def name_def content_def task_bound_def)
  show ?thesis
  proof (cases "dict_get store name")
    case None
    then have missing: "name \<notin> set (dict_keys store)" by (auto dest: dict_keys_get)
    let ?store = "dict_set name (content, []) store"
    have fresh: "dict_get ?store name = Some (content, [])" "name \<in> set (dict_keys ?store)" by (simp_all add: dict_get_set dict_keys_set)
    have large: "journal_open env codec name ?store = Inl (Store_header Header_too_large)" if "\<not> length content \<le> 4 * 1024 * 1024"
      using that fresh(1) by (simp add: journal_open_def)
    have result: "store' = ?store"
      "result = (if length content \<le> 4 * 1024 * 1024 then Inr (env_header env) else Inl (Store_header Header_too_large))"
      using create missing large opened [OF fresh(1) refl] by (auto simp: create_eq)
    moreover have "journal_open env codec name store' = result"
      using create missing by (auto simp: create_eq)
    moreover from this have "journal_create env codec store' = (result, store')"
      using result fresh(2) by (auto simp: create_eq)
    ultimately show ?thesis using True None by (auto simp: dict_get_set)
  next
    case (Some d)
    obtain existing j where d: "d = (existing, j)" by (cases d)
    have found: "name \<in> set (dict_keys store)" using Some by (auto dest: dict_get_Some_keys)
    have same: "store' = store"
      and result: "result = bind_result (journal_open env codec name store)
          (\<lambda>existing. if existing \<noteq> env_header env then Inl Header_conflict else Inr existing)"
      using create found by (auto simp: create_eq)
    have accepted: "result = Inr header \<longleftrightarrow> header = env_header env \<and> journal_open env codec name store = Inr (env_header env)" for header
      unfolding result by (cases "journal_open env codec name store") auto
    have "\<not> isl result \<longleftrightarrow> existing = content \<and> length content \<le> 4 * 1024 * 1024"
      using accepted opened [OF Some [unfolded d] refl] by (cases result) auto
    then show ?thesis using True Some d same accepted create by auto
  qed
qed

definition example_header_codec :: header_codec where
  "example_header_codec = \<lparr>hcd_encode = (\<lambda>_. ''header''), hcd_parse = (\<lambda>_. Some (env_header example_env))\<rparr>"

lemma example_header_valid: "RunHeader_validate (env_digests example_env) (env_header example_env) = Inr (env_header example_env)"
  by code_simp

lemma example_task_bound:
  "dg_task_spec (env_task_digests example_env) (env_task example_env) = trb_task_spec_digest (bnd_task (hdr_binding (env_header example_env)))
   \<and> validate_task_binding example_env = Inr () \<and> directory_name (hdr_run_id (env_header example_env)) = ''run''"
  by code_simp

theorem journal_create_idempotent_witness:
  "\<exists>store. journal_create example_env example_header_codec [(''other'', ''x'', ''y'')] = (Inr (env_header example_env), store)
     \<and> dict_get store ''run'' = Some (''header'' @ [LF], []) \<and> dict_get store ''other'' = Some (''x'', ''y'')
     \<and> journal_open example_env example_header_codec ''run'' store = Inr (env_header example_env)
     \<and> journal_create example_env example_header_codec store = (Inr (env_header example_env), store)"
proof -
  obtain result store where create: "journal_create example_env example_header_codec [(''other'', ''x'', ''y'')] = (result, store)"
    by (cases "journal_create example_env example_header_codec [(''other'', ''x'', ''y'')]")
  have codec: "hcd_encode example_header_codec = (\<lambda>_. ''header'')"
    "hcd_parse example_header_codec = (\<lambda>_. Some (env_header example_env))"
    by (simp_all add: example_header_codec_def)
  note created = journal_create_idempotent [OF _ example_header_valid create, unfolded codec, OF refl]
  have result: "result = Inr (env_header example_env)" and store: "store = dict_set ''run'' (''header'' @ [LF], []) [(''other'', ''x'', ''y'')]"
    using conjunct1 [OF created] example_task_bound by simp_all
  have "journal_open example_env example_header_codec ''run'' store = Inr (env_header example_env)"
    using created result example_task_bound by metis
  moreover have "journal_create example_env example_header_codec store = (Inr (env_header example_env), store)"
    using created result by blast
  ultimately show ?thesis using create result by (intro exI [of _ store]) (simp add: store dict_get_set)
qed

subsection \<open>Tamper evidence\<close>

text \<open>
  C30: the head digest that \<open>integrity_digest\<close> reports determines the journal: two files of hash-linked
  records of the same run that report the same digest hold the same records, unless two of the
  digests involved collide.
\<close>

theorem journal_tamper_evident:
  assumes "journal_file env codec cs data" "journal_file env codec ds data'"
    and "journal_integrity_digest env codec data = Inr h" "journal_integrity_digest env codec data' = Inr h"
    and "collision_free (env_digests env) (rdg_journal_anchor (env_digests env) (env_header env)) (cs @ ds)"
  shows "cs = ds \<and> read_events env codec data = read_events env codec data'"
proof -
  have "head_of env cs = h" "head_of env ds = h"
    using assms(3,4) decode_file [OF assms(1)] decode_file [OF assms(2)]
    by (auto simp: journal_integrity_digest_def)
  with linked_head_determines [OF _ _ assms(5)] assms(1,2) have "cs = ds" by (auto simp: journal_file_def)
  then show ?thesis using decode_file [OF assms(1)] decode_file [OF assms(2)] by (simp add: read_events_def)
qed

text \<open>A journal of two linked records, written completely and with a torn third line.\<close>

definition example_records :: "RunCommit list" where
  "example_records = (let c = new_commit example_env [] (take 3 example_submission) in
     [c, new_commit example_env [c] (drop 3 example_submission)])"

definition two_record_codec :: journal_codec where
  "two_record_codec = \<lparr>jcd_commit = (\<lambda>c. if cmt_previous_record_digest c = ''sha256:anchor'' then ''first'' else ''second''),
     jcd_event = evt_event_id,
     jcd_parse = (\<lambda>line. if line = ''first'' then Some (hd example_records) else if line = ''second'' then Some (last example_records)
       else None)\<rparr>"

lemma example_records_computed:
  "linked (env_digests example_env) (rdg_journal_anchor (env_digests example_env) (env_header example_env)) example_records
   \<and> list_all (encodable two_record_codec) example_records
   \<and> file_of two_record_codec example_records = ''first'' @ LF # ''second'' @ [LF]
   \<and> length example_records = 2 \<and> \<not> isl (replay example_env (events_of example_records))
   \<and> collision_free (env_digests example_env) (rdg_journal_anchor (env_digests example_env) (env_header example_env))
       (example_records @ example_records)"
  by code_simp

theorem journal_tamper_evident_witness:
  "length example_records = 2
   \<and> read_events example_env two_record_codec (''first'' @ LF # ''second'' @ [LF])
     = read_events example_env two_record_codec (''first'' @ LF # ''second'' @ LF # ''thi'')"
proof -
  have files: "journal_file example_env two_record_codec example_records (''first'' @ LF # ''second'' @ [LF])"
    "journal_file example_env two_record_codec example_records (''first'' @ LF # ''second'' @ LF # ''thi'')"
    using example_records_computed unfolding journal_file_def list_all_iff by (auto simp: LF_def)
  obtain s0 where "replay example_env (events_of example_records) = Inr s0"
    using example_records_computed by (cases "replay example_env (events_of example_records)") auto
  then have "journal_integrity_digest example_env two_record_codec (''first'' @ LF # ''second'' @ [LF]) = Inr (head_of example_env example_records)"
    "journal_integrity_digest example_env two_record_codec (''first'' @ LF # ''second'' @ LF # ''thi'') = Inr (head_of example_env example_records)"
    using decode_file [OF files(1)] decode_file [OF files(2)]
    by (simp_all add: journal_integrity_digest_def lift_replay_def)
  from journal_tamper_evident [OF files this] example_records_computed show ?thesis by blast
qed

text \<open>
  \<open>bytes.splitlines\<close> also ends lines at carriage returns, so a file whose records are separated that way
  decodes to the same records although no operation writes it: the bytes of a journal are not
  determined by its records.
\<close>

lemma splitlines_cr:
  "LF \<notin> set w \<Longrightarrow> CR \<notin> set w \<Longrightarrow> s \<noteq> [] \<Longrightarrow> hd s \<noteq> LF \<Longrightarrow> splitlines (w @ CR # s) = w # splitlines s"
  by (induction w) (auto simp: LF_def CR_def)

theorem decode_accepts_carriage_return:
  assumes "journal_file env codec [c, d] data"
  shows "decode_durable_prefix (env_digests env) codec (jcd_commit codec c @ CR # jcd_commit codec d @ [LF]) (env_header env)
     = Inr (\<lparr>dcd_events = events_of [c, d], dcd_head = head_of env [c, d], dcd_records = [c, d]\<rparr>,
            length (file_of codec [c, d]))"
proof -
  have enc: "encodable codec c" "encodable codec d" using assms by (auto simp: journal_file_def)
  have lines: "splitlines (jcd_commit codec c @ CR # jcd_commit codec d @ [LF]) = [jcd_commit codec c, jcd_commit codec d]"
    using splitlines_cr [of "jcd_commit codec c" "jcd_commit codec d @ [LF]"] splitlines_line [of "jcd_commit codec d" "[]"] enc
    by (cases "jcd_commit codec d") (auto simp: encodable_def)
  have "fold_result (decode_record (env_digests env) codec) (decode_init (env_digests env) (env_header env))
      [jcd_commit codec c, jcd_commit codec d]
      = Inr \<lparr>dcd_events = events_of [c, d], dcd_head = head_of env [c, d], dcd_records = [c, d]\<rparr>"
    using run_lines.decode_lines [OF run_records_accepted, of "env_digests env" "decode_init (env_digests env) (env_header env)"
        "[c, d]" codec] assms
    by (auto simp: journal_file_def decode_init_def run_record_after_def)
  then show ?thesis
    by (simp add: decode_durable_prefix_def durable_length_def Let_def lines commit_line_def)
qed

end
