(* ===== verification/Budget.thy ===== *)
theory Budget
  imports Canonical
begin

section \<open>Token budgets of provider requests\<close>

text \<open>
  The model of \<open>providers/budget.py\<close> and of the standalone adapter of
  \<open>providers/provider_budget.py\<close>. The ledger is a record of its counters and the dictionary of
  trial usages; a \<open>BudgetReservation\<close> is an object shared by threads, so a state holds the
  list of the reservations that were handed out and a reservation is named by its position.

  The code takes two locks. \<open>settle\<close>, \<open>settle_unknown\<close> and \<open>cancel\<close> first mark the reservation
  under the reservation's own lock and then, after having released it, change the ledger under
  the ledger's lock; other threads may run in between. The model keeps that: \<open>claim\<close> is the first
  critical section, which leaves a pending ledger call behind, and \<open>ledger_call\<close> is the second
  one. \<open>budget_step\<close> executes one critical section, and a list of actions is one interleaving
  of any number of threads. The sequential methods are the two sections back to back.
\<close>

subsection \<open>Limits\<close>

record BudgetLimits =
  blm_max_requests :: int
  blm_max_input_tokens :: int
  blm_max_output_tokens :: int
  blm_max_total_tokens :: int
  blm_max_requests_per_trial :: int
  blm_max_input_tokens_per_trial :: int
  blm_max_output_tokens_per_trial :: int
  blm_max_total_tokens_per_trial :: int

datatype limits_error = Limit_domain | Total_above_directional | Trial_total_above | Trial_requests_above
  | Trial_input_above | Trial_output_above | Trial_total_above_directional

definition BudgetLimits_validate :: "BudgetLimits \<Rightarrow> limits_error + BudgetLimits" where
  "BudgetLimits_validate l =
     (if \<not> list_all jcs_positive_ok [blm_max_requests l, blm_max_input_tokens l, blm_max_output_tokens l,
           blm_max_total_tokens l, blm_max_requests_per_trial l, blm_max_input_tokens_per_trial l,
           blm_max_output_tokens_per_trial l, blm_max_total_tokens_per_trial l] then Inl Limit_domain
      else if blm_max_total_tokens l > blm_max_input_tokens l + blm_max_output_tokens l
      then Inl Total_above_directional
      else if blm_max_total_tokens_per_trial l > blm_max_total_tokens l then Inl Trial_total_above
      else if blm_max_requests_per_trial l > blm_max_requests l then Inl Trial_requests_above
      else if blm_max_input_tokens_per_trial l > blm_max_input_tokens l then Inl Trial_input_above
      else if blm_max_output_tokens_per_trial l > blm_max_output_tokens l then Inl Trial_output_above
      else if blm_max_total_tokens_per_trial l
            > blm_max_input_tokens_per_trial l + blm_max_output_tokens_per_trial l
      then Inl Trial_total_above_directional
      else Inr l)"

subsection \<open>The ledger\<close>

record TrialUsage =
  tru_committed_requests :: int
  tru_reserved_requests :: int
  tru_committed_input_tokens :: int
  tru_reserved_input_tokens :: int
  tru_committed_output_tokens :: int
  tru_reserved_output_tokens :: int

definition TrialUsage_zero :: TrialUsage where
  "TrialUsage_zero = \<lparr>tru_committed_requests = 0, tru_reserved_requests = 0, tru_committed_input_tokens = 0,
     tru_reserved_input_tokens = 0, tru_committed_output_tokens = 0, tru_reserved_output_tokens = 0\<rparr>"

record BudgetLedger =
  led_limits :: BudgetLimits
  led_committed_requests :: int
  led_reserved_requests :: int
  led_committed_input :: int
  led_reserved_input :: int
  led_committed_output :: int
  led_reserved_output :: int
  led_trials :: "(Identifier, TrialUsage) dict"
  led_violated :: bool

definition BudgetLedger_init :: "BudgetLimits \<Rightarrow> BudgetLedger" where
  "BudgetLedger_init limits = \<lparr>led_limits = limits, led_committed_requests = 0, led_reserved_requests = 0,
     led_committed_input = 0, led_reserved_input = 0, led_committed_output = 0, led_reserved_output = 0,
     led_trials = [], led_violated = False\<rparr>"

record BudgetReservation =
  rsv_trial_id :: Identifier
  rsv_input_tokens :: int
  rsv_output_tokens :: int
  rsv_dispatched :: bool
  rsv_settled :: bool

definition BudgetReservation_init :: "Identifier \<Rightarrow> int \<Rightarrow> int \<Rightarrow> BudgetReservation" where
  "BudgetReservation_init trial_id input_tokens output_tokens = \<lparr>rsv_trial_id = trial_id,
     rsv_input_tokens = input_tokens, rsv_output_tokens = output_tokens, rsv_dispatched = False,
     rsv_settled = False\<rparr>"

datatype protocol_fault = Cannot_dispatch | Cannot_settle | Cannot_cancel | Negative_input | Negative_output
  | Bound_exceeded

datatype budget_error = Reserve_input_value | Reserve_output_value | Reserve_trial_id | BudgetExceeded
  | BudgetProtocolError protocol_fault | Budget_key_error | No_such_object

definition reservation_exceeds :: "BudgetLedger \<Rightarrow> TrialUsage \<Rightarrow> int \<Rightarrow> int \<Rightarrow> bool" where
  "reservation_exceeds l trial input_tokens output_tokens \<longleftrightarrow>
     (let limits = led_limits l; total = input_tokens + output_tokens in
      led_committed_requests l + led_reserved_requests l + 1 > blm_max_requests limits
      \<or> led_committed_input l + led_reserved_input l + input_tokens > blm_max_input_tokens limits
      \<or> led_committed_output l + led_reserved_output l + output_tokens > blm_max_output_tokens limits
      \<or> led_committed_input l + led_reserved_input l + led_committed_output l + led_reserved_output l + total
          > blm_max_total_tokens limits
      \<or> tru_committed_requests trial + tru_reserved_requests trial + 1 > blm_max_requests_per_trial limits
      \<or> tru_committed_input_tokens trial + tru_reserved_input_tokens trial + input_tokens
          > blm_max_input_tokens_per_trial limits
      \<or> tru_committed_output_tokens trial + tru_reserved_output_tokens trial + output_tokens
          > blm_max_output_tokens_per_trial limits
      \<or> tru_committed_input_tokens trial + tru_reserved_input_tokens trial
          + tru_committed_output_tokens trial + tru_reserved_output_tokens trial + total
          > blm_max_total_tokens_per_trial limits)"

definition ledger_reserve :: "Identifier \<Rightarrow> int \<Rightarrow> int \<Rightarrow> BudgetLedger \<Rightarrow> budget_error + BudgetReservation \<times> BudgetLedger" where
  "ledger_reserve trial_id input_tokens output_tokens l =
     (if input_tokens \<le> 0 then Inl Reserve_input_value
      else if output_tokens \<le> 0 then Inl Reserve_output_value
      else if \<not> identifier_ok trial_id then Inl Reserve_trial_id
      else
        let trial = (case dict_get (led_trials l) trial_id of None \<Rightarrow> TrialUsage_zero | Some trial \<Rightarrow> trial) in
        if reservation_exceeds l trial input_tokens output_tokens then Inl BudgetExceeded
        else Inr (BudgetReservation_init trial_id input_tokens output_tokens,
          l\<lparr>led_reserved_requests := led_reserved_requests l + 1,
            led_reserved_input := led_reserved_input l + input_tokens,
            led_reserved_output := led_reserved_output l + output_tokens,
            led_trials := dict_set trial_id
              (trial\<lparr>tru_reserved_requests := tru_reserved_requests trial + 1,
                     tru_reserved_input_tokens := tru_reserved_input_tokens trial + input_tokens,
                     tru_reserved_output_tokens := tru_reserved_output_tokens trial + output_tokens\<rparr>)
              (led_trials l)\<rparr>))"

record BudgetSnapshot =
  bsn_committed_requests :: int
  bsn_reserved_requests :: int
  bsn_committed_input_tokens :: int
  bsn_reserved_input_tokens :: int
  bsn_committed_output_tokens :: int
  bsn_reserved_output_tokens :: int
  bsn_violated :: bool

definition snapshot_of :: "BudgetLedger \<Rightarrow> BudgetSnapshot" where
  "snapshot_of l = \<lparr>bsn_committed_requests = led_committed_requests l,
     bsn_reserved_requests = led_reserved_requests l,
     bsn_committed_input_tokens = led_committed_input l, bsn_reserved_input_tokens = led_reserved_input l,
     bsn_committed_output_tokens = led_committed_output l, bsn_reserved_output_tokens = led_reserved_output l,
     bsn_violated = led_violated l\<rparr>"

text \<open>
  The ledger's internal methods return what they raise together with the ledger as they leave
  it: an exception does not undo the assignments before it.
\<close>

type_synonym ledger_result = "(budget_error + unit) \<times> BudgetLedger"

definition remove_reserved :: "BudgetReservation \<Rightarrow> BudgetLedger \<Rightarrow> ledger_result" where
  "remove_reserved r l =
     (let l = l\<lparr>led_reserved_requests := led_reserved_requests l - 1,
                led_reserved_input := led_reserved_input l - rsv_input_tokens r,
                led_reserved_output := led_reserved_output l - rsv_output_tokens r\<rparr>
      in case dict_get (led_trials l) (rsv_trial_id r) of
           None \<Rightarrow> (Inl Budget_key_error, l)
         | Some trial \<Rightarrow> (Inr (), l\<lparr>led_trials := dict_set (rsv_trial_id r)
             (trial\<lparr>tru_reserved_requests := tru_reserved_requests trial - 1,
                    tru_reserved_input_tokens := tru_reserved_input_tokens trial - rsv_input_tokens r,
                    tru_reserved_output_tokens := tru_reserved_output_tokens trial - rsv_output_tokens r\<rparr>)
             (led_trials l)\<rparr>))"

definition ledger_cancel :: "BudgetReservation \<Rightarrow> BudgetLedger \<Rightarrow> ledger_result" where
  "ledger_cancel r l = remove_reserved r l"

definition settlement_exceeds :: "BudgetReservation \<Rightarrow> int \<Rightarrow> int \<Rightarrow> TrialUsage \<Rightarrow> BudgetLedger \<Rightarrow> bool" where
  "settlement_exceeds r input_tokens output_tokens trial l \<longleftrightarrow>
     (let limits = led_limits l in
      input_tokens > rsv_input_tokens r \<or> output_tokens > rsv_output_tokens r
      \<or> led_committed_input l > blm_max_input_tokens limits
      \<or> led_committed_output l > blm_max_output_tokens limits
      \<or> led_committed_input l + led_committed_output l > blm_max_total_tokens limits
      \<or> tru_committed_input_tokens trial > blm_max_input_tokens_per_trial limits
      \<or> tru_committed_output_tokens trial > blm_max_output_tokens_per_trial limits
      \<or> tru_committed_input_tokens trial + tru_committed_output_tokens trial > blm_max_total_tokens_per_trial limits)"

definition ledger_settle :: "BudgetReservation \<Rightarrow> int \<Rightarrow> int \<Rightarrow> BudgetLedger \<Rightarrow> ledger_result" where
  "ledger_settle r input_tokens output_tokens l =
     (if input_tokens < 0 then (Inl (BudgetProtocolError Negative_input), l)
      else if output_tokens < 0 then (Inl (BudgetProtocolError Negative_output), l)
      else case remove_reserved r l of
        (Inl e, l) \<Rightarrow> (Inl e, l)
      | (Inr _, l) \<Rightarrow>
        (let l = l\<lparr>led_committed_requests := led_committed_requests l + 1,
                   led_committed_input := led_committed_input l + input_tokens,
                   led_committed_output := led_committed_output l + output_tokens\<rparr>
         in case dict_get (led_trials l) (rsv_trial_id r) of
              None \<Rightarrow> (Inl Budget_key_error, l)
            | Some trial \<Rightarrow>
              (let trial = trial\<lparr>tru_committed_requests := tru_committed_requests trial + 1,
                     tru_committed_input_tokens := tru_committed_input_tokens trial + input_tokens,
                     tru_committed_output_tokens := tru_committed_output_tokens trial + output_tokens\<rparr>;
                   l = l\<lparr>led_trials := dict_set (rsv_trial_id r) trial (led_trials l)\<rparr>
               in if settlement_exceeds r input_tokens output_tokens trial l
                  then (Inl (BudgetProtocolError Bound_exceeded), l\<lparr>led_violated := True\<rparr>)
                  else (Inr (), l))))"

definition ledger_settle_unknown :: "BudgetReservation \<Rightarrow> BudgetLedger \<Rightarrow> ledger_result" where
  "ledger_settle_unknown r l = ledger_settle r (rsv_input_tokens r) (rsv_output_tokens r) l"

subsection \<open>Reservations\<close>

datatype ledger_request = Request_settle int int | Request_settle_unknown | Request_cancel

record budget_state =
  bst_ledger :: BudgetLedger
  bst_reservations :: "BudgetReservation list"
  bst_pending :: "(nat \<times> ledger_request) list"

type_synonym budget_result = "(budget_error + unit) \<times> budget_state"

definition budget_init :: "BudgetLimits \<Rightarrow> budget_state" where
  "budget_init limits = \<lparr>bst_ledger = BudgetLedger_init limits, bst_reservations = [], bst_pending = []\<rparr>"

definition budget_reserve :: "Identifier \<Rightarrow> int \<Rightarrow> int \<Rightarrow> budget_state \<Rightarrow> (budget_error + nat) \<times> budget_state" where
  "budget_reserve trial_id input_tokens output_tokens s =
     (case ledger_reserve trial_id input_tokens output_tokens (bst_ledger s) of
        Inl e \<Rightarrow> (Inl e, s)
      | Inr (r, l) \<Rightarrow> (Inr (length (bst_reservations s)),
          s\<lparr>bst_ledger := l, bst_reservations := bst_reservations s @ [r]\<rparr>))"

definition mark_dispatched :: "nat \<Rightarrow> budget_state \<Rightarrow> budget_result" where
  "mark_dispatched h s =
     (if length (bst_reservations s) \<le> h then (Inl No_such_object, s)
      else
        let r = bst_reservations s ! h in
        if rsv_settled r \<or> rsv_dispatched r then (Inl (BudgetProtocolError Cannot_dispatch), s)
        else (Inr (), s\<lparr>bst_reservations := (bst_reservations s)[h := r\<lparr>rsv_dispatched := True\<rparr>]\<rparr>))"

text \<open>
  The first critical section of \<open>settle\<close> and \<open>settle_unknown\<close> (which need a dispatched
  reservation) and of \<open>cancel\<close> (which needs one that was not dispatched).
\<close>

fun claim_fault :: "ledger_request \<Rightarrow> BudgetReservation \<Rightarrow> protocol_fault option" where
  "claim_fault Request_cancel r =
     (if rsv_settled r \<or> rsv_dispatched r then Some Cannot_cancel else None)"
| "claim_fault _ r =
     (if rsv_settled r \<or> \<not> rsv_dispatched r then Some Cannot_settle else None)"

definition claim :: "nat \<Rightarrow> ledger_request \<Rightarrow> budget_state \<Rightarrow> budget_result" where
  "claim h request s =
     (if length (bst_reservations s) \<le> h then (Inl No_such_object, s)
      else
        let r = bst_reservations s ! h in
        case claim_fault request r of
          Some fault \<Rightarrow> (Inl (BudgetProtocolError fault), s)
        | None \<Rightarrow> (Inr (), s\<lparr>bst_reservations := (bst_reservations s)[h := r\<lparr>rsv_settled := True\<rparr>],
                             bst_pending := bst_pending s @ [(h, request)]\<rparr>))"

fun ledger_perform :: "ledger_request \<Rightarrow> BudgetReservation \<Rightarrow> BudgetLedger \<Rightarrow> ledger_result" where
  "ledger_perform (Request_settle input_tokens output_tokens) r l = ledger_settle r input_tokens output_tokens l"
| "ledger_perform Request_settle_unknown r l = ledger_settle_unknown r l"
| "ledger_perform Request_cancel r l = ledger_cancel r l"

definition remove_nth :: "nat \<Rightarrow> 'a list \<Rightarrow> 'a list" where
  "remove_nth n xs = take n xs @ drop (Suc n) xs"

definition ledger_call :: "nat \<Rightarrow> budget_state \<Rightarrow> budget_result" where
  "ledger_call n s =
     (if length (bst_pending s) \<le> n then (Inl No_such_object, s)
      else
        let (h, request) = bst_pending s ! n;
            (result, l) = ledger_perform request (bst_reservations s ! h) (bst_ledger s)
        in (result, s\<lparr>bst_ledger := l, bst_pending := remove_nth n (bst_pending s)\<rparr>))"

text \<open>The methods as one thread runs them without interference.\<close>

definition claim_and_call :: "nat \<Rightarrow> ledger_request \<Rightarrow> budget_state \<Rightarrow> budget_result" where
  "claim_and_call h request s =
     (case claim h request s of
        (Inl e, s) \<Rightarrow> (Inl e, s)
      | (Inr _, s) \<Rightarrow> ledger_call (length (bst_pending s) - 1) s)"

definition reservation_settle :: "nat \<Rightarrow> int \<Rightarrow> int \<Rightarrow> budget_state \<Rightarrow> budget_result" where
  "reservation_settle h input_tokens output_tokens s =
     claim_and_call h (Request_settle input_tokens output_tokens) s"

definition reservation_settle_unknown :: "nat \<Rightarrow> budget_state \<Rightarrow> budget_result" where
  "reservation_settle_unknown h s = claim_and_call h Request_settle_unknown s"

definition reservation_cancel :: "nat \<Rightarrow> budget_state \<Rightarrow> budget_result" where
  "reservation_cancel h s = claim_and_call h Request_cancel s"

subsection \<open>The standalone provider budget\<close>

record ProviderUsage =
  pus_input_tokens :: int
  pus_output_tokens :: int
  pus_total_tokens :: int
  pus_cached_input_tokens :: "int option"
  pus_reasoning_tokens :: "int option"

datatype usage_error = Usage_negative | Usage_total | Usage_cached | Usage_reasoning

definition ProviderUsage_post_init :: "ProviderUsage \<Rightarrow> usage_error + ProviderUsage" where
  "ProviderUsage_post_init u =
     (if list_ex (\<lambda>v. v < 0) ([pus_input_tokens u, pus_output_tokens u, pus_total_tokens u]
          @ List.map_filter id [pus_cached_input_tokens u, pus_reasoning_tokens u]) then Inl Usage_negative
      else if pus_total_tokens u \<noteq> pus_input_tokens u + pus_output_tokens u then Inl Usage_total
      else if (case pus_cached_input_tokens u of None \<Rightarrow> False | Some c \<Rightarrow> c > pus_input_tokens u) then Inl Usage_cached
      else if (case pus_reasoning_tokens u of None \<Rightarrow> False | Some c \<Rightarrow> c > pus_output_tokens u) then Inl Usage_reasoning
      else Inr u)"

record RequestTokenClaim =
  rtc_input_tokens :: int
  rtc_output_tokens :: int
  rtc_observed_input_token_floor :: int

datatype claim_error = Claim_domain | Claim_floor

definition RequestTokenClaim_validate :: "RequestTokenClaim \<Rightarrow> claim_error + RequestTokenClaim" where
  "RequestTokenClaim_validate c =
     (if \<not> (jcs_positive_ok (rtc_input_tokens c) \<and> jcs_positive_ok (rtc_output_tokens c)
           \<and> jcs_nonnegative_ok (rtc_observed_input_token_floor c)) then Inl Claim_domain
      else if rtc_observed_input_token_floor c \<ge> rtc_input_tokens c then Inl Claim_floor
      else Inr c)"

definition reserve_provider_attempt :: "Identifier \<Rightarrow> RequestTokenClaim \<Rightarrow> budget_state
    \<Rightarrow> (budget_error + nat) \<times> budget_state" where
  "reserve_provider_attempt trial_id token_claim s =
     budget_reserve trial_id (rtc_input_tokens token_claim) (rtc_output_tokens token_claim) s"

definition standalone_settle_completed :: "nat \<Rightarrow> ProviderUsage option \<Rightarrow> budget_state \<Rightarrow> budget_result" where
  "standalone_settle_completed h usage s =
     (case usage of
        None \<Rightarrow> reservation_settle_unknown h s
      | Some u \<Rightarrow> reservation_settle h (pus_input_tokens u) (pus_output_tokens u) s)"

definition standalone_settle_failed :: "nat \<Rightarrow> budget_state \<Rightarrow> budget_result" where
  "standalone_settle_failed h s = reservation_settle_unknown h s"

subsection \<open>Interleavings\<close>

datatype budget_action =
    Act_reserve Identifier int int
  | Act_dispatch nat
  | Act_claim nat ledger_request
  | Act_ledger nat

fun budget_step :: "budget_action \<Rightarrow> budget_state \<Rightarrow> budget_state" where
  "budget_step (Act_reserve t i out) s = snd (budget_reserve t i out s)"
| "budget_step (Act_dispatch h) s = snd (mark_dispatched h s)"
| "budget_step (Act_claim h request) s = snd (claim h request s)"
| "budget_step (Act_ledger n) s = snd (ledger_call n s)"

definition budget_run :: "BudgetLimits \<Rightarrow> budget_action list \<Rightarrow> budget_state" where
  "budget_run limits actions = fold budget_step actions (budget_init limits)"

end
