(* ===== verification/BudgetFacts.thy ===== *)
theory BudgetFacts
  imports Budget
begin

section \<open>The budget ledger refines the history of its reservations\<close>

text \<open>
  The abstract specification of \<open>providers/budget.py\<close>: no counters, only the list of
  reservations with the phase each has reached. An \<open>inductive\<close> relation gives the life of one
  reservation, the counters of the ledger are sums over the list, and the invariant ties a
  state of the model to such a list. Every critical section of every interleaving keeps it.
\<close>

named_theorems entry_simps \<open>what a reservation contributes to the counters\<close>

subsection \<open>The life of a reservation\<close>

datatype phase = Phase_held | Phase_dispatched | Phase_claimed ledger_request | Phase_committed int int
  | Phase_cancelled | Phase_leaked

record budget_entry =
  ent_trial :: Identifier
  ent_input :: int
  ent_output :: int
  ent_phase :: phase

fun claimable :: "ledger_request \<Rightarrow> phase \<Rightarrow> bool" where
  "claimable Request_cancel p \<longleftrightarrow> p = Phase_held"
| "claimable _ p \<longleftrightarrow> p = Phase_dispatched"

fun performed :: "budget_entry \<Rightarrow> ledger_request \<Rightarrow> phase" where
  "performed e (Request_settle i out) = (if i < 0 \<or> out < 0 then Phase_leaked else Phase_committed i out)"
| "performed e Request_settle_unknown = Phase_committed (ent_input e) (ent_output e)"
| "performed e Request_cancel = Phase_cancelled"

inductive phase_step :: "budget_entry \<Rightarrow> phase \<Rightarrow> phase \<Rightarrow> bool" for e where
  dispatch: "phase_step e Phase_held Phase_dispatched"
| claim: "claimable q p \<Longrightarrow> phase_step e p (Phase_claimed q)"
| perform: "phase_step e (Phase_claimed q) (performed e q)"

inductive_simps phase_step_simps: "phase_step e p p'"

subsection \<open>The counters as sums\<close>

fun weight :: "budget_entry \<Rightarrow> TrialUsage" where
  "weight e = (case ent_phase e of
     Phase_committed i out \<Rightarrow> TrialUsage_zero\<lparr>tru_committed_requests := 1, tru_committed_input_tokens := i,
       tru_committed_output_tokens := out\<rparr>
   | Phase_cancelled \<Rightarrow> TrialUsage_zero
   | _ \<Rightarrow> TrialUsage_zero\<lparr>tru_reserved_requests := 1, tru_reserved_input_tokens := ent_input e,
       tru_reserved_output_tokens := ent_output e\<rparr>)"

definition entry_total :: "(budget_entry \<Rightarrow> bool) \<Rightarrow> (TrialUsage \<Rightarrow> int) \<Rightarrow> budget_entry list \<Rightarrow> int" where
  "entry_total P c es = (\<Sum>e\<leftarrow>es. if P e then c (weight e) else 0)"

definition usage_of :: "(budget_entry \<Rightarrow> bool) \<Rightarrow> budget_entry list \<Rightarrow> TrialUsage" where
  "usage_of P es = \<lparr>tru_committed_requests = entry_total P tru_committed_requests es,
     tru_reserved_requests = entry_total P tru_reserved_requests es,
     tru_committed_input_tokens = entry_total P tru_committed_input_tokens es,
     tru_reserved_input_tokens = entry_total P tru_reserved_input_tokens es,
     tru_committed_output_tokens = entry_total P tru_committed_output_tokens es,
     tru_reserved_output_tokens = entry_total P tru_reserved_output_tokens es\<rparr>"

definition led_usage :: "BudgetLedger \<Rightarrow> TrialUsage" where
  "led_usage l = \<lparr>tru_committed_requests = led_committed_requests l, tru_reserved_requests = led_reserved_requests l,
     tru_committed_input_tokens = led_committed_input l, tru_reserved_input_tokens = led_reserved_input l,
     tru_committed_output_tokens = led_committed_output l, tru_reserved_output_tokens = led_reserved_output l\<rparr>"

abbreviation of_trial :: "Identifier \<Rightarrow> budget_entry \<Rightarrow> bool" where
  "of_trial t \<equiv> \<lambda>e. ent_trial e = t"

abbreviation everything :: "budget_entry \<Rightarrow> bool" where
  "everything \<equiv> \<lambda>_. True"

lemma sum_list_replace:
  fixes xs :: "int list"
  shows "h < length xs \<Longrightarrow> sum_list (xs[h := x]) = sum_list xs - xs ! h + x"
proof (induction xs arbitrary: h)
  case (Cons y xs)
  then show ?case by (cases h) auto
qed simp

lemma total_Nil [simp]: "entry_total P c [] = 0"
  by (simp add: entry_total_def)

lemma total_snoc [entry_simps]: "entry_total P c (es @ [e]) = entry_total P c es + (if P e then c (weight e) else 0)"
  by (simp add: entry_total_def)

lemma total_replace [entry_simps]:
  "h < length es \<Longrightarrow> entry_total P c (es[h := e])
     = entry_total P c es - (if P (es ! h) then c (weight (es ! h)) else 0) + (if P e then c (weight e) else 0)"
  by (simp add: entry_total_def map_update sum_list_replace)

lemma total_nonneg: "(\<And>e. e \<in> set es \<Longrightarrow> P e \<Longrightarrow> 0 \<le> c (weight e)) \<Longrightarrow> 0 \<le> entry_total P c es"
  unfolding entry_total_def by (rule sum_list_nonneg) auto

subsection \<open>The invariant\<close>

definition reservation_of :: "budget_entry \<Rightarrow> BudgetReservation" where
  "reservation_of e = \<lparr>rsv_trial_id = ent_trial e, rsv_input_tokens = ent_input e, rsv_output_tokens = ent_output e,
     rsv_dispatched = (case ent_phase e of Phase_held \<Rightarrow> False | Phase_cancelled \<Rightarrow> False
        | Phase_claimed q \<Rightarrow> q \<noteq> Request_cancel | _ \<Rightarrow> True),
     rsv_settled = (case ent_phase e of Phase_held \<Rightarrow> False | Phase_dispatched \<Rightarrow> False | _ \<Rightarrow> True)\<rparr>"

definition overrun :: "budget_entry \<Rightarrow> bool" where
  "overrun e \<longleftrightarrow> (case ent_phase e of Phase_committed i out \<Rightarrow> i > ent_input e \<or> out > ent_output e | _ \<Rightarrow> False)"

definition accounts :: "budget_entry list \<Rightarrow> BudgetLedger \<Rightarrow> bool" where
  "accounts es l \<longleftrightarrow> led_usage l = usage_of everything es
     \<and> (\<forall>t. dict_get (led_trials l) t
          = (if t \<in> ent_trial ` set es then Some (usage_of (of_trial t) es) else None))"

definition pending_of :: "budget_entry list \<Rightarrow> (nat \<times> ledger_request) list \<Rightarrow> bool" where
  "pending_of es pending \<longleftrightarrow> distinct (map fst pending)
     \<and> (\<forall>h q. (h, q) \<in> set pending \<longleftrightarrow> h < length es \<and> ent_phase (es ! h) = Phase_claimed q)"

definition requests_within :: "int \<Rightarrow> TrialUsage \<Rightarrow> bool" where
  "requests_within m u \<longleftrightarrow> tru_committed_requests u + tru_reserved_requests u \<le> m"

definition tokens_within :: "int \<Rightarrow> int \<Rightarrow> int \<Rightarrow> TrialUsage \<Rightarrow> bool" where
  "tokens_within i out tot u \<longleftrightarrow>
     tru_committed_input_tokens u + tru_reserved_input_tokens u \<le> i
     \<and> tru_committed_output_tokens u + tru_reserved_output_tokens u \<le> out
     \<and> tru_committed_input_tokens u + tru_reserved_input_tokens u
         + tru_committed_output_tokens u + tru_reserved_output_tokens u \<le> tot"

definition all_requests_within :: "BudgetLimits \<Rightarrow> budget_entry list \<Rightarrow> bool" where
  "all_requests_within cap es \<longleftrightarrow> requests_within (blm_max_requests cap) (usage_of everything es)
     \<and> (\<forall>t. requests_within (blm_max_requests_per_trial cap) (usage_of (of_trial t) es))"

definition all_tokens_within :: "BudgetLimits \<Rightarrow> budget_entry list \<Rightarrow> bool" where
  "all_tokens_within cap es \<longleftrightarrow>
     tokens_within (blm_max_input_tokens cap) (blm_max_output_tokens cap) (blm_max_total_tokens cap)
       (usage_of everything es)
     \<and> (\<forall>t. tokens_within (blm_max_input_tokens_per_trial cap) (blm_max_output_tokens_per_trial cap)
            (blm_max_total_tokens_per_trial cap) (usage_of (of_trial t) es))"

definition entries_ok :: "BudgetLimits \<Rightarrow> budget_entry list \<Rightarrow> bool" where
  "entries_ok cap es \<longleftrightarrow> (\<forall>e\<in>set es. 0 < ent_input e \<and> 0 < ent_output e
        \<and> (\<forall>i out. ent_phase e = Phase_committed i out \<longrightarrow> 0 \<le> i \<and> 0 \<le> out))
     \<and> all_requests_within cap es
     \<and> ((\<forall>e\<in>set es. \<not> overrun e) \<longrightarrow> all_tokens_within cap es)"

definition budget_inv :: "BudgetLimits \<Rightarrow> budget_entry list \<Rightarrow> budget_state \<Rightarrow> bool" where
  "budget_inv cap es s \<longleftrightarrow> bst_reservations s = map reservation_of es
     \<and> pending_of es (bst_pending s)
     \<and> accounts es (bst_ledger s)
     \<and> led_limits (bst_ledger s) = cap
     \<and> led_violated (bst_ledger s) = (\<exists>e\<in>set es. overrun e)
     \<and> entries_ok cap es"

subsection \<open>Phases and limits\<close>

lemma performed_nonneg:
  "performed e q = Phase_committed i out \<Longrightarrow> 0 < ent_input e \<Longrightarrow> 0 < ent_output e \<Longrightarrow> 0 \<le> i \<and> 0 \<le> out"
  by (cases q) (auto split: if_splits)

lemma entry_phase_id [simp]: "e\<lparr>ent_phase := ent_phase e\<rparr> = e"
  by simp

lemma phase_step_uncommitted: "phase_step e p p' \<Longrightarrow> ent_phase e = p \<Longrightarrow> \<not> overrun e"
  by (auto simp: phase_step_simps overrun_def elim!: claimable.elims)

lemma phase_step_weight:
  assumes "phase_step e (ent_phase e) p'" "0 < ent_input e" "0 < ent_output e"
  defines "u \<equiv> weight e" and "u' \<equiv> weight (e\<lparr>ent_phase := p'\<rparr>)"
  shows "tru_committed_requests u' + tru_reserved_requests u' \<le> tru_committed_requests u + tru_reserved_requests u"
    and "\<not> overrun (e\<lparr>ent_phase := p'\<rparr>) \<Longrightarrow>
      tru_committed_input_tokens u' + tru_reserved_input_tokens u'
        \<le> tru_committed_input_tokens u + tru_reserved_input_tokens u"
    and "\<not> overrun (e\<lparr>ent_phase := p'\<rparr>) \<Longrightarrow>
      tru_committed_output_tokens u' + tru_reserved_output_tokens u'
        \<le> tru_committed_output_tokens u + tru_reserved_output_tokens u"
  using assms(1-3) unfolding u_def u'_def
  by (auto simp: phase_step_simps TrialUsage_zero_def overrun_def elim!: claimable.elims performed.elims split: phase.splits)

lemma usage_of_sel [simp]:
  "tru_committed_requests (usage_of P es) = entry_total P tru_committed_requests es"
  "tru_reserved_requests (usage_of P es) = entry_total P tru_reserved_requests es"
  "tru_committed_input_tokens (usage_of P es) = entry_total P tru_committed_input_tokens es"
  "tru_reserved_input_tokens (usage_of P es) = entry_total P tru_reserved_input_tokens es"
  "tru_committed_output_tokens (usage_of P es) = entry_total P tru_committed_output_tokens es"
  "tru_reserved_output_tokens (usage_of P es) = entry_total P tru_reserved_output_tokens es"
  by (simp_all add: usage_of_def)

text \<open>A change of one entry that raises no sum of committed and reserved keeps the limits.\<close>

lemma requests_within_replace:
  assumes "requests_within m (usage_of P es)" "h < length es" "P e' = P (es ! h)"
    and "tru_committed_requests (weight e') + tru_reserved_requests (weight e')
       \<le> tru_committed_requests (weight (es ! h)) + tru_reserved_requests (weight (es ! h))"
  shows "requests_within m (usage_of P (es[h := e']))"
  using assms by (simp add: requests_within_def total_replace del: weight.simps)

lemma tokens_within_replace:
  assumes "tokens_within i out tot (usage_of P es)" "h < length es" "P e' = P (es ! h)"
    and "tru_committed_input_tokens (weight e') + tru_reserved_input_tokens (weight e')
       \<le> tru_committed_input_tokens (weight (es ! h)) + tru_reserved_input_tokens (weight (es ! h))"
    and "tru_committed_output_tokens (weight e') + tru_reserved_output_tokens (weight e')
       \<le> tru_committed_output_tokens (weight (es ! h)) + tru_reserved_output_tokens (weight (es ! h))"
  shows "tokens_within i out tot (usage_of P (es[h := e']))"
  using assms by (simp add: tokens_within_def total_replace del: weight.simps)

lemma entries_ok_phase:
  assumes ok: "entries_ok cap es" and h: "h < length es" and p: "phase_step (es ! h) (ent_phase (es ! h)) p'"
  defines "e' \<equiv> (es ! h)\<lparr>ent_phase := p'\<rparr>"
  shows "entries_ok cap (es[h := e'])"
  unfolding entries_ok_def
proof (intro conjI impI)
  from ok h have pos: "0 < ent_input (es ! h)" "0 < ent_output (es ! h)" by (auto simp: entries_ok_def)
  note w = phase_step_weight [OF p pos, folded e'_def]
  show "\<forall>e\<in>set (es[h := e']). 0 < ent_input e \<and> 0 < ent_output e
        \<and> (\<forall>i out. ent_phase e = Phase_committed i out \<longrightarrow> 0 \<le> i \<and> 0 \<le> out)"
  proof
    fix e assume "e \<in> set (es[h := e'])"
    then have "e = e' \<or> e \<in> set es" using set_update_subset_insert [of es h e'] by auto
    then show "0 < ent_input e \<and> 0 < ent_output e
        \<and> (\<forall>i out. ent_phase e = Phase_committed i out \<longrightarrow> 0 \<le> i \<and> 0 \<le> out)"
    proof
      assume "e = e'"
      with p pos show ?thesis
        by (auto simp: e'_def phase_step_simps elim!: claimable.elims dest: performed_nonneg [OF sym])
    qed (use ok in \<open>auto simp: entries_ok_def\<close>)
  qed
  from ok have "all_requests_within cap es" by (simp add: entries_ok_def)
  then show "all_requests_within cap (es[h := e'])"
    using w(1) h by (auto simp: all_requests_within_def e'_def intro!: requests_within_replace simp del: weight.simps)
  assume none: "\<forall>e\<in>set (es[h := e']). \<not> overrun e"
  have "\<forall>e\<in>set es. \<not> overrun e"
  proof
    fix e assume "e \<in> set es"
    then obtain k where k: "k < length es" "e = es ! k" by (auto simp: in_set_conv_nth)
    show "\<not> overrun e"
    proof (cases "k = h")
      case True
      with k phase_step_uncommitted [OF p] show ?thesis by simp
    next
      case False
      with k none show ?thesis by (metis in_set_conv_nth length_list_update nth_list_update_neq)
    qed
  qed
  with ok have "all_tokens_within cap es" by (simp add: entries_ok_def)
  moreover from none h have "\<not> overrun e'" by (simp add: set_update_memI)
  ultimately show "all_tokens_within cap (es[h := e'])"
    using w(2,3) h by (auto simp: all_tokens_within_def e'_def intro!: tokens_within_replace simp del: weight.simps)
qed

subsection \<open>Reserving\<close>

lemma total_none: "(\<And>e. e \<in> set es \<Longrightarrow> \<not> P e) \<Longrightarrow> entry_total P c es = 0"
  by (induction es) (auto simp: entry_total_def)

lemma usage_of_none: "(\<And>e. e \<in> set es \<Longrightarrow> \<not> P e) \<Longrightarrow> usage_of P es = TrialUsage_zero"
  by (simp add: usage_of_def TrialUsage_zero_def total_none)

lemma accounts_trial:
  assumes "accounts es l"
  shows "(case dict_get (led_trials l) t of None \<Rightarrow> TrialUsage_zero | Some u \<Rightarrow> u) = usage_of (of_trial t) es"
proof (cases "t \<in> ent_trial ` set es")
  case False
  then have "usage_of (of_trial t) es = TrialUsage_zero" by (intro usage_of_none) auto
  with False assms show ?thesis by (simp add: accounts_def)
qed (use assms in \<open>simp add: accounts_def\<close>)

lemma accounts_usage:
  assumes "accounts es l"
  shows "led_committed_requests l = entry_total everything tru_committed_requests es"
    "led_reserved_requests l = entry_total everything tru_reserved_requests es"
    "led_committed_input l = entry_total everything tru_committed_input_tokens es"
    "led_reserved_input l = entry_total everything tru_reserved_input_tokens es"
    "led_committed_output l = entry_total everything tru_committed_output_tokens es"
    "led_reserved_output l = entry_total everything tru_reserved_output_tokens es"
  using assms by (auto simp: accounts_def led_usage_def usage_of_def)

definition new_entry :: "Identifier \<Rightarrow> int \<Rightarrow> int \<Rightarrow> budget_entry" where
  "new_entry t i out = \<lparr>ent_trial = t, ent_input = i, ent_output = out, ent_phase = Phase_held\<rparr>"

lemma new_entry_facts [simp]:
  "ent_trial (new_entry t i out) = t" "ent_input (new_entry t i out) = i" "ent_output (new_entry t i out) = out"
  "ent_phase (new_entry t i out) = Phase_held" "\<not> overrun (new_entry t i out)"
  "reservation_of (new_entry t i out) = BudgetReservation_init t i out"
  by (simp_all add: new_entry_def overrun_def reservation_of_def BudgetReservation_init_def)

lemma entries_ok_reserve:
  assumes acc: "accounts es l" and ok: "entries_ok (led_limits l) es"
    and fits: "\<not> reservation_exceeds l (usage_of (of_trial t) es) i out" and pos: "0 < i" "0 < out"
  shows "entries_ok (led_limits l) (es @ [new_entry t i out])"
proof -
  have "all_requests_within (led_limits l) (es @ [new_entry t i out])"
    using ok fits unfolding entries_ok_def all_requests_within_def requests_within_def reservation_exceeds_def
    by (auto simp: accounts_usage [OF acc] total_snoc Let_def TrialUsage_zero_def)
  moreover have "all_tokens_within (led_limits l) (es @ [new_entry t i out])"
    if "all_tokens_within (led_limits l) es"
    using that fits unfolding all_tokens_within_def tokens_within_def reservation_exceeds_def
    by (auto simp: accounts_usage [OF acc] total_snoc Let_def TrialUsage_zero_def)
  ultimately show ?thesis using ok pos by (auto simp: entries_ok_def)
qed

lemma accounts_reserve:
  fixes t :: Identifier
  assumes acc: "accounts es l"
  defines "u \<equiv> usage_of (of_trial t) es"
  shows "accounts (es @ [new_entry t i out])
    (l\<lparr>led_reserved_requests := led_reserved_requests l + 1, led_reserved_input := led_reserved_input l + i,
       led_reserved_output := led_reserved_output l + out,
       led_trials := dict_set t (u\<lparr>tru_reserved_requests := tru_reserved_requests u + 1,
         tru_reserved_input_tokens := tru_reserved_input_tokens u + i,
         tru_reserved_output_tokens := tru_reserved_output_tokens u + out\<rparr>) (led_trials l)\<rparr>)"
proof -
  have "usage_of (of_trial t) (es @ [new_entry t i out]) = u\<lparr>tru_reserved_requests := tru_reserved_requests u + 1,
         tru_reserved_input_tokens := tru_reserved_input_tokens u + i,
         tru_reserved_output_tokens := tru_reserved_output_tokens u + out\<rparr>"
    unfolding u_def by (simp add: usage_of_def total_snoc TrialUsage_zero_def)
  moreover have "usage_of (of_trial t') (es @ [new_entry t i out]) = usage_of (of_trial t') es" if "t' \<noteq> t" for t'
    using that by (simp add: usage_of_def total_snoc)
  ultimately show ?thesis
    using acc by (auto simp: accounts_def led_usage_def usage_of_def total_snoc TrialUsage_zero_def dict_simps)
qed

subsection \<open>Settling and cancelling\<close>

lemma ent_trial_replace:
  "h < length es \<Longrightarrow> ent_trial ` set (es[h := (es ! h)\<lparr>ent_phase := p\<rparr>]) = ent_trial ` set es"
proof -
  assume "h < length es"
  then have "map ent_trial (es[h := (es ! h)\<lparr>ent_phase := p\<rparr>]) = map ent_trial es"
    by (simp add: map_update list_update_same_conv)
  then show ?thesis by (metis set_map)
qed

text \<open>
  Changing the phase of one entry changes the counters of the ledger and of the entry's trial by
  the difference of the weights and leaves the other trials alone.
\<close>

lemma accounts_change:
  fixes p :: phase
  assumes acc: "accounts es l" and h: "h < length es"
  defines "e \<equiv> es ! h" and "es' \<equiv> es[h := (es ! h)\<lparr>ent_phase := p\<rparr>]"
  assumes glob: "led_usage l' = usage_of everything es'"
    and tri: "led_trials l' = dict_set (ent_trial e) (usage_of (of_trial (ent_trial e)) es') d"
    and rest: "\<And>t. t \<noteq> ent_trial e \<Longrightarrow> dict_get d t = dict_get (led_trials l) t"
  shows "accounts es' l'"
  unfolding accounts_def
proof (intro conjI allI)
  show "led_usage l' = usage_of everything es'" by fact
  fix t
  have keys: "ent_trial ` set es' = ent_trial ` set es" unfolding es'_def by (rule ent_trial_replace [OF h])
  show "dict_get (led_trials l') t = (if t \<in> ent_trial ` set es' then Some (usage_of (of_trial t) es') else None)"
  proof (cases "t = ent_trial e")
    case True
    with h have "t \<in> ent_trial ` set es" by (auto simp: e_def)
    with True keys show ?thesis by (simp add: tri dict_simps)
  next
    case False
    then have "usage_of (of_trial t) es' = usage_of (of_trial t) es"
      using h by (simp add: es'_def usage_of_def total_replace e_def)
    with False keys acc show ?thesis by (simp add: tri rest dict_get_set accounts_def)
  qed
qed

lemma accounts_remove:
  assumes acc: "accounts es l" and h: "h < length es" and p: "ent_phase (es ! h) = Phase_claimed q"
  obtains l' where "remove_reserved (reservation_of (es ! h)) l = (Inr (), l')"
    "accounts (es[h := (es ! h)\<lparr>ent_phase := Phase_cancelled\<rparr>]) l'"
    "led_limits l' = led_limits l" "led_violated l' = led_violated l"
proof -
  let ?e = "es ! h" and ?es = "es[h := (es ! h)\<lparr>ent_phase := Phase_cancelled\<rparr>]"
  have "ent_trial ?e \<in> ent_trial ` set es" using h by auto
  then have get: "dict_get (led_trials l) (ent_trial ?e) = Some (usage_of (of_trial (ent_trial ?e)) es)"
    using acc by (simp add: accounts_def)
  let ?l = "snd (remove_reserved (reservation_of ?e) l)"
  have "accounts ?es ?l"
    by (rule accounts_change [OF acc h, where d = "led_trials l"])
      (use h p get in \<open>simp_all add: remove_reserved_def reservation_of_def led_usage_def usage_of_def
         total_replace TrialUsage_zero_def accounts_usage [OF acc]\<close>)
  with get show ?thesis
    by (intro that [of ?l]) (simp_all add: remove_reserved_def reservation_of_def)
qed

text \<open>
  A settlement with non-negative counters always finds the trial, so its only outcome besides
  success is the report that a hard bound was exceeded.
\<close>

lemma accounts_settle:
  assumes acc: "accounts es l" and h: "h < length es" and p: "ent_phase (es ! h) = Phase_claimed q"
    and nonneg: "0 \<le> i" "0 \<le> out"
  defines "es' \<equiv> es[h := (es ! h)\<lparr>ent_phase := Phase_committed i out\<rparr>]"
  obtains l' where
    "ledger_settle (reservation_of (es ! h)) i out l =
       (if settlement_exceeds (reservation_of (es ! h)) i out (usage_of (of_trial (ent_trial (es ! h))) es') l'
        then (Inl (BudgetProtocolError Bound_exceeded), l'\<lparr>led_violated := True\<rparr>) else (Inr (), l'))"
    "accounts es' l'" "led_limits l' = led_limits l" "led_violated l' = led_violated l"
proof -
  let ?e = "es ! h" and ?t = "ent_trial (es ! h)" and ?r = "reservation_of (es ! h)"
  let ?u = "usage_of (of_trial ?t) es"
  let ?d = "dict_set ?t (?u\<lparr>tru_reserved_requests := tru_reserved_requests ?u - 1,
     tru_reserved_input_tokens := tru_reserved_input_tokens ?u - ent_input ?e,
     tru_reserved_output_tokens := tru_reserved_output_tokens ?u - ent_output ?e\<rparr>) (led_trials l)"
  let ?l = "l\<lparr>led_reserved_requests := led_reserved_requests l - 1,
     led_reserved_input := led_reserved_input l - ent_input ?e,
     led_reserved_output := led_reserved_output l - ent_output ?e,
     led_committed_requests := led_committed_requests l + 1,
     led_committed_input := led_committed_input l + i, led_committed_output := led_committed_output l + out,
     led_trials := dict_set ?t (usage_of (of_trial ?t) es') ?d\<rparr>"
  have "?t \<in> ent_trial ` set es" using h by auto
  then have get: "dict_get (led_trials l) ?t = Some ?u" using acc by (simp add: accounts_def)
  have usage: "usage_of (of_trial ?t) es' = ?u\<lparr>tru_reserved_requests := tru_reserved_requests ?u - 1,
     tru_reserved_input_tokens := tru_reserved_input_tokens ?u - ent_input ?e,
     tru_reserved_output_tokens := tru_reserved_output_tokens ?u - ent_output ?e,
     tru_committed_requests := tru_committed_requests ?u + 1,
     tru_committed_input_tokens := tru_committed_input_tokens ?u + i,
     tru_committed_output_tokens := tru_committed_output_tokens ?u + out\<rparr>"
    using h p by (simp add: es'_def usage_of_def total_replace TrialUsage_zero_def)
  have "accounts es' ?l"
    unfolding es'_def
    by (rule accounts_change [OF acc h, where d = ?d])
      (use h p in \<open>simp_all add: es'_def led_usage_def usage_of_def total_replace TrialUsage_zero_def
         accounts_usage [OF acc] dict_get_set\<close>)
  moreover have "ledger_settle ?r i out l = (if settlement_exceeds ?r i out (usage_of (of_trial ?t) es') ?l
      then (Inl (BudgetProtocolError Bound_exceeded), ?l\<lparr>led_violated := True\<rparr>) else (Inr (), ?l))"
    using nonneg get by (simp add: ledger_settle_def remove_reserved_def reservation_of_def usage dict_get_set Let_def)
  ultimately show ?thesis by (intro that [of ?l]) simp_all
qed

lemma entries_ok_reserved_nonneg:
  assumes "entries_ok cap es"
  shows "0 \<le> entry_total P tru_reserved_input_tokens es" "0 \<le> entry_total P tru_reserved_output_tokens es"
    "0 \<le> entry_total P tru_committed_input_tokens es" "0 \<le> entry_total P tru_committed_output_tokens es"
    "0 \<le> entry_total P tru_reserved_requests es" "0 \<le> entry_total P tru_committed_requests es"
  using assms by (auto intro!: total_nonneg simp: entries_ok_def TrialUsage_zero_def split: phase.splits)

lemma within_not_exceeding:
  assumes "accounts es l" "entries_ok (led_limits l) es" "\<forall>e\<in>set es. \<not> overrun e"
    and "h < length es" "ent_phase (es ! h) = Phase_committed i out"
  shows "\<not> settlement_exceeds (reservation_of (es ! h)) i out (usage_of (of_trial t) es) l"
proof -
  have "all_tokens_within (led_limits l) es" using assms by (simp add: entries_ok_def)
  then have within: "tokens_within (blm_max_input_tokens (led_limits l)) (blm_max_output_tokens (led_limits l))
       (blm_max_total_tokens (led_limits l)) (usage_of everything es)"
    "tokens_within (blm_max_input_tokens_per_trial (led_limits l)) (blm_max_output_tokens_per_trial (led_limits l))
       (blm_max_total_tokens_per_trial (led_limits l)) (usage_of (of_trial t) es)"
    by (simp_all add: all_tokens_within_def)
  have "\<not> overrun (es ! h)" using assms by simp
  with within assms(5) entries_ok_reserved_nonneg [OF assms(2), of everything]
    entries_ok_reserved_nonneg [OF assms(2), of "of_trial t"]
  show ?thesis
    by (auto simp: settlement_exceeds_def Let_def accounts_usage [OF assms(1)] tokens_within_def overrun_def
        reservation_of_def)
qed

subsection \<open>Every critical section is a step of the specification\<close>

inductive entries_step :: "budget_entry list \<Rightarrow> budget_entry list \<Rightarrow> bool" where
  idle: "entries_step es es"
| reserve: "identifier_ok t \<Longrightarrow> 0 < i \<Longrightarrow> 0 < out \<Longrightarrow> entries_step es (es @ [new_entry t i out])"
| change: "h < length es \<Longrightarrow> phase_step (es ! h) (ent_phase (es ! h)) p \<Longrightarrow>
    entries_step es (es[h := (es ! h)\<lparr>ent_phase := p\<rparr>])"

lemma reservation_of_sel [simp]:
  "rsv_trial_id (reservation_of e) = ent_trial e" "rsv_input_tokens (reservation_of e) = ent_input e"
  "rsv_output_tokens (reservation_of e) = ent_output e"
  by (simp_all add: reservation_of_def)

lemma dispatch_iff:
  "rsv_settled (reservation_of e) \<or> rsv_dispatched (reservation_of e) \<longleftrightarrow> ent_phase e \<noteq> Phase_held"
  by (auto simp: reservation_of_def split: phase.splits)

lemma reservation_of_dispatch:
  "ent_phase e = Phase_held \<Longrightarrow>
    (reservation_of e)\<lparr>rsv_dispatched := True\<rparr> = reservation_of (e\<lparr>ent_phase := Phase_dispatched\<rparr>)"
  by (simp add: reservation_of_def)

lemma claim_fault_iff: "claim_fault q (reservation_of e) = None \<longleftrightarrow> claimable q (ent_phase e)"
  by (cases q) (auto simp: reservation_of_def split: phase.splits)

lemma reservation_of_claim:
  "claimable q (ent_phase e) \<Longrightarrow>
    (reservation_of e)\<lparr>rsv_settled := True\<rparr> = reservation_of (e\<lparr>ent_phase := Phase_claimed q\<rparr>)"
  by (cases q) (auto simp: reservation_of_def)

lemma reservation_of_perform:
  "ent_phase e = Phase_claimed q \<Longrightarrow> reservation_of (e\<lparr>ent_phase := performed e q\<rparr>) = reservation_of e"
  by (cases q) (auto simp: reservation_of_def)

lemma remove_nth_split: "remove_nth (length ys) (ys @ y # zs) = ys @ zs"
  by (simp add: remove_nth_def)

lemma set_remove_nth:
  assumes "distinct (map fst xs)" "n < length xs"
  shows "set (remove_nth n xs) = set xs - {xs ! n}" "distinct (map fst (remove_nth n xs))"
proof -
  obtain ys y zs where xs: "xs = ys @ y # zs" "length ys = n" using id_take_nth_drop [OF assms(2)] assms(2) by fastforce
  with assms(1) have "y \<notin> set ys" "y \<notin> set zs" by force+
  with xs assms(1) show "set (remove_nth n xs) = set xs - {xs ! n}" "distinct (map fst (remove_nth n xs))"
    by (auto simp: remove_nth_split nth_append)
qed

lemma pending_of_snoc: "pending_of es ps \<Longrightarrow> pending_of (es @ [new_entry t i out]) ps"
  by (auto simp: pending_of_def nth_append less_Suc_eq)

lemma pending_of_phase:
  assumes "pending_of es ps" "h < length es" "\<And>q. ent_phase (es ! h) \<noteq> Phase_claimed q" "\<And>q. p \<noteq> Phase_claimed q"
  shows "pending_of (es[h := (es ! h)\<lparr>ent_phase := p\<rparr>]) ps"
  using assms by (auto simp: pending_of_def nth_list_update)

lemma pending_of_claim:
  assumes "pending_of es ps" "h < length es" "\<And>q. ent_phase (es ! h) \<noteq> Phase_claimed q"
  shows "pending_of (es[h := (es ! h)\<lparr>ent_phase := Phase_claimed q\<rparr>]) (ps @ [(h, q)])"
  using assms by (auto simp: pending_of_def nth_list_update)

lemma pending_of_perform:
  assumes "pending_of es ps" "n < length ps" "ps ! n = (h, q)" "\<And>q'. p \<noteq> Phase_claimed q'"
  shows "pending_of (es[h := (es ! h)\<lparr>ent_phase := p\<rparr>]) (remove_nth n ps)"
proof -
  have "(h, q) \<in> set ps" using assms by (metis nth_mem)
  with assms show ?thesis
    by (auto simp: pending_of_def set_remove_nth nth_list_update)
qed

lemma claimable_not_claimed: "claimable q p \<Longrightarrow> p \<noteq> Phase_claimed q'"
  by (cases q) auto

lemma performed_not_claimed: "performed e q \<noteq> Phase_claimed q'"
  by (cases q) auto

lemma overrun_phase: "overrun (e\<lparr>ent_phase := p\<rparr>) \<longleftrightarrow>
    (\<exists>i out. p = Phase_committed i out \<and> (i > ent_input e \<or> out > ent_output e))"
  by (auto simp: overrun_def split: phase.splits)

lemma overrun_replace:
  assumes "h < length es" "\<not> overrun (es ! h)"
  shows "(\<exists>e\<in>set (es[h := e']). overrun e) \<longleftrightarrow> overrun e' \<or> (\<exists>e\<in>set es. overrun e)"
proof -
  obtain ys zs where "es = ys @ es ! h # zs" "length ys = h" using id_take_nth_drop [OF assms(1)] assms(1) by fastforce
  then have "es[h := e'] = ys @ e' # zs" "set es = set ys \<union> {es ! h} \<union> set zs"
    by (metis list_update_length, metis set_append Un_insert_right list.set(2) sup_bot_right Un_assoc insert_is_Un)
  with assms(2) show ?thesis by auto
qed

lemma map_reservation_replace:
  "h < length es \<Longrightarrow> r = reservation_of e' \<Longrightarrow> (map reservation_of es)[h := r] = map reservation_of (es[h := e'])"
  by (simp add: map_update)

lemma budget_inv_init:
  assumes "BudgetLimits_validate cap = Inr cap"
  shows "budget_inv cap [] (budget_init cap)"
  using assms
  by (auto simp: budget_inv_def budget_init_def BudgetLedger_init_def pending_of_def accounts_def led_usage_def
      usage_of_def entries_ok_def all_requests_within_def all_tokens_within_def requests_within_def tokens_within_def
      BudgetLimits_validate_def jcs_positive_ok_def split: if_splits)

lemma budget_inv_reserve:
  assumes "budget_inv cap es s"
  shows "\<exists>es'. entries_step es es' \<and> budget_inv cap es' (snd (budget_reserve t i out s))"
proof (cases "ledger_reserve t i out (bst_ledger s)")
  case (Inl e)
  then show ?thesis using assms by (auto simp: budget_reserve_def intro: entries_step.idle)
next
  case (Inr rl)
  let ?l = "bst_ledger s"
  from assms have acc: "accounts es ?l" and lims: "led_limits ?l = cap" and ok: "entries_ok cap es"
    by (auto simp: budget_inv_def)
  from Inr have pos: "0 < i" "0 < out" "identifier_ok t"
    and fits: "\<not> reservation_exceeds ?l (usage_of (of_trial t) es) i out"
    by (auto simp: ledger_reserve_def Let_def accounts_trial [OF acc] split: if_splits)
  have "accounts (es @ [new_entry t i out]) (snd rl)" "fst rl = BudgetReservation_init t i out"
    "led_limits (snd rl) = cap" "led_violated (snd rl) = led_violated ?l"
    using Inr accounts_reserve [OF acc, of t i out] lims
    by (auto simp: ledger_reserve_def Let_def accounts_trial [OF acc] split: if_splits)
  moreover have "entries_ok cap (es @ [new_entry t i out])"
    using entries_ok_reserve [OF acc _ fits pos(1,2)] ok lims by simp
  moreover have "snd (budget_reserve t i out s)
      = s\<lparr>bst_ledger := snd rl, bst_reservations := bst_reservations s @ [fst rl]\<rparr>"
    using Inr by (simp add: budget_reserve_def split: prod.splits)
  ultimately have "budget_inv cap (es @ [new_entry t i out]) (snd (budget_reserve t i out s))"
    using assms by (simp add: budget_inv_def pending_of_snoc)
  then show ?thesis using entries_step.reserve pos by blast
qed

text \<open>
  The other sections change the phase of one entry; given that the ledger follows, the invariant does.
\<close>

lemma budget_inv_change:
  assumes inv: "budget_inv cap es s" and h: "h < length es"
    and step: "phase_step (es ! h) (ent_phase (es ! h)) p"
  defines "es' \<equiv> es[h := (es ! h)\<lparr>ent_phase := p\<rparr>]"
  assumes "bst_reservations s' = map reservation_of es'" "pending_of es' (bst_pending s')"
    "accounts es' (bst_ledger s')" "led_limits (bst_ledger s') = cap"
    "led_violated (bst_ledger s') = (overrun ((es ! h)\<lparr>ent_phase := p\<rparr>) \<or> led_violated (bst_ledger s))"
  shows "\<exists>es'. entries_step es es' \<and> budget_inv cap es' s'"
proof -
  have "entries_ok cap es'" unfolding es'_def
    by (rule entries_ok_phase [OF _ h step]) (use inv in \<open>simp add: budget_inv_def\<close>)
  moreover have "(\<exists>e\<in>set es'. overrun e) = (overrun ((es ! h)\<lparr>ent_phase := p\<rparr>) \<or> (\<exists>e\<in>set es. overrun e))"
    unfolding es'_def by (rule overrun_replace [OF h phase_step_uncommitted [OF step refl]])
  ultimately have "budget_inv cap es' s'" using assms(5-) inv by (simp add: budget_inv_def)
  then show ?thesis using entries_step.change [OF h step] by (auto simp: es'_def)
qed

lemma weight_replace_same:
  assumes "accounts es l" "h < length es" "weight ((es ! h)\<lparr>ent_phase := p\<rparr>) = weight (es ! h)"
  shows "accounts (es[h := (es ! h)\<lparr>ent_phase := p\<rparr>]) l"
proof -
  have "usage_of P (es[h := (es ! h)\<lparr>ent_phase := p\<rparr>]) = usage_of P es"
    if "P ((es ! h)\<lparr>ent_phase := p\<rparr>) = P (es ! h)" for P
    using that assms(2,3) by (simp add: usage_of_def total_replace del: weight.simps)
  then show ?thesis using assms(1) ent_trial_replace [OF assms(2)] by (simp add: accounts_def)
qed

lemma budget_inv_dispatch:
  assumes inv: "budget_inv cap es s"
  shows "\<exists>es'. entries_step es es' \<and> budget_inv cap es' (snd (mark_dispatched h s))"
proof (cases "h < length es \<and> ent_phase (es ! h) = Phase_held")
  case True
  then have h: "h < length es" and p: "ent_phase (es ! h) = Phase_held" by auto
  have "phase_step (es ! h) (ent_phase (es ! h)) Phase_dispatched" using p by (simp add: phase_step.dispatch)
  then show ?thesis
  proof (rule budget_inv_change [OF inv h])
    show "bst_reservations (snd (mark_dispatched h s)) = map reservation_of (es[h := (es ! h)\<lparr>ent_phase := Phase_dispatched\<rparr>])"
      using inv h p dispatch_iff [of "es ! h"]
      by (simp add: mark_dispatched_def budget_inv_def map_update reservation_of_dispatch)
    show "accounts (es[h := (es ! h)\<lparr>ent_phase := Phase_dispatched\<rparr>]) (bst_ledger (snd (mark_dispatched h s)))"
      using inv h p by (auto simp: mark_dispatched_def Let_def budget_inv_def intro!: weight_replace_same)
  qed (use inv h p in \<open>auto simp: mark_dispatched_def Let_def budget_inv_def overrun_phase intro!: pending_of_phase\<close>)
next
  case False
  then have "snd (mark_dispatched h s) = s"
    using inv dispatch_iff [of "es ! h"] by (auto simp: mark_dispatched_def budget_inv_def Let_def)
  then show ?thesis using inv entries_step.idle by auto
qed

lemma budget_inv_claim:
  assumes inv: "budget_inv cap es s"
  shows "\<exists>es'. entries_step es es' \<and> budget_inv cap es' (snd (claim h q s))"
proof (cases "h < length es \<and> claimable q (ent_phase (es ! h))")
  case True
  then have h: "h < length es" and p: "claimable q (ent_phase (es ! h))" by auto
  have fault: "claim_fault q (bst_reservations s ! h) = None" using inv h p by (simp add: budget_inv_def claim_fault_iff)
  show ?thesis
  proof (rule budget_inv_change [OF inv h phase_step.claim [OF p]])
    show "bst_reservations (snd (claim h q s)) = map reservation_of (es[h := (es ! h)\<lparr>ent_phase := Phase_claimed q\<rparr>])"
      using inv h p fault by (simp add: claim_def budget_inv_def map_update reservation_of_claim)
    show "accounts (es[h := (es ! h)\<lparr>ent_phase := Phase_claimed q\<rparr>]) (bst_ledger (snd (claim h q s)))"
      using inv h p fault
      by (cases q) (auto simp: claim_def Let_def budget_inv_def intro!: weight_replace_same)
    show "pending_of (es[h := (es ! h)\<lparr>ent_phase := Phase_claimed q\<rparr>]) (bst_pending (snd (claim h q s)))"
      using inv h p fault claimable_not_claimed [OF p]
      by (auto simp: claim_def Let_def budget_inv_def intro!: pending_of_claim)
  qed (use inv h p fault in \<open>auto simp: claim_def Let_def budget_inv_def overrun_phase\<close>)
next
  case False
  then have "snd (claim h q s) = s"
    using inv claim_fault_iff [of q "es ! h"] by (auto simp: claim_def budget_inv_def Let_def split: option.splits)
  then show ?thesis using inv entries_step.idle by auto
qed

lemma settle_ok:
  assumes acc: "accounts es l" and ok: "entries_ok (led_limits l) es"
    and viol: "led_violated l = (\<exists>e\<in>set es. overrun e)"
    and h: "h < length es" and p: "ent_phase (es ! h) = Phase_claimed q"
    and nonneg: "0 \<le> i" "0 \<le> out"
    and step: "phase_step (es ! h) (Phase_claimed q) (Phase_committed i out)"
  defines "e' \<equiv> (es ! h)\<lparr>ent_phase := Phase_committed i out\<rparr>"
  shows "accounts (es[h := e']) (snd (ledger_settle (reservation_of (es ! h)) i out l))
     \<and> led_limits (snd (ledger_settle (reservation_of (es ! h)) i out l)) = led_limits l
     \<and> led_violated (snd (ledger_settle (reservation_of (es ! h)) i out l)) = (overrun e' \<or> led_violated l)
     \<and> (\<not> overrun e' \<longrightarrow> \<not> led_violated l \<longrightarrow> fst (ledger_settle (reservation_of (es ! h)) i out l) = Inr ())"
proof -
  let ?r = "reservation_of (es ! h)" and ?t = "ent_trial (es ! h)"
  from accounts_settle [OF acc h p nonneg, folded e'_def] obtain l' where
    l': "ledger_settle ?r i out l = (if settlement_exceeds ?r i out (usage_of (of_trial ?t) (es[h := e'])) l'
        then (Inl (BudgetProtocolError Bound_exceeded), l'\<lparr>led_violated := True\<rparr>) else (Inr (), l'))"
      "accounts (es[h := e']) l'" "led_limits l' = led_limits l" "led_violated l' = led_violated l"
    by blast
  have ok': "entries_ok (led_limits l') (es[h := e'])"
    unfolding e'_def l'(3) by (rule entries_ok_phase [OF ok h]) (use step p in simp)
  have flag: "(\<exists>e\<in>set (es[h := e']). overrun e) \<longleftrightarrow> overrun e' \<or> led_violated l"
    unfolding viol by (rule overrun_replace [OF h]) (simp add: overrun_def p)
  have same: "reservation_of ((es[h := e']) ! h) = (reservation_of e')" "ent_phase ((es[h := e']) ! h) = Phase_committed i out"
    using h by (simp_all add: e'_def)
  have over: "settlement_exceeds ?r i out u l' = settlement_exceeds (reservation_of e') i out u l'" for u
    by (simp add: settlement_exceeds_def e'_def)
  have "\<not> overrun e' \<Longrightarrow> \<not> led_violated l \<Longrightarrow> \<not> settlement_exceeds ?r i out (usage_of (of_trial ?t) (es[h := e'])) l'"
    using within_not_exceeding [OF l'(2) ok' _ _ same(2)] same(1) flag h by (auto simp: over)
  moreover have "overrun e' \<Longrightarrow> settlement_exceeds ?r i out (usage_of (of_trial ?t) (es[h := e'])) l'"
    by (auto simp: e'_def overrun_def settlement_exceeds_def)
  moreover have "accounts (es[h := e']) (l'\<lparr>led_violated := True\<rparr>)"
    using l'(2) by (simp add: accounts_def led_usage_def)
  ultimately show ?thesis using l' by auto
qed

lemma perform_ok:
  assumes acc: "accounts es l" and ok: "entries_ok (led_limits l) es"
    and viol: "led_violated l = (\<exists>e\<in>set es. overrun e)"
    and h: "h < length es" and p: "ent_phase (es ! h) = Phase_claimed q"
  defines "e' \<equiv> (es ! h)\<lparr>ent_phase := performed (es ! h) q\<rparr>"
  shows "accounts (es[h := e']) (snd (ledger_perform q (reservation_of (es ! h)) l))
     \<and> led_limits (snd (ledger_perform q (reservation_of (es ! h)) l)) = led_limits l
     \<and> led_violated (snd (ledger_perform q (reservation_of (es ! h)) l)) = (overrun e' \<or> led_violated l)
     \<and> (performed (es ! h) q \<noteq> Phase_leaked \<longrightarrow> \<not> overrun e' \<longrightarrow> \<not> led_violated l \<longrightarrow>
          fst (ledger_perform q (reservation_of (es ! h)) l) = Inr ())"
proof (cases q)
  case q: (Request_settle i out)
  show ?thesis
  proof (cases "i < 0 \<or> out < 0")
    case True
    then have "snd (ledger_settle (reservation_of (es ! h)) i out l) = l" by (auto simp: ledger_settle_def)
    moreover have "accounts (es[h := e']) l" unfolding e'_def
      by (rule weight_replace_same [OF acc h]) (use True q p in auto)
    ultimately show ?thesis using True q by (auto simp: e'_def overrun_phase)
  next
    case False
    then have pf: "performed (es ! h) q = Phase_committed i out" using q by simp
    show ?thesis using settle_ok [OF acc ok viol h p, of i out] phase_step.perform [of "es ! h" q] False
      unfolding e'_def pf by (simp add: q)
  qed
next
  case q: Request_settle_unknown
  have "es ! h \<in> set es" using h by simp
  then have pos: "0 \<le> ent_input (es ! h)" "0 \<le> ent_output (es ! h)"
    using ok by (auto simp: entries_ok_def intro: less_imp_le)
  have pf: "performed (es ! h) q = Phase_committed (ent_input (es ! h)) (ent_output (es ! h))" using q by simp
  show ?thesis using settle_ok [OF acc ok viol h p pos] phase_step.perform [of "es ! h" q]
    unfolding e'_def pf by (simp add: q ledger_settle_unknown_def)
next
  case q: Request_cancel
  obtain l' where "remove_reserved (reservation_of (es ! h)) l = (Inr (), l')"
    "accounts (es[h := (es ! h)\<lparr>ent_phase := Phase_cancelled\<rparr>]) l'"
    "led_limits l' = led_limits l" "led_violated l' = led_violated l"
    by (rule accounts_remove [OF acc h p])
  then show ?thesis by (simp add: q ledger_cancel_def e'_def overrun_phase)
qed

lemma budget_inv_ledger:
  assumes inv: "budget_inv cap es s"
  shows "\<exists>es'. entries_step es es' \<and> budget_inv cap es' (snd (ledger_call n s))"
proof (cases "n < length (bst_pending s)")
  case n: True
  obtain h q where hq: "bst_pending s ! n = (h, q)" by fastforce
  have pend: "pending_of es (bst_pending s)" using inv by (simp add: budget_inv_def)
  have "(h, q) \<in> set (bst_pending s)" using n hq by (metis nth_mem)
  with pend have h: "h < length es" and p: "ent_phase (es ! h) = Phase_claimed q" by (auto simp: pending_of_def)
  define r where "r = reservation_of (es ! h)"
  have call: "snd (ledger_call n s) = s\<lparr>bst_ledger := snd (ledger_perform q r (bst_ledger s)),
      bst_pending := remove_nth n (bst_pending s)\<rparr>"
    using n hq inv h by (simp add: ledger_call_def budget_inv_def r_def split: prod.splits)
  have perf: "phase_step (es ! h) (ent_phase (es ! h)) (performed (es ! h) q)"
    using phase_step.perform p by simp
  show ?thesis
  proof (rule budget_inv_change [OF inv h perf])
    show "bst_reservations (snd (ledger_call n s)) = map reservation_of (es[h := (es ! h)\<lparr>ent_phase := performed (es ! h) q\<rparr>])"
      using inv list_update_id [of "map reservation_of es" h] h
      by (simp add: call budget_inv_def map_update reservation_of_perform [OF p])
    show "pending_of (es[h := (es ! h)\<lparr>ent_phase := performed (es ! h) q\<rparr>]) (bst_pending (snd (ledger_call n s)))"
      using pending_of_perform [OF pend n hq performed_not_claimed] by (simp add: call)
  qed (use inv perform_ok [OF _ _ _ h p, of "bst_ledger s"] in \<open>auto simp: call r_def budget_inv_def\<close>)
next
  case False
  then show ?thesis using inv entries_step.idle by (auto simp: ledger_call_def)
qed

subsection \<open>Simulation\<close>

text \<open>
  The interface between a system of atomic actions and its specification: related states stay
  related, whatever is executed, so every interleaving is a run of the specification.
\<close>

locale simulated_actions =
  fixes step :: "'a \<Rightarrow> 's \<Rightarrow> 's"
    and spec :: "'t \<Rightarrow> 't \<Rightarrow> bool"
    and related :: "'t \<Rightarrow> 's \<Rightarrow> bool"
  assumes simulates: "related t s \<Longrightarrow> \<exists>t'. spec t t' \<and> related t' (step a s)"
begin

lemma run_simulates: "related t s \<Longrightarrow> \<exists>t'. spec\<^sup>*\<^sup>* t t' \<and> related t' (fold step actions s)"
proof (induction actions arbitrary: t s)
  case (Cons a actions)
  from simulates [OF Cons.prems] obtain u where u: "spec t u" "related u (step a s)" by blast
  from Cons.IH [OF u(2)] obtain t' where "spec\<^sup>*\<^sup>* u t'" "related t' (fold step actions (step a s))" by blast
  with u(1) show ?case by (auto intro: converse_rtranclp_into_rtranclp)
qed auto

end

interpretation budget: simulated_actions budget_step entries_step "budget_inv cap" for cap
proof
  fix es s a
  assume "budget_inv cap es s"
  then show "\<exists>es'. entries_step es es' \<and> budget_inv cap es' (budget_step a s)"
    by (cases a) (auto intro: budget_inv_reserve budget_inv_dispatch budget_inv_claim budget_inv_ledger)
qed

lemma budget_run_inv:
  assumes "BudgetLimits_validate cap = Inr cap"
  obtains es where "entries_step\<^sup>*\<^sup>* [] es" "budget_inv cap es (budget_run cap actions)"
  using budget.run_simulates [OF budget_inv_init [OF assms], of actions] by (auto simp: budget_run_def)

end
