(* ===== verification/BudgetProperties.thy ===== *)
theory BudgetProperties
  imports BudgetFacts
begin

section \<open>Guarantees of the provider budget\<close>

text \<open>
  Whatever threads do with the ledger and its reservations, in whatever order their critical
  sections run: the counters are the totals of the reservations' histories, the hard limits
  hold, and a settlement within its reservation is accepted.
\<close>

definition example_limits :: BudgetLimits where
  "example_limits = \<lparr>blm_max_requests = 3, blm_max_input_tokens = 100, blm_max_output_tokens = 50,
     blm_max_total_tokens = 120, blm_max_requests_per_trial = 2, blm_max_input_tokens_per_trial = 80,
     blm_max_output_tokens_per_trial = 40, blm_max_total_tokens_per_trial = 100\<rparr>"

definition example_actions :: "budget_action list" where
  "example_actions = [Act_reserve ''t1'' 40 20, Act_reserve ''t2'' 30 10, Act_dispatch 0, Act_dispatch 1,
     Act_claim 0 (Request_settle 25 5), Act_claim 1 Request_settle_unknown, Act_ledger 1,
     Act_reserve ''t1'' 10 10, Act_ledger 0, Act_dispatch 2, Act_reserve ''t1'' 90 1]"

lemma example_limits_valid: "BudgetLimits_validate example_limits = Inr example_limits"
  by code_simp

lemma example_budget_snapshot:
  "snapshot_of (bst_ledger (budget_run example_limits example_actions)) =
     \<lparr>bsn_committed_requests = 2, bsn_reserved_requests = 1, bsn_committed_input_tokens = 55,
      bsn_reserved_input_tokens = 10, bsn_committed_output_tokens = 15, bsn_reserved_output_tokens = 10,
      bsn_violated = False\<rparr>"
  by code_simp

subsection \<open>Refinement\<close>

text \<open>
  C8: in every interleaving of the ledger's and the reservations' critical sections, the state is
  that of some history of the reservations: each was held, then dispatched or cancelled, then
  settled, at most once; the ledger's counters and each trial's counters are the sums over that
  history, the waiting ledger calls are exactly the claimed reservations, and the ledger is marked
  violated exactly when some settlement reported more than its reservation.
\<close>

theorem budget_refines_history:
  assumes "BudgetLimits_validate cap = Inr cap"
  shows "\<exists>es. entries_step\<^sup>*\<^sup>* [] es
     \<and> bst_reservations (budget_run cap actions) = map reservation_of es
     \<and> pending_of es (bst_pending (budget_run cap actions))
     \<and> accounts es (bst_ledger (budget_run cap actions))
     \<and> led_violated (bst_ledger (budget_run cap actions)) = (\<exists>e\<in>set es. overrun e)"
proof -
  obtain es where "entries_step\<^sup>*\<^sup>* [] es" "budget_inv cap es (budget_run cap actions)"
    by (rule budget_run_inv [OF assms])
  then show ?thesis by (auto simp: budget_inv_def)
qed

theorem budget_refines_history_witness:
  "\<exists>es. entries_step\<^sup>*\<^sup>* [] es \<and> accounts es (bst_ledger (budget_run example_limits example_actions))"
  using budget_refines_history [OF example_limits_valid, of example_actions] by blast

subsection \<open>Hard limits\<close>

lemma dispatched_total:
  "int (length (filter (\<lambda>r. rsv_dispatched r \<and> P (rsv_trial_id r)) (map reservation_of es)))
     \<le> entry_total (\<lambda>e. P (ent_trial e)) tru_committed_requests es
        + entry_total (\<lambda>e. P (ent_trial e)) tru_reserved_requests es"
proof (induction es rule: rev_induct)
  case (snoc e es)
  then show ?case
    by (auto simp: entry_simps reservation_of_def TrialUsage_zero_def split: phase.splits)
qed simp

lemma accounts_trial_get:
  "accounts es l \<Longrightarrow> dict_get (led_trials l) t = Some u \<Longrightarrow> u = usage_of (of_trial t) es"
  by (auto simp: accounts_def split: if_splits)

text \<open>
  C7: in every interleaving the requests that are committed or reserved stay within the request
  caps of the campaign and of every trial, hence so does the number of requests that were
  dispatched; and as long as no settlement exceeded its reservation, the committed and reserved
  input, output and total tokens stay within all token caps of the campaign and of every trial.
\<close>

theorem budget_within_limits:
  fixes actions :: "budget_action list"
  assumes "BudgetLimits_validate cap = Inr cap"
  defines "s \<equiv> budget_run cap actions"
  shows "requests_within (blm_max_requests cap) (led_usage (bst_ledger s))
     \<and> (\<forall>t u. dict_get (led_trials (bst_ledger s)) t = Some u \<longrightarrow> requests_within (blm_max_requests_per_trial cap) u)
     \<and> int (length (filter rsv_dispatched (bst_reservations s))) \<le> blm_max_requests cap
     \<and> (\<forall>t. int (length (filter (\<lambda>r. rsv_dispatched r \<and> rsv_trial_id r = t) (bst_reservations s)))
            \<le> blm_max_requests_per_trial cap)
     \<and> (\<not> led_violated (bst_ledger s) \<longrightarrow>
          tokens_within (blm_max_input_tokens cap) (blm_max_output_tokens cap) (blm_max_total_tokens cap)
            (led_usage (bst_ledger s))
          \<and> (\<forall>t u. dict_get (led_trials (bst_ledger s)) t = Some u \<longrightarrow>
               tokens_within (blm_max_input_tokens_per_trial cap) (blm_max_output_tokens_per_trial cap)
                 (blm_max_total_tokens_per_trial cap) u))"
proof -
  obtain es where "budget_inv cap es s" unfolding s_def by (rule budget_run_inv [OF assms(1)])
  then have acc: "accounts es (bst_ledger s)" and ok: "entries_ok cap es"
    and res: "bst_reservations s = map reservation_of es"
    and viol: "led_violated (bst_ledger s) = (\<exists>e\<in>set es. overrun e)"
    by (auto simp: budget_inv_def)
  from acc have glob: "led_usage (bst_ledger s) = usage_of everything es" by (simp add: accounts_def)
  from ok have req: "all_requests_within cap es" by (simp add: entries_ok_def)
  then have "int (length (filter rsv_dispatched (bst_reservations s))) \<le> blm_max_requests cap"
    using dispatched_total [of "\<lambda>_. True" es] by (simp add: res all_requests_within_def requests_within_def)
  moreover from req have "int (length (filter (\<lambda>r. rsv_dispatched r \<and> rsv_trial_id r = t) (bst_reservations s)))
      \<le> blm_max_requests_per_trial cap" for t
    using dispatched_total [of "\<lambda>x. x = t" es]
    by (simp add: res all_requests_within_def requests_within_def) (meson order_trans)
  moreover have "\<not> led_violated (bst_ledger s) \<Longrightarrow> all_tokens_within cap es" using ok viol by (simp add: entries_ok_def)
  ultimately show ?thesis
    using req by (auto simp: glob all_requests_within_def all_tokens_within_def dest: accounts_trial_get [OF acc])
qed

theorem budget_within_limits_witness:
  "requests_within 3 (led_usage (bst_ledger (budget_run example_limits example_actions)))
   \<and> tokens_within 100 50 120 (led_usage (bst_ledger (budget_run example_limits example_actions)))"
proof -
  have "\<not> led_violated (bst_ledger (budget_run example_limits example_actions))"
    using example_budget_snapshot by (simp add: snapshot_of_def)
  with budget_within_limits [OF example_limits_valid, of example_actions] show ?thesis
    by (simp add: example_limits_def)
qed

subsection \<open>Settlements\<close>

lemma claim_and_call_eq:
  assumes "h < length (bst_reservations s)" "claim_fault q (bst_reservations s ! h) = None"
  shows "claim_and_call h q s = ledger_call (length (bst_pending s))
     (s\<lparr>bst_reservations := (bst_reservations s)[h := (bst_reservations s ! h)\<lparr>rsv_settled := True\<rparr>],
        bst_pending := bst_pending s @ [(h, q)]\<rparr>)"
  using assms by (simp add: claim_and_call_def claim_def)

lemma remove_reserved_settled: "remove_reserved (r\<lparr>rsv_settled := b\<rparr>) l = remove_reserved r l"
  by (simp add: remove_reserved_def cong: option.case_cong)

lemma settlement_exceeds_settled: "settlement_exceeds (r\<lparr>rsv_settled := b\<rparr>) = settlement_exceeds r"
  by (intro ext) (simp add: settlement_exceeds_def)

lemma ledger_settle_settled: "ledger_settle (r\<lparr>rsv_settled := b\<rparr>) = ledger_settle r"
  by (intro ext) (simp add: ledger_settle_def remove_reserved_settled settlement_exceeds_settled Let_def
    cong: option.case_cong sum.case_cong prod.case_cong)

lemma reservation_fields_kept: "ledger_perform q (r\<lparr>rsv_settled := b\<rparr>) l = ledger_perform q r l"
  by (cases q) (simp_all add: ledger_settle_settled ledger_settle_unknown_def ledger_cancel_def
    remove_reserved_settled)

lemma settle_usage:
  assumes "0 \<le> i" "0 \<le> out" "fst (ledger_settle r i out l) = Inr ()"
  shows "led_usage (snd (ledger_settle r i out l)) =
    \<lparr>tru_committed_requests = led_committed_requests l + 1, tru_reserved_requests = led_reserved_requests l - 1,
     tru_committed_input_tokens = led_committed_input l + i,
     tru_reserved_input_tokens = led_reserved_input l - rsv_input_tokens r,
     tru_committed_output_tokens = led_committed_output l + out,
     tru_reserved_output_tokens = led_reserved_output l - rsv_output_tokens r\<rparr>"
  using assms by (auto simp: ledger_settle_def remove_reserved_def Let_def led_usage_def split: option.splits if_splits)

text \<open>
  In any state the threads can reach in which no settlement has exceeded its reservation, the
  owner of a dispatched, unsettled reservation who reports a usage within it is never refused: the
  settlement moves exactly the reported usage to the committed counters, gives the rest of the
  reservation back, and leaves the ledger unviolated; when the usage is unknown the whole
  reservation is charged.
\<close>

theorem settle_within_reservation:
  fixes actions :: "budget_action list"
  assumes cap: "BudgetLimits_validate cap = Inr cap"
  defines "s \<equiv> budget_run cap actions"
  assumes h: "h < length (bst_reservations s)" and viol: "\<not> led_violated (bst_ledger s)"
    and r: "r = bst_reservations s ! h" "rsv_dispatched r" "\<not> rsv_settled r"
    and usage: "0 \<le> i" "i \<le> rsv_input_tokens r" "0 \<le> out" "out \<le> rsv_output_tokens r"
  shows "fst (reservation_settle h i out s) = Inr ()
     \<and> led_usage (bst_ledger (snd (reservation_settle h i out s))) =
         \<lparr>tru_committed_requests = led_committed_requests (bst_ledger s) + 1,
          tru_reserved_requests = led_reserved_requests (bst_ledger s) - 1,
          tru_committed_input_tokens = led_committed_input (bst_ledger s) + i,
          tru_reserved_input_tokens = led_reserved_input (bst_ledger s) - rsv_input_tokens r,
          tru_committed_output_tokens = led_committed_output (bst_ledger s) + out,
          tru_reserved_output_tokens = led_reserved_output (bst_ledger s) - rsv_output_tokens r\<rparr>
     \<and> \<not> led_violated (bst_ledger (snd (reservation_settle h i out s)))
     \<and> reservation_settle_unknown h s = reservation_settle h (rsv_input_tokens r) (rsv_output_tokens r) s"
proof -
  obtain es where inv: "budget_inv cap es s" unfolding s_def by (rule budget_run_inv [OF cap])
  let ?q = "Request_settle i out"
  have rs: "bst_reservations s = map reservation_of es" and h': "h < length es"
    using inv h by (auto simp: budget_inv_def)
  have p: "ent_phase (es ! h) = Phase_dispatched"
    using r rs h' by (auto simp: reservation_of_def split: phase.splits)
  have fault: "claim_fault q (bst_reservations s ! h) = None" if "q \<noteq> Request_cancel" for q
    using that rs h' p by (cases q) (simp_all add: reservation_of_def)
  let ?es = "es[h := (es ! h)\<lparr>ent_phase := Phase_claimed ?q\<rparr>]" and ?l = "bst_ledger s"
  have call: "reservation_settle h i' out' s = (let (result, l) = ledger_settle r i' out' ?l in
      (result, s\<lparr>bst_ledger := l, bst_reservations := (bst_reservations s)[h := r\<lparr>rsv_settled := True\<rparr>]\<rparr>))"
      "reservation_settle_unknown h s = reservation_settle h (rsv_input_tokens r) (rsv_output_tokens r) s" for i' out'
    using claim_and_call_eq [OF h fault] reservation_fields_kept [of "Request_settle i' out'" True r]
      reservation_fields_kept [of "Request_settle_unknown" True r]
      reservation_fields_kept [of "Request_settle (rsv_input_tokens r) (rsv_output_tokens r)" True r] h r(1)
    by (simp_all add: reservation_settle_def reservation_settle_unknown_def ledger_call_def remove_nth_def
        nth_append ledger_settle_unknown_def split: prod.splits)
  have "\<not> overrun (es ! h)" using p by (simp add: overrun_def)
  then have "\<not> (\<exists>e\<in>set ?es. overrun e)"
    using inv viol by (auto simp: budget_inv_def overrun_replace [OF h'] overrun_phase)
  moreover have "accounts ?es ?l" "entries_ok (led_limits ?l) ?es"
    using inv h' p by (auto simp: budget_inv_def intro!: weight_replace_same entries_ok_phase phase_step.claim)
  ultimately have "fst (ledger_settle r i out ?l) = Inr () \<and> \<not> led_violated (snd (ledger_settle r i out ?l))"
    using perform_ok [of ?es ?l h ?q] h' p viol usage r(1) rs reservation_fields_kept [of ?q True r]
    by (auto simp: overrun_phase simp flip: reservation_of_claim)
  then show ?thesis using settle_usage [OF usage(1,3), of r ?l] call(2) by (simp add: call(1) split_beta Let_def)
qed

lemma example_reservation:
  "bst_reservations (budget_run example_limits example_actions) ! 2 =
     \<lparr>rsv_trial_id = ''t1'', rsv_input_tokens = 10, rsv_output_tokens = 10, rsv_dispatched = True,
      rsv_settled = False\<rparr>"
  "length (bst_reservations (budget_run example_limits example_actions)) = 3"
  by code_simp+

end
