(* ===== verification/Campaign.thy ===== *)
theory Campaign
  imports TaskModel Budget
begin

section \<open>Model sets and paid campaigns\<close>

text \<open>
  The model of \<open>providers/campaign.py\<close>: the frozen model set, the retry policy, the token,
  execution and spend limits and the campaign specification, each with its validator. The order
  of the tests is the order in which pydantic runs them: field domains, field validators, then
  the model validator. A string enumeration is sorted by its value.
\<close>

subsection \<open>Routes and the model set\<close>

datatype ModelCategory = FRONTIER_REASONING | CODING_AGENT | BALANCED | HIGH_THROUGHPUT | PREVIOUS_GENERATION

fun category_value :: "ModelCategory \<Rightarrow> string" where
  "category_value FRONTIER_REASONING = ''frontier_reasoning''"
| "category_value CODING_AGENT = ''coding_agent''"
| "category_value BALANCED = ''balanced''"
| "category_value HIGH_THROUGHPUT = ''high_throughput''"
| "category_value PREVIOUS_GENERATION = ''previous_generation''"

definition REQUIRED_MODEL_CATEGORIES :: "ModelCategory set" where
  "REQUIRED_MODEL_CATEGORIES = {FRONTIER_REASONING, CODING_AGENT, BALANCED, HIGH_THROUGHPUT}"

datatype ModelReferenceKind = Reference_SNAPSHOT | Reference_ALIAS | Reference_UNKNOWN
datatype FeatureSupport = Feature_SUPPORTED | Feature_UNSUPPORTED | Feature_UNKNOWN

text \<open>The five capabilities of type \<open>Literal[True]\<close> carry no information and have no field.\<close>

record RouteQualification =
  rqf_reasoning_control :: FeatureSupport
  rqf_requested_service_tier :: "string option"
  rqf_provider_reported_service_tier :: "string option"
  rqf_observed_input_token_floor :: int
  rqf_canary_tool_schema_digest :: Digest
  rqf_canary_evidence_digest :: Digest

record ModelRoute =
  mrt_route_id :: Identifier
  mrt_requested_model :: string
  mrt_provider_reported_model :: string
  mrt_reference_kind :: ModelReferenceKind
  mrt_categories :: "ModelCategory list"
  mrt_qualification :: RouteQualification
  mrt_provider_attestation_digest :: "Digest option"

datatype RouteExclusionReason = Exclusion_UNAVAILABLE | AUTHENTICATION_REJECTED | PROTOCOL_INCOMPATIBLE
  | TOOL_CALL_UNAVAILABLE | STRUCTURED_OUTPUT_UNAVAILABLE | USAGE_UNAVAILABLE | ROUTE_REMAPPED
  | Exclusion_PROBE_BUDGET

record ExcludedRoute =
  exr_requested_model :: string
  exr_reason :: RouteExclusionReason
  exr_evidence_digest :: Digest

datatype CategoryExclusionReason = NO_DISCOVERED_ROUTE | NO_QUALIFIED_ROUTE | Category_PROBE_BUDGET

record UncoveredCategory =
  unc_category :: ModelCategory
  unc_reason :: CategoryExclusionReason
  unc_evidence_digest :: Digest

record ModelSetManifest =
  mst_provider_config_digest :: Digest
  mst_discovery_digest :: Digest
  mst_resolved_on :: string
  mst_routes :: "ModelRoute list"
  mst_exclusions :: "ExcludedRoute list"
  mst_uncovered_categories :: "UncoveredCategory list"

datatype model_set_error = Route_domain | Categories_not_unique | Manifest_domain | Invalid_date
  | Route_ids_not_unique | Requested_not_unique | Excluded_not_unique | Qualified_and_excluded
  | Uncovered_not_unique | Uncovered_not_required | Covered_and_excluded | Category_missing

definition ModelRoute_validate :: "ModelRoute \<Rightarrow> model_set_error + ModelRoute" where
  "ModelRoute_validate r =
     (if mrt_categories r = [] \<or> \<not> jcs_nonnegative_ok (rqf_observed_input_token_floor (mrt_qualification r))
      then Inl Route_domain
      else bind_result (sorted_unique_by category_value Categories_not_unique (mrt_categories r)) (\<lambda>categories.
        Inr (r\<lparr>mrt_categories := categories\<rparr>)))"

text \<open>
  \<open>DateStamp\<close> is the pattern \<open>YYYY-MM-DD\<close>; \<open>date.fromisoformat\<close> then needs a year of at least 1, a
  month and a day of the proleptic Gregorian calendar.
\<close>

definition is_leap_year :: "nat \<Rightarrow> bool" where
  "is_leap_year y \<longleftrightarrow> y mod 4 = 0 \<and> (y mod 100 \<noteq> 0 \<or> y mod 400 = 0)"

definition days_in_month :: "nat \<Rightarrow> nat \<Rightarrow> nat" where
  "days_in_month y month =
     (if month = 2 then (if is_leap_year y then 29 else 28)
      else if month \<in> {4, 6, 9, 11} then 30 else 31)"

definition date_stamp_ok :: "string \<Rightarrow> bool" where
  "date_stamp_ok s \<longleftrightarrow> length s = 10 \<and> s ! 4 = CHR ''-'' \<and> s ! 7 = CHR ''-''
     \<and> list_all is_digit (take 4 s @ take 2 (drop 5 s) @ drop 8 s)"

definition digit_number :: "string \<Rightarrow> nat" where
  "digit_number s = fold (\<lambda>c n. 10 * n + digit_of_char c) s 0"

definition valid_calendar_date :: "string \<Rightarrow> bool" where
  "valid_calendar_date s \<longleftrightarrow>
     (let y = digit_number (take 4 s); month = digit_number (take 2 (drop 5 s)); day = digit_number (drop 8 s)
      in 1 \<le> y \<and> 1 \<le> month \<and> month \<le> 12 \<and> 1 \<le> day \<and> day \<le> days_in_month y month)"

definition covered_categories :: "ModelSetManifest \<Rightarrow> ModelCategory set" where
  "covered_categories m = (\<Union>route\<in>set (mst_routes m). set (mrt_categories route))"

definition validate_route_set :: "ModelSetManifest \<Rightarrow> model_set_error + ModelSetManifest" where
  "validate_route_set m =
     (let requested = map mrt_requested_model (mst_routes m);
          excluded = map exr_requested_model (mst_exclusions m);
          covered = covered_categories m;
          uncovered = map unc_category (mst_uncovered_categories m)
      in if \<not> distinct (map mrt_route_id (mst_routes m)) then Inl Route_ids_not_unique
         else if \<not> distinct requested then Inl Requested_not_unique
         else if \<not> distinct excluded then Inl Excluded_not_unique
         else if set requested \<inter> set excluded \<noteq> {} then Inl Qualified_and_excluded
         else if \<not> distinct uncovered then Inl Uncovered_not_unique
         else if list_ex (\<lambda>c. c \<notin> REQUIRED_MODEL_CATEGORIES) uncovered then Inl Uncovered_not_required
         else if covered \<inter> set uncovered \<noteq> {} then Inl Covered_and_excluded
         else if (covered \<inter> REQUIRED_MODEL_CATEGORIES) \<union> set uncovered \<noteq> REQUIRED_MODEL_CATEGORIES
         then Inl Category_missing
         else Inr m)"

definition ModelSetManifest_validate :: "ModelSetManifest \<Rightarrow> model_set_error + ModelSetManifest" where
  "ModelSetManifest_validate m =
     (if mst_routes m = [] \<or> \<not> date_stamp_ok (mst_resolved_on m) then Inl Manifest_domain
      else bind_result (map_result ModelRoute_validate (mst_routes m)) (\<lambda>routes.
        if \<not> valid_calendar_date (mst_resolved_on m) then Inl Invalid_date
        else validate_route_set (m\<lparr>mst_routes := sort_key mrt_route_id routes,
          mst_exclusions := sort_key exr_requested_model (mst_exclusions m),
          mst_uncovered_categories := sort_key (\<lambda>u. category_value (unc_category u)) (mst_uncovered_categories m)\<rparr>)))"

subsection \<open>Policies and limits\<close>

datatype RetryCondition = CONNECT_FAILURE | SERVER_UNAVAILABLE | RATE_LIMITED

fun retry_condition_value :: "RetryCondition \<Rightarrow> string" where
  "retry_condition_value CONNECT_FAILURE = ''connect_failure''"
| "retry_condition_value SERVER_UNAVAILABLE = ''server_unavailable''"
| "retry_condition_value RATE_LIMITED = ''rate_limited''"

record RetryPolicy =
  rty_max_request_attempts :: int
  rty_backoff_milliseconds :: int
  rty_retry_conditions :: "RetryCondition list"

datatype campaign_limit_error = Retry_domain | Retry_not_unique | Retry_missing_conditions | Retry_unused_conditions
  | Token_domain | Requests_above_campaign | Request_input_above_trial | Request_output_above_trial
  | Trial_input_above_campaign | Trial_output_above_campaign | Request_total_above_trial
  | Trial_total_above_sum | Trial_total_above_campaign | Campaign_total_above_sum
  | Execution_domain | Execution_scope

definition RetryPolicy_validate :: "RetryPolicy \<Rightarrow> campaign_limit_error + RetryPolicy" where
  "RetryPolicy_validate p =
     (if \<not> (jcs_positive_ok (rty_max_request_attempts p) \<and> jcs_nonnegative_ok (rty_backoff_milliseconds p))
      then Inl Retry_domain
      else bind_result (sorted_unique_by retry_condition_value Retry_not_unique (rty_retry_conditions p)) (\<lambda>conditions.
        if rty_max_request_attempts p > 1 \<and> conditions = [] then Inl Retry_missing_conditions
        else if rty_max_request_attempts p = 1 \<and> conditions \<noteq> [] then Inl Retry_unused_conditions
        else Inr (p\<lparr>rty_retry_conditions := conditions\<rparr>)))"

record CampaignTokenLimits =
  ctl_max_requests :: int
  ctl_max_requests_per_trial :: int
  ctl_max_input_tokens_per_request :: int
  ctl_max_output_tokens_per_request :: int
  ctl_max_input_tokens_per_trial :: int
  ctl_max_output_tokens_per_trial :: int
  ctl_max_total_tokens_per_trial :: int
  ctl_max_input_tokens :: int
  ctl_max_output_tokens :: int
  ctl_max_total_tokens :: int

definition CampaignTokenLimits_validate :: "CampaignTokenLimits \<Rightarrow> campaign_limit_error + CampaignTokenLimits" where
  "CampaignTokenLimits_validate l =
     (let request_total = ctl_max_input_tokens_per_request l + ctl_max_output_tokens_per_request l in
      if \<not> list_all jcs_positive_ok [ctl_max_requests l, ctl_max_requests_per_trial l,
           ctl_max_input_tokens_per_request l, ctl_max_output_tokens_per_request l,
           ctl_max_input_tokens_per_trial l, ctl_max_output_tokens_per_trial l, ctl_max_total_tokens_per_trial l,
           ctl_max_input_tokens l, ctl_max_output_tokens l, ctl_max_total_tokens l] then Inl Token_domain
      else if ctl_max_requests_per_trial l > ctl_max_requests l then Inl Requests_above_campaign
      else if ctl_max_input_tokens_per_request l > ctl_max_input_tokens_per_trial l then Inl Request_input_above_trial
      else if ctl_max_output_tokens_per_request l > ctl_max_output_tokens_per_trial l
      then Inl Request_output_above_trial
      else if ctl_max_input_tokens_per_trial l > ctl_max_input_tokens l then Inl Trial_input_above_campaign
      else if ctl_max_output_tokens_per_trial l > ctl_max_output_tokens l then Inl Trial_output_above_campaign
      else if request_total > ctl_max_total_tokens_per_trial l then Inl Request_total_above_trial
      else if ctl_max_total_tokens_per_trial l > ctl_max_input_tokens_per_trial l + ctl_max_output_tokens_per_trial l
      then Inl Trial_total_above_sum
      else if ctl_max_total_tokens_per_trial l > ctl_max_total_tokens l then Inl Trial_total_above_campaign
      else if ctl_max_total_tokens l > ctl_max_input_tokens l + ctl_max_output_tokens l
      then Inl Campaign_total_above_sum
      else Inr l)"

record CampaignExecutionLimits =
  cel_max_turns_per_trial :: int
  cel_max_tool_calls_per_trial :: int
  cel_max_wall_seconds_per_trial :: int
  cel_max_eda_compute_seconds_per_trial :: int
  cel_max_license_seconds_per_trial :: int
  cel_max_artifact_bytes_per_trial :: int
  cel_max_turns :: int
  cel_max_tool_calls :: int
  cel_max_wall_seconds :: int
  cel_max_eda_compute_seconds :: int
  cel_max_license_seconds :: int
  cel_max_artifact_bytes :: int

definition execution_pairs :: "CampaignExecutionLimits \<Rightarrow> (int \<times> int) list" where
  "execution_pairs l =
     [(cel_max_turns_per_trial l, cel_max_turns l), (cel_max_tool_calls_per_trial l, cel_max_tool_calls l),
      (cel_max_wall_seconds_per_trial l, cel_max_wall_seconds l),
      (cel_max_eda_compute_seconds_per_trial l, cel_max_eda_compute_seconds l),
      (cel_max_license_seconds_per_trial l, cel_max_license_seconds l),
      (cel_max_artifact_bytes_per_trial l, cel_max_artifact_bytes l)]"

definition CampaignExecutionLimits_validate ::
    "CampaignExecutionLimits \<Rightarrow> campaign_limit_error + CampaignExecutionLimits" where
  "CampaignExecutionLimits_validate l =
     (if \<not> (list_all jcs_positive_ok [cel_max_turns_per_trial l, cel_max_tool_calls_per_trial l,
             cel_max_wall_seconds_per_trial l, cel_max_eda_compute_seconds_per_trial l,
             cel_max_artifact_bytes_per_trial l, cel_max_turns l, cel_max_tool_calls l, cel_max_wall_seconds l,
             cel_max_eda_compute_seconds l, cel_max_artifact_bytes l]
           \<and> jcs_nonnegative_ok (cel_max_license_seconds_per_trial l) \<and> jcs_nonnegative_ok (cel_max_license_seconds l))
      then Inl Execution_domain
      else bind_result (check_each (\<lambda>(trial_limit, campaign_limit).
             if trial_limit > campaign_limit then Inl Execution_scope else Inr ()) (execution_pairs l)) (\<lambda>_. Inr l))"

record CappedSpendLimit =
  csl_currency :: string
  csl_amount :: CanonicalDecimal

datatype SpendLimit = Spend_Unknown | Spend_Capped CappedSpendLimit

fun spend_limit_ok :: "SpendLimit \<Rightarrow> bool" where
  "spend_limit_ok Spend_Unknown \<longleftrightarrow> True"
| "spend_limit_ok (Spend_Capped l) \<longleftrightarrow> length (csl_currency l) = 3
     \<and> list_all (\<lambda>c. CHR ''A'' \<le> c \<and> c \<le> CHR ''Z'') (csl_currency l) \<and> 0 < csl_amount l"

datatype CampaignScope = END_TO_END_SMOKE | MODEL_COMPARISON_PILOT | COMMON_CORE
  | REASONING_EFFORT_SENSITIVITY | EXPANDED_BREADTH

subsection \<open>The campaign specification\<close>

record CampaignSpec =
  cmp_campaign_id :: Identifier
  cmp_scope :: CampaignScope
  cmp_model_set_digest :: Digest
  cmp_route_ids :: "Identifier list"
  cmp_task_release_digests :: "Digest list"
  cmp_environment_digests :: "Digest list"
  cmp_harness_digests :: "Digest list"
  cmp_prompt_digest :: Digest
  cmp_tool_schema_digest :: Digest
  cmp_feedback_policy_digest :: Digest
  cmp_reasoning_efforts :: "string list"
  cmp_service_tier :: string
  cmp_paired_trial_seeds :: "Seed128Hex list"
  cmp_task_order_seed :: Seed128Hex
  cmp_retry_policy :: RetryPolicy
  cmp_token_limits :: CampaignTokenLimits
  cmp_execution_limits :: CampaignExecutionLimits
  cmp_provider_spend_limit :: SpendLimit

datatype campaign_error = Campaign_domain | Campaign_limits campaign_limit_error | Dimensions_not_unique
  | Seeds_not_unique | Smoke_shape | Eight_tasks | One_effort | Pilot_repetition | Core_repetitions
  | Effort_shape | Breadth_repetitions | Breadth_spend | Retry_above_trial

definition validate_scope :: "CampaignSpec \<Rightarrow> campaign_error + CampaignSpec" where
  "validate_scope c =
     (let repetitions = length (cmp_paired_trial_seeds c); scope = cmp_scope c;
          tasks = length (cmp_task_release_digests c); efforts = length (cmp_reasoning_efforts c)
      in if scope = END_TO_END_SMOKE \<and> (tasks \<noteq> 3 \<or> length (cmp_route_ids c) \<noteq> 1 \<or> efforts \<noteq> 1 \<or> repetitions \<noteq> 1)
         then Inl Smoke_shape
         else if scope \<in> {MODEL_COMPARISON_PILOT, COMMON_CORE} \<and> tasks \<noteq> 8 then Inl Eight_tasks
         else if scope \<in> {MODEL_COMPARISON_PILOT, COMMON_CORE} \<and> efforts \<noteq> 1 then Inl One_effort
         else if scope = MODEL_COMPARISON_PILOT \<and> repetitions \<noteq> 1 then Inl Pilot_repetition
         else if scope = COMMON_CORE \<and> repetitions \<noteq> 3 then Inl Core_repetitions
         else if scope = REASONING_EFFORT_SENSITIVITY \<and> (tasks \<noteq> 6 \<or> efforts \<noteq> 2 \<or> repetitions \<noteq> 1)
         then Inl Effort_shape
         else if scope = EXPANDED_BREADTH \<and> repetitions \<notin> {1, 3} then Inl Breadth_repetitions
         else if scope = EXPANDED_BREADTH \<and> cmp_provider_spend_limit c = Spend_Unknown then Inl Breadth_spend
         else if rty_max_request_attempts (cmp_retry_policy c) > ctl_max_requests_per_trial (cmp_token_limits c)
         then Inl Retry_above_trial
         else Inr c)"

definition campaign_limits_result :: "campaign_limit_error + 'a \<Rightarrow> campaign_error + 'a" where
  "campaign_limits_result m = (case m of Inl e \<Rightarrow> Inl (Campaign_limits e) | Inr x \<Rightarrow> Inr x)"

definition CampaignSpec_validate :: "CampaignSpec \<Rightarrow> campaign_error + CampaignSpec" where
  "CampaignSpec_validate c =
     (if cmp_route_ids c = [] \<or> cmp_task_release_digests c = [] \<or> cmp_environment_digests c = []
         \<or> cmp_harness_digests c = [] \<or> cmp_reasoning_efforts c = [] \<or> cmp_paired_trial_seeds c = []
         \<or> list_ex (\<lambda>e. \<not> (1 \<le> length e \<and> length e \<le> 32)) (cmp_reasoning_efforts c)
         \<or> \<not> spend_limit_ok (cmp_provider_spend_limit c)
      then Inl Campaign_domain
      else
      bind_result (sorted_unique Dimensions_not_unique (cmp_route_ids c)) (\<lambda>routes.
      bind_result (sorted_unique Dimensions_not_unique (cmp_task_release_digests c)) (\<lambda>tasks.
      bind_result (sorted_unique Dimensions_not_unique (cmp_environment_digests c)) (\<lambda>environments.
      bind_result (sorted_unique Dimensions_not_unique (cmp_harness_digests c)) (\<lambda>harnesses.
      bind_result (sorted_unique Dimensions_not_unique (cmp_reasoning_efforts c)) (\<lambda>efforts.
      bind_result (sorted_unique Seeds_not_unique (cmp_paired_trial_seeds c)) (\<lambda>seeds.
      bind_result (campaign_limits_result (RetryPolicy_validate (cmp_retry_policy c))) (\<lambda>retry.
      bind_result (campaign_limits_result (CampaignTokenLimits_validate (cmp_token_limits c))) (\<lambda>tokens.
      bind_result (campaign_limits_result (CampaignExecutionLimits_validate (cmp_execution_limits c))) (\<lambda>execution.
        validate_scope (c\<lparr>cmp_route_ids := routes, cmp_task_release_digests := tasks,
          cmp_environment_digests := environments, cmp_harness_digests := harnesses,
          cmp_reasoning_efforts := efforts, cmp_paired_trial_seeds := seeds, cmp_retry_policy := retry,
          cmp_token_limits := tokens, cmp_execution_limits := execution\<rparr>)))))))))))"

lemma campaign_limits_result_Inr [simp]: "campaign_limits_result m = Inr x \<longleftrightarrow> m = Inr x"
  by (simp add: campaign_limits_result_def split: sum.splits)

text \<open>What an accepted campaign guarantees, for the scheduler and the budget projection.\<close>

lemma CampaignSpec_validate_facts:
  assumes "CampaignSpec_validate raw = Inr c"
  shows "distinct (cmp_route_ids c)" "distinct (cmp_task_release_digests c)" "distinct (cmp_reasoning_efforts c)"
    "distinct (cmp_paired_trial_seeds c)" "cmp_route_ids c \<noteq> []" "cmp_task_release_digests c \<noteq> []"
    "cmp_reasoning_efforts c \<noteq> []" "cmp_paired_trial_seeds c \<noteq> []"
    "CampaignTokenLimits_validate (cmp_token_limits c) = Inr (cmp_token_limits c)"
    "CampaignExecutionLimits_validate (cmp_execution_limits c) = Inr (cmp_execution_limits c)"
proof -
  have "CampaignTokenLimits_validate x = Inr y \<Longrightarrow> y = x" for x y
    by (auto simp: CampaignTokenLimits_validate_def Let_def split: if_splits)
  then have tokens: "CampaignTokenLimits_validate x = Inr y \<Longrightarrow> CampaignTokenLimits_validate y = Inr y" for x y
    by blast
  have "CampaignExecutionLimits_validate x = Inr y \<Longrightarrow> y = x" for x y
    by (auto simp: CampaignExecutionLimits_validate_def split: if_splits)
  then have execution:
    "CampaignExecutionLimits_validate x = Inr y \<Longrightarrow> CampaignExecutionLimits_validate y = Inr y" for x y
    by blast
  have scope: "validate_scope x = Inr y \<Longrightarrow> y = x" for x y
    by (simp add: validate_scope_def Let_def split: if_splits)
  note facts = assms [unfolded CampaignSpec_validate_def]
  show "distinct (cmp_route_ids c)" "distinct (cmp_task_release_digests c)" "distinct (cmp_reasoning_efforts c)"
    "distinct (cmp_paired_trial_seeds c)" "cmp_route_ids c \<noteq> []" "cmp_task_release_digests c \<noteq> []"
    "cmp_reasoning_efforts c \<noteq> []" "cmp_paired_trial_seeds c \<noteq> []"
    "CampaignTokenLimits_validate (cmp_token_limits c) = Inr (cmp_token_limits c)"
    "CampaignExecutionLimits_validate (cmp_execution_limits c) = Inr (cmp_execution_limits c)"
    using facts by (auto split: if_splits dest!: scope dest: tokens execution)
qed

end
