(* ===== verification/CampaignSchedule.thy ===== *)
theory CampaignSchedule
  imports Campaign "HOL-Library.Product_Lexorder"
begin

section \<open>Campaign schedules\<close>

text \<open>
  The model of \<open>providers/campaign_schedule.py\<close>: task bindings, the deterministic schedule and the
  campaign header, with the secret-free provider configuration of \<open>providers/model.py\<close> the header
  is bound to. The domain-separated digests of whole models (\<open>canonical_digest\<close> over the
  JSON-mode dump of a pydantic model) are the fields of \<open>campaign_digests\<close>.
\<close>

subsection \<open>Task bindings\<close>

datatype CampaignTaskRole = RTL_GENERATION | DEBUG_FORMAL | SYNTHESIS_QOR | STA_CLOSURE | PHYSICAL_ANALOG
  | Role_FPGA_IMPLEMENTATION | TOOL_FAILURE_RECOVERY | LONG_RUN_RESUME

definition all_roles :: "CampaignTaskRole set" where
  "all_roles = {RTL_GENERATION, DEBUG_FORMAL, SYNTHESIS_QOR, STA_CLOSURE, PHYSICAL_ANALOG,
     Role_FPGA_IMPLEMENTATION, TOOL_FAILURE_RECOVERY, LONG_RUN_RESUME}"

fun campaign_role_allows_capability :: "CampaignTaskRole \<Rightarrow> Capability \<Rightarrow> bool" where
  "campaign_role_allows_capability RTL_GENERATION c \<longleftrightarrow> c \<in> {RTL_SIMULATION, RTL_LINT}"
| "campaign_role_allows_capability DEBUG_FORMAL c \<longleftrightarrow> c \<in> {CDC_RDC, FORMAL_PROPERTY, EQUIVALENCE}"
| "campaign_role_allows_capability SYNTHESIS_QOR c \<longleftrightarrow> c \<in> {ASIC_SYNTHESIS, HIGH_LEVEL_SYNTHESIS}"
| "campaign_role_allows_capability STA_CLOSURE c \<longleftrightarrow> c = STATIC_TIMING"
| "campaign_role_allows_capability PHYSICAL_ANALOG c \<longleftrightarrow> c \<in> {DIGITAL_IMPLEMENTATION, POWER_ANALYSIS,
     POWER_INTEGRITY, PARASITIC_EXTRACTION, PHYSICAL_VERIFICATION, CIRCUIT_SIMULATION, CELL_CHARACTERIZATION}"
| "campaign_role_allows_capability Role_FPGA_IMPLEMENTATION c \<longleftrightarrow> c = FPGA_IMPLEMENTATION"
| "campaign_role_allows_capability TOOL_FAILURE_RECOVERY c \<longleftrightarrow> True"
| "campaign_role_allows_capability LONG_RUN_RESUME c \<longleftrightarrow> True"

datatype WireProtocol = Wire_RESPONSES

record MeteredProviderHarnessBinding =
  mph_harness_id :: Identifier
  mph_provider_profile_digest :: Digest
  mph_provider_config_digest :: Digest
  mph_wire_protocol :: WireProtocol
  mph_instruction_digest :: Digest
  mph_tool_schema_digest :: Digest
  mph_scaffold_digest :: Digest
  mph_maximum_requests_per_action :: int

record CampaignTask =
  ctk_task_release_digest :: Digest
  ctk_task_family :: Identifier
  ctk_task_origin :: TaskOrigin
  ctk_role :: CampaignTaskRole
  ctk_device_capability :: Capability
  ctk_environment_digest :: Digest
  ctk_harness :: MeteredProviderHarnessBinding
  ctk_evaluator_stage_ids :: "Identifier list"

record TrialBinding =
  tbd_campaign_digest :: Digest
  tbd_task_release_digest :: Digest
  tbd_task_family :: Identifier
  tbd_task_origin :: TaskOrigin
  tbd_task_role :: CampaignTaskRole
  tbd_device_capability :: Capability
  tbd_environment_digest :: Digest
  tbd_harness :: MeteredProviderHarnessBinding
  tbd_route_id :: Identifier
  tbd_requested_model :: string
  tbd_qualified_provider_reported_model :: string
  tbd_reasoning_effort :: string
  tbd_service_tier :: string
  tbd_observed_input_token_floor :: int
  tbd_paired_seed :: Seed128Hex
  tbd_repetition_index :: int
  tbd_task_order_index :: int

record ScheduledTrial =
  sct_ordinal :: int
  sct_trial_id :: Identifier
  sct_binding :: TrialBinding

record CampaignSchedule =
  csc_campaign_digest :: Digest
  csc_model_set_digest :: Digest
  csc_ordered_task_release_digests :: "Digest list"
  csc_trials :: "ScheduledTrial list"

record ProviderProfile =
  ppf_logical_id :: Identifier
  ppf_origin :: string
  ppf_responses_path :: string
  ppf_models_path :: "string option"
  ppf_wire_protocol :: WireProtocol

record ProviderDefaults =
  pdf_requested_model :: string
  pdf_reasoning_effort :: "string option"
  pdf_service_tier :: "string option"

record ResolvedProviderConfig =
  rpc_selected_provider_label :: string
  rpc_profile :: ProviderProfile
  rpc_defaults :: ProviderDefaults

record campaign_digests =
  cdg_campaign :: "CampaignSpec \<Rightarrow> Digest"
  cdg_model_set :: "ModelSetManifest \<Rightarrow> Digest"
  cdg_harness :: "MeteredProviderHarnessBinding \<Rightarrow> Digest"
  cdg_task_order :: "Seed128Hex \<Rightarrow> Digest \<Rightarrow> Digest"
  cdg_trial :: "TrialBinding \<Rightarrow> Digest"
  cdg_schedule :: "CampaignSchedule \<Rightarrow> Digest"
  cdg_provider_profile :: "ProviderProfile \<Rightarrow> Digest"
  cdg_provider_config :: "ResolvedProviderConfig \<Rightarrow> Digest"

datatype binding_error = Task_domain | Stages_not_unique | Role_capability | Binding_domain | Trial_identity

datatype schedule_fault = Ordinals | Trial_ids_not_unique | Order_not_unique | Binding_envelope | Tasks_uncovered

datatype schedule_error = Model_set_mismatch | Releases_not_unique | Releases_coverage | Environments_coverage
  | Harnesses_coverage | Not_native_sealed | Role_not_admitted | Smoke_roles | Every_role | Effort_roles
  | Unknown_route | Every_route | Reasoning_routes | Route_reasoning | Route_tier | Route_floor
  | Schedule_key_error | Schedule_binding binding_error | Schedule_domain | Schedule_invalid schedule_fault

definition CampaignTask_validate :: "CampaignTask \<Rightarrow> binding_error + CampaignTask" where
  "CampaignTask_validate t =
     (if ctk_evaluator_stage_ids t = [] \<or> \<not> jcs_positive_ok (mph_maximum_requests_per_action (ctk_harness t))
      then Inl Task_domain
      else if \<not> distinct (ctk_evaluator_stage_ids t) then Inl Stages_not_unique
      else if \<not> campaign_role_allows_capability (ctk_role t) (ctk_device_capability t) then Inl Role_capability
      else Inr t)"

definition TrialBinding_validate :: "TrialBinding \<Rightarrow> binding_error + TrialBinding" where
  "TrialBinding_validate b =
     (if \<not> (1 \<le> length (tbd_reasoning_effort b) \<and> length (tbd_reasoning_effort b) \<le> 32
           \<and> jcs_nonnegative_ok (tbd_observed_input_token_floor b) \<and> jcs_nonnegative_ok (tbd_repetition_index b)
           \<and> jcs_nonnegative_ok (tbd_task_order_index b)) then Inl Binding_domain
      else if \<not> campaign_role_allows_capability (tbd_task_role b) (tbd_device_capability b) then Inl Role_capability
      else Inr b)"

definition trial_id_of :: "campaign_digests \<Rightarrow> TrialBinding \<Rightarrow> Identifier" where
  "trial_id_of dg b =
     (let d = cdg_trial dg b in ''trial_'' @ (if take 7 d = ''sha256:'' then drop 7 d else d))"

definition ScheduledTrial_validate :: "campaign_digests \<Rightarrow> ScheduledTrial \<Rightarrow> binding_error + ScheduledTrial" where
  "ScheduledTrial_validate dg t =
     (if \<not> jcs_nonnegative_ok (sct_ordinal t) then Inl Binding_domain
      else if sct_trial_id t \<noteq> trial_id_of dg (sct_binding t) then Inl Trial_identity
      else Inr t)"

subsection \<open>The schedule\<close>

definition CampaignSchedule_validate :: "CampaignSchedule \<Rightarrow> schedule_error + CampaignSchedule" where
  "CampaignSchedule_validate s =
     (let trials = csc_trials s; order = csc_ordered_task_release_digests s;
          expected_task_index = dict_of snd (int \<circ> fst) (enumerate 0 order)
      in if order = [] \<or> trials = [] then Inl Schedule_domain
         else if map sct_ordinal trials \<noteq> map int [0..<length trials] then Inl (Schedule_invalid Ordinals)
         else if \<not> distinct (map sct_trial_id trials) then Inl (Schedule_invalid Trial_ids_not_unique)
         else if \<not> distinct order then Inl (Schedule_invalid Order_not_unique)
         else if list_ex (\<lambda>t. tbd_campaign_digest (sct_binding t) \<noteq> csc_campaign_digest s
                \<or> dict_get expected_task_index (tbd_task_release_digest (sct_binding t))
                    \<noteq> Some (tbd_task_order_index (sct_binding t))) trials
         then Inl (Schedule_invalid Binding_envelope)
         else if set (map (\<lambda>t. tbd_task_release_digest (sct_binding t)) trials) \<noteq> set order
         then Inl (Schedule_invalid Tasks_uncovered)
         else Inr s)"

definition require_paid_campaign_task_origin :: "TaskOrigin \<Rightarrow> schedule_error + unit" where
  "require_paid_campaign_task_origin origin =
     (case origin of Origin_NativeSealed _ \<Rightarrow> Inr () | Origin_PublicCalibration _ \<Rightarrow> Inl Not_native_sealed)"

definition check_campaign_tasks :: "campaign_digests \<Rightarrow> CampaignSpec \<Rightarrow> CampaignTask list \<Rightarrow> schedule_error + unit" where
  "check_campaign_tasks dg campaign tasks =
     (let task_by_release = dict_of ctk_task_release_digest id tasks; task_roles = set (map ctk_role tasks) in
      if length task_by_release \<noteq> length tasks then Inl Releases_not_unique
      else if set (dict_keys task_by_release) \<noteq> set (cmp_task_release_digests campaign) then Inl Releases_coverage
      else if set (map ctk_environment_digest tasks) \<noteq> set (cmp_environment_digests campaign)
      then Inl Environments_coverage
      else if set (map (\<lambda>t. cdg_harness dg (ctk_harness t)) tasks) \<noteq> set (cmp_harness_digests campaign)
      then Inl Harnesses_coverage
      else bind_result (check_each (\<lambda>task.
          bind_result (require_paid_campaign_task_origin (ctk_task_origin task)) (\<lambda>_.
            if \<not> campaign_role_allows_capability (ctk_role task) (ctk_device_capability task)
            then Inl Role_not_admitted else Inr ())) tasks) (\<lambda>_.
        if cmp_scope campaign = END_TO_END_SMOKE \<and> \<not> (RTL_GENERATION \<in> task_roles
             \<and> task_roles \<inter> {SYNTHESIS_QOR, STA_CLOSURE} \<noteq> {}
             \<and> task_roles \<inter> {PHYSICAL_ANALOG, Role_FPGA_IMPLEMENTATION} \<noteq> {}) then Inl Smoke_roles
        else if cmp_scope campaign \<in> {MODEL_COMPARISON_PILOT, COMMON_CORE} \<and> task_roles \<noteq> all_roles
        then Inl Every_role
        else if cmp_scope campaign = REASONING_EFFORT_SENSITIVITY
             \<and> task_roles \<noteq> {RTL_GENERATION, DEBUG_FORMAL, SYNTHESIS_QOR, STA_CLOSURE, PHYSICAL_ANALOG,
                  Role_FPGA_IMPLEMENTATION}
        then Inl Effort_roles
        else Inr ()))"

definition ordered_releases :: "campaign_digests \<Rightarrow> CampaignSpec \<Rightarrow> CampaignTask list \<Rightarrow> Digest list" where
  "ordered_releases dg campaign tasks =
     sort_key (\<lambda>release. (cdg_task_order dg (cmp_task_order_seed campaign) release, release))
       (dict_keys (dict_of ctk_task_release_digest id tasks))"

definition campaign_routes :: "CampaignSpec \<Rightarrow> ModelSetManifest \<Rightarrow> schedule_error + ModelRoute list" where
  "campaign_routes campaign model_set =
     (let route_by_id = dict_of mrt_route_id id (mst_routes model_set);
          reasoning_route_ids = set (map mrt_route_id (filter (\<lambda>route.
            rqf_reasoning_control (mrt_qualification route) = Feature_SUPPORTED) (mst_routes model_set)))
      in if \<not> set (cmp_route_ids campaign) \<subseteq> set (dict_keys route_by_id) then Inl Unknown_route
         else if cmp_scope campaign \<in> {MODEL_COMPARISON_PILOT, COMMON_CORE}
              \<and> set (cmp_route_ids campaign) \<noteq> set (dict_keys route_by_id) then Inl Every_route
         else if cmp_scope campaign = REASONING_EFFORT_SENSITIVITY
              \<and> set (cmp_route_ids campaign) \<noteq> reasoning_route_ids then Inl Reasoning_routes
         else bind_result (map_result (\<lambda>route_id. case dict_get route_by_id route_id of
                None \<Rightarrow> Inl Schedule_key_error | Some route \<Rightarrow> Inr route) (cmp_route_ids campaign)) (\<lambda>routes.
           if list_ex (\<lambda>route. rqf_reasoning_control (mrt_qualification route) \<noteq> Feature_SUPPORTED) routes
           then Inl Route_reasoning
           else if list_ex (\<lambda>route. rqf_requested_service_tier (mrt_qualification route)
                     \<noteq> Some (cmp_service_tier campaign)) routes then Inl Route_tier
           else if list_ex (\<lambda>route. rqf_observed_input_token_floor (mrt_qualification route)
                     \<ge> ctl_max_input_tokens_per_request (cmp_token_limits campaign)) routes then Inl Route_floor
           else Inr routes))"

definition trial_binding :: "campaign_digests \<Rightarrow> CampaignSpec \<Rightarrow> nat \<times> Seed128Hex \<Rightarrow> nat \<times> Digest \<Rightarrow> CampaignTask
    \<Rightarrow> ModelRoute \<Rightarrow> string \<Rightarrow> TrialBinding" where
  "trial_binding dg campaign repetition ordered task route effort =
     \<lparr>tbd_campaign_digest = cdg_campaign dg campaign, tbd_task_release_digest = snd ordered,
      tbd_task_family = ctk_task_family task, tbd_task_origin = ctk_task_origin task,
      tbd_task_role = ctk_role task, tbd_device_capability = ctk_device_capability task,
      tbd_environment_digest = ctk_environment_digest task, tbd_harness = ctk_harness task,
      tbd_route_id = mrt_route_id route, tbd_requested_model = mrt_requested_model route,
      tbd_qualified_provider_reported_model = mrt_provider_reported_model route,
      tbd_reasoning_effort = effort, tbd_service_tier = cmp_service_tier campaign,
      tbd_observed_input_token_floor = rqf_observed_input_token_floor (mrt_qualification route),
      tbd_paired_seed = snd repetition, tbd_repetition_index = int (fst repetition),
      tbd_task_order_index = int (fst ordered)\<rparr>"

definition append_trial :: "campaign_digests \<Rightarrow> ScheduledTrial list \<Rightarrow> TrialBinding
    \<Rightarrow> schedule_error + ScheduledTrial list" where
  "append_trial dg trials raw =
     (case TrialBinding_validate raw of Inl e \<Rightarrow> Inl (Schedule_binding e)
      | Inr binding \<Rightarrow>
        (case ScheduledTrial_validate dg \<lparr>sct_ordinal = int (length trials), sct_trial_id = trial_id_of dg binding,
             sct_binding = binding\<rparr> of Inl e \<Rightarrow> Inl (Schedule_binding e)
         | Inr trial \<Rightarrow> Inr (trials @ [trial])))"

definition schedule_trials :: "campaign_digests \<Rightarrow> CampaignSpec \<Rightarrow> (Digest, CampaignTask) dict \<Rightarrow> Digest list
    \<Rightarrow> ModelRoute list \<Rightarrow> schedule_error + ScheduledTrial list" where
  "schedule_trials dg campaign task_by_release ordered routes =
     fold_result (\<lambda>trials repetition.
       fold_result (\<lambda>trials release.
         case dict_get task_by_release (snd release) of
           None \<Rightarrow> Inl Schedule_key_error
         | Some task \<Rightarrow>
           fold_result (\<lambda>trials route.
             fold_result (\<lambda>trials effort.
               append_trial dg trials (trial_binding dg campaign repetition release task route effort))
             trials (cmp_reasoning_efforts campaign))
           trials routes)
       trials (enumerate 0 ordered))
     [] (enumerate 0 (cmp_paired_trial_seeds campaign))"

definition build_campaign_schedule :: "campaign_digests \<Rightarrow> CampaignSpec \<Rightarrow> ModelSetManifest \<Rightarrow> CampaignTask list
    \<Rightarrow> schedule_error + CampaignSchedule" where
  "build_campaign_schedule dg campaign model_set tasks =
     (if cdg_model_set dg model_set \<noteq> cmp_model_set_digest campaign then Inl Model_set_mismatch
      else
      bind_result (check_campaign_tasks dg campaign tasks) (\<lambda>_.
      bind_result (campaign_routes campaign model_set) (\<lambda>routes.
      let ordered = ordered_releases dg campaign tasks in
      bind_result (schedule_trials dg campaign (dict_of ctk_task_release_digest id tasks) ordered routes) (\<lambda>trials.
        CampaignSchedule_validate \<lparr>csc_campaign_digest = cdg_campaign dg campaign,
          csc_model_set_digest = cdg_model_set dg model_set, csc_ordered_task_release_digests = ordered,
          csc_trials = trials\<rparr>))))"

subsection \<open>The campaign header\<close>

record CampaignHeader =
  chd_campaign :: CampaignSpec
  chd_model_set :: ModelSetManifest
  chd_provider_config :: ResolvedProviderConfig
  chd_tasks :: "CampaignTask list"
  chd_schedule :: CampaignSchedule

datatype header_error = Header_domain | Header_tasks_not_unique | Header_provider | Header_harness
  | Header_schedule schedule_error | Header_schedule_derived

definition expected_harness :: "campaign_digests \<Rightarrow> CampaignHeader
    \<Rightarrow> Digest \<times> Digest \<times> WireProtocol \<times> Digest \<times> Digest" where
  "expected_harness dg h =
     (cdg_provider_profile dg (rpc_profile (chd_provider_config h)), cdg_provider_config dg (chd_provider_config h),
      ppf_wire_protocol (rpc_profile (chd_provider_config h)), cmp_prompt_digest (chd_campaign h),
      cmp_tool_schema_digest (chd_campaign h))"

definition harness_of_task :: "CampaignTask \<Rightarrow> Digest \<times> Digest \<times> WireProtocol \<times> Digest \<times> Digest" where
  "harness_of_task t =
     (mph_provider_profile_digest (ctk_harness t), mph_provider_config_digest (ctk_harness t),
      mph_wire_protocol (ctk_harness t), mph_instruction_digest (ctk_harness t),
      mph_tool_schema_digest (ctk_harness t))"

definition CampaignHeader_validate :: "campaign_digests \<Rightarrow> CampaignHeader \<Rightarrow> header_error + CampaignHeader" where
  "CampaignHeader_validate dg raw =
     (if chd_tasks raw = [] then Inl Header_domain
      else bind_result (sorted_unique_by ctk_task_release_digest Header_tasks_not_unique (chd_tasks raw)) (\<lambda>tasks.
      let h = raw\<lparr>chd_tasks := tasks\<rparr> in
      if cdg_provider_config dg (chd_provider_config h) \<noteq> mst_provider_config_digest (chd_model_set h)
      then Inl Header_provider
      else if list_ex (\<lambda>task. harness_of_task task \<noteq> expected_harness dg h) (chd_tasks h) then Inl Header_harness
      else case build_campaign_schedule dg (chd_campaign h) (chd_model_set h) (chd_tasks h) of
        Inl e \<Rightarrow> Inl (Header_schedule e)
      | Inr expected \<Rightarrow> if chd_schedule h \<noteq> expected then Inl Header_schedule_derived else Inr h))"

end
