(* ===== verification/CampaignEvents.thy ===== *)
theory CampaignEvents
  imports CampaignSchedule RunRecords
begin

section \<open>Campaign resources and accounting events\<close>

text \<open>
  The model of \<open>providers/campaign_budget.py\<close> and of the durable records of
  \<open>providers/campaign_runner.py\<close>: the resource domains, the approval envelope, provider attempts,
  trial outcomes, the seven accounting events and the hash-chained campaign record. Digests of
  whole models are the fields of \<open>record_digests\<close>.
\<close>

subsection \<open>Resources\<close>

record CampaignResources =
  crs_requests :: int
  crs_input_tokens :: int
  crs_output_tokens :: int
  crs_turns :: int
  crs_tool_calls :: int
  crs_wall_seconds :: int
  crs_eda_compute_seconds :: int
  crs_license_seconds :: int
  crs_artifact_bytes :: int

text \<open>\<open>fields(_MutableResources)\<close>: the nine counters, in the order of their declaration.\<close>

definition resource_fields :: "(CampaignResources \<Rightarrow> int) list" where
  "resource_fields = [crs_requests, crs_input_tokens, crs_output_tokens, crs_turns, crs_tool_calls,
     crs_wall_seconds, crs_eda_compute_seconds, crs_license_seconds, crs_artifact_bytes]"

definition resources_zero :: CampaignResources where
  "resources_zero = \<lparr>crs_requests = 0, crs_input_tokens = 0, crs_output_tokens = 0, crs_turns = 0, crs_tool_calls = 0,
     crs_wall_seconds = 0, crs_eda_compute_seconds = 0, crs_license_seconds = 0, crs_artifact_bytes = 0\<rparr>"

definition resources_add :: "CampaignResources \<Rightarrow> CampaignResources \<Rightarrow> CampaignResources" where
  "resources_add r v = \<lparr>crs_requests = crs_requests r + crs_requests v,
     crs_input_tokens = crs_input_tokens r + crs_input_tokens v,
     crs_output_tokens = crs_output_tokens r + crs_output_tokens v, crs_turns = crs_turns r + crs_turns v,
     crs_tool_calls = crs_tool_calls r + crs_tool_calls v, crs_wall_seconds = crs_wall_seconds r + crs_wall_seconds v,
     crs_eda_compute_seconds = crs_eda_compute_seconds r + crs_eda_compute_seconds v,
     crs_license_seconds = crs_license_seconds r + crs_license_seconds v,
     crs_artifact_bytes = crs_artifact_bytes r + crs_artifact_bytes v\<rparr>"

definition resources_subtract :: "CampaignResources \<Rightarrow> CampaignResources \<Rightarrow> CampaignResources" where
  "resources_subtract r v = \<lparr>crs_requests = crs_requests r - crs_requests v,
     crs_input_tokens = crs_input_tokens r - crs_input_tokens v,
     crs_output_tokens = crs_output_tokens r - crs_output_tokens v, crs_turns = crs_turns r - crs_turns v,
     crs_tool_calls = crs_tool_calls r - crs_tool_calls v, crs_wall_seconds = crs_wall_seconds r - crs_wall_seconds v,
     crs_eda_compute_seconds = crs_eda_compute_seconds r - crs_eda_compute_seconds v,
     crs_license_seconds = crs_license_seconds r - crs_license_seconds v,
     crs_artifact_bytes = crs_artifact_bytes r - crs_artifact_bytes v\<rparr>"

definition resources_is_zero :: "CampaignResources \<Rightarrow> bool" where
  "resources_is_zero r \<longleftrightarrow> list_all (\<lambda>f. f r = 0) resource_fields"

definition resources_total_tokens :: "CampaignResources \<Rightarrow> int" where
  "resources_total_tokens r = crs_input_tokens r + crs_output_tokens r"

datatype (plugins only: code size) accounting_fault = Reservation_exists | Claim_empty | Terminal_trial | Poisoned | Work_has_provider
  | Provider_claim_shape | Provider_floor | Retry_ordinal | Request_active | Retry_claim | Not_retryable
  | Retry_exhausted | Failure_not_admitted | Hard_budget | Not_active | Already_dispatched
  | Cancel_dispatched | Provider_as_work | Work_not_dispatched

datatype (plugins only: code size) settlement_fault = Settle_provider_resources | Work_as_provider | Provider_not_dispatched
  | Attempt_differs | Outcome_exists | Outcome_unsettled | Stop_unmatched

datatype (plugins only: code size) outcome_fault = Unknown_trial | Undeclared_stage | Run_id_reused | Binding_missing | Campaign_missing
  | Binding_differs | Harness_differs | Requests_missing | Requests_differ | One_harness | Request_identity
  | Cancelled_facts | Request_reservation | Request_response | Failed_facts | Header_identity | Was_dispatched

datatype (plugins only: code size) record_fault = Resource_domain | Projection_domain | Projection_scope | Projection_global_total
  | Projection_trial_total | Projection_request_input | Projection_request_output | Projection_request_total
  | Usage_domain | Usage_total_tokens | Usage_cached_tokens | Usage_reasoning_tokens | Attempt_domain
  | Attempt_retry_condition | Attempt_response_facts | Attempt_failed_facts | Attempt_charge | Attempt_usage

datatype (plugins only: code size) chain_fault = Outcome_domain | Outcome_stages | Outcome_run_facts | Outcome_run_id | Outcome_no_run_stages
  | Outcome_no_run_requests | Outcome_request_ids | Outcome_success | Outcome_spend | Commit_empty | Commit_digest
  | Chain_broken | Sequence_gap | Event_id_repeated

datatype (plugins only: code size) BudgetDimension = Dim_REQUESTS | Dim_INPUT_TOKENS | Dim_OUTPUT_TOKENS | Dim_TOTAL_TOKENS | Dim_TURNS
  | Dim_TOOL_CALLS | Dim_WALL_SECONDS | Dim_EDA_COMPUTE_SECONDS | Dim_LICENSE_SECONDS | Dim_ARTIFACT_BYTES

datatype campaign_failure = Accounting accounting_fault | Settlement settlement_fault
  | CampaignBudgetExceeded BudgetDimension bool | Outcome_value outcome_fault | Record_value record_fault
  | Chain_value chain_fault | Campaign_key_error

definition CampaignResources_validate :: "CampaignResources \<Rightarrow> campaign_failure + CampaignResources" where
  "CampaignResources_validate r =
     (if \<not> list_all (\<lambda>f. jcs_nonnegative_ok (f r)) resource_fields then Inl (Record_value Resource_domain) else Inr r)"

subsection \<open>Dimensions and limits\<close>

definition all_dimensions :: "BudgetDimension list" where
  "all_dimensions = [Dim_REQUESTS, Dim_INPUT_TOKENS, Dim_OUTPUT_TOKENS, Dim_TOTAL_TOKENS, Dim_TURNS, Dim_TOOL_CALLS,
     Dim_WALL_SECONDS, Dim_EDA_COMPUTE_SECONDS, Dim_LICENSE_SECONDS, Dim_ARTIFACT_BYTES]"

fun dimension_stop_reason :: "BudgetDimension \<Rightarrow> StopReason" where
  "dimension_stop_reason Dim_TURNS = Stop_INTERACTION_BUDGET"
| "dimension_stop_reason Dim_TOOL_CALLS = Stop_TOOL_CALL_BUDGET"
| "dimension_stop_reason Dim_WALL_SECONDS = Stop_WALL_BUDGET"
| "dimension_stop_reason Dim_EDA_COMPUTE_SECONDS = Stop_EDA_COMPUTE_BUDGET"
| "dimension_stop_reason Dim_LICENSE_SECONDS = Stop_LICENSE_BUDGET"
| "dimension_stop_reason Dim_ARTIFACT_BYTES = Stop_STORAGE_BUDGET"
| "dimension_stop_reason _ = Stop_TOKEN_BUDGET"

fun dimension_value :: "BudgetDimension \<Rightarrow> CampaignResources \<Rightarrow> int" where
  "dimension_value Dim_REQUESTS r = crs_requests r"
| "dimension_value Dim_INPUT_TOKENS r = crs_input_tokens r"
| "dimension_value Dim_OUTPUT_TOKENS r = crs_output_tokens r"
| "dimension_value Dim_TOTAL_TOKENS r = crs_input_tokens r + crs_output_tokens r"
| "dimension_value Dim_TURNS r = crs_turns r"
| "dimension_value Dim_TOOL_CALLS r = crs_tool_calls r"
| "dimension_value Dim_WALL_SECONDS r = crs_wall_seconds r"
| "dimension_value Dim_EDA_COMPUTE_SECONDS r = crs_eda_compute_seconds r"
| "dimension_value Dim_LICENSE_SECONDS r = crs_license_seconds r"
| "dimension_value Dim_ARTIFACT_BYTES r = crs_artifact_bytes r"

fun campaign_limit :: "CampaignSpec \<Rightarrow> bool \<Rightarrow> BudgetDimension \<Rightarrow> int" where
  "campaign_limit c True Dim_REQUESTS = ctl_max_requests_per_trial (cmp_token_limits c)"
| "campaign_limit c True Dim_INPUT_TOKENS = ctl_max_input_tokens_per_trial (cmp_token_limits c)"
| "campaign_limit c True Dim_OUTPUT_TOKENS = ctl_max_output_tokens_per_trial (cmp_token_limits c)"
| "campaign_limit c True Dim_TOTAL_TOKENS = ctl_max_total_tokens_per_trial (cmp_token_limits c)"
| "campaign_limit c True Dim_TURNS = cel_max_turns_per_trial (cmp_execution_limits c)"
| "campaign_limit c True Dim_TOOL_CALLS = cel_max_tool_calls_per_trial (cmp_execution_limits c)"
| "campaign_limit c True Dim_WALL_SECONDS = cel_max_wall_seconds_per_trial (cmp_execution_limits c)"
| "campaign_limit c True Dim_EDA_COMPUTE_SECONDS = cel_max_eda_compute_seconds_per_trial (cmp_execution_limits c)"
| "campaign_limit c True Dim_LICENSE_SECONDS = cel_max_license_seconds_per_trial (cmp_execution_limits c)"
| "campaign_limit c True Dim_ARTIFACT_BYTES = cel_max_artifact_bytes_per_trial (cmp_execution_limits c)"
| "campaign_limit c False Dim_REQUESTS = ctl_max_requests (cmp_token_limits c)"
| "campaign_limit c False Dim_INPUT_TOKENS = ctl_max_input_tokens (cmp_token_limits c)"
| "campaign_limit c False Dim_OUTPUT_TOKENS = ctl_max_output_tokens (cmp_token_limits c)"
| "campaign_limit c False Dim_TOTAL_TOKENS = ctl_max_total_tokens (cmp_token_limits c)"
| "campaign_limit c False Dim_TURNS = cel_max_turns (cmp_execution_limits c)"
| "campaign_limit c False Dim_TOOL_CALLS = cel_max_tool_calls (cmp_execution_limits c)"
| "campaign_limit c False Dim_WALL_SECONDS = cel_max_wall_seconds (cmp_execution_limits c)"
| "campaign_limit c False Dim_EDA_COMPUTE_SECONDS = cel_max_eda_compute_seconds (cmp_execution_limits c)"
| "campaign_limit c False Dim_LICENSE_SECONDS = cel_max_license_seconds (cmp_execution_limits c)"
| "campaign_limit c False Dim_ARTIFACT_BYTES = cel_max_artifact_bytes (cmp_execution_limits c)"

definition resource_limits :: "(BudgetDimension \<Rightarrow> int) \<Rightarrow> CampaignResources" where
  "resource_limits limits = \<lparr>crs_requests = limits Dim_REQUESTS, crs_input_tokens = limits Dim_INPUT_TOKENS,
     crs_output_tokens = limits Dim_OUTPUT_TOKENS, crs_turns = limits Dim_TURNS,
     crs_tool_calls = limits Dim_TOOL_CALLS, crs_wall_seconds = limits Dim_WALL_SECONDS,
     crs_eda_compute_seconds = limits Dim_EDA_COMPUTE_SECONDS, crs_license_seconds = limits Dim_LICENSE_SECONDS,
     crs_artifact_bytes = limits Dim_ARTIFACT_BYTES\<rparr>"

record CampaignBudgetProjection =
  cbp_campaign_digest :: Digest
  cbp_schedule_digest :: Digest
  cbp_trial_count :: int
  cbp_global_limits :: CampaignResources
  cbp_global_total_token_limit :: int
  cbp_per_trial_limits :: CampaignResources
  cbp_per_trial_total_token_limit :: int
  cbp_per_request_input_token_limit :: int
  cbp_per_request_output_token_limit :: int

definition CampaignBudgetProjection_validate ::
    "CampaignBudgetProjection \<Rightarrow> campaign_failure + CampaignBudgetProjection" where
  "CampaignBudgetProjection_validate p =
     (if \<not> (list_all jcs_positive_ok [cbp_trial_count p, cbp_global_total_token_limit p,
             cbp_per_trial_total_token_limit p, cbp_per_request_input_token_limit p, cbp_per_request_output_token_limit p]
           \<and> list_all (\<lambda>f. jcs_nonnegative_ok (f (cbp_global_limits p)) \<and> jcs_nonnegative_ok (f (cbp_per_trial_limits p)))
               resource_fields)
      then Inl (Record_value Projection_domain)
      else if list_ex (\<lambda>f. f (cbp_per_trial_limits p) > f (cbp_global_limits p)) resource_fields
      then Inl (Record_value Projection_scope)
      else if cbp_global_total_token_limit p > resources_total_tokens (cbp_global_limits p)
      then Inl (Record_value Projection_global_total)
      else if cbp_per_trial_total_token_limit p > resources_total_tokens (cbp_per_trial_limits p)
      then Inl (Record_value Projection_trial_total)
      else if cbp_per_request_input_token_limit p > crs_input_tokens (cbp_per_trial_limits p)
      then Inl (Record_value Projection_request_input)
      else if cbp_per_request_output_token_limit p > crs_output_tokens (cbp_per_trial_limits p)
      then Inl (Record_value Projection_request_output)
      else if cbp_per_request_input_token_limit p + cbp_per_request_output_token_limit p
            > cbp_per_trial_total_token_limit p
      then Inl (Record_value Projection_request_total)
      else Inr p)"

subsection \<open>Provider attempts\<close>

datatype AttemptDisposition = Attempt_COMPLETED | Attempt_RETRYABLE_FAILURE | Attempt_TERMINAL_FAILURE

record UsageCounters =
  ucn_input_tokens :: int
  ucn_output_tokens :: int
  ucn_total_tokens :: int
  ucn_cached_input_tokens :: "int option"
  ucn_reasoning_tokens :: "int option"

definition UsageCounters_validate :: "UsageCounters \<Rightarrow> campaign_failure + UsageCounters" where
  "UsageCounters_validate u =
     (if \<not> list_all jcs_nonnegative_ok ([ucn_input_tokens u, ucn_output_tokens u, ucn_total_tokens u]
           @ List.map_filter id [ucn_cached_input_tokens u, ucn_reasoning_tokens u])
      then Inl (Record_value Usage_domain)
      else if ucn_total_tokens u \<noteq> ucn_input_tokens u + ucn_output_tokens u
      then Inl (Record_value Usage_total_tokens)
      else if \<exists>c\<in>set_option (ucn_cached_input_tokens u). c > ucn_input_tokens u
      then Inl (Record_value Usage_cached_tokens)
      else if \<exists>c\<in>set_option (ucn_reasoning_tokens u). c > ucn_output_tokens u
      then Inl (Record_value Usage_reasoning_tokens)
      else Inr u)"

definition from_provider_usage :: "ProviderUsage \<Rightarrow> campaign_failure + UsageCounters" where
  "from_provider_usage u = UsageCounters_validate \<lparr>ucn_input_tokens = pus_input_tokens u,
     ucn_output_tokens = pus_output_tokens u, ucn_total_tokens = pus_total_tokens u,
     ucn_cached_input_tokens = pus_cached_input_tokens u, ucn_reasoning_tokens = pus_reasoning_tokens u\<rparr>"

record ProviderAttemptRecord =
  par_request_key :: Identifier
  par_attempt_number :: int
  par_reserved_token_claim :: RequestTokenClaim
  par_disposition :: AttemptDisposition
  par_failure_condition :: "RetryCondition option"
  par_requested_model :: string
  par_requested_service_tier :: string
  par_security_binding :: ProviderSecurityBinding
  par_provider_reported_model :: "string option"
  par_provider_reported_service_tier :: "string option"
  par_provider_response_status :: "ProviderResponseStatus option"
  par_provider_usage :: "UsageCounters option"
  par_charged_resources :: CampaignResources

text \<open>The shape every provider charge and every provider reservation has: one request and tokens.\<close>

definition request_and_tokens_only :: "CampaignResources \<Rightarrow> bool" where
  "request_and_tokens_only r \<longleftrightarrow> crs_requests r = 1 \<and> crs_turns r = 0 \<and> crs_tool_calls r = 0 \<and> crs_wall_seconds r = 0
     \<and> crs_eda_compute_seconds r = 0 \<and> crs_license_seconds r = 0 \<and> crs_artifact_bytes r = 0"

definition ProviderAttemptRecord_validate :: "ProviderAttemptRecord \<Rightarrow> campaign_failure + ProviderAttemptRecord" where
  "ProviderAttemptRecord_validate a =
     (let completed = (par_disposition a = Attempt_COMPLETED); charged = par_charged_resources a in
      if \<not> jcs_positive_ok (par_attempt_number a)
         \<or> RequestTokenClaim_validate (par_reserved_token_claim a) \<noteq> Inr (par_reserved_token_claim a)
         \<or> CampaignResources_validate charged \<noteq> Inr charged
         \<or> (\<exists>u\<in>set_option (par_provider_usage a). UsageCounters_validate u \<noteq> Inr u)
      then Inl (Record_value Attempt_domain)
      else if (par_disposition a = Attempt_RETRYABLE_FAILURE) \<noteq> (par_failure_condition a \<noteq> None)
      then Inl (Record_value Attempt_retry_condition)
      else if completed \<and> (par_provider_reported_model a = None \<or> par_provider_response_status a = None)
      then Inl (Record_value Attempt_response_facts)
      else if \<not> completed \<and> (par_provider_reported_model a \<noteq> None \<or> par_provider_response_status a \<noteq> None
           \<or> par_provider_reported_service_tier a \<noteq> None)
      then Inl (Record_value Attempt_failed_facts)
      else if \<not> request_and_tokens_only charged then Inl (Record_value Attempt_charge)
      else if \<exists>u\<in>set_option (par_provider_usage a). crs_input_tokens charged \<noteq> ucn_input_tokens u
           \<or> crs_output_tokens charged \<noteq> ucn_output_tokens u
      then Inl (Record_value Attempt_usage)
      else Inr a)"

subsection \<open>Trial outcomes\<close>

datatype UnknownSpendReason = Spend_REPORTING_UNAVAILABLE | Spend_REPORTING_INCOMPLETE | Spend_NOT_DISPATCHED

record KnownSpend =
  ksp_currency :: string
  ksp_amount :: CanonicalDecimal

definition KnownSpend_ok :: "KnownSpend \<Rightarrow> bool" where
  "KnownSpend_ok k \<longleftrightarrow> length (ksp_currency k) = 3
     \<and> list_all (\<lambda>c. CHR ''A'' \<le> c \<and> c \<le> CHR ''Z'') (ksp_currency k) \<and> 0 \<le> ksp_amount k"

datatype SpendObservation = Spend_Known KnownSpend | Spend_Unobserved UnknownSpendReason

datatype TrialDisposition = Trial_COMPLETED_RUN | Trial_FAILED_BEFORE_RUN | Trial_NOT_DISPATCHED

record TrialRunOutcome =
  tro_disposition :: TrialDisposition
  tro_terminal_reason :: StopReason
  tro_run_id :: "Digest option"
  tro_run_binding :: "RunBinding option"
  tro_stage_results :: "CandidateStageResult list"
  tro_provider_requests :: "ProviderRequestState list"
  tro_provider_spend :: SpendObservation

record record_digests =
  rcd_campaign :: campaign_digests
  rcd_run_binding :: "RunBinding \<Rightarrow> Digest"
  rcd_scheduled_trial :: "ScheduledTrial \<Rightarrow> Digest"
  rcd_projection :: "CampaignBudgetProjection \<Rightarrow> Digest"
  rcd_header :: "CampaignHeader \<Rightarrow> Digest"

definition TrialRunOutcome_validate :: "record_digests \<Rightarrow> TrialRunOutcome \<Rightarrow> campaign_failure + TrialRunOutcome" where
  "TrialRunOutcome_validate dg t =
     (let completed = (tro_disposition t = Trial_COMPLETED_RUN) in
      if (case tro_provider_spend t of Spend_Known k \<Rightarrow> \<not> KnownSpend_ok k | Spend_Unobserved _ \<Rightarrow> False)
      then Inl (Chain_value Outcome_domain)
      else if \<not> distinct (map (\<lambda>r. (csr_candidate_id r, sgr_stage_id (csr_result r))) (tro_stage_results t))
      then Inl (Chain_value Outcome_stages)
      else if completed \<and> (tro_run_id t = None \<or> tro_run_binding t = None) then Inl (Chain_value Outcome_run_facts)
      else if \<not> completed \<and> (tro_run_id t \<noteq> None \<or> tro_run_binding t \<noteq> None) then Inl (Chain_value Outcome_run_facts)
      else if \<exists>b\<in>set_option (tro_run_binding t). tro_run_id t \<noteq> Some (rcd_run_binding dg b)
      then Inl (Chain_value Outcome_run_id)
      else if \<not> completed \<and> tro_stage_results t \<noteq> [] then Inl (Chain_value Outcome_no_run_stages)
      else if \<not> completed \<and> tro_provider_requests t \<noteq> [] then Inl (Chain_value Outcome_no_run_requests)
      else if \<not> distinct (map (\<lambda>r. prp_request_id (prs_request r)) (tro_provider_requests t))
      then Inl (Chain_value Outcome_request_ids)
      else if tro_terminal_reason t = Stop_VERIFIER_SUCCESS \<and> \<not> completed then Inl (Chain_value Outcome_success)
      else if tro_disposition t = Trial_NOT_DISPATCHED
           \<and> (case tro_provider_spend t of Spend_Known _ \<Rightarrow> True | Spend_Unobserved _ \<Rightarrow> False)
      then Inl (Chain_value Outcome_spend)
      else Inr t)"

subsection \<open>Events and the record\<close>

record ProviderReservationBinding =
  prb_request_key :: Identifier
  prb_attempt_number :: int
  prb_observed_input_token_floor :: int
  prb_security_binding :: ProviderSecurityBinding

record ReservationCreatedPayload =
  rvc_reservation_id :: Identifier
  rvc_trial_id :: Identifier
  rvc_claim :: CampaignResources
  rvc_provider :: "ProviderReservationBinding option"

record WorkSettledPayload =
  wsp_reservation_id :: Identifier
  wsp_actual :: CampaignResources

record ProviderAttemptSettledPayload =
  pas_reservation_id :: Identifier
  pas_attempt :: ProviderAttemptRecord

record TrialOutcomeRecordedPayload =
  top_trial_id :: Identifier
  top_outcome :: TrialRunOutcome

record BudgetStoppedPayload =
  bsp_dimension :: BudgetDimension
  bsp_trial_id :: Identifier
  bsp_per_trial :: bool
  bsp_rejected_claim :: CampaignResources

datatype CampaignEventPayload =
    ReservationCreated ReservationCreatedPayload
  | ReservationDispatched Identifier
  | ReservationCancelled Identifier
  | WorkSettled WorkSettledPayload
  | ProviderAttemptSettled ProviderAttemptSettledPayload
  | TrialOutcomeRecorded TrialOutcomeRecordedPayload
  | BudgetStopped BudgetStoppedPayload

record CampaignEvent =
  cev_event_id :: string
  cev_sequence :: int
  cev_payload :: CampaignEventPayload

fun campaign_payload_validate :: "record_digests \<Rightarrow> CampaignEventPayload \<Rightarrow> campaign_failure + unit" where
  "campaign_payload_validate dg (ReservationCreated p) =
     bind_result (CampaignResources_validate (rvc_claim p)) (\<lambda>_.
       if \<exists>b\<in>set_option (rvc_provider p). \<not> (jcs_positive_ok (prb_attempt_number b)
            \<and> jcs_nonnegative_ok (prb_observed_input_token_floor b))
       then Inl (Record_value Attempt_domain) else Inr ())"
| "campaign_payload_validate dg (WorkSettled p) = bind_result (CampaignResources_validate (wsp_actual p)) (\<lambda>_. Inr ())"
| "campaign_payload_validate dg (ProviderAttemptSettled p) =
     bind_result (ProviderAttemptRecord_validate (pas_attempt p)) (\<lambda>_. Inr ())"
| "campaign_payload_validate dg (TrialOutcomeRecorded p) =
     bind_result (TrialRunOutcome_validate dg (top_outcome p)) (\<lambda>_. Inr ())"
| "campaign_payload_validate dg (BudgetStopped p) = bind_result (CampaignResources_validate (bsp_rejected_claim p)) (\<lambda>_. Inr ())"
| "campaign_payload_validate dg _ = Inr ()"

definition CampaignEvent_validate :: "record_digests \<Rightarrow> CampaignEvent \<Rightarrow> campaign_failure + CampaignEvent" where
  "CampaignEvent_validate dg e =
     (if \<not> jcs_nonnegative_ok (cev_sequence e) then Inl (Record_value Resource_domain)
      else bind_result (campaign_payload_validate dg (cev_payload e)) (\<lambda>_. Inr e))"

definition campaign_budget_projection :: "record_digests \<Rightarrow> CampaignSpec \<Rightarrow> CampaignSchedule
    \<Rightarrow> campaign_failure + CampaignBudgetProjection" where
  "campaign_budget_projection dg c s =
     CampaignBudgetProjection_validate \<lparr>cbp_campaign_digest = cdg_campaign (rcd_campaign dg) c,
       cbp_schedule_digest = cdg_schedule (rcd_campaign dg) s, cbp_trial_count = int (length (csc_trials s)),
       cbp_global_limits = resource_limits (campaign_limit c False),
       cbp_global_total_token_limit = campaign_limit c False Dim_TOTAL_TOKENS,
       cbp_per_trial_limits = resource_limits (campaign_limit c True),
       cbp_per_trial_total_token_limit = campaign_limit c True Dim_TOTAL_TOKENS,
       cbp_per_request_input_token_limit = ctl_max_input_tokens_per_request (cmp_token_limits c),
       cbp_per_request_output_token_limit = ctl_max_output_tokens_per_request (cmp_token_limits c)\<rparr>"

end
