(* ===== verification/CampaignReplay.thy ===== *)
theory CampaignReplay
  imports CampaignEvents
begin

section \<open>Replay of campaign accounting\<close>

text \<open>
  The model of \<open>providers/campaign_replay.py\<close> and of the hash-chained record of
  \<open>providers/campaign_runner.py\<close>. The projection is a record of dictionaries and counters; an
  event either updates it or raises, in which case the caller drops the projection.
\<close>

subsection \<open>The projection\<close>

record TrialProjection =
  tpr_committed :: CampaignResources
  tpr_reserved :: CampaignResources
  tpr_attempts :: "ProviderAttemptRecord list"
  tpr_cancelled_provider_requests :: "Identifier set"
  tpr_outcome :: "TrialRunOutcome option"
  tpr_accounting_violation :: bool

definition TrialProjection_init :: TrialProjection where
  "TrialProjection_init = \<lparr>tpr_committed = resources_zero, tpr_reserved = resources_zero, tpr_attempts = [],
     tpr_cancelled_provider_requests = {}, tpr_outcome = None, tpr_accounting_violation = False\<rparr>"

record ReservationLedger =
  rvl_trial_id :: Identifier
  rvl_claim :: CampaignResources
  rvl_provider :: "ProviderReservationBinding option"
  rvl_dispatched :: bool

record CampaignProjection =
  cpj_ledgers :: "(Identifier, TrialProjection) dict"
  cpj_reservations :: "(Identifier, ReservationLedger) dict"
  cpj_committed :: CampaignResources
  cpj_reserved :: CampaignResources
  cpj_run_ids :: "Digest set"
  cpj_global_stop_dimension :: "BudgetDimension option"
  cpj_trial_stop_dimensions :: "(Identifier, BudgetDimension) dict"
  cpj_budget_violation :: bool

definition campaign_projection_init :: "CampaignHeader \<Rightarrow> CampaignProjection" where
  "campaign_projection_init h =
     \<lparr>cpj_ledgers = dict_of sct_trial_id (\<lambda>_. TrialProjection_init) (csc_trials (chd_schedule h)),
      cpj_reservations = [], cpj_committed = resources_zero, cpj_reserved = resources_zero, cpj_run_ids = {},
      cpj_global_stop_dimension = None, cpj_trial_stop_dimensions = [], cpj_budget_violation = False\<rparr>"

type_synonym campaign_result = "campaign_failure + CampaignProjection"

definition fail_if :: "bool \<Rightarrow> campaign_failure \<Rightarrow> campaign_failure + unit" where
  "fail_if b e = (if b then Inl e else Inr ())"

lemma fail_if_Inr [simp]: "fail_if b e = Inr u \<longleftrightarrow> \<not> b"
  by (simp add: fail_if_def)

definition find_trial :: "CampaignHeader \<Rightarrow> Identifier \<Rightarrow> campaign_failure + ScheduledTrial" where
  "find_trial h trial_id =
     (case find (\<lambda>t. sct_trial_id t = trial_id) (csc_trials (chd_schedule h)) of
        None \<Rightarrow> Inl (Outcome_value Unknown_trial) | Some t \<Rightarrow> Inr t)"

definition active_reservation :: "CampaignProjection \<Rightarrow> Identifier \<Rightarrow> campaign_failure + ReservationLedger" where
  "active_reservation st reservation_id =
     (case dict_get (cpj_reservations st) reservation_id of
        None \<Rightarrow> Inl (Accounting Not_active) | Some r \<Rightarrow> Inr r)"

definition trial_ledger :: "CampaignProjection \<Rightarrow> Identifier \<Rightarrow> campaign_failure + TrialProjection" where
  "trial_ledger st trial_id =
     (case dict_get (cpj_ledgers st) trial_id of None \<Rightarrow> Inl Campaign_key_error | Some l \<Rightarrow> Inr l)"

subsection \<open>Budgets\<close>

definition ready_campaign_projection :: "CampaignProjection \<Rightarrow> Identifier \<Rightarrow> campaign_failure + TrialProjection" where
  "ready_campaign_projection st trial_id =
     (case dict_get (cpj_ledgers st) trial_id of
        None \<Rightarrow> Inl (Outcome_value Unknown_trial)
      | Some ledger \<Rightarrow>
        if tpr_outcome ledger \<noteq> None then Inl (Accounting Terminal_trial)
        else case cpj_global_stop_dimension st of
          Some dimension \<Rightarrow> Inl (CampaignBudgetExceeded dimension False)
        | None \<Rightarrow>
          (case dict_get (cpj_trial_stop_dimensions st) trial_id of
             Some dimension \<Rightarrow> Inl (CampaignBudgetExceeded dimension True)
           | None \<Rightarrow> if cpj_budget_violation st then Inl (Accounting Poisoned) else Inr ledger))"

definition first_exceeded :: "CampaignResources \<Rightarrow> CampaignResources \<Rightarrow> (BudgetDimension \<Rightarrow> int) \<Rightarrow> BudgetDimension option" where
  "first_exceeded current claimed limits =
     find (\<lambda>d. dimension_value d current + dimension_value d claimed > limits d) all_dimensions"

definition resources_exceeds :: "CampaignResources \<Rightarrow> CampaignResources \<Rightarrow> bool" where
  "resources_exceeds actual claimed \<longleftrightarrow> list_ex (\<lambda>f. f actual > f claimed) resource_fields"

definition reservation_rejection :: "CampaignSpec \<Rightarrow> CampaignProjection \<Rightarrow> Identifier \<Rightarrow> CampaignResources \<Rightarrow> bool
    \<Rightarrow> campaign_failure + (BudgetDimension \<times> bool) option" where
  "reservation_rejection c st trial_id claimed provider_request =
     bind_result (ready_campaign_projection st trial_id) (\<lambda>trial.
       if provider_request \<and> crs_input_tokens claimed > ctl_max_input_tokens_per_request (cmp_token_limits c)
       then Inr (Some (Dim_INPUT_TOKENS, True))
       else if provider_request \<and> crs_output_tokens claimed > ctl_max_output_tokens_per_request (cmp_token_limits c)
       then Inr (Some (Dim_OUTPUT_TOKENS, True))
       else case first_exceeded (resources_add (cpj_committed st) (cpj_reserved st)) claimed (campaign_limit c False) of
         Some dimension \<Rightarrow> Inr (Some (dimension, False))
       | None \<Rightarrow>
         (case first_exceeded (resources_add (tpr_committed trial) (tpr_reserved trial)) claimed (campaign_limit c True) of
            Some dimension \<Rightarrow> Inr (Some (dimension, True))
          | None \<Rightarrow> Inr None))"

subsection \<open>Reservations\<close>

definition attempts_for :: "TrialProjection \<Rightarrow> Identifier \<Rightarrow> ProviderAttemptRecord list" where
  "attempts_for ledger request_key = filter (\<lambda>a. par_request_key a = request_key) (tpr_attempts ledger)"

definition check_retry :: "CampaignSpec \<Rightarrow> ProviderReservationBinding \<Rightarrow> CampaignResources \<Rightarrow> ProviderAttemptRecord
    \<Rightarrow> campaign_failure + unit" where
  "check_retry c provider claimed previous =
     (let retry_policy = cmp_retry_policy c; reserved = par_reserved_token_claim previous in
      bind_result (fail_if (rtc_input_tokens reserved \<noteq> crs_input_tokens claimed
          \<or> rtc_output_tokens reserved \<noteq> crs_output_tokens claimed
          \<or> rtc_observed_input_token_floor reserved \<noteq> prb_observed_input_token_floor provider
          \<or> par_security_binding previous \<noteq> prb_security_binding provider) (Accounting Retry_claim)) (\<lambda>_.
      bind_result (fail_if (par_disposition previous \<noteq> Attempt_RETRYABLE_FAILURE) (Accounting Not_retryable)) (\<lambda>_.
      bind_result (fail_if (prb_attempt_number provider > rty_max_request_attempts retry_policy)
          (Accounting Retry_exhausted)) (\<lambda>_.
        fail_if (par_failure_condition previous \<notin> Some ` set (rty_retry_conditions retry_policy))
          (Accounting Failure_not_admitted)))))"

definition check_provider_reservation :: "record_digests \<Rightarrow> CampaignHeader \<Rightarrow> CampaignProjection \<Rightarrow> Identifier
    \<Rightarrow> TrialProjection \<Rightarrow> CampaignResources \<Rightarrow> ProviderReservationBinding \<Rightarrow> campaign_failure + unit" where
  "check_provider_reservation dg h st trial_id ledger claimed provider =
     (let matching = attempts_for ledger (prb_request_key provider) in
      bind_result (fail_if (\<not> request_and_tokens_only claimed) (Accounting Provider_claim_shape)) (\<lambda>_.
      bind_result (find_trial h trial_id) (\<lambda>trial.
      bind_result (fail_if (prb_observed_input_token_floor provider \<ge> crs_input_tokens claimed
          \<or> prb_observed_input_token_floor provider \<noteq> tbd_observed_input_token_floor (sct_binding trial))
          (Accounting Provider_floor)) (\<lambda>_.
      bind_result (campaign_budget_projection dg (chd_campaign h) (chd_schedule h)) (\<lambda>projection.
      bind_result (fail_if (psb_budget_binding_digest (prb_security_binding provider) \<noteq> rcd_projection dg projection)
          (Accounting Provider_floor)) (\<lambda>_.
      bind_result (fail_if (prb_attempt_number provider \<noteq> int (length matching) + 1) (Accounting Retry_ordinal)) (\<lambda>_.
      bind_result (fail_if (list_ex (\<lambda>r. rvl_trial_id r = trial_id
            \<and> (\<exists>p\<in>set_option (rvl_provider r). prb_request_key p = prb_request_key provider))
          (dict_values (cpj_reservations st))) (Accounting Request_active)) (\<lambda>_.
        if matching = [] then Inr () else check_retry (chd_campaign h) provider claimed (last matching)))))))))"

definition apply_reservation_created :: "record_digests \<Rightarrow> CampaignHeader \<Rightarrow> ReservationCreatedPayload
    \<Rightarrow> CampaignProjection \<Rightarrow> campaign_result" where
  "apply_reservation_created dg h p st =
     (let claimed = rvc_claim p; trial_id = rvc_trial_id p in
      bind_result (fail_if (rvc_reservation_id p \<in> set (dict_keys (cpj_reservations st)))
          (Accounting Reservation_exists)) (\<lambda>_.
      bind_result (fail_if (resources_is_zero claimed) (Accounting Claim_empty)) (\<lambda>_.
      bind_result (ready_campaign_projection st trial_id) (\<lambda>ledger.
      bind_result (case rvc_provider p of
          None \<Rightarrow> fail_if (crs_requests claimed \<noteq> 0 \<or> crs_input_tokens claimed \<noteq> 0 \<or> crs_output_tokens claimed \<noteq> 0)
            (Accounting Work_has_provider)
        | Some provider \<Rightarrow> check_provider_reservation dg h st trial_id ledger claimed provider) (\<lambda>_.
      bind_result (reservation_rejection (chd_campaign h) st trial_id claimed (rvc_provider p \<noteq> None)) (\<lambda>rejection.
      bind_result (fail_if (rejection \<noteq> None) (Accounting Hard_budget)) (\<lambda>_.
        Inr (st\<lparr>cpj_reserved := resources_add (cpj_reserved st) claimed,
                cpj_ledgers := dict_set trial_id (ledger\<lparr>tpr_reserved := resources_add (tpr_reserved ledger) claimed\<rparr>)
                  (cpj_ledgers st),
                cpj_reservations := dict_set (rvc_reservation_id p)
                  \<lparr>rvl_trial_id = trial_id, rvl_claim = claimed, rvl_provider = rvc_provider p, rvl_dispatched = False\<rparr>
                  (cpj_reservations st)\<rparr>))))))))"

definition apply_dispatched :: "Identifier \<Rightarrow> CampaignProjection \<Rightarrow> campaign_result" where
  "apply_dispatched reservation_id st =
     bind_result (active_reservation st reservation_id) (\<lambda>r.
     bind_result (fail_if (rvl_dispatched r) (Accounting Already_dispatched)) (\<lambda>_.
       Inr (st\<lparr>cpj_reservations := dict_set reservation_id (r\<lparr>rvl_dispatched := True\<rparr>) (cpj_reservations st)\<rparr>)))"

definition release_reservation :: "Identifier \<Rightarrow> ReservationLedger \<Rightarrow> CampaignProjection \<Rightarrow> campaign_result" where
  "release_reservation reservation_id r st =
     bind_result (trial_ledger st (rvl_trial_id r)) (\<lambda>ledger.
       Inr (st\<lparr>cpj_reserved := resources_subtract (cpj_reserved st) (rvl_claim r),
               cpj_ledgers := dict_set (rvl_trial_id r)
                 (ledger\<lparr>tpr_reserved := resources_subtract (tpr_reserved ledger) (rvl_claim r)\<rparr>) (cpj_ledgers st),
               cpj_reservations := dict_pop reservation_id (cpj_reservations st)\<rparr>))"

definition apply_cancelled :: "Identifier \<Rightarrow> CampaignProjection \<Rightarrow> campaign_result" where
  "apply_cancelled reservation_id st =
     bind_result (active_reservation st reservation_id) (\<lambda>r.
     bind_result (fail_if (rvl_dispatched r) (Accounting Cancel_dispatched)) (\<lambda>_.
     bind_result (case rvl_provider r of
         None \<Rightarrow> Inr st
       | Some provider \<Rightarrow>
           bind_result (trial_ledger st (rvl_trial_id r)) (\<lambda>ledger.
             Inr (st\<lparr>cpj_ledgers := dict_set (rvl_trial_id r) (ledger\<lparr>tpr_cancelled_provider_requests :=
               insert (prb_request_key provider) (tpr_cancelled_provider_requests ledger)\<rparr>) (cpj_ledgers st)\<rparr>))) (\<lambda>st.
       release_reservation reservation_id r st)))"

definition settle_reservation :: "Identifier \<Rightarrow> ReservationLedger \<Rightarrow> CampaignResources \<Rightarrow> CampaignProjection
    \<Rightarrow> campaign_result" where
  "settle_reservation reservation_id r actual st =
     bind_result (trial_ledger st (rvl_trial_id r)) (\<lambda>ledger.
       let exceeds = resources_exceeds actual (rvl_claim r) in
       Inr (st\<lparr>cpj_reserved := resources_subtract (cpj_reserved st) (rvl_claim r),
               cpj_committed := resources_add (cpj_committed st) actual,
               cpj_ledgers := dict_set (rvl_trial_id r)
                 (ledger\<lparr>tpr_reserved := resources_subtract (tpr_reserved ledger) (rvl_claim r),
                         tpr_committed := resources_add (tpr_committed ledger) actual,
                         tpr_accounting_violation := (tpr_accounting_violation ledger \<or> exceeds)\<rparr>) (cpj_ledgers st),
               cpj_budget_violation := (cpj_budget_violation st \<or> exceeds),
               cpj_reservations := dict_pop reservation_id (cpj_reservations st)\<rparr>))"

definition apply_work_settled :: "WorkSettledPayload \<Rightarrow> CampaignProjection \<Rightarrow> campaign_result" where
  "apply_work_settled p st =
     bind_result (active_reservation st (wsp_reservation_id p)) (\<lambda>r.
     bind_result (fail_if (rvl_provider r \<noteq> None) (Accounting Provider_as_work)) (\<lambda>_.
     bind_result (fail_if (\<not> rvl_dispatched r) (Accounting Work_not_dispatched)) (\<lambda>_.
     bind_result (fail_if (crs_requests (wsp_actual p) \<noteq> 0 \<or> crs_input_tokens (wsp_actual p) \<noteq> 0
         \<or> crs_output_tokens (wsp_actual p) \<noteq> 0) (Settlement Settle_provider_resources)) (\<lambda>_.
       settle_reservation (wsp_reservation_id p) r (wsp_actual p) st))))"

definition attempt_differs :: "ProviderAttemptRecord \<Rightarrow> ProviderReservationBinding \<Rightarrow> ReservationLedger \<Rightarrow> TrialBinding \<Rightarrow> bool" where
  "attempt_differs attempt provider r b \<longleftrightarrow>
     par_request_key attempt \<noteq> prb_request_key provider
     \<or> par_attempt_number attempt \<noteq> prb_attempt_number provider
     \<or> par_requested_model attempt \<noteq> tbd_requested_model b
     \<or> par_requested_service_tier attempt \<noteq> tbd_service_tier b
     \<or> rtc_input_tokens (par_reserved_token_claim attempt) \<noteq> crs_input_tokens (rvl_claim r)
     \<or> rtc_output_tokens (par_reserved_token_claim attempt) \<noteq> crs_output_tokens (rvl_claim r)
     \<or> rtc_observed_input_token_floor (par_reserved_token_claim attempt) \<noteq> prb_observed_input_token_floor provider
     \<or> par_security_binding attempt \<noteq> prb_security_binding provider"

definition apply_provider_settlement :: "CampaignHeader \<Rightarrow> ProviderAttemptSettledPayload \<Rightarrow> CampaignProjection
    \<Rightarrow> campaign_result" where
  "apply_provider_settlement h p st =
     bind_result (active_reservation st (pas_reservation_id p)) (\<lambda>r.
     let attempt = pas_attempt p in
     case rvl_provider r of
       None \<Rightarrow> Inl (Settlement Work_as_provider)
     | Some provider \<Rightarrow>
       bind_result (fail_if (\<not> rvl_dispatched r) (Settlement Provider_not_dispatched)) (\<lambda>_.
       bind_result (find_trial h (rvl_trial_id r)) (\<lambda>trial.
       bind_result (fail_if (attempt_differs attempt provider r (sct_binding trial)) (Settlement Attempt_differs)) (\<lambda>_.
       bind_result (fail_if (par_failure_condition attempt \<noteq> None
           \<and> par_failure_condition attempt \<notin> Some ` set (rty_retry_conditions (cmp_retry_policy (chd_campaign h))))
           (Accounting Failure_not_admitted)) (\<lambda>_.
       bind_result (settle_reservation (pas_reservation_id p) r (par_charged_resources attempt) st) (\<lambda>st.
       bind_result (trial_ledger st (rvl_trial_id r)) (\<lambda>ledger.
         let unknown = (par_provider_usage attempt = None) in
         Inr (st\<lparr>cpj_budget_violation := (cpj_budget_violation st \<or> unknown),
                 cpj_ledgers := dict_set (rvl_trial_id r)
                   (ledger\<lparr>tpr_accounting_violation := (tpr_accounting_violation ledger \<or> unknown),
                           tpr_attempts := tpr_attempts ledger @ [attempt]\<rparr>) (cpj_ledgers st)\<rparr>))))))))"

subsection \<open>Outcomes\<close>

definition harness_actors :: "RunBinding \<Rightarrow> HarnessRunActor list" where
  "harness_actors b = List.map_filter (\<lambda>a. case a of Run_Harness x \<Rightarrow> Some x | Run_Human _ \<Rightarrow> None)
     (srb_actors (bnd_session b))"

definition run_binding_differs :: "record_digests \<Rightarrow> CampaignHeader \<Rightarrow> ScheduledTrial \<Rightarrow> RunBinding
    \<Rightarrow> CampaignTrialRunBinding \<Rightarrow> bool" where
  "run_binding_differs dg h trial b campaign \<longleftrightarrow>
     (let binding = sct_binding trial in
      bnd_trial_key b \<noteq> sct_trial_id trial
      \<or> trb_family (bnd_task b) \<noteq> tbd_task_family binding
      \<or> trb_release_digest (bnd_task b) \<noteq> tbd_task_release_digest binding
      \<or> erb_environment_spec_digest (bnd_environment b) \<noteq> tbd_environment_digest binding
      \<or> srb_feedback_policy_digest (bnd_session b) \<noteq> cmp_feedback_policy_digest (chd_campaign h)
      \<or> cam_campaign_digest campaign \<noteq> tbd_campaign_digest binding
      \<or> cam_schedule_digest campaign \<noteq> cdg_schedule (rcd_campaign dg) (chd_schedule h)
      \<or> cam_scheduled_trial_digest campaign \<noteq> rcd_scheduled_trial dg trial
      \<or> cam_paired_seed campaign \<noteq> tbd_paired_seed binding
      \<or> cam_repetition_index campaign \<noteq> tbd_repetition_index binding
      \<or> cam_route_id campaign \<noteq> tbd_route_id binding
      \<or> cam_reasoning_effort campaign \<noteq> tbd_reasoning_effort binding
      \<or> cam_service_tier campaign \<noteq> tbd_service_tier binding)"

definition validate_run_binding :: "record_digests \<Rightarrow> CampaignHeader \<Rightarrow> ScheduledTrial \<Rightarrow> RunBinding option
    \<Rightarrow> campaign_failure + unit" where
  "validate_run_binding dg h trial run_binding =
     (case run_binding of
        None \<Rightarrow> Inl (Outcome_value Binding_missing)
      | Some b \<Rightarrow>
        (case bnd_campaign b of
           None \<Rightarrow> Inl (Outcome_value Campaign_missing)
         | Some campaign \<Rightarrow>
           bind_result (fail_if (run_binding_differs dg h trial b campaign) (Outcome_value Binding_differs)) (\<lambda>_.
             fail_if (case harness_actors b of
                 [x] \<Rightarrow> har_harness_digest x \<noteq> cdg_harness (rcd_campaign dg) (tbd_harness (sct_binding trial))
                   \<or> har_scaffold_digest x \<noteq> mph_scaffold_digest (tbd_harness (sct_binding trial))
                   \<or> har_requested_model_route x \<noteq> tbd_requested_model (sct_binding trial)
               | _ \<Rightarrow> True) (Outcome_value Harness_differs))))"

text \<open>\<open>model_dump()\<close> of the two usage models lists the same five counters.\<close>

definition usage_agrees :: "ProviderUsageFact \<Rightarrow> UsageCounters \<Rightarrow> bool" where
  "usage_agrees f u \<longleftrightarrow> puf_input_tokens f = ucn_input_tokens u \<and> puf_output_tokens f = ucn_output_tokens u
     \<and> puf_total_tokens f = ucn_total_tokens u \<and> puf_cached_input_tokens f = ucn_cached_input_tokens u
     \<and> puf_reasoning_tokens f = ucn_reasoning_tokens u"

definition response_differs :: "ProviderRequestState \<Rightarrow> ProviderAttemptRecord \<Rightarrow> bool" where
  "response_differs request final_attempt \<longleftrightarrow>
     prs_provider_reported_model request \<noteq> par_provider_reported_model final_attempt
     \<or> prs_provider_reported_service_tier request \<noteq> par_provider_reported_service_tier final_attempt
     \<or> prp_requested_service_tier (prs_request request) \<noteq> Some (par_requested_service_tier final_attempt)
     \<or> prs_status request \<noteq> par_provider_response_status final_attempt
     \<or> (prs_usage request = None) \<noteq> (par_provider_usage final_attempt = None)
     \<or> (\<exists>f\<in>set_option (prs_usage request). \<exists>u\<in>set_option (par_provider_usage final_attempt). \<not> usage_agrees f u)"

definition check_attempted_request :: "ProviderRequestState \<Rightarrow> ProviderAttemptRecord \<Rightarrow> campaign_failure + unit" where
  "check_attempted_request request final_attempt =
     (let claimed = par_reserved_token_claim final_attempt; started = prs_request request;
          has_response = (par_disposition final_attempt = Attempt_COMPLETED) in
      bind_result (fail_if (prp_reserved_input_tokens started \<noteq> rtc_input_tokens claimed
          \<or> prp_reserved_output_tokens started \<noteq> rtc_output_tokens claimed
          \<or> prp_observed_input_token_floor started \<noteq> rtc_observed_input_token_floor claimed
          \<or> prp_security_binding started \<noteq> par_security_binding final_attempt) (Outcome_value Request_reservation)) (\<lambda>_.
      bind_result (fail_if (has_response \<noteq> (prs_status request \<noteq> None)) (Outcome_value Request_response)) (\<lambda>_.
      bind_result (fail_if (has_response \<and> response_differs request final_attempt) (Outcome_value Request_response)) (\<lambda>_.
        fail_if (\<not> has_response \<and> (prs_provider_reported_model request \<noteq> None
            \<or> prs_provider_reported_service_tier request \<noteq> None \<or> prs_usage request \<noteq> None))
          (Outcome_value Failed_facts)))))"

definition check_provider_request :: "ScheduledTrial \<Rightarrow> HarnessRunActor \<Rightarrow> TrialProjection \<Rightarrow> ProviderRequestState
    \<Rightarrow> campaign_failure + unit" where
  "check_provider_request trial actor ledger request =
     (let started = prs_request request; expected = tbd_harness (sct_binding trial) in
      bind_result (fail_if (prp_actor_id started \<noteq> har_actor_id actor
          \<or> prp_provider_profile_digest started \<noteq> mph_provider_profile_digest expected
          \<or> prp_provider_config_digest started \<noteq> mph_provider_config_digest expected
          \<or> prp_requested_model started \<noteq> tbd_requested_model (sct_binding trial)
          \<or> prp_requested_service_tier started \<noteq> Some (tbd_service_tier (sct_binding trial)))
          (Outcome_value Request_identity)) (\<lambda>_.
      let attempts = attempts_for ledger (prp_request_id started) in
      if attempts = []
      then fail_if (prp_request_id started \<notin> tpr_cancelled_provider_requests ledger
          \<or> prs_status request \<noteq> None \<or> prs_provider_reported_model request \<noteq> None
          \<or> prs_provider_reported_service_tier request \<noteq> None \<or> prs_usage request \<noteq> None)
          (Outcome_value Cancelled_facts)
      else check_attempted_request request (last attempts)))"

definition validate_provider_requests :: "record_digests \<Rightarrow> CampaignHeader \<Rightarrow> ScheduledTrial \<Rightarrow> TrialRunOutcome
    \<Rightarrow> TrialProjection \<Rightarrow> campaign_failure + unit" where
  "validate_provider_requests dg h trial outcome ledger =
     (let requests = tro_provider_requests outcome;
          attempted = set (map par_request_key (tpr_attempts ledger));
          run_ids = set (map (\<lambda>r. prp_request_id (prs_request r)) requests);
          expected = tbd_harness (sct_binding trial) in
      bind_result (fail_if (requests = []) (Outcome_value Requests_missing)) (\<lambda>_.
      bind_result (fail_if (\<not> attempted \<subseteq> run_ids
          \<or> \<not> run_ids \<subseteq> attempted \<union> tpr_cancelled_provider_requests ledger) (Outcome_value Requests_differ)) (\<lambda>_.
      case tro_run_binding outcome of
        None \<Rightarrow> Inl (Outcome_value Binding_missing)
      | Some b \<Rightarrow>
        (case harness_actors b of
           [actor] \<Rightarrow>
             bind_result (check_each (check_provider_request trial actor ledger) requests) (\<lambda>_.
               fail_if (mph_provider_profile_digest expected
                     \<noteq> cdg_provider_profile (rcd_campaign dg) (rpc_profile (chd_provider_config h))
                   \<or> mph_provider_config_digest expected
                     \<noteq> cdg_provider_config (rcd_campaign dg) (chd_provider_config h)
                   \<or> mph_wire_protocol expected \<noteq> ppf_wire_protocol (rpc_profile (chd_provider_config h)))
                 (Outcome_value Header_identity))
         | _ \<Rightarrow> Inl (Outcome_value One_harness)))))"

definition apply_trial_outcome :: "record_digests \<Rightarrow> CampaignHeader \<Rightarrow> TrialOutcomeRecordedPayload \<Rightarrow> CampaignProjection
    \<Rightarrow> campaign_result" where
  "apply_trial_outcome dg h p st =
     (let outcome = top_outcome p; trial_id = top_trial_id p in
      bind_result (find_trial h trial_id) (\<lambda>trial.
      bind_result (trial_ledger st trial_id) (\<lambda>ledger.
      bind_result (fail_if (tpr_outcome ledger \<noteq> None) (Settlement Outcome_exists)) (\<lambda>_.
      bind_result (fail_if (list_ex (\<lambda>r. rvl_trial_id r = trial_id) (dict_values (cpj_reservations st)))
          (Settlement Outcome_unsettled)) (\<lambda>_.
      case find (\<lambda>t. ctk_task_release_digest t = tbd_task_release_digest (sct_binding trial)) (chd_tasks h) of
        None \<Rightarrow> Inl Campaign_key_error
      | Some task \<Rightarrow>
        bind_result (fail_if (\<not> set (map (\<lambda>r. sgr_stage_id (csr_result r)) (tro_stage_results outcome))
            \<subseteq> set (ctk_evaluator_stage_ids task)) (Outcome_value Undeclared_stage)) (\<lambda>_.
        bind_result (case tro_run_id outcome of
            None \<Rightarrow> Inr st
          | Some run_id \<Rightarrow>
            bind_result (fail_if (run_id \<in> cpj_run_ids st) (Outcome_value Run_id_reused)) (\<lambda>_.
            bind_result (validate_run_binding dg h trial (tro_run_binding outcome)) (\<lambda>_.
            bind_result (validate_provider_requests dg h trial outcome ledger) (\<lambda>_.
              Inr (st\<lparr>cpj_run_ids := insert run_id (cpj_run_ids st)\<rparr>))))) (\<lambda>st.
        bind_result (if tro_disposition outcome = Trial_NOT_DISPATCHED
            then bind_result (CampaignResources_validate (tpr_committed ledger)) (\<lambda>committed.
              fail_if (\<not> resources_is_zero committed \<or> tpr_attempts ledger \<noteq> []) (Outcome_value Was_dispatched))
            else Inr ()) (\<lambda>_.
          Inr (st\<lparr>cpj_ledgers := dict_set trial_id (ledger\<lparr>tpr_outcome := Some outcome\<rparr>) (cpj_ledgers st)\<rparr>)))))))))"

definition apply_budget_stopped :: "CampaignHeader \<Rightarrow> BudgetStoppedPayload \<Rightarrow> CampaignProjection \<Rightarrow> campaign_result" where
  "apply_budget_stopped h p st =
     bind_result (reservation_rejection (chd_campaign h) st (bsp_trial_id p) (bsp_rejected_claim p)
         (crs_requests (bsp_rejected_claim p) \<noteq> 0)) (\<lambda>expected.
     bind_result (fail_if (expected \<noteq> Some (bsp_dimension p, bsp_per_trial p)) (Settlement Stop_unmatched)) (\<lambda>_.
       if bsp_per_trial p
       then Inr (st\<lparr>cpj_trial_stop_dimensions := dict_set (bsp_trial_id p) (bsp_dimension p)
              (cpj_trial_stop_dimensions st)\<rparr>)
       else Inr (st\<lparr>cpj_global_stop_dimension := Some (bsp_dimension p)\<rparr>)))"

subsection \<open>The replay\<close>

definition apply_campaign_event :: "record_digests \<Rightarrow> CampaignHeader \<Rightarrow> CampaignProjection \<Rightarrow> CampaignEvent
    \<Rightarrow> campaign_result" where
  "apply_campaign_event dg h st e =
     (case cev_payload e of
        ReservationCreated p \<Rightarrow> apply_reservation_created dg h p st
      | ReservationDispatched i \<Rightarrow> apply_dispatched i st
      | ReservationCancelled i \<Rightarrow> apply_cancelled i st
      | WorkSettled p \<Rightarrow> apply_work_settled p st
      | ProviderAttemptSettled p \<Rightarrow> apply_provider_settlement h p st
      | TrialOutcomeRecorded p \<Rightarrow> apply_trial_outcome dg h p st
      | BudgetStopped p \<Rightarrow> apply_budget_stopped h p st)"

definition campaign_replay :: "record_digests \<Rightarrow> CampaignHeader \<Rightarrow> CampaignEvent list \<Rightarrow> campaign_result" where
  "campaign_replay dg h events = fold_result (apply_campaign_event dg h) (campaign_projection_init h) events"

record CampaignCommit =
  ccm_previous_record_digest :: Digest
  ccm_events :: "CampaignEvent list"
  ccm_record_digest :: Digest

record CampaignRecord =
  crc_header :: CampaignHeader
  crc_commits :: "CampaignCommit list"

type_synonym commit_digest = "Digest \<Rightarrow> CampaignEvent list \<Rightarrow> Digest"

definition CampaignCommit_validate :: "commit_digest \<Rightarrow> CampaignCommit \<Rightarrow> campaign_failure + CampaignCommit" where
  "CampaignCommit_validate digest c =
     (if ccm_events c = [] then Inl (Chain_value Commit_empty)
      else if ccm_record_digest c \<noteq> digest (ccm_previous_record_digest c) (ccm_events c)
      then Inl (Chain_value Commit_digest)
      else Inr c)"

definition campaign_commit_from_events :: "commit_digest \<Rightarrow> Digest \<Rightarrow> CampaignEvent list
    \<Rightarrow> campaign_failure + CampaignCommit" where
  "campaign_commit_from_events digest previous events = CampaignCommit_validate digest
     \<lparr>ccm_previous_record_digest = previous, ccm_events = events, ccm_record_digest = digest previous events\<rparr>"

definition campaign_record_events :: "CampaignRecord \<Rightarrow> CampaignEvent list" where
  "campaign_record_events r = concat (map ccm_events (crc_commits r))"

record chain_position =
  chp_digest :: Digest
  chp_sequence :: int
  chp_event_ids :: "string set"

definition chain_campaign_event :: "chain_position \<Rightarrow> CampaignEvent \<Rightarrow> campaign_failure + chain_position" where
  "chain_campaign_event pos e =
     (if cev_sequence e \<noteq> chp_sequence pos then Inl (Chain_value Sequence_gap)
      else if cev_event_id e \<in> chp_event_ids pos then Inl (Chain_value Event_id_repeated)
      else Inr (pos\<lparr>chp_event_ids := insert (cev_event_id e) (chp_event_ids pos),
                    chp_sequence := chp_sequence pos + 1\<rparr>))"

definition chain_campaign_commit :: "chain_position \<Rightarrow> CampaignCommit \<Rightarrow> campaign_failure + chain_position" where
  "chain_campaign_commit pos c =
     (if ccm_previous_record_digest c \<noteq> chp_digest pos then Inl (Chain_value Chain_broken)
      else bind_result (fold_result chain_campaign_event pos (ccm_events c)) (\<lambda>pos.
        Inr (pos\<lparr>chp_digest := ccm_record_digest c\<rparr>)))"

definition CampaignRecord_validate :: "record_digests \<Rightarrow> commit_digest \<Rightarrow> CampaignRecord
    \<Rightarrow> campaign_failure + CampaignRecord" where
  "CampaignRecord_validate dg digest r =
     bind_result (map_result (CampaignCommit_validate digest) (crc_commits r)) (\<lambda>_.
     bind_result (fold_result chain_campaign_commit
         \<lparr>chp_digest = rcd_header dg (crc_header r), chp_sequence = 0, chp_event_ids = {}\<rparr> (crc_commits r)) (\<lambda>_.
       Inr r))"

definition campaign_integrity_digest :: "record_digests \<Rightarrow> CampaignRecord \<Rightarrow> Digest" where
  "campaign_integrity_digest dg r =
     (if crc_commits r = [] then rcd_header dg (crc_header r) else ccm_record_digest (last (crc_commits r)))"

definition replay_campaign_record :: "record_digests \<Rightarrow> CampaignRecord \<Rightarrow> campaign_result" where
  "replay_campaign_record dg r = campaign_replay dg (crc_header r) (campaign_record_events r)"

end
