(* ===== verification/CampaignJournal.thy ===== *)
theory CampaignJournal
  imports CampaignReplay JournalStore
begin

section \<open>The campaign journal\<close>

text \<open>
  The model of \<open>providers/campaign_journal.py\<close>: the decoder of the durable prefix, \<open>record\<close>, \<open>transact\<close>,
  \<open>create\<close> and \<open>open\<close>. The state of one journal is the byte content of \<open>events.jsonl\<close>; an operation under
  the exclusive file lock returns its result together with the new content. The factory of a
  transaction may raise any exception of its caller, which is the type parameter of the failures,
  and hands values back through its closure, which is the second component of its result. The
  canonical encoder and the JSON parser are parameters, permissions and \<open>fsync\<close> are not modelled.
\<close>

subsection \<open>Failures and codecs\<close>

datatype transaction_fault = Transaction_empty | Positions_not_owned | Identifier_owned

datatype 'e journal_failure = Raised 'e | Journal_decode decode_fault | Journal_header header_fault
  | Journal_header_conflict | Journal_record campaign_failure | Journal_transaction transaction_fault

definition lift_record :: "campaign_failure + 'a \<Rightarrow> 'e journal_failure + 'a" where
  "lift_record m = (case m of Inl e \<Rightarrow> Inl (Journal_record e) | Inr x \<Rightarrow> Inr x)"

lemma lift_record_simps [simp]:
  "lift_record (Inr x) = Inr x" "lift_record (Inl e) = Inl (Journal_record e)" "lift_record m = Inr x \<longleftrightarrow> m = Inr x"
  by (cases m, auto simp: lift_record_def)+

record campaign_codec =
  cgc_commit :: "CampaignCommit \<Rightarrow> string"
  cgc_parse :: "string \<Rightarrow> CampaignCommit option"

record campaign_header_codec =
  chc_encode :: "CampaignHeader \<Rightarrow> string"
  chc_parse :: "string \<Rightarrow> CampaignHeader option"

subsection \<open>Decoding\<close>

text \<open>\<open>CampaignCommit.model_validate_json\<close> validates every event before the commit itself.\<close>

definition campaign_commit_parsed :: "record_digests \<Rightarrow> commit_digest \<Rightarrow> CampaignCommit \<Rightarrow> campaign_failure + CampaignCommit" where
  "campaign_commit_parsed dg digest raw =
     bind_result (map_result (CampaignEvent_validate dg) (ccm_events raw)) (\<lambda>events.
       CampaignCommit_validate digest (raw\<lparr>ccm_events := events\<rparr>))"

definition decode_campaign_commit :: "record_digests \<Rightarrow> commit_digest \<Rightarrow> campaign_codec \<Rightarrow> Digest \<times> CampaignCommit list
    \<Rightarrow> string \<Rightarrow> 'e journal_failure + Digest \<times> CampaignCommit list" where
  "decode_campaign_commit dg digest codec st line =
     (case st of (head_digest, commits) \<Rightarrow>
      if line = [] then Inl (Journal_decode Empty_record)
      else case cgc_parse codec line of
        None \<Rightarrow> Inl (Journal_decode Invalid_record)
      | Some raw \<Rightarrow>
        (case campaign_commit_parsed dg digest raw of
           Inl _ \<Rightarrow> Inl (Journal_decode Invalid_record)
         | Inr commit \<Rightarrow>
             if cgc_commit codec commit \<noteq> line then Inl (Journal_decode Not_canonical)
             else if ccm_previous_record_digest commit \<noteq> head_digest then Inl (Journal_decode Chain_discontinuous)
             else Inr (ccm_record_digest commit, commits @ [commit])))"

definition campaign_decode_durable_prefix :: "record_digests \<Rightarrow> commit_digest \<Rightarrow> campaign_codec \<Rightarrow> CampaignHeader \<Rightarrow> string
    \<Rightarrow> 'e journal_failure + nat \<times> Digest \<times> CampaignCommit list" where
  "campaign_decode_durable_prefix dg digest codec header data =
     (if data = [] then Inr (0, rcd_header dg header, [])
      else
        bind_result (fold_result (decode_campaign_commit dg digest codec) (rcd_header dg header, [])
            (splitlines (take (durable_length data) data))) (\<lambda>(head_digest, commits).
        bind_result (lift_record (CampaignRecord_validate dg digest \<lparr>crc_header = header, crc_commits = commits\<rparr>)) (\<lambda>_.
          Inr (durable_length data, head_digest, commits))))"

definition campaign_journal_record :: "record_digests \<Rightarrow> commit_digest \<Rightarrow> campaign_codec \<Rightarrow> CampaignHeader \<Rightarrow> string
    \<Rightarrow> 'e journal_failure + CampaignRecord" where
  "campaign_journal_record dg digest codec header data =
     bind_result (campaign_decode_durable_prefix dg digest codec header data) (\<lambda>(_, _, commits).
       lift_record (CampaignRecord_validate dg digest \<lparr>crc_header = header, crc_commits = commits\<rparr>))"

subsection \<open>Transactions\<close>

definition campaign_positions_owned :: "nat \<Rightarrow> CampaignEvent list \<Rightarrow> bool" where
  "campaign_positions_owned start events \<longleftrightarrow>
     list_all (\<lambda>(offset, e). cev_sequence e = int (start + offset)) (enumerate 0 events)"

text \<open>
  The part of \<open>transact\<close> between reading and writing: it computes the record to write from the durable
  one, or raises.
\<close>

definition extend_record :: "record_digests \<Rightarrow> commit_digest \<Rightarrow> (CampaignRecord \<Rightarrow> 'e journal_failure + CampaignEvent list \<times> 'r)
    \<Rightarrow> Digest \<Rightarrow> CampaignRecord \<Rightarrow> 'e journal_failure + (CampaignCommit \<times> CampaignRecord) \<times> 'r" where
  "extend_record dg digest factory head_digest record =
     bind_result (factory record) (\<lambda>(requested, result).
       let requested_ids = map cev_event_id requested;
           committed_ids = set (map cev_event_id (campaign_record_events record)) in
       if requested = [] then Inl (Journal_transaction Transaction_empty)
       else if \<not> campaign_positions_owned (length (campaign_record_events record)) requested
       then Inl (Journal_transaction Positions_not_owned)
       else if \<not> distinct requested_ids \<or> committed_ids \<inter> set requested_ids \<noteq> {}
       then Inl (Journal_transaction Identifier_owned)
       else
         bind_result (lift_record (campaign_commit_from_events digest head_digest requested)) (\<lambda>commit.
         let prospective = record\<lparr>crc_commits := crc_commits record @ [commit]\<rparr> in
         bind_result (lift_record (CampaignRecord_validate dg digest prospective)) (\<lambda>_.
         bind_result (lift_record (replay_campaign_record dg prospective)) (\<lambda>_.
           Inr ((commit, prospective), result)))))"

definition campaign_transact :: "record_digests \<Rightarrow> commit_digest \<Rightarrow> campaign_codec \<Rightarrow> CampaignHeader
    \<Rightarrow> (CampaignRecord \<Rightarrow> 'e journal_failure + CampaignEvent list \<times> 'r) \<Rightarrow> string
    \<Rightarrow> ('e journal_failure + CampaignRecord \<times> 'r) \<times> string" where
  "campaign_transact dg digest codec header factory data =
     (case campaign_decode_durable_prefix dg digest codec header data of
        Inl e \<Rightarrow> (Inl e, data)
      | Inr (n, head_digest, commits) \<Rightarrow>
          let durable = take n data in
          (case bind_result (lift_record (CampaignRecord_validate dg digest \<lparr>crc_header = header, crc_commits = commits\<rparr>))
                  (extend_record dg digest factory head_digest) of
             Inl e \<Rightarrow> (Inl e, durable)
           | Inr ((commit, prospective), result) \<Rightarrow>
               (Inr (prospective, result), durable @ cgc_commit codec commit @ [LF])))"

text \<open>
  The contract of a transaction on the level of records, which the runner is a client of: the head
  digest is the integrity digest of the record, and a failure leaves the record as it is.
\<close>

definition record_transact :: "record_digests \<Rightarrow> commit_digest \<Rightarrow> (CampaignRecord \<Rightarrow> 'e journal_failure + CampaignEvent list \<times> 'r)
    \<Rightarrow> CampaignRecord \<Rightarrow> 'e journal_failure + CampaignRecord \<times> 'r" where
  "record_transact dg digest factory record =
     bind_result (extend_record dg digest factory (campaign_integrity_digest dg record) record) (\<lambda>((_, prospective), result).
       Inr (prospective, result))"

subsection \<open>Creating and opening\<close>

text \<open>
  A state root maps directory names to the contents of \<open>campaign.json\<close> and \<open>events.jsonl\<close>; a new
  directory appears by one rename under the creation lock. The validation of the parsed header runs
  the validators of its parts first; the validator of the provider configuration is part of the
  parameter \<open>chc_parse\<close>.
\<close>

definition campaign_header_parsed :: "campaign_digests \<Rightarrow> CampaignHeader \<Rightarrow> CampaignHeader option" where
  "campaign_header_parsed dg raw =
     (case (CampaignSpec_validate (chd_campaign raw), ModelSetManifest_validate (chd_model_set raw),
            map_result CampaignTask_validate (chd_tasks raw),
            map_result (\<lambda>t. bind_result (TrialBinding_validate (sct_binding t)) (\<lambda>b.
              ScheduledTrial_validate dg (t\<lparr>sct_binding := b\<rparr>))) (csc_trials (chd_schedule raw))) of
        (Inr campaign, Inr model_set, Inr tasks, Inr trials) \<Rightarrow>
          (case CampaignSchedule_validate ((chd_schedule raw)\<lparr>csc_trials := trials\<rparr>) of
             Inl _ \<Rightarrow> None
           | Inr schedule \<Rightarrow>
             (case CampaignHeader_validate dg (raw\<lparr>chd_campaign := campaign, chd_model_set := model_set,
                     chd_tasks := tasks, chd_schedule := schedule\<rparr>) of
                Inl _ \<Rightarrow> None | Inr header \<Rightarrow> Some header))
      | _ \<Rightarrow> None)"

definition campaign_journal_open :: "record_digests \<Rightarrow> campaign_header_codec \<Rightarrow> string \<Rightarrow> (string, string \<times> string) dict
    \<Rightarrow> 'e journal_failure + CampaignHeader" where
  "campaign_journal_open dg codec name store =
     (case dict_get store name of
        None \<Rightarrow> Inl (Journal_header Run_directory_missing)
      | Some (content, _) \<Rightarrow>
        if 16 * 1024 * 1024 < int (length content) then Inl (Journal_header Header_too_large)
        else case Option.bind (chc_parse codec content) (campaign_header_parsed (rcd_campaign dg)) of
          None \<Rightarrow> Inl (Journal_header Header_invalid)
        | Some header \<Rightarrow>
            if content \<noteq> chc_encode codec header @ [LF] then Inl (Journal_header Header_not_canonical)
            else if name \<noteq> directory_name (rcd_header dg header) then Inl (Journal_header Directory_name_differs)
            else Inr header)"

definition campaign_journal_create :: "record_digests \<Rightarrow> campaign_header_codec \<Rightarrow> CampaignHeader \<Rightarrow> (string, string \<times> string) dict
    \<Rightarrow> ('e journal_failure + CampaignHeader) \<times> (string, string \<times> string) dict" where
  "campaign_journal_create dg codec header store =
     (let name = directory_name (rcd_header dg header) in
      if name \<in> set (dict_keys store)
      then (bind_result (campaign_journal_open dg codec name store) (\<lambda>existing.
              if existing \<noteq> header then Inl Journal_header_conflict else Inr existing), store)
      else
        let store' = dict_set name (chc_encode codec header @ [LF], []) store in
        (campaign_journal_open dg codec name store', store'))"

end
