(* ===== verification/CampaignReport.thy ===== *)
theory CampaignReport
  imports CampaignReplay Scoring
begin

section \<open>Campaign reports\<close>

text \<open>
  The model of \<open>providers/campaign_reporting.py\<close> and of the report models of
  \<open>providers/campaign_runner.py\<close>: ratios, token and service-tier accounting, spend, the aggregates
  over tasks, devices, routes, efforts and categories, success at k, the evaluator funnel, and the
  report with the validator that derives it again. The five fields that all aggregate classes share
  are the record \<open>GroupTotals\<close>. Counts are kept as integers with the bounds of the portable range;
  labels are the strings that the validated attempts carry.
\<close>

subsection \<open>Groups and counters\<close>

text \<open>The loops \<open>groups[key(x)].append(x)\<close> and \<open>Counter\<close>, both in order of first occurrence.\<close>

definition group_by :: "('a \<Rightarrow> 'k) \<Rightarrow> 'a list \<Rightarrow> ('k, 'a list) dict" where
  "group_by key xs = fold (\<lambda>x d. dict_set (key x) (case dict_get d (key x) of None \<Rightarrow> [x] | Some g \<Rightarrow> g @ [x]) d) xs []"

definition counter :: "'a list \<Rightarrow> ('a, int) dict" where
  "counter xs = fold (\<lambda>x d. dict_set x (case dict_get d x of None \<Rightarrow> 1 | Some n \<Rightarrow> n + 1) d) xs []"

definition sorted_items :: "('k, 'v) dict \<Rightarrow> ('k :: linorder \<times> 'v) list" where
  "sorted_items d = sort_key fst d"

subsection \<open>Enumeration values\<close>

fun stop_reason_value :: "StopReason \<Rightarrow> string" where
  "stop_reason_value Stop_VERIFIER_SUCCESS = ''verifier_success''"
| "stop_reason_value Stop_WALL_BUDGET = ''wall_budget''"
| "stop_reason_value Stop_EDA_COMPUTE_BUDGET = ''eda_compute_budget''"
| "stop_reason_value Stop_EXPERIMENT_BUDGET = ''experiment_budget''"
| "stop_reason_value Stop_INTERACTION_BUDGET = ''interaction_budget''"
| "stop_reason_value Stop_TOOL_CALL_BUDGET = ''tool_call_budget''"
| "stop_reason_value Stop_TOKEN_BUDGET = ''token_budget''"
| "stop_reason_value Stop_LICENSE_BUDGET = ''license_budget''"
| "stop_reason_value Stop_STORAGE_BUDGET = ''storage_budget''"
| "stop_reason_value Stop_PROVIDER_BUDGET_OVERRUN = ''provider_budget_overrun''"
| "stop_reason_value Stop_EXPLICIT_CANCEL = ''explicit_cancel''"
| "stop_reason_value Stop_POLICY_FAILURE = ''policy_failure''"
| "stop_reason_value Stop_SECURITY_FAILURE = ''security_failure''"
| "stop_reason_value Stop_INFRASTRUCTURE_FAILURE = ''infrastructure_failure''"
| "stop_reason_value Stop_UNRANKABLE = ''unrankable''"

fun outcome_kind_value :: "OutcomeKind \<Rightarrow> string" where
  "outcome_kind_value Outcome_PASSED = ''passed''"
| "outcome_kind_value Outcome_PROVED = ''proved''"
| "outcome_kind_value Outcome_COUNTEREXAMPLE = ''counterexample''"
| "outcome_kind_value Outcome_CANDIDATE_FAILURE = ''candidate_failure''"
| "outcome_kind_value Outcome_UNKNOWN = ''unknown''"
| "outcome_kind_value Outcome_TIMEOUT = ''timeout''"
| "outcome_kind_value Outcome_INFRASTRUCTURE_FAILURE = ''infrastructure_failure''"
| "outcome_kind_value Outcome_LICENSE_UNAVAILABLE = ''license_unavailable''"
| "outcome_kind_value Outcome_SECURITY_VIOLATION = ''security_violation''"

subsection \<open>Failures\<close>

datatype (plugins only: code size) report_fault = Ratio_domain | Ratio_exceeds | Tier_count | Tier_duplicate | Tier_mixed | Tokens_domain
  | Retries_exceed | Unknown_exceeds | Spend_domain | Count_domain | Attempt_order | Attempt_count | Attempt_tokens
  | Undispatched_usage | Profile_digest | Harness_identity | Task_order | Task_order_gap | Schedule_digest
  | Report_ordinals | Report_campaign | Overall_success | Report_resources | Report_tokens | Report_tiers
  | Report_reasons | Report_spend | Report_violation | Report_empty | Aggregate_domain

datatype report_error = Report_replay campaign_failure | Dispatch_unsettled | Outcome_missing
  | Report_value report_fault | Report_schedule schedule_error | Report_key_error

definition report_if :: "bool \<Rightarrow> report_fault \<Rightarrow> report_error + unit" where
  "report_if b e = (if b then Inl (Report_value e) else Inr ())"

lemma report_if_Inr [simp]: "report_if b e = Inr u \<longleftrightarrow> \<not> b"
  by (simp add: report_if_def)

definition lift_campaign :: "campaign_failure + 'a \<Rightarrow> report_error + 'a" where
  "lift_campaign m = (case m of Inl e \<Rightarrow> Inl (Report_replay e) | Inr x \<Rightarrow> Inr x)"

lemma lift_campaign_Inr [simp]: "lift_campaign m = Inr x \<longleftrightarrow> m = Inr x"
  by (cases m) (simp_all add: lift_campaign_def)

subsection \<open>Ratios, tokens and tiers\<close>

record CountRatio =
  crt_numerator :: int
  crt_denominator :: int

definition CountRatio_new :: "int \<Rightarrow> int \<Rightarrow> report_error + CountRatio" where
  "CountRatio_new numerator denominator =
     bind_result (report_if (\<not> (jcs_nonnegative_ok numerator \<and> jcs_nonnegative_ok denominator)) Ratio_domain) (\<lambda>_.
     bind_result (report_if (numerator > denominator) Ratio_exceeds) (\<lambda>_.
       Inr \<lparr>crt_numerator = numerator, crt_denominator = denominator\<rparr>))"

record TokenAccounting =
  tka_request_attempts :: int
  tka_retry_attempts :: int
  tka_charged_input_tokens :: int
  tka_charged_output_tokens :: int
  tka_provider_input_tokens :: int
  tka_provider_output_tokens :: int
  tka_unknown_usage_attempts :: int
  tka_cached_input_tokens :: int
  tka_unknown_cached_usage_attempts :: int
  tka_reasoning_tokens :: int
  tka_unknown_reasoning_usage_attempts :: int

definition token_fields :: "(TokenAccounting \<Rightarrow> int) list" where
  "token_fields = [tka_request_attempts, tka_retry_attempts, tka_charged_input_tokens, tka_charged_output_tokens,
     tka_provider_input_tokens, tka_provider_output_tokens, tka_unknown_usage_attempts, tka_cached_input_tokens,
     tka_unknown_cached_usage_attempts, tka_reasoning_tokens, tka_unknown_reasoning_usage_attempts]"

definition TokenAccounting_validate :: "TokenAccounting \<Rightarrow> report_error + TokenAccounting" where
  "TokenAccounting_validate t =
     bind_result (report_if (\<not> list_all (\<lambda>f. jcs_nonnegative_ok (f t)) token_fields) Tokens_domain) (\<lambda>_.
     bind_result (report_if (tka_retry_attempts t > tka_request_attempts t) Retries_exceed) (\<lambda>_.
     bind_result (report_if (tka_unknown_usage_attempts t > tka_request_attempts t
         \<or> tka_unknown_cached_usage_attempts t > tka_request_attempts t
         \<or> tka_unknown_reasoning_usage_attempts t > tka_request_attempts t) Unknown_exceeds) (\<lambda>_.
       Inr t)))"

definition token_totals :: "ProviderAttemptRecord list \<Rightarrow> TokenAccounting" where
  "token_totals attempts =
     (let usage = map par_provider_usage attempts; known = List.map_filter id usage in
      \<lparr>tka_request_attempts = int (length attempts),
       tka_retry_attempts = int (length (filter (\<lambda>a. par_attempt_number a > 1) attempts)),
       tka_charged_input_tokens = (\<Sum>a\<leftarrow>attempts. crs_input_tokens (par_charged_resources a)),
       tka_charged_output_tokens = (\<Sum>a\<leftarrow>attempts. crs_output_tokens (par_charged_resources a)),
       tka_provider_input_tokens = (\<Sum>u\<leftarrow>known. ucn_input_tokens u),
       tka_provider_output_tokens = (\<Sum>u\<leftarrow>known. ucn_output_tokens u),
       tka_unknown_usage_attempts = int (length (filter (\<lambda>u. u = None) usage)),
       tka_cached_input_tokens = sum_list (List.map_filter ucn_cached_input_tokens known),
       tka_unknown_cached_usage_attempts =
         int (length (filter (\<lambda>u. u = None \<or> (\<exists>x\<in>set_option u. ucn_cached_input_tokens x = None)) usage)),
       tka_reasoning_tokens = sum_list (List.map_filter ucn_reasoning_tokens known),
       tka_unknown_reasoning_usage_attempts =
         int (length (filter (\<lambda>u. u = None \<or> (\<exists>x\<in>set_option u. ucn_reasoning_tokens x = None)) usage))\<rparr>)"

definition token_accounting :: "ProviderAttemptRecord list \<Rightarrow> report_error + TokenAccounting" where
  "token_accounting attempts = TokenAccounting_validate (token_totals attempts)"

record ServiceTierAccounting =
  sta_requested_service_tier :: string
  sta_provider_reported_service_tiers :: "(string \<times> int) list"
  sta_unknown_attempts :: int
  sta_reported_tier_mismatches :: CountRatio

definition ServiceTierAccounting_new :: "string \<Rightarrow> (string \<times> int) list \<Rightarrow> int \<Rightarrow> CountRatio
    \<Rightarrow> report_error + ServiceTierAccounting" where
  "ServiceTierAccounting_new requested counts unknown mismatches =
     bind_result (report_if (\<not> list_all (\<lambda>(_, n). jcs_positive_ok n) counts) Tier_count) (\<lambda>_.
     bind_result (report_if (\<not> jcs_nonnegative_ok unknown) Tier_count) (\<lambda>_.
     bind_result (report_if (\<not> distinct (map fst counts)) Tier_duplicate) (\<lambda>_.
       Inr \<lparr>sta_requested_service_tier = requested, sta_provider_reported_service_tiers = sort_key fst counts,
            sta_unknown_attempts = unknown, sta_reported_tier_mismatches = mismatches\<rparr>)))"

definition service_tier_accounting :: "ProviderAttemptRecord list \<Rightarrow> string \<Rightarrow> report_error + ServiceTierAccounting" where
  "service_tier_accounting attempts requested =
     bind_result (report_if (list_ex (\<lambda>a. par_requested_service_tier a \<noteq> requested) attempts) Tier_mixed) (\<lambda>_.
     let reported = counter (List.map_filter par_provider_reported_service_tier attempts);
         known = sum_list (dict_values reported);
         mismatches = (\<Sum>(tier, n)\<leftarrow>filter (\<lambda>(tier, n). tier \<noteq> requested) reported. n)
     in bind_result (CountRatio_new mismatches known) (\<lambda>ratio.
          ServiceTierAccounting_new requested (sorted_items reported) (int (length attempts) - known) ratio))"

subsection \<open>Trial reports\<close>

record TrialReport =
  trp_trial :: ScheduledTrial
  trp_outcome :: TrialRunOutcome
  trp_resources :: CampaignResources
  trp_token_accounting :: TokenAccounting
  trp_provider_attempts :: "ProviderAttemptRecord list"
  trp_accounting_violation :: bool

definition trial_success :: "TrialReport \<Rightarrow> bool" where
  "trial_success r \<longleftrightarrow> tro_terminal_reason (trp_outcome r) = Stop_VERIFIER_SUCCESS"

definition TrialReport_validate :: "TrialReport \<Rightarrow> report_error + TrialReport" where
  "TrialReport_validate r =
     (let attempts = trp_provider_attempts r; by_request = group_by par_request_key attempts;
          resources = trp_resources r; tokens = trp_token_accounting r in
      bind_result (report_if (list_ex (\<lambda>g. map par_attempt_number g \<noteq> map int [1..<Suc (length g)])
          (dict_values by_request)) Attempt_order) (\<lambda>_.
      bind_result (report_if (tka_request_attempts tokens \<noteq> int (length attempts)) Attempt_count) (\<lambda>_.
      bind_result (report_if (crs_requests resources \<noteq> int (length attempts)) Attempt_count) (\<lambda>_.
      bind_result (token_accounting attempts) (\<lambda>derived.
      bind_result (report_if (tokens \<noteq> derived) Attempt_tokens) (\<lambda>_.
      bind_result (report_if (crs_input_tokens resources \<noteq> tka_charged_input_tokens tokens
          \<or> crs_output_tokens resources \<noteq> tka_charged_output_tokens tokens) Attempt_tokens) (\<lambda>_.
      bind_result (report_if (tro_disposition (trp_outcome r) = Trial_NOT_DISPATCHED
          \<and> (\<not> resources_is_zero resources \<or> attempts \<noteq> [])) Undispatched_usage) (\<lambda>_.
        Inr r))))))))"

subsection \<open>Totals of a group of trials\<close>

definition success_ratio :: "TrialReport list \<Rightarrow> report_error + CountRatio" where
  "success_ratio reports = CountRatio_new (int (length (filter trial_success reports))) (int (length reports))"

definition all_attempts :: "TrialReport list \<Rightarrow> ProviderAttemptRecord list" where
  "all_attempts reports = concat (map trp_provider_attempts reports)"

definition aggregate_resources :: "TrialReport list \<Rightarrow> report_error + CampaignResources" where
  "aggregate_resources reports =
     lift_campaign (CampaignResources_validate (fold (\<lambda>r totals. resources_add totals (trp_resources r)) reports resources_zero))"

definition terminal_reason_counts :: "TrialReport list \<Rightarrow> report_error + (StopReason \<times> int) list" where
  "terminal_reason_counts reports =
     (let counts = sort_key (\<lambda>(reason, n). stop_reason_value reason)
            (counter (map (\<lambda>r. tro_terminal_reason (trp_outcome r)) reports))
      in bind_result (report_if (\<not> list_all (\<lambda>(_, n). jcs_positive_ok n) counts) Count_domain) (\<lambda>_. Inr counts))"

record SpendSummary =
  sps_known_totals :: "(string \<times> CanonicalDecimal) list"
  sps_unknown_trial_count :: int

text \<open>Addition of decimals in the default context: the exact sum, rounded to 28 significant digits.\<close>

definition decimal_add :: "CanonicalDecimal \<Rightarrow> CanonicalDecimal \<Rightarrow> CanonicalDecimal" where
  "decimal_add x y = rounded_fraction (x + y) 28"

definition add_spend :: "TrialReport \<Rightarrow> (string, CanonicalDecimal) dict \<times> int \<Rightarrow> (string, CanonicalDecimal) dict \<times> int" where
  "add_spend r acc =
     (case tro_provider_spend (trp_outcome r) of
        Spend_Known k \<Rightarrow>
          (dict_set (ksp_currency k)
             (decimal_add (case dict_get (fst acc) (ksp_currency k) of None \<Rightarrow> 0 | Some x \<Rightarrow> x) (ksp_amount k)) (fst acc),
           snd acc)
      | Spend_Unobserved _ \<Rightarrow> (fst acc, snd acc + 1))"

definition CurrencyTotal_ok :: "string \<times> CanonicalDecimal \<Rightarrow> bool" where
  "CurrencyTotal_ok t \<longleftrightarrow> KnownSpend_ok \<lparr>ksp_currency = fst t, ksp_amount = snd t\<rparr>"

definition spend_summary :: "TrialReport list \<Rightarrow> report_error + SpendSummary" where
  "spend_summary reports =
     (let (totals, unknown) = fold add_spend reports ([], 0) in
      bind_result (report_if (\<not> list_all CurrencyTotal_ok totals \<or> \<not> jcs_nonnegative_ok unknown) Spend_domain) (\<lambda>_.
        Inr \<lparr>sps_known_totals = sorted_items totals, sps_unknown_trial_count = unknown\<rparr>))"

record GroupTotals =
  gtt_success :: CountRatio
  gtt_resources :: CampaignResources
  gtt_token_accounting :: TokenAccounting
  gtt_terminal_reasons :: "(StopReason \<times> int) list"
  gtt_spend :: SpendSummary

definition group_totals :: "TrialReport list \<Rightarrow> report_error + GroupTotals" where
  "group_totals reports =
     bind_result (success_ratio reports) (\<lambda>success.
     bind_result (aggregate_resources reports) (\<lambda>resources.
     bind_result (token_accounting (all_attempts reports)) (\<lambda>tokens.
     bind_result (terminal_reason_counts reports) (\<lambda>reasons.
     bind_result (spend_summary reports) (\<lambda>spend.
       Inr \<lparr>gtt_success = success, gtt_resources = resources, gtt_token_accounting = tokens,
            gtt_terminal_reasons = reasons, gtt_spend = spend\<rparr>)))))"

subsection \<open>Aggregates\<close>

record TaskAggregate =
  tag_task_release_digest :: Digest
  tag_task_family :: Identifier
  tag_task_role :: CampaignTaskRole
  tag_totals :: GroupTotals

record DeviceAggregate =
  dag_device_capability :: Capability
  dag_totals :: GroupTotals

record ModelAggregate =
  mag_route_id :: Identifier
  mag_requested_model :: string
  mag_qualified_provider_reported_model :: string
  mag_reference_kind :: ModelReferenceKind
  mag_categories :: "ModelCategory list"
  mag_observed_provider_reported_models :: "(string \<times> int) list"
  mag_unknown_reported_model_attempts :: int
  mag_reported_label_mismatches :: CountRatio
  mag_totals :: GroupTotals

record ModelEffortAggregate =
  eag_route_id :: Identifier
  eag_requested_model :: string
  eag_reasoning_effort :: string
  eag_totals :: GroupTotals

record ModelCategoryAggregate =
  cag_category :: ModelCategory
  cag_route_ids :: "Identifier list"
  cag_totals :: GroupTotals

record SuccessAtK =
  sak_route_id :: Identifier
  sak_requested_model :: string
  sak_reasoning_effort :: string
  sak_k :: int
  sak_success :: CountRatio

record EvaluatorFunnel =
  efn_task_release_digest :: Digest
  efn_task_family :: Identifier
  efn_stage_id :: Identifier
  efn_reached :: CountRatio
  efn_passed :: CountRatio
  efn_outcome_counts :: "(OutcomeKind \<times> int) list"

definition lookup_key :: "('k, 'v) dict \<Rightarrow> 'k \<Rightarrow> report_error + 'v" where
  "lookup_key d k = (case dict_get d k of None \<Rightarrow> Inl Report_key_error | Some v \<Rightarrow> Inr v)"

definition effort_ok :: "string \<Rightarrow> bool" where
  "effort_ok effort \<longleftrightarrow> 1 \<le> length effort \<and> length effort \<le> 32"

definition task_aggregate :: "(Digest, CampaignTask) dict \<Rightarrow> Digest \<Rightarrow> TrialReport list \<Rightarrow> report_error + TaskAggregate" where
  "task_aggregate task_by_release release members =
     bind_result (lookup_key task_by_release release) (\<lambda>task.
     bind_result (group_totals members) (\<lambda>totals.
       Inr \<lparr>tag_task_release_digest = release, tag_task_family = ctk_task_family task, tag_task_role = ctk_role task,
            tag_totals = totals\<rparr>))"

definition device_aggregate :: "Capability \<Rightarrow> TrialReport list \<Rightarrow> report_error + DeviceAggregate" where
  "device_aggregate capability members =
     bind_result (group_totals members) (\<lambda>totals. Inr \<lparr>dag_device_capability = capability, dag_totals = totals\<rparr>)"

definition model_aggregate :: "ModelRoute \<Rightarrow> TrialReport list \<Rightarrow> report_error + ModelAggregate" where
  "model_aggregate route reports =
     (let attempts = all_attempts reports; labels = counter (List.map_filter par_provider_reported_model attempts);
          known = sum_list (dict_values labels);
          mismatches = (\<Sum>(label, n)\<leftarrow>filter (\<lambda>(label, n). label \<noteq> mrt_requested_model route) labels. n);
          observed = sorted_items labels; unknown = int (length attempts) - known in
      bind_result (report_if (\<not> list_all (\<lambda>(_, n). jcs_positive_ok n) observed) Count_domain) (\<lambda>_.
      bind_result (CountRatio_new mismatches known) (\<lambda>ratio.
      bind_result (group_totals reports) (\<lambda>totals.
      bind_result (report_if (\<not> jcs_nonnegative_ok unknown \<or> mrt_categories route = []) Aggregate_domain) (\<lambda>_.
        Inr \<lparr>mag_route_id = mrt_route_id route, mag_requested_model = mrt_requested_model route,
             mag_qualified_provider_reported_model = mrt_provider_reported_model route,
             mag_reference_kind = mrt_reference_kind route, mag_categories = mrt_categories route,
             mag_observed_provider_reported_models = observed, mag_unknown_reported_model_attempts = unknown,
             mag_reported_label_mismatches = ratio, mag_totals = totals\<rparr>)))))"

definition model_effort_groups :: "TrialReport list \<Rightarrow> ((Identifier \<times> string) \<times> TrialReport list) list" where
  "model_effort_groups reports = sort_key (\<lambda>(key, _). [fst key, snd key])
     (group_by (\<lambda>r. (tbd_route_id (sct_binding (trp_trial r)), tbd_reasoning_effort (sct_binding (trp_trial r)))) reports)"

definition model_effort_aggregate :: "ModelRoute \<Rightarrow> string \<Rightarrow> TrialReport list \<Rightarrow> report_error + ModelEffortAggregate" where
  "model_effort_aggregate route effort reports =
     bind_result (group_totals reports) (\<lambda>totals.
     bind_result (report_if (\<not> effort_ok effort) Aggregate_domain) (\<lambda>_.
       Inr \<lparr>eag_route_id = mrt_route_id route, eag_requested_model = mrt_requested_model route,
            eag_reasoning_effort = effort, eag_totals = totals\<rparr>))"

definition category_aggregate :: "CampaignHeader \<Rightarrow> TrialReport list \<Rightarrow> ModelCategory
    \<Rightarrow> report_error + ModelCategoryAggregate" where
  "category_aggregate h reports category =
     (let routes = map mrt_route_id (filter (\<lambda>r. category \<in> set (mrt_categories r)) (mst_routes (chd_model_set h)));
          members = filter (\<lambda>r. tbd_route_id (sct_binding (trp_trial r)) \<in> set routes) reports in
      bind_result (group_totals members) (\<lambda>totals.
      bind_result (report_if (routes = []) Aggregate_domain) (\<lambda>_.
        Inr \<lparr>cag_category = category, cag_route_ids = routes, cag_totals = totals\<rparr>)))"

definition report_categories :: "CampaignHeader \<Rightarrow> ModelCategory list" where
  "report_categories h = sort_key category_value (remdups (concat (map mrt_categories (mst_routes (chd_model_set h)))))"

definition success_at_k_row :: "ModelRoute \<Rightarrow> Identifier \<Rightarrow> string \<Rightarrow> (Digest, TrialReport list) dict \<Rightarrow> nat
    \<Rightarrow> report_error + SuccessAtK" where
  "success_at_k_row route route_id effort by_task k =
     bind_result (CountRatio_new (int (length (filter (\<lambda>g. list_ex trial_success (take k g)) (dict_values by_task))))
         (int (length by_task))) (\<lambda>ratio.
     bind_result (report_if (\<not> effort_ok effort \<or> \<not> jcs_positive_ok (int k)) Aggregate_domain) (\<lambda>_.
       Inr \<lparr>sak_route_id = route_id, sak_requested_model = mrt_requested_model route, sak_reasoning_effort = effort,
            sak_k = int k, sak_success = ratio\<rparr>))"

definition effort_tasks :: "TrialReport list \<Rightarrow> string \<Rightarrow> (Digest, TrialReport list) dict" where
  "effort_tasks reports effort =
     map (\<lambda>(release, g). (release, sort_key (\<lambda>r. tbd_repetition_index (sct_binding (trp_trial r))) g))
       (group_by (\<lambda>r. tbd_task_release_digest (sct_binding (trp_trial r)))
         (filter (\<lambda>r. tbd_reasoning_effort (sct_binding (trp_trial r)) = effort) reports))"

definition success_at_k :: "CampaignHeader \<Rightarrow> (Identifier, ModelRoute) dict \<Rightarrow> (Identifier, TrialReport list) dict
    \<Rightarrow> report_error + SuccessAtK list" where
  "success_at_k h route_by_id route_groups =
     bind_result (map_result (\<lambda>(route_id, reports).
       bind_result (lookup_key route_by_id route_id) (\<lambda>route.
       bind_result (map_result (\<lambda>effort.
           map_result (success_at_k_row route route_id effort (effort_tasks reports effort))
             [1..<Suc (length (cmp_paired_trial_seeds (chd_campaign h)))])
         (sort (remdups (map (\<lambda>r. tbd_reasoning_effort (sct_binding (trp_trial r))) reports)))) (\<lambda>rows.
         Inr (concat rows)))) (sorted_items route_groups)) (\<lambda>rows.
       Inr (concat rows))"

definition stage_kinds :: "Identifier \<Rightarrow> TrialReport \<Rightarrow> OutcomeKind list" where
  "stage_kinds stage_id r =
     map (\<lambda>x. sgr_outcome (csr_result x)) (filter (\<lambda>x. sgr_stage_id (csr_result x) = stage_id) (tro_stage_results (trp_outcome r)))"

definition funnel_row :: "CampaignTask \<Rightarrow> Digest \<Rightarrow> TrialReport list \<Rightarrow> Identifier \<Rightarrow> report_error + EvaluatorFunnel" where
  "funnel_row task release reports stage_id =
     (let matching = filter (\<lambda>m. m \<noteq> []) (map (stage_kinds stage_id) reports);
          passed = filter (list_ex (\<lambda>kind. kind \<in> {Outcome_PASSED, Outcome_PROVED})) matching;
          counts = sort_key (\<lambda>(kind, n). outcome_kind_value kind) (counter (concat matching)) in
      bind_result (CountRatio_new (int (length matching)) (int (length reports))) (\<lambda>reached.
      bind_result (CountRatio_new (int (length passed)) (int (length reports))) (\<lambda>passed.
      bind_result (report_if (\<not> list_all (\<lambda>(_, n). jcs_positive_ok n) counts) Count_domain) (\<lambda>_.
        Inr \<lparr>efn_task_release_digest = release, efn_task_family = ctk_task_family task, efn_stage_id = stage_id,
             efn_reached = reached, efn_passed = passed, efn_outcome_counts = counts\<rparr>))))"

definition evaluator_funnel :: "(Digest, CampaignTask) dict \<Rightarrow> (Digest, TrialReport list) dict
    \<Rightarrow> report_error + EvaluatorFunnel list" where
  "evaluator_funnel task_by_release task_groups =
     bind_result (map_result (\<lambda>(release, reports).
       bind_result (lookup_key task_by_release release) (\<lambda>task.
         map_result (funnel_row task release reports) (ctk_evaluator_stage_ids task))) (sorted_items task_groups)) (\<lambda>rows.
       Inr (concat rows))"

subsection \<open>The report\<close>

record CampaignReport =
  crp_campaign_digest :: Digest
  crp_schedule_digest :: Digest
  crp_campaign_record_digest :: Digest
  crp_campaign_scope :: CampaignScope
  crp_provider_profile :: ProviderProfile
  crp_provider_profile_digest :: Digest
  crp_provider_config_digest :: Digest
  crp_model_set_digest :: Digest
  crp_budget_violation :: bool
  crp_trials :: "TrialReport list"
  crp_overall_success :: CountRatio
  crp_task_aggregates :: "TaskAggregate list"
  crp_device_aggregates :: "DeviceAggregate list"
  crp_model_aggregates :: "ModelAggregate list"
  crp_model_effort_aggregates :: "ModelEffortAggregate list"
  crp_model_category_aggregates :: "ModelCategoryAggregate list"
  crp_success_at_k :: "SuccessAtK list"
  crp_evaluator_funnel :: "EvaluatorFunnel list"
  crp_terminal_reasons :: "(StopReason \<times> int) list"
  crp_resources :: CampaignResources
  crp_token_accounting :: TokenAccounting
  crp_service_tier_accounting :: ServiceTierAccounting
  crp_spend :: SpendSummary

definition task_order_step :: "(int, Digest) dict \<Rightarrow> TrialReport \<Rightarrow> report_error + (int, Digest) dict" where
  "task_order_step order r =
     (let b = sct_binding (trp_trial r); index = tbd_task_order_index b; release = tbd_task_release_digest b;
          prior = (case dict_get order index of None \<Rightarrow> release | Some p \<Rightarrow> p);
          order' = (case dict_get order index of None \<Rightarrow> dict_set index release order | Some _ \<Rightarrow> order) in
      bind_result (report_if (prior \<noteq> release) Task_order) (\<lambda>_. Inr order'))"

definition reported_schedule :: "CampaignReport \<Rightarrow> report_error + CampaignSchedule" where
  "reported_schedule r =
     bind_result (fold_result task_order_step [] (crp_trials r)) (\<lambda>order.
     bind_result (report_if (sort (dict_keys order) \<noteq> map int [0..<length order]) Task_order_gap) (\<lambda>_.
     bind_result (map_result (\<lambda>index. lookup_key order (int index)) [0..<length order]) (\<lambda>releases.
       case CampaignSchedule_validate \<lparr>csc_campaign_digest = crp_campaign_digest r,
              csc_model_set_digest = crp_model_set_digest r, csc_ordered_task_release_digests = releases,
              csc_trials = map trp_trial (crp_trials r)\<rparr> of
         Inl e \<Rightarrow> Inl (Report_schedule e) | Inr s \<Rightarrow> Inr s)))"

definition check_harness_identity :: "CampaignReport \<Rightarrow> report_error + unit" where
  "check_harness_identity r =
     report_if (list_ex (\<lambda>t. let harness = tbd_harness (sct_binding (trp_trial t)) in
         mph_provider_profile_digest harness \<noteq> crp_provider_profile_digest r
         \<or> mph_provider_config_digest harness \<noteq> crp_provider_config_digest r
         \<or> mph_wire_protocol harness \<noteq> ppf_wire_protocol (crp_provider_profile r)) (crp_trials r)) Harness_identity"

definition check_report_tiers :: "CampaignReport \<Rightarrow> report_error + unit" where
  "check_report_tiers r =
     (case remdups (map (\<lambda>t. tbd_service_tier (sct_binding (trp_trial t))) (crp_trials r)) of
        [tier] \<Rightarrow> bind_result (service_tier_accounting (all_attempts (crp_trials r)) tier) (\<lambda>derived.
          report_if (crp_service_tier_accounting r \<noteq> derived) Report_tiers)
      | _ \<Rightarrow> Inl (Report_value Report_tiers))"

definition CampaignReport_validate :: "campaign_digests \<Rightarrow> CampaignReport \<Rightarrow> report_error + CampaignReport" where
  "CampaignReport_validate dg r =
     (let trials = crp_trials r in
      bind_result (report_if (trials = []) Report_empty) (\<lambda>_.
      bind_result (report_if (cdg_provider_profile dg (crp_provider_profile r) \<noteq> crp_provider_profile_digest r)
          Profile_digest) (\<lambda>_.
      bind_result (check_harness_identity r) (\<lambda>_.
      bind_result (reported_schedule r) (\<lambda>schedule.
      bind_result (report_if (cdg_schedule dg schedule \<noteq> crp_schedule_digest r) Schedule_digest) (\<lambda>_.
      bind_result (report_if (map (\<lambda>t. sct_ordinal (trp_trial t)) trials \<noteq> map int [0..<length trials])
          Report_ordinals) (\<lambda>_.
      bind_result (report_if (list_ex (\<lambda>t. tbd_campaign_digest (sct_binding (trp_trial t)) \<noteq> crp_campaign_digest r) trials)
          Report_campaign) (\<lambda>_.
      bind_result (success_ratio trials) (\<lambda>success.
      bind_result (report_if (crp_overall_success r \<noteq> success) Overall_success) (\<lambda>_.
      bind_result (aggregate_resources trials) (\<lambda>resources.
      bind_result (report_if (crp_resources r \<noteq> resources) Report_resources) (\<lambda>_.
      bind_result (token_accounting (all_attempts trials)) (\<lambda>tokens.
      bind_result (report_if (crp_token_accounting r \<noteq> tokens) Report_tokens) (\<lambda>_.
      bind_result (check_report_tiers r) (\<lambda>_.
      bind_result (terminal_reason_counts trials) (\<lambda>reasons.
      bind_result (report_if (crp_terminal_reasons r \<noteq> reasons) Report_reasons) (\<lambda>_.
      bind_result (spend_summary trials) (\<lambda>spend.
      bind_result (report_if (crp_spend r \<noteq> spend) Report_spend) (\<lambda>_.
      bind_result (report_if (crp_budget_violation r \<noteq> list_ex trp_accounting_violation trials) Report_violation) (\<lambda>_.
        Inr r))))))))))))))))))))"

definition build_campaign_report :: "record_digests \<Rightarrow> CampaignHeader \<Rightarrow> TrialReport list \<Rightarrow> Digest \<Rightarrow> bool
    \<Rightarrow> CampaignResources \<Rightarrow> report_error + CampaignReport" where
  "build_campaign_report dg h reports record_digest budget_violation committed =
     (let task_by_release = dict_of ctk_task_release_digest id (chd_tasks h);
          route_by_id = dict_of mrt_route_id id (mst_routes (chd_model_set h));
          task_groups = group_by (\<lambda>r. tbd_task_release_digest (sct_binding (trp_trial r))) reports;
          device_groups = group_by (\<lambda>r. tbd_device_capability (sct_binding (trp_trial r))) reports;
          route_groups = group_by (\<lambda>r. tbd_route_id (sct_binding (trp_trial r))) reports;
          attempts = all_attempts reports; config = chd_provider_config h; cdg = rcd_campaign dg in
      bind_result (map_result (\<lambda>(release, members). task_aggregate task_by_release release members)
          (sorted_items task_groups)) (\<lambda>task_aggregates.
      bind_result (map_result (\<lambda>(capability, members). device_aggregate capability members)
          (sort_key (\<lambda>(capability, _). capability_value capability) device_groups)) (\<lambda>device_aggregates.
      bind_result (map_result (\<lambda>(route_id, members). bind_result (lookup_key route_by_id route_id) (\<lambda>route.
          model_aggregate route members)) (sorted_items route_groups)) (\<lambda>model_aggregates.
      bind_result (map_result (\<lambda>((route_id, effort), members). bind_result (lookup_key route_by_id route_id) (\<lambda>route.
          model_effort_aggregate route effort members)) (model_effort_groups reports)) (\<lambda>effort_aggregates.
      bind_result (map_result (category_aggregate h reports) (report_categories h)) (\<lambda>category_aggregates.
      bind_result (success_ratio reports) (\<lambda>success.
      bind_result (success_at_k h route_by_id route_groups) (\<lambda>at_k.
      bind_result (evaluator_funnel task_by_release task_groups) (\<lambda>funnel.
      bind_result (terminal_reason_counts reports) (\<lambda>reasons.
      bind_result (token_accounting attempts) (\<lambda>tokens.
      bind_result (service_tier_accounting attempts (cmp_service_tier (chd_campaign h))) (\<lambda>tiers.
      bind_result (spend_summary reports) (\<lambda>spend.
        CampaignReport_validate cdg
          \<lparr>crp_campaign_digest = cdg_campaign cdg (chd_campaign h), crp_schedule_digest = cdg_schedule cdg (chd_schedule h),
           crp_campaign_record_digest = record_digest, crp_campaign_scope = cmp_scope (chd_campaign h),
           crp_provider_profile = rpc_profile config,
           crp_provider_profile_digest = cdg_provider_profile cdg (rpc_profile config),
           crp_provider_config_digest = cdg_provider_config cdg config,
           crp_model_set_digest = cdg_model_set cdg (chd_model_set h), crp_budget_violation = budget_violation,
           crp_trials = reports, crp_overall_success = success, crp_task_aggregates = task_aggregates,
           crp_device_aggregates = device_aggregates, crp_model_aggregates = model_aggregates,
           crp_model_effort_aggregates = effort_aggregates, crp_model_category_aggregates = category_aggregates,
           crp_success_at_k = at_k, crp_evaluator_funnel = funnel, crp_terminal_reasons = reasons,
           crp_resources = committed, crp_token_accounting = tokens, crp_service_tier_accounting = tiers,
           crp_spend = spend\<rparr>)))))))))))))"

definition trial_report_of :: "CampaignProjection \<Rightarrow> ScheduledTrial \<Rightarrow> report_error + TrialReport" where
  "trial_report_of st trial =
     (case dict_get (cpj_ledgers st) (sct_trial_id trial) of
        None \<Rightarrow> Inl Report_key_error
      | Some ledger \<Rightarrow>
        (case tpr_outcome ledger of
           None \<Rightarrow> Inl Outcome_missing
         | Some outcome \<Rightarrow>
           bind_result (lift_campaign (CampaignResources_validate (tpr_committed ledger))) (\<lambda>resources.
           bind_result (token_accounting (tpr_attempts ledger)) (\<lambda>tokens.
             TrialReport_validate \<lparr>trp_trial = trial, trp_outcome = outcome, trp_resources = resources,
               trp_token_accounting = tokens, trp_provider_attempts = tpr_attempts ledger,
               trp_accounting_violation = tpr_accounting_violation ledger\<rparr>))))"

definition missing_outcome :: "CampaignProjection \<Rightarrow> ScheduledTrial \<Rightarrow> report_error + unit" where
  "missing_outcome st trial =
     (case dict_get (cpj_ledgers st) (sct_trial_id trial) of
        None \<Rightarrow> Inl Report_key_error
      | Some ledger \<Rightarrow> Inr ())"

definition project_campaign_report :: "record_digests \<Rightarrow> CampaignRecord \<Rightarrow> report_error + CampaignReport" where
  "project_campaign_report dg record =
     (let trials = csc_trials (chd_schedule (crc_header record)) in
      bind_result (lift_campaign (replay_campaign_record dg record)) (\<lambda>st.
      if cpj_reservations st \<noteq> [] then Inl Dispatch_unsettled
      else
      bind_result (check_each (missing_outcome st) trials) (\<lambda>_.
      if list_ex (\<lambda>t. \<exists>l\<in>set_option (dict_get (cpj_ledgers st) (sct_trial_id t)). tpr_outcome l = None) trials
      then Inl Outcome_missing
      else
      bind_result (map_result (trial_report_of st) trials) (\<lambda>reports.
      bind_result (lift_campaign (CampaignResources_validate (cpj_committed st))) (\<lambda>committed.
        build_campaign_report dg (crc_header record) reports (campaign_integrity_digest dg record)
          (cpj_budget_violation st) committed)))))"

end
