(* ===== verification/CampaignRunner.thy ===== *)
theory CampaignRunner
  imports CampaignJournal CampaignReport
begin

section \<open>The campaign runner\<close>

text \<open>
  The model of \<open>CampaignRunner\<close> and \<open>CampaignReservation\<close> of \<open>providers/campaign_runner.py\<close> and of their
  provider adapter in \<open>providers/provider_budget.py\<close>. A runner owns its open flag, its reservation
  handles and the set of active ones; a handle is an index into the list of all handles the runner
  made. An operation runs under the locks of the code, so it is one step from a runner and the durable
  record to a result, the runner and the record; the record changes only through \<open>record_transact\<close>.
  Random identifiers are arguments: \<open>reservation\<close> is the hexadecimal part of a new reservation id, and
  \<open>uuid n\<close> the identifier of the n-th event an operation builds.
\<close>

subsection \<open>Errors and state\<close>

datatype (plugins only: code size) runner_fault = Runner_closed | Trial_unknown | Model_differs | Floor_differs | Budget_differs
  | Previous_not_retryable | Retries_exhausted | Previous_not_admitted | Work_claim_empty | Work_claim_provider
  | Several_work_reservations | Work_already_active | Requests_duplicated | Request_differs | Undispatched_response
  | Evidence_missing | Response_unidentified | Stop_successful | Dispatches_active | Nothing_unfinished | Nothing_incomplete

datatype (plugins only: code size) handle_fault = Cannot_dispatch | Cannot_settle | Cannot_cancel | Provider_handle | Work_handle
  | Provider_resources_reported | Label_invalid | Retry_condition_missing | Condition_not_admitted | Response_missing
  | Response_on_failure | Not_active_handle | Usage_exceeded_claim | Security_binding_missing

datatype runner_error = Runner_error runner_fault | Handle_error handle_fault | Runner_campaign campaign_failure
  | Runner_schedule schedule_error | Runner_header header_error | Runner_report report_error

type_synonym runner_failure = "runner_error journal_failure"

definition raise_if :: "bool \<Rightarrow> runner_error \<Rightarrow> runner_failure + unit" where
  "raise_if b e = (if b then Inl (Raised e) else Inr ())"

lemma raise_if_Inr [simp]: "raise_if b e = Inr u \<longleftrightarrow> \<not> b"
  by (simp add: raise_if_def)

definition lift_runner :: "campaign_failure + 'a \<Rightarrow> runner_failure + 'a" where
  "lift_runner m = (case m of Inl e \<Rightarrow> Inl (Raised (Runner_campaign e)) | Inr x \<Rightarrow> Inr x)"

lemma lift_runner_simps [simp]:
  "lift_runner (Inr x) = Inr x" "lift_runner m = Inr x \<longleftrightarrow> m = Inr x"
  by (cases m, auto simp: lift_runner_def)+

record CampaignReservation =
  crv_trial_id :: Identifier
  crv_reservation_id :: Identifier
  crv_claim :: CampaignResources
  crv_provider :: "ProviderReservationBinding option"
  crv_dispatched :: bool
  crv_settled :: bool

record CampaignRunner =
  rnr_header :: CampaignHeader
  rnr_handles :: "CampaignReservation list"
  rnr_active :: "nat set"
  rnr_closed :: bool

type_synonym 'r runner_result = "(runner_failure + 'r) \<times> CampaignRunner \<times> CampaignRecord"

type_synonym 'r factory = "CampaignRecord \<Rightarrow> runner_failure + CampaignEvent list \<times> 'r"

text \<open>The runner after \<open>__init__\<close> has no handles; the journal keeps what earlier runners wrote.\<close>

definition runner_of :: "CampaignHeader \<Rightarrow> CampaignRunner" where
  "runner_of header = \<lparr>rnr_header = header, rnr_handles = [], rnr_active = {}, rnr_closed = False\<rparr>"

definition CampaignRunner_init :: "record_digests \<Rightarrow> commit_digest \<Rightarrow> campaign_codec \<Rightarrow> campaign_header_codec
    \<Rightarrow> CampaignSpec \<Rightarrow> ModelSetManifest \<Rightarrow> CampaignTask list \<Rightarrow> ResolvedProviderConfig
    \<Rightarrow> (string, string \<times> string) dict \<Rightarrow> (runner_failure + CampaignRunner) \<times> (string, string \<times> string) dict" where
  "CampaignRunner_init dg digest codec header_codec campaign model_set tasks provider_config store =
     (case build_campaign_schedule (rcd_campaign dg) campaign model_set tasks of
        Inl e \<Rightarrow> (Inl (Raised (Runner_schedule e)), store)
      | Inr schedule \<Rightarrow>
        (case CampaignHeader_validate (rcd_campaign dg) \<lparr>chd_campaign = campaign, chd_model_set = model_set,
                chd_provider_config = provider_config, chd_tasks = tasks, chd_schedule = schedule\<rparr> of
           Inl e \<Rightarrow> (Inl (Raised (Runner_header e)), store)
         | Inr header \<Rightarrow>
           (case campaign_journal_create dg header_codec header store of
              (Inl e, store') \<Rightarrow> (Inl e, store')
            | (Inr opened, store') \<Rightarrow>
                (bind_result (case dict_get store' (directory_name (rcd_header dg header)) of
                     None \<Rightarrow> Inl (Journal_header Run_directory_missing)
                   | Some (_, data) \<Rightarrow> campaign_journal_record dg digest codec opened data) (\<lambda>record.
                 bind_result (lift_runner (replay_campaign_record dg record)) (\<lambda>_. Inr (runner_of header))), store'))))"

definition ensure_open :: "CampaignRunner \<Rightarrow> runner_failure + unit" where
  "ensure_open rn = raise_if (rnr_closed rn) (Runner_error Runner_closed)"

definition require_trial :: "CampaignHeader \<Rightarrow> Identifier \<Rightarrow> runner_failure + ScheduledTrial" where
  "require_trial h trial_id =
     (case dict_get (dict_of sct_trial_id id (csc_trials (chd_schedule h))) trial_id of
        None \<Rightarrow> Inl (Raised (Runner_error Trial_unknown)) | Some trial \<Rightarrow> Inr trial)"

definition trial_by_id :: "CampaignHeader \<Rightarrow> Identifier \<Rightarrow> runner_failure + ScheduledTrial" where
  "trial_by_id h trial_id =
     (case dict_get (dict_of sct_trial_id id (csc_trials (chd_schedule h))) trial_id of
        None \<Rightarrow> Inl (Raised (Runner_campaign Campaign_key_error)) | Some trial \<Rightarrow> Inr trial)"

subsection \<open>Building events\<close>

definition emit :: "record_digests \<Rightarrow> CampaignHeader \<Rightarrow> CampaignProjection \<Rightarrow> string \<Rightarrow> nat \<Rightarrow> CampaignEventPayload
    \<Rightarrow> runner_failure + CampaignEvent \<times> CampaignProjection" where
  "emit dg h st event_id sequence payload =
     bind_result (lift_runner (CampaignEvent_validate dg
         \<lparr>cev_event_id = event_id, cev_sequence = int sequence, cev_payload = payload\<rparr>)) (\<lambda>event.
     bind_result (lift_runner (apply_campaign_event dg h st event)) (\<lambda>st. Inr (event, st)))"

definition emit_single :: "record_digests \<Rightarrow> (nat \<Rightarrow> string) \<Rightarrow> CampaignEventPayload \<Rightarrow> unit factory" where
  "emit_single dg uuid payload record =
     bind_result (lift_runner (replay_campaign_record dg record)) (\<lambda>st.
     bind_result (emit dg (crc_header record) st (uuid 0) (length (campaign_record_events record)) payload) (\<lambda>(event, _).
       Inr ([event], ())))"

text \<open>
  The loops that build several events: \<open>propose\<close> decides from the current projection whether an item of the
  loop contributes an event, which is applied before the next item is looked at.
\<close>

definition emit_next :: "record_digests \<Rightarrow> CampaignRecord \<Rightarrow> (nat \<Rightarrow> string)
    \<Rightarrow> (CampaignProjection \<Rightarrow> 'x \<Rightarrow> runner_failure + CampaignEventPayload option)
    \<Rightarrow> CampaignProjection \<times> CampaignEvent list \<Rightarrow> 'x \<Rightarrow> runner_failure + CampaignProjection \<times> CampaignEvent list" where
  "emit_next dg record uuid propose acc x =
     (case acc of (st, events) \<Rightarrow>
      bind_result (propose st x) (\<lambda>choice.
        case choice of
          None \<Rightarrow> Inr (st, events)
        | Some payload \<Rightarrow>
          bind_result (emit dg (crc_header record) st (uuid (length events))
              (length (campaign_record_events record) + length events) payload) (\<lambda>(event, st).
            Inr (st, events @ [event]))))"

definition emit_events :: "record_digests \<Rightarrow> CampaignRecord \<Rightarrow> (nat \<Rightarrow> string)
    \<Rightarrow> (CampaignProjection \<Rightarrow> 'x \<Rightarrow> runner_failure + CampaignEventPayload option) \<Rightarrow> CampaignProjection \<Rightarrow> 'x list
    \<Rightarrow> runner_failure + CampaignEvent list" where
  "emit_events dg record uuid propose st xs =
     bind_result (fold_result (emit_next dg record uuid propose) (st, []) xs) (\<lambda>(_, events). Inr events)"

definition runner_commit :: "record_digests \<Rightarrow> commit_digest \<Rightarrow> 'r factory \<Rightarrow> ('r \<Rightarrow> (runner_failure + 's) \<times> CampaignRunner)
    \<Rightarrow> CampaignRunner \<Rightarrow> CampaignRecord \<Rightarrow> 's runner_result" where
  "runner_commit dg digest factory finish rn record =
     (case record_transact dg digest factory record of
        Inl e \<Rightarrow> (Inl e, rn, record)
      | Inr (record', r) \<Rightarrow> (case finish r of (result, rn') \<Rightarrow> (result, rn', record')))"

definition guarded :: "runner_failure + unit \<Rightarrow> 's runner_result \<Rightarrow> CampaignRunner \<Rightarrow> CampaignRecord \<Rightarrow> 's runner_result" where
  "guarded check rest rn record = (case check of Inl e \<Rightarrow> (Inl e, rn, record) | Inr _ \<Rightarrow> rest)"

subsection \<open>Reserving\<close>

definition add_handle :: "CampaignReservation \<Rightarrow> CampaignRunner \<Rightarrow> CampaignRunner" where
  "add_handle handle rn = rn\<lparr>rnr_handles := rnr_handles rn @ [handle],
     rnr_active := insert (length (rnr_handles rn)) (rnr_active rn)\<rparr>"

text \<open>A budget rejection is made durable as a stop event; otherwise the reservation is created.\<close>

definition reservation_payload :: "CampaignSpec \<Rightarrow> CampaignProjection \<Rightarrow> Identifier \<Rightarrow> CampaignResources \<Rightarrow> Identifier
    \<Rightarrow> ProviderReservationBinding option \<Rightarrow> runner_failure + CampaignEventPayload \<times> (BudgetDimension \<times> bool) option" where
  "reservation_payload c st trial_id claimed reservation_id provider =
     bind_result (lift_runner (reservation_rejection c st trial_id claimed (provider \<noteq> None))) (\<lambda>rejection.
       Inr (case rejection of
          Some (dimension, per_trial) \<Rightarrow> BudgetStopped \<lparr>bsp_dimension = dimension, bsp_trial_id = trial_id,
            bsp_per_trial = per_trial, bsp_rejected_claim = claimed\<rparr>
        | None \<Rightarrow> ReservationCreated \<lparr>rvc_reservation_id = reservation_id, rvc_trial_id = trial_id, rvc_claim = claimed,
            rvc_provider = provider\<rparr>, rejection))"

definition finish_reserve :: "Identifier \<Rightarrow> Identifier \<Rightarrow> CampaignResources \<Rightarrow> CampaignRunner
    \<Rightarrow> ProviderReservationBinding option \<times> (BudgetDimension \<times> bool) option \<Rightarrow> (runner_failure + nat) \<times> CampaignRunner" where
  "finish_reserve trial_id reservation_id claimed rn selected =
     (case selected of
        (_, Some (dimension, per_trial)) \<Rightarrow> (Inl (Raised (Runner_campaign (CampaignBudgetExceeded dimension per_trial))), rn)
      | (provider, None) \<Rightarrow>
          (Inr (length (rnr_handles rn)), add_handle \<lparr>crv_trial_id = trial_id, crv_reservation_id = reservation_id,
             crv_claim = claimed, crv_provider = provider, crv_dispatched = False, crv_settled = False\<rparr> rn))"

definition check_next_attempt :: "RetryPolicy \<Rightarrow> ProviderAttemptRecord list \<Rightarrow> runner_failure + unit" where
  "check_next_attempt policy matching =
     (if matching = [] then Inr ()
      else let previous = last matching in
        bind_result (raise_if (par_disposition previous \<noteq> Attempt_RETRYABLE_FAILURE) (Runner_error Previous_not_retryable)) (\<lambda>_.
        bind_result (raise_if (int (length matching) + 1 > rty_max_request_attempts policy)
            (Runner_error Retries_exhausted)) (\<lambda>_.
          raise_if (par_failure_condition previous \<notin> Some ` set (rty_retry_conditions policy))
            (Runner_error Previous_not_admitted))))"

definition provider_claim :: "RequestTokenClaim \<Rightarrow> CampaignResources" where
  "provider_claim token_claim = resources_zero\<lparr>crs_requests := 1, crs_input_tokens := rtc_input_tokens token_claim,
     crs_output_tokens := rtc_output_tokens token_claim\<rparr>"

definition reserve_provider_factory :: "record_digests \<Rightarrow> CampaignHeader \<Rightarrow> Identifier \<Rightarrow> Identifier \<Rightarrow> string \<Rightarrow> RequestTokenClaim
    \<Rightarrow> ProviderSecurityBinding \<Rightarrow> Identifier \<Rightarrow> (nat \<Rightarrow> string)
    \<Rightarrow> (ProviderReservationBinding option \<times> (BudgetDimension \<times> bool) option) factory" where
  "reserve_provider_factory dg h trial_id request_key requested_model token_claim security_binding reservation_id uuid record =
     bind_result (lift_runner (replay_campaign_record dg record)) (\<lambda>st.
     bind_result (require_trial h trial_id) (\<lambda>trial.
     bind_result (raise_if (requested_model \<noteq> tbd_requested_model (sct_binding trial)) (Runner_error Model_differs)) (\<lambda>_.
     bind_result (raise_if (rtc_observed_input_token_floor token_claim \<noteq> tbd_observed_input_token_floor (sct_binding trial))
         (Runner_error Floor_differs)) (\<lambda>_.
     bind_result (lift_runner (campaign_budget_projection dg (chd_campaign h) (chd_schedule h))) (\<lambda>projection.
     bind_result (raise_if (psb_budget_binding_digest security_binding \<noteq> rcd_projection dg projection)
         (Runner_error Budget_differs)) (\<lambda>_.
     bind_result (lift_runner (ready_campaign_projection st trial_id)) (\<lambda>ledger.
     let matching = attempts_for ledger request_key in
     bind_result (check_next_attempt (cmp_retry_policy (chd_campaign h)) matching) (\<lambda>_.
     bind_result (raise_if (\<not> identifier_ok request_key) (Runner_campaign (Record_value Attempt_domain))) (\<lambda>_.
     let provider = \<lparr>prb_request_key = request_key, prb_attempt_number = int (length matching) + 1,
           prb_observed_input_token_floor = rtc_observed_input_token_floor token_claim,
           prb_security_binding = security_binding\<rparr> in
     bind_result (reservation_payload (chd_campaign h) st trial_id (provider_claim token_claim) reservation_id (Some provider))
         (\<lambda>(payload, rejection).
     bind_result (emit dg (crc_header record) st (uuid 0) (length (campaign_record_events record)) payload) (\<lambda>(event, _).
       Inr ([event], (Some provider, rejection)))))))))))))"

definition new_reservation_id :: "string \<Rightarrow> Identifier" where
  "new_reservation_id reservation = ''reservation_'' @ reservation"

definition runner_reserve_provider_attempt :: "record_digests \<Rightarrow> commit_digest \<Rightarrow> Identifier \<Rightarrow> Identifier \<Rightarrow> string
    \<Rightarrow> RequestTokenClaim \<Rightarrow> ProviderSecurityBinding \<Rightarrow> string \<Rightarrow> (nat \<Rightarrow> string) \<Rightarrow> CampaignRunner \<Rightarrow> CampaignRecord
    \<Rightarrow> nat runner_result" where
  "runner_reserve_provider_attempt dg digest trial_id request_key requested_model token_claim security_binding reservation uuid rn record =
     guarded (bind_result (lift_runner (CampaignResources_validate (provider_claim token_claim))) (\<lambda>_. ensure_open rn))
       (runner_commit dg digest
         (reserve_provider_factory dg (rnr_header rn) trial_id request_key requested_model token_claim security_binding
           (new_reservation_id reservation) uuid)
         (finish_reserve trial_id (new_reservation_id reservation) (provider_claim token_claim) rn) rn record) rn record"

definition reserve_work_factory :: "record_digests \<Rightarrow> CampaignHeader \<Rightarrow> Identifier \<Rightarrow> CampaignResources \<Rightarrow> Identifier
    \<Rightarrow> (nat \<Rightarrow> string) \<Rightarrow> (ProviderReservationBinding option \<times> (BudgetDimension \<times> bool) option) factory" where
  "reserve_work_factory dg h trial_id claimed reservation_id uuid record =
     bind_result (lift_runner (replay_campaign_record dg record)) (\<lambda>st.
     bind_result (require_trial h trial_id) (\<lambda>_.
     bind_result (lift_runner (ready_campaign_projection st trial_id)) (\<lambda>_.
     bind_result (reservation_payload (chd_campaign h) st trial_id claimed reservation_id None) (\<lambda>(payload, rejection).
     bind_result (emit dg (crc_header record) st (uuid 0) (length (campaign_record_events record)) payload) (\<lambda>(event, _).
       Inr ([event], (None, rejection)))))))"

text \<open>Resources that only a provider reservation may hold or report.\<close>

definition has_provider_resources :: "CampaignResources \<Rightarrow> bool" where
  "has_provider_resources r \<longleftrightarrow> crs_requests r \<noteq> 0 \<or> crs_input_tokens r \<noteq> 0 \<or> crs_output_tokens r \<noteq> 0"

definition runner_reserve_work :: "record_digests \<Rightarrow> commit_digest \<Rightarrow> Identifier \<Rightarrow> CampaignResources \<Rightarrow> string
    \<Rightarrow> (nat \<Rightarrow> string) \<Rightarrow> CampaignRunner \<Rightarrow> CampaignRecord \<Rightarrow> nat runner_result" where
  "runner_reserve_work dg digest trial_id claimed reservation uuid rn record =
     guarded (bind_result (raise_if (resources_is_zero claimed) (Runner_error Work_claim_empty)) (\<lambda>_.
              bind_result (raise_if (has_provider_resources claimed) (Runner_error Work_claim_provider)) (\<lambda>_. ensure_open rn)))
       (runner_commit dg digest (reserve_work_factory dg (rnr_header rn) trial_id claimed (new_reservation_id reservation) uuid)
         (finish_reserve trial_id (new_reservation_id reservation) claimed rn) rn record) rn record"

definition work_reservations :: "CampaignProjection \<Rightarrow> Identifier \<Rightarrow> (Identifier \<times> ReservationLedger) list" where
  "work_reservations st trial_id = filter (\<lambda>(_, r). rvl_trial_id r = trial_id \<and> rvl_provider r = None) (cpj_reservations st)"

definition runner_resume_work_reservation :: "record_digests \<Rightarrow> Identifier \<Rightarrow> CampaignRunner \<Rightarrow> CampaignRecord
    \<Rightarrow> nat option runner_result" where
  "runner_resume_work_reservation dg trial_id rn record =
     (case bind_result (ensure_open rn) (\<lambda>_.
           bind_result (lift_runner (replay_campaign_record dg record)) (\<lambda>st.
           bind_result (require_trial (rnr_header rn) trial_id) (\<lambda>_. Inr st))) of
        Inl e \<Rightarrow> (Inl e, rn, record)
      | Inr st \<Rightarrow>
        (case work_reservations st trial_id of
           [] \<Rightarrow> (Inr None, rn, record)
         | [(reservation_id, ledger)] \<Rightarrow>
             if \<exists>i\<in>rnr_active rn. crv_reservation_id (rnr_handles rn ! i) = reservation_id
             then (Inl (Raised (Runner_error Work_already_active)), rn, record)
             else (Inr (Some (length (rnr_handles rn))), add_handle \<lparr>crv_trial_id = trial_id,
               crv_reservation_id = reservation_id, crv_claim = rvl_claim ledger, crv_provider = None,
               crv_dispatched = rvl_dispatched ledger, crv_settled = False\<rparr> rn, record)
         | _ \<Rightarrow> (Inl (Raised (Runner_error Several_work_reservations)), rn, record)))"

subsection \<open>Outcomes\<close>

definition runner_record_outcome :: "record_digests \<Rightarrow> commit_digest \<Rightarrow> Identifier \<Rightarrow> TrialRunOutcome \<Rightarrow> (nat \<Rightarrow> string)
    \<Rightarrow> CampaignRunner \<Rightarrow> CampaignRecord \<Rightarrow> unit runner_result" where
  "runner_record_outcome dg digest trial_id outcome uuid rn record =
     guarded (ensure_open rn)
       (runner_commit dg digest
         (emit_single dg uuid (TrialOutcomeRecorded \<lparr>top_trial_id = trial_id, top_outcome = outcome\<rparr>))
         (\<lambda>_. (Inr (), rn)) rn record) rn record"

definition unfinished_outcome :: "StopReason \<Rightarrow> bool \<Rightarrow> TrialRunOutcome" where
  "unfinished_outcome reason dispatched =
     \<lparr>tro_disposition = (if dispatched then Trial_FAILED_BEFORE_RUN else Trial_NOT_DISPATCHED),
      tro_terminal_reason = reason, tro_run_id = None, tro_run_binding = None, tro_stage_results = [],
      tro_provider_requests = [],
      tro_provider_spend = Spend_Unobserved (if dispatched then Spend_REPORTING_INCOMPLETE else Spend_NOT_DISPATCHED)\<rparr>"

definition stop_payload :: "StopReason \<Rightarrow> CampaignProjection \<Rightarrow> ScheduledTrial \<Rightarrow> runner_failure + CampaignEventPayload option" where
  "stop_payload reason st trial =
     bind_result (lift_runner (trial_ledger st (sct_trial_id trial))) (\<lambda>ledger.
       if tpr_outcome ledger \<noteq> None then Inr None
       else
         bind_result (lift_runner (CampaignResources_validate (tpr_committed ledger))) (\<lambda>resources.
           Inr (Some (TrialOutcomeRecorded \<lparr>top_trial_id = sct_trial_id trial,
             top_outcome = unfinished_outcome reason (\<not> resources_is_zero resources \<or> tpr_attempts ledger \<noteq> [])\<rparr>))))"

definition stop_factory :: "record_digests \<Rightarrow> CampaignHeader \<Rightarrow> StopReason \<Rightarrow> (nat \<Rightarrow> string) \<Rightarrow> unit factory" where
  "stop_factory dg h reason uuid record =
     bind_result (lift_runner (replay_campaign_record dg record)) (\<lambda>st.
     bind_result (raise_if (cpj_reservations st \<noteq> []) (Runner_error Dispatches_active)) (\<lambda>_.
     bind_result (emit_events dg record uuid (stop_payload reason) st (csc_trials (chd_schedule h))) (\<lambda>events.
     bind_result (raise_if (events = []) (Runner_error Nothing_unfinished)) (\<lambda>_.
       Inr (events, ())))))"

definition runner_stop_unfinished :: "record_digests \<Rightarrow> commit_digest \<Rightarrow> StopReason \<Rightarrow> (nat \<Rightarrow> string) \<Rightarrow> CampaignRunner
    \<Rightarrow> CampaignRecord \<Rightarrow> unit runner_result" where
  "runner_stop_unfinished dg digest reason uuid rn record =
     guarded (bind_result (raise_if (reason = Stop_VERIFIER_SUCCESS) (Runner_error Stop_successful)) (\<lambda>_. ensure_open rn))
       (runner_commit dg digest (stop_factory dg (rnr_header rn) reason uuid) (\<lambda>_. (Inr (), rn)) rn record) rn record"

definition runner_build_report :: "record_digests \<Rightarrow> CampaignRunner \<Rightarrow> CampaignRecord \<Rightarrow> CampaignReport runner_result" where
  "runner_build_report dg rn record =
     (case project_campaign_report dg record of
        Inl e \<Rightarrow> (Inl (Raised (Runner_report e)), rn, record)
      | Inr report \<Rightarrow> (Inr report, rn\<lparr>rnr_closed := True\<rparr>, record))"

definition runner_pending_trials :: "record_digests \<Rightarrow> CampaignRunner \<Rightarrow> CampaignRecord \<Rightarrow> runner_failure + ScheduledTrial list" where
  "runner_pending_trials dg rn record =
     bind_result (lift_runner (replay_campaign_record dg record)) (\<lambda>st.
     bind_result (map_result (\<lambda>trial. bind_result (lift_runner (trial_ledger st (sct_trial_id trial))) (\<lambda>ledger.
         Inr (if tpr_outcome ledger = None then [trial] else []))) (csc_trials (chd_schedule (rnr_header rn)))) (\<lambda>trials.
       Inr (concat trials)))"

definition runner_budget_projection :: "record_digests \<Rightarrow> CampaignRunner \<Rightarrow> runner_failure + CampaignBudgetProjection" where
  "runner_budget_projection dg rn =
     lift_runner (campaign_budget_projection dg (chd_campaign (rnr_header rn)) (chd_schedule (rnr_header rn)))"

subsection \<open>Recovery\<close>

record CampaignRecovery =
  rcv_reservation_ids :: "Identifier list"
  rcv_affected_trial_ids :: "Identifier list"

text \<open>A provider attempt of a reservation without response facts; the callers add what they know.\<close>

definition attempt_of :: "ProviderReservationBinding \<Rightarrow> ScheduledTrial \<Rightarrow> CampaignResources \<Rightarrow> CampaignResources
    \<Rightarrow> ProviderAttemptRecord" where
  "attempt_of provider trial claimed actual =
     \<lparr>par_request_key = prb_request_key provider, par_attempt_number = prb_attempt_number provider,
      par_reserved_token_claim = \<lparr>rtc_input_tokens = crs_input_tokens claimed, rtc_output_tokens = crs_output_tokens claimed,
        rtc_observed_input_token_floor = prb_observed_input_token_floor provider\<rparr>,
      par_disposition = Attempt_TERMINAL_FAILURE, par_failure_condition = None,
      par_requested_model = tbd_requested_model (sct_binding trial),
      par_requested_service_tier = tbd_service_tier (sct_binding trial),
      par_security_binding = prb_security_binding provider, par_provider_reported_model = None,
      par_provider_reported_service_tier = None, par_provider_response_status = None, par_provider_usage = None,
      par_charged_resources = actual\<rparr>"

definition recovery_payload :: "CampaignHeader \<Rightarrow> Identifier \<times> ReservationLedger \<Rightarrow> runner_failure + CampaignEventPayload option" where
  "recovery_payload h item =
     (case item of (reservation_id, r) \<Rightarrow>
      if \<not> rvl_dispatched r then Inr (Some (ReservationCancelled reservation_id))
      else case rvl_provider r of
        None \<Rightarrow> Inr (Some (WorkSettled \<lparr>wsp_reservation_id = reservation_id, wsp_actual = rvl_claim r\<rparr>))
      | Some provider \<Rightarrow>
          bind_result (trial_by_id h (rvl_trial_id r)) (\<lambda>trial.
            Inr (Some (ProviderAttemptSettled \<lparr>pas_reservation_id = reservation_id,
              pas_attempt = attempt_of provider trial (rvl_claim r) (rvl_claim r)\<rparr>))))"

definition recover_factory :: "record_digests \<Rightarrow> CampaignHeader \<Rightarrow> (nat \<Rightarrow> string) \<Rightarrow> CampaignRecovery factory" where
  "recover_factory dg h uuid record =
     bind_result (lift_runner (replay_campaign_record dg record)) (\<lambda>st.
     let items = sorted_items (cpj_reservations st) in
     bind_result (emit_events dg record uuid (\<lambda>_. recovery_payload h) st items) (\<lambda>events.
     bind_result (raise_if (events = []) (Runner_error Nothing_incomplete)) (\<lambda>_.
       Inr (events, \<lparr>rcv_reservation_ids = map fst items,
         rcv_affected_trial_ids = sorted_list_of_set (set (map (\<lambda>(_, r). rvl_trial_id r) items))\<rparr>))))"

definition runner_recover_incomplete_dispatches :: "record_digests \<Rightarrow> commit_digest \<Rightarrow> (nat \<Rightarrow> string) \<Rightarrow> CampaignRunner
    \<Rightarrow> CampaignRecord \<Rightarrow> CampaignRecovery runner_result" where
  "runner_recover_incomplete_dispatches dg digest uuid rn record =
     guarded (ensure_open rn)
       (runner_commit dg digest (recover_factory dg (rnr_header rn) uuid) (\<lambda>recovery. (Inr recovery, rn)) rn record) rn record"

definition request_differs :: "ScheduledTrial \<Rightarrow> ProviderReservationBinding \<Rightarrow> ReservationLedger \<Rightarrow> ProviderRequestState \<Rightarrow> bool" where
  "request_differs trial provider r request \<longleftrightarrow>
     (let started = prs_request request; harness = tbd_harness (sct_binding trial) in
      prp_provider_profile_digest started \<noteq> mph_provider_profile_digest harness
      \<or> prp_provider_config_digest started \<noteq> mph_provider_config_digest harness
      \<or> prp_requested_model started \<noteq> tbd_requested_model (sct_binding trial)
      \<or> prp_requested_service_tier started \<noteq> Some (tbd_service_tier (sct_binding trial))
      \<or> prp_observed_input_token_floor started \<noteq> prb_observed_input_token_floor provider
      \<or> prp_security_binding started \<noteq> prb_security_binding provider
      \<or> prp_reserved_input_tokens started \<noteq> crs_input_tokens (rvl_claim r)
      \<or> prp_reserved_output_tokens started \<noteq> crs_output_tokens (rvl_claim r))"

definition usage_counters_of :: "ProviderUsageFact \<Rightarrow> UsageCounters" where
  "usage_counters_of f = \<lparr>ucn_input_tokens = puf_input_tokens f, ucn_output_tokens = puf_output_tokens f,
     ucn_total_tokens = puf_total_tokens f, ucn_cached_input_tokens = puf_cached_input_tokens f,
     ucn_reasoning_tokens = puf_reasoning_tokens f\<rparr>"

definition reconciled_attempt :: "ScheduledTrial \<Rightarrow> ProviderReservationBinding \<Rightarrow> ReservationLedger \<Rightarrow> ProviderRequestState
    \<Rightarrow> runner_failure + ProviderAttemptRecord" where
  "reconciled_attempt trial provider r request =
     (let completed = (prs_status request \<noteq> None) in
      bind_result (raise_if (completed \<and> prs_provider_reported_model request = None) (Runner_error Response_unidentified)) (\<lambda>_.
      bind_result (case prs_usage request of
          None \<Rightarrow> Inr None
        | Some f \<Rightarrow> bind_result (lift_runner (UsageCounters_validate (usage_counters_of f))) (\<lambda>u. Inr (Some u))) (\<lambda>usage.
      bind_result (lift_runner (CampaignResources_validate (resources_zero\<lparr>crs_requests := 1,
          crs_input_tokens := (case usage of None \<Rightarrow> crs_input_tokens (rvl_claim r) | Some u \<Rightarrow> ucn_input_tokens u),
          crs_output_tokens := (case usage of None \<Rightarrow> crs_output_tokens (rvl_claim r) | Some u \<Rightarrow> ucn_output_tokens u)\<rparr>))) (\<lambda>actual.
        Inr ((attempt_of provider trial (rvl_claim r) actual)
          \<lparr>par_disposition := (if completed then Attempt_COMPLETED else Attempt_TERMINAL_FAILURE),
           par_provider_reported_model := (if completed then prs_provider_reported_model request else None),
           par_provider_reported_service_tier := (if completed then prs_provider_reported_service_tier request else None),
           par_provider_response_status := (if completed then prs_status request else None),
           par_provider_usage := usage\<rparr>)))))"

definition reconcile_payload :: "CampaignHeader \<Rightarrow> Identifier \<Rightarrow> (Identifier, ProviderRequestState) dict
    \<Rightarrow> Identifier \<times> ReservationLedger \<Rightarrow> runner_failure + CampaignEventPayload option" where
  "reconcile_payload h trial_id requests item =
     (case item of (reservation_id, r) \<Rightarrow>
      (case rvl_provider r of
         None \<Rightarrow> Inr None
       | Some provider \<Rightarrow>
         if rvl_trial_id r \<noteq> trial_id then Inr None
         else
           bind_result (trial_by_id h trial_id) (\<lambda>trial.
           let request = dict_get requests (prb_request_key provider) in
           bind_result (raise_if (\<exists>x\<in>set_option request. request_differs trial provider r x) (Runner_error Request_differs)) (\<lambda>_.
             if \<not> rvl_dispatched r
             then bind_result (raise_if (\<exists>x\<in>set_option request. prs_status x \<noteq> None) (Runner_error Undispatched_response)) (\<lambda>_.
               Inr (Some (ReservationCancelled reservation_id)))
             else case request of
               None \<Rightarrow> Inl (Raised (Runner_error Evidence_missing))
             | Some x \<Rightarrow>
                 bind_result (reconciled_attempt trial provider r x) (\<lambda>attempt.
                   Inr (Some (ProviderAttemptSettled \<lparr>pas_reservation_id = reservation_id, pas_attempt = attempt\<rparr>)))))))"

definition provider_reservation_of :: "Identifier \<Rightarrow> Identifier \<times> ReservationLedger \<Rightarrow> bool" where
  "provider_reservation_of trial_id item \<longleftrightarrow> rvl_trial_id (snd item) = trial_id \<and> rvl_provider (snd item) \<noteq> None"

definition reconcile_factory :: "record_digests \<Rightarrow> CampaignHeader \<Rightarrow> Identifier \<Rightarrow> (Identifier, ProviderRequestState) dict
    \<Rightarrow> (nat \<Rightarrow> string) \<Rightarrow> CampaignRecovery factory" where
  "reconcile_factory dg h trial_id requests uuid record =
     bind_result (lift_runner (replay_campaign_record dg record)) (\<lambda>st.
     bind_result (require_trial h trial_id) (\<lambda>_.
     let items = sorted_items (cpj_reservations st) in
     bind_result (emit_events dg record uuid (\<lambda>_. reconcile_payload h trial_id requests) st items) (\<lambda>events.
       Inr (events, \<lparr>rcv_reservation_ids = map fst (filter (provider_reservation_of trial_id) items),
         rcv_affected_trial_ids = [trial_id]\<rparr>))))"

text \<open>
  The journal is read once to see whether there is anything to recover and again inside the
  transaction; \<open>seen\<close> is the record of the first reading, which another process may have extended.
\<close>

definition runner_recover_incomplete_provider_dispatches :: "record_digests \<Rightarrow> commit_digest \<Rightarrow> Identifier
    \<Rightarrow> ProviderRequestState list \<Rightarrow> (nat \<Rightarrow> string) \<Rightarrow> CampaignRecord \<Rightarrow> CampaignRunner \<Rightarrow> CampaignRecord
    \<Rightarrow> CampaignRecovery option runner_result" where
  "runner_recover_incomplete_provider_dispatches dg digest trial_id provider_requests uuid seen rn record =
     (let requests = dict_of (\<lambda>r. prp_request_id (prs_request r)) id provider_requests in
      case bind_result (ensure_open rn) (\<lambda>_.
           bind_result (raise_if (length requests \<noteq> length provider_requests) (Runner_error Requests_duplicated)) (\<lambda>_.
             lift_runner (replay_campaign_record dg seen))) of
        Inl e \<Rightarrow> (Inl e, rn, record)
      | Inr st \<Rightarrow>
          if \<not> list_ex (provider_reservation_of trial_id) (cpj_reservations st) then (Inr None, rn, record)
          else runner_commit dg digest (reconcile_factory dg (rnr_header rn) trial_id requests uuid)
            (\<lambda>recovery. (Inr (Some recovery), rn)) rn record)"

end
