(* ===== verification/CampaignHandles.thy ===== *)
theory CampaignHandles
  imports CampaignRunner
begin

section \<open>Reservation handles and interleavings\<close>

text \<open>
  The methods of \<open>CampaignReservation\<close> with the private runner methods they call, the adapter
  \<open>CampaignProviderBudget\<close> of \<open>providers/provider_budget.py\<close>, and the system of any number of runners
  over one journal. A method holds the lock of its handle throughout and the lock of its runner for
  the transaction, and only its own methods change a handle, so each method is one step.
\<close>

subsection \<open>Handles\<close>

definition set_handle :: "nat \<Rightarrow> CampaignReservation \<Rightarrow> CampaignRunner \<Rightarrow> CampaignRunner" where
  "set_handle i handle rn = rn\<lparr>rnr_handles := (rnr_handles rn)[i := handle]\<rparr>"

definition require_active :: "nat \<Rightarrow> CampaignRunner \<Rightarrow> runner_failure + unit" where
  "require_active i rn = raise_if (i \<notin> rnr_active rn) (Handle_error Not_active_handle)"

definition runner_mark_dispatched :: "record_digests \<Rightarrow> commit_digest \<Rightarrow> nat \<Rightarrow> (nat \<Rightarrow> string) \<Rightarrow> CampaignRunner \<Rightarrow> CampaignRecord
    \<Rightarrow> unit runner_result" where
  "runner_mark_dispatched dg digest i uuid rn record =
     guarded (require_active i rn)
       (runner_commit dg digest (emit_single dg uuid (ReservationDispatched (crv_reservation_id (rnr_handles rn ! i))))
         (\<lambda>_. (Inr (), rn)) rn record) rn record"

definition handle_mark_dispatched :: "record_digests \<Rightarrow> commit_digest \<Rightarrow> nat \<Rightarrow> (nat \<Rightarrow> string) \<Rightarrow> CampaignRunner \<Rightarrow> CampaignRecord
    \<Rightarrow> unit runner_result" where
  "handle_mark_dispatched dg digest i uuid rn record =
     (let handle = rnr_handles rn ! i in
      guarded (raise_if (crv_settled handle \<or> crv_dispatched handle) (Handle_error Cannot_dispatch))
        (case runner_mark_dispatched dg digest i uuid rn record of
           (Inl e, s) \<Rightarrow> (Inl e, s)
         | (Inr _, rn', record') \<Rightarrow> (Inr (), set_handle i (handle\<lparr>crv_dispatched := True\<rparr>) rn', record')) rn record)"

text \<open>
  The end of every settlement: the runner drops the handle from the active ones, the handle is marked
  as settled, and usage beyond the claim is raised.
\<close>

definition deactivate :: "nat \<Rightarrow> bool \<Rightarrow> CampaignRunner \<Rightarrow> (runner_failure + bool) \<times> CampaignRunner" where
  "deactivate i exceeded rn = (Inr exceeded, rn\<lparr>rnr_active := rnr_active rn - {i}\<rparr>)"

definition finish_settle :: "nat \<Rightarrow> bool runner_result \<Rightarrow> unit runner_result" where
  "finish_settle i result =
     (case result of
        (Inl e, s) \<Rightarrow> (Inl e, s)
      | (Inr exceeded, rn, record) \<Rightarrow>
          (if exceeded then Inl (Raised (Handle_error Usage_exceeded_claim)) else Inr (),
           set_handle i ((rnr_handles rn ! i)\<lparr>crv_settled := True\<rparr>) rn, record))"

definition runner_cancel :: "record_digests \<Rightarrow> commit_digest \<Rightarrow> nat \<Rightarrow> (nat \<Rightarrow> string) \<Rightarrow> CampaignRunner \<Rightarrow> CampaignRecord
    \<Rightarrow> bool runner_result" where
  "runner_cancel dg digest i uuid rn record =
     guarded (require_active i rn)
       (runner_commit dg digest (emit_single dg uuid (ReservationCancelled (crv_reservation_id (rnr_handles rn ! i))))
         (\<lambda>_. deactivate i False rn) rn record) rn record"

definition handle_cancel :: "record_digests \<Rightarrow> commit_digest \<Rightarrow> nat \<Rightarrow> (nat \<Rightarrow> string) \<Rightarrow> CampaignRunner \<Rightarrow> CampaignRecord
    \<Rightarrow> unit runner_result" where
  "handle_cancel dg digest i uuid rn record =
     (let handle = rnr_handles rn ! i in
      guarded (raise_if (crv_settled handle \<or> crv_dispatched handle) (Handle_error Cannot_cancel))
        (finish_settle i (runner_cancel dg digest i uuid rn record)) rn record)"

definition check_work_settlement :: "nat \<Rightarrow> CampaignResources \<Rightarrow> CampaignRunner \<Rightarrow> runner_failure + unit" where
  "check_work_settlement i actual rn =
     (let handle = rnr_handles rn ! i in
      bind_result (raise_if (crv_provider handle \<noteq> None) (Handle_error Provider_handle)) (\<lambda>_.
      bind_result (raise_if (has_provider_resources actual) (Handle_error Provider_resources_reported)) (\<lambda>_.
        raise_if (crv_settled handle \<or> \<not> crv_dispatched handle) (Handle_error Cannot_settle))))"

definition runner_settle_work :: "record_digests \<Rightarrow> commit_digest \<Rightarrow> nat \<Rightarrow> CampaignResources \<Rightarrow> (nat \<Rightarrow> string) \<Rightarrow> CampaignRunner
    \<Rightarrow> CampaignRecord \<Rightarrow> bool runner_result" where
  "runner_settle_work dg digest i actual uuid rn record =
     (let handle = rnr_handles rn ! i in
      guarded (require_active i rn)
        (runner_commit dg digest
          (emit_single dg uuid (WorkSettled \<lparr>wsp_reservation_id = crv_reservation_id handle, wsp_actual = actual\<rparr>))
          (\<lambda>_. deactivate i (resources_exceeds actual (crv_claim handle)) rn) rn record) rn record)"

definition handle_settle_work :: "record_digests \<Rightarrow> commit_digest \<Rightarrow> nat \<Rightarrow> CampaignResources \<Rightarrow> (nat \<Rightarrow> string) \<Rightarrow> CampaignRunner
    \<Rightarrow> CampaignRecord \<Rightarrow> unit runner_result" where
  "handle_settle_work dg digest i actual uuid rn record =
     guarded (check_work_settlement i actual rn)
       (finish_settle i (runner_settle_work dg digest i actual uuid rn record)) rn record"

definition finalize_factory :: "record_digests \<Rightarrow> CampaignReservation \<Rightarrow> CampaignResources \<Rightarrow> TrialRunOutcome \<Rightarrow> (nat \<Rightarrow> string)
    \<Rightarrow> unit factory" where
  "finalize_factory dg handle actual outcome uuid record =
     bind_result (lift_runner (replay_campaign_record dg record)) (\<lambda>st.
     bind_result (emit dg (crc_header record) st (uuid 0) (length (campaign_record_events record))
         (WorkSettled \<lparr>wsp_reservation_id = crv_reservation_id handle, wsp_actual = actual\<rparr>)) (\<lambda>(settled, st).
     bind_result (emit dg (crc_header record) st (uuid 1) (length (campaign_record_events record) + 1)
         (TrialOutcomeRecorded \<lparr>top_trial_id = crv_trial_id handle, top_outcome = outcome\<rparr>)) (\<lambda>(terminal, _).
       Inr ([settled, terminal], ()))))"

definition runner_finalize_run :: "record_digests \<Rightarrow> commit_digest \<Rightarrow> nat \<Rightarrow> CampaignResources \<Rightarrow> TrialRunOutcome
    \<Rightarrow> (nat \<Rightarrow> string) \<Rightarrow> CampaignRunner \<Rightarrow> CampaignRecord \<Rightarrow> bool runner_result" where
  "runner_finalize_run dg digest i actual outcome uuid rn record =
     (let handle = rnr_handles rn ! i in
      guarded (require_active i rn)
        (runner_commit dg digest (finalize_factory dg handle actual outcome uuid)
          (\<lambda>_. deactivate i (resources_exceeds actual (crv_claim handle)) rn) rn record) rn record)"

definition handle_finalize_run :: "record_digests \<Rightarrow> commit_digest \<Rightarrow> nat \<Rightarrow> CampaignResources \<Rightarrow> TrialRunOutcome
    \<Rightarrow> (nat \<Rightarrow> string) \<Rightarrow> CampaignRunner \<Rightarrow> CampaignRecord \<Rightarrow> unit runner_result" where
  "handle_finalize_run dg digest i actual outcome uuid rn record =
     guarded (check_work_settlement i actual rn)
       (finish_settle i (runner_finalize_run dg digest i actual outcome uuid rn record)) rn record"

subsection \<open>Provider settlement\<close>

record provider_response =
  pvr_disposition :: AttemptDisposition
  pvr_usage :: "ProviderUsage option"
  pvr_reported_model :: "string option"
  pvr_reported_service_tier :: "string option"
  pvr_status :: "ProviderResponseStatus option"
  pvr_failure_condition :: "RetryCondition option"

definition check_response :: "RetryPolicy \<Rightarrow> provider_response \<Rightarrow> runner_failure + unit" where
  "check_response policy p =
     (let completed = (pvr_disposition p = Attempt_COMPLETED) in
      bind_result (raise_if ((pvr_disposition p = Attempt_RETRYABLE_FAILURE) \<noteq> (pvr_failure_condition p \<noteq> None))
          (Handle_error Retry_condition_missing)) (\<lambda>_.
      bind_result (raise_if (\<exists>c\<in>set_option (pvr_failure_condition p). c \<notin> set (rty_retry_conditions policy))
          (Handle_error Condition_not_admitted)) (\<lambda>_.
      bind_result (raise_if (completed \<and> (pvr_reported_model p = None \<or> pvr_status p = None))
          (Handle_error Response_missing)) (\<lambda>_.
        raise_if (\<not> completed \<and> (pvr_reported_model p \<noteq> None \<or> pvr_reported_service_tier p \<noteq> None
            \<or> pvr_status p \<noteq> None \<or> pvr_usage p \<noteq> None)) (Handle_error Response_on_failure)))))"

definition provider_actual :: "CampaignResources \<Rightarrow> ProviderUsage option \<Rightarrow> CampaignResources" where
  "provider_actual claimed usage = resources_zero\<lparr>crs_requests := 1,
     crs_input_tokens := (case usage of None \<Rightarrow> crs_input_tokens claimed | Some u \<Rightarrow> pus_input_tokens u),
     crs_output_tokens := (case usage of None \<Rightarrow> crs_output_tokens claimed | Some u \<Rightarrow> pus_output_tokens u)\<rparr>"

definition settled_attempt :: "CampaignHeader \<Rightarrow> CampaignReservation \<Rightarrow> ProviderReservationBinding \<Rightarrow> provider_response
    \<Rightarrow> runner_failure + ProviderAttemptRecord" where
  "settled_attempt h handle provider p =
     bind_result (check_response (cmp_retry_policy (chd_campaign h)) p) (\<lambda>_.
     bind_result (case pvr_usage p of
         None \<Rightarrow> Inr None
       | Some u \<Rightarrow> bind_result (lift_runner (from_provider_usage u)) (\<lambda>counters. Inr (Some counters))) (\<lambda>provider_usage.
     bind_result (lift_runner (CampaignResources_validate (provider_actual (crv_claim handle) (pvr_usage p)))) (\<lambda>actual.
     bind_result (trial_by_id h (crv_trial_id handle)) (\<lambda>trial.
       lift_runner (ProviderAttemptRecord_validate ((attempt_of provider trial (crv_claim handle) actual)
         \<lparr>par_disposition := pvr_disposition p, par_failure_condition := pvr_failure_condition p,
          par_provider_reported_model := pvr_reported_model p,
          par_provider_reported_service_tier := pvr_reported_service_tier p,
          par_provider_response_status := pvr_status p, par_provider_usage := provider_usage\<rparr>))))))"

definition runner_settle_provider :: "record_digests \<Rightarrow> commit_digest \<Rightarrow> nat \<Rightarrow> ProviderReservationBinding \<Rightarrow> provider_response
    \<Rightarrow> (nat \<Rightarrow> string) \<Rightarrow> CampaignRunner \<Rightarrow> CampaignRecord \<Rightarrow> bool runner_result" where
  "runner_settle_provider dg digest i provider p uuid rn record =
     (let handle = rnr_handles rn ! i in
      case settled_attempt (rnr_header rn) handle provider p of
        Inl e \<Rightarrow> (Inl e, rn, record)
      | Inr attempt \<Rightarrow>
          guarded (require_active i rn)
            (runner_commit dg digest
              (emit_single dg uuid (ProviderAttemptSettled \<lparr>pas_reservation_id = crv_reservation_id handle, pas_attempt = attempt\<rparr>))
              (\<lambda>_. deactivate i (resources_exceeds (par_charged_resources attempt) (crv_claim handle)) rn) rn record) rn record)"

definition handle_settle_provider :: "record_digests \<Rightarrow> commit_digest \<Rightarrow> nat \<Rightarrow> provider_response \<Rightarrow> (nat \<Rightarrow> string)
    \<Rightarrow> CampaignRunner \<Rightarrow> CampaignRecord \<Rightarrow> unit runner_result" where
  "handle_settle_provider dg digest i p uuid rn record =
     (let handle = rnr_handles rn ! i in
      case crv_provider handle of
        None \<Rightarrow> (Inl (Raised (Handle_error Work_handle)), rn, record)
      | Some provider \<Rightarrow>
          guarded (bind_result (raise_if ((\<exists>m\<in>set_option (pvr_reported_model p). \<not> label_ok 160 m)
                \<or> (\<exists>t\<in>set_option (pvr_reported_service_tier p). \<not> label_ok 32 t)) (Handle_error Label_invalid)) (\<lambda>_.
              raise_if (crv_settled handle \<or> \<not> crv_dispatched handle) (Handle_error Cannot_settle)))
            (finish_settle i (runner_settle_provider dg digest i provider p uuid rn record)) rn record)"

subsection \<open>The provider adapter\<close>

definition campaign_reserve_provider_attempt :: "record_digests \<Rightarrow> commit_digest \<Rightarrow> Identifier \<Rightarrow> Identifier \<Rightarrow> string
    \<Rightarrow> RequestTokenClaim \<Rightarrow> ProviderSecurityBinding option \<Rightarrow> string \<Rightarrow> (nat \<Rightarrow> string) \<Rightarrow> CampaignRunner \<Rightarrow> CampaignRecord
    \<Rightarrow> nat runner_result" where
  "campaign_reserve_provider_attempt dg digest trial_id request_key requested_model token_claim security_binding reservation uuid rn record =
     (case security_binding of
        None \<Rightarrow> (Inl (Raised (Handle_error Security_binding_missing)), rn, record)
      | Some binding \<Rightarrow> runner_reserve_provider_attempt dg digest trial_id request_key requested_model token_claim binding
          reservation uuid rn record)"

definition completed_response :: "ProviderUsage option \<Rightarrow> string \<Rightarrow> string option \<Rightarrow> ProviderResponseStatus \<Rightarrow> provider_response" where
  "completed_response usage reported_model reported_service_tier status =
     \<lparr>pvr_disposition = Attempt_COMPLETED, pvr_usage = usage, pvr_reported_model = Some reported_model,
      pvr_reported_service_tier = reported_service_tier, pvr_status = Some status, pvr_failure_condition = None\<rparr>"

definition campaign_settle_completed :: "record_digests \<Rightarrow> commit_digest \<Rightarrow> nat \<Rightarrow> ProviderUsage option \<Rightarrow> string \<Rightarrow> string option
    \<Rightarrow> ProviderResponseStatus \<Rightarrow> (nat \<Rightarrow> string) \<Rightarrow> CampaignRunner \<Rightarrow> CampaignRecord \<Rightarrow> unit runner_result" where
  "campaign_settle_completed dg digest i usage reported_model reported_service_tier status uuid rn record =
     handle_settle_provider dg digest i (completed_response usage reported_model reported_service_tier status) uuid rn record"

definition failed_response :: "RetryPolicy \<Rightarrow> RetryCondition option \<Rightarrow> provider_response" where
  "failed_response policy failure_condition =
     (let admitted = (case failure_condition of
            Some c \<Rightarrow> if c \<in> set (rty_retry_conditions policy) then Some c else None | None \<Rightarrow> None) in
      \<lparr>pvr_disposition = (if admitted \<noteq> None then Attempt_RETRYABLE_FAILURE else Attempt_TERMINAL_FAILURE),
       pvr_usage = None, pvr_reported_model = None, pvr_reported_service_tier = None, pvr_status = None,
       pvr_failure_condition = admitted\<rparr>)"

definition campaign_settle_failed :: "record_digests \<Rightarrow> commit_digest \<Rightarrow> nat \<Rightarrow> RetryCondition option \<Rightarrow> (nat \<Rightarrow> string)
    \<Rightarrow> CampaignRunner \<Rightarrow> CampaignRecord \<Rightarrow> unit runner_result" where
  "campaign_settle_failed dg digest i failure_condition uuid rn record =
     handle_settle_provider dg digest i (failed_response (cmp_retry_policy (chd_campaign (rnr_header rn))) failure_condition)
       uuid rn record"

subsection \<open>Interleavings of runners\<close>

text \<open>
  Any number of runners, in any number of processes, share one journal. \<open>Start\<close> is a runner opened on
  the journal, also after a crash; \<open>Act k a\<close> is an operation of the k-th runner; the first reading of
  \<open>Recover_provider\<close> saw the first \<open>n\<close> commits.
\<close>

datatype runner_action =
    Reserve_provider Identifier Identifier string RequestTokenClaim ProviderSecurityBinding string
  | Reserve_work Identifier CampaignResources string
  | Resume_work Identifier
  | Record_outcome Identifier TrialRunOutcome
  | Recover_provider Identifier "ProviderRequestState list" nat
  | Recover
  | Stop StopReason
  | Build_report
  | Mark_dispatched nat
  | Cancel nat
  | Settle_work nat CampaignResources
  | Finalize_run nat CampaignResources TrialRunOutcome
  | Settle_provider nat provider_response

fun handle_of :: "runner_action \<Rightarrow> nat option" where
  "handle_of (Mark_dispatched i) = Some i"
| "handle_of (Cancel i) = Some i"
| "handle_of (Settle_work i _) = Some i"
| "handle_of (Finalize_run i _ _) = Some i"
| "handle_of (Settle_provider i _) = Some i"
| "handle_of _ = None"

definition drop_result :: "'r runner_result \<Rightarrow> unit runner_result" where
  "drop_result x = (case x of (Inl e, s) \<Rightarrow> (Inl e, s) | (Inr _, s) \<Rightarrow> (Inr (), s))"

fun runner_act :: "record_digests \<Rightarrow> commit_digest \<Rightarrow> (nat \<Rightarrow> string) \<Rightarrow> runner_action \<Rightarrow> CampaignRunner \<Rightarrow> CampaignRecord
    \<Rightarrow> unit runner_result" where
  "runner_act dg digest uuid (Reserve_provider trial_id key model token_claim security reservation) rn record =
     drop_result (runner_reserve_provider_attempt dg digest trial_id key model token_claim security reservation uuid rn record)"
| "runner_act dg digest uuid (Reserve_work trial_id claimed reservation) rn record =
     drop_result (runner_reserve_work dg digest trial_id claimed reservation uuid rn record)"
| "runner_act dg digest uuid (Resume_work trial_id) rn record = drop_result (runner_resume_work_reservation dg trial_id rn record)"
| "runner_act dg digest uuid (Record_outcome trial_id outcome) rn record =
     runner_record_outcome dg digest trial_id outcome uuid rn record"
| "runner_act dg digest uuid (Recover_provider trial_id requests n) rn record =
     drop_result (runner_recover_incomplete_provider_dispatches dg digest trial_id requests uuid
       (record\<lparr>crc_commits := take n (crc_commits record)\<rparr>) rn record)"
| "runner_act dg digest uuid Recover rn record = drop_result (runner_recover_incomplete_dispatches dg digest uuid rn record)"
| "runner_act dg digest uuid (Stop reason) rn record = runner_stop_unfinished dg digest reason uuid rn record"
| "runner_act dg digest uuid Build_report rn record = drop_result (runner_build_report dg rn record)"
| "runner_act dg digest uuid (Mark_dispatched i) rn record = handle_mark_dispatched dg digest i uuid rn record"
| "runner_act dg digest uuid (Cancel i) rn record = handle_cancel dg digest i uuid rn record"
| "runner_act dg digest uuid (Settle_work i actual) rn record = handle_settle_work dg digest i actual uuid rn record"
| "runner_act dg digest uuid (Finalize_run i actual outcome) rn record =
     handle_finalize_run dg digest i actual outcome uuid rn record"
| "runner_act dg digest uuid (Settle_provider i p) rn record = handle_settle_provider dg digest i p uuid rn record"

datatype system_action = Start | Act nat "nat \<Rightarrow> string" runner_action

type_synonym campaign_system = "CampaignRunner list \<times> CampaignRecord"

text \<open>An action of a runner or handle that does not exist is no step.\<close>

fun system_step :: "record_digests \<Rightarrow> commit_digest \<Rightarrow> system_action \<Rightarrow> campaign_system \<Rightarrow> campaign_system" where
  "system_step dg digest Start (runners, record) = (runners @ [runner_of (crc_header record)], record)"
| "system_step dg digest (Act k uuid a) (runners, record) =
     (if k < length runners \<and> (\<forall>i\<in>set_option (handle_of a). i < length (rnr_handles (runners ! k)))
      then case runner_act dg digest uuid a (runners ! k) record of (_, rn, record') \<Rightarrow> (runners[k := rn], record')
      else (runners, record))"

definition system_run :: "record_digests \<Rightarrow> commit_digest \<Rightarrow> system_action list \<Rightarrow> campaign_system \<Rightarrow> campaign_system" where
  "system_run dg digest actions s = fold (system_step dg digest) actions s"

definition system_init :: "CampaignHeader \<Rightarrow> campaign_system" where
  "system_init header = ([], \<lparr>crc_header = header, crc_commits = []\<rparr>)"

end
