(* ===== verification/CampaignReplayFacts.thy ===== *)
theory CampaignReplayFacts
  imports CampaignReplay
begin

section \<open>Invariants of campaign accounting\<close>

text \<open>
  Inversion rules for the event handlers, sums over dictionaries, and the invariants that every
  accepted event keeps: conservation of resources, hard limits, the retry discipline, and the
  finality of outcomes. They hold for events as the models construct them, which is what
  \<open>CampaignEvent_validate\<close> says.
\<close>

subsection \<open>Projections of constructed events\<close>

locale guarded_projection =
  fixes step :: "'s \<Rightarrow> 'e \<Rightarrow> 'x + 's" and ok :: "'e \<Rightarrow> bool" and inv :: "'s \<Rightarrow> bool"
  assumes inv_step: "inv s \<Longrightarrow> ok e \<Longrightarrow> step s e = Inr t \<Longrightarrow> inv t"
begin

lemma run_inv: "inv s \<Longrightarrow> list_all ok es \<Longrightarrow> fold_result step s es = Inr t \<Longrightarrow> inv t"
  by (induction es arbitrary: s) (auto intro: inv_step)

end

definition constructed_event :: "record_digests \<Rightarrow> CampaignEvent \<Rightarrow> bool" where
  "constructed_event dg e \<longleftrightarrow> CampaignEvent_validate dg e = Inr e"

subsection \<open>Sums over dictionaries\<close>

lemma dict_split:
  assumes "dict_wf d" "dict_get d k = Some v"
  obtains d1 d2 where "d = d1 @ (k, v) # d2" "k \<notin> set (dict_keys d1)" "k \<notin> set (dict_keys d2)"
proof -
  from assms(2) have "(k, v) \<in> set d" by (rule map_of_SomeD)
  then obtain d1 d2 where d: "d = d1 @ (k, v) # d2" by (meson split_list)
  with assms(1) show ?thesis by (intro that [of d1 d2]) (auto simp: dict_wf_def dict_keys_def)
qed

lemma dict_set_split: "k \<notin> set (dict_keys d1) \<Longrightarrow> dict_set k v (d1 @ (k, u) # d2) = d1 @ (k, v) # d2"
  unfolding dict_set_def dict_keys_def by (induction d1) auto

lemma dict_pop_split:
  "k \<notin> set (dict_keys d1) \<Longrightarrow> k \<notin> set (dict_keys d2) \<Longrightarrow> dict_pop k (d1 @ (k, u) # d2) = d1 @ d2"
  unfolding dict_pop_def dict_keys_def by (induction d1) (auto intro: delete_idem simp: delete_idem)

lemma dict_keys_same: "dict_get d k = Some u \<Longrightarrow> set (dict_keys (dict_set k w d)) = set (dict_keys d)"
  using dict_get_Some_keys by (fastforce simp: dict_simps)

lemma sum_dict_set:
  fixes g :: "'v \<Rightarrow> int"
  assumes "dict_wf d" "dict_get d k = Some u"
  shows "(\<Sum>v\<leftarrow>dict_values (dict_set k w d). g v) = (\<Sum>v\<leftarrow>dict_values d. g v) - g u + g w"
proof -
  obtain d1 d2 where "d = d1 @ (k, u) # d2" "k \<notin> set (dict_keys d1)" by (rule dict_split [OF assms])
  then show ?thesis by (simp add: dict_set_split)
qed

lemma sum_dict_fresh:
  fixes g :: "'v \<Rightarrow> int"
  shows "k \<notin> set (dict_keys d) \<Longrightarrow> (\<Sum>v\<leftarrow>dict_values (dict_set k w d). g v) = (\<Sum>v\<leftarrow>dict_values d. g v) + g w"
  by (simp add: dict_set_fresh)

lemma sum_dict_pop:
  fixes g :: "'v \<Rightarrow> int"
  assumes "dict_wf d" "dict_get d k = Some u"
  shows "(\<Sum>v\<leftarrow>dict_values (dict_pop k d). g v) = (\<Sum>v\<leftarrow>dict_values d. g v) - g u"
proof -
  obtain d1 d2 where "d = d1 @ (k, u) # d2" "k \<notin> set (dict_keys d1)" "k \<notin> set (dict_keys d2)"
    by (rule dict_split [OF assms])
  then show ?thesis by (simp add: dict_pop_split)
qed

lemma dict_values_set: "v \<in> set (dict_values (dict_set k w d)) \<Longrightarrow> v = w \<or> v \<in> set (dict_values d)"
  unfolding dict_set_def dict_values_def by (induction d) (auto split: if_splits)

lemma dict_values_pop: "v \<in> set (dict_values (dict_pop k d)) \<Longrightarrow> v \<in> set (dict_values d)"
  unfolding dict_pop_def dict_values_def by (induction d) (auto split: if_splits)

subsection \<open>Resources\<close>

named_theorems resource_simps \<open>projections of resource arithmetic\<close>

definition counter_additive :: "(CampaignResources \<Rightarrow> int) \<Rightarrow> bool" where
  "counter_additive f \<longleftrightarrow> f resources_zero = 0 \<and> (\<forall>a b. f (resources_add a b) = f a + f b
     \<and> f (resources_subtract a b) = f a - f b)"

lemma counter_additiveD [resource_simps]:
  assumes "counter_additive f"
  shows "f resources_zero = 0" "f (resources_add a b) = f a + f b" "f (resources_subtract a b) = f a - f b"
  using assms by (auto simp: counter_additive_def)

lemma resource_fields_additive: "f \<in> set resource_fields \<Longrightarrow> counter_additive f"
  by (auto simp: resource_fields_def counter_additive_def resources_zero_def resources_add_def resources_subtract_def)

lemma dimension_value_additive: "counter_additive (dimension_value d)"
  by (cases d) (auto simp: counter_additive_def resources_zero_def resources_add_def resources_subtract_def)

definition nonneg_resources :: "CampaignResources \<Rightarrow> bool" where
  "nonneg_resources r \<longleftrightarrow> (\<forall>f\<in>set resource_fields. 0 \<le> f r)"

lemma validated_resources_nonneg: "CampaignResources_validate r = Inr s \<Longrightarrow> nonneg_resources r \<and> s = r"
  by (auto simp: CampaignResources_validate_def nonneg_resources_def list_all_iff jcs_nonnegative_ok_def split: if_splits)

lemma nonneg_resources_zero: "nonneg_resources resources_zero"
  by (auto simp: nonneg_resources_def resource_fields_def resources_zero_def)

lemma dimension_value_mono:
  assumes "\<not> resources_exceeds a b"
  shows "dimension_value d a \<le> dimension_value d b"
  using assms by (cases d) (auto simp: resources_exceeds_def resource_fields_def)

lemma dimension_value_nonneg: "nonneg_resources r \<Longrightarrow> 0 \<le> dimension_value d r"
  by (cases d) (auto simp: nonneg_resources_def resource_fields_def)

lemma resources_add_zero: "resources_add r resources_zero = r"
  by (simp add: resources_add_def resources_zero_def)

lemma zero_not_exceeds: "nonneg_resources r \<Longrightarrow> \<not> resources_exceeds resources_zero r"
  by (auto simp: resources_exceeds_def nonneg_resources_def resource_fields_def resources_zero_def)

text \<open>A released reservation is one that is settled at no cost.\<close>

lemma release_is_settle:
  assumes "nonneg_resources (rvl_claim r)"
  shows "release_reservation i r st = settle_reservation i r resources_zero st"
  using zero_not_exceeds [OF assms]
  by (simp add: release_reservation_def settle_reservation_def resources_add_zero Let_def)

subsection \<open>Conservation\<close>

definition accounting_inv :: "CampaignHeader \<Rightarrow> CampaignProjection \<Rightarrow> bool" where
  "accounting_inv h st \<longleftrightarrow>
     dict_wf (cpj_ledgers st) \<and> dict_wf (cpj_reservations st)
     \<and> set (dict_keys (cpj_ledgers st)) = sct_trial_id ` set (csc_trials (chd_schedule h))
     \<and> (\<forall>r\<in>set (dict_values (cpj_reservations st)). nonneg_resources (rvl_claim r)
          \<and> rvl_trial_id r \<in> set (dict_keys (cpj_ledgers st)))
     \<and> (\<forall>f. counter_additive f \<longrightarrow>
          f (cpj_reserved st) = (\<Sum>r\<leftarrow>dict_values (cpj_reservations st). f (rvl_claim r))
          \<and> f (cpj_committed st) = (\<Sum>l\<leftarrow>dict_values (cpj_ledgers st). f (tpr_committed l))
          \<and> (\<forall>t l. dict_get (cpj_ledgers st) t = Some l \<longrightarrow>
               f (tpr_reserved l) = (\<Sum>r\<leftarrow>dict_values (cpj_reservations st).
                 if rvl_trial_id r = t then f (rvl_claim r) else 0)))"

lemma accounting_inv_init: "accounting_inv h (campaign_projection_init h)"
proof -
  let ?L = "dict_of sct_trial_id (\<lambda>_. TrialProjection_init) (csc_trials (chd_schedule h))"
  have "l = TrialProjection_init" if "l \<in> set (dict_values ?L)" for l
  proof -
    from that obtain k where "dict_get ?L k = Some l" by (auto simp: dict_values_get)
    from dict_get_dict_of_SomeD [OF this] show ?thesis by auto
  qed
  moreover have zero: "f (tpr_committed TrialProjection_init) = 0" if "counter_additive f" for f
    using that by (simp add: TrialProjection_init_def resource_simps)
  ultimately have zeros: "map (\<lambda>l. f (tpr_committed l)) (dict_values ?L) = map (\<lambda>_. 0) (dict_values ?L)"
    if "counter_additive f" for f
    using zero [OF that] by (intro map_cong refl) metis
  then have "(\<Sum>l\<leftarrow>dict_values ?L. f (tpr_committed l)) = 0" if "counter_additive f" for f
    unfolding zeros [OF that] by simp
  then show ?thesis
    by (auto simp: accounting_inv_def campaign_projection_init_def resource_simps dict_simps TrialProjection_init_def
        dest!: dict_get_dict_of_SomeD)
qed

lemma accounting_inv_ledger:
  assumes inv: "accounting_inv h st" and l: "dict_get (cpj_ledgers st) t = Some l"
    and same: "tpr_committed l' = tpr_committed l" "tpr_reserved l' = tpr_reserved l"
  shows "accounting_inv h (st\<lparr>cpj_ledgers := dict_set t l' (cpj_ledgers st)\<rparr>)"
proof -
  have "t \<in> set (dict_keys (cpj_ledgers st))" using l by (rule dict_get_Some_keys)
  moreover have "dict_wf (cpj_ledgers st)" using inv by (simp add: accounting_inv_def)
  note sum = sum_dict_set [OF this l]
  ultimately show ?thesis
    using inv l same by (auto simp: accounting_inv_def dict_simps sum insert_absorb)
qed

lemma accounting_inv_reserve:
  assumes inv: "accounting_inv h st" and l: "dict_get (cpj_ledgers st) (rvl_trial_id r) = Some l"
    and fresh: "i \<notin> set (dict_keys (cpj_reservations st))" and c: "nonneg_resources (rvl_claim r)"
  shows "accounting_inv h (st\<lparr>cpj_reserved := resources_add (cpj_reserved st) (rvl_claim r),
     cpj_ledgers := dict_set (rvl_trial_id r) (l\<lparr>tpr_reserved := resources_add (tpr_reserved l) (rvl_claim r)\<rparr>)
       (cpj_ledgers st),
     cpj_reservations := dict_set i r (cpj_reservations st)\<rparr>)"
proof -
  note keys = dict_keys_same [OF l]
  have wf: "dict_wf (cpj_ledgers st)" using inv by (simp add: accounting_inv_def)
  show ?thesis
    using inv l c dict_get_Some_keys [OF l]
    by (auto simp: accounting_inv_def keys dict_get_set sum_dict_set [OF wf l] sum_dict_fresh [OF fresh]
        resource_simps dest!: dict_values_set simp del: image_iff)
qed

lemma accounting_inv_cong:
  assumes "cpj_ledgers st' = cpj_ledgers st" "cpj_reservations st' = cpj_reservations st"
    "cpj_committed st' = cpj_committed st" "cpj_reserved st' = cpj_reserved st"
  shows "accounting_inv h st' = accounting_inv h st"
  by (simp add: accounting_inv_def assms)

lemma accounting_inv_dispatch:
  assumes inv: "accounting_inv h st" and r: "dict_get (cpj_reservations st) i = Some r"
  shows "accounting_inv h (st\<lparr>cpj_reservations := dict_set i (r\<lparr>rvl_dispatched := True\<rparr>) (cpj_reservations st)\<rparr>)"
proof -
  have wf: "dict_wf (cpj_reservations st)" using inv by (simp add: accounting_inv_def)
  have "r \<in> set (dict_values (cpj_reservations st))" using r by (rule dict_get_values)
  then show ?thesis
    using inv by (auto simp: accounting_inv_def sum_dict_set [OF wf r] dest!: dict_values_set)
qed

subsection \<open>Inversion of the handlers\<close>

lemma active_reservation_Inr [simp]:
  "active_reservation st i = Inr r \<longleftrightarrow> dict_get (cpj_reservations st) i = Some r"
  by (simp add: active_reservation_def split: option.splits)

lemma trial_ledger_Inr [simp]: "trial_ledger st t = Inr l \<longleftrightarrow> dict_get (cpj_ledgers st) t = Some l"
  by (simp add: trial_ledger_def split: option.splits)

lemma ready_Inr:
  "ready_campaign_projection st t = Inr l \<longleftrightarrow> dict_get (cpj_ledgers st) t = Some l \<and> tpr_outcome l = None
     \<and> cpj_global_stop_dimension st = None \<and> dict_get (cpj_trial_stop_dimensions st) t = None
     \<and> \<not> cpj_budget_violation st"
  by (auto simp: ready_campaign_projection_def split: option.splits if_splits)

lemma first_exceeded_None:
  "first_exceeded current claimed limits = None \<longleftrightarrow>
     (\<forall>d. dimension_value d current + dimension_value d claimed \<le> limits d)"
proof -
  have "d \<in> set all_dimensions" for d by (cases d) (simp_all add: all_dimensions_def)
  then show ?thesis by (auto simp: first_exceeded_def find_None_iff not_less)
qed

lemma created_E:
  assumes "apply_reservation_created dg h p st = Inr st'"
  obtains l where "rvc_reservation_id p \<notin> set (dict_keys (cpj_reservations st))"
    "ready_campaign_projection st (rvc_trial_id p) = Inr l"
    "rvc_provider p = None \<Longrightarrow> crs_requests (rvc_claim p) = 0 \<and> crs_input_tokens (rvc_claim p) = 0
       \<and> crs_output_tokens (rvc_claim p) = 0"
    "\<And>b. rvc_provider p = Some b \<Longrightarrow> check_provider_reservation dg h st (rvc_trial_id p) l (rvc_claim p) b = Inr ()"
    "reservation_rejection (chd_campaign h) st (rvc_trial_id p) (rvc_claim p) (rvc_provider p \<noteq> None) = Inr None"
    "st' = st\<lparr>cpj_reserved := resources_add (cpj_reserved st) (rvc_claim p),
       cpj_ledgers := dict_set (rvc_trial_id p) (l\<lparr>tpr_reserved := resources_add (tpr_reserved l) (rvc_claim p)\<rparr>)
         (cpj_ledgers st),
       cpj_reservations := dict_set (rvc_reservation_id p) \<lparr>rvl_trial_id = rvc_trial_id p, rvl_claim = rvc_claim p,
         rvl_provider = rvc_provider p, rvl_dispatched = False\<rparr> (cpj_reservations st)\<rparr>"
  using assms unfolding apply_reservation_created_def Let_def
  apply (elim bind_result_InrE)
  subgoal for a b l c rejection d
    by (rule that [of l]) (cases rejection; simp split: option.splits)+
  done

lemma rejection_None:
  "reservation_rejection c st t claimed b = Inr None \<longleftrightarrow>
     (\<exists>l. ready_campaign_projection st t = Inr l
       \<and> (b \<longrightarrow> crs_input_tokens claimed \<le> ctl_max_input_tokens_per_request (cmp_token_limits c)
           \<and> crs_output_tokens claimed \<le> ctl_max_output_tokens_per_request (cmp_token_limits c))
       \<and> (\<forall>d. dimension_value d (resources_add (cpj_committed st) (cpj_reserved st)) + dimension_value d claimed
             \<le> campaign_limit c False d)
       \<and> (\<forall>d. dimension_value d (resources_add (tpr_committed l) (tpr_reserved l)) + dimension_value d claimed
             \<le> campaign_limit c True d))"
  by (auto simp: reservation_rejection_def first_exceeded_None not_less split: option.splits if_splits)

lemma dict_set_set: "dict_set k v (dict_set k w d) = dict_set k v d"
  unfolding dict_set_def by (induction d) auto

text \<open>
  Settling, cancelling and settling a provider attempt all replace one ledger, drop one
  reservation and move its claim: the common form of the resulting state.
\<close>

definition settled_state :: "Identifier \<Rightarrow> ReservationLedger \<Rightarrow> CampaignResources \<Rightarrow> bool \<Rightarrow> TrialProjection
    \<Rightarrow> CampaignProjection \<Rightarrow> CampaignProjection" where
  "settled_state i r actual violation l st =
     st\<lparr>cpj_reserved := resources_subtract (cpj_reserved st) (rvl_claim r),
        cpj_committed := resources_add (cpj_committed st) actual,
        cpj_ledgers := dict_set (rvl_trial_id r)
          (l\<lparr>tpr_reserved := resources_subtract (tpr_reserved l) (rvl_claim r),
             tpr_committed := resources_add (tpr_committed l) actual,
             tpr_accounting_violation := (tpr_accounting_violation l \<or> violation)\<rparr>) (cpj_ledgers st),
        cpj_budget_violation := (cpj_budget_violation st \<or> violation),
        cpj_reservations := dict_pop i (cpj_reservations st)\<rparr>"

lemma dispatched_E:
  assumes "apply_dispatched i st = Inr st'"
  obtains r where "dict_get (cpj_reservations st) i = Some r" "\<not> rvl_dispatched r"
    "st' = st\<lparr>cpj_reservations := dict_set i (r\<lparr>rvl_dispatched := True\<rparr>) (cpj_reservations st)\<rparr>"
  using assms by (auto simp: apply_dispatched_def)

lemma cancelled_E:
  assumes "apply_cancelled i st = Inr st'"
    and "\<And>r. dict_get (cpj_reservations st) i = Some r \<Longrightarrow> nonneg_resources (rvl_claim r)"
  obtains r l xs where "dict_get (cpj_reservations st) i = Some r" "\<not> rvl_dispatched r"
    "dict_get (cpj_ledgers st) (rvl_trial_id r) = Some l"
    "st' = settled_state i r resources_zero False (l\<lparr>tpr_cancelled_provider_requests := xs\<rparr>) st"
proof -
  from assms(1) obtain r where r: "dict_get (cpj_reservations st) i = Some r" "\<not> rvl_dispatched r"
    by (auto simp: apply_cancelled_def)
  note c = zero_not_exceeds [OF assms(2) [OF r(1)]] release_is_settle [OF assms(2) [OF r(1)]]
  show ?thesis
  proof (cases "rvl_provider r")
    case None
    with assms(1) r c obtain l where "dict_get (cpj_ledgers st) (rvl_trial_id r) = Some l"
      "st' = settled_state i r resources_zero False (l\<lparr>tpr_cancelled_provider_requests
         := tpr_cancelled_provider_requests l\<rparr>) st"
      by (auto simp: apply_cancelled_def settle_reservation_def settled_state_def Let_def)
    with r show ?thesis by (rule that)
  next
    case (Some b)
    with assms(1) r c obtain l where "dict_get (cpj_ledgers st) (rvl_trial_id r) = Some l"
      "st' = settled_state i r resources_zero False (l\<lparr>tpr_cancelled_provider_requests
         := insert (prb_request_key b) (tpr_cancelled_provider_requests l)\<rparr>) st"
      by (auto simp: apply_cancelled_def settle_reservation_def settled_state_def Let_def dict_get_set dict_set_set)
    with r show ?thesis by (rule that)
  qed
qed

lemma work_settled_E:
  assumes "apply_work_settled p st = Inr st'"
  obtains r l where "dict_get (cpj_reservations st) (wsp_reservation_id p) = Some r" "rvl_provider r = None"
    "rvl_dispatched r" "crs_requests (wsp_actual p) = 0" "crs_input_tokens (wsp_actual p) = 0"
    "crs_output_tokens (wsp_actual p) = 0" "dict_get (cpj_ledgers st) (rvl_trial_id r) = Some l"
    "st' = settled_state (wsp_reservation_id p) r (wsp_actual p) (resources_exceeds (wsp_actual p) (rvl_claim r)) l st"
  using assms by (auto simp: apply_work_settled_def settle_reservation_def settled_state_def Let_def)

lemma provider_settled_E:
  assumes "apply_provider_settlement h p st = Inr st'"
  obtains r b trial l where "dict_get (cpj_reservations st) (pas_reservation_id p) = Some r" "rvl_provider r = Some b"
    "rvl_dispatched r" "find_trial h (rvl_trial_id r) = Inr trial"
    "\<not> attempt_differs (pas_attempt p) b r (sct_binding trial)"
    "\<And>x. par_failure_condition (pas_attempt p) = Some x \<Longrightarrow>
       x \<in> set (rty_retry_conditions (cmp_retry_policy (chd_campaign h)))"
    "dict_get (cpj_ledgers st) (rvl_trial_id r) = Some l"
    "st' = settled_state (pas_reservation_id p) r (par_charged_resources (pas_attempt p))
       (resources_exceeds (par_charged_resources (pas_attempt p)) (rvl_claim r) \<or> par_provider_usage (pas_attempt p) = None)
       (l\<lparr>tpr_attempts := tpr_attempts l @ [pas_attempt p]\<rparr>) st"
proof -
  from assms obtain r b where r: "dict_get (cpj_reservations st) (pas_reservation_id p) = Some r" "rvl_provider r = Some b"
    by (auto simp: apply_provider_settlement_def Let_def split: option.splits)
  with assms obtain trial l where f: "rvl_dispatched r" "find_trial h (rvl_trial_id r) = Inr trial"
    "\<not> attempt_differs (pas_attempt p) b r (sct_binding trial)"
    "dict_get (cpj_ledgers st) (rvl_trial_id r) = Some l"
    by (auto simp: apply_provider_settlement_def Let_def settle_reservation_def)
  have adm: "x \<in> set (rty_retry_conditions (cmp_retry_policy (chd_campaign h)))"
    if "par_failure_condition (pas_attempt p) = Some x" for x
    using assms r f that by (auto simp: apply_provider_settlement_def Let_def)
  have "st' = settled_state (pas_reservation_id p) r (par_charged_resources (pas_attempt p))
       (resources_exceeds (par_charged_resources (pas_attempt p)) (rvl_claim r) \<or> par_provider_usage (pas_attempt p) = None)
       (l\<lparr>tpr_attempts := tpr_attempts l @ [pas_attempt p]\<rparr>) st"
    using assms r f
    by (cases l, cases st) (auto simp: apply_provider_settlement_def Let_def settle_reservation_def settled_state_def
        dict_get_set dict_set_set disj_assoc)
  with r f adm show ?thesis by (intro that)
qed

lemma trial_outcome_E:
  assumes "apply_trial_outcome dg h p st = Inr st'"
  obtains l where "dict_get (cpj_ledgers st) (top_trial_id p) = Some l" "tpr_outcome l = None"
    "\<forall>r\<in>set (dict_values (cpj_reservations st)). rvl_trial_id r \<noteq> top_trial_id p"
    "cpj_ledgers st' = dict_set (top_trial_id p) (l\<lparr>tpr_outcome := Some (top_outcome p)\<rparr>) (cpj_ledgers st)"
    "cpj_reservations st' = cpj_reservations st" "cpj_committed st' = cpj_committed st"
    "cpj_reserved st' = cpj_reserved st" "cpj_budget_violation st' = cpj_budget_violation st"
  using assms by (auto simp: apply_trial_outcome_def Let_def list_ex_iff split: option.splits)

lemma budget_stopped_E:
  assumes "apply_budget_stopped h p st = Inr st'"
  obtains "cpj_ledgers st' = cpj_ledgers st" "cpj_reservations st' = cpj_reservations st"
    "cpj_committed st' = cpj_committed st" "cpj_reserved st' = cpj_reserved st"
    "cpj_budget_violation st' = cpj_budget_violation st"
  using assms by (auto simp: apply_budget_stopped_def split: if_splits)

subsection \<open>Conservation is kept\<close>

lemma accounting_inv_settled:
  assumes inv: "accounting_inv h st" and r: "dict_get (cpj_reservations st) i = Some r"
    and l: "dict_get (cpj_ledgers st) (rvl_trial_id r) = Some l"
    and same: "tpr_committed l' = tpr_committed l" "tpr_reserved l' = tpr_reserved l"
  shows "accounting_inv h (settled_state i r actual violation l' st)"
proof -
  note keys = dict_keys_same [OF l]
  have wf: "dict_wf (cpj_ledgers st)" "dict_wf (cpj_reservations st)" using inv by (simp_all add: accounting_inv_def)
  show ?thesis
    using inv l same
    by (auto simp: settled_state_def accounting_inv_def keys dict_get_set sum_dict_set [OF wf(1) l]
        sum_dict_pop [OF wf(2) r] resource_simps dest!: dict_values_pop)
qed

lemma constructed_payload:
  "constructed_event dg e \<Longrightarrow> campaign_payload_validate dg (cev_payload e) = Inr ()"
  by (auto simp: constructed_event_def CampaignEvent_validate_def split: if_splits)

lemma reserved_claim_nonneg:
  "accounting_inv h st \<Longrightarrow> dict_get (cpj_reservations st) i = Some r \<Longrightarrow> nonneg_resources (rvl_claim r)"
  using dict_get_values by (fastforce simp: accounting_inv_def)

lemma accounting_inv_step:
  assumes inv: "accounting_inv h st" and ok: "constructed_event dg e"
    and step: "apply_campaign_event dg h st e = Inr st'"
  shows "accounting_inv h st'"
proof (cases "cev_payload e")
  case (ReservationCreated p)
  then have c: "nonneg_resources (rvc_claim p)"
    using constructed_payload [OF ok] validated_resources_nonneg by auto
  from step ReservationCreated have "apply_reservation_created dg h p st = Inr st'" by (simp add: apply_campaign_event_def)
  then show ?thesis
    by (rule created_E)
      (use accounting_inv_reserve [OF inv, of "\<lparr>rvl_trial_id = rvc_trial_id p, rvl_claim = rvc_claim p,
         rvl_provider = rvc_provider p, rvl_dispatched = False\<rparr>"] c in \<open>simp add: ready_Inr\<close>)
next
  case (ReservationDispatched i)
  from step ReservationDispatched have "apply_dispatched i st = Inr st'" by (simp add: apply_campaign_event_def)
  then show ?thesis by (rule dispatched_E) (use accounting_inv_dispatch [OF inv] in simp)
next
  case (ReservationCancelled i)
  from step ReservationCancelled have "apply_cancelled i st = Inr st'" by (simp add: apply_campaign_event_def)
  from this reserved_claim_nonneg [OF inv] show ?thesis
    by (rule cancelled_E) (auto intro: accounting_inv_settled [OF inv])
next
  case (WorkSettled p)
  from step WorkSettled have "apply_work_settled p st = Inr st'" by (simp add: apply_campaign_event_def)
  then show ?thesis by (rule work_settled_E) (auto intro: accounting_inv_settled [OF inv])
next
  case (ProviderAttemptSettled p)
  from step ProviderAttemptSettled have "apply_provider_settlement h p st = Inr st'" by (simp add: apply_campaign_event_def)
  then show ?thesis by (rule provider_settled_E) (auto intro: accounting_inv_settled [OF inv])
next
  case (TrialOutcomeRecorded p)
  from step TrialOutcomeRecorded have "apply_trial_outcome dg h p st = Inr st'" by (simp add: apply_campaign_event_def)
  then show ?thesis
  proof (rule trial_outcome_E)
    fix l assume l: "dict_get (cpj_ledgers st) (top_trial_id p) = Some l"
      "cpj_ledgers st' = dict_set (top_trial_id p) (l\<lparr>tpr_outcome := Some (top_outcome p)\<rparr>) (cpj_ledgers st)"
      "cpj_reservations st' = cpj_reservations st" "cpj_committed st' = cpj_committed st"
      "cpj_reserved st' = cpj_reserved st"
    from accounting_inv_ledger [OF inv l(1), of "l\<lparr>tpr_outcome := Some (top_outcome p)\<rparr>"] l(2-) show ?thesis
      using accounting_inv_cong [of st' "st\<lparr>cpj_ledgers := cpj_ledgers st'\<rparr>" h] by simp
  qed
next
  case (BudgetStopped p)
  from step BudgetStopped have "apply_budget_stopped h p st = Inr st'" by (simp add: apply_campaign_event_def)
  then show ?thesis by (rule budget_stopped_E) (use inv accounting_inv_cong in blast)
qed

interpretation accounting: guarded_projection "apply_campaign_event dg h" "constructed_event dg" "accounting_inv h" for dg h
  by unfold_locales (rule accounting_inv_step)

subsection \<open>Hard limits\<close>

definition claim_shape :: "ReservationLedger \<Rightarrow> bool" where
  "claim_shape r \<longleftrightarrow> (case rvl_provider r of
     None \<Rightarrow> crs_requests (rvl_claim r) = 0 \<and> crs_input_tokens (rvl_claim r) = 0 \<and> crs_output_tokens (rvl_claim r) = 0
   | Some _ \<Rightarrow> crs_requests (rvl_claim r) = 1)"

definition within_limit :: "(BudgetDimension \<Rightarrow> int) \<Rightarrow> BudgetDimension \<Rightarrow> CampaignResources \<Rightarrow> CampaignResources \<Rightarrow> bool" where
  "within_limit limits d committed reserved \<longleftrightarrow> dimension_value d committed + dimension_value d reserved \<le> limits d"

definition limits_inv :: "CampaignHeader \<Rightarrow> CampaignProjection \<Rightarrow> bool" where
  "limits_inv h st \<longleftrightarrow>
     (\<forall>r\<in>set (dict_values (cpj_reservations st)). claim_shape r)
     \<and> (\<forall>d. d = Dim_REQUESTS \<or> \<not> cpj_budget_violation st \<longrightarrow>
          within_limit (campaign_limit (chd_campaign h) False) d (cpj_committed st) (cpj_reserved st)
          \<and> (\<forall>t l. dict_get (cpj_ledgers st) t = Some l \<longrightarrow>
               within_limit (campaign_limit (chd_campaign h) True) d (tpr_committed l) (tpr_reserved l)))"

lemma campaign_limit_nonneg:
  assumes "CampaignSpec_validate raw = Inr c"
  shows "0 \<le> campaign_limit c b d"
proof -
  note facts = CampaignSpec_validate_facts(9,10) [OF assms]
  have "list_all jcs_positive_ok [ctl_max_requests (cmp_token_limits c), ctl_max_requests_per_trial (cmp_token_limits c),
     ctl_max_input_tokens_per_trial (cmp_token_limits c), ctl_max_output_tokens_per_trial (cmp_token_limits c),
     ctl_max_total_tokens_per_trial (cmp_token_limits c), ctl_max_input_tokens (cmp_token_limits c),
     ctl_max_output_tokens (cmp_token_limits c), ctl_max_total_tokens (cmp_token_limits c)]"
    using facts(1) by (auto simp: CampaignTokenLimits_validate_def Let_def split: if_splits)
  moreover have "list_all jcs_positive_ok [cel_max_turns_per_trial (cmp_execution_limits c),
     cel_max_tool_calls_per_trial (cmp_execution_limits c), cel_max_wall_seconds_per_trial (cmp_execution_limits c),
     cel_max_eda_compute_seconds_per_trial (cmp_execution_limits c), cel_max_artifact_bytes_per_trial (cmp_execution_limits c),
     cel_max_turns (cmp_execution_limits c), cel_max_tool_calls (cmp_execution_limits c),
     cel_max_wall_seconds (cmp_execution_limits c), cel_max_eda_compute_seconds (cmp_execution_limits c),
     cel_max_artifact_bytes (cmp_execution_limits c)]"
    "jcs_nonnegative_ok (cel_max_license_seconds_per_trial (cmp_execution_limits c))"
    "jcs_nonnegative_ok (cel_max_license_seconds (cmp_execution_limits c))"
    using facts(2) by (auto simp: CampaignExecutionLimits_validate_def split: if_splits)
  ultimately show ?thesis
    by (cases d; cases b) (simp_all add: jcs_positive_ok_def jcs_nonnegative_ok_def)
qed

lemma limits_inv_init:
  assumes "CampaignSpec_validate raw = Inr (chd_campaign h)"
  shows "limits_inv h (campaign_projection_init h)"
  using campaign_limit_nonneg [OF assms]
  by (auto simp: limits_inv_def campaign_projection_init_def within_limit_def TrialProjection_init_def
      counter_additiveD [OF dimension_value_additive] dest!: dict_get_dict_of_SomeD)

lemma limits_inv_cong:
  assumes "cpj_ledgers st' = cpj_ledgers st" "cpj_reservations st' = cpj_reservations st"
    "cpj_committed st' = cpj_committed st" "cpj_reserved st' = cpj_reserved st"
    "cpj_budget_violation st' = cpj_budget_violation st"
  shows "limits_inv h st' = limits_inv h st"
  by (simp add: limits_inv_def assms)

lemma limits_inv_settled:
  assumes inv: "limits_inv h st"
    and l: "dict_get (cpj_ledgers st) (rvl_trial_id r) = Some l"
    and same: "tpr_committed l' = tpr_committed l" "tpr_reserved l' = tpr_reserved l"
    and viol: "resources_exceeds actual (rvl_claim r) \<Longrightarrow> violation"
    and req: "crs_requests actual \<le> crs_requests (rvl_claim r)"
  shows "limits_inv h (settled_state i r actual violation l' st)"
proof -
  have le: "dimension_value d actual \<le> dimension_value d (rvl_claim r)" if "d = Dim_REQUESTS \<or> \<not> violation" for d
    using that req viol dimension_value_mono by (cases "d = Dim_REQUESTS") auto
  show ?thesis
    unfolding limits_inv_def
  proof (intro conjI allI impI)
    show "\<forall>r\<in>set (dict_values (cpj_reservations (settled_state i r actual violation l' st))). claim_shape r"
      using inv by (auto simp: limits_inv_def settled_state_def dest!: dict_values_pop)
  next
    fix d
    assume "d = Dim_REQUESTS \<or> \<not> cpj_budget_violation (settled_state i r actual violation l' st)"
    then have d: "d = Dim_REQUESTS \<or> \<not> cpj_budget_violation st" "d = Dim_REQUESTS \<or> \<not> violation"
      by (auto simp: settled_state_def)
    have old: "within_limit (campaign_limit (chd_campaign h) False) d (cpj_committed st) (cpj_reserved st)"
      "\<And>t l. dict_get (cpj_ledgers st) t = Some l \<Longrightarrow>
         within_limit (campaign_limit (chd_campaign h) True) d (tpr_committed l) (tpr_reserved l)"
      using inv d(1) by (auto simp: limits_inv_def)
    show "within_limit (campaign_limit (chd_campaign h) False) d (cpj_committed (settled_state i r actual violation l' st))
        (cpj_reserved (settled_state i r actual violation l' st))"
      using old(1) le [OF d(2)] by (simp add: settled_state_def within_limit_def counter_additiveD [OF dimension_value_additive])
    fix t m
    assume "dict_get (cpj_ledgers (settled_state i r actual violation l' st)) t = Some m"
    then show "within_limit (campaign_limit (chd_campaign h) True) d (tpr_committed m) (tpr_reserved m)"
      using old(2) l same le [OF d(2)]
      by (auto simp: settled_state_def within_limit_def counter_additiveD [OF dimension_value_additive] dict_get_set
          split: if_splits) force
  qed
qed

subsection \<open>One case analysis for all invariants\<close>

text \<open>
  What a settlement charges: a cancelled reservation nothing, work no provider resources, and a
  provider attempt one request and the tokens it reports, in a record that matches the reservation.
\<close>

definition attempt_matches :: "CampaignSpec \<Rightarrow> ReservationLedger \<Rightarrow> ProviderReservationBinding \<Rightarrow> ProviderAttemptRecord \<Rightarrow> bool" where
  "attempt_matches c r b a \<longleftrightarrow> rvl_provider r = Some b
     \<and> par_request_key a = prb_request_key b \<and> par_attempt_number a = prb_attempt_number b
     \<and> rtc_input_tokens (par_reserved_token_claim a) = crs_input_tokens (rvl_claim r)
     \<and> rtc_output_tokens (par_reserved_token_claim a) = crs_output_tokens (rvl_claim r)
     \<and> rtc_observed_input_token_floor (par_reserved_token_claim a) = prb_observed_input_token_floor b
     \<and> par_security_binding a = prb_security_binding b
     \<and> request_and_tokens_only (par_charged_resources a) \<and> nonneg_resources (par_charged_resources a)
     \<and> (par_disposition a = Attempt_RETRYABLE_FAILURE \<longrightarrow>
          par_failure_condition a \<in> Some ` set (rty_retry_conditions (cmp_retry_policy c)))"

definition settlement_ok :: "CampaignSpec \<Rightarrow> ReservationLedger \<Rightarrow> CampaignResources \<Rightarrow> bool \<Rightarrow> ProviderAttemptRecord list \<Rightarrow> bool" where
  "settlement_ok c r actual violation as \<longleftrightarrow>
     nonneg_resources actual \<and> (resources_exceeds actual (rvl_claim r) \<longrightarrow> violation)
     \<and> (as = [] \<and> crs_requests actual = 0 \<and> crs_input_tokens actual = 0 \<and> crs_output_tokens actual = 0
        \<or> (\<exists>a b. as = [a] \<and> attempt_matches c r b a \<and> actual = par_charged_resources a))"

lemma attempt_validate_facts:
  assumes "ProviderAttemptRecord_validate a = Inr a'"
  shows "request_and_tokens_only (par_charged_resources a)" "nonneg_resources (par_charged_resources a)"
    "(par_disposition a = Attempt_RETRYABLE_FAILURE) = (par_failure_condition a \<noteq> None)"
  using assms validated_resources_nonneg
  by (auto simp: ProviderAttemptRecord_validate_def Let_def split: if_splits)

lemma nonneg_requests: "nonneg_resources r \<Longrightarrow> 0 \<le> crs_requests r"
  by (auto simp: nonneg_resources_def resource_fields_def)

lemma campaign_event_E:
  assumes inv: "accounting_inv h st" and ok: "constructed_event dg e"
    and step: "apply_campaign_event dg h st e = Inr st'"
  obtains
    (created) p where "cev_payload e = ReservationCreated p" "nonneg_resources (rvc_claim p)"
      "apply_reservation_created dg h p st = Inr st'"
  | (dispatched) i r where "dict_get (cpj_reservations st) i = Some r"
      "st' = st\<lparr>cpj_reservations := dict_set i (r\<lparr>rvl_dispatched := True\<rparr>) (cpj_reservations st)\<rparr>"
  | (settled) i r l xs as actual violation where "dict_get (cpj_reservations st) i = Some r"
      "dict_get (cpj_ledgers st) (rvl_trial_id r) = Some l" "settlement_ok (chd_campaign h) r actual violation as"
      "st' = settled_state i r actual violation
         (l\<lparr>tpr_cancelled_provider_requests := xs, tpr_attempts := tpr_attempts l @ as\<rparr>) st"
  | (recorded) t l x where "dict_get (cpj_ledgers st) t = Some l" "tpr_outcome l = None"
      "\<forall>r\<in>set (dict_values (cpj_reservations st)). rvl_trial_id r \<noteq> t"
      "cpj_ledgers st' = dict_set t (l\<lparr>tpr_outcome := Some x\<rparr>) (cpj_ledgers st)"
      "cpj_reservations st' = cpj_reservations st" "cpj_committed st' = cpj_committed st"
      "cpj_reserved st' = cpj_reserved st" "cpj_budget_violation st' = cpj_budget_violation st"
  | (stopped) "cpj_ledgers st' = cpj_ledgers st" "cpj_reservations st' = cpj_reservations st"
      "cpj_committed st' = cpj_committed st" "cpj_reserved st' = cpj_reserved st"
      "cpj_budget_violation st' = cpj_budget_violation st"
proof (cases "cev_payload e")
  case (ReservationCreated p)
  then have "nonneg_resources (rvc_claim p)" using constructed_payload [OF ok] validated_resources_nonneg by auto
  with step ReservationCreated show ?thesis by (intro created) (auto simp: apply_campaign_event_def)
next
  case (ReservationDispatched i)
  with step have "apply_dispatched i st = Inr st'" by (simp add: apply_campaign_event_def)
  then show ?thesis by (rule dispatched_E) (rule dispatched)
next
  case (ReservationCancelled i)
  with step have "apply_cancelled i st = Inr st'" by (simp add: apply_campaign_event_def)
  from this reserved_claim_nonneg [OF inv] show ?thesis
  proof (rule cancelled_E)
    fix r l xs
    assume r: "dict_get (cpj_reservations st) i = Some r" "dict_get (cpj_ledgers st) (rvl_trial_id r) = Some l"
      "st' = settled_state i r resources_zero False (l\<lparr>tpr_cancelled_provider_requests := xs\<rparr>) st"
    have "settlement_ok (chd_campaign h) r resources_zero False []"
      using zero_not_exceeds [OF reserved_claim_nonneg [OF inv r(1)]] nonneg_resources_zero
      by (simp add: settlement_ok_def resources_zero_def)
    with r show ?thesis by (intro settled [of i r l resources_zero False "[]" xs]) simp_all
  qed
next
  case (WorkSettled p)
  with step have "apply_work_settled p st = Inr st'" by (simp add: apply_campaign_event_def)
  then show ?thesis
  proof (rule work_settled_E)
    fix r l
    assume r: "dict_get (cpj_reservations st) (wsp_reservation_id p) = Some r"
      "crs_requests (wsp_actual p) = 0" "crs_input_tokens (wsp_actual p) = 0" "crs_output_tokens (wsp_actual p) = 0"
      "dict_get (cpj_ledgers st) (rvl_trial_id r) = Some l"
      "st' = settled_state (wsp_reservation_id p) r (wsp_actual p) (resources_exceeds (wsp_actual p) (rvl_claim r)) l st"
    have "nonneg_resources (wsp_actual p)"
      using WorkSettled constructed_payload [OF ok] validated_resources_nonneg by auto
    with r show ?thesis
      by (intro settled [of "wsp_reservation_id p" r l "wsp_actual p" "resources_exceeds (wsp_actual p) (rvl_claim r)" "[]"
            "tpr_cancelled_provider_requests l"]) (simp_all add: settlement_ok_def)
  qed
next
  case (ProviderAttemptSettled p)
  with step have "apply_provider_settlement h p st = Inr st'" by (simp add: apply_campaign_event_def)
  then show ?thesis
  proof (rule provider_settled_E)
    fix r b trial l
    assume r: "dict_get (cpj_reservations st) (pas_reservation_id p) = Some r" "rvl_provider r = Some b"
      "\<not> attempt_differs (pas_attempt p) b r (sct_binding trial)"
      "\<And>x. par_failure_condition (pas_attempt p) = Some x \<Longrightarrow>
         x \<in> set (rty_retry_conditions (cmp_retry_policy (chd_campaign h)))"
      "dict_get (cpj_ledgers st) (rvl_trial_id r) = Some l"
      "st' = settled_state (pas_reservation_id p) r (par_charged_resources (pas_attempt p))
         (resources_exceeds (par_charged_resources (pas_attempt p)) (rvl_claim r) \<or> par_provider_usage (pas_attempt p) = None)
         (l\<lparr>tpr_attempts := tpr_attempts l @ [pas_attempt p]\<rparr>) st"
    from ProviderAttemptSettled obtain a' where "ProviderAttemptRecord_validate (pas_attempt p) = Inr a'"
      using constructed_payload [OF ok] by auto
    note v = attempt_validate_facts [OF this]
    have "attempt_matches (chd_campaign h) r b (pas_attempt p)"
      using r v by (auto simp: attempt_matches_def attempt_differs_def)
    with r v show ?thesis
      by (intro settled [of "pas_reservation_id p" r l "par_charged_resources (pas_attempt p)"
            "resources_exceeds (par_charged_resources (pas_attempt p)) (rvl_claim r) \<or> par_provider_usage (pas_attempt p) = None"
            "[pas_attempt p]" "tpr_cancelled_provider_requests l"]) (auto simp: settlement_ok_def)
  qed
next
  case (TrialOutcomeRecorded p)
  with step have "apply_trial_outcome dg h p st = Inr st'" by (simp add: apply_campaign_event_def)
  then show ?thesis by (rule trial_outcome_E) (rule recorded)
next
  case (BudgetStopped p)
  with step have "apply_budget_stopped h p st = Inr st'" by (simp add: apply_campaign_event_def)
  then show ?thesis by (rule budget_stopped_E) (rule stopped)
qed

lemma limits_inv_step:
  assumes inv: "accounting_inv h st" "limits_inv h st" and ok: "constructed_event dg e"
    and step: "apply_campaign_event dg h st e = Inr st'"
  shows "limits_inv h st'"
  using inv(1) ok step
proof (cases rule: campaign_event_E)
  case (created p)
  from created(3) show ?thesis
  proof (rule created_E)
    fix l
    let ?r = "\<lparr>rvl_trial_id = rvc_trial_id p, rvl_claim = rvc_claim p, rvl_provider = rvc_provider p, rvl_dispatched = False\<rparr>"
    assume l: "ready_campaign_projection st (rvc_trial_id p) = Inr l"
      "rvc_provider p = None \<Longrightarrow> crs_requests (rvc_claim p) = 0 \<and> crs_input_tokens (rvc_claim p) = 0
         \<and> crs_output_tokens (rvc_claim p) = 0"
      "\<And>b. rvc_provider p = Some b \<Longrightarrow> check_provider_reservation dg h st (rvc_trial_id p) l (rvc_claim p) b = Inr ()"
      "reservation_rejection (chd_campaign h) st (rvc_trial_id p) (rvc_claim p) (rvc_provider p \<noteq> None) = Inr None"
      "st' = st\<lparr>cpj_reserved := resources_add (cpj_reserved st) (rvc_claim p),
         cpj_ledgers := dict_set (rvc_trial_id p) (l\<lparr>tpr_reserved := resources_add (tpr_reserved l) (rvc_claim p)\<rparr>)
           (cpj_ledgers st),
         cpj_reservations := dict_set (rvc_reservation_id p) ?r (cpj_reservations st)\<rparr>"
    have "claim_shape ?r"
      using l(2) l(3) by (auto simp: claim_shape_def check_provider_reservation_def Let_def request_and_tokens_only_def
          split: option.splits)
    moreover have "within_limit (campaign_limit (chd_campaign h) False) d (cpj_committed st)
        (resources_add (cpj_reserved st) (rvc_claim p))"
      "within_limit (campaign_limit (chd_campaign h) True) d (tpr_committed l)
        (resources_add (tpr_reserved l) (rvc_claim p))" for d
      using l(1,4) by (auto simp: rejection_None within_limit_def counter_additiveD [OF dimension_value_additive] algebra_simps)
    ultimately show ?thesis
      using inv(2) unfolding l(5) limits_inv_def by (auto simp: dict_get_set dest!: dict_values_set split: if_splits)
  qed
next
  case (dispatched i r)
  have "claim_shape (r\<lparr>rvl_dispatched := True\<rparr>)"
    using inv(2) dict_get_values [OF dispatched(1)] by (simp add: limits_inv_def claim_shape_def cong: option.case_cong)
  then show ?thesis using inv(2) unfolding dispatched(2) limits_inv_def by (auto dest!: dict_values_set)
next
  case (settled i r l xs as actual violation)
  have "claim_shape r" using inv(2) dict_get_values [OF settled(1)] by (simp add: limits_inv_def)
  then have "crs_requests actual \<le> crs_requests (rvl_claim r)"
    using settled(3) nonneg_requests [OF reserved_claim_nonneg [OF inv(1) settled(1)]]
    by (auto simp: settlement_ok_def claim_shape_def attempt_matches_def request_and_tokens_only_def)
  with settled show ?thesis by (auto simp: settlement_ok_def intro: limits_inv_settled [OF inv(2)])
next
  case (recorded t l x)
  then show ?thesis using inv(2) by (auto simp: limits_inv_def dict_get_set split: if_splits)
next
  case stopped
  then show ?thesis using inv(2) limits_inv_cong by blast
qed

interpretation limits: guarded_projection "apply_campaign_event dg h" "constructed_event dg"
    "\<lambda>st. accounting_inv h st \<and> limits_inv h st" for dg h
  by unfold_locales (blast intro: accounting_inv_step limits_inv_step)

end
