(* ===== verification/CampaignJournalFacts.thy ===== *)
theory CampaignJournalFacts
  imports CampaignJournal LineFiles CampaignReplayFacts
begin

section \<open>Facts about the campaign journal\<close>

text \<open>
  A campaign file holds the commits of a valid record, one per line, and a torn tail. Decoding it gives
  the record back, and a transaction on the file does to its record what \<open>record_transact\<close> does.
\<close>

subsection \<open>Valid records\<close>

text \<open>A record as the operations leave it: a valid chain of constructed events that replays.\<close>

definition record_ok :: "record_digests \<Rightarrow> commit_digest \<Rightarrow> CampaignRecord \<Rightarrow> bool" where
  "record_ok dg digest record \<longleftrightarrow> CampaignRecord_validate dg digest record = Inr record
     \<and> list_all (constructed_event dg) (campaign_record_events record)
     \<and> \<not> isl (replay_campaign_record dg record)"

lemma not_isl_iff: "\<not> isl m \<longleftrightarrow> (\<exists>x. m = Inr x)"
  by (cases m) auto

lemma CampaignEvent_validate_same: "CampaignEvent_validate dg e = Inr e' \<Longrightarrow> e' = e \<and> constructed_event dg e"
  by (auto simp: CampaignEvent_validate_def constructed_event_def split: if_splits)

lemma CampaignCommit_validate_iff:
  "CampaignCommit_validate digest c = Inr d \<longleftrightarrow>
     d = c \<and> ccm_events c \<noteq> [] \<and> ccm_record_digest c = digest (ccm_previous_record_digest c) (ccm_events c)"
  by (auto simp: CampaignCommit_validate_def)

lemma commit_from_events:
  "campaign_commit_from_events digest head es = Inr c \<longleftrightarrow> es \<noteq> [] \<and>
     c = \<lparr>ccm_previous_record_digest = head, ccm_events = es, ccm_record_digest = digest head es\<rparr>"
  by (auto simp: campaign_commit_from_events_def CampaignCommit_validate_iff)

lemma record_events_simps [simp]:
  "campaign_record_events (r\<lparr>crc_commits := cs @ [c]\<rparr>) = campaign_record_events (r\<lparr>crc_commits := cs\<rparr>) @ ccm_events c"
  "campaign_record_events \<lparr>crc_header = h, crc_commits = []\<rparr> = []"
  by (simp_all add: campaign_record_events_def)

lemma map_result_commits:
  "map_result (CampaignCommit_validate digest) cs = Inr ds \<Longrightarrow> ds = cs \<and> (\<forall>c\<in>set cs. CampaignCommit_validate digest c = Inr c)"
  by (induction cs arbitrary: ds) (auto simp: CampaignCommit_validate_iff)

lemma CampaignRecord_validate_iff:
  "CampaignRecord_validate dg digest r = Inr r' \<longleftrightarrow> r' = r
     \<and> (\<forall>c\<in>set (crc_commits r). CampaignCommit_validate digest c = Inr c)
     \<and> \<not> isl (fold_result chain_campaign_commit
         \<lparr>chp_digest = rcd_header dg (crc_header r), chp_sequence = 0, chp_event_ids = {}\<rparr> (crc_commits r))"
proof -
  have "map_result (CampaignCommit_validate digest) (crc_commits r) = Inr (crc_commits r)"
    if "\<forall>c\<in>set (crc_commits r). CampaignCommit_validate digest c = Inr c"
    using that by (intro map_result_fixed) auto
  then show ?thesis
    by (auto simp: CampaignRecord_validate_def not_isl_iff dest!: map_result_commits)
qed

text \<open>What a chain position records: the last digest, the number of events and their identifiers.\<close>

lemma chain_events:
  "fold_result chain_campaign_event pos es = Inr pos' \<Longrightarrow>
     pos' = pos\<lparr>chp_sequence := chp_sequence pos + int (length es), chp_event_ids := chp_event_ids pos \<union> cev_event_id ` set es\<rparr>"
proof (induction es arbitrary: pos)
  case (Cons e es)
  let ?pos = "pos\<lparr>chp_event_ids := insert (cev_event_id e) (chp_event_ids pos), chp_sequence := chp_sequence pos + 1\<rparr>"
  from Cons.prems have "chain_campaign_event pos e = Inr ?pos" "fold_result chain_campaign_event ?pos es = Inr pos'"
    by (auto simp: chain_campaign_event_def [of pos e] split: if_splits)
  from Cons.IH [OF this(2)] show ?case by simp
qed simp

lemma positions_owned_nth:
  "campaign_positions_owned n es \<longleftrightarrow> (\<forall>k<length es. cev_sequence (es ! k) = int (n + k))"
  by (simp add: campaign_positions_owned_def list_all_length nth_enumerate_eq)

lemma positions_owned_simps [simp]:
  "campaign_positions_owned n []"
  "campaign_positions_owned n (e # es) \<longleftrightarrow> cev_sequence e = int n \<and> campaign_positions_owned (Suc n) es"
  by (simp_all add: positions_owned_nth All_less_Suc2 algebra_simps)

lemma positions_owned_append [simp]:
  "campaign_positions_owned n (es @ fs) \<longleftrightarrow> campaign_positions_owned n es \<and> campaign_positions_owned (n + length es) fs"
  by (induction es arbitrary: n) auto

lemma chain_events_ok:
  assumes "campaign_positions_owned n es" "chp_sequence pos = int n" "distinct (map cev_event_id es)"
    "chp_event_ids pos \<inter> cev_event_id ` set es = {}"
  shows "\<not> isl (fold_result chain_campaign_event pos es)"
  using assms
proof (induction es arbitrary: pos n)
  case (Cons e es)
  let ?pos = "pos\<lparr>chp_event_ids := insert (cev_event_id e) (chp_event_ids pos), chp_sequence := chp_sequence pos + 1\<rparr>"
  from Cons.prems have e: "chain_campaign_event pos e = Inr ?pos" by (auto simp: chain_campaign_event_def)
  from Cons.IH [of "Suc n" ?pos] Cons.prems have "\<not> isl (fold_result chain_campaign_event ?pos es)" by auto
  with e show ?case by simp
qed simp

lemma chain_commits:
  "fold_result chain_campaign_commit pos cs = Inr pos' \<Longrightarrow>
     pos' = \<lparr>chp_digest = (if cs = [] then chp_digest pos else ccm_record_digest (last cs)),
       chp_sequence = chp_sequence pos + int (length (concat (map ccm_events cs))),
       chp_event_ids = chp_event_ids pos \<union> cev_event_id ` set (concat (map ccm_events cs))\<rparr>"
proof (induction cs arbitrary: pos)
  case (Cons c cs)
  from Cons.prems obtain p where p: "fold_result chain_campaign_event pos (ccm_events c) = Inr p"
    "fold_result chain_campaign_commit (p\<lparr>chp_digest := ccm_record_digest c\<rparr>) cs = Inr pos'"
    by (auto simp: chain_campaign_commit_def [of pos c] split: if_splits)
  from Cons.IH [OF p(2)] chain_events [OF p(1)] show ?case by auto
qed simp

lemma record_chain:
  assumes "CampaignRecord_validate dg digest r = Inr r'"
  shows "fold_result chain_campaign_commit \<lparr>chp_digest = rcd_header dg (crc_header r), chp_sequence = 0, chp_event_ids = {}\<rparr>
      (crc_commits r)
    = Inr \<lparr>chp_digest = campaign_integrity_digest dg r, chp_sequence = int (length (campaign_record_events r)),
        chp_event_ids = cev_event_id ` set (campaign_record_events r)\<rparr>"
proof -
  from assms obtain pos where "fold_result chain_campaign_commit
      \<lparr>chp_digest = rcd_header dg (crc_header r), chp_sequence = 0, chp_event_ids = {}\<rparr> (crc_commits r) = Inr pos"
    by (auto simp: CampaignRecord_validate_iff not_isl_iff)
  with chain_commits [OF this] show ?thesis by (simp add: campaign_integrity_digest_def campaign_record_events_def)
qed

subsection \<open>Files\<close>

definition campaign_encodable :: "campaign_codec \<Rightarrow> CampaignCommit \<Rightarrow> bool" where
  "campaign_encodable codec c \<longleftrightarrow> cgc_parse codec (cgc_commit codec c) = Some c \<and> line_safe (cgc_commit codec c)"

definition campaign_commit_ok :: "record_digests \<Rightarrow> commit_digest \<Rightarrow> campaign_codec \<Rightarrow> Digest \<times> CampaignCommit list
    \<Rightarrow> CampaignCommit \<Rightarrow> bool" where
  "campaign_commit_ok dg digest codec st c \<longleftrightarrow> ccm_previous_record_digest c = fst st \<and> CampaignCommit_validate digest c = Inr c
     \<and> list_all (constructed_event dg) (ccm_events c) \<and> campaign_encodable codec c"

definition campaign_commit_after :: "Digest \<times> CampaignCommit list \<Rightarrow> CampaignCommit \<Rightarrow> Digest \<times> CampaignCommit list" where
  "campaign_commit_after st c = (ccm_record_digest c, snd st @ [c])"

lemma constructed_events_fixed: "list_all (constructed_event dg) es \<Longrightarrow> map_result (CampaignEvent_validate dg) es = Inr es"
  by (intro map_result_fixed) (auto simp: list_all_iff constructed_event_def)

interpretation campaign_lines: line_decoder "cgc_commit codec" "decode_campaign_commit dg digest codec"
    "campaign_commit_ok dg digest codec" campaign_commit_after for dg digest codec
proof unfold_locales
  fix s c assume ok: "campaign_commit_ok dg digest codec s c"
  then have "campaign_commit_parsed dg digest c = Inr c"
    by (simp add: campaign_commit_parsed_def campaign_commit_ok_def constructed_events_fixed)
  with ok show "decode_campaign_commit dg digest codec s (cgc_commit codec c) = Inr (campaign_commit_after s c)"
    by (auto simp: decode_campaign_commit_def campaign_commit_ok_def campaign_commit_after_def campaign_encodable_def
        line_safe_def split: prod.splits)
  from ok show "line_safe (cgc_commit codec c)" by (simp add: campaign_commit_ok_def campaign_encodable_def)
qed

text \<open>The content of a campaign file: the commits of a valid record, then a torn tail without a line end.\<close>

definition campaign_file :: "record_digests \<Rightarrow> commit_digest \<Rightarrow> campaign_codec \<Rightarrow> CampaignRecord \<Rightarrow> string \<Rightarrow> bool" where
  "campaign_file dg digest codec record data \<longleftrightarrow>
     (\<exists>torn. data = lines_of (cgc_commit codec) (crc_commits record) @ torn \<and> LF \<notin> set torn)
     \<and> CampaignRecord_validate dg digest record = Inr record
     \<and> (\<forall>c\<in>set (crc_commits record). list_all (constructed_event dg) (ccm_events c) \<and> campaign_encodable codec c)"

lemma campaign_commits_accepted:
  "fold_result chain_campaign_commit pos cs = Inr pos' \<Longrightarrow>
   \<forall>c\<in>set cs. CampaignCommit_validate digest c = Inr c \<and> list_all (constructed_event dg) (ccm_events c) \<and> campaign_encodable codec c
     \<Longrightarrow> accepted (campaign_commit_ok dg digest codec) campaign_commit_after (chp_digest pos, ds) cs"
proof (induction cs arbitrary: pos ds)
  case (Cons c cs)
  from Cons.prems(1) obtain p where p: "fold_result chain_campaign_event pos (ccm_events c) = Inr p"
    "ccm_previous_record_digest c = chp_digest pos"
    "fold_result chain_campaign_commit (p\<lparr>chp_digest := ccm_record_digest c\<rparr>) cs = Inr pos'"
    by (auto simp: chain_campaign_commit_def [of pos c] split: if_splits)
  from Cons.IH [OF p(3)] p(2) Cons.prems(2) show ?case
    by (auto simp: campaign_commit_ok_def campaign_commit_after_def)
qed simp

lemma campaign_commits_after:
  "foldl campaign_commit_after (d, ds) cs = (if cs = [] then d else ccm_record_digest (last cs), ds @ cs)"
  by (induction cs arbitrary: d ds) (auto simp: campaign_commit_after_def)

lemma decode_campaign_file:
  assumes "campaign_file dg digest codec record data"
  shows "campaign_decode_durable_prefix dg digest codec (crc_header record) data
     = Inr (length (lines_of (cgc_commit codec) (crc_commits record)), campaign_integrity_digest dg record, crc_commits record)"
proof -
  let ?cs = "crc_commits record"
  from assms obtain torn where data: "data = lines_of (cgc_commit codec) ?cs @ torn" "LF \<notin> set torn"
    and valid: "CampaignRecord_validate dg digest record = Inr record"
    and cs: "\<forall>c\<in>set ?cs. list_all (constructed_event dg) (ccm_events c) \<and> campaign_encodable codec c"
    by (auto simp: campaign_file_def)
  have empty: "?cs = []" if "data = []" using that data(1) lines_of_ends [of ?cs "cgc_commit codec"] by auto
  have "accepted (campaign_commit_ok dg digest codec) campaign_commit_after (rcd_header dg (crc_header record), []) ?cs"
    using campaign_commits_accepted [OF record_chain [OF valid], of digest dg codec "[]"] valid cs
    by (simp add: CampaignRecord_validate_iff)
  note decoded = campaign_lines.decode_durable [OF this data(2)]
  have "campaign_integrity_digest dg record = (if ?cs = [] then rcd_header dg (crc_header record) else ccm_record_digest (last ?cs))"
    by (simp add: campaign_integrity_digest_def)
  moreover have "CampaignRecord_validate dg digest \<lparr>crc_header = crc_header record, crc_commits = ?cs\<rparr> = Inr record"
    using valid by (cases "record") simp
  ultimately show ?thesis
    using empty unfolding campaign_decode_durable_prefix_def decoded [folded data(1)] campaign_commits_after
    by (simp add: durable_length_lines [OF data(2), of "cgc_commit codec" ?cs, folded data(1)])
qed

subsection \<open>Transactions\<close>

definition next_commit :: "record_digests \<Rightarrow> commit_digest \<Rightarrow> CampaignRecord \<Rightarrow> CampaignEvent list \<Rightarrow> CampaignCommit" where
  "next_commit dg digest record es = \<lparr>ccm_previous_record_digest = campaign_integrity_digest dg record, ccm_events = es,
     ccm_record_digest = digest (campaign_integrity_digest dg record) es\<rparr>"

definition extended :: "record_digests \<Rightarrow> commit_digest \<Rightarrow> CampaignRecord \<Rightarrow> CampaignEvent list \<Rightarrow> CampaignRecord" where
  "extended dg digest record es = record\<lparr>crc_commits := crc_commits record @ [next_commit dg digest record es]\<rparr>"

definition fresh_events :: "CampaignRecord \<Rightarrow> CampaignEvent list \<Rightarrow> bool" where
  "fresh_events record es \<longleftrightarrow> es \<noteq> [] \<and> campaign_positions_owned (length (campaign_record_events record)) es
     \<and> distinct (map cev_event_id es) \<and> cev_event_id ` set (campaign_record_events record) \<inter> cev_event_id ` set es = {}"

lemma extended_simps [simp]:
  "crc_header (extended dg digest record es) = crc_header record"
  "crc_commits (extended dg digest record es) = crc_commits record @ [next_commit dg digest record es]"
  "campaign_record_events (extended dg digest record es) = campaign_record_events record @ es"
  by (simp_all add: extended_def campaign_record_events_def next_commit_def)

lemma extended_valid:
  assumes "CampaignRecord_validate dg digest record = Inr record" "fresh_events record es"
  shows "CampaignRecord_validate dg digest (extended dg digest record es) = Inr (extended dg digest record es)"
proof -
  let ?pos = "\<lparr>chp_digest = campaign_integrity_digest dg record, chp_sequence = int (length (campaign_record_events record)),
        chp_event_ids = cev_event_id ` set (campaign_record_events record)\<rparr>"
  have "\<not> isl (fold_result chain_campaign_event ?pos es)"
    using assms(2) by (intro chain_events_ok) (auto simp: fresh_events_def)
  then have "\<not> isl (chain_campaign_commit ?pos (next_commit dg digest record es))"
    by (auto simp: chain_campaign_commit_def next_commit_def not_isl_iff)
  with record_chain [OF assms(1)] assms show ?thesis
    by (auto simp: CampaignRecord_validate_iff fold_result_append not_isl_iff fresh_events_def
        CampaignCommit_validate_iff next_commit_def)
qed

lemma record_transact_eq:
  assumes "CampaignRecord_validate dg digest record = Inr record"
  shows "extend_record dg digest factory (campaign_integrity_digest dg record) record =
     bind_result (factory record) (\<lambda>(es, r).
       if es = [] then Inl (Journal_transaction Transaction_empty)
       else if \<not> campaign_positions_owned (length (campaign_record_events record)) es
       then Inl (Journal_transaction Positions_not_owned)
       else if \<not> fresh_events record es then Inl (Journal_transaction Identifier_owned)
       else bind_result (lift_record (replay_campaign_record dg (extended dg digest record es))) (\<lambda>_.
         Inr ((next_commit dg digest record es, extended dg digest record es), r)))"
proof -
  have commit: "campaign_commit_from_events digest (campaign_integrity_digest dg record) es = Inr (next_commit dg digest record es)"
    if "fresh_events record es" for es using that by (simp add: commit_from_events next_commit_def fresh_events_def)
  have ext: "record\<lparr>crc_commits := crc_commits record @ [next_commit dg digest record es]\<rparr> = extended dg digest record es" for es
    by (simp add: extended_def)
  show ?thesis
  proof (cases "factory record")
    case (Inr p)
    obtain es r where p: "p = (es, r)" by (cases p)
    have ids: "set (map cev_event_id (campaign_record_events record)) \<inter> set (map cev_event_id es) \<noteq> {} \<longleftrightarrow>
        \<not> cev_event_id ` set (campaign_record_events record) \<inter> cev_event_id ` set es = {}" by simp
    show ?thesis
    proof (cases "fresh_events record es")
      case True
      then have "es \<noteq> []" "campaign_positions_owned (length (campaign_record_events record)) es" "distinct (map cev_event_id es)"
        "\<not> set (map cev_event_id (campaign_record_events record)) \<inter> set (map cev_event_id es) \<noteq> {}"
        by (auto simp: fresh_events_def)
      then show ?thesis
        unfolding extend_record_def Let_def Inr p bind_result_simps prod.case
        using True by (simp add: commit [OF True] ext extended_valid [OF assms True] del: set_map)
    next
      case False
      then show ?thesis
        unfolding extend_record_def Let_def Inr p bind_result_simps prod.case ids
        by (auto simp: fresh_events_def)
    qed
  qed (simp add: extend_record_def)
qed

lemma record_transact_Inr:
  assumes "CampaignRecord_validate dg digest record = Inr record"
  shows "record_transact dg digest factory record = Inr (record', r) \<longleftrightarrow>
     (\<exists>es st. factory record = Inr (es, r) \<and> fresh_events record es \<and> record' = extended dg digest record es
        \<and> replay_campaign_record dg record' = Inr st)"
    (is "?l \<longleftrightarrow> ?r")
proof
  show "?l \<Longrightarrow> ?r" unfolding record_transact_def record_transact_eq [OF assms]
    by (auto simp: fresh_events_def split: if_splits prod.splits)
  show "?r \<Longrightarrow> ?l" unfolding record_transact_def record_transact_eq [OF assms]
    by (elim exE conjE) (simp add: fresh_events_def)
qed

lemma campaign_file_extended:
  assumes "campaign_file dg digest codec record data" "fresh_events record es" "list_all (constructed_event dg) es"
    and "campaign_encodable codec (next_commit dg digest record es)"
  shows "campaign_file dg digest codec (extended dg digest record es)
     (lines_of (cgc_commit codec) (crc_commits record) @ cgc_commit codec (next_commit dg digest record es) @ [LF])"
  using assms extended_valid [of dg digest "record" es]
  by (auto simp: campaign_file_def next_commit_def intro!: exI [of _ "[]"])

lemma campaign_file_torn:
  "campaign_file dg digest codec record data \<Longrightarrow> LF \<notin> set torn \<Longrightarrow>
     campaign_file dg digest codec record (lines_of (cgc_commit codec) (crc_commits record) @ torn)"
  by (auto simp: campaign_file_def)

lemma campaign_transact_eq:
  assumes f: "campaign_file dg digest codec record data"
  shows "campaign_transact dg digest codec (crc_header record) factory data =
     (record_transact dg digest factory record, lines_of (cgc_commit codec) (crc_commits record)
        @ (case record_transact dg digest factory record of Inl _ \<Rightarrow> []
           | Inr (record', _) \<Rightarrow> cgc_commit codec (last (crc_commits record')) @ [LF]))"
proof -
  from f have valid: "CampaignRecord_validate dg digest record = Inr record"
    and taken: "take (length (lines_of (cgc_commit codec) (crc_commits record))) data
      = lines_of (cgc_commit codec) (crc_commits record)"
    by (auto simp: campaign_file_def)
  have same: "CampaignRecord_validate dg digest \<lparr>crc_header = crc_header record, crc_commits = crc_commits record\<rparr> = Inr record"
    using valid by (cases "record") simp
  have last: "last (crc_commits p) = c"
    if "extend_record dg digest factory (campaign_integrity_digest dg record) record = Inr ((c, p), r)" for c p r
    using that unfolding record_transact_eq [OF valid] by (auto split: if_splits prod.splits)
  show ?thesis
    unfolding campaign_transact_def decode_campaign_file [OF f] record_transact_def
    using taken last by (auto simp: same Let_def bind_result_def split: sum.split prod.split)
qed

end
