(* ===== verification/CampaignInvariants.thy ===== *)
theory CampaignInvariants
  imports CampaignReplayFacts
begin

section \<open>Retries, charges and terminal trials\<close>

text \<open>
  Further invariants of the campaign replay: the attempts of every request form one chain of
  retries, the tokens a trial is charged are those of its attempts, the violation flags agree,
  and a trial with an outcome has no open reservation.
\<close>

subsection \<open>Retries\<close>

definition admitted_failure :: "CampaignSpec \<Rightarrow> ProviderAttemptRecord \<Rightarrow> bool" where
  "admitted_failure c a \<longleftrightarrow> par_disposition a = Attempt_RETRYABLE_FAILURE
     \<and> par_failure_condition a \<in> Some ` set (rty_retry_conditions (cmp_retry_policy c))"

definition attempt_chain :: "CampaignSpec \<Rightarrow> ProviderAttemptRecord list \<Rightarrow> bool" where
  "attempt_chain c as \<longleftrightarrow> map par_attempt_number as = map int [1..<Suc (length as)]
     \<and> int (length as) \<le> rty_max_request_attempts (cmp_retry_policy c)
     \<and> (\<forall>a\<in>set (butlast as). admitted_failure c a)
     \<and> (\<forall>a\<in>set as. \<forall>b\<in>set as. par_reserved_token_claim a = par_reserved_token_claim b
          \<and> par_security_binding a = par_security_binding b)"

definition continues_chain :: "CampaignSpec \<Rightarrow> ProviderAttemptRecord list \<Rightarrow> ReservationLedger
    \<Rightarrow> ProviderReservationBinding \<Rightarrow> bool" where
  "continues_chain c as r b \<longleftrightarrow> prb_attempt_number b = int (length as) + 1
     \<and> prb_attempt_number b \<le> rty_max_request_attempts (cmp_retry_policy c)
     \<and> (\<forall>a\<in>set as. admitted_failure c a
          \<and> par_reserved_token_claim a = \<lparr>rtc_input_tokens = crs_input_tokens (rvl_claim r),
              rtc_output_tokens = crs_output_tokens (rvl_claim r),
              rtc_observed_input_token_floor = prb_observed_input_token_floor b\<rparr>
          \<and> par_security_binding a = prb_security_binding b)"

lemma attempt_chain_Nil: "1 \<le> rty_max_request_attempts (cmp_retry_policy c) \<Longrightarrow> attempt_chain c []"
  by (simp add: attempt_chain_def)

lemma attempt_chain_snoc:
  assumes "attempt_chain c as" "continues_chain c as r b" "attempt_matches c r b a"
  shows "attempt_chain c (as @ [a])"
proof -
  have "par_reserved_token_claim a = \<lparr>rtc_input_tokens = crs_input_tokens (rvl_claim r),
      rtc_output_tokens = crs_output_tokens (rvl_claim r),
      rtc_observed_input_token_floor = prb_observed_input_token_floor b\<rparr>"
    using assms(3) by (simp add: attempt_matches_def)
  then have same: "par_reserved_token_claim x = par_reserved_token_claim a \<and> par_security_binding x = par_security_binding a"
    if "x \<in> set (as @ [a])" for x
    using that assms(2,3) by (auto simp: continues_chain_def attempt_matches_def)
  have number: "par_attempt_number a = int (length as) + 1"
    "int (length as) + 1 \<le> rty_max_request_attempts (cmp_retry_policy c)"
    using assms(2,3) by (simp_all add: continues_chain_def attempt_matches_def)
  show ?thesis
    unfolding attempt_chain_def
  proof (intro conjI)
    show "map par_attempt_number (as @ [a]) = map int [1..<Suc (length (as @ [a]))]"
      using assms(1) number by (simp add: attempt_chain_def)
    show "int (length (as @ [a])) \<le> rty_max_request_attempts (cmp_retry_policy c)" using number by simp
    show "\<forall>x\<in>set (butlast (as @ [a])). admitted_failure c x" using assms(2) by (simp add: continues_chain_def)
    show "\<forall>x\<in>set (as @ [a]). \<forall>y\<in>set (as @ [a]). par_reserved_token_claim x = par_reserved_token_claim y
        \<and> par_security_binding x = par_security_binding y"
      using same by metis
  qed
qed

definition retry_inv :: "CampaignSpec \<Rightarrow> CampaignProjection \<Rightarrow> bool" where
  "retry_inv c st \<longleftrightarrow>
     (\<forall>t l k. dict_get (cpj_ledgers st) t = Some l \<longrightarrow> attempt_chain c (attempts_for l k))
     \<and> (\<forall>i r b l. dict_get (cpj_reservations st) i = Some r \<longrightarrow> rvl_provider r = Some b
          \<longrightarrow> dict_get (cpj_ledgers st) (rvl_trial_id r) = Some l
          \<longrightarrow> continues_chain c (attempts_for l (prb_request_key b)) r b)
     \<and> (\<forall>i j r s b d. dict_get (cpj_reservations st) i = Some r \<longrightarrow> dict_get (cpj_reservations st) j = Some s
          \<longrightarrow> rvl_provider r = Some b \<longrightarrow> rvl_provider s = Some d \<longrightarrow> rvl_trial_id r = rvl_trial_id s
          \<longrightarrow> prb_request_key b = prb_request_key d \<longrightarrow> i = j)"

lemma retry_positive:
  assumes "CampaignSpec_validate raw = Inr c"
  shows "1 \<le> rty_max_request_attempts (cmp_retry_policy c)"
proof -
  have retry: "RetryPolicy_validate x = Inr y \<Longrightarrow> 1 \<le> rty_max_request_attempts y" for x y
    by (auto simp: RetryPolicy_validate_def jcs_positive_ok_def split: if_splits)
  have scope: "validate_scope x = Inr y \<Longrightarrow> y = x" for x y
    by (simp add: validate_scope_def Let_def split: if_splits)
  show ?thesis
    using assms [unfolded CampaignSpec_validate_def] by (auto split: if_splits dest!: scope dest: retry)
qed

lemma retry_inv_init:
  assumes "CampaignSpec_validate raw = Inr c"
  shows "retry_inv c (campaign_projection_init h)"
  using attempt_chain_Nil [OF retry_positive [OF assms]]
  by (auto simp: retry_inv_def campaign_projection_init_def TrialProjection_init_def attempts_for_def
      dest!: dict_get_dict_of_SomeD)

lemma check_retry_continues:
  assumes chain: "attempt_chain c as" and ne: "as \<noteq> []" and ok: "check_retry c b (rvl_claim r) (last as) = Inr u"
    and n: "prb_attempt_number b = int (length as) + 1"
  shows "continues_chain c as r b"
proof -
  have last: "admitted_failure c (last as)" "prb_attempt_number b \<le> rty_max_request_attempts (cmp_retry_policy c)"
    "par_reserved_token_claim (last as) = \<lparr>rtc_input_tokens = crs_input_tokens (rvl_claim r),
       rtc_output_tokens = crs_output_tokens (rvl_claim r),
       rtc_observed_input_token_floor = prb_observed_input_token_floor b\<rparr>"
    "par_security_binding (last as) = prb_security_binding b"
    using ok by (auto simp: check_retry_def Let_def admitted_failure_def not_less)
  have "set as = insert (last as) (set (butlast as))" using ne by (metis append_butlast_last_id set_append Un_insert_right
    list.set sup_bot_right)
  with chain last(1) have "\<forall>a\<in>set as. admitted_failure c a" by (auto simp: attempt_chain_def)
  moreover have "last as \<in> set as" using ne by simp
  ultimately show ?thesis using chain last n unfolding attempt_chain_def continues_chain_def by metis
qed

lemma attempts_for_simps [simp]:
  "attempts_for (l\<lparr>tpr_reserved := x\<rparr>) = attempts_for l"
  "attempts_for (l\<lparr>tpr_committed := x\<rparr>) = attempts_for l"
  "attempts_for (l\<lparr>tpr_accounting_violation := v\<rparr>) = attempts_for l"
  "attempts_for (l\<lparr>tpr_outcome := y\<rparr>) = attempts_for l"
  "attempts_for (l\<lparr>tpr_cancelled_provider_requests := z\<rparr>) = attempts_for l"
  "attempts_for (l\<lparr>tpr_attempts := tpr_attempts l @ as\<rparr>) k = attempts_for l k @ filter (\<lambda>a. par_request_key a = k) as"
  by (auto simp: attempts_for_def fun_eq_iff)

lemma retry_invD:
  assumes "retry_inv c st"
  shows "dict_get (cpj_ledgers st) t = Some l \<Longrightarrow> attempt_chain c (attempts_for l k)"
    "dict_get (cpj_reservations st) i = Some r \<Longrightarrow> rvl_provider r = Some b \<Longrightarrow>
       dict_get (cpj_ledgers st) (rvl_trial_id r) = Some l \<Longrightarrow>
       continues_chain c (attempts_for l (prb_request_key b)) r b"
    "dict_get (cpj_reservations st) i = Some r \<Longrightarrow> dict_get (cpj_reservations st) j = Some s \<Longrightarrow>
       rvl_provider r = Some b \<Longrightarrow> rvl_provider s = Some d \<Longrightarrow> rvl_trial_id r = rvl_trial_id s \<Longrightarrow>
       prb_request_key b = prb_request_key d \<Longrightarrow> i = j"
  using assms unfolding retry_inv_def by blast+

text \<open>Replacing a ledger by one with the same attempts changes nothing.\<close>

lemma retry_inv_ledger:
  assumes inv: "retry_inv c st" and l: "dict_get (cpj_ledgers st) t = Some l" "attempts_for l' = attempts_for l"
    and st': "cpj_ledgers st' = dict_set t l' (cpj_ledgers st)" "cpj_reservations st' = cpj_reservations st"
  shows "retry_inv c st'"
  unfolding retry_inv_def st'
proof (intro conjI allI impI)
  show "attempt_chain c (attempts_for m k)" if "dict_get (dict_set t l' (cpj_ledgers st)) u = Some m" for u m k
    using that retry_invD(1) [OF inv] l by (auto simp: dict_get_set split: if_splits)
  show "continues_chain c (attempts_for m (prb_request_key b)) r b"
    if "dict_get (cpj_reservations st) i = Some r" "rvl_provider r = Some b"
      "dict_get (dict_set t l' (cpj_ledgers st)) (rvl_trial_id r) = Some m" for i r b m
    using that retry_invD(2) [OF inv that(1,2)] l by (auto simp: dict_get_set split: if_splits)
qed (use retry_invD(3) [OF inv] in blast)

lemma retry_inv_created:
  assumes pos: "1 \<le> rty_max_request_attempts (cmp_retry_policy (chd_campaign h))"
    and inv: "retry_inv (chd_campaign h) st" and step: "apply_reservation_created dg h p st = Inr st'"
  shows "retry_inv (chd_campaign h) st'"
  using step
proof (rule created_E)
  fix l :: TrialProjection
  let ?c = "chd_campaign h" and ?i = "rvc_reservation_id p"
  let ?r = "\<lparr>rvl_trial_id = rvc_trial_id p, rvl_claim = rvc_claim p, rvl_provider = rvc_provider p, rvl_dispatched = False\<rparr>"
  let ?l = "l\<lparr>tpr_reserved := resources_add (tpr_reserved l) (rvc_claim p)\<rparr>"
  assume fresh: "?i \<notin> set (dict_keys (cpj_reservations st))"
    and ready: "ready_campaign_projection st (rvc_trial_id p) = Inr l"
    and check: "\<And>b. rvc_provider p = Some b \<Longrightarrow> check_provider_reservation dg h st (rvc_trial_id p) l (rvc_claim p) b = Inr ()"
    and st': "st' = st\<lparr>cpj_reserved := resources_add (cpj_reserved st) (rvc_claim p),
       cpj_ledgers := dict_set (rvc_trial_id p) ?l (cpj_ledgers st),
       cpj_reservations := dict_set ?i ?r (cpj_reservations st)\<rparr>"
  from ready have l: "dict_get (cpj_ledgers st) (rvc_trial_id p) = Some l" by (simp add: ready_Inr)
  note chain = retry_invD(1) [OF inv l]
  have new: "continues_chain ?c (attempts_for l (prb_request_key b)) ?r b"
    and alone: "\<And>s d j. dict_get (cpj_reservations st) j = Some s \<Longrightarrow> rvl_provider s = Some d \<Longrightarrow>
      rvl_trial_id s = rvc_trial_id p \<Longrightarrow> prb_request_key d \<noteq> prb_request_key b"
    if b: "rvc_provider p = Some b" for b
  proof -
    let ?as = "attempts_for l (prb_request_key b)"
    have n: "prb_attempt_number b = int (length ?as) + 1"
      and retry: "?as \<noteq> [] \<Longrightarrow> check_retry ?c b (rvl_claim ?r) (last ?as) = Inr ()"
      using check [OF b] by (auto simp: check_provider_reservation_def Let_def)
    show "continues_chain ?c ?as ?r b"
    proof (cases "?as = []")
      case True
      then show ?thesis using n pos by (simp add: continues_chain_def)
    next
      case False
      show ?thesis by (rule check_retry_continues [OF chain False retry [OF False] n])
    qed
    show "prb_request_key d \<noteq> prb_request_key b"
      if "dict_get (cpj_reservations st) j = Some s" "rvl_provider s = Some d" "rvl_trial_id s = rvc_trial_id p" for s d j
      using check [OF b] that dict_get_values [OF that(1)]
      by (auto simp: check_provider_reservation_def Let_def list_ex_iff)
  qed
  show ?thesis
    unfolding retry_inv_def
  proof (intro conjI allI impI)
    show "attempt_chain ?c (attempts_for m k)" if "dict_get (cpj_ledgers st') u = Some m" for u m k
      using that retry_invD(1) [OF inv] l by (auto simp: st' dict_get_set split: if_splits)
    show "continues_chain ?c (attempts_for m (prb_request_key b)) r b"
      if "dict_get (cpj_reservations st') i = Some r" "rvl_provider r = Some b"
        "dict_get (cpj_ledgers st') (rvl_trial_id r) = Some m" for i r b m
      using that new retry_invD(2) [OF inv] l by (auto simp: st' dict_get_set split: if_splits)
    show "i = j" if "dict_get (cpj_reservations st') i = Some r" "dict_get (cpj_reservations st') j = Some s"
      "rvl_provider r = Some b" "rvl_provider s = Some d" "rvl_trial_id r = rvl_trial_id s"
      "prb_request_key b = prb_request_key d" for i j r s b d
    proof (rule ccontr)
      assume "i \<noteq> j"
      then consider "i = ?i" "j \<noteq> ?i" | "i \<noteq> ?i" "j = ?i" | "i \<noteq> ?i" "j \<noteq> ?i" by blast
      then show False
      proof cases
        case 1
        with that have "r = ?r" "dict_get (cpj_reservations st) j = Some s" by (auto simp: st' dict_get_set)
        with that alone [of b j s d] show False by simp
      next
        case 2
        with that have "s = ?r" "dict_get (cpj_reservations st) i = Some r" by (auto simp: st' dict_get_set)
        with that alone [of d i r b] show False by simp
      next
        case 3
        with that retry_invD(3) [OF inv, of i r j s b d] \<open>i \<noteq> j\<close> show False by (simp add: st' dict_get_set)
      qed
    qed
  qed
qed

lemma retry_inv_dispatched:
  assumes inv: "retry_inv c st" and r: "dict_get (cpj_reservations st) i = Some r"
  shows "retry_inv c (st\<lparr>cpj_reservations := dict_set i (r\<lparr>rvl_dispatched := True\<rparr>) (cpj_reservations st)\<rparr>)"
proof -
  let ?d = "dict_set i (r\<lparr>rvl_dispatched := True\<rparr>) (cpj_reservations st)"
  have old: "\<exists>s'. dict_get (cpj_reservations st) j = Some s' \<and> rvl_provider s = rvl_provider s'
      \<and> rvl_trial_id s = rvl_trial_id s' \<and> rvl_claim s = rvl_claim s'" if "dict_get ?d j = Some s" for j s
    using that r by (auto simp: dict_get_set split: if_splits)
  show ?thesis
    unfolding retry_inv_def
  proof (intro conjI allI impI)
    fix t l k
    assume "dict_get (cpj_ledgers (st\<lparr>cpj_reservations := ?d\<rparr>)) t = Some l"
    then show "attempt_chain c (attempts_for l k)" using retry_invD(1) [OF inv] by simp
  next
    fix j s b l
    assume s: "dict_get (cpj_reservations (st\<lparr>cpj_reservations := ?d\<rparr>)) j = Some s" "rvl_provider s = Some b"
      "dict_get (cpj_ledgers (st\<lparr>cpj_reservations := ?d\<rparr>)) (rvl_trial_id s) = Some l"
    with old [of j s] obtain s' where "dict_get (cpj_reservations st) j = Some s'" "rvl_provider s' = Some b"
      "rvl_trial_id s = rvl_trial_id s'" "rvl_claim s = rvl_claim s'" by auto
    with retry_invD(2) [OF inv this(1,2)] s(3) show "continues_chain c (attempts_for l (prb_request_key b)) s b"
      by (simp add: continues_chain_def)
  next
    fix j k s s' b d
    assume s: "dict_get (cpj_reservations (st\<lparr>cpj_reservations := ?d\<rparr>)) j = Some s"
      "dict_get (cpj_reservations (st\<lparr>cpj_reservations := ?d\<rparr>)) k = Some s'"
      "rvl_provider s = Some b" "rvl_provider s' = Some d" "rvl_trial_id s = rvl_trial_id s'"
      "prb_request_key b = prb_request_key d"
    with old [of j s] old [of k s'] obtain u u' where "dict_get (cpj_reservations st) j = Some u"
      "dict_get (cpj_reservations st) k = Some u'" "rvl_provider u = Some b" "rvl_provider u' = Some d"
      "rvl_trial_id u = rvl_trial_id u'" by auto
    from retry_invD(3) [OF inv this s(6)] show "j = k" .
  qed
qed

lemma retry_inv_settled:
  assumes wf: "dict_wf (cpj_reservations st)" and inv: "retry_inv c st"
    and r: "dict_get (cpj_reservations st) i = Some r" and l: "dict_get (cpj_ledgers st) (rvl_trial_id r) = Some l"
    and ok: "settlement_ok c r actual violation as" and l': "tpr_attempts l' = tpr_attempts l @ as"
  shows "retry_inv c (settled_state i r actual violation l' st)"
proof -
  let ?st = "settled_state i r actual violation l' st"
  have new: "attempts_for m k = attempts_for l k @ filter (\<lambda>a. par_request_key a = k) as"
    if "dict_get (cpj_ledgers ?st) (rvl_trial_id r) = Some m" for m k
    using that l' by (auto simp: settled_state_def dict_get_set attempts_for_def)
  have same: "dict_get (cpj_ledgers ?st) t = dict_get (cpj_ledgers st) t" if "t \<noteq> rvl_trial_id r" for t
    using that by (simp add: settled_state_def dict_get_set)
  have res: "dict_get (cpj_reservations ?st) j = (if i = j then None else dict_get (cpj_reservations st) j)" for j
    by (simp add: settled_state_def dict_get_pop)
  have one: "as = [] \<or> (\<exists>a b. as = [a] \<and> rvl_provider r = Some b \<and> par_request_key a = prb_request_key b
      \<and> attempt_matches c r b a)"
    using ok by (auto simp: settlement_ok_def attempt_matches_def)
  show ?thesis
    unfolding retry_inv_def
  proof (intro conjI allI impI)
    fix t m k
    assume m: "dict_get (cpj_ledgers ?st) t = Some m"
    show "attempt_chain c (attempts_for m k)"
    proof (cases "t = rvl_trial_id r")
      case True
      with new m have "attempts_for m k = attempts_for l k @ filter (\<lambda>a. par_request_key a = k) as" by simp
      with one show ?thesis
        using attempt_chain_snoc [OF retry_invD(1) [OF inv l, of k] _] retry_invD(1) [OF inv l, of k]
          retry_invD(2) [OF inv r _ l] by fastforce
    next
      case False
      with m same retry_invD(1) [OF inv] show ?thesis by simp
    qed
  next
    fix j s d m
    assume s: "dict_get (cpj_reservations ?st) j = Some s" "rvl_provider s = Some d"
      "dict_get (cpj_ledgers ?st) (rvl_trial_id s) = Some m"
    then have j: "i \<noteq> j" "dict_get (cpj_reservations st) j = Some s" by (auto simp: res split: if_splits)
    show "continues_chain c (attempts_for m (prb_request_key d)) s d"
    proof (cases "rvl_trial_id s = rvl_trial_id r")
      case True
      with one retry_invD(3) [OF inv r j(2) _ s(2)] j(1)
      have "filter (\<lambda>a. par_request_key a = prb_request_key d) as = []" by auto
      with True new s(3) retry_invD(2) [OF inv j(2) s(2)] l show ?thesis by simp
    next
      case False
      with s(3) same retry_invD(2) [OF inv j(2) s(2)] show ?thesis by simp
    qed
  next
    fix j k s s' b d
    assume "dict_get (cpj_reservations ?st) j = Some s" "dict_get (cpj_reservations ?st) k = Some s'"
      "rvl_provider s = Some b" "rvl_provider s' = Some d" "rvl_trial_id s = rvl_trial_id s'"
      "prb_request_key b = prb_request_key d"
    then show "j = k" by (auto simp: res split: if_splits intro: retry_invD(3) [OF inv])
  qed
qed

lemma retry_inv_step:
  assumes pos: "1 \<le> rty_max_request_attempts (cmp_retry_policy (chd_campaign h))"
    and inv: "accounting_inv h st" "retry_inv (chd_campaign h) st"
    and ok: "constructed_event dg e" and step: "apply_campaign_event dg h st e = Inr st'"
  shows "retry_inv (chd_campaign h) st'"
  using inv(1) ok step
proof (cases rule: campaign_event_E)
  case (created p)
  from retry_inv_created [OF pos inv(2) created(3)] show ?thesis .
next
  case (dispatched i r)
  from retry_inv_dispatched [OF inv(2) dispatched(1)] show ?thesis unfolding dispatched(2) .
next
  case (settled i r l xs as actual violation)
  have "dict_wf (cpj_reservations st)" using inv(1) by (simp add: accounting_inv_def)
  from retry_inv_settled [OF this inv(2) settled(1-3)] show ?thesis unfolding settled(4) by simp
next
  case (recorded t l x)
  from retry_inv_ledger [OF inv(2) recorded(1) _ recorded(4,5)] show ?thesis by simp
next
  case stopped
  with inv(2) show ?thesis by (simp add: retry_inv_def)
qed

interpretation retries: guarded_projection "apply_campaign_event dg h" "constructed_event dg"
    "\<lambda>st. 1 \<le> rty_max_request_attempts (cmp_retry_policy (chd_campaign h)) \<and> accounting_inv h st
       \<and> retry_inv (chd_campaign h) st" for dg h
  by unfold_locales (blast intro: accounting_inv_step retry_inv_step)

subsection \<open>Terminal trials, charges and violations\<close>

definition terminal_inv :: "CampaignProjection \<Rightarrow> bool" where
  "terminal_inv st \<longleftrightarrow> (\<forall>i r l. dict_get (cpj_reservations st) i = Some r \<longrightarrow>
     dict_get (cpj_ledgers st) (rvl_trial_id r) = Some l \<longrightarrow> tpr_outcome l = None)"

definition charged_ledger :: "TrialProjection \<Rightarrow> bool" where
  "charged_ledger l \<longleftrightarrow> crs_requests (tpr_committed l) = int (length (tpr_attempts l))
     \<and> (\<forall>f\<in>{crs_input_tokens, crs_output_tokens}.
          f (tpr_committed l) = (\<Sum>a\<leftarrow>tpr_attempts l. f (par_charged_resources a)))"

definition charges_inv :: "CampaignProjection \<Rightarrow> bool" where
  "charges_inv st \<longleftrightarrow> (\<forall>t l. dict_get (cpj_ledgers st) t = Some l \<longrightarrow> charged_ledger l)"

definition violation_inv :: "CampaignProjection \<Rightarrow> bool" where
  "violation_inv st \<longleftrightarrow>
     cpj_budget_violation st = (\<exists>t l. dict_get (cpj_ledgers st) t = Some l \<and> tpr_accounting_violation l)"

definition ledger_inv :: "CampaignHeader \<Rightarrow> CampaignProjection \<Rightarrow> bool" where
  "ledger_inv h st \<longleftrightarrow> accounting_inv h st \<and> terminal_inv st \<and> charges_inv st \<and> violation_inv st"

lemma charged_ledger_simps [simp]:
  "charged_ledger (l\<lparr>tpr_reserved := x\<rparr>) = charged_ledger l"
  "charged_ledger (l\<lparr>tpr_outcome := y\<rparr>) = charged_ledger l"
  "charged_ledger (l\<lparr>tpr_accounting_violation := v\<rparr>) = charged_ledger l"
  "charged_ledger (l\<lparr>tpr_cancelled_provider_requests := z\<rparr>) = charged_ledger l"
  by (simp_all add: charged_ledger_def)

lemma charged_ledger_settled:
  assumes "charged_ledger l" "settlement_ok c r actual violation as"
    "tpr_attempts l' = tpr_attempts l @ as" "tpr_committed l' = resources_add (tpr_committed l) actual"
  shows "charged_ledger l'"
  using assms by (auto simp: charged_ledger_def settlement_ok_def resources_add_def attempt_matches_def request_and_tokens_only_def)

lemma violation_inv_ledger:
  assumes inv: "violation_inv st" and l: "dict_get (cpj_ledgers st) t = Some l"
    and st': "cpj_ledgers st' = dict_set t l' (cpj_ledgers st)" "cpj_budget_violation st' = (cpj_budget_violation st \<or> v)"
    "tpr_accounting_violation l' = (tpr_accounting_violation l \<or> v)"
  shows "violation_inv st'"
proof -
  have "(\<exists>u m. dict_get (dict_set t l' (cpj_ledgers st)) u = Some m \<and> tpr_accounting_violation m)
      = ((\<exists>u m. dict_get (cpj_ledgers st) u = Some m \<and> tpr_accounting_violation m) \<or> v)"
    using l st'(3) by (simp add: dict_get_set) (metis option.inject)
  with inv show ?thesis by (simp add: violation_inv_def st')
qed

lemma ledger_inv_init: "ledger_inv h (campaign_projection_init h)"
proof -
  have "charged_ledger TrialProjection_init" by (simp add: charged_ledger_def TrialProjection_init_def resources_zero_def)
  then show ?thesis
    unfolding ledger_inv_def using accounting_inv_init
    by (auto simp: terminal_inv_def charges_inv_def violation_inv_def campaign_projection_init_def
        dest!: dict_get_dict_of_SomeD) (auto simp: TrialProjection_init_def)
qed

lemma ledger_inv_created:
  assumes inv: "terminal_inv st" "charges_inv st" "violation_inv st" and step: "apply_reservation_created dg h p st = Inr st'"
  shows "terminal_inv st' \<and> charges_inv st' \<and> violation_inv st'"
  using step
proof (rule created_E)
  fix l :: TrialProjection
  assume ready: "ready_campaign_projection st (rvc_trial_id p) = Inr l"
    and st': "st' = st\<lparr>cpj_reserved := resources_add (cpj_reserved st) (rvc_claim p),
       cpj_ledgers := dict_set (rvc_trial_id p) (l\<lparr>tpr_reserved := resources_add (tpr_reserved l) (rvc_claim p)\<rparr>)
         (cpj_ledgers st),
       cpj_reservations := dict_set (rvc_reservation_id p) \<lparr>rvl_trial_id = rvc_trial_id p, rvl_claim = rvc_claim p,
         rvl_provider = rvc_provider p, rvl_dispatched = False\<rparr> (cpj_reservations st)\<rparr>"
  then have l: "dict_get (cpj_ledgers st) (rvc_trial_id p) = Some l" "tpr_outcome l = None" by (simp_all add: ready_Inr)
  have "terminal_inv st'" using inv(1) l by (auto simp: st' terminal_inv_def dict_get_set)
  moreover have "charges_inv st'" using inv(2) l by (auto simp: st' charges_inv_def dict_get_set)
  moreover have "violation_inv st'" using violation_inv_ledger [OF inv(3) l(1), of st' _ False] by (simp add: st')
  ultimately show ?thesis by simp
qed

lemma ledger_inv_settled:
  fixes xs :: "Identifier set"
  assumes inv: "terminal_inv st" "charges_inv st" "violation_inv st"
    and r: "dict_get (cpj_reservations st) i = Some r" and l: "dict_get (cpj_ledgers st) (rvl_trial_id r) = Some l"
    and ok: "settlement_ok c r actual violation as"
  defines "st' \<equiv> settled_state i r actual violation
    (l\<lparr>tpr_cancelled_provider_requests := xs, tpr_attempts := tpr_attempts l @ as\<rparr>) st"
  shows "terminal_inv st' \<and> charges_inv st' \<and> violation_inv st'"
proof (intro conjI)
  show "terminal_inv st'"
    using inv(1) r l by (auto simp: st'_def terminal_inv_def settled_state_def dict_get_set dict_get_pop split: if_splits)
  have "charged_ledger l" using inv(2) l by (auto simp: charges_inv_def)
  note charged_ledger_settled [OF this ok]
  with inv(2) show "charges_inv st'"
    by (auto simp: st'_def charges_inv_def settled_state_def dict_get_set split: if_splits)
  show "violation_inv st'" using violation_inv_ledger [OF inv(3) l, of st' _ violation] by (simp add: st'_def settled_state_def)
qed

lemma ledger_inv_step:
  assumes inv: "ledger_inv h st" and ok: "constructed_event dg e" and step: "apply_campaign_event dg h st e = Inr st'"
  shows "ledger_inv h st'"
proof -
  have acc: "accounting_inv h st" and rest: "terminal_inv st" "charges_inv st" "violation_inv st"
    using inv by (simp_all add: ledger_inv_def)
  have "terminal_inv st' \<and> charges_inv st' \<and> violation_inv st'"
    using acc ok step
  proof (cases rule: campaign_event_E)
    case (created p)
    from ledger_inv_created [OF rest created(3)] show ?thesis .
  next
    case (dispatched i r)
    with rest show ?thesis by (auto simp: terminal_inv_def charges_inv_def violation_inv_def dict_get_set split: if_splits)
  next
    case (settled i r l xs as actual violation)
    from ledger_inv_settled [OF rest settled(1-3)] show ?thesis unfolding settled(4) .
  next
    case (recorded t l x)
    have "rvl_trial_id r \<noteq> t" if "dict_get (cpj_reservations st) i = Some r" for i r
      using recorded(3) dict_get_values [OF that] by blast
    with recorded rest have "terminal_inv st' \<and> charges_inv st'"
      by (auto simp: terminal_inv_def charges_inv_def dict_get_set split: if_splits)
    moreover have "violation_inv st'"
      by (rule violation_inv_ledger [OF rest(3) recorded(1,4), of False]) (simp_all add: recorded(8))
    ultimately show ?thesis by simp
  next
    case stopped
    with rest show ?thesis by (simp add: terminal_inv_def charges_inv_def violation_inv_def)
  qed
  with accounting_inv_step [OF acc ok step] show ?thesis by (simp add: ledger_inv_def)
qed

interpretation ledgers: guarded_projection "apply_campaign_event dg h" "constructed_event dg" "ledger_inv h" for dg h
  by unfold_locales (rule ledger_inv_step)

text \<open>Once a trial has an outcome, no accepted event touches its ledger.\<close>

lemma terminal_ledger_step:
  assumes inv: "ledger_inv h st" and ok: "constructed_event dg e" and step: "apply_campaign_event dg h st e = Inr st'"
    and l: "dict_get (cpj_ledgers st) t = Some l" "tpr_outcome l \<noteq> None"
  shows "dict_get (cpj_ledgers st') t = Some l"
proof -
  have acc: "accounting_inv h st" and final: "terminal_inv st" using inv by (simp_all add: ledger_inv_def)
  show ?thesis
    using acc ok step
  proof (cases rule: campaign_event_E)
    case (created p)
    from created(3) show ?thesis by (rule created_E) (use l in \<open>auto simp: ready_Inr dict_get_set\<close>)
  next
    case (settled i r m xs as actual violation)
    with final l have "rvl_trial_id r \<noteq> t" by (auto simp: terminal_inv_def)
    with settled l show ?thesis by (simp add: settled_state_def dict_get_set)
  qed (use l in \<open>auto simp: dict_get_set\<close>)
qed

interpretation finality: guarded_projection "apply_campaign_event dg h" "constructed_event dg"
    "\<lambda>st. ledger_inv h st \<and> tpr_outcome l \<noteq> None \<and> dict_get (cpj_ledgers st) t = Some l" for dg h t l
  by unfold_locales (blast intro: ledger_inv_step terminal_ledger_step)

end
