(* ===== verification/CampaignScheduleFacts.thy ===== *)
theory CampaignScheduleFacts
  imports CampaignSchedule "HOL-Library.Multiset"
begin

section \<open>The schedule is the complete product in one order\<close>

text \<open>
  The four nested loops of \<open>build_campaign_schedule\<close> are one loop over a list of bindings, and a
  loop that only appends is a map. What remains of the builder depends on the tasks as a set.
\<close>

subsection \<open>Loops\<close>

lemma fold_result_cong_set:
  "(\<And>s x. x \<in> set xs \<Longrightarrow> f s x = g s x) \<Longrightarrow> fold_result f s xs = fold_result g s xs"
  by (induction xs arbitrary: s) (auto intro!: bind_result_cong)

lemma fold_result_map: "fold_result f s (map h xs) = fold_result (\<lambda>s x. f s (h x)) s xs"
  by (induction xs arbitrary: s) auto

lemma fold_result_concat:
  "fold_result (\<lambda>s x. fold_result f s (h x)) s xs = fold_result f s (concat (map h xs))"
  by (induction xs arbitrary: s) (auto simp: fold_result_append)

definition trial_at :: "campaign_digests \<Rightarrow> nat \<Rightarrow> TrialBinding \<Rightarrow> ScheduledTrial" where
  "trial_at dg i b = \<lparr>sct_ordinal = int i, sct_trial_id = trial_id_of dg b, sct_binding = b\<rparr>"

lemma append_trial_Inr:
  "append_trial dg trials b = Inr ts \<longleftrightarrow>
     TrialBinding_validate b = Inr b \<and> int (length trials) \<le> JCS_INTEGER_MAX \<and> ts = trials @ [trial_at dg (length trials) b]"
proof -
  have "TrialBinding_validate b = Inr b' \<Longrightarrow> b' = b" for b'
    by (auto simp: TrialBinding_validate_def split: if_splits)
  then show ?thesis
    by (auto simp: append_trial_def ScheduledTrial_validate_def jcs_nonnegative_ok_def trial_at_def
        split: sum.splits if_splits)
qed

lemma append_trials_Inr:
  "fold_result (append_trial dg) ts bs = Inr ts' \<longleftrightarrow>
     (\<forall>b\<in>set bs. TrialBinding_validate b = Inr b)
     \<and> (bs \<noteq> [] \<longrightarrow> int (length ts + length bs - 1) \<le> JCS_INTEGER_MAX)
     \<and> ts' = ts @ map (\<lambda>(i, b). trial_at dg i b) (enumerate (length ts) bs)"
proof (induction bs arbitrary: ts)
  case (Cons b bs)
  show ?case
    by (auto simp: append_trial_Inr Cons.IH)
qed auto

subsection \<open>The list of bindings\<close>

definition schedule_bindings :: "campaign_digests \<Rightarrow> CampaignSpec \<Rightarrow> (Digest \<Rightarrow> CampaignTask) \<Rightarrow> Digest list
    \<Rightarrow> ModelRoute list \<Rightarrow> TrialBinding list" where
  "schedule_bindings dg c task ordered routes =
     [trial_binding dg c repetition release (task (snd release)) route effort.
        repetition \<leftarrow> enumerate 0 (cmp_paired_trial_seeds c), release \<leftarrow> enumerate 0 ordered,
        route \<leftarrow> routes, effort \<leftarrow> cmp_reasoning_efforts c]"

lemma schedule_trials_eq:
  assumes "\<And>r. r \<in> set ordered \<Longrightarrow> dict_get d r = Some (task r)"
  shows "schedule_trials dg c d ordered routes
     = fold_result (append_trial dg) [] (schedule_bindings dg c task ordered routes)"
proof -
  have inner: "(case dict_get d (snd release) of None \<Rightarrow> Inl Schedule_key_error
      | Some t \<Rightarrow> fold_result (\<lambda>trials route. fold_result (\<lambda>trials effort.
          append_trial dg trials (trial_binding dg c repetition release t route effort)) trials (cmp_reasoning_efforts c))
          trials routes)
      = fold_result (append_trial dg) trials (concat (map (\<lambda>route. map (trial_binding dg c repetition release
          (task (snd release)) route) (cmp_reasoning_efforts c)) routes))"
    if "release \<in> set (enumerate 0 ordered)" for release repetition trials
  proof -
    have "snd release \<in> set (map snd (enumerate 0 ordered))" using that by (simp only: set_map) blast
    then have "dict_get d (snd release) = Some (task (snd release))" using assms by simp
    then show ?thesis by (simp only: option.case fold_result_map flip: fold_result_concat)
  qed
  show ?thesis
    unfolding schedule_trials_def schedule_bindings_def
    by (subst fold_result_concat [symmetric], rule fold_result_cong_set)
      (subst fold_result_concat [symmetric], rule fold_result_cong_set, simp add: inner)
qed

type_synonym coordinates = "Seed128Hex \<times> Digest \<times> Identifier \<times> string"

definition coordinates_of :: "TrialBinding \<Rightarrow> coordinates" where
  "coordinates_of b = (tbd_paired_seed b, tbd_task_release_digest b, tbd_route_id b, tbd_reasoning_effort b)"

definition campaign_product :: "CampaignSpec \<Rightarrow> Digest list \<Rightarrow> coordinates list" where
  "campaign_product c ordered =
     List.product (cmp_paired_trial_seeds c)
       (List.product ordered (List.product (cmp_route_ids c) (cmp_reasoning_efforts c)))"

lemma concat_map_enumerate: "concat (map (\<lambda>p. f (snd p)) (enumerate n xs)) = concat (map f xs)"
  by (induction xs arbitrary: n) auto

lemma coordinates_of_schedule:
  assumes "map mrt_route_id routes = cmp_route_ids c"
  shows "map coordinates_of (schedule_bindings dg c task ordered routes) = campaign_product c ordered"
proof -
  have "campaign_product c ordered = concat (map (\<lambda>seed. concat (map (\<lambda>release. concat (map (\<lambda>route.
      map (\<lambda>effort. (seed, release, mrt_route_id route, effort)) (cmp_reasoning_efforts c)) routes)) ordered))
      (cmp_paired_trial_seeds c))"
    unfolding campaign_product_def assms [symmetric] by (simp add: product_concat_map map_concat comp_def)
  moreover define G where "G = (\<lambda>(seed :: string) (release :: string). concat (map (\<lambda>route.
      map (\<lambda>effort. (seed, release, mrt_route_id route, effort)) (cmp_reasoning_efforts c)) routes))"
  moreover define F where "F = (\<lambda>seed. concat (map (\<lambda>release. G seed (snd release)) (enumerate 0 ordered)))"
  moreover have "map coordinates_of (schedule_bindings dg c task ordered routes)
      = concat (map (\<lambda>repetition. F (snd repetition)) (enumerate 0 (cmp_paired_trial_seeds c)))"
    by (simp add: schedule_bindings_def F_def G_def map_concat comp_def coordinates_of_def trial_binding_def)
  moreover have "F seed = concat (map (G seed) ordered)" for seed unfolding F_def by (rule concat_map_enumerate)
  ultimately show ?thesis using concat_map_enumerate [of F 0 "cmp_paired_trial_seeds c"] by simp
qed

subsection \<open>What a successful build says of its inputs\<close>

lemma check_campaign_tasks_Inr:
  "check_campaign_tasks dg c tasks = Inr u \<longleftrightarrow>
     distinct (map ctk_task_release_digest tasks)
     \<and> ctk_task_release_digest ` set tasks = set (cmp_task_release_digests c)
     \<and> ctk_environment_digest ` set tasks = set (cmp_environment_digests c)
     \<and> (\<lambda>t. cdg_harness dg (ctk_harness t)) ` set tasks = set (cmp_harness_digests c)
     \<and> (\<forall>t\<in>set tasks. require_paid_campaign_task_origin (ctk_task_origin t) = Inr ()
          \<and> campaign_role_allows_capability (ctk_role t) (ctk_device_capability t))
     \<and> (cmp_scope c = END_TO_END_SMOKE \<longrightarrow> RTL_GENERATION \<in> ctk_role ` set tasks
          \<and> ctk_role ` set tasks \<inter> {SYNTHESIS_QOR, STA_CLOSURE} \<noteq> {}
          \<and> ctk_role ` set tasks \<inter> {PHYSICAL_ANALOG, Role_FPGA_IMPLEMENTATION} \<noteq> {})
     \<and> (cmp_scope c \<in> {MODEL_COMPARISON_PILOT, COMMON_CORE} \<longrightarrow> ctk_role ` set tasks = all_roles)
     \<and> (cmp_scope c = REASONING_EFFORT_SENSITIVITY \<longrightarrow> ctk_role ` set tasks = {RTL_GENERATION, DEBUG_FORMAL,
          SYNTHESIS_QOR, STA_CLOSURE, PHYSICAL_ANALOG, Role_FPGA_IMPLEMENTATION})"
  unfolding check_campaign_tasks_def Let_def length_dict_of_distinct dict_keys_dict_of set_map
  by (cases "cmp_scope c") (simp_all split: if_splits, blast+)

lemma campaign_routes_ids:
  assumes "campaign_routes c ms = Inr routes"
  shows "map mrt_route_id routes = cmp_route_ids c" "set routes \<subseteq> set (mst_routes ms)"
proof -
  let ?d = "dict_of mrt_route_id id (mst_routes ms)"
  from assms have look: "map_result (\<lambda>route_id. case dict_get ?d route_id of None \<Rightarrow> Inl Schedule_key_error
      | Some route \<Rightarrow> Inr route) (cmp_route_ids c) = Inr routes"
    by (auto simp: campaign_routes_def Let_def split: if_splits)
  then have "list_all2 (\<lambda>i r. dict_get ?d i = Some r) (cmp_route_ids c) routes"
    by (auto simp: map_result_Inr elim!: list_all2_mono split: option.splits)
  then have "list_all2 (\<lambda>i r. mrt_route_id r = i \<and> r \<in> set (mst_routes ms)) (cmp_route_ids c) routes"
    by (rule list_all2_mono) (auto dest!: dict_get_dict_of_SomeD)
  then show "map mrt_route_id routes = cmp_route_ids c" "set routes \<subseteq> set (mst_routes ms)"
    by (auto simp: list_all2_conv_all_nth set_conv_nth intro!: nth_equalityI)
qed

definition task_of :: "CampaignTask list \<Rightarrow> Digest \<Rightarrow> CampaignTask" where
  "task_of tasks r = the (dict_get (dict_of ctk_task_release_digest id tasks) r)"

lemma ordered_releases_facts:
  assumes "distinct (map ctk_task_release_digest tasks)"
  shows "set (ordered_releases dg c tasks) = ctk_task_release_digest ` set tasks"
    "distinct (ordered_releases dg c tasks)"
    "sorted (map (\<lambda>r. (cdg_task_order dg (cmp_task_order_seed c) r, r)) (ordered_releases dg c tasks))"
    "mset (ordered_releases dg c tasks) = mset (map ctk_task_release_digest tasks)"
proof -
  have "dict_keys (dict_of ctk_task_release_digest id tasks) = map ctk_task_release_digest tasks"
    using assms by (simp add: dict_of_distinct dict_keys_def comp_def)
  then show "set (ordered_releases dg c tasks) = ctk_task_release_digest ` set tasks"
    "distinct (ordered_releases dg c tasks)"
    "sorted (map (\<lambda>r. (cdg_task_order dg (cmp_task_order_seed c) r, r)) (ordered_releases dg c tasks))"
    "mset (ordered_releases dg c tasks) = mset (map ctk_task_release_digest tasks)"
    using assms by (simp_all add: ordered_releases_def)
qed

lemma task_of_get:
  assumes "distinct (map ctk_task_release_digest tasks)" "r \<in> ctk_task_release_digest ` set tasks"
  shows "dict_get (dict_of ctk_task_release_digest id tasks) r = Some (task_of tasks r)"
    "task_of tasks r \<in> set tasks" "ctk_task_release_digest (task_of tasks r) = r"
proof -
  from assms(2) obtain t where t: "t \<in> set tasks" "ctk_task_release_digest t = r" by auto
  then have get: "dict_get (dict_of ctk_task_release_digest id tasks) r = Some t"
    by (simp add: dict_get_dict_of [OF assms(1)])
  then show "dict_get (dict_of ctk_task_release_digest id tasks) r = Some (task_of tasks r)"
    "task_of tasks r \<in> set tasks" "ctk_task_release_digest (task_of tasks r) = r"
    using t by (simp_all add: task_of_def)
qed

text \<open>A successful build, taken apart.\<close>

lemma build_E:
  assumes "build_campaign_schedule dg c ms tasks = Inr s"
  obtains routes where "cdg_model_set dg ms = cmp_model_set_digest c" "check_campaign_tasks dg c tasks = Inr ()"
    "campaign_routes c ms = Inr routes" "csc_ordered_task_release_digests s = ordered_releases dg c tasks"
    "csc_trials s = map (\<lambda>(i, b). trial_at dg i b)
       (enumerate 0 (schedule_bindings dg c (task_of tasks) (ordered_releases dg c tasks) routes))"
    "CampaignSchedule_validate s = Inr s"
proof -
  from assms obtain routes trials where *: "cdg_model_set dg ms = cmp_model_set_digest c"
      "check_campaign_tasks dg c tasks = Inr ()" "campaign_routes c ms = Inr routes"
      "schedule_trials dg c (dict_of ctk_task_release_digest id tasks) (ordered_releases dg c tasks) routes = Inr trials"
      "CampaignSchedule_validate \<lparr>csc_campaign_digest = cdg_campaign dg c, csc_model_set_digest = cdg_model_set dg ms,
        csc_ordered_task_release_digests = ordered_releases dg c tasks, csc_trials = trials\<rparr> = Inr s"
    by (auto simp: build_campaign_schedule_def Let_def split: if_splits)
  have d: "distinct (map ctk_task_release_digest tasks)" using *(2) by (simp add: check_campaign_tasks_Inr)
  have "schedule_trials dg c (dict_of ctk_task_release_digest id tasks) (ordered_releases dg c tasks) routes
      = fold_result (append_trial dg) []
          (schedule_bindings dg c (task_of tasks) (ordered_releases dg c tasks) routes)"
    by (rule schedule_trials_eq) (use task_of_get(1) [OF d] in \<open>simp add: ordered_releases_facts [OF d]\<close>)
  with *(4) have "trials = map (\<lambda>(i, b). trial_at dg i b)
       (enumerate 0 (schedule_bindings dg c (task_of tasks) (ordered_releases dg c tasks) routes))"
    by (simp add: append_trials_Inr)
  moreover have "s = \<lparr>csc_campaign_digest = cdg_campaign dg c, csc_model_set_digest = cdg_model_set dg ms,
        csc_ordered_task_release_digests = ordered_releases dg c tasks, csc_trials = trials\<rparr>"
    using *(5) by (auto simp: CampaignSchedule_validate_def Let_def split: if_splits)
  ultimately show ?thesis using * by (intro that) simp_all
qed

subsection \<open>The order of the tasks does not matter\<close>

lemma check_campaign_tasks_perm:
  assumes "mset tasks = mset tasks'" "check_campaign_tasks dg c tasks = Inr ()"
  shows "check_campaign_tasks dg c tasks' = Inr ()"
proof -
  have "mset (map ctk_task_release_digest tasks) = mset (map ctk_task_release_digest tasks')" using assms(1) by simp
  then have "distinct (map ctk_task_release_digest tasks) = distinct (map ctk_task_release_digest tasks')"
    by (rule mset_eq_imp_distinct_iff)
  moreover have "set tasks = set tasks'" using assms(1) by (rule mset_eq_setD)
  ultimately show ?thesis using assms(2) by (simp add: check_campaign_tasks_Inr)
qed

lemma ordered_releases_perm:
  assumes "mset tasks = mset tasks'" "distinct (map ctk_task_release_digest tasks)"
    "distinct (map ctk_task_release_digest tasks')"
  shows "ordered_releases dg c tasks' = ordered_releases dg c tasks"
proof -
  let ?k = "\<lambda>r. (cdg_task_order dg (cmp_task_order_seed c) r, r)"
  have "sort_key ?k (dict_keys (dict_of ctk_task_release_digest id tasks')) = ordered_releases dg c tasks"
  proof (rule sort_key_inj_key_eq)
    show "mset (dict_keys (dict_of ctk_task_release_digest id tasks')) = mset (ordered_releases dg c tasks)"
      using assms by (simp add: ordered_releases_facts dict_of_distinct dict_keys_def comp_def)
    show "inj_on ?k (set (dict_keys (dict_of ctk_task_release_digest id tasks')))" by (simp add: inj_on_def)
    show "sorted (map ?k (ordered_releases dg c tasks))" by (rule ordered_releases_facts(3) [OF assms(2)])
  qed
  then show ?thesis by (simp add: ordered_releases_def)
qed

lemma build_perm:
  assumes perm: "mset tasks = mset tasks'" and build: "build_campaign_schedule dg c ms tasks = Inr s"
  shows "build_campaign_schedule dg c ms tasks' = Inr s"
proof -
  from build have ok: "check_campaign_tasks dg c tasks = Inr ()" by (rule build_E)
  note ok' = check_campaign_tasks_perm [OF perm ok]
  have d: "distinct (map ctk_task_release_digest tasks)" "distinct (map ctk_task_release_digest tasks')"
    using ok ok' by (simp_all add: check_campaign_tasks_Inr)
  have get: "dict_get (dict_of ctk_task_release_digest id tasks') r = dict_get (dict_of ctk_task_release_digest id tasks) r"
    for r
  proof (rule option.expand)
    show "(dict_get (dict_of ctk_task_release_digest id tasks') r = None)
        = (dict_get (dict_of ctk_task_release_digest id tasks) r = None)"
      using mset_eq_setD [OF perm] by (simp add: dict_simps)
    assume "dict_get (dict_of ctk_task_release_digest id tasks') r \<noteq> None"
    then obtain t where "dict_get (dict_of ctk_task_release_digest id tasks') r = Some t" by auto
    moreover from this have "dict_get (dict_of ctk_task_release_digest id tasks) r = Some t"
      using mset_eq_setD [OF perm] by (simp add: dict_get_dict_of [OF d(1)] dict_get_dict_of [OF d(2)])
    ultimately show "the (dict_get (dict_of ctk_task_release_digest id tasks') r)
        = the (dict_get (dict_of ctk_task_release_digest id tasks) r)" by simp
  qed
  have "schedule_trials dg c (dict_of ctk_task_release_digest id tasks')
      = schedule_trials dg c (dict_of ctk_task_release_digest id tasks)"
    by (intro ext) (simp add: schedule_trials_def get)
  then have "build_campaign_schedule dg c ms tasks' = build_campaign_schedule dg c ms tasks"
    by (simp add: build_campaign_schedule_def ok ok' ordered_releases_perm [OF perm d])
  with build show ?thesis by simp
qed

subsection \<open>Bindings of the scheduled trials\<close>

lemma bindings_task:
  assumes "b \<in> set (schedule_bindings dg c task ordered routes)"
  shows "tbd_task_release_digest b \<in> set ordered
    \<and> tbd_task_family b = ctk_task_family (task (tbd_task_release_digest b))
    \<and> tbd_task_role b = ctk_role (task (tbd_task_release_digest b))
    \<and> tbd_device_capability b = ctk_device_capability (task (tbd_task_release_digest b))
    \<and> tbd_environment_digest b = ctk_environment_digest (task (tbd_task_release_digest b))
    \<and> tbd_harness b = ctk_harness (task (tbd_task_release_digest b))"
  using assms by (auto simp: schedule_bindings_def trial_binding_def in_set_enumerate_eq)

lemma map_binding_trials: "map sct_binding (map (\<lambda>(i, b). trial_at dg i b) (enumerate n bs)) = bs"
  by (induction bs arbitrary: n) (auto simp: trial_at_def)

end
