(* ===== verification/CampaignReportFacts.thy ===== *)
theory CampaignReportFacts
  imports CampaignReport CampaignInvariants CampaignScheduleFacts
begin

section \<open>Facts about campaign reports\<close>

text \<open>
  Groups and counters as functions of the list they are built from, portability of the totals of
  any group of trials, and the reconstruction of the schedule from the trials of a report. They
  say that none of the validators of the report can fail on a settled campaign.
\<close>

subsection \<open>Groups and counters\<close>

lemma fold_dict_wf: "(\<And>x d. dict_wf d \<Longrightarrow> dict_wf (f x d)) \<Longrightarrow> dict_wf d \<Longrightarrow> dict_wf (fold f xs d)"
  by (induction xs arbitrary: d) auto

lemma group_by_snoc:
  "group_by k (xs @ [x]) = dict_set (k x)
     (case dict_get (group_by k xs) (k x) of None \<Rightarrow> [x] | Some g \<Rightarrow> g @ [x]) (group_by k xs)"
  by (simp add: group_by_def)

lemma dict_get_group_by:
  "dict_get (group_by k xs) v = (if v \<in> k ` set xs then Some (filter (\<lambda>x. k x = v) xs) else None)"
proof (induction xs rule: rev_induct)
  case Nil
  then show ?case by (simp add: group_by_def)
next
  case (snoc x xs)
  then show ?case by (auto simp: group_by_snoc dict_get_set filter_empty_conv) (metis imageI)
qed

lemma dict_wf_group_by: "dict_wf (group_by k xs)"
  unfolding group_by_def by (rule fold_dict_wf) auto

lemma counter_snoc:
  "counter (xs @ [x]) = dict_set x (case dict_get (counter xs) x of None \<Rightarrow> 1 | Some n \<Rightarrow> n + 1) (counter xs)"
  by (simp add: counter_def)

lemma dict_get_counter: "dict_get (counter xs) v = (if v \<in> set xs then Some (int (count_list xs v)) else None)"
proof (induction xs rule: rev_induct)
  case Nil
  then show ?case by (simp add: counter_def)
next
  case (snoc x xs)
  then show ?case by (auto simp: counter_snoc dict_get_set count_list_0_iff)
qed

lemma dict_wf_counter: "dict_wf (counter xs)"
  unfolding counter_def by (rule fold_dict_wf) auto

lemma counter_mem: "(v, n) \<in> set (counter xs) \<longleftrightarrow> v \<in> set xs \<and> n = int (count_list xs v)"
  by (auto simp: dict_mem_get [OF dict_wf_counter] dict_get_counter split: if_splits)

lemma counter_value: "(v, n) \<in> set (counter xs) \<Longrightarrow> 1 \<le> n \<and> n \<le> int (length xs)"
  using count_le_length [of xs v] by (auto simp: counter_mem Suc_le_eq count_list_0_iff intro!: gr0I)

lemma counter_sum: "sum_list (dict_values (counter xs)) = int (length xs)"
proof (induction xs rule: rev_induct)
  case Nil
  then show ?case by (simp add: counter_def dict_values_def)
next
  case (snoc x xs)
  show ?case
  proof (cases "dict_get (counter xs) x")
    case None
    then have "x \<notin> set (dict_keys (counter xs))" by (simp add: dict_get_None)
    from None snoc sum_dict_fresh [OF this, where g = id and w = 1] show ?thesis by (simp add: counter_snoc)
  next
    case (Some n)
    then show ?thesis using snoc sum_dict_set [OF dict_wf_counter Some, of id "n + 1"] by (simp add: counter_snoc)
  qed
qed

lemma group_by_mem: "(v, g) \<in> set (group_by k xs) \<longleftrightarrow> v \<in> k ` set xs \<and> g = filter (\<lambda>x. k x = v) xs"
  by (auto simp: dict_mem_get [OF dict_wf_group_by] dict_get_group_by)

lemma length_group_by: "length (group_by k xs) \<le> length xs"
proof -
  have "length (group_by k xs) = card (set (map fst (group_by k xs)))"
    using dict_wf_group_by [of k xs] by (metis dict_wf_def distinct_card length_map)
  also have "set (map fst (group_by k xs)) = dom (dict_get (group_by k xs))" by (simp add: dom_map_of_conv_image_fst)
  also have "\<dots> = k ` set xs" by (auto simp: dict_get_group_by split: if_splits)
  finally show ?thesis using card_image_le [OF finite_set, of k xs] card_length [of xs] by linarith
qed

lemma sorted_items_mem [simp]: "p \<in> set (sorted_items d) \<longleftrightarrow> p \<in> set d"
  by (simp add: sorted_items_def)

lemma counter_filter_sum:
  "0 \<le> (\<Sum>(v, n)\<leftarrow>filter P (counter xs). n) \<and> (\<Sum>(v, n)\<leftarrow>filter P (counter xs). n) \<le> int (length xs)"
proof -
  have pos: "0 \<le> n" if "(v, n) \<in> set (counter xs)" for v n using counter_value [OF that] by simp
  have "(\<Sum>(v, n)\<leftarrow>filter P d. n) \<le> (\<Sum>(v, n)\<leftarrow>d. n) \<and> 0 \<le> (\<Sum>(v, n)\<leftarrow>filter P d. n)"
    if "\<forall>(v, n)\<in>set d. 0 \<le> n" for d :: "('a \<times> int) list"
    using that by (induction d) auto
  moreover have "(\<Sum>(v, n)\<leftarrow>counter xs. n) = int (length xs)"
    using counter_sum [of xs] by (simp add: dict_values_def case_prod_beta')
  ultimately show ?thesis using pos by (metis (no_types, lifting) case_prodI2)
qed

subsection \<open>Portable groups of trials\<close>

definition good_attempt :: "ProviderAttemptRecord \<Rightarrow> bool" where
  "good_attempt a \<longleftrightarrow> ProviderAttemptRecord_validate a = Inr a"

definition good_report :: "TrialReport \<Rightarrow> bool" where
  "good_report r \<longleftrightarrow> nonneg_resources (trp_resources r)
     \<and> crs_requests (trp_resources r) = int (length (trp_provider_attempts r))
     \<and> (\<forall>f\<in>{crs_input_tokens, crs_output_tokens}.
          f (trp_resources r) = (\<Sum>a\<leftarrow>trp_provider_attempts r. f (par_charged_resources a)))
     \<and> (\<forall>a\<in>set (trp_provider_attempts r). good_attempt a)
     \<and> (\<forall>k. tro_provider_spend (trp_outcome r) = Spend_Known k \<longrightarrow> KnownSpend_ok k)"

definition portable_reports :: "TrialReport list \<Rightarrow> bool" where
  "portable_reports rs \<longleftrightarrow> (\<forall>r\<in>set rs. good_report r)
     \<and> (\<forall>f\<in>set resource_fields. (\<Sum>r\<leftarrow>rs. f (trp_resources r)) \<le> JCS_INTEGER_MAX)
     \<and> int (length rs) \<le> JCS_INTEGER_MAX
     \<and> int (\<Sum>r\<leftarrow>rs. length (tro_stage_results (trp_outcome r))) \<le> JCS_INTEGER_MAX"

lemma sum_list_filter_le:
  fixes f :: "'a \<Rightarrow> 'b :: ordered_comm_monoid_add"
  shows "(\<And>x. x \<in> set xs \<Longrightarrow> 0 \<le> f x) \<Longrightarrow> (\<Sum>x\<leftarrow>filter P xs. f x) \<le> (\<Sum>x\<leftarrow>xs. f x)"
  by (induction xs) (auto intro: add_left_mono add_increasing)

lemma portable_filter:
  assumes "portable_reports rs"
  shows "portable_reports (filter P rs)"
proof -
  have nonneg: "0 \<le> f (trp_resources r)" if "r \<in> set rs" "f \<in> set resource_fields" for r f
    using assms that by (auto simp: portable_reports_def good_report_def nonneg_resources_def)
  have "(\<Sum>r\<leftarrow>filter P rs. f (trp_resources r)) \<le> JCS_INTEGER_MAX" if f: "f \<in> set resource_fields" for f
    using sum_list_filter_le [of rs "\<lambda>r. f (trp_resources r)" P] nonneg [OF _ f] assms f
    by (fastforce simp: portable_reports_def)
  moreover have "int (\<Sum>r\<leftarrow>filter P rs. length (tro_stage_results (trp_outcome r))) \<le> JCS_INTEGER_MAX"
    using sum_list_filter_le [of rs "\<lambda>r. length (tro_stage_results (trp_outcome r))" P] assms
    by (simp add: portable_reports_def)
  moreover have "int (length (filter P rs)) \<le> JCS_INTEGER_MAX"
    using length_filter_le [of P rs] assms unfolding portable_reports_def by linarith
  ultimately show ?thesis using assms by (auto simp: portable_reports_def)
qed

lemma jcs_count: "int n \<le> JCS_INTEGER_MAX \<Longrightarrow> jcs_nonnegative_ok (int n)"
  by (simp add: jcs_nonnegative_ok_def)

lemma CountRatio_new_ok:
  "0 \<le> n \<Longrightarrow> n \<le> d \<Longrightarrow> d \<le> JCS_INTEGER_MAX \<Longrightarrow> CountRatio_new n d = Inr \<lparr>crt_numerator = n, crt_denominator = d\<rparr>"
  by (simp add: CountRatio_new_def report_if_def jcs_nonnegative_ok_def)

lemma success_ratio_ok:
  "int (length rs) \<le> JCS_INTEGER_MAX \<Longrightarrow> success_ratio rs
     = Inr \<lparr>crt_numerator = int (length (filter trial_success rs)), crt_denominator = int (length rs)\<rparr>"
  unfolding success_ratio_def by (rule CountRatio_new_ok) auto

lemma fold_resources:
  assumes "counter_additive f"
  shows "f (fold (\<lambda>r t. resources_add t (trp_resources r)) rs z) = f z + (\<Sum>r\<leftarrow>rs. f (trp_resources r))"
  by (induction rs arbitrary: z) (simp_all add: counter_additiveD [OF assms])

lemma aggregate_resources_ok:
  assumes "portable_reports rs"
  shows "aggregate_resources rs = Inr (fold (\<lambda>r t. resources_add t (trp_resources r)) rs resources_zero)"
proof -
  have "jcs_nonnegative_ok (f (fold (\<lambda>r t. resources_add t (trp_resources r)) rs resources_zero))"
    if f: "f \<in> set resource_fields" for f
  proof -
    have "0 \<le> (\<Sum>r\<leftarrow>rs. f (trp_resources r))"
      using assms f by (intro sum_list_nonneg) (auto simp: portable_reports_def good_report_def nonneg_resources_def)
    then show ?thesis
      using assms f fold_resources [OF resource_fields_additive [OF f], of rs resources_zero]
        counter_additiveD(1) [OF resource_fields_additive [OF f]]
      by (simp add: portable_reports_def jcs_nonnegative_ok_def)
  qed
  then show ?thesis by (simp add: aggregate_resources_def CampaignResources_validate_def list_all_iff lift_campaign_def)
qed

lemma terminal_reason_counts_ok:
  assumes "int (length rs) \<le> JCS_INTEGER_MAX"
  shows "\<exists>cs. terminal_reason_counts rs = Inr cs"
proof -
  have "jcs_positive_ok n" if "(v, n) \<in> set (counter (map (\<lambda>r. tro_terminal_reason (trp_outcome r)) rs))" for v n
    using counter_value [OF that] assms by (auto simp: jcs_positive_ok_def)
  then show ?thesis by (force simp: terminal_reason_counts_def Let_def report_if_def list_all_iff)
qed

subsection \<open>Tokens\<close>

lemma good_attempt_facts:
  assumes "good_attempt a"
  shows "0 \<le> crs_input_tokens (par_charged_resources a)" "0 \<le> crs_output_tokens (par_charged_resources a)"
    "\<And>u. par_provider_usage a = Some u \<Longrightarrow> ucn_input_tokens u = crs_input_tokens (par_charged_resources a)
       \<and> ucn_output_tokens u = crs_output_tokens (par_charged_resources a)
       \<and> (\<forall>c. ucn_cached_input_tokens u = Some c \<longrightarrow> 0 \<le> c \<and> c \<le> ucn_input_tokens u)
       \<and> (\<forall>c. ucn_reasoning_tokens u = Some c \<longrightarrow> 0 \<le> c \<and> c \<le> ucn_output_tokens u)"
proof -
  have v: "ProviderAttemptRecord_validate a = Inr a" using assms by (simp add: good_attempt_def)
  from attempt_validate_facts(2) [OF v]
  show "0 \<le> crs_input_tokens (par_charged_resources a)" "0 \<le> crs_output_tokens (par_charged_resources a)"
    by (auto simp: nonneg_resources_def resource_fields_def)
  fix u assume u: "par_provider_usage a = Some u"
  with v have "UsageCounters_validate u = Inr u" "crs_input_tokens (par_charged_resources a) = ucn_input_tokens u"
    "crs_output_tokens (par_charged_resources a) = ucn_output_tokens u"
    by (auto simp: ProviderAttemptRecord_validate_def Let_def split: if_splits)
  then show "ucn_input_tokens u = crs_input_tokens (par_charged_resources a)
       \<and> ucn_output_tokens u = crs_output_tokens (par_charged_resources a)
       \<and> (\<forall>c. ucn_cached_input_tokens u = Some c \<longrightarrow> 0 \<le> c \<and> c \<le> ucn_input_tokens u)
       \<and> (\<forall>c. ucn_reasoning_tokens u = Some c \<longrightarrow> 0 \<le> c \<and> c \<le> ucn_output_tokens u)"
    by (auto simp: UsageCounters_validate_def jcs_nonnegative_ok_def map_filter_simps split: if_splits option.splits)
qed

text \<open>Reported usage is charged in full, and cached and reasoning tokens are parts of it.\<close>

lemma token_sums:
  assumes "\<forall>a\<in>set as. good_attempt a"
  shows "0 \<le> tka_provider_input_tokens (token_totals as)"
    "tka_provider_input_tokens (token_totals as) \<le> tka_charged_input_tokens (token_totals as)"
    "0 \<le> tka_provider_output_tokens (token_totals as)"
    "tka_provider_output_tokens (token_totals as) \<le> tka_charged_output_tokens (token_totals as)"
    "0 \<le> tka_cached_input_tokens (token_totals as)"
    "tka_cached_input_tokens (token_totals as) \<le> tka_provider_input_tokens (token_totals as)"
    "0 \<le> tka_reasoning_tokens (token_totals as)"
    "tka_reasoning_tokens (token_totals as) \<le> tka_provider_output_tokens (token_totals as)"
  using assms
proof (atomize (full), induction as)
  case Nil
  then show ?case by (simp add: token_totals_def Let_def map_filter_simps)
next
  case (Cons a as)
  then have g: "good_attempt a" by simp
  show ?case
  proof (cases "par_provider_usage a")
    case None
    with Cons good_attempt_facts(1,2) [OF g] show ?thesis by (simp add: token_totals_def Let_def map_filter_simps)
  next
    case (Some u)
    from good_attempt_facts(3) [OF g Some] good_attempt_facts(1,2) [OF g] Cons Some show ?thesis
      by (cases "ucn_cached_input_tokens u"; cases "ucn_reasoning_tokens u")
        (simp_all add: token_totals_def Let_def map_filter_simps)
  qed
qed

lemma token_accounting_ok:
  assumes "\<forall>a\<in>set as. good_attempt a" "int (length as) \<le> JCS_INTEGER_MAX"
    "(\<Sum>a\<leftarrow>as. crs_input_tokens (par_charged_resources a)) \<le> JCS_INTEGER_MAX"
    "(\<Sum>a\<leftarrow>as. crs_output_tokens (par_charged_resources a)) \<le> JCS_INTEGER_MAX"
  shows "token_accounting as = Inr (token_totals as)"
proof -
  let ?t = "token_totals as"
  have charged: "tka_charged_input_tokens ?t \<le> JCS_INTEGER_MAX" "tka_charged_output_tokens ?t \<le> JCS_INTEGER_MAX"
    using assms(3,4) by (simp_all add: token_totals_def Let_def)
  have n: "tka_request_attempts ?t = int (length as)" by (simp add: token_totals_def Let_def)
  have parts: "0 \<le> f ?t \<and> f ?t \<le> int (length as)"
    if "f \<in> {tka_retry_attempts, tka_unknown_usage_attempts, tka_unknown_cached_usage_attempts,
      tka_unknown_reasoning_usage_attempts}" for f
    using that by (auto simp: token_totals_def Let_def intro: order_trans [OF length_filter_le])
  note sums = token_sums [OF assms(1)]
  have "jcs_nonnegative_ok (f ?t)" if "f \<in> set token_fields" for f
    using that sums charged n parts [of tka_retry_attempts] parts [of tka_unknown_usage_attempts] assms(2)
      parts [of tka_unknown_cached_usage_attempts] parts [of tka_unknown_reasoning_usage_attempts]
    unfolding token_fields_def jcs_nonnegative_ok_def list.set insert_iff empty_iff by (elim disjE) simp_all
  moreover have "tka_retry_attempts ?t \<le> tka_request_attempts ?t" "tka_unknown_usage_attempts ?t \<le> tka_request_attempts ?t"
    "tka_unknown_cached_usage_attempts ?t \<le> tka_request_attempts ?t"
    "tka_unknown_reasoning_usage_attempts ?t \<le> tka_request_attempts ?t"
    using parts by (simp_all add: n)
  ultimately show ?thesis
    by (simp add: token_accounting_def TokenAccounting_validate_def report_if_def list_all_iff not_less)
qed

lemma sum_all_attempts: "(\<Sum>a\<leftarrow>all_attempts rs. f a) = (\<Sum>r\<leftarrow>rs. \<Sum>a\<leftarrow>trp_provider_attempts r. f a)"
  by (induction rs) (simp_all add: all_attempts_def)

lemma portable_attempts:
  assumes "portable_reports rs"
  shows "\<forall>a\<in>set (all_attempts rs). good_attempt a" "int (length (all_attempts rs)) \<le> JCS_INTEGER_MAX"
    "(\<Sum>a\<leftarrow>all_attempts rs. crs_input_tokens (par_charged_resources a)) \<le> JCS_INTEGER_MAX"
    "(\<Sum>a\<leftarrow>all_attempts rs. crs_output_tokens (par_charged_resources a)) \<le> JCS_INTEGER_MAX"
proof -
  have good: "good_report r" if "r \<in> set rs" for r using assms that by (simp add: portable_reports_def)
  have tot: "(\<Sum>r\<leftarrow>rs. f (trp_resources r)) \<le> JCS_INTEGER_MAX"
    if "f \<in> {crs_requests, crs_input_tokens, crs_output_tokens}" for f
    using assms that by (auto simp: portable_reports_def resource_fields_def)
  show "\<forall>a\<in>set (all_attempts rs). good_attempt a" using good by (auto simp: all_attempts_def good_report_def)
  have "int (length (all_attempts rs)) = (\<Sum>r\<leftarrow>rs. crs_requests (trp_resources r))"
    using good by (induction rs) (auto simp: all_attempts_def good_report_def)
  then show "int (length (all_attempts rs)) \<le> JCS_INTEGER_MAX" using tot by simp
  have "(\<Sum>r\<leftarrow>rs. \<Sum>a\<leftarrow>trp_provider_attempts r. f (par_charged_resources a)) = (\<Sum>r\<leftarrow>rs. f (trp_resources r))"
    if "f \<in> {crs_input_tokens, crs_output_tokens}" for f
    using good that by (intro arg_cong [where f = sum_list] map_cong) (auto simp: good_report_def)
  then show "(\<Sum>a\<leftarrow>all_attempts rs. crs_input_tokens (par_charged_resources a)) \<le> JCS_INTEGER_MAX"
    "(\<Sum>a\<leftarrow>all_attempts rs. crs_output_tokens (par_charged_resources a)) \<le> JCS_INTEGER_MAX"
    using tot by (simp_all add: sum_all_attempts)
qed

subsection \<open>Spend\<close>

lemma half_even_nonneg: "0 \<le> y \<Longrightarrow> 0 \<le> half_even y"
  by (auto simp: half_even_def Let_def)

lemma pow10_positive_int: "0 < pow10 e"
  by (simp add: pow10_def)

lemma decimal_add_nonneg: "0 \<le> x \<Longrightarrow> 0 \<le> y \<Longrightarrow> 0 \<le> decimal_add x y"
  using pow10_positive_int by (auto simp: decimal_add_def rounded_fraction_def Let_def less_imp_le intro!: mult_nonneg_nonneg half_even_nonneg divide_nonneg_nonneg)

lemma spend_fold:
  assumes "\<forall>r\<in>set rs. good_report r" "\<forall>t\<in>set d. CurrencyTotal_ok t" "dict_wf d" "0 \<le> n"
  shows "(\<forall>t\<in>set (fst (fold add_spend rs (d, n))). CurrencyTotal_ok t)
    \<and> n \<le> snd (fold add_spend rs (d, n)) \<and> snd (fold add_spend rs (d, n)) \<le> n + int (length rs)"
  using assms
proof (induction rs arbitrary: d n)
  case (Cons r rs)
  show ?case
  proof (cases "tro_provider_spend (trp_outcome r)")
    case (Spend_Known k)
    let ?x = "decimal_add (case dict_get d (ksp_currency k) of None \<Rightarrow> 0 | Some x \<Rightarrow> x) (ksp_amount k)"
    have k: "KnownSpend_ok k" using Cons.prems(1) Spend_Known by (auto simp: good_report_def)
    have "0 \<le> (case dict_get d (ksp_currency k) of None \<Rightarrow> 0 | Some x \<Rightarrow> x)"
      using Cons.prems(2) by (force simp: CurrencyTotal_ok_def KnownSpend_ok_def dest!: map_of_SomeD split: option.splits)
    then have "0 \<le> ?x" using k by (intro decimal_add_nonneg) (auto simp: KnownSpend_ok_def)
    then have new: "CurrencyTotal_ok (ksp_currency k, ?x)" using k by (simp add: CurrencyTotal_ok_def KnownSpend_ok_def)
    have "CurrencyTotal_ok t" if "t \<in> set (dict_set (ksp_currency k) ?x d)" for t
    proof -
      have "dict_get (dict_set (ksp_currency k) ?x d) (fst t) = Some (snd t)"
        using that Cons.prems(3) by (simp flip: dict_mem_get)
      then show ?thesis using new Cons.prems(2) by (cases t) (auto simp: dict_get_set dest: map_of_SomeD split: if_splits)
    qed
    with Cons.IH [of "dict_set (ksp_currency k) ?x d" n] Cons.prems Spend_Known show ?thesis by (simp add: add_spend_def)
  next
    case (Spend_Unobserved x)
    with Cons.IH [of d "n + 1"] Cons.prems show ?thesis by (simp add: add_spend_def)
  qed
qed simp

lemma spend_summary_ok:
  assumes "portable_reports rs"
  shows "\<exists>x. spend_summary rs = Inr x"
proof -
  have "(\<forall>t\<in>set (fst (fold add_spend rs ([], 0))). CurrencyTotal_ok t)
      \<and> 0 \<le> snd (fold add_spend rs ([], 0)) \<and> snd (fold add_spend rs ([], 0)) \<le> 0 + int (length rs)"
    by (rule spend_fold) (use assms in \<open>auto simp: portable_reports_def\<close>)
  with assms show ?thesis
    by (auto simp: spend_summary_def Let_def report_if_def list_all_iff portable_reports_def jcs_nonnegative_ok_def case_prod_beta)
qed

lemma group_totals_ok:
  assumes "portable_reports rs"
  shows "\<exists>t. group_totals rs = Inr t"
proof -
  have n: "int (length rs) \<le> JCS_INTEGER_MAX" using assms by (simp add: portable_reports_def)
  show ?thesis
    using success_ratio_ok [OF n] aggregate_resources_ok [OF assms] token_accounting_ok [OF portable_attempts [OF assms]]
      terminal_reason_counts_ok [OF n] spend_summary_ok [OF assms]
    by (auto simp: group_totals_def)
qed

subsection \<open>Aggregates\<close>

lemma length_map_filter: "length (List.map_filter f xs) \<le> length xs"
  by (simp add: map_filter_def)

lemma counter_positive:
  assumes "int (length xs) \<le> JCS_INTEGER_MAX"
  shows "\<forall>(v, n)\<in>set (counter xs). jcs_positive_ok n"
  using counter_value [of _ _ xs] assms by (auto simp: jcs_positive_ok_def) fastforce+

text \<open>The label counts of attempts: how many are known, and how many differ from an expectation.\<close>

lemma label_counts:
  fixes f :: "'a \<Rightarrow> 'b option"
  assumes "int (length as) \<le> JCS_INTEGER_MAX"
  defines "labels \<equiv> counter (List.map_filter f as)"
  shows "\<forall>(v, n)\<in>set labels. jcs_positive_ok n"
    "jcs_nonnegative_ok (int (length as) - sum_list (dict_values labels))"
    "\<exists>x. CountRatio_new (\<Sum>(v, n)\<leftarrow>filter P labels. n) (sum_list (dict_values labels)) = Inr x"
proof -
  have len: "int (length (List.map_filter f as)) \<le> int (length as)" using length_map_filter [of f as] by simp
  have known: "sum_list (dict_values labels) = int (length (List.map_filter f as))" by (simp add: labels_def counter_sum)
  show "\<forall>(v, n)\<in>set labels. jcs_positive_ok n" unfolding labels_def by (rule counter_positive) (use len assms in linarith)
  show "jcs_nonnegative_ok (int (length as) - sum_list (dict_values labels))"
    using len assms(1) known by (simp add: jcs_nonnegative_ok_def)
  show "\<exists>x. CountRatio_new (\<Sum>(v, n)\<leftarrow>filter P labels. n) (sum_list (dict_values labels)) = Inr x"
    using CountRatio_new_ok [of "\<Sum>(v, n)\<leftarrow>filter P labels. n" "sum_list (dict_values labels)"]
      counter_filter_sum [of P "List.map_filter f as"] known len assms(1)
    by (auto simp: labels_def)
qed

lemma model_aggregate_ok:
  assumes "portable_reports rs" "mrt_categories route \<noteq> []"
  shows "\<exists>x. model_aggregate route rs = Inr x"
proof -
  note n = portable_attempts(2) [OF assms(1)]
  show ?thesis
    using label_counts [OF n, where f = par_provider_reported_model] group_totals_ok [OF assms(1)] assms(2)
    by (fastforce simp: model_aggregate_def Let_def report_if_def list_all_iff)
qed

lemma service_tier_accounting_ok:
  assumes "int (length as) \<le> JCS_INTEGER_MAX" "\<forall>a\<in>set as. par_requested_service_tier a = tier"
  shows "\<exists>x. service_tier_accounting as tier = Inr x"
proof -
  let ?c = "counter (List.map_filter par_provider_reported_service_tier as)"
  have "distinct (map fst (sorted_items ?c))"
    using dict_wf_counter by (simp add: sorted_items_def dict_wf_def distinct_map inj_on_def)
  then show ?thesis
    using label_counts [OF assms(1), where f = par_provider_reported_service_tier] assms(2)
    by (fastforce simp: service_tier_accounting_def ServiceTierAccounting_new_def Let_def report_if_def list_all_iff list_ex_iff)
qed

lemma task_aggregate_ok:
  "portable_reports rs \<Longrightarrow> dict_get d k = Some task \<Longrightarrow> \<exists>x. task_aggregate d k rs = Inr x"
  using group_totals_ok by (fastforce simp: task_aggregate_def lookup_key_def)

lemma device_aggregate_ok: "portable_reports rs \<Longrightarrow> \<exists>x. device_aggregate capability rs = Inr x"
  using group_totals_ok by (fastforce simp: device_aggregate_def)

lemma model_effort_aggregate_ok:
  "portable_reports rs \<Longrightarrow> effort_ok effort \<Longrightarrow> \<exists>x. model_effort_aggregate route effort rs = Inr x"
  using group_totals_ok by (fastforce simp: model_effort_aggregate_def report_if_def)

lemma category_aggregate_ok:
  assumes "portable_reports rs" "category \<in> set (report_categories h)"
  shows "\<exists>x. category_aggregate h rs category = Inr x"
proof -
  from assms(2) have "filter (\<lambda>r. category \<in> set (mrt_categories r)) (mst_routes (chd_model_set h)) \<noteq> []"
    by (auto simp: report_categories_def filter_empty_conv)
  then show ?thesis
    using group_totals_ok [OF portable_filter [OF assms(1)]] by (fastforce simp: category_aggregate_def Let_def report_if_def)
qed

lemma success_at_k_row_ok:
  assumes "int (length d) \<le> JCS_INTEGER_MAX" "effort_ok effort" "jcs_positive_ok (int k)"
  shows "\<exists>x. success_at_k_row route route_id effort d k = Inr x"
proof -
  have "length (filter (\<lambda>g. list_ex trial_success (take k g)) (dict_values d)) \<le> length d"
    using length_filter_le [of _ "dict_values d"] by (simp add: dict_values_def)
  with assms show ?thesis by (simp add: success_at_k_row_def CountRatio_new_ok report_if_def)
qed

lemma funnel_row_ok:
  assumes "portable_reports rs"
  shows "\<exists>x. funnel_row task release rs stage = Inr x"
proof -
  let ?m = "filter (\<lambda>m. m \<noteq> []) (map (stage_kinds stage) rs)"
  have n: "int (length rs) \<le> JCS_INTEGER_MAX" using assms by (simp add: portable_reports_def)
  have m: "length ?m \<le> length rs" using length_filter_le [of _ "map (stage_kinds stage) rs"] by simp
  have "length (concat ?m) \<le> (\<Sum>r\<leftarrow>rs. length (tro_stage_results (trp_outcome r)))"
    by (induction rs) (auto simp: stage_kinds_def intro: add_mono)
  then have "\<forall>(v, n)\<in>set (counter (concat ?m)). jcs_positive_ok n"
    using assms by (intro counter_positive) (simp add: portable_reports_def)
  then show ?thesis
    using m n length_filter_le [of "list_ex (\<lambda>kind. kind \<in> {Outcome_PASSED, Outcome_PROVED})" ?m]
    by (auto simp: funnel_row_def Let_def CountRatio_new_ok report_if_def list_all_iff)
qed

lemma map_result_exists: "(\<And>x. x \<in> set xs \<Longrightarrow> \<exists>y. f x = Inr y) \<Longrightarrow> \<exists>ys. map_result f xs = Inr ys"
  by (induction xs) fastforce+

lemma effort_tasks_length: "length (effort_tasks rs effort) \<le> length rs"
proof -
  let ?f = "filter (\<lambda>r. tbd_reasoning_effort (sct_binding (trp_trial r)) = effort) rs"
  have "length (effort_tasks rs effort) \<le> length ?f" by (simp add: effort_tasks_def length_group_by)
  then show ?thesis using length_filter_le [of _ rs] le_trans by blast
qed

lemma success_at_k_ok:
  assumes "int (length rs) \<le> JCS_INTEGER_MAX" "int (length (cmp_paired_trial_seeds (chd_campaign h))) \<le> JCS_INTEGER_MAX"
    and route: "\<And>r. r \<in> set rs \<Longrightarrow> \<exists>x. dict_get routes (tbd_route_id (sct_binding (trp_trial r))) = Some x"
    and effort: "\<And>r. r \<in> set rs \<Longrightarrow> effort_ok (tbd_reasoning_effort (sct_binding (trp_trial r)))"
  shows "\<exists>x. success_at_k h routes (group_by (\<lambda>r. tbd_route_id (sct_binding (trp_trial r))) rs) = Inr x"
proof -
  let ?groups = "group_by (\<lambda>r. tbd_route_id (sct_binding (trp_trial r))) rs"
  let ?ks = "[1..<Suc (length (cmp_paired_trial_seeds (chd_campaign h)))]"
  let ?rows = "\<lambda>x route_id g e. map_result (success_at_k_row x route_id e (effort_tasks g e)) ?ks"
  let ?efforts = "\<lambda>g. sort (remdups (map (\<lambda>r. tbd_reasoning_effort (sct_binding (trp_trial r))) g))"
  let ?F = "\<lambda>(route_id, g). bind_result (lookup_key routes route_id) (\<lambda>x.
     bind_result (map_result (?rows x route_id g) (?efforts g)) (\<lambda>rows. Inr (concat rows)))"
  have row: "\<exists>y. ?F p = Inr y" if p: "p \<in> set (sorted_items ?groups)" for p
  proof -
    obtain route_id g where pg: "p = (route_id, g)" by (cases p)
    with p have g: "route_id \<in> (\<lambda>r. tbd_route_id (sct_binding (trp_trial r))) ` set rs"
      "g = filter (\<lambda>r. tbd_route_id (sct_binding (trp_trial r)) = route_id) rs"
      by (simp_all add: group_by_mem)
    with route obtain x where x: "dict_get routes route_id = Some x" by auto
    have "length g \<le> length rs" by (simp add: g(2))
    then have len: "int (length (effort_tasks g e)) \<le> JCS_INTEGER_MAX" for e
      using effort_tasks_length [of g e] assms(1) by linarith
    have rows: "\<exists>y. ?rows x route_id g e = Inr y" if "effort_ok e" for e
    proof (rule map_result_exists)
      fix k assume "k \<in> set ?ks"
      with assms(2) have "jcs_positive_ok (int k)" by (auto simp: jcs_positive_ok_def)
      with len that show "\<exists>y. success_at_k_row x route_id e (effort_tasks g e) k = Inr y" by (intro success_at_k_row_ok)
    qed
    have "\<exists>y. map_result (?rows x route_id g) (?efforts g) = Inr y"
    proof (rule map_result_exists)
      fix e assume "e \<in> set (?efforts g)"
      with effort have "effort_ok e" by (auto simp: g(2))
      then show "\<exists>y. ?rows x route_id g e = Inr y" by (rule rows)
    qed
    then obtain y where "map_result (?rows x route_id g) (?efforts g) = Inr y" by blast
    then show ?thesis by (simp add: pg lookup_key_def x)
  qed
  have "\<exists>y. map_result ?F (sorted_items ?groups) = Inr y" by (rule map_result_exists) (rule row)
  then show ?thesis by (auto simp: success_at_k_def)
qed

lemma evaluator_funnel_ok:
  assumes "portable_reports rs"
    and task: "\<And>r. r \<in> set rs \<Longrightarrow> \<exists>x. dict_get tasks (tbd_task_release_digest (sct_binding (trp_trial r))) = Some x"
  shows "\<exists>x. evaluator_funnel tasks (group_by (\<lambda>r. tbd_task_release_digest (sct_binding (trp_trial r))) rs) = Inr x"
proof -
  let ?groups = "group_by (\<lambda>r. tbd_task_release_digest (sct_binding (trp_trial r))) rs"
  let ?F = "\<lambda>(release, g). bind_result (lookup_key tasks release) (\<lambda>task.
     map_result (funnel_row task release g) (ctk_evaluator_stage_ids task))"
  have row: "\<exists>y. ?F p = Inr y" if "p \<in> set (sorted_items ?groups)" for p
  proof -
    obtain release g where pg: "p = (release, g)" by (cases p)
    with that have g: "release \<in> (\<lambda>r. tbd_task_release_digest (sct_binding (trp_trial r))) ` set rs"
      "g = filter (\<lambda>r. tbd_task_release_digest (sct_binding (trp_trial r)) = release) rs"
      by (simp_all add: group_by_mem)
    with task obtain x where x: "dict_get tasks release = Some x" by auto
    have "portable_reports g" unfolding g(2) by (rule portable_filter [OF assms(1)])
    then have "\<exists>y. map_result (funnel_row x release g) (ctk_evaluator_stage_ids x) = Inr y"
      by (intro map_result_exists funnel_row_ok)
    then show ?thesis by (simp add: pg lookup_key_def x)
  qed
  have "\<exists>y. map_result ?F (sorted_items ?groups) = Inr y" by (rule map_result_exists) (rule row)
  then show ?thesis by (auto simp: evaluator_funnel_def)
qed

subsection \<open>The schedule of a report\<close>

abbreviation report_index :: "TrialReport \<Rightarrow> int" where
  "report_index r \<equiv> tbd_task_order_index (sct_binding (trp_trial r))"

abbreviation report_release :: "TrialReport \<Rightarrow> Digest" where
  "report_release r \<equiv> tbd_task_release_digest (sct_binding (trp_trial r))"

lemma task_order_fold:
  assumes "\<And>r. r \<in> set rs \<Longrightarrow> report_release r = F (report_index r)" "dict_wf d"
    "\<And>k v. dict_get d k = Some v \<Longrightarrow> v = F k"
  shows "\<exists>d'. fold_result task_order_step d rs = Inr d' \<and> dict_wf d'
    \<and> set (dict_keys d') = set (dict_keys d) \<union> report_index ` set rs
    \<and> (\<forall>k v. dict_get d' k = Some v \<longrightarrow> v = F k)"
  using assms
proof (induction rs arbitrary: d)
  case (Cons r rs)
  let ?d = "case dict_get d (report_index r) of None \<Rightarrow> dict_set (report_index r) (report_release r) d | Some _ \<Rightarrow> d"
  have step: "task_order_step d r = Inr ?d"
    using Cons.prems(1,3) by (auto simp: task_order_step_def Let_def report_if_def split: option.splits)
  have keys: "set (dict_keys ?d) = insert (report_index r) (set (dict_keys d))"
    by (auto simp: dict_keys_set insert_absorb dest: dict_get_Some_keys split: option.splits)
  have vals: "v = F k" if "dict_get ?d k = Some v" for k v
    using that Cons.prems by (auto simp: dict_get_set split: option.splits if_splits)
  have "dict_wf ?d" using Cons.prems(2) by (simp split: option.splits)
  from Cons.IH [OF _ this vals] Cons.prems(1) show ?case by (auto simp: step keys)
qed simp

lemma enumerate_index:
  assumes "dict_get (dict_of snd (int \<circ> fst) (enumerate 0 xs)) x = Some i"
  shows "\<exists>n<length xs. i = int n \<and> xs ! n = x"
  using dict_get_dict_of_SomeD [OF assms] by (auto simp: in_set_enumerate_eq)

lemma reported_schedule_ok:
  assumes s: "CampaignSchedule_validate s = Inr s" and trials: "map trp_trial (crp_trials r) = csc_trials s"
    and dgs: "crp_campaign_digest r = csc_campaign_digest s" "crp_model_set_digest r = csc_model_set_digest s"
  shows "reported_schedule r = Inr s"
proof -
  let ?o = "csc_ordered_task_release_digests s" and ?F = "\<lambda>k. csc_ordered_task_release_digests s ! nat k"
  have facts: "distinct ?o" "set ?o = (\<lambda>t. tbd_task_release_digest (sct_binding t)) ` set (csc_trials s)"
    "\<And>t. t \<in> set (csc_trials s) \<Longrightarrow>
       dict_get (dict_of snd (int \<circ> fst) (enumerate 0 ?o)) (tbd_task_release_digest (sct_binding t))
         = Some (tbd_task_order_index (sct_binding t))"
    using s by (auto simp: CampaignSchedule_validate_def Let_def list_ex_iff split: if_splits)
  have mem: "trp_trial x \<in> set (csc_trials s)" if "x \<in> set (crp_trials r)" for x using that by (simp flip: trials)
  have index: "\<exists>n<length ?o. report_index x = int n \<and> ?o ! n = report_release x" if "x \<in> set (crp_trials r)" for x
    by (rule enumerate_index [OF facts(3) [OF mem [OF that]]])
  then have F: "report_release x = ?F (report_index x)" if "x \<in> set (crp_trials r)" for x using that by fastforce
  obtain d where d: "fold_result task_order_step [] (crp_trials r) = Inr d" "dict_wf d"
    "set (dict_keys d) = report_index ` set (crp_trials r)" "\<And>k v. dict_get d k = Some v \<Longrightarrow> v = ?F k"
    using task_order_fold [of "crp_trials r" ?F "[]"] F by auto
  have "report_index ` set (crp_trials r) = int ` {..<length ?o}"
  proof
    show "report_index ` set (crp_trials r) \<subseteq> int ` {..<length ?o}" using index by blast
    show "int ` {..<length ?o} \<subseteq> report_index ` set (crp_trials r)"
    proof
      fix k assume "k \<in> int ` {..<length ?o}"
      then obtain n where n: "n < length ?o" "k = int n" by auto
      then have "?o ! n \<in> report_release ` set (crp_trials r)" using nth_mem [OF n(1)] facts(2) by (simp flip: trials add: image_image)
      then obtain x where x: "x \<in> set (crp_trials r)" "report_release x = ?o ! n" by auto
      with index obtain m where "m < length ?o" "report_index x = int m" "?o ! m = ?o ! n" by metis
      with n facts(1) have "report_index x = k" by (simp add: nth_eq_iff_index_eq)
      with x show "k \<in> report_index ` set (crp_trials r)" by blast
    qed
  qed
  with d(3) have keys: "set (dict_keys d) = set (map int [0..<length ?o])" by auto
  have "distinct (dict_keys d)" using d(2) by (simp add: dict_wf_def dict_keys_def)
  moreover have "sorted (map int [0..<n])" for n by (induction n) (auto simp: sorted_append)
  ultimately have "sort (dict_keys d) = map int [0..<length ?o]"
    using keys by (intro sorted_distinct_set_unique) (simp_all add: distinct_map)
  moreover from this have "length d = length ?o" by (metis dict_keys_def length_map length_sort length_upt minus_nat.diff_0)
  moreover have "map_result (\<lambda>i. lookup_key d (int i)) [0..<length ?o] = Inr (map (\<lambda>i. ?o ! i) [0..<length ?o])"
  proof (rule map_result_total)
    fix i assume "i \<in> set [0..<length ?o]"
    with keys dict_keys_get [of "int i" d] obtain v where "dict_get d (int i) = Some v" by auto
    with d(4) [OF this] show "lookup_key d (int i) = Inr (?o ! i)" by (simp add: lookup_key_def)
  qed
  moreover have "CampaignSchedule_validate \<lparr>csc_campaign_digest = csc_campaign_digest s,
      csc_model_set_digest = csc_model_set_digest s, csc_ordered_task_release_digests = ?o,
      csc_trials = csc_trials s\<rparr> = Inr s"
    using s by (cases s) simp
  ultimately show ?thesis
    using s dgs by (simp add: reported_schedule_def d(1) report_if_def trials map_nth)
qed

subsection \<open>What an accepted header guarantees of its trials\<close>

definition accepted_header :: "record_digests \<Rightarrow> CampaignHeader \<Rightarrow> bool" where
  "accepted_header dg h \<longleftrightarrow> (\<exists>raw. CampaignSpec_validate raw = Inr (chd_campaign h))
     \<and> (\<exists>raw. ModelSetManifest_validate raw = Inr (chd_model_set h))
     \<and> (\<exists>raw. CampaignHeader_validate (rcd_campaign dg) raw = Inr h)"

lemma header_build:
  assumes "CampaignHeader_validate dg raw = Inr h"
  shows "build_campaign_schedule dg (chd_campaign h) (chd_model_set h) (chd_tasks h) = Inr (chd_schedule h)"
    "\<And>t. t \<in> set (chd_tasks h) \<Longrightarrow> harness_of_task t = expected_harness dg h"
  using assms by (auto simp: CampaignHeader_validate_def Let_def list_ex_iff split: if_splits sum.splits)

lemma model_set_routes:
  assumes "ModelSetManifest_validate raw = Inr ms"
  shows "distinct (map mrt_route_id (mst_routes ms))" "\<And>r. r \<in> set (mst_routes ms) \<Longrightarrow> mrt_categories r \<noteq> []"
proof -
  have route: "ModelSetManifest_validate raw = Inr ms \<Longrightarrow> r \<in> set (mst_routes ms) \<Longrightarrow> \<exists>x. ModelRoute_validate x = Inr r" for r
    by (auto simp: ModelSetManifest_validate_def validate_route_set_def Let_def split: if_splits dest: map_result_set)
  show "distinct (map mrt_route_id (mst_routes ms))"
    using assms by (auto simp: ModelSetManifest_validate_def validate_route_set_def Let_def split: if_splits)
  have "ModelRoute_validate x = Inr r \<Longrightarrow> mrt_categories r \<noteq> []" for x r
    by (auto simp: ModelRoute_validate_def Let_def split: if_splits)
  with route [OF assms] show "\<And>r. r \<in> set (mst_routes ms) \<Longrightarrow> mrt_categories r \<noteq> []" by metis
qed

lemma campaign_shape:
  assumes "CampaignSpec_validate raw = Inr c"
  shows "length (cmp_paired_trial_seeds c) \<le> 3" "\<And>e. e \<in> set (cmp_reasoning_efforts c) \<Longrightarrow> effort_ok e"
proof -
  have scope: "validate_scope x = Inr y \<Longrightarrow> y = x \<and> length (cmp_paired_trial_seeds x) \<le> 3" for x y
    by (cases "cmp_scope x") (auto simp: validate_scope_def Let_def split: if_splits)
  show "length (cmp_paired_trial_seeds c) \<le> 3" "\<And>e. e \<in> set (cmp_reasoning_efforts c) \<Longrightarrow> effort_ok e"
    using assms [unfolded CampaignSpec_validate_def]
    by (auto simp: effort_ok_def list_ex_iff sorted_unique_def split: if_splits dest!: scope)
qed

lemma scheduled_trial_facts:
  assumes h: "accepted_header dg h" and t: "t \<in> set (csc_trials (chd_schedule h))"
  defines "b \<equiv> sct_binding t"
  shows "\<exists>task. dict_get (dict_of ctk_task_release_digest id (chd_tasks h)) (tbd_task_release_digest b) = Some task"
    "\<exists>route. dict_get (dict_of mrt_route_id id (mst_routes (chd_model_set h))) (tbd_route_id b) = Some route
       \<and> mrt_categories route \<noteq> []"
    "effort_ok (tbd_reasoning_effort b)" "tbd_service_tier b = cmp_service_tier (chd_campaign h)"
    "mph_provider_profile_digest (tbd_harness b)
       = cdg_provider_profile (rcd_campaign dg) (rpc_profile (chd_provider_config h))"
    "mph_provider_config_digest (tbd_harness b) = cdg_provider_config (rcd_campaign dg) (chd_provider_config h)"
    "mph_wire_protocol (tbd_harness b) = ppf_wire_protocol (rpc_profile (chd_provider_config h))"
proof -
  from h obtain raw_c raw_m raw where raw: "CampaignSpec_validate raw_c = Inr (chd_campaign h)"
    "ModelSetManifest_validate raw_m = Inr (chd_model_set h)" "CampaignHeader_validate (rcd_campaign dg) raw = Inr h"
    by (auto simp: accepted_header_def)
  let ?tasks = "chd_tasks h" and ?o = "ordered_releases (rcd_campaign dg) (chd_campaign h) (chd_tasks h)"
  from header_build(1) [OF raw(3)] obtain routes where b: "check_campaign_tasks (rcd_campaign dg) (chd_campaign h) ?tasks = Inr ()"
    "campaign_routes (chd_campaign h) (chd_model_set h) = Inr routes"
    "csc_trials (chd_schedule h) = map (\<lambda>(i, b). trial_at (rcd_campaign dg) i b)
       (enumerate 0 (schedule_bindings (rcd_campaign dg) (chd_campaign h) (task_of ?tasks) ?o routes))"
    by (rule build_E)
  have d: "distinct (map ctk_task_release_digest ?tasks)" using b(1) by (simp add: check_campaign_tasks_Inr)
  have "b \<in> set (schedule_bindings (rcd_campaign dg) (chd_campaign h) (task_of ?tasks) ?o routes)"
    using t map_binding_trials [of "rcd_campaign dg" 0] unfolding b(3) b_def by (metis image_eqI set_map)
  then obtain s i release route where release: "release \<in> set ?o" and route: "route \<in> set routes"
    and effort: "tbd_reasoning_effort b \<in> set (cmp_reasoning_efforts (chd_campaign h))"
    and b': "b = trial_binding (rcd_campaign dg) (chd_campaign h) s (i, release) (task_of ?tasks release) route
      (tbd_reasoning_effort b)"
    by (auto simp: schedule_bindings_def in_set_enumerate_eq trial_binding_def)
  have task: "dict_get (dict_of ctk_task_release_digest id ?tasks) release = Some (task_of ?tasks release)"
    "task_of ?tasks release \<in> set ?tasks"
    using task_of_get [OF d, of release] release by (simp_all add: ordered_releases_facts(1) [OF d])
  note fields = b' [unfolded trial_binding_def]
  show "\<exists>task. dict_get (dict_of ctk_task_release_digest id ?tasks) (tbd_task_release_digest b) = Some task"
    using task(1) by (subst fields) simp
  have r: "route \<in> set (mst_routes (chd_model_set h))" using route campaign_routes_ids(2) [OF b(2)] by blast
  note ms = model_set_routes [OF raw(2)]
  have "dict_get (dict_of mrt_route_id id (mst_routes (chd_model_set h))) (mrt_route_id route) = Some route"
    using ms(1) r by (simp add: dict_of_distinct map_of_eq_Some_iff comp_def)
  then show "\<exists>route. dict_get (dict_of mrt_route_id id (mst_routes (chd_model_set h))) (tbd_route_id b) = Some route
       \<and> mrt_categories route \<noteq> []"
    using ms(2) [OF r] by (subst fields) simp
  show "effort_ok (tbd_reasoning_effort b)" by (rule campaign_shape(2) [OF raw(1) effort])
  show "tbd_service_tier b = cmp_service_tier (chd_campaign h)" by (subst fields) simp
  have "tbd_harness b = ctk_harness (task_of ?tasks release)" by (subst fields) simp
  then show "mph_provider_profile_digest (tbd_harness b)
       = cdg_provider_profile (rcd_campaign dg) (rpc_profile (chd_provider_config h))"
    "mph_provider_config_digest (tbd_harness b) = cdg_provider_config (rcd_campaign dg) (chd_provider_config h)"
    "mph_wire_protocol (tbd_harness b) = ppf_wire_protocol (rpc_profile (chd_provider_config h))"
    using header_build(2) [OF raw(3) task(2)] by (simp_all add: harness_of_task_def expected_harness_def)
qed

subsection \<open>What the ledgers of a replayed campaign hold\<close>

definition routed_attempt :: "CampaignHeader \<Rightarrow> Identifier \<Rightarrow> ProviderAttemptRecord \<Rightarrow> bool" where
  "routed_attempt h t a \<longleftrightarrow> good_attempt a
     \<and> (\<exists>trial. find_trial h t = Inr trial \<and> par_requested_service_tier a = tbd_service_tier (sct_binding trial))"

definition reported_ledger :: "record_digests \<Rightarrow> CampaignHeader \<Rightarrow> Identifier \<Rightarrow> TrialProjection \<Rightarrow> bool" where
  "reported_ledger dg h t l \<longleftrightarrow> nonneg_resources (tpr_committed l) \<and> (\<forall>a\<in>set (tpr_attempts l). routed_attempt h t a)
     \<and> (\<forall>x. tpr_outcome l = Some x \<longrightarrow> TrialRunOutcome_validate dg x = Inr x
          \<and> (tro_disposition x = Trial_NOT_DISPATCHED \<longrightarrow> resources_is_zero (tpr_committed l) \<and> tpr_attempts l = []))"

definition report_inv :: "record_digests \<Rightarrow> CampaignHeader \<Rightarrow> CampaignProjection \<Rightarrow> bool" where
  "report_inv dg h st \<longleftrightarrow> ledger_inv h st
     \<and> (\<forall>t l. dict_get (cpj_ledgers st) t = Some l \<longrightarrow> reported_ledger dg h t l)"

lemma report_inv_init: "report_inv dg h (campaign_projection_init h)"
  using ledger_inv_init nonneg_resources_zero
  by (auto simp: report_inv_def reported_ledger_def campaign_projection_init_def TrialProjection_init_def
      dest!: dict_get_dict_of_SomeD)

lemma nonneg_resources_add: "nonneg_resources a \<Longrightarrow> nonneg_resources b \<Longrightarrow> nonneg_resources (resources_add a b)"
  by (auto simp: nonneg_resources_def resource_fields_def resources_add_def)

lemma reported_ledger_settled:
  assumes "reported_ledger dg h t l" "tpr_outcome l = None" "nonneg_resources actual" "\<forall>a\<in>set as. routed_attempt h t a"
    "tpr_committed l' = resources_add (tpr_committed l) actual" "tpr_attempts l' = tpr_attempts l @ as" "tpr_outcome l' = None"
  shows "reported_ledger dg h t l'"
  using assms by (auto simp: reported_ledger_def intro: nonneg_resources_add)

lemma not_dispatched_outcome:
  assumes "apply_trial_outcome dg h p st = Inr st'" "tro_disposition (top_outcome p) = Trial_NOT_DISPATCHED"
    "dict_get (cpj_ledgers st) (top_trial_id p) = Some l"
  shows "resources_is_zero (tpr_committed l) \<and> tpr_attempts l = []"
  using assms by (auto simp: apply_trial_outcome_def Let_def split: option.splits dest!: validated_resources_nonneg)

lemma settled_reported:
  assumes inv: "\<forall>t l. dict_get (cpj_ledgers st) t = Some l \<longrightarrow> reported_ledger dg h t l" "terminal_inv st"
    and r: "dict_get (cpj_reservations st) i = Some r" "dict_get (cpj_ledgers st) (rvl_trial_id r) = Some l"
    and as: "nonneg_resources actual" "\<forall>a\<in>set as. routed_attempt h (rvl_trial_id r) a"
    and l': "tpr_committed l' = tpr_committed l" "tpr_attempts l' = tpr_attempts l @ as" "tpr_outcome l' = tpr_outcome l"
    and m: "dict_get (cpj_ledgers (settled_state i r actual violation l' st)) t = Some m"
  shows "reported_ledger dg h t m"
proof (cases "t = rvl_trial_id r")
  case True
  have "tpr_outcome l = None" using inv(2) r by (auto simp: terminal_inv_def)
  moreover from this have "tpr_committed m = resources_add (tpr_committed l) actual" "tpr_attempts m = tpr_attempts l @ as"
    "tpr_outcome m = None"
    using m True l' by (auto simp: settled_state_def dict_get_set)
  ultimately show ?thesis using inv(1) r(2) as True by (intro reported_ledger_settled [of dg h t l actual as m]) auto
next
  case False
  with m inv(1) show ?thesis by (simp add: settled_state_def dict_get_set)
qed

lemma report_inv_step:
  assumes inv: "report_inv dg h st" and ok: "constructed_event dg e" and step: "apply_campaign_event dg h st e = Inr st'"
  shows "report_inv dg h st'"
proof -
  have led: "ledger_inv h st" and rep: "\<forall>t l. dict_get (cpj_ledgers st) t = Some l \<longrightarrow> reported_ledger dg h t l"
    and acc: "accounting_inv h st" and final: "terminal_inv st"
    using inv by (simp_all add: report_inv_def ledger_inv_def)
  note settled = settled_reported [OF rep final]
  have "reported_ledger dg h t m" if m: "dict_get (cpj_ledgers st') t = Some m" for t m
  proof (cases "cev_payload e")
    case (ReservationCreated p)
    from step ReservationCreated have "apply_reservation_created dg h p st = Inr st'" by (simp add: apply_campaign_event_def)
    then show ?thesis
      by (rule created_E) (use m rep in \<open>auto simp: ready_Inr dict_get_set reported_ledger_def split: if_splits\<close>)
  next
    case (ReservationDispatched i)
    from step ReservationDispatched have "apply_dispatched i st = Inr st'" by (simp add: apply_campaign_event_def)
    then show ?thesis by (rule dispatched_E) (use m rep in auto)
  next
    case (ReservationCancelled i)
    from step ReservationCancelled have "apply_cancelled i st = Inr st'" by (simp add: apply_campaign_event_def)
    from this reserved_claim_nonneg [OF acc] show ?thesis
    proof (rule cancelled_E)
      fix r l xs
      assume a: "dict_get (cpj_reservations st) i = Some r" "dict_get (cpj_ledgers st) (rvl_trial_id r) = Some l"
        "st' = settled_state i r resources_zero False (l\<lparr>tpr_cancelled_provider_requests := xs\<rparr>) st"
      from settled [OF a(1,2) nonneg_resources_zero, of "[]" "l\<lparr>tpr_cancelled_provider_requests := xs\<rparr>" False t m]
        m [unfolded a(3)] show ?thesis by simp
    qed
  next
    case (WorkSettled p)
    then have "nonneg_resources (wsp_actual p)" using constructed_payload [OF ok] validated_resources_nonneg by auto
    moreover from step WorkSettled have "apply_work_settled p st = Inr st'" by (simp add: apply_campaign_event_def)
    ultimately show ?thesis by - (erule work_settled_E, use m in \<open>auto intro!: settled [of _ _ _ "wsp_actual p" "[]"]\<close>)
  next
    case (ProviderAttemptSettled p)
    then have valid: "ProviderAttemptRecord_validate (pas_attempt p) = Inr (pas_attempt p)"
      using constructed_payload [OF ok] by (auto simp: ProviderAttemptRecord_validate_def Let_def split: if_splits)
    from step ProviderAttemptSettled have "apply_provider_settlement h p st = Inr st'" by (simp add: apply_campaign_event_def)
    then show ?thesis
    proof (rule provider_settled_E)
      fix r b trial l
      assume a: "dict_get (cpj_reservations st) (pas_reservation_id p) = Some r" "find_trial h (rvl_trial_id r) = Inr trial"
        "\<not> attempt_differs (pas_attempt p) b r (sct_binding trial)" "dict_get (cpj_ledgers st) (rvl_trial_id r) = Some l"
        "st' = settled_state (pas_reservation_id p) r (par_charged_resources (pas_attempt p))
           (resources_exceeds (par_charged_resources (pas_attempt p)) (rvl_claim r) \<or> par_provider_usage (pas_attempt p) = None)
           (l\<lparr>tpr_attempts := tpr_attempts l @ [pas_attempt p]\<rparr>) st"
      have "routed_attempt h (rvl_trial_id r) (pas_attempt p)"
        using valid a(2,3) by (auto simp: routed_attempt_def good_attempt_def attempt_differs_def)
      with settled [OF a(1,4) attempt_validate_facts(2) [OF valid], of "[pas_attempt p]"
          "l\<lparr>tpr_attempts := tpr_attempts l @ [pas_attempt p]\<rparr>", OF _ _ _ _ m [unfolded a(5)]]
      show ?thesis by simp
    qed
  next
    case (TrialOutcomeRecorded p)
    then have valid: "TrialRunOutcome_validate dg (top_outcome p) = Inr (top_outcome p)"
      using constructed_payload [OF ok] by (auto simp: TrialRunOutcome_validate_def Let_def split: if_splits)
    from step TrialOutcomeRecorded have out: "apply_trial_outcome dg h p st = Inr st'" by (simp add: apply_campaign_event_def)
    then show ?thesis
      by (rule trial_outcome_E)
        (use m rep valid not_dispatched_outcome [OF out] in \<open>auto simp: dict_get_set reported_ledger_def split: if_splits\<close>)
  next
    case (BudgetStopped p)
    from step BudgetStopped have "apply_budget_stopped h p st = Inr st'" by (simp add: apply_campaign_event_def)
    then show ?thesis by (rule budget_stopped_E) (use m rep in auto)
  qed
  with ledger_inv_step [OF led ok step] show ?thesis by (simp add: report_inv_def)
qed

interpretation reports: guarded_projection "apply_campaign_event dg h" "constructed_event dg" "report_inv dg h" for dg h
  by unfold_locales (rule report_inv_step)

subsection \<open>The trial reports\<close>

definition report_of :: "CampaignProjection \<Rightarrow> ScheduledTrial \<Rightarrow> TrialReport" where
  "report_of st t =
     (let l = the (dict_get (cpj_ledgers st) (sct_trial_id t)) in
      \<lparr>trp_trial = t, trp_outcome = the (tpr_outcome l), trp_resources = tpr_committed l,
       trp_token_accounting = token_totals (tpr_attempts l), trp_provider_attempts = tpr_attempts l,
       trp_accounting_violation = tpr_accounting_violation l\<rparr>)"

lemma sum_dict_by_key:
  fixes g :: "'v \<Rightarrow> int"
  assumes "dict_wf d" "distinct (map k xs)" "set (dict_keys d) = k ` set xs"
  shows "(\<Sum>v\<leftarrow>dict_values d. g v) = (\<Sum>x\<leftarrow>xs. g (the (dict_get d (k x))))"
proof -
  let ?f = "\<lambda>y. g (the (dict_get d y))"
  have "(\<Sum>v\<leftarrow>dict_values d. g v) = (\<Sum>y\<leftarrow>dict_keys d. ?f y)"
    using assms(1) unfolding dict_values_def dict_keys_def dict_wf_def map_map comp_def
    by (intro arg_cong [where f = sum_list] map_cong) auto
  also have "\<dots> = (\<Sum>y\<in>set (dict_keys d). ?f y)"
    using assms(1) by (subst sum_list_distinct_conv_sum_set) (simp_all add: dict_wf_def dict_keys_def)
  also have "\<dots> = (\<Sum>y\<leftarrow>map k xs. ?f y)"
    using assms(2,3) by (subst sum_list_distinct_conv_sum_set) simp_all
  finally show ?thesis by (simp add: comp_def)
qed

lemma trial_report_ok:
  assumes inv: "report_inv dg h st" "retry_inv c st"
    and l: "dict_get (cpj_ledgers st) (sct_trial_id t) = Some l" "tpr_outcome l = Some x"
    and portable: "\<forall>f\<in>set resource_fields. f (tpr_committed l) \<le> JCS_INTEGER_MAX"
  shows "trial_report_of st t = Inr (report_of st t)"
proof -
  let ?as = "tpr_attempts l"
  have led: "charged_ledger l" "reported_ledger dg h (sct_trial_id t) l"
    using inv(1) l(1) by (auto simp: report_inv_def ledger_inv_def charges_inv_def)
  have res: "CampaignResources_validate (tpr_committed l) = Inr (tpr_committed l)"
    using led(2) portable
    by (auto simp: CampaignResources_validate_def list_all_iff jcs_nonnegative_ok_def reported_ledger_def nonneg_resources_def)
  have tok: "token_accounting ?as = Inr (token_totals ?as)"
    using led portable by (intro token_accounting_ok)
      (auto simp: charged_ledger_def reported_ledger_def routed_attempt_def resource_fields_def)
  have "map par_attempt_number g = map int [1..<Suc (length g)]" if "g \<in> set (dict_values (group_by par_request_key ?as))" for g
  proof -
    from that obtain k where "g = attempts_for l k"
      by (auto simp: dict_values_get [OF dict_wf_group_by] dict_get_group_by attempts_for_def split: if_splits)
    with retry_invD(1) [OF inv(2) l(1)] show ?thesis by (simp add: attempt_chain_def)
  qed
  then have order: "\<not> list_ex (\<lambda>g. map par_attempt_number g \<noteq> map int [1..<Suc (length g)])
      (dict_values (group_by par_request_key ?as))"
    by (auto simp: list_ex_iff)
  show ?thesis
    using led order l(2) tok
    by (auto simp: trial_report_of_def report_of_def l res TrialReport_validate_def Let_def report_if_def lift_campaign_def
        charged_ledger_def token_totals_def reported_ledger_def)
qed

lemma portable_report_list:
  assumes inv: "report_inv dg h st" and ids: "distinct (map sct_trial_id (csc_trials (chd_schedule h)))"
    and out: "\<forall>t\<in>set (csc_trials (chd_schedule h)).
      \<exists>l x. dict_get (cpj_ledgers st) (sct_trial_id t) = Some l \<and> tpr_outcome l = Some x"
    and portable: "CampaignResources_validate (cpj_committed st) = Inr c"
      "int (length (csc_trials (chd_schedule h))) \<le> JCS_INTEGER_MAX"
      "int (\<Sum>t\<leftarrow>csc_trials (chd_schedule h). length (tro_stage_results (trp_outcome (report_of st t)))) \<le> JCS_INTEGER_MAX"
  shows "portable_reports (map (report_of st) (csc_trials (chd_schedule h)))"
    "\<And>f. f \<in> set resource_fields \<Longrightarrow>
       (\<Sum>t\<leftarrow>csc_trials (chd_schedule h). f (trp_resources (report_of st t))) = f (cpj_committed st)"
proof -
  let ?ts = "csc_trials (chd_schedule h)"
  have acc: "dict_wf (cpj_ledgers st)" "set (dict_keys (cpj_ledgers st)) = sct_trial_id ` set ?ts"
    "\<And>f. counter_additive f \<Longrightarrow> f (cpj_committed st) = (\<Sum>l\<leftarrow>dict_values (cpj_ledgers st). f (tpr_committed l))"
    using inv by (auto simp: report_inv_def ledger_inv_def accounting_inv_def)
  show total: "(\<Sum>t\<leftarrow>?ts. f (trp_resources (report_of st t))) = f (cpj_committed st)" if "f \<in> set resource_fields" for f
    using acc(3) [OF resource_fields_additive [OF that]] sum_dict_by_key [OF acc(1) ids acc(2), of "\<lambda>l. f (tpr_committed l)"]
    by (simp add: report_of_def Let_def)
  have good: "good_report (report_of st t)" if "t \<in> set ?ts" for t
  proof -
    from out that obtain l x where l: "dict_get (cpj_ledgers st) (sct_trial_id t) = Some l" "tpr_outcome l = Some x" by blast
    then have "charged_ledger l" "reported_ledger dg h (sct_trial_id t) l"
      using inv by (auto simp: report_inv_def ledger_inv_def charges_inv_def)
    then show ?thesis
      by (auto simp: report_of_def l good_report_def charged_ledger_def reported_ledger_def routed_attempt_def l(2)
          TrialRunOutcome_validate_def Let_def split: if_splits)
  qed
  have "f (cpj_committed st) \<le> JCS_INTEGER_MAX" if "f \<in> set resource_fields" for f
    using portable(1) that by (auto simp: CampaignResources_validate_def list_all_iff jcs_nonnegative_ok_def split: if_splits)
  with total have "(\<Sum>t\<leftarrow>?ts. f (trp_resources (report_of st t))) \<le> JCS_INTEGER_MAX" if "f \<in> set resource_fields" for f
    using that by simp
  then show "portable_reports (map (report_of st) ?ts)"
    unfolding portable_reports_def using good portable(2,3) by (auto simp: comp_def)
qed

end
