(* ===== verification/CampaignRunnerFacts.thy ===== *)
theory CampaignRunnerFacts
  imports CampaignHandles CampaignJournalFacts CampaignReportFacts
begin

section \<open>Facts about the campaign runner\<close>

text \<open>
  What every transaction of the runner and its handles does to the durable record, and the invariants
  of a system of runners over one journal: the record stays a valid chain that replays, and the handles
  agree with the reservations the journal holds.
\<close>

subsection \<open>Transactions of the runner\<close>

text \<open>A reservation for a provider request claims the tokens of a valid request claim.\<close>

definition token_claim_of :: "CampaignResources \<Rightarrow> ProviderReservationBinding \<Rightarrow> RequestTokenClaim" where
  "token_claim_of claimed provider = \<lparr>rtc_input_tokens = crs_input_tokens claimed, rtc_output_tokens = crs_output_tokens claimed,
     rtc_observed_input_token_floor = prb_observed_input_token_floor provider\<rparr>"

definition metered :: "CampaignResources \<Rightarrow> ProviderReservationBinding option \<Rightarrow> bool" where
  "metered claimed provider \<longleftrightarrow> (\<forall>b\<in>set_option provider.
     RequestTokenClaim_validate (token_claim_of claimed b) = Inr (token_claim_of claimed b))"

definition created_ids :: "CampaignEvent list \<Rightarrow> Identifier set" where
  "created_ids es = {i. \<exists>e\<in>set es. \<exists>p. cev_payload e = ReservationCreated p \<and> rvc_reservation_id p = i}"

lemma created_ids_simps [simp]: "created_ids [] = {}" "created_ids (es @ fs) = created_ids es \<union> created_ids fs"
  by (auto simp: created_ids_def)

text \<open>The events of a transaction create reservations under the given identifiers only, and metered ones.\<close>

definition creates_within :: "Identifier set \<Rightarrow> CampaignEvent \<Rightarrow> bool" where
  "creates_within ids e \<longleftrightarrow> (\<forall>p. cev_payload e = ReservationCreated p \<longrightarrow>
     rvc_reservation_id p \<in> ids \<and> metered (rvc_claim p) (rvc_provider p))"

lemma creates_within_ids: "list_all (creates_within ids) es \<Longrightarrow> created_ids es \<subseteq> ids"
  by (auto simp: created_ids_def creates_within_def list_all_iff)

locale campaign_factory =
  fixes dg :: record_digests and factory :: "CampaignRecord \<Rightarrow> 'e journal_failure + CampaignEvent list \<times> 'r"
    and ok :: "CampaignEvent \<Rightarrow> bool"
  assumes built: "factory record = Inr (es, r) \<Longrightarrow> list_all (\<lambda>e. constructed_event dg e \<and> ok e) es"
begin

lemma transact_ok:
  assumes "record_ok dg digest record" "record_transact dg digest factory record = Inr (record', r)"
  obtains es st where "factory record = Inr (es, r)" "record' = extended dg digest record es" "record_ok dg digest record'"
    "list_all ok es" "replay_campaign_record dg record' = Inr st" "list_all (constructed_event dg) es"
proof -
  from assms obtain es st where es: "factory record = Inr (es, r)" "fresh_events record es"
    "record' = extended dg digest record es" "replay_campaign_record dg record' = Inr st"
    by (auto simp: record_ok_def record_transact_Inr)
  moreover have "record_ok dg digest record'"
    using assms(1) es extended_valid [of dg digest "record" es] built [OF es(1)]
    by (auto simp: record_ok_def list_all_iff)
  ultimately show ?thesis using that built [OF es(1)] by (simp add: list_all_iff)
qed

end

lemma emit_built: "emit dg h st i n payload = Inr (e, st') \<Longrightarrow> constructed_event dg e \<and> cev_payload e = payload
    \<and> e = \<lparr>cev_event_id = i, cev_sequence = int n, cev_payload = payload\<rparr> \<and> apply_campaign_event dg h st e = Inr st'"
  by (auto simp: emit_def dest!: CampaignEvent_validate_same)

lemma emit_next_built:
  assumes "fold_result (emit_next dg record uuid propose) (st, es) xs = Inr (st', es')"
    and "\<And>st x p. propose st x = Inr (Some p) \<Longrightarrow> ok p" "list_all (\<lambda>e. constructed_event dg e \<and> ok (cev_payload e)) es"
  shows "list_all (\<lambda>e. constructed_event dg e \<and> ok (cev_payload e)) es'"
  using assms(1,3)
proof (induction xs arbitrary: st es)
  case (Cons x xs)
  from Cons.prems(1) obtain st1 es1 where step: "emit_next dg record uuid propose (st, es) x = Inr (st1, es1)"
    "fold_result (emit_next dg record uuid propose) (st1, es1) xs = Inr (st', es')" by auto
  have "list_all (\<lambda>e. constructed_event dg e \<and> ok (cev_payload e)) es1"
    using step(1) Cons.prems(2) by (auto simp: emit_next_def dest!: emit_built assms(2) split: option.splits)
  from Cons.IH [OF step(2) this] show ?case .
qed simp

lemma emit_events_built:
  assumes "emit_events dg record uuid propose st xs = Inr es" "\<And>st x p. propose st x = Inr (Some p) \<Longrightarrow> ok p"
  shows "list_all (\<lambda>e. constructed_event dg e \<and> ok (cev_payload e)) es"
  using emit_next_built [of dg "record" uuid propose st "[]" xs _ es ok] assms by (auto simp: emit_events_def)

definition creates_nothing :: "CampaignEvent \<Rightarrow> bool" where
  "creates_nothing e \<longleftrightarrow> (\<forall>p. cev_payload e \<noteq> ReservationCreated p)"

lemma creates_nothing_within: "creates_nothing e \<Longrightarrow> creates_within ids e"
  by (simp add: creates_nothing_def creates_within_def)

interpretation single: campaign_factory dg "emit_single dg uuid payload" "\<lambda>e. cev_payload e = payload" for dg uuid payload
  by unfold_locales (auto simp: emit_single_def dest!: emit_built)

interpretation stop: campaign_factory dg "stop_factory dg h reason uuid" creates_nothing for dg h reason uuid
proof unfold_locales
  fix "record" es and r :: unit assume "stop_factory dg h reason uuid record = Inr (es, r)"
  then obtain st where "emit_events dg record uuid (stop_payload reason) st (csc_trials (chd_schedule h)) = Inr es"
    by (auto simp: stop_factory_def)
  moreover have "\<forall>q. p \<noteq> ReservationCreated q" if "stop_payload reason st x = Inr (Some p)" for st x p
    using that by (auto simp: stop_payload_def split: if_splits)
  ultimately show "list_all (\<lambda>e. constructed_event dg e \<and> creates_nothing e) es"
    unfolding creates_nothing_def by (rule emit_events_built)
qed

interpretation recover: campaign_factory dg "recover_factory dg h uuid" creates_nothing for dg h uuid
proof unfold_locales
  fix "record" es and r :: CampaignRecovery assume "recover_factory dg h uuid record = Inr (es, r)"
  then obtain st xs where "emit_events dg record uuid (\<lambda>_. recovery_payload h) st xs = Inr es"
    by (auto simp: recover_factory_def Let_def)
  moreover have "\<forall>q. p \<noteq> ReservationCreated q" if "recovery_payload h x = Inr (Some p)" for x p
    using that by (auto simp: recovery_payload_def Let_def split: if_splits option.splits prod.splits)
  ultimately show "list_all (\<lambda>e. constructed_event dg e \<and> creates_nothing e) es"
    unfolding creates_nothing_def by (rule emit_events_built)
qed

interpretation reconcile: campaign_factory dg "reconcile_factory dg h trial_id requests uuid" creates_nothing
  for dg h trial_id requests uuid
proof unfold_locales
  fix "record" es and r :: CampaignRecovery assume "reconcile_factory dg h trial_id requests uuid record = Inr (es, r)"
  then obtain st xs where "emit_events dg record uuid (\<lambda>_. reconcile_payload h trial_id requests) st xs = Inr es"
    by (auto simp: reconcile_factory_def Let_def)
  moreover have "\<forall>q. p \<noteq> ReservationCreated q" if "reconcile_payload h trial_id requests x = Inr (Some p)" for x p
    using that by (auto simp: reconcile_payload_def Let_def split: if_splits option.splits prod.splits)
  ultimately show "list_all (\<lambda>e. constructed_event dg e \<and> creates_nothing e) es"
    unfolding creates_nothing_def by (rule emit_events_built)
qed

interpretation finalize: campaign_factory dg "finalize_factory dg handle actual outcome uuid" creates_nothing
  for dg handle actual outcome uuid
  by unfold_locales (auto simp: finalize_factory_def creates_nothing_def dest!: emit_built)

lemma reservation_payload_built:
  "reservation_payload c st trial_id claimed i provider = Inr (payload, rejection) \<Longrightarrow>
     (case rejection of None \<Rightarrow> payload = ReservationCreated \<lparr>rvc_reservation_id = i, rvc_trial_id = trial_id, rvc_claim = claimed,
        rvc_provider = provider\<rparr>
      | Some (d, per_trial) \<Rightarrow> payload = BudgetStopped \<lparr>bsp_dimension = d, bsp_trial_id = trial_id, bsp_per_trial = per_trial,
        bsp_rejected_claim = claimed\<rparr>)"
  by (auto simp: reservation_payload_def split: option.splits)

interpretation work: campaign_factory dg "reserve_work_factory dg h trial_id claimed i uuid" "creates_within {i}"
  for dg h trial_id claimed i uuid
  by unfold_locales (auto simp: reserve_work_factory_def creates_within_def metered_def
      dest!: emit_built reservation_payload_built split: option.splits prod.splits)

interpretation provider: campaign_factory dg
    "reserve_provider_factory dg h trial_id request_key requested_model token_claim security_binding i uuid"
    "\<lambda>e. RequestTokenClaim_validate token_claim = Inr token_claim \<longrightarrow> creates_within {i} e"
  for dg h trial_id request_key requested_model token_claim security_binding i uuid
  by unfold_locales (auto simp: reserve_provider_factory_def creates_within_def metered_def token_claim_of_def provider_claim_def
      RequestTokenClaim_validate_def Let_def dest!: emit_built reservation_payload_built split: option.splits prod.splits if_splits)

subsection \<open>Steps of the durable record\<close>

definition record_step :: "record_digests \<Rightarrow> commit_digest \<Rightarrow> Identifier set \<Rightarrow> CampaignRecord \<Rightarrow> CampaignRecord \<Rightarrow> bool" where
  "record_step dg digest ids record record' \<longleftrightarrow> record' = record \<or> (\<exists>es. record' = extended dg digest record es
     \<and> record_ok dg digest record' \<and> list_all (creates_within ids) es \<and> list_all (constructed_event dg) es)"

lemma record_step_refl [simp]: "record_step dg digest ids record record"
  by (simp add: record_step_def)

lemma record_step_ok: "record_step dg digest ids record record' \<Longrightarrow> record_ok dg digest record \<Longrightarrow> record_ok dg digest record'"
  by (auto simp: record_step_def)

lemma record_step_header: "record_step dg digest ids record record' \<Longrightarrow> crc_header record' = crc_header record"
  by (auto simp: record_step_def)

lemma record_step_created:
  "record_step dg digest ids record record' \<Longrightarrow>
     created_ids (campaign_record_events record') \<subseteq> created_ids (campaign_record_events record) \<union> ids"
  by (auto simp: record_step_def dest!: creates_within_ids)

text \<open>The named part of a result of \<open>runner_act\<close>: the runner and the record afterwards.\<close>

lemma guarded_snd: "snd (guarded check rest rn record) = (if isl check then (rn, record) else snd rest)"
  by (auto simp: guarded_def split: sum.split)

lemma drop_result_snd [simp]: "snd (drop_result x) = snd x"
  by (auto simp: drop_result_def split: prod.split sum.split)

lemma finish_settle_record [simp]: "snd (snd (finish_settle i x)) = snd (snd x)"
  by (auto simp: finish_settle_def split: prod.split sum.split)

lemma runner_commit_snd:
  "snd (runner_commit dg digest factory finish rn record) =
     (case record_transact dg digest factory record of Inl e \<Rightarrow> (rn, record) | Inr (record', r) \<Rightarrow> (snd (finish r), record'))"
  by (auto simp: runner_commit_def split: sum.split prod.split)

lemma runner_commit_step:
  assumes "campaign_factory dg factory ok" "\<forall>e. ok e \<longrightarrow> creates_within ids e" "record_ok dg digest record"
  shows "record_step dg digest ids record (snd (snd (runner_commit dg digest factory finish rn record)))"
proof (cases "record_transact dg digest factory record")
  case (Inr x)
  then obtain record' r where x: "record_transact dg digest factory record = Inr (record', r)" by (cases x) auto
  from campaign_factory.transact_ok [OF assms(1,3) x] obtain es where "record' = extended dg digest record es"
    "record_ok dg digest record'" "list_all ok es" "list_all (constructed_event dg) es" by metis
  with assms(2) x show ?thesis unfolding runner_commit_snd record_step_def by (auto simp: list_all_iff)
qed (simp add: runner_commit_snd)

fun drawn_ids :: "runner_action \<Rightarrow> Identifier set" where
  "drawn_ids (Reserve_provider _ _ _ _ _ reservation) = {new_reservation_id reservation}"
| "drawn_ids (Reserve_work _ _ reservation) = {new_reservation_id reservation}"
| "drawn_ids _ = {}"

text \<open>Arguments are constructed models; the only one a method does not check again is the token claim.\<close>

fun action_ok :: "runner_action \<Rightarrow> bool" where
  "action_ok (Reserve_provider _ _ _ token_claim _ _) \<longleftrightarrow> RequestTokenClaim_validate token_claim = Inr token_claim"
| "action_ok _ \<longleftrightarrow> True"

lemmas commit_steps = runner_commit_step [OF single.campaign_factory_axioms] runner_commit_step [OF stop.campaign_factory_axioms]
  runner_commit_step [OF recover.campaign_factory_axioms] runner_commit_step [OF reconcile.campaign_factory_axioms]
  runner_commit_step [OF finalize.campaign_factory_axioms] runner_commit_step [OF work.campaign_factory_axioms]
  runner_commit_step [OF provider.campaign_factory_axioms]

lemmas runner_operations = runner_reserve_provider_attempt_def runner_reserve_work_def runner_record_outcome_def
  runner_stop_unfinished_def runner_recover_incomplete_dispatches_def

lemmas handle_operations = handle_cancel_def handle_settle_work_def handle_finalize_run_def runner_mark_dispatched_def
  runner_cancel_def runner_settle_work_def runner_finalize_run_def runner_settle_provider_def

lemma runner_act_record:
  assumes "record_ok dg digest record" "action_ok a"
  shows "record_step dg digest (drawn_ids a) record (snd (snd (runner_act dg digest uuid a rn record)))"
proof (cases a)
  case (Resume_work t)
  then show ?thesis by (auto simp: runner_resume_work_reservation_def split: sum.split list.split)
next
  case (Recover_provider t requests n)
  then show ?thesis
    by (auto simp: runner_recover_incomplete_provider_dispatches_def Let_def split: sum.split
        intro!: commit_steps(4) [OF _ assms(1)] creates_nothing_within)
next
  case Build_report
  then show ?thesis by (auto simp: runner_build_report_def split: sum.split)
next
  case (Settle_provider i p)
  then show ?thesis
    by (auto simp: handle_settle_provider_def handle_operations guarded_snd Let_def creates_within_def
        split: sum.split option.split intro!: commit_steps(1) [OF _ assms(1)])
next
  case (Mark_dispatched i)
  have "snd (snd (handle_mark_dispatched dg digest i uuid rn record))
      = (if isl (raise_if (crv_settled (rnr_handles rn ! i) \<or> crv_dispatched (rnr_handles rn ! i)) (Handle_error Cannot_dispatch))
         then record else snd (snd (runner_mark_dispatched dg digest i uuid rn record)))"
    by (auto simp: handle_mark_dispatched_def Let_def guarded_snd split: prod.split sum.split)
  with Mark_dispatched show ?thesis
    by (auto simp: handle_operations guarded_snd creates_within_def intro!: commit_steps(1) [OF _ assms(1)])
qed (use assms in \<open>auto simp: runner_operations handle_operations guarded_snd Let_def creates_within_def creates_nothing_def intro!: commit_steps creates_nothing_within\<close>)

end
