(* ===== verification/CampaignSystem.thy ===== *)
theory CampaignSystem
  imports CampaignRunnerFacts
begin

section \<open>Systems of runners over one journal\<close>

text \<open>
  The invariant of \<open>system_run\<close>: the shared record is valid and replays, and every handle of every runner
  agrees with the reservation the record holds for it, provided that the random reservation identifiers
  that were drawn are distinct.
\<close>

subsection \<open>Replay of an extended record\<close>

lemma replay_extended:
  "replay_campaign_record dg (extended dg digest record es) =
     bind_result (replay_campaign_record dg record) (\<lambda>st. fold_result (apply_campaign_event dg (crc_header record)) st es)"
  by (simp add: replay_campaign_record_def campaign_replay_def fold_result_append)

lemma record_ok_accounting:
  assumes "record_ok dg digest record" "replay_campaign_record dg record = Inr st"
  shows "accounting_inv (crc_header record) st"
  using accounting.run_inv [OF accounting_inv_init] assms
  by (auto simp: record_ok_def replay_campaign_record_def campaign_replay_def)

lemma record_ok_replay: "record_ok dg digest record \<Longrightarrow> \<exists>st. replay_campaign_record dg record = Inr st"
  by (simp add: record_ok_def not_isl_iff)

subsection \<open>Handles and reservations\<close>

text \<open>What a handle knows of its reservation, while that reservation is open.\<close>

definition tracks :: "CampaignProjection \<Rightarrow> CampaignReservation \<Rightarrow> bool" where
  "tracks st x \<longleftrightarrow> (\<forall>r. dict_get (cpj_reservations st) (crv_reservation_id x) = Some r \<longrightarrow>
     rvl_trial_id r = crv_trial_id x \<and> rvl_claim r = crv_claim x \<and> rvl_provider r = crv_provider x
     \<and> (crv_dispatched x \<longrightarrow> rvl_dispatched r) \<and> \<not> crv_settled x)"

lemma reservation_step:
  assumes "accounting_inv h st" "constructed_event dg e" "apply_campaign_event dg h st e = Inr st'" "i \<notin> created_ids [e]"
    and s: "dict_get (cpj_reservations st') i = Some s"
  obtains r where "dict_get (cpj_reservations st) i = Some r" "s = r \<or> s = r\<lparr>rvl_dispatched := True\<rparr>"
  using assms(1-3)
proof (cases rule: campaign_event_E)
  case (created p)
  then have "rvc_reservation_id p \<noteq> i" using assms(4) by (auto simp: created_ids_def)
  with created(3) s that show ?thesis by (auto elim!: created_E simp: dict_get_set)
next
  case (dispatched j r)
  then show ?thesis using s that by (cases "j = i") (auto simp: dict_get_set)
next
  case (settled j r l xs as actual violation)
  then show ?thesis using s that by (auto simp: settled_state_def dict_get_pop split: if_splits)
qed (use s that in auto)

lemma tracks_step:
  assumes "accounting_inv h st" "constructed_event dg e" "apply_campaign_event dg h st e = Inr st'"
    "crv_reservation_id x \<notin> created_ids [e]" "tracks st x"
  shows "tracks st' x"
  unfolding tracks_def
proof (intro allI impI)
  fix s assume "dict_get (cpj_reservations st') (crv_reservation_id x) = Some s"
  then obtain r where r: "dict_get (cpj_reservations st) (crv_reservation_id x) = Some r" "s = r \<or> s = r\<lparr>rvl_dispatched := True\<rparr>"
    by (rule reservation_step [OF assms(1-4)])
  from assms(5) r(1) have "rvl_trial_id r = crv_trial_id x \<and> rvl_claim r = crv_claim x \<and> rvl_provider r = crv_provider x
     \<and> (crv_dispatched x \<longrightarrow> rvl_dispatched r) \<and> \<not> crv_settled x" by (simp add: tracks_def)
  with r(2) show "rvl_trial_id s = crv_trial_id x \<and> rvl_claim s = crv_claim x \<and> rvl_provider s = crv_provider x
     \<and> (crv_dispatched x \<longrightarrow> rvl_dispatched s) \<and> \<not> crv_settled x"
    by auto
qed

interpretation tracking: guarded_projection "apply_campaign_event dg h"
    "\<lambda>e. constructed_event dg e \<and> crv_reservation_id x \<notin> created_ids [e]" "\<lambda>st. accounting_inv h st \<and> tracks st x" for dg h x
proof unfold_locales
  fix st e st'
  assume "accounting_inv h st \<and> tracks st x" "constructed_event dg e \<and> crv_reservation_id x \<notin> created_ids [e]"
    "apply_campaign_event dg h st e = Inr st'"
  then show "accounting_inv h st' \<and> tracks st' x" using accounting_inv_step [of h st dg e st'] tracks_step [of h st dg e st' x] by simp
qed

text \<open>A runner whose handles agree with the projection; its active handles are those not settled.\<close>

definition runner_inv :: "CampaignProjection \<Rightarrow> Identifier set \<Rightarrow> CampaignRunner \<Rightarrow> bool" where
  "runner_inv st ids rn \<longleftrightarrow> rnr_active rn = {i. i < length (rnr_handles rn) \<and> \<not> crv_settled (rnr_handles rn ! i)}
     \<and> (\<forall>x\<in>set (rnr_handles rn). tracks st x \<and> crv_reservation_id x \<in> ids)"

lemma runner_inv_empty [simp]: "runner_inv st ids (runner_of h)"
  by (simp add: runner_inv_def runner_of_def)

lemma runner_inv_closed [simp]: "runner_inv st ids (rn\<lparr>rnr_closed := b\<rparr>) = runner_inv st ids rn"
  by (simp add: runner_inv_def)

lemma runner_inv_add:
  assumes "runner_inv st ids rn" "tracks st x" "crv_reservation_id x \<in> ids" "\<not> crv_settled x"
  shows "runner_inv st ids (add_handle x rn)"
  using assms by (auto simp: runner_inv_def add_handle_def nth_append less_Suc_eq)

lemma runner_inv_set:
  assumes "runner_inv st ids rn" "i < length (rnr_handles rn)" "crv_reservation_id x = crv_reservation_id (rnr_handles rn ! i)"
    "tracks st x" "crv_settled x \<Longrightarrow> active = rnr_active rn - {i}"
    "\<not> crv_settled x \<Longrightarrow> active = rnr_active rn \<and> \<not> crv_settled (rnr_handles rn ! i)"
  shows "runner_inv st ids (set_handle i x (rn\<lparr>rnr_active := active\<rparr>))"
  using assms by (cases "crv_settled x") (auto simp: runner_inv_def set_handle_def nth_list_update dest!: set_update_subset_insert [THEN subsetD])

lemma record_step_runner_inv:
  assumes "record_ok dg digest record" "replay_campaign_record dg record = Inr st" "record_step dg digest new record record'"
    "replay_campaign_record dg record' = Inr st'" "runner_inv st ids rn" "new \<inter> ids = {}"
  shows "runner_inv st' (ids \<union> new) rn"
proof -
  have "tracks st' x" if x: "x \<in> set (rnr_handles rn)" for x
  proof (cases "record' = record")
    case True
    with assms x show ?thesis by (auto simp: runner_inv_def)
  next
    case False
    with assms(3) obtain es where es: "record' = extended dg digest record es" "list_all (creates_within new) es"
      "list_all (constructed_event dg) es" by (auto simp: record_step_def)
    have "crv_reservation_id x \<notin> new" using assms(5,6) x by (auto simp: runner_inv_def)
    then have "list_all (\<lambda>e. constructed_event dg e \<and> crv_reservation_id x \<notin> created_ids [e]) es"
      using es(2,3) by (auto simp: list_all_iff creates_within_def created_ids_def)
    moreover have "fold_result (apply_campaign_event dg (crc_header record)) st es = Inr st'"
      using assms(2,4) by (simp add: es(1) replay_extended)
    moreover have "accounting_inv (crc_header record) st \<and> tracks st x"
      using record_ok_accounting [OF assms(1,2)] assms(5) x by (simp add: runner_inv_def)
    ultimately show ?thesis using tracking.run_inv [of "crc_header record" st x dg es st'] by simp
  qed
  with assms(5) show ?thesis by (auto simp: runner_inv_def)
qed

lemma open_reservation_created:
  assumes "record_ok dg digest record" "replay_campaign_record dg record = Inr st" "dict_get (cpj_reservations st) i = Some r"
  shows "i \<in> created_ids (campaign_record_events record)"
proof (rule ccontr)
  assume i: "i \<notin> created_ids (campaign_record_events record)"
  let ?h = "crc_header record"
  let ?x = "\<lparr>crv_trial_id = [], crv_reservation_id = i, crv_claim = resources_zero, crv_provider = None, crv_dispatched = False,
    crv_settled = True\<rparr>"
  have "list_all (\<lambda>e. constructed_event dg e \<and> crv_reservation_id ?x \<notin> created_ids [e]) (campaign_record_events record)"
    using assms(1) i by (auto simp: record_ok_def list_all_iff created_ids_def)
  moreover have "accounting_inv ?h (campaign_projection_init ?h) \<and> tracks (campaign_projection_init ?h) ?x"
    using accounting_inv_init [of ?h] by (simp add: tracks_def) (simp add: campaign_projection_init_def)
  ultimately have "tracks st ?x"
    using tracking.run_inv assms(2) unfolding replay_campaign_record_def campaign_replay_def by blast
  with assms(3) show False by (simp add: tracks_def)
qed

subsection \<open>The acting runner\<close>

lemma runner_commit_inv:
  assumes "campaign_factory dg factory ok" "\<forall>e. ok e \<longrightarrow> creates_within new e" "record_ok dg digest record"
    "replay_campaign_record dg record = Inr st" "runner_inv st ids rn" "new \<inter> ids = {}"
    "snd (runner_commit dg digest factory finish rn record) = (rn', record')" "replay_campaign_record dg record' = Inr st'"
    and fin: "\<And>es r. factory record = Inr (es, r) \<Longrightarrow> fold_result (apply_campaign_event dg (crc_header record)) st es = Inr st'
      \<Longrightarrow> runner_inv st' (ids \<union> new) rn \<Longrightarrow> runner_inv st' (ids \<union> new) (snd (finish r))"
  shows "runner_inv st' (ids \<union> new) rn'"
proof -
  have "record_step dg digest new record record'"
    using runner_commit_step [OF assms(1-3), of finish rn] assms(7) by simp
  note kept = record_step_runner_inv [OF assms(3,4) this assms(8,5,6)]
  show ?thesis
  proof (cases "record_transact dg digest factory record")
    case (Inl e)
    with assms(7) kept show ?thesis by (simp add: runner_commit_snd)
  next
    case (Inr x)
    then obtain r where x: "record_transact dg digest factory record = Inr (record', r)" "rn' = snd (finish r)"
      using assms(7) by (cases x) (auto simp: runner_commit_snd)
    from campaign_factory.transact_ok [OF assms(1,3) x(1)] obtain es where
      es: "factory record = Inr (es, r)" "record' = extended dg digest record es" by metis
    with assms(4,8) have "fold_result (apply_campaign_event dg (crc_header record)) st es = Inr st'"
      by (simp add: replay_extended)
    from fin [OF es(1) this kept] show ?thesis by (simp add: x(2))
  qed
qed

lemma settle_commit_inv:
  assumes "campaign_factory dg factory ok" "\<forall>e. ok e \<longrightarrow> creates_within {} e" "record_ok dg digest record"
    "replay_campaign_record dg record = Inr st" "runner_inv st ids rn" "i < length (rnr_handles rn)"
    "snd (finish_settle i (guarded check (runner_commit dg digest factory (\<lambda>_. deactivate i exceeded rn) rn record) rn record))
       = (rn', record')" "replay_campaign_record dg record' = Inr st'"
    and gone: "\<And>es r. factory record = Inr (es, r) \<Longrightarrow> fold_result (apply_campaign_event dg (crc_header record)) st es = Inr st'
      \<Longrightarrow> dict_get (cpj_reservations st') (crv_reservation_id (rnr_handles rn ! i)) = None"
  shows "runner_inv st' ids rn'"
proof -
  let ?settled = "set_handle i ((rnr_handles rn ! i)\<lparr>crv_settled := True\<rparr>) (rn\<lparr>rnr_active := rnr_active rn - {i}\<rparr>)"
  show ?thesis
  proof (cases "isl check")
    case True
    with assms(4,5,7,8) show ?thesis by (auto simp: finish_settle_def guarded_def isl_def)
  next
    case False
    then have "snd (finish_settle i (runner_commit dg digest factory (\<lambda>_. deactivate i exceeded rn) rn record)) = (rn', record')"
      using assms(7) by (auto simp: guarded_def not_isl_iff)
    then have commit: "snd (runner_commit dg digest factory (\<lambda>_. (Inr (), ?settled)) rn record) = (rn', record')"
      by (auto simp: finish_settle_def runner_commit_def deactivate_def split: sum.splits prod.splits)
    have "runner_inv st' (ids \<union> {}) rn'"
    proof (rule runner_commit_inv [OF assms(1-5) _ commit assms(8)])
      fix es r assume "factory record = Inr (es, r)"
        "fold_result (apply_campaign_event dg (crc_header record)) st es = Inr st'" "runner_inv st' (ids \<union> {}) rn"
      with gone [of es r] assms(6) show "runner_inv st' (ids \<union> {}) (snd (Inr (), ?settled))"
        by (auto intro!: runner_inv_set simp: tracks_def)
    qed simp
    then show ?thesis by simp
  qed
qed

lemma emit_single_built:
  "emit_single dg uuid payload record = Inr (es, r) \<Longrightarrow> \<exists>e. es = [e] \<and> cev_payload e = payload"
  by (auto simp: emit_single_def dest!: emit_built)

lemma settled_gone:
  assumes "accounting_inv h st" "apply_campaign_event dg h st e = Inr st'"
    and "cev_payload e = ReservationCancelled i
      \<or> (\<exists>p. cev_payload e = WorkSettled p \<and> wsp_reservation_id p = i)
      \<or> (\<exists>p. cev_payload e = ProviderAttemptSettled p \<and> pas_reservation_id p = i)"
  shows "dict_get (cpj_reservations st') i = None"
proof -
  have gone: "dict_get (cpj_reservations (settled_state i r actual violation l st)) i = None" for r actual violation l
    using assms(1) by (simp add: settled_state_def dict_get_pop accounting_inv_def)
  from assms(3) show ?thesis
  proof (elim disjE exE conjE)
    assume "cev_payload e = ReservationCancelled i"
    with assms(2) have "apply_cancelled i st = Inr st'" by (simp add: apply_campaign_event_def)
    then show ?thesis using reserved_claim_nonneg [OF assms(1)] gone by (metis cancelled_E)
  next
    fix p assume "cev_payload e = WorkSettled p" "wsp_reservation_id p = i"
    with assms(2) gone show ?thesis by (auto simp: apply_campaign_event_def elim!: work_settled_E)
  next
    fix p assume "cev_payload e = ProviderAttemptSettled p" "pas_reservation_id p = i"
    with assms(2) gone show ?thesis by (auto simp: apply_campaign_event_def elim!: provider_settled_E)
  qed
qed

lemma finalize_gone:
  assumes "accounting_inv h st" "finalize_factory dg x actual outcome uuid record = Inr (es, r)"
    and "fold_result (apply_campaign_event dg h) st es = Inr st'"
  shows "dict_get (cpj_reservations st') (crv_reservation_id x) = None"
proof -
  from assms(2) obtain e1 e2 where es: "es = [e1, e2]"
    "cev_payload e1 = WorkSettled \<lparr>wsp_reservation_id = crv_reservation_id x, wsp_actual = actual\<rparr>"
    "cev_payload e2 = TrialOutcomeRecorded \<lparr>top_trial_id = crv_trial_id x, top_outcome = outcome\<rparr>"
    by (auto simp: finalize_factory_def dest!: emit_built)
  with assms(3) obtain st1 where steps: "apply_campaign_event dg h st e1 = Inr st1" "apply_campaign_event dg h st1 e2 = Inr st'"
    by auto
  from steps(2) es(3) have "cpj_reservations st' = cpj_reservations st1"
    by (auto simp: apply_campaign_event_def elim: trial_outcome_E)
  with settled_gone [OF assms(1) steps(1), of "crv_reservation_id x"] es(2) show ?thesis by simp
qed

lemma reserved_tracks:
  assumes "reservation_payload c st trial_id claimed i provider = Inr (payload, None)" "cev_payload e = payload"
    "apply_campaign_event dg h st e = Inr st'"
  shows "tracks st' \<lparr>crv_trial_id = trial_id, crv_reservation_id = i, crv_claim = claimed, crv_provider = provider,
     crv_dispatched = False, crv_settled = False\<rparr>"
proof -
  from reservation_payload_built [OF assms(1)] assms(2,3) have "apply_reservation_created dg h
      \<lparr>rvc_reservation_id = i, rvc_trial_id = trial_id, rvc_claim = claimed, rvc_provider = provider\<rparr> st = Inr st'"
    by (simp add: apply_campaign_event_def)
  then show ?thesis by (auto elim!: created_E simp: tracks_def dict_get_set)
qed

lemma reserve_inv:
  assumes "runner_inv st' (ids \<union> {i}) rn" "\<exists>e payload. es = [e] \<and> cev_payload e = payload
      \<and> reservation_payload c st trial_id claimed i (fst selected) = Inr (payload, snd selected)"
    "fold_result (apply_campaign_event dg h) st es = Inr st'"
  shows "runner_inv st' (ids \<union> {i}) (snd (finish_reserve trial_id i claimed rn selected))"
proof (cases selected)
  case (Pair provider rejection)
  show ?thesis
  proof (cases rejection)
    case None
    with assms(2,3) Pair have "tracks st' \<lparr>crv_trial_id = trial_id, crv_reservation_id = i, crv_claim = claimed,
        crv_provider = provider, crv_dispatched = False, crv_settled = False\<rparr>"
      by (auto intro: reserved_tracks)
    with assms(1) Pair None show ?thesis by (auto simp: finish_reserve_def intro!: runner_inv_add)
  next
    case (Some x)
    with assms(1) Pair show ?thesis by (cases x) (simp add: finish_reserve_def)
  qed
qed

lemma reserve_work_built:
  assumes "replay_campaign_record dg record = Inr st" "reserve_work_factory dg h trial_id claimed i uuid record = Inr (es, selected)"
  shows "\<exists>e payload. es = [e] \<and> cev_payload e = payload
      \<and> reservation_payload (chd_campaign h) st trial_id claimed i (fst selected) = Inr (payload, snd selected)"
  using assms by (auto simp: reserve_work_factory_def dest!: emit_built)

lemma reserve_provider_built:
  assumes "replay_campaign_record dg record = Inr st"
    "reserve_provider_factory dg h trial_id key model token_claim security i uuid record = Inr (es, selected)"
  shows "\<exists>e payload. es = [e] \<and> cev_payload e = payload
      \<and> reservation_payload (chd_campaign h) st trial_id (provider_claim token_claim) i (fst selected) = Inr (payload, snd selected)"
  using assms by (auto simp: reserve_provider_factory_def Let_def dest!: emit_built)

lemma mark_dispatched_inv:
  assumes "record_ok dg digest record" "replay_campaign_record dg record = Inr st" "runner_inv st ids rn"
    "i < length (rnr_handles rn)" "snd (handle_mark_dispatched dg digest i uuid rn record) = (rn', record')"
    "replay_campaign_record dg record' = Inr st'"
  shows "runner_inv st' ids rn'"
proof (cases "crv_settled (rnr_handles rn ! i) \<or> crv_dispatched (rnr_handles rn ! i) \<or> i \<notin> rnr_active rn")
  case True
  with assms(2,3,5,6) show ?thesis
    by (auto simp: handle_mark_dispatched_def runner_mark_dispatched_def require_active_def raise_if_def guarded_def Let_def
        split: if_splits)
next
  case False
  let ?x = "rnr_handles rn ! i" and ?rn = "set_handle i ((rnr_handles rn ! i)\<lparr>crv_dispatched := True\<rparr>) rn"
  have commit: "snd (runner_commit dg digest (emit_single dg uuid (ReservationDispatched (crv_reservation_id ?x)))
      (\<lambda>_. (Inr (), ?rn)) rn record) = (rn', record')"
    using False assms(5)
    by (auto simp: handle_mark_dispatched_def runner_mark_dispatched_def require_active_def raise_if_def guarded_def Let_def
        runner_commit_def split: sum.splits prod.splits)
  have "runner_inv st' (ids \<union> {}) rn'"
  proof (rule runner_commit_inv [OF single.campaign_factory_axioms _ assms(1-3) _ commit assms(6)])
    fix es r assume built: "emit_single dg uuid (ReservationDispatched (crv_reservation_id ?x)) record = Inr (es, r)"
      and fold: "fold_result (apply_campaign_event dg (crc_header record)) st es = Inr st'" and inv: "runner_inv st' (ids \<union> {}) rn"
    from emit_single_built [OF built] fold have "apply_dispatched (crv_reservation_id ?x) st = Inr st'"
      by (auto simp: apply_campaign_event_def)
    then obtain r where r: "dict_get (cpj_reservations st') (crv_reservation_id ?x) = Some (r\<lparr>rvl_dispatched := True\<rparr>)"
      by (rule dispatched_E) (simp add: dict_get_set)
    have "tracks st' ?x" using inv assms(4) by (simp add: runner_inv_def)
    with r have "tracks st' (?x\<lparr>crv_dispatched := True\<rparr>)" by (auto simp: tracks_def)
    with runner_inv_set [OF inv assms(4), of "?x\<lparr>crv_dispatched := True\<rparr>" "rnr_active rn"] False
    show "runner_inv st' (ids \<union> {}) (snd (Inr (), ?rn))" by simp
  qed (simp_all add: creates_within_def)
  then show ?thesis by simp
qed

lemma resume_inv:
  assumes "record_ok dg digest record" "replay_campaign_record dg record = Inr st" "runner_inv st ids rn"
    "created_ids (campaign_record_events record) \<subseteq> ids"
    "snd (runner_resume_work_reservation dg trial_id rn record) = (rn', record')"
  shows "runner_inv st ids rn'"
proof -
  have acc: "dict_wf (cpj_reservations st)" using record_ok_accounting [OF assms(1,2)] by (simp add: accounting_inv_def)
  have "rn' = rn \<or> (\<exists>i r. (i, r) \<in> set (work_reservations st trial_id) \<and> rn' = add_handle \<lparr>crv_trial_id = trial_id,
      crv_reservation_id = i, crv_claim = rvl_claim r, crv_provider = None, crv_dispatched = rvl_dispatched r,
      crv_settled = False\<rparr> rn)"
    using assms(2,5) by (auto simp: runner_resume_work_reservation_def split: sum.splits list.splits if_splits)
  then show ?thesis
  proof (elim disjE exE conjE)
    fix i r assume r: "(i, r) \<in> set (work_reservations st trial_id)" and rn': "rn' = add_handle \<lparr>crv_trial_id = trial_id,
      crv_reservation_id = i, crv_claim = rvl_claim r, crv_provider = None, crv_dispatched = rvl_dispatched r,
      crv_settled = False\<rparr> rn"
    from r acc have get: "dict_get (cpj_reservations st) i = Some r" "rvl_trial_id r = trial_id" "rvl_provider r = None"
      by (auto simp: work_reservations_def dict_mem_get)
    with open_reservation_created [OF assms(1,2) get(1)] assms(3,4) show ?thesis
      unfolding rn' by (intro runner_inv_add) (auto simp: tracks_def)
  qed (use assms(3) in simp)
qed

lemma guarded_cases:
  assumes "snd (guarded check rest rn record) = (rn', record')"
  obtains (refused) "rn' = rn" "record' = record" | (passed) "snd rest = (rn', record')"
  using that assms unfolding guarded_snd by (cases "isl check") simp_all

lemma settle_act_inv:
  assumes "snd (guarded check1 (finish_settle i (guarded check (runner_commit dg digest factory (\<lambda>_. deactivate i exceeded rn)
      rn record) rn record)) rn record) = (rn', record')"
    and "campaign_factory dg factory ok" "\<forall>e. ok e \<longrightarrow> creates_within {} e" "record_ok dg digest record"
    "replay_campaign_record dg record = Inr st" "runner_inv st ids rn" "i < length (rnr_handles rn)"
    "replay_campaign_record dg record' = Inr st'"
    "\<And>es r. factory record = Inr (es, r) \<Longrightarrow> fold_result (apply_campaign_event dg (crc_header record)) st es = Inr st'
      \<Longrightarrow> dict_get (cpj_reservations st') (crv_reservation_id (rnr_handles rn ! i)) = None"
  shows "runner_inv st' ids rn'"
  using assms(1)
proof (cases rule: guarded_cases)
  case refused
  with assms(5,6,8) show ?thesis by simp
next
  case passed
  from settle_commit_inv [OF assms(2-7) passed assms(8,9)] show ?thesis .
qed

lemma runner_inv_mono: "runner_inv st ids rn \<Longrightarrow> ids \<subseteq> ids' \<Longrightarrow> runner_inv st ids' rn"
  by (auto simp: runner_inv_def)

lemma reserve_act_inv:
  assumes "snd (guarded check (runner_commit dg digest factory (finish_reserve trial_id i claimed rn) rn record) rn record)
      = (rn', record')"
    and "campaign_factory dg factory ok" "\<forall>e. ok e \<longrightarrow> creates_within {i} e" "record_ok dg digest record"
    "replay_campaign_record dg record = Inr st" "runner_inv st ids rn" "{i} \<inter> ids = {}" "replay_campaign_record dg record' = Inr st'"
    and built: "\<And>es selected. factory record = Inr (es, selected) \<Longrightarrow> \<exists>e payload. es = [e] \<and> cev_payload e = payload
      \<and> reservation_payload c st trial_id claimed i (fst selected) = Inr (payload, snd selected)"
  shows "runner_inv st' (ids \<union> {i}) rn'"
  using assms(1)
proof (cases rule: guarded_cases)
  case refused
  with assms(5,6,8) show ?thesis by (auto intro: runner_inv_mono)
next
  case passed
  show ?thesis
    by (rule runner_commit_inv [OF assms(2-7) passed assms(8)]) (rule reserve_inv, assumption, erule built, assumption)
qed

text \<open>Operations other than reserving, resuming and settling leave the handles as they are.\<close>

fun keeps_handles :: "runner_action \<Rightarrow> bool" where
  "keeps_handles (Record_outcome _ _) = True"
| "keeps_handles (Recover_provider _ _ _) = True"
| "keeps_handles Recover = True"
| "keeps_handles (Stop _) = True"
| "keeps_handles Build_report = True"
| "keeps_handles _ = False"

lemma keeps_handles_runner:
  assumes "keeps_handles a" "snd (runner_act dg digest uuid a rn record) = (rn', record')"
  shows "rn' = rn \<or> rn' = rn\<lparr>rnr_closed := True\<rparr>" "drawn_ids a = {}"
  using assms
  by (cases a; auto simp: runner_operations guarded_snd runner_commit_snd runner_build_report_def
      runner_recover_incomplete_provider_dispatches_def Let_def split: sum.splits prod.splits if_splits)+

lemma runner_act_inv:
  assumes ok: "record_ok dg digest record" "replay_campaign_record dg record = Inr st" "runner_inv st ids rn"
    and created: "created_ids (campaign_record_events record) \<subseteq> ids" and new: "drawn_ids a \<inter> ids = {}" and a: "action_ok a"
    and i: "\<forall>i\<in>set_option (handle_of a). i < length (rnr_handles rn)"
    and act: "snd (runner_act dg digest uuid a rn record) = (rn', record')" and st': "replay_campaign_record dg record' = Inr st'"
  shows "runner_inv st' (ids \<union> drawn_ids a) rn'"
proof (cases "keeps_handles a")
  case True
  note rn' = keeps_handles_runner [OF True act]
  have "runner_inv st' (ids \<union> drawn_ids a) rn"
    using record_step_runner_inv [OF ok(1,2) _ st' ok(3) new] runner_act_record [OF ok(1) a, of uuid rn] act by simp
  with rn' show ?thesis by auto
next
  case False
  note acc = record_ok_accounting [OF ok(1,2)]
  note settle = settle_act_inv [OF _ single.campaign_factory_axioms _ ok _ st']
  have gone: "dict_get (cpj_reservations st') j = None"
    if "emit_single dg uuid payload record = Inr (es, r)" "fold_result (apply_campaign_event dg (crc_header record)) st es = Inr st'"
      "payload = ReservationCancelled j \<or> (\<exists>p. payload = WorkSettled p \<and> wsp_reservation_id p = j)
        \<or> (\<exists>p. payload = ProviderAttemptSettled p \<and> pas_reservation_id p = j)" for payload es r j
    using emit_single_built [OF that(1)] that(2,3) by (auto intro: settled_gone [OF acc])
  show ?thesis
  proof (cases a)
    case (Mark_dispatched j)
    with mark_dispatched_inv [OF ok _ _ st'] act i show ?thesis by auto
  next
    case (Resume_work t)
    then have "record' = record" using act by (auto simp: runner_resume_work_reservation_def split: sum.splits list.splits if_splits)
    with Resume_work resume_inv [OF ok created, of t rn' record'] act ok(2) st' show ?thesis by auto
  next
    case (Reserve_provider t key model tc security reservation)
    with reserve_act_inv [OF _ provider.campaign_factory_axioms _ ok _ st' reserve_provider_built [OF ok(2)]] act a new
    show ?thesis by (simp add: runner_reserve_provider_attempt_def)
  next
    case (Reserve_work t claimed reservation)
    with reserve_act_inv [OF _ work.campaign_factory_axioms _ ok _ st' reserve_work_built [OF ok(2)]] act new
    show ?thesis by (simp add: runner_reserve_work_def)
  next
    case (Cancel j)
    with act i have "runner_inv st' ids rn'"
      by (intro settle) (auto simp: handle_cancel_def runner_cancel_def Let_def creates_within_def intro: gone)
    with Cancel show ?thesis by simp
  next
    case (Settle_work j actual)
    with act i have "runner_inv st' ids rn'"
      by (intro settle) (auto simp: handle_settle_work_def runner_settle_work_def Let_def creates_within_def intro: gone)
    with Settle_work show ?thesis by simp
  next
    case (Finalize_run j actual outcome)
    with act i have "runner_inv st' ids rn'"
      by (intro settle_act_inv [OF _ finalize.campaign_factory_axioms _ ok _ st'])
        (auto simp: handle_finalize_run_def runner_finalize_run_def Let_def creates_nothing_within intro: finalize_gone [OF acc])
    with Finalize_run show ?thesis by simp
  next
    case (Settle_provider j p)
    note unfold = handle_settle_provider_def runner_settle_provider_def Let_def
    have j: "j < length (rnr_handles rn)" using i Settle_provider by simp
    show ?thesis
    proof (cases "crv_provider (rnr_handles rn ! j)")
      case None
      with Settle_provider act ok(2,3) st' show ?thesis by (auto simp: handle_settle_provider_def Let_def)
    next
      case (Some b)
      show ?thesis
      proof (cases "settled_attempt (rnr_header rn) (rnr_handles rn ! j) b p")
        case (Inl e)
        with Settle_provider Some act ok(2,3) st' show ?thesis by (auto simp: unfold finish_settle_def guarded_snd split: if_splits)
      next
        case (Inr attempt)
        have "runner_inv st' ids rn'"
          using act j Settle_provider Some Inr by (intro settle) (auto simp: unfold creates_within_def intro: gone)
        with Settle_provider show ?thesis by simp
      qed
    qed
  qed (use False in simp_all)
qed

subsection \<open>The system\<close>

fun draws :: "system_action \<Rightarrow> Identifier list" where
  "draws (Act _ _ (Reserve_provider _ _ _ _ _ reservation)) = [new_reservation_id reservation]"
| "draws (Act _ _ (Reserve_work _ _ reservation)) = [new_reservation_id reservation]"
| "draws _ = []"

fun system_action_ok :: "system_action \<Rightarrow> bool" where
  "system_action_ok Start \<longleftrightarrow> True"
| "system_action_ok (Act _ _ a) \<longleftrightarrow> action_ok a"

lemma set_draws: "set (draws (Act k uuid a)) = drawn_ids a"
  by (cases a) auto

lemma runner_act_header: "rnr_header (fst (snd (runner_act dg digest uuid a rn record))) = rnr_header rn"
  by (cases a) (auto simp: runner_operations handle_operations handle_mark_dispatched_def handle_settle_provider_def guarded_snd
      runner_commit_snd runner_build_report_def runner_recover_incomplete_provider_dispatches_def runner_resume_work_reservation_def
      finish_settle_def deactivate_def set_handle_def add_handle_def finish_reserve_def guarded_def runner_commit_def Let_def
      split: sum.splits prod.splits option.splits list.splits)

definition record_inv :: "record_digests \<Rightarrow> commit_digest \<Rightarrow> CampaignHeader \<Rightarrow> CampaignRecord \<Rightarrow> bool" where
  "record_inv dg digest h record \<longleftrightarrow> crc_header record = h \<and> record_ok dg digest record
     \<and> list_all (creates_within UNIV) (campaign_record_events record)"

lemma record_inv_init: "record_inv dg digest h \<lparr>crc_header = h, crc_commits = []\<rparr>"
  by (simp add: record_inv_def record_ok_def CampaignRecord_validate_iff replay_campaign_record_def campaign_replay_def)

lemma record_inv_step: "record_step dg digest ids record record' \<Longrightarrow> record_inv dg digest h record \<Longrightarrow> record_inv dg digest h record'"
  by (auto simp: record_step_def record_inv_def creates_within_def list_all_iff)

definition system_inv :: "record_digests \<Rightarrow> commit_digest \<Rightarrow> CampaignHeader \<Rightarrow> Identifier set \<Rightarrow> campaign_system \<Rightarrow> bool" where
  "system_inv dg digest h ids s \<longleftrightarrow> created_ids (campaign_record_events (snd s)) \<subseteq> ids
     \<and> (\<forall>st. replay_campaign_record dg (snd s) = Inr st \<longrightarrow> (\<forall>rn\<in>set (fst s). runner_inv st ids rn))"

lemma system_step_record:
  assumes "system_action_ok a" "record_inv dg digest h (snd s)" "\<forall>rn\<in>set (fst s). rnr_header rn = h"
  shows "record_inv dg digest h (snd (system_step dg digest a s))" "\<forall>rn\<in>set (fst (system_step dg digest a s)). rnr_header rn = h"
    "record_step dg digest (set (draws a)) (snd s) (snd (system_step dg digest a s))"
proof -
  obtain runners "record" where s: "s = (runners, record)" by (cases s)
  show step: "record_step dg digest (set (draws a)) (snd s) (snd (system_step dg digest a s))"
  proof (cases a)
    case (Act k uuid b)
    have "record_ok dg digest record" "action_ok b" using assms(1,2) Act by (auto simp: s record_inv_def)
    from runner_act_record [OF this, of uuid "runners ! k"] show ?thesis
      unfolding s Act by (auto simp: set_draws split: prod.split)
  qed (simp add: s)
  from record_inv_step [OF step assms(2)] show "record_inv dg digest h (snd (system_step dg digest a s))" .
  show "\<forall>rn\<in>set (fst (system_step dg digest a s)). rnr_header rn = h"
  proof (cases a)
    case Start
    with assms(2,3) show ?thesis by (auto simp: s record_inv_def runner_of_def)
  next
    case (Act k uuid b)
    with assms(3) runner_act_header [of dg digest uuid b "runners ! k" "record"] show ?thesis
      by (auto simp: s split: prod.split dest!: set_update_subset_insert [THEN subsetD])
  qed
qed

lemma system_run_snoc: "system_run dg digest (actions @ [a]) s = system_step dg digest a (system_run dg digest actions s)"
  by (simp add: system_run_def)

lemma system_run_record:
  assumes "list_all system_action_ok actions"
  shows "record_inv dg digest h (snd (system_run dg digest actions (system_init h)))
    \<and> (\<forall>rn\<in>set (fst (system_run dg digest actions (system_init h))). rnr_header rn = h)"
  using assms
proof (induction actions rule: rev_induct)
  case Nil
  show ?case by (simp add: system_run_def system_init_def record_inv_init)
next
  case (snoc a actions)
  then show ?case
    unfolding system_run_snoc using system_step_record [of a dg digest h "system_run dg digest actions (system_init h)"] by simp
qed

lemma system_step_inv:
  assumes "system_action_ok a" "record_inv dg digest h (snd s)" "\<forall>rn\<in>set (fst s). rnr_header rn = h"
    "system_inv dg digest h ids s" "set (draws a) \<inter> ids = {}"
  shows "system_inv dg digest h (ids \<union> set (draws a)) (system_step dg digest a s)"
proof -
  obtain runners "record" where s: "s = (runners, record)" by (cases s)
  obtain runners' record' where s': "system_step dg digest a s = (runners', record')" by (cases "system_step dg digest a s")
  have moved: "record_step dg digest (set (draws a)) record record'"
    using system_step_record(3) [OF assms(1-3)] s s' by simp
  have ok: "record_ok dg digest record" using assms(2) by (simp add: s record_inv_def)
  from record_ok_replay [OF ok] obtain st where st: "replay_campaign_record dg record = Inr st" by blast
  have created: "created_ids (campaign_record_events record) \<subseteq> ids" and inv: "\<forall>rn\<in>set runners. runner_inv st ids rn"
    using assms(4) st by (simp_all add: system_inv_def s)
  have "runner_inv st' (ids \<union> set (draws a)) rn" if st': "replay_campaign_record dg record' = Inr st'" "rn \<in> set runners'" for st' rn
  proof -
    have kept: "runner_inv st' (ids \<union> set (draws a)) rn" if "rn \<in> set runners" for rn
      using record_step_runner_inv [OF ok st moved st'(1)] inv that assms(5) by simp
    show ?thesis
    proof (cases a)
      case Start
      with s s' st'(2) kept show ?thesis by auto
    next
      case (Act k uuid b)
      show ?thesis
      proof (cases "k < length runners \<and> (\<forall>i\<in>set_option (handle_of b). i < length (rnr_handles (runners ! k)))")
        case False
        with s s' Act st'(2) kept show ?thesis by auto
      next
        case True
        obtain res rn1 where act: "runner_act dg digest uuid b (runners ! k) record = (res, rn1, record')" "runners' = runners[k := rn1]"
          using s s' Act True by (auto split: prod.splits)
        have "runner_inv st' (ids \<union> drawn_ids b) rn1"
          using runner_act_inv [OF ok st _ created, of "runners ! k" b uuid rn1 record' st'] inv assms(1,5) Act True act(1) st'(1)
          by (simp add: set_draws)
        with act(2) st'(2) kept Act show ?thesis
          by (auto simp: set_draws dest!: set_update_subset_insert [THEN subsetD])
      qed
    qed
  qed
  moreover have "created_ids (campaign_record_events record') \<subseteq> ids \<union> set (draws a)"
    using record_step_created [OF moved] created by auto
  ultimately show ?thesis by (simp add: s' system_inv_def)
qed

lemma system_run_inv:
  assumes "list_all system_action_ok actions" "distinct (concat (map draws actions))"
  shows "system_inv dg digest h (set (concat (map draws actions))) (system_run dg digest actions (system_init h))"
  using assms
proof (induction actions rule: rev_induct)
  case Nil
  show ?case by (simp add: system_run_def system_init_def system_inv_def)
next
  case (snoc a actions)
  let ?s = "system_run dg digest actions (system_init h)"
  have rec: "record_inv dg digest h (snd ?s)" "\<forall>rn\<in>set (fst ?s). rnr_header rn = h"
    using system_run_record [of actions dg digest h] snoc.prems(1) by simp_all
  have "system_inv dg digest h (set (concat (map draws actions))) ?s" using snoc by simp
  from system_step_inv [OF _ rec this, of a] snoc.prems show ?case
    unfolding system_run_snoc by (auto simp: Un_commute)
qed

end
