(* ===== verification/CampaignProperties.thy ===== *)
theory CampaignProperties
  imports CampaignScheduleFacts
begin

section \<open>Guarantees of campaign schedules\<close>

text \<open>
  The schedule of a campaign is the complete product of its dimensions, each combination once,
  in an order that only the frozen inputs decide, and a header accepts exactly the schedule
  derived from its own inputs. The example campaign has three repetitions of two tasks on one
  route at two reasoning efforts.
\<close>

subsection \<open>An example campaign\<close>

definition example_harness :: MeteredProviderHarnessBinding where
  "example_harness = \<lparr>mph_harness_id = ''harness'', mph_provider_profile_digest = ''profile'',
     mph_provider_config_digest = ''config'', mph_wire_protocol = Wire_RESPONSES, mph_instruction_digest = ''prompt'',
     mph_tool_schema_digest = ''tools'', mph_scaffold_digest = ''scaffold'', mph_maximum_requests_per_action = 1\<rparr>"

definition example_campaign_task :: "string \<Rightarrow> CampaignTaskRole \<Rightarrow> Capability \<Rightarrow> CampaignTask" where
  "example_campaign_task release role capability = \<lparr>ctk_task_release_digest = release, ctk_task_family = ''family'',
     ctk_task_origin = Origin_NativeSealed \<lparr>nso_provenance = []\<rparr>, ctk_role = role, ctk_device_capability = capability,
     ctk_environment_digest = ''env'', ctk_harness = example_harness, ctk_evaluator_stage_ids = [''stage'']\<rparr>"

definition example_tasks :: "CampaignTask list" where
  "example_tasks = [example_campaign_task ''rel-b'' RTL_GENERATION RTL_LINT,
     example_campaign_task ''rel-a'' STA_CLOSURE STATIC_TIMING]"

definition example_route :: ModelRoute where
  "example_route = \<lparr>mrt_route_id = ''route'', mrt_requested_model = ''model'', mrt_provider_reported_model = ''model'',
     mrt_reference_kind = Reference_ALIAS, mrt_categories = [BALANCED],
     mrt_qualification = \<lparr>rqf_reasoning_control = Feature_SUPPORTED, rqf_requested_service_tier = Some ''default'',
       rqf_provider_reported_service_tier = None, rqf_observed_input_token_floor = 5,
       rqf_canary_tool_schema_digest = ''schema'', rqf_canary_evidence_digest = ''evidence''\<rparr>,
     mrt_provider_attestation_digest = None\<rparr>"

definition example_model_set :: ModelSetManifest where
  "example_model_set = \<lparr>mst_provider_config_digest = ''config'', mst_discovery_digest = ''discovery'',
     mst_resolved_on = ''2024-02-29'', mst_routes = [example_route], mst_exclusions = [],
     mst_uncovered_categories =
       [\<lparr>unc_category = CODING_AGENT, unc_reason = NO_DISCOVERED_ROUTE, unc_evidence_digest = ''e1''\<rparr>,
        \<lparr>unc_category = FRONTIER_REASONING, unc_reason = NO_DISCOVERED_ROUTE, unc_evidence_digest = ''e2''\<rparr>,
        \<lparr>unc_category = HIGH_THROUGHPUT, unc_reason = NO_DISCOVERED_ROUTE, unc_evidence_digest = ''e3''\<rparr>]\<rparr>"

definition example_campaign :: CampaignSpec where
  "example_campaign = \<lparr>cmp_campaign_id = ''campaign'', cmp_scope = EXPANDED_BREADTH, cmp_model_set_digest = ''models'',
     cmp_route_ids = [''route''], cmp_task_release_digests = [''rel-a'', ''rel-b''], cmp_environment_digests = [''env''],
     cmp_harness_digests = [''hdigest''], cmp_prompt_digest = ''prompt'', cmp_tool_schema_digest = ''tools'',
     cmp_feedback_policy_digest = ''feedback'', cmp_reasoning_efforts = [''high'', ''low''],
     cmp_service_tier = ''default'', cmp_paired_trial_seeds = [''s0'', ''s1'', ''s2''], cmp_task_order_seed = ''seed'',
     cmp_retry_policy = \<lparr>rty_max_request_attempts = 2, rty_backoff_milliseconds = 10,
       rty_retry_conditions = [RATE_LIMITED]\<rparr>,
     cmp_token_limits = \<lparr>ctl_max_requests = 100, ctl_max_requests_per_trial = 10,
       ctl_max_input_tokens_per_request = 50, ctl_max_output_tokens_per_request = 50,
       ctl_max_input_tokens_per_trial = 200, ctl_max_output_tokens_per_trial = 200,
       ctl_max_total_tokens_per_trial = 300, ctl_max_input_tokens = 2000, ctl_max_output_tokens = 2000,
       ctl_max_total_tokens = 3000\<rparr>,
     cmp_execution_limits = \<lparr>cel_max_turns_per_trial = 5, cel_max_tool_calls_per_trial = 5,
       cel_max_wall_seconds_per_trial = 60, cel_max_eda_compute_seconds_per_trial = 60,
       cel_max_license_seconds_per_trial = 0, cel_max_artifact_bytes_per_trial = 1000, cel_max_turns = 50,
       cel_max_tool_calls = 50, cel_max_wall_seconds = 600, cel_max_eda_compute_seconds = 600,
       cel_max_license_seconds = 0, cel_max_artifact_bytes = 10000\<rparr>,
     cmp_provider_spend_limit = Spend_Capped \<lparr>csl_currency = ''USD'', csl_amount = 1\<rparr>\<rparr>"

definition example_campaign_digests :: campaign_digests where
  "example_campaign_digests = \<lparr>cdg_campaign = (\<lambda>_. ''campaign''), cdg_model_set = (\<lambda>_. ''models''),
     cdg_harness = (\<lambda>_. ''hdigest''), cdg_task_order = (\<lambda>seed release. rev release),
     cdg_trial = (\<lambda>b. tbd_paired_seed b @ tbd_task_release_digest b @ tbd_reasoning_effort b),
     cdg_schedule = (\<lambda>_. ''schedule''), cdg_provider_profile = (\<lambda>_. ''profile''),
     cdg_provider_config = (\<lambda>_. ''config'')\<rparr>"

definition example_schedule :: CampaignSchedule where
  "example_schedule = \<lparr>csc_campaign_digest = ''campaign'', csc_model_set_digest = ''models'',
     csc_ordered_task_release_digests = [''rel-a'', ''rel-b''],
     csc_trials = map (\<lambda>(i, b). trial_at example_campaign_digests i b) (enumerate 0
       (schedule_bindings example_campaign_digests example_campaign (task_of example_tasks)
         [''rel-a'', ''rel-b''] [example_route]))\<rparr>"

lemma example_model_set_valid: "ModelSetManifest_validate example_model_set = Inr example_model_set"
  by code_simp

lemma example_campaign_valid: "CampaignSpec_validate example_campaign = Inr example_campaign"
  by code_simp

lemma example_build:
  "build_campaign_schedule example_campaign_digests example_campaign example_model_set example_tasks
     = Inr example_schedule"
  by code_simp

subsection \<open>The complete product\<close>

text \<open>
  A schedule that is built for an accepted campaign is the product of the paired seeds, the
  ordered task releases, the routes and the reasoning efforts, in that nesting, numbered from zero:
  every combination occurs exactly once, the task order is a permutation of the campaign's
  releases, and every trial carries the family, role, capability, environment and harness of the
  task with its release.
\<close>

theorem schedule_is_product:
  assumes "CampaignSpec_validate raw = Inr c" "build_campaign_schedule dg c ms tasks = Inr s"
  defines "cs \<equiv> map (\<lambda>t. coordinates_of (sct_binding t)) (csc_trials s)"
  shows "cs = campaign_product c (csc_ordered_task_release_digests s)
     \<and> map sct_ordinal (csc_trials s) = map int [0..<length (csc_trials s)]
     \<and> distinct cs \<and> set cs = set (cmp_paired_trial_seeds c) \<times> set (cmp_task_release_digests c)
          \<times> set (cmp_route_ids c) \<times> set (cmp_reasoning_efforts c)
     \<and> mset (csc_ordered_task_release_digests s) = mset (cmp_task_release_digests c)
     \<and> (\<forall>t\<in>set (csc_trials s). \<exists>task\<in>set tasks. ctk_task_release_digest task = tbd_task_release_digest (sct_binding t)
          \<and> tbd_task_family (sct_binding t) = ctk_task_family task \<and> tbd_task_role (sct_binding t) = ctk_role task
          \<and> tbd_device_capability (sct_binding t) = ctk_device_capability task
          \<and> tbd_environment_digest (sct_binding t) = ctk_environment_digest task
          \<and> tbd_harness (sct_binding t) = ctk_harness task)"
proof -
  from assms(2) obtain routes where b: "check_campaign_tasks dg c tasks = Inr ()"
      "campaign_routes c ms = Inr routes" "csc_ordered_task_release_digests s = ordered_releases dg c tasks"
      "csc_trials s = map (\<lambda>(i, b). trial_at dg i b)
         (enumerate 0 (schedule_bindings dg c (task_of tasks) (ordered_releases dg c tasks) routes))"
      "CampaignSchedule_validate s = Inr s"
    by (rule build_E)
  let ?o = "ordered_releases dg c tasks" and ?bs = "schedule_bindings dg c (task_of tasks) (ordered_releases dg c tasks) routes"
  have d: "distinct (map ctk_task_release_digest tasks)"
    and rel: "ctk_task_release_digest ` set tasks = set (cmp_task_release_digests c)"
    using b(1) by (simp_all add: check_campaign_tasks_Inr)
  note o = ordered_releases_facts [OF d, of dg c]
  have bs: "map sct_binding (csc_trials s) = ?bs" unfolding b(4) by (rule map_binding_trials)
  then have cs: "cs = campaign_product c ?o"
    using coordinates_of_schedule [OF campaign_routes_ids(1) [OF b(2)], of dg "task_of tasks" ?o]
    by (simp add: cs_def flip: comp_def [of coordinates_of sct_binding] map_map)
  note facts = CampaignSpec_validate_facts [OF assms(1)]
  have ord: "map sct_ordinal (csc_trials s) = map int [0..<length (csc_trials s)]"
    using b(5) by (auto simp: CampaignSchedule_validate_def Let_def split: if_splits)
  have "mset ?o = mset (cmp_task_release_digests c)"
    using o(2) facts(2) o(1) rel by (simp add: set_eq_iff_mset_eq_distinct)
  moreover have "distinct cs" using facts o(2) by (simp add: cs campaign_product_def distinct_product)
  moreover have "set cs = set (cmp_paired_trial_seeds c) \<times> set (cmp_task_release_digests c)
          \<times> set (cmp_route_ids c) \<times> set (cmp_reasoning_efforts c)"
    using o(1) rel by (simp add: cs campaign_product_def)
  moreover have "\<exists>task\<in>set tasks. ctk_task_release_digest task = tbd_task_release_digest (sct_binding t)
          \<and> tbd_task_family (sct_binding t) = ctk_task_family task \<and> tbd_task_role (sct_binding t) = ctk_role task
          \<and> tbd_device_capability (sct_binding t) = ctk_device_capability task
          \<and> tbd_environment_digest (sct_binding t) = ctk_environment_digest task
          \<and> tbd_harness (sct_binding t) = ctk_harness task"
    if "t \<in> set (csc_trials s)" for t
  proof -
    have "sct_binding t \<in> set ?bs" using that by (simp flip: bs)
    note bt = bindings_task [OF this]
    then have "tbd_task_release_digest (sct_binding t) \<in> ctk_task_release_digest ` set tasks" by (simp add: o(1))
    from task_of_get [OF d this] bt show ?thesis by metis
  qed
  ultimately show ?thesis using cs ord b(3) by simp
qed

subsection \<open>One order\<close>

text \<open>
  The schedule depends only on the frozen inputs: it is the same for the tasks in any order,
  and a header over any order of the tasks, with that schedule and with harnesses bound to its
  provider configuration, is accepted with its tasks sorted; accepting it again changes nothing.
\<close>

theorem header_accepts_schedule:
  assumes "build_campaign_schedule dg (chd_campaign h) (chd_model_set h) tasks = Inr (chd_schedule h)"
    and "mset (chd_tasks h) = mset tasks" "chd_tasks h \<noteq> []"
    and "cdg_provider_config dg (chd_provider_config h) = mst_provider_config_digest (chd_model_set h)"
    and "\<forall>task\<in>set tasks. harness_of_task task = expected_harness dg h"
  defines "h' \<equiv> h\<lparr>chd_tasks := sort_key ctk_task_release_digest (chd_tasks h)\<rparr>"
  shows "build_campaign_schedule dg (chd_campaign h) (chd_model_set h) (chd_tasks h) = Inr (chd_schedule h)
     \<and> CampaignHeader_validate dg h = Inr h' \<and> CampaignHeader_validate dg h' = Inr h'"
proof -
  have build: "build_campaign_schedule dg (chd_campaign h) (chd_model_set h) ts = Inr (chd_schedule h)"
    if "mset ts = mset tasks" for ts
    using build_perm [OF _ assms(1)] that by simp
  have "check_campaign_tasks dg (chd_campaign h) (chd_tasks h) = Inr ()"
    using build [OF assms(2)] by (rule build_E)
  then have d: "distinct (map ctk_task_release_digest (chd_tasks h))" by (simp add: check_campaign_tasks_Inr)
  have accept: "CampaignHeader_validate dg (h\<lparr>chd_tasks := ts\<rparr>) = Inr h'"
    if "sort_key ctk_task_release_digest ts = sort_key ctk_task_release_digest (chd_tasks h)"
      "distinct (map ctk_task_release_digest ts)" "ts \<noteq> []" for ts
  proof -
    have "build_campaign_schedule dg (chd_campaign h) (chd_model_set h) (sort_key ctk_task_release_digest (chd_tasks h))
        = Inr (chd_schedule h)"
      by (rule build) (simp add: assms(2))
    moreover have "\<forall>task\<in>set (chd_tasks h). harness_of_task task = expected_harness dg h"
      using assms(5) mset_eq_setD [OF assms(2)] by simp
    ultimately show ?thesis
      using that assms(4) by (simp add: CampaignHeader_validate_def sorted_unique_by_def h'_def list_ex_iff
          expected_harness_def)
  qed
  from accept [of "chd_tasks h"] d assms(3) have "CampaignHeader_validate dg h = Inr h'" by simp
  moreover from accept [of "sort_key ctk_task_release_digest (chd_tasks h)"] d assms(3)
  have "CampaignHeader_validate dg h' = Inr h'" by (simp add: h'_def)
  ultimately show ?thesis using build [OF assms(2)] by simp
qed

definition example_campaign_header :: CampaignHeader where
  "example_campaign_header = \<lparr>chd_campaign = example_campaign, chd_model_set = example_model_set,
     chd_provider_config = \<lparr>rpc_selected_provider_label = ''provider'',
       rpc_profile = \<lparr>ppf_logical_id = ''rust.cat'', ppf_origin = ''https://rust.cat'',
         ppf_responses_path = ''/codex/v1/responses'', ppf_models_path = None, ppf_wire_protocol = Wire_RESPONSES\<rparr>,
       rpc_defaults = \<lparr>pdf_requested_model = ''model'', pdf_reasoning_effort = None, pdf_service_tier = None\<rparr>\<rparr>,
     chd_tasks = example_tasks, chd_schedule = example_schedule\<rparr>"

end
