(* ===== verification/CampaignReplayProperties.thy ===== *)
theory CampaignReplayProperties
  imports CampaignProperties CampaignInvariants
begin

section \<open>Properties of campaign accounting\<close>

text \<open>
  The guarantees of the durable campaign record: hard budgets, conservation, the retry discipline,
  finality of outcomes, the approval envelope and the hash chain. The witnesses run one trial of the
  example campaign with a rate-limited first attempt, a second attempt that completes, and an
  outcome, followed by work of another trial.
\<close>

subsection \<open>An example record\<close>

definition example_record_digests :: record_digests where
  "example_record_digests = \<lparr>rcd_campaign = example_campaign_digests, rcd_run_binding = (\<lambda>_. ''run''),
     rcd_scheduled_trial = (\<lambda>_. ''trial''), rcd_projection = (\<lambda>_. ''projection''), rcd_header = (\<lambda>_. ''header'')\<rparr>"

definition example_security :: ProviderSecurityBinding where
  "example_security = \<lparr>psb_canary_receipt_digest = ''canary'', psb_runtime_surface_manifest_digest = ''surface'',
     psb_budget_binding_digest = ''projection''\<rparr>"

definition example_first_trial :: Identifier where
  "example_first_trial = ''trial_s0rel-ahigh''"

definition example_second_trial :: Identifier where
  "example_second_trial = ''trial_s0rel-alow''"

definition example_reservation :: "Identifier \<Rightarrow> int \<Rightarrow> CampaignEventPayload" where
  "example_reservation i n = ReservationCreated \<lparr>rvc_reservation_id = i, rvc_trial_id = example_first_trial,
     rvc_claim = resources_zero\<lparr>crs_requests := 1, crs_input_tokens := 20, crs_output_tokens := 10\<rparr>,
     rvc_provider = Some \<lparr>prb_request_key = ''request'', prb_attempt_number = n, prb_observed_input_token_floor = 5,
       prb_security_binding = example_security\<rparr>\<rparr>"

definition example_attempt :: "int \<Rightarrow> bool \<Rightarrow> int \<Rightarrow> int \<Rightarrow> ProviderAttemptRecord" where
  "example_attempt n completed input output = \<lparr>par_request_key = ''request'', par_attempt_number = n,
     par_reserved_token_claim = \<lparr>rtc_input_tokens = 20, rtc_output_tokens = 10, rtc_observed_input_token_floor = 5\<rparr>,
     par_disposition = (if completed then Attempt_COMPLETED else Attempt_RETRYABLE_FAILURE),
     par_failure_condition = (if completed then None else Some RATE_LIMITED),
     par_requested_model = ''model'', par_requested_service_tier = ''default'',
     par_security_binding = example_security,
     par_provider_reported_model = (if completed then Some ''model'' else None),
     par_provider_reported_service_tier = None,
     par_provider_response_status = (if completed then Some Response_COMPLETED else None),
     par_provider_usage = Some \<lparr>ucn_input_tokens = input, ucn_output_tokens = output, ucn_total_tokens = input + output,
       ucn_cached_input_tokens = None, ucn_reasoning_tokens = None\<rparr>,
     par_charged_resources = resources_zero\<lparr>crs_requests := 1, crs_input_tokens := input, crs_output_tokens := output\<rparr>\<rparr>"

definition example_outcome :: TrialRunOutcome where
  "example_outcome = \<lparr>tro_disposition = Trial_FAILED_BEFORE_RUN, tro_terminal_reason = Stop_INFRASTRUCTURE_FAILURE,
     tro_run_id = None, tro_run_binding = None, tro_stage_results = [], tro_provider_requests = [],
     tro_provider_spend = Spend_Unobserved Spend_REPORTING_UNAVAILABLE\<rparr>"

definition example_events :: "string list \<Rightarrow> int \<Rightarrow> CampaignEventPayload list \<Rightarrow> CampaignEvent list" where
  "example_events ids n ps = map (\<lambda>(i, k, p). \<lparr>cev_event_id = i, cev_sequence = k, cev_payload = p\<rparr>)
     (zip ids (zip (map (\<lambda>k. n + int k) [0..<length ps]) ps))"

definition example_trial_events :: "CampaignEvent list" where
  "example_trial_events = example_events [''e0'', ''e1'', ''e2'', ''e3'', ''e4'', ''e5'', ''e6''] 0
     [example_reservation ''r0'' 1, ReservationDispatched ''r0'',
      ProviderAttemptSettled \<lparr>pas_reservation_id = ''r0'', pas_attempt = example_attempt 1 False 0 0\<rparr>,
      example_reservation ''r1'' 2, ReservationDispatched ''r1'',
      ProviderAttemptSettled \<lparr>pas_reservation_id = ''r1'', pas_attempt = example_attempt 2 True 12 8\<rparr>,
      TrialOutcomeRecorded \<lparr>top_trial_id = example_first_trial, top_outcome = example_outcome\<rparr>]"

definition example_work_events :: "CampaignEvent list" where
  "example_work_events = example_events [''e7'', ''e8''] 7
     [ReservationCreated \<lparr>rvc_reservation_id = ''r2'', rvc_trial_id = example_second_trial,
        rvc_claim = resources_zero\<lparr>crs_tool_calls := 2, crs_eda_compute_seconds := 30\<rparr>, rvc_provider = None\<rparr>,
      ReservationDispatched ''r2'']"

definition example_campaign_state :: CampaignProjection where
  "example_campaign_state = (case campaign_replay example_record_digests example_campaign_header
     (example_trial_events @ example_work_events) of Inr st \<Rightarrow> st
     | Inl _ \<Rightarrow> campaign_projection_init example_campaign_header)"

lemma example_record_replays:
  "campaign_replay example_record_digests example_campaign_header (example_trial_events @ example_work_events)
     = Inr example_campaign_state"
  by code_simp

lemma example_record_constructed:
  "list_all (constructed_event example_record_digests) (example_trial_events @ example_work_events)"
  by code_simp

lemma example_header_campaign: "CampaignSpec_validate example_campaign = Inr (chd_campaign example_campaign_header)"
  by (simp add: example_campaign_header_def example_campaign_valid)

lemma example_first_ledger:
  "\<exists>l. dict_get (cpj_ledgers example_campaign_state) example_first_trial = Some l
     \<and> length (tpr_attempts l) = 2 \<and> length (attempts_for l ''request'') = 2"
proof -
  have "list_ex (\<lambda>l. length (tpr_attempts l) = 2 \<and> length (attempts_for l ''request'') = 2)
      (case dict_get (cpj_ledgers example_campaign_state) example_first_trial of Some l \<Rightarrow> [l] | None \<Rightarrow> [])"
    by code_simp
  then show ?thesis by (auto split: option.splits)
qed

subsection \<open>Hard budgets\<close>

text \<open>
  C14: the hard budgets of a campaign hold after every accepted sequence of accounting events. Unless a
  settlement has violated its reservation, committed and reserved resources together stay within the
  limit of every dimension, for the campaign and for each trial; the request limits hold even then.
\<close>

theorem campaign_within_limits:
  assumes "CampaignSpec_validate raw = Inr (chd_campaign h)" "list_all (constructed_event dg) es"
    "campaign_replay dg h es = Inr st" "d = Dim_REQUESTS \<or> \<not> cpj_budget_violation st"
  shows "dimension_value d (cpj_committed st) + dimension_value d (cpj_reserved st) \<le> campaign_limit (chd_campaign h) False d
    \<and> (\<forall>t l. dict_get (cpj_ledgers st) t = Some l \<longrightarrow>
         dimension_value d (tpr_committed l) + dimension_value d (tpr_reserved l) \<le> campaign_limit (chd_campaign h) True d)"
proof -
  have "accounting_inv h st \<and> limits_inv h st"
    using limits.run_inv [of h "campaign_projection_init h" dg es st] assms accounting_inv_init limits_inv_init
    by (auto simp: campaign_replay_def)
  with assms(4) show ?thesis by (auto simp: limits_inv_def within_limit_def)
qed

theorem campaign_within_limits_witness:
  "dimension_value Dim_TOOL_CALLS (cpj_committed example_campaign_state)
     + dimension_value Dim_TOOL_CALLS (cpj_reserved example_campaign_state) \<le> 50
   \<and> dimension_value Dim_TOOL_CALLS (cpj_reserved example_campaign_state) = 2"
proof -
  have "\<not> cpj_budget_violation example_campaign_state"
    "dimension_value Dim_TOOL_CALLS (cpj_reserved example_campaign_state) = 2"
    by code_simp+
  with campaign_within_limits [OF example_header_campaign example_record_constructed example_record_replays,
      of Dim_TOOL_CALLS]
  show ?thesis by (simp add: example_campaign_header_def example_campaign_def)
qed

subsection \<open>Conservation\<close>

text \<open>
  C16: the counters of a replayed campaign are exactly accounted for. Every reserved resource is the sum
  of the claims of the open reservations, in total and per trial; every committed resource is the sum
  over the trials; the requests of a trial are the number of its attempts and its tokens the sum of
  what the attempts were charged; and the campaign is in violation exactly when some trial is.
\<close>

theorem campaign_conservation:
  assumes "list_all (constructed_event dg) es" "campaign_replay dg h es = Inr st"
  shows "(\<forall>f\<in>set resource_fields. f (cpj_reserved st) = (\<Sum>r\<leftarrow>dict_values (cpj_reservations st). f (rvl_claim r))
       \<and> f (cpj_committed st) = (\<Sum>l\<leftarrow>dict_values (cpj_ledgers st). f (tpr_committed l)))
    \<and> (\<forall>t l. dict_get (cpj_ledgers st) t = Some l \<longrightarrow>
         (\<forall>f\<in>set resource_fields. f (tpr_reserved l)
            = (\<Sum>r\<leftarrow>filter (\<lambda>r. rvl_trial_id r = t) (dict_values (cpj_reservations st)). f (rvl_claim r)))
         \<and> crs_requests (tpr_committed l) = int (length (tpr_attempts l))
         \<and> (\<forall>f\<in>{crs_input_tokens, crs_output_tokens}.
              f (tpr_committed l) = (\<Sum>a\<leftarrow>tpr_attempts l. f (par_charged_resources a))))
    \<and> cpj_budget_violation st = (\<exists>t l. dict_get (cpj_ledgers st) t = Some l \<and> tpr_accounting_violation l)"
proof -
  have inv: "ledger_inv h st"
    using ledgers.run_inv [of h "campaign_projection_init h" dg es st] assms ledger_inv_init
    by (auto simp: campaign_replay_def)
  then have acc: "accounting_inv h st" by (simp add: ledger_inv_def)
  have sums: "f (cpj_reserved st) = (\<Sum>r\<leftarrow>dict_values (cpj_reservations st). f (rvl_claim r))"
    "f (cpj_committed st) = (\<Sum>l\<leftarrow>dict_values (cpj_ledgers st). f (tpr_committed l))"
    "dict_get (cpj_ledgers st) t = Some l \<Longrightarrow>
       f (tpr_reserved l) = (\<Sum>r\<leftarrow>filter (\<lambda>r. rvl_trial_id r = t) (dict_values (cpj_reservations st)). f (rvl_claim r))"
    if "f \<in> set resource_fields" for f t l
    using acc resource_fields_additive [OF that] by (auto simp: accounting_inv_def sum_list_map_filter')
  from inv have "charges_inv st" "violation_inv st" by (simp_all add: ledger_inv_def)
  with sums show ?thesis unfolding charges_inv_def charged_ledger_def violation_inv_def by blast
qed

theorem campaign_conservation_witness:
  "\<exists>l. dict_get (cpj_ledgers example_campaign_state) example_first_trial = Some l
     \<and> int (length (tpr_attempts l)) = 2 \<and> crs_requests (tpr_committed l) = 2
     \<and> (\<Sum>a\<leftarrow>tpr_attempts l. crs_input_tokens (par_charged_resources a)) = crs_input_tokens (tpr_committed l)"
proof -
  obtain l where l: "dict_get (cpj_ledgers example_campaign_state) example_first_trial = Some l"
    "length (tpr_attempts l) = 2"
    using example_first_ledger by blast
  moreover have "crs_requests (tpr_committed l) = int (length (tpr_attempts l))"
    "crs_input_tokens (tpr_committed l) = (\<Sum>a\<leftarrow>tpr_attempts l. crs_input_tokens (par_charged_resources a))"
    using campaign_conservation [OF example_record_constructed example_record_replays] l(1) by blast+
  ultimately show ?thesis by simp
qed

subsection \<open>Retries\<close>

text \<open>
  C15: requests are retried only as the policy allows. The recorded attempts of one request of a trial
  are numbered from one without gaps, are at most as many as the policy admits, and all but the last
  failed in a way the policy retries; they all reserved the same tokens under the same security
  binding. An open provider reservation is the next attempt of such a chain, and no request has two.
\<close>

theorem campaign_retry_discipline:
  assumes "CampaignSpec_validate raw = Inr (chd_campaign h)" "list_all (constructed_event dg) es"
    "campaign_replay dg h es = Inr st"
  shows "(\<forall>t l k. dict_get (cpj_ledgers st) t = Some l \<longrightarrow> attempt_chain (chd_campaign h) (attempts_for l k))
    \<and> (\<forall>i r b l. dict_get (cpj_reservations st) i = Some r \<longrightarrow> rvl_provider r = Some b \<longrightarrow>
         dict_get (cpj_ledgers st) (rvl_trial_id r) = Some l \<longrightarrow>
         continues_chain (chd_campaign h) (attempts_for l (prb_request_key b)) r b)
    \<and> (\<forall>i j r s b d. dict_get (cpj_reservations st) i = Some r \<longrightarrow> dict_get (cpj_reservations st) j = Some s \<longrightarrow>
         rvl_provider r = Some b \<longrightarrow> rvl_provider s = Some d \<longrightarrow> rvl_trial_id r = rvl_trial_id s \<longrightarrow>
         prb_request_key b = prb_request_key d \<longrightarrow> i = j)"
proof -
  have "retry_inv (chd_campaign h) st"
    using retries.run_inv [of h "campaign_projection_init h" dg es st] assms accounting_inv_init
      retry_inv_init [OF assms(1)] retry_positive [OF assms(1)]
    by (auto simp: campaign_replay_def)
  then show ?thesis by (simp add: retry_inv_def)
qed

theorem campaign_retry_discipline_witness:
  "\<exists>l. dict_get (cpj_ledgers example_campaign_state) example_first_trial = Some l
     \<and> length (attempts_for l ''request'') = 2 \<and> attempt_chain example_campaign (attempts_for l ''request'')"
proof -
  obtain l where l: "dict_get (cpj_ledgers example_campaign_state) example_first_trial = Some l"
    "length (attempts_for l ''request'') = 2"
    using example_first_ledger by blast
  with campaign_retry_discipline [OF example_header_campaign example_record_constructed example_record_replays]
  show ?thesis by (auto simp: example_campaign_header_def)
qed

subsection \<open>Outcomes\<close>

text \<open>
  An outcome is final. When a trial has an outcome, every accepted continuation of the record
  leaves its whole ledger as it is, and no reservation of that trial is ever open again.
\<close>

theorem campaign_outcome_final:
  assumes "list_all (constructed_event dg) (es @ rest)" "campaign_replay dg h es = Inr st"
    "campaign_replay dg h (es @ rest) = Inr st'" "dict_get (cpj_ledgers st) t = Some l" "tpr_outcome l \<noteq> None"
  shows "dict_get (cpj_ledgers st') t = Some l \<and> (\<forall>r\<in>set (dict_values (cpj_reservations st')). rvl_trial_id r \<noteq> t)"
proof -
  have "ledger_inv h st"
    using ledgers.run_inv [of h "campaign_projection_init h" dg es st] assms(1,2) ledger_inv_init
    by (auto simp: campaign_replay_def)
  moreover have "fold_result (apply_campaign_event dg h) st rest = Inr st'"
    using assms(2,3) by (simp add: campaign_replay_def fold_result_append)
  ultimately have fin: "ledger_inv h st' \<and> tpr_outcome l \<noteq> None \<and> dict_get (cpj_ledgers st') t = Some l"
    using finality.run_inv [of h st l t dg rest st'] assms(1,4,5) by simp
  then have wf: "dict_wf (cpj_reservations st')" and final: "terminal_inv st'"
    by (simp_all add: ledger_inv_def accounting_inv_def)
  have "rvl_trial_id r \<noteq> t" if "r \<in> set (dict_values (cpj_reservations st'))" for r
  proof -
    from that wf obtain i where "dict_get (cpj_reservations st') i = Some r" by (auto simp: dict_values_get)
    with final fin show ?thesis by (auto simp: terminal_inv_def)
  qed
  with fin show ?thesis by blast
qed

definition example_trial_state :: CampaignProjection where
  "example_trial_state = (case campaign_replay example_record_digests example_campaign_header example_trial_events of
     Inr st \<Rightarrow> st | Inl _ \<Rightarrow> campaign_projection_init example_campaign_header)"

lemma example_trial_replays:
  "campaign_replay example_record_digests example_campaign_header example_trial_events = Inr example_trial_state"
  by code_simp

subsection \<open>The approval envelope\<close>

text \<open>
  The approval envelope of an accepted campaign always exists: for a schedule whose length
  is a positive portable integer, deriving it raises none of its seven errors, and it carries the campaign's
  own limits in every resource dimension.
\<close>

theorem campaign_envelope_exists:
  assumes "CampaignSpec_validate raw = Inr c" "jcs_positive_ok (int (length (csc_trials s)))"
  shows "\<exists>p. campaign_budget_projection dg c s = Inr p
     \<and> (\<forall>d. d \<noteq> Dim_TOTAL_TOKENS \<longrightarrow> dimension_value d (cbp_global_limits p) = campaign_limit c False d
           \<and> dimension_value d (cbp_per_trial_limits p) = campaign_limit c True d)
     \<and> cbp_global_total_token_limit p = campaign_limit c False Dim_TOTAL_TOKENS
     \<and> cbp_per_trial_total_token_limit p = campaign_limit c True Dim_TOTAL_TOKENS"
proof -
  note facts = CampaignSpec_validate_facts(9,10) [OF assms(1)]
  have pos: "jcs_positive_ok n \<Longrightarrow> jcs_nonnegative_ok n" for n
    by (auto simp: jcs_positive_ok_def jcs_nonnegative_ok_def)
  have dims: "dimension_value d (resource_limits f) = f d" if "d \<noteq> Dim_TOTAL_TOKENS" for d f
    using that by (cases d) (simp_all add: resource_limits_def)
  have "CampaignBudgetProjection_validate p = Inr p"
    if "cbp_trial_count p = int (length (csc_trials s))"
      "cbp_global_limits p = resource_limits (campaign_limit c False)"
      "cbp_per_trial_limits p = resource_limits (campaign_limit c True)"
      "cbp_global_total_token_limit p = campaign_limit c False Dim_TOTAL_TOKENS"
      "cbp_per_trial_total_token_limit p = campaign_limit c True Dim_TOTAL_TOKENS"
      "cbp_per_request_input_token_limit p = ctl_max_input_tokens_per_request (cmp_token_limits c)"
      "cbp_per_request_output_token_limit p = ctl_max_output_tokens_per_request (cmp_token_limits c)" for p
    using facts assms(2) unfolding CampaignBudgetProjection_validate_def that
    by (auto simp: resource_limits_def resource_fields_def resources_total_tokens_def CampaignTokenLimits_validate_def
        CampaignExecutionLimits_validate_def execution_pairs_def Let_def intro: pos split: if_splits)
  then show ?thesis by (simp add: campaign_budget_projection_def dims)
qed

end
