(* ===== verification/CampaignReportTotality.thy ===== *)
theory CampaignReportTotality
  imports CampaignReportFacts
begin

section \<open>Campaign reports exist\<close>

text \<open>
  Every aggregate, the trial reports and the validator of the whole report succeed on the ledgers of a
  settled campaign. Every check of the report models is a condition on the durable record that replay
  already enforces: contiguous retries, requests and tokens that match the attempts, resources that
  match the trials, one service tier, the frozen schedule.
\<close>

lemma group_by_E:
  assumes "p \<in> set (group_by k xs)"
  obtains r where "r \<in> set xs" "p = (k r, filter (\<lambda>x. k x = k r) xs)"
proof -
  obtain v g where p: "p = (v, g)" by (cases p)
  with assms have "v \<in> k ` set xs" "g = filter (\<lambda>x. k x = v) xs" by (simp_all add: group_by_mem)
  with p that show ?thesis by blast
qed

lemma aggregates_exist:
  assumes "accepted_header dg h" "portable_reports rs" "map trp_trial rs = csc_trials (chd_schedule h)"
  defines "task_by_release \<equiv> dict_of ctk_task_release_digest id (chd_tasks h)"
    and "route_by_id \<equiv> dict_of mrt_route_id id (mst_routes (chd_model_set h))"
  shows "\<exists>y. map_result (\<lambda>(release, members). task_aggregate task_by_release release members)
      (sorted_items (group_by (\<lambda>r. tbd_task_release_digest (sct_binding (trp_trial r))) rs)) = Inr y"
    "\<exists>y. map_result (\<lambda>(capability, members). device_aggregate capability members)
      (sort_key (\<lambda>(capability, _). capability_value capability)
        (group_by (\<lambda>r. tbd_device_capability (sct_binding (trp_trial r))) rs)) = Inr y"
    "\<exists>y. map_result (\<lambda>(route_id, members). bind_result (lookup_key route_by_id route_id) (\<lambda>route.
        model_aggregate route members))
      (sorted_items (group_by (\<lambda>r. tbd_route_id (sct_binding (trp_trial r))) rs)) = Inr y"
    "\<exists>y. map_result (\<lambda>((route_id, effort), members). bind_result (lookup_key route_by_id route_id) (\<lambda>route.
        model_effort_aggregate route effort members)) (model_effort_groups rs) = Inr y"
    "\<exists>y. map_result (category_aggregate h rs) (report_categories h) = Inr y"
proof -
  have mem: "trp_trial r \<in> set (csc_trials (chd_schedule h))" if "r \<in> set rs" for r
    using that by (simp flip: assms(3))
  note facts = scheduled_trial_facts [OF assms(1) mem, folded task_by_release_def route_by_id_def]
  note portable = portable_filter [OF assms(2)]
  show "\<exists>y. map_result (\<lambda>(release, members). task_aggregate task_by_release release members)
      (sorted_items (group_by (\<lambda>r. tbd_task_release_digest (sct_binding (trp_trial r))) rs)) = Inr y"
    by (rule map_result_exists)
      (use facts(1) task_aggregate_ok portable in \<open>force simp: group_by_mem split: prod.splits\<close>)
  show "\<exists>y. map_result (\<lambda>(capability, members). device_aggregate capability members)
      (sort_key (\<lambda>(capability, _). capability_value capability)
        (group_by (\<lambda>r. tbd_device_capability (sct_binding (trp_trial r))) rs)) = Inr y"
    by (rule map_result_exists) (use device_aggregate_ok portable in \<open>auto simp: group_by_mem\<close>)
  show "\<exists>y. map_result (\<lambda>(route_id, members). bind_result (lookup_key route_by_id route_id) (\<lambda>route.
        model_aggregate route members))
      (sorted_items (group_by (\<lambda>r. tbd_route_id (sct_binding (trp_trial r))) rs)) = Inr y"
  proof (rule map_result_exists)
    fix p assume "p \<in> set (sorted_items (group_by (\<lambda>r. tbd_route_id (sct_binding (trp_trial r))) rs))"
    then obtain r where r: "r \<in> set rs" and p: "p = (tbd_route_id (sct_binding (trp_trial r)),
        filter (\<lambda>x. tbd_route_id (sct_binding (trp_trial x)) = tbd_route_id (sct_binding (trp_trial r))) rs)"
      by (auto elim: group_by_E)
    from facts(2) [OF r] obtain route where "dict_get route_by_id (tbd_route_id (sct_binding (trp_trial r))) = Some route"
      "mrt_categories route \<noteq> []" by blast
    with model_aggregate_ok [OF portable] show "\<exists>y. (case p of (route_id, members) \<Rightarrow>
        bind_result (lookup_key route_by_id route_id) (\<lambda>route. model_aggregate route members)) = Inr y"
      by (simp add: p lookup_key_def)
  qed
  show "\<exists>y. map_result (\<lambda>((route_id, effort), members). bind_result (lookup_key route_by_id route_id) (\<lambda>route.
        model_effort_aggregate route effort members)) (model_effort_groups rs) = Inr y"
  proof (rule map_result_exists)
    fix p assume "p \<in> set (model_effort_groups rs)"
    then obtain r where r: "r \<in> set rs" and p: "p = ((tbd_route_id (sct_binding (trp_trial r)),
          tbd_reasoning_effort (sct_binding (trp_trial r))), filter (\<lambda>x. (tbd_route_id (sct_binding (trp_trial x)),
          tbd_reasoning_effort (sct_binding (trp_trial x))) = (tbd_route_id (sct_binding (trp_trial r)),
          tbd_reasoning_effort (sct_binding (trp_trial r)))) rs)"
      by (auto simp: model_effort_groups_def elim: group_by_E)
    from facts(2) [OF r] obtain route where "dict_get route_by_id (tbd_route_id (sct_binding (trp_trial r))) = Some route"
      by blast
    with model_effort_aggregate_ok [OF portable facts(3) [OF r]] show "\<exists>y. (\<lambda>((route_id, effort), members).
        bind_result (lookup_key route_by_id route_id) (\<lambda>route. model_effort_aggregate route effort members)) p = Inr y"
      by (simp add: p lookup_key_def)
  qed
  show "\<exists>y. map_result (category_aggregate h rs) (report_categories h) = Inr y"
    by (rule map_result_exists) (rule category_aggregate_ok [OF assms(2)])
qed

lemma distinct_singleton_set: "distinct xs \<Longrightarrow> set xs = {a} \<Longrightarrow> xs = [a]"
proof (cases xs)
  case (Cons x ys)
  moreover assume "distinct xs" "set xs = {a}"
  ultimately have "x = a" "set ys \<subseteq> {a}" "a \<notin> set ys" by auto
  then have "set ys = {}" by (auto simp: subset_singleton_iff)
  with Cons \<open>x = a\<close> show ?thesis by simp
qed simp

lemma build_digests:
  assumes "build_campaign_schedule dg c ms tasks = Inr s"
  shows "csc_campaign_digest s = cdg_campaign dg c" "csc_model_set_digest s = cdg_model_set dg ms"
proof -
  have valid: "CampaignSchedule_validate x = Inr y \<Longrightarrow> y = x" for x y
    by (auto simp: CampaignSchedule_validate_def Let_def split: if_splits)
  from assms obtain trials where "CampaignSchedule_validate \<lparr>csc_campaign_digest = cdg_campaign dg c,
      csc_model_set_digest = cdg_model_set dg ms, csc_ordered_task_release_digests = ordered_releases dg c tasks,
      csc_trials = trials\<rparr> = Inr s"
    by (auto simp: build_campaign_schedule_def Let_def split: if_splits)
  then show "csc_campaign_digest s = cdg_campaign dg c" "csc_model_set_digest s = cdg_model_set dg ms"
    by (auto dest!: valid)
qed

lemma service_tiers_exist:
  assumes inv: "report_inv dg h st" and h: "accepted_header dg h"
    and ids: "distinct (map sct_trial_id (csc_trials (chd_schedule h)))"
    and out: "\<forall>t\<in>set (csc_trials (chd_schedule h)).
      \<exists>l x. dict_get (cpj_ledgers st) (sct_trial_id t) = Some l \<and> tpr_outcome l = Some x"
    and n: "int (length (all_attempts (map (report_of st) (csc_trials (chd_schedule h))))) \<le> JCS_INTEGER_MAX"
  shows "\<exists>x. service_tier_accounting (all_attempts (map (report_of st) (csc_trials (chd_schedule h))))
    (cmp_service_tier (chd_campaign h)) = Inr x"
proof (rule service_tier_accounting_ok [OF n], rule ballI)
  fix a assume "a \<in> set (all_attempts (map (report_of st) (csc_trials (chd_schedule h))))"
  then obtain t where t: "t \<in> set (csc_trials (chd_schedule h))" "a \<in> set (trp_provider_attempts (report_of st t))"
    by (auto simp: all_attempts_def)
  from out t(1) obtain l where l: "dict_get (cpj_ledgers st) (sct_trial_id t) = Some l" by blast
  with t(2) inv have "routed_attempt h (sct_trial_id t) a"
    by (auto simp: report_of_def Let_def report_inv_def reported_ledger_def)
  then obtain trial where trial: "find_trial h (sct_trial_id t) = Inr trial"
    "par_requested_service_tier a = tbd_service_tier (sct_binding trial)" by (auto simp: routed_attempt_def)
  then have "trial \<in> set (csc_trials (chd_schedule h))"
    by (auto simp: find_trial_def find_Some_iff split: option.splits)
  with trial(2) scheduled_trial_facts(4) [OF h] show "par_requested_service_tier a = cmp_service_tier (chd_campaign h)" by simp
qed

lemma report_violation_flag:
  assumes inv: "report_inv dg h st"
  shows "cpj_budget_violation st
    = list_ex trp_accounting_violation (map (report_of st) (csc_trials (chd_schedule h)))"
proof -
  have flag: "cpj_budget_violation st = (\<exists>t l. dict_get (cpj_ledgers st) t = Some l \<and> tpr_accounting_violation l)"
    and keys: "set (dict_keys (cpj_ledgers st)) = sct_trial_id ` set (csc_trials (chd_schedule h))"
    using inv by (auto simp: report_inv_def ledger_inv_def violation_inv_def accounting_inv_def)
  have "(\<exists>t l. dict_get (cpj_ledgers st) t = Some l \<and> tpr_accounting_violation l)
      = (\<exists>x\<in>set (csc_trials (chd_schedule h)). tpr_accounting_violation (the (dict_get (cpj_ledgers st) (sct_trial_id x))))"
    (is "?L = ?R")
  proof
    assume ?L
    then obtain t l where l: "dict_get (cpj_ledgers st) t = Some l" "tpr_accounting_violation l" by blast
    from dict_get_Some_keys [OF l(1)] keys obtain x where "x \<in> set (csc_trials (chd_schedule h))" "t = sct_trial_id x" by auto
    with l show ?R by (intro bexI [of _ x]) simp_all
  next
    assume ?R
    then obtain x where x: "x \<in> set (csc_trials (chd_schedule h))"
      "tpr_accounting_violation (the (dict_get (cpj_ledgers st) (sct_trial_id x)))" by blast
    then have "sct_trial_id x \<in> set (dict_keys (cpj_ledgers st))" using keys by simp
    from dict_keys_get [OF this] obtain l where "dict_get (cpj_ledgers st) (sct_trial_id x) = Some l" ..
    with x(2) show ?L by (intro exI [of _ "sct_trial_id x"] exI [of _ l]) simp
  qed
  with flag show ?thesis by (auto simp: list_ex_iff report_of_def Let_def)
qed

text \<open>A report whose derived fields are the derived ones passes its validator.\<close>

lemma report_validates:
  assumes h: "accepted_header dg h" and ok: "portable_reports rs" and trials: "map trp_trial rs = csc_trials (chd_schedule h)"
    and tiers: "service_tier_accounting (all_attempts rs) (cmp_service_tier (chd_campaign h)) = Inr tiers"
    and r: "crp_trials r = rs" "crp_campaign_digest r = cdg_campaign (rcd_campaign dg) (chd_campaign h)"
      "crp_model_set_digest r = cdg_model_set (rcd_campaign dg) (chd_model_set h)"
      "crp_schedule_digest r = cdg_schedule (rcd_campaign dg) (chd_schedule h)"
      "crp_provider_profile r = rpc_profile (chd_provider_config h)"
      "crp_provider_profile_digest r = cdg_provider_profile (rcd_campaign dg) (rpc_profile (chd_provider_config h))"
      "crp_provider_config_digest r = cdg_provider_config (rcd_campaign dg) (chd_provider_config h)"
      "success_ratio rs = Inr (crp_overall_success r)" "aggregate_resources rs = Inr (crp_resources r)"
      "token_accounting (all_attempts rs) = Inr (crp_token_accounting r)" "crp_service_tier_accounting r = tiers"
      "terminal_reason_counts rs = Inr (crp_terminal_reasons r)" "spend_summary rs = Inr (crp_spend r)"
      "crp_budget_violation r = list_ex trp_accounting_violation rs"
  shows "CampaignReport_validate (rcd_campaign dg) r = Inr r"
proof -
  from h obtain raw where "CampaignHeader_validate (rcd_campaign dg) raw = Inr h" by (auto simp: accepted_header_def)
  note build = header_build(1) [OF this]
  from build have s: "CampaignSchedule_validate (chd_schedule h) = Inr (chd_schedule h)" by (rule build_E)
  have dgs: "csc_campaign_digest (chd_schedule h) = cdg_campaign (rcd_campaign dg) (chd_campaign h)"
    "csc_model_set_digest (chd_schedule h) = cdg_model_set (rcd_campaign dg) (chd_model_set h)"
    using build_digests [OF build] by simp_all
  have sched: "csc_trials (chd_schedule h) \<noteq> []"
    "map sct_ordinal (csc_trials (chd_schedule h)) = map int [0..<length (csc_trials (chd_schedule h))]"
    "\<And>t. t \<in> set (csc_trials (chd_schedule h)) \<Longrightarrow> tbd_campaign_digest (sct_binding t) = csc_campaign_digest (chd_schedule h)"
    using s by (auto simp: CampaignSchedule_validate_def Let_def list_ex_iff split: if_splits)
  have mem: "trp_trial t \<in> set (csc_trials (chd_schedule h))" if "t \<in> set rs" for t using that by (simp flip: trials)
  note facts = scheduled_trial_facts [OF h mem]
  have ne: "rs \<noteq> []" using sched(1) trials by auto
  have ordinals: "map (\<lambda>t. sct_ordinal (trp_trial t)) rs = map int [0..<length rs]"
    using sched(2) trials [symmetric] by (simp add: comp_def)
  have "(\<lambda>t. tbd_service_tier (sct_binding (trp_trial t))) ` set rs = {cmp_service_tier (chd_campaign h)}"
    using facts(4) hd_in_set [OF ne] by (auto simp: image_iff intro!: bexI [of _ "hd rs"])
  then have "set (remdups (map (\<lambda>t. tbd_service_tier (sct_binding (trp_trial t))) rs)) = {cmp_service_tier (chd_campaign h)}"
    by simp
  then have one: "remdups (map (\<lambda>t. tbd_service_tier (sct_binding (trp_trial t))) rs) = [cmp_service_tier (chd_campaign h)]"
    by (intro distinct_singleton_set) simp_all
  have "reported_schedule r = Inr (chd_schedule h)"
    by (rule reported_schedule_ok) (simp_all add: s r trials dgs)
  moreover have "check_harness_identity r = Inr ()"
    using facts(5,6,7) by (auto simp: check_harness_identity_def r report_if_def list_ex_iff Let_def)
  moreover have "check_report_tiers r = Inr ()" by (simp add: check_report_tiers_def r one tiers report_if_def)
  moreover have "\<not> list_ex (\<lambda>t. tbd_campaign_digest (sct_binding (trp_trial t)) \<noteq> crp_campaign_digest r) rs"
    using sched(3) mem dgs by (auto simp: list_ex_iff r)
  ultimately show ?thesis
    using ne ordinals by (simp add: CampaignReport_validate_def Let_def r report_if_def)
qed

subsection \<open>Every settled campaign has a report\<close>

definition settled_campaign :: "CampaignHeader \<Rightarrow> CampaignProjection \<Rightarrow> bool" where
  "settled_campaign h st \<longleftrightarrow> cpj_reservations st = []
     \<and> list_all (\<lambda>t. \<exists>l\<in>set_option (dict_get (cpj_ledgers st) (sct_trial_id t)). tpr_outcome l \<noteq> None)
         (csc_trials (chd_schedule h))"

lemma report_parts:
  assumes h: "accepted_header dg h" and ok: "portable_reports rs" and trials: "map trp_trial rs = csc_trials (chd_schedule h)"
    and tiers: "\<exists>x. service_tier_accounting (all_attempts rs) (cmp_service_tier (chd_campaign h)) = Inr x"
    and committed: "aggregate_resources rs = Inr committed" and flag: "violation = list_ex trp_accounting_violation rs"
  shows "\<exists>r. build_campaign_report dg h rs digest violation committed = Inr r \<and> crp_trials r = rs \<and> crp_resources r = committed
    \<and> crp_budget_violation r = violation \<and> crp_campaign_record_digest r = digest
    \<and> Inr (crp_overall_success r) = success_ratio rs \<and> Inr (crp_token_accounting r) = token_accounting (all_attempts rs)"
proof -
  have n: "int (length rs) \<le> JCS_INTEGER_MAX" using ok by (simp add: portable_reports_def)
  have mem: "trp_trial t \<in> set (csc_trials (chd_schedule h))" if "t \<in> set rs" for t using that by (simp flip: trials)
  note facts = scheduled_trial_facts [OF h mem]
  from h obtain raw where "CampaignSpec_validate raw = Inr (chd_campaign h)" by (auto simp: accepted_header_def)
  from campaign_shape(1) [OF this] have seeds: "int (length (cmp_paired_trial_seeds (chd_campaign h))) \<le> JCS_INTEGER_MAX"
    by (simp add: JCS_INTEGER_MAX_def)
  obtain at_k where at_k: "success_at_k h (dict_of mrt_route_id id (mst_routes (chd_model_set h)))
      (group_by (\<lambda>r. tbd_route_id (sct_binding (trp_trial r))) rs) = Inr at_k"
    using success_at_k_ok [OF n seeds] facts(2,3) by meson
  obtain funnel where funnel: "evaluator_funnel (dict_of ctk_task_release_digest id (chd_tasks h))
      (group_by (\<lambda>r. tbd_task_release_digest (sct_binding (trp_trial r))) rs) = Inr funnel"
    using evaluator_funnel_ok [OF ok] facts(1) by meson
  obtain tier where tier: "service_tier_accounting (all_attempts rs) (cmp_service_tier (chd_campaign h)) = Inr tier"
    using tiers by blast
  obtain reasons spend where sums: "terminal_reason_counts rs = Inr reasons" "spend_summary rs = Inr spend"
    using terminal_reason_counts_ok [OF n] spend_summary_ok [OF ok] by blast
  note tokens = token_accounting_ok [OF portable_attempts [OF ok]] and success = success_ratio_ok [OF n]
  note agg = aggregates_exist [OF h ok trials]
  obtain a1 a2 a3 a4 a5 where
    "map_result (\<lambda>(release, members). task_aggregate (dict_of ctk_task_release_digest id (chd_tasks h)) release members)
      (sorted_items (group_by (\<lambda>r. tbd_task_release_digest (sct_binding (trp_trial r))) rs)) = Inr a1"
    "map_result (\<lambda>(capability, members). device_aggregate capability members)
      (sort_key (\<lambda>(capability, _). capability_value capability)
        (group_by (\<lambda>r. tbd_device_capability (sct_binding (trp_trial r))) rs)) = Inr a2"
    "map_result (\<lambda>(route_id, members). bind_result
        (lookup_key (dict_of mrt_route_id id (mst_routes (chd_model_set h))) route_id) (\<lambda>route. model_aggregate route members))
      (sorted_items (group_by (\<lambda>r. tbd_route_id (sct_binding (trp_trial r))) rs)) = Inr a3"
    "map_result (\<lambda>((route_id, effort), members). bind_result
        (lookup_key (dict_of mrt_route_id id (mst_routes (chd_model_set h))) route_id) (\<lambda>route.
        model_effort_aggregate route effort members)) (model_effort_groups rs) = Inr a4"
    "map_result (category_aggregate h rs) (report_categories h) = Inr a5"
    using agg by blast
  note parts = this
  show ?thesis
    unfolding build_campaign_report_def Let_def parts at_k funnel tier sums tokens success bind_result_simps
    by (subst report_validates [OF h ok trials tier]) (simp_all add: sums tokens success committed flag)
qed

lemma accepted_trial_ids:
  assumes "accepted_header dg h"
  shows "distinct (map sct_trial_id (csc_trials (chd_schedule h)))"
proof -
  from assms obtain raw where "CampaignHeader_validate (rcd_campaign dg) raw = Inr h" by (auto simp: accepted_header_def)
  from header_build(1) [OF this] have "CampaignSchedule_validate (chd_schedule h) = Inr (chd_schedule h)" by (rule build_E)
  then show ?thesis by (auto simp: CampaignSchedule_validate_def Let_def split: if_splits)
qed

lemma replayed_invariants:
  assumes "accepted_header dg (crc_header record)" "list_all (constructed_event dg) (campaign_record_events record)"
    and "replay_campaign_record dg record = Inr st"
  shows "report_inv dg (crc_header record) st" "retry_inv (chd_campaign (crc_header record)) st"
proof -
  let ?h = "crc_header record"
  from assms(1) obtain raw where raw: "CampaignSpec_validate raw = Inr (chd_campaign ?h)" by (auto simp: accepted_header_def)
  have run: "fold_result (apply_campaign_event dg ?h) (campaign_projection_init ?h) (campaign_record_events record) = Inr st"
    using assms(3) by (simp add: replay_campaign_record_def campaign_replay_def)
  show "report_inv dg ?h st" by (rule reports.run_inv [OF report_inv_init assms(2) run])
  show "retry_inv (chd_campaign ?h) st"
    using retries.run_inv [OF _ assms(2) run] retry_positive [OF raw] accounting_inv_init retry_inv_init [OF raw] by blast
qed

lemma settled_report:
  assumes h: "accepted_header dg (crc_header record)"
    and st: "replay_campaign_record dg record = Inr st" and settled: "settled_campaign (crc_header record) st"
    and inv: "report_inv dg (crc_header record) st" and retry: "retry_inv (chd_campaign (crc_header record)) st"
    and portable: "CampaignResources_validate (cpj_committed st) = Inr (cpj_committed st)"
      "int (length (csc_trials (chd_schedule (crc_header record)))) \<le> JCS_INTEGER_MAX"
      "int (\<Sum>t\<leftarrow>csc_trials (chd_schedule (crc_header record)). length (tro_stage_results (trp_outcome (report_of st t))))
         \<le> JCS_INTEGER_MAX"
  obtains r where "project_campaign_report dg record = Inr r"
    "map trp_trial (crp_trials r) = csc_trials (chd_schedule (crc_header record))"
    "crp_resources r = cpj_committed st" "crp_budget_violation r = cpj_budget_violation st"
    "crp_campaign_record_digest r = campaign_integrity_digest dg record"
proof -
  let ?h = "crc_header record" and ?ts = "csc_trials (chd_schedule (crc_header record))"
  note ids = accepted_trial_ids [OF h]
  have out: "\<forall>t\<in>set ?ts. \<exists>l x. dict_get (cpj_ledgers st) (sct_trial_id t) = Some l \<and> tpr_outcome l = Some x"
    using settled by (fastforce simp: settled_campaign_def list_all_iff)
  note port = portable_report_list [OF inv ids out portable]
  have le: "f (tpr_committed l) \<le> JCS_INTEGER_MAX"
    if t: "t \<in> set ?ts" and l: "dict_get (cpj_ledgers st) (sct_trial_id t) = Some l" and f: "f \<in> set resource_fields" for t l f
  proof -
    have "f (trp_resources (report_of st t)) \<le> (\<Sum>t\<leftarrow>?ts. f (trp_resources (report_of st t)))"
      using port(1) f t by (intro member_le_sum_list) (auto simp: portable_reports_def good_report_def nonneg_resources_def)
    with port(1) f have "f (trp_resources (report_of st t)) \<le> JCS_INTEGER_MAX"
      by (fastforce simp: portable_reports_def comp_def)
    with l show ?thesis by (simp add: report_of_def)
  qed
  have reports: "map_result (trial_report_of st) ?ts = Inr (map (report_of st) ?ts)"
  proof (rule map_result_total)
    fix t assume t: "t \<in> set ?ts"
    from out t obtain l x where l: "dict_get (cpj_ledgers st) (sct_trial_id t) = Some l" "tpr_outcome l = Some x" by blast
    from trial_report_ok [OF inv retry l] le [OF t l(1)] show "trial_report_of st t = Inr (report_of st t)" by blast
  qed
  have trials: "map trp_trial (map (report_of st) ?ts) = ?ts" by (simp add: comp_def report_of_def Let_def)
  have total: "aggregate_resources (map (report_of st) ?ts) = Inr (cpj_committed st)"
  proof -
    have "f (fold (\<lambda>r t. resources_add t (trp_resources r)) (map (report_of st) ?ts) resources_zero) = f (cpj_committed st)"
      if f: "f \<in> set resource_fields" for f
      using fold_resources [OF resource_fields_additive [OF f], of "map (report_of st) ?ts" resources_zero]
        counter_additiveD(1) [OF resource_fields_additive [OF f]] port(2) [OF f] by (simp add: comp_def)
    then have "fold (\<lambda>r t. resources_add t (trp_resources r)) (map (report_of st) ?ts) resources_zero = cpj_committed st"
      by (intro CampaignResources.equality) (simp_all add: resource_fields_def)
    then show ?thesis using aggregate_resources_ok [OF port(1)] by simp
  qed
  have ready: "check_each (missing_outcome st) ?ts = Inr ()"
    "\<not> list_ex (\<lambda>t. \<exists>l\<in>set_option (dict_get (cpj_ledgers st) (sct_trial_id t)). tpr_outcome l = None) ?ts"
    using out by (fastforce simp: missing_outcome_def list_ex_iff)+
  have res: "cpj_reservations st = []" using settled by (simp add: settled_campaign_def)
  from report_parts [OF h port(1) trials service_tiers_exist [OF inv h ids out portable_attempts(2) [OF port(1)]] total
      report_violation_flag [OF inv], of "campaign_integrity_digest dg record"]
  obtain r where r: "build_campaign_report dg ?h (map (report_of st) ?ts) (campaign_integrity_digest dg record)
      (cpj_budget_violation st) (cpj_committed st) = Inr r" "crp_trials r = map (report_of st) ?ts"
    "crp_resources r = cpj_committed st" "crp_budget_violation r = cpj_budget_violation st"
    "crp_campaign_record_digest r = campaign_integrity_digest dg record" by blast
  have "project_campaign_report dg record = Inr r"
    by (simp add: project_campaign_report_def Let_def st lift_campaign_def res ready reports portable(1) r(1) del: check_each_Inr)
  with r trials that show ?thesis by auto
qed

end
