(* ===== verification/CampaignReportProperties.thy ===== *)
theory CampaignReportProperties
  imports CampaignReplayProperties CampaignReportTotality
begin

section \<open>Properties of campaign reports\<close>

text \<open>
  A settled campaign has a report as long as its totals are portable, and the success at k in it does not decrease with k.
\<close>

subsection \<open>Reports of settled campaigns\<close>

text \<open>
  C17: the report of a settled campaign exists exactly when its totals are portable. When no reservation is open and every
  scheduled trial has an outcome, and the numbers of trials and of stage results are portable integers, building the report
  raises no error, neither in the trial reports nor in an aggregate nor in the validator of the whole report, if the
  committed resources are portable integers; the report then lists the trials in the frozen order and carries
  exactly the committed resources and the violation flag of the replay. If settlements that exceeded their reservations have
  driven a committed total beyond the portable integers, the record still replays but its report raises.
\<close>

theorem campaign_report_exists:
  assumes h: "accepted_header dg (crc_header record)"
    and es: "list_all (constructed_event dg) (campaign_record_events record)"
    and st: "replay_campaign_record dg record = Inr st" and settled: "settled_campaign (crc_header record) st"
    and counts: "int (length (csc_trials (chd_schedule (crc_header record)))) \<le> JCS_INTEGER_MAX"
      "int (\<Sum>t\<leftarrow>csc_trials (chd_schedule (crc_header record)). length (tro_stage_results (trp_outcome (report_of st t))))
         \<le> JCS_INTEGER_MAX"
  shows "if CampaignResources_validate (cpj_committed st) = Inr (cpj_committed st)
    then \<exists>r. project_campaign_report dg record = Inr r
      \<and> map trp_trial (crp_trials r) = csc_trials (chd_schedule (crc_header record))
      \<and> crp_resources r = cpj_committed st \<and> crp_budget_violation r = cpj_budget_violation st
      \<and> crp_campaign_record_digest r = campaign_integrity_digest dg record
    else isl (project_campaign_report dg record)"
proof (cases "CampaignResources_validate (cpj_committed st) = Inr (cpj_committed st)")
  case True
  with settled_report [OF h st settled replayed_invariants [OF h es st] True counts] show ?thesis by (metis (full_types))
next
  case False
  have same: "CampaignResources_validate x = Inr y \<Longrightarrow> y = x" for x y by (auto simp: CampaignResources_validate_def split: if_splits)
  from False st same show ?thesis
    by (cases "project_campaign_report dg record")
      (auto simp: project_campaign_report_def lift_campaign_def Let_def split: if_splits sum.splits)
qed

definition example_accepted_header :: CampaignHeader where
  "example_accepted_header = example_campaign_header\<lparr>chd_tasks := sort_key ctk_task_release_digest example_tasks\<rparr>"

definition example_undispatched :: "ScheduledTrial \<Rightarrow> CampaignEventPayload" where
  "example_undispatched t = TrialOutcomeRecorded \<lparr>top_trial_id = sct_trial_id t,
     top_outcome = \<lparr>tro_disposition = Trial_NOT_DISPATCHED, tro_terminal_reason = Stop_EXPLICIT_CANCEL, tro_run_id = None,
       tro_run_binding = None, tro_stage_results = [], tro_provider_requests = [],
       tro_provider_spend = Spend_Unobserved Spend_NOT_DISPATCHED\<rparr>\<rparr>"

definition example_settled_record :: CampaignRecord where
  "example_settled_record = \<lparr>crc_header = example_accepted_header,
     crc_commits = [\<lparr>ccm_previous_record_digest = ''header'', ccm_events = example_trial_events, ccm_record_digest = ''c0''\<rparr>,
       \<lparr>ccm_previous_record_digest = ''c0'', ccm_events = example_events (map sct_trial_id (csc_trials example_schedule)) 7
          (map example_undispatched (tl (csc_trials example_schedule))), ccm_record_digest = ''c1''\<rparr>]\<rparr>"

lemma example_header_accepted: "accepted_header example_record_digests example_accepted_header"
proof -
  have "CampaignHeader_validate example_campaign_digests example_campaign_header = Inr example_accepted_header"
    unfolding example_accepted_header_def by code_simp
  then show ?thesis
    unfolding accepted_header_def using example_campaign_valid example_model_set_valid
    by (auto simp: example_record_digests_def example_accepted_header_def example_campaign_header_def)
qed

theorem campaign_report_exists_witness:
  "\<exists>r. project_campaign_report example_record_digests example_settled_record = Inr r
     \<and> map trp_trial (crp_trials r) = csc_trials example_schedule"
proof -
  let ?ok = "\<lambda>st. settled_campaign example_accepted_header st
      \<and> CampaignResources_validate (cpj_committed st) = Inr (cpj_committed st)
      \<and> int (\<Sum>t\<leftarrow>csc_trials example_schedule. length (tro_stage_results (trp_outcome (report_of st t)))) \<le> JCS_INTEGER_MAX"
  have "case replay_campaign_record example_record_digests example_settled_record of Inr st \<Rightarrow> ?ok st | Inl _ \<Rightarrow> False"
    by code_simp
  then obtain st where st: "replay_campaign_record example_record_digests example_settled_record = Inr st" "?ok st"
    by (auto split: sum.splits)
  have es: "list_all (constructed_event example_record_digests) (campaign_record_events example_settled_record)" by code_simp
  have n: "int (length (csc_trials example_schedule)) \<le> JCS_INTEGER_MAX" by code_simp
  have h: "crc_header example_settled_record = example_accepted_header" "chd_schedule example_accepted_header = example_schedule"
    by (simp_all add: example_settled_record_def example_accepted_header_def example_campaign_header_def)
  from campaign_report_exists [of example_record_digests example_settled_record st] example_header_accepted st es n show ?thesis
    by (auto simp: h)
qed

subsection \<open>Success at k\<close>

lemma success_at_k_rows:
  assumes "success_at_k h routes groups = Inr rows" "row \<in> set rows" "dict_wf groups"
  shows "\<exists>route reports. dict_get groups (sak_route_id row) = Some reports
    \<and> success_at_k_row route (sak_route_id row) (sak_reasoning_effort row)
        (effort_tasks reports (sak_reasoning_effort row)) (nat (sak_k row)) = Inr row"
proof -
  let ?ks = "[1..<Suc (length (cmp_paired_trial_seeds (chd_campaign h)))]"
  let ?efforts = "\<lambda>g. sort (remdups (map (\<lambda>r. tbd_reasoning_effort (sct_binding (trp_trial r))) g))"
  from assms(1) obtain rss where rss: "map_result (\<lambda>(route_id, reports). bind_result (lookup_key routes route_id) (\<lambda>route.
       bind_result (map_result (\<lambda>effort. map_result (success_at_k_row route route_id effort (effort_tasks reports effort)) ?ks)
         (?efforts reports)) (\<lambda>rows. Inr (concat rows)))) (sorted_items groups) = Inr rss" "rows = concat rss"
    by (auto simp: success_at_k_def)
  from assms(2) rss(2) obtain rs where rs: "rs \<in> set rss" "row \<in> set rs" by auto
  from map_result_set [OF rss(1) rs(1)] obtain route_id reports route yss where g: "(route_id, reports) \<in> set groups"
    "map_result (\<lambda>effort. map_result (success_at_k_row route route_id effort (effort_tasks reports effort)) ?ks)
       (?efforts reports) = Inr yss" "rs = concat yss"
    by auto
  from rs(2) g(3) obtain ys where ys: "ys \<in> set yss" "row \<in> set ys" by auto
  from map_result_set [OF g(2) ys(1)] obtain effort where
    "map_result (success_at_k_row route route_id effort (effort_tasks reports effort)) ?ks = Inr ys" by blast
  from map_result_set [OF this ys(2)] obtain k where
    row: "success_at_k_row route route_id effort (effort_tasks reports effort) k = Inr row" by blast
  then have "sak_route_id row = route_id" "sak_reasoning_effort row = effort" "nat (sak_k row) = k"
    by (auto simp: success_at_k_row_def)
  with row g(1) show ?thesis by (auto simp: dict_mem_get [OF assms(3)])
qed

lemma success_at_k_row_counts:
  assumes "success_at_k_row route route_id effort tasks k = Inr row"
  shows "crt_numerator (sak_success row) = int (length (filter (\<lambda>x. list_ex trial_success (take k x)) (dict_values tasks)))"
    and "crt_denominator (sak_success row) = int (length tasks)"
  using assms by (auto simp: success_at_k_row_def CountRatio_new_def split: if_splits)

text \<open>
  In every report, the success at k of one route and effort counts tasks out of the same number of
  tasks and never decreases with k.
\<close>

theorem success_at_k_monotone:
  assumes "project_campaign_report dg record = Inr r" "a \<in> set (crp_success_at_k r)" "b \<in> set (crp_success_at_k r)"
    "sak_route_id a = sak_route_id b" "sak_reasoning_effort a = sak_reasoning_effort b" "sak_k a \<le> sak_k b"
  shows "crt_denominator (sak_success a) = crt_denominator (sak_success b)
    \<and> crt_numerator (sak_success a) \<le> crt_numerator (sak_success b)"
proof -
  have valid: "CampaignReport_validate d x = Inr y \<Longrightarrow> y = x" for d x y
    by (auto simp: CampaignReport_validate_def Let_def)
  from assms(1) obtain reports where "success_at_k (crc_header record)
      (dict_of mrt_route_id id (mst_routes (chd_model_set (crc_header record))))
      (group_by (\<lambda>r. tbd_route_id (sct_binding (trp_trial r))) reports) = Inr (crp_success_at_k r)"
    by (auto simp: project_campaign_report_def build_campaign_report_def Let_def split: if_splits dest!: valid)
  note rows = success_at_k_rows [OF this _ dict_wf_group_by]
  from rows [OF assms(2)] rows [OF assms(3)] assms(4,5) obtain route route' g where
    a: "success_at_k_row route (sak_route_id a) (sak_reasoning_effort a) (effort_tasks g (sak_reasoning_effort a)) (nat (sak_k a)) = Inr a"
    and b: "success_at_k_row route' (sak_route_id a) (sak_reasoning_effort a) (effort_tasks g (sak_reasoning_effort a)) (nat (sak_k b)) = Inr b"
    by auto
  let ?d = "effort_tasks g (sak_reasoning_effort a)"
  have sub: "set (take (nat (sak_k a)) x) \<subseteq> set (take (nat (sak_k b)) x)" for x :: "TrialReport list"
    using assms(6) by (intro set_take_subset_set_take) simp
  have mono: "list_ex trial_success (take (nat (sak_k b)) x)" if "list_ex trial_success (take (nat (sak_k a)) x)" for x
    using that subsetD [OF sub [of x]] unfolding list_ex_iff by (elim bexE) (rule bexI)
  have "length (filter (\<lambda>x. list_ex trial_success (take (nat (sak_k a)) x)) xs)
      \<le> length (filter (\<lambda>x. list_ex trial_success (take (nat (sak_k b)) x)) xs)" for xs
    using mono by (induction xs) auto
  then show ?thesis unfolding success_at_k_row_counts [OF a] success_at_k_row_counts [OF b] by simp
qed

end
