(* ===== verification/CampaignJournalProperties.thy ===== *)
theory CampaignJournalProperties
  imports CampaignSystem CampaignReportProperties
begin

section \<open>Properties of the campaign journal\<close>

text \<open>
  Writing to the journal file refines the transition on records that the runner is proved against, also
  when the file ends in a torn line and when the write is interrupted. A trial that may not reserve
  any more never reserves again, and a retry after a reported failure is never dispatched.
\<close>

subsection \<open>Transactions on the file\<close>

lemma lines_take:
  assumes "LF \<notin> set w" "length d \<le> n" "n < length (d @ w @ [LF])"
  obtains torn where "take n (d @ w @ [LF]) = d @ torn" "LF \<notin> set torn"
proof -
  have "take n (d @ w @ [LF]) = d @ take (n - length d) w" using assms(2,3) by simp
  moreover have "LF \<notin> set (take (n - length d) w)" using assms(1) by (meson in_set_takeD)
  ultimately show ?thesis using that by blast
qed

text \<open>
  C11: a transaction on the journal file does what the transition on records says. It returns the same
  result or error; on success the file holds the extended record, after an error still the old one,
  and a torn line that an earlier crash left is gone in both cases. When the write is cut short
  anywhere before its last byte, the file still decodes to the old record.
\<close>

theorem campaign_transact_refines:
  assumes f: "campaign_file dg digest codec record data"
    and built: "\<And>es r. factory record = Inr (es, r) \<Longrightarrow> list_all (constructed_event dg) es
      \<and> campaign_encodable codec (next_commit dg digest record es)"
    and run: "campaign_transact dg digest codec (crc_header record) factory data = (result, data')"
  shows "result = record_transact dg digest factory record
    \<and> campaign_file dg digest codec (case result of Inl _ \<Rightarrow> record | Inr (record', _) \<Rightarrow> record') data'
    \<and> (\<forall>n. length (lines_of (cgc_commit codec) (crc_commits record)) \<le> n \<longrightarrow> n < length data' \<longrightarrow>
         campaign_file dg digest codec record (take n data'))"
proof -
  let ?d = "lines_of (cgc_commit codec) (crc_commits record)"
  have res: "result = record_transact dg digest factory record" and data': "data' = ?d @ (case result of Inl _ \<Rightarrow> []
      | Inr (record', _) \<Rightarrow> cgc_commit codec (last (crc_commits record')) @ [LF])"
    using campaign_transact_eq [OF f, of factory] run by auto
  show ?thesis
  proof (cases result)
    case (Inl e)
    then have "data' = ?d" using data' by simp
    moreover have "campaign_file dg digest codec record ?d" using campaign_file_torn [OF f, of "[]"] by simp
    ultimately show ?thesis unfolding res [symmetric] by (simp add: Inl)
  next
    case (Inr x)
    obtain record' r where x: "x = (record', r)" by (cases x)
    have "CampaignRecord_validate dg digest record = Inr record" using f by (simp add: campaign_file_def)
    from record_transact_Inr [OF this, of factory "record'" r] res Inr x obtain es where
      es: "factory record = Inr (es, r)" "fresh_events record es" "record' = extended dg digest record es" by auto
    let ?w = "cgc_commit codec (next_commit dg digest record es)"
    have contents: "data' = ?d @ ?w @ [LF]" using data' Inr x es(3) by simp
    have "campaign_file dg digest codec record' data'"
      unfolding es(3) contents using built [OF es(1)] by (intro campaign_file_extended [OF f es(2)]) simp_all
    moreover have "campaign_file dg digest codec record (take n data')" if "length ?d \<le> n" "n < length data'" for n
    proof -
      have "LF \<notin> set ?w" using built [OF es(1)] by (simp add: campaign_encodable_def line_safe_def)
      from lines_take [OF this that [unfolded contents]] obtain torn where "take n data' = ?d @ torn" "LF \<notin> set torn"
        unfolding contents by blast
      with campaign_file_torn [OF f] show ?thesis by simp
    qed
    ultimately show ?thesis unfolding res [symmetric] by (simp add: Inr x)
  qed
qed

definition example_campaign_codec :: campaign_codec where
  "example_campaign_codec = \<lparr>cgc_commit = (\<lambda>_. ''commit''), cgc_parse = (\<lambda>_. Some \<lparr>ccm_previous_record_digest = ''header'',
     ccm_events = take 1 example_trial_events, ccm_record_digest = ''c''\<rparr>)\<rparr>"

theorem campaign_transact_refines_witness:
  "\<exists>record data'. campaign_transact example_record_digests (\<lambda>_ _. ''c'') example_campaign_codec example_accepted_header
       (\<lambda>_. Inr (take 1 example_trial_events, ()) :: unit journal_failure + _) ''torn'' = (Inr (record, ()), data')
     \<and> campaign_file example_record_digests (\<lambda>_ _. ''c'') example_campaign_codec record data'
     \<and> length (crc_commits record) = 1"
proof -
  let ?dg = example_record_digests and ?codec = example_campaign_codec and ?es = "take 1 example_trial_events"
  let ?old = "\<lparr>crc_header = example_accepted_header, crc_commits = []\<rparr>"
  let ?factory = "\<lambda>_. Inr (?es, ()) :: unit journal_failure + _"
  let ?run = "campaign_transact ?dg (\<lambda>_ _. ''c'') ?codec example_accepted_header ?factory ''torn''"
  have "CampaignRecord_validate ?dg (\<lambda>_ _. ''c'') ?old = Inr ?old"
    by (simp add: CampaignRecord_validate_iff)
  then have f: "campaign_file ?dg (\<lambda>_ _. ''c'') ?codec ?old ''torn''" by (simp add: campaign_file_def LF_def)
  have "list_all (constructed_event ?dg) ?es" by code_simp
  moreover have "next_commit ?dg (\<lambda>_ _. ''c'') ?old ?es
      = \<lparr>ccm_previous_record_digest = ''header'', ccm_events = ?es, ccm_record_digest = ''c''\<rparr>"
    by (simp add: next_commit_def campaign_integrity_digest_def example_record_digests_def)
  then have "campaign_encodable ?codec (next_commit ?dg (\<lambda>_ _. ''c'') ?old ?es)"
    by (simp add: campaign_encodable_def example_campaign_codec_def line_safe_def LF_def CR_def)
  ultimately have built: "list_all (constructed_event ?dg) ?es
      \<and> campaign_encodable ?codec (next_commit ?dg (\<lambda>_ _. ''c'') ?old ?es)" by simp
  have ref: "fst ?run = record_transact ?dg (\<lambda>_ _. ''c'') ?factory ?old
    \<and> campaign_file ?dg (\<lambda>_ _. ''c'') ?codec (case fst ?run of Inl _ \<Rightarrow> ?old | Inr (r, _) \<Rightarrow> r) (snd ?run)
    \<and> (\<forall>n. length (lines_of (cgc_commit ?codec) (crc_commits ?old)) \<le> n \<longrightarrow> n < length (snd ?run) \<longrightarrow>
         campaign_file ?dg (\<lambda>_ _. ''c'') ?codec ?old (take n (snd ?run)))"
  proof (rule campaign_transact_refines [where factory = ?factory, OF f])
    fix es r assume "?factory ?old = Inr (es, r)"
    then have "es = ?es" by simp
    with built show "list_all (constructed_event ?dg) es \<and> campaign_encodable ?codec (next_commit ?dg (\<lambda>_ _. ''c'') ?old es)"
      by simp
  qed simp
  have "case record_transact ?dg (\<lambda>_ _. ''c'') ?factory ?old of Inl _ \<Rightarrow> False | Inr (r, _) \<Rightarrow> length (crc_commits r) = 1"
    by code_simp
  with ref show ?thesis by (cases ?run) (auto split: sum.splits)
qed

subsection \<open>Closed trials\<close>

lemma ready_step:
  assumes inv: "accounting_inv h st" and step: "apply_campaign_event dg h st e = Inr st'" "ready_campaign_projection st' t = Inr l'"
  shows "\<exists>l. ready_campaign_projection st t = Inr l"
proof (cases "cev_payload e")
  case (ReservationCreated p)
  with step(1) have "apply_reservation_created dg h p st = Inr st'" by (simp add: apply_campaign_event_def)
  then show ?thesis by (rule created_E) (use step(2) in \<open>auto simp: ready_Inr dict_get_set split: if_splits\<close>)
next
  case (ReservationDispatched i)
  with step(1) have "apply_dispatched i st = Inr st'" by (simp add: apply_campaign_event_def)
  then show ?thesis by (rule dispatched_E) (use step(2) in \<open>auto simp: ready_Inr\<close>)
next
  case (ReservationCancelled i)
  with step(1) have "apply_cancelled i st = Inr st'" by (simp add: apply_campaign_event_def)
  from this reserved_claim_nonneg [OF inv] show ?thesis
    by (rule cancelled_E) (use step(2) in \<open>auto simp: ready_Inr settled_state_def dict_get_set split: if_splits\<close>)
next
  case (WorkSettled p)
  with step(1) have "apply_work_settled p st = Inr st'" by (simp add: apply_campaign_event_def)
  then show ?thesis by (rule work_settled_E) (use step(2) in \<open>auto simp: ready_Inr settled_state_def dict_get_set split: if_splits\<close>)
next
  case (ProviderAttemptSettled p)
  with step(1) have "apply_provider_settlement h p st = Inr st'" by (simp add: apply_campaign_event_def)
  then show ?thesis by (rule provider_settled_E) (use step(2) in \<open>auto simp: ready_Inr settled_state_def dict_get_set split: if_splits\<close>)
next
  case (TrialOutcomeRecorded p)
  with step(1) have "apply_trial_outcome dg h p st = Inr st'" by (simp add: apply_campaign_event_def)
  then show ?thesis using step(2)
    by (auto simp: apply_trial_outcome_def Let_def ready_Inr dict_get_set split: option.splits if_splits)
next
  case (BudgetStopped p)
  with step(1) have "apply_budget_stopped h p st = Inr st'" by (simp add: apply_campaign_event_def)
  then show ?thesis using step(2)
    by (auto simp: apply_budget_stopped_def ready_Inr dict_get_set split: if_splits)
qed

lemma closed_run:
  assumes "accounting_inv h st" "isl (ready_campaign_projection st t)" "list_all (constructed_event dg) es"
    "fold_result (apply_campaign_event dg h) st es = Inr st'"
  shows "isl (ready_campaign_projection st' t) \<and> list_all (\<lambda>e. \<forall>p. cev_payload e = ReservationCreated p \<longrightarrow> rvc_trial_id p \<noteq> t) es"
  using assms
proof (induction es arbitrary: st)
  case (Cons e es)
  from Cons.prems(4) obtain st1 where st1: "apply_campaign_event dg h st e = Inr st1"
    "fold_result (apply_campaign_event dg h) st1 es = Inr st'" by auto
  have acc: "accounting_inv h st1" using accounting_inv_step [OF Cons.prems(1) _ st1(1)] Cons.prems(3) by simp
  have "isl (ready_campaign_projection st1 t)"
    using ready_step [OF Cons.prems(1) st1(1), of t] Cons.prems(2) by (cases "ready_campaign_projection st1 t") auto
  from Cons.IH [OF acc this _ st1(2)] Cons.prems(3)
  have "isl (ready_campaign_projection st' t) \<and> list_all (\<lambda>e. \<forall>p. cev_payload e = ReservationCreated p \<longrightarrow> rvc_trial_id p \<noteq> t) es"
    by simp
  moreover have "rvc_trial_id p \<noteq> t" if "cev_payload e = ReservationCreated p" for p
  proof -
    from st1(1) that have "apply_reservation_created dg h p st = Inr st1" by (simp add: apply_campaign_event_def)
    then show ?thesis by (rule created_E) (use Cons.prems(2) in auto)
  qed
  ultimately show ?case by simp
qed simp

text \<open>
  Once the accounting refuses reservations of a trial it refuses them for ever. When the trial has an
  outcome, its budget or that of the campaign was stopped, or the campaign is poisoned by a violation, no
  accepted continuation of the record reserves anything for the trial.
\<close>

theorem closed_trial_never_reserves:
  assumes "list_all (constructed_event dg) (es @ rest)" "campaign_replay dg h es = Inr st" "campaign_replay dg h (es @ rest) = Inr st'"
    "(\<exists>l. dict_get (cpj_ledgers st) t = Some l \<and> tpr_outcome l \<noteq> None) \<or> dict_get (cpj_trial_stop_dimensions st) t \<noteq> None
      \<or> cpj_global_stop_dimension st \<noteq> None \<or> cpj_budget_violation st"
    "e \<in> set rest" "cev_payload e = ReservationCreated p"
  shows "rvc_trial_id p \<noteq> t"
proof -
  have "accounting_inv h st"
    using accounting.run_inv [OF accounting_inv_init, of dg es h st] assms(1,2) by (simp add: campaign_replay_def)
  moreover have "isl (ready_campaign_projection st t)"
    using assms(4) by (cases "ready_campaign_projection st t") (auto simp: ready_Inr)
  moreover have "fold_result (apply_campaign_event dg h) st rest = Inr st'"
    using assms(2,3) by (simp add: campaign_replay_def fold_result_append)
  ultimately show ?thesis using closed_run [of h st t dg rest st'] assms(1,5,6) by (auto simp: list_all_iff)
qed

subsection \<open>Retries through the runner\<close>

text \<open>
  C13: a provider attempt that a handle settles as a retryable failure ends all provider work of the
  campaign. The settlement may not carry the usage the provider reported, an attempt without usage poisons the campaign, and
  so no accepted continuation of the record reserves anything for any trial: the retries that the
  policy admits are never dispatched.
\<close>

theorem retryable_failure_poisons:
  assumes "settled_attempt h handle b p = Inr attempt" "pvr_disposition p = Attempt_RETRYABLE_FAILURE"
    "cev_payload e = ProviderAttemptSettled \<lparr>pas_reservation_id = i, pas_attempt = attempt\<rparr>"
    "list_all (constructed_event dg) (es @ e # rest)" "campaign_replay dg h (es @ e # rest) = Inr st2"
  shows "(\<exists>st1. campaign_replay dg h (es @ [e]) = Inr st1 \<and> cpj_budget_violation st1) \<and> created_ids rest = {}"
proof -
  from assms(5) obtain st st1 where st: "fold_result (apply_campaign_event dg h) (campaign_projection_init h) es = Inr st"
    "apply_campaign_event dg h st e = Inr st1" "fold_result (apply_campaign_event dg h) st1 rest = Inr st2"
    by (auto simp: campaign_replay_def fold_result_append)
  have acc: "accounting_inv h st"
    using accounting.run_inv [OF accounting_inv_init _ st(1)] assms(4) by simp
  have "pvr_usage p = None"
    using assms(1,2) by (auto simp: settled_attempt_def check_response_def Let_def raise_if_def split: if_splits)
  then have "par_provider_usage attempt = None"
    using assms(1) by (auto simp: settled_attempt_def ProviderAttemptRecord_validate_def Let_def split: if_splits)
  moreover have "apply_provider_settlement h \<lparr>pas_reservation_id = i, pas_attempt = attempt\<rparr> st = Inr st1"
    using assms(3) st(2) by (simp add: apply_campaign_event_def)
  ultimately have poisoned: "cpj_budget_violation st1"
    by (elim provider_settled_E) (simp add: settled_state_def)
  have acc1: "accounting_inv h st1" using accounting_inv_step [OF acc _ st(2)] assms(4) by simp
  have shut: "isl (ready_campaign_projection st1 t)" for t
    using poisoned by (cases "ready_campaign_projection st1 t") (auto simp: ready_Inr)
  have "list_all (constructed_event dg) rest" using assms(4) by simp
  from closed_run [OF acc1 shut this st(3)] have "created_ids rest = {}" by (auto simp: created_ids_def list_all_iff)
  with poisoned st show ?thesis by (simp add: campaign_replay_def fold_result_append)
qed

definition example_failure :: provider_response where
  "example_failure = \<lparr>pvr_disposition = Attempt_RETRYABLE_FAILURE, pvr_usage = None, pvr_reported_model = None,
     pvr_reported_service_tier = None, pvr_status = None, pvr_failure_condition = Some RATE_LIMITED\<rparr>"

definition example_request_binding :: ProviderReservationBinding where
  "example_request_binding = \<lparr>prb_request_key = ''request'', prb_attempt_number = 1, prb_observed_input_token_floor = 5,
     prb_security_binding = example_security\<rparr>"

definition example_handle :: CampaignReservation where
  "example_handle = \<lparr>crv_trial_id = example_first_trial, crv_reservation_id = ''r0'',
     crv_claim = resources_zero\<lparr>crs_requests := 1, crs_input_tokens := 20, crs_output_tokens := 10\<rparr>,
     crv_provider = Some example_request_binding, crv_dispatched = True, crv_settled = False\<rparr>"

definition example_failed :: "ProviderAttemptRecord \<Rightarrow> CampaignEvent list" where
  "example_failed attempt = take 2 example_trial_events @ \<lparr>cev_event_id = ''f'', cev_sequence = 2,
     cev_payload = ProviderAttemptSettled \<lparr>pas_reservation_id = ''r0'', pas_attempt = attempt\<rparr>\<rparr> # drop 6 example_trial_events"

theorem retryable_failure_poisons_witness:
  "\<exists>attempt st. settled_attempt example_campaign_header example_handle example_request_binding example_failure = Inr attempt
     \<and> campaign_replay example_record_digests example_campaign_header (take 3 (example_failed attempt)) = Inr st
     \<and> cpj_budget_violation st \<and> created_ids (drop 3 (example_failed attempt)) = {}"
proof -
  let ?ok = "\<lambda>attempt. list_all (constructed_event example_record_digests) (example_failed attempt)
      \<and> (case campaign_replay example_record_digests example_campaign_header (example_failed attempt) of
           Inl _ \<Rightarrow> False | Inr _ \<Rightarrow> True)"
  have "case settled_attempt example_campaign_header example_handle example_request_binding example_failure of
      Inl _ \<Rightarrow> False | Inr attempt \<Rightarrow> ?ok attempt"
    by code_simp
  then obtain attempt st where a: "settled_attempt example_campaign_header example_handle example_request_binding example_failure = Inr attempt"
    "list_all (constructed_event example_record_digests) (example_failed attempt)"
    "campaign_replay example_record_digests example_campaign_header (example_failed attempt) = Inr st"
    by (auto split: sum.splits)
  let ?e = "\<lparr>cev_event_id = ''f'', cev_sequence = 2,
     cev_payload = ProviderAttemptSettled \<lparr>pas_reservation_id = ''r0'', pas_attempt = attempt\<rparr>\<rparr>"
  have len: "length (take 2 example_trial_events) = 2" by (simp add: example_trial_events_def example_events_def)
  have parts: "take 3 (example_failed attempt) = take 2 example_trial_events @ [?e]"
    "drop 3 (example_failed attempt) = drop 6 example_trial_events"
    using len by (simp_all add: example_failed_def)
  from retryable_failure_poisons [OF a(1) _ _ a(2,3) [unfolded example_failed_def], of "''r0''"] a(1) show ?thesis
    by (simp add: example_failure_def parts)
qed

end
