(* ===== verification/CampaignRecoveryFacts.thy ===== *)
theory CampaignRecoveryFacts
  imports CampaignSystem CampaignReportTotality
begin

section \<open>Recovery and orderly stop\<close>

text \<open>
  After a crash the record may hold open reservations and unfinished trials. The lemmas show that the
  recovery operation closes every reservation, that \<open>stop_unfinished\<close> then gives every trial an outcome,
  and that neither of them can fail on a record that runners wrote.
\<close>

subsection \<open>Reservations that can be closed\<close>

definition recoverable :: "ReservationLedger \<Rightarrow> bool" where
  "recoverable r \<longleftrightarrow> CampaignResources_validate (rvl_claim r) = Inr (rvl_claim r) \<and> metered (rvl_claim r) (rvl_provider r)
     \<and> (case rvl_provider r of None \<Rightarrow> \<not> has_provider_resources (rvl_claim r)
        | Some b \<Rightarrow> request_and_tokens_only (rvl_claim r) \<and> jcs_positive_ok (prb_attempt_number b))"

definition recoverable_inv :: "CampaignProjection \<Rightarrow> bool" where
  "recoverable_inv st \<longleftrightarrow> (\<forall>i r. dict_get (cpj_reservations st) i = Some r \<longrightarrow> recoverable r)"

lemma recoverable_dispatched [simp]: "recoverable (r\<lparr>rvl_dispatched := b\<rparr>) = recoverable r"
  by (simp add: recoverable_def split: option.split)

lemma recoverable_created:
  assumes "apply_reservation_created dg h p st = Inr st'" "campaign_payload_validate dg (ReservationCreated p) = Inr ()"
    "metered (rvc_claim p) (rvc_provider p)"
  shows "recoverable \<lparr>rvl_trial_id = rvc_trial_id p, rvl_claim = rvc_claim p, rvl_provider = rvc_provider p, rvl_dispatched = b\<rparr>"
  using assms(1)
proof (rule created_E)
  fix l assume none: "rvc_provider p = None \<Longrightarrow> crs_requests (rvc_claim p) = 0 \<and> crs_input_tokens (rvc_claim p) = 0
       \<and> crs_output_tokens (rvc_claim p) = 0"
    and some: "\<And>b. rvc_provider p = Some b \<Longrightarrow> check_provider_reservation dg h st (rvc_trial_id p) l (rvc_claim p) b = Inr ()"
  have valid: "CampaignResources_validate (rvc_claim p) = Inr (rvc_claim p)"
    using assms(2) by (auto simp: CampaignResources_validate_def split: if_splits)
  show ?thesis
  proof (cases "rvc_provider p")
    case None
    with none assms(3) valid show ?thesis by (simp add: recoverable_def has_provider_resources_def)
  next
    case (Some c)
    from some [OF Some] have "request_and_tokens_only (rvc_claim p)" by (simp add: check_provider_reservation_def Let_def)
    with Some assms(2,3) valid show ?thesis by (simp add: recoverable_def split: if_splits)
  qed
qed

lemma recoverable_step:
  assumes "accounting_inv h st" "recoverable_inv st" "constructed_event dg e" "creates_within UNIV e"
    "apply_campaign_event dg h st e = Inr st'"
  shows "recoverable_inv st'"
  unfolding recoverable_inv_def
proof (intro allI impI)
  fix i r assume r: "dict_get (cpj_reservations st') i = Some r"
  show "recoverable r"
  proof (cases "i \<in> created_ids [e]")
    case True
    then obtain p where p: "cev_payload e = ReservationCreated p" "rvc_reservation_id p = i" by (auto simp: created_ids_def)
    with assms(5) have created: "apply_reservation_created dg h p st = Inr st'" by (simp add: apply_campaign_event_def)
    then have "r = \<lparr>rvl_trial_id = rvc_trial_id p, rvl_claim = rvc_claim p, rvl_provider = rvc_provider p, rvl_dispatched = False\<rparr>"
      by (rule created_E) (use r p(2) in \<open>simp add: dict_get_set\<close>)
    with recoverable_created [OF created] constructed_payload [OF assms(3)] assms(4) p(1) show ?thesis
      by (simp add: creates_within_def)
  next
    case False
    obtain s where s: "dict_get (cpj_reservations st) i = Some s" "r = s \<or> r = s\<lparr>rvl_dispatched := True\<rparr>"
      by (rule reservation_step [OF assms(1,3,5) False r])
    with assms(2) show ?thesis by (auto simp: recoverable_inv_def)
  qed
qed

interpretation recovery: guarded_projection "apply_campaign_event dg h" "\<lambda>e. constructed_event dg e \<and> creates_within UNIV e"
    "\<lambda>st. accounting_inv h st \<and> recoverable_inv st" for dg h
proof unfold_locales
  fix st e st'
  assume "accounting_inv h st \<and> recoverable_inv st" "constructed_event dg e \<and> creates_within UNIV e"
    "apply_campaign_event dg h st e = Inr st'"
  then show "accounting_inv h st' \<and> recoverable_inv st'"
    using accounting_inv_step [of h st dg e st'] recoverable_step [of h st dg e st'] by simp
qed

lemma record_inv_recoverable:
  assumes "record_inv dg digest h record" "replay_campaign_record dg record = Inr st"
  shows "accounting_inv h st" "recoverable_inv st"
proof -
  have "list_all (\<lambda>e. constructed_event dg e \<and> creates_within UNIV e) (campaign_record_events record)"
    using assms(1) by (simp add: record_inv_def record_ok_def list_all_iff)
  moreover have "accounting_inv h (campaign_projection_init h) \<and> recoverable_inv (campaign_projection_init h)"
    using accounting_inv_init [of h] by (simp add: recoverable_inv_def) (simp add: campaign_projection_init_def)
  ultimately have "accounting_inv h st \<and> recoverable_inv st"
    using recovery.run_inv [of h "campaign_projection_init h" dg "campaign_record_events record" st] assms
    by (simp add: record_inv_def replay_campaign_record_def campaign_replay_def)
  then show "accounting_inv h st" "recoverable_inv st" by simp_all
qed

subsection \<open>Closing one reservation\<close>

definition recovery_charge :: "ReservationLedger \<Rightarrow> CampaignResources" where
  "recovery_charge r = (if rvl_dispatched r then rvl_claim r else resources_zero)"

definition recovery_poisons :: "ReservationLedger \<Rightarrow> bool" where
  "recovery_poisons r \<longleftrightarrow> rvl_dispatched r \<and> rvl_provider r \<noteq> None"

lemma not_exceeds_self: "\<not> resources_exceeds r r"
  by (simp add: resources_exceeds_def list_ex_iff)

lemma find_trial_by_id:
  assumes "distinct (map sct_trial_id (csc_trials (chd_schedule h)))" "t \<in> sct_trial_id ` set (csc_trials (chd_schedule h))"
  obtains trial where "find_trial h t = Inr trial" "trial_by_id h t = Inr trial" "sct_trial_id trial = t"
    "trial \<in> set (csc_trials (chd_schedule h))"
proof -
  let ?ts = "csc_trials (chd_schedule h)"
  from assms(2) obtain trial where trial: "trial \<in> set ?ts" "sct_trial_id trial = t" by auto
  have "dict_get (dict_of sct_trial_id id ?ts) t = Some trial"
    using trial dict_get_dict_of [OF assms(1), of id t trial] by auto
  moreover have "find (\<lambda>x. sct_trial_id x = t) ?ts = Some trial"
    unfolding find_Some_iff
  proof -
    from trial(1) obtain n where n: "n < length ?ts" "?ts ! n = trial" by (auto simp: in_set_conv_nth)
    have "sct_trial_id (?ts ! j) \<noteq> t" if "j < n" for j
      using assms(1) n trial(2) that by (auto simp: distinct_conv_nth)
    with n trial(2) show "\<exists>i<length ?ts. sct_trial_id (?ts ! i) = t \<and> trial = ?ts ! i \<and> (\<forall>j<i. sct_trial_id (?ts ! j) \<noteq> t)"
      by blast
  qed
  ultimately show ?thesis using that trial by (simp add: find_trial_def trial_by_id_def)
qed

text \<open>The event that recovery builds for an open reservation is valid and accepted.\<close>

lemma recovery_attempt_valid:
  assumes "recoverable r" "rvl_provider r = Some b"
  shows "ProviderAttemptRecord_validate (attempt_of b trial (rvl_claim r) (rvl_claim r))
    = Inr (attempt_of b trial (rvl_claim r) (rvl_claim r))"
  using assms
  by (simp add: ProviderAttemptRecord_validate_def attempt_of_def recoverable_def metered_def token_claim_of_def Let_def)

lemma recover_one:
  assumes acc: "accounting_inv h st" and r: "dict_get (cpj_reservations st) i = Some r" "recoverable r"
    and ids: "distinct (map sct_trial_id (csc_trials (chd_schedule h)))" and n: "int n \<le> JCS_INTEGER_MAX"
  obtains p e l xs as where "recovery_payload h (i, r) = Inr (Some p)"
    "e = \<lparr>cev_event_id = u, cev_sequence = int n, cev_payload = p\<rparr>" "CampaignEvent_validate dg e = Inr e"
    "dict_get (cpj_ledgers st) (rvl_trial_id r) = Some l"
    "apply_campaign_event dg h st e = Inr (settled_state i r (recovery_charge r) (recovery_poisons r)
      (l\<lparr>tpr_cancelled_provider_requests := xs, tpr_attempts := tpr_attempts l @ as\<rparr>) st)"
proof -
  have t: "rvl_trial_id r \<in> sct_trial_id ` set (csc_trials (chd_schedule h))"
    "rvl_trial_id r \<in> set (dict_keys (cpj_ledgers st))"
    using acc dict_get_values [OF r(1)] by (auto simp: accounting_inv_def)
  from t(2) obtain l where l: "dict_get (cpj_ledgers st) (rvl_trial_id r) = Some l" using dict_keys_get by fast
  have seq: "jcs_nonnegative_ok (int n)" using n by (simp add: jcs_nonnegative_ok_def)
  have nonneg: "nonneg_resources (rvl_claim r)" by (rule reserved_claim_nonneg [OF acc r(1)])
  note self = not_exceeds_self [of "rvl_claim r"] zero_not_exceeds [OF nonneg]
  show ?thesis
  proof (cases "rvl_dispatched r")
    case False
    show ?thesis
    proof (cases "rvl_provider r")
      case None
      show ?thesis
        by (rule that [of "ReservationCancelled i" _ l "[]" "tpr_cancelled_provider_requests l"])
          (use False None l r self seq in \<open>auto simp: recovery_payload_def CampaignEvent_validate_def apply_campaign_event_def
            apply_cancelled_def release_is_settle [OF nonneg] settle_reservation_def settled_state_def recovery_charge_def
            recovery_poisons_def Let_def\<close>)
    next
      case (Some b)
      show ?thesis
        by (rule that [of "ReservationCancelled i" _ l "[]" "insert (prb_request_key b) (tpr_cancelled_provider_requests l)"])
          (use False Some l r self seq in \<open>auto simp: recovery_payload_def CampaignEvent_validate_def apply_campaign_event_def
            apply_cancelled_def release_is_settle [OF nonneg] settle_reservation_def settled_state_def recovery_charge_def
            recovery_poisons_def Let_def dict_get_set dict_set_set\<close>)
    qed
  next
    case True
    show ?thesis
    proof (cases "rvl_provider r")
      case None
      show ?thesis
        by (rule that [of "WorkSettled \<lparr>wsp_reservation_id = i, wsp_actual = rvl_claim r\<rparr>" _ l
            "[]" "tpr_cancelled_provider_requests l"])
          (use True None l r self seq in \<open>auto simp: recovery_payload_def CampaignEvent_validate_def apply_campaign_event_def
            apply_work_settled_def settle_reservation_def settled_state_def recovery_charge_def recovery_poisons_def Let_def
            recoverable_def has_provider_resources_def\<close>)
    next
      case (Some b)
      obtain trial where trial: "find_trial h (rvl_trial_id r) = Inr trial" "trial_by_id h (rvl_trial_id r) = Inr trial"
        by (rule find_trial_by_id [OF ids t(1)])
      let ?a = "attempt_of b trial (rvl_claim r) (rvl_claim r)"
      have a: "\<not> attempt_differs ?a b r (sct_binding trial)" "par_failure_condition ?a = None" "par_provider_usage ?a = None"
        "par_charged_resources ?a = rvl_claim r"
        by (simp_all add: attempt_differs_def attempt_of_def)
      have "apply_provider_settlement h \<lparr>pas_reservation_id = i, pas_attempt = ?a\<rparr> st = Inr (settled_state i r (rvl_claim r) True
          (l\<lparr>tpr_cancelled_provider_requests := tpr_cancelled_provider_requests l, tpr_attempts := tpr_attempts l @ [?a]\<rparr>) st)"
        using True Some l r(1) trial(1) a self
        by (cases l, cases st) (auto simp: apply_provider_settlement_def settle_reservation_def settled_state_def Let_def
            dict_get_set dict_set_set)
      then show ?thesis
        by (intro that [of "ProviderAttemptSettled \<lparr>pas_reservation_id = i, pas_attempt = ?a\<rparr>" _ l
            "[?a]" "tpr_cancelled_provider_requests l"])
          (use True Some l seq trial recovery_attempt_valid [OF r(2) Some, of trial] in
            \<open>auto simp: recovery_payload_def CampaignEvent_validate_def apply_campaign_event_def recovery_charge_def
              recovery_poisons_def\<close>)
    qed
  qed
qed

subsection \<open>Closing every reservation\<close>

text \<open>What a loop of \<open>emit_next\<close> promises of the events it adds, in terms of the state it reaches.\<close>

definition emitted :: "record_digests \<Rightarrow> CampaignRecord \<Rightarrow> (nat \<Rightarrow> string) \<Rightarrow> nat \<Rightarrow> CampaignProjection \<Rightarrow> CampaignEvent list
    \<Rightarrow> CampaignProjection \<Rightarrow> bool" where
  "emitted dg record uuid k st es st' \<longleftrightarrow> fold_result (apply_campaign_event dg (crc_header record)) st es = Inr st'
     \<and> map cev_event_id es = map uuid [k..<k + length es]
     \<and> campaign_positions_owned (length (campaign_record_events record) + k) es \<and> list_all (constructed_event dg) es"

lemma emitted_Nil [simp]: "emitted dg record uuid k st [] st"
  by (simp add: emitted_def)

lemma emitted_Cons:
  assumes "e = \<lparr>cev_event_id = uuid k, cev_sequence = int (length (campaign_record_events record) + k), cev_payload = p\<rparr>"
    "CampaignEvent_validate dg e = Inr e" "apply_campaign_event dg (crc_header record) st e = Inr st1"
    "emitted dg record uuid (Suc k) st1 es st'"
  shows "emitted dg record uuid k st (e # es) st'"
proof -
  have "[k..<k + length (e # es)] = k # [Suc k..<Suc k + length es]" by (simp add: upt_rec del: upt_Suc)
  with assms show ?thesis by (simp add: emitted_def constructed_event_def del: upt_Suc)
qed

lemma emit_next_one:
  assumes "propose st x = Inr (Some p)"
    "e = \<lparr>cev_event_id = uuid (length es), cev_sequence = int (length (campaign_record_events record) + length es), cev_payload = p\<rparr>"
    "CampaignEvent_validate dg e = Inr e" "apply_campaign_event dg (crc_header record) st e = Inr st1"
  shows "emit_next dg record uuid propose (st, es) x = Inr (st1, es @ [e])"
  using assms by (simp add: emit_next_def emit_def)

definition outcomes :: "CampaignProjection \<Rightarrow> Identifier \<Rightarrow> TrialRunOutcome option" where
  "outcomes st t = Option.bind (dict_get (cpj_ledgers st) t) tpr_outcome"

lemma recover_loop:
  assumes "accounting_inv h st" "\<forall>(i, r)\<in>set xs. dict_get (cpj_reservations st) i = Some r \<and> recoverable r" "distinct (map fst xs)"
    and ids: "distinct (map sct_trial_id (csc_trials (chd_schedule h)))" and h: "crc_header record = h"
    and "int (length (campaign_record_events record) + length es + length xs) \<le> JCS_INTEGER_MAX"
  shows "\<exists>st' es'. fold_result (emit_next dg record uuid (\<lambda>_. recovery_payload h)) (st, es) xs = Inr (st', es @ es')
     \<and> emitted dg record uuid (length es) st es' st' \<and> length es' = length xs
     \<and> (\<forall>i. dict_get (cpj_reservations st') i = (if i \<in> fst ` set xs then None else dict_get (cpj_reservations st) i))
     \<and> (\<forall>f. counter_additive f \<longrightarrow> f (cpj_committed st') = f (cpj_committed st) + (\<Sum>(_, r)\<leftarrow>xs. f (recovery_charge r)))
     \<and> cpj_budget_violation st' = (cpj_budget_violation st \<or> list_ex (\<lambda>(_, r). recovery_poisons r) xs)
     \<and> outcomes st' = outcomes st"
  using assms(1-3,6)
proof (induction xs arbitrary: st es)
  case (Cons x xs)
  obtain i r where x: "x = (i, r)" by (cases x)
  let ?n = "length (campaign_record_events record) + length es"
  have r: "dict_get (cpj_reservations st) i = Some r" "recoverable r" using Cons.prems(2) x by auto
  have n: "int ?n \<le> JCS_INTEGER_MAX" using Cons.prems(4) by simp
  obtain p e l ys as where step: "recovery_payload h (i, r) = Inr (Some p)"
    "e = \<lparr>cev_event_id = uuid (length es), cev_sequence = int ?n, cev_payload = p\<rparr>" "CampaignEvent_validate dg e = Inr e"
    "dict_get (cpj_ledgers st) (rvl_trial_id r) = Some l"
    "apply_campaign_event dg h st e = Inr (settled_state i r (recovery_charge r) (recovery_poisons r)
      (l\<lparr>tpr_cancelled_provider_requests := ys, tpr_attempts := tpr_attempts l @ as\<rparr>) st)"
    by (rule recover_one [OF Cons.prems(1) r ids n])
  define st1 where "st1 = settled_state i r (recovery_charge r) (recovery_poisons r)
      (l\<lparr>tpr_cancelled_provider_requests := ys, tpr_attempts := tpr_attempts l @ as\<rparr>) st"
  have acc1: "accounting_inv h st1"
    using accounting_inv_step [OF Cons.prems(1) _ step(5)] step(3) by (simp add: st1_def constructed_event_def)
  have wf: "dict_wf (cpj_reservations st)" using Cons.prems(1) by (simp add: accounting_inv_def)
  have res1: "dict_get (cpj_reservations st1) j = (if j = i then None else dict_get (cpj_reservations st) j)" for j
    using wf by (simp add: st1_def settled_state_def dict_get_pop)
  have com1: "f (cpj_committed st1) = f (cpj_committed st) + f (recovery_charge r)" if "counter_additive f" for f
    using that by (simp add: st1_def settled_state_def resource_simps)
  have "\<forall>(i, r)\<in>set xs. dict_get (cpj_reservations st1) i = Some r \<and> recoverable r"
    using Cons.prems(2,3) x by (force simp: res1)
  from Cons.IH [OF acc1 this, of "es @ [e]"] Cons.prems(3,4) obtain st' es' where
    rest: "fold_result (emit_next dg record uuid (\<lambda>_. recovery_payload h)) (st1, es @ [e]) xs = Inr (st', (es @ [e]) @ es')"
      "emitted dg record uuid (length (es @ [e])) st1 es' st'" "length es' = length xs"
      "\<forall>j. dict_get (cpj_reservations st') j = (if j \<in> fst ` set xs then None else dict_get (cpj_reservations st1) j)"
      "\<forall>f. counter_additive f \<longrightarrow> f (cpj_committed st') = f (cpj_committed st1) + (\<Sum>(_, r)\<leftarrow>xs. f (recovery_charge r))"
      "cpj_budget_violation st' = (cpj_budget_violation st1 \<or> list_ex (\<lambda>(_, r). recovery_poisons r) xs)"
      "outcomes st' = outcomes st1"
    by auto
  have out1: "outcomes st1 = outcomes st"
    using step(4) by (auto simp: fun_eq_iff outcomes_def st1_def settled_state_def dict_get_set)
  have one: "emit_next dg record uuid (\<lambda>_. recovery_payload h) (st, es) x = Inr (st1, es @ [e])"
    using emit_next_one [of "\<lambda>_. recovery_payload h" st x p e uuid es "record" dg st1] step x h by (simp add: st1_def)
  have "emitted dg record uuid (length es) st (e # es') st'"
    using emitted_Cons [OF _ step(3), of uuid "length es" "record" p st st1 es' st'] step(2,5) rest(2) h by (simp add: st1_def)
  moreover have "fold_result (emit_next dg record uuid (\<lambda>_. recovery_payload h)) (st, es) (x # xs) = Inr (st', es @ e # es')"
    using one rest(1) by simp
  moreover have "\<forall>j. dict_get (cpj_reservations st') j = (if j \<in> fst ` set (x # xs) then None else dict_get (cpj_reservations st) j)"
    using rest(4) x by (auto simp: res1)
  moreover have "cpj_budget_violation st' = (cpj_budget_violation st \<or> list_ex (\<lambda>(_, r). recovery_poisons r) (x # xs))"
    using rest(6) x by (auto simp: st1_def settled_state_def)
  moreover have "\<forall>f. counter_additive f \<longrightarrow>
      f (cpj_committed st') = f (cpj_committed st) + (\<Sum>(_, r)\<leftarrow>x # xs. f (recovery_charge r))"
    using rest(5) x by (simp add: com1 add.assoc)
  ultimately show ?case using rest(3,7) out1 by (intro exI [of _ st'] exI [of _ "e # es'"]) simp
qed simp

definition fresh_uuids :: "CampaignRecord \<Rightarrow> (nat \<Rightarrow> string) \<Rightarrow> nat \<Rightarrow> bool" where
  "fresh_uuids record uuid n \<longleftrightarrow> distinct (map uuid [0..<n])
     \<and> list_all (\<lambda>e. cev_event_id e \<notin> set (map uuid [0..<n])) (campaign_record_events record)"

lemma commit_emitted:
  assumes "record_ok dg digest record" "replay_campaign_record dg record = Inr st" "emitted dg record uuid 0 st es st'" "es \<noteq> []"
    "fresh_uuids record uuid (length es)" "factory record = Inr (es, r)"
  shows "record_transact dg digest factory record = Inr (extended dg digest record es, r)"
    "replay_campaign_record dg (extended dg digest record es) = Inr st'"
proof -
  show st': "replay_campaign_record dg (extended dg digest record es) = Inr st'"
    using assms(2,3) by (simp add: replay_extended emitted_def)
  have ids: "map cev_event_id es = map uuid [0..<length es]" using assms(3) by (simp add: emitted_def)
  then have "cev_event_id ` set es = set (map uuid [0..<length es])" by (metis set_map)
  then have "fresh_events record es"
    using assms(3-5) ids unfolding fresh_events_def fresh_uuids_def by (auto simp: emitted_def list_all_iff)
  with st' assms(1,6) show "record_transact dg digest factory record = Inr (extended dg digest record es, r)"
    by (auto simp: record_transact_Inr record_ok_def)
qed

lemma sorted_items_facts: "set (sorted_items d) = set d" "length (sorted_items d) = length d" "dict_wf d \<Longrightarrow> distinct (map fst (sorted_items d))"
proof -
  show "set (sorted_items d) = set d" "length (sorted_items d) = length d" by (simp_all add: sorted_items_def)
  have "mset (map fst (sorted_items d)) = mset (map fst d)" by (simp add: sorted_items_def)
  then show "distinct (map fst (sorted_items d))" if "dict_wf d"
    using that by (metis dict_wf_def mset_eq_imp_distinct_iff)
qed

lemma dict_empty: "\<forall>i. dict_get d i = None \<Longrightarrow> d = []"
  unfolding dict_get_None by (simp add: dict_keys_def)

lemma recover_succeeds:
  assumes inv: "record_inv dg digest h record" and st: "replay_campaign_record dg record = Inr st"
    and ids: "distinct (map sct_trial_id (csc_trials (chd_schedule h)))" and some: "cpj_reservations st \<noteq> []"
    and rn: "rnr_header rn = h" "\<not> rnr_closed rn" and fresh: "fresh_uuids record uuid (length (cpj_reservations st))"
    and bound: "int (length (campaign_record_events record) + length (cpj_reservations st)) \<le> JCS_INTEGER_MAX"
  obtains es st' where
    "runner_recover_incomplete_dispatches dg digest uuid rn record = (Inr \<lparr>rcv_reservation_ids = sort (dict_keys (cpj_reservations st)),
        rcv_affected_trial_ids = sorted_list_of_set (rvl_trial_id ` set (dict_values (cpj_reservations st)))\<rparr>, rn,
      extended dg digest record es)"
    "replay_campaign_record dg (extended dg digest record es) = Inr st'" "length es = length (cpj_reservations st)"
    "cpj_reservations st' = []"
    "\<And>f. counter_additive f \<Longrightarrow>
       f (cpj_committed st') = f (cpj_committed st) + (\<Sum>r\<leftarrow>dict_values (cpj_reservations st). f (recovery_charge r))"
    "cpj_budget_violation st' = (cpj_budget_violation st \<or> list_ex recovery_poisons (dict_values (cpj_reservations st)))"
    "outcomes st' = outcomes st" "map cev_event_id es = map uuid [0..<length (cpj_reservations st)]"
proof -
  let ?d = "cpj_reservations st" and ?xs = "sorted_items (cpj_reservations st)"
  note acc = record_inv_recoverable [OF inv st]
  have h: "crc_header record = h" and ok: "record_ok dg digest record" using inv by (simp_all add: record_inv_def)
  have wf: "dict_wf ?d" using acc(1) by (simp add: accounting_inv_def)
  note items = sorted_items_facts [of ?d]
  have "\<forall>(i, r)\<in>set ?xs. dict_get ?d i = Some r \<and> recoverable r"
    using acc(2) wf by (auto simp: items(1) dict_mem_get recoverable_inv_def)
  from recover_loop [OF acc(1) this items(3) [OF wf] ids h, of "[]" dg uuid] bound items(2) obtain st' es where
    run: "fold_result (emit_next dg record uuid (\<lambda>_. recovery_payload h)) (st, []) ?xs = Inr (st', es)"
      "emitted dg record uuid 0 st es st'" "length es = length ?xs"
      "\<forall>i. dict_get (cpj_reservations st') i = (if i \<in> fst ` set ?xs then None else dict_get ?d i)"
      "\<forall>f. counter_additive f \<longrightarrow> f (cpj_committed st') = f (cpj_committed st) + (\<Sum>(_, r)\<leftarrow>?xs. f (recovery_charge r))"
      "cpj_budget_violation st' = (cpj_budget_violation st \<or> list_ex (\<lambda>(_, r). recovery_poisons r) ?xs)"
      "outcomes st' = outcomes st"
    by auto
  have uuids: "map cev_event_id es = map uuid [0..<length ?d]" using run(2,3) items(2) by (simp add: emitted_def)
  have ne: "es \<noteq> []" using some run(3) items(2) by auto
  let ?rec = "\<lparr>rcv_reservation_ids = map fst ?xs, rcv_affected_trial_ids = sorted_list_of_set (set (map (\<lambda>(_, r). rvl_trial_id r) ?xs))\<rparr>"
  have factory: "recover_factory dg h uuid record = Inr (es, ?rec)"
    using run(1) ne by (simp add: recover_factory_def st emit_events_def Let_def)
  have "fresh_uuids record uuid (length es)" using fresh run(3) items(2) by simp
  note commit = commit_emitted [where factory = "recover_factory dg h uuid", OF ok st run(2) ne this factory]
  have keys: "map fst ?xs = sort (dict_keys ?d)"
    by (intro properties_for_sort [symmetric]) (simp_all add: sorted_items_def dict_keys_def)
  have trials: "set (map (\<lambda>(_, r). rvl_trial_id r) ?xs) = rvl_trial_id ` set (dict_values ?d)"
    by (auto simp: items(1) dict_values_def image_iff split: prod.splits) force+
  have sum: "(\<Sum>(_, r)\<leftarrow>?xs. f (recovery_charge r)) = (\<Sum>r\<leftarrow>dict_values ?d. f (recovery_charge r))" for f :: "CampaignResources \<Rightarrow> int"
  proof -
    have "mset (map (\<lambda>(_, r). f (recovery_charge r)) ?xs) = mset (map (\<lambda>(_, r). f (recovery_charge r)) ?d)"
      by (simp add: sorted_items_def)
    then have "(\<Sum>(_, r)\<leftarrow>?xs. f (recovery_charge r)) = (\<Sum>(_, r)\<leftarrow>?d. f (recovery_charge r))"
      by (metis sum_mset_sum_list)
    then show ?thesis by (simp add: dict_values_def comp_def case_prod_unfold)
  qed
  have empty: "cpj_reservations st' = []"
    using run(4) by (intro dict_empty) (auto simp: items(1) dict_get_None dict_keys_def)
  have "list_ex (\<lambda>(_, r). recovery_poisons r) ?xs = list_ex recovery_poisons (dict_values ?d)"
    by (force simp: list_ex_iff items(1) dict_values_def)
  moreover have "runner_recover_incomplete_dispatches dg digest uuid rn record = (Inr ?rec, rn, extended dg digest record es)"
    using commit(1) rn
    by (simp add: runner_recover_incomplete_dispatches_def guarded_def ensure_open_def raise_if_def runner_commit_def)
  ultimately show ?thesis
    using that [of es st'] commit(2) run(3,5-7) items(2) empty keys trials sum uuids by simp
qed

end
