(* ===== verification/CampaignStopFacts.thy ===== *)
theory CampaignStopFacts
  imports CampaignRecoveryFacts
begin

section \<open>Orderly stop\<close>

text \<open>
  \<open>stop_unfinished\<close> on a record without open reservations gives every unfinished trial an outcome and
  changes nothing else of the replayed state.
\<close>

subsection \<open>Stopping one trial\<close>

definition was_dispatched :: "TrialProjection \<Rightarrow> bool" where
  "was_dispatched l \<longleftrightarrow> \<not> resources_is_zero (tpr_committed l) \<or> tpr_attempts l \<noteq> []"

definition stopped_ledger :: "StopReason \<Rightarrow> TrialProjection \<Rightarrow> TrialProjection" where
  "stopped_ledger reason l =
     (if tpr_outcome l = None then l\<lparr>tpr_outcome := Some (unfinished_outcome reason (was_dispatched l))\<rparr> else l)"

lemma stopped_ledger_facts [simp]:
  "tpr_committed (stopped_ledger reason l) = tpr_committed l" "tpr_outcome (stopped_ledger reason l) \<noteq> None"
  "stopped_ledger reason (stopped_ledger reason l) = stopped_ledger reason l"
  by (auto simp: stopped_ledger_def)

lemma unfinished_outcome_valid:
  "reason \<noteq> Stop_VERIFIER_SUCCESS \<Longrightarrow> TrialRunOutcome_validate dg (unfinished_outcome reason d) = Inr (unfinished_outcome reason d)"
  by (simp add: TrialRunOutcome_validate_def unfinished_outcome_def Let_def)

lemma scheduled_task_found:
  assumes "accepted_header dg h" "t \<in> set (csc_trials (chd_schedule h))"
  obtains task where "find (\<lambda>x. ctk_task_release_digest x = tbd_task_release_digest (sct_binding t)) (chd_tasks h) = Some task"
proof -
  from scheduled_trial_facts(1) [OF assms] obtain task where
    "dict_get (dict_of ctk_task_release_digest id (chd_tasks h)) (tbd_task_release_digest (sct_binding t)) = Some task" by blast
  then have "task \<in> set (chd_tasks h) \<and> ctk_task_release_digest task = tbd_task_release_digest (sct_binding t)"
    by (auto dest!: dict_get_dict_of_SomeD)
  then have "find (\<lambda>x. ctk_task_release_digest x = tbd_task_release_digest (sct_binding t)) (chd_tasks h) \<noteq> None"
    by (auto simp: find_None_iff)
  with that show ?thesis by blast
qed

lemma stop_one:
  assumes h: "accepted_header dg h" and t: "t \<in> set (csc_trials (chd_schedule h))"
    and l: "dict_get (cpj_ledgers st) (sct_trial_id t) = Some l" "tpr_outcome l = None"
      "CampaignResources_validate (tpr_committed l) = Inr (tpr_committed l)"
    and st: "cpj_reservations st = []" and reason: "reason \<noteq> Stop_VERIFIER_SUCCESS" and n: "int n \<le> JCS_INTEGER_MAX"
  obtains p e where "stop_payload reason st t = Inr (Some p)"
    "e = \<lparr>cev_event_id = u, cev_sequence = int n, cev_payload = p\<rparr>" "CampaignEvent_validate dg e = Inr e"
    "apply_campaign_event dg h st e
       = Inr (st\<lparr>cpj_ledgers := dict_set (sct_trial_id t) (stopped_ledger reason l) (cpj_ledgers st)\<rparr>)"
proof -
  let ?p = "TrialOutcomeRecorded \<lparr>top_trial_id = sct_trial_id t, top_outcome = unfinished_outcome reason (was_dispatched l)\<rparr>"
  let ?e = "\<lparr>cev_event_id = u, cev_sequence = int n, cev_payload = ?p\<rparr>"
  obtain trial where trial: "find_trial h (sct_trial_id t) = Inr trial" "trial \<in> set (csc_trials (chd_schedule h))"
    by (rule find_trial_by_id [OF accepted_trial_ids [OF h], of "sct_trial_id t"]) (use t in auto)
  obtain task where task: "find (\<lambda>x. ctk_task_release_digest x = tbd_task_release_digest (sct_binding trial)) (chd_tasks h) = Some task"
    by (rule scheduled_task_found [OF h trial(2)])
  have "stop_payload reason st t = Inr (Some ?p)"
    using l by (simp add: stop_payload_def trial_ledger_def was_dispatched_def)
  moreover have "CampaignEvent_validate dg ?e = Inr ?e"
    using n unfinished_outcome_valid [OF reason, of dg] by (simp add: CampaignEvent_validate_def jcs_nonnegative_ok_def)
  moreover have "apply_campaign_event dg h st ?e
      = Inr (st\<lparr>cpj_ledgers := dict_set (sct_trial_id t) (stopped_ledger reason l) (cpj_ledgers st)\<rparr>)"
    using l st trial task
    by (auto simp: apply_campaign_event_def apply_trial_outcome_def Let_def trial_ledger_def unfinished_outcome_def
        stopped_ledger_def was_dispatched_def dict_values_def)
  ultimately show ?thesis using that by blast
qed

subsection \<open>Stopping every trial\<close>

lemma stop_loop:
  assumes h: "accepted_header dg (crc_header record)" and reason: "reason \<noteq> Stop_VERIFIER_SUCCESS"
    and xs: "set xs \<subseteq> set (csc_trials (chd_schedule (crc_header record)))"
    and ledgers: "\<forall>x\<in>set xs. \<exists>l. dict_get (cpj_ledgers st) (sct_trial_id x) = Some l"
      "\<forall>t l. dict_get (cpj_ledgers st) t = Some l \<longrightarrow> CampaignResources_validate (tpr_committed l) = Inr (tpr_committed l)"
    and st: "cpj_reservations st = []"
    and n: "int (length (campaign_record_events record) + length es + length xs) \<le> JCS_INTEGER_MAX"
  shows "\<exists>st' es'. fold_result (emit_next dg record uuid (stop_payload reason)) (st, es) xs = Inr (st', es @ es')
     \<and> emitted dg record uuid (length es) st es' st' \<and> length es' \<le> length xs
     \<and> st' = st\<lparr>cpj_ledgers := cpj_ledgers st'\<rparr>
     \<and> (\<forall>t. dict_get (cpj_ledgers st') t = map_option (\<lambda>l. if t \<in> sct_trial_id ` set xs then stopped_ledger reason l else l)
          (dict_get (cpj_ledgers st) t))"
  using xs ledgers st n
proof (induction xs arbitrary: st es)
  case Nil
  then show ?case by (simp add: option.map_ident)
next
  case (Cons x xs)
  let ?h = "crc_header record" and ?run = "fold_result (emit_next dg record uuid (stop_payload reason))"
  from Cons.prems(2) obtain l where l: "dict_get (cpj_ledgers st) (sct_trial_id x) = Some l" by auto
  show ?case
  proof (cases "tpr_outcome l = None")
    case False
    then have same: "stopped_ledger reason l = l" by (simp add: stopped_ledger_def)
    have "emit_next dg record uuid (stop_payload reason) (st, es) x = Inr (st, es)"
      using l False by (simp add: emit_next_def stop_payload_def trial_ledger_def)
    moreover obtain st' es' where rest: "?run (st, es) xs = Inr (st', es @ es')" "emitted dg record uuid (length es) st es' st'"
      "length es' \<le> length xs" "st' = st\<lparr>cpj_ledgers := cpj_ledgers st'\<rparr>"
      "\<forall>t. dict_get (cpj_ledgers st') t = map_option (\<lambda>l. if t \<in> sct_trial_id ` set xs then stopped_ledger reason l else l)
          (dict_get (cpj_ledgers st) t)"
      using Cons.IH [of st es] Cons.prems by auto
    moreover have "dict_get (cpj_ledgers st') t = map_option (\<lambda>l. if t \<in> sct_trial_id ` set (x # xs) then stopped_ledger reason l else l)
          (dict_get (cpj_ledgers st) t)" for t
      using rest(5) l same by (cases "t = sct_trial_id x") auto
    ultimately show ?thesis by (intro exI [of _ st'] exI [of _ es']) simp
  next
    case True
    let ?n = "length (campaign_record_events record) + length es"
    define st1 where "st1 = st\<lparr>cpj_ledgers := dict_set (sct_trial_id x) (stopped_ledger reason l) (cpj_ledgers st)\<rparr>"
    have get1: "dict_get (cpj_ledgers st1) t = (if t = sct_trial_id x then Some (stopped_ledger reason l) else dict_get (cpj_ledgers st) t)"
      for t by (simp add: st1_def dict_get_set)
    have x: "x \<in> set (csc_trials (chd_schedule ?h))" "int ?n \<le> JCS_INTEGER_MAX" using Cons.prems(1,5) by auto
    obtain p e where step: "stop_payload reason st x = Inr (Some p)"
      "e = \<lparr>cev_event_id = uuid (length es), cev_sequence = int ?n, cev_payload = p\<rparr>" "CampaignEvent_validate dg e = Inr e"
      "apply_campaign_event dg ?h st e = Inr st1"
      unfolding st1_def
      by (rule stop_one [OF h x(1) l True _ Cons.prems(4) reason x(2)]) (use Cons.prems(3) l in auto)
    have one: "emit_next dg record uuid (stop_payload reason) (st, es) x = Inr (st1, es @ [e])"
      by (rule emit_next_one [where uuid = uuid and p = p]) (use step in simp_all)
    have "\<forall>t l. dict_get (cpj_ledgers st1) t = Some l \<longrightarrow> CampaignResources_validate (tpr_committed l) = Inr (tpr_committed l)"
      using Cons.prems(3) l by (auto simp: get1)
    moreover have "\<forall>y\<in>set xs. \<exists>l. dict_get (cpj_ledgers st1) (sct_trial_id y) = Some l" "cpj_reservations st1 = []"
      using Cons.prems(2,4) by (auto simp: get1) (simp add: st1_def)
    ultimately obtain st' es' where rest: "?run (st1, es @ [e]) xs = Inr (st', (es @ [e]) @ es')"
      "emitted dg record uuid (length (es @ [e])) st1 es' st'" "length es' \<le> length xs" "st' = st1\<lparr>cpj_ledgers := cpj_ledgers st'\<rparr>"
      "\<forall>t. dict_get (cpj_ledgers st') t = map_option (\<lambda>l. if t \<in> sct_trial_id ` set xs then stopped_ledger reason l else l)
          (dict_get (cpj_ledgers st1) t)"
      using Cons.IH [of st1 "es @ [e]"] Cons.prems(1,5) by auto
    have "emitted dg record uuid (length es) st (e # es') st'"
      using emitted_Cons [where uuid = uuid, OF step(2-4)] rest(2) by simp
    moreover have "?run (st, es) (x # xs) = Inr (st', es @ e # es')" using one rest(1) by simp
    moreover have "st' = st\<lparr>cpj_ledgers := cpj_ledgers st'\<rparr>" by (subst rest(4)) (simp add: st1_def)
    moreover have "dict_get (cpj_ledgers st') t = map_option (\<lambda>l. if t \<in> sct_trial_id ` set (x # xs) then stopped_ledger reason l else l)
          (dict_get (cpj_ledgers st) t)" for t
      using rest(5) l by (auto simp: get1)
    ultimately show ?thesis using rest(3) by (intro exI [of _ st'] exI [of _ "e # es'"]) simp
  qed
qed

lemma fresh_uuids_le: "fresh_uuids record uuid n \<Longrightarrow> m \<le> n \<Longrightarrow> fresh_uuids record uuid m"
  by (auto simp: fresh_uuids_def list_all_iff distinct_map inj_on_def)

lemma ledgers_portable:
  assumes inv: "report_inv dg h st" and total: "CampaignResources_validate (cpj_committed st) = Inr (cpj_committed st)"
    and l: "dict_get (cpj_ledgers st) t = Some l"
  shows "CampaignResources_validate (tpr_committed l) = Inr (tpr_committed l)"
proof -
  have nonneg: "nonneg_resources (tpr_committed k)" if "k \<in> set (dict_values (cpj_ledgers st))" for k
  proof -
    have "dict_wf (cpj_ledgers st)" using inv by (simp add: report_inv_def ledger_inv_def accounting_inv_def)
    with that obtain u where "dict_get (cpj_ledgers st) u = Some k" by (auto simp: dict_values_def dict_mem_get)
    with inv show ?thesis by (auto simp: report_inv_def reported_ledger_def)
  qed
  have "f (tpr_committed l) \<le> f (cpj_committed st)" if f: "f \<in> set resource_fields" for f
  proof -
    have "f (tpr_committed l) \<le> (\<Sum>l\<leftarrow>dict_values (cpj_ledgers st). f (tpr_committed l))"
      using nonneg f dict_get_values [OF l] by (intro member_le_sum_list) (auto simp: nonneg_resources_def)
    with inv resource_fields_additive [OF f] show ?thesis by (simp add: report_inv_def ledger_inv_def accounting_inv_def)
  qed
  with nonneg [OF dict_get_values [OF l]] total show ?thesis
    by (fastforce simp: CampaignResources_validate_def list_all_iff jcs_nonnegative_ok_def nonneg_resources_def split: if_splits)
qed

lemma committed_portable:
  assumes inv: "report_inv dg h st" and le: "\<And>f. f \<in> set resource_fields \<Longrightarrow> f (cpj_committed st) \<le> JCS_INTEGER_MAX"
  shows "CampaignResources_validate (cpj_committed st) = Inr (cpj_committed st)"
proof -
  have wf: "dict_wf (cpj_ledgers st)" using inv by (simp add: report_inv_def ledger_inv_def accounting_inv_def)
  have "0 \<le> f (cpj_committed st)" if f: "f \<in> set resource_fields" for f
  proof -
    have "0 \<le> (\<Sum>l\<leftarrow>dict_values (cpj_ledgers st). f (tpr_committed l))"
    proof (rule sum_list_nonneg)
      fix y assume "y \<in> set (map (\<lambda>l. f (tpr_committed l)) (dict_values (cpj_ledgers st)))"
      then obtain u k where "dict_get (cpj_ledgers st) u = Some k" "y = f (tpr_committed k)"
        using wf by (auto simp: dict_values_def dict_mem_get)
      with inv f show "0 \<le> y" by (auto simp: report_inv_def reported_ledger_def nonneg_resources_def)
    qed
    with inv resource_fields_additive [OF f] show ?thesis by (simp add: report_inv_def ledger_inv_def accounting_inv_def)
  qed
  with le show ?thesis by (auto simp: CampaignResources_validate_def list_all_iff jcs_nonnegative_ok_def)
qed

text \<open>What \<open>stop_unfinished\<close> leaves behind.\<close>

definition stopped_state :: "StopReason \<Rightarrow> CampaignProjection \<Rightarrow> CampaignProjection \<Rightarrow> bool" where
  "stopped_state reason st st' \<longleftrightarrow> st' = st\<lparr>cpj_ledgers := cpj_ledgers st'\<rparr>
     \<and> (\<forall>t. dict_get (cpj_ledgers st') t = map_option (stopped_ledger reason) (dict_get (cpj_ledgers st) t))"

lemma stop_succeeds:
  assumes inv: "record_inv dg digest h record" and h: "accepted_header dg h" and reason: "reason \<noteq> Stop_VERIFIER_SUCCESS"
    and st: "replay_campaign_record dg record = Inr st" "cpj_reservations st = []"
    and some: "t \<in> set (csc_trials (chd_schedule h))" "dict_get (cpj_ledgers st) (sct_trial_id t) = Some l" "tpr_outcome l = None"
    and portable: "CampaignResources_validate (cpj_committed st) = Inr (cpj_committed st)"
    and rn: "rnr_header rn = h" "\<not> rnr_closed rn" and fresh: "fresh_uuids record uuid (length (csc_trials (chd_schedule h)))"
    and bound: "int (length (campaign_record_events record) + length (csc_trials (chd_schedule h))) \<le> JCS_INTEGER_MAX"
  obtains es st' where "runner_stop_unfinished dg digest reason uuid rn record = (Inr (), rn, extended dg digest record es)"
    "replay_campaign_record dg (extended dg digest record es) = Inr st'" "stopped_state reason st st'"
    "length es \<le> length (csc_trials (chd_schedule h))"
proof -
  let ?ts = "csc_trials (chd_schedule h)"
  have hd: "crc_header record = h" and ok: "record_ok dg digest record" using inv by (simp_all add: record_inv_def)
  then have "list_all (constructed_event dg) (campaign_record_events record)" by (simp add: record_ok_def)
  with replayed_invariants(1) [OF _ _ st(1)] h hd have rep: "report_inv dg h st" by simp
  then have acc: "set (dict_keys (cpj_ledgers st)) = sct_trial_id ` set ?ts" by (simp add: report_inv_def ledger_inv_def accounting_inv_def)
  have get: "\<exists>l. dict_get (cpj_ledgers st) (sct_trial_id x) = Some l" if "x \<in> set ?ts" for x
    using that acc dict_keys_get by (metis image_eqI)
  obtain st' es where run: "fold_result (emit_next dg record uuid (stop_payload reason)) (st, []) ?ts = Inr (st', es)"
    "emitted dg record uuid 0 st es st'" "length es \<le> length ?ts" "st' = st\<lparr>cpj_ledgers := cpj_ledgers st'\<rparr>"
    "\<forall>t. dict_get (cpj_ledgers st') t = map_option (\<lambda>l. if t \<in> sct_trial_id ` set ?ts then stopped_ledger reason l else l)
          (dict_get (cpj_ledgers st) t)"
    using stop_loop [of dg "record" reason ?ts st "[]" uuid] h hd reason get ledgers_portable [OF rep portable] st(2) bound by auto
  have ne: "es \<noteq> []"
  proof
    assume "es = []"
    then have "st' = st" using run(2) by (simp add: emitted_def)
    with run(5) some show False by (auto dest!: spec [of _ "sct_trial_id t"]) (metis stopped_ledger_facts(2))
  qed
  have factory: "stop_factory dg h reason uuid record = Inr (es, ())"
    using run(1) ne by (simp add: stop_factory_def st emit_events_def)
  note commit = commit_emitted [where factory = "stop_factory dg h reason uuid", OF ok st(1) run(2) ne
      fresh_uuids_le [OF fresh run(3)] factory]
  have "stopped_state reason st st'"
    unfolding stopped_state_def
  proof (intro conjI allI)
    fix u
    have "u \<in> sct_trial_id ` set ?ts" if "dict_get (cpj_ledgers st) u = Some k" for k
    proof -
      have "u \<in> set (dict_keys (cpj_ledgers st))" using that dict_get_None [of "cpj_ledgers st" u] by auto
      with acc show ?thesis by simp
    qed
    then show "dict_get (cpj_ledgers st') u = map_option (stopped_ledger reason) (dict_get (cpj_ledgers st) u)"
      using run(5) by (cases "dict_get (cpj_ledgers st) u") simp_all
  qed (rule run(4))
  moreover have "runner_stop_unfinished dg digest reason uuid rn record = (Inr (), rn, extended dg digest record es)"
    using commit(1) rn reason by (simp add: runner_stop_unfinished_def guarded_def ensure_open_def raise_if_def runner_commit_def)
  ultimately show ?thesis using that commit(2) run(3) by blast
qed

subsection \<open>Recovery, stop and report in sequence\<close>

lemma record_transact_raises:
  assumes "record_inv dg digest h record" "factory record = Inl e"
  shows "record_transact dg digest factory record = Inl e"
proof -
  have "CampaignRecord_validate dg digest record = Inr record" using assms(1) by (simp add: record_inv_def record_ok_def)
  from record_transact_eq [OF this, of factory] assms(2) show ?thesis by (simp add: record_transact_def)
qed

lemma recover_nothing:
  assumes "record_inv dg digest h record" "replay_campaign_record dg record = Inr st" "cpj_reservations st = []" "\<not> rnr_closed rn"
  shows "runner_recover_incomplete_dispatches dg digest uuid rn record = (Inl (Raised (Runner_error Nothing_incomplete)), rn, record)"
proof -
  have "recover_factory dg (rnr_header rn) uuid record = Inl (Raised (Runner_error Nothing_incomplete))"
    by (simp add: recover_factory_def assms(2,3) emit_events_def sorted_items_def Let_def raise_if_def)
  from record_transact_raises [OF assms(1), of "recover_factory dg (rnr_header rn) uuid", OF this] assms(4) show ?thesis
    by (simp add: runner_recover_incomplete_dispatches_def guarded_def ensure_open_def raise_if_def runner_commit_def)
qed

lemma stop_keeps_settled:
  assumes "record_inv dg digest h record" "replay_campaign_record dg record = Inr st" "settled_campaign h st" "rnr_header rn = h"
    "\<not> rnr_closed rn" "reason \<noteq> Stop_VERIFIER_SUCCESS"
  shows "runner_stop_unfinished dg digest reason uuid rn record = (Inl (Raised (Runner_error Nothing_unfinished)), rn, record)"
proof -
  have "emit_next dg record uuid (stop_payload reason) (st, []) t = Inr (st, [])" if "t \<in> set (csc_trials (chd_schedule h))" for t
    using that assms(3) by (fastforce simp: settled_campaign_def list_all_iff emit_next_def stop_payload_def trial_ledger_def)
  then have "fold_result (emit_next dg record uuid (stop_payload reason)) (st, []) ts = Inr (st, [])"
    if "set ts \<subseteq> set (csc_trials (chd_schedule h))" for ts using that by (induction ts) auto
  then have "stop_factory dg h reason uuid record = Inl (Raised (Runner_error Nothing_unfinished))"
    using assms(3) by (simp add: stop_factory_def assms(2) emit_events_def raise_if_def settled_campaign_def)
  from record_transact_raises [OF assms(1), of "stop_factory dg h reason uuid", OF this] assms(4-6) show ?thesis
    by (simp add: runner_stop_unfinished_def guarded_def ensure_open_def raise_if_def runner_commit_def)
qed

lemma settled_campaign_outcomes:
  "cpj_reservations st = [] \<Longrightarrow> settled_campaign h st \<longleftrightarrow> (\<forall>t\<in>set (csc_trials (chd_schedule h)). outcomes st (sct_trial_id t) \<noteq> None)"
  by (auto simp: settled_campaign_def outcomes_def list_all_iff bind_eq_None_conv)

definition recorded_stage_results :: "CampaignHeader \<Rightarrow> CampaignProjection \<Rightarrow> nat" where
  "recorded_stage_results h st = (\<Sum>t\<leftarrow>csc_trials (chd_schedule h).
     case outcomes st (sct_trial_id t) of None \<Rightarrow> 0 | Some x \<Rightarrow> length (tro_stage_results x))"

lemma recover_any:
  assumes inv: "record_inv dg digest h record" and st: "replay_campaign_record dg record = Inr st"
    and ids: "distinct (map sct_trial_id (csc_trials (chd_schedule h)))"
    and rn: "rnr_header rn = h" "\<not> rnr_closed rn" and fresh: "fresh_uuids record uuid (length (cpj_reservations st))"
    and bound: "int (length (campaign_record_events record) + length (cpj_reservations st)) \<le> JCS_INTEGER_MAX"
  obtains record' st' where
    "runner_recover_incomplete_dispatches dg digest uuid rn record =
       (if cpj_reservations st = [] then Inl (Raised (Runner_error Nothing_incomplete))
        else Inr \<lparr>rcv_reservation_ids = sort (dict_keys (cpj_reservations st)),
          rcv_affected_trial_ids = sorted_list_of_set (rvl_trial_id ` set (dict_values (cpj_reservations st)))\<rparr>, rn, record')"
    "cpj_reservations st = [] \<longrightarrow> record' = record"
    "replay_campaign_record dg record' = Inr st'" "cpj_reservations st' = []" "record_inv dg digest h record'"
    "length (campaign_record_events record') = length (campaign_record_events record) + length (cpj_reservations st)"
    "cev_event_id ` set (campaign_record_events record')
       = cev_event_id ` set (campaign_record_events record) \<union> uuid ` {0..<length (cpj_reservations st)}"
    "\<And>f. counter_additive f \<Longrightarrow>
       f (cpj_committed st') = f (cpj_committed st) + (\<Sum>r\<leftarrow>dict_values (cpj_reservations st). f (recovery_charge r))"
    "cpj_budget_violation st' = (cpj_budget_violation st \<or> list_ex recovery_poisons (dict_values (cpj_reservations st)))"
    "outcomes st' = outcomes st"
proof (cases "cpj_reservations st = []")
  case True
  with that [of "record" st] recover_nothing [OF inv st True rn(2), of uuid] inv st show ?thesis by (simp add: dict_values_def)
next
  case False
  show ?thesis
  proof (rule recover_succeeds [OF inv st ids False rn fresh bound])
    fix es st' assume run: "runner_recover_incomplete_dispatches dg digest uuid rn record = (Inr \<lparr>rcv_reservation_ids = sort (dict_keys (cpj_reservations st)),
          rcv_affected_trial_ids = sorted_list_of_set (rvl_trial_id ` set (dict_values (cpj_reservations st)))\<rparr>, rn,
        extended dg digest record es)"
      "replay_campaign_record dg (extended dg digest record es) = Inr st'" "length es = length (cpj_reservations st)"
      "cpj_reservations st' = []"
      "\<And>f. counter_additive f \<Longrightarrow>
         f (cpj_committed st') = f (cpj_committed st) + (\<Sum>r\<leftarrow>dict_values (cpj_reservations st). f (recovery_charge r))"
      "cpj_budget_violation st' = (cpj_budget_violation st \<or> list_ex recovery_poisons (dict_values (cpj_reservations st)))"
      "outcomes st' = outcomes st" "map cev_event_id es = map uuid [0..<length (cpj_reservations st)]"
    have "record_step dg digest {} record (extended dg digest record es)"
      using runner_act_record [of dg digest "record" Recover uuid rn] inv run(1) by (simp add: record_inv_def drop_result_def)
    then have "record_inv dg digest h (extended dg digest record es)" using inv record_inv_step by blast
    moreover have "cev_event_id ` set es = uuid ` {0..<length (cpj_reservations st)}"
      using arg_cong [OF run(8), of set] by simp
    ultimately show ?thesis using that [OF _ _ run(2,4)] run False by (simp add: image_Un)
  qed
qed

lemma stop_any:
  assumes inv: "record_inv dg digest h record" and h: "accepted_header dg h" and reason: "reason \<noteq> Stop_VERIFIER_SUCCESS"
    and st: "replay_campaign_record dg record = Inr st" "cpj_reservations st = []"
    and portable: "CampaignResources_validate (cpj_committed st) = Inr (cpj_committed st)"
    and rn: "rnr_header rn = h" "\<not> rnr_closed rn" and fresh: "fresh_uuids record uuid (length (csc_trials (chd_schedule h)))"
    and bound: "int (length (campaign_record_events record) + length (csc_trials (chd_schedule h))) \<le> JCS_INTEGER_MAX"
  obtains record' st' where
    "runner_stop_unfinished dg digest reason uuid rn record =
       (if settled_campaign h st then Inl (Raised (Runner_error Nothing_unfinished)) else Inr (), rn, record')"
    "settled_campaign h st \<longrightarrow> record' = record"
    "replay_campaign_record dg record' = Inr st'" "settled_campaign h st'" "record_inv dg digest h record'"
    "cpj_committed st' = cpj_committed st" "cpj_budget_violation st' = cpj_budget_violation st"
    "recorded_stage_results h st' = recorded_stage_results h st"
proof (cases "settled_campaign h st")
  case True
  with that [of "record" st] stop_keeps_settled [OF inv st(1) True rn reason, of uuid] inv st show ?thesis by simp
next
  case False
  have hd: "crc_header record = h" and ok: "record_ok dg digest record" using inv by (simp_all add: record_inv_def)
  have "accounting_inv h st" using record_ok_accounting [OF ok st(1)] hd by simp
  then have keys: "set (dict_keys (cpj_ledgers st)) = sct_trial_id ` set (csc_trials (chd_schedule h))" by (simp add: accounting_inv_def)
  from False st(2) obtain t where t: "t \<in> set (csc_trials (chd_schedule h))"
    "\<forall>l. dict_get (cpj_ledgers st) (sct_trial_id t) = Some l \<longrightarrow> tpr_outcome l = None"
    by (fastforce simp: settled_campaign_def list_all_iff)
  with keys dict_keys_get obtain l where l: "dict_get (cpj_ledgers st) (sct_trial_id t) = Some l" "tpr_outcome l = None"
    by (metis image_eqI)
  obtain es st' where run: "runner_stop_unfinished dg digest reason uuid rn record = (Inr (), rn, extended dg digest record es)"
    "replay_campaign_record dg (extended dg digest record es) = Inr st'" "stopped_state reason st st'"
    by (rule stop_succeeds [OF inv h reason st t(1) l portable rn fresh bound])
  have "record_step dg digest {} record (extended dg digest record es)"
    using runner_act_record [of dg digest "record" "Stop reason" uuid rn] ok run(1) by simp
  then have "record_inv dg digest h (extended dg digest record es)" using inv record_inv_step by blast
  moreover have get: "dict_get (cpj_ledgers st') u = map_option (stopped_ledger reason) (dict_get (cpj_ledgers st) u)" for u
    using run(3) by (simp add: stopped_state_def)
  have same: "cpj_committed st' = cpj_committed st" "cpj_budget_violation st' = cpj_budget_violation st" "cpj_reservations st' = []"
    using run(3) st(2) unfolding stopped_state_def
    by (metis CampaignProjection.select_convs CampaignProjection.surjective CampaignProjection.update_convs)+
  have "settled_campaign h st'"
  proof -
    have "\<exists>l\<in>set_option (dict_get (cpj_ledgers st') (sct_trial_id u)). tpr_outcome l \<noteq> None"
      if "u \<in> set (csc_trials (chd_schedule h))" for u
    proof -
      from that keys dict_keys_get obtain l where "dict_get (cpj_ledgers st) (sct_trial_id u) = Some l" by (metis image_eqI)
      then show ?thesis by (simp only: get option.map option.set stopped_ledger_facts bex_simps) simp
    qed
    then show ?thesis by (simp add: settled_campaign_def same list_all_iff)
  qed
  moreover have "recorded_stage_results h st' = recorded_stage_results h st"
    unfolding recorded_stage_results_def
    by (intro arg_cong [of _ _ sum_list] map_cong)
      (auto simp: outcomes_def get stopped_ledger_def unfinished_outcome_def split: option.splits bind_splits)
  ultimately show ?thesis using that [of "extended dg digest record es" st'] run(1,2) same False by simp
qed

lemma settled_stage_results:
  assumes "settled_campaign h st"
  shows "(\<Sum>t\<leftarrow>csc_trials (chd_schedule h). length (tro_stage_results (trp_outcome (report_of st t)))) = recorded_stage_results h st"
  unfolding recorded_stage_results_def
  by (intro arg_cong [of _ _ sum_list] map_cong)
    (use assms in \<open>fastforce simp: settled_campaign_def list_all_iff report_of_def outcomes_def Let_def\<close>)+

end
