(* ===== verification/CampaignRunnerProperties.thy ===== *)
theory CampaignRunnerProperties
  imports CampaignStopFacts CampaignReportProperties
begin

section \<open>Properties of campaign runners\<close>

text \<open>
  What any number of runners do to one campaign journal, in any order of their operations; what
  recovery and an orderly stop achieve after a crash; and what the journal file holds after each write.
\<close>

subsection \<open>An example system\<close>

text \<open>
  Two runners on the example campaign: the first reserves and dispatches a provider request, the second
  reserves work of another trial; both reservations are open when the run ends.
\<close>

definition example_uuid :: "char \<Rightarrow> nat \<Rightarrow> string" where
  "example_uuid c n = replicate (Suc n) c"

definition example_commit_digest :: commit_digest where
  "example_commit_digest = (\<lambda>_ es. concat (map cev_event_id es))"

definition example_runner_actions :: "system_action list" where
  "example_runner_actions = [Start, Start,
     Act 0 (example_uuid CHR ''a'') (Reserve_provider example_first_trial ''request'' ''model''
       \<lparr>rtc_input_tokens = 20, rtc_output_tokens = 10, rtc_observed_input_token_floor = 5\<rparr> example_security ''0''),
     Act 1 (example_uuid CHR ''b'') (Reserve_work example_second_trial
       (resources_zero\<lparr>crs_tool_calls := 2, crs_eda_compute_seconds := 30\<rparr>) ''1''),
     Act 0 (example_uuid CHR ''c'') (Mark_dispatched 0)]"

definition example_system :: campaign_system where
  "example_system = system_run example_record_digests example_commit_digest example_runner_actions (system_init example_accepted_header)"

definition example_system_state :: CampaignProjection where
  "example_system_state = (case replay_campaign_record example_record_digests (snd example_system) of
     Inr st \<Rightarrow> st | Inl _ \<Rightarrow> campaign_projection_init example_accepted_header)"

lemma example_system_run:
  "system_run example_record_digests example_commit_digest example_runner_actions (system_init example_accepted_header)
     = (fst example_system, snd example_system)"
  by (simp add: example_system_def)

definition example_system_ok :: "CampaignRunner list \<Rightarrow> CampaignRecord \<Rightarrow> CampaignProjection \<Rightarrow> bool" where
  "example_system_ok runners record st \<longleftrightarrow> (case runners of
     [a, b] \<Rightarrow> \<not> rnr_closed b \<and> (case rnr_handles a of [x] \<Rightarrow> crv_dispatched x \<and> \<not> crv_settled x
         \<and> crv_reservation_id x \<in> set (dict_keys (cpj_reservations st)) | _ \<Rightarrow> False)
     | _ \<Rightarrow> False)
   \<and> \<not> cpj_budget_violation st
   \<and> dimension_value Dim_TOOL_CALLS (cpj_reserved st) = 2 \<and> dimension_value Dim_REQUESTS (cpj_reserved st) = 1
   \<and> distinct (map (example_uuid CHR ''d'') [0..<length (cpj_reservations st)]
        @ map (example_uuid CHR ''e'') [0..<length (csc_trials example_schedule)]
        @ remdups (map cev_event_id (campaign_record_events record)))
   \<and> int (length (campaign_record_events record) + length (cpj_reservations st) + length (csc_trials example_schedule))
        \<le> JCS_INTEGER_MAX
   \<and> list_all (\<lambda>f. f (cpj_committed st) + (\<Sum>r\<leftarrow>dict_values (cpj_reservations st). f (recovery_charge r)) \<le> JCS_INTEGER_MAX)
        resource_fields
   \<and> int (recorded_stage_results example_accepted_header st) \<le> JCS_INTEGER_MAX
   \<and> crs_input_tokens (cpj_committed st)
        + (\<Sum>r\<leftarrow>dict_values (cpj_reservations st). crs_input_tokens (recovery_charge r)) = 20
   \<and> crs_tool_calls (cpj_committed st)
        + (\<Sum>r\<leftarrow>dict_values (cpj_reservations st). crs_tool_calls (recovery_charge r)) = 0
   \<and> list_ex recovery_poisons (dict_values (cpj_reservations st))
   \<and> list_ex (\<lambda>t. outcomes st (sct_trial_id t) = None) (csc_trials example_schedule)"

lemma example_system_facts:
  "replay_campaign_record example_record_digests (snd example_system) = Inr example_system_state"
  "example_system_ok (fst example_system) (snd example_system) example_system_state"
proof -
  have "case example_system of (runners, record) \<Rightarrow>
      (case replay_campaign_record example_record_digests record of Inl _ \<Rightarrow> False | Inr st \<Rightarrow> example_system_ok runners record st)"
    by code_simp
  then have "case replay_campaign_record example_record_digests (snd example_system) of Inl _ \<Rightarrow> False
      | Inr st \<Rightarrow> example_system_ok (fst example_system) (snd example_system) st"
    by (simp add: case_prod_unfold)
  then show "replay_campaign_record example_record_digests (snd example_system) = Inr example_system_state"
    "example_system_ok (fst example_system) (snd example_system) example_system_state"
    by (simp_all add: example_system_state_def split: sum.splits)
qed

lemma example_runners:
  obtains a b x where "fst example_system = [a, b]" "\<not> rnr_closed b" "rnr_handles a = [x]" "crv_dispatched x" "\<not> crv_settled x"
    "crv_reservation_id x \<in> set (dict_keys (cpj_reservations example_system_state))"
  using example_system_facts(2) that unfolding example_system_ok_def by (auto split: list.splits)

lemma example_runner_actions_ok: "list_all system_action_ok example_runner_actions" "distinct (concat (map draws example_runner_actions))"
  by code_simp+

lemma example_accepted_campaign: "CampaignSpec_validate example_campaign = Inr (chd_campaign example_accepted_header)"
  by (simp add: example_accepted_header_def example_header_campaign)

subsection \<open>Runners in any interleaving\<close>

text \<open>
  C9: any number of runners that share a journal keep it sound, in whatever order their operations
  and the operations of their handles are executed. The durable record is a valid chain that replays,
  and the replayed accounting is within every limit of the campaign and of each trial, in every dimension
  as long as no settlement exceeded its reservation, and in requests always.
\<close>

theorem campaign_runners_safe:
  assumes "CampaignSpec_validate raw = Inr (chd_campaign h)" "list_all system_action_ok actions"
    "system_run dg digest actions (system_init h) = (runners, record)"
  shows "CampaignRecord_validate dg digest record = Inr record
    \<and> (\<exists>st. replay_campaign_record dg record = Inr st \<and> (\<forall>d. d = Dim_REQUESTS \<or> \<not> cpj_budget_violation st \<longrightarrow>
         dimension_value d (cpj_committed st) + dimension_value d (cpj_reserved st) \<le> campaign_limit (chd_campaign h) False d
         \<and> (\<forall>t l. dict_get (cpj_ledgers st) t = Some l \<longrightarrow>
              dimension_value d (tpr_committed l) + dimension_value d (tpr_reserved l) \<le> campaign_limit (chd_campaign h) True d)))"
proof -
  have inv: "record_inv dg digest h record" using system_run_record [OF assms(2), of dg digest h] assms(3) by simp
  then have ok: "record_ok dg digest record" "crc_header record = h" by (simp_all add: record_inv_def)
  from record_ok_replay [OF ok(1)] obtain st where st: "replay_campaign_record dg record = Inr st" by blast
  have "accounting_inv h st \<and> limits_inv h st"
    using limits.run_inv [of h "campaign_projection_init h" dg "campaign_record_events record" st] accounting_inv_init
      limits_inv_init [OF assms(1)] ok st
    by (auto simp: record_ok_def replay_campaign_record_def campaign_replay_def)
  then show ?thesis using ok st unfolding limits_inv_def within_limit_def record_ok_def by blast
qed

theorem campaign_runners_safe_witness:
  "dimension_value Dim_TOOL_CALLS (cpj_committed example_system_state)
     + dimension_value Dim_TOOL_CALLS (cpj_reserved example_system_state) \<le> 50
   \<and> dimension_value Dim_TOOL_CALLS (cpj_reserved example_system_state) = 2
   \<and> dimension_value Dim_REQUESTS (cpj_reserved example_system_state) = 1"
proof -
  have "\<not> cpj_budget_violation example_system_state"
    "dimension_value Dim_TOOL_CALLS (cpj_reserved example_system_state) = 2"
    "dimension_value Dim_REQUESTS (cpj_reserved example_system_state) = 1"
    using example_system_facts(2) by (simp_all add: example_system_ok_def)
  moreover have "campaign_limit (chd_campaign example_accepted_header) False Dim_TOOL_CALLS = 50"
    by (simp add: example_accepted_header_def example_campaign_header_def example_campaign_def)
  ultimately show ?thesis
    using campaign_runners_safe [OF example_accepted_campaign example_runner_actions_ok(1) example_system_run] example_system_facts(1)
    by (metis sum.inject(2))
qed

text \<open>
  C12: as long as the random reservation identifiers are distinct, every handle of every runner agrees
  with the journal. An open reservation that a handle names has the trial, claim and provider binding
  of the handle, was dispatched if the handle says so, and the handle is not settled; and the
  active handles of a runner are exactly those that are not settled.
\<close>

theorem handles_track_reservations:
  assumes "list_all system_action_ok actions" "distinct (concat (map draws actions))"
    "system_run dg digest actions (system_init h) = (runners, record)" "replay_campaign_record dg record = Inr st"
    "rn \<in> set runners"
  shows "rnr_active rn = {i. i < length (rnr_handles rn) \<and> \<not> crv_settled (rnr_handles rn ! i)}
    \<and> (\<forall>x r. x \<in> set (rnr_handles rn) \<longrightarrow> dict_get (cpj_reservations st) (crv_reservation_id x) = Some r \<longrightarrow>
         rvl_trial_id r = crv_trial_id x \<and> rvl_claim r = crv_claim x \<and> rvl_provider r = crv_provider x
         \<and> (crv_dispatched x \<longrightarrow> rvl_dispatched r) \<and> \<not> crv_settled x)"
proof -
  have "runner_inv st (set (concat (map draws actions))) rn"
    using system_run_inv [OF assms(1,2), of dg digest h] assms(3-5) by (auto simp: system_inv_def)
  then show ?thesis by (auto simp: runner_inv_def tracks_def)
qed

theorem handles_track_reservations_witness:
  "\<exists>a b x r. fst example_system = [a, b] \<and> rnr_handles a = [x] \<and> rnr_active a = {0}
     \<and> dict_get (cpj_reservations example_system_state) (crv_reservation_id x) = Some r
     \<and> rvl_trial_id r = crv_trial_id x \<and> rvl_dispatched r"
proof -
  obtain a b x where ab: "fst example_system = [a, b]" "rnr_handles a = [x]" "crv_dispatched x" "\<not> crv_settled x"
    "crv_reservation_id x \<in> set (dict_keys (cpj_reservations example_system_state))"
    by (rule example_runners)
  from dict_keys_get [OF ab(5)] obtain r where r: "dict_get (cpj_reservations example_system_state) (crv_reservation_id x) = Some r"
    by blast
  from handles_track_reservations [OF example_runner_actions_ok example_system_run example_system_facts(1), of a] ab
  have act: "rnr_active a = {i. i < length (rnr_handles a) \<and> \<not> crv_settled (rnr_handles a ! i)}"
    and tr: "rvl_trial_id r = crv_trial_id x" "rvl_dispatched r" using r by simp_all
  have "{i. i < length (rnr_handles a) \<and> \<not> crv_settled (rnr_handles a ! i)} = {0}" using ab(2,4) by auto
  with act tr have "rnr_active a = {0}" "rvl_trial_id r = crv_trial_id x" "rvl_dispatched r" by simp_all
  with ab r show ?thesis by blast
qed

subsection \<open>Recovery and stop\<close>

text \<open>
  C10: after a crash a campaign can always be closed. From the record that any interleaving of runners
  left behind, an open runner recovers the incomplete dispatches and is told which reservations and trials
  were affected, or, exactly when no reservation is open, is refused because nothing is incomplete and
  leaves the record as it is; it then stops the unfinished trials or, exactly when every trial has an
  outcome, is refused because nothing is unfinished and leaves the record as it is; and the report it
  then asks for is built. The report charges every dispatched open reservation in full and nothing for the
  others, and reports a violation exactly when one was recorded or the outcome of a dispatched provider
  request is unknown. This holds when the event identifiers that are drawn are fresh and distinct, the stop
  reason is not verifier success, and the event count, the charged totals and the recorded stage results
  are portable integers.
\<close>

theorem campaign_always_closes:
  assumes h: "accepted_header dg h" and actions: "list_all system_action_ok actions"
    and run: "system_run dg digest actions (system_init h) = (runners, record)" "rn \<in> set runners" "\<not> rnr_closed rn"
    and st: "replay_campaign_record dg record = Inr st" and reason: "reason \<noteq> Stop_VERIFIER_SUCCESS"
    and fresh: "distinct (map recover_ids [0..<length (cpj_reservations st)] @ map stop_ids [0..<length (csc_trials (chd_schedule h))]
        @ remdups (map cev_event_id (campaign_record_events record)))"
    and bound: "int (length (campaign_record_events record) + length (cpj_reservations st) + length (csc_trials (chd_schedule h)))
        \<le> JCS_INTEGER_MAX"
      "\<forall>f\<in>set resource_fields. f (cpj_committed st)
         + (\<Sum>r\<leftarrow>dict_values (cpj_reservations st). f (recovery_charge r)) \<le> JCS_INTEGER_MAX"
      "int (recorded_stage_results h st) \<le> JCS_INTEGER_MAX"
  shows "\<exists>recovered stopped r.
    runner_recover_incomplete_dispatches dg digest recover_ids rn record =
      (if cpj_reservations st = [] then Inl (Raised (Runner_error Nothing_incomplete))
       else Inr \<lparr>rcv_reservation_ids = sort (dict_keys (cpj_reservations st)),
         rcv_affected_trial_ids = sorted_list_of_set (rvl_trial_id ` set (dict_values (cpj_reservations st)))\<rparr>, rn, recovered)
    \<and> (cpj_reservations st = [] \<longrightarrow> recovered = record)
    \<and> runner_stop_unfinished dg digest reason stop_ids rn recovered =
      (if \<forall>t\<in>set (csc_trials (chd_schedule h)). outcomes st (sct_trial_id t) \<noteq> None
       then Inl (Raised (Runner_error Nothing_unfinished)) else Inr (), rn, stopped)
    \<and> ((\<forall>t\<in>set (csc_trials (chd_schedule h)). outcomes st (sct_trial_id t) \<noteq> None) \<longrightarrow> stopped = recovered)
    \<and> runner_build_report dg rn stopped = (Inr r, rn\<lparr>rnr_closed := True\<rparr>, stopped)
    \<and> map trp_trial (crp_trials r) = csc_trials (chd_schedule h)
    \<and> (\<forall>f\<in>set resource_fields. f (crp_resources r)
         = f (cpj_committed st) + (\<Sum>r\<leftarrow>dict_values (cpj_reservations st). f (recovery_charge r)))
    \<and> crp_budget_violation r = (cpj_budget_violation st \<or> list_ex recovery_poisons (dict_values (cpj_reservations st)))"
proof -
  let ?n = "length (cpj_reservations st)" and ?m = "length (csc_trials (chd_schedule h))"
  have inv: "record_inv dg digest h record" and hd: "rnr_header rn = h"
    using system_run_record [OF actions, of dg digest h] run by auto
  have rfresh: "fresh_uuids record recover_ids ?n" using fresh by (auto simp: fresh_uuids_def list_all_iff)
  show ?thesis
  proof (rule recover_any [OF inv st accepted_trial_ids [OF h] hd run(3) rfresh])
    show "int (length (campaign_record_events record) + ?n) \<le> JCS_INTEGER_MAX" using bound(1) by simp
    fix record1 st1 assume recover: "runner_recover_incomplete_dispatches dg digest recover_ids rn record =
       (if cpj_reservations st = [] then Inl (Raised (Runner_error Nothing_incomplete))
        else Inr \<lparr>rcv_reservation_ids = sort (dict_keys (cpj_reservations st)),
          rcv_affected_trial_ids = sorted_list_of_set (rvl_trial_id ` set (dict_values (cpj_reservations st)))\<rparr>, rn, record1)"
      and rec1: "cpj_reservations st = [] \<longrightarrow> record1 = record"
      "replay_campaign_record dg record1 = Inr st1" "cpj_reservations st1 = []" "record_inv dg digest h record1"
      "length (campaign_record_events record1) = length (campaign_record_events record) + ?n"
      "cev_event_id ` set (campaign_record_events record1) = cev_event_id ` set (campaign_record_events record) \<union> recover_ids ` {0..<?n}"
      "\<And>f. counter_additive f \<Longrightarrow>
        f (cpj_committed st1) = f (cpj_committed st) + (\<Sum>r\<leftarrow>dict_values (cpj_reservations st). f (recovery_charge r))"
      "cpj_budget_violation st1 = (cpj_budget_violation st \<or> list_ex recovery_poisons (dict_values (cpj_reservations st)))"
      "outcomes st1 = outcomes st"
    have "\<forall>e\<in>set (campaign_record_events record1). cev_event_id e \<notin> set (map stop_ids [0..<?m])"
    proof
      fix e assume "e \<in> set (campaign_record_events record1)"
      then have "cev_event_id e \<in> cev_event_id ` set (campaign_record_events record) \<union> recover_ids ` {0..<?n}"
        using rec1(6) by blast
      with fresh show "cev_event_id e \<notin> set (map stop_ids [0..<?m])" by auto
    qed
    then have sfresh: "fresh_uuids record1 stop_ids ?m" using fresh by (simp add: fresh_uuids_def list_all_iff)
    have ok1: "record_ok dg digest record1" "crc_header record1 = h" using rec1(4) by (simp_all add: record_inv_def)
    have es1: "list_all (constructed_event dg) (campaign_record_events record1)" using ok1 by (simp add: record_ok_def)
    have rep1: "report_inv dg h st1" using replayed_invariants(1) [of dg record1 st1] h ok1 es1 rec1(2) by simp
    have portable: "CampaignResources_validate (cpj_committed st1) = Inr (cpj_committed st1)"
      by (rule committed_portable [OF rep1]) (use bound(2) rec1(7) resource_fields_additive in auto)
    have bound1: "int (length (campaign_record_events record1) + ?m) \<le> JCS_INTEGER_MAX" using bound(1) rec1(5) by simp
    have unfinished: "settled_campaign h st1 \<longleftrightarrow> (\<forall>t\<in>set (csc_trials (chd_schedule h)). outcomes st (sct_trial_id t) \<noteq> None)"
      using settled_campaign_outcomes [OF rec1(3)] rec1(9) by simp
    obtain record2 st2 where stop: "runner_stop_unfinished dg digest reason stop_ids rn record1 =
       (if settled_campaign h st1 then Inl (Raised (Runner_error Nothing_unfinished)) else Inr (), rn, record2)"
      and rec2: "settled_campaign h st1 \<longrightarrow> record2 = record1"
      "replay_campaign_record dg record2 = Inr st2" "settled_campaign h st2" "record_inv dg digest h record2"
      "cpj_committed st2 = cpj_committed st1" "cpj_budget_violation st2 = cpj_budget_violation st1"
      "recorded_stage_results h st2 = recorded_stage_results h st1"
      by (rule stop_any [OF rec1(4) h reason rec1(2,3) portable hd run(3) sfresh bound1])
    have ok2: "record_ok dg digest record2" "crc_header record2 = h" using rec2(4) by (simp_all add: record_inv_def)
    have es2: "list_all (constructed_event dg) (campaign_record_events record2)" using ok2 by (simp add: record_ok_def)
    have h2: "accepted_header dg (crc_header record2)" using h ok2 by simp
    have stages: "recorded_stage_results h st2 = recorded_stage_results h st"
      using rec2(7) rec1(9) by (simp add: recorded_stage_results_def)
    obtain r where r: "project_campaign_report dg record2 = Inr r"
      "map trp_trial (crp_trials r) = csc_trials (chd_schedule h)" "crp_resources r = cpj_committed st2"
      "crp_budget_violation r = cpj_budget_violation st2"
      by (rule settled_report [OF h2 rec2(2) _ replayed_invariants [OF h2 es2 rec2(2)]])
        (use rec2(3,5) portable bound stages settled_stage_results [OF rec2(3)] ok2 in simp_all)
    then have "runner_build_report dg rn record2 = (Inr r, rn\<lparr>rnr_closed := True\<rparr>, record2)"
      by (simp add: runner_build_report_def)
    moreover have "\<forall>f\<in>set resource_fields. f (crp_resources r)
         = f (cpj_committed st) + (\<Sum>r\<leftarrow>dict_values (cpj_reservations st). f (recovery_charge r))"
      using rec1(7) rec2(5) r(3) resource_fields_additive by auto
    ultimately show ?thesis
      using recover rec1(1) stop rec2(1) r(2,4) rec1(8) rec2(6) unfolding unfinished
      by (intro exI [of _ record1] exI [of _ record2] exI [of _ r]) simp
  qed
qed

theorem campaign_always_closes_witness:
  "\<exists>b recovery recovered stopped r. b \<in> set (fst example_system)
     \<and> runner_recover_incomplete_dispatches example_record_digests example_commit_digest (example_uuid CHR ''d'') b (snd example_system)
         = (Inr recovery, b, recovered)
     \<and> runner_stop_unfinished example_record_digests example_commit_digest Stop_EXPLICIT_CANCEL (example_uuid CHR ''e'') b recovered
         = (Inr (), b, stopped)
     \<and> runner_build_report example_record_digests b stopped = (Inr r, b\<lparr>rnr_closed := True\<rparr>, stopped)
     \<and> crs_input_tokens (crp_resources r) = 20 \<and> crs_tool_calls (crp_resources r) = 0 \<and> crp_budget_violation r"
proof -
  obtain a b x where ab: "fst example_system = [a, b]" "\<not> rnr_closed b" by (rule example_runners)
  then have b: "b \<in> set (fst example_system)" by simp
  have schedule: "chd_schedule example_accepted_header = example_schedule"
    by (simp add: example_accepted_header_def example_campaign_header_def)
  have fields: "crs_input_tokens \<in> set resource_fields" "crs_tool_calls \<in> set resource_fields" by (simp_all add: resource_fields_def)
  let ?d = "cpj_reservations example_system_state" and ?c = "cpj_committed example_system_state"
  have ok: "distinct (map (example_uuid CHR ''d'') [0..<length ?d] @ map (example_uuid CHR ''e'') [0..<length (csc_trials example_schedule)]
      @ remdups (map cev_event_id (campaign_record_events (snd example_system))))"
    "int (length (campaign_record_events (snd example_system)) + length ?d + length (csc_trials example_schedule)) \<le> JCS_INTEGER_MAX"
    "\<forall>f\<in>set resource_fields. f ?c + (\<Sum>r\<leftarrow>dict_values ?d. f (recovery_charge r)) \<le> JCS_INTEGER_MAX"
    "int (recorded_stage_results example_accepted_header example_system_state) \<le> JCS_INTEGER_MAX"
    and sums: "crs_input_tokens ?c + (\<Sum>r\<leftarrow>dict_values ?d. crs_input_tokens (recovery_charge r)) = 20"
    "crs_tool_calls ?c + (\<Sum>r\<leftarrow>dict_values ?d. crs_tool_calls (recovery_charge r)) = 0"
    "list_ex recovery_poisons (dict_values ?d)"
    and unfinished: "list_ex (\<lambda>t. outcomes example_system_state (sct_trial_id t) = None) (csc_trials example_schedule)"
    using example_system_facts(2) unfolding example_system_ok_def list_all_iff by blast+
  have incomplete: "(?d = []) = False" using sums(3) by (auto simp: dict_values_def)
  have open_trials: "(\<forall>t\<in>set (csc_trials example_schedule). outcomes example_system_state (sct_trial_id t) \<noteq> None) = False"
    using unfinished by (auto simp: list_ex_iff)
  note closes = campaign_always_closes [OF example_header_accepted example_runner_actions_ok(1) example_system_run b ab(2)
      example_system_facts(1), of Stop_EXPLICIT_CANCEL "example_uuid CHR ''d''" "example_uuid CHR ''e''", unfolded schedule, OF _ ok]
  obtain recovery recovered stopped r where
    run: "runner_recover_incomplete_dispatches example_record_digests example_commit_digest (example_uuid CHR ''d'') b (snd example_system)
         = (Inr recovery, b, recovered)"
      "runner_stop_unfinished example_record_digests example_commit_digest Stop_EXPLICIT_CANCEL (example_uuid CHR ''e'') b recovered
         = (Inr (), b, stopped)"
      "runner_build_report example_record_digests b stopped = (Inr r, b\<lparr>rnr_closed := True\<rparr>, stopped)"
    and r: "\<forall>f\<in>set resource_fields. f (crp_resources r) = f ?c + (\<Sum>r\<leftarrow>dict_values ?d. f (recovery_charge r))"
      "crp_budget_violation r = (cpj_budget_violation example_system_state \<or> list_ex recovery_poisons (dict_values ?d))"
    using closes unfolding incomplete open_trials if_False by fastforce
  from bspec [OF r(1) fields(1)] bspec [OF r(1) fields(2)] r(2) sums b run
  show ?thesis by auto
qed

end
