(* ===== verification/OperationSpec.thy ===== *)
theory OperationSpec
  imports TaskModel "HOL-Library.Sublist"
begin

section \<open>Participant operations\<close>

text \<open>
  Models \<open>src/edagym/specs/operation.py\<close>: the finite operations an environment offers to a
  participant, their arguments and declared outputs, and the validator that keeps inputs and outputs
  apart. Paths are compared by their parts, as \<open>PurePosixPath\<close> does; \<open>a in b.parents\<close> is a strict prefix of
  the parts. The operation digest is a parameter of its users.
\<close>

subsection \<open>Character classes\<close>

definition is_upper_letter :: "char \<Rightarrow> bool" where
  "is_upper_letter c \<longleftrightarrow> CHR ''A'' \<le> c \<and> c \<le> CHR ''Z''"

definition is_alnum :: "char \<Rightarrow> bool" where
  "is_alnum c \<longleftrightarrow> is_upper_letter c \<or> is_lower c \<or> is_digit c"

text \<open>\<open>str.casefold\<close> on ASCII strings.\<close>

definition casefold :: "string \<Rightarrow> string" where
  "casefold s = map (\<lambda>c. if is_upper_letter c then char_of (of_char c + 32 :: nat) else c) s"

text \<open>The pattern \<open>(?:--?|\+)?[A-Za-z0-9][A-Za-z0-9._:+,@%-]{0,1023}\<close>.\<close>

definition literal_body :: "string \<Rightarrow> string" where
  "literal_body s = (if take 2 s = ''--'' then drop 2 s
     else if take 1 s = ''-'' \<or> take 1 s = ''+'' then drop 1 s else s)"

definition literal_ok :: "string \<Rightarrow> bool" where
  "literal_ok s \<longleftrightarrow> (case literal_body s of [] \<Rightarrow> False
     | c # cs \<Rightarrow> is_alnum c \<and> list_all (\<lambda>x. is_alnum x \<or> x \<in> set ''._:+,@%-'') cs \<and> length cs \<le> 1023)"

definition SHELL_EXECUTABLES :: "string list" where
  "SHELL_EXECUTABLES = [''bash'', ''csh'', ''dash'', ''fish'', ''ksh'', ''powershell'', ''pwsh'', ''sh'', ''tclsh'',
     ''tcsh'', ''wish'', ''zsh'']"

definition executable_is_shell :: "string \<Rightarrow> bool" where
  "executable_is_shell executable \<longleftrightarrow> casefold executable \<in> set SHELL_EXECUTABLES"

subsection \<open>Paths\<close>

text \<open>\<open>left == right or left in right.parents or right in left.parents\<close>, on paths of the same kind.\<close>

definition parts_overlap :: "string list \<Rightarrow> string list \<Rightarrow> bool" where
  "parts_overlap left right \<longleftrightarrow> left = right \<or> strict_prefix left right \<or> strict_prefix right left"

definition paths_overlap :: "string \<Rightarrow> string \<Rightarrow> bool" where
  "paths_overlap left right \<longleftrightarrow> parts_overlap (posix_parts left) (posix_parts right)"

datatype operation_error = Operation_path | Operation_literal | Operation_range | Operation_artifact_class
  | Operation_outputs_unique | Operation_output_undeclared | Operation_paths_overlap | Operation_untyped_path

definition OperationPath_validate :: "string \<Rightarrow> operation_error + string" where
  "OperationPath_validate s =
     (if 1024 < length s then Inl Operation_range
      else case validate_relative_path s of Inl _ \<Rightarrow> Inl Operation_path | Inr path \<Rightarrow> Inr path)"

subsection \<open>Arguments and outputs\<close>

datatype ParticipantOperationArgument = Argument_Fixed string | Argument_CandidateInput string | Argument_Output string

fun ParticipantOperationArgument_validate ::
    "ParticipantOperationArgument \<Rightarrow> operation_error + ParticipantOperationArgument" where
  "ParticipantOperationArgument_validate (Argument_Fixed value) =
     (if \<not> literal_ok value then Inl Operation_literal else Inr (Argument_Fixed value))"
| "ParticipantOperationArgument_validate (Argument_CandidateInput path) =
     bind_result (OperationPath_validate path) (\<lambda>path. Inr (Argument_CandidateInput path))"
| "ParticipantOperationArgument_validate (Argument_Output path) =
     bind_result (OperationPath_validate path) (\<lambda>path. Inr (Argument_Output path))"

record ParticipantOperationOutput =
  poo_logical_id :: Identifier
  poo_path :: string
  poo_media_type :: string
  poo_artifact_class :: ArtifactClass
  poo_required :: bool

definition ParticipantOperationOutput_validate ::
    "ParticipantOperationOutput \<Rightarrow> operation_error + ParticipantOperationOutput" where
  "ParticipantOperationOutput_validate out =
     bind_result (OperationPath_validate (poo_path out)) (\<lambda>path.
       if \<not> (1 \<le> length (poo_media_type out) \<and> length (poo_media_type out) \<le> 127) then Inl Operation_range
       else if poo_artifact_class out \<notin> {Artifact_DIAGNOSTIC, Artifact_EVIDENCE} then Inl Operation_artifact_class
       else Inr (out\<lparr>poo_path := path\<rparr>))"

record ParticipantOperationBinding =
  pob_operation_id :: Identifier
  pob_capability :: Capability
  pob_tool_id :: Identifier
  pob_arguments :: "ParticipantOperationArgument list"
  pob_outputs :: "ParticipantOperationOutput list"

definition input_arguments :: "ParticipantOperationBinding \<Rightarrow> string list" where
  "input_arguments b = List.map_filter (\<lambda>a. case a of Argument_CandidateInput path \<Rightarrow> Some path | _ \<Rightarrow> None) (pob_arguments b)"

definition output_arguments :: "ParticipantOperationBinding \<Rightarrow> string list" where
  "output_arguments b = List.map_filter (\<lambda>a. case a of Argument_Output path \<Rightarrow> Some path | _ \<Rightarrow> None) (pob_arguments b)"

definition fixed_arguments :: "ParticipantOperationBinding \<Rightarrow> string list" where
  "fixed_arguments b = List.map_filter (\<lambda>a. case a of Argument_Fixed value \<Rightarrow> Some value | _ \<Rightarrow> None) (pob_arguments b)"

definition validate_path_roles :: "ParticipantOperationBinding \<Rightarrow> operation_error + ParticipantOperationBinding" where
  "validate_path_roles b =
     (let input_paths = map posix_parts (input_arguments b);
          declared_outputs = map poo_path (pob_outputs b);
          output_paths = map posix_parts declared_outputs;
          path_tokens = map as_posix (input_paths @ output_paths)
      in if \<not> set (output_arguments b) \<subseteq> set declared_outputs then Inl Operation_output_undeclared
         else if list_ex (\<lambda>left. list_ex (parts_overlap left) output_paths) input_paths
         then Inl Operation_paths_overlap
         else if list_ex (\<lambda>value. value \<in> set path_tokens) (fixed_arguments b) then Inl Operation_untyped_path
         else Inr b)"

definition ParticipantOperationBinding_validate ::
    "ParticipantOperationBinding \<Rightarrow> operation_error + ParticipantOperationBinding" where
  "ParticipantOperationBinding_validate raw =
     bind_result (map_result ParticipantOperationArgument_validate (pob_arguments raw)) (\<lambda>arguments.
     if 256 < length arguments then Inl Operation_range
     else
       bind_result (map_result ParticipantOperationOutput_validate (pob_outputs raw)) (\<lambda>outputs.
       if \<not> distinct (map (\<lambda>item. (poo_logical_id item, poo_path item)) outputs) then Inl Operation_outputs_unique
       else validate_path_roles (raw\<lparr>pob_arguments := arguments, pob_outputs := sort_key poo_logical_id outputs\<rparr>)))"

definition candidate_input_paths :: "ParticipantOperationBinding \<Rightarrow> string list" where
  "candidate_input_paths b = sorted_list_of_set (set (input_arguments b))"

definition output_paths :: "ParticipantOperationBinding \<Rightarrow> string list" where
  "output_paths b = sort (map poo_path (pob_outputs b))"

definition operation_argv :: "ParticipantOperationBinding \<Rightarrow> string list" where
  "operation_argv b = map (\<lambda>a. case a of Argument_Fixed value \<Rightarrow> value | Argument_CandidateInput path \<Rightarrow> path
     | Argument_Output path \<Rightarrow> path) (pob_arguments b)"

subsection \<open>Facts about accepted operations\<close>

lemma parts_overlap_prefix: "parts_overlap l r \<longleftrightarrow> prefix l r \<or> prefix r l"
  by (auto simp: parts_overlap_def strict_prefix_def)

lemma parts_overlap_sym: "parts_overlap l r = parts_overlap r l"
  by (auto simp: parts_overlap_prefix)

lemma operation_roles:
  assumes "ParticipantOperationBinding_validate raw = Inr b"
  shows "validate_path_roles b = Inr b"
  using assms by (auto simp: ParticipantOperationBinding_validate_def validate_path_roles_def Let_def split: if_splits)

lemma operation_inputs_outputs_disjoint:
  assumes "ParticipantOperationBinding_validate raw = Inr b" "i \<in> set (candidate_input_paths b)" "out \<in> set (output_paths b)"
  shows "\<not> paths_overlap i out"
  using operation_roles [OF assms(1)] assms(2,3)
  by (auto simp: validate_path_roles_def Let_def candidate_input_paths_def output_paths_def paths_overlap_def list_ex_iff
      split: if_splits)

subsection \<open>Shared output paths\<close>

text \<open>
  Only the pairs of identity and path are compared, so an operation that declares the same output path under two
  identities is accepted, as is one identity with two paths.
\<close>

definition shared_output_operation :: ParticipantOperationBinding where
  "shared_output_operation = \<lparr>pob_operation_id = ''lint'', pob_capability = RTL_LINT, pob_tool_id = ''linter'', pob_arguments = [],
     pob_outputs = [\<lparr>poo_logical_id = ''a'', poo_path = ''out.txt'', poo_media_type = ''text/plain'',
         poo_artifact_class = Artifact_DIAGNOSTIC, poo_required = True\<rparr>,
       \<lparr>poo_logical_id = ''b'', poo_path = ''out.txt'', poo_media_type = ''text/plain'',
         poo_artifact_class = Artifact_EVIDENCE, poo_required = True\<rparr>,
       \<lparr>poo_logical_id = ''b'', poo_path = ''two.txt'', poo_media_type = ''text/plain'',
         poo_artifact_class = Artifact_EVIDENCE, poo_required = True\<rparr>]\<rparr>"

lemma shared_output_path_accepted:
  "ParticipantOperationBinding_validate shared_output_operation = Inr shared_output_operation"
  by code_simp

end
