(* ===== verification/EnvironmentSpec.thy ===== *)
theory EnvironmentSpec
  imports OperationSpec RunModel "HOL-Library.Product_Lexorder"
begin

section \<open>Environment specifications\<close>

text \<open>
  Models \<open>src/edagym/specs/environment.py\<close>: executors, tool and asset bindings, guest paths, the filesystem,
  network, license and artifact policies, and \<open>EnvironmentSpec\<close> with its model validator, which is split
  along its own paragraphs. Each \<open>next(...)\<close> over the retention rules is a \<open>find\<close> whose absence is the
  error \<open>Env_stop_iteration\<close>; an accepted policy covers every class, so that it cannot occur
  (\<open>validate_environment_finds_rules\<close> in \<open>ResolutionFacts\<close>).
\<close>

subsection \<open>Enumerations and their sort keys\<close>

datatype ContainerRuntime = Runtime_PODMAN
datatype NetworkProtocol = Protocol_TCP | Protocol_UDP
datatype FilesystemScope = Scope_PARTICIPANT | Scope_EVALUATOR | Scope_TOOL

fun protocol_value :: "NetworkProtocol \<Rightarrow> string" where
  "protocol_value Protocol_TCP = ''tcp''"
| "protocol_value Protocol_UDP = ''udp''"

fun scope_value :: "FilesystemScope \<Rightarrow> string" where
  "scope_value Scope_PARTICIPANT = ''participant''"
| "scope_value Scope_EVALUATOR = ''evaluator''"
| "scope_value Scope_TOOL = ''tool''"

definition all_scopes :: "FilesystemScope list" where
  "all_scopes = [Scope_PARTICIPANT, Scope_EVALUATOR, Scope_TOOL]"

fun artifact_class_value :: "ArtifactClass \<Rightarrow> string" where
  "artifact_class_value Artifact_EPHEMERAL = ''ephemeral''"
| "artifact_class_value Artifact_DIAGNOSTIC = ''diagnostic''"
| "artifact_class_value Artifact_CANDIDATE = ''candidate''"
| "artifact_class_value Artifact_CHECKPOINT = ''checkpoint''"
| "artifact_class_value Artifact_EVIDENCE = ''evidence''"
| "artifact_class_value Artifact_MEASUREMENT = ''measurement''"
| "artifact_class_value Artifact_RELEASE = ''release''"
| "artifact_class_value Artifact_TRAINING = ''training''"

definition all_artifact_classes :: "ArtifactClass list" where
  "all_artifact_classes = [Artifact_EPHEMERAL, Artifact_DIAGNOSTIC, Artifact_CANDIDATE, Artifact_CHECKPOINT,
     Artifact_EVIDENCE, Artifact_MEASUREMENT, Artifact_RELEASE, Artifact_TRAINING]"

fun sensitivity_value :: "Sensitivity \<Rightarrow> string" where
  "sensitivity_value Sensitivity_PUBLIC = ''public''"
| "sensitivity_value Sensitivity_INTERNAL = ''internal''"
| "sensitivity_value Sensitivity_CONFIDENTIAL = ''confidential''"
| "sensitivity_value Sensitivity_SECRET = ''secret''"

fun visibility_value :: "Visibility \<Rightarrow> string" where
  "visibility_value Visibility_PUBLIC = ''public''"
| "visibility_value Visibility_PARTICIPANT = ''participant''"
| "visibility_value Visibility_REVIEWER = ''reviewer''"
| "visibility_value Visibility_VERIFIER = ''verifier''"
| "visibility_value Visibility_AUTHOR = ''author''"

fun redistribution_value :: "Redistribution \<Rightarrow> string" where
  "redistribution_value Redistribution_ALLOWED = ''allowed''"
| "redistribution_value Redistribution_RESTRICTED = ''restricted''"
| "redistribution_value Redistribution_FORBIDDEN = ''forbidden''"

datatype (plugins only: code size) environment_error = Env_range | Env_operation operation_error | Env_bad_path
  | Checkpoint_paths | Checkpoint_boundaries | Provenance_entries | Version_not_normalized | Version_not_exact
  | Version_alias | Executable_name | Asset_scopes | Guest_not_posix | Guest_not_absolute | Guest_root | Guest_reserved
  | Mounts_not_unique | Workspace_artifact_overlap | Mount_targets_overlap | Rules_missing | Rules_not_unique
  | Disclosure_secret | Disclosure_public | Disclosures_not_unique | Retention_not_unique | Retention_not_covering
  | Encryption_required | Operation_ids_not_unique | Capability_not_unique | Host_locator_required | Image_locator_required
  | Operation_tool_unknown | Brokered_operation | Operation_shell | Operation_output_not_retained | Asset_ids_not_unique
  | Mount_unknown_asset | Mount_scope_exceeded | License_ids_not_unique | License_feature_owner | License_unknown
  | License_unowned | Licensed_encryption | Licensed_disclosure | Checkpoint_executor | Checkpoint_binding
  | Checkpoint_retention | Env_stop_iteration

subsection \<open>Checkpoints and identity\<close>

record ApplicationCheckpointBinding =
  acb_driver_id :: Identifier
  acb_driver_digest :: Digest
  acb_capture_paths :: "string list"
  acb_after_stage_ids :: "Identifier list"

text \<open>Two paths of the sorted list, the first at the smaller position, where one contains the other.\<close>

fun some_pair :: "('a \<Rightarrow> 'a \<Rightarrow> bool) \<Rightarrow> 'a list \<Rightarrow> bool" where
  "some_pair P [] = False"
| "some_pair P (x # xs) = (list_ex (P x) xs \<or> some_pair P xs)"

definition env_path :: "string \<Rightarrow> environment_error + string" where
  "env_path s = (case validate_relative_path s of Inl _ \<Rightarrow> Inl Env_bad_path | Inr path \<Rightarrow> Inr path)"

definition ApplicationCheckpointBinding_validate ::
    "ApplicationCheckpointBinding \<Rightarrow> environment_error + ApplicationCheckpointBinding" where
  "ApplicationCheckpointBinding_validate raw =
     bind_result (map_result env_path (acb_capture_paths raw)) (\<lambda>normalized.
     let paths = sort normalized; path_objects = map posix_parts paths in
     if paths = [] \<or> \<not> distinct paths
        \<or> some_pair (\<lambda>left right. strict_prefix left right \<or> strict_prefix right left) path_objects
     then Inl Checkpoint_paths
     else if acb_after_stage_ids raw = [] \<or> \<not> distinct (acb_after_stage_ids raw) then Inl Checkpoint_boundaries
     else Inr (raw\<lparr>acb_capture_paths := paths, acb_after_stage_ids := sort (acb_after_stage_ids raw)\<rparr>))"

record EnvironmentIdentity =
  eid_environment_id :: Identifier
  eid_authoring_revision :: int
  eid_provenance :: "string list"

definition EnvironmentIdentity_validate :: "EnvironmentIdentity \<Rightarrow> environment_error + EnvironmentIdentity" where
  "EnvironmentIdentity_validate i =
     (if \<not> 0 < eid_authoring_revision i then Inl Env_range
      else bind_result (sorted_unique Provenance_entries (eid_provenance i)) (\<lambda>provenance.
        Inr (i\<lparr>eid_provenance := provenance\<rparr>)))"

subsection \<open>Executors\<close>

record ExecutorBase =
  exb_executor_id :: Identifier
  exb_implementation_digest :: Digest

record RootlessLocalExecutor = ExecutorBase +
  rle_runtime :: ContainerRuntime
  rle_runtime_version :: string
  rle_runtime_probe_digest :: Digest
  rle_image_digest :: Digest

record BrokeredHostToolExecutor = ExecutorBase +
  bhe_broker_id :: Identifier
  bhe_broker_digest :: Digest
  bhe_participant_image_digest :: Digest

record VmPerRunExecutor = ExecutorBase +
  vme_provider_id :: Identifier
  vme_provider_digest :: Digest
  vme_image_digest :: Digest

record SlurmApptainerExecutor = ExecutorBase +
  sae_provider_id :: Identifier
  sae_provider_digest :: Digest
  sae_apptainer_version :: string
  sae_apptainer_probe_digest :: Digest
  sae_image_digest :: Digest

record MicrovmCloudExecutor = ExecutorBase +
  mce_provider_id :: Identifier
  mce_provider_digest :: Digest
  mce_image_digest :: Digest

datatype ExecutorSpec = Executor_RootlessLocal RootlessLocalExecutor | Executor_BrokeredHostTool BrokeredHostToolExecutor
  | Executor_VmPerRun VmPerRunExecutor | Executor_SlurmApptainer SlurmApptainerExecutor
  | Executor_MicrovmCloud MicrovmCloudExecutor

fun executor_base :: "ExecutorSpec \<Rightarrow> ExecutorBase" where
  "executor_base (Executor_RootlessLocal e) = ExecutorBase.truncate e"
| "executor_base (Executor_BrokeredHostTool e) = ExecutorBase.truncate e"
| "executor_base (Executor_VmPerRun e) = ExecutorBase.truncate e"
| "executor_base (Executor_SlurmApptainer e) = ExecutorBase.truncate e"
| "executor_base (Executor_MicrovmCloud e) = ExecutorBase.truncate e"

text \<open>The attribute \<open>image_digest\<close>, which the brokered executor does not have.\<close>

fun executor_image_digest :: "ExecutorSpec \<Rightarrow> Digest option" where
  "executor_image_digest (Executor_RootlessLocal e) = Some (rle_image_digest e)"
| "executor_image_digest (Executor_BrokeredHostTool e) = None"
| "executor_image_digest (Executor_VmPerRun e) = Some (vme_image_digest e)"
| "executor_image_digest (Executor_SlurmApptainer e) = Some (sae_image_digest e)"
| "executor_image_digest (Executor_MicrovmCloud e) = Some (mce_image_digest e)"

fun executor_is_participant_isolation :: "ExecutorSpec \<Rightarrow> bool" where
  "executor_is_participant_isolation (Executor_RootlessLocal _) = True"
| "executor_is_participant_isolation (Executor_VmPerRun _) = True"
| "executor_is_participant_isolation (Executor_MicrovmCloud _) = True"
| "executor_is_participant_isolation _ = False"

text \<open>\<open>str.strip\<close> on ASCII strings.\<close>

definition is_py_space :: "char \<Rightarrow> bool" where
  "is_py_space c \<longleftrightarrow> (of_char c :: nat) \<in> {9..13} \<union> {28..32}"

definition py_strip :: "string \<Rightarrow> string" where
  "py_strip s = rev (dropWhile is_py_space (rev (dropWhile is_py_space s)))"

definition validate_exact_version :: "string \<Rightarrow> environment_error + string" where
  "validate_exact_version value =
     (if value \<noteq> py_strip value \<or> list_ex (\<lambda>c. (of_char c :: nat) < 32) value then Inl Version_not_normalized
      else if list_ex (\<lambda>marker. sublist marker value) [''*'', ''<'', ''>'', ''~='', ''^=''] then Inl Version_not_exact
      else if casefold value \<in> set [''any'', ''current'', ''latest'', ''stable''] then Inl Version_alias
      else Inr value)"

definition bounded_version :: "string \<Rightarrow> environment_error + string" where
  "bounded_version s =
     (if \<not> (1 \<le> length s \<and> length s \<le> 120) then Inl Env_range else validate_exact_version s)"

fun ExecutorSpec_validate :: "ExecutorSpec \<Rightarrow> environment_error + ExecutorSpec" where
  "ExecutorSpec_validate (Executor_RootlessLocal e) =
     bind_result (bounded_version (rle_runtime_version e)) (\<lambda>_. Inr (Executor_RootlessLocal e))"
| "ExecutorSpec_validate (Executor_SlurmApptainer e) =
     bind_result (bounded_version (sae_apptainer_version e)) (\<lambda>_. Inr (Executor_SlurmApptainer e))"
| "ExecutorSpec_validate e = Inr e"

subsection \<open>Tools and assets\<close>

text \<open>The pattern \<open>[A-Za-z0-9][A-Za-z0-9._+-]{0,127}\<close>.\<close>

definition executable_ok :: "string \<Rightarrow> bool" where
  "executable_ok s \<longleftrightarrow> (case s of [] \<Rightarrow> False
     | c # cs \<Rightarrow> is_alnum c \<and> list_all (\<lambda>x. is_alnum x \<or> x \<in> set ''._+-'') cs \<and> length cs \<le> 127)"

definition validate_executable_name :: "string \<Rightarrow> environment_error + string" where
  "validate_executable_name s = (if \<not> executable_ok s then Inl Executable_name else Inr s)"

record AttestedHostToolLocator =
  ahl_executable :: string
  ahl_deployment_attestation_digest :: Digest

record ImageToolLocator =
  itl_image_digest :: Digest
  itl_executable :: string
  itl_deployment_attestation_digest :: Digest

datatype ToolLocator = Locator_AttestedHost AttestedHostToolLocator | Locator_Image ImageToolLocator

fun locator_executable :: "ToolLocator \<Rightarrow> string" where
  "locator_executable (Locator_AttestedHost l) = ahl_executable l"
| "locator_executable (Locator_Image l) = itl_executable l"

fun locator_attestation :: "ToolLocator \<Rightarrow> Digest" where
  "locator_attestation (Locator_AttestedHost l) = ahl_deployment_attestation_digest l"
| "locator_attestation (Locator_Image l) = itl_deployment_attestation_digest l"

record ToolBinding =
  tlb_capability :: Capability
  tlb_tool_id :: Identifier
  tlb_tool_version :: string
  tlb_driver_id :: Identifier
  tlb_driver_digest :: Digest
  tlb_locator :: ToolLocator
  tlb_license_binding_id :: "Identifier option"

definition ToolBinding_validate :: "ToolBinding \<Rightarrow> environment_error + ToolBinding" where
  "ToolBinding_validate b =
     bind_result (bounded_version (tlb_tool_version b)) (\<lambda>_.
     bind_result (validate_executable_name (locator_executable (tlb_locator b))) (\<lambda>_. Inr b))"

record AssetBinding =
  ast_asset_id :: Identifier
  ast_restricted_digest :: Digest
  ast_allowed_scopes :: "FilesystemScope list"

definition AssetBinding_validate :: "AssetBinding \<Rightarrow> environment_error + AssetBinding" where
  "AssetBinding_validate a =
     (if ast_allowed_scopes a = [] \<or> \<not> distinct (ast_allowed_scopes a) then Inl Asset_scopes
      else Inr (a\<lparr>ast_allowed_scopes := sort_key scope_value (ast_allowed_scopes a)\<rparr>))"

subsection \<open>Guest paths and the filesystem policy\<close>

definition RESERVED_GUEST_TARGETS :: "string list" where
  "RESERVED_GUEST_TARGETS = [''/bin'', ''/boot'', ''/dev'', ''/etc'', ''/home'', ''/lib'', ''/lib64'', ''/mnt'', ''/proc'',
     ''/root'', ''/run'', ''/sbin'', ''/sys'', ''/usr'', ''/var/lib/containers'', ''/var/lib/docker'', ''/var/run'']"

definition absolute_posix :: "string list \<Rightarrow> string" where
  "absolute_posix parts = CHR ''/'' # join_with CHR ''/'' parts"

definition normalize_guest_target :: "string \<Rightarrow> environment_error + string" where
  "normalize_guest_target value =
     (if CHR 0x5C \<in> set value \<or> NUL \<in> set value then Inl Guest_not_posix
      else if \<not> posix_is_absolute value \<or> take 2 value = ''//''
              \<or> list_ex (\<lambda>part. part \<in> {''.'', ''..''}) (split_on CHR ''/'' value)
      then Inl Guest_not_absolute
      else let path = posix_parts value in
        if path = [] then Inl Guest_root
        else if list_ex (\<lambda>reserved. path = posix_parts reserved \<or> strict_prefix (posix_parts reserved) path)
                  RESERVED_GUEST_TARGETS
        then Inl Guest_reserved
        else Inr (absolute_posix path))"

definition GuestTarget_validate :: "string \<Rightarrow> environment_error + string" where
  "GuestTarget_validate s =
     (if \<not> (2 \<le> length s \<and> length s \<le> 240) then Inl Env_range else normalize_guest_target s)"

record ReadonlyAssetMount =
  mnt_asset_id :: Identifier
  mnt_scope :: FilesystemScope
  mnt_target :: string

record FilesystemPolicy =
  fsp_readonly_assets :: "ReadonlyAssetMount list"
  fsp_workspace_target :: string
  fsp_artifact_target :: string

definition ReadonlyAssetMount_validate :: "ReadonlyAssetMount \<Rightarrow> environment_error + ReadonlyAssetMount" where
  "ReadonlyAssetMount_validate m =
     bind_result (GuestTarget_validate (mnt_target m)) (\<lambda>target. Inr (m\<lparr>mnt_target := target\<rparr>))"

definition scope_targets :: "FilesystemPolicy \<Rightarrow> FilesystemScope \<Rightarrow> string list" where
  "scope_targets p scope = map mnt_target (filter (\<lambda>m. mnt_scope m = scope) (fsp_readonly_assets p))
     @ [fsp_workspace_target p, fsp_artifact_target p]"

definition validate_disjoint_targets :: "FilesystemPolicy \<Rightarrow> environment_error + FilesystemPolicy" where
  "validate_disjoint_targets p =
     (if \<not> distinct (map (\<lambda>m. (mnt_asset_id m, mnt_scope m, mnt_target m)) (fsp_readonly_assets p)) then Inl Mounts_not_unique
      else if paths_overlap (fsp_workspace_target p) (fsp_artifact_target p) then Inl Workspace_artifact_overlap
      else if list_ex (\<lambda>scope. some_pair paths_overlap (scope_targets p scope)) all_scopes then Inl Mount_targets_overlap
      else Inr p)"

definition FilesystemPolicy_validate :: "FilesystemPolicy \<Rightarrow> environment_error + FilesystemPolicy" where
  "FilesystemPolicy_validate raw =
     bind_result (map_result ReadonlyAssetMount_validate (fsp_readonly_assets raw)) (\<lambda>mounts.
     bind_result (GuestTarget_validate (fsp_workspace_target raw)) (\<lambda>workspace.
     bind_result (GuestTarget_validate (fsp_artifact_target raw)) (\<lambda>artifact.
       validate_disjoint_targets \<lparr>fsp_readonly_assets =
           sort_key (\<lambda>m. (scope_value (mnt_scope m), mnt_target m, mnt_asset_id m)) mounts,
         fsp_workspace_target = workspace, fsp_artifact_target = artifact\<rparr>)))"

subsection \<open>Network, resources and licenses\<close>

record NetworkRule =
  nwr_endpoint_id :: Identifier
  nwr_protocol :: NetworkProtocol
  nwr_port :: int

record HostAllowlistNetwork =
  han_enforcer_id :: Identifier
  han_enforcer_digest :: Digest
  han_resolution_policy_digest :: Digest
  han_rules :: "NetworkRule list"

datatype NetworkPolicy = Network_None | Network_HostAllowlist HostAllowlistNetwork

fun NetworkPolicy_validate :: "NetworkPolicy \<Rightarrow> environment_error + NetworkPolicy" where
  "NetworkPolicy_validate Network_None = Inr Network_None"
| "NetworkPolicy_validate (Network_HostAllowlist n) =
     (if list_ex (\<lambda>r. \<not> (1 \<le> nwr_port r \<and> nwr_port r \<le> 65535)) (han_rules n) then Inl Env_range
      else if han_rules n = [] then Inl Rules_missing
      else if \<not> distinct (map (\<lambda>r. (nwr_endpoint_id r, nwr_protocol r, nwr_port r)) (han_rules n)) then Inl Rules_not_unique
      else Inr (Network_HostAllowlist (n\<lparr>han_rules :=
        sort_key (\<lambda>r. (nwr_endpoint_id r, protocol_value (nwr_protocol r), nwr_port r)) (han_rules n)\<rparr>)))"

record ResourceLimits =
  rsl_cpu_millicores :: int
  rsl_memory_bytes :: int
  rsl_pids :: int
  rsl_disk_bytes :: int
  rsl_wall_seconds :: int
  rsl_max_concurrency :: int
  rsl_io_read_bytes_per_second :: "int option"
  rsl_io_write_bytes_per_second :: "int option"

definition ResourceLimits_validate :: "ResourceLimits \<Rightarrow> environment_error + ResourceLimits" where
  "ResourceLimits_validate r =
     (if list_all (\<lambda>n. 0 < n) [rsl_cpu_millicores r, rsl_memory_bytes r, rsl_pids r, rsl_disk_bytes r, rsl_wall_seconds r,
           rsl_max_concurrency r]
         \<and> (case rsl_io_read_bytes_per_second r of None \<Rightarrow> True | Some n \<Rightarrow> 0 < n)
         \<and> (case rsl_io_write_bytes_per_second r of None \<Rightarrow> True | Some n \<Rightarrow> 0 < n)
      then Inr r else Inl Env_range)"

record LicenseBinding =
  lcb_license_binding_id :: Identifier
  lcb_provider_id :: Identifier
  lcb_provider_digest :: Digest
  lcb_feature_class :: Identifier
  lcb_max_checkouts :: int
  lcb_acquire_timeout_seconds :: int
  lcb_lease_ttl_seconds :: int

definition LicenseBinding_validate :: "LicenseBinding \<Rightarrow> environment_error + LicenseBinding" where
  "LicenseBinding_validate b =
     (if 0 < lcb_max_checkouts b \<and> 0 \<le> lcb_acquire_timeout_seconds b \<and> 0 < lcb_lease_ttl_seconds b then Inr b
      else Inl Env_range)"

subsection \<open>Artifact policy\<close>

record ArtifactDisclosure =
  adc_sensitivity :: Sensitivity
  adc_visibility :: Visibility
  adc_redistribution :: Redistribution

definition ArtifactDisclosure_validate :: "ArtifactDisclosure \<Rightarrow> environment_error + ArtifactDisclosure" where
  "ArtifactDisclosure_validate d =
     (if adc_sensitivity d = Sensitivity_SECRET then Inl Disclosure_secret
      else if adc_visibility d = Visibility_PUBLIC
              \<and> (adc_sensitivity d \<noteq> Sensitivity_PUBLIC \<or> adc_redistribution d \<noteq> Redistribution_ALLOWED)
      then Inl Disclosure_public
      else Inr d)"

definition RAW_EDA_ARTIFACT_CLASSES :: "ArtifactClass list" where
  "RAW_EDA_ARTIFACT_CLASSES = [Artifact_DIAGNOSTIC, Artifact_EVIDENCE]"

definition PROTECTED_RAW_DISCLOSURE :: ArtifactDisclosure where
  "PROTECTED_RAW_DISCLOSURE = \<lparr>adc_sensitivity = Sensitivity_CONFIDENTIAL, adc_visibility = Visibility_AUTHOR,
     adc_redistribution = Redistribution_FORBIDDEN\<rparr>"

record ManagedEncryption =
  men_provider_id :: Identifier
  men_policy_digest :: Digest

datatype EncryptionPolicy = Encryption_None | Encryption_Managed ManagedEncryption

record ArtifactRetentionRule =
  arr_artifact_class :: ArtifactClass
  arr_retention_seconds :: int
  arr_allowed_disclosures :: "ArtifactDisclosure list"

definition ArtifactRetentionRule_validate :: "ArtifactRetentionRule \<Rightarrow> environment_error + ArtifactRetentionRule" where
  "ArtifactRetentionRule_validate r =
     (if \<not> 0 \<le> arr_retention_seconds r then Inl Env_range
      else
        bind_result (map_result ArtifactDisclosure_validate (arr_allowed_disclosures r)) (\<lambda>disclosures.
        if disclosures = [] \<or> \<not> distinct disclosures then Inl Disclosures_not_unique
        else Inr (r\<lparr>arr_allowed_disclosures := sort_key (\<lambda>d. (sensitivity_value (adc_sensitivity d),
          visibility_value (adc_visibility d), redistribution_value (adc_redistribution d))) disclosures\<rparr>)))"

record ArtifactPolicy =
  apl_quota_bytes :: int
  apl_encryption :: EncryptionPolicy
  apl_rules :: "ArtifactRetentionRule list"

definition is_managed :: "EncryptionPolicy \<Rightarrow> bool" where
  "is_managed e \<longleftrightarrow> (case e of Encryption_Managed _ \<Rightarrow> True | Encryption_None \<Rightarrow> False)"

definition needs_encryption :: "ArtifactPolicy \<Rightarrow> bool" where
  "needs_encryption p \<longleftrightarrow> list_ex (\<lambda>r. list_ex (\<lambda>d. adc_sensitivity d = Sensitivity_CONFIDENTIAL) (arr_allowed_disclosures r))
     (apl_rules p)"

definition ArtifactPolicy_validate :: "ArtifactPolicy \<Rightarrow> environment_error + ArtifactPolicy" where
  "ArtifactPolicy_validate raw =
     (if \<not> 0 < apl_quota_bytes raw then Inl Env_range
      else
        bind_result (map_result ArtifactRetentionRule_validate (apl_rules raw)) (\<lambda>rules.
        if \<not> distinct (map arr_artifact_class rules) then Inl Retention_not_unique
        else if set (map arr_artifact_class rules) \<noteq> set all_artifact_classes then Inl Retention_not_covering
        else let p = raw\<lparr>apl_rules := sort_key (\<lambda>r. artifact_class_value (arr_artifact_class r)) rules\<rparr> in
          if needs_encryption p \<and> \<not> is_managed (apl_encryption p) then Inl Encryption_required
          else Inr p))"

definition retention_rule :: "ArtifactPolicy \<Rightarrow> ArtifactClass \<Rightarrow> environment_error + ArtifactRetentionRule" where
  "retention_rule p c = (case find (\<lambda>r. arr_artifact_class r = c) (apl_rules p) of
     None \<Rightarrow> Inl Env_stop_iteration | Some r \<Rightarrow> Inr r)"

definition persistent_disclosure :: "ArtifactPolicy \<Rightarrow> ArtifactClass \<Rightarrow> environment_error + ArtifactDisclosure option" where
  "persistent_disclosure p c =
     bind_result (retention_rule p c) (\<lambda>r. Inr (case arr_allowed_disclosures r of
       [d] \<Rightarrow> if arr_retention_seconds r = 0 then None else Some d
     | _ \<Rightarrow> None))"

subsection \<open>The environment\<close>

record EnvironmentSpec =
  env_identity :: EnvironmentIdentity
  env_executor :: ExecutorSpec
  env_tool_bindings :: "ToolBinding list"
  env_participant_operations :: "ParticipantOperationBinding list"
  env_assets :: "AssetBinding list"
  env_filesystem :: FilesystemPolicy
  env_network :: NetworkPolicy
  env_resources :: ResourceLimits
  env_licenses :: "LicenseBinding list"
  env_checkpoint :: CheckpointCapability
  env_application_checkpoint :: "ApplicationCheckpointBinding option"
  env_artifact_policy :: ArtifactPolicy

definition env_check :: "bool \<Rightarrow> environment_error \<Rightarrow> environment_error + unit" where
  "env_check bad e = (if bad then Inl e else Inr ())"

definition check_locators :: "EnvironmentSpec \<Rightarrow> environment_error + unit" where
  "check_locators e =
     (case executor_image_digest (env_executor e) of
        None \<Rightarrow> env_check (list_ex (\<lambda>b. case tlb_locator b of Locator_AttestedHost _ \<Rightarrow> False | _ \<Rightarrow> True) (env_tool_bindings e))
          Host_locator_required
      | Some image_digest \<Rightarrow> env_check (list_ex (\<lambda>b. case tlb_locator b of Locator_Image l \<Rightarrow> itl_image_digest l \<noteq> image_digest | _ \<Rightarrow> True)
          (env_tool_bindings e)) Image_locator_required)"

definition is_brokered :: "ExecutorSpec \<Rightarrow> bool" where
  "is_brokered x \<longleftrightarrow> (case x of Executor_BrokeredHostTool _ \<Rightarrow> True | _ \<Rightarrow> False)"

definition check_operation :: "EnvironmentSpec \<Rightarrow> ParticipantOperationBinding \<Rightarrow> environment_error + unit" where
  "check_operation e operation =
     (case dict_get (dict_of (\<lambda>b. (tlb_capability b, tlb_tool_id b)) id (env_tool_bindings e))
          (pob_capability operation, pob_tool_id operation) of
        None \<Rightarrow> Inl Operation_tool_unknown
      | Some tool \<Rightarrow>
        bind_result (env_check (is_brokered (env_executor e)) Brokered_operation) (\<lambda>_.
        bind_result (env_check (executable_is_shell (locator_executable (tlb_locator tool))) Operation_shell) (\<lambda>_.
          check_each (\<lambda>item. bind_result (persistent_disclosure (env_artifact_policy e) (poo_artifact_class item)) (\<lambda>d.
            env_check (d = None) Operation_output_not_retained)) (pob_outputs operation))))"

definition check_mounts :: "EnvironmentSpec \<Rightarrow> environment_error + unit" where
  "check_mounts e =
     (let assets = dict_of ast_asset_id id (env_assets e) in
      bind_result (env_check (length assets \<noteq> length (env_assets e)) Asset_ids_not_unique) (\<lambda>_.
      check_each (\<lambda>mount. case dict_get assets (mnt_asset_id mount) of
          None \<Rightarrow> Inl Mount_unknown_asset
        | Some asset \<Rightarrow> env_check (mnt_scope mount \<notin> set (ast_allowed_scopes asset)) Mount_scope_exceeded)
        (fsp_readonly_assets (env_filesystem e))))"

definition referenced_licenses :: "EnvironmentSpec \<Rightarrow> Identifier list" where
  "referenced_licenses e = List.map_filter tlb_license_binding_id (env_tool_bindings e)"

definition check_licenses :: "EnvironmentSpec \<Rightarrow> environment_error + unit" where
  "check_licenses e =
     (let licenses = dict_of lcb_license_binding_id id (env_licenses e) in
      bind_result (env_check (length licenses \<noteq> length (env_licenses e)) License_ids_not_unique) (\<lambda>_.
      bind_result (env_check (\<not> distinct (map (\<lambda>b. (lcb_provider_id b, lcb_feature_class b)) (env_licenses e)))
        License_feature_owner) (\<lambda>_.
      bind_result (env_check (\<not> set (referenced_licenses e) \<subseteq> set (dict_keys licenses)) License_unknown) (\<lambda>_.
      bind_result (env_check (set (referenced_licenses e) \<noteq> set (dict_keys licenses)) License_unowned) (\<lambda>_.
        if licenses = [] then Inr ()
        else
          bind_result (env_check (\<not> is_managed (apl_encryption (env_artifact_policy e))) Licensed_encryption) (\<lambda>_.
          check_each (\<lambda>c. bind_result (retention_rule (env_artifact_policy e) c) (\<lambda>r.
              env_check (arr_retention_seconds r = 0 \<or> arr_allowed_disclosures r \<noteq> [PROTECTED_RAW_DISCLOSURE])
                Licensed_disclosure)) RAW_EDA_ARTIFACT_CLASSES))))))"

definition check_checkpoint :: "EnvironmentSpec \<Rightarrow> environment_error + unit" where
  "check_checkpoint e =
     bind_result (env_check (env_checkpoint e = Checkpoint_VIRTUAL_MACHINE
         \<and> \<not> (case env_executor e of Executor_VmPerRun _ \<Rightarrow> True | Executor_MicrovmCloud _ \<Rightarrow> True | _ \<Rightarrow> False))
         Checkpoint_executor) (\<lambda>_.
     bind_result (env_check ((env_checkpoint e = Checkpoint_APPLICATION) \<noteq> (env_application_checkpoint e \<noteq> None))
         Checkpoint_binding) (\<lambda>_.
     bind_result (retention_rule (env_artifact_policy e) Artifact_CHECKPOINT) (\<lambda>rule.
       env_check (env_checkpoint e \<noteq> Checkpoint_NONE \<and> arr_retention_seconds rule = 0) Checkpoint_retention)))"

definition validate_environment :: "EnvironmentSpec \<Rightarrow> environment_error + EnvironmentSpec" where
  "validate_environment e =
     bind_result (env_check (\<not> distinct (map tlb_capability (env_tool_bindings e))) Capability_not_unique) (\<lambda>_.
     bind_result (check_locators e) (\<lambda>_.
     bind_result (check_each (check_operation e) (env_participant_operations e)) (\<lambda>_.
     bind_result (check_mounts e) (\<lambda>_.
     bind_result (check_licenses e) (\<lambda>_.
     bind_result (check_checkpoint e) (\<lambda>_.
       Inr e))))))"

definition lift_operation :: "operation_error + 'a \<Rightarrow> environment_error + 'a" where
  "lift_operation m = (case m of Inl e \<Rightarrow> Inl (Env_operation e) | Inr x \<Rightarrow> Inr x)"

definition EnvironmentSpec_validate :: "EnvironmentSpec \<Rightarrow> environment_error + EnvironmentSpec" where
  "EnvironmentSpec_validate raw =
     bind_result (EnvironmentIdentity_validate (env_identity raw)) (\<lambda>identity.
     bind_result (ExecutorSpec_validate (env_executor raw)) (\<lambda>executor.
     bind_result (map_result ToolBinding_validate (env_tool_bindings raw)) (\<lambda>tools.
     bind_result (map_result (\<lambda>x. lift_operation (ParticipantOperationBinding_validate x)) (env_participant_operations raw)) (\<lambda>operations.
     bind_result (sorted_unique_by pob_operation_id Operation_ids_not_unique operations) (\<lambda>operations.
     bind_result (map_result AssetBinding_validate (env_assets raw)) (\<lambda>assets.
     bind_result (FilesystemPolicy_validate (env_filesystem raw)) (\<lambda>filesystem.
     bind_result (NetworkPolicy_validate (env_network raw)) (\<lambda>network.
     bind_result (ResourceLimits_validate (env_resources raw)) (\<lambda>resources.
     bind_result (map_result LicenseBinding_validate (env_licenses raw)) (\<lambda>licenses.
     bind_result (case env_application_checkpoint raw of None \<Rightarrow> Inr None
                  | Some b \<Rightarrow> bind_result (ApplicationCheckpointBinding_validate b) (\<lambda>b. Inr (Some b))) (\<lambda>checkpoint.
     bind_result (ArtifactPolicy_validate (env_artifact_policy raw)) (\<lambda>policy.
       validate_environment \<lparr>env_identity = identity, env_executor = executor,
         env_tool_bindings = sort_key (\<lambda>b. capability_value (tlb_capability b)) tools,
         env_participant_operations = operations, env_assets = sort_key ast_asset_id assets, env_filesystem = filesystem,
         env_network = network, env_resources = resources,
         env_licenses = sort_key lcb_license_binding_id licenses, env_checkpoint = env_checkpoint raw,
         env_application_checkpoint = checkpoint, env_artifact_policy = policy\<rparr>))))))))))))"

end
