(* ===== verification/ReleaseSpec.thy ===== *)
theory ReleaseSpec
  imports TaskModel
begin

section \<open>Task instances and release manifests\<close>

text \<open>
  Models \<open>src/edagym/specs/release.py\<close>: parameter values, generated files, task instances, the three kinds of
  release qualification and the release manifest, each with its field and model validators. The digests
  of instances and manifests are parameters of their users.
\<close>

datatype release_error = Release_range | Release_path | Parameters_not_unique | Sources_not_unique | Generated_public
  | Generated_secret | Generated_paths | Evidence_not_unique | Known_answers_missing | Two_simulators | Three_mutants
  | Negatives_not_unique | Environments_not_unique | Bundles_equal | Release_paths

subsection \<open>Instances\<close>

record IntegerParameterValue =
  ipv_parameter_id :: Identifier
  ipv_value :: int

record BooleanParameterValue =
  bpv_parameter_id :: Identifier
  bpv_value :: bool

record ChoiceParameterValue =
  cpv_parameter_id :: Identifier
  cpv_value :: string

datatype ParameterValue = Value_Integer IntegerParameterValue | Value_Boolean BooleanParameterValue
  | Value_Choice ChoiceParameterValue

fun value_parameter_id :: "ParameterValue \<Rightarrow> Identifier" where
  "value_parameter_id (Value_Integer v) = ipv_parameter_id v"
| "value_parameter_id (Value_Boolean v) = bpv_parameter_id v"
| "value_parameter_id (Value_Choice v) = cpv_parameter_id v"

fun ParameterValue_validate :: "ParameterValue \<Rightarrow> release_error + ParameterValue" where
  "ParameterValue_validate (Value_Choice v) =
     (if \<not> (1 \<le> length (cpv_value v) \<and> length (cpv_value v) \<le> 160) then Inl Release_range else Inr (Value_Choice v))"
| "ParameterValue_validate v = Inr v"

record TaskInstanceIdentity =
  tii_task_family :: Identifier
  tii_authoring_revision :: int
  tii_task_spec_digest :: Digest
  tii_generator_digest :: Digest
  tii_seed :: Seed128Hex
  tii_parameters :: "ParameterValue list"

definition TaskInstanceIdentity_validate :: "TaskInstanceIdentity \<Rightarrow> release_error + TaskInstanceIdentity" where
  "TaskInstanceIdentity_validate raw =
     (if \<not> 1 \<le> tii_authoring_revision raw then Inl Release_range
      else
        bind_result (map_result ParameterValue_validate (tii_parameters raw)) (\<lambda>values.
        let parameters = sort_key value_parameter_id values in
        if \<not> distinct (map value_parameter_id parameters) then Inl Parameters_not_unique
        else Inr (raw\<lparr>tii_parameters := parameters\<rparr>)))"

record GeneratedFile =
  gnf_path :: string
  gnf_content_digest :: Digest
  gnf_media_type :: string
  gnf_source_resource_ids :: "Identifier list"
  gnf_visibility :: Visibility
  gnf_sensitivity :: Sensitivity
  gnf_redistribution :: Redistribution

definition GeneratedFile_validate :: "GeneratedFile \<Rightarrow> release_error + GeneratedFile" where
  "GeneratedFile_validate raw =
     (case validate_relative_path (gnf_path raw) of
        Inl _ \<Rightarrow> Inl Release_path
      | Inr path \<Rightarrow>
        if \<not> (1 \<le> length (gnf_media_type raw) \<and> length (gnf_media_type raw) \<le> 120) then Inl Release_range
        else
          bind_result (sorted_unique Sources_not_unique (gnf_source_resource_ids raw)) (\<lambda>sources.
          if gnf_visibility raw = Visibility_PUBLIC
             \<and> (gnf_sensitivity raw \<noteq> Sensitivity_PUBLIC \<or> gnf_redistribution raw \<noteq> Redistribution_ALLOWED)
          then Inl Generated_public
          else if gnf_sensitivity raw = Sensitivity_SECRET then Inl Generated_secret
          else Inr (raw\<lparr>gnf_path := path, gnf_source_resource_ids := sources\<rparr>)))"

record TaskInstance =
  tin_identity :: TaskInstanceIdentity
  tin_generated_files :: "GeneratedFile list"

definition normalized_files :: "release_error \<Rightarrow> GeneratedFile list \<Rightarrow> release_error + GeneratedFile list" where
  "normalized_files e raw =
     bind_result (map_result GeneratedFile_validate raw) (\<lambda>files.
     let files = sort_key gnf_path files in
     if files = [] \<or> \<not> distinct (map gnf_path files) then Inl e else Inr files)"

definition TaskInstance_validate :: "TaskInstance \<Rightarrow> release_error + TaskInstance" where
  "TaskInstance_validate raw =
     bind_result (TaskInstanceIdentity_validate (tin_identity raw)) (\<lambda>identity.
     bind_result (normalized_files Generated_paths (tin_generated_files raw)) (\<lambda>files.
       Inr \<lparr>tin_identity = identity, tin_generated_files = files\<rparr>))"

subsection \<open>Qualification\<close>

record MutantQualification =
  mqu_mutant_resource_id :: Identifier
  mqu_evidence_digest :: Digest

record ReleaseQualification =
  rqu_reference_evidence_digest :: Digest
  rqu_known_answer_evidence_digests :: "Digest list"
  rqu_mutant_results :: "MutantQualification list"
  rqu_simulator_evidence_digests :: "Digest list"
  rqu_synthesis_evidence_digest :: Digest
  rqu_formal_evidence_digest :: "Digest option"
  rqu_temporal_evidence_digest :: Digest
  rqu_structural_evidence_digest :: Digest

definition ReleaseQualification_validate :: "ReleaseQualification \<Rightarrow> release_error + ReleaseQualification" where
  "ReleaseQualification_validate raw =
     bind_result (sorted_unique Evidence_not_unique (rqu_known_answer_evidence_digests raw)) (\<lambda>answers.
     bind_result (sorted_unique Evidence_not_unique (rqu_simulator_evidence_digests raw)) (\<lambda>simulators.
     let mutants = sort_key mqu_mutant_resource_id (rqu_mutant_results raw) in
     if answers = [] then Inl Known_answers_missing
     else if length simulators < 2 then Inl Two_simulators
     else if length mutants < 3 \<or> \<not> distinct (map mqu_mutant_resource_id mutants) then Inl Three_mutants
     else Inr (raw\<lparr>rqu_known_answer_evidence_digests := answers, rqu_mutant_results := mutants,
       rqu_simulator_evidence_digests := simulators\<rparr>)))"

record NegativeCandidateQualification =
  ncq_candidate_resource_id :: Identifier
  ncq_evidence_digest :: Digest

record FlowReleaseQualification =
  frq_witness_resource_id :: Identifier
  frq_witness_evidence_digest :: Digest
  frq_negative_results :: "NegativeCandidateQualification list"

definition FlowReleaseQualification_validate :: "FlowReleaseQualification \<Rightarrow> release_error + FlowReleaseQualification" where
  "FlowReleaseQualification_validate q =
     (if frq_negative_results q = [] \<or> \<not> distinct (map ncq_candidate_resource_id (frq_negative_results q))
      then Inl Negatives_not_unique
      else Inr (q\<lparr>frq_negative_results := sort_key ncq_candidate_resource_id (frq_negative_results q)\<rparr>))"

text \<open>The second constructor is \<open>FlowReleaseCandidateQualification\<close>, which carries its authoring source digest.\<close>

datatype TaskReleaseQualification = Release_SailRtl ReleaseQualification | Release_FlowCandidate Digest
  | Release_Flow FlowReleaseQualification

fun TaskReleaseQualification_validate :: "TaskReleaseQualification \<Rightarrow> release_error + TaskReleaseQualification" where
  "TaskReleaseQualification_validate (Release_SailRtl q) =
     bind_result (ReleaseQualification_validate q) (\<lambda>q. Inr (Release_SailRtl q))"
| "TaskReleaseQualification_validate (Release_FlowCandidate d) = Inr (Release_FlowCandidate d)"
| "TaskReleaseQualification_validate (Release_Flow q) =
     bind_result (FlowReleaseQualification_validate q) (\<lambda>q. Inr (Release_Flow q))"

subsection \<open>Manifests\<close>

record ReleaseManifest =
  rlm_task_spec_digest :: Digest
  rlm_task_instance_digest :: Digest
  rlm_participant_bundle_digest :: Digest
  rlm_verifier_bundle_digest :: Digest
  rlm_environment_digests :: "Digest list"
  rlm_files :: "GeneratedFile list"
  rlm_qualification :: TaskReleaseQualification

definition ReleaseManifest_validate :: "ReleaseManifest \<Rightarrow> release_error + ReleaseManifest" where
  "ReleaseManifest_validate raw =
     (if rlm_environment_digests raw = [] \<or> \<not> distinct (rlm_environment_digests raw) then Inl Environments_not_unique
      else
        bind_result (map_result GeneratedFile_validate (rlm_files raw)) (\<lambda>files.
        bind_result (TaskReleaseQualification_validate (rlm_qualification raw)) (\<lambda>qualification.
        let files = sort_key gnf_path files in
        if rlm_participant_bundle_digest raw = rlm_verifier_bundle_digest raw then Inl Bundles_equal
        else if files = [] \<or> \<not> distinct (map gnf_path files) then Inl Release_paths
        else Inr (raw\<lparr>rlm_environment_digests := sort (rlm_environment_digests raw), rlm_files := files,
          rlm_qualification := qualification\<rparr>))))"

end
