(* ===== verification/Resolution.thy ===== *)
theory Resolution
  imports EnvironmentSpec ReleaseSpec SessionSpec
begin

section \<open>Resolution of a run\<close>

text \<open>
  Models \<open>src/edagym/resolution.py\<close>: the composition of task, instance, release, environment and session into one run
  binding and the assignment of a driver to every stage. A \<open>ResolutionError\<close> is \<open>Not_resolved\<close> with the reason,
  a failed validation of a constructed model is \<open>Invalid_binding\<close> or \<open>Invalid_plan\<close>, a failed dictionary lookup
  \<open>Lookup_error\<close>. The digests of canonical encodings are the fields of \<open>resolution_digests\<close>. They are partial: the RFC 8785
  encoder rejects integers of more than 53 bits, which parameter domains and budgets may hold, and \<open>Not_encodable\<close> is its error.
  The trial key is a raw string, checked only when the run binding is constructed.
\<close>

datatype (plugins only: code size) resolution_fault = Capabilities_missing | Purpose_without_campaign | Campaign_author
  | Executor_not_isolating | Operation_input_hidden | Operation_overwrites | Instance_identity | Seed_too_large
  | Parameters_incomplete | Integer_kind | Integer_outside | Integer_off_step | Boolean_kind | Choice_outside
  | Release_binding | Environment_unqualified | Release_files_differ | Sail_qualification | Mutants_uncovered
  | Simulators_missing | Formal_missing | Stale_source | Flow_qualification | Flow_uncovered | Unknown_source
  | Weaker_visibility | Weaker_sensitivity | Weaker_redistribution | Recovery_checkpoint | Artifact_quota

datatype resolution_failure = Not_resolved resolution_fault | Invalid_binding run_error | Invalid_plan | Lookup_error
  | Not_encodable

record resolution_digests =
  rsd_task :: "TaskSpec \<Rightarrow> Digest option"
  rsd_scorer :: "ScorerRef \<Rightarrow> Digest option"
  rsd_measurements :: "MeasurementSpec list \<Rightarrow> Digest option"
  rsd_instance :: "TaskInstance \<Rightarrow> Digest option"
  rsd_release :: "ReleaseManifest \<Rightarrow> Digest option"
  rsd_environment :: "EnvironmentSpec \<Rightarrow> Digest option"
  rsd_session :: "SessionSpec \<Rightarrow> Digest option"
  rsd_feedback :: "FeedbackPolicy \<Rightarrow> Digest option"
  rsd_budget :: "ResourceBudget \<Rightarrow> ModelBudget option \<Rightarrow> Digest option"
  rsd_operation :: "ParticipantOperationBinding \<Rightarrow> Digest option"
  rsd_policy :: "FilesystemPolicy \<Rightarrow> NetworkPolicy \<Rightarrow> ResourceLimits \<Rightarrow> LicenseBinding list
    \<Rightarrow> ParticipantOperationBinding list \<Rightarrow> CheckpointCapability \<Rightarrow> ArtifactPolicy \<Rightarrow> Digest option"

definition encoded :: "Digest option \<Rightarrow> resolution_failure + Digest" where
  "encoded d = (case d of None \<Rightarrow> Inl Not_encodable | Some digest \<Rightarrow> Inr digest)"

definition reject_when :: "bool \<Rightarrow> resolution_fault \<Rightarrow> resolution_failure + unit" where
  "reject_when bad e = (if bad then Inl (Not_resolved e) else Inr ())"

definition lift_binding :: "run_error + 'a \<Rightarrow> resolution_failure + 'a" where
  "lift_binding m = (case m of Inl e \<Rightarrow> Inl (Invalid_binding e) | Inr x \<Rightarrow> Inr x)"

definition lookup_in :: "('k, 'v) dict \<Rightarrow> 'k \<Rightarrow> resolution_failure + 'v" where
  "lookup_in d k = (case dict_get d k of None \<Rightarrow> Inl Lookup_error | Some v \<Rightarrow> Inr v)"

subsection \<open>Checks\<close>

text \<open>\<open>int(seed, 16)\<close> of a string of lower-case hexadecimal digits.\<close>

definition hex_digit :: "char \<Rightarrow> int" where
  "hex_digit c = (if is_digit c then of_char c - 48 else of_char c - 87)"

definition hex_value :: "string \<Rightarrow> int" where
  "hex_value s = foldl (\<lambda>n c. 16 * n + hex_digit c) 0 s"

fun check_parameter :: "ParameterDomain \<Rightarrow> ParameterValue \<Rightarrow> resolution_failure + unit" where
  "check_parameter (Domain_Integer domain) (Value_Integer v) =
     bind_result (reject_when (\<not> (idm_minimum domain \<le> ipv_value v \<and> ipv_value v \<le> idm_maximum domain)) Integer_outside) (\<lambda>_.
       reject_when ((ipv_value v - idm_minimum domain) mod idm_step domain \<noteq> 0) Integer_off_step)"
| "check_parameter (Domain_Integer domain) _ = Inl (Not_resolved Integer_kind)"
| "check_parameter (Domain_Boolean domain) (Value_Boolean _) = Inr ()"
| "check_parameter (Domain_Boolean domain) _ = Inl (Not_resolved Boolean_kind)"
| "check_parameter (Domain_Choice domain) (Value_Choice v) = reject_when (cpv_value v \<notin> set (cdm_choices domain)) Choice_outside"
| "check_parameter (Domain_Choice domain) _ = Inl (Not_resolved Choice_outside)"

definition validate_instance :: "resolution_digests \<Rightarrow> TaskSpec \<Rightarrow> TaskInstance \<Rightarrow> resolution_failure + unit" where
  "validate_instance dg task task_instance =
     (let identity = tin_identity task_instance;
          domains = dict_of parameter_id id (gen_parameters (tsk_generator task));
          values = dict_of value_parameter_id id (tii_parameters identity)
      in
      bind_result (reject_when (tii_task_family identity \<noteq> idn_family (tsk_identity task)
          \<or> tii_authoring_revision identity \<noteq> idn_authoring_revision (tsk_identity task)) Instance_identity) (\<lambda>_.
      bind_result (encoded (rsd_task dg task)) (\<lambda>task_digest.
      bind_result (reject_when (tii_task_spec_digest identity \<noteq> task_digest
          \<or> tii_generator_digest identity \<noteq> gen_implementation_digest (tsk_generator task)) Instance_identity) (\<lambda>_.
      bind_result (reject_when (hex_value (tii_seed identity) \<ge> 2 ^ nat (gen_seed_bits (tsk_generator task))) Seed_too_large) (\<lambda>_.
      bind_result (reject_when (set (dict_keys values) \<noteq> set (dict_keys domains)) Parameters_incomplete) (\<lambda>_.
        check_each (\<lambda>(parameter_id, domain). bind_result (lookup_in values parameter_id) (check_parameter domain)) domains))))))"

definition check_sail_release :: "QualificationSpec \<Rightarrow> TaskReleaseQualification \<Rightarrow> resolution_failure + unit" where
  "check_sail_release q release =
     (case release of
        Release_SailRtl r \<Rightarrow>
          bind_result (reject_when (set (map mqu_mutant_resource_id (rqu_mutant_results r)) \<noteq> set (qua_mutant_resources q))
            Mutants_uncovered) (\<lambda>_.
          bind_result (reject_when (int (length (rqu_simulator_evidence_digests r)) < qua_required_simulators q)
            Simulators_missing) (\<lambda>_.
            reject_when (qua_require_formal q \<and> rqu_formal_evidence_digest r = None) Formal_missing))
      | _ \<Rightarrow> Inl (Not_resolved Sail_qualification))"

definition check_flow_release :: "(Identifier, ResourceSpec) dict \<Rightarrow> FlowQualificationSpec \<Rightarrow> TaskReleaseQualification
    \<Rightarrow> resolution_failure + unit" where
  "check_flow_release resources q release =
     (case release of
        Release_FlowCandidate source \<Rightarrow>
          bind_result (lookup_in resources (flq_authoring_source_resource q)) (\<lambda>resource.
            reject_when (source \<noteq> res_content_digest resource) Stale_source)
      | Release_SailRtl _ \<Rightarrow> Inl (Not_resolved Flow_qualification)
      | Release_Flow r \<Rightarrow>
          reject_when (set (map ncq_candidate_resource_id (frq_negative_results r)) \<noteq> set (flq_negative_candidate_resources q)
            \<or> frq_witness_resource_id r \<noteq> flq_feasibility_witness_resource q) Flow_uncovered)"

fun sensitivity_rank :: "Sensitivity \<Rightarrow> nat" where
  "sensitivity_rank Sensitivity_PUBLIC = 0"
| "sensitivity_rank Sensitivity_INTERNAL = 1"
| "sensitivity_rank Sensitivity_CONFIDENTIAL = 2"
| "sensitivity_rank Sensitivity_SECRET = 3"

fun visible_sources :: "Visibility \<Rightarrow> Visibility set" where
  "visible_sources Visibility_PUBLIC = {Visibility_PUBLIC}"
| "visible_sources Visibility_PARTICIPANT = {Visibility_PUBLIC, Visibility_PARTICIPANT}"
| "visible_sources Visibility_REVIEWER = {Visibility_PUBLIC, Visibility_PARTICIPANT, Visibility_REVIEWER}"
| "visible_sources Visibility_VERIFIER = {Visibility_PUBLIC, Visibility_PARTICIPANT, Visibility_VERIFIER}"
| "visible_sources Visibility_AUTHOR = {Visibility_PUBLIC, Visibility_PARTICIPANT, Visibility_REVIEWER, Visibility_VERIFIER,
     Visibility_AUTHOR}"

definition check_source :: "(Identifier, ResourceVisibility) dict \<Rightarrow> (Identifier, ResourceLicense) dict \<Rightarrow> GeneratedFile
    \<Rightarrow> Identifier \<Rightarrow> resolution_failure + unit" where
  "check_source visibility licensing generated source_id =
     bind_result (lookup_in visibility source_id) (\<lambda>item.
     bind_result (reject_when (vis_visibility item \<notin> visible_sources (gnf_visibility generated)) Weaker_visibility) (\<lambda>_.
     bind_result (reject_when (sensitivity_rank (gnf_sensitivity generated) < sensitivity_rank (vis_sensitivity item))
       Weaker_sensitivity) (\<lambda>_.
       if gnf_redistribution generated = Redistribution_ALLOWED
       then bind_result (lookup_in licensing source_id) (\<lambda>license_item.
         reject_when (lic_redistribution license_item \<noteq> Redistribution_ALLOWED) Weaker_redistribution)
       else Inr ())))"

definition check_generated_file :: "TaskSpec \<Rightarrow> GeneratedFile \<Rightarrow> resolution_failure + unit" where
  "check_generated_file task generated =
     (let resources = dict_of res_resource_id id (tsk_resources task);
          visibility = dict_of vis_resource_id id (tsk_visibility task);
          licensing = dict_of lic_resource_id id (tsk_licensing task)
      in bind_result (reject_when (\<not> set (gnf_source_resource_ids generated) \<subseteq> set (dict_keys resources)) Unknown_source) (\<lambda>_.
           check_each (check_source visibility licensing generated) (gnf_source_resource_ids generated)))"

definition validate_release :: "resolution_digests \<Rightarrow> TaskSpec \<Rightarrow> TaskInstance \<Rightarrow> ReleaseManifest \<Rightarrow> EnvironmentSpec
    \<Rightarrow> resolution_failure + unit" where
  "validate_release dg task task_instance release environment =
     bind_result (encoded (rsd_task dg task)) (\<lambda>task_digest.
     bind_result (reject_when (rlm_task_spec_digest release \<noteq> task_digest) Release_binding) (\<lambda>_.
     bind_result (encoded (rsd_instance dg task_instance)) (\<lambda>instance_digest.
     bind_result (reject_when (rlm_task_instance_digest release \<noteq> instance_digest) Release_binding) (\<lambda>_.
     bind_result (encoded (rsd_environment dg environment)) (\<lambda>environment_digest.
     bind_result (reject_when (environment_digest \<notin> set (rlm_environment_digests release)) Environment_unqualified) (\<lambda>_.
     bind_result (reject_when (rlm_files release \<noteq> tin_generated_files task_instance) Release_files_differ) (\<lambda>_.
     bind_result (case tsk_qualification task of
         Qualification_SailRtl q \<Rightarrow> check_sail_release q (rlm_qualification release)
       | Qualification_EdaFlow q \<Rightarrow>
           check_flow_release (dict_of res_resource_id id (tsk_resources task)) q (rlm_qualification release)) (\<lambda>_.
       check_each (check_generated_file task) (rlm_files release)))))))))"

definition validate_session_environment :: "SessionSpec \<Rightarrow> EnvironmentSpec \<Rightarrow> resolution_failure + unit" where
  "validate_session_environment session environment =
     bind_result (reject_when (ssn_recovery session = Recovery_REQUIRED \<and> env_checkpoint environment = Checkpoint_NONE)
       Recovery_checkpoint) (\<lambda>_.
       reject_when (rbd_max_artifact_bytes (ssn_resources session) > apl_quota_bytes (env_artifact_policy environment))
         Artifact_quota)"

definition validate_candidate_execution :: "EnvironmentSpec \<Rightarrow> SessionSpec \<Rightarrow> CampaignTrialRunBinding option
    \<Rightarrow> resolution_failure + unit" where
  "validate_candidate_execution environment session campaign =
     bind_result (reject_when (campaign \<noteq> None \<and> ssn_candidate_authority session \<noteq> Authority_PARTICIPANT) Campaign_author) (\<lambda>_.
       reject_when (ssn_candidate_authority session = Authority_PARTICIPANT
         \<and> \<not> executor_is_participant_isolation (env_executor environment)) Executor_not_isolating)"

definition visible_files :: "ReleaseManifest \<Rightarrow> string list" where
  "visible_files release = map gnf_path
     (filter (\<lambda>f. gnf_visibility f \<in> {Visibility_PUBLIC, Visibility_PARTICIPANT}) (rlm_files release))"

definition validate_participant_operations :: "ReleaseManifest \<Rightarrow> EnvironmentSpec \<Rightarrow> resolution_failure + unit" where
  "validate_participant_operations release environment =
     check_each (\<lambda>operation.
       bind_result (reject_when (\<not> set (candidate_input_paths operation) \<subseteq> set (visible_files release)) Operation_input_hidden) (\<lambda>_.
         reject_when (list_ex (\<lambda>output. list_ex (paths_overlap output) (visible_files release)) (output_paths operation))
           Operation_overwrites)) (env_participant_operations environment)"

subsection \<open>The resolved plan\<close>

record StageDriverAssignment =
  sda_stage_id :: Identifier
  sda_evaluator_id :: Identifier
  sda_capability :: Capability
  sda_tool_id :: Identifier
  sda_driver_id :: Identifier
  sda_driver_digest :: Digest

record ResolvedRunPlan =
  rrp_binding :: RunBinding
  rrp_stage_drivers :: "StageDriverAssignment list"

definition ResolvedRunPlan_validate :: "ResolvedRunPlan \<Rightarrow> resolution_failure + ResolvedRunPlan" where
  "ResolvedRunPlan_validate raw =
     (let drivers = sort_key sda_stage_id (rrp_stage_drivers raw) in
      if drivers = [] \<or> \<not> distinct (map sda_stage_id drivers) then Inl Invalid_plan
      else Inr (raw\<lparr>rrp_stage_drivers := drivers\<rparr>))"

definition required_capabilities :: "TaskSpec \<Rightarrow> EnvironmentSpec \<Rightarrow> Capability set" where
  "required_capabilities task environment =
     (\<Union>e\<in>set (grf_evaluators (tsk_evaluation task)). insert (evl_capability e) (set (evl_supporting_capabilities e)))
     \<union> pob_capability ` set (env_participant_operations environment)"

definition assign_stage :: "(Identifier, EvaluatorSpec) dict \<Rightarrow> (Capability, ToolBinding) dict \<Rightarrow> StageSpec
    \<Rightarrow> resolution_failure + StageDriverAssignment" where
  "assign_stage evaluators tools stage =
     bind_result (lookup_in evaluators (stg_evaluator_id stage)) (\<lambda>evaluator.
     bind_result (lookup_in tools (evl_capability evaluator)) (\<lambda>tool.
       Inr \<lparr>sda_stage_id = stg_stage_id stage, sda_evaluator_id = evl_evaluator_id evaluator,
         sda_capability = evl_capability evaluator, sda_tool_id = tlb_tool_id tool, sda_driver_id = tlb_driver_id tool,
         sda_driver_digest = tlb_driver_digest tool\<rparr>))"

fun run_actor_of :: "ActorSpec \<Rightarrow> RunActor" where
  "run_actor_of (Spec_Human a) = Run_Human \<lparr>hra_actor_id = hua_actor_id a, hra_adapter_digest = hua_adapter_digest a\<rparr>"
| "run_actor_of (Spec_Harness a) = Run_Harness \<lparr>har_actor_id = haa_actor_id a, har_harness_digest = haa_harness_digest a,
     har_scaffold_digest = haa_scaffold_digest a, har_requested_model_route = haa_requested_model_route a\<rparr>"

definition session_binding_of :: "resolution_digests \<Rightarrow> SessionSpec \<Rightarrow> resolution_failure + SessionRunBinding" where
  "session_binding_of dg session =
     bind_result (lift_binding (map_result RunActor_validate (map run_actor_of (ssn_actors session)))) (\<lambda>run_actors.
     bind_result (encoded (rsd_session dg session)) (\<lambda>session_digest.
     bind_result (encoded (rsd_feedback dg (ssn_feedback session))) (\<lambda>feedback_digest.
     bind_result (encoded (rsd_budget dg (ssn_resources session) (ssn_model_budget session))) (\<lambda>budget_digest.
       lift_binding (SessionRunBinding_validate
         \<lparr>srb_session_spec_digest = session_digest, srb_actors = run_actors,
          srb_initial_writer = writer_id (ssn_writer session), srb_handoff_enabled = (\<not> is_fixed (ssn_writer session)),
          srb_feedback_policy_digest = feedback_digest, srb_budget_digest = budget_digest\<rparr>)))))"

definition resolved_tool :: "ToolBinding \<Rightarrow> ResolvedToolBinding" where
  "resolved_tool tool = \<lparr>rtb_capability = tlb_capability tool, rtb_tool_id = tlb_tool_id tool,
     rtb_tool_version = tlb_tool_version tool, rtb_driver_digest = tlb_driver_digest tool,
     rtb_deployment_attestation_digest = locator_attestation (tlb_locator tool)\<rparr>"

definition resolved_operation :: "resolution_digests \<Rightarrow> ParticipantOperationBinding
    \<Rightarrow> resolution_failure + ResolvedParticipantOperationBinding" where
  "resolved_operation dg operation =
     bind_result (encoded (rsd_operation dg operation)) (\<lambda>digest.
       Inr \<lparr>rpo_operation_id = pob_operation_id operation, rpo_operation_digest = digest,
         rpo_capability = pob_capability operation, rpo_tool_id = pob_tool_id operation\<rparr>)"

definition policy_digest_of :: "resolution_digests \<Rightarrow> EnvironmentSpec \<Rightarrow> Digest option" where
  "policy_digest_of dg environment = rsd_policy dg (env_filesystem environment) (env_network environment)
     (env_resources environment) (env_licenses environment) (env_participant_operations environment)
     (env_checkpoint environment) (env_artifact_policy environment)"

definition environment_binding_of :: "TaskSpec \<Rightarrow> EnvironmentSpec \<Rightarrow> Digest \<Rightarrow> Digest
    \<Rightarrow> ResolvedParticipantOperationBinding list \<Rightarrow> EnvironmentRunBinding" where
  "environment_binding_of task environment environment_digest policy_digest operations =
     \<lparr>erb_environment_spec_digest = environment_digest,
      erb_executor_id = exb_executor_id (executor_base (env_executor environment)),
      erb_executor_digest = exb_implementation_digest (executor_base (env_executor environment)),
      erb_policy_digest = policy_digest,
      erb_tools = map resolved_tool
        (filter (\<lambda>tool. tlb_capability tool \<in> required_capabilities task environment) (env_tool_bindings environment)),
      erb_participant_operations = operations,
      erb_assets = map (\<lambda>asset. \<lparr>rab_asset_id = ast_asset_id asset, rab_restricted_digest = ast_restricted_digest asset\<rparr>)
        (env_assets environment)\<rparr>"

definition resolved_purpose :: "CampaignTrialRunBinding option \<Rightarrow> RunPurpose option \<Rightarrow> RunPurpose" where
  "resolved_purpose campaign purpose =
     (if campaign = None then Purpose_STANDARD else case purpose of None \<Rightarrow> Purpose_CAMPAIGN_TRIAL | Some p \<Rightarrow> p)"

definition no_lineage :: RunLineage where
  "no_lineage = \<lparr>lin_parent_run_id = None, lin_parent_checkpoint_id = None, lin_parent_candidate_id = None\<rparr>"

definition task_binding_of :: "resolution_digests \<Rightarrow> TaskSpec \<Rightarrow> TaskInstance \<Rightarrow> ReleaseManifest
    \<Rightarrow> resolution_failure + TaskRunBinding" where
  "task_binding_of dg task task_instance release =
     bind_result (encoded (rsd_task dg task)) (\<lambda>task_digest.
     bind_result (encoded (rsd_instance dg task_instance)) (\<lambda>instance_digest.
     bind_result (encoded (rsd_release dg release)) (\<lambda>release_digest.
       lift_binding (TaskRunBinding_validate
         \<lparr>trb_family = idn_family (tsk_identity task), trb_authoring_revision = idn_authoring_revision (tsk_identity task),
          trb_task_spec_digest = task_digest, trb_instance_seed = tii_seed (tin_identity task_instance),
          trb_instance_digest = instance_digest, trb_release_digest = release_digest\<rparr>))))"

definition scorer_digest_of :: "resolution_digests \<Rightarrow> ScorerRef option \<Rightarrow> resolution_failure + Digest option" where
  "scorer_digest_of dg scorer =
     (case scorer of None \<Rightarrow> Inr None | Some s \<Rightarrow> bind_result (encoded (rsd_scorer dg s)) (\<lambda>d. Inr (Some d)))"

text \<open>The arguments of \<open>RunBinding\<close> are evaluated from left to right, then the model is constructed.\<close>

definition binding_of :: "resolution_digests \<Rightarrow> TaskSpec \<Rightarrow> TaskInstance \<Rightarrow> ReleaseManifest \<Rightarrow> EnvironmentSpec
    \<Rightarrow> SessionRunBinding \<Rightarrow> ResolvedParticipantOperationBinding list \<Rightarrow> Digest \<Rightarrow> string
    \<Rightarrow> CampaignTrialRunBinding option \<Rightarrow> RunPurpose option \<Rightarrow> RunLineage option \<Rightarrow> resolution_failure + RunBinding" where
  "binding_of dg task task_instance release environment session_binding operations policy_digest trial_key campaign purpose lineage =
     bind_result (task_binding_of dg task task_instance release) (\<lambda>task_binding.
     bind_result (encoded (rsd_environment dg environment)) (\<lambda>environment_digest.
     bind_result (lift_binding (EnvironmentRunBinding_validate
       (environment_binding_of task environment environment_digest policy_digest operations))) (\<lambda>environment_binding.
     bind_result (encoded (rsd_measurements dg (tsk_measurements task))) (\<lambda>measurement_digest.
     bind_result (scorer_digest_of dg (grf_scorer (tsk_evaluation task))) (\<lambda>scorer_digest.
       lift_binding (RunBinding_validate
         \<lparr>bnd_purpose = resolved_purpose campaign purpose, bnd_task = task_binding, bnd_environment = environment_binding,
          bnd_session = session_binding,
          bnd_evaluators = map (\<lambda>e. \<lparr>evb_evaluator_id = evl_evaluator_id e, evb_revision_digest = evl_revision_digest e\<rparr>)
            (grf_evaluators (tsk_evaluation task)),
          bnd_measurement_schema_digest = measurement_digest, bnd_scorer_revision_digest = scorer_digest,
          bnd_trial_key = trial_key, bnd_campaign = campaign,
          bnd_lineage = (case lineage of None \<Rightarrow> no_lineage | Some l \<Rightarrow> l)\<rparr>))))))"

definition resolve_run :: "resolution_digests \<Rightarrow> TaskSpec \<Rightarrow> TaskInstance \<Rightarrow> ReleaseManifest \<Rightarrow> EnvironmentSpec \<Rightarrow> SessionSpec
    \<Rightarrow> string \<Rightarrow> CampaignTrialRunBinding option \<Rightarrow> RunPurpose option \<Rightarrow> RunLineage option
    \<Rightarrow> resolution_failure + ResolvedRunPlan" where
  "resolve_run dg task task_instance release environment session trial_key campaign purpose lineage =
     (let tools = dict_of tlb_capability id (env_tool_bindings environment);
          evaluators = dict_of evl_evaluator_id id (grf_evaluators (tsk_evaluation task))
      in
      bind_result (validate_instance dg task task_instance) (\<lambda>_.
      bind_result (validate_release dg task task_instance release environment) (\<lambda>_.
      bind_result (validate_session_environment session environment) (\<lambda>_.
      bind_result (validate_candidate_execution environment session campaign) (\<lambda>_.
      bind_result (validate_participant_operations release environment) (\<lambda>_.
      bind_result (reject_when (\<not> required_capabilities task environment \<subseteq> set (dict_keys tools)) Capabilities_missing) (\<lambda>_.
      bind_result (map_result (assign_stage evaluators tools) (grf_stages (tsk_evaluation task))) (\<lambda>assignments.
      bind_result (session_binding_of dg session) (\<lambda>session_binding.
      bind_result (map_result (resolved_operation dg) (env_participant_operations environment)) (\<lambda>operations.
      bind_result (encoded (policy_digest_of dg environment)) (\<lambda>policy_digest.
      bind_result (reject_when (campaign = None \<and> purpose \<noteq> None \<and> purpose \<noteq> Some Purpose_STANDARD)
        Purpose_without_campaign) (\<lambda>_.
      bind_result (binding_of dg task task_instance release environment session_binding operations policy_digest
        trial_key campaign purpose lineage) (\<lambda>binding.
        ResolvedRunPlan_validate \<lparr>rrp_binding = binding, rrp_stage_drivers = assignments\<rparr>)))))))))))))"

end
