(* ===== verification/Exceptions.thy ===== *)
theory Exceptions
  imports Prelude
begin

section \<open>Which exceptions a computation may raise\<close>

text \<open>
  A calculus for statements that a computation raises only certain exceptions. The rules follow the
  control flow of the sources: sequencing, loops that check or map, and conditionals. Resolution and the projections
  use it to show that nothing but their own errors leaves them.
\<close>

definition raises_only :: "'e set \<Rightarrow> 'e + 'a \<Rightarrow> bool" where
  "raises_only E m \<longleftrightarrow> (\<forall>e. m = Inl e \<longrightarrow> e \<in> E)"

lemma raises_only_Inr [simp]: "raises_only E (Inr x)"
  by (simp add: raises_only_def)

lemma raises_only_Inl [simp]: "raises_only E (Inl e) \<longleftrightarrow> e \<in> E"
  by (simp add: raises_only_def)

lemma raises_onlyD: "raises_only E m \<Longrightarrow> m = Inl e \<Longrightarrow> e \<in> E"
  by (simp add: raises_only_def)

lemma raises_only_mono: "raises_only E m \<Longrightarrow> E \<subseteq> F \<Longrightarrow> raises_only F m"
  by (auto simp: raises_only_def)

lemma raises_only_bind:
  "raises_only E m \<Longrightarrow> (\<And>x. m = Inr x \<Longrightarrow> raises_only E (k x)) \<Longrightarrow> raises_only E (bind_result m k)"
  by (cases m) auto

lemma raises_only_check_each:
  "(\<And>x. x \<in> set xs \<Longrightarrow> raises_only E (f x)) \<Longrightarrow> raises_only E (check_each f xs)"
  unfolding raises_only_def by (blast dest: check_each_Inl)

lemma raises_only_map:
  "(\<And>x. x \<in> set xs \<Longrightarrow> raises_only E (f x)) \<Longrightarrow> raises_only E (map_result f xs)"
  unfolding raises_only_def by (blast dest: map_result_Inl)

lemma raises_only_if: "(b \<Longrightarrow> raises_only E m) \<Longrightarrow> (\<not> b \<Longrightarrow> raises_only E n) \<Longrightarrow> raises_only E (if b then m else n)"
  by simp

lemmas raising = raises_only_Inr raises_only_bind raises_only_check_each raises_only_map raises_only_if

end
