(* ===== verification/ResolutionFacts.thy ===== *)
theory ResolutionFacts
  imports Resolution TaskGuarantees Exceptions
begin

section \<open>Facts about resolution\<close>

text \<open>
  What the validators of the environment, the session and the task guarantee to resolution, which errors its steps may
  raise, and what the binding of a resolved run records.
\<close>

lemma list_all2_eq_map: "list_all2 (\<lambda>x y. f x = g y) xs ys \<Longrightarrow> map g ys = map f xs"
  by (induction xs ys rule: list_all2_induct) auto

subsection \<open>Accepted specifications\<close>

lemma env_check_Inr [simp]: "env_check b e = Inr u \<longleftrightarrow> \<not> b"
  by (simp add: env_check_def)

lemma lift_operation_Inr [simp]: "lift_operation m = Inr x \<longleftrightarrow> m = Inr x"
  by (simp add: lift_operation_def split: sum.split)

lemma EnvironmentSpec_model:
  assumes "EnvironmentSpec_validate raw = Inr e"
  shows "validate_environment e = Inr e" "distinct (map pob_operation_id (env_participant_operations e))"
    "\<exists>rawp. ArtifactPolicy_validate rawp = Inr (env_artifact_policy e)"
    "\<forall>b\<in>set (env_tool_bindings e). 1 \<le> length (tlb_tool_version b) \<and> length (tlb_tool_version b) \<le> 120"
    "\<forall>x\<in>set (env_participant_operations e). \<exists>rawx. ParticipantOperationBinding_validate rawx = Inr x"
proof -
  have same: "validate_environment x = Inr y \<longleftrightarrow> y = x \<and> \<not> isl (validate_environment x)" for x y
  proof -
    have "validate_environment x = Inr z \<Longrightarrow> z = x" for z by (auto simp: validate_environment_def)
    then show ?thesis by (cases "validate_environment x") auto
  qed
  from assms obtain tools ops assets licenses where
    parts: "map_result ToolBinding_validate (env_tool_bindings raw) = Inr tools"
      "map_result (\<lambda>x. lift_operation (ParticipantOperationBinding_validate x)) (env_participant_operations raw) = Inr ops"
      "distinct (map pob_operation_id ops)"
    and e: "validate_environment e = Inr e" "env_tool_bindings e = sort_key (\<lambda>b. capability_value (tlb_capability b)) tools"
      "env_participant_operations e = sort_key pob_operation_id ops"
      "ArtifactPolicy_validate (env_artifact_policy raw) = Inr (env_artifact_policy e)"
    unfolding EnvironmentSpec_validate_def by (auto simp: same)
  show "validate_environment e = Inr e" by (rule e(1))
  show "distinct (map pob_operation_id (env_participant_operations e))" using parts(3) by (simp add: e(3))
  show "\<exists>rawp. ArtifactPolicy_validate rawp = Inr (env_artifact_policy e)" using e(4) by blast
  show "\<forall>b\<in>set (env_tool_bindings e). 1 \<le> length (tlb_tool_version b) \<and> length (tlb_tool_version b) \<le> 120"
    using map_result_set [OF parts(1)]
    by (fastforce simp: e(2) ToolBinding_validate_def bounded_version_def split: if_splits)
  show "\<forall>x\<in>set (env_participant_operations e). \<exists>rawx. ParticipantOperationBinding_validate rawx = Inr x"
    using map_result_set [OF parts(2)] by (auto simp: e(3))
qed

lemma validate_environment_facts:
  assumes "validate_environment e = Inr e"
  shows "distinct (map tlb_capability (env_tool_bindings e))" "distinct (map ast_asset_id (env_assets e))"
    "\<forall>x\<in>set (env_participant_operations e). \<exists>b\<in>set (env_tool_bindings e). tlb_capability b = pob_capability x
       \<and> tlb_tool_id b = pob_tool_id x \<and> \<not> executable_is_shell (locator_executable (tlb_locator b)) \<and> \<not> is_brokered (env_executor e)"
proof -
  show "distinct (map tlb_capability (env_tool_bindings e))" using assms by (simp add: validate_environment_def)
  show "distinct (map ast_asset_id (env_assets e))"
    using assms by (simp add: validate_environment_def check_mounts_def Let_def length_dict_of_distinct)
  show "\<forall>x\<in>set (env_participant_operations e). \<exists>b\<in>set (env_tool_bindings e). tlb_capability b = pob_capability x
       \<and> tlb_tool_id b = pob_tool_id x \<and> \<not> executable_is_shell (locator_executable (tlb_locator b)) \<and> \<not> is_brokered (env_executor e)"
  proof
    fix x assume "x \<in> set (env_participant_operations e)"
    with assms have "check_operation e x = Inr ()" by (simp add: validate_environment_def)
    then show "\<exists>b\<in>set (env_tool_bindings e). tlb_capability b = pob_capability x
       \<and> tlb_tool_id b = pob_tool_id x \<and> \<not> executable_is_shell (locator_executable (tlb_locator b)) \<and> \<not> is_brokered (env_executor e)"
      by (auto simp: check_operation_def split: option.splits dest!: dict_get_dict_of_SomeD)
  qed
qed

lemma SessionSpec_facts:
  assumes "SessionSpec_validate raw = Inr s"
  shows "ssn_actors s \<noteq> []" "distinct (map actor_id (ssn_actors s))" "writer_id (ssn_writer s) \<in> actor_id ` set (ssn_actors s)"
    "is_fixed (ssn_writer s) \<longleftrightarrow> \<not> 1 < length (ssn_actors s)"
    "Spec_Harness h \<in> set (ssn_actors s) \<Longrightarrow> model_route_ok (haa_requested_model_route h)"
proof -
  from assms have s: "admissible_session s" by (auto simp: SessionSpec_validate_iff intro: admissible_session_reorder)
  then show "ssn_actors s \<noteq> []" "distinct (map actor_id (ssn_actors s))"
    "Spec_Harness h \<in> set (ssn_actors s) \<Longrightarrow> model_route_ok (haa_requested_model_route h)"
    by (simp_all add: admissible_session_def)
  from s obtain w where w: "w \<in> actor_id ` set (ssn_actors s)"
    "ssn_writer s = (if length (ssn_actors s) = 1 then Writer_Fixed w else Writer_Handoff w)" and "ssn_actors s \<noteq> []"
    by (auto simp: admissible_session_def)
  moreover from this have "length (ssn_actors s) = 1 \<or> 1 < length (ssn_actors s)" by (cases "ssn_actors s") auto
  ultimately show "writer_id (ssn_writer s) \<in> actor_id ` set (ssn_actors s)"
    "is_fixed (ssn_writer s) \<longleftrightarrow> \<not> 1 < length (ssn_actors s)"
    by (auto simp: is_fixed_def)
qed

lemma accepted_task_facts:
  assumes "TaskSpec_validate tdg raw = Inr t"
  shows "grf_evaluators (tsk_evaluation t) \<noteq> []" "distinct (map evl_evaluator_id (grf_evaluators (tsk_evaluation t)))"
    "grf_stages (tsk_evaluation t) \<noteq> []" "distinct (map stg_stage_id (grf_stages (tsk_evaluation t)))"
    "\<forall>s\<in>set (grf_stages (tsk_evaluation t)). stg_evaluator_id s \<in> evl_evaluator_id ` set (grf_evaluators (tsk_evaluation t))"
    "sort_key stg_stage_id (grf_stages (tsk_evaluation t)) = grf_stages (tsk_evaluation t)"
    "set (dict_keys (dict_of vis_resource_id id (tsk_visibility t))) = res_resource_id ` set (tsk_resources t)"
    "set (dict_keys (dict_of lic_resource_id id (tsk_licensing t))) = res_resource_id ` set (tsk_resources t)"
    "set (qualification_resources (tsk_qualification t)) \<subseteq> res_resource_id ` set (tsk_resources t)"
    "1 \<le> idn_authoring_revision (tsk_identity t)"
proof -
  note checks = validate_task_checks [OF TaskSpec_validate_model [OF assms]]
  have stages: "check_stages t = Inr ()" and refs: "check_references tdg t = Inr ()" and vis: "check_visibility t = Inr ()"
    using TaskSpec_validate_model [OF assms] by (simp_all add: validate_task_def)
  have empty: "dict_of k v xs = [] \<longleftrightarrow> xs = []" for k :: "'a \<Rightarrow> 'b" and v :: "'a \<Rightarrow> 'c" and xs
    using dict_keys_dict_of [of k v xs] by (cases "dict_of k v xs") (auto simp: dict_of_def)
  show "grf_evaluators (tsk_evaluation t) \<noteq> []" "distinct (map evl_evaluator_id (grf_evaluators (tsk_evaluation t)))"
    "grf_stages (tsk_evaluation t) \<noteq> []"
    "\<forall>s\<in>set (grf_stages (tsk_evaluation t)). stg_evaluator_id s \<in> evl_evaluator_id ` set (grf_evaluators (tsk_evaluation t))"
    using stages by (auto simp: check_stages_def Let_def length_dict_of_distinct dict_simps empty split: if_splits)
  show "distinct (map stg_stage_id (grf_stages (tsk_evaluation t)))" by (rule check_stages_facts(1) [OF stages])
  have same: "validate_task tdg x = Inr y \<Longrightarrow> y = x" for x y by (auto simp: validate_task_def)
  from assms obtain g where "EvaluationGraph_validate g = Inr (tsk_evaluation t)"
    unfolding TaskSpec_validate_def by (auto simp: lift_field_def split: sum.splits dest!: same)
  then show "sort_key stg_stage_id (grf_stages (tsk_evaluation t)) = grf_stages (tsk_evaluation t)"
    by (auto simp: EvaluationGraph_validate_def dest!: sym [of _ "tsk_evaluation t"])
  show "set (dict_keys (dict_of vis_resource_id id (tsk_visibility t))) = res_resource_id ` set (tsk_resources t)"
    by (rule check_visibility_keys [OF vis])
  show "set (dict_keys (dict_of lic_resource_id id (tsk_licensing t))) = res_resource_id ` set (tsk_resources t)"
    using vis by (auto simp: check_visibility_def Let_def split: if_splits)
  from assms obtain i where "TaskIdentity_validate i = Inr (tsk_identity t)"
    unfolding TaskSpec_validate_def by (auto simp: lift_field_def split: sum.splits dest!: same)
  then show "1 \<le> idn_authoring_revision (tsk_identity t)"
    by (auto simp: TaskIdentity_validate_def split: if_splits dest!: sym [of _ "tsk_identity t"])
  show "set (qualification_resources (tsk_qualification t)) \<subseteq> res_resource_id ` set (tsk_resources t)"
    using refs by (auto simp: check_references_def referenced_resources_def Let_def split: if_splits option.splits)
qed

subsection \<open>Computations that only raise expected errors\<close>

text \<open>
  Besides its own errors, resolution can only fail where a specification has no canonical encoding and where the run binding is
  refused; \<open>expected ok E\<close> are the failures left when all encodings exist or \<open>ok\<close> is false, with the refusals in \<open>E\<close>.
\<close>

definition resolution_encodable :: "resolution_digests \<Rightarrow> TaskSpec \<Rightarrow> TaskInstance \<Rightarrow> ReleaseManifest \<Rightarrow> EnvironmentSpec
    \<Rightarrow> SessionSpec \<Rightarrow> bool" where
  "resolution_encodable dg t i release e s \<longleftrightarrow> rsd_task dg t \<noteq> None \<and> rsd_instance dg i \<noteq> None \<and> rsd_release dg release \<noteq> None
     \<and> rsd_environment dg e \<noteq> None \<and> rsd_session dg s \<noteq> None \<and> rsd_feedback dg (ssn_feedback s) \<noteq> None
     \<and> rsd_budget dg (ssn_resources s) (ssn_model_budget s) \<noteq> None
     \<and> (\<forall>x\<in>set (env_participant_operations e). rsd_operation dg x \<noteq> None) \<and> policy_digest_of dg e \<noteq> None
     \<and> rsd_measurements dg (tsk_measurements t) \<noteq> None
     \<and> (\<forall>scorer. grf_scorer (tsk_evaluation t) = Some scorer \<longrightarrow> rsd_scorer dg scorer \<noteq> None)"

definition expected :: "bool \<Rightarrow> run_error set \<Rightarrow> resolution_failure set" where
  "expected ok E = range Not_resolved \<union> (if ok then {} else {Not_encodable}) \<union> Invalid_binding ` E"

lemma expected_fault [simp]: "Not_resolved f \<in> expected ok E"
  by (simp add: expected_def)

lemma expected_basic [simp]: "raises_only (expected ok E) (Inl (Not_resolved f))" "raises_only (expected ok E) (reject_when b f)"
  by (simp_all add: reject_when_def)

lemma expected_lookup: "k \<in> set (dict_keys d) \<Longrightarrow> raises_only (expected ok E) (lookup_in d k)"
  by (auto simp: raises_only_def lookup_in_def dict_simps split: option.splits)

lemma expected_encoded: "(ok \<Longrightarrow> d \<noteq> None) \<Longrightarrow> raises_only (expected ok E) (encoded d)"
  by (auto simp: encoded_def expected_def split: option.split)

lemma expected_lift: "raises_only E m \<Longrightarrow> raises_only (expected ok E) (lift_binding m)"
  by (auto simp: lift_binding_def expected_def raises_only_def split: sum.splits)

lemmas faults = raising expected_basic expected_lookup expected_encoded

lemma reject_when_Inr [simp]: "reject_when b f = Inr u \<longleftrightarrow> \<not> b"
  by (simp add: reject_when_def)

lemma lookup_in_Inr [simp]: "lookup_in d k = Inr v \<longleftrightarrow> dict_get d k = Some v"
  by (simp add: lookup_in_def split: option.split)

lemma encoded_Inr [simp]: "encoded d = Inr v \<longleftrightarrow> d = Some v"
  by (simp add: encoded_def split: option.split)

lemma lift_binding_Inr [simp]: "lift_binding m = Inr x \<longleftrightarrow> m = Inr x"
  by (simp add: lift_binding_def split: sum.split)

lemma check_parameter_faults: "raises_only (expected ok E) (check_parameter d v)"
  by (cases d; cases v) (auto intro: faults)

lemma validate_instance_faults:
  assumes "ok \<Longrightarrow> rsd_task dg task \<noteq> None"
  shows "raises_only (expected ok E) (validate_instance dg task i)"
  unfolding validate_instance_def Let_def
proof (intro raises_only_bind raises_only_Inr expected_basic expected_encoded raises_only_check_each assms)
  let ?bound = "dict_of value_parameter_id id (tii_parameters (tin_identity i))"
    and ?domains = "dict_of parameter_id id (gen_parameters (tsk_generator task))"
  fix x p assume "reject_when (set (dict_keys ?bound) \<noteq> set (dict_keys ?domains)) Parameters_incomplete = Inr x" "p \<in> set ?domains"
  then have "fst p \<in> set (dict_keys ?bound)" by (force simp: dict_keys_def)
  then show "raises_only (expected ok E) (case p of (k, domain) \<Rightarrow> bind_result (lookup_in ?bound k) (check_parameter domain))"
    by (cases p) (auto intro!: faults check_parameter_faults)
qed

lemma check_generated_file_faults:
  assumes "set (dict_keys (dict_of vis_resource_id id (tsk_visibility t))) = res_resource_id ` set (tsk_resources t)"
    "set (dict_keys (dict_of lic_resource_id id (tsk_licensing t))) = res_resource_id ` set (tsk_resources t)"
  shows "raises_only (expected ok E) (check_generated_file t g)"
  unfolding check_generated_file_def Let_def check_source_def
  by (intro raises_only_bind raises_only_Inr expected_basic raises_only_check_each raises_only_if expected_lookup)
    (use assms in \<open>auto simp: dict_keys_dict_of\<close>)

lemma validate_release_faults:
  assumes "TaskSpec_validate tdg raw = Inr t" "ok \<Longrightarrow> resolution_encodable dg t i release e s"
  shows "raises_only (expected ok E) (validate_release dg t i release e)"
proof -
  note facts = accepted_task_facts [OF assms(1)]
  have "raises_only (expected ok E) (check_flow_release (dict_of res_resource_id id (tsk_resources t)) q r)"
    if "tsk_qualification t = Qualification_EdaFlow q" for q r
    using facts(9) that by (auto simp: check_flow_release_def dict_keys_dict_of
        intro!: faults split: TaskReleaseQualification.split)
  moreover have "raises_only (expected ok E) (check_sail_release q r)" for q r
    by (auto simp: check_sail_release_def intro!: faults split: TaskReleaseQualification.split)
  ultimately show ?thesis
    unfolding validate_release_def
    by (intro raises_only_bind raises_only_Inr expected_basic expected_encoded raises_only_check_each
        check_generated_file_faults [OF facts(7,8)])
      (use assms(2) in \<open>auto simp: resolution_encodable_def split: TaskQualificationSpec.split\<close>)
qed

subsection \<open>The constructed binding\<close>

lemma run_actor_of_facts:
  "run_actor_id (run_actor_of a) = actor_id a"
  "run_actor_of a = Run_Harness h \<longleftrightarrow> (\<exists>g. a = Spec_Harness g \<and> h = \<lparr>har_actor_id = haa_actor_id g,
     har_harness_digest = haa_harness_digest g, har_scaffold_digest = haa_scaffold_digest g,
     har_requested_model_route = haa_requested_model_route g\<rparr>)"
  by (cases a; auto)+

lemma session_binding_faults:
  assumes "SessionSpec_validate raw = Inr s" "ok \<Longrightarrow> resolution_encodable dg t i release e s"
  shows "raises_only (expected ok E) (session_binding_of dg s)"
proof -
  note facts = SessionSpec_facts [OF assms(1)]
  have actors: "map_result RunActor_validate (map run_actor_of (ssn_actors s)) = Inr (map run_actor_of (ssn_actors s))"
  proof (rule run_actors_valid)
    fix h assume "Run_Harness h \<in> set (map run_actor_of (ssn_actors s))"
    then obtain g where "Spec_Harness g \<in> set (ssn_actors s)" "har_requested_model_route h = haa_requested_model_route g"
      by (auto simp: run_actor_of_facts(2) dest!: sym [of "Run_Harness h"])
    with facts(5) show "1 \<le> length (har_requested_model_route h) \<and> length (har_requested_model_route h) \<le> 160"
      by (simp add: model_route_ok_def)
  qed
  have valid: "raises_only E (SessionRunBinding_validate b)"
    if "srb_actors b = map run_actor_of (ssn_actors s)" "srb_initial_writer b = writer_id (ssn_writer s)"
      "srb_handoff_enabled b = (\<not> is_fixed (ssn_writer s))" for b
  proof -
    have "SessionRunBinding_validate b = Inr (b\<lparr>srb_actors := sort_key run_actor_id (srb_actors b)\<rparr>)"
      using facts(1-4) actors that by (simp add: SessionRunBinding_validate_Inr comp_def run_actor_of_facts(1))
    then show ?thesis by simp
  qed
  show ?thesis
    unfolding session_binding_of_def
    by (intro raises_only_bind raises_only_Inr expected_encoded expected_lift valid)
      (use assms(2) actors in \<open>auto simp: resolution_encodable_def\<close>)
qed

lemma session_binding_valid:
  assumes "session_binding_of dg s = Inr b"
  shows "SessionRunBinding_validate b = Inr b"
  using assms by (auto simp: session_binding_of_def intro: session_binding_again)

lemma EnvironmentRunBinding_validate_Inr:
  "EnvironmentRunBinding_validate e = Inr e' \<longleftrightarrow> erb_tools e \<noteq> [] \<and> distinct (map rtb_capability (erb_tools e))
     \<and> (\<forall>t\<in>set (erb_tools e). 1 \<le> length (rtb_tool_version t) \<and> length (rtb_tool_version t) \<le> 120)
     \<and> distinct (map rpo_operation_id (erb_participant_operations e)) \<and> distinct (map rab_asset_id (erb_assets e))
     \<and> (\<forall>p\<in>set (erb_participant_operations e). \<exists>t\<in>set (erb_tools e). rtb_capability t = rpo_capability p \<and> rtb_tool_id t = rpo_tool_id p)
     \<and> e' = e\<lparr>erb_tools := sort_key (\<lambda>t. capability_value (rtb_capability t)) (erb_tools e),
         erb_participant_operations := sort_key rpo_operation_id (erb_participant_operations e),
         erb_assets := sort_key rab_asset_id (erb_assets e)\<rparr>"
  by (auto simp: EnvironmentRunBinding_validate_def list_ex_iff split: if_splits) (force+)?

lemma environment_binding_again:
  assumes "EnvironmentRunBinding_validate e = Inr e'"
  shows "EnvironmentRunBinding_validate e' = Inr e'"
  using assms by (auto simp: EnvironmentRunBinding_validate_Inr)

lemma environment_binding_valid:
  assumes e: "EnvironmentSpec_validate raw = Inr e" and t: "TaskSpec_validate tdg rawt = Inr t"
    and cov: "required_capabilities t e \<subseteq> set (dict_keys (dict_of tlb_capability id (env_tool_bindings e)))"
    and ops: "map_result (resolved_operation dg) (env_participant_operations e) = Inr ops"
  shows "\<exists>b. EnvironmentRunBinding_validate (environment_binding_of t e d policy ops) = Inr b"
proof -
  note model = EnvironmentSpec_model [OF e] and env = validate_environment_facts [OF EnvironmentSpec_model(1) [OF e]]
    and task = accepted_task_facts [OF t]
  let ?tools = "filter (\<lambda>b. tlb_capability b \<in> required_capabilities t e) (env_tool_bindings e)"
  have caps: "tlb_capability ` set ?tools = required_capabilities t e"
    using cov by (force simp: dict_keys_dict_of)
  have "required_capabilities t e \<noteq> {}"
    using task(1) by (cases "grf_evaluators (tsk_evaluation t)") (auto simp: required_capabilities_def)
  with caps have ne: "?tools \<noteq> []" by (metis image_empty list.set(1))
  have d: "distinct (map tlb_capability ?tools)" using env(1) by (simp add: distinct_map_filter)
  have "list_all2 (\<lambda>x p. pob_operation_id x = rpo_operation_id p) (env_participant_operations e) ops"
    using ops unfolding map_result_Inr by (rule list_all2_mono) (auto simp: resolved_operation_def)
  then have ids: "map rpo_operation_id ops = map pob_operation_id (env_participant_operations e)" by (rule list_all2_eq_map)
  have tool: "\<exists>b\<in>set ?tools. tlb_capability b = rpo_capability p \<and> tlb_tool_id b = rpo_tool_id p" if "p \<in> set ops" for p
  proof -
    from map_result_set [OF ops that] obtain x where x: "x \<in> set (env_participant_operations e)"
      "rpo_capability p = pob_capability x" "rpo_tool_id p = pob_tool_id x"
      by (auto simp: resolved_operation_def)
    moreover from x(1) env(3) obtain b where "b \<in> set (env_tool_bindings e)" "tlb_capability b = pob_capability x" "tlb_tool_id b = pob_tool_id x"
      by blast
    moreover from x(1) have "pob_capability x \<in> required_capabilities t e" by (simp add: required_capabilities_def)
    ultimately show ?thesis by auto
  qed
  show ?thesis
    using ne d model(2,4) env(2) tool
    by (simp add: EnvironmentRunBinding_validate_Inr environment_binding_of_def resolved_tool_def comp_def ids Bex_def)
qed

text \<open>The run binding of valid parts is refused for its trial key or for a purpose that does not go with a campaign, and for nothing else.\<close>

lemma RunBinding_validate_parts:
  assumes "TaskRunBinding_validate (bnd_task b) = Inr (bnd_task b)"
    "EnvironmentRunBinding_validate (bnd_environment b) = Inr (bnd_environment b)"
    "SessionRunBinding_validate (bnd_session b) = Inr (bnd_session b)"
    "case bnd_campaign b of None \<Rightarrow> True | Some c \<Rightarrow> CampaignTrialRunBinding_validate c = Inr c"
    "RunLineage_validate (bnd_lineage b) = Inr (bnd_lineage b)"
    "bnd_evaluators b \<noteq> []" "distinct (map evb_evaluator_id (bnd_evaluators b))"
  shows "RunBinding_validate b =
    (if \<not> identifier_ok (bnd_trial_key b) then Inl Run_range
     else if (bnd_purpose b \<in> {Purpose_CAMPAIGN_TRIAL, Purpose_SYNTHETIC_PREFLIGHT}) \<noteq> (bnd_campaign b \<noteq> None)
     then Inl Campaign_binding
     else Inr (b\<lparr>bnd_evaluators := sort_key evb_evaluator_id (bnd_evaluators b)\<rparr>))"
  using assms by (cases "bnd_campaign b") (simp_all add: RunBinding_validate_def)

definition binding_refusals :: "string \<Rightarrow> CampaignTrialRunBinding option \<Rightarrow> RunPurpose option \<Rightarrow> run_error set" where
  "binding_refusals trial_key campaign purpose =
     {e. e = Run_range \<and> \<not> identifier_ok trial_key \<or> e = Campaign_binding \<and> campaign \<noteq> None \<and> purpose = Some Purpose_STANDARD}"

lemma resolved_purpose_campaign:
  "(resolved_purpose campaign purpose \<in> {Purpose_CAMPAIGN_TRIAL, Purpose_SYNTHETIC_PREFLIGHT}) \<noteq> (campaign \<noteq> None)
     \<longleftrightarrow> campaign \<noteq> None \<and> purpose = Some Purpose_STANDARD"
proof (cases purpose)
  case (Some p) then show ?thesis by (cases p) (auto simp: resolved_purpose_def)
qed (auto simp: resolved_purpose_def)

lemma binding_faults:
  assumes e: "EnvironmentSpec_validate rawe = Inr e" and t: "TaskSpec_validate tdg rawt = Inr t"
    and s: "SessionRunBinding_validate sb = Inr sb"
    and cov: "required_capabilities t e \<subseteq> set (dict_keys (dict_of tlb_capability id (env_tool_bindings e)))"
    and ops: "map_result (resolved_operation dg) (env_participant_operations e) = Inr ops"
    and lin: "case lineage of None \<Rightarrow> True | Some l \<Rightarrow> RunLineage_validate l = Inr l"
    and cam: "case campaign of None \<Rightarrow> True | Some c \<Rightarrow> CampaignTrialRunBinding_validate c = Inr c"
    and enc: "ok \<Longrightarrow> resolution_encodable dg t i release e s"
  shows "raises_only (expected ok (binding_refusals trial_key campaign purpose))
    (binding_of dg t i release e sb ops policy trial_key campaign purpose lineage)"
proof -
  let ?E = "binding_refusals trial_key campaign purpose"
  note task = accepted_task_facts [OF t]
  have lineage: "RunLineage_validate (case lineage of None \<Rightarrow> no_lineage | Some l \<Rightarrow> l)
      = Inr (case lineage of None \<Rightarrow> no_lineage | Some l \<Rightarrow> l)"
    using lin by (cases lineage) (simp_all add: no_lineage_def RunLineage_validate_def)
  have task_ok: "raises_only (expected ok ?E) (task_binding_of dg t i release)"
    unfolding task_binding_of_def
    by (intro raises_only_bind expected_encoded expected_lift)
      (use enc task(10) in \<open>auto simp: resolution_encodable_def TaskRunBinding_validate_def\<close>)
  have scorer_ok: "raises_only (expected ok ?E) (scorer_digest_of dg (grf_scorer (tsk_evaluation t)))"
    using enc by (cases "grf_scorer (tsk_evaluation t)") (auto simp: scorer_digest_of_def resolution_encodable_def intro!: faults)
  have env_ok: "raises_only (expected ok ?E) (lift_binding (EnvironmentRunBinding_validate (environment_binding_of t e d policy ops)))" for d
    using environment_binding_valid [OF e t cov ops, of d policy] by (auto simp: lift_binding_def)
  have run_ok: "raises_only (expected ok ?E) (lift_binding (RunBinding_validate b))"
    if "task_binding_of dg t i release = Inr (bnd_task b)" "\<exists>raw. EnvironmentRunBinding_validate raw = Inr (bnd_environment b)"
      "bnd_session b = sb" "bnd_trial_key b = trial_key" "bnd_campaign b = campaign" "bnd_purpose b = resolved_purpose campaign purpose"
      "bnd_lineage b = (case lineage of None \<Rightarrow> no_lineage | Some l \<Rightarrow> l)"
      "bnd_evaluators b = map (\<lambda>e. \<lparr>evb_evaluator_id = evl_evaluator_id e, evb_revision_digest = evl_revision_digest e\<rparr>)
        (grf_evaluators (tsk_evaluation t))" for b
  proof (rule expected_lift)
    have "TaskRunBinding_validate (bnd_task b) = Inr (bnd_task b)"
      using that(1) by (auto simp: task_binding_of_def TaskRunBinding_validate_def split: if_splits dest!: sym [of _ "bnd_task b"])
    then have "RunBinding_validate b =
      (if \<not> identifier_ok trial_key then Inl Run_range
       else if (resolved_purpose campaign purpose \<in> {Purpose_CAMPAIGN_TRIAL, Purpose_SYNTHETIC_PREFLIGHT}) \<noteq> (campaign \<noteq> None)
       then Inl Campaign_binding
       else Inr (b\<lparr>bnd_evaluators := sort_key evb_evaluator_id (bnd_evaluators b)\<rparr>))"
      using environment_binding_again that(2) s lineage cam task(1,2) that(3-8)
      by (subst RunBinding_validate_parts) (auto simp add: comp_def)
    then show "raises_only ?E (RunBinding_validate b)"
      unfolding resolved_purpose_campaign by (simp add: binding_refusals_def)
  qed
  show ?thesis
    unfolding binding_of_def
    by (intro raises_only_bind expected_encoded task_ok scorer_ok env_ok run_ok) (use enc in \<open>auto simp: resolution_encodable_def\<close>)
qed

subsection \<open>Resolution\<close>

lemma resolve_run_faults:
  assumes e: "EnvironmentSpec_validate rawe = Inr e" and t: "TaskSpec_validate tdg rawt = Inr t"
    and s: "SessionSpec_validate raws = Inr s"
    and lin: "case lineage of None \<Rightarrow> True | Some l \<Rightarrow> RunLineage_validate l = Inr l"
    and cam: "case campaign of None \<Rightarrow> True | Some c \<Rightarrow> CampaignTrialRunBinding_validate c = Inr c"
  shows "raises_only (expected (resolution_encodable dg t i release e s) (binding_refusals trial_key campaign purpose))
    (resolve_run dg t i release e s trial_key campaign purpose lineage)" (is "raises_only ?F _")
proof -
  note task = accepted_task_facts [OF t]
  let ?tools = "dict_of tlb_capability id (env_tool_bindings e)"
    and ?evaluators = "dict_of evl_evaluator_id id (grf_evaluators (tsk_evaluation t))"
  have "raises_only ?F (validate_session_environment s e)" "raises_only ?F (validate_candidate_execution e s campaign)"
    "raises_only ?F (validate_participant_operations release e)"
    unfolding validate_session_environment_def validate_candidate_execution_def validate_participant_operations_def
    by (intro raising expected_basic)+
  moreover have "raises_only ?F (assign_stage ?evaluators ?tools stage)"
    if "required_capabilities t e \<subseteq> set (dict_keys ?tools)" "stage \<in> set (grf_stages (tsk_evaluation t))" for stage
    unfolding assign_stage_def
  proof (intro raises_only_bind raises_only_Inr expected_basic expected_lookup)
    show "stg_evaluator_id stage \<in> set (dict_keys ?evaluators)" using task(5) that(2) by (simp add: dict_keys_dict_of)
    fix evaluator assume "lookup_in ?evaluators (stg_evaluator_id stage) = Inr evaluator"
    then have "evaluator \<in> set (grf_evaluators (tsk_evaluation t))" by (auto dest!: dict_get_dict_of_SomeD)
    with that(1) show "evl_capability evaluator \<in> set (dict_keys ?tools)" by (auto simp: required_capabilities_def)
  qed
  moreover have "raises_only ?F (resolved_operation dg x)" if "x \<in> set (env_participant_operations e)" for x
    unfolding resolved_operation_def
    by (intro raises_only_bind raises_only_Inr expected_encoded) (use that in \<open>auto simp: resolution_encodable_def\<close>)
  moreover have "raises_only ?F (encoded (policy_digest_of dg e))"
    by (rule expected_encoded) (simp add: resolution_encodable_def)
  moreover have "raises_only ?F (ResolvedRunPlan_validate \<lparr>rrp_binding = b, rrp_stage_drivers = ds\<rparr>)"
    if "map_result (assign_stage ?evaluators ?tools) (grf_stages (tsk_evaluation t)) = Inr ds" for b ds
  proof -
    have "map sda_stage_id ds = map stg_stage_id (grf_stages (tsk_evaluation t))"
      using that by (intro list_all2_eq_map) (auto simp: map_result_Inr assign_stage_def elim!: list_all2_mono)
    then show ?thesis using task(3,4) by (auto simp: ResolvedRunPlan_validate_def Let_def)
  qed
  moreover have "raises_only ?F (validate_instance dg t i)" by (rule validate_instance_faults) (simp add: resolution_encodable_def)
  moreover have "raises_only ?F (validate_release dg t i release e)" by (rule validate_release_faults [OF t])
  moreover have "raises_only ?F (session_binding_of dg s)" by (rule session_binding_faults [OF s])
  moreover note binding_faults [OF e t session_binding_valid _ _ lin cam]
  ultimately show ?thesis
    unfolding resolve_run_def Let_def by (intro raises_only_bind expected_basic raises_only_map) simp_all
qed

lemma resolve_run_Inr:
  assumes "resolve_run dg t i release e s trial_key campaign purpose lineage = Inr plan"
  obtains ds b sb ops policy where "validate_instance dg t i = Inr ()" "validate_release dg t i release e = Inr ()"
    "validate_session_environment s e = Inr ()" "validate_candidate_execution e s campaign = Inr ()"
    "validate_participant_operations release e = Inr ()"
    "required_capabilities t e \<subseteq> set (dict_keys (dict_of tlb_capability id (env_tool_bindings e)))"
    "map_result (assign_stage (dict_of evl_evaluator_id id (grf_evaluators (tsk_evaluation t)))
       (dict_of tlb_capability id (env_tool_bindings e))) (grf_stages (tsk_evaluation t)) = Inr ds"
    "session_binding_of dg s = Inr sb"
    "binding_of dg t i release e sb ops policy trial_key campaign purpose lineage = Inr b"
    "plan = \<lparr>rrp_binding = b, rrp_stage_drivers = sort_key sda_stage_id ds\<rparr>"
  using assms unfolding resolve_run_def Let_def
  by (auto simp: ResolvedRunPlan_validate_def Let_def split: if_splits)

text \<open>What a successful resolution records of the environment and of the session.\<close>

lemma binding_of_Inr:
  assumes "binding_of dg t i release e sb ops policy trial_key campaign purpose lineage = Inr b" "SessionRunBinding_validate sb = Inr sb"
  shows "erb_tools (bnd_environment b) = sort_key (\<lambda>t. capability_value (rtb_capability t))
      (map resolved_tool (filter (\<lambda>tool. tlb_capability tool \<in> required_capabilities t e) (env_tool_bindings e)))"
    "bnd_session b = sb" "\<exists>raw. RunBinding_validate raw = Inr b"
proof -
  from assms(1) obtain d eb raw where
    eb: "EnvironmentRunBinding_validate (environment_binding_of t e d policy ops) = Inr eb"
    and raw: "RunBinding_validate raw = Inr b" "bnd_environment raw = eb" "bnd_session raw = sb"
    unfolding binding_of_def by (auto simp: )
  then show "\<exists>raw. RunBinding_validate raw = Inr b" by blast
  from raw environment_binding_again [OF eb] assms(2) have "bnd_environment b = eb" "bnd_session b = sb"
    by (auto simp: RunBinding_validate_def split: if_splits dest!: sym [of _ b])
  with eb show "erb_tools (bnd_environment b) = sort_key (\<lambda>t. capability_value (rtb_capability t))
      (map resolved_tool (filter (\<lambda>tool. tlb_capability tool \<in> required_capabilities t e) (env_tool_bindings e)))"
    "bnd_session b = sb"
    by (simp_all add: EnvironmentRunBinding_validate_Inr environment_binding_of_def)
qed

text \<open>The model routes of a resolved run are those of its session, so they have the form that every later document demands.\<close>

lemma resolved_routes:
  assumes "SessionSpec_validate raws = Inr s" "resolve_run dg t i release e s trial_key campaign purpose lineage = Inr plan"
    "Run_Harness h \<in> set (srb_actors (bnd_session (rrp_binding plan)))"
  shows "model_route_ok (har_requested_model_route h)"
  using assms(2)
proof (rule resolve_run_Inr)
  fix ds b sb ops policy
  assume sb: "session_binding_of dg s = Inr sb"
    and b: "binding_of dg t i release e sb ops policy trial_key campaign purpose lineage = Inr b"
    and plan: "plan = \<lparr>rrp_binding = b, rrp_stage_drivers = sort_key sda_stage_id ds\<rparr>"
  from sb have "set (srb_actors sb) = set (map run_actor_of (ssn_actors s))"
    by (auto simp: session_binding_of_def SessionRunBinding_validate_Inr dest!: run_actors_same)
  moreover have "Run_Harness h \<in> set (srb_actors sb)"
    using assms(3) binding_of_Inr(2) [OF b session_binding_valid [OF sb]] by (simp add: plan)
  ultimately obtain a where "a \<in> set (ssn_actors s)" "run_actor_of a = Run_Harness h" by auto
  then show ?thesis using SessionSpec_facts(5) [OF assms(1)] by (auto simp: run_actor_of_facts(2))
qed

lemma assign_stage_Inr:
  assumes "assign_stage (dict_of evl_evaluator_id id evaluators) (dict_of tlb_capability id tools) stage = Inr d"
  obtains evaluator tool where "evaluator \<in> set evaluators" "tool \<in> set tools"
    "evl_evaluator_id evaluator = stg_evaluator_id stage" "tlb_capability tool = evl_capability evaluator"
    "d = \<lparr>sda_stage_id = stg_stage_id stage, sda_evaluator_id = stg_evaluator_id stage,
         sda_capability = evl_capability evaluator, sda_tool_id = tlb_tool_id tool, sda_driver_id = tlb_driver_id tool,
         sda_driver_digest = tlb_driver_digest tool\<rparr>"
  using assms by (auto simp: assign_stage_def dest!: dict_get_dict_of_SomeD)

lemma check_generated_file_Inr:
  assumes "check_generated_file t f = Inr ()" "r \<in> set (gnf_source_resource_ids f)"
  shows "\<exists>item. dict_get (dict_of vis_resource_id id (tsk_visibility t)) r = Some item
    \<and> vis_visibility item \<in> visible_sources (gnf_visibility f)
    \<and> sensitivity_rank (vis_sensitivity item) \<le> sensitivity_rank (gnf_sensitivity f)
    \<and> (gnf_redistribution f = Redistribution_ALLOWED \<longrightarrow>
       (\<exists>l. dict_get (dict_of lic_resource_id id (tsk_licensing t)) r = Some l \<and> lic_redistribution l = Redistribution_ALLOWED))"
proof -
  have "check_source (dict_of vis_resource_id id (tsk_visibility t)) (dict_of lic_resource_id id (tsk_licensing t)) f r = Inr ()"
    using assms by (simp add: check_generated_file_def Let_def)
  then show ?thesis by (auto simp: check_source_def not_less split: if_splits)
qed

subsection \<open>Retention rules always exist\<close>

lemma ArtifactPolicy_covers:
  assumes "ArtifactPolicy_validate raw = Inr p"
  shows "\<exists>r. retention_rule p c = Inr r"
proof -
  from assms have "set (map arr_artifact_class (apl_rules p)) = set all_artifact_classes"
    by (auto simp: ArtifactPolicy_validate_def Let_def split: if_splits)
  moreover have "c \<in> set all_artifact_classes" by (cases c) (simp_all add: all_artifact_classes_def)
  ultimately have "c \<in> arr_artifact_class ` set (apl_rules p)" by simp
  then obtain r where "r \<in> set (apl_rules p)" "arr_artifact_class r = c" by auto
  then have "find (\<lambda>r. arr_artifact_class r = c) (apl_rules p) \<noteq> None" by (auto simp: find_None_iff)
  then show ?thesis by (auto simp: retention_rule_def)
qed

lemma validate_environment_finds_rules:
  assumes "ArtifactPolicy_validate raw = Inr (env_artifact_policy e)"
  shows "validate_environment e \<noteq> Inl Env_stop_iteration"
proof -
  have found [simp]: "retention_rule (env_artifact_policy e) c \<noteq> Inl x" for c x
    using ArtifactPolicy_covers [OF assms, of c] by auto
  have check [simp]: "env_check b x = Inl Env_stop_iteration \<longleftrightarrow> b \<and> x = Env_stop_iteration" for b x
    by (simp add: env_check_def)
  note unfolded = bind_result_eq_Inl Let_def
  have "check_operation e x \<noteq> Inl Env_stop_iteration" for x
    by (auto simp: check_operation_def persistent_disclosure_def unfolded split: option.splits dest!: check_each_Inl)
  moreover have "check_licenses e \<noteq> Inl Env_stop_iteration"
    by (auto simp: check_licenses_def unfolded split: if_splits dest!: check_each_Inl)
  moreover have "check_locators e \<noteq> Inl Env_stop_iteration" "check_mounts e \<noteq> Inl Env_stop_iteration"
    "check_checkpoint e \<noteq> Inl Env_stop_iteration"
    by (auto simp: check_locators_def check_mounts_def check_checkpoint_def unfolded split: option.splits dest!: check_each_Inl)
  ultimately show ?thesis
    by (auto simp: validate_environment_def unfolded dest!: check_each_Inl)
qed

end
