(* ===== verification/ResolutionProperties.thy ===== *)
theory ResolutionProperties
  imports ResolutionFacts
begin

section \<open>What a resolved run guarantees\<close>

text \<open>
  Properties of \<open>resolve_run\<close> over accepted specifications: it raises nothing but its own errors, the plan it
  returns assigns the environment's tools to all stages, no participant-visible file of the release
  derives from a hidden resource, and participant execution is isolated.
\<close>

subsection \<open>A concrete resolution\<close>

definition example_operation :: ParticipantOperationBinding where
  "example_operation = \<lparr>pob_operation_id = ''simulate'', pob_capability = RTL_SIMULATION, pob_tool_id = ''verilator'',
     pob_arguments = [Argument_Fixed ''--binary'', Argument_CandidateInput ''b.md'', Argument_Output ''log/run.txt''],
     pob_outputs = [\<lparr>poo_logical_id = ''log'', poo_path = ''log/run.txt'', poo_media_type = ''text/plain'',
       poo_artifact_class = Artifact_DIAGNOSTIC, poo_required = True\<rparr>]\<rparr>"

definition example_retention :: "ArtifactClass \<Rightarrow> ArtifactRetentionRule" where
  "example_retention c = \<lparr>arr_artifact_class = c, arr_retention_seconds = 60,
     arr_allowed_disclosures = [\<lparr>adc_sensitivity = Sensitivity_INTERNAL, adc_visibility = Visibility_PARTICIPANT,
       adc_redistribution = Redistribution_RESTRICTED\<rparr>]\<rparr>"

definition example_tool :: ToolBinding where
  "example_tool = \<lparr>tlb_capability = RTL_SIMULATION, tlb_tool_id = ''verilator'', tlb_tool_version = ''5.020'',
     tlb_driver_id = ''driver'', tlb_driver_digest = ''sha256:driver'',
     tlb_locator = Locator_Image \<lparr>itl_image_digest = ''sha256:image'', itl_executable = ''verilator'',
       itl_deployment_attestation_digest = ''sha256:attest''\<rparr>, tlb_license_binding_id = None\<rparr>"

definition example_environment :: EnvironmentSpec where
  "example_environment = \<lparr>env_identity = \<lparr>eid_environment_id = ''env'', eid_authoring_revision = 1, eid_provenance = []\<rparr>,
     env_executor = Executor_RootlessLocal \<lparr>exb_executor_id = ''local'', exb_implementation_digest = ''sha256:local'',
       rle_runtime = Runtime_PODMAN, rle_runtime_version = ''4.9.3'', rle_runtime_probe_digest = ''sha256:probe'',
       rle_image_digest = ''sha256:image''\<rparr>,
     env_tool_bindings = [example_tool], env_participant_operations = [example_operation], env_assets = [],
     env_filesystem = \<lparr>fsp_readonly_assets = [], fsp_workspace_target = ''/workspace'', fsp_artifact_target = ''/artifacts''\<rparr>,
     env_network = Network_None,
     env_resources = \<lparr>rsl_cpu_millicores = 1000, rsl_memory_bytes = 1024, rsl_pids = 16, rsl_disk_bytes = 1024,
       rsl_wall_seconds = 60, rsl_max_concurrency = 1, rsl_io_read_bytes_per_second = None,
       rsl_io_write_bytes_per_second = None\<rparr>,
     env_licenses = [], env_checkpoint = Checkpoint_NONE, env_application_checkpoint = None,
     env_artifact_policy = \<lparr>apl_quota_bytes = 4096, apl_encryption = Encryption_None,
       apl_rules = map example_retention (sort_key artifact_class_value all_artifact_classes)\<rparr>\<rparr>"

definition example_file :: GeneratedFile where
  "example_file = \<lparr>gnf_path = ''b.md'', gnf_content_digest = ''sha256:file'', gnf_media_type = ''text/markdown'',
     gnf_source_resource_ids = [''beh''], gnf_visibility = Visibility_PARTICIPANT,
     gnf_sensitivity = Sensitivity_INTERNAL, gnf_redistribution = Redistribution_ALLOWED\<rparr>"

definition example_instance :: TaskInstance where
  "example_instance = \<lparr>tin_identity = \<lparr>tii_task_family = ''family'', tii_authoring_revision = 1,
       tii_task_spec_digest = ''sha256:task'', tii_generator_digest = ''sha256:gen'',
       tii_seed = replicate 32 (CHR ''a''), tii_parameters = []\<rparr>,
     tin_generated_files = [example_file]\<rparr>"

definition example_release :: ReleaseManifest where
  "example_release = \<lparr>rlm_task_spec_digest = ''sha256:task'', rlm_task_instance_digest = ''sha256:instance'',
     rlm_participant_bundle_digest = ''sha256:p'', rlm_verifier_bundle_digest = ''sha256:v'',
     rlm_environment_digests = [''sha256:env''], rlm_files = [example_file],
     rlm_qualification = Release_FlowCandidate ''sha256:src''\<rparr>"

definition example_resolution_digests :: resolution_digests where
  "example_resolution_digests = \<lparr>rsd_task = \<lambda>_. Some ''sha256:task'', rsd_scorer = \<lambda>_. Some ''sha256:scorer'',
     rsd_measurements = \<lambda>_. Some ''sha256:measurements'', rsd_instance = \<lambda>_. Some ''sha256:instance'',
     rsd_release = \<lambda>_. Some ''sha256:release'', rsd_environment = \<lambda>_. Some ''sha256:env'', rsd_session = \<lambda>_. Some ''sha256:session'',
     rsd_feedback = \<lambda>_. Some ''sha256:feedback'', rsd_budget = \<lambda>_ _. Some ''sha256:budget'',
     rsd_operation = \<lambda>_. Some ''sha256:operation'', rsd_policy = \<lambda>_ _ _ _ _ _ _. Some ''sha256:policy''\<rparr>"

definition example_resolution :: "resolution_failure + ResolvedRunPlan" where
  "example_resolution = resolve_run example_resolution_digests example_task example_instance example_release
     example_environment example_session ''trial'' None None None"

lemma example_environment_accepted: "EnvironmentSpec_validate example_environment = Inr example_environment"
  by code_simp

lemma example_release_accepted:
  "ReleaseManifest_validate example_release = Inr example_release \<and> TaskInstance_validate example_instance = Inr example_instance"
  by code_simp

lemma example_resolved: "\<exists>plan. example_resolution = Inr plan"
proof -
  have "\<not> isl example_resolution" by code_simp
  then show ?thesis by (metis isl_def sum.exhaust)
qed

subsection \<open>Properties\<close>

text \<open>
  C20: on an accepted task, environment and session, with a valid lineage and campaign binding, resolution succeeds or fails in one of
  four ways: with a resolution error; with the encoder's error, when some specification it must digest has no canonical
  encoding; with a refused run binding, when the trial key is no identifier; or with a refused run binding, when a campaign is
  given the standard purpose. No lookup in it fails, and neither the session and environment bindings nor the plan it
  constructs are ever rejected by their own validators.
\<close>

theorem resolve_run_only_resolution_errors:
  assumes "EnvironmentSpec_validate rawe = Inr e" "TaskSpec_validate tdg rawt = Inr t" "SessionSpec_validate raws = Inr s"
    and "case lineage of None \<Rightarrow> True | Some l \<Rightarrow> RunLineage_validate l = Inr l"
    and "case campaign of None \<Rightarrow> True | Some c \<Rightarrow> CampaignTrialRunBinding_validate c = Inr c"
    and "resolve_run dg t i release e s trial_key campaign purpose lineage = Inl failure"
  shows "(\<exists>fault. failure = Not_resolved fault)
    \<or> failure = Not_encodable \<and> \<not> resolution_encodable dg t i release e s
    \<or> failure = Invalid_binding Run_range \<and> \<not> identifier_ok trial_key
    \<or> failure = Invalid_binding Campaign_binding \<and> campaign \<noteq> None \<and> purpose = Some Purpose_STANDARD"
  using raises_onlyD [OF resolve_run_faults [OF assms(1-5)] assms(6)]
  by (auto simp: expected_def binding_refusals_def split: if_splits)

definition example_stale_release :: ReleaseManifest where
  "example_stale_release = example_release\<lparr>rlm_qualification := Release_FlowCandidate ''sha256:old''\<rparr>"

definition example_campaign_binding :: CampaignTrialRunBinding where
  "example_campaign_binding = \<lparr>cam_campaign_digest = ''sha256:campaign'', cam_schedule_digest = ''sha256:schedule'',
     cam_scheduled_trial_digest = ''sha256:trial'', cam_paired_seed = replicate 32 CHR ''0'', cam_repetition_index = 0,
     cam_route_id = ''route'', cam_reasoning_effort = ''high'', cam_service_tier = ''standard''\<rparr>"

lemma example_failures:
  "resolve_run example_resolution_digests example_task example_instance example_stale_release
     example_environment example_session ''trial'' None None None = Inl (Not_resolved Stale_source)
   \<and> resolve_run example_resolution_digests example_task example_instance example_release
     example_environment example_session ''Trial 1'' None None None = Inl (Invalid_binding Run_range)
   \<and> resolve_run example_resolution_digests example_task example_instance example_release
     example_environment example_session ''trial'' (Some example_campaign_binding) (Some Purpose_STANDARD) None
       = Inl (Invalid_binding Campaign_binding)
   \<and> resolve_run (example_resolution_digests\<lparr>rsd_budget := \<lambda>_ _. None\<rparr>) example_task example_instance example_release
     example_environment example_session ''trial'' None None None = Inl Not_encodable
   \<and> CampaignTrialRunBinding_validate example_campaign_binding = Inr example_campaign_binding"
  by code_simp

theorem resolve_run_only_resolution_errors_witness:
  "\<not> identifier_ok ''Trial 1''
   \<and> \<not> resolution_encodable (example_resolution_digests\<lparr>rsd_budget := \<lambda>_ _. None\<rparr>) example_task example_instance example_release
       example_environment example_session"
proof -
  note only = resolve_run_only_resolution_errors [OF example_environment_accepted example_task_accepted example_session_accepted,
      where lineage = None and campaign = None and purpose = None, simplified option.case, OF TrueI TrueI]
  show ?thesis
    using example_failures only [of _ _ _ "''Trial 1''"] only [of _ _ _ "''trial''" Not_encodable] by blast
qed

text \<open>
  C21: a resolved plan covers the task: it has one driver per stage, in the order of the stages, each with the tool, the driver
  identifier and the driver digest of the environment's binding for the capability of the stage's evaluator. The tools
  recorded in the run binding are exactly the environment's bindings of the capabilities that the evaluators, their supporting
  tools and the participant operations require, each once, with its tool identifier, version, driver digest and deployment
  attestation; and every required capability has one.
\<close>

theorem resolved_plan_complete:
  assumes "EnvironmentSpec_validate rawe = Inr e" "TaskSpec_validate tdg rawt = Inr t"
    and "resolve_run dg t i release e s trial_key campaign purpose lineage = Inr plan"
  shows "list_all2 (\<lambda>stage d. \<exists>evaluator\<in>set (grf_evaluators (tsk_evaluation t)). \<exists>tool\<in>set (env_tool_bindings e).
           evl_evaluator_id evaluator = stg_evaluator_id stage \<and> tlb_capability tool = evl_capability evaluator
           \<and> d = \<lparr>sda_stage_id = stg_stage_id stage, sda_evaluator_id = evl_evaluator_id evaluator,
                sda_capability = evl_capability evaluator, sda_tool_id = tlb_tool_id tool,
                sda_driver_id = tlb_driver_id tool, sda_driver_digest = tlb_driver_digest tool\<rparr>)
    (grf_stages (tsk_evaluation t)) (rrp_stage_drivers plan)
    \<and> distinct (map rtb_capability (erb_tools (bnd_environment (rrp_binding plan))))
    \<and> set (erb_tools (bnd_environment (rrp_binding plan))) =
        {\<lparr>rtb_capability = tlb_capability tool, rtb_tool_id = tlb_tool_id tool, rtb_tool_version = tlb_tool_version tool,
          rtb_driver_digest = tlb_driver_digest tool, rtb_deployment_attestation_digest = locator_attestation (tlb_locator tool)\<rparr>
         |tool. tool \<in> set (env_tool_bindings e) \<and> tlb_capability tool \<in> required_capabilities t e}
    \<and> required_capabilities t e \<subseteq> rtb_capability ` set (erb_tools (bnd_environment (rrp_binding plan)))"
proof (rule resolve_run_Inr [OF assms(3)])
  fix ds b sb ops policy
  assume cov: "required_capabilities t e \<subseteq> set (dict_keys (dict_of tlb_capability id (env_tool_bindings e)))"
    and ds: "map_result (assign_stage (dict_of evl_evaluator_id id (grf_evaluators (tsk_evaluation t)))
       (dict_of tlb_capability id (env_tool_bindings e))) (grf_stages (tsk_evaluation t)) = Inr ds"
    and sb: "session_binding_of dg s = Inr sb"
    and b: "binding_of dg t i release e sb ops policy trial_key campaign purpose lineage = Inr b"
    and plan: "plan = \<lparr>rrp_binding = b, rrp_stage_drivers = sort_key sda_stage_id ds\<rparr>"
  have stages: "list_all2 (\<lambda>stage d. \<exists>evaluator\<in>set (grf_evaluators (tsk_evaluation t)). \<exists>tool\<in>set (env_tool_bindings e).
           evl_evaluator_id evaluator = stg_evaluator_id stage \<and> tlb_capability tool = evl_capability evaluator
           \<and> d = \<lparr>sda_stage_id = stg_stage_id stage, sda_evaluator_id = evl_evaluator_id evaluator,
                sda_capability = evl_capability evaluator, sda_tool_id = tlb_tool_id tool,
                sda_driver_id = tlb_driver_id tool, sda_driver_digest = tlb_driver_digest tool\<rparr>) (grf_stages (tsk_evaluation t)) ds"
    using ds unfolding map_result_Inr by (rule list_all2_mono) (erule assign_stage_Inr, force)
  then have ids: "map sda_stage_id ds = map stg_stage_id (grf_stages (tsk_evaluation t))"
    by (intro list_all2_eq_map) (auto elim!: list_all2_mono)
  have "sorted (map stg_stage_id (grf_stages (tsk_evaluation t)))"
    using accepted_task_facts(6) [OF assms(2)] by (metis sorted_sort_key)
  then have sorted: "sort_key sda_stage_id ds = ds" by (simp add: sort_key_id_if_sorted ids)
  let ?tools = "filter (\<lambda>tool. tlb_capability tool \<in> required_capabilities t e) (env_tool_bindings e)"
  note tools = binding_of_Inr(1) [OF b session_binding_valid [OF sb]]
  have set: "set (erb_tools (bnd_environment b)) = resolved_tool ` set ?tools" by (simp add: tools)
  have "distinct (map tlb_capability (env_tool_bindings e))"
    by (rule validate_environment_facts(1) [OF EnvironmentSpec_model(1) [OF assms(1)]])
  then have "distinct (map rtb_capability (erb_tools (bnd_environment b)))"
    by (simp add: tools comp_def resolved_tool_def distinct_map_filter)
  moreover have "required_capabilities t e \<subseteq> rtb_capability ` set (erb_tools (bnd_environment b))"
    using cov unfolding set by (fastforce simp: resolved_tool_def dict_keys_dict_of image_image)
  moreover have "set (erb_tools (bnd_environment b)) =
        {\<lparr>rtb_capability = tlb_capability tool, rtb_tool_id = tlb_tool_id tool, rtb_tool_version = tlb_tool_version tool,
          rtb_driver_digest = tlb_driver_digest tool, rtb_deployment_attestation_digest = locator_attestation (tlb_locator tool)\<rparr>
         |tool. tool \<in> set (env_tool_bindings e) \<and> tlb_capability tool \<in> required_capabilities t e}"
    unfolding set by (auto simp: resolved_tool_def)
  moreover have "rrp_binding plan = b" "rrp_stage_drivers plan = ds" by (simp_all add: plan sorted)
  ultimately show ?thesis using stages by simp
qed

theorem resolved_plan_complete_witness:
  "\<exists>plan. example_resolution = Inr plan \<and> length (rrp_stage_drivers plan) = 3
     \<and> RTL_SIMULATION \<in> rtb_capability ` set (erb_tools (bnd_environment (rrp_binding plan)))"
proof -
  from example_resolved obtain plan where plan: "example_resolution = Inr plan" by blast
  have caps: "required_capabilities example_task example_environment = {RTL_SIMULATION}" by code_simp
  note complete = resolved_plan_complete [OF example_environment_accepted example_task_accepted
      plan [unfolded example_resolution_def]]
  have "length (grf_stages (tsk_evaluation example_task)) = length (rrp_stage_drivers plan)"
    by (rule list_all2_lengthD [OF conjunct1 [OF complete]])
  moreover have "RTL_SIMULATION \<in> rtb_capability ` set (erb_tools (bnd_environment (rrp_binding plan)))"
    using complete unfolding caps by blast
  moreover have "length (grf_stages (tsk_evaluation example_task)) = 3" by code_simp
  ultimately show ?thesis using plan by auto
qed

text \<open>
  C18: a run can only be resolved on a release whose participant-visible files derive from resources the participant
  may see: through no chain of resource dependencies does a source of such a file reach a hidden qualification resource,
  the file is at least as sensitive as its sources, and it is redistributable only if they are.
\<close>

theorem release_files_leak_nothing:
  assumes "TaskSpec_validate tdg rawt = Inr t"
    and "resolve_run dg t i release e s trial_key campaign purpose lineage = Inr plan"
    and "f \<in> set (rlm_files release)" "gnf_visibility f \<in> {Visibility_PUBLIC, Visibility_PARTICIPANT}"
    and "r \<in> set (gnf_source_resource_ids f)" "(r, d) \<in> (resource_dependency t)\<^sup>*"
  shows "d \<notin> set (hidden_qualification_resources (tsk_qualification t))
    \<and> (\<exists>v. visibility_of t r = Some v \<and> v \<in> visible_sources (gnf_visibility f))
    \<and> (\<exists>item. dict_get (dict_of vis_resource_id id (tsk_visibility t)) r = Some item
         \<and> sensitivity_rank (vis_sensitivity item) \<le> sensitivity_rank (gnf_sensitivity f))
    \<and> (gnf_redistribution f = Redistribution_ALLOWED \<longrightarrow> (\<exists>l. dict_get (dict_of lic_resource_id id (tsk_licensing t)) r = Some l
         \<and> lic_redistribution l = Redistribution_ALLOWED))"
proof (rule resolve_run_Inr [OF assms(2)])
  assume "validate_release dg t i release e = Inr ()"
  with assms(3) have "check_generated_file t f = Inr ()" by (auto simp: validate_release_def)
  from check_generated_file_Inr [OF this assms(5)] obtain item where
    item: "dict_get (dict_of vis_resource_id id (tsk_visibility t)) r = Some item"
      "vis_visibility item \<in> visible_sources (gnf_visibility f)"
    and rest: "sensitivity_rank (vis_sensitivity item) \<le> sensitivity_rank (gnf_sensitivity f)"
      "gnf_redistribution f = Redistribution_ALLOWED \<longrightarrow>
       (\<exists>l. dict_get (dict_of lic_resource_id id (tsk_licensing t)) r = Some l \<and> lic_redistribution l = Redistribution_ALLOWED)"
    by blast
  have v: "visibility_of t r = Some (vis_visibility item)" by (simp add: visibility_of_def item(1))
  moreover have "vis_visibility item \<in> {Visibility_PUBLIC, Visibility_PARTICIPANT}" using item(2) assms(4) by auto
  ultimately have "d \<notin> set (hidden_qualification_resources (tsk_qualification t))"
    using hidden_unreachable [OF assms(1) _ _ assms(6)] by blast
  then show ?thesis using v item rest by blast
qed

theorem release_files_leak_nothing_witness:
  "''aux'' \<notin> set (hidden_qualification_resources (tsk_qualification example_task))
     \<and> (\<exists>v. visibility_of example_task ''beh'' = Some v \<and> v \<in> visible_sources Visibility_PARTICIPANT)"
proof -
  from example_resolved obtain plan where plan: "example_resolution = Inr plan" by blast
  have "example_file \<in> set (rlm_files example_release)" "''beh'' \<in> set (gnf_source_resource_ids example_file)"
    and v: "gnf_visibility example_file = Visibility_PARTICIPANT"
    by (simp_all add: example_release_def example_file_def)
  from release_files_leak_nothing [OF example_task_accepted plan [unfolded example_resolution_def] this(1) _ this(2)
      r_into_rtrancl [OF example_dependency]]
  show ?thesis by (simp add: v)
qed

text \<open>
  C19: in a resolved run, a candidate with participant authority executes on an isolating executor, as does every
  campaign trial; and every operation the environment offers runs a bound tool that is not a shell, reads only files
  of the release the participant may see, and declares no output that overlaps such a file.
\<close>

theorem resolved_execution_isolated:
  assumes "EnvironmentSpec_validate rawe = Inr e"
    and "resolve_run dg t i release e s trial_key campaign purpose lineage = Inr plan"
  shows "(campaign \<noteq> None \<or> ssn_candidate_authority s = Authority_PARTICIPANT \<longrightarrow> executor_is_participant_isolation (env_executor e))
    \<and> (\<forall>x\<in>set (env_participant_operations e).
        (\<exists>b\<in>set (env_tool_bindings e). tlb_capability b = pob_capability x \<and> tlb_tool_id b = pob_tool_id x
           \<and> \<not> executable_is_shell (locator_executable (tlb_locator b)))
        \<and> (\<forall>p\<in>set (candidate_input_paths x). \<exists>f\<in>set (rlm_files release).
            gnf_path f = p \<and> gnf_visibility f \<in> {Visibility_PUBLIC, Visibility_PARTICIPANT})
        \<and> (\<forall>p\<in>set (output_paths x). \<forall>f\<in>set (rlm_files release).
            gnf_visibility f \<in> {Visibility_PUBLIC, Visibility_PARTICIPANT} \<longrightarrow> \<not> paths_overlap p (gnf_path f)))"
proof (rule resolve_run_Inr [OF assms(2)], intro conjI ballI)
  assume "validate_candidate_execution e s campaign = Inr ()"
  then show "campaign \<noteq> None \<or> ssn_candidate_authority s = Authority_PARTICIPANT \<longrightarrow> executor_is_participant_isolation (env_executor e)"
    by (auto simp: validate_candidate_execution_def)
next
  fix x assume x: "x \<in> set (env_participant_operations e)"
  then show "\<exists>b\<in>set (env_tool_bindings e). tlb_capability b = pob_capability x \<and> tlb_tool_id b = pob_tool_id x
      \<and> \<not> executable_is_shell (locator_executable (tlb_locator b))"
    using validate_environment_facts(3) [OF EnvironmentSpec_model(1) [OF assms(1)]] by blast
  assume "validate_participant_operations release e = Inr ()"
  with x have ops: "set (candidate_input_paths x) \<subseteq> set (visible_files release)"
    "\<forall>p\<in>set (output_paths x). \<forall>q\<in>set (visible_files release). \<not> paths_overlap p q"
    by (auto simp: validate_participant_operations_def list_ex_iff)
  show "\<exists>f\<in>set (rlm_files release). gnf_path f = p \<and> gnf_visibility f \<in> {Visibility_PUBLIC, Visibility_PARTICIPANT}"
    if "p \<in> set (candidate_input_paths x)" for p
    using that ops(1) by (force simp: visible_files_def)
  show "gnf_visibility f \<in> {Visibility_PUBLIC, Visibility_PARTICIPANT} \<longrightarrow> \<not> paths_overlap p (gnf_path f)"
    if "p \<in> set (output_paths x)" "f \<in> set (rlm_files release)" for p f
    using that ops(2) by (auto simp: visible_files_def)
qed

theorem resolved_execution_isolated_witness:
  "executor_is_participant_isolation (env_executor example_environment) \<and> \<not> paths_overlap ''log/run.txt'' ''b.md''"
proof -
  from example_resolved obtain plan where plan: "example_resolution = Inr plan" by blast
  have "example_operation \<in> set (env_participant_operations example_environment)" "example_file \<in> set (rlm_files example_release)"
    "''log/run.txt'' \<in> set (output_paths example_operation)" "gnf_visibility example_file \<in> {Visibility_PUBLIC, Visibility_PARTICIPANT}"
    "ssn_candidate_authority example_session = Authority_PARTICIPANT" "gnf_path example_file = ''b.md''"
    by (simp_all add: example_environment_def example_release_def example_operation_def example_file_def output_paths_def
        example_session_def)
  with resolved_execution_isolated [OF example_environment_accepted plan [unfolded example_resolution_def]]
  show ?thesis by metis
qed

end
