(* ===== verification/ExportModel.thy ===== *)
theory ExportModel
  imports Replay EnvironmentSpec
begin

section \<open>Projections for other systems: snapshots, visible facts and models\<close>

text \<open>
  Models \<open>src/edagym/projections/_snapshot.py\<close>, \<open>_facts.py\<close> and \<open>model.py\<close>: the replayed run every projection
  starts from, the facts of it that an audience may see, and the models of trajectories, course reports and
  leaderboards with their validators. A \<open>ProjectionUnavailable\<close> is \<open>Unavailable\<close> with its reason, a model that its own
  validator rejects \<open>Invalid_export\<close>. A timestamp in a trajectory is kept as the value whose ISO text it is, a sample
  of a leaderboard as the decimal it prints. Digests of canonical encodings are the fields of \<open>export_digests\<close>.
\<close>

datatype (plugins only: code size) export_fault = Session_differs | Not_a_course | Calibration_task | Not_a_benchmark
  | Not_terminated | No_public_outcome | Provenance_missing | Provenance_private | Run_counted_twice | Trials_missing
  | Front_empty | Front_partitions | Front_run_twice | Front_task | Front_scalar | Front_without_objective
  | Front_score_kind | Front_schema | Trajectory_empty | No_participant_outcome

datatype (plugins only: code size) export_defect = Export_range | Step_timestamp | Step_model | Routes_not_unique
  | Steps_not_contiguous | Total_steps | Reward_without_end | Reward_differs | Cohort_actors | Cohort_writer
  | Cohort_handoff | Cohort_participation | Partition_evaluators | Entry_partition | Entry_eligibility | Entry_success
  | Entry_score | Entry_scoring | Aggregate_partition | Aggregate_runs | Aggregate_denominator | Aggregate_numerator
  | Aggregate_eligible

datatype export_error = Unavailable export_fault | Invalid_export export_defect | Export_journal journal_error
  | Export_evaluation evaluation_error | Export_key_error | Export_stop_iteration

definition unavailable_if :: "bool \<Rightarrow> export_fault \<Rightarrow> export_error + unit" where
  "unavailable_if bad e = (if bad then Inl (Unavailable e) else Inr ())"

definition invalid_if :: "bool \<Rightarrow> export_defect \<Rightarrow> export_error + unit" where
  "invalid_if bad e = (if bad then Inl (Invalid_export e) else Inr ())"

definition export_item :: "('k, 'v) dict \<Rightarrow> 'k \<Rightarrow> export_error + 'v" where
  "export_item d k = (case dict_get d k of None \<Rightarrow> Inl Export_key_error | Some v \<Rightarrow> Inr v)"

subsection \<open>Snapshots\<close>

record ProjectionSnapshot =
  psn_header :: RunHeader
  psn_task :: TaskSpec
  psn_events :: "RunEvent list"
  psn_state :: RunState

definition snapshot_of_events :: "replay_env \<Rightarrow> RunEvent list \<Rightarrow> export_error + ProjectionSnapshot" where
  "snapshot_of_events env events =
     (case replay env events of
        Inl e \<Rightarrow> Inl (Export_journal e)
      | Inr state \<Rightarrow> Inr \<lparr>psn_header = env_header env, psn_task = env_task env, psn_events = events, psn_state = state\<rparr>)"

abbreviation psn_binding :: "ProjectionSnapshot \<Rightarrow> RunBinding" where
  "psn_binding s \<equiv> hdr_binding (psn_header s)"

abbreviation psn_actors :: "ProjectionSnapshot \<Rightarrow> RunActor list" where
  "psn_actors s \<equiv> srb_actors (bnd_session (psn_binding s))"

subsection \<open>Facts an audience may see\<close>

definition PARTICIPANT_EVENT_VISIBILITY :: "Visibility set" where
  "PARTICIPANT_EVENT_VISIBILITY = {Visibility_PUBLIC, Visibility_PARTICIPANT}"

datatype ParticipationKind = Participation_HUMAN | Participation_AGENT | Participation_HYBRID

fun is_human :: "RunActor \<Rightarrow> bool" where
  "is_human (Run_Human _) = True"
| "is_human (Run_Harness _) = False"

fun actor_kind :: "RunActor \<Rightarrow> ActorKind" where
  "actor_kind (Run_Human _) = Actor_HUMAN"
| "actor_kind (Run_Harness _) = Actor_HARNESS"

definition participation_kind :: "ProjectionSnapshot \<Rightarrow> ParticipationKind" where
  "participation_kind s =
     (let has_human = list_ex is_human (psn_actors s); has_harness = list_ex (\<lambda>a. \<not> is_human a) (psn_actors s)
      in if has_human \<and> has_harness then Participation_HYBRID
         else if has_human then Participation_HUMAN else Participation_AGENT)"

definition is_human_participant_event :: "Identifier set \<Rightarrow> RunEvent \<Rightarrow> bool" where
  "is_human_participant_event human_ids e \<longleftrightarrow> evt_visibility e \<in> PARTICIPANT_EVENT_VISIBILITY
     \<and> (case evt_actor e of None \<Rightarrow> False | Some a \<Rightarrow> a \<in> human_ids)"

definition human_intervention_count :: "ProjectionSnapshot \<Rightarrow> int" where
  "human_intervention_count s = int (length (filter
     (is_human_participant_event (set (map run_actor_id (filter is_human (psn_actors s))))) (psn_events s)))"

definition visible_artifact_ids :: "RunEvent list \<Rightarrow> Visibility set \<Rightarrow> Identifier set" where
  "visible_artifact_ids events visibilities = set (List.map_filter (\<lambda>e. case evt_payload e of
     ArtifactRecorded p \<Rightarrow> if evt_visibility e \<in> visibilities \<and> art_visibility (arp_record p) \<in> visibilities
       then Some (art_logical_id (arp_record p)) else None
   | _ \<Rightarrow> None) events)"

text \<open>The loops over the events keep the identifiers seen so far and the events kept so far.\<close>

definition candidate_step :: "Identifier set \<Rightarrow> Visibility set \<Rightarrow> RunEvent \<Rightarrow> Identifier set \<times> RunEvent list
    \<Rightarrow> Identifier set \<times> RunEvent list" where
  "candidate_step artifact_ids visibilities e acc =
     (case evt_payload e of
        CandidateSubmitted p \<Rightarrow>
          if evt_visibility e \<notin> visibilities then acc
          else if \<not> set (evt_artifact_refs e) \<subseteq> artifact_ids then acc
          else if (case csp_parent_candidate_id p of None \<Rightarrow> False | Some parent \<Rightarrow> parent \<notin> fst acc) then acc
          else (insert (csp_candidate_id p) (fst acc), snd acc @ [e])
      | _ \<Rightarrow> acc)"

definition visible_candidate_events :: "RunEvent list \<Rightarrow> Visibility set \<Rightarrow> RunEvent list" where
  "visible_candidate_events events visibilities =
     snd (fold (candidate_step (visible_artifact_ids events visibilities) visibilities) events ({}, []))"

definition checkpoint_step :: "Identifier set \<Rightarrow> Visibility set \<Rightarrow> RunEvent \<Rightarrow> Identifier set \<Rightarrow> Identifier set" where
  "checkpoint_step artifact_ids visibilities e ids =
     (case evt_payload e of
        CheckpointCommitted p \<Rightarrow>
          if evt_visibility e \<notin> visibilities then ids
          else if \<not> set (evt_artifact_refs e) \<subseteq> artifact_ids then ids
          else if (case ccp_parent_checkpoint_id p of None \<Rightarrow> True | Some parent \<Rightarrow> parent \<in> ids)
          then insert (ccp_checkpoint_id p) ids else ids
      | _ \<Rightarrow> ids)"

definition visible_checkpoint_ids :: "RunEvent list \<Rightarrow> Visibility set \<Rightarrow> Identifier set" where
  "visible_checkpoint_ids events visibilities =
     fold (checkpoint_step (visible_artifact_ids events visibilities) visibilities) events {}"

definition run_ended_payload :: "RunEvent \<Rightarrow> RunEndedPayload option" where
  "run_ended_payload e = (case evt_payload e of RunEnded p \<Rightarrow> Some p | _ \<Rightarrow> None)"

definition visible_run_end :: "RunEvent list \<Rightarrow> Visibility set \<Rightarrow> RunEndedPayload option" where
  "visible_run_end events visibilities =
     (case List.find (\<lambda>e. run_ended_payload e \<noteq> None) (rev events) of
        None \<Rightarrow> None
      | Some terminal \<Rightarrow> if evt_visibility terminal \<notin> visibilities then None else run_ended_payload terminal)"

definition candidate_id_of :: "RunEvent \<Rightarrow> Identifier option" where
  "candidate_id_of e = (case evt_payload e of CandidateSubmitted p \<Rightarrow> Some (csp_candidate_id p) | _ \<Rightarrow> None)"

definition parent_candidate_of :: "RunEvent \<Rightarrow> Identifier option" where
  "parent_candidate_of e = (case evt_payload e of CandidateSubmitted p \<Rightarrow> csp_parent_candidate_id p | _ \<Rightarrow> None)"

definition candidate_ids :: "RunEvent list \<Rightarrow> Identifier list" where
  "candidate_ids es = List.map_filter candidate_id_of es"

subsection \<open>Trajectories\<close>

datatype AtifSource = Atif_SYSTEM | Atif_USER | Atif_AGENT

record AtifAgent =
  aag_name :: string
  aag_version :: string
  aag_model_name :: "string option"

record AtifInteractionExtra =
  aie_event_id :: string
  aie_actor_id :: "Identifier option"
  aie_interaction_id :: Identifier
  aie_direction :: InteractionDirection
  aie_related_interaction_id :: "Identifier option"
  aie_tool_name :: "Identifier option"
  aie_public_artifact_refs :: "Identifier list"

record AtifControlTransferExtra =
  ace_event_id :: string
  ace_actor_id :: Identifier
  ace_previous_writer :: Identifier
  ace_next_writer :: Identifier

record AtifCandidateExtra =
  acx_event_id :: string
  acx_actor_id :: Identifier
  acx_candidate_id :: Identifier
  acx_parent_candidate_id :: "Identifier option"

record AtifCheckpointExtra =
  acp_event_id :: string
  acp_checkpoint_id :: Identifier
  acp_parent_checkpoint_id :: "Identifier option"

record AtifRunEndedExtra =
  are_event_id :: string
  are_reason :: StopReason
  are_successful_candidate_id :: "Identifier option"

text \<open>\<open>AtifRunStartedExtra\<close> carries only the event identifier.\<close>

datatype AtifStepExtra = Extra_RunStarted string | Extra_Interaction AtifInteractionExtra
  | Extra_ControlTransfer AtifControlTransferExtra | Extra_Candidate AtifCandidateExtra
  | Extra_Checkpoint AtifCheckpointExtra | Extra_RunEnded AtifRunEndedExtra

record AtifStep =
  ast_step_id :: int
  ast_timestamp :: Timestamp
  ast_source :: AtifSource
  ast_model_name :: "string option"
  ast_extra :: AtifStepExtra

definition AtifStep_validate :: "AtifStep \<Rightarrow> export_error + AtifStep" where
  "AtifStep_validate s =
     bind_result (invalid_if (\<not> 1 \<le> ast_step_id s) Export_range) (\<lambda>_.
     bind_result (invalid_if (case ast_timestamp s of Naive _ \<Rightarrow> True | Aware _ \<Rightarrow> False) Step_timestamp) (\<lambda>_.
     bind_result (invalid_if (ast_source s \<noteq> Atif_AGENT \<and> ast_model_name s \<noteq> None) Step_model) (\<lambda>_.
       Inr s)))"

record AtifRequestedModelRoute =
  arr_actor_id :: Identifier
  arr_route :: string

definition AtifRequestedModelRoute_validate :: "AtifRequestedModelRoute \<Rightarrow> export_error + AtifRequestedModelRoute" where
  "AtifRequestedModelRoute_validate r =
     bind_result (invalid_if (\<not> model_route_ok (arr_route r)) Export_range) (\<lambda>_. Inr r)"

record AtifRunExtra =
  arx_task_family :: Identifier
  arx_authoring_revision :: int
  arx_task_spec_digest :: Digest
  arx_instance_digest :: Digest
  arx_release_digest :: Digest
  arx_environment_spec_digest :: Digest
  arx_session_spec_digest :: Digest
  arx_requested_model_routes :: "AtifRequestedModelRoute list"

definition AtifRunExtra_validate :: "AtifRunExtra \<Rightarrow> export_error + AtifRunExtra" where
  "AtifRunExtra_validate x =
     bind_result (map_result AtifRequestedModelRoute_validate (arx_requested_model_routes x)) (\<lambda>routes.
     bind_result (invalid_if (\<not> 1 \<le> arx_authoring_revision x) Export_range) (\<lambda>_.
     bind_result (invalid_if (\<not> distinct (map arr_actor_id routes)) Routes_not_unique) (\<lambda>_.
       Inr (x\<lparr>arx_requested_model_routes := sort_key arr_actor_id routes\<rparr>))))"

record AtifTrajectory =
  atj_session_id :: Digest
  atj_trajectory_id :: Digest
  atj_agent :: AtifAgent
  atj_steps :: "AtifStep list"
  atj_total_steps :: int
  atj_extra :: AtifRunExtra

definition AtifTrajectory_validate :: "AtifTrajectory \<Rightarrow> export_error + AtifTrajectory" where
  "AtifTrajectory_validate t =
     bind_result (AtifRunExtra_validate (atj_extra t)) (\<lambda>extra.
     bind_result (invalid_if (aag_name (atj_agent t) = [] \<or> aag_version (atj_agent t) = []
         \<or> aag_model_name (atj_agent t) = Some [] \<or> atj_steps t = [] \<or> \<not> 1 \<le> atj_total_steps t) Export_range) (\<lambda>_.
     bind_result (invalid_if (map ast_step_id (atj_steps t) \<noteq> map (\<lambda>i. int i + 1) [0..<length (atj_steps t)])
         Steps_not_contiguous) (\<lambda>_.
     bind_result (invalid_if (atj_total_steps t \<noteq> int (length (atj_steps t))) Total_steps) (\<lambda>_.
       Inr (t\<lparr>atj_extra := extra\<rparr>)))))"

record HarborTrialProjection =
  hbt_trajectory :: AtifTrajectory
  hbt_reward :: int

definition HarborTrialProjection_validate :: "HarborTrialProjection \<Rightarrow> export_error + HarborTrialProjection" where
  "HarborTrialProjection_validate h =
     bind_result (invalid_if (hbt_reward h \<notin> {0, 1}) Export_range) (\<lambda>_.
     case ast_extra (last (atj_steps (hbt_trajectory h))) of
       Extra_RunEnded final \<Rightarrow>
         bind_result (invalid_if (hbt_reward h \<noteq> (if are_reason final = Stop_VERIFIER_SUCCESS then 1 else 0)) Reward_differs)
           (\<lambda>_. Inr h)
     | _ \<Rightarrow> Inl (Invalid_export Reward_without_end))"

text \<open>The row of a dataset is one user message and the identifier of the run.\<close>

record NemoDatasetProjection =
  nem_content :: string
  nem_id :: Digest

subsection \<open>Course reports\<close>

record ActorCourseEvidence =
  acv_actor_id :: Identifier
  acv_kind :: ActorKind
  acv_interaction_count :: int
  acv_candidate_count :: int
  acv_handoffs_given :: int
  acv_handoffs_received :: int

record CandidateCourseEvidence =
  ccv_candidate_id :: Identifier
  ccv_actor_id :: Identifier
  ccv_parent_candidate_id :: "Identifier option"
  ccv_stage_outcomes :: "(Identifier \<times> OutcomeKind) list"

record CourseReport =
  crp_run_id :: Digest
  crp_task :: TaskRunBinding
  crp_environment_spec_digest :: Digest
  crp_session_spec_digest :: Digest
  crp_rubric_digest :: Digest
  crp_oral_defense :: OralDefensePolicy
  crp_participation :: ParticipationKind
  crp_actors :: "ActorCourseEvidence list"
  crp_candidates :: "CandidateCourseEvidence list"
  crp_handoff_count :: int
  crp_checkpoint_count :: int
  crp_artifact_counts :: "(ArtifactClass \<times> int) list"
  crp_terminal_reason :: "StopReason option"
  crp_successful_candidate_id :: "Identifier option"

subsection \<open>Leaderboards\<close>

record LeaderboardStageOutcome =
  lso_candidate_id :: Identifier
  lso_stage_id :: Identifier
  lso_outcome :: OutcomeKind

record LeaderboardMeasurement =
  lbm_candidate_id :: Identifier
  lbm_stage_id :: Identifier
  lbm_measurement_id :: Identifier
  lbm_unit :: MeasurementUnit
  lbm_sample_seeds :: "Seed128Hex list"
  lbm_source_artifact_id :: Identifier
  lbm_source_digest :: Digest
  lbm_direction :: MetricDirection
  lbm_samples :: "CanonicalDecimal list"

text \<open>
  The actors of a cohort and its evaluators have the fields of the actors and evaluators of the run binding, but a cohort
  demands a \<open>ModelRoute\<close> of a harness where the run binding only bounds the length.
\<close>

definition LeaderboardActor_validate :: "RunActor \<Rightarrow> export_error + RunActor" where
  "LeaderboardActor_validate a =
     (case a of Run_Human _ \<Rightarrow> Inr a
      | Run_Harness h \<Rightarrow> bind_result (invalid_if (\<not> model_route_ok (har_requested_model_route h)) Export_range) (\<lambda>_. Inr a))"

record LeaderboardCohort =
  lbc_actors :: "RunActor list"
  lbc_initial_writer :: Identifier
  lbc_handoff_enabled :: bool
  lbc_participation :: ParticipationKind

definition LeaderboardCohort_validate :: "LeaderboardCohort \<Rightarrow> export_error + LeaderboardCohort" where
  "LeaderboardCohort_validate c =
     bind_result (invalid_if (lbc_actors c = []) Export_range) (\<lambda>_.
     bind_result (invalid_if (\<not> distinct (map run_actor_id (lbc_actors c))) Cohort_actors) (\<lambda>_.
     bind_result (invalid_if (lbc_initial_writer c \<notin> set (map run_actor_id (lbc_actors c))) Cohort_writer) (\<lambda>_.
     bind_result (invalid_if (lbc_handoff_enabled c \<noteq> (1 < card (set (map run_actor_id (lbc_actors c))))) Cohort_handoff) (\<lambda>_.
     bind_result (invalid_if (lbc_participation c \<noteq>
         (if list_ex is_human (lbc_actors c)
          then if list_ex (\<lambda>a. \<not> is_human a) (lbc_actors c) then Participation_HYBRID else Participation_HUMAN
          else Participation_AGENT)) Cohort_participation) (\<lambda>_.
       Inr (c\<lparr>lbc_actors := sort_key run_actor_id (lbc_actors c)\<rparr>))))))"

record LeaderboardPartition =
  lbp_task_family :: Identifier
  lbp_authoring_revision :: int
  lbp_task_spec_digest :: Digest
  lbp_instance_digest :: Digest
  lbp_release_digest :: Digest
  lbp_environment_spec_digest :: Digest
  lbp_cohort :: LeaderboardCohort
  lbp_feedback_policy_digest :: Digest
  lbp_budget_digest :: Digest
  lbp_evaluators :: "EvaluatorRunBinding list"
  lbp_measurement_schema_digest :: Digest
  lbp_scorer_revision_digest :: "Digest option"
  lbp_trial_count :: int

definition LeaderboardPartition_validate :: "LeaderboardPartition \<Rightarrow> export_error + LeaderboardPartition" where
  "LeaderboardPartition_validate p =
     bind_result (invalid_if (\<not> 1 \<le> lbp_authoring_revision p \<or> \<not> 1 \<le> lbp_trial_count p) Export_range) (\<lambda>_.
     bind_result (invalid_if (lbp_evaluators p = [] \<or> \<not> distinct (map evb_evaluator_id (lbp_evaluators p)))
         Partition_evaluators) (\<lambda>_.
       Inr (p\<lparr>lbp_evaluators := sort_key evb_evaluator_id (lbp_evaluators p)\<rparr>)))"

record LeaderboardEntry =
  lbe_partition_id :: Digest
  lbe_partition :: LeaderboardPartition
  lbe_run_id :: Digest
  lbe_lineage :: RunLineage
  lbe_rank_eligible :: bool
  lbe_success :: bool
  lbe_terminal_reason :: StopReason
  lbe_human_intervention_count :: int
  lbe_stage_outcomes :: "LeaderboardStageOutcome list"
  lbe_measurements :: "LeaderboardMeasurement list"
  lbe_scoring_eligibility :: "ScorerEligibilityKind option"
  lbe_score :: "CandidateScore option"

record export_digests =
  exd_session :: "SessionSpec \<Rightarrow> Digest"
  exd_partition :: "LeaderboardPartition \<Rightarrow> Digest"
  exd_task :: "TaskSpec \<Rightarrow> Digest"
  exd_harness_version :: "HarnessRunActor \<Rightarrow> Digest"
  exd_harnesses_version :: "HarnessRunActor list \<Rightarrow> Digest"

definition LeaderboardEntry_validate :: "export_digests \<Rightarrow> LeaderboardEntry \<Rightarrow> export_error + LeaderboardEntry" where
  "LeaderboardEntry_validate dg e =
     bind_result (invalid_if (\<not> 0 \<le> lbe_human_intervention_count e) Export_range) (\<lambda>_.
     bind_result (invalid_if (lbe_partition_id e \<noteq> exd_partition dg (lbe_partition e)) Entry_partition) (\<lambda>_.
     bind_result (invalid_if (lbe_rank_eligible e \<noteq>
         (lbc_participation (lbp_cohort (lbe_partition e)) = Participation_AGENT
          \<and> lin_parent_run_id (lbe_lineage e) = None \<and> lbe_terminal_reason e = Stop_VERIFIER_SUCCESS
          \<and> lbe_scoring_eligibility e = Some Scorer_READY)) Entry_eligibility) (\<lambda>_.
     bind_result (invalid_if (lbe_success e \<noteq> (lbe_terminal_reason e = Stop_VERIFIER_SUCCESS)) Entry_success) (\<lambda>_.
     bind_result (invalid_if (lbe_score e \<noteq> None \<and> \<not> lbe_success e) Entry_score) (\<lambda>_.
     bind_result (invalid_if ((lbe_scoring_eligibility e = Some Scorer_READY) \<noteq> (lbe_score e \<noteq> None)) Entry_scoring) (\<lambda>_.
       Inr e))))))"

record LeaderboardAggregate =
  lba_partition_id :: Digest
  lba_partition :: LeaderboardPartition
  lba_rank_eligible :: bool
  lba_run_ids :: "Digest list"
  lba_success_numerator :: int
  lba_success_denominator :: int

definition LeaderboardAggregate_validate :: "export_digests \<Rightarrow> LeaderboardAggregate \<Rightarrow> export_error + LeaderboardAggregate" where
  "LeaderboardAggregate_validate dg a =
     bind_result (invalid_if (\<not> 0 \<le> lba_success_numerator a \<or> \<not> 1 \<le> lba_success_denominator a) Export_range) (\<lambda>_.
     bind_result (invalid_if (lba_partition_id a \<noteq> exd_partition dg (lba_partition a)) Aggregate_partition) (\<lambda>_.
     bind_result (invalid_if (lba_run_ids a = [] \<or> \<not> distinct (lba_run_ids a)) Aggregate_runs) (\<lambda>_.
     bind_result (invalid_if (lba_success_denominator a \<noteq> int (length (lba_run_ids a))) Aggregate_denominator) (\<lambda>_.
     bind_result (invalid_if (lba_success_numerator a > lba_success_denominator a) Aggregate_numerator) (\<lambda>_.
     bind_result (invalid_if (lba_rank_eligible a
         \<and> lbc_participation (lbp_cohort (lba_partition a)) \<noteq> Participation_AGENT) Aggregate_eligible) (\<lambda>_.
       Inr a))))))"

end
