(* ===== verification/ExportHumanize.thy ===== *)
theory ExportHumanize
  imports ExportModel
begin

section \<open>Session and trace projections\<close>

text \<open>
  Models \<open>src/edagym/projections/humanize.py\<close>: the trace of a run at its participant boundary, the turns its
  participants took and the logical sessions those turns belong to, with the validators of every model. The digests that
  identify turns, sessions and projections are the fields of \<open>humanize_digests\<close>; the three constants of
  \<open>HumanizeReviewerSemantics\<close> are left out.
\<close>

datatype (plugins only: code size) humanize_fault = Humanize_session_differs | Humanize_lineage | Humanize_mode | Humanize_actor

datatype (plugins only: code size) humanize_defect = Humanize_range | Trace_event_kind | Session_turns | Agents_order
  | Sessions_order | Turns_order | Turns_unique | Trace_order | Benchmark_strategy | Benchmark_lineage | Training_strategy
  | Trace_audience | Trace_events_unique | Turn_reference | Turn_coverage | Session_strategy | Session_foreign_turn
  | Session_not_fresh | Session_identity | Session_partition | Projection_identity

datatype humanize_error = Humanize_unavailable humanize_fault | Invalid_humanize humanize_defect | Humanize_key_error

definition reject_humanize :: "bool \<Rightarrow> humanize_defect \<Rightarrow> humanize_error + unit" where
  "reject_humanize bad d = (if bad then Inl (Invalid_humanize d) else Inr ())"

definition refuse_humanize :: "bool \<Rightarrow> humanize_fault \<Rightarrow> humanize_error + unit" where
  "refuse_humanize bad f = (if bad then Inl (Humanize_unavailable f) else Inr ())"

subsection \<open>Models\<close>

datatype HumanizeTraceAudience = Audience_PARTICIPANT | Audience_REVIEWER

datatype HumanizeSessionStrategy = Strategy_FRESH | Strategy_STATEFUL

datatype ModeKind = Kind_BENCHMARK | Kind_TRAINING | Kind_COURSE

fun mode_kind :: "SessionMode \<Rightarrow> ModeKind" where
  "mode_kind (Mode_Benchmark _) = Kind_BENCHMARK"
| "mode_kind Mode_Training = Kind_TRAINING"
| "mode_kind (Mode_Course _) = Kind_COURSE"

datatype (plugins only: code size) EventKind = Event_RUN_STARTED | Event_PARTICIPANT_INCARNATION_STARTED
  | Event_PARTICIPANT_INCARNATION_TERMINATED | Event_PARTICIPANT_INCARNATION_RESTORED
  | Event_PROVIDER_REQUEST_STARTED | Event_PROVIDER_RESPONSE_RECORDED | Event_INTERACTION_RECORDED
  | Event_PARTICIPANT_TOOL_RESERVED | Event_PARTICIPANT_TOOL_SETTLED | Event_PARTICIPANT_TOOL_LOST
  | Event_CONTROL_TRANSFERRED | Event_CANDIDATE_SUBMITTED | Event_EVALUATION_STARTED | Event_EVALUATION_COMPLETED
  | Event_SCORING_RECORDED | Event_LICENSE_LEASE_ACQUIRED | Event_LICENSE_LEASE_DENIED | Event_LICENSE_LEASE_LOST
  | Event_LICENSE_LEASE_RELEASED | Event_ARTIFACT_RECORDED | Event_CHECKPOINT_COMMITTED | Event_JOB_STATE_CHANGED
  | Event_POLICY_DECISION | Event_RUN_ENDED

definition event_kind :: "RunEvent \<Rightarrow> EventKind" where
  "event_kind e =
     (case evt_payload e of
        RunStarted _ \<Rightarrow> Event_RUN_STARTED
      | ParticipantIncarnationStarted _ \<Rightarrow> Event_PARTICIPANT_INCARNATION_STARTED
      | ParticipantIncarnationTerminated _ \<Rightarrow> Event_PARTICIPANT_INCARNATION_TERMINATED
      | ParticipantIncarnationRestored _ \<Rightarrow> Event_PARTICIPANT_INCARNATION_RESTORED
      | ProviderRequestStarted _ \<Rightarrow> Event_PROVIDER_REQUEST_STARTED
      | ProviderResponseRecorded _ \<Rightarrow> Event_PROVIDER_RESPONSE_RECORDED
      | InteractionRecorded _ \<Rightarrow> Event_INTERACTION_RECORDED
      | ParticipantToolReserved _ \<Rightarrow> Event_PARTICIPANT_TOOL_RESERVED
      | ParticipantToolSettled _ \<Rightarrow> Event_PARTICIPANT_TOOL_SETTLED
      | ParticipantToolLost _ \<Rightarrow> Event_PARTICIPANT_TOOL_LOST
      | ControlTransferred _ \<Rightarrow> Event_CONTROL_TRANSFERRED
      | CandidateSubmitted _ \<Rightarrow> Event_CANDIDATE_SUBMITTED
      | EvaluationStarted _ \<Rightarrow> Event_EVALUATION_STARTED
      | EvaluationCompleted _ \<Rightarrow> Event_EVALUATION_COMPLETED
      | ScoringRecorded _ \<Rightarrow> Event_SCORING_RECORDED
      | LicenseLeaseAcquired _ \<Rightarrow> Event_LICENSE_LEASE_ACQUIRED
      | LicenseLeaseDenied _ \<Rightarrow> Event_LICENSE_LEASE_DENIED
      | LicenseLeaseLost _ \<Rightarrow> Event_LICENSE_LEASE_LOST
      | LicenseLeaseReleased _ \<Rightarrow> Event_LICENSE_LEASE_RELEASED
      | ArtifactRecorded _ \<Rightarrow> Event_ARTIFACT_RECORDED
      | CheckpointCommitted _ \<Rightarrow> Event_CHECKPOINT_COMMITTED
      | JobStateChanged _ \<Rightarrow> Event_JOB_STATE_CHANGED
      | PolicyDecision _ \<Rightarrow> Event_POLICY_DECISION
      | RunEnded _ \<Rightarrow> Event_RUN_ENDED)"

definition TRACE_EVENT_KINDS :: "EventKind set" where
  "TRACE_EVENT_KINDS = {Event_RUN_STARTED, Event_INTERACTION_RECORDED, Event_CONTROL_TRANSFERRED, Event_CANDIDATE_SUBMITTED,
     Event_CHECKPOINT_COMMITTED, Event_RUN_ENDED}"

record HumanizeAgentProjection =
  hag_actor_id :: Identifier
  hag_kind :: ActorKind

record HumanizeTraceSlice =
  hts_slice_index :: int
  hts_event_id :: string
  hts_timestamp :: Timestamp
  hts_event_kind :: EventKind
  hts_producer :: ProducerKind
  hts_actor_id :: "Identifier option"
  hts_visibility :: Visibility

definition HumanizeTraceSlice_validate :: "HumanizeTraceSlice \<Rightarrow> humanize_error + HumanizeTraceSlice" where
  "HumanizeTraceSlice_validate s =
     bind_result (reject_humanize (\<not> 1 \<le> hts_slice_index s
         \<or> hts_visibility s \<notin> {Visibility_PUBLIC, Visibility_PARTICIPANT, Visibility_REVIEWER}) Humanize_range) (\<lambda>_.
     bind_result (reject_humanize (hts_event_kind s \<notin> TRACE_EVENT_KINDS) Trace_event_kind) (\<lambda>_. Inr s))"

record HumanizeTurnProjection =
  htp_turn_index :: int
  htp_turn_id :: Digest
  htp_logical_session_id :: Digest
  htp_actor_id :: Identifier
  htp_event_id :: string

record HumanizeLogicalSession =
  hls_logical_session_id :: Digest
  hls_actor_id :: Identifier
  hls_strategy :: HumanizeSessionStrategy
  hls_turn_ids :: "Digest list"

definition HumanizeLogicalSession_validate :: "HumanizeLogicalSession \<Rightarrow> humanize_error + HumanizeLogicalSession" where
  "HumanizeLogicalSession_validate s =
     bind_result (reject_humanize (hls_turn_ids s = []) Humanize_range) (\<lambda>_.
     bind_result (reject_humanize (\<not> distinct (hls_turn_ids s)) Session_turns) (\<lambda>_. Inr s))"

record HumanizeCycleProjection =
  hcp_run_id :: Digest
  hcp_task_family :: Identifier
  hcp_session_spec_digest :: Digest
  hcp_mode :: ModeKind
  hcp_session_strategy :: HumanizeSessionStrategy
  hcp_parent_run_id :: "Digest option"
  hcp_audience :: HumanizeTraceAudience
  hcp_agents :: "HumanizeAgentProjection list"
  hcp_sessions :: "HumanizeLogicalSession list"
  hcp_turns :: "HumanizeTurnProjection list"
  hcp_trace :: "HumanizeTraceSlice list"

record HumanizeRunProjection =
  hrp_projection_id :: Digest
  hrp_cycle :: HumanizeCycleProjection

record humanize_digests =
  hzd_session :: "SessionSpec \<Rightarrow> Digest"
  hzd_turn :: "Digest \<Rightarrow> string \<Rightarrow> Digest"
  hzd_logical_session :: "Digest \<Rightarrow> Identifier \<Rightarrow> HumanizeSessionStrategy \<Rightarrow> Digest option \<Rightarrow> Digest"
  hzd_projection :: "HumanizeCycleProjection \<Rightarrow> Digest"

definition trace_visibilities :: "HumanizeTraceAudience \<Rightarrow> Visibility set" where
  "trace_visibilities audience =
     (if audience = Audience_PARTICIPANT then PARTICIPANT_EVENT_VISIBILITY
      else insert Visibility_REVIEWER PARTICIPANT_EVENT_VISIBILITY)"

definition logical_session_id :: "humanize_digests \<Rightarrow> Digest \<Rightarrow> Identifier \<Rightarrow> HumanizeSessionStrategy \<Rightarrow> Digest \<Rightarrow> Digest" where
  "logical_session_id dg run actor strategy turn =
     hzd_logical_session dg run actor strategy (if strategy = Strategy_FRESH then Some turn else None)"

subsection \<open>The validator of a cycle\<close>

definition check_cycle_fields :: "HumanizeCycleProjection \<Rightarrow> humanize_error + unit" where
  "check_cycle_fields c =
     (let agents = map hag_actor_id (hcp_agents c); sessions = map hls_logical_session_id (hcp_sessions c);
          turns = hcp_turns c; trace = hcp_trace c in
     bind_result (reject_humanize (hcp_mode c \<notin> {Kind_BENCHMARK, Kind_TRAINING} \<or> agents = []) Humanize_range) (\<lambda>_.
     bind_result (reject_humanize (\<not> distinct agents \<or> agents \<noteq> sort agents) Agents_order) (\<lambda>_.
     bind_result (reject_humanize (\<not> distinct sessions \<or> sessions \<noteq> sort sessions) Sessions_order) (\<lambda>_.
     bind_result (reject_humanize (map htp_turn_index turns \<noteq> map (\<lambda>i. int i + 1) [0..<length turns]) Turns_order) (\<lambda>_.
     bind_result (reject_humanize (card (set (map htp_turn_id turns)) \<noteq> length turns) Turns_unique) (\<lambda>_.
       reject_humanize (map hts_slice_index trace \<noteq> map (\<lambda>i. int i + 1) [0..<length trace]) Trace_order))))))"

definition check_strategy :: "HumanizeCycleProjection \<Rightarrow> humanize_error + unit" where
  "check_strategy c =
     (if hcp_mode c = Kind_BENCHMARK
      then bind_result (reject_humanize (hcp_session_strategy c \<noteq> Strategy_FRESH) Benchmark_strategy) (\<lambda>_.
        reject_humanize (hcp_parent_run_id c \<noteq> None) Benchmark_lineage)
      else reject_humanize (hcp_session_strategy c \<noteq> Strategy_STATEFUL) Training_strategy)"

definition turn_misplaced :: "humanize_digests \<Rightarrow> HumanizeCycleProjection \<Rightarrow> HumanizeTurnProjection \<Rightarrow> bool" where
  "turn_misplaced dg c turn \<longleftrightarrow>
     htp_actor_id turn \<notin> set (map hag_actor_id (hcp_agents c))
     \<or> (case dict_get (dict_of hts_event_id id (hcp_trace c)) (htp_event_id turn) of
          None \<Rightarrow> True
        | Some item \<Rightarrow> hts_producer item \<noteq> Producer_PARTICIPANT \<or> hts_actor_id item \<noteq> Some (htp_actor_id turn))
     \<or> htp_logical_session_id turn \<notin> set (map hls_logical_session_id (hcp_sessions c))
     \<or> htp_turn_id turn \<noteq> hzd_turn dg (hcp_run_id c) (htp_event_id turn)"

text \<open>The loop over the sessions: the actors seen so far and the turns referenced so far.\<close>

definition check_logical_session :: "humanize_digests \<Rightarrow> HumanizeCycleProjection \<Rightarrow> Identifier set \<times> Digest list
    \<Rightarrow> HumanizeLogicalSession \<Rightarrow> humanize_error + (Identifier set \<times> Digest list)" where
  "check_logical_session dg c acc session =
     (case acc of (actors, referenced) \<Rightarrow>
      let turns_by_id = dict_of htp_turn_id id (hcp_turns c);
          session_turns = map (dict_get turns_by_id) (hls_turn_ids session) in
      bind_result (reject_humanize (hls_actor_id session \<notin> set (map hag_actor_id (hcp_agents c))
          \<or> hls_strategy session \<noteq> hcp_session_strategy c
          \<or> hls_actor_id session \<in> actors \<and> hcp_session_strategy c = Strategy_STATEFUL) Session_strategy) (\<lambda>_.
      bind_result (reject_humanize (list_ex (\<lambda>found. case found of None \<Rightarrow> True | Some turn \<Rightarrow>
          htp_actor_id turn \<noteq> hls_actor_id session \<or> htp_logical_session_id turn \<noteq> hls_logical_session_id session)
          session_turns) Session_foreign_turn) (\<lambda>_.
      bind_result (reject_humanize (hcp_session_strategy c = Strategy_FRESH \<and> length session_turns \<noteq> 1) Session_not_fresh) (\<lambda>_.
      bind_result (reject_humanize (case hd session_turns of None \<Rightarrow> True | Some turn \<Rightarrow>
          hls_logical_session_id session \<noteq> logical_session_id dg (hcp_run_id c) (hls_actor_id session)
            (hcp_session_strategy c) (htp_turn_id turn)) Session_identity) (\<lambda>_.
        Inr (insert (hls_actor_id session) actors, referenced @ hls_turn_ids session))))))"

definition HumanizeCycleProjection_validate :: "humanize_digests \<Rightarrow> HumanizeCycleProjection
    \<Rightarrow> humanize_error + HumanizeCycleProjection" where
  "HumanizeCycleProjection_validate dg c =
     bind_result (check_cycle_fields c) (\<lambda>_.
     bind_result (check_strategy c) (\<lambda>_.
     bind_result (reject_humanize (list_ex (\<lambda>item. hts_visibility item \<notin> trace_visibilities (hcp_audience c)) (hcp_trace c))
         Trace_audience) (\<lambda>_.
     bind_result (reject_humanize (length (dict_of hts_event_id id (hcp_trace c)) \<noteq> length (hcp_trace c)) Trace_events_unique) (\<lambda>_.
     bind_result (reject_humanize (list_ex (turn_misplaced dg c) (hcp_turns c)) Turn_reference) (\<lambda>_.
     bind_result (reject_humanize
         (set (map hts_event_id (filter (\<lambda>item. hts_producer item = Producer_PARTICIPANT) (hcp_trace c)))
          \<noteq> set (map htp_event_id (hcp_turns c))) Turn_coverage) (\<lambda>_.
     bind_result (fold_result (check_logical_session dg c) ({}, []) (hcp_sessions c)) (\<lambda>(_, referenced).
     bind_result (reject_humanize (\<not> distinct referenced \<or> set referenced \<noteq> set (map htp_turn_id (hcp_turns c)))
         Session_partition) (\<lambda>_.
       Inr c))))))))"

definition HumanizeRunProjection_validate :: "humanize_digests \<Rightarrow> HumanizeRunProjection
    \<Rightarrow> humanize_error + HumanizeRunProjection" where
  "HumanizeRunProjection_validate dg p =
     bind_result (reject_humanize (hrp_projection_id p \<noteq> hzd_projection dg (hrp_cycle p)) Projection_identity) (\<lambda>_. Inr p)"

subsection \<open>The projection\<close>

definition choose_strategy :: "ProjectionSnapshot \<Rightarrow> SessionMode \<Rightarrow> humanize_error + HumanizeSessionStrategy" where
  "choose_strategy s mode =
     (case mode of
        Mode_Benchmark _ \<Rightarrow>
          bind_result (refuse_humanize (bnd_lineage (psn_binding s)
              \<noteq> \<lparr>lin_parent_run_id = None, lin_parent_checkpoint_id = None, lin_parent_candidate_id = None\<rparr>) Humanize_lineage) (\<lambda>_.
            Inr Strategy_FRESH)
      | Mode_Training \<Rightarrow> Inr Strategy_STATEFUL
      | Mode_Course _ \<Rightarrow> Inl (Humanize_unavailable Humanize_mode))"

definition traced_events :: "HumanizeTraceAudience \<Rightarrow> RunEvent list \<Rightarrow> RunEvent list" where
  "traced_events audience events =
     filter (\<lambda>e. event_kind e \<in> TRACE_EVENT_KINDS \<and> evt_visibility e \<in> trace_visibilities audience) events"

definition trace_slice :: "nat \<times> RunEvent \<Rightarrow> humanize_error + HumanizeTraceSlice" where
  "trace_slice x =
     (case x of (index, e) \<Rightarrow> HumanizeTraceSlice_validate \<lparr>hts_slice_index = int index, hts_event_id = evt_event_id e,
        hts_timestamp = evt_timestamp e, hts_event_kind = event_kind e, hts_producer = evt_producer e,
        hts_actor_id = evt_actor e, hts_visibility = evt_visibility e\<rparr>)"

record turn_state =
  tns_turns :: "HumanizeTurnProjection list"
  tns_turn_ids_by_session :: "(Digest, Digest list) dict"
  tns_actor_by_session :: "(Digest, Identifier) dict"

definition turn_step :: "humanize_digests \<Rightarrow> Digest \<Rightarrow> HumanizeSessionStrategy \<Rightarrow> turn_state \<Rightarrow> RunEvent
    \<Rightarrow> humanize_error + turn_state" where
  "turn_step dg run strategy st e =
     (case evt_actor e of
        None \<Rightarrow> Inl (Humanize_unavailable Humanize_actor)
      | Some actor \<Rightarrow>
          let turn = hzd_turn dg run (evt_event_id e); session = logical_session_id dg run actor strategy turn in
          Inr \<lparr>tns_turns = tns_turns st @ [\<lparr>htp_turn_index = int (length (tns_turns st)) + 1, htp_turn_id = turn,
                 htp_logical_session_id = session, htp_actor_id = actor, htp_event_id = evt_event_id e\<rparr>],
               tns_turn_ids_by_session = dict_set session
                 ((case dict_get (tns_turn_ids_by_session st) session of None \<Rightarrow> [] | Some ids \<Rightarrow> ids) @ [turn])
                 (tns_turn_ids_by_session st),
               tns_actor_by_session = dict_set session actor (tns_actor_by_session st)\<rparr>)"

definition logical_session :: "HumanizeSessionStrategy \<Rightarrow> turn_state \<Rightarrow> Digest \<Rightarrow> humanize_error + HumanizeLogicalSession" where
  "logical_session strategy st session =
     (case dict_get (tns_actor_by_session st) session of
        None \<Rightarrow> Inl Humanize_key_error
      | Some actor \<Rightarrow> HumanizeLogicalSession_validate \<lparr>hls_logical_session_id = session, hls_actor_id = actor, hls_strategy = strategy,
          hls_turn_ids = (case dict_get (tns_turn_ids_by_session st) session of None \<Rightarrow> [] | Some ids \<Rightarrow> ids)\<rparr>)"

definition project_humanize :: "humanize_digests \<Rightarrow> ProjectionSnapshot \<Rightarrow> SessionSpec \<Rightarrow> HumanizeTraceAudience
    \<Rightarrow> humanize_error + HumanizeRunProjection" where
  "project_humanize dg s session audience =
     bind_result (refuse_humanize (hzd_session dg session \<noteq> srb_session_spec_digest (bnd_session (psn_binding s)))
         Humanize_session_differs) (\<lambda>_.
     bind_result (choose_strategy s (ssn_mode session)) (\<lambda>strategy.
     let traced = traced_events audience (psn_events s);
         run = hdr_run_id (psn_header s) in
     bind_result (map_result trace_slice (enumerate 1 traced)) (\<lambda>trace.
     bind_result (fold_result (turn_step dg run strategy)
         \<lparr>tns_turns = [], tns_turn_ids_by_session = [], tns_actor_by_session = []\<rparr>
         (filter (\<lambda>e. evt_producer e = Producer_PARTICIPANT) traced)) (\<lambda>st.
     bind_result (map_result (logical_session strategy st) (sort (dict_keys (tns_turn_ids_by_session st)))) (\<lambda>sessions.
     bind_result (HumanizeCycleProjection_validate dg \<lparr>hcp_run_id = run, hcp_task_family = trb_family (bnd_task (psn_binding s)),
         hcp_session_spec_digest = hzd_session dg session, hcp_mode = mode_kind (ssn_mode session),
         hcp_session_strategy = strategy, hcp_parent_run_id = lin_parent_run_id (bnd_lineage (psn_binding s)),
         hcp_audience = audience,
         hcp_agents = map (\<lambda>a. \<lparr>hag_actor_id = run_actor_id a, hag_kind = actor_kind a\<rparr>) (psn_actors s),
         hcp_sessions = sessions, hcp_turns = tns_turns st, hcp_trace = trace\<rparr>) (\<lambda>cycle.
       HumanizeRunProjection_validate dg \<lparr>hrp_projection_id = hzd_projection dg cycle, hrp_cycle = cycle\<rparr>))))))"

end
