(* ===== verification/ExportTrajectory.thy ===== *)
theory ExportTrajectory
  imports ExportModel
begin

section \<open>Trajectories, rewards and dataset rows\<close>

text \<open>
  Models \<open>src/edagym/projections/atif.py\<close>, \<open>harbor.py\<close> and \<open>nemo.py\<close>: the trajectory of a run with references to
  public artifacts only, the reward document of a terminated run, and the dataset row of its task.
\<close>

subsection \<open>Trajectories\<close>

definition public_artifacts :: "RunEvent list \<Rightarrow> Identifier set" where
  "public_artifacts events = set (List.map_filter (\<lambda>e. case evt_payload e of
     ArtifactRecorded p \<Rightarrow>
       let r = arp_record p in
       if evt_visibility e = Visibility_PUBLIC \<and> art_visibility r = Visibility_PUBLIC
          \<and> art_sensitivity r = Sensitivity_PUBLIC \<and> art_redistribution r = Redistribution_ALLOWED
       then Some (art_logical_id r) else None
   | _ \<Rightarrow> None) events)"

definition interaction_source :: "InteractionDirection \<Rightarrow> ActorKind option \<Rightarrow> ProducerKind \<Rightarrow> AtifSource option" where
  "interaction_source direction kind producer =
     (if producer = Producer_CONTROLLER
      then if direction = Direction_PARTICIPANT_INPUT then Some Atif_USER
           else if direction = Direction_TOOL_RESULT then Some Atif_SYSTEM
           else None
      else if direction \<notin> {Direction_PARTICIPANT_OUTPUT, Direction_TOOL_REQUEST} then None
      else Some (if kind = Some Actor_HUMAN then Atif_USER else Atif_AGENT))"

record atif_view =
  atv_actor_kinds :: "(Identifier, ActorKind) dict"
  atv_public_artifacts :: "Identifier set"
  atv_candidate_ids :: "Identifier set"
  atv_checkpoint_ids :: "Identifier set"

definition atif_step :: "RunEvent \<Rightarrow> AtifSource \<Rightarrow> AtifStepExtra \<Rightarrow> export_error + AtifStep option" where
  "atif_step e source extra =
     bind_result (AtifStep_validate \<lparr>ast_step_id = 1, ast_timestamp = evt_timestamp e, ast_source = source,
       ast_model_name = None, ast_extra = extra\<rparr>) (\<lambda>s. Inr (Some s))"

definition actor_source :: "atif_view \<Rightarrow> Identifier \<Rightarrow> export_error + AtifSource" where
  "actor_source v actor =
     bind_result (export_item (atv_actor_kinds v) actor) (\<lambda>kind. Inr (if kind = Actor_HUMAN then Atif_USER else Atif_AGENT))"

definition project_event :: "atif_view \<Rightarrow> RunEvent \<Rightarrow> export_error + AtifStep option" where
  "project_event v e =
     (case evt_payload e of
        RunStarted _ \<Rightarrow>
          if evt_visibility e \<notin> PARTICIPANT_EVENT_VISIBILITY then Inr None
          else atif_step e Atif_SYSTEM (Extra_RunStarted (evt_event_id e))
      | InteractionRecorded p \<Rightarrow>
          if evt_visibility e \<notin> PARTICIPANT_EVENT_VISIBILITY then Inr None
          else
            bind_result (case evt_actor e of None \<Rightarrow> Inr None
                         | Some actor \<Rightarrow> bind_result (export_item (atv_actor_kinds v) actor) (\<lambda>k. Inr (Some k))) (\<lambda>kind.
            case interaction_source (inp_direction p) kind (evt_producer e) of
              None \<Rightarrow> Inr None
            | Some source \<Rightarrow> atif_step e source (Extra_Interaction
                \<lparr>aie_event_id = evt_event_id e, aie_actor_id = evt_actor e, aie_interaction_id = inp_interaction_id p,
                 aie_direction = inp_direction p, aie_related_interaction_id = inp_related_interaction_id p,
                 aie_tool_name = inp_tool_name p,
                 aie_public_artifact_refs = filter (\<lambda>r. r \<in> atv_public_artifacts v) (evt_artifact_refs e)\<rparr>))
      | ControlTransferred p \<Rightarrow>
          if evt_visibility e \<notin> PARTICIPANT_EVENT_VISIBILITY then Inr None
          else (case evt_actor e of
            None \<Rightarrow> Inr None
          | Some actor \<Rightarrow> bind_result (actor_source v actor) (\<lambda>source. atif_step e source (Extra_ControlTransfer
              \<lparr>ace_event_id = evt_event_id e, ace_actor_id = actor, ace_previous_writer = ctp_previous_writer p,
               ace_next_writer = ctp_next_writer p\<rparr>)))
      | CandidateSubmitted p \<Rightarrow>
          if csp_candidate_id p \<notin> atv_candidate_ids v then Inr None
          else (case evt_actor e of
            None \<Rightarrow> Inr None
          | Some actor \<Rightarrow> bind_result (actor_source v actor) (\<lambda>source. atif_step e source (Extra_Candidate
              \<lparr>acx_event_id = evt_event_id e, acx_actor_id = actor, acx_candidate_id = csp_candidate_id p,
               acx_parent_candidate_id = csp_parent_candidate_id p\<rparr>)))
      | CheckpointCommitted p \<Rightarrow>
          if ccp_checkpoint_id p \<notin> atv_checkpoint_ids v then Inr None
          else atif_step e Atif_SYSTEM (Extra_Checkpoint \<lparr>acp_event_id = evt_event_id e,
            acp_checkpoint_id = ccp_checkpoint_id p, acp_parent_checkpoint_id = ccp_parent_checkpoint_id p\<rparr>)
      | RunEnded p \<Rightarrow>
          if evt_visibility e \<notin> PARTICIPANT_EVENT_VISIBILITY then Inr None
          else atif_step e Atif_SYSTEM (Extra_RunEnded \<lparr>are_event_id = evt_event_id e, are_reason = rep_reason p,
            are_successful_candidate_id = (case rep_successful_candidate_id p of
               None \<Rightarrow> None | Some c \<Rightarrow> if c \<in> atv_candidate_ids v then Some c else None)\<rparr>)
      | _ \<Rightarrow> Inr None)"

definition atif_view_of :: "ProjectionSnapshot \<Rightarrow> atif_view" where
  "atif_view_of s =
     \<lparr>atv_actor_kinds = dict_of run_actor_id actor_kind (psn_actors s), atv_public_artifacts = public_artifacts (psn_events s),
      atv_candidate_ids = set (candidate_ids (visible_candidate_events (psn_events s) PARTICIPANT_EVENT_VISIBILITY)),
      atv_checkpoint_ids = visible_checkpoint_ids (psn_events s) PARTICIPANT_EVENT_VISIBILITY\<rparr>"

text \<open>A kept step is renumbered by \<open>model_copy\<close>, which does not validate.\<close>

definition atif_steps :: "ProjectionSnapshot \<Rightarrow> export_error + AtifStep list" where
  "atif_steps s =
     fold_result (\<lambda>steps e. bind_result (project_event (atif_view_of s) e) (\<lambda>projected.
       Inr (case projected of None \<Rightarrow> steps | Some step \<Rightarrow> steps @ [step\<lparr>ast_step_id := int (length steps) + 1\<rparr>])))
       [] (psn_events s)"

definition harness_of :: "RunActor \<Rightarrow> HarnessRunActor option" where
  "harness_of a = (case a of Run_Harness h \<Rightarrow> Some h | Run_Human _ \<Rightarrow> None)"

definition trajectory_agent :: "export_digests \<Rightarrow> ProjectionSnapshot \<Rightarrow> export_error + AtifAgent" where
  "trajectory_agent dg s =
     (case List.map_filter harness_of (psn_actors s) of
        [h] \<Rightarrow> Inr \<lparr>aag_name = ''edagym-harness'', aag_version = exd_harness_version dg h, aag_model_name = None\<rparr>
      | [] \<Rightarrow>
          (case List.map_filter (\<lambda>a. case a of Run_Human h \<Rightarrow> Some h | Run_Harness _ \<Rightarrow> None) (psn_actors s) of
             [] \<Rightarrow> Inl Export_stop_iteration
           | human # _ \<Rightarrow> Inr \<lparr>aag_name = ''edagym-human-adapter'', aag_version = hra_adapter_digest human,
               aag_model_name = None\<rparr>)
      | harnesses \<Rightarrow> Inr \<lparr>aag_name = ''edagym-multi-harness'', aag_version = exd_harnesses_version dg harnesses,
          aag_model_name = None\<rparr>)"

definition project_atif :: "export_digests \<Rightarrow> ProjectionSnapshot \<Rightarrow> export_error + AtifTrajectory" where
  "project_atif dg s =
     bind_result (atif_steps s) (\<lambda>steps.
     bind_result (unavailable_if (steps = []) Trajectory_empty) (\<lambda>_.
     bind_result (trajectory_agent dg s) (\<lambda>agent.
       AtifTrajectory_validate \<lparr>atj_session_id = hdr_run_id (psn_header s), atj_trajectory_id = hdr_run_id (psn_header s),
         atj_agent = agent, atj_steps = steps, atj_total_steps = int (length steps),
         atj_extra = (let b = psn_binding s in
           \<lparr>arx_task_family = trb_family (bnd_task b), arx_authoring_revision = trb_authoring_revision (bnd_task b),
            arx_task_spec_digest = trb_task_spec_digest (bnd_task b), arx_instance_digest = trb_instance_digest (bnd_task b),
            arx_release_digest = trb_release_digest (bnd_task b),
            arx_environment_spec_digest = erb_environment_spec_digest (bnd_environment b),
            arx_session_spec_digest = srb_session_spec_digest (bnd_session b),
            arx_requested_model_routes = map (\<lambda>h. \<lparr>arr_actor_id = har_actor_id h, arr_route = har_requested_model_route h\<rparr>)
              (List.map_filter harness_of (psn_actors s))\<rparr>)\<rparr>)))"

subsection \<open>Rewards\<close>

definition project_harbor :: "export_digests \<Rightarrow> ProjectionSnapshot \<Rightarrow> export_error + HarborTrialProjection" where
  "project_harbor dg s =
     bind_result (unavailable_if (rst_terminal_reason (psn_state s) = None) Not_terminated) (\<lambda>_.
     case visible_run_end (psn_events s) {Visibility_PUBLIC, Visibility_PARTICIPANT} of
       None \<Rightarrow> Inl (Unavailable No_participant_outcome)
     | Some terminal \<Rightarrow>
         bind_result (project_atif dg s) (\<lambda>trajectory.
           HarborTrialProjection_validate \<lparr>hbt_trajectory = trajectory,
             hbt_reward = (if rep_reason terminal = Stop_VERIFIER_SUCCESS then 1 else 0)\<rparr>))"

subsection \<open>Dataset rows\<close>

fun top_module_of :: "InterfaceSpec \<Rightarrow> string option" where
  "top_module_of (Interface_Workspace _) = None"
| "top_module_of (Interface_Scalar i) = Some (sca_top_module i)"
| "top_module_of (Interface_Stream i) = Some (str_top_module i)"
| "top_module_of (Interface_Mmio i) = Some (mmi_top_module i)"
| "top_module_of (Interface_BusBridge i) = Some (bri_top_module i)"
| "top_module_of (Interface_MemoryMaster i) = Some (mem_top_module i)"
| "top_module_of (Interface_MultiClock i) = Some (mul_top_module i)"
| "top_module_of (Interface_CycleTrace i) = Some (cyc_top_module i)"

definition project_nemo :: "ProjectionSnapshot \<Rightarrow> NemoDatasetProjection" where
  "project_nemo s =
     (let t = psn_task s; b = bnd_task (psn_binding s); newline = [CHR 0x0A];
          requirements = join_with CHR 0x0A (map (\<lambda>r. ''- '' @ req_requirement_id r @ '': '' @ req_description r)
            (con_requirements (tsk_contract t)));
          subject = (case top_module_of (tsk_interface t) of None \<Rightarrow> ''workspace submission''
            | Some name \<Rightarrow> ''top module '' @ name)
      in \<lparr>nem_content = ''Solve EdaGym task '' @ idn_family (tsk_identity t) @ '' for '' @ subject @ ''.'' @ newline
             @ ''Instance: '' @ trb_instance_digest b @ newline @ ''Release: '' @ trb_release_digest b @ newline
             @ ''Requirements:'' @ newline @ requirements,
           nem_id = hdr_run_id (psn_header s)\<rparr>)"

end
