(* ===== verification/ExportReports.thy ===== *)
theory ExportReports
  imports ExportModel
begin

section \<open>Course reports and leaderboards\<close>

text \<open>
  Models \<open>src/edagym/projections/reports.py\<close>: the course report, the leaderboard entry of a run, the aggregation of
  entries by partition and the Pareto front of a partition. The two public variants of each projection differ only
  in where the replayed events come from, which is the snapshot.
\<close>

subsection \<open>Course reports\<close>

definition COURSE_VISIBLE :: "Visibility set" where
  "COURSE_VISIBLE = insert Visibility_REVIEWER PARTICIPANT_EVENT_VISIBILITY"

definition require_session :: "export_digests \<Rightarrow> ProjectionSnapshot \<Rightarrow> SessionSpec \<Rightarrow> export_error + unit" where
  "require_session dg s session =
     unavailable_if (exd_session dg session \<noteq> srb_session_spec_digest (bnd_session (psn_binding s))) Session_differs"

text \<open>A \<open>defaultdict(int)\<close>: a missing key counts as zero.\<close>

definition tally :: "(Identifier, int) dict \<Rightarrow> Identifier \<Rightarrow> int" where
  "tally d k = (case dict_get d k of None \<Rightarrow> 0 | Some n \<Rightarrow> n)"

definition tally_up :: "Identifier \<Rightarrow> (Identifier, int) dict \<Rightarrow> (Identifier, int) dict" where
  "tally_up k d = dict_set k (tally d k + 1) d"

record course_tallies =
  ctl_interactions :: "(Identifier, int) dict"
  ctl_given :: "(Identifier, int) dict"
  ctl_received :: "(Identifier, int) dict"

definition course_step :: "RunEvent \<Rightarrow> course_tallies \<Rightarrow> course_tallies" where
  "course_step e c =
     (if evt_visibility e \<notin> COURSE_VISIBLE then c
      else case evt_payload e of
        InteractionRecorded _ \<Rightarrow>
          (case evt_actor e of None \<Rightarrow> c | Some a \<Rightarrow> c\<lparr>ctl_interactions := tally_up a (ctl_interactions c)\<rparr>)
      | ControlTransferred p \<Rightarrow> c\<lparr>ctl_given := tally_up (ctp_previous_writer p) (ctl_given c),
          ctl_received := tally_up (ctp_next_writer p) (ctl_received c)\<rparr>
      | _ \<Rightarrow> c)"

definition course_tallies_of :: "RunEvent list \<Rightarrow> course_tallies" where
  "course_tallies_of events = fold course_step events \<lparr>ctl_interactions = [], ctl_given = [], ctl_received = []\<rparr>"

definition candidates_by_actor :: "RunEvent list \<Rightarrow> (Identifier, int) dict" where
  "candidates_by_actor candidate_events =
     fold (\<lambda>e d. case evt_actor e of None \<Rightarrow> d | Some a \<Rightarrow> tally_up a d) candidate_events []"

fun outcome_value :: "OutcomeKind \<Rightarrow> string" where
  "outcome_value Outcome_PASSED = ''passed''"
| "outcome_value Outcome_PROVED = ''proved''"
| "outcome_value Outcome_COUNTEREXAMPLE = ''counterexample''"
| "outcome_value Outcome_CANDIDATE_FAILURE = ''candidate_failure''"
| "outcome_value Outcome_UNKNOWN = ''unknown''"
| "outcome_value Outcome_TIMEOUT = ''timeout''"
| "outcome_value Outcome_INFRASTRUCTURE_FAILURE = ''infrastructure_failure''"
| "outcome_value Outcome_LICENSE_UNAVAILABLE = ''license_unavailable''"
| "outcome_value Outcome_SECURITY_VIOLATION = ''security_violation''"

definition visible_outcomes :: "Identifier set \<Rightarrow> RunEvent list \<Rightarrow> (Identifier \<times> Identifier \<times> OutcomeKind) list" where
  "visible_outcomes visible_ids events = List.map_filter (\<lambda>e. case evt_payload e of
     EvaluationCompleted p \<Rightarrow>
       if evt_visibility e \<notin> COURSE_VISIBLE then None
       else if ecp_candidate_id p \<notin> visible_ids then None
       else Some (ecp_candidate_id p, sgr_stage_id (ecp_result p), sgr_outcome (ecp_result p))
   | _ \<Rightarrow> None) events"

definition course_candidate :: "(Identifier \<times> Identifier \<times> OutcomeKind) list \<Rightarrow> RunEvent \<Rightarrow> CandidateCourseEvidence option" where
  "course_candidate outcomes e =
     (case (evt_actor e, candidate_id_of e) of
        (Some actor, Some candidate) \<Rightarrow> Some \<lparr>ccv_candidate_id = candidate, ccv_actor_id = actor,
          ccv_parent_candidate_id = parent_candidate_of e,
          ccv_stage_outcomes = sort_key (\<lambda>(stage, kind). (stage, outcome_value kind))
            (map snd (filter (\<lambda>(c, _). c = candidate) outcomes))\<rparr>
      | _ \<Rightarrow> None)"

definition course_artifacts :: "RunEvent list \<Rightarrow> ArtifactRecord list" where
  "course_artifacts events = List.map_filter (\<lambda>e. case evt_payload e of
     ArtifactRecorded p \<Rightarrow>
       let r = arp_record p in
       if evt_visibility e \<in> COURSE_VISIBLE \<and> art_visibility r \<in> COURSE_VISIBLE
          \<and> art_sensitivity r \<in> {Sensitivity_PUBLIC, Sensitivity_INTERNAL} \<and> art_redistribution r = Redistribution_ALLOWED
       then Some r else None
   | _ \<Rightarrow> None) events"

definition project_course_report :: "export_digests \<Rightarrow> ProjectionSnapshot \<Rightarrow> SessionSpec \<Rightarrow> export_error + CourseReport" where
  "project_course_report dg s session =
     bind_result (require_session dg s session) (\<lambda>_.
     case ssn_mode session of
       Mode_Course mode \<Rightarrow>
         let events = psn_events s;
             tallies = course_tallies_of events;
             candidate_events = visible_candidate_events events COURSE_VISIBLE;
             by_actor = candidates_by_actor candidate_events;
             outcomes = visible_outcomes (set (candidate_ids candidate_events)) events;
             candidates = List.map_filter (course_candidate outcomes) candidate_events;
             artifacts = course_artifacts events;
             terminal = visible_run_end events COURSE_VISIBLE;
             terminal_candidate = Option.bind terminal rep_successful_candidate_id
         in Inr \<lparr>crp_run_id = hdr_run_id (psn_header s), crp_task = bnd_task (psn_binding s),
              crp_environment_spec_digest = erb_environment_spec_digest (bnd_environment (psn_binding s)),
              crp_session_spec_digest = srb_session_spec_digest (bnd_session (psn_binding s)),
              crp_rubric_digest = crm_rubric_digest mode, crp_oral_defense = crm_oral_defense mode,
              crp_participation = participation_kind s,
              crp_actors = map (\<lambda>actor. let i = run_actor_id actor in
                \<lparr>acv_actor_id = i, acv_kind = actor_kind actor, acv_interaction_count = tally (ctl_interactions tallies) i,
                 acv_candidate_count = tally by_actor i, acv_handoffs_given = tally (ctl_given tallies) i,
                 acv_handoffs_received = tally (ctl_received tallies) i\<rparr>) (psn_actors s),
              crp_candidates = candidates, crp_handoff_count = sum_list (dict_values (ctl_given tallies)),
              crp_checkpoint_count = int (card (visible_checkpoint_ids events COURSE_VISIBLE)),
              crp_artifact_counts = map (\<lambda>c. (c, int (length (filter (\<lambda>a. art_artifact_class a = c) artifacts))))
                all_artifact_classes,
              crp_terminal_reason = map_option rep_reason terminal,
              crp_successful_candidate_id =
                (if terminal_candidate \<in> set (map (\<lambda>c. Some (ccv_candidate_id c)) candidates) then terminal_candidate else None)\<rparr>
     | _ \<Rightarrow> Inl (Unavailable Not_a_course))"

subsection \<open>Leaderboard entries\<close>

definition require_sealed_leaderboard_task :: "TaskSpec \<Rightarrow> export_error + unit" where
  "require_sealed_leaderboard_task t =
     (case idn_origin (tsk_identity t) of
        Origin_NativeSealed _ \<Rightarrow> Inr ()
      | _ \<Rightarrow> Inl (Unavailable Calibration_task))"

definition public_results :: "Identifier option \<Rightarrow> RunEvent list \<Rightarrow> EvaluationCompletedPayload list" where
  "public_results candidate events = List.map_filter (\<lambda>e. case evt_payload e of
     EvaluationCompleted p \<Rightarrow>
       if evt_visibility e = Visibility_PUBLIC \<and> Some (ecp_candidate_id p) = candidate then Some p else None
   | _ \<Rightarrow> None) events"

definition public_scoring :: "Identifier option \<Rightarrow> RunEvent list \<Rightarrow> ScoringDecision option" where
  "public_scoring candidate events =
     (case List.map_filter (\<lambda>e. case evt_payload e of
        ScoringRecorded p \<Rightarrow>
          if evt_visibility e = Visibility_PUBLIC \<and> Some (srp_candidate_id p) = candidate then Some (srp_decision p) else None
      | _ \<Rightarrow> None) events of
        [] \<Rightarrow> None | d # _ \<Rightarrow> Some d)"

definition public_measurement_artifacts :: "RunEvent list \<Rightarrow> (Identifier, ArtifactRecord) dict" where
  "public_measurement_artifacts events = dict_of art_logical_id id (List.map_filter (\<lambda>e. case evt_payload e of
     ArtifactRecorded p \<Rightarrow>
       let r = arp_record p in
       if evt_visibility e = Visibility_PUBLIC \<and> art_artifact_class r = Artifact_MEASUREMENT
          \<and> art_visibility r = Visibility_PUBLIC \<and> art_sensitivity r = Sensitivity_PUBLIC
          \<and> art_redistribution r = Redistribution_ALLOWED then Some r else None
   | _ \<Rightarrow> None) events)"

definition required_public_provenance :: "(Identifier, ArtifactRecord) dict \<Rightarrow> MeasurementEvidence
    \<Rightarrow> export_error + MeasurementProvenance" where
  "required_public_provenance artifacts evidence =
     (case mev_provenance evidence of
        None \<Rightarrow> Inl (Unavailable Provenance_missing)
      | Some provenance \<Rightarrow>
          (case dict_get artifacts (mpv_source_artifact_id provenance) of
             None \<Rightarrow> Inl (Unavailable Provenance_private)
           | Some source \<Rightarrow>
               if blb_digest (art_blob source) \<noteq> mpv_source_digest provenance
                  \<or> art_media_type source \<noteq> SANITIZED_MEASUREMENTS_MEDIA_TYPE
               then Inl (Unavailable Provenance_private) else Inr provenance))"

definition leaderboard_measurement :: "(Identifier, MeasurementSpec) dict \<Rightarrow> (Identifier, ArtifactRecord) dict \<Rightarrow> Identifier
    \<Rightarrow> Identifier \<Rightarrow> MeasurementEvidence \<Rightarrow> export_error + LeaderboardMeasurement" where
  "leaderboard_measurement schema artifacts candidate stage evidence =
     bind_result (export_item schema (mev_measurement_id evidence)) (\<lambda>specification.
     bind_result (required_public_provenance artifacts evidence) (\<lambda>provenance.
       Inr \<lparr>lbm_candidate_id = candidate, lbm_stage_id = stage, lbm_measurement_id = mev_measurement_id evidence,
         lbm_unit = mpv_unit provenance, lbm_sample_seeds = mpv_sample_seeds provenance,
         lbm_source_artifact_id = mpv_source_artifact_id provenance, lbm_source_digest = mpv_source_digest provenance,
         lbm_direction = msp_direction specification, lbm_samples = mev_samples evidence\<rparr>))"

definition leaderboard_measurements :: "TaskSpec \<Rightarrow> RunEvent list \<Rightarrow> EvaluationCompletedPayload list
    \<Rightarrow> export_error + LeaderboardMeasurement list" where
  "leaderboard_measurements t events results =
     map_result (\<lambda>(p, evidence). leaderboard_measurement (dict_of msp_measurement_id id (tsk_measurements t))
         (public_measurement_artifacts events) (ecp_candidate_id p) (sgr_stage_id (ecp_result p)) evidence)
       (concat (map (\<lambda>p. map (Pair p) (sgr_measurements (ecp_result p))) results))"

definition leaderboard_partition :: "ProjectionSnapshot \<Rightarrow> LeaderboardCohort \<Rightarrow> int \<Rightarrow> LeaderboardPartition" where
  "leaderboard_partition s cohort trials =
     (let b = psn_binding s in
      \<lparr>lbp_task_family = trb_family (bnd_task b), lbp_authoring_revision = trb_authoring_revision (bnd_task b),
       lbp_task_spec_digest = trb_task_spec_digest (bnd_task b), lbp_instance_digest = trb_instance_digest (bnd_task b),
       lbp_release_digest = trb_release_digest (bnd_task b),
       lbp_environment_spec_digest = erb_environment_spec_digest (bnd_environment b), lbp_cohort = cohort,
       lbp_feedback_policy_digest = srb_feedback_policy_digest (bnd_session b),
       lbp_budget_digest = srb_budget_digest (bnd_session b), lbp_evaluators = bnd_evaluators b,
       lbp_measurement_schema_digest = bnd_measurement_schema_digest b,
       lbp_scorer_revision_digest = bnd_scorer_revision_digest b, lbp_trial_count = trials\<rparr>)"

definition leaderboard_entry_of :: "export_digests \<Rightarrow> ProjectionSnapshot \<Rightarrow> StopReason \<Rightarrow> RunEndedPayload \<Rightarrow> LeaderboardPartition
    \<Rightarrow> LeaderboardMeasurement list \<Rightarrow> LeaderboardEntry" where
  "leaderboard_entry_of dg s reason terminal frozen measurements =
     (let scoring = public_scoring (rep_successful_candidate_id terminal) (psn_events s) in
      \<lparr>lbe_partition_id = exd_partition dg frozen, lbe_partition = frozen, lbe_run_id = hdr_run_id (psn_header s),
       lbe_lineage = bnd_lineage (psn_binding s),
       lbe_rank_eligible = (participation_kind s = Participation_AGENT
         \<and> lin_parent_run_id (bnd_lineage (psn_binding s)) = None \<and> reason = Stop_VERIFIER_SUCCESS
         \<and> map_option (\<lambda>d. sel_state (dec_eligibility d)) scoring = Some Scorer_READY),
       lbe_success = (rst_successful_candidate_id (psn_state s) \<noteq> None), lbe_terminal_reason = reason,
       lbe_human_intervention_count = human_intervention_count s,
       lbe_stage_outcomes = map (\<lambda>p. \<lparr>lso_candidate_id = ecp_candidate_id p, lso_stage_id = sgr_stage_id (ecp_result p),
         lso_outcome = sgr_outcome (ecp_result p)\<rparr>) (public_results (rep_successful_candidate_id terminal) (psn_events s)),
       lbe_measurements = measurements,
       lbe_scoring_eligibility = map_option (\<lambda>d. sel_state (dec_eligibility d)) scoring,
       lbe_score = Option.bind scoring dec_score\<rparr>)"

fun leaderboard_actor :: "RunActor \<Rightarrow> export_error + RunActor" where
  "leaderboard_actor (Run_Human h) = LeaderboardActor_validate (Run_Human
     \<lparr>hra_actor_id = hra_actor_id h, hra_adapter_digest = hra_adapter_digest h\<rparr>)"
| "leaderboard_actor (Run_Harness h) = LeaderboardActor_validate (Run_Harness
     \<lparr>har_actor_id = har_actor_id h, har_harness_digest = har_harness_digest h,
      har_scaffold_digest = har_scaffold_digest h, har_requested_model_route = har_requested_model_route h\<rparr>)"

definition project_leaderboard_entry :: "export_digests \<Rightarrow> ProjectionSnapshot \<Rightarrow> SessionSpec \<Rightarrow> export_error + LeaderboardEntry" where
  "project_leaderboard_entry dg s session =
     bind_result (require_session dg s session) (\<lambda>_.
     bind_result (require_sealed_leaderboard_task (psn_task s)) (\<lambda>_.
     case ssn_mode session of
       Mode_Benchmark mode \<Rightarrow>
         (case rst_terminal_reason (psn_state s) of
            None \<Rightarrow> Inl (Unavailable Not_terminated)
          | Some reason \<Rightarrow>
            (case visible_run_end (psn_events s) {Visibility_PUBLIC} of
               None \<Rightarrow> Inl (Unavailable No_public_outcome)
             | Some terminal \<Rightarrow>
               bind_result (map_result leaderboard_actor (psn_actors s)) (\<lambda>actors.
               bind_result (LeaderboardCohort_validate \<lparr>lbc_actors = actors,
                   lbc_initial_writer = srb_initial_writer (bnd_session (psn_binding s)),
                   lbc_handoff_enabled = srb_handoff_enabled (bnd_session (psn_binding s)),
                   lbc_participation = participation_kind s\<rparr>) (\<lambda>cohort.
               bind_result (leaderboard_measurements (psn_task s) (psn_events s)
                   (public_results (rep_successful_candidate_id terminal) (psn_events s))) (\<lambda>measurements.
               bind_result (LeaderboardPartition_validate (leaderboard_partition s cohort (bmm_trial_count mode))) (\<lambda>frozen.
                 LeaderboardEntry_validate dg (leaderboard_entry_of dg s reason terminal frozen measurements)))))))
     | _ \<Rightarrow> Inl (Unavailable Not_a_benchmark)))"

subsection \<open>Aggregation\<close>

definition COMPARABLE_TRIAL_STOP_REASONS :: "StopReason set" where
  "COMPARABLE_TRIAL_STOP_REASONS = {Stop_VERIFIER_SUCCESS, Stop_UNRANKABLE, Stop_WALL_BUDGET, Stop_EDA_COMPUTE_BUDGET,
     Stop_EXPERIMENT_BUDGET, Stop_INTERACTION_BUDGET, Stop_TOOL_CALL_BUDGET, Stop_TOKEN_BUDGET, Stop_LICENSE_BUDGET,
     Stop_STORAGE_BUDGET}"

definition group_entries :: "LeaderboardEntry list \<Rightarrow> (Digest, LeaderboardEntry list) dict" where
  "group_entries entries = fold (\<lambda>e d. dict_set (lbe_partition_id e)
     ((case dict_get d (lbe_partition_id e) of None \<Rightarrow> [] | Some es \<Rightarrow> es) @ [e]) d) entries []"

definition aggregate_group :: "export_digests \<Rightarrow> Digest \<times> LeaderboardEntry list \<Rightarrow> export_error + LeaderboardAggregate" where
  "aggregate_group dg g =
     (case g of (partition_id, members) \<Rightarrow>
      bind_result (unavailable_if (int (length members) \<noteq> lbp_trial_count (lbe_partition (hd members))) Trials_missing) (\<lambda>_.
        LeaderboardAggregate_validate dg
          \<lparr>lba_partition_id = partition_id, lba_partition = lbe_partition (hd members),
           lba_rank_eligible = list_all (\<lambda>e. lbc_participation (lbp_cohort (lbe_partition e)) = Participation_AGENT
             \<and> lin_parent_run_id (lbe_lineage e) = None \<and> (\<not> lbe_success e \<or> lbe_rank_eligible e)
             \<and> lbe_terminal_reason e \<in> COMPARABLE_TRIAL_STOP_REASONS) members,
           lba_run_ids = sort (map lbe_run_id members),
           lba_success_numerator = int (length (filter lbe_success members)),
           lba_success_denominator = int (length members)\<rparr>))"

definition aggregate_entries :: "export_digests \<Rightarrow> LeaderboardEntry list \<Rightarrow> export_error + LeaderboardAggregate list" where
  "aggregate_entries dg entries =
     bind_result (unavailable_if (\<not> distinct (map lbe_run_id entries)) Run_counted_twice) (\<lambda>_.
     bind_result (map_result (aggregate_group dg) (group_entries entries)) (\<lambda>aggregates.
       Inr (sort_key lba_partition_id aggregates)))"

definition aggregate_leaderboard :: "export_digests \<Rightarrow> (ProjectionSnapshot \<times> SessionSpec) list
    \<Rightarrow> export_error + LeaderboardAggregate list" where
  "aggregate_leaderboard dg runs =
     bind_result (map_result (\<lambda>(s, session). project_leaderboard_entry dg s session) runs) (aggregate_entries dg)"

subsection \<open>Pareto fronts\<close>

definition eligible_entry :: "TaskSpec \<Rightarrow> LeaderboardEntry \<Rightarrow> export_error + (LeaderboardEntry \<times> ParetoVectorScore) option" where
  "eligible_entry t e =
     (if \<not> lbe_rank_eligible e then Inr None
      else case lbe_score e of
        Some (Score_Pareto score) \<Rightarrow>
          (case pareto_dominates t score score of
             Inl _ \<Rightarrow> Inl (Unavailable Front_schema)
           | Inr _ \<Rightarrow> Inr (Some (e, score)))
      | _ \<Rightarrow> Inl (Unavailable Front_score_kind))"

text \<open>\<open>any\<close> stops at the first other entry that dominates; an error before it is raised.\<close>

fun any_dominates :: "TaskSpec \<Rightarrow> nat \<Rightarrow> ParetoVectorScore \<Rightarrow> (nat \<times> ParetoVectorScore) list \<Rightarrow> export_error + bool" where
  "any_dominates t index score [] = Inr False"
| "any_dominates t index score ((other_index, other) # rest) =
     (if index = other_index then any_dominates t index score rest
      else case pareto_dominates t other score of
        Inl e \<Rightarrow> Inl (Export_evaluation e)
      | Inr True \<Rightarrow> Inr True
      | Inr False \<Rightarrow> any_dominates t index score rest)"

definition nondominated :: "TaskSpec \<Rightarrow> (LeaderboardEntry \<times> ParetoVectorScore) list \<Rightarrow> export_error + LeaderboardEntry list" where
  "nondominated t eligible =
     bind_result (map_result (\<lambda>(index, entry, score).
         bind_result (any_dominates t index score (enumerate 0 (map snd eligible))) (\<lambda>dominated.
           Inr (if dominated then None else Some entry))) (enumerate 0 eligible)) (\<lambda>kept.
       Inr (List.map_filter id kept))"

definition project_pareto_front :: "export_digests \<Rightarrow> TaskSpec \<Rightarrow> LeaderboardEntry list \<Rightarrow> export_error + LeaderboardEntry list" where
  "project_pareto_front dg t entries =
     bind_result (require_sealed_leaderboard_task t) (\<lambda>_.
     bind_result (unavailable_if (entries = []) Front_empty) (\<lambda>_.
     bind_result (unavailable_if (card (set (map lbe_partition_id entries)) \<noteq> 1) Front_partitions) (\<lambda>_.
     bind_result (unavailable_if (card (set (map lbe_run_id entries)) \<noteq> length entries) Front_run_twice) (\<lambda>_.
     bind_result (unavailable_if (exd_task dg t \<noteq> lbp_task_spec_digest (lbe_partition (hd entries))) Front_task) (\<lambda>_.
     bind_result (unavailable_if (grf_scorer (tsk_evaluation t) \<noteq> None
         \<or> lbp_scorer_revision_digest (lbe_partition (hd entries)) \<noteq> None) Front_scalar) (\<lambda>_.
     bind_result (unavailable_if (\<not> list_ex (\<lambda>m. msp_direction m \<noteq> Metric_NONE) (tsk_measurements t)) Front_without_objective) (\<lambda>_.
     bind_result (map_result (eligible_entry t) entries) (\<lambda>found.
     bind_result (nondominated t (List.map_filter id found)) (\<lambda>front.
       Inr (sort_key lbe_run_id front))))))))))"

end
