(* ===== verification/ExportFacts.thy ===== *)
theory ExportFacts
  imports ExportTrajectory ExportReports ReplayProperties Exceptions
begin

section \<open>Facts about the projections\<close>

text \<open>
  What an accepted journal guarantees about the events a projection reads, each by one induction over the replay
  loop; what an audience cannot see does not influence what it is shown; and the trajectories and reward documents
  a projection builds pass their own validators.
\<close>

subsection \<open>Invariants of the replay loop over its own events\<close>

lemma replay_loop_invariant:
  assumes "replay_loop env es = Inr st" and "I (replay_init env)"
    and step: "\<And>s e lifecycle st1 ids. I s \<Longrightarrow> check_envelope env s e = Inr () \<Longrightarrow> on_event env lifecycle e s = Inr st1
      \<Longrightarrow> I (st1\<lparr>rps_prefix := rps_prefix s @ [e], rps_event_ids := ids\<rparr>)"
  shows "I st"
proof -
  have "invariant_projection (replay_event env) (replay_init env) I"
    using assms(2) by unfold_locales (auto elim!: replay_event_E intro: step)
  then show ?thesis using assms(1) by (auto simp: replay_loop_def dest: invariant_projection.run_inv)
qed

definition checkpoint_id_of :: "RunEvent \<Rightarrow> Identifier option" where
  "checkpoint_id_of e = (case evt_payload e of CheckpointCommitted p \<Rightarrow> Some (ccp_checkpoint_id p) | _ \<Rightarrow> None)"

definition checkpoint_ids :: "RunEvent list \<Rightarrow> Identifier list" where
  "checkpoint_ids es = List.map_filter checkpoint_id_of es"

declare map_filter_snoc [simp]

text \<open>Candidates and checkpoints are recorded under identifiers of their own.\<close>

lemma recorded_ids:
  assumes "replay_loop env es = Inr st"
  shows "distinct (candidate_ids es) \<and> distinct (checkpoint_ids es)"
proof -
  let ?inv = "\<lambda>st. set (dict_keys (rps_candidates st)) = set (candidate_ids (rps_prefix st)) \<and> distinct (candidate_ids (rps_prefix st))
    \<and> rps_checkpoints st = checkpoint_ids (rps_prefix st) \<and> distinct (checkpoint_ids (rps_prefix st))"
  have "?inv st"
    using assms
  proof (rule replay_loop_invariant)
    show "?inv (replay_init env)" by (simp add: replay_init_def candidate_ids_def checkpoint_ids_def dict_keys_def)
    fix s e lifecycle st1 ids assume inv: "?inv s" and on: "on_event env lifecycle e s = Inr st1"
    have "(\<exists>p. evt_payload e = CandidateSubmitted p \<and> on_candidate_submitted e p s = Inr st1)
        \<or> rps_candidates st1 = rps_candidates s \<and> candidate_id_of e = None"
      using on by (cases "evt_payload e") (auto simp: on_event_def candidate_id_of_def elim!: handler_elims)
    then have "set (dict_keys (rps_candidates st1)) = set (candidate_ids (rps_prefix s @ [e])) \<and> distinct (candidate_ids (rps_prefix s @ [e]))"
    proof (elim disjE exE conjE)
      fix p assume p: "evt_payload e = CandidateSubmitted p" "on_candidate_submitted e p s = Inr st1"
      have "candidate_ids (rps_prefix s @ [e]) = candidate_ids (rps_prefix s) @ [csp_candidate_id p]"
        using p(1) by (simp add: candidate_ids_def candidate_id_of_def)
      moreover from p(2) have "csp_candidate_id p \<notin> set (dict_keys (rps_candidates s))"
        "set (dict_keys (rps_candidates st1)) = insert (csp_candidate_id p) (set (dict_keys (rps_candidates s)))"
        by (rule candidate_submitted_E, simp add: dict_keys_set)+
      ultimately show ?thesis using inv by simp
    qed (use inv in \<open>simp add: candidate_ids_def\<close>)
    moreover have "rps_checkpoints st1 = checkpoint_ids (rps_prefix s @ [e]) \<and> distinct (checkpoint_ids (rps_prefix s @ [e]))"
      using inv on by (cases "evt_payload e") (auto simp: on_event_def checkpoint_ids_def checkpoint_id_of_def elim!: handler_elims)
    ultimately show "?inv (st1\<lparr>rps_prefix := rps_prefix s @ [e], rps_event_ids := ids\<rparr>)" by simp
  qed
  then show ?thesis using replay_loop_prefix [OF assms] by simp
qed

text \<open>What the final state keeps of each event.\<close>

lemma recorded_scoring:
  assumes "replay_loop env es = Inr st" "e \<in> set es" "evt_payload e = ScoringRecorded p"
  shows "dict_get (rps_scoring st) (srp_candidate_id p) = Some \<lparr>css_candidate_id = srp_candidate_id p, css_decision = srp_decision p\<rparr>"
proof -
  let ?inv = "\<lambda>st. \<forall>e\<in>set (rps_prefix st). \<forall>p. evt_payload e = ScoringRecorded p \<longrightarrow>
    dict_get (rps_scoring st) (srp_candidate_id p) = Some \<lparr>css_candidate_id = srp_candidate_id p, css_decision = srp_decision p\<rparr>"
  have "?inv st"
    using assms(1)
  proof (rule replay_loop_invariant)
    show "?inv (replay_init env)" by (simp add: replay_init_def)
    fix s e lifecycle st1 ids assume inv: "?inv s" and on: "on_event env lifecycle e s = Inr st1"
    have "(\<exists>p. evt_payload e = ScoringRecorded p \<and> on_scoring_recorded env p s = Inr st1)
        \<or> rps_scoring st1 = rps_scoring s \<and> (\<forall>p. evt_payload e \<noteq> ScoringRecorded p)"
      using on by (cases "evt_payload e") (auto simp: on_event_def elim!: handler_elims)
    then show "?inv (st1\<lparr>rps_prefix := rps_prefix s @ [e], rps_event_ids := ids\<rparr>)"
    proof (elim disjE exE conjE)
      fix p assume p: "evt_payload e = ScoringRecorded p" "on_scoring_recorded env p s = Inr st1"
      from p(2) have fresh: "srp_candidate_id p \<notin> set (dict_keys (rps_scoring s))" by (rule scoring_recorded_E)
      have "srp_candidate_id q \<noteq> srp_candidate_id p" if "f \<in> set (rps_prefix s)" "evt_payload f = ScoringRecorded q" for f q
        using inv that fresh by (metis dict_get_Some_keys)
      with p inv show ?thesis by (auto elim!: scoring_recorded_E simp: dict_get_set)
    qed (use inv in auto)
  qed
  then show ?thesis using assms(2,3) replay_loop_prefix [OF assms(1)] by blast
qed

lemma recorded_result:
  assumes "replay_loop env es = Inr st" "e \<in> set es" "evt_payload e = EvaluationCompleted p"
  shows "\<lparr>csr_candidate_id = ecp_candidate_id p, csr_result = ecp_result p\<rparr> \<in> set (rps_stage_results st)"
proof -
  let ?inv = "\<lambda>st. \<forall>e\<in>set (rps_prefix st). \<forall>p. evt_payload e = EvaluationCompleted p \<longrightarrow>
    \<lparr>csr_candidate_id = ecp_candidate_id p, csr_result = ecp_result p\<rparr> \<in> set (rps_stage_results st)"
  have "?inv st"
    using assms(1)
  proof (rule replay_loop_invariant)
    show "?inv (replay_init env)" by (simp add: replay_init_def)
    fix s e lifecycle st1 ids assume inv: "?inv s" and on: "on_event env lifecycle e s = Inr st1"
    have "set (rps_stage_results s) \<subseteq> set (rps_stage_results st1)
        \<and> (\<forall>p. evt_payload e = EvaluationCompleted p \<longrightarrow>
          \<lparr>csr_candidate_id = ecp_candidate_id p, csr_result = ecp_result p\<rparr> \<in> set (rps_stage_results st1))"
      using on by (cases "evt_payload e") (auto simp: on_event_def elim!: handler_elims)
    with inv show "?inv (st1\<lparr>rps_prefix := rps_prefix s @ [e], rps_event_ids := ids\<rparr>)" by auto
  qed
  then show ?thesis using assms(2,3) replay_loop_prefix [OF assms(1)] by blast
qed

lemma recorded_actor:
  assumes "replay_loop env es = Inr st" "e \<in> set es" "evt_actor e = Some a"
  shows "a \<in> env_actor_ids env"
proof -
  let ?inv = "\<lambda>st. \<forall>e\<in>set (rps_prefix st). set_option (evt_actor e) \<subseteq> env_actor_ids env"
  have "?inv st"
    using assms(1) by (rule replay_loop_invariant) (auto simp: replay_init_def elim!: check_envelope_E)
  then show ?thesis using assms(2,3) replay_loop_prefix [OF assms(1)] by fastforce
qed

lemma recorded_end:
  assumes "replay_loop env es = Inr st" "e \<in> set es" "evt_payload e = RunEnded p"
  shows "rps_terminal_reason st = Some (rep_reason p)
    \<and> (rep_reason p = Stop_VERIFIER_SUCCESS \<longrightarrow> rps_successful_candidate st = rep_successful_candidate_id p)"
proof -
  let ?inv = "\<lambda>st. \<forall>e\<in>set (rps_prefix st). \<forall>p. evt_payload e = RunEnded p \<longrightarrow> rps_terminal_reason st = Some (rep_reason p)
    \<and> (rep_reason p = Stop_VERIFIER_SUCCESS \<longrightarrow> rps_successful_candidate st = rep_successful_candidate_id p)"
  have "?inv st"
    using assms(1)
  proof (rule replay_loop_invariant)
    show "?inv (replay_init env)" by (simp add: replay_init_def)
    fix s e lifecycle st1 ids assume inv: "?inv s" and env: "check_envelope env s e = Inr ()" and on: "on_event env lifecycle e s = Inr st1"
    have running: "rps_terminal_reason s = None" using env by (rule check_envelope_E)
    then have none: "\<forall>e\<in>set (rps_prefix s). \<forall>p. evt_payload e \<noteq> RunEnded p" using inv by auto
    show "?inv (st1\<lparr>rps_prefix := rps_prefix s @ [e], rps_event_ids := ids\<rparr>)"
    proof (cases "\<exists>p. evt_payload e = RunEnded p")
      case True
      then obtain p where p: "evt_payload e = RunEnded p" "on_run_ended env lifecycle e p s = Inr st1"
        using on by (auto simp: on_event_def)
      from p(2) show ?thesis
        by (rule run_ended_E) (use p(1) none check_success_result [of env "rep_successful_candidate_id p" s] in auto)
    qed (use none in auto)
  qed
  then show ?thesis using assms(2,3) replay_loop_prefix [OF assms(1)] by blast
qed

subsection \<open>What an audience cannot see\<close>

abbreviation seen :: "Visibility set \<Rightarrow> RunEvent \<Rightarrow> bool" where
  "seen V e \<equiv> evt_visibility e \<in> V"

named_theorems irrelevant \<open>loops that skip what an audience cannot see\<close>

lemma fold_irrelevant: "(\<And>e acc. e \<in> set es \<Longrightarrow> \<not> P e \<Longrightarrow> f e acc = acc) \<Longrightarrow> fold f es a = fold f (filter P es) a"
  by (induction es arbitrary: a) auto

lemma fold_result_irrelevant:
  "(\<And>e acc. e \<in> set es \<Longrightarrow> \<not> P e \<Longrightarrow> f acc e = Inr acc) \<Longrightarrow> fold_result f a es = fold_result f a (filter P es)"
proof (induction es arbitrary: a)
  case (Cons e es)
  then show ?case by (cases "P e"; cases "f a e") auto
qed simp

lemma map_filter_irrelevant:
  "(\<And>e. e \<in> set es \<Longrightarrow> \<not> P e \<Longrightarrow> f e = None) \<Longrightarrow> List.map_filter f es = List.map_filter f (filter P es)"
  by (induction es) (auto simp: List.map_filter_simps split: option.split)

lemma map_filter_inj:
  "distinct (List.map_filter f es) \<Longrightarrow> e \<in> set es \<Longrightarrow> e' \<in> set es \<Longrightarrow> f e = Some x \<Longrightarrow> f e' = Some x \<Longrightarrow> e = e'"
  by (induction es) (auto simp: List.map_filter_simps List.map_filter_def split: option.splits if_splits, (force)+)

lemma visible_artifact_ids_seen [irrelevant]:
  "visible_artifact_ids es V = visible_artifact_ids (filter (seen V) es) V"
  unfolding visible_artifact_ids_def
  by (rule arg_cong [where f = set], rule map_filter_irrelevant) (simp split: EventPayload.split)

lemma visible_candidate_events_seen [irrelevant]:
  "visible_candidate_events es V = visible_candidate_events (filter (seen V) es) V"
  unfolding visible_candidate_events_def visible_artifact_ids_seen [of es V, symmetric]
  by (rule arg_cong [where f = snd], rule fold_irrelevant) (simp add: candidate_step_def split: EventPayload.split)

lemma visible_checkpoint_ids_seen [irrelevant]:
  "visible_checkpoint_ids es V = visible_checkpoint_ids (filter (seen V) es) V"
  unfolding visible_checkpoint_ids_def visible_artifact_ids_seen [of es V, symmetric]
  by (rule fold_irrelevant) (simp add: checkpoint_step_def split: EventPayload.split)

lemma public_artifacts_seen [irrelevant]:
  "Visibility_PUBLIC \<in> V \<Longrightarrow> public_artifacts es = public_artifacts (filter (seen V) es)"
  unfolding public_artifacts_def
  by (rule arg_cong [where f = set], rule map_filter_irrelevant) (auto simp: Let_def split: EventPayload.split)

lemma visible_candidates_recorded:
  assumes "e \<in> set (visible_candidate_events es V)"
  shows "e \<in> set es \<and> seen V e \<and> candidate_id_of e \<noteq> None"
proof -
  have "set (snd (fold (candidate_step A V) es acc)) \<subseteq> set (snd acc) \<union> {e \<in> set es. seen V e \<and> candidate_id_of e \<noteq> None}" for A acc
  proof (induction es arbitrary: acc)
    case (Cons e es)
    have "set (snd (candidate_step A V e acc)) \<subseteq> set (snd acc) \<union> (if seen V e \<and> candidate_id_of e \<noteq> None then {e} else {})"
      by (auto simp: candidate_step_def candidate_id_of_def split: EventPayload.splits)
    then show ?case using Cons [of "candidate_step A V e acc"] by (auto split: if_splits)
  qed simp
  with assms show ?thesis by (fastforce simp: visible_candidate_events_def)
qed

lemma visible_checkpoints_recorded:
  assumes "c \<in> visible_checkpoint_ids es V"
  shows "\<exists>e\<in>set es. seen V e \<and> (\<exists>p. evt_payload e = CheckpointCommitted p \<and> ccp_checkpoint_id p = c)"
proof -
  have "fold (checkpoint_step A V) es ids \<subseteq> ids \<union> {c. \<exists>e\<in>set es. seen V e \<and> (\<exists>p. evt_payload e = CheckpointCommitted p \<and> ccp_checkpoint_id p = c)}"
    for A ids
  proof (induction es arbitrary: ids)
    case (Cons e es)
    have "checkpoint_step A V e ids \<subseteq> ids \<union> {c. seen V e \<and> (\<exists>p. evt_payload e = CheckpointCommitted p \<and> ccp_checkpoint_id p = c)}"
      by (auto simp: checkpoint_step_def split: EventPayload.splits)
    then show ?case using Cons [of "checkpoint_step A V e ids"] by fastforce
  qed simp
  with assms show ?thesis by (fastforce simp: visible_checkpoint_ids_def)
qed

lemma project_event_unseen:
  assumes "replay_loop env (psn_events s) = Inr st" "e \<in> set (psn_events s)" "\<not> seen PARTICIPANT_EVENT_VISIBILITY e"
  shows "project_event (atif_view_of s) e = Inr None"
proof (cases "evt_payload e")
  case (CandidateSubmitted p)
  have "csp_candidate_id p \<notin> atv_candidate_ids (atif_view_of s)"
  proof
    assume "csp_candidate_id p \<in> atv_candidate_ids (atif_view_of s)"
    then obtain e' where e': "e' \<in> set (visible_candidate_events (psn_events s) PARTICIPANT_EVENT_VISIBILITY)"
      "candidate_id_of e' = Some (csp_candidate_id p)"
      by (auto simp: atif_view_of_def candidate_ids_def List.map_filter_def)
    have "candidate_id_of e = Some (csp_candidate_id p)" using CandidateSubmitted by (simp add: candidate_id_of_def)
    with recorded_ids [OF assms(1)] e'(2) visible_candidates_recorded [OF e'(1)] assms(2) have "e = e'"
      unfolding candidate_ids_def by (blast intro: map_filter_inj)
    with visible_candidates_recorded [OF e'(1)] assms(3) show False by simp
  qed
  then show ?thesis using CandidateSubmitted by (simp add: project_event_def)
next
  case (CheckpointCommitted p)
  have "ccp_checkpoint_id p \<notin> atv_checkpoint_ids (atif_view_of s)"
  proof
    assume "ccp_checkpoint_id p \<in> atv_checkpoint_ids (atif_view_of s)"
    then obtain e' q where e': "e' \<in> set (psn_events s)" "seen PARTICIPANT_EVENT_VISIBILITY e'"
      "evt_payload e' = CheckpointCommitted q" "ccp_checkpoint_id q = ccp_checkpoint_id p"
      by (auto simp: atif_view_of_def dest!: visible_checkpoints_recorded)
    then have "checkpoint_id_of e' = Some (ccp_checkpoint_id p)" "checkpoint_id_of e = Some (ccp_checkpoint_id p)"
      using CheckpointCommitted by (simp_all add: checkpoint_id_of_def)
    with recorded_ids [OF assms(1)] assms(2) e'(1) have "e = e'"
      unfolding checkpoint_ids_def by (blast intro: map_filter_inj)
    with e'(2) assms(3) show False by simp
  qed
  then show ?thesis using CheckpointCommitted by (simp add: project_event_def)
qed (use assms(3) in \<open>simp_all add: project_event_def\<close>)

lemma snapshot_E:
  assumes "snapshot_of_events env es = Inr s"
  obtains state st where "replay env es = Inr state" "replay_loop env es = Inr st" "state = run_state_of env es st"
    "s = \<lparr>psn_header = env_header env, psn_task = env_task env, psn_events = es, psn_state = state\<rparr>"
  using assms by (auto simp: snapshot_of_events_def split: sum.splits elim!: replay_E)

lemma atif_steps_seen:
  assumes "snapshot_of_events env es = Inr s"
  shows "atif_view_of s = atif_view_of (s\<lparr>psn_events := filter (seen PARTICIPANT_EVENT_VISIBILITY) es\<rparr>)
    \<and> atif_steps s = fold_result (\<lambda>steps e. bind_result (project_event (atif_view_of s) e) (\<lambda>projected.
       Inr (case projected of None \<Rightarrow> steps | Some step \<Rightarrow> steps @ [step\<lparr>ast_step_id := int (length steps) + 1\<rparr>])))
       [] (filter (seen PARTICIPANT_EVENT_VISIBILITY) es)"
  using assms
proof (rule snapshot_E)
  fix state st assume st: "replay_loop env es = Inr st"
    and s: "s = \<lparr>psn_header = env_header env, psn_task = env_task env, psn_events = es, psn_state = state\<rparr>"
  have "project_event (atif_view_of s) e = Inr None" if "e \<in> set es" "\<not> seen PARTICIPANT_EVENT_VISIBILITY e" for e
    using project_event_unseen [of env s st e] st that by (simp add: s)
  then have "atif_steps s = fold_result (\<lambda>steps e. bind_result (project_event (atif_view_of s) e) (\<lambda>projected.
       Inr (case projected of None \<Rightarrow> steps | Some step \<Rightarrow> steps @ [step\<lparr>ast_step_id := int (length steps) + 1\<rparr>])))
       [] (filter (seen PARTICIPANT_EVENT_VISIBILITY) es)"
    unfolding atif_steps_def by (simp add: s, intro fold_result_irrelevant) simp
  moreover have "Visibility_PUBLIC \<in> PARTICIPANT_EVENT_VISIBILITY" by (simp add: PARTICIPANT_EVENT_VISIBILITY_def)
  ultimately show ?thesis
    using visible_candidate_events_seen [of es PARTICIPANT_EVENT_VISIBILITY] visible_checkpoint_ids_seen [of es PARTICIPANT_EVENT_VISIBILITY]
      public_artifacts_seen [of PARTICIPANT_EVENT_VISIBILITY es]
    by (simp add: atif_view_of_def s)
qed

subsection \<open>Trajectories and rewards are always well formed\<close>

abbreviation only_unavailable :: "export_error + 'a \<Rightarrow> bool" where
  "only_unavailable \<equiv> raises_only (range Unavailable)"

lemma unavailable_if_raises [simp]: "only_unavailable (unavailable_if b e)"
  by (simp add: unavailable_if_def)

lemma export_checks_Inr [simp]:
  "unavailable_if b e = Inr u \<longleftrightarrow> \<not> b" "invalid_if b d = Inr u \<longleftrightarrow> \<not> b" "export_item m k = Inr v \<longleftrightarrow> dict_get m k = Some v"
  by (auto simp: unavailable_if_def invalid_if_def export_item_def split: option.split)

lemma checks_passed [simp]: "invalid_if False d = Inr ()" "unavailable_if False f = Inr ()"
  by (simp_all add: invalid_if_def unavailable_if_def)

text \<open>What the projections assume of a run: its binding was validated, its events constructed, its digests are texts.\<close>

definition exportable :: "export_digests \<Rightarrow> replay_env \<Rightarrow> RunEvent list \<Rightarrow> bool" where
  "exportable dg env es \<longleftrightarrow> (\<exists>raw. RunBinding_validate raw = Inr (env_binding env))
     \<and> (\<forall>e\<in>set es. event_validate (env_digests env) e = Inr e)
     \<and> (\<forall>h. exd_harness_version dg h \<noteq> []) \<and> (\<forall>hs. exd_harnesses_version dg hs \<noteq> [])
     \<and> (\<forall>h. Run_Human h \<in> set (srb_actors (bnd_session (env_binding env))) \<longrightarrow> hra_adapter_digest h \<noteq> [])"

lemma exportable_actors:
  assumes "exportable dg env es"
  shows "srb_actors (bnd_session (env_binding env)) \<noteq> []" "distinct (map run_actor_id (srb_actors (bnd_session (env_binding env))))"
    "srb_initial_writer (bnd_session (env_binding env)) \<in> env_actor_ids env"
    "srb_handoff_enabled (bnd_session (env_binding env)) = (1 < length (srb_actors (bnd_session (env_binding env))))"
    "bnd_evaluators (env_binding env) \<noteq> []" "distinct (map evb_evaluator_id (bnd_evaluators (env_binding env)))"
    "1 \<le> trb_authoring_revision (bnd_task (env_binding env))"
proof -
  from assms obtain raw where raw: "RunBinding_validate raw = Inr (env_binding env)" by (auto simp: exportable_def)
  then have session: "SessionRunBinding_validate (bnd_session raw) = Inr (bnd_session (env_binding env))"
    and evaluators: "bnd_evaluators (env_binding env) = sort_key evb_evaluator_id (bnd_evaluators raw)"
      "bnd_evaluators raw \<noteq> []" "distinct (map evb_evaluator_id (bnd_evaluators raw))"
    and task: "TaskRunBinding_validate (bnd_task raw) = Inr (bnd_task (env_binding env))"
    by (auto simp: RunBinding_validate_def dest!: sym [of _ "env_binding env"] split: if_splits)
  show "bnd_evaluators (env_binding env) \<noteq> []" "distinct (map evb_evaluator_id (bnd_evaluators (env_binding env)))"
    using evaluators by simp_all
  show "1 \<le> trb_authoring_revision (bnd_task (env_binding env))"
    using task by (auto simp: TaskRunBinding_validate_def split: if_splits)
  let ?s = "bnd_session (env_binding env)"
  let ?raw = "bnd_session raw"
  from session have s: "?s = ?raw\<lparr>srb_actors := sort_key run_actor_id (srb_actors ?raw)\<rparr>" "srb_actors ?raw \<noteq> []"
    "distinct (map run_actor_id (srb_actors ?raw))" "srb_initial_writer ?raw \<in> set (map run_actor_id (srb_actors ?raw))"
    "srb_handoff_enabled ?raw = (1 < length (srb_actors ?raw))"
    by (auto simp: SessionRunBinding_validate_Inr)
  show "srb_actors ?s \<noteq> []" "distinct (map run_actor_id (srb_actors ?s))" "srb_initial_writer ?s \<in> env_actor_ids env"
    "srb_handoff_enabled ?s = (1 < length (srb_actors ?s))"
    using s(2-5) by (simp_all add: s(1) env_actor_ids_def)
qed

text \<open>The model routes of a run have the form the exported documents demand; a run binding only bounds their length.\<close>

definition model_routes_ok :: "RunBinding \<Rightarrow> bool" where
  "model_routes_ok b \<longleftrightarrow> list_all (\<lambda>a. case a of Run_Human _ \<Rightarrow> True
     | Run_Harness h \<Rightarrow> model_route_ok (har_requested_model_route h)) (srb_actors (bnd_session b))"

lemma model_routes_ok_harnesses:
  "model_routes_ok b \<longleftrightarrow> list_all (\<lambda>h. model_route_ok (har_requested_model_route h)) (List.map_filter harness_of (srb_actors (bnd_session b)))"
proof -
  have "list_all (\<lambda>a. case a of Run_Human _ \<Rightarrow> True | Run_Harness h \<Rightarrow> model_route_ok (har_requested_model_route h)) as
      \<longleftrightarrow> list_all (\<lambda>h. model_route_ok (har_requested_model_route h)) (List.map_filter harness_of as)" for as
    by (induction as) (auto simp: List.map_filter_simps harness_of_def split: RunActor.split)
  then show ?thesis by (simp add: model_routes_ok_def)
qed

lemma requested_routes:
  "map_result AtifRequestedModelRoute_validate (map (\<lambda>h. \<lparr>arr_actor_id = har_actor_id h, arr_route = har_requested_model_route h\<rparr>) hs)
    = (if list_all (\<lambda>h. model_route_ok (har_requested_model_route h)) hs
       then Inr (map (\<lambda>h. \<lparr>arr_actor_id = har_actor_id h, arr_route = har_requested_model_route h\<rparr>) hs)
       else Inl (Invalid_export Export_range))"
  by (induction hs) (auto simp: AtifRequestedModelRoute_validate_def invalid_if_def)

lemma atif_step_Inr:
  assumes "event_validate dg e = Inr e"
  shows "atif_step e source extra = Inr (Some \<lparr>ast_step_id = 1, ast_timestamp = evt_timestamp e, ast_source = source,
       ast_model_name = None, ast_extra = extra\<rparr>)"
  using assms by (cases "evt_timestamp e") (auto simp: atif_step_def AtifStep_validate_def event_validate_def split: if_splits)

lemma project_event_Inr:
  assumes ok: "event_validate dg e = Inr e" and actor: "\<And>a. evt_actor e = Some a \<Longrightarrow> a \<in> set (dict_keys (atv_actor_kinds v))"
  shows "\<exists>r. project_event v e = Inr r"
proof -
  have item: "\<exists>k. export_item (atv_actor_kinds v) a = Inr k" if "evt_actor e = Some a" for a
    using actor [OF that] by (auto dest: dict_keys_get)
  then have source: "\<exists>k. actor_source v a = Inr k" if "evt_actor e = Some a" for a
    using that by (auto simp: actor_source_def simp del: export_checks_Inr)
  show ?thesis
  proof (cases "evt_payload e")
    case (InteractionRecorded p)
    show ?thesis
    proof (cases "evt_actor e")
      case None then show ?thesis
        using InteractionRecorded by (auto simp: project_event_def atif_step_Inr [OF ok] split: option.split)
    next
      case (Some a)
      with item obtain k where "export_item (atv_actor_kinds v) a = Inr k" by blast
      with Some InteractionRecorded show ?thesis
        by (cases "interaction_source (inp_direction p) (Some k) (evt_producer e)")
          (simp_all add: project_event_def atif_step_Inr [OF ok] del: export_checks_Inr)
    qed
  next
    case (ControlTransferred p)
    then show ?thesis using source by (cases "evt_actor e") (auto simp: project_event_def atif_step_Inr [OF ok])
  next
    case (CandidateSubmitted p)
    then show ?thesis using source by (cases "evt_actor e") (auto simp: project_event_def atif_step_Inr [OF ok])
  qed (auto simp: project_event_def atif_step_Inr [OF ok])
qed

abbreviation contiguous :: "AtifStep list \<Rightarrow> bool" where
  "contiguous steps \<equiv> map ast_step_id steps = map (\<lambda>i. int i + 1) [0..<length steps]"

definition keep_step :: "atif_view \<Rightarrow> AtifStep list \<Rightarrow> RunEvent \<Rightarrow> export_error + AtifStep list" where
  "keep_step v steps e = bind_result (project_event v e) (\<lambda>projected.
     Inr (case projected of None \<Rightarrow> steps | Some step \<Rightarrow> steps @ [step\<lparr>ast_step_id := int (length steps) + 1\<rparr>]))"

lemma atif_steps_keep: "atif_steps s = fold_result (keep_step (atif_view_of s)) [] (psn_events s)"
  by (simp add: atif_steps_def keep_step_def [abs_def])

lemma keep_steps_Inr:
  assumes "\<forall>e\<in>set es. \<exists>r. project_event v e = Inr r" "contiguous acc"
  shows "\<exists>steps. fold_result (keep_step v) acc es = Inr steps \<and> contiguous steps"
  using assms
proof (induction es arbitrary: acc)
  case (Cons e es)
  then obtain r where r: "project_event v e = Inr r" by auto
  have "contiguous (case r of None \<Rightarrow> acc | Some step \<Rightarrow> acc @ [step\<lparr>ast_step_id := int (length acc) + 1\<rparr>])"
    using Cons.prems(2) by (cases r) simp_all
  from Cons.IH [OF _ this] Cons.prems(1) show ?case by (simp add: keep_step_def r)
qed simp

lemma har_actor_ids: "h \<in> set (List.map_filter harness_of as) \<Longrightarrow> har_actor_id h \<in> run_actor_id ` set as"
  by (induction as) (auto simp: List.map_filter_simps harness_of_def split: RunActor.splits option.splits)

lemma distinct_har_actor_ids:
  "distinct (map run_actor_id as) \<Longrightarrow> distinct (map har_actor_id (List.map_filter harness_of as))"
proof (induction as)
  case (Cons a as)
  then have "run_actor_id a \<notin> har_actor_id ` set (List.map_filter harness_of as)"
    using har_actor_ids [of _ as] by auto
  moreover have "harness_of a = None \<or> (\<exists>h. harness_of a = Some h \<and> har_actor_id h = run_actor_id a)"
    by (cases a) (simp_all add: harness_of_def)
  ultimately show ?case using Cons by (auto simp: List.map_filter_simps)
qed simp

lemma trajectory_agent_Inr:
  assumes "exportable dg env es" "psn_header s = env_header env"
  shows "\<exists>agent. trajectory_agent dg s = Inr agent \<and> aag_name agent \<noteq> [] \<and> aag_version agent \<noteq> [] \<and> aag_model_name agent = None"
proof -
  let ?actors = "srb_actors (bnd_session (env_binding env))"
  obtain a as where actors: "?actors = a # as" using exportable_actors(1) [OF assms(1)] by (cases ?actors) auto
  have "List.map_filter harness_of ?actors \<noteq> []
      \<or> (\<exists>h hs. List.map_filter (\<lambda>a. case a of Run_Human h \<Rightarrow> Some h | Run_Harness _ \<Rightarrow> None) ?actors = h # hs \<and> hra_adapter_digest h \<noteq> [])"
    using assms(1) actors by (cases a) (auto simp: List.map_filter_simps harness_of_def exportable_def)
  then show ?thesis
    using assms by (auto simp: trajectory_agent_def exportable_def split: list.split)
qed

lemma project_atif_Inr:
  assumes ok: "exportable dg env es" and s: "snapshot_of_events env es = Inr s"
  shows "\<exists>steps. atif_steps s = Inr steps \<and> contiguous steps
    \<and> (if steps = [] then project_atif dg s = Inl (Unavailable Trajectory_empty)
       else if model_routes_ok (env_binding env) then \<exists>t. project_atif dg s = Inr t \<and> atj_steps t = steps
       else project_atif dg s = Inl (Invalid_export Export_range))"
  using s
proof (rule snapshot_E)
  fix state st assume st: "replay_loop env es = Inr st"
    and sn: "s = \<lparr>psn_header = env_header env, psn_task = env_task env, psn_events = es, psn_state = state\<rparr>"
  have "\<forall>e\<in>set es. \<exists>r. project_event (atif_view_of s) e = Inr r"
  proof
    fix e assume e: "e \<in> set es"
    then have "event_validate (env_digests env) e = Inr e" using ok by (simp add: exportable_def)
    moreover have "a \<in> set (dict_keys (atv_actor_kinds (atif_view_of s)))" if "evt_actor e = Some a" for a
      using recorded_actor [OF st e that] by (simp add: atif_view_of_def sn dict_keys_dict_of env_actor_ids_def)
    ultimately show "\<exists>r. project_event (atif_view_of s) e = Inr r" by (rule project_event_Inr)
  qed
  from keep_steps_Inr [OF this, of "[]"] obtain steps where
    steps: "atif_steps s = Inr steps" "contiguous steps" by (auto simp: atif_steps_keep sn)
  obtain agent where agent: "trajectory_agent dg s = Inr agent" "aag_name agent \<noteq> []" "aag_version agent \<noteq> []" "aag_model_name agent = None"
    using trajectory_agent_Inr [OF ok, of s] by (auto simp: sn)
  have routes: "distinct (map har_actor_id (List.map_filter harness_of (srb_actors (bnd_session (env_binding env)))))"
    using exportable_actors(2) [OF ok] by (rule distinct_har_actor_ids)
  note atif = project_atif_def AtifTrajectory_validate_def AtifRunExtra_validate_def requested_routes Let_def comp_def sn
  have "\<exists>t. project_atif dg s = Inr t \<and> atj_steps t = steps" if "steps \<noteq> []" "model_routes_ok (env_binding env)"
  proof -
    have "0 < length steps" using that by simp
    then have "1 \<le> int (length steps)" by linarith
    with that steps agent routes exportable_actors(7) [OF ok] show ?thesis by (simp add: atif model_routes_ok_harnesses)
  qed
  moreover have "project_atif dg s = Inl (Invalid_export Export_range)" if "steps \<noteq> []" "\<not> model_routes_ok (env_binding env)"
    using that steps agent by (simp add: atif model_routes_ok_harnesses)
  moreover have "project_atif dg s = Inl (Unavailable Trajectory_empty)" if "steps = []"
    using steps(1) that by (simp add: project_atif_def unavailable_if_def)
  ultimately show ?thesis using steps by auto
qed

text \<open>In a terminated run the terminating event is the last one, so its step, when visible, ends the trajectory.\<close>

lemma terminated_end:
  assumes "replay_loop env es = Inr st" "rps_terminal_reason st = Some reason"
  obtains e p where "es = butlast es @ [e]" "evt_payload e = RunEnded p" "rep_reason p = reason"
    "visible_run_end es V = (if seen V e then Some p else None)"
    "rep_reason p = Stop_VERIFIER_SUCCESS \<Longrightarrow> rps_successful_candidate st = rep_successful_candidate_id p"
proof -
  have "ended_inv env st" using assms(1) by (rule replay_loop_invs)
  with assms replay_loop_prefix [OF assms(1)] have ne: "es \<noteq> []" "is_run_ended (last es)" by (auto simp: ended_inv_def)
  then obtain p where p: "evt_payload (last es) = RunEnded p" by (cases "evt_payload (last es)") (simp_all add: is_run_ended_def)
  have es: "es = butlast es @ [last es]" using ne(1) by simp
  have reversed: "rev es = last es # rev (butlast es)" using arg_cong [OF es, of rev] by simp
  have "visible_run_end es V = (if seen V (last es) then Some p else None)"
    unfolding visible_run_end_def reversed by (simp add: run_ended_payload_def p)
  moreover note recorded_end [OF assms(1) last_in_set [OF ne(1)] p]
  ultimately show ?thesis using that [OF es p] assms(2) by auto
qed

lemma project_harbor_Inr:
  assumes ok: "exportable dg env es" and s: "snapshot_of_events env es = Inr s" and state: "replay env es = Inr state"
  shows "(rst_terminal_reason state = None \<longrightarrow> project_harbor dg s = Inl (Unavailable Not_terminated))
    \<and> (\<forall>reason. rst_terminal_reason state = Some reason \<longrightarrow>
        (if seen PARTICIPANT_EVENT_VISIBILITY (last es)
         then if model_routes_ok (env_binding env)
           then \<exists>h. project_harbor dg s = Inr h \<and> hbt_reward h = (if reason = Stop_VERIFIER_SUCCESS then 1 else 0)
           else project_harbor dg s = Inl (Invalid_export Export_range)
         else project_harbor dg s = Inl (Unavailable No_participant_outcome)))"
  using s
proof (rule snapshot_E, intro conjI impI allI)
  fix state' st reason assume "replay env es = Inr state'" "state' = run_state_of env es st"
    and st: "replay_loop env es = Inr st" and sn: "s = \<lparr>psn_header = env_header env, psn_task = env_task env, psn_events = es, psn_state = state'\<rparr>"
  with state have same: "state' = state" "state = run_state_of env es st" by auto
  show "project_harbor dg s = Inl (Unavailable Not_terminated)" if "rst_terminal_reason state = None"
    using that by (simp add: project_harbor_def sn same(1) unavailable_if_def)
  assume reason: "rst_terminal_reason state = Some reason"
  then have "rps_terminal_reason st = Some reason" using same(2) by (simp add: run_state_of_def)
  with st show "if seen PARTICIPANT_EVENT_VISIBILITY (last es)
         then if model_routes_ok (env_binding env)
           then \<exists>h. project_harbor dg s = Inr h \<and> hbt_reward h = (if reason = Stop_VERIFIER_SUCCESS then 1 else 0)
           else project_harbor dg s = Inl (Invalid_export Export_range)
         else project_harbor dg s = Inl (Unavailable No_participant_outcome)"
  proof (rule terminated_end [where V = PARTICIPANT_EVENT_VISIBILITY])
    fix e p assume es: "es = butlast es @ [e]" and p: "evt_payload e = RunEnded p" "rep_reason p = reason"
      and outcome: "visible_run_end es PARTICIPANT_EVENT_VISIBILITY = (if seen PARTICIPANT_EVENT_VISIBILITY e then Some p else None)"
    have last: "last es = e" using es by (metis last_snoc)
    have visible: "visible_run_end es {Visibility_PUBLIC, Visibility_PARTICIPANT} = (if seen PARTICIPANT_EVENT_VISIBILITY e then Some p else None)"
      using outcome by (simp add: PARTICIPANT_EVENT_VISIBILITY_def)
    obtain steps where steps: "atif_steps s = Inr steps"
      "if steps = [] then project_atif dg s = Inl (Unavailable Trajectory_empty)
       else if model_routes_ok (env_binding env) then \<exists>t. project_atif dg s = Inr t \<and> atj_steps t = steps
       else project_atif dg s = Inl (Invalid_export Export_range)"
      using project_atif_Inr [OF ok assms(2)] by blast
    have valid: "event_validate (env_digests env) e = Inr e"
      using ok es by (metis exportable_def in_set_conv_decomp)
    show ?thesis
    proof (cases "seen PARTICIPANT_EVENT_VISIBILITY e")
      case True
      obtain x where x: "project_event (atif_view_of s) e = Inr (Some x)" "\<exists>final. ast_extra x = Extra_RunEnded final \<and> are_reason final = reason"
        using True p by (auto simp: project_event_def atif_step_Inr [OF valid])
      have "fold_result (keep_step (atif_view_of s)) [] (butlast es @ [e]) = Inr steps"
        using steps(1) es by (simp add: atif_steps_keep sn)
      then obtain before where "steps = before @ [x\<lparr>ast_step_id := int (length before) + 1\<rparr>]"
        by (auto simp: fold_result_append keep_step_def x(1))
      then have "steps \<noteq> []" "\<exists>final. ast_extra (last steps) = Extra_RunEnded final \<and> are_reason final = reason" using x(2) by simp_all
      then show ?thesis
        using steps(2) True visible reason p(2)
        by (cases "model_routes_ok (env_binding env)")
          (auto simp: project_harbor_def HarborTrialProjection_validate_def sn same(1) last)
    next
      case False
      then show ?thesis using visible reason by (simp add: project_harbor_def sn same(1) last)
    qed
  qed
qed

end
