(* ===== verification/LeaderboardFacts.thy ===== *)
theory LeaderboardFacts
  imports ExportFacts
begin

section \<open>Facts about leaderboards\<close>

text \<open>
  The entry that is built for an accepted run always passes the validators of its models, and its parts are
  recorded facts.
\<close>

subsection \<open>Entries\<close>

lemma ScoringDecision_ready:
  "ScoringDecision_validate raw = Inr d \<Longrightarrow> sel_state (dec_eligibility d) = Scorer_READY \<longleftrightarrow> dec_score d \<noteq> None"
  by (auto simp: ScoringDecision_validate_def Let_def split: if_splits)

lemma scoring_event_valid:
  assumes "event_validate dg e = Inr e" "evt_payload e = ScoringRecorded p"
  shows "sel_state (dec_eligibility (srp_decision p)) = Scorer_READY \<longleftrightarrow> dec_score (srp_decision p) \<noteq> None"
proof -
  from event_validate_payload [OF assms(1)] assms(2) obtain d where
    d: "ScoringDecision_validate (srp_decision p) = Inr d" "p = p\<lparr>srp_decision := d\<rparr>"
    by (auto simp: lift_evaluation_def split: sum.splits)
  then have "srp_decision p = d" by (metis ScoringRecordedPayload.select_convs(2) ScoringRecordedPayload.surjective ScoringRecordedPayload.update_convs(2))
  with ScoringDecision_ready [OF d(1)] show ?thesis by simp
qed

lemma run_end_valid:
  assumes "event_validate dg e = Inr e" "evt_payload e = RunEnded p"
  shows "rep_reason p = Stop_VERIFIER_SUCCESS \<longleftrightarrow> rep_successful_candidate_id p \<noteq> None"
  using event_validate_payload [OF assms(1)] assms(2) by (auto simp: RunEndedPayload_validate_def split: if_splits)

lemma set_map_filter: "set (List.map_filter f xs) = {y. \<exists>x\<in>set xs. f x = Some y}"
  by (induction xs) (auto simp: List.map_filter_simps split: option.splits)

lemma sum_groups:
  assumes "distinct ks" "f ` set es \<subseteq> set ks"
  shows "(\<Sum>k\<leftarrow>ks. length (filter (\<lambda>e. f e = k) es)) = length es"
  using assms(2)
proof (induction es)
  case (Cons e es)
  have "(\<Sum>k\<leftarrow>ks. length (filter (\<lambda>e. f e = k) (e # es))) = (\<Sum>k\<leftarrow>ks. (if k = f e then 1 else 0) + length (filter (\<lambda>e. f e = k) es))"
    by (rule arg_cong [where f = sum_list]) auto
  also have "\<dots> = (\<Sum>k\<leftarrow>ks. if k = f e then 1 else 0) + length es"
    using Cons by (simp add: sum_list_addf)
  also have "(\<Sum>k\<leftarrow>ks. if k = f e then 1 else 0) = (1 :: nat)"
    using Cons.prems by (simp add: sum_list_distinct_conv_sum_set [OF assms(1)])
  finally show ?case by simp
qed simp

lemma public_scoring_recorded:
  assumes "public_scoring c es = Some d"
  obtains e p where "e \<in> set es" "evt_payload e = ScoringRecorded p" "c = Some (srp_candidate_id p)" "d = srp_decision p"
proof -
  let ?f = "\<lambda>e. case evt_payload e of ScoringRecorded p \<Rightarrow>
      if evt_visibility e = Visibility_PUBLIC \<and> Some (srp_candidate_id p) = c then Some (srp_decision p) else None | _ \<Rightarrow> None"
  have "d \<in> set (List.map_filter ?f es)"
    using assms by (auto simp: public_scoring_def split: list.splits)
  then obtain e where "e \<in> set es" "?f e = Some d" by (auto simp: set_map_filter)
  then show ?thesis using that by (cases "evt_payload e") (auto split: if_splits)
qed

lemma public_results_recorded:
  assumes "p \<in> set (public_results c es)"
  obtains e where "e \<in> set es" "evt_payload e = EvaluationCompleted p" "c = Some (ecp_candidate_id p)"
    "evt_visibility e = Visibility_PUBLIC"
proof -
  let ?f = "\<lambda>e. case evt_payload e of EvaluationCompleted p \<Rightarrow>
      if evt_visibility e = Visibility_PUBLIC \<and> Some (ecp_candidate_id p) = c then Some p else None | _ \<Rightarrow> None"
  from assms obtain e where "e \<in> set es" "?f e = Some p" by (auto simp: public_results_def set_map_filter)
  then show ?thesis using that by (cases "evt_payload e") (auto split: if_splits)
qed

lemma leaderboard_actors_same:
  assumes "map_result leaderboard_actor as = Inr bs"
  shows "bs = as"
proof -
  have same: "leaderboard_actor a = Inr b \<Longrightarrow> b = a" for a b by (cases a) (auto simp: LeaderboardActor_validate_def)
  from assms have "list_all2 (\<lambda>a b. b = a) as bs"
    unfolding map_result_Inr by (rule list_all2_mono) (rule same)
  then show ?thesis by (simp add: list_all2_conv_all_nth list_eq_iff_nth_eq)
qed

lemma leaderboard_actors_result:
  "map_result leaderboard_actor (srb_actors (bnd_session b))
     = (if model_routes_ok b then Inr (srb_actors (bnd_session b)) else Inl (Invalid_export Export_range))"
proof -
  have "map_result leaderboard_actor as = (if list_all (\<lambda>a. case a of Run_Human _ \<Rightarrow> True
     | Run_Harness h \<Rightarrow> model_route_ok (har_requested_model_route h)) as then Inr as else Inl (Invalid_export Export_range))" for as
    by (induction as) (auto simp: LeaderboardActor_validate_def invalid_if_def split: RunActor.splits)
  then show ?thesis by (simp add: model_routes_ok_def)
qed

lemma leaderboard_cohort_Inr:
  assumes "exportable dg env es" "psn_header s = env_header env"
  shows "LeaderboardCohort_validate \<lparr>lbc_actors = psn_actors s,
      lbc_initial_writer = srb_initial_writer (bnd_session (psn_binding s)),
      lbc_handoff_enabled = srb_handoff_enabled (bnd_session (psn_binding s)), lbc_participation = participation_kind s\<rparr>
    = Inr \<lparr>lbc_actors = sort_key run_actor_id (psn_actors s),
      lbc_initial_writer = srb_initial_writer (bnd_session (psn_binding s)),
      lbc_handoff_enabled = srb_handoff_enabled (bnd_session (psn_binding s)), lbc_participation = participation_kind s\<rparr>"
proof -
  note actors = exportable_actors [OF assms(1), folded assms(2)]
  have "card (set (map run_actor_id (psn_actors s))) = length (psn_actors s)"
    using distinct_card [OF actors(2)] by simp
  then show ?thesis
    using actors(1-4)
    by (simp add: LeaderboardCohort_validate_def env_actor_ids_def flip: assms(2))
      (auto simp: participation_kind_def Let_def invalid_if_def)
qed

lemma leaderboard_measurements_raise:
  assumes t: "task_wf (env_task env)" and st: "replay_loop env es = Inr st"
  shows "only_unavailable (leaderboard_measurements (env_task env) es (public_results c es))"
  unfolding leaderboard_measurements_def
proof (rule raises_only_map)
  fix x assume "x \<in> set (concat (map (\<lambda>p. map (Pair p) (sgr_measurements (ecp_result p))) (public_results c es)))"
  then obtain p evidence where x: "x = (p, evidence)" "p \<in> set (public_results c es)" "evidence \<in> set (sgr_measurements (ecp_result p))"
    by auto
  from x(2) obtain e where e: "e \<in> set es" "evt_payload e = EvaluationCompleted p" by (rule public_results_recorded)
  have inv: "evaluation_inv env st" using st by (rule replay_loop_invs)
  let ?r = "\<lparr>csr_candidate_id = ecp_candidate_id p, csr_result = ecp_result p\<rparr>"
  have r: "?r \<in> set (rps_stage_results st)" using recorded_result [OF st e] .
  then have "ecp_candidate_id p \<in> set (dict_keys (rps_results st))"
    using evaluation_invD(1,3) [OF inv] by force
  then obtain rs where rs: "dict_get (rps_results st) (ecp_candidate_id p) = Some rs" by (auto dest: dict_keys_get)
  have "ecp_result p \<in> set rs"
    using r evaluation_invD(2) [OF inv rs] by (auto simp: results_of_def intro!: image_eqI [where x = ?r])
  with evaluation_invD(2) [OF inv rs] validate_stage_results_iff [OF t] have "evidence_ok (env_task env) (ecp_result p)"
    by (fastforce simp: results_ok_def)
  with x(3) obtain m where "m \<in> set (tsk_measurements (env_task env))" "msp_measurement_id m = mev_measurement_id evidence"
    by (auto simp: evidence_ok_def)
  then have "mev_measurement_id evidence \<in> set (dict_keys (measurement_index (env_task env)))"
    by (simp add: measurement_index_keys) (metis imageI)
  then have "mev_measurement_id evidence \<in> set (dict_keys (dict_of msp_measurement_id id (tsk_measurements (env_task env))))"
    by (simp add: measurement_index_def)
  then have "only_unavailable (export_item (dict_of msp_measurement_id id (tsk_measurements (env_task env))) (mev_measurement_id evidence))"
    by (auto simp: export_item_def dest!: dict_keys_get)
  moreover have "only_unavailable (required_public_provenance artifacts evidence)" for artifacts
    by (auto simp: required_public_provenance_def split: option.split)
  ultimately show "only_unavailable (case x of (p, evidence) \<Rightarrow>
      leaderboard_measurement (dict_of msp_measurement_id id (tsk_measurements (env_task env)))
         (public_measurement_artifacts es) (ecp_candidate_id p) (sgr_stage_id (ecp_result p)) evidence)"
    by (simp add: x(1) leaderboard_measurement_def raises_only_bind)
qed

lemma benchmark_trials:
  assumes "SessionSpec_validate raw = Inr session" "ssn_mode session = Mode_Benchmark mode"
  shows "1 \<le> bmm_trial_count mode"
  using assms by (auto simp: SessionSpec_validate_iff admissible_session_def)

text \<open>Everything that is known about the entry of a run once the projection has passed its own preconditions.\<close>

lemma leaderboard_entry_valid:
  assumes ok: "exportable dg env es" and st: "replay_loop env es = Inr st"
    and sn: "s = \<lparr>psn_header = env_header env, psn_task = env_task env, psn_events = es, psn_state = run_state_of env es st\<rparr>"
    and reason: "rps_terminal_reason st = Some reason" and terminal: "visible_run_end es {Visibility_PUBLIC} = Some p"
    and cohort: "lbc_participation (lbp_cohort frozen) = participation_kind s"
  shows "LeaderboardEntry_validate xd (leaderboard_entry_of xd s reason p frozen ms) = Inr (leaderboard_entry_of xd s reason p frozen ms)"
  using st reason
proof (rule terminated_end [where V = "{Visibility_PUBLIC}"])
  fix e q assume es: "es = butlast es @ [e]" and q: "evt_payload e = RunEnded q" "rep_reason q = reason"
    and outcome: "visible_run_end es {Visibility_PUBLIC} = (if seen {Visibility_PUBLIC} e then Some q else None)"
  then have qp: "q = p" using terminal by (simp split: if_splits)
  have "e \<in> set es" using es by (metis in_set_conv_decomp)
  then have "event_validate (env_digests env) e = Inr e" using ok by (simp add: exportable_def)
  from run_end_valid [OF this q(1)] have winner: "reason = Stop_VERIFIER_SUCCESS \<longleftrightarrow> rep_successful_candidate_id p \<noteq> None"
    using qp q(2) by simp
  have success: "rps_successful_candidate st \<noteq> None \<longleftrightarrow> reason = Stop_VERIFIER_SUCCESS"
    using replay_loop_invs(6) [OF st] reason by (auto simp: success_inv_def split: if_splits)
  have scored: "rep_successful_candidate_id p \<noteq> None \<and> (sel_state (dec_eligibility d) = Scorer_READY \<longleftrightarrow> dec_score d \<noteq> None)"
    if d: "public_scoring (rep_successful_candidate_id p) es = Some d" for d
    using d
  proof (rule public_scoring_recorded)
    fix f r assume f: "f \<in> set es" "evt_payload f = ScoringRecorded r" "rep_successful_candidate_id p = Some (srp_candidate_id r)" "d = srp_decision r"
    have "event_validate (env_digests env) f = Inr f" using ok f(1) by (simp add: exportable_def)
    with scoring_event_valid [OF this f(2)] f(3,4) show ?thesis by simp
  qed
  show ?thesis
    using winner success scored cohort
    by (cases "public_scoring (rep_successful_candidate_id p) es")
      (auto simp: LeaderboardEntry_validate_def leaderboard_entry_of_def Let_def human_intervention_count_def sn run_state_of_def invalid_if_def)
qed

lemma project_leaderboard_entry_Inr:
  assumes "project_leaderboard_entry xd s session = Inr entry"
  obtains mode reason p cohort ms frozen where "ssn_mode session = Mode_Benchmark mode"
    "rst_terminal_reason (psn_state s) = Some reason" "visible_run_end (psn_events s) {Visibility_PUBLIC} = Some p"
    "leaderboard_measurements (psn_task s) (psn_events s) (public_results (rep_successful_candidate_id p) (psn_events s)) = Inr ms"
    "LeaderboardPartition_validate (leaderboard_partition s cohort (bmm_trial_count mode)) = Inr frozen"
    "entry = leaderboard_entry_of xd s reason p frozen ms"
proof -
  have same: "LeaderboardEntry_validate xd x = Inr y \<Longrightarrow> y = x" for x y by (auto simp: LeaderboardEntry_validate_def)
  from assms that show ?thesis
    by (auto simp: project_leaderboard_entry_def split: SessionMode.splits option.splits dest!: same leaderboard_actors_same)
qed

lemma project_leaderboard_entry_unavailable:
  assumes ok: "exportable xd env es" and task: "TaskSpec_validate tdg raw = Inr (env_task env)"
    and session: "SessionSpec_validate raws = Inr session" and s: "snapshot_of_events env es = Inr s"
    and routes: "model_routes_ok (env_binding env)"
  shows "only_unavailable (project_leaderboard_entry xd s session)"
  using s
proof (rule snapshot_E)
  fix state st assume st: "replay_loop env es = Inr st" and state: "state = run_state_of env es st"
    and sn: "s = \<lparr>psn_header = env_header env, psn_task = env_task env, psn_events = es, psn_state = state\<rparr>"
  have wf: "task_wf (env_task env)" using task by (rule TaskSpec_validate_task_wf)
  let ?cohort = "\<lparr>lbc_actors = sort_key run_actor_id (psn_actors s), lbc_initial_writer = srb_initial_writer (bnd_session (psn_binding s)),
      lbc_handoff_enabled = srb_handoff_enabled (bnd_session (psn_binding s)), lbc_participation = participation_kind s\<rparr>"
  have rest: "only_unavailable (bind_result (LeaderboardPartition_validate (leaderboard_partition s ?cohort (bmm_trial_count mode)))
      (\<lambda>frozen. LeaderboardEntry_validate xd (leaderboard_entry_of xd s reason p frozen ms)))"
    if "ssn_mode session = Mode_Benchmark mode" "rps_terminal_reason st = Some reason" "visible_run_end es {Visibility_PUBLIC} = Some p"
    for mode reason p ms
  proof -
    let ?part = "leaderboard_partition s ?cohort (bmm_trial_count mode)"
    have valid: "LeaderboardPartition_validate ?part = Inr (?part\<lparr>lbp_evaluators := sort_key evb_evaluator_id (lbp_evaluators ?part)\<rparr>)"
      using benchmark_trials [OF session that(1)] exportable_actors(5-7) [OF ok]
      by (simp add: LeaderboardPartition_validate_def leaderboard_partition_def Let_def sn)
    have "lbc_participation (lbp_cohort (?part\<lparr>lbp_evaluators := x\<rparr>)) = participation_kind s" for x
      by (simp add: leaderboard_partition_def Let_def)
    note entry = leaderboard_entry_valid [OF ok st sn [unfolded state] that(2,3) this]
    show ?thesis by (simp only: valid bind_result_simps entry raises_only_Inr)
  qed
  have facts: "psn_events s = es" "psn_task s = env_task env" "rst_terminal_reason (psn_state s) = rps_terminal_reason st"
    "psn_header s = env_header env"
    by (simp_all add: sn state run_state_of_def)
  have actors: "map_result leaderboard_actor (psn_actors s) = Inr (psn_actors s)"
    using leaderboard_actors_result [of "env_binding env"] routes by (simp add: facts(4))
  have scored: "only_unavailable (bind_result (leaderboard_measurements (env_task env) es (public_results c es))
      (\<lambda>ms. bind_result (LeaderboardPartition_validate (leaderboard_partition s ?cohort (bmm_trial_count mode)))
        (\<lambda>frozen. LeaderboardEntry_validate xd (leaderboard_entry_of xd s reason p frozen ms))))"
    if "ssn_mode session = Mode_Benchmark mode" "rps_terminal_reason st = Some reason" "visible_run_end es {Visibility_PUBLIC} = Some p"
    for mode reason p c
    by (rule raises_only_bind [OF leaderboard_measurements_raise [OF wf st] rest [OF that]])
  show ?thesis
    unfolding project_leaderboard_entry_def require_session_def require_sealed_leaderboard_task_def facts(1-3)
      actors bind_result_simps leaderboard_cohort_Inr [OF ok facts(4)]
    by (intro raises_only_bind) (auto intro: scored split: SessionMode.split option.split TaskOrigin.split)
qed

lemma project_leaderboard_entry_raises:
  assumes "exportable xd env es" "TaskSpec_validate tdg raw = Inr (env_task env)"
    "SessionSpec_validate raws = Inr session" "snapshot_of_events env es = Inr s"
  shows "raises_only (range Unavailable \<union> (if model_routes_ok (psn_binding s) then {} else {Invalid_export Export_range}))
    (project_leaderboard_entry xd s session)"
  using assms(4)
proof (rule snapshot_E)
  fix state assume "s = \<lparr>psn_header = env_header env, psn_task = env_task env, psn_events = es, psn_state = state\<rparr>"
  then have same: "psn_header s = env_header env" by simp
  let ?F = "range Unavailable \<union> {Invalid_export Export_range}"
  show ?thesis
  proof (cases "model_routes_ok (psn_binding s)")
    case True
    then show ?thesis using project_leaderboard_entry_unavailable [OF assms] by (simp add: same)
  next
    case False
    have check: "raises_only ?F (unavailable_if b e)" for b e
      by (rule raises_only_mono [OF unavailable_if_raises]) auto
    have "map_result leaderboard_actor (psn_actors s) = Inl (Invalid_export Export_range)"
      using leaderboard_actors_result [of "psn_binding s"] False by simp
    then have "raises_only ?F (project_leaderboard_entry xd s session)"
      unfolding project_leaderboard_entry_def require_session_def require_sealed_leaderboard_task_def
      by (intro raises_only_bind check) (auto split: SessionMode.split option.split TaskOrigin.split)
    then show ?thesis using False by simp
  qed
qed

end
