(* ===== verification/HumanizeFacts.thy ===== *)
theory HumanizeFacts
  imports ExportHumanize LeaderboardFacts
begin

section \<open>Facts about the session and trace projection\<close>

text \<open>
  The cycle that is built for an accepted run always passes its own validator: the logical sessions partition the turns,
  the turns cover the participant events of the trace, and their identities are the ones derived from the journal.
\<close>

subsection \<open>Turns and logical sessions\<close>

definition actor_of :: "RunEvent \<Rightarrow> Identifier" where
  "actor_of e = the (evt_actor e)"

definition turn_of :: "humanize_digests \<Rightarrow> Digest \<Rightarrow> RunEvent \<Rightarrow> Digest" where
  "turn_of dg run e = hzd_turn dg run (evt_event_id e)"

definition session_of :: "humanize_digests \<Rightarrow> Digest \<Rightarrow> HumanizeSessionStrategy \<Rightarrow> RunEvent \<Rightarrow> Digest" where
  "session_of dg run strategy e = logical_session_id dg run (actor_of e) strategy (turn_of dg run e)"

definition session_events :: "humanize_digests \<Rightarrow> Digest \<Rightarrow> HumanizeSessionStrategy \<Rightarrow> RunEvent list \<Rightarrow> Digest \<Rightarrow> RunEvent list" where
  "session_events dg run strategy ps k = filter (\<lambda>e. session_of dg run strategy e = k) ps"

definition turn_at :: "humanize_digests \<Rightarrow> Digest \<Rightarrow> HumanizeSessionStrategy \<Rightarrow> nat \<times> RunEvent \<Rightarrow> HumanizeTurnProjection" where
  "turn_at dg run strategy x = \<lparr>htp_turn_index = int (fst x) + 1, htp_turn_id = turn_of dg run (snd x),
     htp_logical_session_id = session_of dg run strategy (snd x), htp_actor_id = actor_of (snd x),
     htp_event_id = evt_event_id (snd x)\<rparr>"

text \<open>The digests of a run do not collide on its participant events.\<close>

definition turns_identified :: "humanize_digests \<Rightarrow> Digest \<Rightarrow> RunEvent list \<Rightarrow> bool" where
  "turns_identified dg run es \<longleftrightarrow> (\<forall>e\<in>set es. \<forall>f\<in>set es.
     evt_producer e = Producer_PARTICIPANT \<and> evt_producer f = Producer_PARTICIPANT \<longrightarrow>
       (turn_of dg run e = turn_of dg run f \<longrightarrow> evt_event_id e = evt_event_id f)
       \<and> (session_of dg run Strategy_STATEFUL e = session_of dg run Strategy_STATEFUL f \<longrightarrow> evt_actor e = evt_actor f)
       \<and> (session_of dg run Strategy_FRESH e = session_of dg run Strategy_FRESH f \<longrightarrow> evt_event_id e = evt_event_id f))"

text \<open>What the projection knows of the participant events it turns into turns.\<close>

definition attributed :: "humanize_digests \<Rightarrow> Digest \<Rightarrow> HumanizeSessionStrategy \<Rightarrow> RunEvent list \<Rightarrow> bool" where
  "attributed dg run strategy ps \<longleftrightarrow> distinct (map (turn_of dg run) ps)
     \<and> (\<forall>e\<in>set ps. evt_actor e \<noteq> None)
     \<and> (\<forall>e\<in>set ps. \<forall>f\<in>set ps. session_of dg run strategy e = session_of dg run strategy f \<longrightarrow>
          actor_of e = actor_of f \<and> (strategy = Strategy_FRESH \<longrightarrow> turn_of dg run e = turn_of dg run f))"

lemma turn_steps:
  assumes "\<forall>e\<in>set ps. evt_actor e \<noteq> None"
  shows "\<exists>st. fold_result (turn_step dg run strategy) \<lparr>tns_turns = [], tns_turn_ids_by_session = [], tns_actor_by_session = []\<rparr> ps = Inr st
    \<and> tns_turns st = map (turn_at dg run strategy) (enumerate 0 ps) \<and> dict_wf (tns_turn_ids_by_session st)
    \<and> (\<forall>k. dict_get (tns_turn_ids_by_session st) k = (let g = session_events dg run strategy ps k in
          if g = [] then None else Some (map (turn_of dg run) g)))
    \<and> (\<forall>k. dict_get (tns_actor_by_session st) k = (let g = session_events dg run strategy ps k in
          if g = [] then None else Some (actor_of (last g))))"
  using assms
proof (induction ps rule: rev_induct)
  case (snoc e ps)
  then obtain st where st: "fold_result (turn_step dg run strategy) \<lparr>tns_turns = [], tns_turn_ids_by_session = [], tns_actor_by_session = []\<rparr> ps = Inr st"
    "tns_turns st = map (turn_at dg run strategy) (enumerate 0 ps)" "dict_wf (tns_turn_ids_by_session st)"
    "\<forall>k. dict_get (tns_turn_ids_by_session st) k = (let g = session_events dg run strategy ps k in
          if g = [] then None else Some (map (turn_of dg run) g))"
    "\<forall>k. dict_get (tns_actor_by_session st) k = (let g = session_events dg run strategy ps k in
          if g = [] then None else Some (actor_of (last g)))"
    by auto
  obtain a where a: "evt_actor e = Some a" using snoc.prems by auto
  have e: "hzd_turn dg run (evt_event_id e) = turn_of dg run e" "a = actor_of e"
    using a by (simp_all add: turn_of_def actor_of_def)
  let ?k = "session_of dg run strategy e"
  let ?ids = "(case dict_get (tns_turn_ids_by_session st) ?k of None \<Rightarrow> [] | Some ids \<Rightarrow> ids) @ [turn_of dg run e]"
  let ?st = "\<lparr>tns_turns = tns_turns st @ [turn_at dg run strategy (length ps, e)],
    tns_turn_ids_by_session = dict_set ?k ?ids (tns_turn_ids_by_session st),
    tns_actor_by_session = dict_set ?k (actor_of e) (tns_actor_by_session st)\<rparr>"
  have step: "turn_step dg run strategy st e = Inr ?st"
    using st(2) by (simp add: turn_step_def a e Let_def turn_at_def session_of_def)
  have g: "session_events dg run strategy (ps @ [e]) k = session_events dg run strategy ps k @ (if ?k = k then [e] else [])" for k
    by (simp add: session_events_def)
  show ?case
  proof (intro exI [of _ ?st] conjI allI)
    show "fold_result (turn_step dg run strategy) \<lparr>tns_turns = [], tns_turn_ids_by_session = [], tns_actor_by_session = []\<rparr> (ps @ [e]) = Inr ?st"
      using st(1) step by (simp add: fold_result_append)
    show "tns_turns ?st = map (turn_at dg run strategy) (enumerate 0 (ps @ [e]))"
      using st(2) by (simp add: enumerate_append_eq)
    show "dict_wf (tns_turn_ids_by_session ?st)" using st(3) by simp
    show "dict_get (tns_turn_ids_by_session ?st) k = (let g = session_events dg run strategy (ps @ [e]) k in
          if g = [] then None else Some (map (turn_of dg run) g))" for k
      using st(4) by (auto simp: g dict_get_set Let_def)
    show "dict_get (tns_actor_by_session ?st) k = (let g = session_events dg run strategy (ps @ [e]) k in
          if g = [] then None else Some (actor_of (last g)))" for k
      using st(5) by (auto simp: g dict_get_set Let_def)
  qed
qed (simp add: session_events_def)

definition session_at :: "humanize_digests \<Rightarrow> Digest \<Rightarrow> HumanizeSessionStrategy \<Rightarrow> RunEvent list \<Rightarrow> Digest \<Rightarrow> HumanizeLogicalSession" where
  "session_at dg run strategy ps k = (let g = session_events dg run strategy ps k in
     \<lparr>hls_logical_session_id = k, hls_actor_id = actor_of (last g), hls_strategy = strategy, hls_turn_ids = map (turn_of dg run) g\<rparr>)"

lemma session_events_facts:
  assumes ps: "attributed dg run strategy ps" and k: "k \<in> session_of dg run strategy ` set ps"
  shows "session_events dg run strategy ps k \<noteq> []" "distinct (map (turn_of dg run) (session_events dg run strategy ps k))"
    "\<forall>e\<in>set (session_events dg run strategy ps k). e \<in> set ps \<and> session_of dg run strategy e = k
       \<and> actor_of e = actor_of (last (session_events dg run strategy ps k))"
    "strategy = Strategy_FRESH \<Longrightarrow> length (session_events dg run strategy ps k) = 1"
proof -
  let ?g = "session_events dg run strategy ps k"
  show ne: "?g \<noteq> []" using k by (auto simp: session_events_def filter_empty_conv)
  show d: "distinct (map (turn_of dg run) ?g)" using ps by (simp add: attributed_def session_events_def distinct_map_filter)
  have mem: "e \<in> set ps \<and> session_of dg run strategy e = k" if "e \<in> set ?g" for e using that by (simp add: session_events_def)
  then show "\<forall>e\<in>set ?g. e \<in> set ps \<and> session_of dg run strategy e = k \<and> actor_of e = actor_of (last ?g)"
    using ps last_in_set [OF ne] unfolding attributed_def by metis
  assume "strategy = Strategy_FRESH"
  then have same: "turn_of dg run e = turn_of dg run f" if "e \<in> set ?g" "f \<in> set ?g" for e f
    using ps mem [OF that(1)] mem [OF that(2)] unfolding attributed_def by metis
  have "set (map (turn_of dg run) ?g) \<subseteq> {turn_of dg run (last ?g)}"
  proof
    fix x assume "x \<in> set (map (turn_of dg run) ?g)"
    then obtain e where "e \<in> set ?g" "x = turn_of dg run e" by auto
    with same [OF this(1) last_in_set [OF ne]] show "x \<in> {turn_of dg run (last ?g)}" by simp
  qed
  from card_mono [OF _ this] have "card (set (map (turn_of dg run) ?g)) \<le> 1" by simp
  then show "length ?g = 1" using distinct_card [OF d] ne by (simp add: le_Suc_eq)
qed

lemma logical_session_Inr:
  assumes ps: "attributed dg run strategy ps" and k: "k \<in> session_of dg run strategy ` set ps"
    and ids: "dict_get (tns_turn_ids_by_session st) k = (let g = session_events dg run strategy ps k in
          if g = [] then None else Some (map (turn_of dg run) g))"
    and actor: "dict_get (tns_actor_by_session st) k = (let g = session_events dg run strategy ps k in
          if g = [] then None else Some (actor_of (last g)))"
  shows "logical_session strategy st k = Inr (session_at dg run strategy ps k)"
  using session_events_facts(1,2) [OF ps k]
  by (simp add: logical_session_def ids actor session_at_def Let_def HumanizeLogicalSession_validate_def reject_humanize_def)

lemma stateful_session:
  assumes "attributed dg run Strategy_STATEFUL ps" "k \<in> session_of dg run Strategy_STATEFUL ` set ps"
  shows "k = logical_session_id dg run (actor_of (last (session_events dg run Strategy_STATEFUL ps k))) Strategy_STATEFUL []"
proof -
  note g = session_events_facts(1,3) [OF assms]
  have "session_of dg run Strategy_STATEFUL (last (session_events dg run Strategy_STATEFUL ps k)) = k"
    using g(2) last_in_set [OF g(1)] by blast
  then show ?thesis by (simp add: session_of_def logical_session_id_def)
qed

text \<open>A cycle whose turns are those of the participant events \<open>ps\<close>.\<close>

definition cycle_of :: "humanize_digests \<Rightarrow> HumanizeCycleProjection \<Rightarrow> RunEvent list \<Rightarrow> bool" where
  "cycle_of dg c ps \<longleftrightarrow> hcp_turns c = map (turn_at dg (hcp_run_id c) (hcp_session_strategy c)) (enumerate 0 ps)
     \<and> attributed dg (hcp_run_id c) (hcp_session_strategy c) ps
     \<and> actor_of ` set ps \<subseteq> hag_actor_id ` set (hcp_agents c)"

lemma turn_ids: "map htp_turn_id (map (turn_at dg run strategy) (enumerate n ps)) = map (turn_of dg run) ps"
  by (induction ps arbitrary: n) (simp_all add: turn_at_def)

lemma cycle_turn_get:
  assumes "cycle_of dg c ps" "e \<in> set ps"
  shows "\<exists>i. dict_get (dict_of htp_turn_id id (hcp_turns c)) (turn_of dg (hcp_run_id c) e)
    = Some (turn_at dg (hcp_run_id c) (hcp_session_strategy c) (i, e))"
proof -
  from assms(2) obtain i where i: "i < length ps" "ps ! i = e" by (auto simp: in_set_conv_nth)
  have "distinct (map htp_turn_id (hcp_turns c))" using assms(1) turn_ids by (simp add: cycle_of_def attributed_def)
  moreover have "turn_at dg (hcp_run_id c) (hcp_session_strategy c) (i, e) \<in> set (hcp_turns c)"
    using assms(1) i by (auto simp: cycle_of_def in_set_enumerate_eq)
  ultimately show ?thesis by (force simp: dict_get_dict_of turn_at_def)
qed

lemma check_session_Inr:
  assumes c: "cycle_of dg c ps" and k: "k \<in> session_of dg (hcp_run_id c) (hcp_session_strategy c) ` set ps"
    and fresh: "hcp_session_strategy c = Strategy_STATEFUL \<Longrightarrow> hls_actor_id (session_at dg (hcp_run_id c) (hcp_session_strategy c) ps k) \<notin> actors"
  shows "check_logical_session dg c (actors, referenced) (session_at dg (hcp_run_id c) (hcp_session_strategy c) ps k)
    = Inr (insert (hls_actor_id (session_at dg (hcp_run_id c) (hcp_session_strategy c) ps k)) actors,
        referenced @ map (turn_of dg (hcp_run_id c)) (session_events dg (hcp_run_id c) (hcp_session_strategy c) ps k))"
proof -
  let ?run = "hcp_run_id c" and ?strategy = "hcp_session_strategy c"
  let ?g = "session_events dg ?run ?strategy ps k" and ?s = "session_at dg ?run ?strategy ps k"
  let ?turns = "dict_of htp_turn_id id (hcp_turns c)"
  have ps: "attributed dg ?run ?strategy ps" using c by (simp add: cycle_of_def)
  note g = session_events_facts [OF ps k]
  have get: "\<exists>i. dict_get ?turns (turn_of dg ?run e) = Some (turn_at dg ?run ?strategy (i, e))" if "e \<in> set ?g" for e
    using cycle_turn_get [OF c] g(3) that by blast
  have s: "hls_logical_session_id ?s = k" "hls_actor_id ?s = actor_of (last ?g)" "hls_strategy ?s = ?strategy"
    "hls_turn_ids ?s = map (turn_of dg ?run) ?g"
    by (simp_all add: session_at_def Let_def)
  have agent: "hls_actor_id ?s \<in> set (map hag_actor_id (hcp_agents c))"
    using c g(3) last_in_set [OF g(1)] unfolding cycle_of_def s(2) set_map by blast
  have "\<not> (case dict_get ?turns (turn_of dg ?run e) of None \<Rightarrow> True | Some turn \<Rightarrow>
      htp_actor_id turn \<noteq> hls_actor_id ?s \<or> htp_logical_session_id turn \<noteq> hls_logical_session_id ?s)" if mem: "e \<in> set ?g" for e
  proof -
    obtain i where "dict_get ?turns (turn_of dg ?run e) = Some (turn_at dg ?run ?strategy (i, e))" using get [OF mem] by blast
    then show ?thesis using g(3) [rule_format, OF mem] by (simp add: turn_at_def s)
  qed
  then have own: "\<not> list_ex (\<lambda>found. case found of None \<Rightarrow> True | Some turn \<Rightarrow>
      htp_actor_id turn \<noteq> hls_actor_id ?s \<or> htp_logical_session_id turn \<noteq> hls_logical_session_id ?s) (map (dict_get ?turns) (hls_turn_ids ?s))"
    unfolding list_ex_iff s(4) by auto
  obtain e rest where e: "?g = e # rest" using g(1) by (cases ?g) auto
  then obtain i where i: "dict_get ?turns (turn_of dg ?run e) = Some (turn_at dg ?run ?strategy (i, e))" using get by fastforce
  have "k = logical_session_id dg ?run (actor_of (last ?g)) ?strategy (turn_of dg ?run e)"
    using g(3) e by (metis session_of_def list.set_intros(1))
  moreover have "hd (map (dict_get ?turns) (hls_turn_ids ?s)) = Some (turn_at dg ?run ?strategy (i, e))" by (simp add: s(4) e i)
  ultimately have identity: "\<not> (case hd (map (dict_get ?turns) (hls_turn_ids ?s)) of None \<Rightarrow> True | Some turn \<Rightarrow>
      hls_logical_session_id ?s \<noteq> logical_session_id dg ?run (hls_actor_id ?s) ?strategy (htp_turn_id turn))"
    by (simp add: s turn_at_def)
  have single: "\<not> (?strategy = Strategy_FRESH \<and> length (map (dict_get ?turns) (hls_turn_ids ?s)) \<noteq> 1)"
    using g(4) by (simp add: s(4))
  have strategy: "\<not> (hls_actor_id ?s \<notin> set (map hag_actor_id (hcp_agents c)) \<or> hls_strategy ?s \<noteq> ?strategy
      \<or> hls_actor_id ?s \<in> actors \<and> ?strategy = Strategy_STATEFUL)"
    using agent fresh s(3) by blast
  show ?thesis
    unfolding check_logical_session_def Let_def prod.case reject_humanize_def if_not_P [OF strategy] if_not_P [OF own]
      if_not_P [OF single] if_not_P [OF identity] bind_result_simps
    unfolding s(4) ..
qed

lemma check_sessions_Inr:
  assumes "cycle_of dg c ps" "distinct ks" "set ks \<subseteq> session_of dg (hcp_run_id c) (hcp_session_strategy c) ` set ps"
    and "hcp_session_strategy c = Strategy_STATEFUL \<Longrightarrow>
      \<forall>k\<in>set ks. hls_actor_id (session_at dg (hcp_run_id c) (hcp_session_strategy c) ps k) \<notin> actors"
  shows "\<exists>seen_actors. fold_result (check_logical_session dg c) (actors, referenced)
      (map (session_at dg (hcp_run_id c) (hcp_session_strategy c) ps) ks) = Inr (seen_actors, referenced @ concat (map (\<lambda>k.
        map (turn_of dg (hcp_run_id c)) (session_events dg (hcp_run_id c) (hcp_session_strategy c) ps k)) ks))"
  using assms(2-)
proof (induction ks arbitrary: actors referenced)
  case (Cons k ks)
  let ?at = "session_at dg (hcp_run_id c) (hcp_session_strategy c) ps"
  have ps: "attributed dg (hcp_run_id c) (hcp_session_strategy c) ps" using assms(1) by (simp add: cycle_of_def)
  have "hls_actor_id (?at j) \<notin> insert (hls_actor_id (?at k)) actors"
    if stateful: "hcp_session_strategy c = Strategy_STATEFUL" and j: "j \<in> set ks" for j
  proof -
    have "hls_actor_id (?at j) \<noteq> hls_actor_id (?at k)"
    proof
      assume "hls_actor_id (?at j) = hls_actor_id (?at k)"
      then have "j = k"
        using stateful_session [of dg "hcp_run_id c" ps] ps Cons.prems(2) j unfolding stateful
        by (metis (no_types, lifting) HumanizeLogicalSession.select_convs(2) list.set_intros session_at_def subsetD)
      then show False using Cons.prems(1) j by simp
    qed
    then show ?thesis using Cons.prems(3) stateful j by simp
  qed
  moreover have "check_logical_session dg c (actors, referenced) (?at k) = Inr (insert (hls_actor_id (?at k)) actors,
      referenced @ map (turn_of dg (hcp_run_id c)) (session_events dg (hcp_run_id c) (hcp_session_strategy c) ps k))"
    using Cons.prems(2,3) by (intro check_session_Inr [OF assms(1)]) auto
  ultimately show ?case
    using Cons.IH [of "insert (hls_actor_id (?at k)) actors" "referenced @ map (turn_of dg (hcp_run_id c)) (session_events dg (hcp_run_id c) (hcp_session_strategy c) ps k)"]
      Cons.prems(1,2) by simp
qed simp

lemma referenced_turns:
  assumes "attributed dg run strategy ps" "distinct ks" "set ks = session_of dg run strategy ` set ps"
  defines "R \<equiv> concat (map (\<lambda>k. map (turn_of dg run) (session_events dg run strategy ps k)) ks)"
  shows "distinct R \<and> set R = turn_of dg run ` set ps"
proof -
  have set: "set R = turn_of dg run ` set ps" using assms(3) by (auto simp: R_def session_events_def)
  have "length R = (\<Sum>k\<leftarrow>ks. length (filter (\<lambda>e. session_of dg run strategy e = k) ps))"
    by (simp add: R_def length_concat comp_def session_events_def)
  also have "\<dots> = length ps" using sum_groups [OF assms(2), of "session_of dg run strategy" ps] assms(3) by simp
  also have "\<dots> = card (set R)"
    using assms(1) distinct_card [of "map (turn_of dg run) ps"] by (simp add: attributed_def set)
  finally show ?thesis using set by (simp add: card_distinct)
qed

subsection \<open>The cycle is valid\<close>

definition slice_at :: "nat \<times> RunEvent \<Rightarrow> HumanizeTraceSlice" where
  "slice_at x = \<lparr>hts_slice_index = int (fst x), hts_event_id = evt_event_id (snd x), hts_timestamp = evt_timestamp (snd x),
     hts_event_kind = event_kind (snd x), hts_producer = evt_producer (snd x), hts_actor_id = evt_actor (snd x),
     hts_visibility = evt_visibility (snd x)\<rparr>"

lemma enumerate_map:
  "map (\<lambda>x. f (snd x)) (enumerate n xs) = map f xs" "map (\<lambda>x. g (fst x)) (enumerate n xs) = map g [n..<n + length xs]"
  by (induction xs arbitrary: n) (simp_all add: upt_conv_Cons del: upt_Suc)

lemma enumerate_mem: "x \<in> set (enumerate n xs) \<Longrightarrow> snd x \<in> set xs \<and> n \<le> fst x"
  by (induction xs arbitrary: n) (auto dest: Suc_leD)

lemma mem_enumerate: "e \<in> set xs \<Longrightarrow> \<exists>i. (i, e) \<in> set (enumerate n xs)"
  by (induction xs arbitrary: n) auto

lemma trace_slices:
  "map_result trace_slice (enumerate 1 (traced_events audience es)) = Inr (map slice_at (enumerate 1 (traced_events audience es)))"
proof (rule map_result_total)
  fix x assume "x \<in> set (enumerate 1 (traced_events audience es))"
  then have "1 \<le> fst x" "snd x \<in> set (traced_events audience es)"
    by (auto dest: enumerate_mem)
  then show "trace_slice x = Inr (slice_at x)"
    by (auto simp: trace_slice_def slice_at_def HumanizeTraceSlice_validate_def reject_humanize_def traced_events_def
        trace_visibilities_def PARTICIPANT_EVENT_VISIBILITY_def split: prod.split if_splits)
qed

lemma humanize_cycle_Inr:
  assumes c: "cycle_of dg c (filter (\<lambda>e. evt_producer e = Producer_PARTICIPANT) traced)"
    and trace: "hcp_trace c = map slice_at (enumerate 1 traced)" "distinct (map evt_event_id traced)"
      "\<forall>e\<in>set traced. evt_visibility e \<in> trace_visibilities (hcp_audience c)"
    and agents: "distinct (map hag_actor_id (hcp_agents c))" "sorted (map hag_actor_id (hcp_agents c))" "hcp_agents c \<noteq> []"
    and sessions: "hcp_sessions c = map (session_at dg (hcp_run_id c) (hcp_session_strategy c)
        (filter (\<lambda>e. evt_producer e = Producer_PARTICIPANT) traced)) (sort ks)" "distinct ks"
      "set ks = session_of dg (hcp_run_id c) (hcp_session_strategy c) ` set (filter (\<lambda>e. evt_producer e = Producer_PARTICIPANT) traced)"
    and mode: "hcp_mode c = Kind_BENCHMARK \<and> hcp_session_strategy c = Strategy_FRESH \<and> hcp_parent_run_id c = None
      \<or> hcp_mode c = Kind_TRAINING \<and> hcp_session_strategy c = Strategy_STATEFUL"
  shows "HumanizeCycleProjection_validate dg c = Inr c"
proof -
  let ?run = "hcp_run_id c" and ?strategy = "hcp_session_strategy c"
  let ?ps = "filter (\<lambda>e. evt_producer e = Producer_PARTICIPANT) traced"
  have turns: "hcp_turns c = map (turn_at dg ?run ?strategy) (enumerate 0 ?ps)" and ps: "attributed dg ?run ?strategy ?ps"
    and actors: "actor_of ` set ?ps \<subseteq> hag_actor_id ` set (hcp_agents c)"
    using c by (simp_all add: cycle_of_def)
  have session_ids: "map hls_logical_session_id (hcp_sessions c) = sort ks"
    by (simp add: sessions(1) session_at_def Let_def comp_def)
  have turn_ids: "map htp_turn_id (hcp_turns c) = map (turn_of dg ?run) ?ps" by (simp only: turns turn_ids)
  have event_ids: "map hts_event_id (hcp_trace c) = map evt_event_id traced"
    by (simp add: trace(1) slice_at_def comp_def enumerate_map)
  have "card (set (map htp_turn_id (hcp_turns c))) = length (hcp_turns c)"
    using ps distinct_card [of "map htp_turn_id (hcp_turns c)"] unfolding attributed_def turn_ids [symmetric] by simp
  moreover have "map htp_turn_index (hcp_turns c) = map (\<lambda>i. int i + 1) [0..<length (hcp_turns c)]"
    by (simp add: turns turn_at_def comp_def enumerate_map(2) [of "\<lambda>i. int i + 1"])
  moreover have "map hts_slice_index (hcp_trace c) = map (\<lambda>i. int i + 1) [0..<length (hcp_trace c)]"
    by (simp add: trace(1) slice_at_def comp_def enumerate_map map_Suc_upt [symmetric] del: upt_Suc)
  ultimately have fields: "check_cycle_fields c = Inr ()"
    using agents mode sessions(2) session_ids by (auto simp: check_cycle_fields_def Let_def reject_humanize_def sorted_sort_id)
  have strategy: "check_strategy c = Inr ()" using mode by (auto simp: check_strategy_def reject_humanize_def)
  have audience: "\<not> list_ex (\<lambda>item. hts_visibility item \<notin> trace_visibilities (hcp_audience c)) (hcp_trace c)"
    using trace(1,3) by (auto simp: list_ex_iff slice_at_def dest: enumerate_mem)
  have unique: "length (dict_of hts_event_id id (hcp_trace c)) = length (hcp_trace c)"
    using trace(2) event_ids length_dict_of_distinct [of hts_event_id id "hcp_trace c"] by simp
  have placed: "\<not> turn_misplaced dg c turn" if turn: "turn \<in> set (hcp_turns c)" for turn
  proof -
    from turn obtain i e where e: "turn = turn_at dg ?run ?strategy (i, e)" "e \<in> set ?ps"
      unfolding turns by (auto dest: enumerate_mem)
    from e(2) obtain j where "(j, e) \<in> set (enumerate 1 traced)" using mem_enumerate [of e traced 1] by auto
    then have "slice_at (j, e) \<in> set (hcp_trace c)" by (simp add: trace(1))
    moreover have "distinct (map hts_event_id (hcp_trace c))" using trace(2) by (simp only: event_ids)
    moreover have "hts_event_id (slice_at (j, e)) = evt_event_id e" by (simp add: slice_at_def)
    ultimately have "dict_get (dict_of hts_event_id id (hcp_trace c)) (evt_event_id e) = Some (slice_at (j, e))"
      by (metis dict_get_dict_of id_apply)
    moreover have "evt_actor e = Some (actor_of e)" using ps e(2) unfolding attributed_def actor_of_def by (metis option.collapse)
    moreover have "session_of dg ?run ?strategy e \<in> set (map hls_logical_session_id (hcp_sessions c))"
      using e(2) sessions(3) unfolding session_ids by auto
    ultimately show ?thesis
      using e actors by (auto simp: turn_misplaced_def turn_at_def slice_at_def turn_of_def)
  qed
  have covered: "set (map hts_event_id (filter (\<lambda>item. hts_producer item = Producer_PARTICIPANT) (hcp_trace c)))
      = set (map htp_event_id (hcp_turns c))"
  proof -
    have "map hts_event_id (filter (\<lambda>item. hts_producer item = Producer_PARTICIPANT) (map slice_at (enumerate n traced))) = map evt_event_id ?ps" for n
      by (induction traced arbitrary: n) (auto simp: slice_at_def)
    moreover have "map htp_event_id (hcp_turns c) = map evt_event_id ?ps"
      by (simp add: turns turn_at_def comp_def enumerate_map)
    ultimately show ?thesis by (simp add: trace(1))
  qed
  from check_sessions_Inr [OF c, of "sort ks" "{}" "[]"] sessions(2,3) obtain seen_actors where
    "fold_result (check_logical_session dg c) ({}, []) (hcp_sessions c) = Inr (seen_actors, concat (map (\<lambda>k.
        map (turn_of dg ?run) (session_events dg ?run ?strategy ?ps k)) (sort ks)))"
    by (auto simp: sessions(1))
  moreover have "set (map htp_turn_id (hcp_turns c)) = turn_of dg ?run ` set ?ps" by (simp only: turn_ids set_map)
  moreover note referenced_turns [OF ps, of "sort ks"] sessions(2,3)
  ultimately show ?thesis
    using fields strategy audience unique placed covered
    by (simp add: HumanizeCycleProjection_validate_def reject_humanize_def list_ex_iff)
qed

end
