(* ===== verification/FrontFacts.thy ===== *)
theory FrontFacts
  imports LeaderboardFacts
begin

section \<open>Facts about aggregates and Pareto fronts\<close>

text \<open>
  The entries of a leaderboard are grouped by partition, and the Pareto front of a partition is the set of entries
  that no other eligible entry beats. \<open>dominance\<close> is the interface the front relies on: a strict order; it is
  interpreted on the dominance of the scores of a task.
\<close>

subsection \<open>Strict orders on finitely many entries\<close>

locale dominance =
  fixes beats :: "'a \<Rightarrow> 'a \<Rightarrow> bool"
  assumes irrefl: "\<not> beats x x"
    and trans: "beats x y \<Longrightarrow> beats y z \<Longrightarrow> beats x z"
begin

definition front :: "'a list \<Rightarrow> 'a list" where
  "front xs = filter (\<lambda>x. \<not> (\<exists>y\<in>set xs. beats y x)) xs"

lemma front_subset: "set (front xs) \<subseteq> set xs"
  by (auto simp: front_def)

lemma front_antichain: "x \<in> set (front xs) \<Longrightarrow> y \<in> set (front xs) \<Longrightarrow> \<not> beats x y"
  by (auto simp: front_def)

text \<open>Whatever is not on the front is beaten by an element of the front.\<close>

lemma front_covers:
  assumes "x \<in> set xs"
  shows "x \<in> set (front xs) \<or> (\<exists>y\<in>set (front xs). beats y x)"
proof -
  let ?R = "{(y, x). y \<in> set xs \<and> x \<in> set xs \<and> beats y x}"
  have "finite ?R" by (rule finite_subset [of _ "set xs \<times> set xs"]) auto
  moreover have "acyclic ?R"
  proof -
    have "trans ?R" by (rule transI) (auto intro: trans)
    then show ?thesis using irrefl by (simp add: acyclic_def trancl_id)
  qed
  ultimately have "wf ?R" by (rule finite_acyclic_wf)
  then show ?thesis using assms
  proof (induction x rule: wf_induct_rule)
    case (less x)
    show ?case
    proof (cases "\<exists>y\<in>set xs. beats y x")
      case True
      then obtain y where y: "y \<in> set xs" "beats y x" by blast
      with less have "y \<in> set (front xs) \<or> (\<exists>z\<in>set (front xs). beats z y)" by blast
      with y(2) show ?thesis using trans by blast
    qed (use less.prems in \<open>simp add: front_def\<close>)
  qed
qed

lemma front_nonempty: "xs \<noteq> [] \<Longrightarrow> front xs \<noteq> []"
  using front_covers [of "hd xs" xs] by fastforce

end

interpretation pareto: dominance "dominates t" for t
  by unfold_locales (auto simp: dominates_irrefl intro: dominates_trans)

subsection \<open>Pareto fronts\<close>

definition vector_of :: "LeaderboardEntry \<Rightarrow> ParetoVectorScore" where
  "vector_of e = (case lbe_score e of Some (Score_Pareto v) \<Rightarrow> v | _ \<Rightarrow> \<lparr>pvs_measurements = []\<rparr>)"

definition entry_beats :: "TaskSpec \<Rightarrow> LeaderboardEntry \<Rightarrow> LeaderboardEntry \<Rightarrow> bool" where
  "entry_beats t e f \<longleftrightarrow> dominates t (vector_of e) (vector_of f)"

interpretation entries: dominance "entry_beats t" for t
  by unfold_locales (auto simp: entry_beats_def pareto.irrefl intro: pareto.trans)

lemma eligible_entry_raises [simp]: "only_unavailable (eligible_entry t e)"
  by (simp add: eligible_entry_def split: option.split CandidateScore.split sum.split)

lemma eligible_entry_Inr:
  assumes "eligible_entry t e = Inr r"
  shows "r = (if lbe_rank_eligible e then Some (e, vector_of e) else None)" "lbe_rank_eligible e \<longrightarrow> score_for t (vector_of e)"
  using assms pareto_dominates_Inr [of t "vector_of e" "vector_of e"]
  by (auto simp: eligible_entry_def vector_of_def split: if_splits option.splits CandidateScore.splits sum.splits)

lemma eligible_entries_Inr:
  assumes "map_result (eligible_entry t) es = Inr found"
  shows "List.map_filter id found = map (\<lambda>e. (e, vector_of e)) (filter lbe_rank_eligible es)
    \<and> (\<forall>e\<in>set es. lbe_rank_eligible e \<longrightarrow> score_for t (vector_of e))"
  using assms
proof (induction es arbitrary: found)
  case (Cons e es)
  then obtain r rest where r: "eligible_entry t e = Inr r" "map_result (eligible_entry t) es = Inr rest" "found = r # rest" by auto
  with Cons.IH [OF r(2)] eligible_entry_Inr [OF r(1)] show ?case by (auto simp: List.map_filter_simps)
qed (simp add: List.map_filter_simps)

lemma any_dominates_Inr:
  assumes "\<And>other. other \<in> snd ` set xs \<Longrightarrow> pareto_dominates t other v = Inr (dominates t other v)"
  shows "any_dominates t i v xs = Inr (\<exists>(j, other)\<in>set xs. i \<noteq> j \<and> dominates t other v)"
  using assms
proof (induction xs)
  case (Cons x xs)
  then have IH: "any_dominates t i v xs = Inr (\<exists>(j, other)\<in>set xs. i \<noteq> j \<and> dominates t other v)" by simp
  obtain j other where x: "x = (j, other)" by (cases x)
  have "pareto_dominates t other v = Inr (dominates t other v)" using Cons.prems x by simp
  then show ?case using IH x by (cases "dominates t other v") auto
qed simp

lemma nondominated_Inr:
  assumes ok: "\<And>e f. e \<in> set es \<Longrightarrow> f \<in> set es \<Longrightarrow>
    pareto_dominates t (vector_of e) (vector_of f) = Inr (dominates t (vector_of e) (vector_of f))"
  shows "nondominated t (map (\<lambda>e. (e, vector_of e)) es) = Inr (entries.front t es)"
proof -
  let ?beaten = "\<lambda>e. \<exists>f\<in>set es. entry_beats t f e"
  let ?others = "enumerate 0 (map vector_of es)"
  have "any_dominates t i (vector_of e) ?others = Inr (?beaten e)" if "(i, e) \<in> set (enumerate 0 es)" for i e
  proof -
    have ie: "i < length es" "es ! i = e" using that by (simp_all add: in_set_enumerate_eq)
    then have e: "e \<in> set es" by auto
    have "any_dominates t i (vector_of e) ?others
        = Inr (\<exists>(j, other)\<in>set ?others. i \<noteq> j \<and> dominates t other (vector_of e))"
      by (rule any_dominates_Inr) (use ok e in \<open>auto simp: in_set_enumerate_eq\<close>)
    also have "(\<exists>(j, other)\<in>set ?others. i \<noteq> j \<and> dominates t other (vector_of e)) = ?beaten e"
    proof
      assume "?beaten e"
      then obtain j where j: "j < length es" "entry_beats t (es ! j) e" by (metis in_set_conv_nth)
      then have "i \<noteq> j" using ie entries.irrefl by metis
      then show "\<exists>(j, other)\<in>set ?others. i \<noteq> j \<and> dominates t other (vector_of e)"
        using j by (auto simp: in_set_enumerate_eq entry_beats_def intro!: bexI [of _ "(j, vector_of (es ! j))"])
    qed (auto simp: in_set_enumerate_eq entry_beats_def)
    finally show ?thesis .
  qed
  then have "map_result (\<lambda>(i, e, v). bind_result (any_dominates t i v ?others) (\<lambda>dominated. Inr (if dominated then None else Some e)))
      (map (\<lambda>(i, e). (i, e, vector_of e)) (enumerate 0 es))
    = Inr (map (\<lambda>(i, e, v). if ?beaten e then None else Some e) (map (\<lambda>(i, e). (i, e, vector_of e)) (enumerate 0 es)))"
    by (intro map_result_total) auto
  moreover have "enumerate 0 (map (\<lambda>e. (e, vector_of e)) es) = map (\<lambda>(i, e). (i, e, vector_of e)) (enumerate 0 es)"
    by (simp add: enumerate_map_upt enumerate_eq_zip zip_map2)
  moreover have "List.map_filter id (map (\<lambda>(i, e, v). if ?beaten e then None else Some e) (map (\<lambda>(i, e). (i, e, vector_of e)) xs))
      = filter (\<lambda>e. \<not> ?beaten e) (map snd xs)" for xs :: "(nat \<times> LeaderboardEntry) list"
    by (induction xs) (auto simp: List.map_filter_simps)
  ultimately show ?thesis by (simp add: nondominated_def comp_def entries.front_def)
qed

lemma project_pareto_front_result:
  assumes "TaskSpec_validate tdg raw = Inr t"
  shows "only_unavailable (project_pareto_front dg t es)"
    and "project_pareto_front dg t es = Inr front \<Longrightarrow>
      front = sort_key lbe_run_id (entries.front t (filter lbe_rank_eligible es)) \<and> distinct (map lbe_run_id es)
      \<and> (\<forall>e\<in>set es. lbe_rank_eligible e \<longrightarrow> score_for t (vector_of e))"
proof -
  have found: "nondominated t (List.map_filter id found) = Inr (entries.front t (filter lbe_rank_eligible es))"
    if "map_result (eligible_entry t) es = Inr found" for found
    using eligible_entries_Inr [OF that] nondominated_Inr [of "filter lbe_rank_eligible es" t] task_dominance [OF assms] by simp
  show "only_unavailable (project_pareto_front dg t es)"
    unfolding project_pareto_front_def require_sealed_leaderboard_task_def
    by (intro raises_only_bind raises_only_map) (auto simp: found split: TaskOrigin.split)
  assume "project_pareto_front dg t es = Inr front"
  then obtain found where "map_result (eligible_entry t) es = Inr found" "card (set (map lbe_run_id es)) = length es"
    "bind_result (nondominated t (List.map_filter id found)) (\<lambda>front. Inr (sort_key lbe_run_id front)) = Inr front"
    by (auto simp: project_pareto_front_def)
  then show "front = sort_key lbe_run_id (entries.front t (filter lbe_rank_eligible es)) \<and> distinct (map lbe_run_id es)
      \<and> (\<forall>e\<in>set es. lbe_rank_eligible e \<longrightarrow> score_for t (vector_of e))"
    using found eligible_entries_Inr by (auto intro: card_distinct)
qed

subsection \<open>Groups of entries\<close>

definition members :: "LeaderboardEntry list \<Rightarrow> Digest \<Rightarrow> LeaderboardEntry list" where
  "members es k = filter (\<lambda>e. lbe_partition_id e = k) es"

lemma group_entries_get:
  "dict_wf (group_entries es)" "dict_get (group_entries es) k = (if members es k = [] then None else Some (members es k))"
proof -
  let ?f = "\<lambda>e d. dict_set (lbe_partition_id e) ((case dict_get d (lbe_partition_id e) of None \<Rightarrow> [] | Some es \<Rightarrow> es) @ [e]) d"
  have "dict_wf (fold ?f es d) \<and> dict_get (fold ?f es d) k =
      (if members es k = [] then dict_get d k else Some ((case dict_get d k of None \<Rightarrow> [] | Some g \<Rightarrow> g) @ members es k))"
    if "dict_wf d" for d
    using that
  proof (induction es arbitrary: d)
    case (Cons e es)
    then show ?case by (auto simp: members_def dict_get_set split: option.split)
  qed (simp add: members_def)
  from this [of "[]"] show "dict_wf (group_entries es)"
    "dict_get (group_entries es) k = (if members es k = [] then None else Some (members es k))"
    by (simp_all add: group_entries_def)
qed

lemma group_entries_mem:
  "(k, g) \<in> set (group_entries es) \<longleftrightarrow> k \<in> lbe_partition_id ` set es \<and> g = members es k"
  unfolding dict_mem_get [OF group_entries_get(1)] group_entries_get(2) by (auto simp: members_def filter_empty_conv)

text \<open>What an aggregate says of the runs of its partition.\<close>

definition partition_aggregate :: "LeaderboardEntry list \<Rightarrow> Digest \<Rightarrow> LeaderboardAggregate" where
  "partition_aggregate es k = \<lparr>lba_partition_id = k, lba_partition = lbe_partition (hd (members es k)),
     lba_rank_eligible = list_all (\<lambda>e. lbc_participation (lbp_cohort (lbe_partition e)) = Participation_AGENT
       \<and> lin_parent_run_id (lbe_lineage e) = None \<and> (\<not> lbe_success e \<or> lbe_rank_eligible e)
       \<and> lbe_terminal_reason e \<in> COMPARABLE_TRIAL_STOP_REASONS) (members es k),
     lba_run_ids = sort (map lbe_run_id (members es k)),
     lba_success_numerator = int (length (filter lbe_success (members es k))),
     lba_success_denominator = int (length (members es k))\<rparr>"

lemma partition_aggregate_valid:
  assumes "members es k \<noteq> []" "distinct (map lbe_run_id es)" "k = exd_partition dg (lbe_partition (hd (members es k)))"
  shows "LeaderboardAggregate_validate dg (partition_aggregate es k) = Inr (partition_aggregate es k)"
proof -
  have "distinct (map lbe_run_id (members es k))" using assms(2) by (simp add: members_def distinct_map_filter)
  moreover have "0 < length (members es k)" using assms(1) by simp
  then have "1 \<le> int (length (members es k))" by linarith
  moreover have "lbc_participation (lbp_cohort (lbe_partition (hd (members es k)))) = Participation_AGENT"
    if "lba_rank_eligible (partition_aggregate es k)"
    using that assms(1) by (simp add: partition_aggregate_def list_all_iff)
  ultimately show ?thesis
    using assms(1,3)
    by (auto simp: LeaderboardAggregate_validate_def partition_aggregate_def invalid_if_def length_filter_le [THEN leD])
qed

lemma aggregate_group_members:
  "aggregate_group dg (k, members es k) =
    bind_result (unavailable_if (int (length (members es k)) \<noteq> lbp_trial_count (lbe_partition (hd (members es k)))) Trials_missing)
      (\<lambda>_. LeaderboardAggregate_validate dg (partition_aggregate es k))"
  by (simp add: aggregate_group_def partition_aggregate_def)

lemma hd_members: "k \<in> lbe_partition_id ` set es \<Longrightarrow> members es k \<noteq> [] \<and> hd (members es k) \<in> set es \<and> lbe_partition_id (hd (members es k)) = k"
  using hd_in_set [of "members es k"] by (auto simp: members_def filter_empty_conv)

lemma aggregate_entries_raises:
  assumes "\<forall>e\<in>set es. lbe_partition_id e = exd_partition dg (lbe_partition e)"
  shows "only_unavailable (aggregate_entries dg es)"
  unfolding aggregate_entries_def
proof (intro raises_only_bind raises_only_map raises_only_Inr)
  fix u g assume "unavailable_if (\<not> distinct (map lbe_run_id es)) Run_counted_twice = Inr u" and g: "g \<in> set (group_entries es)"
  then have runs: "distinct (map lbe_run_id es)" by simp
  obtain k where k: "g = (k, members es k)" "k \<in> lbe_partition_id ` set es"
    using g group_entries_mem [of "fst g" "snd g" es] by (metis prod.collapse)
  have "LeaderboardAggregate_validate dg (partition_aggregate es k) = Inr (partition_aggregate es k)"
    using hd_members [OF k(2)] assms runs by (intro partition_aggregate_valid) auto
  then show "only_unavailable (aggregate_group dg g)" by (simp add: k(1) aggregate_group_members raises_only_bind)
qed simp

lemma aggregate_entries_Inr:
  assumes "aggregate_entries dg es = Inr as"
  shows "distinct (map lbe_run_id es) \<and> set as = partition_aggregate es ` lbe_partition_id ` set es \<and> sorted_wrt (<) (map lba_partition_id as)
    \<and> (\<forall>k\<in>lbe_partition_id ` set es. int (length (members es k)) = lbp_trial_count (lbe_partition (hd (members es k))))"
proof -
  from assms obtain gs where gs: "distinct (map lbe_run_id es)" "map_result (aggregate_group dg) (group_entries es) = Inr gs"
    "as = sort_key lba_partition_id gs"
    by (auto simp: aggregate_entries_def)
  have one: "r = partition_aggregate es k \<and> int (length (members es k)) = lbp_trial_count (lbe_partition (hd (members es k)))"
    if "aggregate_group dg (k, members es k) = Inr r" for k r
    using that by (auto simp: aggregate_group_members LeaderboardAggregate_validate_def)
  have all: "list_all2 (\<lambda>g r. aggregate_group dg g = Inr r) (group_entries es) gs" using gs(2) by (simp add: map_result_Inr)
  then have "list_all2 (\<lambda>g r. r = partition_aggregate es (fst g) \<and> int (length (members es (fst g))) = lbp_trial_count (lbe_partition (hd (members es (fst g)))))
      (group_entries es) gs"
    by (rule list.rel_mono_strong) (use one in \<open>auto simp: group_entries_mem\<close>)
  then have each: "gs = map (partition_aggregate es \<circ> fst) (group_entries es)"
    "\<forall>g\<in>set (group_entries es). int (length (members es (fst g))) = lbp_trial_count (lbe_partition (hd (members es (fst g))))"
    unfolding list_all2_conv_all_nth by (auto intro: nth_equalityI) (metis fst_conv in_set_conv_nth)
  have keys: "fst ` set (group_entries es) = lbe_partition_id ` set es" 
    by (auto simp: group_entries_mem image_iff) (metis fst_conv group_entries_mem imageI)
  have "map lba_partition_id gs = map fst (group_entries es)" by (simp add: each(1) partition_aggregate_def comp_def)
  then have "distinct (map lba_partition_id gs)" using group_entries_get(1) by (simp add: dict_wf_def)
  then have "sorted_wrt (<) (map lba_partition_id as)"
    by (simp add: gs(3) strict_sorted_iff)
  moreover have "set as = partition_aggregate es ` lbe_partition_id ` set es"
    unfolding gs(3) set_sort each(1) by (simp flip: keys add: image_comp)
  moreover have "\<forall>k\<in>fst ` set (group_entries es). int (length (members es k)) = lbp_trial_count (lbe_partition (hd (members es k)))"
    using each(2) by simp
  ultimately show ?thesis using gs(1) by (simp add: keys)
qed

end
