(* ===== verification/ExportProperties.thy ===== *)
theory ExportProperties
  imports FrontFacts
begin

section \<open>Properties of the projections\<close>

text \<open>
  What is shown to an audience is determined by what that audience may see of the run; rewards and leaderboard
  entries report the recorded verdict and no other; aggregates count every run once, within its partition; and the
  Pareto front of a partition is exactly the set of its undominated eligible entries.
\<close>

subsection \<open>An example run without a human\<close>

definition example_export_digests :: export_digests where
  "example_export_digests = \<lparr>exd_session = (\<lambda>_. ''sha256:session''), exd_partition = (\<lambda>_. ''sha256:partition''),
     exd_task = (\<lambda>_. ''sha256:task''), exd_harness_version = (\<lambda>_. ''v1''), exd_harnesses_version = (\<lambda>_. ''v2'')\<rparr>"

definition solo_binding :: RunBinding where
  "solo_binding = example_binding\<lparr>bnd_session := (bnd_session example_binding)\<lparr>srb_actors := [Run_Harness
     \<lparr>har_actor_id = ''agent'', har_harness_digest = ''sha256:harness'', har_scaffold_digest = ''sha256:scaffold'',
      har_requested_model_route = ''model''\<rparr>], srb_initial_writer := ''agent'', srb_handoff_enabled := False\<rparr>\<rparr>"

definition solo_env :: replay_env where
  "solo_env = example_env\<lparr>env_header := \<lparr>hdr_run_id = ''sha256:run'', hdr_binding = solo_binding\<rparr>\<rparr>"

definition solo_report :: ArtifactRecord where
  "solo_report = example_report\<lparr>art_sensitivity := Sensitivity_PUBLIC, art_visibility := Visibility_PUBLIC,
     art_redistribution := Redistribution_ALLOWED\<rparr>"

definition solo_journal :: "RunEvent list" where
  "solo_journal =
     [example_event 0 Producer_CONTROLLER None Visibility_PUBLIC [] (RunStarted \<lparr>rsp_binding_digest = ''sha256:run''\<rparr>),
      example_event 1 Producer_PARTICIPANT (Some ''agent'') Visibility_PARTICIPANT []
        (CandidateSubmitted \<lparr>csp_candidate_id = ''c1'', csp_candidate_digest = ''sha256:c1'', csp_parent_candidate_id = None\<rparr>),
      example_event 2 Producer_CONTROLLER None Visibility_PUBLIC [] (ArtifactRecorded \<lparr>arp_record = solo_report\<rparr>)]
     @ example_evaluation 3 ''lint'' [] @ example_evaluation 7 ''sim'' []
     @ map (\<lambda>e. e\<lparr>evt_visibility := Visibility_PUBLIC\<rparr>) (example_evaluation 11 ''ppa'' [''report''])
     @ [example_event 15 Producer_EVALUATOR None Visibility_PUBLIC []
          (ScoringRecorded \<lparr>srp_candidate_id = ''c1'', srp_decision = example_decision\<rparr>),
        example_event 16 Producer_CONTROLLER None Visibility_PUBLIC []
          (RunEnded \<lparr>rep_reason = Stop_VERIFIER_SUCCESS, rep_successful_candidate_id = Some ''c1''\<rparr>)]"

definition solo_snapshot :: ProjectionSnapshot where
  "solo_snapshot = \<lparr>psn_header = env_header solo_env, psn_task = example_task, psn_events = solo_journal,
     psn_state = \<lparr>rst_run_id = ''sha256:run'', rst_next_sequence = 17, rst_current_writer = ''agent'',
       rst_candidates = rst_candidates example_run_state, rst_stage_results = rst_stage_results example_run_state,
       rst_scoring = rst_scoring example_run_state, rst_artifacts = [solo_report], rst_checkpoint_ids = [],
       rst_interaction_ids = [], rst_provider_requests = [], rst_jobs = rst_jobs example_run_state,
       rst_terminal_reason = Some Stop_VERIFIER_SUCCESS, rst_successful_candidate_id = Some ''c1''\<rparr>\<rparr>"

lemma solo_computed:
  "snapshot_of_events solo_env solo_journal = Inr solo_snapshot
   \<and> list_all (\<lambda>e. event_validate example_run_digests e = Inr e) solo_journal
   \<and> RunBinding_validate solo_binding = Inr solo_binding \<and> model_routes_ok solo_binding"
  by code_simp

lemma solo_exportable: "exportable example_export_digests solo_env solo_journal"
proof -
  have "env_digests solo_env = example_run_digests" "env_binding solo_env = solo_binding"
    by (simp_all add: solo_env_def example_env_def)
  then show ?thesis
    using solo_computed by (auto simp: exportable_def list_all_iff example_export_digests_def solo_binding_def example_binding_def)
qed

definition solo_entry :: LeaderboardEntry where
  "solo_entry = (case project_leaderboard_entry example_export_digests solo_snapshot example_session of Inr e \<Rightarrow> e)"

text \<open>A second entry of the same partition, which the first one beats.\<close>

definition runner_up :: "LeaderboardEntry \<Rightarrow> LeaderboardEntry" where
  "runner_up e = e\<lparr>lbe_run_id := ''sha256:second'',
     lbe_score := Some (Score_Pareto \<lparr>pvs_measurements = [\<lparr>agm_measurement_id = ''area'', agm_value = 20\<rparr>]\<rparr>)\<rparr>"

lemma solo_entry_computed:
  "(case project_leaderboard_entry example_export_digests solo_snapshot example_session of Inl _ \<Rightarrow> False
    | Inr e \<Rightarrow> lbe_rank_eligible e \<and> lbe_score e = Some example_score \<and> \<not> isl (aggregate_entries example_export_digests [e])
        \<and> project_pareto_front example_export_digests example_task [runner_up e, e] = Inr [e])"
  by code_simp

lemma solo_entry_projected:
  "project_leaderboard_entry example_export_digests solo_snapshot example_session = Inr solo_entry" "lbe_rank_eligible solo_entry"
  "lbe_score solo_entry = Some example_score" "\<not> isl (aggregate_entries example_export_digests [solo_entry])"
  "project_pareto_front example_export_digests example_task [runner_up solo_entry, solo_entry] = Inr [solo_entry]"
  using solo_entry_computed by (auto simp: solo_entry_def split: sum.splits)

subsection \<open>What an audience is shown\<close>

lemma run_ended_last:
  assumes "replay_loop env es = Inr st" "e \<in> set (butlast es)"
  shows "run_ended_payload e = None"
proof (rule ccontr)
  assume "run_ended_payload e \<noteq> None"
  then obtain p where p: "evt_payload e = RunEnded p" by (auto simp: run_ended_payload_def split: EventPayload.splits)
  from assms(2) have "es = butlast es @ [last es]" by (cases es) auto
  with assms(1) obtain u where u: "replay_loop env (butlast es) = Inr u" "replay_event env u (last es) = Inr st"
    unfolding replay_loop_def by (metis fold_result_snoc_Inr)
  have "rps_terminal_reason u = Some (rep_reason p)" using recorded_end [OF u(1) assms(2) p] by blast
  with u(2) show False by (auto elim!: replay_event_E check_envelope_E)
qed

lemma visible_run_end_seen:
  assumes "replay_loop env es = Inr st"
  shows "visible_run_end es V = visible_run_end (filter (seen V) es) V"
proof (cases es rule: rev_cases)
  case (snoc before e)
  have before: "run_ended_payload f = None" if "f \<in> set before" for f
    using run_ended_last [OF assms, of f] that snoc by simp
  then have none: "List.find (\<lambda>e. run_ended_payload e \<noteq> None) (rev xs) = None" if "set xs \<subseteq> set before" for xs
    using that by (auto simp: find_None_iff)
  show ?thesis
    using none [of before] none [of "filter (seen V) before"] by (simp add: visible_run_end_def snoc rev_filter [symmetric])
qed simp

lemma visible_run_end_terminated:
  assumes "snapshot_of_events env es = Inr s" "visible_run_end es V = Some p"
  shows "rst_terminal_reason (psn_state s) \<noteq> None"
  using assms(1)
proof (rule snapshot_E)
  fix state st assume st: "replay_loop env es = Inr st" and s: "state = run_state_of env es st"
    "s = \<lparr>psn_header = env_header env, psn_task = env_task env, psn_events = es, psn_state = state\<rparr>"
  from assms(2) obtain e where "List.find (\<lambda>e. run_ended_payload e \<noteq> None) (rev es) = Some e" and p: "run_ended_payload e = Some p"
    by (auto simp: visible_run_end_def split: option.splits if_splits)
  then have "e \<in> set es" by (metis find_Some_iff nth_mem set_rev)
  moreover have "evt_payload e = RunEnded p" using p by (cases "evt_payload e") (simp_all add: run_ended_payload_def)
  ultimately show ?thesis using recorded_end [OF st] by (simp add: s run_state_of_def)
qed

text \<open>
  C23: what a participant cannot see of a run never influences the trajectory or the reward document that is exported for it:
  two accepted journals of one run that agree on the events a participant may see give the same trajectory and the same
  reward document.
\<close>

theorem trajectory_noninterference:
  assumes s: "snapshot_of_events env es = Inr s" and s': "snapshot_of_events env es' = Inr s'"
    and same: "filter (seen PARTICIPANT_EVENT_VISIBILITY) es = filter (seen PARTICIPANT_EVENT_VISIBILITY) es'"
  shows "project_atif dg s = project_atif dg s' \<and> (\<forall>h. project_harbor dg s = Inr h \<longleftrightarrow> project_harbor dg s' = Inr h)"
proof -
  obtain state st where st: "replay_loop env es = Inr st"
    and sn: "s = \<lparr>psn_header = env_header env, psn_task = env_task env, psn_events = es, psn_state = state\<rparr>"
    using s by (rule snapshot_E)
  obtain state' st' where st': "replay_loop env es' = Inr st'"
    and sn': "s' = \<lparr>psn_header = env_header env, psn_task = env_task env, psn_events = es', psn_state = state'\<rparr>"
    using s' by (rule snapshot_E)
  have view: "atif_view_of s = atif_view_of s'"
    using atif_steps_seen [OF s] atif_steps_seen [OF s'] same by (simp add: sn sn' atif_view_of_def)
  have "atif_steps s = atif_steps s'" using atif_steps_seen [OF s] atif_steps_seen [OF s'] same view by simp
  moreover have "psn_header s = psn_header s'" by (simp add: sn sn')
  then have "trajectory_agent dg s = trajectory_agent dg s'" by (simp only: trajectory_agent_def)
  ultimately have atif: "project_atif dg s = project_atif dg s'" by (simp add: project_atif_def sn sn')
  have visible: "visible_run_end es PARTICIPANT_EVENT_VISIBILITY = visible_run_end es' PARTICIPANT_EVENT_VISIBILITY"
    using visible_run_end_seen [OF st] visible_run_end_seen [OF st'] same by metis
  have harbor: "project_harbor dg x = Inr h \<longleftrightarrow> (\<exists>p t. visible_run_end xs PARTICIPANT_EVENT_VISIBILITY = Some p \<and> project_atif dg x = Inr t
      \<and> HarborTrialProjection_validate \<lparr>hbt_trajectory = t, hbt_reward = (if rep_reason p = Stop_VERIFIER_SUCCESS then 1 else 0)\<rparr> = Inr h)"
    if "snapshot_of_events env xs = Inr x" "psn_events x = xs" for x xs h
    using visible_run_end_terminated [OF that(1)] that(2)
    by (auto simp: project_harbor_def PARTICIPANT_EVENT_VISIBILITY_def split: option.splits)
  show ?thesis using atif visible harbor [OF s] harbor [OF s'] by (simp add: sn sn')
qed

lemma example_prefixes_computed:
  "(case (snapshot_of_events example_env (take 3 example_journal), snapshot_of_events example_env (take 4 example_journal)) of
     (Inr s, Inr s') \<Rightarrow> s \<noteq> s' | _ \<Rightarrow> False)
   \<and> filter (seen PARTICIPANT_EVENT_VISIBILITY) (take 3 example_journal) = filter (seen PARTICIPANT_EVENT_VISIBILITY) (take 4 example_journal)"
  by code_simp

theorem trajectory_noninterference_witness:
  "\<exists>s s'. snapshot_of_events example_env (take 3 example_journal) = Inr s
     \<and> snapshot_of_events example_env (take 4 example_journal) = Inr s' \<and> s \<noteq> s'
     \<and> project_atif example_export_digests s = project_atif example_export_digests s'"
  using example_prefixes_computed
    trajectory_noninterference [of example_env "take 3 example_journal" _ "take 4 example_journal" _ example_export_digests]
  by (auto split: sum.splits)

lemma course_seen:
  "course_tallies_of es = course_tallies_of (filter (seen COURSE_VISIBLE) es)"
  "\<forall>ids. visible_outcomes ids es = visible_outcomes ids (filter (seen COURSE_VISIBLE) es)"
  "course_artifacts es = course_artifacts (filter (seen COURSE_VISIBLE) es)"
  by (auto simp: course_tallies_of_def course_step_def intro!: fold_irrelevant)
    (auto simp: visible_outcomes_def course_artifacts_def Let_def intro!: map_filter_irrelevant split: EventPayload.split)

text \<open>
  What neither the participants nor the reviewers of a course may see never influences its report: two accepted journals of one
  run that agree on the events this audience may see give the same report, or the same refusal.
\<close>

lemma course_report_noninterference:
  assumes s: "snapshot_of_events env es = Inr s" and s': "snapshot_of_events env es' = Inr s'"
    and same: "filter (seen COURSE_VISIBLE) es = filter (seen COURSE_VISIBLE) es'"
  shows "project_course_report dg s session = project_course_report dg s' session"
proof -
  obtain state st where st: "replay_loop env es = Inr st"
    and sn: "s = \<lparr>psn_header = env_header env, psn_task = env_task env, psn_events = es, psn_state = state\<rparr>"
    using s by (rule snapshot_E)
  obtain state' st' where st': "replay_loop env es' = Inr st'"
    and sn': "s' = \<lparr>psn_header = env_header env, psn_task = env_task env, psn_events = es', psn_state = state'\<rparr>"
    using s' by (rule snapshot_E)
  note agree = visible_run_end_seen [OF st, of COURSE_VISIBLE] visible_run_end_seen [OF st', of COURSE_VISIBLE]
    course_seen [of es] course_seen [of es'] visible_candidate_events_seen [of es COURSE_VISIBLE] visible_candidate_events_seen [of es' COURSE_VISIBLE]
    visible_checkpoint_ids_seen [of es COURSE_VISIBLE] visible_checkpoint_ids_seen [of es' COURSE_VISIBLE]
  have facts: "visible_run_end es COURSE_VISIBLE = visible_run_end es' COURSE_VISIBLE"
    "course_tallies_of es = course_tallies_of es'" "\<forall>ids. visible_outcomes ids es = visible_outcomes ids es'"
    "course_artifacts es = course_artifacts es'" "visible_candidate_events es COURSE_VISIBLE = visible_candidate_events es' COURSE_VISIBLE"
    "visible_checkpoint_ids es COURSE_VISIBLE = visible_checkpoint_ids es' COURSE_VISIBLE"
    using agree same by metis+
  have run: "psn_header s = psn_header s'" "psn_events s = es" "psn_events s' = es'" by (simp_all add: sn sn')
  have kind: "participation_kind s = participation_kind s'" unfolding participation_kind_def run(1) ..
  show ?thesis
    unfolding project_course_report_def require_session_def Let_def run kind facts(1,2,4-) facts(3) [rule_format] ..
qed

subsection \<open>Rewards\<close>

text \<open>
  C27: a reward document is exported for a run exactly when the run has ended, the end is one a participant may see, and the model
  routes in the run binding have the form a trajectory demands, whatever the journal is; its reward is 1 when the run was
  ended by a verifier success and 0 otherwise. The error names which condition fails: a refusal for the first two, a
  validation error for a route of another form, which a run binding admits but resolution of an accepted session never
  produces.
\<close>

theorem harbor_reward_faithful:
  assumes "exportable dg env es" "snapshot_of_events env es = Inr s"
  shows "case rst_terminal_reason (psn_state s) of
      None \<Rightarrow> project_harbor dg s = Inl (Unavailable Not_terminated)
    | Some reason \<Rightarrow>
        if seen PARTICIPANT_EVENT_VISIBILITY (last es)
        then if model_routes_ok (env_binding env)
          then \<exists>h. project_harbor dg s = Inr h \<and> hbt_reward h = (if reason = Stop_VERIFIER_SUCCESS then 1 else 0)
          else project_harbor dg s = Inl (Invalid_export Export_range)
        else project_harbor dg s = Inl (Unavailable No_participant_outcome)"
  using assms(2)
proof (rule snapshot_E)
  fix state st assume state: "replay env es = Inr state"
    and s: "s = \<lparr>psn_header = env_header env, psn_task = env_task env, psn_events = es, psn_state = state\<rparr>"
  then have "psn_state s = state" by simp
  with project_harbor_Inr [OF assms state] show ?thesis by (cases "rst_terminal_reason state") simp_all
qed

theorem harbor_reward_faithful_witness:
  "\<exists>h. project_harbor example_export_digests solo_snapshot = Inr h \<and> hbt_reward h = 1"
proof -
  have "rst_terminal_reason (psn_state solo_snapshot) = Some Stop_VERIFIER_SUCCESS" by (simp add: solo_snapshot_def)
  moreover have "seen PARTICIPANT_EVENT_VISIBILITY (last solo_journal)"
    by (simp add: solo_journal_def example_event_def PARTICIPANT_EVENT_VISIBILITY_def)
  ultimately show ?thesis
    using harbor_reward_faithful [OF solo_exportable, of solo_snapshot] solo_computed by (simp add: solo_env_def)
qed

subsection \<open>Leaderboards\<close>

text \<open>A record that anyone may read is the source of a measurement.\<close>

definition public_source :: "RunEvent list \<Rightarrow> LeaderboardMeasurement \<Rightarrow> bool" where
  "public_source es m \<longleftrightarrow> (\<exists>e\<in>set es. evt_visibility e = Visibility_PUBLIC \<and> (\<exists>p. evt_payload e = ArtifactRecorded p
     \<and> art_logical_id (arp_record p) = lbm_source_artifact_id m \<and> blb_digest (art_blob (arp_record p)) = lbm_source_digest m
     \<and> art_visibility (arp_record p) = Visibility_PUBLIC \<and> art_sensitivity (arp_record p) = Sensitivity_PUBLIC
     \<and> art_redistribution (arp_record p) = Redistribution_ALLOWED))"

lemma public_measurement_artifacts_get:
  assumes "dict_get (public_measurement_artifacts es) k = Some r"
  shows "\<exists>e\<in>set es. evt_visibility e = Visibility_PUBLIC \<and> (\<exists>p. evt_payload e = ArtifactRecorded p \<and> arp_record p = r)
    \<and> art_logical_id r = k \<and> art_visibility r = Visibility_PUBLIC \<and> art_sensitivity r = Sensitivity_PUBLIC
    \<and> art_redistribution r = Redistribution_ALLOWED"
proof -
  let ?f = "\<lambda>e. case evt_payload e of ArtifactRecorded p \<Rightarrow>
       let r = arp_record p in
       if evt_visibility e = Visibility_PUBLIC \<and> art_artifact_class r = Artifact_MEASUREMENT
          \<and> art_visibility r = Visibility_PUBLIC \<and> art_sensitivity r = Sensitivity_PUBLIC
          \<and> art_redistribution r = Redistribution_ALLOWED then Some r else None
   | _ \<Rightarrow> None"
  from assms obtain e where "e \<in> set es" "?f e = Some r" "art_logical_id r = k"
    unfolding public_measurement_artifacts_def by (auto dest!: dict_get_dict_of_SomeD simp: set_map_filter)
  then show ?thesis by (intro bexI [of _ e]) (cases "evt_payload e"; simp add: Let_def split: if_splits)+
qed

lemma leaderboard_measurements_public:
  assumes "leaderboard_measurements t es (public_results c es) = Inr ms" "m \<in> set ms"
  shows "c = Some (lbm_candidate_id m) \<and> public_source es m"
proof -
  from map_result_set [OF assms(1) [unfolded leaderboard_measurements_def] assms(2)] obtain p evidence where
    p: "p \<in> set (public_results c es)" and m: "leaderboard_measurement (dict_of msp_measurement_id id (tsk_measurements t))
       (public_measurement_artifacts es) (ecp_candidate_id p) (sgr_stage_id (ecp_result p)) evidence = Inr m"
    by auto
  from m obtain source where source: "dict_get (public_measurement_artifacts es) (lbm_source_artifact_id m) = Some source"
    "blb_digest (art_blob source) = lbm_source_digest m" "lbm_candidate_id m = ecp_candidate_id p"
    by (auto simp: leaderboard_measurement_def required_public_provenance_def split: option.splits if_splits)
  have "public_source es m"
    using public_measurement_artifacts_get [OF source(1)] source(2) by (auto simp: public_source_def)
  moreover have "c = Some (ecp_candidate_id p)" using p by (rule public_results_recorded)
  ultimately show ?thesis using source(3) by simp
qed

text \<open>
  C22: an entry that may be ranked reports what the run recorded: the run has a successful candidate, its score is the score the
  evaluation rules give to the results recorded for exactly that candidate, no human took part, the run was not continued
  from another one, and every measurement shown belongs to that candidate and has a source that anyone may read.
\<close>

theorem leaderboard_entry_sound:
  assumes ok: "exportable xd env es" and s: "snapshot_of_events env es = Inr s"
    and entry: "project_leaderboard_entry xd s session = Inr entry" and eligible: "lbe_rank_eligible entry"
  shows "\<exists>c score. rst_successful_candidate_id (psn_state s) = Some c \<and> lbe_score entry = Some score
    \<and> build_candidate_score (env_task_digests env) (env_task env) (results_of c (rst_stage_results (psn_state s))) = Inr score
    \<and> (\<forall>a\<in>set (psn_actors s). \<not> is_human a) \<and> lin_parent_run_id (bnd_lineage (psn_binding s)) = None
    \<and> (\<forall>m\<in>set (lbe_measurements entry). lbm_candidate_id m = c \<and> public_source es m)"
proof -
  obtain state st where st: "replay_loop env es = Inr st" and state: "state = run_state_of env es st"
    and sn: "s = \<lparr>psn_header = env_header env, psn_task = env_task env, psn_events = es, psn_state = state\<rparr>"
    using s by (rule snapshot_E)
  have facts: "psn_events s = es" "psn_task s = env_task env" "rst_terminal_reason (psn_state s) = rps_terminal_reason st"
    by (simp_all add: sn state run_state_of_def)
  obtain reason p ms frozen where reason: "rps_terminal_reason st = Some reason"
    and p: "visible_run_end es {Visibility_PUBLIC} = Some p"
    and ms: "leaderboard_measurements (env_task env) es (public_results (rep_successful_candidate_id p) es) = Inr ms"
    and e: "entry = leaderboard_entry_of xd s reason p frozen ms"
    using project_leaderboard_entry_Inr [OF entry, unfolded facts] by metis
  from eligible obtain d where d: "public_scoring (rep_successful_candidate_id p) es = Some d" "sel_state (dec_eligibility d) = Scorer_READY"
    and success: "reason = Stop_VERIFIER_SUCCESS" and solo: "participation_kind s = Participation_AGENT"
      "lin_parent_run_id (bnd_lineage (psn_binding s)) = None"
    by (auto simp: e leaderboard_entry_of_def Let_def facts(1))
  obtain f q where f: "f \<in> set es" "evt_payload f = ScoringRecorded q" and c: "rep_successful_candidate_id p = Some (srp_candidate_id q)" and dq: "d = srp_decision q"
    using d(1) by (rule public_scoring_recorded)
  let ?c = "srp_candidate_id q"
  have "event_validate (env_digests env) f = Inr f" using ok f(1) by (simp add: exportable_def)
  with scoring_event_valid [OF this f(2)] d(2) dq obtain score where score: "dec_score d = Some score" by auto
  have inv: "evaluation_inv env st" using st by (rule replay_loop_invs)
  from evaluation_invD(6) [OF inv recorded_scoring [OF st f]] obtain rs where
    rs: "dict_get (rps_results st) ?c = Some rs" "validate_scoring_decision env rs d = Inr ()" by (auto simp: dq)
  have results: "results_of ?c (rps_stage_results st) = rs" using evaluation_invD(2) [OF inv rs(1)] by simp
  have "rps_successful_candidate st = Some ?c"
    using st reason
  proof (rule terminated_end [where V = "{Visibility_PUBLIC}"])
    fix e r assume "visible_run_end es {Visibility_PUBLIC} = (if seen {Visibility_PUBLIC} e then Some r else None)"
      "rep_reason r = reason" "rep_reason r = Stop_VERIFIER_SUCCESS \<Longrightarrow> rps_successful_candidate st = rep_successful_candidate_id r"
    then show ?thesis using p c success by (simp split: if_splits)
  qed
  moreover have "build_candidate_score (env_task_digests env) (env_task env) rs = Inr score"
    using validate_scoring_decision_D [OF rs(2)] score by simp
  moreover have "\<forall>a\<in>set (psn_actors s). \<not> is_human a"
    using solo(1) by (auto simp: participation_kind_def Let_def list_ex_iff split: if_splits)
  moreover have "lbe_score entry = Some score" "lbe_measurements entry = ms"
    using d(1) score by (simp_all add: e leaderboard_entry_of_def Let_def facts(1))
  moreover have "\<forall>m\<in>set ms. lbm_candidate_id m = ?c \<and> public_source es m"
    using leaderboard_measurements_public [OF ms] c by auto
  ultimately show ?thesis using results solo(2) by (simp add: sn state run_state_of_def)
qed

theorem leaderboard_entry_sound_witness:
  "build_candidate_score example_digests example_task (results_of ''c1'' (rst_stage_results example_run_state)) = Inr example_score"
proof -
  have "env_task_digests solo_env = example_digests" "env_task solo_env = example_task"
    by (simp_all add: solo_env_def example_env_def)
  moreover have "rst_successful_candidate_id (psn_state solo_snapshot) = Some ''c1''"
    "rst_stage_results (psn_state solo_snapshot) = rst_stage_results example_run_state" by (simp_all add: solo_snapshot_def)
  ultimately show ?thesis
    using leaderboard_entry_sound [OF solo_exportable _ solo_entry_projected(1,2)] solo_computed solo_entry_projected(3) by auto
qed

text \<open>A run as the leaderboard receives it: an accepted task and session and the snapshot of an accepted journal.\<close>

definition exported_run :: "export_digests \<Rightarrow> ProjectionSnapshot \<times> SessionSpec \<Rightarrow> bool" where
  "exported_run xd run \<longleftrightarrow> (\<exists>env es tdg raw raws. exportable xd env es \<and> TaskSpec_validate tdg raw = Inr (env_task env)
     \<and> SessionSpec_validate raws = Inr (snd run) \<and> snapshot_of_events env es = Inr (fst run))"

lemma leaderboard_entries:
  assumes "map_result (\<lambda>(s, session). project_leaderboard_entry xd s session) runs = Inr es"
  shows "length es = length runs \<and> (\<forall>e\<in>set es. lbe_partition_id e = exd_partition xd (lbe_partition e))"
proof -
  have "lbe_partition_id e = exd_partition xd (lbe_partition e)" if e: "e \<in> set es" for e
  proof -
    from map_result_set [OF assms e] obtain s session where "project_leaderboard_entry xd s session = Inr e" by auto
    then show ?thesis by (rule project_leaderboard_entry_Inr) (simp add: leaderboard_entry_of_def Let_def)
  qed
  then show ?thesis using map_result_length [OF assms] by simp
qed

text \<open>
  C26: for runs of accepted tasks under accepted sessions, nothing but a refusal leaves the leaderboard as long as the model routes in
  the run bindings have the form a leaderboard demands: no entry that is built fails the validators of its own models, no
  lookup fails, and neither does any aggregate. A run binding only bounds the length of a route, so the one other error is
  that of an actor whose route has another form; resolution of an accepted session never produces such a route.
\<close>

theorem leaderboard_only_unavailable:
  assumes "\<forall>run\<in>set runs. exported_run xd run"
  shows "raises_only (range Unavailable
      \<union> {e. e = Invalid_export Export_range \<and> (\<exists>run\<in>set runs. \<not> model_routes_ok (psn_binding (fst run)))})
    (aggregate_leaderboard xd runs)" (is "raises_only ?F _")
  unfolding aggregate_leaderboard_def
proof (rule raises_only_bind)
  show "raises_only ?F (map_result (\<lambda>(s, session). project_leaderboard_entry xd s session) runs)"
  proof (rule raises_only_map)
    fix run assume run: "run \<in> set runs"
    with assms have "raises_only (range Unavailable \<union> (if model_routes_ok (psn_binding (fst run)) then {} else {Invalid_export Export_range}))
        (project_leaderboard_entry xd (fst run) (snd run))"
      using project_leaderboard_entry_raises unfolding exported_run_def by blast
    then have "raises_only ?F (project_leaderboard_entry xd (fst run) (snd run))"
      by (rule raises_only_mono) (use run in auto)
    then show "raises_only ?F (case run of (s, session) \<Rightarrow> project_leaderboard_entry xd s session)" by (simp add: case_prod_beta)
  qed
  fix es assume "map_result (\<lambda>(s, session). project_leaderboard_entry xd s session) runs = Inr es"
  then have "only_unavailable (aggregate_entries xd es)"
    using leaderboard_entries by (intro aggregate_entries_raises) blast
  then show "raises_only ?F (aggregate_entries xd es)" by (rule raises_only_mono) auto
qed

lemma solo_exported: "exported_run example_export_digests (solo_snapshot, example_session)"
proof -
  have "env_task solo_env = example_task" by (simp add: solo_env_def example_env_def)
  then show ?thesis
    unfolding exported_run_def using solo_exportable solo_computed example_task_accepted example_session_accepted by (metis fst_conv snd_conv)
qed

theorem leaderboard_only_unavailable_witness:
  "raises_only (range Unavailable) (aggregate_leaderboard example_export_digests [(solo_snapshot, example_session)])"
proof -
  have "model_routes_ok (psn_binding solo_snapshot)" using solo_computed by (simp add: solo_snapshot_def solo_env_def)
  then show ?thesis
    using leaderboard_only_unavailable [of "[(solo_snapshot, example_session)]" example_export_digests] solo_exported by simp
qed

lemma sum_members:
  assumes "distinct ks" "lbe_partition_id ` set es \<subseteq> set ks"
  shows "(\<Sum>k\<leftarrow>ks. int (length (members es k))) = int (length es)"
proof -
  have "(\<Sum>k\<leftarrow>ks. int (length (members es k))) = int (\<Sum>k\<leftarrow>ks. length (members es k))" by (induction ks) simp_all
  with sum_groups [OF assms] show ?thesis by (simp add: members_def)
qed

text \<open>
  C25: an accepted leaderboard counts every run exactly once, in the aggregate of its own partition: the partitions are those of the
  entries, each once and in order; an aggregate names exactly the runs of its partition, as many as the declared trials,
  and counts their successes; it is eligible only when every run is agent-only, not continued, ended comparably, and
  eligible itself if it succeeded; and the runs of all aggregates add up to the runs given.
\<close>

theorem aggregate_partitions_runs:
  assumes "aggregate_leaderboard xd runs = Inr as"
  shows "\<exists>es. map_result (\<lambda>(s, session). project_leaderboard_entry xd s session) runs = Inr es \<and> distinct (map lbe_run_id es)
    \<and> sorted_wrt (<) (map lba_partition_id as) \<and> lba_partition_id ` set as = lbe_partition_id ` set es
    \<and> (\<forall>a\<in>set as. let group = filter (\<lambda>e. lbe_partition_id e = lba_partition_id a) es in
         lba_run_ids a = sort (map lbe_run_id group) \<and> int (length group) = lbp_trial_count (lba_partition a)
         \<and> lba_success_denominator a = int (length group) \<and> lba_success_numerator a = int (length (filter lbe_success group))
         \<and> (lba_rank_eligible a \<longleftrightarrow> (\<forall>e\<in>set group. lbc_participation (lbp_cohort (lbe_partition e)) = Participation_AGENT
              \<and> lin_parent_run_id (lbe_lineage e) = None \<and> (lbe_success e \<longrightarrow> lbe_rank_eligible e)
              \<and> lbe_terminal_reason e \<in> COMPARABLE_TRIAL_STOP_REASONS)))
    \<and> sum_list (map lba_success_denominator as) = int (length runs)"
proof -
  from assms obtain es where es: "map_result (\<lambda>(s, session). project_leaderboard_entry xd s session) runs = Inr es" "aggregate_entries xd es = Inr as"
    by (auto simp: aggregate_leaderboard_def)
  note agg = aggregate_entries_Inr [OF es(2)]
  have a: "\<exists>k\<in>lbe_partition_id ` set es. a = partition_aggregate es k" if "a \<in> set as" for a
    using agg that by blast
  have ids: "lba_partition_id ` set as = lbe_partition_id ` set es" using agg by (auto simp: partition_aggregate_def image_image)
  have "sum_list (map lba_success_denominator as) = (\<Sum>k\<leftarrow>map lba_partition_id as. int (length (members es k)))"
    using a by (intro arg_cong [where f = sum_list]) (fastforce simp: partition_aggregate_def)
  also have "\<dots> = int (length es)"
    using agg ids by (intro sum_members) (simp_all add: strict_sorted_iff)
  finally have "sum_list (map lba_success_denominator as) = int (length runs)" using leaderboard_entries [OF es(1)] by simp
  moreover have "let group = filter (\<lambda>e. lbe_partition_id e = lba_partition_id a) es in
         lba_run_ids a = sort (map lbe_run_id group) \<and> int (length group) = lbp_trial_count (lba_partition a)
         \<and> lba_success_denominator a = int (length group) \<and> lba_success_numerator a = int (length (filter lbe_success group))
         \<and> (lba_rank_eligible a \<longleftrightarrow> (\<forall>e\<in>set group. lbc_participation (lbp_cohort (lbe_partition e)) = Participation_AGENT
              \<and> lin_parent_run_id (lbe_lineage e) = None \<and> (lbe_success e \<longrightarrow> lbe_rank_eligible e)
              \<and> lbe_terminal_reason e \<in> COMPARABLE_TRIAL_STOP_REASONS))" if "a \<in> set as" for a
  proof -
    obtain k where k: "k \<in> lbe_partition_id ` set es" "a = partition_aggregate es k" using a [OF \<open>a \<in> set as\<close>] by blast
    have "int (length (members es k)) = lbp_trial_count (lbe_partition (hd (members es k)))" using agg k(1) by blast
    then show ?thesis by (simp add: k(2) partition_aggregate_def members_def Let_def list_all_iff disj_imp)
  qed
  ultimately show ?thesis using es(1) agg ids by blast
qed

theorem aggregate_partitions_runs_witness:
  "\<exists>as. aggregate_leaderboard example_export_digests [(solo_snapshot, example_session)] = Inr as
     \<and> sum_list (map lba_success_denominator as) = 1"
proof -
  obtain as where as: "aggregate_leaderboard example_export_digests [(solo_snapshot, example_session)] = Inr as"
    using solo_entry_projected(1,4) by (cases "aggregate_entries example_export_digests [solo_entry]") (simp_all add: aggregate_leaderboard_def)
  with aggregate_partitions_runs [OF as] show ?thesis by auto
qed

subsection \<open>Pareto fronts\<close>

text \<open>
  C24: the Pareto front of a partition is exactly the set of its eligible entries that no eligible entry dominates, in the order of
  their runs; every eligible entry is on the front or dominated by an entry of the front, so the front of a partition with
  an eligible entry is never empty; and the only error is that the front is unavailable, never a comparison that fails.
\<close>

theorem pareto_front_exact:
  assumes "TaskSpec_validate tdg raw = Inr t"
  shows "case project_pareto_front dg t es of
      Inl err \<Rightarrow> err \<in> range Unavailable
    | Inr front \<Rightarrow>
        front = sort_key lbe_run_id (filter (\<lambda>e. lbe_rank_eligible e
          \<and> (\<forall>f\<in>set es. lbe_rank_eligible f \<longrightarrow> pareto_dominates t (vector_of f) (vector_of e) = Inr False)) es)
        \<and> (\<forall>e\<in>set es. lbe_rank_eligible e \<longrightarrow>
             e \<in> set front \<or> (\<exists>f\<in>set front. pareto_dominates t (vector_of f) (vector_of e) = Inr True))"
proof (cases "project_pareto_front dg t es")
  case (Inl err)
  then show ?thesis using raises_onlyD [OF project_pareto_front_result(1) [OF assms]] by simp
next
  case (Inr front)
  note result = project_pareto_front_result(2) [OF assms Inr]
  have decided: "pareto_dominates t (vector_of f) (vector_of e) = Inr (entry_beats t f e)"
    if "e \<in> set es" "lbe_rank_eligible e" "f \<in> set es" "lbe_rank_eligible f" for e f
    using result that task_dominance [OF assms] by (simp add: entry_beats_def)
  have "entries.front t (filter lbe_rank_eligible es) = filter (\<lambda>e. lbe_rank_eligible e
      \<and> (\<forall>f\<in>set es. lbe_rank_eligible f \<longrightarrow> pareto_dominates t (vector_of f) (vector_of e) = Inr False)) es"
    unfolding entries.front_def filter_filter by (rule filter_cong) (use decided in auto)
  moreover have "e \<in> set front \<or> (\<exists>f\<in>set front. pareto_dominates t (vector_of f) (vector_of e) = Inr True)"
    if "e \<in> set es" "lbe_rank_eligible e" for e
  proof -
    have "set front = set (entries.front t (filter lbe_rank_eligible es))" using result by simp
    moreover have "e \<in> set (entries.front t (filter lbe_rank_eligible es))
        \<or> (\<exists>f\<in>set (entries.front t (filter lbe_rank_eligible es)). entry_beats t f e)"
      using that by (intro entries.front_covers) simp
    ultimately show ?thesis
      using entries.front_subset [of t "filter lbe_rank_eligible es"] decided [OF that] by fastforce
  qed
  ultimately show ?thesis using result Inr by simp
qed

theorem pareto_front_exact_witness:
  "pareto_dominates example_task (vector_of solo_entry) (vector_of (runner_up solo_entry)) = Inr True"
proof -
  have "lbe_score (runner_up solo_entry) \<noteq> lbe_score solo_entry" "lbe_rank_eligible (runner_up solo_entry)"
    using solo_entry_projected(2,3) by (simp_all add: runner_up_def example_score_def)
  moreover from this have "runner_up solo_entry \<noteq> solo_entry" by metis
  ultimately show ?thesis
    using pareto_front_exact [OF example_task_accepted, where dg = example_export_digests and es = "[runner_up solo_entry, solo_entry]"]
    by (simp add: solo_entry_projected(5))
qed

end
