(* ===== verification/HumanizeProperties.thy ===== *)
theory HumanizeProperties
  imports HumanizeFacts ExportProperties
begin

section \<open>Properties of the session and trace projection\<close>

text \<open>
  The projection of an accepted run is refused only for the reasons it names; otherwise its trace is the boundary
  events its audience may see, and its turns are the participant events among them.
\<close>

lemma bound_actors:
  assumes "RunBinding_validate raw = Inr b"
  shows "srb_actors (bnd_session b) \<noteq> []" "distinct (map run_actor_id (srb_actors (bnd_session b)))"
    "sorted (map run_actor_id (srb_actors (bnd_session b)))"
proof -
  from assms have "SessionRunBinding_validate (bnd_session raw) = Inr (bnd_session b)"
    by (auto simp: RunBinding_validate_def dest!: sym [of _ b] split: if_splits)
  then have "bnd_session b = (bnd_session raw)\<lparr>srb_actors := sort_key run_actor_id (srb_actors (bnd_session raw))\<rparr>"
    "srb_actors (bnd_session raw) \<noteq> []" "distinct (map run_actor_id (srb_actors (bnd_session raw)))"
    by (auto simp: SessionRunBinding_validate_Inr)
  then show "srb_actors (bnd_session b) \<noteq> []" "distinct (map run_actor_id (srb_actors (bnd_session b)))"
    "sorted (map run_actor_id (srb_actors (bnd_session b)))"
    by simp_all
qed

lemma recorded_attributed:
  fixes audience :: HumanizeTraceAudience
  assumes st: "replay_loop env es = Inr st" and ids: "turns_identified dg run es"
  defines "ps \<equiv> filter (\<lambda>e. evt_producer e = Producer_PARTICIPANT) (traced_events audience es)"
  shows "distinct (map evt_event_id (traced_events audience es))" "attributed dg run strategy ps"
    "actor_of ` set ps \<subseteq> env_actor_ids env"
proof -
  have "envelope_inv env st" using st by (rule replay_loop_invs)
  then have distinct: "distinct (map evt_event_id es)" using replay_loop_prefix [OF st] by (simp add: envelope_inv_def)
  then show "distinct (map evt_event_id (traced_events audience es))" by (simp add: traced_events_def distinct_map_filter)
  have mem: "e \<in> set es \<and> evt_producer e = Producer_PARTICIPANT" if "e \<in> set ps" for e
    using that by (simp add: ps_def traced_events_def)
  have "writer_inv env st" using st by (rule replay_loop_invs)
  then have actor: "evt_actor e \<noteq> None" if "e \<in> set ps" for e
    using mem [OF that] replay_loop_prefix [OF st] by (auto simp: writer_inv_def in_set_conv_nth)
  have inj: "e = f" if "e \<in> set es" "f \<in> set es" "evt_event_id e = evt_event_id f" for e f
    using distinct that by (auto simp: distinct_map inj_on_def)
  show "attributed dg run strategy ps"
    unfolding attributed_def
  proof (intro conjI ballI impI)
    have "distinct ps" using distinct by (simp add: ps_def traced_events_def distinct_map)
    moreover have "inj_on (turn_of dg run) (set ps)"
      using ids mem inj unfolding turns_identified_def inj_on_def by metis
    ultimately show "distinct (map (turn_of dg run) ps)" by (simp add: distinct_map)
    fix e f assume ef: "e \<in> set ps" "f \<in> set ps" and same: "session_of dg run strategy e = session_of dg run strategy f"
    then have "evt_actor e = evt_actor f \<and> (strategy = Strategy_FRESH \<longrightarrow> e = f)"
      using ids mem [OF ef(1)] mem [OF ef(2)] inj unfolding turns_identified_def by (cases strategy) blast+
    then show "actor_of e = actor_of f" "strategy = Strategy_FRESH \<Longrightarrow> turn_of dg run e = turn_of dg run f"
      by (simp_all add: actor_of_def)
  qed (use actor in simp)
  show "actor_of ` set ps \<subseteq> env_actor_ids env"
    using actor mem recorded_actor [OF st] by (fastforce simp: actor_of_def)
qed

lemma project_humanize_strategy:
  assumes s: "snapshot_of_events env es = Inr s" and b: "RunBinding_validate raw = Inr (env_binding env)"
    and ids: "turns_identified dg (hdr_run_id (env_header env)) es"
    and session: "hzd_session dg session = srb_session_spec_digest (bnd_session (env_binding env))"
    and strategy: "choose_strategy s (ssn_mode session) = Inr strategy"
  shows "\<exists>p. project_humanize dg s session audience = Inr p
    \<and> map hts_event_id (hcp_trace (hrp_cycle p)) = map evt_event_id (traced_events audience es)
    \<and> map htp_event_id (hcp_turns (hrp_cycle p))
      = map evt_event_id (filter (\<lambda>e. evt_producer e = Producer_PARTICIPANT) (traced_events audience es))"
proof -
  obtain state st where st: "replay_loop env es = Inr st"
    and sn: "s = \<lparr>psn_header = env_header env, psn_task = env_task env, psn_events = es, psn_state = state\<rparr>"
    using s by (rule snapshot_E)
  let ?run = "hdr_run_id (env_header env)" and ?traced = "traced_events audience es"
  let ?ps = "filter (\<lambda>e. evt_producer e = Producer_PARTICIPANT) ?traced"
  note recorded = recorded_attributed [OF st ids, where audience = audience]
  obtain turns where turns: "fold_result (turn_step dg ?run strategy) \<lparr>tns_turns = [], tns_turn_ids_by_session = [], tns_actor_by_session = []\<rparr> ?ps = Inr turns"
    "tns_turns turns = map (turn_at dg ?run strategy) (enumerate 0 ?ps)" "dict_wf (tns_turn_ids_by_session turns)"
    "\<forall>k. dict_get (tns_turn_ids_by_session turns) k = (let g = session_events dg ?run strategy ?ps k in
          if g = [] then None else Some (map (turn_of dg ?run) g))"
    "\<forall>k. dict_get (tns_actor_by_session turns) k = (let g = session_events dg ?run strategy ?ps k in
          if g = [] then None else Some (actor_of (last g)))"
    using turn_steps [of ?ps dg ?run strategy] recorded(2) unfolding attributed_def by blast
  let ?ks = "dict_keys (tns_turn_ids_by_session turns)"
  have ks: "distinct ?ks" "set ?ks = session_of dg ?run strategy ` set ?ps"
  proof -
    show "distinct ?ks" using turns(3) by (simp add: dict_wf_def dict_keys_def)
    have "k \<in> set ?ks \<longleftrightarrow> session_events dg ?run strategy ?ps k \<noteq> []" for k
      using turns(4) dict_get_None [of "tns_turn_ids_by_session turns" k] by (auto simp: Let_def split: if_splits)
    then show "set ?ks = session_of dg ?run strategy ` set ?ps" by (auto simp: session_events_def filter_empty_conv)
  qed
  have sessions: "map_result (logical_session strategy turns) (sort ?ks) = Inr (map (session_at dg ?run strategy ?ps) (sort ?ks))"
    by (rule map_result_total) (use logical_session_Inr [OF recorded(2)] turns(4,5) ks(2) in auto)
  define c where "c = \<lparr>hcp_run_id = ?run, hcp_task_family = trb_family (bnd_task (env_binding env)),
    hcp_session_spec_digest = hzd_session dg session, hcp_mode = mode_kind (ssn_mode session),
    hcp_session_strategy = strategy, hcp_parent_run_id = lin_parent_run_id (bnd_lineage (env_binding env)), hcp_audience = audience,
    hcp_agents = map (\<lambda>a. \<lparr>hag_actor_id = run_actor_id a, hag_kind = actor_kind a\<rparr>) (srb_actors (bnd_session (env_binding env))),
    hcp_sessions = map (session_at dg ?run strategy ?ps) (sort ?ks), hcp_turns = tns_turns turns,
    hcp_trace = map slice_at (enumerate 1 ?traced)\<rparr>"
  have "HumanizeCycleProjection_validate dg c = Inr c"
  proof (rule humanize_cycle_Inr [where traced = ?traced and ks = ?ks])
    show "cycle_of dg c ?ps"
      using recorded(2,3) turns(2) by (auto simp: cycle_of_def c_def env_actor_ids_def image_image)
    show "\<forall>e\<in>set ?traced. evt_visibility e \<in> trace_visibilities (hcp_audience c)" by (simp add: c_def traced_events_def)
    show "hcp_mode c = Kind_BENCHMARK \<and> hcp_session_strategy c = Strategy_FRESH \<and> hcp_parent_run_id c = None
      \<or> hcp_mode c = Kind_TRAINING \<and> hcp_session_strategy c = Strategy_STATEFUL"
      using strategy by (cases "ssn_mode session") (auto simp: choose_strategy_def refuse_humanize_def c_def sn split: if_splits)
  qed (use recorded(1) bound_actors [OF b] ks in \<open>simp_all add: c_def comp_def\<close>)
  then have "project_humanize dg s session audience = Inr \<lparr>hrp_projection_id = hzd_projection dg c, hrp_cycle = c\<rparr>"
    using session strategy turns(1) sessions trace_slices [of audience es]
    by (simp add: project_humanize_def refuse_humanize_def Let_def HumanizeRunProjection_validate_def reject_humanize_def c_def sn)
  moreover have "map hts_event_id (hcp_trace c) = map evt_event_id ?traced" "map htp_event_id (hcp_turns c) = map evt_event_id ?ps"
    by (simp_all add: c_def turns(2) slice_at_def turn_at_def comp_def enumerate_map)
  ultimately show ?thesis by simp
qed

text \<open>
  C28: for an accepted run whose digests do not collide, the session and trace projection is refused exactly for a foreign session, a
  course, or a benchmark run that continues another one; otherwise it exists, so the cycle it builds always passes its own
  validator, its trace is the sequence of boundary events the audience may see, and its turns are the participant events
  of that trace, in order.
\<close>

theorem humanize_projection_exact:
  assumes "snapshot_of_events env es = Inr s" "RunBinding_validate raw = Inr (env_binding env)"
    and "turns_identified dg (hdr_run_id (env_header env)) es"
  shows "if hzd_session dg session \<noteq> srb_session_spec_digest (bnd_session (env_binding env))
       then project_humanize dg s session audience = Inl (Humanize_unavailable Humanize_session_differs)
     else if mode_kind (ssn_mode session) = Kind_COURSE
       then project_humanize dg s session audience = Inl (Humanize_unavailable Humanize_mode)
     else if mode_kind (ssn_mode session) = Kind_BENCHMARK \<and> bnd_lineage (env_binding env)
         \<noteq> \<lparr>lin_parent_run_id = None, lin_parent_checkpoint_id = None, lin_parent_candidate_id = None\<rparr>
       then project_humanize dg s session audience = Inl (Humanize_unavailable Humanize_lineage)
     else \<exists>p. project_humanize dg s session audience = Inr p
       \<and> map hts_event_id (hcp_trace (hrp_cycle p)) = map evt_event_id (traced_events audience es)
       \<and> map htp_event_id (hcp_turns (hrp_cycle p))
         = map evt_event_id (filter (\<lambda>e. evt_producer e = Producer_PARTICIPANT) (traced_events audience es))"
proof -
  have header: "psn_header s = env_header env" using assms(1) by (rule snapshot_E) simp
  show ?thesis
  proof (cases "hzd_session dg session = srb_session_spec_digest (bnd_session (env_binding env))")
    case True
    show ?thesis
    proof (cases "choose_strategy s (ssn_mode session)")
      case (Inl e)
      then have "project_humanize dg s session audience = Inl e" using True by (simp add: project_humanize_def refuse_humanize_def header)
      with True Inl show ?thesis by (cases "ssn_mode session") (auto simp: choose_strategy_def refuse_humanize_def header split: if_splits)
    next
      case (Inr strategy)
      from project_humanize_strategy [OF assms True Inr] True Inr show ?thesis
        by (cases "ssn_mode session") (auto simp: choose_strategy_def refuse_humanize_def header split: if_splits)
    qed
  qed (simp add: project_humanize_def refuse_humanize_def header)
qed

definition example_humanize_digests :: humanize_digests where
  "example_humanize_digests = \<lparr>hzd_session = (\<lambda>_. ''sha256:session''), hzd_turn = (\<lambda>_ e. e),
     hzd_logical_session = (\<lambda>_ actor _ turn. case turn of None \<Rightarrow> actor | Some t \<Rightarrow> t), hzd_projection = (\<lambda>_. ''sha256:p'')\<rparr>"

theorem humanize_projection_exact_witness:
  "\<exists>p. project_humanize example_humanize_digests solo_snapshot example_session Audience_PARTICIPANT = Inr p
     \<and> map htp_event_id (hcp_turns (hrp_cycle p)) = [''e'']"
proof -
  have ids: "turns_identified example_humanize_digests (hdr_run_id (env_header solo_env)) solo_journal"
    by (auto simp: turns_identified_def solo_journal_def example_event_def example_evaluation_def)
  have binding: "env_binding solo_env = solo_binding" by (simp add: solo_env_def)
  have facts: "hzd_session example_humanize_digests example_session = srb_session_spec_digest (bnd_session solo_binding)"
    "bnd_lineage solo_binding = \<lparr>lin_parent_run_id = None, lin_parent_checkpoint_id = None, lin_parent_candidate_id = None\<rparr>"
    by (simp_all add: example_humanize_digests_def solo_binding_def example_binding_def)
  have "map evt_event_id (filter (\<lambda>e. evt_producer e = Producer_PARTICIPANT) (traced_events Audience_PARTICIPANT solo_journal)) = [''e'']"
    by (simp add: traced_events_def solo_journal_def example_event_def example_evaluation_def event_kind_def TRACE_EVENT_KINDS_def
        trace_visibilities_def PARTICIPANT_EVENT_VISIBILITY_def)
  with humanize_projection_exact [of solo_env solo_journal solo_snapshot solo_binding example_humanize_digests example_session Audience_PARTICIPANT]
    ids facts solo_computed show ?thesis
    unfolding binding by (auto simp: example_session_def)
qed

end
