(* ===== verification/Spec2Isabelle.thy ===== *)
theory Spec2Isabelle
  imports JournalProperties BudgetProperties CampaignJournalProperties CampaignRunnerProperties ResolutionProperties HumanizeProperties
begin

section \<open>EdaGym: the verification development\<close>

text \<open>
  EdaGym evaluates participants (humans, agents, or both) on hardware-design tasks. This development
  models the part of it that decides: what a specification must satisfy, what a run may record, what a
  recorded run means, who may spend what, and what the outside world is shown. All source paths are
  below \<open>src/edagym\<close>.

  \<^bold>\<open>The program.\<close> A task, an environment, a release and a session are frozen specifications (\<open>specs/\<close>),
  validated when they are read. \<open>resolution.py\<close> composes them into one run binding and assigns a tool
  driver to every evaluation stage. A run appends events to a hash-chained journal (\<open>run/journal.py\<close>,
  event classes in \<open>run/model.py\<close>); \<open>replay\<close> is the only reader that decides whether a journal is legal
  and what state it denotes. During replay \<open>evaluation/promotion.py\<close> decides which stages may run and
  whether the hard gates succeed, and \<open>evaluation/scoring.py\<close> what the score is. A campaign
  (\<open>providers/campaign*.py\<close>) is a frozen schedule of trials with hard budgets: runners reserve, dispatch
  and settle provider attempts against a second journal, from which its accounting and its report are
  replayed; \<open>providers/budget.py\<close> is the in-memory ledger used outside of campaigns. \<open>projections/\<close>
  derives from a replayed run what participants, courses and leaderboards are shown.

  \<^bold>\<open>How code is modelled.\<close> A pydantic class is a record (a tagged union a datatype) together with a
  function \<open>X_validate\<close>: the fields as given in, the normalised object or the error out, tests in the
  order in which they run. A function that may raise is a function into a sum, \<open>Inl\<close> the exception, with
  one constructor per \<open>raise\<close> and further ones for a failed lookup, an empty \<open>next\<close> and the like, so
  that their absence is a theorem and not an assumption of the model. A dictionary is an association
  list in insertion order, a \<open>for\<close> loop is \<open>fold_result\<close>, \<open>check_each\<close> or \<open>map_result\<close> of \<open>Prelude\<close>, and
  a class with mutable state is a record that its methods return updated. A file is its content, a list
  of bytes. Python integers are unbounded, so they are \<open>int\<close>, with the portable range written out where
  the code tests it; \<open>Fraction\<close> and the values of \<open>Decimal\<close> are rationals, justified by \<open>Decimals\<close>.

  \<^bold>\<open>Parameters.\<close> What is not code of the program is an argument: SHA-256 and the canonical encoder as
  the records of digest functions \<open>task_digests\<close>, \<open>run_digests\<close>, \<open>campaign_digests\<close>, \<open>record_digests\<close>,
  \<open>resolution_digests\<close>, \<open>export_digests\<close> and \<open>humanize_digests\<close>; encoder and parser of the journal lines
  as \<open>codec\<close>s; random identifiers as the functions and values the operations draw. The digests of
  \<open>resolution_digests\<close> are partial, because the encoder rejects integers of more than 53 bits and resolution
  is where specifications that may hold them are encoded for a run; the other digest functions are total, so
  the encoder's own error is not among the errors of the components that use them. Theorems that need
  more name it: lines that are read back and contain no newline (\<open>encodable\<close>, \<open>campaign_encodable\<close>),
  collision freedom (\<open>collision_free\<close>, \<open>turns_identified\<close>), distinct random identifiers (\<open>fresh_uuids\<close>,
  \<open>drawn_ids\<close>). Their witnesses instantiate them with concrete functions.

  \<^bold>\<open>Theories, in the order of the program.\<close>
  \<^item> \<open>Prelude\<close>: raising computations, dictionaries, and the locales of journal loops. \<open>Exceptions\<close>: which
    errors a computation raises. \<open>LineFiles\<close>: files of lines with a torn tail, and the locale of a
    decoder that reads them.
  \<^item> \<open>Decimals\<close>, \<open>Canonical\<close>: \<open>canonical.py\<close> and \<open>specs/common.py\<close>; normal forms, rendering and reading
    of decimals.
  \<^item> \<open>TaskInterfaces\<close>, \<open>TaskModel\<close> (\<open>specs/task.py\<close>); \<open>TaskGraph\<close>, \<open>TaskGuarantees\<close>: the validator
    rejects exactly the cyclic graphs, never fails on a lookup, and hides the qualification material.
    \<open>SessionSpec\<close>: validation accepts exactly the sessions its policy table admits. \<open>OperationSpec\<close>, \<open>EnvironmentSpec\<close>, \<open>ReleaseSpec\<close>: the other files of \<open>specs/\<close>.
  \<^item> \<open>Resolution\<close> (\<open>resolution.py\<close>); \<open>ResolutionFacts\<close>, \<open>ResolutionProperties\<close>: it raises nothing but its
    own errors, the encoder's, and two refusals of the run binding that are characterised; the plan is
    complete, releases leak nothing, participant execution is isolated.
  \<^item> \<open>EvaluationModel\<close>, \<open>Promotion\<close>, \<open>Scoring\<close> (\<open>evaluation/\<close>); \<open>StageGraph\<close>, \<open>PromotionFacts\<close>,
    \<open>PromotionProperties\<close>, \<open>ScoringFacts\<close>, \<open>ScoringProperties\<close>: each function equals a declarative
    specification over the results, pending gates always have a ready stage, a ready snapshot always has
    a score.
  \<^item> \<open>RunModel\<close>, \<open>RunRecords\<close> (\<open>run/model.py\<close>), \<open>Projections\<close>, \<open>Replay\<close> (the readers of
    \<open>run/journal.py\<close>); \<open>ReplayFacts\<close>, \<open>ReplayInvariants\<close>, \<open>ReplayProperties\<close>: what every accepted
    journal satisfies.
  \<^item> \<open>JournalStore\<close> (the operations of \<open>RunJournal\<close> on files); \<open>JournalFacts\<close>, \<open>JournalProperties\<close>: an
    append implements an append on event lists, survives torn writes and crashes, and tampering is
    visible.
  \<^item> \<open>Budget\<close> (\<open>providers/budget.py\<close>); \<open>BudgetFacts\<close>, \<open>BudgetProperties\<close>: every interleaving of its
    critical sections refines a history of reservations and stays within the limits.
  \<^item> \<open>Campaign\<close>, \<open>CampaignSchedule\<close>, \<open>CampaignEvents\<close>, \<open>CampaignReplay\<close>, \<open>CampaignReport\<close>,
    \<open>CampaignJournal\<close>, \<open>CampaignRunner\<close>, \<open>CampaignHandles\<close> (\<open>providers/campaign*.py\<close>,
    \<open>providers/provider_budget.py\<close>); \<open>CampaignScheduleFacts\<close>, \<open>CampaignReplayFacts\<close>,
    \<open>CampaignInvariants\<close>, \<open>CampaignReportFacts\<close>, \<open>CampaignReportTotality\<close>, \<open>CampaignJournalFacts\<close>,
    \<open>CampaignRunnerFacts\<close>, \<open>CampaignSystem\<close>, \<open>CampaignRecoveryFacts\<close>, \<open>CampaignStopFacts\<close> and the
    theories named \<open>*Properties\<close>: budgets, conservation, retries, crash recovery and reports, for any
    number of runners over one journal.
  \<^item> \<open>ExportModel\<close>, \<open>ExportTrajectory\<close>, \<open>ExportReports\<close>, \<open>ExportHumanize\<close> (\<open>projections/\<close>);
    \<open>ExportFacts\<close>, \<open>LeaderboardFacts\<close>, \<open>FrontFacts\<close>, \<open>HumanizeFacts\<close>, \<open>ExportProperties\<close>,
    \<open>HumanizeProperties\<close>: an audience learns nothing it may not see, what is ranked is what was
    recorded, and every document built of a run with legal model routes passes its own validator.

  \<^bold>\<open>Interfaces.\<close> \<open>projection\<close>, \<open>invariant_projection\<close>, \<open>simulation\<close> (\<open>Prelude\<close>) and \<open>guarded_projection\<close>
  (\<open>CampaignReplayFacts\<close>) are the contracts of loops over journals; they are interpreted on the replay
  loops, once per invariant. \<open>line_decoder\<close> is the contract of a file of hash-chained lines, interpreted
  on the run journal and on the campaign journal. \<open>simulated_actions\<close> is the contract of interleaved
  critical sections, interpreted on the budget ledger; \<open>campaign_factory\<close> that of a transaction's
  payload, interpreted on every operation of a runner; \<open>dominance\<close> that of the order behind a Pareto
  front, interpreted on the scores of a task and on leaderboard entries.

  \<^bold>\<open>Composition.\<close> Replay calls promotion and scoring, so a verifier success is sound down to the results
  of every hard gate, and a ranked leaderboard entry shows the score of exactly those results. A
  transaction on a campaign file refines the transition on records, against which every interleaving of
  runners is proved safe, and from every record they leave behind the campaign can be recovered, stopped
  and, as long as its totals are portable, reported. A resolved run is isolated, and its release leaks nothing, because of what the task, the
  environment, the release and the operations were validated for.

  \<^bold>\<open>Bounds and fuel.\<close> One recursion has fuel, the nested function \<open>visit\<close> of the task validator, with
  the number of stages plus one; that this is always enough is proved in \<open>TaskGraph\<close> and
  \<open>TaskGuarantees\<close>. Every other function is total by structural recursion or by a measure: the worklists
  of the stage graph shrink the set of unvisited stages, and Python's own \<open>while\<close> loops over a queue are
  such recursions. Concurrency is a list of actions: each action is one critical section of the code (a
  method under its lock, a transaction under the exclusive file lock), and a theorem about every list is
  a theorem about every interleaving.

  \<^bold>\<open>Not modelled.\<close> Locks, file descriptors, permissions, \<open>fsync\<close> and encryption: an operation under an
  exclusive lock is one step, and a crash leaves a prefix of the bytes it was writing. The artifact
  store, checkpoints, garbage collection and materialisation (\<open>run/\<close>) are file-system effects around the
  modelled journal. Orchestrator, executors, drivers, provider transport and authoring drive containers,
  schedulers, EDA tools and HTTP; the decisions they delegate are modelled, their effects are not.
  \<open>runtime/budget.py\<close> counts floating-point seconds of a monotonic clock. Release commands, repository
  policy, schemas and the command line gather files and print. The RFC 8785 encoder, SHA-256 and the
  JSON and YAML parsers are parameters or left out; the patterns of identifiers, digests and seeds that
  pydantic checks before a validator runs are stated in \<open>Canonical\<close> and \<open>OperationSpec\<close>, and repeated only where
  a raw string enters (the trial key of a run, request keys, labels a provider reports) or where two models
  of one value differ (the model route, stated in \<open>SessionSpec\<close> and checked by sessions, leaderboards and
  trajectories, but only bounded in length by a run binding); exponent limits of \<open>Decimal\<close> contexts are not modelled.

  \<^bold>\<open>What modelling showed.\<close> A retryable provider failure can never be retried through the campaign
  runner; two outputs of a participant operation may share a path (\<open>shared_output_path_accepted\<close>); a
  relative path may be the root directory itself; a journal whose lines end in carriage returns
  decodes; a run binding admits model routes that its exports reject; a run directory with an oversized
  header is created and then never opens; and a campaign whose overruns pass 53 bits replays but has no report.
\<close>

end
